(* ===== verification/Kernel_Prelude.thy ===== *)
theory Kernel_Prelude
  imports Main "HOL-Library.Word"
begin

text \<open>
  Shared vocabulary of the development.

  The kernel is C code with global state, early returns and calls to \<open>panic\<close>. This theory
  fixes how that is rendered:
  \<^item> \<open>unsigned long\<close> is \<open>u64\<close>, \<open>unsigned int\<close> is \<open>u32\<close>; a C \<open>int\<close> is an
    \<open>int\<close>, and \<open>c_int\<close> is the conversion to 32 bits where the source converts;
  \<^item> a pointer is an address of 64 bits, \<open>NULL\<close> is 0;
  \<^item> a call either returns, leaves the kernel through \<open>iretq\<close>, stops the machine in
    \<open>panic\<close>, or does something undefined in C (a NULL dereference, an index out of range):
    these are the four constructors of \<open>res\<close>;
  \<^item> \<open>foldR\<close> is a \<open>for\<close> loop whose body may stop in any of these ways, \<open>foldA\<close> one that
    also updates a local variable.
  The lemmas on linked chains at the end are used by the two round builders of the scheduler.
\<close>

unbundle bit_operations_syntax

section \<open>Machine types\<close>

type_synonym u8 = "8 word"
type_synonym u16 = "16 word"
type_synonym u32 = "32 word"
type_synonym u64 = "64 word"
type_synonym ptr = u64

abbreviation (input) NULL :: ptr where "NULL \<equiv> 0"

text \<open>The C constants \<open>TRUE\<close> and \<open>FALSE\<close> (ktypes.h); flags are C \<open>int\<close>s.\<close>

abbreviation (input) TRUE :: int where "TRUE \<equiv> 1"
abbreviation (input) FALSE :: int where "FALSE \<equiv> 0"

text \<open>Conversion of a value to a 32 bit two's complement \<open>int\<close>.\<close>

definition c_int :: "int \<Rightarrow> int" where
  "c_int x = signed_take_bit 31 x"

named_theorems kernel_frame \<open>what an operation leaves unchanged\<close>
named_theorems kernel_inv \<open>preservation of the kernel invariants\<close>

section \<open>Outcomes\<close>

datatype ('s, 'a) res = Ok 'a 's | Iretq 's | Panic string | Fault string

primrec bindR :: "('s, 'a) res \<Rightarrow> ('a \<Rightarrow> 's \<Rightarrow> ('s, 'b) res) \<Rightarrow> ('s, 'b) res" where
  "bindR (Ok a s) f = f a s"
| "bindR (Iretq s) f = Iretq s"
| "bindR (Panic m) f = Panic m"
| "bindR (Fault m) f = Fault m"

lemma bindR_OkE:
  assumes "bindR r f = Ok b s'"
  obtains a s where "r = Ok a s" and "f a s = Ok b s'"
  using assms by (cases r) auto

lemma bindR_eq_Ok: "bindR r f = Ok b s' \<longleftrightarrow> (\<exists>a s. r = Ok a s \<and> f a s = Ok b s')"
  by (cases r) auto

lemma bindR_assoc: "bindR (bindR r f) g = bindR r (\<lambda>a s. bindR (f a s) g)"
  by (cases r) simp_all

section \<open>Loops\<close>

primrec foldR :: "('x \<Rightarrow> 's \<Rightarrow> ('s, unit) res) \<Rightarrow> 'x list \<Rightarrow> 's \<Rightarrow> ('s, unit) res" where
  "foldR f [] s = Ok () s"
| "foldR f (x # xs) s = bindR (f x s) (\<lambda>_ s'. foldR f xs s')"

lemma foldR_append: "foldR f (xs @ ys) s = bindR (foldR f xs s) (\<lambda>_ s'. foldR f ys s')"
  by (induction xs arbitrary: s) (simp_all add: bindR_assoc)

text \<open>
  The loop rule: an invariant indexed by the part of the list already visited. Its premise asks
  the body to return, so its conclusion says that the loop returns.
\<close>

lemma foldR_prefix:
  assumes base: "P [] s"
    and step: "\<And>ys x zs t. xs = ys @ x # zs \<Longrightarrow> P ys t \<Longrightarrow> \<exists>t'. f x t = Ok () t' \<and> P (ys @ [x]) t'"
  shows "\<exists>s'. foldR f xs s = Ok () s' \<and> P xs s'"
proof -
  have "\<exists>s'. foldR f ys s = Ok () s' \<and> P ys s'" if "xs = ys @ zs" for ys zs
    using that
  proof (induction ys arbitrary: zs rule: rev_induct)
    case Nil
    with base show ?case by simp
  next
    case (snoc y ys)
    then obtain t where "foldR f ys s = Ok () t" and "P ys t" by auto
    moreover from step snoc.prems this(2) obtain t' where "f y t = Ok () t'" and "P (ys @ [y]) t'"
      by force
    ultimately show ?case by (simp add: foldR_append)
  qed
  then show ?thesis by simp
qed

text \<open>A loop that also carries a local variable.\<close>

primrec foldA :: "('x \<Rightarrow> 'a \<Rightarrow> 's \<Rightarrow> ('s, 'a) res) \<Rightarrow> 'x list \<Rightarrow> 'a \<Rightarrow> 's \<Rightarrow> ('s, 'a) res" where
  "foldA f [] a s = Ok a s"
| "foldA f (x # xs) a s = bindR (f x a s) (\<lambda>a' s'. foldA f xs a' s')"

lemma foldA_append: "foldA f (xs @ ys) a s = bindR (foldA f xs a s) (\<lambda>a' s'. foldA f ys a' s')"
  by (induction xs arbitrary: a s) (simp_all add: bindR_assoc)

lemma foldA_prefix:
  assumes base: "P [] a s"
    and step: "\<And>ys x zs b t. xs = ys @ x # zs \<Longrightarrow> P ys b t \<Longrightarrow> \<exists>b' t'. f x b t = Ok b' t' \<and> P (ys @ [x]) b' t'"
  shows "\<exists>a' s'. foldA f xs a s = Ok a' s' \<and> P xs a' s'"
proof -
  have "\<exists>a' s'. foldA f ys a s = Ok a' s' \<and> P ys a' s'" if "xs = ys @ zs" for ys zs
    using that
  proof (induction ys arbitrary: zs rule: rev_induct)
    case Nil
    with base show ?case by simp
  next
    case (snoc y ys)
    then obtain b t where "foldA f ys a s = Ok b t" and "P ys b t" by auto
    moreover from step snoc.prems this(2) obtain b' t' where "f y b t = Ok b' t'" and "P (ys @ [y]) b' t'"
      by force
    ultimately show ?case by (simp add: foldA_append)
  qed
  then show ?thesis by simp
qed

lemma fold_prefix:
  assumes base: "P [] s"
    and step: "\<And>ys x zs t. xs = ys @ x # zs \<Longrightarrow> P ys t \<Longrightarrow> P (ys @ [x]) (f x t)"
  shows "P xs (fold f xs s)"
proof -
  have "P ys (fold f ys s)" if "xs = ys @ zs" for ys zs
    using that by (induction ys arbitrary: zs rule: rev_induct) (auto intro: base step)
  then show ?thesis by simp
qed

lemma fold_inv:
  assumes "P s" and "\<And>x t. x \<in> set xs \<Longrightarrow> P t \<Longrightarrow> P (f x t)"
  shows "P (fold f xs s)"
  by (rule fold_prefix [where P = "\<lambda>_. P"]) (auto simp: assms)

lemma foldR_inv_Ok:
  assumes "foldR f xs s = Ok () s'" and "P s"
    and "\<And>x t t'. x \<in> set xs \<Longrightarrow> P t \<Longrightarrow> f x t = Ok () t' \<Longrightarrow> P t'"
  shows "P s'"
  using assms
proof (induction xs arbitrary: s)
  case (Cons x xs)
  from Cons.prems(1) obtain t where "f x s = Ok () t" and "foldR f xs t = Ok () s'"
    by (auto elim!: bindR_OkE)
  then show ?case using Cons.IH [of t] Cons.prems(2,3) by auto
qed simp

section \<open>Linked chains\<close>

text \<open>
  \<open>chain nx p xs\<close>: following the links \<open>nx\<close> from \<open>p\<close> visits exactly the cells
  \<open>xs\<close> and ends in NULL. \<open>links nx xs\<close>: each cell of \<open>xs\<close> points to the next one,
  nothing is said about the link of the last one.
\<close>

primrec chain :: "(ptr \<Rightarrow> ptr) \<Rightarrow> ptr \<Rightarrow> ptr list \<Rightarrow> bool" where
  "chain nx p [] \<longleftrightarrow> p = NULL"
| "chain nx p (x # xs) \<longleftrightarrow> p = x \<and> x \<noteq> NULL \<and> chain nx (nx x) xs"

fun links :: "(ptr \<Rightarrow> ptr) \<Rightarrow> ptr list \<Rightarrow> bool" where
  "links nx (x # y # zs) \<longleftrightarrow> nx x = y \<and> links nx (y # zs)"
| "links nx _ \<longleftrightarrow> True"

lemma links_cong: "(\<And>x. x \<in> set (butlast xs) \<Longrightarrow> nx x = nx' x) \<Longrightarrow> links nx xs = links nx' xs"
  by (induction nx xs rule: links.induct) auto

lemma links_snoc: "xs \<noteq> [] \<Longrightarrow> links nx (xs @ [y]) \<longleftrightarrow> links nx xs \<and> nx (last xs) = y"
  by (induction nx xs rule: links.induct) auto

lemma links_upd_last:
  assumes "links nx xs" and "distinct xs" and "xs \<noteq> []"
  shows "links (nx(last xs := y)) (xs @ [y])"
proof -
  have "last xs \<notin> set (butlast xs)"
    using assms(2,3) by (metis append_butlast_last_id distinct.simps(2) distinct_rev rev.simps(2)
        rev_rev_ident set_rev)
  then have "links (nx(last xs := y)) xs = links nx xs"
    by (intro links_cong) auto
  with assms show ?thesis by (simp add: links_snoc)
qed

lemma chain_links:
  "xs \<noteq> [] \<Longrightarrow> chain nx p xs \<longleftrightarrow> p = hd xs \<and> NULL \<notin> set xs \<and> links nx xs \<and> nx (last xs) = NULL"
  by (induction xs arbitrary: p rule: induct_list012) auto

lemma chain_unique: "chain nx p xs \<Longrightarrow> chain nx p ys \<Longrightarrow> xs = ys"
proof (induction xs arbitrary: p ys)
  case Nil
  then show ?case by (cases ys) auto
next
  case (Cons x xs)
  then show ?case by (cases ys) auto
qed

end
