(* ===== verification/Thread_Model.thy ===== *)
theory Thread_Model
  imports Kernel_Prelude
begin

text \<open>
  The data of the thread core of the kernel (the \<open>intake\<close> directory): the structures of
  \<open>thread.h\<close>, \<open>ipc.h\<close>, \<open>te.h\<close>, \<open>sched.h\<close>, \<open>dispatch.h\<close> and
  \<open>x64cont.h\<close>, and the global variables the modelled files share, as one record
  \<open>kstate\<close>. Thread, message and process objects live in three heaps, because the lists of the
  kernel hold pointers and several lists point to the same object. Fields that no modelled
  function reads or writes are left out of the records.
\<close>

section \<open>Constants\<close>

definition THREAD_COUNT_MAX :: int where "THREAD_COUNT_MAX = 1024"
definition PROCESS_COUNT_MAX :: int where "PROCESS_COUNT_MAX = 1024"
definition MSG_QUEUE_MAX :: int where "MSG_QUEUE_MAX = 64"
definition SCHEQ_QUEUE_COUNT_MAX :: int where "SCHEQ_QUEUE_COUNT_MAX = 7"

abbreviation (input) INIT_TID :: int where "INIT_TID \<equiv> 0"
abbreviation (input) HARDWARE_TID :: int where "HARDWARE_TID \<equiv> 99"
abbreviation (input) JIFFY_FREQ :: u64 where "JIFFY_FREQ \<equiv> 1000"

abbreviation (input) PRIORITY_MIN :: u64 where "PRIORITY_MIN \<equiv> 1"
abbreviation (input) PRIORITY_SYSTEM_THRESHOLD :: u64 where "PRIORITY_SYSTEM_THRESHOLD \<equiv> 4"
abbreviation (input) PRIORITY_MAX :: u64 where "PRIORITY_MAX \<equiv> 6"

text \<open>quantum.h with \<open>CONFIG_QUANTUM_MULTIPLIER\<close> = 1 (config.h).\<close>

abbreviation (input) QUANTUM_NORMAL_THRESHOLD :: u64 where "QUANTUM_NORMAL_THRESHOLD \<equiv> 1"
abbreviation (input) QUANTUM_NORMAL_BALANCED :: u64 where "QUANTUM_NORMAL_BALANCED \<equiv> 2"
abbreviation (input) QUANTUM_SYSTEM_TIME_CRITICAL :: u64 where "QUANTUM_SYSTEM_TIME_CRITICAL \<equiv> 6"
abbreviation (input) QUANTUM_MIN :: u64 where "QUANTUM_MIN \<equiv> 1"
abbreviation (input) QUANTUM_MAX :: u64 where "QUANTUM_MAX \<equiv> 6"

abbreviation (input) LOCKED :: int where "LOCKED \<equiv> 0"
abbreviation (input) UNLOCKED :: int where "UNLOCKED \<equiv> 1"
abbreviation (input) SCHED_POLICY_RR :: int where "SCHED_POLICY_RR \<equiv> 0"
abbreviation (input) SCHED_POLICY_PRIORITY_INTERLEAVING :: int
  where "SCHED_POLICY_PRIORITY_INTERLEAVING \<equiv> 1"
abbreviation (input) SYSTEM_SCHEDULING :: int where "SYSTEM_SCHEDULING \<equiv> 3"
abbreviation (input) SYSTEM_RUNNING :: int where "SYSTEM_RUNNING \<equiv> 4"

section \<open>Enumerations\<close>

datatype thread_state_t = THREAD_STATE_CREATED | INITIALIZED | STANDBY | ZOMBIE | DEAD
  | READY | RUNNING | WAITING | BLOCKED

datatype thread_wait_reason_t = WAIT_REASON_NULL
  | WAIT_REASON_WAIT4PID | WAIT_REASON_WAIT4TID | WAIT_REASON_PEXIT | WAIT_REASON_TEXIT
  | WAIT_REASON_SEMAPHORE | WAIT_REASON_MUTEX | WAIT_REASON_CONDITION | WAIT_REASON_RWLOCK
  | WAIT_REASON_BLOCKED | WAIT_REASON_YIELD | WAIT_REASON_PREEMPTED | WAIT_REASON_PRIORITY_BOOST
  | WAIT_REASON_IO | WAIT_REASON_TIMER | WAIT_REASON_SIGNAL | WAIT_REASON_INTERRUPT
  | WAIT_REASON_LOOP | WAIT_REASON_TEST | WAIT_REASON_BREAKPOINT | WAIT_REASON_TRACE

datatype thread_type_t = THREAD_TYPE_NULL | THREAD_TYPE_SYSTEM | THREAD_TYPE_NORMAL

datatype process_state_t = PROCESS_CREATED | PROCESS_INITIALIZED | PROCESS_RUNNING
  | PROCESS_BLOCKED | PROCESS_TERMINATED | PROCESS_IN_MEMORY | PROCESS_OUT_OF_MEMORY

text \<open>The wait reasons that a message or an event of the display server ends
  (the case lists of ipc.c and sched.c).\<close>

definition reason_is_wakeable :: "thread_wait_reason_t \<Rightarrow> bool" where
  "reason_is_wakeable r \<longleftrightarrow>
     r = WAIT_REASON_YIELD \<or> r = WAIT_REASON_PREEMPTED \<or> r = WAIT_REASON_PRIORITY_BOOST \<or>
     r = WAIT_REASON_BLOCKED \<or> r = WAIT_REASON_LOOP"

section \<open>Structures\<close>

record msg_d =
  m_used :: int
  m_magic :: int
  m_opaque_window :: ptr
  m_msg :: int
  m_long1 :: u64
  m_long2 :: u64
  m_long3 :: u64
  m_long4 :: u64
  m_sender_tid :: int
  m_receiver_tid :: int
  m_sender_pid :: int
  m_receiver_pid :: int
  m_next :: ptr

record deferred_d =
  yield_in_progress :: int
  sleep_in_progress :: int
  desired_sleep_ms :: u64
  exit_in_progress :: int
  exit_code :: int

record msgctl_d =
  input_flags :: u64
  block_in_progress :: int
  block_on_empty :: int
  miss_count :: int
  has_event_from_ds :: int

text \<open>\<open>struct x64_context_d\<close>: the segment fields are \<open>unsigned short\<close>.\<close>

record x64_context_d =
  c_rax :: u64
  c_rcx :: u64
  c_rdx :: u64
  c_rbx :: u64
  c_rsp :: u64
  c_rbp :: u64
  c_rsi :: u64
  c_rdi :: u64
  c_r8 :: u64
  c_r9 :: u64
  c_r10 :: u64
  c_r11 :: u64
  c_r12 :: u64
  c_r13 :: u64
  c_r14 :: u64
  c_r15 :: u64
  c_rip :: u64
  c_cs :: u16
  c_ds :: u16
  c_es :: u16
  c_fs :: u16
  c_gs :: u16
  c_ss :: u16
  c_rflags :: u64
  c_fpu_buffer :: "nat \<Rightarrow> u8"

record thread_d =
  th_used :: int
  th_magic :: int
  th_type :: thread_type_t
  th_te :: ptr
  th_tgid :: int
  th_tid :: int
  th_base_priority :: u64
  th_priority :: u64
  th_quantum :: u64
  th_state :: thread_state_t
  th_new_clone :: int
  th_Deferred :: deferred_d
  th_callback_in_progress :: int
  th_cb_r3_address :: u64
  th_is_alertable :: int
  th_signal :: u64
  th_has_pending_event :: int
  th_its_my_party :: int
  th_wait_reason :: thread_wait_reason_t
  th_pml4_PA :: u64
  th_cpl :: u32
  th_rflags_initial_iopl :: u32
  th_rflags_current_iopl :: u32
  th_to_supervisor :: u64
  th_to_user :: u64
  th_initial_jiffy :: u64
  th_ready_jiffy :: u64
  th_waiting_jiffy :: u64
  th_blocked_jiffy :: u64
  th_zombie_jiffy :: u64
  th_wake_jiffy :: u64
  th_step :: u64
  th_initial_time_ms :: u64
  th_total_time_ms :: u64
  th_credits :: u64
  th_standbyCount :: u64
  th_standbyCount_ms :: u64
  th_runningCount :: u64
  th_runningCount_ms :: u64
  th_readyCount :: u64
  th_readyCount_ms :: u64
  th_waitingCount :: u64
  th_waitingCount_ms :: u64
  th_blockedCount :: u64
  th_blockedCount_ms :: u64
  th_scheduledCount :: u64
  th_alarm :: u64
  th_profiler_percentage_running :: u64
  th_profiler_percentage_running_res :: u64
  th_profiler_percentage_running_mod :: u64
  th_profiler_ticks_running :: u64
  th_profiler_last_ticks :: u64
  th_link :: ptr
  th_is_linked :: int
  th_MsgQueue :: "int \<Rightarrow> ptr"
  th_MsgQueueHead :: int
  th_MsgQueueTail :: int
  th_msgctl :: msgctl_d
  th_context :: x64_context_d
  th_saved :: int
  th_next :: ptr

record te_d =
  te_used :: int
  te_magic :: int
  te_pid :: int
  te_ppid :: int
  te_state :: process_state_t
  te_wait4pid :: int
  te_flower :: ptr
  te_pml4_PA :: u64
  te_signal :: u64

record scheduler_info_d =
  si_initialized :: int
  si_policy :: int
  si_flags :: u64
  si_is_locked :: int
  si_rr_round_counter :: u64
  si_rr_ready_threads_in_round :: int
  si_stage :: u64
  si_max_stage :: u64

record ds_info_d =
  ds_initialized :: int
  ds_tid :: int

record dispatch_count_d =
  dc_magic :: int
  SelectIdealCount :: u64
  SelectCurrentCount :: u64
  SelectInitializedCount :: u64
  SelectNextCount :: u64
  SelectAnyCount :: u64
  SelectDispatcherQueueCount :: u64
  SelectIdleCount :: u64

record UPProcessorBlock_d =
  up_IdleThread :: ptr
  up_CurrentThread :: ptr
  up_threads_counter :: u64

text \<open>
  The registers of the interrupted thread, as the assembly stub of the timer leaves them in the
  \<open>contextXX\<close> globals of x64cont.c. They are all \<open>unsigned long\<close> there.
\<close>

record cpu_frame =
  f_ss :: u64
  f_rsp :: u64
  f_rflags :: u64
  f_cs :: u64
  f_rip :: u64
  f_ds :: u64
  f_es :: u64
  f_fs :: u64
  f_gs :: u64
  f_rax :: u64
  f_rbx :: u64
  f_rcx :: u64
  f_rdx :: u64
  f_rsi :: u64
  f_rdi :: u64
  f_rbp :: u64
  f_r8 :: u64
  f_r9 :: u64
  f_r10 :: u64
  f_r11 :: u64
  f_r12 :: u64
  f_r13 :: u64
  f_r14 :: u64
  f_r15 :: u64
  f_fpu_buffer :: "nat \<Rightarrow> u8"

section \<open>The state of the kernel\<close>

text \<open>
  \<open>DispatchCountBlock\<close> is a pointer to one block: \<open>None\<close> is NULL. \<open>cr3\<close> is the
  register that \<open>load_pml4_table\<close> writes. \<open>iret_rip\<close> and \<open>iret_rsp\<close> record the
  frame that \<open>__spawn_enter_usermode\<close> pushes before \<open>iretq\<close>.
\<close>

record kstate =
  theap :: "ptr \<Rightarrow> thread_d"
  mheap :: "ptr \<Rightarrow> msg_d"
  pheap :: "ptr \<Rightarrow> te_d"
  threadList :: "int \<Rightarrow> ptr"
  teList :: "int \<Rightarrow> ptr"
  current_thread :: int
  foreground_thread :: int
  current_pid :: int
  InitThread :: ptr
  currentq :: ptr
  qList :: "int \<Rightarrow> ptr"
  p1q :: ptr
  p2q :: ptr
  p3q :: ptr
  p4q :: ptr
  p5q :: ptr
  p6q :: ptr
  SchedulerInfo :: scheduler_info_d
  stage_selection_count :: "int \<Rightarrow> u64"
  g_use_event_responder :: int
  ev_responder_thread :: ptr
  DisplayServerInfo :: ds_info_d
  UPProcessorBlock :: UPProcessorBlock_d
  system_state :: int
  jiffies :: u64
  task_switch_status :: u64
  extra :: int
  dead_thread_collector_status :: int
  dead_thread_collector_flag :: int
  DispatchCountBlock :: "dispatch_count_d option"
  asmflagDoCallbackAfterCR3 :: u64
  ring3_callback_address :: u64
  ring3_callback_parm1 :: u64
  ring3_callback_parm2 :: u64
  ring3_callback_parm3 :: u64
  ring3_callback_parm4 :: u64
  frame :: cpu_frame
  contextCPL :: u64
  cr3 :: u64
  spawn_eoi_is_necessary :: int
  iret_rip :: u64
  iret_rsp :: u64
  profiler_ticks_limit :: u64
  profiler_percentage_all_normal_threads :: u64
  profiler_percentage_idle_thread :: u64

type_synonym 'a kres = "(kstate, 'a) res"

end
