(* ===== verification/Thread_State.thy ===== *)
theory Thread_State
  imports Thread_Model
begin

text \<open>
  Updates of the object heaps, the invariants of the thread tables, and the contract that the
  operations on a single thread share.

  \<open>upd_thread p f s\<close> is the effect of a sequence of assignments \<open>p->field = ...\<close>.
  \<open>live s p\<close> is the validity test of the sources: \<open>p\<close> is not NULL, \<open>p->used\<close> is
  TRUE and \<open>p->magic\<close> is 1234. \<open>kinv\<close> collects what the sources rely on:
  \<^item> \<open>table_ok\<close>: the slot of \<open>threadList\<close> that holds a thread is its tid, and every
    live thread object is registered there;
  \<^item> \<open>init_ok\<close>: the init thread is live, has tid 0 and is the idle thread of the processor;
  \<^item> \<open>mbox_ok\<close>: the message queue of a live thread has all its slots allocated, its head
    and tail are in range, and no message cell is shared by two slots;
  \<^item> \<open>te_ok\<close>: the process of a live thread exists, has the right pid and a page table, and
    the thread runs in ring 3.
  The locale \<open>thread_op\<close> is the contract of the operations that take a tid, validate it and
  change fields of that one thread; schedi.c has a dozen of them.
\<close>

section \<open>Heap updates\<close>

definition upd_thread :: "ptr \<Rightarrow> (thread_d \<Rightarrow> thread_d) \<Rightarrow> kstate \<Rightarrow> kstate" where
  "upd_thread p f s = s\<lparr>theap := (theap s)(p := f (theap s p))\<rparr>"

definition upd_msg :: "ptr \<Rightarrow> (msg_d \<Rightarrow> msg_d) \<Rightarrow> kstate \<Rightarrow> kstate" where
  "upd_msg p f s = s\<lparr>mheap := (mheap s)(p := f (mheap s p))\<rparr>"

definition upd_te :: "ptr \<Rightarrow> (te_d \<Rightarrow> te_d) \<Rightarrow> kstate \<Rightarrow> kstate" where
  "upd_te p f s = s\<lparr>pheap := (pheap s)(p := f (pheap s p))\<rparr>"

lemma theap_upd_thread [simp]: "theap (upd_thread p f s) = (theap s)(p := f (theap s p))"
  by (simp add: upd_thread_def)

lemma mheap_upd_msg [simp]: "mheap (upd_msg p f s) = (mheap s)(p := f (mheap s p))"
  by (simp add: upd_msg_def)

lemma pheap_upd_te [simp]: "pheap (upd_te p f s) = (pheap s)(p := f (pheap s p))"
  by (simp add: upd_te_def)

lemma upd_thread_frame [simp]:
  "mheap (upd_thread p f s) = mheap s"
  "pheap (upd_thread p f s) = pheap s"
  "threadList (upd_thread p f s) = threadList s"
  "teList (upd_thread p f s) = teList s"
  "current_thread (upd_thread p f s) = current_thread s"
  "foreground_thread (upd_thread p f s) = foreground_thread s"
  "current_pid (upd_thread p f s) = current_pid s"
  "InitThread (upd_thread p f s) = InitThread s"
  "currentq (upd_thread p f s) = currentq s"
  "qList (upd_thread p f s) = qList s"
  "p1q (upd_thread p f s) = p1q s"
  "p2q (upd_thread p f s) = p2q s"
  "p3q (upd_thread p f s) = p3q s"
  "p4q (upd_thread p f s) = p4q s"
  "p5q (upd_thread p f s) = p5q s"
  "p6q (upd_thread p f s) = p6q s"
  "SchedulerInfo (upd_thread p f s) = SchedulerInfo s"
  "stage_selection_count (upd_thread p f s) = stage_selection_count s"
  "g_use_event_responder (upd_thread p f s) = g_use_event_responder s"
  "ev_responder_thread (upd_thread p f s) = ev_responder_thread s"
  "DisplayServerInfo (upd_thread p f s) = DisplayServerInfo s"
  "UPProcessorBlock (upd_thread p f s) = UPProcessorBlock s"
  "system_state (upd_thread p f s) = system_state s"
  "jiffies (upd_thread p f s) = jiffies s"
  "task_switch_status (upd_thread p f s) = task_switch_status s"
  "extra (upd_thread p f s) = extra s"
  "dead_thread_collector_status (upd_thread p f s) = dead_thread_collector_status s"
  "dead_thread_collector_flag (upd_thread p f s) = dead_thread_collector_flag s"
  "DispatchCountBlock (upd_thread p f s) = DispatchCountBlock s"
  "asmflagDoCallbackAfterCR3 (upd_thread p f s) = asmflagDoCallbackAfterCR3 s"
  "ring3_callback_address (upd_thread p f s) = ring3_callback_address s"
  "ring3_callback_parm1 (upd_thread p f s) = ring3_callback_parm1 s"
  "ring3_callback_parm2 (upd_thread p f s) = ring3_callback_parm2 s"
  "ring3_callback_parm3 (upd_thread p f s) = ring3_callback_parm3 s"
  "ring3_callback_parm4 (upd_thread p f s) = ring3_callback_parm4 s"
  "frame (upd_thread p f s) = frame s"
  "contextCPL (upd_thread p f s) = contextCPL s"
  "cr3 (upd_thread p f s) = cr3 s"
  "spawn_eoi_is_necessary (upd_thread p f s) = spawn_eoi_is_necessary s"
  "iret_rip (upd_thread p f s) = iret_rip s"
  "iret_rsp (upd_thread p f s) = iret_rsp s"
  "profiler_ticks_limit (upd_thread p f s) = profiler_ticks_limit s"
  "profiler_percentage_all_normal_threads (upd_thread p f s) = profiler_percentage_all_normal_threads s"
  "profiler_percentage_idle_thread (upd_thread p f s) = profiler_percentage_idle_thread s"
  by (simp_all add: upd_thread_def)

lemma upd_msg_frame [simp]:
  "theap (upd_msg p f s) = theap s"
  "pheap (upd_msg p f s) = pheap s"
  "threadList (upd_msg p f s) = threadList s"
  "teList (upd_msg p f s) = teList s"
  "current_thread (upd_msg p f s) = current_thread s"
  "foreground_thread (upd_msg p f s) = foreground_thread s"
  "current_pid (upd_msg p f s) = current_pid s"
  "InitThread (upd_msg p f s) = InitThread s"
  "currentq (upd_msg p f s) = currentq s"
  "qList (upd_msg p f s) = qList s"
  "p1q (upd_msg p f s) = p1q s"
  "p2q (upd_msg p f s) = p2q s"
  "p3q (upd_msg p f s) = p3q s"
  "p4q (upd_msg p f s) = p4q s"
  "p5q (upd_msg p f s) = p5q s"
  "p6q (upd_msg p f s) = p6q s"
  "SchedulerInfo (upd_msg p f s) = SchedulerInfo s"
  "stage_selection_count (upd_msg p f s) = stage_selection_count s"
  "g_use_event_responder (upd_msg p f s) = g_use_event_responder s"
  "ev_responder_thread (upd_msg p f s) = ev_responder_thread s"
  "DisplayServerInfo (upd_msg p f s) = DisplayServerInfo s"
  "UPProcessorBlock (upd_msg p f s) = UPProcessorBlock s"
  "system_state (upd_msg p f s) = system_state s"
  "jiffies (upd_msg p f s) = jiffies s"
  "task_switch_status (upd_msg p f s) = task_switch_status s"
  "extra (upd_msg p f s) = extra s"
  "dead_thread_collector_status (upd_msg p f s) = dead_thread_collector_status s"
  "dead_thread_collector_flag (upd_msg p f s) = dead_thread_collector_flag s"
  "DispatchCountBlock (upd_msg p f s) = DispatchCountBlock s"
  "asmflagDoCallbackAfterCR3 (upd_msg p f s) = asmflagDoCallbackAfterCR3 s"
  "ring3_callback_address (upd_msg p f s) = ring3_callback_address s"
  "ring3_callback_parm1 (upd_msg p f s) = ring3_callback_parm1 s"
  "ring3_callback_parm2 (upd_msg p f s) = ring3_callback_parm2 s"
  "ring3_callback_parm3 (upd_msg p f s) = ring3_callback_parm3 s"
  "ring3_callback_parm4 (upd_msg p f s) = ring3_callback_parm4 s"
  "frame (upd_msg p f s) = frame s"
  "contextCPL (upd_msg p f s) = contextCPL s"
  "cr3 (upd_msg p f s) = cr3 s"
  "spawn_eoi_is_necessary (upd_msg p f s) = spawn_eoi_is_necessary s"
  "iret_rip (upd_msg p f s) = iret_rip s"
  "iret_rsp (upd_msg p f s) = iret_rsp s"
  "profiler_ticks_limit (upd_msg p f s) = profiler_ticks_limit s"
  "profiler_percentage_all_normal_threads (upd_msg p f s) = profiler_percentage_all_normal_threads s"
  "profiler_percentage_idle_thread (upd_msg p f s) = profiler_percentage_idle_thread s"
  by (simp_all add: upd_msg_def)

lemma upd_te_frame [simp]:
  "theap (upd_te p f s) = theap s"
  "mheap (upd_te p f s) = mheap s"
  "threadList (upd_te p f s) = threadList s"
  "teList (upd_te p f s) = teList s"
  "current_thread (upd_te p f s) = current_thread s"
  "foreground_thread (upd_te p f s) = foreground_thread s"
  "current_pid (upd_te p f s) = current_pid s"
  "InitThread (upd_te p f s) = InitThread s"
  "currentq (upd_te p f s) = currentq s"
  "qList (upd_te p f s) = qList s"
  "p1q (upd_te p f s) = p1q s"
  "p2q (upd_te p f s) = p2q s"
  "p3q (upd_te p f s) = p3q s"
  "p4q (upd_te p f s) = p4q s"
  "p5q (upd_te p f s) = p5q s"
  "p6q (upd_te p f s) = p6q s"
  "SchedulerInfo (upd_te p f s) = SchedulerInfo s"
  "stage_selection_count (upd_te p f s) = stage_selection_count s"
  "g_use_event_responder (upd_te p f s) = g_use_event_responder s"
  "ev_responder_thread (upd_te p f s) = ev_responder_thread s"
  "DisplayServerInfo (upd_te p f s) = DisplayServerInfo s"
  "UPProcessorBlock (upd_te p f s) = UPProcessorBlock s"
  "system_state (upd_te p f s) = system_state s"
  "jiffies (upd_te p f s) = jiffies s"
  "task_switch_status (upd_te p f s) = task_switch_status s"
  "extra (upd_te p f s) = extra s"
  "dead_thread_collector_status (upd_te p f s) = dead_thread_collector_status s"
  "dead_thread_collector_flag (upd_te p f s) = dead_thread_collector_flag s"
  "DispatchCountBlock (upd_te p f s) = DispatchCountBlock s"
  "asmflagDoCallbackAfterCR3 (upd_te p f s) = asmflagDoCallbackAfterCR3 s"
  "ring3_callback_address (upd_te p f s) = ring3_callback_address s"
  "ring3_callback_parm1 (upd_te p f s) = ring3_callback_parm1 s"
  "ring3_callback_parm2 (upd_te p f s) = ring3_callback_parm2 s"
  "ring3_callback_parm3 (upd_te p f s) = ring3_callback_parm3 s"
  "ring3_callback_parm4 (upd_te p f s) = ring3_callback_parm4 s"
  "frame (upd_te p f s) = frame s"
  "contextCPL (upd_te p f s) = contextCPL s"
  "cr3 (upd_te p f s) = cr3 s"
  "spawn_eoi_is_necessary (upd_te p f s) = spawn_eoi_is_necessary s"
  "iret_rip (upd_te p f s) = iret_rip s"
  "iret_rsp (upd_te p f s) = iret_rsp s"
  "profiler_ticks_limit (upd_te p f s) = profiler_ticks_limit s"
  "profiler_percentage_all_normal_threads (upd_te p f s) = profiler_percentage_all_normal_threads s"
  "profiler_percentage_idle_thread (upd_te p f s) = profiler_percentage_idle_thread s"
  by (simp_all add: upd_te_def)

section \<open>Valid threads\<close>

definition tid_in_range :: "int \<Rightarrow> bool" where
  "tid_in_range tid \<longleftrightarrow> 0 \<le> tid \<and> tid < THREAD_COUNT_MAX"

definition live :: "kstate \<Rightarrow> ptr \<Rightarrow> bool" where
  "live s p \<longleftrightarrow> p \<noteq> NULL \<and> th_used (theap s p) = TRUE \<and> th_magic (theap s p) = 1234"

definition valid_tid :: "kstate \<Rightarrow> int \<Rightarrow> bool" where
  "valid_tid s tid \<longleftrightarrow> tid_in_range tid \<and> live s (threadList s tid)"

lemma INIT_TID_in_range [simp]: "tid_in_range INIT_TID"
  by (simp add: tid_in_range_def THREAD_COUNT_MAX_def)

lemma live_not_NULL: "live s p \<Longrightarrow> p \<noteq> NULL"
  by (simp add: live_def)

section \<open>The invariant\<close>

definition table_ok :: "kstate \<Rightarrow> bool" where
  "table_ok s \<longleftrightarrow>
     (\<forall>i. tid_in_range i \<longrightarrow> threadList s i \<noteq> NULL \<longrightarrow> th_tid (theap s (threadList s i)) = i) \<and>
     (\<forall>p. live s p \<longrightarrow>
        tid_in_range (th_tid (theap s p)) \<and> threadList s (th_tid (theap s p)) = p)"

definition init_ok :: "kstate \<Rightarrow> bool" where
  "init_ok s \<longleftrightarrow> live s (InitThread s) \<and> th_tid (theap s (InitThread s)) = INIT_TID \<and>
     up_IdleThread (UPProcessorBlock s) = InitThread s"

definition qidx :: "int \<Rightarrow> bool" where
  "qidx k \<longleftrightarrow> 0 \<le> k \<and> k < MSG_QUEUE_MAX"

definition msg_ok :: "kstate \<Rightarrow> ptr \<Rightarrow> bool" where
  "msg_ok s m \<longleftrightarrow> m \<noteq> NULL \<and> m_used (mheap s m) = TRUE \<and> m_magic (mheap s m) = 1234"

definition mbox_ok :: "kstate \<Rightarrow> bool" where
  "mbox_ok s \<longleftrightarrow>
     (\<forall>p. live s p \<longrightarrow>
        qidx (th_MsgQueueHead (theap s p)) \<and> qidx (th_MsgQueueTail (theap s p)) \<and>
        (\<forall>k. qidx k \<longrightarrow> msg_ok s (th_MsgQueue (theap s p) k))) \<and>
     (\<forall>p q k l. live s p \<longrightarrow> live s q \<longrightarrow> qidx k \<longrightarrow> qidx l \<longrightarrow>
        th_MsgQueue (theap s p) k = th_MsgQueue (theap s q) l \<longrightarrow> p = q \<and> k = l)"

definition te_valid :: "kstate \<Rightarrow> int \<Rightarrow> bool" where
  "te_valid s pid \<longleftrightarrow> 0 \<le> pid \<and> pid < PROCESS_COUNT_MAX \<and> teList s pid \<noteq> NULL \<and>
     te_used (pheap s (teList s pid)) = TRUE \<and> te_magic (pheap s (teList s pid)) = 1234 \<and>
     te_pid (pheap s (teList s pid)) = pid \<and> te_pml4_PA (pheap s (teList s pid)) \<noteq> 0"

definition te_ok :: "kstate \<Rightarrow> bool" where
  "te_ok s \<longleftrightarrow> (\<forall>p. live s p \<longrightarrow> te_valid s (th_tgid (theap s p)) \<and> th_cpl (theap s p) = 3)"

definition kinv :: "kstate \<Rightarrow> bool" where
  "kinv s \<longleftrightarrow> table_ok s \<and> init_ok s \<and> mbox_ok s \<and> te_ok s"

lemmas kinv_defs = kinv_def table_ok_def init_ok_def mbox_ok_def te_ok_def

lemma live_irrelevant:
  "theap s' = theap s \<Longrightarrow> live s' p = live s p"
  by (simp add: live_def)

lemma kinv_cong:
  assumes "theap s' = theap s" and "mheap s' = mheap s" and "pheap s' = pheap s"
    and "threadList s' = threadList s" and "teList s' = teList s"
    and "InitThread s' = InitThread s"
    and "up_IdleThread (UPProcessorBlock s') = up_IdleThread (UPProcessorBlock s)"
  shows "kinv s' = kinv s"
  by (simp add: assms kinv_defs te_valid_def msg_ok_def live_def)

lemma kinv_irrelevant [simp]:
  "kinv (s\<lparr>current_thread := xcurrent_thread\<rparr>) = kinv s"
  "kinv (s\<lparr>foreground_thread := xforeground_thread\<rparr>) = kinv s"
  "kinv (s\<lparr>current_pid := xcurrent_pid\<rparr>) = kinv s"
  "kinv (s\<lparr>currentq := xcurrentq\<rparr>) = kinv s"
  "kinv (s\<lparr>qList := xqList\<rparr>) = kinv s"
  "kinv (s\<lparr>p1q := xp1q\<rparr>) = kinv s"
  "kinv (s\<lparr>p2q := xp2q\<rparr>) = kinv s"
  "kinv (s\<lparr>p3q := xp3q\<rparr>) = kinv s"
  "kinv (s\<lparr>p4q := xp4q\<rparr>) = kinv s"
  "kinv (s\<lparr>p5q := xp5q\<rparr>) = kinv s"
  "kinv (s\<lparr>p6q := xp6q\<rparr>) = kinv s"
  "kinv (s\<lparr>SchedulerInfo := xSchedulerInfo\<rparr>) = kinv s"
  "kinv (s\<lparr>stage_selection_count := xstage_selection_count\<rparr>) = kinv s"
  "kinv (s\<lparr>g_use_event_responder := xg_use_event_responder\<rparr>) = kinv s"
  "kinv (s\<lparr>ev_responder_thread := xev_responder_thread\<rparr>) = kinv s"
  "kinv (s\<lparr>DisplayServerInfo := xDisplayServerInfo\<rparr>) = kinv s"
  "kinv (s\<lparr>system_state := xsystem_state\<rparr>) = kinv s"
  "kinv (s\<lparr>jiffies := xjiffies\<rparr>) = kinv s"
  "kinv (s\<lparr>task_switch_status := xtask_switch_status\<rparr>) = kinv s"
  "kinv (s\<lparr>extra := xextra\<rparr>) = kinv s"
  "kinv (s\<lparr>dead_thread_collector_status := xdead_thread_collector_status\<rparr>) = kinv s"
  "kinv (s\<lparr>dead_thread_collector_flag := xdead_thread_collector_flag\<rparr>) = kinv s"
  "kinv (s\<lparr>DispatchCountBlock := xDispatchCountBlock\<rparr>) = kinv s"
  "kinv (s\<lparr>asmflagDoCallbackAfterCR3 := xasmflagDoCallbackAfterCR3\<rparr>) = kinv s"
  "kinv (s\<lparr>ring3_callback_address := xring3_callback_address\<rparr>) = kinv s"
  "kinv (s\<lparr>ring3_callback_parm1 := xring3_callback_parm1\<rparr>) = kinv s"
  "kinv (s\<lparr>ring3_callback_parm2 := xring3_callback_parm2\<rparr>) = kinv s"
  "kinv (s\<lparr>ring3_callback_parm3 := xring3_callback_parm3\<rparr>) = kinv s"
  "kinv (s\<lparr>ring3_callback_parm4 := xring3_callback_parm4\<rparr>) = kinv s"
  "kinv (s\<lparr>frame := xframe\<rparr>) = kinv s"
  "kinv (s\<lparr>contextCPL := xcontextCPL\<rparr>) = kinv s"
  "kinv (s\<lparr>cr3 := xcr3\<rparr>) = kinv s"
  "kinv (s\<lparr>spawn_eoi_is_necessary := xspawn_eoi_is_necessary\<rparr>) = kinv s"
  "kinv (s\<lparr>iret_rip := xiret_rip\<rparr>) = kinv s"
  "kinv (s\<lparr>iret_rsp := xiret_rsp\<rparr>) = kinv s"
  "kinv (s\<lparr>profiler_ticks_limit := xprofiler_ticks_limit\<rparr>) = kinv s"
  "kinv (s\<lparr>profiler_percentage_all_normal_threads := xprofiler_percentage_all_normal_threads\<rparr>) = kinv s"
  "kinv (s\<lparr>profiler_percentage_idle_thread := xprofiler_percentage_idle_thread\<rparr>) = kinv s"
  by (rule kinv_cong; simp)+

subsection \<open>Consequences\<close>

lemma kinv_slot_tid:
  "kinv s \<Longrightarrow> tid_in_range i \<Longrightarrow> threadList s i \<noteq> NULL \<Longrightarrow> th_tid (theap s (threadList s i)) = i"
  by (simp add: kinv_def table_ok_def)

lemma kinv_live_slot:
  "kinv s \<Longrightarrow> live s p \<Longrightarrow> tid_in_range (th_tid (theap s p)) \<and> threadList s (th_tid (theap s p)) = p"
  by (simp add: kinv_def table_ok_def)

lemma kinv_slot_inj:
  assumes "kinv s" "tid_in_range i" "tid_in_range j" "threadList s i = threadList s j"
    "threadList s i \<noteq> NULL"
  shows "i = j"
  using kinv_slot_tid [OF assms(1,2)] kinv_slot_tid [OF assms(1,3)] assms(4,5) by metis

lemma kinv_InitThread:
  assumes "kinv s"
  shows "live s (InitThread s)" and "th_tid (theap s (InitThread s)) = INIT_TID"
    and "up_IdleThread (UPProcessorBlock s) = InitThread s"
    and "threadList s INIT_TID = InitThread s" and "valid_tid s INIT_TID"
proof -
  from assms have i: "init_ok s" by (simp add: kinv_def)
  then show l: "live s (InitThread s)" and t: "th_tid (theap s (InitThread s)) = INIT_TID"
    and "up_IdleThread (UPProcessorBlock s) = InitThread s"
    by (simp_all add: init_ok_def)
  with assms show "threadList s INIT_TID = InitThread s"
    using kinv_live_slot [of s "InitThread s"] by simp
  with l show "valid_tid s INIT_TID" by (simp add: valid_tid_def)
qed

lemma kinv_slot_neq_Init:
  "kinv s \<Longrightarrow> tid_in_range i \<Longrightarrow> i \<noteq> INIT_TID \<Longrightarrow> threadList s i \<noteq> InitThread s"
  by (metis INIT_TID_in_range kinv_InitThread(1,4) kinv_slot_inj live_not_NULL)

lemma kinv_msg_ok:
  "kinv s \<Longrightarrow> live s p \<Longrightarrow> qidx k \<Longrightarrow> msg_ok s (th_MsgQueue (theap s p) k)"
  by (simp add: kinv_def mbox_ok_def)

lemma kinv_qidx:
  "kinv s \<Longrightarrow> live s p \<Longrightarrow> qidx (th_MsgQueueHead (theap s p)) \<and> qidx (th_MsgQueueTail (theap s p))"
  by (simp add: kinv_def mbox_ok_def)

lemma kinv_msg_inj:
  "kinv s \<Longrightarrow> live s p \<Longrightarrow> live s q \<Longrightarrow> qidx k \<Longrightarrow> qidx l \<Longrightarrow>
   th_MsgQueue (theap s p) k = th_MsgQueue (theap s q) l \<Longrightarrow> p = q \<and> k = l"
  by (simp add: kinv_def mbox_ok_def)

lemma kinv_te: "kinv s \<Longrightarrow> live s p \<Longrightarrow> te_valid s (th_tgid (theap s p)) \<and> th_cpl (theap s p) = 3"
  by (simp add: kinv_def te_ok_def)

subsection \<open>Updates that keep it\<close>

text \<open>What the invariant reads of a thread.\<close>

definition th_keeps :: "thread_d \<Rightarrow> thread_d \<Rightarrow> bool" where
  "th_keeps t t' \<longleftrightarrow> th_used t' = th_used t \<and> th_magic t' = th_magic t \<and> th_tid t' = th_tid t \<and>
     th_tgid t' = th_tgid t \<and> th_cpl t' = th_cpl t \<and> th_MsgQueue t' = th_MsgQueue t \<and>
     (qidx (th_MsgQueueHead t) \<longrightarrow> qidx (th_MsgQueueHead t')) \<and>
     (qidx (th_MsgQueueTail t) \<longrightarrow> qidx (th_MsgQueueTail t'))"

lemma live_upd_thread:
  "th_keeps (theap s p) (f (theap s p)) \<Longrightarrow> live (upd_thread p f s) q = live s q"
  by (simp add: live_def th_keeps_def)

lemma live_upd_msg [simp]: "live (upd_msg p f s) q = live s q"
  by (simp add: live_def)

lemma live_upd_te [simp]: "live (upd_te p f s) q = live s q"
  by (simp add: live_def)

lemma te_valid_upd_thread [simp]: "te_valid (upd_thread p f s) pid = te_valid s pid"
  by (simp add: te_valid_def)

lemma msg_ok_upd_thread [simp]: "msg_ok (upd_thread p f s) m = msg_ok s m"
  by (simp add: msg_ok_def)

lemma te_valid_upd_msg [simp]: "te_valid (upd_msg p f s) pid = te_valid s pid"
  by (simp add: te_valid_def)

lemma kinv_upd_thread [kernel_inv]:
  assumes "kinv s" and k: "th_keeps (theap s p) (f (theap s p))"
  shows "kinv (upd_thread p f s)"
proof -
  note l = live_upd_thread [of s p f, OF k]
  have sel: "th_tid (theap (upd_thread p f s) q) = th_tid (theap s q)"
    "th_tgid (theap (upd_thread p f s) q) = th_tgid (theap s q)"
    "th_cpl (theap (upd_thread p f s) q) = th_cpl (theap s q)"
    "th_MsgQueue (theap (upd_thread p f s) q) = th_MsgQueue (theap s q)" for q
    using k by (simp_all add: th_keeps_def)
  have hd: "qidx (th_MsgQueueHead (theap s q)) \<Longrightarrow> qidx (th_MsgQueueHead (theap (upd_thread p f s) q))"
    and tl: "qidx (th_MsgQueueTail (theap s q)) \<Longrightarrow> qidx (th_MsgQueueTail (theap (upd_thread p f s) q))"
    for q using k by (auto simp: th_keeps_def)
  have "table_ok (upd_thread p f s)" "init_ok (upd_thread p f s)" "te_ok (upd_thread p f s)"
    using assms(1) unfolding kinv_def table_ok_def init_ok_def te_ok_def l sel by simp_all
  moreover have "mbox_ok (upd_thread p f s)"
    using assms(1) hd tl unfolding kinv_def mbox_ok_def l sel msg_ok_upd_thread by blast
  ultimately show ?thesis by (simp add: kinv_def)
qed

lemma kinv_upd_msg [kernel_inv]:
  assumes "kinv s"
    and "m_used (f (mheap s p)) = m_used (mheap s p)" "m_magic (f (mheap s p)) = m_magic (mheap s p)"
  shows "kinv (upd_msg p f s)"
proof -
  have "msg_ok (upd_msg p f s) m = msg_ok s m" for m
    using assms by (simp add: msg_ok_def)
  with assms(1) show ?thesis
    by (simp add: kinv_defs)
qed

text \<open>A thread other than init may be invalidated: its slot stays, it is no longer live.\<close>

lemma kinv_invalidate [kernel_inv]:
  assumes "kinv s" and "p \<noteq> InitThread s" and "th_used (f (theap s p)) \<noteq> TRUE"
    and "th_tid (f (theap s p)) = th_tid (theap s p)"
  shows "kinv (upd_thread p f s)"
proof -
  have l: "live (upd_thread p f s) q \<longleftrightarrow> q \<noteq> p \<and> live s q" for q
    using assms(3) by (auto simp: live_def)
  then have "table_ok (upd_thread p f s)" "init_ok (upd_thread p f s)" "te_ok (upd_thread p f s)"
    using assms by (auto simp: kinv_def table_ok_def init_ok_def te_ok_def)
  moreover have "mbox_ok (upd_thread p f s)"
    using assms(1) l unfolding kinv_def mbox_ok_def by simp blast
  ultimately show ?thesis by (simp add: kinv_def)
qed

section \<open>The contract of the operations on one thread\<close>

text \<open>
  \<open>op tid s\<close> is the operation, \<open>upd s\<close> the assignments it makes and \<open>guard\<close> the test
  it adds to the validation of the tid. The client lemmas are the frame conditions and the
  preservation of the invariant, proved once for all operations that meet the contract.
\<close>

locale thread_op =
  fixes op :: "int \<Rightarrow> kstate \<Rightarrow> kstate"
    and upd :: "kstate \<Rightarrow> thread_d \<Rightarrow> thread_d"
    and guard :: "kstate \<Rightarrow> int \<Rightarrow> bool"
  assumes op_acts: "valid_tid s tid \<Longrightarrow> guard s tid \<Longrightarrow> op tid s = upd_thread (threadList s tid) (upd s) s"
    and op_refuses: "\<not> valid_tid s tid \<or> \<not> guard s tid \<Longrightarrow> op tid s = s"
    and upd_keeps: "th_keeps t (upd s t)"
begin

lemma op_cases:
  "op tid s = (if valid_tid s tid \<and> guard s tid then upd_thread (threadList s tid) (upd s) s else s)"
  by (simp add: op_acts op_refuses)

lemma op_inv: "kinv s \<Longrightarrow> kinv (op tid s)"
  by (simp add: op_cases kinv_upd_thread upd_keeps)

lemma op_frame:
  "theap (op tid s) p = (if valid_tid s tid \<and> guard s tid \<and> p = threadList s tid
     then upd s (theap s p) else theap s p)"
  by (simp add: op_cases)

lemma op_globals:
  "threadList (op tid s) = threadList s" "mheap (op tid s) = mheap s"
  "current_thread (op tid s) = current_thread s" "InitThread (op tid s) = InitThread s"
  "currentq (op tid s) = currentq s" "jiffies (op tid s) = jiffies s"
  by (simp_all add: op_cases)

lemma op_live: "live (op tid s) p = live s p"
  by (simp add: op_cases live_upd_thread upd_keeps)

end

end
