(* ===== verification/Schedi.thy ===== *)
theory Schedi
  imports Thread_State
begin

text \<open>
  \<open>sched/schedi.c\<close>: the state changes of one thread (the movements of the thread life cycle),
  the current and foreground thread, waiting, sleeping, yielding and waking up. Two functions of
  the file that only panic are kept as such; \<open>schedi_check_for_standby\<close> needs the spawn routine
  and is in the theory \<open>Dispatch\<close>. The eleven operations that validate a tid and change one thread
  interpret the contract \<open>thread_op\<close>, which gives their frame conditions and the preservation of
  the kernel invariant.
\<close>

section \<open>Credits\<close>

definition do_credits :: "ptr \<Rightarrow> kstate \<Rightarrow> kstate" where
  "do_credits thread s =
     (if thread = NULL then s
      else if th_used (theap s thread) \<noteq> TRUE then s
      else if th_magic (theap s thread) \<noteq> 1234 then s
      else upd_thread thread (\<lambda>th. th\<lparr>th_credits := th_credits th + 1\<rparr>) s)"

definition do_credits_by_tid :: "int \<Rightarrow> kstate \<Rightarrow> kstate" where
  "do_credits_by_tid tid s =
     (if tid < 0 \<or> tid \<ge> THREAD_COUNT_MAX then s
      else let thread = threadList s tid in
      if thread \<noteq> NULL then do_credits thread s else s)"

section \<open>Thread states\<close>

definition do_thread_blocked :: "int \<Rightarrow> kstate \<Rightarrow> kstate" where
  "do_thread_blocked tid s =
     (if tid < 0 \<or> tid \<ge> THREAD_COUNT_MAX then s
      else let t = threadList s tid in
      if t = NULL then s
      else if th_used (theap s t) \<noteq> TRUE then s
      else if th_magic (theap s t) \<noteq> 1234 then s
      else upd_thread t (\<lambda>th. th\<lparr>th_state := BLOCKED, th_blocked_jiffy := jiffies s\<rparr>) s)"

definition do_thread_dead :: "int \<Rightarrow> kstate \<Rightarrow> kstate" where
  "do_thread_dead tid s =
     (if tid < 0 \<or> tid \<ge> THREAD_COUNT_MAX then s
      else let t = threadList s tid in
      if t = NULL then s
      else if th_used (theap s t) \<noteq> TRUE then s
      else if th_magic (theap s t) \<noteq> 1234 then s
      else upd_thread t (\<lambda>th. th\<lparr>th_state := DEAD\<rparr>) s)"

definition do_thread_initialized :: "int \<Rightarrow> kstate \<Rightarrow> kstate" where
  "do_thread_initialized tid s =
     (if tid < 0 \<or> tid \<ge> THREAD_COUNT_MAX then s
      else let t = threadList s tid in
      if t = NULL then s
      else if th_used (theap s t) \<noteq> TRUE then s
      else if th_magic (theap s t) \<noteq> 1234 then s
      else upd_thread t (\<lambda>th. th\<lparr>th_state := INITIALIZED\<rparr>) s)"

definition do_thread_ready :: "int \<Rightarrow> kstate \<Rightarrow> kstate" where
  "do_thread_ready tid s =
     (if tid < 0 \<or> tid \<ge> THREAD_COUNT_MAX then s
      else let t = threadList s tid in
      if t = NULL then s
      else if th_used (theap s t) \<noteq> TRUE then s
      else if th_magic (theap s t) \<noteq> 1234 then s
      else upd_thread t (\<lambda>th. th\<lparr>th_state := READY, th_ready_jiffy := jiffies s\<rparr>) s)"

definition do_thread_running :: "int \<Rightarrow> kstate \<Rightarrow> kstate" where
  "do_thread_running tid s =
     (if tid < 0 \<or> tid \<ge> THREAD_COUNT_MAX then s
      else let t = threadList s tid in
      if t = NULL then s
      else if th_used (theap s t) = TRUE \<and> th_magic (theap s t) = 1234
      then upd_thread t (\<lambda>th. th\<lparr>th_state := RUNNING\<rparr>) s
      else s)"

definition do_thread_standby :: "int \<Rightarrow> kstate \<Rightarrow> kstate" where
  "do_thread_standby tid s =
     (if tid < 0 \<or> tid \<ge> THREAD_COUNT_MAX then s
      else let t = threadList s tid in
      if t = NULL then s
      else if th_used (theap s t) \<noteq> TRUE then s
      else if th_magic (theap s t) \<noteq> 1234 then s
      else upd_thread t (\<lambda>th. th\<lparr>th_state := STANDBY\<rparr>) s)"

definition do_thread_waiting :: "int \<Rightarrow> u64 \<Rightarrow> kstate \<Rightarrow> kstate" where
  "do_thread_waiting tid ms s =
     (if tid < 0 \<or> tid \<ge> THREAD_COUNT_MAX then s
      else let t = threadList s tid in
      if t = NULL then s
      else if th_used (theap s t) \<noteq> TRUE then s
      else if th_magic (theap s t) \<noteq> 1234 then s
      else let JiffiesToWait = (if ms = 0 then 1 else ms)
      in upd_thread t (\<lambda>th. th\<lparr>th_state := WAITING, th_waiting_jiffy := jiffies s,
           th_wake_jiffy := jiffies s + JiffiesToWait\<rparr>) s)"

definition do_thread_zombie :: "int \<Rightarrow> kstate \<Rightarrow> kstate" where
  "do_thread_zombie tid s =
     (if tid < 0 \<or> tid \<ge> THREAD_COUNT_MAX then s
      else let t = threadList s tid in
      if t = NULL then s
      else if th_used (theap s t) \<noteq> TRUE then s
      else if th_magic (theap s t) \<noteq> 1234 then s
      else if tid = INIT_TID then s
      else upd_thread t (\<lambda>th. th\<lparr>th_state := ZOMBIE, th_zombie_jiffy := jiffies s\<rparr>) s)"

section \<open>Waiting for a child\<close>

text \<open>
  \<open>do_waitpid\<close> indexes \<open>teList\<close> with the current pid without a range test and dereferences
  \<open>p->flower\<close> without a test; both are faults of the model. The result is always -1.
\<close>

definition do_waitpid :: "int \<Rightarrow> int \<Rightarrow> kstate \<Rightarrow> int kres" where
  "do_waitpid pid options s =
     (let current_process = current_pid s in
      if current_process < 0 \<or> current_process \<ge> PROCESS_COUNT_MAX then Fault ''teList''
      else let p = teList s current_process in
      if p = NULL then Ok (-1) s
      else if te_used (pheap s p) = TRUE \<and> te_magic (pheap s p) = 1234 then
        (let s1 = upd_te p (\<lambda>e. e\<lparr>te_state := PROCESS_BLOCKED, te_wait4pid := pid\<rparr>) s;
             flower = te_flower (pheap s p)
         in if flower = NULL then Fault ''p->flower''
            else Ok (-1) (upd_thread flower (\<lambda>th. th\<lparr>th_state := BLOCKED\<rparr>) s1))
      else Ok (-1) s)"

section \<open>Selection for execution\<close>

definition schediSelectForExecution :: "ptr \<Rightarrow> kstate \<Rightarrow> kstate" where
  "schediSelectForExecution Thread s =
     (if Thread = NULL then s
      else upd_thread Thread (\<lambda>th. th\<lparr>th_state := STANDBY, th_standbyCount := 0\<rparr>) s)"

definition get_current_thread :: "kstate \<Rightarrow> int" where
  "get_current_thread s = current_thread s"

definition set_current_thread :: "int \<Rightarrow> kstate \<Rightarrow> kstate" where
  "set_current_thread tid s =
     (if tid < 0 \<or> tid \<ge> THREAD_COUNT_MAX then s
      else if tid = current_thread s then s
      else let t = threadList s tid in
      if t = NULL then s
      else if th_used (theap s t) \<noteq> TRUE then s
      else if th_magic (theap s t) \<noteq> 1234 then s
      else s\<lparr>current_thread := tid\<rparr>)"

definition set_foreground_thread :: "int \<Rightarrow> kstate \<Rightarrow> kstate" where
  "set_foreground_thread tid s =
     (if tid < 0 \<or> tid \<ge> THREAD_COUNT_MAX then s
      else if tid = foreground_thread s then s
      else let t = threadList s tid in
      if t = NULL then s
      else if th_used (theap s t) \<noteq> TRUE then s
      else if th_magic (theap s t) \<noteq> 1234 then s
      else s\<lparr>foreground_thread := tid\<rparr>)"

section \<open>Waiting and waking up\<close>

definition wait_for_a_reason :: "int \<Rightarrow> int \<Rightarrow> kstate \<Rightarrow> kstate" where
  "wait_for_a_reason tid reason s =
     (if tid < 0 \<or> tid \<ge> THREAD_COUNT_MAX then s
      else if reason < 0 \<or> reason \<ge> 10 then s
      else let t = threadList s tid in
      if t = NULL then s
      else if th_used (theap s t) = TRUE \<and> th_magic (theap s t) = 1234
      then upd_thread t (\<lambda>th. th\<lparr>th_state := WAITING\<rparr>) s
      else s)"

definition wakeup_thread_reason :: "int \<Rightarrow> int \<Rightarrow> kstate \<Rightarrow> int kres" where
  "wakeup_thread_reason tid reason s = Panic ''wakeup_thread_reason: #todo''"

definition wakeup_scan_thread_reason :: "int \<Rightarrow> kstate \<Rightarrow> int kres" where
  "wakeup_scan_thread_reason reason s = Panic ''wakeup_scan_thread_reason: #todo''"

definition wakeup_thread :: "int \<Rightarrow> kstate \<Rightarrow> kstate" where
  "wakeup_thread tid s =
     (if tid < 0 \<or> tid \<ge> THREAD_COUNT_MAX then s
      else let t = threadList s tid in
      if t = NULL then s
      else if th_used (theap s t) \<noteq> TRUE then s
      else if th_magic (theap s t) \<noteq> 1234 then s
      else if th_saved (theap s t) = FALSE then s
      else if th_state (theap s t) = READY then s
      else if th_state (theap s t) = RUNNING then s
      else if th_state (theap s t) = BLOCKED then s
      else do_thread_ready tid s)"

definition yield :: "int \<Rightarrow> kstate \<Rightarrow> kstate" where
  "yield tid s =
     (if tid < 0 \<or> tid \<ge> THREAD_COUNT_MAX then s
      else let t = threadList s tid in
      if t = NULL then s
      else if th_used (theap s t) \<noteq> TRUE \<or> th_magic (theap s t) \<noteq> 1234 then s
      else upd_thread t (\<lambda>th. th\<lparr>th_Deferred := (th_Deferred th)\<lparr>yield_in_progress := TRUE\<rparr>\<rparr>) s)"

definition sleep_until :: "int \<Rightarrow> u64 \<Rightarrow> kstate \<Rightarrow> kstate" where
  "sleep_until tid ms s =
     (if tid < 0 \<or> tid \<ge> THREAD_COUNT_MAX then s
      else let ms = (if ms = 0 then 1 else ms) in do_thread_waiting tid ms s)"

definition sleep :: "int \<Rightarrow> u64 \<Rightarrow> kstate \<Rightarrow> kstate" where
  "sleep tid ms s =
     (if tid < 0 \<or> tid \<ge> THREAD_COUNT_MAX then s
      else let t = threadList s tid in
      if t = NULL then s
      else if th_used (theap s t) \<noteq> TRUE \<or> th_magic (theap s t) \<noteq> 1234 then s
      else upd_thread t (\<lambda>th. th\<lparr>th_Deferred :=
             (th_Deferred th)\<lparr>sleep_in_progress := TRUE, desired_sleep_ms := ms\<rparr>\<rparr>) s)"

definition schedi_drop_quantum :: "ptr \<Rightarrow> kstate \<Rightarrow> kstate" where
  "schedi_drop_quantum thread s =
     (if thread = NULL then s
      else if th_magic (theap s thread) \<noteq> 1234 then s
      else upd_thread thread (\<lambda>th. th\<lparr>th_quantum := QUANTUM_MIN\<rparr>) s)"

section \<open>The contract, met by the operations of this file\<close>

lemmas thread_op_unfold = valid_tid_def tid_in_range_def live_def th_keeps_def Let_def

interpretation blocked: thread_op "do_thread_blocked"
  "\<lambda>s th. th\<lparr>th_state := BLOCKED, th_blocked_jiffy := jiffies s\<rparr>" "\<lambda>s tid. True"
  by unfold_locales (auto simp: do_thread_blocked_def thread_op_unfold)

interpretation dead: thread_op "do_thread_dead"
  "\<lambda>s th. th\<lparr>th_state := DEAD\<rparr>" "\<lambda>s tid. True"
  by unfold_locales (auto simp: do_thread_dead_def thread_op_unfold)

interpretation initialized: thread_op "do_thread_initialized"
  "\<lambda>s th. th\<lparr>th_state := INITIALIZED\<rparr>" "\<lambda>s tid. True"
  by unfold_locales (auto simp: do_thread_initialized_def thread_op_unfold)

interpretation ready: thread_op "do_thread_ready"
  "\<lambda>s th. th\<lparr>th_state := READY, th_ready_jiffy := jiffies s\<rparr>" "\<lambda>s tid. True"
  by unfold_locales (auto simp: do_thread_ready_def thread_op_unfold)

interpretation running: thread_op "do_thread_running"
  "\<lambda>s th. th\<lparr>th_state := RUNNING\<rparr>" "\<lambda>s tid. True"
  by unfold_locales (auto simp: do_thread_running_def thread_op_unfold)

interpretation standby: thread_op "do_thread_standby"
  "\<lambda>s th. th\<lparr>th_state := STANDBY\<rparr>" "\<lambda>s tid. True"
  by unfold_locales (auto simp: do_thread_standby_def thread_op_unfold)

interpretation waiting: thread_op "\<lambda>tid. do_thread_waiting tid ms"
  "\<lambda>s th. th\<lparr>th_state := WAITING, th_waiting_jiffy := jiffies s,
     th_wake_jiffy := jiffies s + (if ms = 0 then 1 else ms)\<rparr>" "\<lambda>s tid. True"
  by unfold_locales (auto simp: do_thread_waiting_def thread_op_unfold)

interpretation zombie: thread_op "do_thread_zombie"
  "\<lambda>s th. th\<lparr>th_state := ZOMBIE, th_zombie_jiffy := jiffies s\<rparr>" "\<lambda>s tid. tid \<noteq> INIT_TID"
  by unfold_locales (auto simp: do_thread_zombie_def thread_op_unfold)

interpretation credits: thread_op "do_credits_by_tid"
  "\<lambda>s th. th\<lparr>th_credits := th_credits th + 1\<rparr>" "\<lambda>s tid. True"
  by unfold_locales (auto simp: do_credits_by_tid_def do_credits_def thread_op_unfold)

interpretation reason: thread_op "\<lambda>tid. wait_for_a_reason tid reason"
  "\<lambda>s th. th\<lparr>th_state := WAITING\<rparr>" "\<lambda>s tid. 0 \<le> reason \<and> reason < 10"
  by unfold_locales (auto simp: wait_for_a_reason_def thread_op_unfold)

interpretation wakeup: thread_op "wakeup_thread"
  "\<lambda>s th. th\<lparr>th_state := READY, th_ready_jiffy := jiffies s\<rparr>" "\<lambda>s tid. th_saved (theap s (threadList s tid)) \<noteq> FALSE \<and>
     th_state (theap s (threadList s tid)) \<notin> {READY, RUNNING, BLOCKED}"
  by unfold_locales (auto simp: wakeup_thread_def do_thread_ready_def thread_op_unfold)

interpretation yield: thread_op "yield"
  "\<lambda>s th. th\<lparr>th_Deferred := (th_Deferred th)\<lparr>yield_in_progress := TRUE\<rparr>\<rparr>" "\<lambda>s tid. True"
  by unfold_locales (auto simp: yield_def thread_op_unfold)

interpretation sleep: thread_op "\<lambda>tid. sleep tid ms"
  "\<lambda>s th. th\<lparr>th_Deferred := (th_Deferred th)\<lparr>sleep_in_progress := TRUE, desired_sleep_ms := ms\<rparr>\<rparr>" "\<lambda>s tid. True"
  by unfold_locales (auto simp: sleep_def thread_op_unfold)

lemmas schedi_inv [kernel_inv] = blocked.op_inv dead.op_inv initialized.op_inv ready.op_inv
  running.op_inv standby.op_inv waiting.op_inv zombie.op_inv credits.op_inv reason.op_inv
  wakeup.op_inv yield.op_inv sleep.op_inv

lemma do_credits_inv [kernel_inv]: "kinv s \<Longrightarrow> kinv (do_credits p s)"
  by (simp add: do_credits_def kinv_upd_thread th_keeps_def)

lemma set_current_thread_inv [kernel_inv]: "kinv s \<Longrightarrow> kinv (set_current_thread tid s)"
  by (simp add: set_current_thread_def Let_def)

lemma set_foreground_thread_inv [kernel_inv]: "kinv s \<Longrightarrow> kinv (set_foreground_thread tid s)"
  by (simp add: set_foreground_thread_def Let_def)

lemma sleep_until_waiting: "tid_in_range tid \<Longrightarrow> sleep_until tid ms s = do_thread_waiting tid ms s"
  by (auto simp: sleep_until_def do_thread_waiting_def tid_in_range_def Let_def)

lemma schediSelectForExecution_inv [kernel_inv]: "kinv s \<Longrightarrow> kinv (schediSelectForExecution p s)"
  by (simp add: schediSelectForExecution_def kinv_upd_thread th_keeps_def)

lemma do_waitpid_inv [kernel_inv]:
  assumes "kinv s" and "do_waitpid pid options s = Ok r s'"
  shows "kinv s'"
proof -
  have te: "kinv (upd_te p (\<lambda>e. e\<lparr>te_state := x, te_wait4pid := y\<rparr>) s)" for p x y
  proof -
    have "te_valid (upd_te p (\<lambda>e. e\<lparr>te_state := x, te_wait4pid := y\<rparr>) s) pid = te_valid s pid" for pid
      by (simp add: te_valid_def)
    with assms(1) show ?thesis by (simp add: kinv_defs msg_ok_def)
  qed
  from assms show ?thesis
    by (auto simp: do_waitpid_def Let_def te kinv_upd_thread th_keeps_def split: if_splits)
qed

end
