(* ===== verification/Tlib.thy ===== *)
theory Tlib
  imports Schedi
begin

text \<open>
  \<open>tlib.c\<close>: linking threads, priorities, releasing, and the reaping of zombie threads.
  \<open>kill_thread\<close> panics on entry in this revision; the code after the call of \<open>panic\<close> is kept
  in the definition, where it is not reached. The functions that only print are not modelled.
\<close>

section \<open>Linked threads\<close>

definition link_two_threads :: "ptr \<Rightarrow> ptr \<Rightarrow> kstate \<Rightarrow> int \<times> kstate" where
  "link_two_threads primary secondary s =
     (if primary = NULL then (-1, s)
      else if th_magic (theap s primary) \<noteq> 1234 then (-1, s)
      else if secondary = NULL then (-1, s)
      else if th_magic (theap s secondary) \<noteq> 1234 then (-1, s)
      else (0, upd_thread secondary (\<lambda>th. th\<lparr>th_link := primary, th_is_linked := TRUE\<rparr>)
             (upd_thread primary (\<lambda>th. th\<lparr>th_link := secondary, th_is_linked := TRUE\<rparr>) s)))"

definition unlink_two_threads :: "ptr \<Rightarrow> ptr \<Rightarrow> kstate \<Rightarrow> int \<times> kstate" where
  "unlink_two_threads primary secondary s =
     (if primary = NULL then (-1, s)
      else if th_magic (theap s primary) \<noteq> 1234 then (-1, s)
      else if secondary = NULL then (-1, s)
      else if th_magic (theap s secondary) \<noteq> 1234 then (-1, s)
      else (0, upd_thread secondary (\<lambda>th. th\<lparr>th_link := NULL, th_is_linked := FALSE\<rparr>)
             (upd_thread primary (\<lambda>th. th\<lparr>th_link := NULL, th_is_linked := FALSE\<rparr>) s)))"

section \<open>Priorities\<close>

definition clamp_quantum :: "thread_d \<Rightarrow> thread_d" where
  "clamp_quantum th =
     (let th1 = (if th_quantum th < QUANTUM_MIN then th\<lparr>th_quantum := QUANTUM_MIN\<rparr> else th)
      in if th_quantum th1 > QUANTUM_MAX then th1\<lparr>th_quantum := QUANTUM_MAX\<rparr> else th1)"

definition set_thread_priority :: "ptr \<Rightarrow> u64 \<Rightarrow> kstate \<Rightarrow> kstate" where
  "set_thread_priority t priority s =
     (if priority < PRIORITY_MIN then s
      else if priority > PRIORITY_MAX then s
      else if t = NULL then s
      else if th_used (theap s t) \<noteq> TRUE \<or> th_magic (theap s t) \<noteq> 1234 then s
      else let OldPriority = th_priority (theap s t); BasePriority = th_base_priority (theap s t) in
      if priority = OldPriority then s
      else if priority < BasePriority then s
      else let s1 = (if priority > PRIORITY_MAX
                     then upd_thread t (\<lambda>th. th\<lparr>th_priority := PRIORITY_MAX\<rparr>) s else s);
               s2 = (if priority \<noteq> OldPriority
                     then upd_thread t (\<lambda>th. th\<lparr>th_priority := priority\<rparr>) s1 else s1)
           in upd_thread t clamp_quantum s2)"

text \<open>
  The limits are tested on \<open>t->priority\<close> right after it was set to PRIORITY_MAX, so the
  requested priority is always taken.
\<close>

definition threadi_power :: "ptr \<Rightarrow> u64 \<Rightarrow> kstate \<Rightarrow> kstate" where
  "threadi_power t priority s =
     (if t = NULL then s
      else if th_used (theap s t) \<noteq> TRUE \<or> th_magic (theap s t) \<noteq> 1234 then s
      else let s1 = upd_thread t (\<lambda>th. th\<lparr>th_priority := PRIORITY_MAX\<rparr>) s;
               s2 = (if th_priority (theap s1 t) \<ge> PRIORITY_MIN \<and> th_priority (theap s1 t) \<le> PRIORITY_MAX
                     then upd_thread t (\<lambda>th. th\<lparr>th_priority := priority\<rparr>) s1 else s1)
           in upd_thread t (\<lambda>th. th\<lparr>th_quantum := QUANTUM_MAX\<rparr>) s2)"

definition release :: "int \<Rightarrow> kstate \<Rightarrow> kstate" where
  "release tid s = (if tid < 0 \<or> tid \<ge> THREAD_COUNT_MAX then s else do_thread_ready tid s)"

definition SetThread_PML4PA :: "ptr \<Rightarrow> u64 \<Rightarrow> kstate \<Rightarrow> kstate" where
  "SetThread_PML4PA thread pa s =
     (if thread = NULL then s else upd_thread thread (\<lambda>th. th\<lparr>th_pml4_PA := pa\<rparr>) s)"

section \<open>Zombies\<close>

definition check_for_dead_thread_collector :: "kstate \<Rightarrow> kstate" where
  "check_for_dead_thread_collector s =
     (if dead_thread_collector_flag s = 1 then s else s\<lparr>dead_thread_collector_flag := FALSE\<rparr>)"

definition kill_thread :: "int \<Rightarrow> kstate \<Rightarrow> unit kres" where
  "kill_thread tid s =
     bindR (Panic ''kill_thread: #debug'' :: unit kres) (\<lambda>_ s.
       if tid = INIT_TID then Ok () s
       else if tid < 0 then Ok () s
       else if tid \<ge> THREAD_COUNT_MAX then Ok () s
       else let t = threadList s tid in
       if t = NULL then Ok () s
       else if th_used (theap s t) \<noteq> TRUE then Ok () s
       else if th_magic (theap s t) \<noteq> 1234 then Ok () s
       else if th_state (theap s t) \<noteq> ZOMBIE then Ok () s
       else Ok () (upd_thread t (\<lambda>th. th\<lparr>th_state := DEAD, th_magic := 4321\<rparr>) s))"

definition all_tids :: "int list" where
  "all_tids = [0 .. THREAD_COUNT_MAX - 1]"

definition dead_thread_collector :: "kstate \<Rightarrow> unit kres" where
  "dead_thread_collector s =
     (let Idle = up_IdleThread (UPProcessorBlock s) in
      if Idle = NULL then Panic ''dead_thread_collector: Idle''
      else if th_magic (theap s Idle) \<noteq> 1234 then Panic ''dead_thread_collector: Idle validation''
      else foldR (\<lambda>i s. let Target = threadList s i in
             if Target \<noteq> NULL \<and> th_state (theap s Target) = ZOMBIE \<and>
                th_used (theap s Target) = TRUE \<and> th_magic (theap s Target) = 1234
             then if Target = Idle then Panic ''dead_thread_collector: We can't kill the Idle thread!''
               else if th_tid (theap s Target) = current_thread s
               then Panic ''dead_thread_collector: We can't kill the current_thread!''
               else kill_thread (th_tid (theap s Target)) s
             else Ok () s) all_tids s)"

definition kill_all_threads :: "kstate \<Rightarrow> unit kres" where
  "kill_all_threads s = foldR (\<lambda>i s. kill_thread i s) (tl all_tids) s"

definition kill_zombie_threads :: "kstate \<Rightarrow> unit kres" where
  "kill_zombie_threads s =
     foldR (\<lambda>i s. let t = threadList s i in
       if t \<noteq> NULL \<and> th_used (theap s t) = TRUE \<and> th_magic (theap s t) = 1234 \<and>
          th_state (theap s t) = ZOMBIE
       then kill_thread (th_tid (theap s t)) s else Ok () s) all_tids s"

section \<open>Lemmas\<close>

lemma set_all_tids: "i \<in> set all_tids \<longleftrightarrow> tid_in_range i"
  by (auto simp: all_tids_def tid_in_range_def)

lemma foldR_idle: "(\<And>x. x \<in> set xs \<Longrightarrow> f x s = Ok () s) \<Longrightarrow> foldR f xs s = Ok () s"
  by (induction xs) auto

lemma set_thread_priority_inv [kernel_inv]: "kinv s \<Longrightarrow> kinv (set_thread_priority t p s)"
  by (simp add: set_thread_priority_def Let_def kinv_upd_thread th_keeps_def clamp_quantum_def)

lemma link_two_threads_inv [kernel_inv]: "kinv s \<Longrightarrow> kinv (snd (link_two_threads p q s))"
  by (simp add: link_two_threads_def kinv_upd_thread th_keeps_def)

lemma unlink_two_threads_inv [kernel_inv]: "kinv s \<Longrightarrow> kinv (snd (unlink_two_threads p q s))"
  by (simp add: unlink_two_threads_def kinv_upd_thread th_keeps_def)

lemma check_for_dead_thread_collector_frame [simp]:
  "theap (check_for_dead_thread_collector s) = theap s"
  "kinv (check_for_dead_thread_collector s) = kinv s"
  by (simp_all add: check_for_dead_thread_collector_def)

end
