(* ===== verification/Schedq.thy ===== *)
theory Schedq
  imports Thread_State
begin

text \<open>
  \<open>sched/schedq.c\<close>: the table of the heads of the priority queues and the queue that the task
  switch walks. Index 0 is the default queue, whose head is also \<open>currentq\<close>. The locale
  \<open>head_table\<close> is what the round builders rely on: a stored head is read back, other heads are
  kept.
\<close>

section \<open>Operations\<close>

definition set_currentq :: "ptr \<Rightarrow> kstate \<Rightarrow> int \<times> kstate" where
  "set_currentq thread s =
     (if thread = NULL then (-1, s)
      else if th_used (theap s thread) \<noteq> TRUE then (-1, s)
      else if th_magic (theap s thread) \<noteq> 1234 then (-1, s)
      else (0, s\<lparr>currentq := thread\<rparr>))"

definition get_currentq :: "kstate \<Rightarrow> ptr" where
  "get_currentq s = currentq s"

text \<open>The test for the queues P1 to P6 is a disjunction in the source, so it is always true.\<close>

definition qlist_set_element :: "int \<Rightarrow> ptr \<Rightarrow> kstate \<Rightarrow> int \<times> kstate" where
  "qlist_set_element index head_thread s =
     (if index < 0 \<or> index \<ge> SCHEQ_QUEUE_COUNT_MAX then (-1, s)
      else if head_thread = NULL then (-1, s)
      else if index = 0 then
        (0, s\<lparr>qList := (qList s)(0 := head_thread), currentq := head_thread\<rparr>)
      else if index \<ge> 1 \<or> index \<le> 6 then
        (0, s\<lparr>qList := (qList s)(index := head_thread)\<rparr>)
      else (-1, s))"

definition qlist_get_element :: "int \<Rightarrow> kstate \<Rightarrow> ptr" where
  "qlist_get_element index s =
     (if index < 0 \<or> index \<ge> SCHEQ_QUEUE_COUNT_MAX then NULL
      else if index = 0 then qList s 0
      else if index \<ge> 1 \<or> index \<le> 6 then qList s index
      else NULL)"

definition qlist_initialize :: "kstate \<Rightarrow> int \<times> kstate" where
  "qlist_initialize s =
     (0, fold (\<lambda>i s. s\<lparr>qList := (qList s)(i := NULL)\<rparr>) [0 .. SCHEQ_QUEUE_COUNT_MAX - 1] s)"

section \<open>The contract of the table\<close>

locale head_table =
  fixes set_head :: "int \<Rightarrow> ptr \<Rightarrow> 's \<Rightarrow> int \<times> 's"
    and get_head :: "int \<Rightarrow> 's \<Rightarrow> ptr"
    and index_ok :: "int \<Rightarrow> bool"
  assumes set_ok: "index_ok i \<Longrightarrow> p \<noteq> NULL \<Longrightarrow> fst (set_head i p s) = 0"
    and set_refused: "\<not> index_ok i \<or> p = NULL \<Longrightarrow> set_head i p s = (-1, s)"
    and get_same: "index_ok i \<Longrightarrow> p \<noteq> NULL \<Longrightarrow> get_head i (snd (set_head i p s)) = p"
    and get_other: "i \<noteq> j \<Longrightarrow> get_head j (snd (set_head i p s)) = get_head j s"
begin

lemma set_list_get:
  assumes "p \<noteq> NULL" and "\<forall>i \<in> set is. index_ok i"
  shows "get_head j (fold (\<lambda>i s. snd (set_head i p s)) is s) =
    (if j \<in> set is then p else get_head j s)"
  using assms(2)
proof (induction "is" arbitrary: s)
  case (Cons i "is")
  with assms(1) show ?case
    by (cases "j \<in> set is"; cases "i = j") (simp_all add: get_same get_other)
qed simp

end

interpretation qlist: head_table qlist_set_element qlist_get_element
  "\<lambda>i. 0 \<le> i \<and> i < SCHEQ_QUEUE_COUNT_MAX"
  by unfold_locales (auto simp: qlist_set_element_def qlist_get_element_def)

lemma qlist_set_element_inv [kernel_inv]: "kinv s \<Longrightarrow> kinv (snd (qlist_set_element i p s))"
  by (simp add: qlist_set_element_def)

lemma qlist_set_element_frame [kernel_frame]:
  "theap (snd (qlist_set_element i p s)) = theap s"
  "threadList (snd (qlist_set_element i p s)) = threadList s"
  by (simp_all add: qlist_set_element_def)

section \<open>One thread as the head of all queues\<close>

text \<open>Both policies start by making the init thread the head of the six priority queues.\<close>

definition set_queue_heads :: "ptr \<Rightarrow> kstate \<Rightarrow> kstate" where
  "set_queue_heads Init s0 =
     (let s1 = snd (qlist_set_element 1 Init (s0\<lparr>p1q := Init\<rparr>));
          s2 = snd (qlist_set_element 2 Init (s1\<lparr>p2q := Init\<rparr>));
          s3 = snd (qlist_set_element 3 Init (s2\<lparr>p3q := Init\<rparr>));
          s4 = snd (qlist_set_element 4 Init (s3\<lparr>p4q := Init\<rparr>));
          s5 = snd (qlist_set_element 5 Init (s4\<lparr>p5q := Init\<rparr>))
      in snd (qlist_set_element 6 Init (s5\<lparr>p6q := Init\<rparr>)))"

lemma set_queue_heads_eq:
  assumes "I \<noteq> NULL"
  shows "set_queue_heads I s = s\<lparr>p1q := I, p2q := I, p3q := I, p4q := I, p5q := I, p6q := I,
    qList := (qList s)(1 := I, 2 := I, 3 := I, 4 := I, 5 := I, 6 := I)\<rparr>"
  using assms by (simp add: set_queue_heads_def qlist_set_element_def SCHEQ_QUEUE_COUNT_MAX_def)

end
