(* ===== verification/Sched.thy ===== *)
theory Sched
  imports Tlib Schedq
begin

text \<open>
  \<open>sched/sched.c\<close>, the part without the round builders: the event responder, the scheduler lock,
  the load balancer, the boosts of the quantum, \<open>nice\<close>, \<open>sleep\<close>, \<open>yield\<close> and the
  initialisation. The round builders are in the theories \<open>Round_RR\<close> and \<open>Round_Stage\<close>.
\<close>

section \<open>The init thread and the queue\<close>

definition get_init_thread :: "kstate \<Rightarrow> ptr" where
  "get_init_thread s = InitThread s"

definition get_next_on_queue_or_the_init_thread :: "ptr \<Rightarrow> kstate \<Rightarrow> ptr" where
  "get_next_on_queue_or_the_init_thread q s =
     (if q = NULL then InitThread s
      else if th_used (theap s q) \<noteq> TRUE then InitThread s
      else if th_magic (theap s q) \<noteq> 1234 then InitThread s
      else let nxt = th_next (theap s q) in
      if nxt = NULL then InitThread s
      else if th_used (theap s nxt) \<noteq> TRUE then InitThread s
      else if th_magic (theap s nxt) \<noteq> 1234 then InitThread s
      else nxt)"

definition sched_quick_and_dirty_load_balancer :: "kstate \<Rightarrow> kstate" where
  "sched_quick_and_dirty_load_balancer s =
     (let ReadyCount = si_rr_ready_threads_in_round (SchedulerInfo s) in
      if InitThread s = NULL then s
      else if th_used (theap s (InitThread s)) \<noteq> TRUE \<or> th_magic (theap s (InitThread s)) \<noteq> 1234 then s
      else if ReadyCount > 3
      then upd_thread (InitThread s) (\<lambda>th. th\<lparr>th_quantum := QUANTUM_NORMAL_THRESHOLD\<rparr>) s
      else upd_thread (InitThread s) (\<lambda>th. th\<lparr>th_quantum := QUANTUM_NORMAL_BALANCED\<rparr>) s)"

section \<open>The event responder\<close>

definition get_ev_responter :: "kstate \<Rightarrow> ptr" where
  "get_ev_responter s =
     (if g_use_event_responder s \<noteq> TRUE then NULL
      else if ev_responder_thread s = NULL then NULL
      else if th_used (theap s (ev_responder_thread s)) \<noteq> TRUE then NULL
      else if th_magic (theap s (ev_responder_thread s)) \<noteq> 1234 then NULL
      else ev_responder_thread s)"

definition set_ev_responder :: "ptr \<Rightarrow> kstate \<Rightarrow> int \<times> kstate" where
  "set_ev_responder thread s =
     (if thread = NULL then (-1, s)
      else if th_used (theap s thread) \<noteq> TRUE then (-1, s)
      else if th_magic (theap s thread) \<noteq> 1234 then (-1, s)
      else (0, upd_thread thread (\<lambda>th. th\<lparr>th_quantum := QUANTUM_MAX, th_priority := PRIORITY_MAX\<rparr>)
             (s\<lparr>ev_responder_thread := thread\<rparr>)))"

definition has_pending_event :: "ptr \<Rightarrow> kstate \<Rightarrow> int \<times> kstate" where
  "has_pending_event thread s =
     (if thread = NULL then (FALSE, s)
      else if th_used (theap s thread) \<noteq> TRUE then (FALSE, s)
      else if th_magic (theap s thread) \<noteq> 1234 then (FALSE, s)
      else if th_has_pending_event (theap s thread) = TRUE then (TRUE, s)
      else (FALSE, upd_thread thread (\<lambda>th. th\<lparr>th_has_pending_event := FALSE\<rparr>) s))"

section \<open>The lock\<close>

definition scheduler_lock :: "kstate \<Rightarrow> kstate" where
  "scheduler_lock s = s\<lparr>SchedulerInfo := (SchedulerInfo s)\<lparr>si_is_locked := LOCKED\<rparr>\<rparr>"

definition scheduler_unlock :: "kstate \<Rightarrow> kstate" where
  "scheduler_unlock s = s\<lparr>SchedulerInfo := (SchedulerInfo s)\<lparr>si_is_locked := UNLOCKED\<rparr>\<rparr>"

definition is_scheduler_locked :: "kstate \<Rightarrow> int" where
  "is_scheduler_locked s = si_is_locked (SchedulerInfo s)"

section \<open>Cutting a round\<close>

definition sched_cut_round :: "ptr \<Rightarrow> kstate \<Rightarrow> kstate" where
  "sched_cut_round last_thread s =
     (if last_thread = NULL then s
      else if th_used (theap s last_thread) \<noteq> TRUE \<or> th_magic (theap s last_thread) \<noteq> 1234 then s
      else if current_thread s < 0 \<or> current_thread s \<ge> THREAD_COUNT_MAX then s
      else let Current = threadList s (current_thread s) in
      if Current = NULL then s
      else if th_used (theap s Current) \<noteq> TRUE \<or> th_magic (theap s Current) \<noteq> 1234 then s
      else upd_thread last_thread (\<lambda>th. th\<lparr>th_next := NULL\<rparr>)
             (upd_thread Current (\<lambda>th. th\<lparr>th_next := last_thread\<rparr>) s))"

section \<open>Counting and boosting\<close>

definition sched_count_active_threads :: "kstate \<Rightarrow> u64" where
  "sched_count_active_threads s =
     fold (\<lambda>i Counter. let t = threadList s i in
       if t \<noteq> NULL \<and> th_used (theap s t) = TRUE \<and> th_magic (theap s t) = 1234 \<and>
          (th_state (theap s t) = READY \<or> th_state (theap s t) = RUNNING)
       then Counter + 1 else Counter) all_tids 0"

definition sched_boost_ds_thread :: "kstate \<Rightarrow> kstate" where
  "sched_boost_ds_thread s =
     (if ds_initialized (DisplayServerInfo s) \<noteq> TRUE then s
      else let target_tid = ds_tid (DisplayServerInfo s) in
      if target_tid < 0 \<or> target_tid \<ge> THREAD_COUNT_MAX then s
      else let t = threadList s target_tid in
      if t = NULL then s
      else if th_used (theap s t) \<noteq> TRUE \<or> th_magic (theap s t) \<noteq> 1234 then s
      else upd_thread t (\<lambda>th. th\<lparr>th_quantum := QUANTUM_SYSTEM_TIME_CRITICAL\<rparr>) s)"

definition sched_boost_foreground_thread :: "kstate \<Rightarrow> kstate" where
  "sched_boost_foreground_thread s =
     (let target_tid = foreground_thread s in
      if target_tid < 0 \<or> target_tid \<ge> THREAD_COUNT_MAX then s
      else let t = threadList s target_tid in
      if t = NULL then s
      else if th_used (theap s t) \<noteq> TRUE \<or> th_magic (theap s t) \<noteq> 1234 then s
      else upd_thread t (\<lambda>th. th\<lparr>th_quantum := QUANTUM_SYSTEM_TIME_CRITICAL\<rparr>) s)"

definition sched_lower_current_thread :: "kstate \<Rightarrow> kstate" where
  "sched_lower_current_thread s =
     (let target_tid = current_thread s in
      if target_tid < 0 \<or> target_tid \<ge> THREAD_COUNT_MAX then s
      else let t = threadList s target_tid in
      if t = NULL then s
      else if th_used (theap s t) \<noteq> TRUE \<or> th_magic (theap s t) \<noteq> 1234 then s
      else upd_thread t (\<lambda>th. th\<lparr>th_quantum := QUANTUM_NORMAL_THRESHOLD\<rparr>) s)"

section \<open>System calls\<close>

text \<open>The subtraction is on \<open>unsigned long\<close> and wraps around.\<close>

definition sys_nice :: "u64 \<Rightarrow> kstate \<Rightarrow> kstate" where
  "sys_nice decrement s =
     (let target_tid = current_thread s in
      if decrement = 0 then s
      else if target_tid < 0 \<or> target_tid \<ge> THREAD_COUNT_MAX then s
      else let t = threadList s target_tid in
      if t = NULL then s
      else if th_used (theap s t) \<noteq> TRUE \<or> th_magic (theap s t) \<noteq> 1234 then s
      else let DesiredPriority = th_priority (theap s t) - decrement;
               s1 = (if DesiredPriority < th_base_priority (theap s t)
                     then upd_thread t (\<lambda>th. th\<lparr>th_priority := th_base_priority th\<rparr>) s else s)
           in if DesiredPriority \<ge> th_base_priority (theap s1 t)
              then upd_thread t (\<lambda>th. th\<lparr>th_priority := DesiredPriority\<rparr>) s1 else s1)"

definition sys_sleep :: "int \<Rightarrow> u64 \<Rightarrow> kstate \<Rightarrow> kstate" where
  "sys_sleep tid ms s =
     (if tid < 0 \<or> tid \<ge> THREAD_COUNT_MAX then s
      else if ms = 0 then s
      else sleep tid ms s)"

definition sys_yield :: "int \<Rightarrow> kstate \<Rightarrow> kstate" where
  "sys_yield tid s = (if tid < 0 \<or> tid \<ge> THREAD_COUNT_MAX then s else yield tid s)"

section \<open>Initialisation\<close>

text \<open>\<open>CONFIG_CURRENT_SCHEDULING_POLICY\<close> is the round robin policy (config.h).\<close>

definition init_scheduler :: "u64 \<Rightarrow> kstate \<Rightarrow> int \<times> kstate" where
  "init_scheduler sched_flags s =
     (let s1 = s\<lparr>SchedulerInfo := (SchedulerInfo s)\<lparr>si_initialized := FALSE\<rparr>\<rparr>;
          s2 = snd (qlist_initialize (scheduler_lock s1));
          s3 = s2\<lparr>SchedulerInfo := (SchedulerInfo s2)
                   \<lparr>si_policy := SCHED_POLICY_RR, si_rr_round_counter := 0,
                    si_rr_ready_threads_in_round := 0, si_stage := 0, si_max_stage := 6\<rparr>,
                  stage_selection_count := (stage_selection_count s2)
                    (0 := 0, 1 := 0, 2 := 0, 3 := 0, 4 := 0, 5 := 0, 6 := 0)\<rparr>
      in (0, s3\<lparr>SchedulerInfo := (SchedulerInfo s3)\<lparr>si_flags := sched_flags, si_initialized := TRUE\<rparr>\<rparr>))"

section \<open>Lemmas\<close>

lemma set_ev_responder_live:
  "live s p \<Longrightarrow> set_ev_responder p s =
     (0, upd_thread p (\<lambda>th. th\<lparr>th_quantum := QUANTUM_MAX, th_priority := PRIORITY_MAX\<rparr>)
           (s\<lparr>ev_responder_thread := p\<rparr>))"
  by (simp add: set_ev_responder_def live_def)

lemma has_pending_event_cases:
  "has_pending_event p s =
     (if live s p
      then (if th_has_pending_event (theap s p) = TRUE then (TRUE, s)
            else (FALSE, upd_thread p (\<lambda>th. th\<lparr>th_has_pending_event := FALSE\<rparr>) s))
      else (FALSE, s))"
  by (simp add: has_pending_event_def live_def)

lemma sched_inv [kernel_inv]:
  "kinv s \<Longrightarrow> kinv (snd (set_ev_responder p s))"
  "kinv s \<Longrightarrow> kinv (snd (has_pending_event p s))"
  "kinv s \<Longrightarrow> kinv (sched_quick_and_dirty_load_balancer s)"
  "kinv s \<Longrightarrow> kinv (sched_cut_round p s)"
  "kinv s \<Longrightarrow> kinv (sched_boost_ds_thread s)"
  "kinv s \<Longrightarrow> kinv (sched_boost_foreground_thread s)"
  "kinv s \<Longrightarrow> kinv (sched_lower_current_thread s)"
  "kinv s \<Longrightarrow> kinv (sys_nice d s)"
  by (simp_all add: set_ev_responder_def has_pending_event_def sched_cut_round_def sys_nice_def
      sched_quick_and_dirty_load_balancer_def sched_boost_ds_thread_def sched_lower_current_thread_def
      sched_boost_foreground_thread_def Let_def kinv_upd_thread th_keeps_def)

lemma sys_sleep_inv [kernel_inv]: "kinv s \<Longrightarrow> kinv (sys_sleep tid ms s)"
  by (simp add: sys_sleep_def sleep.op_inv)

lemma sys_yield_inv [kernel_inv]: "kinv s \<Longrightarrow> kinv (sys_yield tid s)"
  by (simp add: sys_yield_def yield.op_inv)

end
