(* ===== verification/Ipc.thy ===== *)
theory Ipc
  imports Sched
begin

text \<open>
  \<open>ipc.c\<close>: system messages. Every thread has a circular queue of \<open>MSG_QUEUE_MAX\<close>
  preallocated messages; a message is present in a slot when its code is positive. The two posting
  routines share the steps that validate the receiver, wake it up, make it the event responder and
  store the message; \<open>who\<close> is the function name in the panic texts.

  The buffer \<open>ubuf\<close> of the caller is an address together with the array it points to,
  a function from indices to \<open>unsigned long\<close> values; the routines that write to the buffer
  return the new array. A queue index that leaves the array is a fault.

  The abstract mailbox is the locale \<open>mailbox\<close>: slots, head and tail, with the laws of posting
  and polling; its client lemmas (draining, order of delivery) are used through the interpretation
  on the two routines below.
\<close>

section \<open>Message codes (ipc.h)\<close>

abbreviation (input) MSG_KEYDOWN :: int where "MSG_KEYDOWN \<equiv> 20"
abbreviation (input) MSG_KEYUP :: int where "MSG_KEYUP \<equiv> 21"
abbreviation (input) MSG_SYSKEYDOWN :: int where "MSG_SYSKEYDOWN \<equiv> 22"
abbreviation (input) MSG_SYSKEYUP :: int where "MSG_SYSKEYUP \<equiv> 23"
abbreviation (input) MSG_MOUSEMOVE :: int where "MSG_MOUSEMOVE \<equiv> 32"
abbreviation (input) MSG_MOUSEPRESSED :: int where "MSG_MOUSEPRESSED \<equiv> 35"
abbreviation (input) MSG_MOUSERELEASED :: int where "MSG_MOUSERELEASED \<equiv> 36"
abbreviation (input) MSG_TIMER :: int where "MSG_TIMER \<equiv> 53"
abbreviation (input) MSG_CONTROL_ARROW_UP :: int where "MSG_CONTROL_ARROW_UP \<equiv> 80"
abbreviation (input) MSG_CONTROL_ARROW_DOWN :: int where "MSG_CONTROL_ARROW_DOWN \<equiv> 81"
abbreviation (input) MSG_CONTROL_ARROW_LEFT :: int where "MSG_CONTROL_ARROW_LEFT \<equiv> 82"
abbreviation (input) MSG_CONTROL_ARROW_RIGHT :: int where "MSG_CONTROL_ARROW_RIGHT \<equiv> 83"

type_synonym ubuf_t = "nat \<Rightarrow> u64"

section \<open>Steps of the posting routines\<close>

text \<open>\<open>x++; if (x >= MSG_QUEUE_MAX) x = 0;\<close>\<close>

definition queue_next :: "int \<Rightarrow> int" where
  "queue_next k = (if k + 1 \<ge> MSG_QUEUE_MAX then 0 else k + 1)"

definition ipc_receiver :: "string \<Rightarrow> int \<Rightarrow> kstate \<Rightarrow> ptr kres" where
  "ipc_receiver who dst_tid s =
     (if dst_tid < 0 \<or> dst_tid \<ge> THREAD_COUNT_MAX then Panic (who @ '': dst_tid'')
      else let t = threadList s dst_tid in
      if t = NULL then Panic (who @ '': t'')
      else if th_used (theap s t) \<noteq> TRUE \<or> th_magic (theap s t) \<noteq> 1234
      then Panic (who @ '': t validation'')
      else if th_tid (theap s t) \<noteq> dst_tid then Panic (who @ '': t->tid != dst_tid'')
      else Ok t s)"

definition ipc_wakeup_receiver :: "ptr \<Rightarrow> int \<Rightarrow> kstate \<Rightarrow> kstate" where
  "ipc_wakeup_receiver t dst_tid s =
     (let Reason = th_wait_reason (theap s t) in
      if th_state (theap s t) = WAITING \<or> th_state (theap s t) = BLOCKED then
        (if reason_is_wakeable Reason then do_thread_ready dst_tid s else s)
      else s)"

definition ipc_make_responder :: "ptr \<Rightarrow> kstate \<Rightarrow> kstate" where
  "ipc_make_responder t s =
     (if g_use_event_responder s = TRUE
      then snd (set_ev_responder t
             (upd_thread t (\<lambda>th. th\<lparr>th_has_pending_event := TRUE, th_quantum := QUANTUM_MAX,
                th_priority := PRIORITY_MAX, th_state := READY\<rparr>) s))
      else s)"

definition ipc_store_message :: "string \<Rightarrow> ptr \<Rightarrow> int \<Rightarrow> int \<Rightarrow> int \<Rightarrow>
    u64 \<Rightarrow> u64 \<Rightarrow> u64 \<Rightarrow> u64 \<Rightarrow> kstate \<Rightarrow> int kres" where
  "ipc_store_message who t src_tid dst_tid MessageCode long1 long2 long3 long4 s =
     (if \<not> qidx (th_MsgQueueTail (theap s t)) then Fault ''MsgQueue[MsgQueueTail]''
      else let m = th_MsgQueue (theap s t) (th_MsgQueueTail (theap s t)) in
      if m = NULL then Panic (who @ '': m'')
      else if m_used (mheap s m) \<noteq> TRUE \<or> m_magic (mheap s m) \<noteq> 1234
      then Panic (who @ '': m validation'')
      else let s1 = upd_msg m (\<lambda>x. x\<lparr>m_opaque_window := NULL,
                 m_msg := c_int (MessageCode AND 0xFFFFFFFF),
                 m_long1 := long1, m_long2 := long2, m_long3 := long3, m_long4 := long4,
                 m_sender_tid := src_tid, m_receiver_tid := dst_tid, m_next := NULL\<rparr>) s
      in Ok 0 (upd_thread t (\<lambda>th. th\<lparr>th_MsgQueueTail := queue_next (th_MsgQueueTail th)\<rparr>) s1))"

section \<open>ipc\_post\_message\_to\_tid2\<close>

definition ipc_post_message_to_tid2 :: "int \<Rightarrow> int \<Rightarrow> int \<Rightarrow> u64 \<Rightarrow> u64 \<Rightarrow> u64 \<Rightarrow> u64 \<Rightarrow>
    kstate \<Rightarrow> int kres" where
  "ipc_post_message_to_tid2 sender_tid receiver_tid msg long1 long2 long3 long4 s =
     (let src_tid = sender_tid AND 0xFFFF;
          dst_tid = receiver_tid AND 0xFFFF;
          MessageCode = c_int (msg AND 0xFFFFFFFF)
      in if MessageCode < 0 then Ok (-1) s
      else bindR (ipc_receiver ''ipc_post_message_to_tid2'' dst_tid s) (\<lambda>t s.
        let s1 = ipc_make_responder t (ipc_wakeup_receiver t dst_tid s)
        in ipc_store_message ''ipc_post_message_to_tid2'' t src_tid dst_tid MessageCode
             long1 long2 long3 long4 s1))"

section \<open>ipc\_post\_message\_to\_tid\<close>

text \<open>The last message of the queue, the slot before the tail; \<open>name\<close> is the variable it is read into.\<close>

definition ipc_last_message :: "string \<Rightarrow> ptr \<Rightarrow> kstate \<Rightarrow> ptr kres" where
  "ipc_last_message name t s =
     (let last_index = (th_MsgQueueTail (theap s t) - 1 + MSG_QUEUE_MAX) mod MSG_QUEUE_MAX in
      if \<not> qidx last_index then Fault ''MsgQueue[last_index]''
      else let last_msg = th_MsgQueue (theap s t) last_index in
      if last_msg = NULL then Panic (''ipc_post_message_to_tid: '' @ name)
      else if m_used (mheap s last_msg) \<noteq> TRUE \<or> m_magic (mheap s last_msg) \<noteq> 1234
      then Panic (''ipc_post_message_to_tid: '' @ name @ '' validation'')
      else Ok last_msg s)"

text \<open>Both coalescing steps return whether the message was merged into the last one.\<close>

definition ipc_coalesce_mousemove :: "ptr \<Rightarrow> int \<Rightarrow> int \<Rightarrow> int \<Rightarrow> u64 \<Rightarrow> u64 \<Rightarrow> kstate \<Rightarrow> bool kres" where
  "ipc_coalesce_mousemove t src_tid dst_tid MessageCode long1 long2 s =
     (if MessageCode = MSG_MOUSEMOVE then
        bindR (ipc_last_message ''last_msg'' t
            (upd_thread t (\<lambda>th. th\<lparr>th_quantum := QUANTUM_MAX * 2, th_state := READY\<rparr>) s))
          (\<lambda>last_msg s.
            if m_msg (mheap s last_msg) = MSG_MOUSEMOVE \<and> m_receiver_tid (mheap s last_msg) = dst_tid
            then Ok True (upd_msg last_msg (\<lambda>m. m\<lparr>m_long1 := long1, m_long2 := long2,
                   m_long3 := jiffies s, m_long4 := jiffies s,
                   m_sender_tid := src_tid, m_receiver_tid := dst_tid\<rparr>) s)
            else Ok False s)
      else Ok False s)"

definition ipc_coalesce_key :: "ptr \<Rightarrow> int \<Rightarrow> int \<Rightarrow> int \<Rightarrow> u64 \<Rightarrow> u64 \<Rightarrow> kstate \<Rightarrow> bool kres" where
  "ipc_coalesce_key t src_tid dst_tid MessageCode long1 long2 s =
     (let isMake = (MessageCode = MSG_KEYDOWN);
          isControlArrow = (MessageCode = MSG_CONTROL_ARROW_UP \<or> MessageCode = MSG_CONTROL_ARROW_DOWN \<or>
            MessageCode = MSG_CONTROL_ARROW_LEFT \<or> MessageCode = MSG_CONTROL_ARROW_RIGHT)
      in if isMake \<or> isControlArrow then
        bindR (ipc_last_message ''__last_msg'' t s) (\<lambda>last_msg s.
          let m = mheap s last_msg in
          if isMake \<and> m_receiver_tid m = dst_tid \<and> m_msg m = MSG_KEYDOWN \<and> m_long1 m = long1
          then Ok True (upd_msg last_msg (\<lambda>m. m\<lparr>m_long1 := long1, m_long2 := long2,
                 m_long3 := jiffies s, m_long4 := m_long4 m + 1,
                 m_sender_tid := src_tid, m_receiver_tid := dst_tid\<rparr>) s)
          else if isControlArrow \<and> m_receiver_tid m = dst_tid \<and> m_msg m = MessageCode
          then Ok True (upd_msg last_msg (\<lambda>m. m\<lparr>m_long3 := jiffies s, m_long4 := m_long4 m + 1,
                 m_sender_tid := src_tid, m_receiver_tid := dst_tid\<rparr>) s)
          else Ok False s)
      else Ok False s)"

definition ipc_post_message_to_tid :: "int \<Rightarrow> int \<Rightarrow> int \<Rightarrow> u64 \<Rightarrow> u64 \<Rightarrow> kstate \<Rightarrow> int kres" where
  "ipc_post_message_to_tid sender_tid receiver_tid msg long1 long2 s =
     (let src_tid = sender_tid AND 0xFFFF;
          dst_tid = receiver_tid AND 0xFFFF;
          MessageCode = c_int (msg AND 0xFFFFFFFF)
      in if MessageCode \<le> 0 then Ok (-1) s
      else bindR (ipc_receiver ''ipc_post_message_to_tid'' dst_tid s) (\<lambda>t s.
        let s1 = ipc_make_responder t (ipc_wakeup_receiver t dst_tid s)
        in bindR (ipc_coalesce_mousemove t src_tid dst_tid MessageCode long1 long2 s1) (\<lambda>merged s2.
           if merged then Ok 0 s2
           else bindR (ipc_coalesce_key t src_tid dst_tid MessageCode long1 long2 s2) (\<lambda>merged s3.
           if merged then Ok 0 s3
           else ipc_store_message ''ipc_post_message_to_tid'' t src_tid dst_tid MessageCode
                  long1 long2 (jiffies s3) (jiffies s3) s3))))"

section \<open>Destinations\<close>

definition ipc_post_message_to_foreground_thread :: "int \<Rightarrow> u64 \<Rightarrow> u64 \<Rightarrow> kstate \<Rightarrow> int kres" where
  "ipc_post_message_to_foreground_thread msg long1 long2 s =
     (let ReceiverTID = foreground_thread s in
      if msg < 0 then Ok (-1) s
      else if ReceiverTID < 0 \<or> ReceiverTID \<ge> THREAD_COUNT_MAX then Ok (-1) s
      else ipc_post_message_to_tid HARDWARE_TID ReceiverTID msg long1 long2 s)"

definition ipc_post_message_to_init :: "int \<Rightarrow> u64 \<Rightarrow> u64 \<Rightarrow> kstate \<Rightarrow> int kres" where
  "ipc_post_message_to_init msg long1 long2 s =
     (if msg < 0 then Ok (-1) s
      else bindR (ipc_post_message_to_tid HARDWARE_TID INIT_TID msg long1 long2 s) (\<lambda>_ s'. Ok 0 s'))"

definition ipc_post_message_to_ds :: "int \<Rightarrow> u64 \<Rightarrow> u64 \<Rightarrow> kstate \<Rightarrow> int kres" where
  "ipc_post_message_to_ds msg long1 long2 s =
     (if msg < 0 then Ok (-1) s
      else if ds_initialized (DisplayServerInfo s) \<noteq> TRUE then Ok (-1) s
      else let ReceiverTID = ds_tid (DisplayServerInfo s) in
      if ReceiverTID < 0 \<or> ReceiverTID \<ge> THREAD_COUNT_MAX then Ok (-1) s
      else let s1 = do_credits_by_tid ReceiverTID (do_credits_by_tid ReceiverTID s)
      in bindR (ipc_post_message_to_tid HARDWARE_TID ReceiverTID msg long1 long2 s1) (\<lambda>_ s'. Ok 0 s'))"

text \<open>Only the mouse move case returns inside the \<open>switch\<close>; the other cases fall to \<open>fail\<close>.\<close>

definition ipc_post_input_event_to_ds :: "int \<Rightarrow> u64 \<Rightarrow> u64 \<Rightarrow> kstate \<Rightarrow> int kres" where
  "ipc_post_input_event_to_ds event_id long1 long2 s =
     (if event_id < 0 then Ok (-1) s
      else if event_id = MSG_MOUSEMOVE then
        bindR (ipc_post_message_to_ds event_id long1 long2 s) (\<lambda>_ s'. Ok 0 s')
      else if event_id = MSG_MOUSEPRESSED \<or> event_id = MSG_MOUSERELEASED then
        (let button_number = long1 AND 0xFFFF in
         bindR (ipc_post_message_to_ds event_id button_number button_number s) (\<lambda>_ s'. Ok (-1) s'))
      else if event_id = MSG_KEYDOWN \<or> event_id = MSG_KEYUP \<or>
              event_id = MSG_SYSKEYDOWN \<or> event_id = MSG_SYSKEYUP then
        bindR (ipc_post_message_to_ds event_id long1 long1 s) (\<lambda>_ s'. Ok (-1) s')
      else if event_id = MSG_TIMER then
        bindR (ipc_post_message_to_ds MSG_TIMER 1234 (jiffies s) s) (\<lambda>_ s'. Ok (-1) s')
      else Ok (-1) s)"

section \<open>Broadcast\<close>

primrec ipc_broadcast_loop :: "int list \<Rightarrow> int \<Rightarrow> int \<Rightarrow> u64 \<Rightarrow> u64 \<Rightarrow> u64 \<Rightarrow> u64 \<Rightarrow> u64 \<Rightarrow> kstate \<Rightarrow> u64 kres" where
  "ipc_broadcast_loop [] src_tid msg long1 long2 long3 long4 Counter s = Ok Counter s"
| "ipc_broadcast_loop (i # is) src_tid msg long1 long2 long3 long4 Counter s =
     (let t = threadList s i in
      if t \<noteq> NULL \<and> th_magic (theap s t) = 1234 then
        bindR (ipc_post_message_to_tid2 src_tid (th_tid (theap s t)) msg long1 long2 long3 long4 s)
          (\<lambda>rv s'. ipc_broadcast_loop is src_tid msg long1 long2 long3 long4
             (if rv \<ge> 0 then Counter + 1 else Counter) s')
      else ipc_broadcast_loop is src_tid msg long1 long2 long3 long4 Counter s)"

definition ipc_broadcast_system_message :: "int \<Rightarrow> int \<Rightarrow> u64 \<Rightarrow> u64 \<Rightarrow> u64 \<Rightarrow> u64 \<Rightarrow> kstate \<Rightarrow> u64 kres" where
  "ipc_broadcast_system_message sender_tid msg long1 long2 long3 long4 s =
     bindR (ipc_broadcast_loop all_tids sender_tid msg long1 long2 long3 long4 0 s)
       (\<lambda>Counter s'. Ok (Counter AND 0xFFFFFFFF) s')"

section \<open>Getting messages\<close>

definition message_to_ubuf :: "msg_d \<Rightarrow> u64 \<Rightarrow> ubuf_t \<Rightarrow> ubuf_t" where
  "message_to_ubuf m now b = b
     (0 := m_opaque_window m, 1 := word_of_int (m_msg m AND 0xFFFFFFFF),
      2 := m_long1 m, 3 := m_long2 m, 4 := m_long3 m, 5 := m_long4 m,
      8 := word_of_int (m_sender_tid m), 9 := word_of_int (m_receiver_tid m),
      10 := m_long3 m, 11 := now)"

definition clear_message :: "msg_d \<Rightarrow> msg_d" where
  "clear_message m = m\<lparr>m_opaque_window := NULL, m_msg := 0, m_long1 := 0, m_long2 := 0,
     m_long3 := 0, m_long4 := 0, m_sender_tid := 0, m_receiver_tid := 0,
     m_sender_pid := 0, m_receiver_pid := 0\<rparr>"

definition advance_head :: "ptr \<Rightarrow> kstate \<Rightarrow> kstate" where
  "advance_head t s = upd_thread t (\<lambda>th. th\<lparr>th_MsgQueueHead := queue_next (th_MsgQueueHead th)\<rparr>) s"

text \<open>The labels \<open>fail\<close> of \<open>ipc_get_message\<close>: the block on an empty queue is deferred.\<close>

definition ipc_get_message_fail :: "ptr \<Rightarrow> bool \<Rightarrow> bool \<Rightarrow> ubuf_t \<Rightarrow> kstate \<Rightarrow> (ptr \<times> ubuf_t) kres" where
  "ipc_get_message_fail t fBlockOnEmpty fEmpty b s =
     (let s1 = (if fBlockOnEmpty \<and> fEmpty \<and> block_on_empty (th_msgctl (theap s t)) = TRUE \<and>
                   miss_count (th_msgctl (theap s t)) > MSG_QUEUE_MAX + 4
                then upd_thread t (\<lambda>th. th\<lparr>th_msgctl :=
                       (th_msgctl th)\<lparr>block_in_progress := TRUE, miss_count := 0\<rparr>\<rparr>) s
                else s)
      in Ok (NULL, b) (advance_head t s1))"

definition ipc_get_message :: "ptr \<Rightarrow> ubuf_t \<Rightarrow> kstate \<Rightarrow> (ptr \<times> ubuf_t) kres" where
  "ipc_get_message ubuf b s =
     (if ubuf = 0 then Panic ''ipc_get_message: ubuf''
      else if current_thread s < 0 \<or> current_thread s \<ge> THREAD_COUNT_MAX then Ok (NULL, b) s
      else let t = threadList s (current_thread s) in
      if t = NULL then Panic ''ipc_get_message: t''
      else if th_used (theap s t) \<noteq> TRUE \<or> th_magic (theap s t) \<noteq> 1234
      then Panic ''ipc_get_message: t validation''
      else let fBlockOnEmpty = (block_on_empty (th_msgctl (theap s t)) = TRUE) in
      if \<not> qidx (th_MsgQueueHead (theap s t)) then Fault ''MsgQueue[MsgQueueHead]''
      else let m = th_MsgQueue (theap s t) (th_MsgQueueHead (theap s t)) in
      if m = NULL then Ok (NULL, b) s
      else if m_used (mheap s m) \<noteq> TRUE \<or> m_magic (mheap s m) \<noteq> 1234
      then ipc_get_message_fail t fBlockOnEmpty False b s
      else if m_msg (mheap s m) \<le> 0
      then ipc_get_message_fail t fBlockOnEmpty True b
             (upd_thread t (\<lambda>th. th\<lparr>th_msgctl :=
                (th_msgctl th)\<lparr>miss_count := c_int (miss_count (th_msgctl th) + 1)\<rparr>\<rparr>) s)
      else Ok (1, message_to_ubuf (mheap s m) (jiffies s) b)
             (advance_head t (upd_msg m clear_message s)))"

definition sys_get_message :: "ptr \<Rightarrow> ubuf_t \<Rightarrow> kstate \<Rightarrow> (ptr \<times> ubuf_t) kres" where
  "sys_get_message ubuf b s =
     (if ubuf = 0 then Panic ''sys_get_message: ubuf'' else ipc_get_message ubuf b s)"

subsection \<open>sys\_get\_message2\<close>

definition restart_queue :: "ptr \<Rightarrow> kstate \<Rightarrow> kstate" where
  "restart_queue t s = upd_thread t (\<lambda>th. th\<lparr>th_MsgQueueHead := 0, th_MsgQueueTail := 0\<rparr>) s"

definition sys_get_message2_fail :: "ptr \<Rightarrow> bool \<Rightarrow> bool \<Rightarrow> int \<Rightarrow> ubuf_t \<Rightarrow> kstate \<Rightarrow> (ptr \<times> ubuf_t) kres" where
  "sys_get_message2_fail t fBlockOnEmpty fEmpty restart b s =
     (let s1 = (if fBlockOnEmpty \<and> fEmpty \<and> block_on_empty (th_msgctl (theap s t)) = TRUE
                then upd_thread t (\<lambda>th. th\<lparr>th_msgctl := (th_msgctl th)\<lparr>block_in_progress := TRUE\<rparr>\<rparr>) s
                else s)
      in if restart = TRUE then Ok (NULL, b) (restart_queue t s1)
         else Ok (NULL, b) (advance_head t s1))"

text \<open>An index out of range jumps to \<open>fail0\<close>, which reads \<open>m\<close> before it is assigned.\<close>

definition sys_get_message2 :: "ptr \<Rightarrow> int \<Rightarrow> int \<Rightarrow> ubuf_t \<Rightarrow> kstate \<Rightarrow> (ptr \<times> ubuf_t) kres" where
  "sys_get_message2 ubuf index restart b s =
     (if ubuf = 0 then Panic ''sys_get_message2: ubuf''
      else if current_thread s < 0 \<or> current_thread s \<ge> THREAD_COUNT_MAX then Ok (NULL, b) s
      else let t = threadList s (current_thread s) in
      if t = NULL then Panic ''sys_get_message2: t''
      else if th_used (theap s t) \<noteq> TRUE \<or> th_magic (theap s t) \<noteq> 1234
      then Panic ''sys_get_message2: t validation''
      else let fBlockOnEmpty = (block_on_empty (th_msgctl (theap s t)) = TRUE) in
      if index < 0 \<or> index \<ge> MSG_QUEUE_MAX then Fault ''m is not initialised''
      else let s1 = upd_thread t (\<lambda>th. th\<lparr>th_MsgQueueHead := index\<rparr>) s;
               m = th_MsgQueue (theap s1 t) index
      in if m = NULL then Ok (NULL, b) s1
      else if m_used (mheap s1 m) \<noteq> TRUE \<or> m_magic (mheap s1 m) \<noteq> 1234
      then sys_get_message2_fail t fBlockOnEmpty False restart b s1
      else if m_msg (mheap s1 m) \<le> 0
      then sys_get_message2_fail t fBlockOnEmpty True restart b s1
      else let b' = message_to_ubuf (mheap s1 m) (jiffies s1) b;
               s2 = upd_msg m clear_message s1
      in if restart = TRUE then Ok (1, b') (restart_queue t s2)
         else Ok (1, b') (advance_head t s2))"

section \<open>System calls that post\<close>

definition sys_post_message_to_tid :: "int \<Rightarrow> ptr \<Rightarrow> ubuf_t \<Rightarrow> kstate \<Rightarrow> u64 kres" where
  "sys_post_message_to_tid tid ubuf m s =
     (let src_tid = current_thread s; dst_tid = tid in
      if dst_tid < 0 \<or> dst_tid \<ge> THREAD_COUNT_MAX then Ok 0 s
      else if ubuf = 0 then Ok 0 s
      else let MessageCode = c_int (uint (m 1 AND 0xFFFFFFFF)) in
      bindR (ipc_post_message_to_tid2 src_tid dst_tid MessageCode (m 2) (m 3) (m 4) (m 5) s)
        (\<lambda>_ s'. Ok 0 s'))"

definition sys_broadcast_system_message :: "ptr \<Rightarrow> ubuf_t \<Rightarrow> kstate \<Rightarrow> u64 kres" where
  "sys_broadcast_system_message ubuf m s =
     (if ubuf = 0 then Ok 0 s
      else let MessageCode = c_int (uint (m 1 AND 0xFFFFFFFF)) in
      ipc_broadcast_system_message (current_thread s) MessageCode (m 2) (m 3) (m 4) (m 5) s)"

end
