(* ===== verification/Round_Loop.thy ===== *)
theory Round_Loop
  imports Tlib
begin

text \<open>
  What the two round builders of \<open>sched.c\<close> have in common: both walk the thread table from the
  slot after the init thread and append the eligible threads to a list that starts with the init
  thread. \<open>touch p s s'\<close> says that a step changed nothing but the thread \<open>p\<close> (not its link)
  and variables outside the scheduler and the dispatcher, \<open>linked p q s s'\<close> that \<open>p\<close> was appended behind \<open>q\<close>.
  The locale \<open>round_loop\<close> is the contract of the loop body; its client lemma
  \<open>round_result\<close> says that the loop returns, which list it builds and in which state it leaves
  every thread. It is interpreted on the bodies of both builders.
\<close>

section \<open>The slots of the loop\<close>

text \<open>\<open>for (i = INIT_TID + 1; i < THREAD_COUNT_MAX; ++i)\<close>\<close>

definition round_tids :: "int list" where
  "round_tids = [INIT_TID + 1 .. THREAD_COUNT_MAX - 1]"

lemma round_tids_props: "distinct round_tids" "i \<in> set round_tids \<longleftrightarrow> tid_in_range i \<and> i \<noteq> INIT_TID"
  by (auto simp: round_tids_def tid_in_range_def)

definition state_after :: "kstate \<Rightarrow> ptr \<Rightarrow> thread_state_t option" where
  "state_after s p = (if live s p then Some (th_state (theap s p)) else None)"

section \<open>Steps that touch one thread\<close>

text \<open>
  What no round builder changes: of a thread, its saved registers and what the dispatcher and the
  spawn routine read, its pending requests (and no invalid structure becomes valid); of the globals, those of the dispatcher and the task switch.
\<close>

definition th_same :: "thread_d \<Rightarrow> thread_d \<Rightarrow> bool" where
  "th_same t t' \<longleftrightarrow> th_saved t' = th_saved t \<and> th_te t' = th_te t \<and> th_is_alertable t' = th_is_alertable t \<and>
     th_callback_in_progress t' = th_callback_in_progress t \<and> th_context t' = th_context t \<and>
     th_pml4_PA t' = th_pml4_PA t \<and> th_Deferred t' = th_Deferred t \<and> (th_used t \<noteq> TRUE \<longrightarrow> th_used t' \<noteq> TRUE) \<and>
     (th_magic t \<noteq> 1234 \<longrightarrow> th_magic t' \<noteq> 1234)"

definition same_core :: "kstate \<Rightarrow> kstate \<Rightarrow> bool" where
  "same_core s s' \<longleftrightarrow> DispatchCountBlock s' = DispatchCountBlock s \<and> task_switch_status s' = task_switch_status s \<and>
     system_state s' = system_state s \<and> current_thread s' = current_thread s \<and> frame s' = frame s \<and>
     g_use_event_responder s' = g_use_event_responder s \<and> ev_responder_thread s' = ev_responder_thread s \<and>
     spawn_eoi_is_necessary s' = spawn_eoi_is_necessary s \<and> (\<forall>p. th_same (theap s p) (theap s' p))"

lemma th_same_refl [simp]: "th_same t t"
  by (simp add: th_same_def)

lemma same_core_upd [simp]: "same_core s (upd_thread p f s) \<longleftrightarrow> th_same (theap s p) (f (theap s p))"
  by (auto simp: same_core_def)

lemma same_core_refl [simp]: "same_core s s"
  by (simp add: same_core_def)

lemma same_core_trans: "same_core r s \<Longrightarrow> same_core s t \<Longrightarrow> same_core r t"
  by (auto simp: same_core_def th_same_def)

lemma same_core_live: "same_core s s' \<Longrightarrow> live s' p \<Longrightarrow> live s p"
  by (auto simp: same_core_def th_same_def live_def)

definition touch :: "ptr \<Rightarrow> kstate \<Rightarrow> kstate \<Rightarrow> bool" where
  "touch p s s' \<longleftrightarrow> kinv s' \<and> same_core s s' \<and> (\<forall>q. q \<noteq> p \<longrightarrow> theap s' q = theap s q) \<and>
     th_next (theap s' p) = th_next (theap s p) \<and>
     threadList s' = threadList s \<and> InitThread s' = InitThread s \<and> jiffies s' = jiffies s \<and>
     p1q s' = p1q s \<and> currentq s' = currentq s \<and> SchedulerInfo s' = SchedulerInfo s \<and>
     UPProcessorBlock s' = UPProcessorBlock s"

lemma touch_refl: "kinv s \<Longrightarrow> touch p s s"
  by (simp add: touch_def)

lemma touch_trans: "touch p s t \<Longrightarrow> touch p t u \<Longrightarrow> touch p s u"
  using same_core_trans by (auto simp: touch_def)

lemma touch_upd:
  "kinv (upd_thread p f s) \<Longrightarrow> th_next (f (theap s p)) = th_next (theap s p) \<Longrightarrow>
   th_same (theap s p) (f (theap s p)) \<Longrightarrow> touch p s (upd_thread p f s)"
  by (simp add: touch_def)

lemma touch_upd_keeps:
  "kinv s \<Longrightarrow> th_keeps (theap s p) (f (theap s p)) \<Longrightarrow> th_next (f (theap s p)) = th_next (theap s p) \<Longrightarrow>
   th_same (theap s p) (f (theap s p)) \<Longrightarrow> touch p s (upd_thread p f s)"
  by (simp add: touch_upd kinv_upd_thread)

lemma touch_live_other: "touch p s s' \<Longrightarrow> q \<noteq> p \<Longrightarrow> live s' q = live s q"
  by (simp add: touch_def live_def)

lemma touch_slot: "touch p s s' \<Longrightarrow> threadList s' = threadList s \<and> InitThread s' = InitThread s"
  by (simp add: touch_def)

lemma touch_inv: "touch p s s' \<Longrightarrow> kinv s'"
  by (simp add: touch_def)

text \<open>The state changes of schedi.c, on a thread that sits in its slot.\<close>

lemma do_thread_ready_slot:
  assumes "kinv s" and "tid_in_range i" and "p = threadList s i" and "p \<noteq> NULL"
  shows "do_thread_ready (th_tid (theap s p)) s =
    (if live s p then upd_thread p (\<lambda>th. th\<lparr>th_state := READY, th_ready_jiffy := jiffies s\<rparr>) s else s)"
  using assms kinv_slot_tid [OF assms(1,2)] by (simp add: ready.op_cases valid_tid_def)

lemma do_thread_blocked_slot:
  assumes "kinv s" and "tid_in_range i" and "p = threadList s i" and "p \<noteq> NULL"
  shows "do_thread_blocked (th_tid (theap s p)) s =
    (if live s p then upd_thread p (\<lambda>th. th\<lparr>th_state := BLOCKED, th_blocked_jiffy := jiffies s\<rparr>) s else s)"
  using assms kinv_slot_tid [OF assms(1,2)] by (simp add: blocked.op_cases valid_tid_def)

lemma upd_thread_upd_thread: "upd_thread p g (upd_thread p f s) = upd_thread p (\<lambda>th. g (f th)) s"
  by (simp add: upd_thread_def)

definition same_sched :: "kstate \<Rightarrow> kstate \<Rightarrow> bool" where
  "same_sched s t \<longleftrightarrow> threadList t = threadList s \<and> InitThread t = InitThread s \<and> jiffies t = jiffies s \<and>
     currentq t = currentq s \<and> SchedulerInfo t = SchedulerInfo s \<and> UPProcessorBlock t = UPProcessorBlock s"

definition linked :: "ptr \<Rightarrow> ptr \<Rightarrow> kstate \<Rightarrow> kstate \<Rightarrow> bool" where
  "linked p q s s' \<longleftrightarrow> kinv s' \<and> same_sched s s' \<and> same_core s s' \<and> (\<forall>z. z \<noteq> p \<longrightarrow> z \<noteq> q \<longrightarrow> theap s' z = theap s z) \<and>
     th_next (theap s' q) = p \<and> state_after s' q = state_after s q"

lemma state_after_cong: "theap t p = theap s p \<Longrightarrow> state_after t p = state_after s p"
  by (simp add: state_after_def live_def)

lemma touch_same_sched: "touch p s t \<Longrightarrow> same_sched s t"
  by (simp add: touch_def same_sched_def)

lemma same_sched_trans: "same_sched r s \<Longrightarrow> same_sched s t \<Longrightarrow> same_sched r t"
  by (simp add: same_sched_def)

lemma touch_next: "touch p s t \<Longrightarrow> th_next (theap t q) = th_next (theap s q)"
  by (cases "q = p") (simp_all add: touch_def)

lemma round_slots_apart:
  assumes "kinv s" "x \<in> set round_tids" "threadList s x \<noteq> NULL"
  shows "threadList s x \<noteq> InitThread s"
    and "i \<in> set round_tids \<Longrightarrow> i \<noteq> x \<Longrightarrow> threadList s i \<noteq> threadList s x"
  using assms kinv_slot_neq_Init [OF assms(1)] kinv_slot_inj [OF assms(1), of x i] round_tids_props(2)
  by fastforce+

section \<open>The contract of the loop body\<close>

text \<open>
  \<open>tail a s\<close> is the last thread of the list so far, where \<open>a\<close> is the local variable that the
  loop carries; \<open>link p a\<close> is that variable after \<open>p\<close> was appended. \<open>next_state\<close> is the
  state of a thread after its visit, \<open>None\<close> when its structure is no longer valid.
\<close>

locale round_loop =
  fixes I :: ptr
    and visit :: "int \<Rightarrow> 'a \<Rightarrow> kstate \<Rightarrow> 'a kres"
    and eligible :: "kstate \<Rightarrow> ptr \<Rightarrow> bool"
    and next_state :: "u64 \<Rightarrow> thread_d \<Rightarrow> thread_state_t option"
    and tail :: "'a \<Rightarrow> kstate \<Rightarrow> ptr"
    and link :: "ptr \<Rightarrow> 'a \<Rightarrow> 'a"
  assumes eligible_live: "eligible s p \<Longrightarrow> live s p"
    and eligible_local: "theap t p = theap s p \<Longrightarrow> jiffies t = jiffies s \<Longrightarrow> eligible t p = eligible s p"
    and visit_free: "threadList s i = NULL \<Longrightarrow> visit i a s = Ok a s"
    and visit_skip: "kinv s \<Longrightarrow> InitThread s = I \<Longrightarrow> tid_in_range i \<Longrightarrow> threadList s i \<noteq> NULL \<Longrightarrow>
      threadList s i \<noteq> I \<Longrightarrow> \<not> eligible s (threadList s i) \<Longrightarrow>
      \<exists>s'. visit i a s = Ok a s' \<and> touch (threadList s i) s s' \<and> tail a s' = tail a s \<and>
        (live s (threadList s i) \<longrightarrow>
           state_after s' (threadList s i) = next_state (jiffies s) (theap s (threadList s i)))"
    and visit_link: "kinv s \<Longrightarrow> InitThread s = I \<Longrightarrow> tid_in_range i \<Longrightarrow> threadList s i \<noteq> I \<Longrightarrow>
      eligible s (threadList s i) \<Longrightarrow> tail a s \<noteq> NULL \<Longrightarrow> tail a s \<noteq> threadList s i \<Longrightarrow>
      \<exists>s'. visit i a s = Ok (link (threadList s i) a) s' \<and> linked (threadList s i) (tail a s) s s' \<and>
        tail (link (threadList s i) a) s' = threadList s i \<and>
        state_after s' (threadList s i) = next_state (jiffies s) (theap s (threadList s i))"
begin

definition round_list :: "kstate \<Rightarrow> int list \<Rightarrow> ptr list" where
  "round_list s is = map (threadList s) (filter (\<lambda>i. eligible s (threadList s i)) is)"

lemma round_list_append: "round_list s (is @ [i]) =
    (if eligible s (threadList s i) then round_list s is @ [threadList s i] else round_list s is)"
  by (simp add: round_list_def)

lemma round_list_props:
  assumes "kinv s" and "distinct is" and "set is \<subseteq> set round_tids"
  shows "distinct (InitThread s # round_list s is)" and "NULL \<notin> set (InitThread s # round_list s is)"
proof -
  have r: "tid_in_range i" "i \<noteq> INIT_TID" if "i \<in> set is" for i
    using that assms(3) round_tids_props(2) by blast+
  have "i = j" if "i \<in> set is" "j \<in> set is" "eligible s (threadList s i)"
    "threadList s i = threadList s j" for i j
    using kinv_slot_inj [OF assms(1) r(1) r(1)] that live_not_NULL eligible_live by blast
  then have "inj_on (threadList s) (set (filter (\<lambda>i. eligible s (threadList s i)) is))"
    by (intro inj_onI) simp
  moreover have "InitThread s \<notin> set (round_list s is)"
    using kinv_slot_neq_Init [OF assms(1) r] by (fastforce simp: round_list_def)
  ultimately show "distinct (InitThread s # round_list s is)"
    using assms(2) by (simp add: round_list_def distinct_map)
  have "\<not> eligible s NULL" using eligible_live live_not_NULL by blast
  then show "NULL \<notin> set (InitThread s # round_list s is)"
    using live_not_NULL [OF kinv_InitThread(1) [OF assms(1)]] by (auto simp: round_list_def)
qed

definition round_inv :: "kstate \<Rightarrow> 'a \<Rightarrow> int list \<Rightarrow> 'a \<Rightarrow> kstate \<Rightarrow> bool" where
  "round_inv s a0 ys a t \<longleftrightarrow> kinv t \<and> same_sched s t \<and> same_core s t \<and> a = fold link (round_list s ys) a0 \<and>
     tail a t = last (InitThread s # round_list s ys) \<and>
     links (\<lambda>q. th_next (theap t q)) (InitThread s # round_list s ys) \<and>
     (\<forall>i \<in> set round_tids - set ys. theap t (threadList s i) = theap s (threadList s i) \<or> threadList s i = NULL) \<and>
     (\<forall>i \<in> set ys. live s (threadList s i) \<longrightarrow>
        state_after t (threadList s i) = next_state (jiffies s) (theap s (threadList s i))) \<and>
     state_after t (InitThread s) = state_after s (InitThread s)"

lemma inv_skip:
  assumes "kinv s" and x: "x \<in> set round_tids" and ys: "set ys \<subseteq> set round_tids" "x \<notin> set ys"
    and inv: "round_inv s a0 ys a t" and p: "threadList s x \<noteq> NULL" and ne: "\<not> eligible s (threadList s x)"
    and tt: "touch (threadList s x) t t'" and tl: "tail a t' = tail a t"
    and st: "live s (threadList s x) \<Longrightarrow>
      state_after t' (threadList s x) = next_state (jiffies s) (theap s (threadList s x))"
  shows "round_inv s a0 (ys @ [x]) a t'"
proof -
  note ap = round_slots_apart [OF assms(1) x p]
  have other: "theap t' q = theap t q" if "q \<noteq> threadList s x" for q
    using tt that by (simp add: touch_def)
  have so: "state_after t' q = state_after t q" if "q \<noteq> threadList s x" for q
    by (rule state_after_cong) (rule other [OF that])
  have "state_after t' (threadList s i) = next_state (jiffies s) (theap s (threadList s i))"
    if "i \<in> set (ys @ [x])" "live s (threadList s i)" for i
    using that inv so ap(2) [of i] ys st by (cases "i = x") (auto simp: round_inv_def)
  moreover have "theap t' (threadList s i) = theap s (threadList s i) \<or> threadList s i = NULL"
    if "i \<in> set round_tids - set (ys @ [x])" for i
    using that inv other ap(2) [of i] by (auto simp: round_inv_def)
  moreover have "kinv t'" "same_sched s t'" "same_core s t'"
    using touch_inv [OF tt] same_sched_trans [OF _ touch_same_sched [OF tt]] inv same_core_trans tt
    by (auto simp: round_inv_def touch_def)
  ultimately show ?thesis
    using inv so [OF ap(1) [symmetric]]
    unfolding round_inv_def round_list_append if_not_P [OF ne] touch_next [OF tt] tl by metis
qed

lemma inv_link:
  assumes k: "kinv s" and x: "x \<in> set round_tids" and ys: "set ys \<subseteq> set round_tids" "x \<notin> set ys" "distinct ys"
    and inv: "round_inv s a0 ys a t" and el: "eligible s (threadList s x)"
    and li: "linked (threadList s x) (tail a t) t t'" and tl: "tail (link (threadList s x) a) t' = threadList s x"
    and st: "state_after t' (threadList s x) = next_state (jiffies s) (theap s (threadList s x))"
    and qp: "tail a t \<noteq> threadList s x"
  shows "round_inv s a0 (ys @ [x]) (link (threadList s x) a) t'"
proof -
  let ?p = "threadList s x" and ?xs = "InitThread s # round_list s ys"
  note p = live_not_NULL [OF eligible_live [OF el]]
  note ap = round_slots_apart [OF k x p] and lp = round_list_props [OF k ys(3,1)]
  have q: "tail a t = last ?xs" using inv unfolding round_inv_def by blast
  have px: "?p \<notin> set ?xs" using ap ys by (auto simp: round_list_def) (metis subsetD)
  have "links ((\<lambda>z. th_next (theap t z))(last ?xs := ?p)) (?xs @ [?p])"
    using inv lp(1) by (intro links_upd_last) (simp_all add: round_inv_def)
  also have "links ((\<lambda>z. th_next (theap t z))(last ?xs := ?p)) (?xs @ [?p]) =
      links (\<lambda>z. th_next (theap t' z)) (?xs @ [?p])"
  proof (rule links_cong)
    fix z assume "z \<in> set (butlast (?xs @ [?p]))"
    then have "z \<noteq> ?p" using px by (metis butlast_snoc)
    then show "((\<lambda>z. th_next (theap t z))(last ?xs := ?p)) z = th_next (theap t' z)"
      using li by (cases "z = last ?xs") (simp_all add: linked_def q del: last.simps)
  qed
  finally have "links (\<lambda>z. th_next (theap t' z)) (?xs @ [?p])" .
  moreover have so: "state_after t' z = state_after t z" if "z \<noteq> ?p" for z
    using li that by (cases "z = tail a t") (auto simp: linked_def intro: state_after_cong)
  have "state_after t' (threadList s i) = next_state (jiffies s) (theap s (threadList s i))"
    if "i \<in> set (ys @ [x])" "live s (threadList s i)" for i
    using that inv so ap(2) [of i] ys st by (cases "i = x") (auto simp: round_inv_def)
  moreover have "theap t' (threadList s i) = theap s (threadList s i) \<or> threadList s i = NULL"
    if i: "i \<in> set round_tids - set (ys @ [x])" for i
  proof (cases "threadList s i = NULL")
    case False
    have "threadList s i \<notin> set ?xs"
      using i round_slots_apart [OF k _ False] ys by (auto simp: round_list_def) (metis subsetD)
    then have "threadList s i \<noteq> tail a t" using q by (metis last_in_set list.distinct(1))
    then show ?thesis using inv i ap(2) [of i] li by (auto simp: linked_def round_inv_def)
  qed simp
  moreover have "kinv t'" "same_sched s t'" "same_core s t'"
    using li inv same_sched_trans same_core_trans by (auto simp: linked_def round_inv_def)
  ultimately show ?thesis
    using inv el tl so [OF ap(1) [symmetric]] unfolding round_inv_def round_list_append by simp
qed

lemma round_step:
  assumes k: "kinv s" and I: "InitThread s = I" and xs: "round_tids = ys @ x # zs" and inv: "round_inv s a0 ys a t"
  shows "\<exists>a' t'. visit x a t = Ok a' t' \<and> round_inv s a0 (ys @ [x]) a' t'"
proof -
  let ?p = "threadList s x"
  have xin: "x \<in> set round_tids" by (simp add: xs)
  then have x: "tid_in_range x" "x \<notin> set ys" and ys: "distinct ys" "set ys \<subseteq> set round_tids"
    using round_tids_props(2) [of x] round_tids_props(1) by (simp_all add: xs) auto
  have kt: "kinv t" "InitThread t = I" and same: "threadList t = threadList s" "jiffies t = jiffies s"
    using inv I by (simp_all add: round_inv_def same_sched_def)
  show ?thesis
  proof (cases "?p = NULL")
    case True
    then have "visit x a t = Ok a t" "\<not> live s ?p" using visit_free by (simp_all add: same live_def)
    moreover then have "\<not> eligible s ?p" using eligible_live by blast
    ultimately show ?thesis using inv True by (auto simp: round_inv_def round_list_append)
  next
    case np: False
    note pI = round_slots_apart(1) [OF k xin np, unfolded I]
    have tp: "theap t ?p = theap s ?p" using inv np x xin by (auto simp: round_inv_def)
    have el: "eligible t ?p = eligible s ?p" by (rule eligible_local [OF tp same(2)])
    have lv: "live t ?p = live s ?p" using tp by (simp add: live_def)
    show ?thesis
    proof (cases "eligible s ?p")
      case False
      then show ?thesis
        using visit_skip [OF kt x(1), of a] np pI inv_skip [OF k xin ys(2) x(2) inv np False]
        by (auto simp: same el tp lv)
    next
      case True
      have "tail a t \<in> set (InitThread s # round_list s ys)"
        using inv by (metis round_inv_def last_in_set list.distinct(1))
      moreover have "?p \<notin> set (round_list s ys)"
        using round_slots_apart(2) [OF k xin np] ys(2) x(2) by (auto simp: round_list_def) (metis subsetD)
      ultimately have qp: "tail a t \<noteq> NULL" "tail a t \<noteq> ?p"
        using round_list_props(2) [OF k ys] pI I by auto
      then show ?thesis
        using visit_link [OF kt x(1), of a] pI True inv_link [OF k xin ys(2) x(2) ys(1) inv True _ _ _ qp(2)]
        by (auto simp: same el tp)
    qed
  qed
qed

text \<open>
  The loop returns; with \<open>next\<close> of the last thread set to NULL, the list it built is the init
  thread followed by the eligible threads.
\<close>

lemma round_result:
  assumes k: "kinv s" and I: "InitThread s = I" and "tail a0 s = I"
  shows "\<exists>t. foldA visit round_tids a0 s = Ok (fold link (round_list s round_tids) a0) t \<and>
    round_inv s a0 round_tids (fold link (round_list s round_tids) a0) t"
proof -
  have "round_inv s a0 [] a0 s"
    using assms by (simp add: round_inv_def round_list_def same_sched_def)
  then have "\<exists>a t. foldA visit round_tids a0 s = Ok a t \<and> round_inv s a0 round_tids a t"
    by (rule foldA_prefix) (rule round_step [OF k I])
  then show ?thesis by (auto simp: round_inv_def)
qed

lemma round_chain:
  assumes k: "kinv s" and inv: "round_inv s a0 round_tids a t"
    and nx: "\<And>q. th_next (theap t' q) = (if q = tail a t then NULL else th_next (theap t q))"
  shows "tail a t \<noteq> NULL"
    and "chain (\<lambda>q. th_next (theap t' q)) (InitThread s) (InitThread s # round_list s round_tids)"
proof -
  let ?xs = "InitThread s # round_list s round_tids"
  note lp = round_list_props [OF k round_tids_props(1) order.refl]
  have q: "tail a t = last ?xs" and li: "links (\<lambda>z. th_next (theap t z)) ?xs"
    using inv unfolding round_inv_def by blast+
  show "tail a t \<noteq> NULL" using lp(2) q by (metis last_in_set list.distinct(1))
  have "links (\<lambda>z. th_next (theap t' z)) ?xs = links (\<lambda>z. th_next (theap t z)) ?xs"
  proof (rule links_cong)
    fix z assume "z \<in> set (butlast ?xs)"
    then have "z \<noteq> last ?xs"
      using lp(1) by (metis append_butlast_last_id distinct_append disjoint_iff list.distinct(1) list.set_intros(1))
    then show "th_next (theap t' z) = th_next (theap t z)" using q by (simp add: nx)
  qed
  then show "chain (\<lambda>q. th_next (theap t' q)) (InitThread s) ?xs"
    using lp(2) li q nx by (subst chain_links) auto
qed

lemma round_life:
  assumes k: "kinv s" and inv: "round_inv s a0 round_tids a t" and p: "live s p" "p \<noteq> InitThread s"
  shows "state_after t p = next_state (jiffies s) (theap s p)"
proof -
  let ?i = "th_tid (theap s p)"
  have sl: "tid_in_range ?i" "threadList s ?i = p" using kinv_live_slot [OF k p(1)] by blast+
  moreover have "?i \<noteq> INIT_TID" using sl(2) p(2) kinv_InitThread(4) [OF k] by metis
  ultimately have "?i \<in> set round_tids" using round_tids_props(2) by blast
  with inv p(1) sl(2) show ?thesis unfolding round_inv_def by metis
qed

end

end
