(* ===== verification/Round_RR.thy ===== *)
theory Round_RR
  imports Ipc Round_Loop
begin

text \<open>
  \<open>sched/sched.c\<close>, the round robin policy: \<open>__scheduler_rr\<close> walks the thread table once,
  carries out the pending exits and blocks, wakes the sleepers whose time has come, reaps the
  zombies, and links the ready threads behind the init thread into the list that the task switch
  walks. The body of the loop is one definition per part: the deferred requests, the waiting
  threads, the zombies and the ready threads; the first two and the zombie part report whether they
  end the visit with \<open>continue\<close>. C identifiers that start with underscores lose them here.
\<close>

section \<open>Notifying the parent\<close>

abbreviation (input) MSG_NOTIFY_PARENT :: int where "MSG_NOTIFY_PARENT \<equiv> 89"

definition sched_notify_parent :: "ptr \<Rightarrow> int \<Rightarrow> kstate \<Rightarrow> unit kres" where
  "sched_notify_parent thread event_number s =
     (if thread = NULL then Ok () s
      else if th_magic (theap s thread) \<noteq> 1234 then Ok () s
      else let teid = th_tgid (theap s thread) in
      if teid < 0 then Ok () s
      else if teid \<ge> PROCESS_COUNT_MAX then Ok () s
      else let p_owner = teList s teid in
      if p_owner = NULL then Ok () s
      else if te_magic (pheap s p_owner) \<noteq> 1234 then Ok () s
      else let parent_pid = te_ppid (pheap s p_owner) in
      if parent_pid < 0 then Ok () s
      else if parent_pid \<ge> PROCESS_COUNT_MAX then Ok () s
      else let p_parent = teList s parent_pid in
      if p_parent = NULL then Ok () s
      else if te_magic (pheap s p_parent) \<noteq> 1234 then Ok () s
      else let target_thread = te_flower (pheap s p_parent) in
      if target_thread = NULL then Ok () s
      else if th_magic (theap s target_thread) \<noteq> 1234 then Ok () s
      else let Sender = th_tid (theap s thread); Receiver = th_tid (theap s target_thread) in
      bindR (ipc_post_message_to_tid Sender Receiver MSG_NOTIFY_PARENT
               (word_of_int Sender) (word_of_int Receiver) s) (\<lambda>_ s'. Ok () s'))"

section \<open>The visit of one thread\<close>

definition rr_deferred :: "ptr \<Rightarrow> ptr \<Rightarrow> kstate \<Rightarrow> bool \<times> kstate" where
  "rr_deferred Idle TmpThread s =
     (if th_magic (theap s TmpThread) = 1234 then
        (if has_event_from_ds (th_msgctl (theap s TmpThread)) = TRUE then
           (let s1 = (if (th_state (theap s TmpThread) = WAITING \<or> th_state (theap s TmpThread) = BLOCKED) \<and>
                         reason_is_wakeable (th_wait_reason (theap s TmpThread))
                      then upd_thread TmpThread (\<lambda>th. th\<lparr>th_wait_reason := WAIT_REASON_NULL\<rparr>)
                             (do_thread_ready (th_tid (theap s TmpThread)) s)
                      else s)
            in (True, upd_thread TmpThread (\<lambda>th. th\<lparr>th_msgctl :=
                       (th_msgctl th)\<lparr>has_event_from_ds := FALSE\<rparr>\<rparr>) s1))
         else if block_in_progress (th_msgctl (theap s TmpThread)) = TRUE then
           (let s1 = do_thread_blocked (th_tid (theap s TmpThread)) s
            in (True, upd_thread TmpThread (\<lambda>th. th\<lparr>th_wait_reason := WAIT_REASON_LOOP,
                       th_msgctl := (th_msgctl th)\<lparr>block_in_progress := FALSE\<rparr>\<rparr>) s1))
         else if exit_in_progress (th_Deferred (theap s TmpThread)) = TRUE \<and> TmpThread \<noteq> Idle then
           (let s1 = upd_thread TmpThread (\<lambda>th. th\<lparr>th_state := ZOMBIE\<rparr>) s
            in (True, if th_tid (theap s1 TmpThread) = foreground_thread s1
                      then s1\<lparr>foreground_thread := -1\<rparr> else s1))
         else (False, s))
      else (False, s))"

definition rr_waiting :: "ptr \<Rightarrow> kstate \<Rightarrow> bool \<times> kstate" where
  "rr_waiting TmpThread s =
     (if th_used (theap s TmpThread) = TRUE \<and> th_magic (theap s TmpThread) = 1234 \<and>
         th_state (theap s TmpThread) = WAITING
      then let s1 = (if jiffies s > th_alarm (theap s TmpThread)
                     then upd_thread TmpThread (\<lambda>th. th\<lparr>th_alarm := 0\<rparr>) s else s)
        in if jiffies s1 \<ge> th_wake_jiffy (theap s1 TmpThread)
           then (False, do_thread_ready (th_tid (theap s1 TmpThread)) s1)
           else (True, s1)
      else (False, s))"

definition rr_zombie :: "ptr \<Rightarrow> kstate \<Rightarrow> bool kres" where
  "rr_zombie TmpThread s =
     (if th_used (theap s TmpThread) = TRUE \<and> th_magic (theap s TmpThread) = 1234 \<and>
         th_state (theap s TmpThread) = ZOMBIE
      then let s1 = (if ds_initialized (DisplayServerInfo s) = TRUE \<and>
                        th_tid (theap s TmpThread) = ds_tid (DisplayServerInfo s)
                     then s\<lparr>DisplayServerInfo := (DisplayServerInfo s)\<lparr>ds_initialized := FALSE\<rparr>\<rparr> else s)
        in if TmpThread = InitThread s1 then Panic ''__scheduler_rr: Can't kill InitThread''
           else Ok True (upd_thread TmpThread (\<lambda>th. th\<lparr>th_used := FALSE, th_magic := 0\<rparr>) s1)
      else Ok False s)"

text \<open>The assignments to the fields of a ready thread (lines 823 to 876).\<close>

definition rr_ready_fields :: "ptr \<Rightarrow> ptr \<Rightarrow> kstate \<Rightarrow> thread_d \<Rightarrow> thread_d" where
  "rr_ready_fields Idle TmpThread s th =
     (let th1 = th\<lparr>th_runningCount := 0, th_runningCount_ms := 0,
                   th_scheduledCount := th_scheduledCount th + 1\<rparr>;
          th2 = (if th_base_priority th1 < PRIORITY_MIN then th1\<lparr>th_base_priority := PRIORITY_MIN\<rparr> else th1);
          th3 = (if th_base_priority th2 > PRIORITY_MAX then th2\<lparr>th_base_priority := PRIORITY_MAX\<rparr> else th2);
          th4 = th3\<lparr>th_priority := th_base_priority th3, th_quantum := QUANTUM_NORMAL_BALANCED\<rparr>;
          th5 = (if TmpThread = Idle then th4\<lparr>th_quantum := QUANTUM_NORMAL_BALANCED\<rparr> else th4);
          th6 = (if th_tid th5 = foreground_thread s
                 then th5\<lparr>th_quantum := QUANTUM_NORMAL_BALANCED\<rparr> else th5);
          th7 = (if ds_initialized (DisplayServerInfo s) = TRUE \<and> th_tid th6 = ds_tid (DisplayServerInfo s)
                 then th6\<lparr>th_quantum := QUANTUM_NORMAL_BALANCED\<rparr> else th6)
      in if th_credits th7 \<ge> 2 then th7\<lparr>th_quantum := th_quantum th7 + 1, th_credits := 0\<rparr> else th7)"

definition rr_ready :: "ptr \<Rightarrow> ptr \<Rightarrow> int \<Rightarrow> kstate \<Rightarrow> int kres" where
  "rr_ready Idle TmpThread ReadyCounter s =
     (if th_used (theap s TmpThread) = TRUE \<and> th_magic (theap s TmpThread) = 1234 \<and>
         th_state (theap s TmpThread) = READY
      then if p1q s = NULL then Fault ''p1q->next''
        else let s1 = upd_thread (p1q s) (\<lambda>th. th\<lparr>th_next := TmpThread\<rparr>) s;
                 s2 = s1\<lparr>p1q := th_next (theap s1 (p1q s1))\<rparr>
        in Ok (ReadyCounter + 1) (upd_thread TmpThread (rr_ready_fields Idle TmpThread s2) s2)
      else Ok ReadyCounter s)"

definition rr_visit :: "ptr \<Rightarrow> int \<Rightarrow> int \<Rightarrow> kstate \<Rightarrow> int kres" where
  "rr_visit Idle i ReadyCounter s =
     (let TmpThread = threadList s i in
      if TmpThread = NULL then Ok ReadyCounter s
      else let (cont, s1) = rr_deferred Idle TmpThread s in
      if cont then Ok ReadyCounter s1
      else let (cont, s2) = rr_waiting TmpThread s1 in
      if cont then Ok ReadyCounter s2
      else bindR (rr_zombie TmpThread s2) (\<lambda>cont s3.
        if cont then Ok ReadyCounter s3
        else rr_ready Idle TmpThread ReadyCounter s3))"

section \<open>The round\<close>

text \<open>The heads of all queues (lines 580 to 597).\<close>

definition rr_set_heads :: "ptr \<Rightarrow> kstate \<Rightarrow> kstate" where
  "rr_set_heads Idle s0 =
     (let s6 = set_queue_heads Idle s0;
          s7 = s6\<lparr>currentq := p1q s6\<rparr>
      in snd (qlist_set_element 0 (p1q s7) s7))"

text \<open>The end of the round (lines 883 to 896).\<close>

definition rr_finish :: "int \<Rightarrow> kstate \<Rightarrow> kstate" where
  "rr_finish ReadyCounter s =
     (let s1 = s\<lparr>SchedulerInfo := (SchedulerInfo s)\<lparr>si_rr_ready_threads_in_round := ReadyCounter\<rparr>\<rparr>;
          s2 = sched_quick_and_dirty_load_balancer s1;
          s3 = upd_thread (p1q s2) (\<lambda>th. th\<lparr>th_next := NULL\<rparr>) s2
      in s3\<lparr>SchedulerInfo := (SchedulerInfo s3)
             \<lparr>si_rr_round_counter := si_rr_round_counter (SchedulerInfo s3) + 1\<rparr>\<rparr>)"

definition scheduler_rr :: "u64 \<Rightarrow> kstate \<Rightarrow> int kres" where
  "scheduler_rr sched_flags s =
     (let s0 = s\<lparr>p1q := NULL, p2q := NULL, p3q := NULL, p4q := NULL, p5q := NULL, p6q := NULL,
                 currentq := NULL\<rparr> in
      if si_initialized (SchedulerInfo s0) \<noteq> TRUE then Panic ''__scheduler_rr: Scheduler not initialized''
      else if si_policy (SchedulerInfo s0) \<noteq> SCHED_POLICY_RR then Panic ''__scheduler_rr: Scheduler policy''
      else let Idle = up_IdleThread (UPProcessorBlock s0) in
      if Idle = NULL then Panic ''__scheduler_rr: Idle''
      else if th_used (theap s0 Idle) \<noteq> TRUE \<or> th_magic (theap s0 Idle) \<noteq> 1234
      then Panic ''__scheduler_rr: Idle validation''
      else if Idle \<noteq> InitThread s0 then Panic ''__scheduler_rr: Idle != InitThread''
      else let s1 = upd_thread Idle (\<lambda>th. th\<lparr>th_base_priority := PRIORITY_SYSTEM_THRESHOLD,
                      th_priority := PRIORITY_SYSTEM_THRESHOLD, th_quantum := QUANTUM_NORMAL_THRESHOLD\<rparr>) s0;
               FirstTID = th_tid (theap s1 Idle)
      in if FirstTID \<noteq> INIT_TID then Panic ''__scheduler_rr: FirstTID''
      else let s2 = rr_set_heads Idle s1 in
      if th_tid (theap s2 Idle) \<noteq> 0 then Panic ''sched: Idle->tid != INIT_TID''
      else if th_tid (theap s2 Idle) \<noteq> INIT_TID then Panic ''sched: Idle->tid != INIT_TID''
      else let s3 = do_thread_ready (th_tid (theap s2 Idle)) s2
      in bindR (foldA (rr_visit Idle) round_tids 0 s3) (\<lambda>ReadyCounter s4.
           Ok FirstTID (rr_finish ReadyCounter s4)))"

end
