(* ===== verification/Demo_State.thy ===== *)
theory Demo_State
  imports Thread_State
begin

text \<open>
  A small concrete state of the kernel: three threads (the init thread with tid 0, and tids 1 and 2)
  of one process, each with its 64 message cells. It satisfies the kernel invariant; the theorems of
  the development that have hypotheses are applied to it and to variants of it.
\<close>

section \<open>Blank structures\<close>

definition blank_deferred :: deferred_d where
  "blank_deferred =
     \<lparr>yield_in_progress = 0, sleep_in_progress = 0, desired_sleep_ms = 0, exit_in_progress = 0,
     exit_code = 0\<rparr>"

definition blank_msgctl :: msgctl_d where
  "blank_msgctl =
     \<lparr>input_flags = 0, block_in_progress = 0, block_on_empty = 0, miss_count = 0,
     has_event_from_ds = 0\<rparr>"

definition blank_context :: x64_context_d where
  "blank_context =
     \<lparr>c_rax = 0, c_rcx = 0, c_rdx = 0, c_rbx = 0, c_rsp = 0, c_rbp = 0, c_rsi = 0, c_rdi = 0,
     c_r8 = 0, c_r9 = 0, c_r10 = 0, c_r11 = 0, c_r12 = 0, c_r13 = 0, c_r14 = 0, c_r15 = 0,
     c_rip = 0, c_cs = 0, c_ds = 0, c_es = 0, c_fs = 0, c_gs = 0, c_ss = 0, c_rflags = 0,
     c_fpu_buffer = (\<lambda>_. 0)\<rparr>"

definition blank_frame :: cpu_frame where
  "blank_frame =
     \<lparr>f_ss = 0, f_rsp = 0, f_rflags = 0, f_cs = 0, f_rip = 0, f_ds = 0, f_es = 0, f_fs = 0,
     f_gs = 0, f_rax = 0, f_rbx = 0, f_rcx = 0, f_rdx = 0, f_rsi = 0, f_rdi = 0, f_rbp = 0,
     f_r8 = 0, f_r9 = 0, f_r10 = 0, f_r11 = 0, f_r12 = 0, f_r13 = 0, f_r14 = 0, f_r15 = 0,
     f_fpu_buffer = (\<lambda>_. 0)\<rparr>"

definition blank_msg :: msg_d where
  "blank_msg =
     \<lparr>m_used = 1, m_magic = 1234, m_opaque_window = 0, m_msg = 0, m_long1 = 0, m_long2 = 0,
     m_long3 = 0, m_long4 = 0, m_sender_tid = 0, m_receiver_tid = 0, m_sender_pid = 0,
     m_receiver_pid = 0, m_next = 0\<rparr>"

definition blank_te :: te_d where
  "blank_te =
     \<lparr>te_used = 0, te_magic = 0, te_pid = 0, te_ppid = 0, te_state = PROCESS_CREATED,
     te_wait4pid = 0, te_flower = 0, te_pml4_PA = 0, te_signal = 0\<rparr>"

definition blank_thread :: thread_d where
  "blank_thread =
     \<lparr>th_used = 0, th_magic = 0, th_type = THREAD_TYPE_NULL, th_te = 0, th_tgid = 0, th_tid = 0,
     th_base_priority = 0, th_priority = 0, th_quantum = 0, th_state = THREAD_STATE_CREATED,
     th_new_clone = 0, th_Deferred = blank_deferred, th_callback_in_progress = 0,
     th_cb_r3_address = 0, th_is_alertable = 0, th_signal = 0, th_has_pending_event = 0,
     th_its_my_party = 0, th_wait_reason = WAIT_REASON_NULL, th_pml4_PA = 0, th_cpl = 0,
     th_rflags_initial_iopl = 0, th_rflags_current_iopl = 0, th_to_supervisor = 0,
     th_to_user = 0, th_initial_jiffy = 0, th_ready_jiffy = 0, th_waiting_jiffy = 0,
     th_blocked_jiffy = 0, th_zombie_jiffy = 0, th_wake_jiffy = 0, th_step = 0,
     th_initial_time_ms = 0, th_total_time_ms = 0, th_credits = 0, th_standbyCount = 0,
     th_standbyCount_ms = 0, th_runningCount = 0, th_runningCount_ms = 0, th_readyCount = 0,
     th_readyCount_ms = 0, th_waitingCount = 0, th_waitingCount_ms = 0, th_blockedCount = 0,
     th_blockedCount_ms = 0, th_scheduledCount = 0, th_alarm = 0,
     th_profiler_percentage_running = 0, th_profiler_percentage_running_res = 0,
     th_profiler_percentage_running_mod = 0, th_profiler_ticks_running = 0,
     th_profiler_last_ticks = 0, th_link = 0, th_is_linked = 0, th_MsgQueue = (\<lambda>_. 0),
     th_MsgQueueHead = 0, th_MsgQueueTail = 0, th_msgctl = blank_msgctl,
     th_context = blank_context, th_saved = 0, th_next = 0\<rparr>"

section \<open>Three threads\<close>

text \<open>The cells of the queue of thread \<open>tid\<close> start at address \<open>0x10000 + 0x1000 * tid\<close>.\<close>

definition demo_thread :: "int \<Rightarrow> thread_d" where
  "demo_thread tid = blank_thread\<lparr>th_used := 1, th_magic := 1234, th_tid := tid, th_type := THREAD_TYPE_NORMAL,
     th_base_priority := 3, th_priority := 3, th_quantum := 2, th_cpl := 3, th_state := READY, th_saved := 1,
     th_MsgQueue := (\<lambda>k. word_of_int (0x10000 + 0x1000 * tid + k))\<rparr>"

definition demo_threads :: "ptr \<Rightarrow> thread_d" where
  "demo_threads p = (if p = 0x1000 then demo_thread 0 else if p = 0x2000 then demo_thread 1
     else if p = 0x3000 then demo_thread 2 else blank_thread)"

definition demo_threadList :: "int \<Rightarrow> ptr" where
  "demo_threadList i = (if i = 0 then 0x1000 else if i = 1 then 0x2000 else if i = 2 then 0x3000 else 0)"

definition demo_processes :: "ptr \<Rightarrow> te_d" where
  "demo_processes p = (if p = 0x100
     then blank_te\<lparr>te_used := 1, te_magic := 1234, te_pml4_PA := 0x5000\<rparr> else blank_te)"

definition demo_sched :: scheduler_info_d where
  "demo_sched =
     \<lparr>si_initialized = 1, si_policy = 0, si_flags = 0, si_is_locked = 1, si_rr_round_counter = 0,
     si_rr_ready_threads_in_round = 0, si_stage = 0, si_max_stage = 6\<rparr>"

definition demo :: kstate where
  "demo =
     \<lparr>theap = demo_threads, mheap = (\<lambda>_. blank_msg), pheap = demo_processes,
     threadList = demo_threadList, teList = (\<lambda>i. if i = 0 then 0x100 else 0),
     current_thread = 0, foreground_thread = 0, current_pid = 0, InitThread = 0x1000,
     currentq = 0x1000, qList = (\<lambda>_. 0), p1q = 0, p2q = 0, p3q = 0, p4q = 0, p5q = 0,
     p6q = 0, SchedulerInfo = demo_sched, stage_selection_count = (\<lambda>_. 0),
     g_use_event_responder = 0, ev_responder_thread = 0,
     DisplayServerInfo = \<lparr>ds_initialized = 0, ds_tid = 0\<rparr>,
     UPProcessorBlock = \<lparr>up_IdleThread = 0x1000, up_CurrentThread = 0x1000, up_threads_counter = 3\<rparr>,
     system_state = 4, jiffies = 100, task_switch_status = 1, extra = 0,
     dead_thread_collector_status = 0, dead_thread_collector_flag = 0, DispatchCountBlock = None,
     asmflagDoCallbackAfterCR3 = 0, ring3_callback_address = 0, ring3_callback_parm1 = 0,
     ring3_callback_parm2 = 0, ring3_callback_parm3 = 0, ring3_callback_parm4 = 0,
     frame = blank_frame, contextCPL = 0, cr3 = 0, spawn_eoi_is_necessary = 0, iret_rip = 0,
     iret_rsp = 0, profiler_ticks_limit = 0, profiler_percentage_all_normal_threads = 0,
     profiler_percentage_idle_thread = 0\<rparr>"

section \<open>The invariant holds\<close>

lemma demo_sel [simp]:
  "theap demo = demo_threads" "threadList demo = demo_threadList" "mheap demo = (\<lambda>_. blank_msg)"
  "pheap demo = demo_processes" "InitThread demo = 0x1000" "current_thread demo = 0"
  "jiffies demo = 100" "currentq demo = 0x1000" "SchedulerInfo demo = demo_sched"
  "g_use_event_responder demo = 0" "foreground_thread demo = 0" "system_state demo = 4"
  "teList demo = (\<lambda>i. if i = 0 then 0x100 else 0)"
  "UPProcessorBlock demo = \<lparr>up_IdleThread = 0x1000, up_CurrentThread = 0x1000, up_threads_counter = 3\<rparr>"
  by (simp_all add: demo_def)

lemma demo_thread_sel [simp]:
  "th_used (demo_thread tid) = 1" "th_magic (demo_thread tid) = 1234" "th_tid (demo_thread tid) = tid"
  "th_tgid (demo_thread tid) = 0" "th_cpl (demo_thread tid) = 3" "th_state (demo_thread tid) = READY"
  "th_MsgQueue (demo_thread tid) k = word_of_int (0x10000 + 0x1000 * tid + k)"
  "th_MsgQueueHead (demo_thread tid) = 0" "th_MsgQueueTail (demo_thread tid) = 0"
  "th_used blank_thread = 0"
  by (simp_all add: demo_thread_def blank_thread_def)

lemma live_demo: "live demo p \<longleftrightarrow> p = 0x1000 \<or> p = 0x2000 \<or> p = 0x3000"
  by (auto simp: live_def demo_threads_def)

lemma demo_tid_ranges [simp]: "tid_in_range 1" "tid_in_range 2"
  by (simp_all add: tid_in_range_def THREAD_COUNT_MAX_def)

lemma valid_tid_demo [simp]: "valid_tid demo 0" "valid_tid demo 1" "valid_tid demo 2"
  by (simp_all add: valid_tid_def live_demo demo_threadList_def)

lemma word_of_int_small:
  "0 \<le> a \<Longrightarrow> a < 2 ^ 64 \<Longrightarrow> 0 \<le> b \<Longrightarrow> b < 2 ^ 64 \<Longrightarrow> (word_of_int a :: u64) = word_of_int b \<longleftrightarrow> a = b"
  by (simp add: word_of_int_eq_iff take_bit_int_eq_self)

lemma demo_cells:
  assumes "i \<in> {0, 1, 2}" "j \<in> {0, 1, 2}" "qidx k" "qidx l"
  shows "(word_of_int (0x10000 + 0x1000 * i + k) :: u64) = word_of_int (0x10000 + 0x1000 * j + l)
    \<longleftrightarrow> i = j \<and> k = l"
  using assms by (subst word_of_int_small) (auto simp: qidx_def MSG_QUEUE_MAX_def)

lemma demo_cell_not_NULL:
  assumes "i \<in> {0, 1, 2}" "qidx k"
  shows "(word_of_int (0x10000 + 0x1000 * i + k) :: u64) \<noteq> 0"
  using assms word_of_int_small [of "0x10000 + 0x1000 * i + k" 0]
  by (auto simp: qidx_def MSG_QUEUE_MAX_def)

lemma kinv_demo [simp]: "kinv demo"
proof -
  have "table_ok demo" "init_ok demo"
    by (auto simp: table_ok_def init_ok_def live_demo demo_threads_def demo_threadList_def split: if_splits)
  moreover have "te_ok demo"
    by (auto simp: te_ok_def live_demo demo_threads_def te_valid_def demo_processes_def blank_te_def
        PROCESS_COUNT_MAX_def)
  moreover have "mbox_ok demo"
  proof -
    have q: "qidx 0" by (simp add: qidx_def MSG_QUEUE_MAX_def)
    have m: "msg_ok demo (word_of_int (0x10000 + 0x1000 * i + k))" if "i \<in> {0, 1, 2}" "qidx k" for i k
      using demo_cell_not_NULL [OF that] by (simp add: msg_ok_def blank_msg_def)
    have t: "demo_threads p = demo_thread (if p = 0x1000 then 0 else if p = 0x2000 then 1 else 2)"
      if "live demo p" for p
      using that by (auto simp: live_demo demo_threads_def)
    show ?thesis
      unfolding mbox_ok_def
    proof (intro conjI allI impI)
      fix p assume l: "live demo p"
      show "qidx (th_MsgQueueHead (theap demo p))" "qidx (th_MsgQueueTail (theap demo p))"
        using q by (simp_all add: t [OF l])
      fix k assume "qidx k"
      then show "msg_ok demo (th_MsgQueue (theap demo p) k)"
        using m by (simp add: t [OF l])
    next
      fix p q k l
      assume lp: "live demo p" and lq: "live demo q" and "qidx k" "qidx l"
        and "th_MsgQueue (theap demo p) k = th_MsgQueue (theap demo q) l"
      then have "p = 0x1000 \<and> q = 0x1000 \<or> p = 0x2000 \<and> q = 0x2000 \<or> p = 0x3000 \<and> q = 0x3000" "k = l"
        using demo_cells [of "if p = 0x1000 then 0 else if p = 0x2000 then 1 else 2"
            "if q = 0x1000 then 0 else if q = 0x2000 then 1 else 2" k l] lp lq
        by (auto simp: t [OF lp] t [OF lq] live_demo split: if_splits)
      then show "p = q" "k = l" by auto
    qed
  qed
  ultimately show ?thesis by (simp add: kinv_def)
qed

end
