(* ===== verification/Round_RR_Laws.thy ===== *)
theory Round_RR_Laws
  imports Round_RR Demo_State
begin

text \<open>
  The round robin round builder is correct: from a state that satisfies the kernel invariant it
  never panics, and the list it leaves in \<open>currentq\<close> is the init thread followed by exactly the
  eligible threads in the order of their tids, ended by NULL. The loop body meets the contract
  \<open>round_loop\<close>; \<open>rr_next_state\<close> is the life cycle of a thread across one round.
\<close>

section \<open>Specification\<close>

definition rr_eligible :: "kstate \<Rightarrow> ptr \<Rightarrow> bool" where
  "rr_eligible s t \<longleftrightarrow> live s t \<and>
     has_event_from_ds (th_msgctl (theap s t)) \<noteq> TRUE \<and>
     block_in_progress (th_msgctl (theap s t)) \<noteq> TRUE \<and>
     exit_in_progress (th_Deferred (theap s t)) \<noteq> TRUE \<and>
     (th_state (theap s t) = READY \<or>
      th_state (theap s t) = WAITING \<and> th_wake_jiffy (theap s t) \<le> jiffies s)"

text \<open>\<open>None\<close>: the thread is reaped.\<close>

definition rr_next_state :: "u64 \<Rightarrow> thread_d \<Rightarrow> thread_state_t option" where
  "rr_next_state now th =
     (if has_event_from_ds (th_msgctl th) = TRUE
      then Some (if th_state th \<in> {WAITING, BLOCKED} \<and> reason_is_wakeable (th_wait_reason th)
                 then READY else th_state th)
      else if block_in_progress (th_msgctl th) = TRUE then Some BLOCKED
      else if exit_in_progress (th_Deferred th) = TRUE then Some ZOMBIE
      else if th_state th = WAITING then Some (if th_wake_jiffy th \<le> now then READY else WAITING)
      else if th_state th = ZOMBIE then None
      else Some (th_state th))"

lemma rr_eligible_next_state:
  "rr_eligible s t \<Longrightarrow> rr_next_state (jiffies s) (theap s t) = Some READY"
  by (auto simp: rr_eligible_def rr_next_state_def)

lemma touch_foreground: "touch p s s' \<Longrightarrow> touch p s (s'\<lparr>foreground_thread := x\<rparr>)"
  by (simp add: touch_def same_core_def)

lemma touch_ds: "kinv s \<Longrightarrow> touch p s (s\<lparr>DisplayServerInfo := x\<rparr>)"
  by (simp add: touch_def same_core_def)

lemma rr_deferred_touch:
  assumes "kinv s" and "tid_in_range i" and "p = threadList s i" and "p \<noteq> NULL"
  shows "touch p s (snd (rr_deferred I p s))"
proof -
  have t: "touch p s (upd_thread p f s)"
    if "th_keeps (theap s p) (f (theap s p))" "th_next (f (theap s p)) = th_next (theap s p)"
      "th_same (theap s p) (f (theap s p))" for f
    using that assms(1) by (simp add: touch_upd_keeps)
  show ?thesis
    using do_thread_ready_slot [OF assms] do_thread_blocked_slot [OF assms]
    by (simp add: rr_deferred_def Let_def upd_thread_upd_thread t th_keeps_def th_same_def touch_refl [OF assms(1)]
        touch_foreground)
qed

lemma rr_deferred_state:
  assumes "kinv s" and "tid_in_range i" and "p = threadList s i" and "live s p" and "p \<noteq> I"
  shows "fst (rr_deferred I p s) \<Longrightarrow>
      state_after (snd (rr_deferred I p s)) p = rr_next_state (jiffies s) (theap s p)"
    and "\<not> fst (rr_deferred I p s) \<Longrightarrow> snd (rr_deferred I p s) = s \<and>
      has_event_from_ds (th_msgctl (theap s p)) \<noteq> TRUE \<and>
      block_in_progress (th_msgctl (theap s p)) \<noteq> TRUE \<and>
      exit_in_progress (th_Deferred (theap s p)) \<noteq> TRUE"
proof -
  note n = live_not_NULL [OF assms(4)]
  note r = do_thread_ready_slot [OF assms(1-3) n] do_thread_blocked_slot [OF assms(1-3) n]
  from assms(4) have m: "th_magic (theap s p) = 1234" "th_used (theap s p) = 1" "p \<noteq> 0"
    by (simp_all add: live_def)
  show "fst (rr_deferred I p s) \<Longrightarrow>
      state_after (snd (rr_deferred I p s)) p = rr_next_state (jiffies s) (theap s p)"
    using r assms(4,5) m
    by (auto simp: rr_deferred_def Let_def upd_thread_upd_thread state_after_def rr_next_state_def
        live_def split: if_splits)
  show "\<not> fst (rr_deferred I p s) \<Longrightarrow> snd (rr_deferred I p s) = s \<and>
      has_event_from_ds (th_msgctl (theap s p)) \<noteq> TRUE \<and>
      block_in_progress (th_msgctl (theap s p)) \<noteq> TRUE \<and>
      exit_in_progress (th_Deferred (theap s p)) \<noteq> TRUE"
    using assms(5) m by (auto simp: rr_deferred_def Let_def split: if_splits)
qed

lemma rr_deferred_live: "live (snd (rr_deferred I p s)) q = live s q"
proof -
  have "live (do_thread_ready x s) q = live s q" "live (do_thread_blocked x s) q = live s q" for x
    by (rule ready.op_live blocked.op_live)+
  then show ?thesis
    by (simp add: rr_deferred_def Let_def live_upd_thread th_keeps_def)
      (simp add: live_def)
qed

lemma rr_waiting_cases:
  assumes "kinv s" and "tid_in_range i" and "p = threadList s i" and "live s p"
  shows "th_state (theap s p) \<noteq> WAITING \<Longrightarrow> rr_waiting p s = (False, s)"
    and "th_state (theap s p) = WAITING \<Longrightarrow> \<exists>s'. rr_waiting p s = (th_wake_jiffy (theap s p) > jiffies s, s') \<and>
      touch p s s' \<and> live s' p \<and>
      th_state (theap s' p) = (if th_wake_jiffy (theap s p) > jiffies s then WAITING else READY)"
proof -
  show "th_state (theap s p) \<noteq> WAITING \<Longrightarrow> rr_waiting p s = (False, s)"
    by (simp add: rr_waiting_def)
  define s1 where "s1 = (if jiffies s > th_alarm (theap s p) then upd_thread p (\<lambda>th. th\<lparr>th_alarm := 0\<rparr>) s else s)"
  have s1: "touch p s s1" "live s1 p" "th_state (theap s1 p) = th_state (theap s p)"
    "th_wake_jiffy (theap s1 p) = th_wake_jiffy (theap s p)" "jiffies s1 = jiffies s"
    using assms by (auto simp: s1_def touch_refl touch_upd_keeps th_keeps_def th_same_def live_def)
  have sl: "p = threadList s1 i" "p \<noteq> NULL"
    using touch_slot [OF s1(1)] assms(3) live_not_NULL [OF assms(4)] by simp_all
  note r = do_thread_ready_slot [OF touch_inv [OF s1(1)] assms(2) sl]
  assume w: "th_state (theap s p) = WAITING"
  then have e: "rr_waiting p s = (if th_wake_jiffy (theap s p) \<le> jiffies s
      then (False, do_thread_ready (th_tid (theap s1 p)) s1) else (True, s1))"
    using assms(4) s1(4,5) by (simp add: rr_waiting_def live_def Let_def s1_def)
  have "touch p s (do_thread_ready (th_tid (theap s1 p)) s1)"
    using touch_trans [OF s1(1) touch_upd_keeps [OF touch_inv [OF s1(1)]]] s1(2)
    by (simp add: r th_keeps_def th_same_def)
  then show "\<exists>s'. rr_waiting p s = (th_wake_jiffy (theap s p) > jiffies s, s') \<and> touch p s s' \<and> live s' p \<and>
      th_state (theap s' p) = (if th_wake_jiffy (theap s p) > jiffies s then WAITING else READY)"
    using s1 w by (auto simp: e r live_upd_thread th_keeps_def not_le)
qed

lemma rr_zombie_cases:
  assumes "kinv s" and "live s p" and "p \<noteq> InitThread s"
  shows "th_state (theap s p) \<noteq> ZOMBIE \<Longrightarrow> rr_zombie p s = Ok False s"
    and "th_state (theap s p) = ZOMBIE \<Longrightarrow> \<exists>s'. rr_zombie p s = Ok True s' \<and> touch p s s' \<and> \<not> live s' p"
proof -
  show "th_state (theap s p) \<noteq> ZOMBIE \<Longrightarrow> rr_zombie p s = Ok False s"
    by (simp add: rr_zombie_def)
  define s1 where "s1 = (if ds_initialized (DisplayServerInfo s) = TRUE \<and>
                        th_tid (theap s p) = ds_tid (DisplayServerInfo s)
                     then s\<lparr>DisplayServerInfo := (DisplayServerInfo s)\<lparr>ds_initialized := FALSE\<rparr>\<rparr> else s)"
  have s1: "touch p s s1" using assms(1) by (simp add: s1_def touch_refl touch_ds)
  have "touch p s1 (upd_thread p (\<lambda>th. th\<lparr>th_used := FALSE, th_magic := 0\<rparr>) s1)"
    using touch_slot [OF s1] assms(3)
    by (intro touch_upd kinv_invalidate [OF touch_inv [OF s1]]) (simp_all add: th_same_def)
  from touch_trans [OF s1 this] show "\<exists>s'. rr_zombie p s = Ok True s' \<and> touch p s s' \<and> \<not> live s' p"
    if "th_state (theap s p) = ZOMBIE"
    using that assms(2,3) touch_slot [OF s1]
    by (auto simp: rr_zombie_def Let_def live_def simp flip: s1_def)
qed

lemma rr_ready_fields_sel [simp]:
  "th_keeps th (rr_ready_fields I p s th)" "th_same th (rr_ready_fields I p s th)"
  "th_state (rr_ready_fields I p s th) = th_state th" "th_next (rr_ready_fields I p s th) = th_next th"
  by (simp_all add: rr_ready_fields_def Let_def th_keeps_def th_same_def)

text \<open>A thread that is not eligible is not linked; its state follows the life cycle.\<close>

lemma rr_visit_skip:
  assumes "kinv s" and "tid_in_range i" and "p = threadList s i" and "p \<noteq> NULL" and "p \<noteq> InitThread s"
    and "\<not> rr_eligible s p"
  shows "\<exists>s'. rr_visit (InitThread s) i n s = Ok n s' \<and> touch p s s' \<and>
    (if live s p then state_after s' p = rr_next_state (jiffies s) (theap s p) else \<not> live s' p)"
proof (cases "fst (rr_deferred (InitThread s) p s)")
  case True
  then show ?thesis
    using rr_deferred_touch [OF assms(1-4)] rr_deferred_state(1) [OF assms(1-3) _ assms(5) True] assms(4)
    by (auto simp: rr_visit_def Let_def split_beta rr_deferred_live simp flip: assms(3))
next
  case nd: False
  show ?thesis
  proof (cases "live s p")
    case False
    let ?s1 = "snd (rr_deferred (InitThread s) p s)"
    have "\<not> live ?s1 p" using False by (simp add: rr_deferred_live)
    then have "rr_waiting p ?s1 = (False, ?s1)" "rr_zombie p ?s1 = Ok False ?s1"
      "rr_ready (InitThread s) p n ?s1 = Ok n ?s1"
      using assms(4) by (auto simp: rr_waiting_def rr_zombie_def rr_ready_def live_def)
    then show ?thesis
      using False nd assms(4) rr_deferred_touch [OF assms(1-4)]
      by (simp add: rr_visit_def Let_def split_beta rr_deferred_live flip: assms(3))
  next
    case lv: True
    note d = rr_deferred_state(2) [OF assms(1-3) lv assms(5) nd]
    then have dd: "rr_deferred (InitThread s) p s = (False, s)" using nd by (metis prod.collapse)
    have v: "rr_visit (InitThread s) i n s = (let (cont, s2) = rr_waiting p s in
      if cont then Ok n s2
      else bindR (rr_zombie p s2) (\<lambda>cont s3.
        if cont then Ok n s3 else rr_ready (InitThread s) p n s3))"
      using assms(4) by (simp add: rr_visit_def dd Let_def flip: assms(3))
    show ?thesis
    proof (cases "th_state (theap s p) = WAITING")
      case True
      then have "th_wake_jiffy (theap s p) > jiffies s"
        using assms(6) d lv by (auto simp: rr_eligible_def)
      with rr_waiting_cases(2) [OF assms(1-3) lv True] d True lv show ?thesis
        by (auto simp: v state_after_def rr_next_state_def)
    next
      case nw: False
      have nr: "th_state (theap s p) \<noteq> READY"
        using assms(6) d lv by (auto simp: rr_eligible_def)
      show ?thesis
      proof (cases "th_state (theap s p) = ZOMBIE")
        case True
        with rr_zombie_cases(2) [OF assms(1) lv assms(5)] d lv nw show ?thesis
          by (auto simp: v rr_waiting_cases(1) [OF assms(1-3) lv] state_after_def rr_next_state_def)
      next
        case False
        with nw nr d lv show ?thesis
          by (auto simp: v rr_waiting_cases(1) [OF assms(1-3) lv] rr_zombie_cases(1) [OF assms(1) lv assms(5)]
              rr_ready_def state_after_def rr_next_state_def touch_refl [OF assms(1)])
      qed
    qed
  qed
qed

text \<open>An eligible thread is linked behind the last thread of the round.\<close>

lemma rr_visit_link:
  assumes "kinv s" and "tid_in_range i" and "p = threadList s i" and "p \<noteq> InitThread s"
    and "rr_eligible s p" and "p1q s \<noteq> NULL" and "p1q s \<noteq> p"
  shows "\<exists>s1 s'. rr_visit (InitThread s) i n s = Ok (n + 1) s' \<and> touch p s s1 \<and> live s1 p \<and>
    th_state (theap s1 p) = READY \<and>
    s' = upd_thread p (rr_ready_fields (InitThread s) p s1) (upd_thread (p1q s) (\<lambda>th. th\<lparr>th_next := p\<rparr>) s1\<lparr>p1q := p\<rparr>)"
proof -
  have lv: "live s p" using assms(5) by (simp add: rr_eligible_def)
  note n = live_not_NULL [OF lv]
  have dd: "rr_deferred (InitThread s) p s = (False, s)"
    using assms(5) by (simp add: rr_eligible_def rr_deferred_def)
  obtain s1 where w: "rr_waiting p s = (False, s1)" and s1: "touch p s s1" "live s1 p"
      "th_state (theap s1 p) = READY"
    using rr_waiting_cases [OF assms(1-3) lv] assms(5) lv touch_refl [OF assms(1)]
    by (cases "th_state (theap s p) = WAITING") (auto simp: rr_eligible_def)
  have q: "p1q s1 = p1q s" "p \<noteq> InitThread s1" using s1(1) assms(4) by (simp_all add: touch_def)
  have z: "rr_zombie p s1 = Ok False s1"
    using rr_zombie_cases(1) [OF touch_inv [OF s1(1)] s1(2) q(2)] s1(3) by simp
  have f: "rr_ready_fields I p (s2\<lparr>p1q := x\<rparr>) = rr_ready_fields I p s2"
    "rr_ready_fields I p (upd_thread y g s2) = rr_ready_fields I p s2" for I s2 x y g
    by (rule ext; simp add: rr_ready_fields_def)+
  have "rr_visit (InitThread s) i n s = rr_ready (InitThread s) p n s1"
    using n by (simp add: rr_visit_def dd w z Let_def flip: assms(3))
  also have "\<dots> = Ok (n + 1) (upd_thread p (rr_ready_fields (InitThread s) p s1)
      (upd_thread (p1q s) (\<lambda>th. th\<lparr>th_next := p\<rparr>) s1\<lparr>p1q := p\<rparr>))"
    using s1(2,3) q assms(6,7) by (simp add: rr_ready_def live_def Let_def f)
  finally show ?thesis using s1 by blast
qed

lemma rr_eligible_cong:
  "theap t p = theap s p \<Longrightarrow> jiffies t = jiffies s \<Longrightarrow> rr_eligible t p = rr_eligible s p"
  by (simp add: rr_eligible_def live_def)

interpretation rr: round_loop I "rr_visit I" rr_eligible rr_next_state "\<lambda>n s. p1q s" "\<lambda>p n. n + 1"
proof
  fix s p show "rr_eligible s p \<Longrightarrow> live s p" by (simp add: rr_eligible_def)
next
  fix s t p
  show "theap t p = theap s p \<Longrightarrow> jiffies t = jiffies s \<Longrightarrow> rr_eligible t p = rr_eligible s p"
    by (rule rr_eligible_cong)
next
  fix s i n
  show "threadList s i = NULL \<Longrightarrow> rr_visit I i n s = Ok n s" by (simp add: rr_visit_def)
next
  fix s i n
  assume *: "kinv s" "InitThread s = I" "tid_in_range i" "threadList s i \<noteq> NULL" "threadList s i \<noteq> I"
    "\<not> rr_eligible s (threadList s i)"
  then show "\<exists>s'. rr_visit I i n s = Ok n s' \<and> touch (threadList s i) s s' \<and> p1q s' = p1q s \<and>
      (live s (threadList s i) \<longrightarrow>
         state_after s' (threadList s i) = rr_next_state (jiffies s) (theap s (threadList s i)))"
    using rr_visit_skip [OF *(1,3) refl *(4), of n] by (auto simp: touch_def)
next
  fix s i n
  assume *: "kinv s" "InitThread s = I" "tid_in_range i" "threadList s i \<noteq> I"
    "rr_eligible s (threadList s i)" "p1q s \<noteq> NULL" "p1q s \<noteq> threadList s i"
  let ?p = "threadList s i"
  obtain s1 s' where v: "rr_visit I i n s = Ok (n + 1) s'" and tt: "touch ?p s s1"
    and s1: "live s1 ?p" "th_state (theap s1 ?p) = READY"
    and e: "s' = upd_thread ?p (rr_ready_fields I ?p s1) (upd_thread (p1q s) (\<lambda>th. th\<lparr>th_next := ?p\<rparr>) s1\<lparr>p1q := ?p\<rparr>)"
    using rr_visit_link [OF *(1,3) refl _ *(5-7), of n] *(2,4) by auto
  have "kinv s'"
    unfolding e using kinv_upd_thread [OF touch_inv [OF tt], of "p1q s" "\<lambda>th. th\<lparr>th_next := ?p\<rparr>"]
    by (intro kinv_upd_thread) (simp_all add: th_keeps_def [of _ "_\<lparr>th_next := _\<rparr>"])
  moreover have "state_after s' ?p = Some READY"
    using s1 *(7) rr_ready_fields_sel(1) [of "theap s1 ?p" I ?p s1]
    by (simp add: e state_after_def live_def th_keeps_def)
  moreover have "same_core s s'"
    using tt *(7) rr_ready_fields_sel(2) unfolding touch_def e by (auto simp: same_core_def th_same_def)
  ultimately have "linked ?p (p1q s) s s'" "p1q s' = ?p"
      "state_after s' ?p = rr_next_state (jiffies s) (theap s ?p)"
    using tt *(7) rr_eligible_next_state [OF *(5)]
    by (auto simp: e linked_def same_sched_def touch_def state_after_def live_def)
  with v show "\<exists>s'. rr_visit I i n s = Ok (n + 1) s' \<and> linked ?p (p1q s) s s' \<and> p1q s' = ?p \<and>
      state_after s' ?p = rr_next_state (jiffies s) (theap s ?p)"
    by blast
qed

section \<open>The round\<close>

lemma rr_set_heads_sel:
  assumes "I \<noteq> NULL"
  shows "theap (rr_set_heads I s) = theap s" "threadList (rr_set_heads I s) = threadList s"
    "InitThread (rr_set_heads I s) = InitThread s" "jiffies (rr_set_heads I s) = jiffies s"
    "SchedulerInfo (rr_set_heads I s) = SchedulerInfo s" "p1q (rr_set_heads I s) = I"
    "currentq (rr_set_heads I s) = I" "kinv (rr_set_heads I s) = kinv s"
    "UPProcessorBlock (rr_set_heads I s) = UPProcessorBlock s"
    "same_core r (rr_set_heads I s) = same_core r s"
  using assms by (simp_all add: rr_set_heads_def set_queue_heads_eq qlist_set_element_def
      SCHEQ_QUEUE_COUNT_MAX_def same_core_def)

text \<open>The state when the loop starts.\<close>

definition rr_start :: "kstate \<Rightarrow> kstate" where
  "rr_start s =
     (let s0 = s\<lparr>p1q := NULL, p2q := NULL, p3q := NULL, p4q := NULL, p5q := NULL, p6q := NULL, currentq := NULL\<rparr>
      in do_thread_ready INIT_TID (rr_set_heads (InitThread s)
           (upd_thread (InitThread s) (\<lambda>th. th\<lparr>th_base_priority := PRIORITY_SYSTEM_THRESHOLD,
              th_priority := PRIORITY_SYSTEM_THRESHOLD, th_quantum := QUANTUM_NORMAL_THRESHOLD\<rparr>) s0)))"

lemma rr_start_props:
  assumes "kinv s"
  shows "kinv (rr_start s)" "threadList (rr_start s) = threadList s" "InitThread (rr_start s) = InitThread s"
    "jiffies (rr_start s) = jiffies s" "SchedulerInfo (rr_start s) = SchedulerInfo s"
    "p1q (rr_start s) = InitThread s" "currentq (rr_start s) = InitThread s"
    "q \<noteq> InitThread s \<Longrightarrow> theap (rr_start s) q = theap s q"
    "state_after (rr_start s) (InitThread s) = Some READY"
    "same_core s (rr_start s)" "UPProcessorBlock (rr_start s) = UPProcessorBlock s"
proof -
  note I = kinv_InitThread [OF assms]
  note n = live_not_NULL [OF I(1)]
  define u where "u = rr_set_heads (InitThread s) (upd_thread (InitThread s)
      (\<lambda>th. th\<lparr>th_base_priority := PRIORITY_SYSTEM_THRESHOLD, th_priority := PRIORITY_SYSTEM_THRESHOLD,
        th_quantum := QUANTUM_NORMAL_THRESHOLD\<rparr>)
      (s\<lparr>p1q := NULL, p2q := NULL, p3q := NULL, p4q := NULL, p5q := NULL, p6q := NULL, currentq := NULL\<rparr>))"
  have ku: "kinv u" using assms by (simp add: u_def rr_set_heads_sel [OF n] kinv_upd_thread th_keeps_def)
  have "valid_tid u INIT_TID"
    using I by (simp add: u_def valid_tid_def rr_set_heads_sel [OF n] live_def)
  then have e: "rr_start s = upd_thread (InitThread s) (\<lambda>th. th\<lparr>th_state := READY, th_ready_jiffy := jiffies u\<rparr>) u"
    using I(4) by (simp add: rr_start_def Let_def ready.op_cases rr_set_heads_sel [OF n] flip: u_def)
      (simp add: u_def rr_set_heads_sel [OF n])
  show "kinv (rr_start s)" using ku by (simp add: e kinv_upd_thread th_keeps_def)
  show "threadList (rr_start s) = threadList s" "InitThread (rr_start s) = InitThread s"
    "jiffies (rr_start s) = jiffies s" "SchedulerInfo (rr_start s) = SchedulerInfo s"
    "p1q (rr_start s) = InitThread s" "currentq (rr_start s) = InitThread s"
    "q \<noteq> InitThread s \<Longrightarrow> theap (rr_start s) q = theap s q"
    "state_after (rr_start s) (InitThread s) = Some READY"
    "UPProcessorBlock (rr_start s) = UPProcessorBlock s"
    using I(1) by (simp_all add: e u_def rr_set_heads_sel [OF n] state_after_def live_def)
  have "same_core s u"
    unfolding u_def rr_set_heads_sel(10) [OF n] by (simp add: same_core_def th_same_def)
  then show "same_core s (rr_start s)"
    by (rule same_core_trans) (simp add: e th_same_def)
qed

lemma scheduler_rr_start:
  assumes "kinv s" and "si_initialized (SchedulerInfo s) = TRUE" and "si_policy (SchedulerInfo s) = SCHED_POLICY_RR"
  shows "scheduler_rr flags s =
    bindR (foldA (rr_visit (InitThread s)) round_tids 0 (rr_start s)) (\<lambda>n t. Ok INIT_TID (rr_finish n t))"
proof -
  note I = kinv_InitThread [OF assms(1)]
  note n = live_not_NULL [OF I(1)]
  show ?thesis
    using I(1-3) n assms(2,3)
    by (simp add: scheduler_rr_def Let_def live_def rr_start_def rr_set_heads_sel [OF n])
qed

lemma rr_finish_props:
  assumes "kinv t" and "p1q t \<noteq> NULL"
  shows "kinv (rr_finish n t)" "currentq (rr_finish n t) = currentq t"
    "th_next (theap (rr_finish n t) q) = (if q = p1q t then NULL else th_next (theap t q))"
    "state_after (rr_finish n t) q = state_after t q"
    "si_rr_ready_threads_in_round (SchedulerInfo (rr_finish n t)) = n"
    "si_rr_round_counter (SchedulerInfo (rr_finish n t)) = si_rr_round_counter (SchedulerInfo t) + 1"
    "same_core t (rr_finish n t)" "threadList (rr_finish n t) = threadList t"
    "InitThread (rr_finish n t) = InitThread t" "UPProcessorBlock (rr_finish n t) = UPProcessorBlock t"
    "si_initialized (SchedulerInfo (rr_finish n t)) = si_initialized (SchedulerInfo t)"
    "si_policy (SchedulerInfo (rr_finish n t)) = si_policy (SchedulerInfo t)"
    "si_is_locked (SchedulerInfo (rr_finish n t)) = si_is_locked (SchedulerInfo t)"
proof -
  obtain f where f: "sched_quick_and_dirty_load_balancer
      (t\<lparr>SchedulerInfo := (SchedulerInfo t)\<lparr>si_rr_ready_threads_in_round := n\<rparr>\<rparr>) =
      upd_thread (InitThread t) (\<lambda>th. th\<lparr>th_quantum := f\<rparr>)
      (t\<lparr>SchedulerInfo := (SchedulerInfo t)\<lparr>si_rr_ready_threads_in_round := n\<rparr>\<rparr>)"
    using kinv_InitThread(1) [OF assms(1)]
    by (cases "n > 3") (auto simp: sched_quick_and_dirty_load_balancer_def Let_def live_def)
  show "kinv (rr_finish n t)"
    using assms(1) by (simp add: rr_finish_def Let_def f kinv_upd_thread th_keeps_def)
  show "currentq (rr_finish n t) = currentq t"
    "th_next (theap (rr_finish n t) q) = (if q = p1q t then NULL else th_next (theap t q))"
    "state_after (rr_finish n t) q = state_after t q"
    "si_rr_ready_threads_in_round (SchedulerInfo (rr_finish n t)) = n"
    "si_rr_round_counter (SchedulerInfo (rr_finish n t)) = si_rr_round_counter (SchedulerInfo t) + 1"
    "threadList (rr_finish n t) = threadList t"
    "InitThread (rr_finish n t) = InitThread t" "UPProcessorBlock (rr_finish n t) = UPProcessorBlock t"
    "si_initialized (SchedulerInfo (rr_finish n t)) = si_initialized (SchedulerInfo t)"
    "si_policy (SchedulerInfo (rr_finish n t)) = si_policy (SchedulerInfo t)"
    "si_is_locked (SchedulerInfo (rr_finish n t)) = si_is_locked (SchedulerInfo t)"
    by (simp_all add: rr_finish_def Let_def f state_after_def live_def)
  show "same_core t (rr_finish n t)"
    by (simp add: rr_finish_def Let_def f same_core_def th_same_def)
qed

definition rr_list :: "kstate \<Rightarrow> ptr list" where
  "rr_list s = map (threadList s) (filter (\<lambda>i. rr_eligible s (threadList s i)) round_tids)"

lemma rr_list_start:
  assumes "kinv s"
  shows "rr.round_list (rr_start s) round_tids = rr_list s"
proof -
  have "rr_eligible (rr_start s) (threadList s i) = rr_eligible s (threadList s i)" if "i \<in> set round_tids" for i
    using that kinv_slot_neq_Init [OF assms, of i] round_tids_props(2) [of i]
    by (intro rr_eligible_cong) (auto simp: rr_start_props [OF assms])
  then show ?thesis
    by (simp add: rr.round_list_def rr_list_def rr_start_props(2) [OF assms] cong: filter_cong)
qed

lemma fold_count: "fold (\<lambda>p n. n + 1) xs n = n + int (length xs)"
  by (induction xs arbitrary: n) simp_all

lemma scheduler_rr_total:
  assumes k: "kinv s" and "si_initialized (SchedulerInfo s) = TRUE" and "si_policy (SchedulerInfo s) = SCHED_POLICY_RR"
  shows "\<exists>s'. scheduler_rr flags s = Ok INIT_TID s' \<and> kinv s' \<and> currentq s' = InitThread s \<and>
    chain (\<lambda>q. th_next (theap s' q)) (InitThread s) (InitThread s # rr_list s) \<and>
    si_rr_ready_threads_in_round (SchedulerInfo s') = int (length (rr_list s)) \<and>
    si_rr_round_counter (SchedulerInfo s') = si_rr_round_counter (SchedulerInfo s) + 1 \<and>
    state_after s' (InitThread s) = Some READY \<and>
    (\<forall>p. live s p \<longrightarrow> p \<noteq> InitThread s \<longrightarrow> state_after s' p = rr_next_state (jiffies s) (theap s p)) \<and>
    same_core s s' \<and> threadList s' = threadList s \<and> InitThread s' = InitThread s \<and>
    UPProcessorBlock s' = UPProcessorBlock s \<and> si_initialized (SchedulerInfo s') = TRUE \<and>
    si_policy (SchedulerInfo s') = SCHED_POLICY_RR \<and>
    si_is_locked (SchedulerInfo s') = si_is_locked (SchedulerInfo s)"
proof -
  let ?s = "rr_start s"
  note st = rr_start_props [OF k] and lst = rr_list_start [OF k]
  let ?n = "int (length (rr_list s))"
  obtain t where loop: "foldA (rr_visit (InitThread s)) round_tids 0 ?s = Ok ?n t"
    and inv: "rr.round_inv ?s 0 round_tids ?n t"
    using rr.round_result [OF st(1), of "InitThread s" 0] st(3,6) by (auto simp: lst fold_count)
  have kt: "kinv t" and ss: "same_sched ?s t" and si: "state_after t (InitThread s) = Some READY"
    using inv st(3,9) by (simp_all add: rr.round_inv_def)
  have "p1q t \<noteq> NULL"
    by (rule rr.round_chain(1) [OF st(1) inv, of "t\<lparr>theap := \<lambda>q. (theap t q)\<lparr>th_next := if q = p1q t then NULL else th_next (theap t q)\<rparr>\<rparr>"]) simp
  note f = rr_finish_props [OF kt this]
  have ch: "chain (\<lambda>z. th_next (theap (rr_finish ?n t) z)) (InitThread s) (InitThread s # rr_list s)"
    using rr.round_chain(2) [OF st(1) inv f(3)] st(3) by (simp add: lst)
  have life: "state_after (rr_finish ?n t) p = rr_next_state (jiffies s) (theap s p)"
    if p: "live s p" "p \<noteq> InitThread s" for p
  proof -
    have "live ?s p" using p st(8) by (simp add: live_def)
    then show ?thesis using rr.round_life [OF st(1) inv, of p] p st(3,4,8) by (simp add: f(4))
  qed
  have "same_core s (rr_finish ?n t)"
    using st(10) inv f(7) same_core_trans unfolding rr.round_inv_def by blast
  moreover have "threadList (rr_finish ?n t) = threadList s" "InitThread (rr_finish ?n t) = InitThread s"
    "UPProcessorBlock (rr_finish ?n t) = UPProcessorBlock s"
    "si_initialized (SchedulerInfo (rr_finish ?n t)) = TRUE"
    "si_policy (SchedulerInfo (rr_finish ?n t)) = SCHED_POLICY_RR"
    "si_is_locked (SchedulerInfo (rr_finish ?n t)) = si_is_locked (SchedulerInfo s)"
    using ss st assms(2,3) by (simp_all add: f same_sched_def)
  moreover have "currentq (rr_finish ?n t) = InitThread s"
    "si_rr_round_counter (SchedulerInfo (rr_finish ?n t)) = si_rr_round_counter (SchedulerInfo s) + 1"
    using ss st by (simp_all add: f same_sched_def)
  ultimately show ?thesis
    using ch life f(1,4,5) si by (simp add: scheduler_rr_start [OF assms] loop)
qed

section \<open>Properties\<close>

lemma round_tids_split: "round_tids = 1 # 2 # [3..THREAD_COUNT_MAX - 1]"
proof -
  have "[1..n] = 1 # 2 # [3..n]" if "3 \<le> n" for n :: int
    using that by (simp add: upto_rec1)
  from this [of "THREAD_COUNT_MAX - 1"] show ?thesis
    by (simp add: round_tids_def) (simp add: THREAD_COUNT_MAX_def del: upto_rec_numeral)
qed

lemma demo_deferred [simp]:
  "th_Deferred (demo_thread tid) = blank_deferred" "th_msgctl (demo_thread tid) = blank_msgctl"
  by (simp_all add: demo_thread_def blank_thread_def)

lemma rr_list_demo: "rr_list demo = [0x2000, 0x3000]"
proof -
  have "filter (\<lambda>i. rr_eligible demo (threadList demo i)) [3..THREAD_COUNT_MAX - 1] = []"
    by (auto simp: filter_empty_conv demo_threadList_def rr_eligible_def live_def)
  then show ?thesis
    by (simp add: rr_list_def round_tids_split demo_threadList_def rr_eligible_def live_demo demo_threads_def
        blank_deferred_def blank_msgctl_def)
qed

text \<open>C5. The round robin policy builds exactly the right round: with an initialised scheduler,
  \<open>__scheduler_rr\<close> returns the tid of the init thread without a panic or a fault, and following
  the links from \<open>currentq\<close> visits the init thread and then every eligible thread (valid, no
  pending event, block or exit, and READY or WAITING with its wake time reached) once, in the order
  of the tids, up to NULL; the number of these threads is what the load balancer is told.\<close>

theorem rr_round_is_ready_list:
  assumes "kinv s" and "si_initialized (SchedulerInfo s) = TRUE" and "si_policy (SchedulerInfo s) = SCHED_POLICY_RR"
  shows "\<exists>s'. scheduler_rr flags s = Ok INIT_TID s' \<and> kinv s' \<and> currentq s' = InitThread s \<and>
    chain (\<lambda>q. th_next (theap s' q)) (currentq s')
      (InitThread s # map (threadList s) (filter (\<lambda>i. rr_eligible s (threadList s i)) round_tids)) \<and>
    si_rr_ready_threads_in_round (SchedulerInfo s') =
      int (length (filter (\<lambda>i. rr_eligible s (threadList s i)) round_tids))"
  using scheduler_rr_total [OF assms, of flags] by (auto simp: rr_list_def)

theorem rr_round_is_ready_list_witness:
  "\<exists>s'. scheduler_rr 0 demo = Ok 0 s' \<and> kinv s' \<and> currentq s' = 0x1000 \<and>
    chain (\<lambda>q. th_next (theap s' q)) (currentq s') [0x1000, 0x2000, 0x3000] \<and>
    si_rr_ready_threads_in_round (SchedulerInfo s') = 2"
proof -
  note l = rr_list_demo [unfolded rr_list_def]
  have "length (filter (\<lambda>i. rr_eligible demo (threadList demo i)) round_tids) = 2"
    using arg_cong [OF l, of length] by simp
  with rr_round_is_ready_list [of demo 0] show ?thesis
    unfolding l by (simp add: demo_sched_def)
qed

text \<open>C32. The life cycle across a round: every valid thread other than init is in the state that
  \<open>rr_next_state\<close> gives; a pending block blocks it, a pending exit makes it a zombie, a sleeper
  whose time has come and a blocked thread with an event of the display server become ready, a
  zombie is reaped (its structure is no longer valid), and no other thread changes state.\<close>

theorem rr_round_life_cycle:
  assumes "kinv s" and "si_initialized (SchedulerInfo s) = TRUE" and "si_policy (SchedulerInfo s) = SCHED_POLICY_RR"
    and "live s p" and "p \<noteq> InitThread s" and "scheduler_rr flags s = Ok r s'"
  shows "state_after s' p = rr_next_state (jiffies s) (theap s p)"
  using scheduler_rr_total [OF assms(1-3), of flags] assms(4-6) by auto

theorem rr_round_life_cycle_witness:
  "\<exists>s'. scheduler_rr 0 (upd_thread 0x2000 (\<lambda>th. th\<lparr>th_state := ZOMBIE\<rparr>) demo) = Ok 0 s' \<and>
     state_after s' 0x2000 = None"
proof -
  let ?s = "upd_thread 0x2000 (\<lambda>th. th\<lparr>th_state := ZOMBIE\<rparr>) demo"
  have k: "kinv ?s" by (simp add: kinv_upd_thread th_keeps_def)
  have i: "si_initialized (SchedulerInfo ?s) = TRUE" "si_policy (SchedulerInfo ?s) = SCHED_POLICY_RR"
    by (simp_all add: demo_sched_def)
  have l: "live ?s 0x2000" "0x2000 \<noteq> InitThread ?s" by (simp_all add: live_def demo_threads_def)
  obtain s' where e: "scheduler_rr 0 ?s = Ok 0 s'" using scheduler_rr_total [OF k i] by blast
  from rr_round_life_cycle [OF k i l e] e show ?thesis
    by (auto simp: rr_next_state_def demo_threads_def blank_deferred_def blank_msgctl_def)
qed

text \<open>Membership of one thread in the round that the policy links.\<close>

definition in_rr_round :: "kstate \<Rightarrow> ptr \<Rightarrow> bool" where
  "in_rr_round s' p \<longleftrightarrow> (\<exists>xs. chain (\<lambda>q. th_next (theap s' q)) (currentq s') xs \<and> p \<in> set xs)"

lemma rr_round_member:
  assumes "kinv s" and "si_initialized (SchedulerInfo s) = TRUE" and "si_policy (SchedulerInfo s) = SCHED_POLICY_RR"
    and "valid_tid s tid" and "tid \<noteq> INIT_TID"
  shows "\<exists>s'. scheduler_rr flags s = Ok INIT_TID s' \<and>
    (in_rr_round s' (threadList s tid) \<longleftrightarrow> rr_eligible s (threadList s tid))"
proof -
  obtain s' where s': "scheduler_rr flags s = Ok INIT_TID s'"
    "chain (\<lambda>q. th_next (theap s' q)) (currentq s') (InitThread s # rr_list s)"
    using scheduler_rr_total [OF assms(1-3), of flags] by (auto simp: rr_list_def)
  let ?p = "threadList s tid"
  have "tid \<in> set round_tids" using assms(4,5) by (auto simp: valid_tid_def live_def round_tids_props)
  moreover from this have "?p \<noteq> InitThread s" using kinv_slot_neq_Init [OF assms(1), of tid] assms(4,5)
    by (auto simp: valid_tid_def live_def)
  ultimately have "?p \<in> set (InitThread s # rr_list s) \<longleftrightarrow> rr_eligible s ?p" by (auto simp: rr_list_def)
  then have "in_rr_round s' ?p \<longleftrightarrow> rr_eligible s ?p"
    using s'(2) chain_unique unfolding in_rr_round_def by metis
  with s'(1) show ?thesis by blast
qed

text \<open>C34. Sleeping: a thread put to sleep for \<open>ms\<close> (by \<open>do_thread_waiting\<close>, with no other
  request pending and no wrap-around of the clock) is left out of every round robin round before its
  wake time and is in every one from then on, as long as it is not changed otherwise.\<close>

theorem rr_sleeper_wakes_on_time:
  assumes "kinv s" and "si_initialized (SchedulerInfo s) = TRUE" and "si_policy (SchedulerInfo s) = SCHED_POLICY_RR"
    and "valid_tid s tid" and "tid \<noteq> INIT_TID"
    and "unat (jiffies s) + unat ms < 2 ^ 64" and "ms \<noteq> 0"
    and "has_event_from_ds (th_msgctl (theap s (threadList s tid))) \<noteq> TRUE"
    and "block_in_progress (th_msgctl (theap s (threadList s tid))) \<noteq> TRUE"
    and "exit_in_progress (th_Deferred (theap s (threadList s tid))) \<noteq> TRUE"
  shows "\<exists>s'. scheduler_rr flags ((do_thread_waiting tid ms s)\<lparr>jiffies := now\<rparr>) = Ok INIT_TID s' \<and>
    (in_rr_round s' (threadList s tid) \<longleftrightarrow> unat (jiffies s) + unat ms \<le> unat now)"
proof -
  let ?s = "(do_thread_waiting tid ms s)\<lparr>jiffies := now\<rparr>" and ?p = "threadList s tid"
  have "kinv ?s" by (simp add: waiting.op_inv [OF assms(1)])
  moreover have "threadList ?s = threadList s" by (simp add: waiting.op_globals)
  moreover have "SchedulerInfo ?s = SchedulerInfo s" by (simp add: waiting.op_cases)
  moreover have "valid_tid ?s tid" using assms(4) by (simp add: valid_tid_def waiting.op_globals live_def waiting.op_frame)
  moreover have "rr_eligible ?s ?p \<longleftrightarrow> jiffies s + ms \<le> now"
    using assms(4,7-10) by (simp add: waiting.op_cases rr_eligible_def live_def valid_tid_def)
  moreover have "\<dots> \<longleftrightarrow> unat (jiffies s) + unat ms \<le> unat now"
    using assms(6) by (simp add: word_le_nat_alt unat_word_ariths)
  ultimately show ?thesis
    using rr_round_member [of ?s tid flags] assms(2,3,5) by simp
qed

theorem rr_sleeper_wakes_on_time_witness:
  "(\<exists>s'. scheduler_rr 0 ((do_thread_waiting 1 50 demo)\<lparr>jiffies := 149\<rparr>) = Ok 0 s' \<and> \<not> in_rr_round s' 0x2000) \<and>
   (\<exists>s'. scheduler_rr 0 ((do_thread_waiting 1 50 demo)\<lparr>jiffies := 150\<rparr>) = Ok 0 s' \<and> in_rr_round s' 0x2000)"
  using rr_sleeper_wakes_on_time [of demo 1 50 0 149] rr_sleeper_wakes_on_time [of demo 1 50 0 150]
  by (simp add: demo_threadList_def demo_threads_def blank_msgctl_def blank_deferred_def demo_sched_def)

end
