(* ===== verification/Round_Stage.thy ===== *)
theory Round_Stage
  imports Sched Round_Loop Demo_State
begin

text \<open>
  \<open>sched/sched.c\<close>, the priority interleaving policy: each call builds the round of one priority
  (\<open>__build_stage_queue\<close>) and advances the stage, so that six calls go through the six priorities
  from the highest to the lowest. The loop body meets the contract \<open>round_loop\<close>, with the tail of
  the list as the local variable that the loop carries.
\<close>

section \<open>Definitions\<close>

definition stage_quantum :: "u64 \<Rightarrow> u64" where
  "stage_quantum priority =
     (if priority = 6 then 6 else if priority = 5 then 5 else if priority = 4 then 4
      else if priority = 3 then 3 else if priority = 2 then 2 else if priority = 1 then 1
      else QUANTUM_NORMAL_THRESHOLD)"

definition stage_waiting :: "ptr \<Rightarrow> kstate \<Rightarrow> kstate" where
  "stage_waiting TmpThread s =
     (if th_state (theap s TmpThread) = WAITING then
        (let s1 = (if jiffies s > th_alarm (theap s TmpThread)
                   then upd_thread TmpThread (\<lambda>th. th\<lparr>th_alarm := 0\<rparr>) s else s)
         in if jiffies s1 \<ge> th_wake_jiffy (theap s1 TmpThread)
            then upd_thread TmpThread (\<lambda>th. th\<lparr>th_wake_jiffy := 0\<rparr>)
                   (do_thread_ready (th_tid (theap s1 TmpThread)) s1)
            else s1)
      else s)"

text \<open>The visit of one slot; the result is the tail of the list.\<close>

definition stage_visit :: "u64 \<Rightarrow> int \<Rightarrow> ptr \<Rightarrow> kstate \<Rightarrow> ptr kres" where
  "stage_visit priority i tail s =
     (let TmpThread = threadList s i in
      if TmpThread \<noteq> NULL \<and> th_used (theap s TmpThread) = TRUE \<and> th_magic (theap s TmpThread) = 1234 then
        (let s1 = stage_waiting TmpThread s in
         if th_priority (theap s1 TmpThread) = priority \<and> th_state (theap s1 TmpThread) = READY then
           (let s2 = upd_thread TmpThread (\<lambda>th. th\<lparr>th_next := NULL\<rparr>) s1;
                s3 = upd_thread tail (\<lambda>th. th\<lparr>th_next := TmpThread\<rparr>) s2;
                s4 = upd_thread TmpThread (\<lambda>th. th\<lparr>th_runningCount := 0,
                       th_scheduledCount := th_scheduledCount th + 1\<rparr>) s3
            in Ok TmpThread (if TmpThread \<noteq> InitThread s4
                 then upd_thread TmpThread (\<lambda>th. th\<lparr>th_quantum := stage_quantum priority\<rparr>) s4 else s4))
         else Ok tail s1)
      else Ok tail s)"

definition build_stage_queue :: "int \<Rightarrow> u64 \<Rightarrow> kstate \<Rightarrow> ptr kres" where
  "build_stage_queue stage priority s =
     (let Idle = InitThread s;
          s1 = (if stage > 0 \<and> stage \<le> 6
                then s\<lparr>stage_selection_count := (stage_selection_count s)(stage := stage_selection_count s stage + 1)\<rparr>
                else s)
      in if Idle = NULL then Fault ''InitThread->quantum''
      else let s2 = upd_thread (InitThread s1) (\<lambda>th. th\<lparr>th_quantum :=
                 if ds_initialized (DisplayServerInfo s1) = TRUE then QUANTUM_MIN else QUANTUM_MAX\<rparr>) s1;
               s3 = upd_thread Idle (\<lambda>th. th\<lparr>th_next := NULL\<rparr>) s2
      in bindR (foldA (stage_visit priority) round_tids Idle s3) (\<lambda>tail s4.
           Ok Idle (upd_thread tail (\<lambda>th. th\<lparr>th_next := NULL\<rparr>) s4)))"

text \<open>Stage 0: the init thread becomes the head of all queues.\<close>

definition stage_prepare :: "kstate \<Rightarrow> kstate" where
  "stage_prepare s =
     (let Init = InitThread s;
          s0 = s\<lparr>p1q := NULL, p2q := NULL, p3q := NULL, p4q := NULL, p5q := NULL, p6q := NULL\<rparr>;
          s6 = set_queue_heads Init s0;
          s7 = s6\<lparr>currentq := p1q s6\<rparr>;
          s8 = upd_thread (currentq s7) (\<lambda>th. th\<lparr>th_next := NULL\<rparr>) s7
      in s8\<lparr>stage_selection_count := (stage_selection_count s8)(0 := stage_selection_count s8 0 + 1),
            SchedulerInfo := (SchedulerInfo s8)\<lparr>si_stage := 1\<rparr>\<rparr>)"

text \<open>One of the stages 1 to 6: build the queue of a priority, make it the current one, advance.\<close>

definition stage_run :: "int \<Rightarrow> (ptr \<Rightarrow> kstate \<Rightarrow> kstate) \<Rightarrow> u64 \<Rightarrow> kstate \<Rightarrow> int kres" where
  "stage_run queue set_queue next_stage s =
     bindR (build_stage_queue queue (word_of_int queue) s) (\<lambda>head s1.
       let s2 = set_queue head s1; s3 = s2\<lparr>currentq := head\<rparr>;
           s4 = s3\<lparr>SchedulerInfo := (SchedulerInfo s3)\<lparr>si_stage := next_stage\<rparr>\<rparr>
       in Ok (th_tid (theap s4 (currentq s4))) s4)"

definition scheduler_priorityinterleaving :: "u64 \<Rightarrow> kstate \<Rightarrow> int kres" where
  "scheduler_priorityinterleaving sched_flags s0 =
     (if si_initialized (SchedulerInfo s0) \<noteq> TRUE
      then Panic ''__scheduler_priorityinterleaving: Scheduler not initialized''
      else if si_policy (SchedulerInfo s0) \<noteq> SCHED_POLICY_PRIORITY_INTERLEAVING
      then Panic ''__scheduler_priorityinterleaving: Scheduler policy''
      else let s = (if si_stage (SchedulerInfo s0) > si_max_stage (SchedulerInfo s0)
                    then s0\<lparr>SchedulerInfo := (SchedulerInfo s0)\<lparr>si_stage := 1\<rparr>\<rparr> else s0);
               Init = InitThread s
      in if Init = NULL \<or> th_magic (theap s Init) \<noteq> 1234
      then Panic ''__scheduler_priorityinterleaving: InitThread validation''
      else if si_stage (SchedulerInfo s) = 0 then Ok (th_tid (theap s Init)) (stage_prepare s)
      else if si_stage (SchedulerInfo s) = 1 then stage_run 6 (\<lambda>q s. s\<lparr>p6q := q\<rparr>) 2 s
      else if si_stage (SchedulerInfo s) = 2 then stage_run 5 (\<lambda>q s. s\<lparr>p5q := q\<rparr>) 3 s
      else if si_stage (SchedulerInfo s) = 3 then stage_run 4 (\<lambda>q s. s\<lparr>p4q := q\<rparr>) 4 s
      else if si_stage (SchedulerInfo s) = 4 then stage_run 3 (\<lambda>q s. s\<lparr>p3q := q\<rparr>) 5 s
      else if si_stage (SchedulerInfo s) = 5 then stage_run 2 (\<lambda>q s. s\<lparr>p2q := q\<rparr>) 6 s
      else if si_stage (SchedulerInfo s) = 6 then stage_run 1 (\<lambda>q s. s\<lparr>p1q := q\<rparr>) 1 s
      else let s1 = upd_thread Init (\<lambda>th. th\<lparr>th_next := NULL\<rparr>) (s\<lparr>p1q := Init\<rparr>);
               s2 = s1\<lparr>currentq := p1q s1\<rparr>;
               s3 = s2\<lparr>SchedulerInfo := (SchedulerInfo s2)\<lparr>si_stage := 0\<rparr>\<rparr>
           in Ok (th_tid (theap s3 (currentq s3))) s3)"

section \<open>The loop body meets the contract\<close>

definition stage_eligible :: "u64 \<Rightarrow> kstate \<Rightarrow> ptr \<Rightarrow> bool" where
  "stage_eligible priority s t \<longleftrightarrow> live s t \<and> th_priority (theap s t) = priority \<and>
     (th_state (theap s t) = READY \<or>
      th_state (theap s t) = WAITING \<and> th_wake_jiffy (theap s t) \<le> jiffies s)"

definition stage_next_state :: "u64 \<Rightarrow> thread_d \<Rightarrow> thread_state_t option" where
  "stage_next_state now th =
     Some (if th_state th = WAITING \<and> th_wake_jiffy th \<le> now then READY else th_state th)"

lemma stage_waiting_touch:
  assumes "kinv s" and "tid_in_range i" and "p = threadList s i" and "live s p"
  shows "touch p s (stage_waiting p s)" and "live (stage_waiting p s) p"
    and "th_priority (theap (stage_waiting p s) p) = th_priority (theap s p)"
    and "state_after (stage_waiting p s) p = stage_next_state (jiffies s) (theap s p)"
proof -
  define s1 where "s1 = (if jiffies s > th_alarm (theap s p) then upd_thread p (\<lambda>th. th\<lparr>th_alarm := 0\<rparr>) s else s)"
  have s1: "touch p s s1" "live s1 p" "th_state (theap s1 p) = th_state (theap s p)"
    "th_wake_jiffy (theap s1 p) = th_wake_jiffy (theap s p)" "jiffies s1 = jiffies s"
    "th_priority (theap s1 p) = th_priority (theap s p)"
    using assms by (auto simp: s1_def touch_refl touch_upd_keeps th_keeps_def th_same_def live_def)
  have sl: "p = threadList s1 i" "p \<noteq> NULL"
    using touch_slot [OF s1(1)] assms(3) live_not_NULL [OF assms(4)] by simp_all
  note r = do_thread_ready_slot [OF touch_inv [OF s1(1)] assms(2) sl]
  define s2 where "s2 = upd_thread p (\<lambda>th. th\<lparr>th_state := READY, th_ready_jiffy := jiffies s, th_wake_jiffy := 0\<rparr>) s1"
  have e: "stage_waiting p s = (if th_state (theap s p) = WAITING
      then if th_wake_jiffy (theap s p) \<le> jiffies s then s2 else s1 else s)"
    using s1 by (simp add: stage_waiting_def Let_def r s2_def upd_thread_upd_thread flip: s1_def)
  have s2: "touch p s s2" "live s2 p"
    using touch_trans [OF s1(1) touch_upd_keeps [OF touch_inv [OF s1(1)]]] s1(2)
    by (simp_all add: s2_def th_keeps_def th_same_def live_upd_thread)
  have f2: "th_priority (theap s2 p) = th_priority (theap s p)" "th_state (theap s2 p) = READY"
    using s1(6) by (simp_all add: s2_def)
  show "touch p s (stage_waiting p s)" "live (stage_waiting p s) p"
    "th_priority (theap (stage_waiting p s) p) = th_priority (theap s p)"
    unfolding e using s1(1,2,6) s2 f2(1) assms(4) touch_refl [OF assms(1)] by (simp_all split: if_split)
  show "state_after (stage_waiting p s) p = stage_next_state (jiffies s) (theap s p)"
    unfolding e using s1(2,3) s2(2) f2(2) assms(4) by (auto simp: state_after_def stage_next_state_def)
qed

lemma stage_visit_live:
  assumes "kinv s" and "tid_in_range i" and "p = threadList s i" and "live s p"
  shows "stage_visit priority i tail s =
    (if stage_eligible priority s p
     then Ok p (let s2 = upd_thread p (\<lambda>th. th\<lparr>th_next := NULL\<rparr>) (stage_waiting p s);
                    s3 = upd_thread tail (\<lambda>th. th\<lparr>th_next := p\<rparr>) s2;
                    s4 = upd_thread p (\<lambda>th. th\<lparr>th_runningCount := 0,
                           th_scheduledCount := th_scheduledCount th + 1\<rparr>) s3
                in if p \<noteq> InitThread s
                   then upd_thread p (\<lambda>th. th\<lparr>th_quantum := stage_quantum priority\<rparr>) s4 else s4)
     else Ok tail (stage_waiting p s))"
proof -
  note w = stage_waiting_touch [OF assms]
  have "th_state (theap (stage_waiting p s) p) = READY \<longleftrightarrow> th_state (theap s p) = READY \<or>
      th_state (theap s p) = WAITING \<and> th_wake_jiffy (theap s p) \<le> jiffies s"
    using w(2,4) by (auto simp: state_after_def stage_next_state_def)
  then show ?thesis
    using w(3) assms(4) touch_slot [OF w(1)]
    by (auto simp: stage_visit_def stage_eligible_def Let_def live_def simp flip: assms(3))
qed

interpretation st: round_loop I "stage_visit priority" "stage_eligible priority" stage_next_state
  "\<lambda>tail s. tail" "\<lambda>p tail. p"
proof
  fix s p show "stage_eligible priority s p \<Longrightarrow> live s p" by (simp add: stage_eligible_def)
next
  fix s t p
  show "theap t p = theap s p \<Longrightarrow> jiffies t = jiffies s \<Longrightarrow> stage_eligible priority t p = stage_eligible priority s p"
    by (simp add: stage_eligible_def live_def)
next
  fix s i a
  show "threadList s i = NULL \<Longrightarrow> stage_visit priority i a s = Ok a s" by (simp add: stage_visit_def)
next
  fix s :: kstate and i a
  let ?p = "threadList s i"
  assume *: "kinv s" "InitThread s = I" "tid_in_range i" "?p \<noteq> NULL" "?p \<noteq> I" "\<not> stage_eligible priority s ?p"
  show "\<exists>s'. stage_visit priority i a s = Ok a s' \<and> touch ?p s s' \<and> a = a \<and>
      (live s ?p \<longrightarrow> state_after s' ?p = stage_next_state (jiffies s) (theap s ?p))"
  proof (cases "live s ?p")
    case True
    then show ?thesis
      using stage_visit_live [OF *(1,3) refl True, of priority a] stage_waiting_touch [OF *(1,3) refl True] *(6)
      by auto
  next
    case False
    then have "stage_visit priority i a s = Ok a s" using *(4) by (auto simp: stage_visit_def live_def Let_def)
    then show ?thesis using False touch_refl [OF *(1)] by auto
  qed
next
  fix s :: kstate and i a
  let ?p = "threadList s i"
  assume *: "kinv s" "InitThread s = I" "tid_in_range i" "?p \<noteq> I" "stage_eligible priority s ?p" "a \<noteq> NULL" "a \<noteq> ?p"
  have lv: "live s ?p" using *(5) by (simp add: stage_eligible_def)
  note w = stage_waiting_touch [OF *(1,3) refl lv]
  let ?w = "stage_waiting ?p s"
  let ?f = "\<lambda>th. th\<lparr>th_next := NULL, th_runningCount := 0, th_scheduledCount := th_scheduledCount th + 1,
      th_quantum := stage_quantum priority\<rparr>"
  define s' where "s' = upd_thread a (\<lambda>th. th\<lparr>th_next := ?p\<rparr>) (upd_thread ?p ?f ?w)"
  have v: "stage_visit priority i a s = Ok ?p s'"
    using stage_visit_live [OF *(1,3) refl lv, of priority a] *(2,4,5,7)
    by (simp add: Let_def s'_def upd_thread_def fun_upd_twist)
  have "kinv s'" unfolding s'_def by (intro kinv_upd_thread touch_inv [OF w(1)]) (simp_all add: th_keeps_def)
  moreover have "state_after s' ?p = state_after ?w ?p"
    using *(7) by (simp add: s'_def state_after_def live_def)
  moreover have "same_core s s'"
    using w(1) *(7) unfolding touch_def s'_def by (auto simp: same_core_def th_same_def)
  ultimately have "linked ?p a s s' \<and> state_after s' ?p = stage_next_state (jiffies s) (theap s ?p)"
    using w(1,4) *(7) by (auto simp: s'_def linked_def same_sched_def touch_def state_after_def live_def)
  with v show "\<exists>s'. stage_visit priority i a s = Ok ?p s' \<and> linked ?p a s s' \<and> ?p = ?p \<and>
      state_after s' ?p = stage_next_state (jiffies s) (theap s ?p)"
    by blast
qed

section \<open>The queue of a stage\<close>

definition stage_list :: "u64 \<Rightarrow> kstate \<Rightarrow> ptr list" where
  "stage_list priority s = map (threadList s) (filter (\<lambda>i. stage_eligible priority s (threadList s i)) round_tids)"

lemma fold_last: "fold (\<lambda>p tail. p) xs a = last (a # xs)"
  by (induction xs arbitrary: a) auto

text \<open>The state when the loop starts.\<close>

definition stage_start :: "int \<Rightarrow> kstate \<Rightarrow> kstate" where
  "stage_start stage s = upd_thread (InitThread s) (\<lambda>th. th\<lparr>th_quantum :=
       if ds_initialized (DisplayServerInfo s) = TRUE then QUANTUM_MIN else QUANTUM_MAX, th_next := NULL\<rparr>)
     (if stage > 0 \<and> stage \<le> 6
      then s\<lparr>stage_selection_count := (stage_selection_count s)(stage := stage_selection_count s stage + 1)\<rparr>
      else s)"

lemma stage_start_props:
  assumes "kinv s"
  shows "kinv (stage_start stage s)" "same_sched s (stage_start stage s)"
    "q \<noteq> InitThread s \<Longrightarrow> theap (stage_start stage s) q = theap s q" "same_core s (stage_start stage s)"
    "state_after (stage_start stage s) q = state_after s q"
  using assms by (auto simp: stage_start_def kinv_upd_thread th_keeps_def same_sched_def same_core_def th_same_def
      state_after_def live_def)

lemma stage_list_start:
  assumes "kinv s"
  shows "st.round_list priority (stage_start stage s) round_tids = stage_list priority s"
proof -
  note st = stage_start_props [OF assms, where stage = stage]
  have "stage_eligible priority (stage_start stage s) (threadList s i) = stage_eligible priority s (threadList s i)"
    if "i \<in> set round_tids" for i
    using that kinv_slot_neq_Init [OF assms, of i] round_tids_props(2) [of i] st(2)
    by (intro st.eligible_local st(3)) (auto simp: same_sched_def)
  then show ?thesis
    using st(2) by (simp add: st.round_list_def stage_list_def same_sched_def cong: filter_cong)
qed

lemma build_stage_queue_total:
  assumes k: "kinv s"
  shows "\<exists>s'. build_stage_queue stage priority s = Ok (InitThread s) s' \<and> kinv s' \<and> same_sched s s' \<and>
    chain (\<lambda>q. th_next (theap s' q)) (InitThread s) (InitThread s # stage_list priority s) \<and>
    th_tid (theap s' (InitThread s)) = INIT_TID \<and> same_core s s' \<and>
    state_after s' (InitThread s) = state_after s (InitThread s) \<and>
    (\<forall>p. live s p \<longrightarrow> p \<noteq> InitThread s \<longrightarrow> state_after s' p = stage_next_state (jiffies s) (theap s p))"
proof -
  let ?s = "stage_start stage s"
  note st = stage_start_props [OF k, where stage = stage] and lst = stage_list_start [OF k, where stage = stage and priority = priority]
  have I: "InitThread ?s = InitThread s" using st(2) by (simp add: same_sched_def)
  let ?a = "last (InitThread s # stage_list priority s)"
  obtain t where loop: "foldA (stage_visit priority) round_tids (InitThread s) ?s = Ok ?a t"
    and inv: "st.round_inv priority ?s (InitThread s) round_tids ?a t"
    using st.round_result [OF st(1) I refl, of priority] by (auto simp: lst fold_last simp del: last.simps)
  let ?t = "upd_thread ?a (\<lambda>th. th\<lparr>th_next := NULL\<rparr>) t"
  have kt: "kinv ?t" and ss: "same_sched s ?t"
    using inv same_sched_trans [OF st(2)]
    by (auto simp: st.round_inv_def kinv_upd_thread th_keeps_def same_sched_def simp del: last.simps)
  have ch: "chain (\<lambda>q. th_next (theap ?t q)) (InitThread s) (InitThread s # stage_list priority s)"
    unfolding I [symmetric] lst [symmetric]
    by (rule st.round_chain(2) [OF st(1) inv]) (simp add: I lst del: last.simps)
  have "build_stage_queue stage priority s = Ok (InitThread s) ?t"
  proof -
    have "InitThread s \<noteq> NULL" using live_not_NULL [OF kinv_InitThread(1) [OF k]] .
    then have "build_stage_queue stage priority s = bindR (foldA (stage_visit priority) round_tids (InitThread s) ?s)
        (\<lambda>tail s4. Ok (InitThread s) (upd_thread tail (\<lambda>th. th\<lparr>th_next := NULL\<rparr>) s4))"
      by (simp add: build_stage_queue_def Let_def stage_start_def upd_thread_upd_thread cong: if_cong)
    then show ?thesis by (simp add: loop del: last.simps)
  qed
  moreover have "th_tid (theap ?t (InitThread s)) = INIT_TID"
    using kinv_InitThread(2) [OF kt] ss unfolding same_sched_def by metis
  moreover have core: "same_core s ?t"
    using st(4) inv same_core_trans [of s ?s t] same_core_trans [of s t ?t]
    by (simp add: st.round_inv_def th_same_def del: last.simps)
  moreover have sa: "state_after ?t q = state_after t q" for q
    by (simp add: state_after_def live_def del: last.simps)
  have "state_after ?t (InitThread s) = state_after s (InitThread s)"
    using inv st(5) I unfolding sa st.round_inv_def by metis
  moreover have "state_after ?t p = stage_next_state (jiffies s) (theap s p)"
    if "live s p" "p \<noteq> InitThread s" for p
    using st.round_life [OF st(1) inv, of p] that st(2,3) unfolding sa
    by (simp add: same_sched_def live_def I)
  ultimately show ?thesis using kt ss ch by blast
qed

definition stage_state :: "kstate \<Rightarrow> u64 \<Rightarrow> bool" where
  "stage_state s k \<longleftrightarrow> kinv s \<and> si_initialized (SchedulerInfo s) = TRUE \<and>
     si_policy (SchedulerInfo s) = SCHED_POLICY_PRIORITY_INTERLEAVING \<and>
     si_stage (SchedulerInfo s) = k \<and> si_max_stage (SchedulerInfo s) = 6"

lemma stage_run_total:
  assumes "kinv s"
    and "\<And>q t. theap (set_queue q t) = theap t \<and> SchedulerInfo (set_queue q t) = SchedulerInfo t \<and>
      kinv (set_queue q t) = kinv t \<and> InitThread (set_queue q t) = InitThread t"
  shows "\<exists>s'. stage_run queue set_queue nxt s = Ok INIT_TID s' \<and> kinv s' \<and> currentq s' = InitThread s \<and>
    chain (\<lambda>q. th_next (theap s' q)) (currentq s') (InitThread s # stage_list (word_of_int queue) s) \<and>
    SchedulerInfo s' = (SchedulerInfo s)\<lparr>si_stage := nxt\<rparr>"
  using build_stage_queue_total [OF assms(1), of queue "word_of_int queue"] assms(2)
  by (auto simp: stage_run_def Let_def same_sched_def)

lemma stage_policy_total:
  assumes "stage_state s k" and "k \<in> {1, 2, 3, 4, 5, 6}"
  shows "\<exists>s'. scheduler_priorityinterleaving flags s = Ok INIT_TID s' \<and> currentq s' = InitThread s \<and>
    chain (\<lambda>q. th_next (theap s' q)) (currentq s') (InitThread s # stage_list (7 - k) s) \<and>
    stage_state s' (if k = 6 then 1 else k + 1)"
proof -
  have k: "kinv s" using assms(1) by (simp add: stage_state_def)
  have I: "InitThread s \<noteq> NULL" "th_magic (theap s (InitThread s)) = 1234"
    using kinv_InitThread(1) [OF k] by (simp_all add: live_def)
  note r = stage_run_total [OF k, of "\<lambda>q s. s\<lparr>p6q := q\<rparr>" 6 2] stage_run_total [OF k, of "\<lambda>q s. s\<lparr>p5q := q\<rparr>" 5 3]
    stage_run_total [OF k, of "\<lambda>q s. s\<lparr>p4q := q\<rparr>" 4 4] stage_run_total [OF k, of "\<lambda>q s. s\<lparr>p3q := q\<rparr>" 3 5]
    stage_run_total [OF k, of "\<lambda>q s. s\<lparr>p2q := q\<rparr>" 2 6] stage_run_total [OF k, of "\<lambda>q s. s\<lparr>p1q := q\<rparr>" 1 1]
  from assms(2) consider "k = 1" | "k = 2" | "k = 3" | "k = 4" | "k = 5" | "k = 6" by blast
  then show ?thesis
    using assms(1) I r
    by cases (auto simp: scheduler_priorityinterleaving_def Let_def stage_state_def)
qed

section \<open>Properties\<close>

text \<open>C35. The priority interleaving policy builds the right queue: in stage \<open>k\<close> (1 to 6) it returns
  the tid of the init thread without a panic or a fault, the list in \<open>currentq\<close> is the init thread
  followed by the threads of priority \<open>7 - k\<close> that are READY or whose wake time has come, in the
  order of the tids and ended by NULL, and the next stage is \<open>k + 1\<close>, or 1 after 6.\<close>

theorem stage_policy_round:
  assumes "stage_state s k" and "k \<in> {1, 2, 3, 4, 5, 6}"
  shows "\<exists>s'. scheduler_priorityinterleaving flags s = Ok INIT_TID s' \<and> currentq s' = InitThread s \<and>
    chain (\<lambda>q. th_next (theap s' q)) (currentq s')
      (InitThread s # map (threadList s) (filter (\<lambda>i. stage_eligible (7 - k) s (threadList s i)) round_tids)) \<and>
    stage_state s' (if k = 6 then 1 else k + 1)"
  using stage_policy_total [OF assms, of flags] by (simp only: stage_list_def)

definition demo_stage :: kstate where
  "demo_stage = demo\<lparr>SchedulerInfo := demo_sched\<lparr>si_policy := 1, si_stage := 4\<rparr>\<rparr>"

lemma stage_state_demo: "stage_state demo_stage 4"
  by (simp add: stage_state_def demo_stage_def demo_sched_def)

theorem stage_policy_round_witness:
  "\<exists>s'. scheduler_priorityinterleaving 0 demo_stage = Ok 0 s' \<and> currentq s' = 0x1000 \<and>
    chain (\<lambda>q. th_next (theap s' q)) (currentq s')
      (0x1000 # map demo_threadList (filter (\<lambda>i. stage_eligible 3 demo_stage (demo_threadList i)) round_tids)) \<and>
    stage_state s' 5"
  using stage_policy_round [OF stage_state_demo, of 0] by (simp add: demo_stage_def)

text \<open>Under the priority interleaving policy a pending exit is never carried out: the state of
  every thread that is not WAITING stays as it is when the queue of a stage is built, so a READY
  thread whose exit was requested stays in the round of its priority.\<close>

theorem stage_policy_ignores_exit:
  assumes "stage_state s k" and "k \<in> {1, 2, 3, 4, 5, 6}" and "valid_tid s tid" and "tid \<noteq> INIT_TID"
    and "th_state (theap s (threadList s tid)) = READY" and "th_priority (theap s (threadList s tid)) = 7 - k"
    and "exit_in_progress (th_Deferred (theap s (threadList s tid))) = TRUE"
  shows "\<exists>s' xs. scheduler_priorityinterleaving flags s = Ok INIT_TID s' \<and>
    chain (\<lambda>q. th_next (theap s' q)) (currentq s') xs \<and> threadList s tid \<in> set xs"
proof -
  have "threadList s tid \<in> set (stage_list (7 - k) s)"
    using assms(3-6) by (auto simp: stage_list_def stage_eligible_def valid_tid_def round_tids_props)
  then show ?thesis
    using stage_policy_total [OF assms(1,2), of flags] by (metis list.set_intros(2))
qed

theorem stage_policy_ignores_exit_witness:
  "\<exists>s' xs. scheduler_priorityinterleaving 0
      (upd_thread 0x2000 (\<lambda>th. th\<lparr>th_Deferred := (th_Deferred th)\<lparr>exit_in_progress := 1\<rparr>\<rparr>) demo_stage) = Ok 0 s' \<and>
    chain (\<lambda>q. th_next (theap s' q)) (currentq s') xs \<and> 0x2000 \<in> set xs"
proof -
  let ?s = "upd_thread 0x2000 (\<lambda>th. th\<lparr>th_Deferred := (th_Deferred th)\<lparr>exit_in_progress := 1\<rparr>\<rparr>) demo_stage"
  have "stage_state ?s 4"
    using stage_state_demo by (simp add: stage_state_def kinv_upd_thread th_keeps_def)
  from stage_policy_ignores_exit [OF this, of 1 0] show ?thesis
    by (simp add: demo_stage_def demo_threadList_def demo_threads_def valid_tid_def live_def demo_thread_def)
qed

end
