(* ===== verification/Scheduler.thy ===== *)
theory Scheduler
  imports Round_RR_Laws Round_Stage
begin

text \<open>
  \<open>sched/sched.c\<close>: \<open>scheduler\<close> selects the round builder of the configured policy and checks
  its result, \<open>psScheduler\<close> is the interface that respects the lock. \<open>round_ok s s'\<close> is what
  the task switch relies on, whatever the policy: a round that starts at the init thread, whose next
  thread is ready, and in which no thread was put in standby, to sleep or revived and no saved context changed.
\<close>

section \<open>Definitions\<close>

definition scheduler :: "kstate \<Rightarrow> int kres" where
  "scheduler s =
     (let Policy = si_policy (SchedulerInfo s) in
      if system_state s \<noteq> SYSTEM_RUNNING then Panic ''scheduler: system_state''
      else let s1 = s\<lparr>system_state := SYSTEM_SCHEDULING\<rparr> in
      if up_threads_counter (UPProcessorBlock s1) = 0
      then Panic ''scheduler: UPProcessorBlock.threads_counter == 0''
      else if si_initialized (SchedulerInfo s1) \<noteq> TRUE then Panic ''scheduler: SchedulerInfo.initialized''
      else bindR
        (if Policy = SCHED_POLICY_RR then scheduler_rr 0 s1
         else if Policy = SCHED_POLICY_PRIORITY_INTERLEAVING then scheduler_priorityinterleaving 0 s1
         else Panic ''scheduler: Invalid policy'')
        (\<lambda>first_tid s2.
          let Idle = up_IdleThread (UPProcessorBlock s2) in
          if Idle = NULL then Panic ''scheduler: Idle''
          else if th_magic (theap s2 Idle) \<noteq> 1234 then Panic ''scheduler: Idle validation''
          else if first_tid \<noteq> th_tid (theap s2 Idle) then Panic ''scheduler: first_tid != Idle->tid''
          else Ok first_tid (s2\<lparr>system_state := SYSTEM_RUNNING\<rparr>)))"

definition psScheduler :: "kstate \<Rightarrow> int kres" where
  "psScheduler s =
     (if si_is_locked (SchedulerInfo s) = LOCKED then Ok (-1) s
      else if up_threads_counter (UPProcessorBlock s) = 0 then Panic ''psScheduler: No threads''
      else scheduler s)"

section \<open>What a scheduler call guarantees\<close>

definition sched_ok :: "kstate \<Rightarrow> bool" where
  "sched_ok s \<longleftrightarrow> kinv s \<and> si_initialized (SchedulerInfo s) = TRUE \<and>
     (si_policy (SchedulerInfo s) = SCHED_POLICY_RR \<or>
      si_policy (SchedulerInfo s) = SCHED_POLICY_PRIORITY_INTERLEAVING \<and> si_max_stage (SchedulerInfo s) = 6) \<and>
     up_threads_counter (UPProcessorBlock s) \<noteq> 0 \<and> system_state s = SYSTEM_RUNNING \<and>
     si_is_locked (SchedulerInfo s) \<noteq> LOCKED"

definition round_ok :: "kstate \<Rightarrow> kstate \<Rightarrow> bool" where
  "round_ok s s' \<longleftrightarrow> sched_ok s' \<and> same_core s s' \<and> threadList s' = threadList s \<and>
     InitThread s' = InitThread s \<and> UPProcessorBlock s' = UPProcessorBlock s \<and> currentq s' = InitThread s \<and>
     (th_next (theap s' (InitThread s)) \<noteq> NULL \<longrightarrow>
        state_after s' (th_next (theap s' (InitThread s))) = Some READY) \<and>
     (\<forall>p x. x \<in> {STANDBY, WAITING} \<longrightarrow> state_after s' p = Some x \<longrightarrow> state_after s p = Some x)"

lemma sched_ok_scheduling:
  "sched_ok s \<Longrightarrow> kinv (s\<lparr>system_state := x\<rparr>)" "InitThread (s\<lparr>system_state := x\<rparr>) = InitThread s"
  by (simp_all add: sched_ok_def)

lemma chain_second:
  "chain nx p (p # xs) \<Longrightarrow> nx p \<noteq> NULL \<Longrightarrow> nx p \<in> set xs"
  by (cases xs) auto

lemma rr_list_state: "p \<in> set (rr_list s) \<Longrightarrow> live s p \<and> rr_next_state (jiffies s) (theap s p) = Some READY"
  using rr_eligible_next_state by (auto simp: rr_list_def rr_eligible_def)

lemma stage_list_state:
  "p \<in> set (stage_list k s) \<Longrightarrow> live s p \<and> stage_next_state (jiffies s) (theap s p) = Some READY"
  by (auto simp: stage_list_def stage_eligible_def stage_next_state_def)

lemma rr_list_not_init: "kinv s \<Longrightarrow> p \<in> set (rr_list s) \<Longrightarrow> p \<noteq> InitThread s"
  using kinv_slot_neq_Init by (auto simp: rr_list_def round_tids_props)

lemma stage_list_not_init: "kinv s \<Longrightarrow> p \<in> set (stage_list k s) \<Longrightarrow> p \<noteq> InitThread s"
  using kinv_slot_neq_Init by (auto simp: stage_list_def round_tids_props)

text \<open>What both policies guarantee about the worker of a round, \<open>t\<close> being the state it leaves.\<close>

definition worker_ok :: "kstate \<Rightarrow> kstate \<Rightarrow> bool" where
  "worker_ok s t \<longleftrightarrow> kinv t \<and> same_core s t \<and> threadList t = threadList s \<and> InitThread t = InitThread s \<and>
     UPProcessorBlock t = UPProcessorBlock s \<and> currentq t = InitThread s \<and>
     si_initialized (SchedulerInfo t) = TRUE \<and> si_policy (SchedulerInfo t) = si_policy (SchedulerInfo s) \<and>
     si_is_locked (SchedulerInfo t) = si_is_locked (SchedulerInfo s) \<and>
     (th_next (theap t (InitThread s)) \<noteq> NULL \<longrightarrow>
        state_after t (th_next (theap t (InitThread s))) = Some READY) \<and>
     (\<forall>p x. x \<in> {STANDBY, WAITING} \<longrightarrow> state_after t p = Some x \<longrightarrow> state_after s p = Some x)"

lemma state_kept:
  assumes "same_core s t" and "\<And>p. live s p \<Longrightarrow> p \<noteq> I \<Longrightarrow> state_after t p = ns (theap s p)"
    and "\<And>th x. x \<in> {STANDBY, WAITING} \<Longrightarrow> ns th = Some x \<Longrightarrow> th_state th = x"
    and "state_after t I \<in> {Some READY, state_after s I}" and x: "x \<in> {STANDBY, WAITING}" and "state_after t p = Some x"
  shows "state_after s p = Some x"
proof (cases "p = I")
  case True
  with assms(4-6) show ?thesis by auto
next
  case False
  have "live t p" using assms(6) by (auto simp: state_after_def split: if_splits)
  then have "live s p" by (rule same_core_live [OF assms(1)])
  with False assms(2,6) assms(3) [OF x] show ?thesis by (simp add: state_after_def)
qed

lemma rr_next_kept: "x \<in> {STANDBY, WAITING} \<Longrightarrow> rr_next_state n th = Some x \<Longrightarrow> th_state th = x"
  by (auto simp: rr_next_state_def split: if_splits)

lemma stage_next_kept: "x \<in> {STANDBY, WAITING} \<Longrightarrow> stage_next_state n th = Some x \<Longrightarrow> th_state th = x"
  by (auto simp: stage_next_state_def split: if_splits)

lemma rr_worker_ok:
  assumes "kinv s" and "si_initialized (SchedulerInfo s) = TRUE" and "si_policy (SchedulerInfo s) = SCHED_POLICY_RR"
  shows "\<exists>t. scheduler_rr flags s = Ok INIT_TID t \<and> worker_ok s t"
proof -
  obtain t where t: "scheduler_rr flags s = Ok INIT_TID t" "kinv t" "currentq t = InitThread s"
    "chain (\<lambda>q. th_next (theap t q)) (InitThread s) (InitThread s # rr_list s)"
    "state_after t (InitThread s) = Some READY"
    "\<And>p. live s p \<Longrightarrow> p \<noteq> InitThread s \<Longrightarrow> state_after t p = rr_next_state (jiffies s) (theap s p)"
    "same_core s t" "threadList t = threadList s" "InitThread t = InitThread s"
    "UPProcessorBlock t = UPProcessorBlock s" "si_initialized (SchedulerInfo t) = TRUE"
    "si_policy (SchedulerInfo t) = SCHED_POLICY_RR"
    "si_is_locked (SchedulerInfo t) = si_is_locked (SchedulerInfo s)"
    using scheduler_rr_total [OF assms, of flags] by metis
  have "state_after t (th_next (theap t (InitThread s))) = Some READY" if "th_next (theap t (InitThread s)) \<noteq> NULL"
    using chain_second [OF t(4) that] rr_list_state t(6) rr_list_not_init [OF assms(1)] by metis
  moreover have "state_after s p = Some x" if "x \<in> {STANDBY, WAITING}" "state_after t p = Some x" for p x
    by (rule state_kept [where I = "InitThread s" and ns = "rr_next_state (jiffies s)", OF t(7) _ _ _ that])
      (erule t(6), assumption, erule (1) rr_next_kept, simp add: t(5))
  ultimately show ?thesis using t assms(3) unfolding worker_ok_def by metis
qed

lemma stage_run_ok:
  assumes k: "kinv s" and "si_initialized (SchedulerInfo s) = TRUE"
    and q: "\<And>q t. theap (set_queue q t) = theap t \<and> SchedulerInfo (set_queue q t) = SchedulerInfo t \<and>
      kinv (set_queue q t) = kinv t \<and> InitThread (set_queue q t) = InitThread t \<and>
      threadList (set_queue q t) = threadList t \<and> UPProcessorBlock (set_queue q t) = UPProcessorBlock t \<and>
      same_core s (set_queue q t) = same_core s t"
  shows "\<exists>t. stage_run queue set_queue nxt s = Ok INIT_TID t \<and> worker_ok s t \<and>
    SchedulerInfo t = (SchedulerInfo s)\<lparr>si_stage := nxt\<rparr>"
proof -
  obtain u where u: "build_stage_queue queue (word_of_int queue) s = Ok (InitThread s) u" "kinv u" "same_sched s u"
    "chain (\<lambda>q. th_next (theap u q)) (InitThread s) (InitThread s # stage_list (word_of_int queue) s)"
    "th_tid (theap u (InitThread s)) = INIT_TID" "same_core s u"
    "state_after u (InitThread s) = state_after s (InitThread s)"
    "\<And>p. live s p \<Longrightarrow> p \<noteq> InitThread s \<Longrightarrow> state_after u p = stage_next_state (jiffies s) (theap s p)"
    using build_stage_queue_total [OF k, of queue "word_of_int queue"] by metis
  let ?t = "set_queue (InitThread s) u\<lparr>currentq := InitThread s, SchedulerInfo := (SchedulerInfo u)\<lparr>si_stage := nxt\<rparr>\<rparr>"
  have r: "stage_run queue set_queue nxt s = Ok INIT_TID ?t"
    using u(1,5) q by (simp add: stage_run_def Let_def)
  have sa: "state_after ?t p = state_after u p" "theap ?t = theap u" for p
    using q by (simp_all add: state_after_def live_def)
  have "state_after u (th_next (theap u (InitThread s))) = Some READY" if "th_next (theap u (InitThread s)) \<noteq> NULL"
    using chain_second [OF u(4) that] stage_list_state u(8) stage_list_not_init [OF k] by metis
  moreover have "state_after s p = Some x" if "x \<in> {STANDBY, WAITING}" "state_after u p = Some x" for p x
    by (rule state_kept [where I = "InitThread s" and ns = "stage_next_state (jiffies s)", OF u(6) _ _ _ that])
      (erule u(8), assumption, erule (1) stage_next_kept, simp add: u(7))
  moreover have "same_core s ?t"
    using q [of "InitThread s" u] u(6) by (simp add: same_core_def)
  ultimately have "worker_ok s ?t"
    using u(2,3) q assms(2) unfolding worker_ok_def sa by (simp add: same_sched_def)
  with r u(3) show ?thesis by (auto simp: same_sched_def)
qed

lemma stage_prepare_ok:
  assumes "kinv s" and "si_initialized (SchedulerInfo s) = TRUE"
  shows "worker_ok s (stage_prepare s)" and "SchedulerInfo (stage_prepare s) = (SchedulerInfo s)\<lparr>si_stage := 1\<rparr>"
proof -
  have n: "InitThread s \<noteq> NULL" using live_not_NULL [OF kinv_InitThread(1) [OF assms(1)]] .
  let ?t = "stage_prepare s"
  have f: "theap ?t = (theap s)(InitThread s := (theap s (InitThread s))\<lparr>th_next := NULL\<rparr>)"
    "SchedulerInfo ?t = (SchedulerInfo s)\<lparr>si_stage := 1\<rparr>" "InitThread ?t = InitThread s"
    "threadList ?t = threadList s" "UPProcessorBlock ?t = UPProcessorBlock s" "currentq ?t = InitThread s"
    using n by (simp_all add: stage_prepare_def Let_def set_queue_heads_eq)
  have "same_core s ?t"
    using n by (simp add: stage_prepare_def Let_def set_queue_heads_eq same_core_def th_same_def)
  moreover have "kinv ?t"
    using n assms(1) by (simp add: stage_prepare_def Let_def set_queue_heads_eq kinv_upd_thread th_keeps_def)
  moreover have "state_after ?t p = state_after s p" for p
    by (simp add: state_after_def live_def f(1))
  ultimately show "worker_ok s ?t" using f assms(2) by (simp add: worker_ok_def)
  show "SchedulerInfo ?t = (SchedulerInfo s)\<lparr>si_stage := 1\<rparr>" by (rule f(2))
qed

lemma u64_le_6: "(k :: u64) \<le> 6 \<Longrightarrow> k = 0 \<or> k = 1 \<or> k = 2 \<or> k = 3 \<or> k = 4 \<or> k = 5 \<or> k = 6"
proof -
  assume "k \<le> 6"
  then have "unat k \<in> {0, 1, 2, 3, 4, 5, 6}" by (auto simp: word_le_nat_alt)
  moreover have "unat k = n \<Longrightarrow> k = word_of_nat n" for n by auto
  ultimately show ?thesis by fastforce
qed

lemma stage_worker_ok:
  assumes k: "kinv s" and i: "si_initialized (SchedulerInfo s) = TRUE"
    and p: "si_policy (SchedulerInfo s) = SCHED_POLICY_PRIORITY_INTERLEAVING" and m: "si_max_stage (SchedulerInfo s) = 6"
  shows "\<exists>t. scheduler_priorityinterleaving flags s = Ok INIT_TID t \<and> worker_ok s t \<and>
    si_max_stage (SchedulerInfo t) = 6"
proof -
  define u where "u = (if si_stage (SchedulerInfo s) > si_max_stage (SchedulerInfo s)
      then s\<lparr>SchedulerInfo := (SchedulerInfo s)\<lparr>si_stage := 1\<rparr>\<rparr> else s)"
  have u: "kinv u" "si_initialized (SchedulerInfo u) = TRUE" "si_max_stage (SchedulerInfo u) = 6"
    "si_stage (SchedulerInfo u) \<le> 6" "InitThread u = InitThread s" "theap u = theap s"
    using k i m by (auto simp: u_def)
  have "state_after u q = state_after s q" for q by (simp add: u_def state_after_def live_def)
  then have w: "worker_ok u t \<Longrightarrow> worker_ok s t" for t
    by (cases "si_stage (SchedulerInfo s) > si_max_stage (SchedulerInfo s)")
      (simp_all add: worker_ok_def u_def same_core_def)
  note I = kinv_InitThread(1,2) [OF u(1)]
  have e: "scheduler_priorityinterleaving flags s =
      (if si_stage (SchedulerInfo u) = 0 then Ok INIT_TID (stage_prepare u)
       else if si_stage (SchedulerInfo u) = 1 then stage_run 6 (\<lambda>q s. s\<lparr>p6q := q\<rparr>) 2 u
       else if si_stage (SchedulerInfo u) = 2 then stage_run 5 (\<lambda>q s. s\<lparr>p5q := q\<rparr>) 3 u
       else if si_stage (SchedulerInfo u) = 3 then stage_run 4 (\<lambda>q s. s\<lparr>p4q := q\<rparr>) 4 u
       else if si_stage (SchedulerInfo u) = 4 then stage_run 3 (\<lambda>q s. s\<lparr>p3q := q\<rparr>) 5 u
       else if si_stage (SchedulerInfo u) = 5 then stage_run 2 (\<lambda>q s. s\<lparr>p2q := q\<rparr>) 6 u
       else stage_run 1 (\<lambda>q s. s\<lparr>p1q := q\<rparr>) 1 u)"
    using u64_le_6 [OF u(4)] i p I
    by (auto simp: scheduler_priorityinterleaving_def Let_def live_def u_def split: if_splits)
  note sr = stage_run_ok [OF u(1,2)]
  show ?thesis
    unfolding e using u64_le_6 [OF u(4)] stage_prepare_ok [OF u(1,2)] w u(3)
      sr [of "\<lambda>q s. s\<lparr>p6q := q\<rparr>" 6 2] sr [of "\<lambda>q s. s\<lparr>p5q := q\<rparr>" 5 3] sr [of "\<lambda>q s. s\<lparr>p4q := q\<rparr>" 4 4]
      sr [of "\<lambda>q s. s\<lparr>p3q := q\<rparr>" 3 5] sr [of "\<lambda>q s. s\<lparr>p2q := q\<rparr>" 2 6] sr [of "\<lambda>q s. s\<lparr>p1q := q\<rparr>" 1 1]
    by (elim disjE) (auto simp: same_core_def)
qed

lemma psScheduler_total:
  assumes "sched_ok s"
  shows "\<exists>s'. psScheduler s = Ok INIT_TID s' \<and> round_ok s s'"
proof -
  let ?s = "s\<lparr>system_state := SYSTEM_SCHEDULING\<rparr>"
  have "\<exists>t. (if si_policy (SchedulerInfo s) = SCHED_POLICY_RR then scheduler_rr 0 ?s
      else if si_policy (SchedulerInfo s) = SCHED_POLICY_PRIORITY_INTERLEAVING
      then scheduler_priorityinterleaving 0 ?s else Panic ''scheduler: Invalid policy'') = Ok INIT_TID t \<and>
      worker_ok ?s t \<and> (si_max_stage (SchedulerInfo t) = 6 \<or> si_policy (SchedulerInfo s) = SCHED_POLICY_RR)"
    using assms rr_worker_ok [of ?s 0] stage_worker_ok [of ?s 0] by (auto simp: sched_ok_def)
  then obtain t where t: "(if si_policy (SchedulerInfo s) = SCHED_POLICY_RR then scheduler_rr 0 ?s
      else if si_policy (SchedulerInfo s) = SCHED_POLICY_PRIORITY_INTERLEAVING
      then scheduler_priorityinterleaving 0 ?s else Panic ''scheduler: Invalid policy'') = Ok INIT_TID t"
      "worker_ok ?s t" "si_max_stage (SchedulerInfo t) = 6 \<or> si_policy (SchedulerInfo s) = SCHED_POLICY_RR"
    by blast
  have I: "live t (InitThread t)" "th_tid (theap t (InitThread t)) = INIT_TID"
      "up_IdleThread (UPProcessorBlock t) = InitThread t"
    using kinv_InitThread [of t] t(2) by (simp_all add: worker_ok_def)
  have "psScheduler s = Ok INIT_TID (t\<lparr>system_state := SYSTEM_RUNNING\<rparr>)"
    using assms t(1) I by (simp add: psScheduler_def scheduler_def sched_ok_def Let_def live_def cong: if_cong)
  moreover have "round_ok s (t\<lparr>system_state := SYSTEM_RUNNING\<rparr>)"
  proof -
    have sa: "state_after (t\<lparr>system_state := x\<rparr>) p = state_after t p"
      "state_after (s\<lparr>system_state := x\<rparr>) p = state_after s p" for x p
      by (simp_all add: state_after_def live_def)
    have "same_core s (t\<lparr>system_state := SYSTEM_RUNNING\<rparr>)"
      using assms t(2) by (simp add: worker_ok_def sched_ok_def same_core_def)
    then show ?thesis
      using assms t(2,3) by (auto simp: round_ok_def worker_ok_def sched_ok_def sa)
  qed
  ultimately show ?thesis by blast
qed

section \<open>Properties\<close>

text \<open>C11. The scheduler never stops the machine: with a running system, an initialised and unlocked
  scheduler, either policy and at least one thread, \<open>psScheduler\<close> returns the tid of the init
  thread without a panic or a fault; the round it leaves starts at the init thread, the next thread
  of the round (if any) is valid and READY, no thread is put in standby or to sleep, no structure is revived, no
  saved context changes, and the scheduler can be called again.\<close>

theorem psScheduler_safe:
  assumes "sched_ok s"
  shows "\<exists>s'. psScheduler s = Ok INIT_TID s' \<and> round_ok s s'"
  by (rule psScheduler_total [OF assms])

theorem psScheduler_safe_witness:
  "\<exists>s'. psScheduler demo = Ok 0 s' \<and> round_ok demo s'"
  by (rule psScheduler_safe) (simp add: sched_ok_def demo_sched_def)

end
