(* ===== verification/Thread_Context.thy ===== *)
theory Thread_Context
  imports Schedi Demo_State
begin

text \<open>
  \<open>disp/x86_64/x64cont.c\<close>: saving the registers of the interrupted thread into its structure and
  loading those of the next one. The \<open>contextXX\<close> globals are the record \<open>frame\<close>; \<open>die\<close>
  stops the machine and is a \<open>Panic\<close>. The assembly of the interrupt stubs, which fills and reads
  the globals, is not modelled. The main property is that a thread which is switched out and later
  switched in again finds its registers, its stack frame and its fpu state as they were.
\<close>

section \<open>Definitions\<close>

text \<open>\<open>(unsigned short) (x & 0xFFFF)\<close> and back.\<close>

definition seg_in :: "u64 \<Rightarrow> u16" where
  "seg_in x = ucast (x AND 0xFFFF)"

definition seg_out :: "u16 \<Rightarrow> u64" where
  "seg_out x = ucast x AND 0xFFFF"

definition frame_to_context :: "cpu_frame \<Rightarrow> x64_context_d \<Rightarrow> x64_context_d" where
  "frame_to_context f c = c
     \<lparr>c_ss := seg_in (f_ss f), c_rsp := f_rsp f, c_rflags := f_rflags f, c_cs := seg_in (f_cs f), c_rip := f_rip f,
      c_ds := seg_in (f_ds f), c_es := seg_in (f_es f), c_fs := seg_in (f_fs f), c_gs := seg_in (f_gs f),
      c_rax := f_rax f, c_rbx := f_rbx f, c_rcx := f_rcx f, c_rdx := f_rdx f, c_rsi := f_rsi f,
      c_rdi := f_rdi f, c_rbp := f_rbp f, c_r8 := f_r8 f, c_r9 := f_r9 f, c_r10 := f_r10 f, c_r11 := f_r11 f,
      c_r12 := f_r12 f, c_r13 := f_r13 f, c_r14 := f_r14 f, c_r15 := f_r15 f,
      c_fpu_buffer := (\<lambda>i. if i < 512 then f_fpu_buffer f i else c_fpu_buffer c i)\<rparr>"

definition context_to_frame :: "x64_context_d \<Rightarrow> cpu_frame \<Rightarrow> cpu_frame" where
  "context_to_frame c f = f
     \<lparr>f_ss := seg_out (c_ss c), f_rsp := c_rsp c, f_rflags := c_rflags c, f_cs := seg_out (c_cs c), f_rip := c_rip c,
      f_ds := seg_out (c_ds c), f_es := seg_out (c_es c), f_fs := seg_out (c_fs c), f_gs := seg_out (c_gs c),
      f_rax := c_rax c, f_rbx := c_rbx c, f_rcx := c_rcx c, f_rdx := c_rdx c, f_rsi := c_rsi c,
      f_rdi := c_rdi c, f_rbp := c_rbp c, f_r8 := c_r8 c, f_r9 := c_r9 c, f_r10 := c_r10 c, f_r11 := c_r11 c,
      f_r12 := c_r12 c, f_r13 := c_r13 c, f_r14 := c_r14 c, f_r15 := c_r15 c,
      f_fpu_buffer := (\<lambda>i. if i < 512 then c_fpu_buffer c i else f_fpu_buffer f i)\<rparr>"

text \<open>\<open>rflags_iopl = (int) (rflags & 0x200)\<close>.\<close>

definition iopl_of_rflags :: "u64 \<Rightarrow> u32" where
  "iopl_of_rflags rflags = ucast (rflags AND 0x200)"

definition save_current_context :: "kstate \<Rightarrow> unit kres" where
  "save_current_context s =
     (if current_thread s < 0 \<or> current_thread s \<ge> THREAD_COUNT_MAX then Panic ''die''
      else let t = threadList s (current_thread s) in
      if t = NULL then Panic ''die''
      else if th_used (theap s t) \<noteq> TRUE \<or> th_magic (theap s t) \<noteq> 1234 then Panic ''die''
      else let s1 = upd_thread t (\<lambda>th. th\<lparr>th_context := frame_to_context (frame s) (th_context th)\<rparr>) s;
               cpl = contextCPL s AND 3
      in if (ucast cpl :: u32) \<noteq> th_cpl (theap s1 t) then Panic ''save_current_context: cpl != t->cpl''
      else if cpl \<noteq> 0 \<and> cpl \<noteq> 1 \<and> cpl \<noteq> 2 \<and> cpl \<noteq> 3 then Panic ''save_current_context: cpl''
      else if cpl = 0 then Panic ''save_current_context: cpl 0''
      else if cpl = 1 then Panic ''save_current_context: cpl 1''
      else if cpl = 2 then Panic ''save_current_context: cpl 2''
      else let s2 = (if cpl = 3
                     then upd_thread t (\<lambda>th. th\<lparr>th_to_supervisor := th_to_supervisor th + 1\<rparr>) s1 else s1)
      in Ok () (upd_thread t (\<lambda>th. th\<lparr>th_rflags_current_iopl := iopl_of_rflags (c_rflags (th_context th))\<rparr>) s2))"

definition restore_current_context :: "kstate \<Rightarrow> unit kres" where
  "restore_current_context s =
     (if current_thread s < 0 \<or> current_thread s \<ge> THREAD_COUNT_MAX then Panic ''die''
      else let t = threadList s (current_thread s) in
      if t = NULL then Panic ''die''
      else if th_used (theap s t) \<noteq> TRUE \<or> th_magic (theap s t) \<noteq> 1234 then Panic ''die''
      else let s1 = s\<lparr>frame := context_to_frame (th_context (theap s t)) (frame s)\<rparr> in
      if th_cpl (theap s1 t) \<noteq> 3 then Panic ''restore_current_context: t->cpl''
      else let s2 = (if th_cpl (theap s1 t) = 3
                     then upd_thread t (\<lambda>th. th\<lparr>th_to_user := th_to_user th + 1\<rparr>) s1 else s1)
      in Ok () (s2\<lparr>cr3 := th_pml4_PA (theap s2 t)\<rparr>))"

definition contextCheckThreadRing3Context :: "int \<Rightarrow> kstate \<Rightarrow> int kres" where
  "contextCheckThreadRing3Context tid s =
     (if tid < 0 \<or> tid \<ge> THREAD_COUNT_MAX then Ok FALSE s
      else let t = threadList s tid in
      if t = NULL then Ok FALSE s
      else if th_used (theap s t) \<noteq> TRUE \<or> th_magic (theap s t) \<noteq> 1234 then Ok FALSE s
      else if th_cpl (theap s t) \<noteq> 3 then Panic ''contextCheckThreadRing3Context: cpl''
      else if th_rflags_initial_iopl (theap s t) \<noteq> 3 then Ok FALSE s
      else if th_rflags_current_iopl (theap s t) \<noteq> 3 then Ok FALSE s
      else if c_cs (th_context (theap s t)) \<noteq> 0x1B then Ok FALSE s
      else Ok TRUE s)"

section \<open>Lemmas\<close>

definition saved_fields :: "kstate \<Rightarrow> thread_d \<Rightarrow> thread_d" where
  "saved_fields s th = th\<lparr>th_context := frame_to_context (frame s) (th_context th),
     th_to_supervisor := th_to_supervisor th + 1, th_rflags_current_iopl := iopl_of_rflags (f_rflags (frame s))\<rparr>"

lemma saved_fields_keeps [simp]: "th_keeps th (saved_fields s th)"
  by (simp add: saved_fields_def th_keeps_def)

lemma valid_tidD:
  "valid_tid s tid \<Longrightarrow> 0 \<le> tid \<and> tid < THREAD_COUNT_MAX \<and> threadList s tid \<noteq> NULL \<and>
     th_used (theap s (threadList s tid)) = TRUE \<and> th_magic (theap s (threadList s tid)) = 1234"
  by (simp add: valid_tid_def tid_in_range_def live_def)

text \<open>A thread of ring 3 that was interrupted in ring 3 is saved.\<close>

lemma save_valid:
  assumes "valid_tid s (current_thread s)" and "th_cpl (theap s (threadList s (current_thread s))) = 3"
    and "contextCPL s AND 3 = 3"
  shows "save_current_context s = Ok () (upd_thread (threadList s (current_thread s)) (saved_fields s) s)"
  using valid_tidD [OF assms(1)] assms(2,3)
  by (simp add: save_current_context_def Let_def upd_thread_def saved_fields_def frame_to_context_def)

lemma restore_valid:
  assumes "valid_tid s (current_thread s)" and "th_cpl (theap s (threadList s (current_thread s))) = 3"
  shows "restore_current_context s = Ok ()
    (upd_thread (threadList s (current_thread s)) (\<lambda>th. th\<lparr>th_to_user := th_to_user th + 1\<rparr>)
      (s\<lparr>frame := context_to_frame (th_context (theap s (threadList s (current_thread s)))) (frame s)\<rparr>)
      \<lparr>cr3 := th_pml4_PA (theap s (threadList s (current_thread s)))\<rparr>)"
  using valid_tidD [OF assms(1)] assms(2)
  by (simp add: restore_current_context_def Let_def)

lemma save_inv [kernel_inv]:
  assumes "kinv s" and "save_current_context s = Ok r s'"
  shows "kinv s'"
  using assms by (auto simp: save_current_context_def Let_def kinv_upd_thread th_keeps_def split: if_splits)

lemma restore_inv [kernel_inv]:
  assumes "kinv s" and "restore_current_context s = Ok r s'"
  shows "kinv s'"
  using assms by (auto simp: restore_current_context_def Let_def kinv_upd_thread th_keeps_def split: if_splits)

lemma seg_roundtrip: "f < 0x10000 \<Longrightarrow> seg_out (seg_in f) = f"
proof -
  assume "f < 0x10000"
  then have "unat (take_bit 16 f) = unat f"
    by (simp add: unsigned_take_bit_eq take_bit_nat_eq_self_iff word_less_nat_alt)
  then have "take_bit 16 f = f" by (rule word_unat_eq_iff [THEN iffD2])
  moreover have m: "(0xFFFF :: u64) = mask 16" by (simp add: mask_eq_exp_minus_1)
  have "seg_out (seg_in f) = take_bit 16 f"
    unfolding seg_out_def seg_in_def m by (rule bit_word_eqI) (auto simp: bit_simps)
  ultimately show ?thesis by simp
qed

text \<open>The segment registers hold selectors, which have 16 bits.\<close>

definition selectors_ok :: "cpu_frame \<Rightarrow> bool" where
  "selectors_ok f \<longleftrightarrow> f_ss f < 0x10000 \<and> f_cs f < 0x10000 \<and> f_ds f < 0x10000 \<and> f_es f < 0x10000 \<and>
     f_fs f < 0x10000 \<and> f_gs f < 0x10000"

text \<open>Two frames agree: all registers and the 512 bytes of fpu state.\<close>

definition same_frame :: "cpu_frame \<Rightarrow> cpu_frame \<Rightarrow> bool" where
  "same_frame f g \<longleftrightarrow> f\<lparr>f_fpu_buffer := \<lambda>_. 0\<rparr> = g\<lparr>f_fpu_buffer := \<lambda>_. 0\<rparr> \<and>
     (\<forall>i < 512. f_fpu_buffer f i = f_fpu_buffer g i)"

lemma frame_roundtrip:
  "selectors_ok f \<Longrightarrow> same_frame (context_to_frame (frame_to_context f c) g) f"
  by (simp add: same_frame_def context_to_frame_def frame_to_context_def selectors_ok_def seg_roundtrip)

section \<open>Properties\<close>

text \<open>C12. Context switch round trip: a thread that is interrupted and saved, while another thread is
  restored, runs, and is saved in turn, gets back all its registers, its stack frame and its fpu
  state when it is restored, and the page table loaded is its own.\<close>

theorem context_switch_roundtrip:
  assumes "kinv s" and "valid_tid s a" and "valid_tid s b" and "a \<noteq> b" and "current_thread s = a"
    and "contextCPL s AND 3 = 3" and "selectors_ok (frame s)"
  shows "\<exists>s1 s2 s4 s5.
    save_current_context s = Ok () s1 \<and>
    restore_current_context (s1\<lparr>current_thread := b\<rparr>) = Ok () s2 \<and>
    save_current_context (s2\<lparr>frame := f, contextCPL := 3\<rparr>) = Ok () s4 \<and>
    restore_current_context (s4\<lparr>current_thread := a\<rparr>) = Ok () s5 \<and>
    same_frame (frame s5) (frame s) \<and> cr3 s5 = th_pml4_PA (theap s (threadList s a))"
proof -
  let ?a = "threadList s a" and ?b = "threadList s b"
  have ab: "?a \<noteq> ?b"
    using assms(2-4) kinv_slot_inj [OF assms(1), of a b] valid_tidD [OF assms(2)] by (auto simp: valid_tid_def)
  have cpl: "th_cpl (theap s ?a) = 3" "th_cpl (theap s ?b) = 3"
    using assms(2,3) kinv_te [OF assms(1)] by (auto simp: valid_tid_def)
  have sf: "th_cpl (saved_fields u th) = th_cpl th" "th_used (saved_fields u th) = th_used th"
    "th_magic (saved_fields u th) = th_magic th" "th_pml4_PA (saved_fields u th) = th_pml4_PA th"
    "th_context (saved_fields u th) = frame_to_context (frame u) (th_context th)" for u th
    by (simp_all add: saved_fields_def)
  define s1 where "s1 = upd_thread ?a (saved_fields s) s"
  have e1: "save_current_context s = Ok () s1"
    using save_valid [of s] assms(2,5,6) cpl by (simp add: s1_def)
  define s2 where "s2 = upd_thread ?b (\<lambda>th. th\<lparr>th_to_user := th_to_user th + 1\<rparr>)
      (s1\<lparr>current_thread := b, frame := context_to_frame (th_context (theap s1 ?b)) (frame s1)\<rparr>)
      \<lparr>cr3 := th_pml4_PA (theap s1 ?b)\<rparr>"
  have e2: "restore_current_context (s1\<lparr>current_thread := b\<rparr>) = Ok () s2"
    using restore_valid [of "s1\<lparr>current_thread := b\<rparr>"] assms(3) cpl ab
    by (simp add: s2_def s1_def valid_tid_def live_def)
  define s3 where "s3 = s2\<lparr>frame := f, contextCPL := 3\<rparr>"
  define s4 where "s4 = upd_thread ?b (saved_fields s3) s3"
  have e4: "save_current_context s3 = Ok () s4"
    using save_valid [of s3] assms(3) cpl ab
    by (simp add: s4_def s3_def s2_def s1_def valid_tid_def live_def)
  have a4: "theap s4 ?a = saved_fields s (theap s ?a)" "threadList s4 = threadList s"
    using ab by (simp_all add: s4_def s3_def s2_def s1_def)
  have "\<exists>s5. restore_current_context (s4\<lparr>current_thread := a\<rparr>) = Ok () s5 \<and>
      frame s5 = context_to_frame (th_context (theap s4 ?a)) (frame s4) \<and> cr3 s5 = th_pml4_PA (theap s4 ?a)"
    using restore_valid [of "s4\<lparr>current_thread := a\<rparr>"] assms(2) cpl a4
    by (simp add: valid_tid_def live_def sf)
  with e1 e2 e4 [unfolded s3_def] frame_roundtrip [OF assms(7)] show ?thesis
    by (auto simp: a4 sf)
qed

theorem context_switch_roundtrip_witness:
  "\<exists>s1 s2 s4 s5.
    save_current_context (demo\<lparr>contextCPL := 3, frame := blank_frame\<lparr>f_rax := 7, f_cs := 0x1B\<rparr>\<rparr>) = Ok () s1 \<and>
    restore_current_context (s1\<lparr>current_thread := 1\<rparr>) = Ok () s2 \<and>
    save_current_context (s2\<lparr>frame := blank_frame, contextCPL := 3\<rparr>) = Ok () s4 \<and>
    restore_current_context (s4\<lparr>current_thread := 0\<rparr>) = Ok () s5 \<and> f_rax (frame s5) = 7"
proof -
  let ?s = "demo\<lparr>contextCPL := 3, frame := blank_frame\<lparr>f_rax := 7, f_cs := 0x1B\<rparr>\<rparr>"
  have v: "valid_tid ?s 0" "valid_tid ?s 1"
    using valid_tid_demo by (simp_all add: valid_tid_def live_def)
  have "selectors_ok (frame ?s)" by (simp add: selectors_ok_def blank_frame_def)
  with context_switch_roundtrip [of ?s 0 1 blank_frame] v show ?thesis
    unfolding same_frame_def by (fastforce dest: arg_cong [where f = f_rax])
qed

text \<open>The check of a ring 3 context can never succeed for a thread that has been interrupted:
  \<open>save_current_context\<close> stores the interrupt flag (bit 9 of rflags) as the io privilege level,
  so the level is never the 3 that \<open>contextCheckThreadRing3Context\<close> asks for.\<close>

theorem ring3_check_fails_after_save:
  assumes "kinv s" and "save_current_context s = Ok () s'"
  shows "contextCheckThreadRing3Context (current_thread s) s' = Ok FALSE s'"
proof -
  let ?t = "threadList s (current_thread s)"
  have v: "valid_tid s (current_thread s)" and c: "contextCPL s AND 3 = 3"
    using assms(2) by (auto simp: save_current_context_def Let_def valid_tid_def tid_in_range_def live_def
        split: if_splits)
  then have cpl: "th_cpl (theap s ?t) = 3" using kinv_te [OF assms(1)] by (simp add: valid_tid_def)
  have s': "s' = upd_thread ?t (saved_fields s) s" using save_valid [OF v cpl c] assms(2) by simp
  have "iopl_of_rflags x \<noteq> 3" for x
  proof
    assume "iopl_of_rflags x = 3"
    then have "bit (iopl_of_rflags x) 0" by simp
    then show False by (simp add: iopl_of_rflags_def bit_simps)
  qed
  then show ?thesis
    using valid_tidD [OF v] cpl
    by (simp add: contextCheckThreadRing3Context_def s' saved_fields_def Let_def)
qed

theorem ring3_check_fails_after_save_witness:
  "\<exists>s'. save_current_context (demo\<lparr>contextCPL := 3\<rparr>) = Ok () s' \<and>
     contextCheckThreadRing3Context 0 s' = Ok 0 s'"
proof -
  let ?s = "demo\<lparr>contextCPL := 3\<rparr>"
  have k: "kinv ?s" by simp
  have "valid_tid ?s 0" using valid_tid_demo by (simp add: valid_tid_def live_def)
  with save_valid [of ?s] kinv_te [OF k] obtain s' where e: "save_current_context ?s = Ok () s'"
    by (auto simp: valid_tid_def)
  from ring3_check_fails_after_save [OF k e] e show ?thesis by auto
qed

end
