(* ===== verification/Dispatch.thy ===== *)
theory Dispatch
  imports Sched Thread_Context
begin

text \<open>
  \<open>disp/dispatch.c\<close> (the dispatcher and its counters), \<open>disp/callback.c\<close>, the status of the
  task switch (\<open>disp/ts.c\<close>), the current process (\<open>te.c\<close>), and \<open>disp/spawn.c\<close>: starting a
  thread in standby, which leaves the kernel through \<open>iretq\<close>. \<open>iret_rip\<close> and \<open>iret_rsp\<close>
  are the words that the spawn routine pushes for \<open>rip\<close> and \<open>rsp\<close>; the selectors and the flags
  of that frame are constants of the assembly (0x23, 0x1B and 0x3202 in user mode). The writes to the
  interrupt controller and the debug output are not modelled; \<open>keDie\<close> stops the machine.
\<close>

section \<open>te.c: the current process\<close>

definition set_current_process :: "int \<Rightarrow> kstate \<Rightarrow> kstate" where
  "set_current_process pid s = s\<lparr>current_pid := pid\<rparr>"

definition get_current_process :: "kstate \<Rightarrow> int" where
  "get_current_process s = current_pid s"

definition get_current_pid :: "kstate \<Rightarrow> int" where
  "get_current_pid s = get_current_process s"

text \<open>The pointer read from \<open>teList\<close> is dereferenced without a test for NULL.\<close>

definition get_current_process_pointer :: "kstate \<Rightarrow> ptr kres" where
  "get_current_process_pointer s =
     (if system_state s \<noteq> SYSTEM_RUNNING then Ok NULL s
      else let pid = get_current_process s in
      if pid < 0 \<or> pid \<ge> PROCESS_COUNT_MAX then Ok NULL s
      else let p = teList s pid in
      if p = NULL then Fault ''p->used''
      else if te_used (pheap s p) \<noteq> TRUE then Ok NULL s
      else if te_magic (pheap s p) \<noteq> 1234 then Ok NULL s
      else Ok p s)"

section \<open>ts.c: the status of the task switch\<close>

definition get_taskswitch_status :: "kstate \<Rightarrow> u64" where
  "get_taskswitch_status s = task_switch_status s"

definition set_taskswitch_status :: "u64 \<Rightarrow> kstate \<Rightarrow> kstate" where
  "set_taskswitch_status status s = s\<lparr>task_switch_status := status\<rparr>"

definition taskswitch_lock :: "kstate \<Rightarrow> kstate" where
  "taskswitch_lock s = s\<lparr>task_switch_status := word_of_int LOCKED\<rparr>"

definition taskswitch_unlock :: "kstate \<Rightarrow> kstate" where
  "taskswitch_unlock s = s\<lparr>task_switch_status := word_of_int UNLOCKED\<rparr>"

section \<open>callback.c\<close>

text \<open>The thread of the current tid is dereferenced without a test for NULL.\<close>

definition callback_is_restored :: "kstate \<Rightarrow> unit kres" where
  "callback_is_restored s =
     (if current_thread s < 0 then Ok () s
      else if current_thread s \<ge> THREAD_COUNT_MAX then Ok () s
      else let t = threadList s (current_thread s) in
      if t = NULL then Fault ''t->used''
      else if th_used (theap s t) \<noteq> TRUE then Ok () s
      else if th_magic (theap s t) \<noteq> 1234 then Ok () s
      else if th_callback_in_progress (theap s t) \<noteq> TRUE then Panic ''callback_is_restored: Not in progress''
      else Ok () (upd_thread t (\<lambda>th. th\<lparr>th_callback_in_progress := FALSE\<rparr>) s))"

definition setup_callback_parameters :: "u64 \<Rightarrow> u64 \<Rightarrow> u64 \<Rightarrow> u64 \<Rightarrow> kstate \<Rightarrow> kstate" where
  "setup_callback_parameters param1 param2 param3 param4 s =
     s\<lparr>ring3_callback_parm1 := param1, ring3_callback_parm2 := param2,
       ring3_callback_parm3 := param3, ring3_callback_parm4 := param4\<rparr>"

section \<open>dispatch.c\<close>

definition count_selection :: "int \<Rightarrow> dispatch_count_d \<Rightarrow> dispatch_count_d" where
  "count_selection type b =
     (if type = 1 then b\<lparr>SelectIdleCount := SelectIdleCount b + 1\<rparr>
      else if type = 2 then b\<lparr>SelectInitializedCount := SelectInitializedCount b + 1\<rparr>
      else if type = 3 then b\<lparr>SelectNextCount := SelectNextCount b + 1\<rparr>
      else if type = 4 then b\<lparr>SelectCurrentCount := SelectCurrentCount b + 1\<rparr>
      else if type = 5 then b\<lparr>SelectAnyCount := SelectAnyCount b + 1\<rparr>
      else if type = 6 then b\<lparr>SelectIdealCount := SelectIdealCount b + 1\<rparr>
      else if type = 7 then b\<lparr>SelectDispatcherQueueCount := SelectDispatcherQueueCount b + 1\<rparr>
      else b)"

definition IncrementDispatcherCount :: "int \<Rightarrow> kstate \<Rightarrow> unit kres" where
  "IncrementDispatcherCount type s =
     (if type < 0 then Ok () s
      else case DispatchCountBlock s of
        None \<Rightarrow> Panic ''IncrementDispatcherCount:''
      | Some b \<Rightarrow>
          if dc_magic b \<noteq> 1234 then Panic ''IncrementDispatcherCount: validation''
          else Ok () (s\<lparr>DispatchCountBlock := Some (count_selection type b)\<rparr>))"

abbreviation (input) SELECT_INITIALIZED_COUNT :: int where "SELECT_INITIALIZED_COUNT \<equiv> 2"
abbreviation (input) SELECT_CURRENT_COUNT :: int where "SELECT_CURRENT_COUNT \<equiv> 4"
abbreviation (input) SELECT_DISPATCHER_COUNT :: int where "SELECT_DISPATCHER_COUNT \<equiv> 7"

text \<open>The assignments of the dispatcher to the thread it releases.\<close>

definition dispatch_fields :: "thread_d \<Rightarrow> thread_d" where
  "dispatch_fields th =
     (let th1 = (if th_state th = READY
                 then th\<lparr>th_state := RUNNING, th_runningCount := 0, th_runningCount_ms := 0,
                         th_readyCount := 0, th_readyCount_ms := 0, th_waitingCount := 0,
                         th_waitingCount_ms := 0, th_blockedCount := 0, th_blockedCount_ms := 0\<rparr>
                 else th);
          th2 = (if th_base_priority th1 < PRIORITY_MIN then th1\<lparr>th_base_priority := PRIORITY_MIN\<rparr> else th1);
          th3 = (if th_priority th2 < PRIORITY_MIN then th2\<lparr>th_priority := PRIORITY_MIN\<rparr> else th2)
      in if th_quantum th3 < QUANTUM_MIN then th3\<lparr>th_quantum := QUANTUM_MIN\<rparr> else th3)"

definition dispatcher :: "int \<Rightarrow> kstate \<Rightarrow> unit kres" where
  "dispatcher type s =
     (if current_thread s < 0 \<or> current_thread s \<ge> THREAD_COUNT_MAX then Panic ''dispatcher: current_thread''
      else let TargetThread = threadList s (current_thread s) in
      if TargetThread = NULL then Panic ''dispatcher: TargetThread''
      else if th_magic (theap s TargetThread) \<noteq> 1234 then Panic ''dispatcher: magic''
      else if th_state (theap s TargetThread) \<noteq> READY then Panic ''dispatcher: state''
      else let s1 = upd_thread TargetThread dispatch_fields s;
               s2 = s1\<lparr>UPProcessorBlock := (UPProcessorBlock s1)\<lparr>up_CurrentThread := TargetThread\<rparr>\<rparr>;
               s3 = upd_thread TargetThread (\<lambda>th. th\<lparr>th_saved := FALSE\<rparr>) s2
      in restore_current_context s3)"

text \<open>
  \<open>allocated\<close>: whether \<open>kmalloc\<close> returned a block. The other globals that \<open>init_dispatch\<close>
  clears have no reader.
\<close>

definition init_dispatch :: "bool \<Rightarrow> kstate \<Rightarrow> int \<times> kstate" where
  "init_dispatch allocated s =
     (if \<not> allocated then (FALSE, s\<lparr>DispatchCountBlock := None\<rparr>)
      else (0, s\<lparr>DispatchCountBlock := Some \<lparr>dc_magic = 1234, SelectIdealCount = 0, SelectCurrentCount = 0,
                 SelectInitializedCount = 0, SelectNextCount = 0, SelectAnyCount = 0,
                 SelectDispatcherQueueCount = 0, SelectIdleCount = 0\<rparr>\<rparr>))"

section \<open>spawn.c\<close>

definition spawn_set_eoi_state :: "kstate \<Rightarrow> kstate" where
  "spawn_set_eoi_state s = s\<lparr>spawn_eoi_is_necessary := TRUE\<rparr>"

definition spawn_reset_eoi_state :: "kstate \<Rightarrow> kstate" where
  "spawn_reset_eoi_state s = s\<lparr>spawn_eoi_is_necessary := FALSE\<rparr>"

definition spawn_is_eoi_needed :: "kstate \<Rightarrow> int" where
  "spawn_is_eoi_needed s = spawn_eoi_is_necessary s"

definition spawn_load_pml4_table :: "u64 \<Rightarrow> kstate \<Rightarrow> kstate" where
  "spawn_load_pml4_table phy_addr s = s\<lparr>cr3 := phy_addr\<rparr>"

text \<open>The stack pointer is pushed after SS, so the pushed value is eight below the given one.\<close>

definition spawn_enter_kernelmode :: "int \<Rightarrow> u64 \<Rightarrow> u64 \<Rightarrow> kstate \<Rightarrow> unit kres" where
  "spawn_enter_kernelmode eoi entry_va rsp0_va s = Iretq (s\<lparr>iret_rip := entry_va, iret_rsp := rsp0_va - 8\<rparr>)"

definition spawn_enter_usermode :: "int \<Rightarrow> u64 \<Rightarrow> u64 \<Rightarrow> kstate \<Rightarrow> unit kres" where
  "spawn_enter_usermode eoi entry_va rsp3_va s = Iretq (s\<lparr>iret_rip := entry_va, iret_rsp := rsp3_va - 8\<rparr>)"

text \<open>The assignments to the fields of the new thread (lines 287 to 340).\<close>

definition spawn_fields :: "kstate \<Rightarrow> thread_d \<Rightarrow> thread_d" where
  "spawn_fields s th =
     (let th1 = th\<lparr>th_saved := FALSE,
            th_Deferred := (th_Deferred th)\<lparr>yield_in_progress := FALSE, sleep_in_progress := FALSE,
              exit_in_progress := FALSE\<rparr>,
            th_standbyCount := 0, th_standbyCount_ms := 0, th_runningCount := 0, th_runningCount_ms := 0,
            th_readyCount := 0, th_readyCount_ms := 0, th_waitingCount := 0, th_waitingCount_ms := 0,
            th_blockedCount := 0, th_blockedCount_ms := 0, th_initial_jiffy := jiffies s, th_step := 0,
            th_initial_time_ms := 0, th_total_time_ms := 0, th_next := InitThread s\<rparr>
      in if th_state th1 = STANDBY then th1\<lparr>th_state := RUNNING\<rparr> else th1)"

text \<open>The end of the spawn routine: from the address space to \<open>iretq\<close> (lines 383 to 502).\<close>

definition spawn_release :: "ptr \<Rightarrow> kstate \<Rightarrow> unit kres" where
  "spawn_release target_thread s =
     bindR (IncrementDispatcherCount SELECT_INITIALIZED_COUNT s) (\<lambda>_ s1.
       let s2 = spawn_load_pml4_table (th_pml4_PA (theap s1 target_thread)) s1 in
       if spawn_is_eoi_needed s2 \<noteq> TRUE then Panic ''__spawn_thread_by_tid_imp: eoi_is_needed != TRUE''
       else if th_cpl (theap s2 target_thread) \<noteq> 3 then Panic ''__spawn_thread_by_tid_imp: Invalid cpl''
       else if th_cpl (theap s2 target_thread) = 0 then Panic ''__spawn_thread_by_tid_imp: RING0 not supported yet''
       else if th_cpl (theap s2 target_thread) = 3 then
         (let s3 = upd_thread target_thread (\<lambda>th. th\<lparr>th_to_user := th_to_user th + 1\<rparr>) s2 in
          bindR (spawn_enter_usermode TRUE (c_rip (th_context (theap s3 target_thread)))
              (c_rsp (th_context (theap s3 target_thread))) s3)
            (\<lambda>_ s4. Panic ''__spawn_thread_by_tid_imp: iretq fail''))
       else Panic ''__spawn_thread_by_tid_imp: iretq fail'')"

definition spawn_thread_by_tid_imp :: "int \<Rightarrow> kstate \<Rightarrow> unit kres" where
  "spawn_thread_by_tid_imp tid s =
     (let TargetTID = c_int (tid AND 0xFFFFFFFF) in
      if TargetTID < 0 \<or> TargetTID \<ge> THREAD_COUNT_MAX then Panic ''keDie''
      else let target_thread = threadList s TargetTID in
      if target_thread = NULL then Panic ''keDie''
      else if th_used (theap s target_thread) \<noteq> TRUE \<or> th_magic (theap s target_thread) \<noteq> 1234
      then Panic ''__spawn_thread_by_tid_imp: target_thread validation''
      else if th_tid (theap s target_thread) \<noteq> TargetTID
      then Panic ''__spawn_thread_by_tid_imp: target_thread->tid validation''
      else if th_state (theap s target_thread) \<noteq> STANDBY then Panic ''keDie''
      else if th_saved (theap s target_thread) = TRUE then Panic ''keDie''
      else let s1 = upd_thread target_thread (spawn_fields s) s;
               s2 = scheduler_unlock (set_taskswitch_status (word_of_int UNLOCKED) s1)
      in if th_state (theap s2 target_thread) \<noteq> RUNNING then Panic ''keDie''
      else if th_te (theap s2 target_thread) = NULL then Panic ''__spawn_thread_by_tid_imp: target_thread->te''
      else let cur_teid = th_tgid (theap s2 target_thread) in
      if cur_teid < 0 \<or> cur_teid \<ge> PROCESS_COUNT_MAX then Panic ''__spawn_thread_by_tid_imp: cur_teid''
      else let s3 = set_current_thread (th_tid (theap s2 target_thread)) (set_current_process cur_teid s2) in
      if current_thread s3 < 0 \<or> current_thread s3 \<ge> THREAD_COUNT_MAX
      then Panic ''__spawn_thread_by_tid_imp: current_thread''
      else spawn_release target_thread s3)"

definition psSpawnThreadByTID :: "int \<Rightarrow> kstate \<Rightarrow> unit kres" where
  "psSpawnThreadByTID tid s =
     (if tid < 0 \<or> tid \<ge> THREAD_COUNT_MAX then Panic ''keDie''
      else bindR (spawn_thread_by_tid_imp tid s) (\<lambda>_ s'. Panic ''psSpawnThreadByTID:''))"

section \<open>schedi.c: threads in standby\<close>

text \<open>The tid found by the loop: the first slot with a thread in standby.\<close>

definition find_standby :: "kstate \<Rightarrow> int option" where
  "find_standby s =
     (case filter (\<lambda>i. let t = threadList s i in t \<noteq> NULL \<and> th_used (theap s t) = TRUE \<and>
             th_magic (theap s t) = 1234 \<and> th_state (theap s t) = STANDBY) all_tids of
        [] \<Rightarrow> None
      | i # _ \<Rightarrow> Some (th_tid (theap s (threadList s i))))"

definition schedi_check_for_standby :: "kstate \<Rightarrow> unit kres" where
  "schedi_check_for_standby s =
     (case find_standby s of
        None \<Rightarrow> Ok () s
      | Some target_tid \<Rightarrow>
          if target_tid < 0 \<or> target_tid \<ge> THREAD_COUNT_MAX then Panic ''schedi_check_for_standby: fail''
          else if target_tid = INIT_TID then Panic ''schedi_check_for_standby: Can't spawn INIT_TID''
          else bindR (psSpawnThreadByTID target_tid (set_current_thread target_tid s))
            (\<lambda>_ s'. Panic ''schedi_check_for_standby: fail''))"

end
