(* ===== verification/Task_Switch.thy ===== *)
theory Task_Switch
  imports Scheduler Dispatch
begin

text \<open>
  \<open>disp/ts.c\<close>: the task switch that the timer interrupt runs, and the handler of that interrupt
  (\<open>hal/x86_64/pit.c\<close>). \<open>__task_switch\<close> is one C function with labels; each label is a
  definition here: \<open>ts_dispatch_current\<close>, \<open>ts_go_ahead\<close> and \<open>ts_zero_gravity\<close>. The jump
  back to the label ZeroGravity makes a loop whose termination depends on the state, so it is a
  \<open>partial_function\<close>: \<open>None\<close> is a loop that does not end. Routines of the timer interrupt
  outside the thread core (the window manager timer, the polled keyboard and mouse) are parameters.
\<close>

section \<open>End of the quantum\<close>

text \<open>\<open>core_shutdown\<close> stops the machine.\<close>

definition tsCry :: "u64 \<Rightarrow> kstate \<Rightarrow> unit kres" where
  "tsCry flags s = (if flags AND 0x8000 \<noteq> 0 then Panic ''core_shutdown'' else Ok () s)"

definition tsOnFinishedExecuting :: "ptr \<Rightarrow> kstate \<Rightarrow> unit kres" where
  "tsOnFinishedExecuting t s =
     (if t = NULL then Panic ''__tsOnFinishedExecuting: t''
      else if th_magic (theap s t) \<noteq> 1234 then Panic ''__tsOnFinishedExecuting: t magic''
      else let s1 = (if th_state (theap s t) = RUNNING
                     then upd_thread t (\<lambda>th. th\<lparr>th_state := READY, th_readyCount := 0\<rparr>) s else s)
      in bindR (schedi_check_for_standby s1) (\<lambda>_ s2.
        let s3 = s2\<lparr>extra := FALSE\<rparr>;
            s4 = (if extra s3 = TRUE then s3\<lparr>extra := FALSE\<rparr> else s3);
            s5 = (if dead_thread_collector_status s4 = TRUE then check_for_dead_thread_collector s4 else s4)
        in if th_tid (theap s5 t) = INIT_TID \<and> th_its_my_party (theap s5 t) = TRUE then tsCry 0 s5
           else Ok () s5))"

section \<open>Dispatching the current thread\<close>

text \<open>The counters and limits set before the dispatcher is called (lines 749 to 771).\<close>

definition ts_target_fields :: "thread_d \<Rightarrow> thread_d" where
  "ts_target_fields th =
     (let th1 = th\<lparr>th_standbyCount := 0, th_standbyCount_ms := 0, th_runningCount := 0, th_runningCount_ms := 0,
            th_readyCount := 0, th_readyCount_ms := 0, th_waitingCount := 0, th_waitingCount_ms := 0,
            th_blockedCount := 0, th_blockedCount_ms := 0\<rparr>;
          th2 = (if th_base_priority th1 > PRIORITY_MAX then th1\<lparr>th_base_priority := PRIORITY_MAX\<rparr> else th1);
          th3 = (if th_priority th2 > PRIORITY_MAX then th2\<lparr>th_priority := PRIORITY_MAX\<rparr> else th2)
      in if th_quantum th3 > QUANTUM_MAX then th3\<lparr>th_quantum := QUANTUM_MAX\<rparr> else th3)"

text \<open>The checks of the process of the released thread (lines 785 to 829).\<close>

definition ts_target_process :: "ptr \<Rightarrow> kstate \<Rightarrow> unit kres" where
  "ts_target_process TargetThread s =
     (let OwnerPID = th_tgid (theap s TargetThread) in
      if OwnerPID < 0 \<or> OwnerPID \<ge> THREAD_COUNT_MAX then Panic ''die''
      else let TargetProcess = teList s OwnerPID in
      if TargetProcess = NULL then Fault ''TargetProcess->name''
      else if te_used (pheap s TargetProcess) \<noteq> TRUE \<or> te_magic (pheap s TargetProcess) \<noteq> 1234 then Panic ''die''
      else if te_pid (pheap s TargetProcess) \<noteq> OwnerPID
      then Panic ''ts: TargetProcess->pid != targetthread_OwnerPID''
      else let s1 = set_current_process (te_pid (pheap s TargetProcess)) s in
      if te_pml4_PA (pheap s1 TargetProcess) = 0 then Panic ''die'' else Ok () s1)"

definition ts_dispatch_current :: "kstate \<Rightarrow> unit kres" where
  "ts_dispatch_current s =
     (if current_thread s < 0 \<or> current_thread s \<ge> THREAD_COUNT_MAX then Panic ''ts-dispatch_current: current_thread''
      else let t = threadList s (current_thread s) in
      if t = NULL then Panic ''ts-dispatch_current: TargetThread''
      else if th_used (theap s t) \<noteq> TRUE \<or> th_magic (theap s t) \<noteq> 1234 then Panic ''ts-dispatch_current: validation''
      else let TargetThread = (if th_state (theap s t) \<noteq> READY then InitThread s else t);
               s1 = (if th_state (theap s t) \<noteq> READY
                     then upd_thread (InitThread s) (\<lambda>th. th\<lparr>th_state := READY, th_next := NULL\<rparr>) s else s);
               s2 = upd_thread TargetThread ts_target_fields s1
      in bindR (IncrementDispatcherCount SELECT_DISPATCHER_COUNT s2) (\<lambda>_ s3.
         bindR (dispatcher 1 s3) (\<lambda>_ s4. ts_target_process TargetThread s4)))"

section \<open>Selecting the next thread\<close>

text \<open>
  A pass from the label ZeroGravity: \<open>Inl\<close> is the result of the task switch, \<open>Inr\<close> the state in
  which control jumps back to the label.
\<close>

definition ts_reschedule :: "(kstate \<Rightarrow> unit kres + kstate) \<Rightarrow> kstate \<Rightarrow> unit kres + kstate" where
  "ts_reschedule k s =
     (case psScheduler s of
        Ok tid s' \<Rightarrow> k (s'\<lparr>current_thread := tid\<rparr>)
      | Iretq s' \<Rightarrow> Inl (Iretq s')
      | Panic m \<Rightarrow> Inl (Panic m)
      | Fault m \<Rightarrow> Inl (Fault m))"

definition ts_go_ahead :: "kstate \<Rightarrow> unit kres + kstate" where
  "ts_go_ahead s =
     (let TargetThread = currentq s in
      if TargetThread = NULL then ts_reschedule Inr s
      else if th_used (theap s TargetThread) \<noteq> TRUE \<or> th_magic (theap s TargetThread) \<noteq> 1234
      then ts_reschedule Inr s
      else if th_state (theap s TargetThread) \<noteq> READY then ts_reschedule Inr s
      else Inl (ts_dispatch_current (s\<lparr>current_thread := th_tid (theap s TargetThread)\<rparr>)))"

text \<open>The event responder becomes a queue of one thread (lines 583 to 595).\<close>

definition ts_select_responder :: "kstate \<Rightarrow> kstate" where
  "ts_select_responder s =
     (let r = ev_responder_thread s;
          s1 = upd_thread r (\<lambda>th. th\<lparr>th_runningCount := 0, th_runningCount_ms := 0, th_quantum := QUANTUM_MAX,
                 th_priority := PRIORITY_MAX, th_state := READY, th_scheduledCount := th_scheduledCount th + 1,
                 th_has_pending_event := FALSE\<rparr>) s
      in upd_thread r (\<lambda>th. th\<lparr>th_next := NULL\<rparr>) (s1\<lparr>currentq := r\<rparr>))"

definition ts_pass :: "kstate \<Rightarrow> unit kres + kstate" where
  "ts_pass s =
     (if up_threads_counter (UPProcessorBlock s) = 0 then Inl (Panic ''ts: No threads'')
      else let (hasEvent, s1) = (if g_use_event_responder s = TRUE
                                 then has_pending_event (ev_responder_thread s) s else (FALSE, s)) in
      if hasEvent = TRUE then ts_go_ahead (ts_select_responder s1)
      else if currentq s1 = NULL then Inl (Fault ''currentq->next'')
      else if th_next (theap s1 (currentq s1)) \<noteq> NULL
      then ts_go_ahead (s1\<lparr>currentq := th_next (theap s1 (currentq s1))\<rparr>)
      else ts_reschedule (\<lambda>s2. Inl (ts_dispatch_current s2)) s1)"

partial_function (option) ts_zero_gravity :: "kstate \<Rightarrow> unit kres option" where
  "ts_zero_gravity s = (case ts_pass s of Inl r \<Rightarrow> Some r | Inr s' \<Rightarrow> ts_zero_gravity s')"

section \<open>The task switch\<close>

text \<open>The counting of a tick (lines 319 to 333).\<close>

definition ts_count_fields :: "thread_d \<Rightarrow> thread_d" where
  "ts_count_fields th =
     (let th1 = th\<lparr>th_step := th_step th + 1\<rparr>;
          th2 = th1\<lparr>th_total_time_ms := (th_step th1 * 1000) div JIFFY_FREQ\<rparr>;
          th3 = th2\<lparr>th_runningCount := th_runningCount th2 + 1\<rparr>
      in th3\<lparr>th_runningCount_ms := (th_runningCount th3 * 1000) div JIFFY_FREQ\<rparr>)"

text \<open>The thread still has quantum: yield and sleep requests (lines 426 to 446).\<close>

definition ts_in_quantum :: "ptr \<Rightarrow> kstate \<Rightarrow> kstate" where
  "ts_in_quantum t s =
     (let s1 = (if th_state (theap s t) = RUNNING \<and> yield_in_progress (th_Deferred (theap s t)) = TRUE
                then upd_thread t (\<lambda>th. th\<lparr>th_runningCount := th_quantum th,
                       th_Deferred := (th_Deferred th)\<lparr>yield_in_progress := FALSE\<rparr>\<rparr>) s else s)
      in if th_state (theap s1 t) = RUNNING \<and> sleep_in_progress (th_Deferred (theap s1 t)) = TRUE
         then let s2 = upd_thread t (\<lambda>th. th\<lparr>th_runningCount := th_quantum th\<rparr>) s1;
                  s3 = sleep_until (th_tid (theap s2 t)) (desired_sleep_ms (th_Deferred (theap s2 t))) s2
              in upd_thread t (\<lambda>th. th\<lparr>th_Deferred := (th_Deferred th)\<lparr>sleep_in_progress := FALSE\<rparr>\<rparr>) s3
         else s1)"

text \<open>The validation of the current thread and its process (lines 276 to 313).\<close>

definition ts_current :: "kstate \<Rightarrow> ptr kres" where
  "ts_current s =
     (if current_thread s < 0 \<or> current_thread s \<ge> THREAD_COUNT_MAX then Panic ''ts: current_thread''
      else let t = threadList s (current_thread s) in
      if t = NULL then Panic ''ts: CurrentThread''
      else if th_used (theap s t) \<noteq> TRUE \<or> th_magic (theap s t) \<noteq> 1234 then Panic ''ts: CurrentThread validation''
      else let te_id = th_tgid (theap s t) in
      if te_id < 0 \<or> te_id \<ge> PROCESS_COUNT_MAX then Panic ''ts: te_id''
      else let CurrentProcess = teList s te_id in
      if CurrentProcess = NULL then Panic ''ts: CurrentProcess''
      else if te_used (pheap s CurrentProcess) \<noteq> TRUE \<or> te_magic (pheap s CurrentProcess) \<noteq> 1234
      then Panic ''ts: CurrentProcess validation''
      else if te_pid (pheap s CurrentProcess) \<noteq> te_id then Panic ''ts: CurrentProcess->pid != te_id''
      else Ok t (set_current_process te_id s))"

text \<open>\<open>None\<close>: the loop at ZeroGravity does not end.\<close>

definition task_switch :: "kstate \<Rightarrow> unit kres option" where
  "task_switch s =
     (case ts_current s of
        Ok CurrentThread s0 \<Rightarrow>
          (let s1 = upd_thread CurrentThread ts_count_fields s0 in
           if task_switch_status s1 = word_of_int LOCKED then Some (IncrementDispatcherCount SELECT_CURRENT_COUNT s1)
           else if task_switch_status s1 \<noteq> word_of_int UNLOCKED then Some (Panic ''ts: task_switch_status != UNLOCKED'')
           else if th_callback_in_progress (theap s1 CurrentThread) = TRUE
           then Some (Panic ''ts: Cant save context. Callback in progress'')
           else case save_current_context s1 of
             Ok _ s2 \<Rightarrow>
               (let s3 = upd_thread CurrentThread (\<lambda>th. th\<lparr>th_saved := TRUE\<rparr>) s2;
                    th = theap s3 CurrentThread
                in if th_runningCount th < th_quantum th
                   then Some (IncrementDispatcherCount SELECT_CURRENT_COUNT (ts_in_quantum CurrentThread s3))
                   else if th_runningCount th \<ge> th_quantum th then
                     (case tsOnFinishedExecuting CurrentThread s3 of
                        Ok _ s4 \<Rightarrow> ts_zero_gravity s4
                      | Iretq s4 \<Rightarrow> Some (Iretq s4)
                      | Panic m \<Rightarrow> Some (Panic m)
                      | Fault m \<Rightarrow> Some (Fault m))
                   else Some (Panic ''ts: CurrentThread->runningCount''))
           | Iretq s2 \<Rightarrow> Some (Iretq s2)
           | Panic m \<Rightarrow> Some (Panic m)
           | Fault m \<Rightarrow> Some (Fault m))
      | Iretq s0 \<Rightarrow> Some (Iretq s0)
      | Panic m \<Rightarrow> Some (Panic m)
      | Fault m \<Rightarrow> Some (Fault m))"

text \<open>Delivery of a callback to an alertable thread (lines 950 to 967).\<close>

definition ts_callback :: "kstate \<Rightarrow> unit kres" where
  "ts_callback s =
     (if current_thread s < 0 \<or> current_thread s \<ge> THREAD_COUNT_MAX then Panic ''die''
      else let t = threadList s (current_thread s) in
      if t = NULL then Fault ''t->is_alertable''
      else if th_is_alertable (theap s t) = TRUE then
        (let s1 = upd_thread t (\<lambda>th. th\<lparr>th_is_alertable := FALSE\<rparr>) s;
             s2 = s1\<lparr>asmflagDoCallbackAfterCR3 := 0x1234 AND 0xFFFF,
                     ring3_callback_address := th_cb_r3_address (theap s1 t)\<rparr>
         in Ok () (upd_thread t (\<lambda>th. th\<lparr>th_callback_in_progress := TRUE\<rparr>) s2))
      else Ok () s)"

definition tsTaskSwitch :: "kstate \<Rightarrow> unit kres option" where
  "tsTaskSwitch s =
     (let pid = get_current_process s in
      if pid < 0 \<or> pid \<ge> PROCESS_COUNT_MAX then Some (Panic ''die'')
      else if current_thread s < 0 \<or> current_thread s \<ge> THREAD_COUNT_MAX then Some (Panic ''die'')
      else map_option (\<lambda>r. bindR r (\<lambda>_ s1. ts_callback s1)) (task_switch s))"

definition init_ts :: "kstate \<Rightarrow> int \<times> kstate" where
  "init_ts s = (0, taskswitch_lock s)"

section \<open>The timer interrupt\<close>

text \<open>
  \<open>initialized\<close> is \<open>PITInfo.initialized\<close>, \<open>wmTimerEvent\<close> the window manager timer;
  \<open>polled\<close> stands for the keyboard and mouse handlers when they are configured for polling.
\<close>

definition DeviceInterface_PIT :: "bool \<Rightarrow> (kstate \<Rightarrow> unit kres) \<Rightarrow> kstate \<Rightarrow> unit kres" where
  "DeviceInterface_PIT initialized wmTimerEvent s =
     (if \<not> initialized then Ok () s else wmTimerEvent (s\<lparr>jiffies := jiffies s + 1\<rparr>))"

definition irq0_TIMER :: "bool \<Rightarrow> (kstate \<Rightarrow> unit kres) \<Rightarrow> (kstate \<Rightarrow> unit kres) \<Rightarrow> kstate \<Rightarrow> unit kres option" where
  "irq0_TIMER initialized wmTimerEvent polled s =
     (case bindR (DeviceInterface_PIT initialized wmTimerEvent s) (\<lambda>_. polled) of
        Ok _ s1 \<Rightarrow> map_option (\<lambda>r. bindR r (\<lambda>_ s2. Ok () (spawn_reset_eoi_state s2)))
                     (tsTaskSwitch (spawn_set_eoi_state s1))
      | Iretq s1 \<Rightarrow> Some (Iretq s1)
      | Panic m \<Rightarrow> Some (Panic m)
      | Fault m \<Rightarrow> Some (Fault m))"

end
