(* ===== verification/Task_Switch_Laws.thy ===== *)
theory Task_Switch_Laws
  imports Task_Switch
begin

text \<open>
  What a timer tick does. \<open>run_ok\<close> is the invariant of a running system: the kernel invariant, a
  usable scheduler, a valid current thread, and threads in standby that the spawn routine accepts.
  The theory shows that from such a state the loop at ZeroGravity ends, that a tick never stops the
  machine, which thread it releases and with which registers, and that the invariant holds again
  afterwards. The last section shows the cases that the code does not serve.
\<close>

section \<open>Releasing a thread\<close>

definition counters_ok :: "kstate \<Rightarrow> bool" where
  "counters_ok s \<longleftrightarrow> (case DispatchCountBlock s of None \<Rightarrow> False | Some b \<Rightarrow> dc_magic b = 1234)"

definition ts_ok :: "kstate \<Rightarrow> bool" where
  "ts_ok s \<longleftrightarrow> sched_ok s \<and> counters_ok s"

lemma IncrementDispatcherCount_ok:
  assumes "counters_ok s" and "0 \<le> type"
  obtains b where "IncrementDispatcherCount type s = Ok () (s\<lparr>DispatchCountBlock := Some b\<rparr>)" and "dc_magic b = 1234"
proof -
  obtain b where b: "DispatchCountBlock s = Some b" "dc_magic b = 1234"
    using assms(1) by (auto simp: counters_ok_def split: option.splits)
  have "dc_magic (count_selection type b) = 1234" using b(2) by (simp add: count_selection_def)
  with that [of "count_selection type b"] b assms(2) show ?thesis by (simp add: IncrementDispatcherCount_def)
qed

lemma kinv_CurrentThread [simp]:
  "kinv (s\<lparr>UPProcessorBlock := (UPProcessorBlock s)\<lparr>up_CurrentThread := t\<rparr>\<rparr>) = kinv s"
  by (rule kinv_cong) simp_all

text \<open>The assignments of the task switch and the dispatcher to the thread that is released.\<close>

definition made_ready :: "thread_d \<Rightarrow> thread_d" where
  "made_ready th = (if th_state th \<noteq> READY then th\<lparr>th_state := READY, th_next := NULL\<rparr> else th)"

definition released :: "thread_d \<Rightarrow> thread_d" where
  "released th = (let th1 = (dispatch_fields (ts_target_fields (made_ready th)))\<lparr>th_saved := FALSE\<rparr>
     in th1\<lparr>th_to_user := th_to_user th1 + 1\<rparr>)"

lemma word_not_0: "x \<noteq> 0 \<Longrightarrow> (1 :: u64) \<le> x"
  by (simp add: word_le_nat_alt Suc_le_eq unat_gt_0)

lemma target_fields_sel [simp]:
  "th_state (ts_target_fields th) = th_state th" "th_context (ts_target_fields th) = th_context th"
  "th_pml4_PA (ts_target_fields th) = th_pml4_PA th" "th_te (ts_target_fields th) = th_te th"
  "th_Deferred (ts_target_fields th) = th_Deferred th" "th_is_alertable (ts_target_fields th) = th_is_alertable th" "th_cpl (ts_target_fields th) = th_cpl th"
  "th_callback_in_progress (ts_target_fields th) = th_callback_in_progress th"
  "th_quantum (ts_target_fields th) = min 6 (th_quantum th)" "th_keeps th (ts_target_fields th)"
  by (simp_all add: ts_target_fields_def Let_def th_keeps_def min_def less_imp_le)

lemma dispatch_fields_sel [simp]:
  "th_state th = READY \<Longrightarrow> th_state (dispatch_fields th) = RUNNING" "th_context (dispatch_fields th) = th_context th"
  "th_pml4_PA (dispatch_fields th) = th_pml4_PA th" "th_te (dispatch_fields th) = th_te th"
  "th_Deferred (dispatch_fields th) = th_Deferred th" "th_is_alertable (dispatch_fields th) = th_is_alertable th" "th_cpl (dispatch_fields th) = th_cpl th"
  "th_callback_in_progress (dispatch_fields th) = th_callback_in_progress th"
  "th_state th = READY \<Longrightarrow> th_runningCount (dispatch_fields th) = 0"
  "th_quantum (dispatch_fields th) = max 1 (th_quantum th)" "th_keeps th (dispatch_fields th)"
  by (simp_all add: dispatch_fields_def Let_def th_keeps_def max_def word_not_0)

lemma made_ready_sel [simp]:
  "th_state (made_ready th) = READY" "th_context (made_ready th) = th_context th"
  "th_pml4_PA (made_ready th) = th_pml4_PA th" "th_te (made_ready th) = th_te th"
  "th_Deferred (made_ready th) = th_Deferred th" "th_is_alertable (made_ready th) = th_is_alertable th" "th_cpl (made_ready th) = th_cpl th"
  "th_callback_in_progress (made_ready th) = th_callback_in_progress th" "th_keeps th (made_ready th)"
  by (simp_all add: made_ready_def th_keeps_def)

lemma th_keeps_trans: "th_keeps a b \<Longrightarrow> th_keeps b c \<Longrightarrow> th_keeps a c"
  by (simp add: th_keeps_def)

lemma dispatch_keeps: "th_keeps th (dispatch_fields (ts_target_fields (made_ready th)))"
  by (rule th_keeps_trans [OF th_keeps_trans [OF made_ready_sel(9) target_fields_sel(10)] dispatch_fields_sel(11)])

lemma released_keeps [simp]: "th_keeps th (released th)"
  by (rule th_keeps_trans [OF dispatch_keeps]) (simp add: released_def Let_def th_keeps_def)

lemma released_sel [simp]:
  "th_state (released th) = RUNNING" "th_saved (released th) = FALSE" "th_context (released th) = th_context th"
  "th_pml4_PA (released th) = th_pml4_PA th" "th_te (released th) = th_te th" "th_cpl (released th) = th_cpl th"
  "th_Deferred (released th) = th_Deferred th" "th_is_alertable (released th) = th_is_alertable th" "th_runningCount (released th) = 0"
  "th_callback_in_progress (released th) = th_callback_in_progress th"
  by (simp_all add: released_def Let_def)

lemma released_id [simp]:
  "th_tid (released th) = th_tid th" "th_tgid (released th) = th_tgid th" "th_used (released th) = th_used th"
  "th_magic (released th) = th_magic th"
  using released_keeps [of th] by (simp_all add: th_keeps_def)

lemma released_quantum: "1 \<le> th_quantum (released th) \<and> th_quantum (released th) \<le> 6"
  by (simp add: released_def Let_def)

lemma dispatch_current_ok:
  assumes ts: "ts_ok s" and v: "valid_tid s (current_thread s)" and t: "t = threadList s (current_thread s)"
    and r: "th_state (theap s t) = READY \<or> current_thread s = INIT_TID"
  obtains b where "dc_magic b = 1234"
    and "ts_dispatch_current s = Ok () ((upd_thread t released s)\<lparr>DispatchCountBlock := Some b,
      UPProcessorBlock := (UPProcessorBlock s)\<lparr>up_CurrentThread := t\<rparr>,
      frame := context_to_frame (th_context (theap s t)) (frame s), cr3 := th_pml4_PA (theap s t),
      current_pid := th_tgid (theap s t)\<rparr>)"
proof -
  have k: "kinv s" and c: "counters_ok s" using ts by (simp_all add: ts_ok_def sched_ok_def)
  note vt = valid_tidD [OF v, folded t]
  have lt: "live s t" using v t by (simp add: valid_tid_def)
  note te = kinv_te [OF k lt]
  have target: "(if th_state (theap s t) \<noteq> READY then InitThread s else t) = t"
    using r t kinv_InitThread(4) [OF k] by auto
  define s2 where "s2 = upd_thread t (\<lambda>th. ts_target_fields (made_ready th)) s"
  have c2: "counters_ok s2" using c by (simp add: s2_def counters_ok_def)
  obtain b where b: "IncrementDispatcherCount SELECT_DISPATCHER_COUNT s2 = Ok () (s2\<lparr>DispatchCountBlock := Some b\<rparr>)"
    "dc_magic b = 1234" using IncrementDispatcherCount_ok [OF c2] by (metis zero_le_numeral)
  have e: "ts_dispatch_current s = bindR (dispatcher 1 (s2\<lparr>DispatchCountBlock := Some b\<rparr>)) (\<lambda>_. ts_target_process t)"
  proof (cases "th_state (theap s t) = READY")
    case True
    then show ?thesis using vt b(1)
      by (simp add: ts_dispatch_current_def Let_def s2_def made_ready_def upd_thread_def flip: t)
  next
    case False
    then have "InitThread s = t" using target by simp
    with False show ?thesis using vt b(1)
      by (simp add: ts_dispatch_current_def Let_def s2_def made_ready_def upd_thread_def flip: t)
  qed
  have st: "th_magic (ts_target_fields (made_ready th)) = th_magic th" for th
    using th_keeps_trans [OF made_ready_sel(9) target_fields_sel(10)] by (simp add: th_keeps_def)
  define s3 where "s3 = upd_thread t (\<lambda>th. (dispatch_fields (ts_target_fields (made_ready th)))\<lparr>th_saved := FALSE\<rparr>)
      (s\<lparr>DispatchCountBlock := Some b, UPProcessorBlock := (UPProcessorBlock s)\<lparr>up_CurrentThread := t\<rparr>\<rparr>)"
  have d: "dispatcher 1 (s2\<lparr>DispatchCountBlock := Some b\<rparr>) = restore_current_context s3"
    using vt st by (simp add: dispatcher_def Let_def s2_def s3_def upd_thread_def flip: t)
  have keep: "th_used (dispatch_fields (ts_target_fields (made_ready th))) = th_used th"
    "th_magic (dispatch_fields (ts_target_fields (made_ready th))) = th_magic th"
    for th using dispatch_keeps [of th] by (simp_all add: th_keeps_def)
  have v3: "valid_tid s3 (current_thread s3)" "threadList s3 (current_thread s3) = t" "th_cpl (theap s3 t) = 3"
    using v t te by (simp_all add: s3_def valid_tid_def live_def keep)
  define s5 where "s5 = (upd_thread t released s)\<lparr>DispatchCountBlock := Some b,
      UPProcessorBlock := (UPProcessorBlock s)\<lparr>up_CurrentThread := t\<rparr>,
      frame := context_to_frame (th_context (theap s t)) (frame s), cr3 := th_pml4_PA (theap s t)\<rparr>"
  have s5: "restore_current_context s3 = Ok () s5"
    using restore_valid [OF v3(1)] v3(2,3)
    by (simp add: s5_def s3_def keep upd_thread_def released_def Let_def)
  have "ts_target_process t s5 = Ok () (s5\<lparr>current_pid := th_tgid (theap s t)\<rparr>)"
    using te by (simp add: ts_target_process_def Let_def s5_def te_valid_def set_current_process_def
        THREAD_COUNT_MAX_def PROCESS_COUNT_MAX_def)
  with e d s5 b(2) that [of b] show ?thesis by (simp add: s5_def)
qed

section \<open>The loop at ZeroGravity\<close>

text \<open>
  \<open>prep s u\<close>: what the selection of the next thread may change on the way from \<open>s\<close> to \<open>u\<close>:
  no registers, no standby thread appears, no structure is revived.
\<close>

definition prep :: "kstate \<Rightarrow> kstate \<Rightarrow> bool" where
  "prep s u \<longleftrightarrow> ts_ok u \<and> threadList u = threadList s \<and> InitThread u = InitThread s \<and> currentq u \<noteq> NULL \<and>
     task_switch_status u = task_switch_status s \<and> frame u = frame s \<and>
     spawn_eoi_is_necessary u = spawn_eoi_is_necessary s \<and> (\<forall>p. th_same (theap s p) (theap u p)) \<and>
     (\<forall>p x. x \<in> {STANDBY, WAITING} \<longrightarrow> state_after u p = Some x \<longrightarrow> state_after s p = Some x)"

text \<open>
  \<open>released_to s s'\<close>: the task switch released the current thread of \<open>s'\<close>: it is valid and
  RUNNING with a fresh quantum, the registers and the page table are those saved for it in \<open>s\<close>, and
  nothing else that the next tick relies on has changed.
\<close>

definition released_to :: "kstate \<Rightarrow> kstate \<Rightarrow> bool" where
  "released_to s s' \<longleftrightarrow> (let t = threadList s' (current_thread s') in
     ts_ok s' \<and> valid_tid s' (current_thread s') \<and> th_state (theap s' t) = RUNNING \<and> th_saved (theap s' t) = FALSE \<and>
     th_runningCount (theap s' t) = 0 \<and> 1 \<le> th_quantum (theap s' t) \<and> th_quantum (theap s' t) \<le> 6 \<and>
     frame s' = context_to_frame (th_context (theap s t)) (frame s) \<and> cr3 s' = th_pml4_PA (theap s t) \<and>
     up_CurrentThread (UPProcessorBlock s') = t \<and> current_pid s' = th_tgid (theap s' t) \<and>
     threadList s' = threadList s \<and> InitThread s' = InitThread s \<and> currentq s' \<noteq> NULL \<and>
     task_switch_status s' = task_switch_status s \<and> spawn_eoi_is_necessary s' = spawn_eoi_is_necessary s \<and>
     (\<forall>p. th_same (theap s p) ((theap s' p)\<lparr>th_saved := th_saved (theap s p)\<rparr>)) \<and>
     (\<forall>p. p \<noteq> t \<longrightarrow> th_saved (theap s' p) = th_saved (theap s p)) \<and>
     (\<forall>p x. x \<in> {STANDBY, WAITING} \<longrightarrow> state_after s' p = Some x \<longrightarrow> state_after s p = Some x))"

lemma state_after_irrelevant [simp]:
  "state_after (s\<lparr>current_thread := tid\<rparr>) p = state_after s p" "state_after (s\<lparr>currentq := q\<rparr>) p = state_after s p"
  by (simp_all add: state_after_def live_def)

lemma ts_okD: "ts_ok s \<Longrightarrow> sched_ok s" "ts_ok s \<Longrightarrow> counters_ok s" "ts_ok s \<Longrightarrow> kinv s"
  "ts_ok s \<Longrightarrow> up_threads_counter (UPProcessorBlock s) \<noteq> 0"
  by (simp_all add: ts_ok_def sched_ok_def)

lemma prep_refl: "ts_ok s \<Longrightarrow> currentq s \<noteq> NULL \<Longrightarrow> prep s s"
  by (simp add: prep_def)

lemma prep_trans: "prep s t \<Longrightarrow> prep t u \<Longrightarrow> prep s u"
  by (auto simp: prep_def th_same_def)

lemma prep_upd:
  assumes "ts_ok s" and "th_keeps (theap s p) (f (theap s p))" and "th_same (theap s p) (f (theap s p))"
    and "th_state (f (theap s p)) \<in> {th_state (theap s p), READY}" and "q \<noteq> NULL"
  shows "prep s (upd_thread p f (s\<lparr>currentq := q\<rparr>))"
proof -
  have "kinv (upd_thread p f (s\<lparr>currentq := q\<rparr>))" using assms(1,2) by (simp add: kinv_upd_thread ts_okD)
  then have "ts_ok (upd_thread p f (s\<lparr>currentq := q\<rparr>))"
    using assms(1) by (simp add: ts_ok_def sched_ok_def counters_ok_def)
  moreover have "state_after s r = Some x"
    if "x \<in> {STANDBY, WAITING}" "state_after (upd_thread p f (s\<lparr>currentq := q\<rparr>)) r = Some x" for r x
    using assms(2,4) that by (auto simp: state_after_def live_def th_keeps_def split: if_splits)
  ultimately show ?thesis using assms(3,5) by (simp add: prep_def)
qed

lemma prep_round:
  assumes "ts_ok s" and "round_ok s u"
  shows "prep s u"
proof -
  have "InitThread s \<noteq> NULL" using live_not_NULL [OF kinv_InitThread(1) [OF ts_okD(3) [OF assms(1)]]] .
  with assms show ?thesis by (simp add: prep_def round_ok_def ts_ok_def counters_ok_def same_core_def)
qed

lemma dispatch_prep:
  assumes p: "prep s u" and v: "valid_tid u tid"
    and r: "th_state (theap u (threadList u tid)) = READY \<or> tid = INIT_TID"
  shows "\<exists>s'. ts_dispatch_current (u\<lparr>current_thread := tid\<rparr>) = Ok () s' \<and> released_to s s'"
proof -
  let ?t = "threadList u tid" and ?u = "u\<lparr>current_thread := tid\<rparr>"
  have tu: "ts_ok u" using p by (simp add: prep_def)
  then have ts: "ts_ok ?u" by (simp add: ts_ok_def sched_ok_def counters_ok_def)
  have vu: "valid_tid ?u (current_thread ?u)" using v by (simp add: valid_tid_def live_def)
  obtain b where b: "dc_magic b = 1234" and e: "ts_dispatch_current ?u = Ok () ((upd_thread ?t released ?u)\<lparr>
      DispatchCountBlock := Some b, UPProcessorBlock := (UPProcessorBlock u)\<lparr>up_CurrentThread := ?t\<rparr>,
      frame := context_to_frame (th_context (theap u ?t)) (frame u), cr3 := th_pml4_PA (theap u ?t),
      current_pid := th_tgid (theap u ?t)\<rparr>)"
    using dispatch_current_ok [OF ts vu refl] r by auto
  let ?v = "(upd_thread ?t released ?u)\<lparr>
      DispatchCountBlock := Some b, UPProcessorBlock := (UPProcessorBlock u)\<lparr>up_CurrentThread := ?t\<rparr>,
      frame := context_to_frame (th_context (theap u ?t)) (frame u), cr3 := th_pml4_PA (theap u ?t),
      current_pid := th_tgid (theap u ?t)\<rparr>"
  have k: "kinv ?v"
  proof -
    have "kinv (upd_thread ?t released ?u)" using ts_okD(3) [OF ts] by (rule kinv_upd_thread) simp
    moreover have "kinv ?v = kinv (upd_thread ?t released ?u)" by (rule kinv_cong) simp_all
    ultimately show ?thesis by simp
  qed
  have "ts_ok ?v" using ts k b by (simp add: ts_ok_def sched_ok_def counters_ok_def)
  moreover have "valid_tid ?v tid" using v by (simp add: valid_tid_def live_def)
  moreover have "state_after u p = Some x" if "x \<in> {STANDBY, WAITING}" "state_after ?v p = Some x" for p x
    using that by (auto simp: state_after_def live_def split: if_splits)
  moreover have "th_same (theap s p) ((theap ?v p)\<lparr>th_saved := th_saved (theap s p)\<rparr>)" for p
    using p by (auto simp: prep_def th_same_def)
  ultimately have "released_to s ?v"
    using p released_quantum by (auto simp: released_to_def Let_def prep_def th_same_def)
  with e show ?thesis by blast
qed

text \<open>A state in which a new round has just been built.\<close>

definition fresh_round :: "kstate \<Rightarrow> bool" where
  "fresh_round s \<longleftrightarrow> currentq s = InitThread s \<and> (th_next (theap s (InitThread s)) \<noteq> NULL \<longrightarrow>
     state_after s (th_next (theap s (InitThread s))) = Some READY)"

lemma go_ahead_ready:
  assumes p: "prep s u" and r: "state_after u (currentq u) = Some READY"
  shows "\<exists>s'. ts_go_ahead u = Inl (Ok () s') \<and> released_to s s'"
proof -
  let ?t = "currentq u"
  have l: "live u ?t" "th_state (theap u ?t) = READY"
    using r by (auto simp: state_after_def split: if_splits)
  have slot: "tid_in_range (th_tid (theap u ?t)) \<and> threadList u (th_tid (theap u ?t)) = ?t"
    using p kinv_live_slot [OF ts_okD(3) l(1)] by (simp add: prep_def)
  then have v: "valid_tid u (th_tid (theap u ?t))" using l(1) by (simp add: valid_tid_def)
  obtain s' where "ts_dispatch_current (u\<lparr>current_thread := th_tid (theap u ?t)\<rparr>) = Ok () s'" "released_to s s'"
    using dispatch_prep [OF p v] slot l(2) by auto
  with l show ?thesis by (auto simp: ts_go_ahead_def Let_def live_def)
qed

lemma go_ahead_stale:
  assumes p: "prep s u" and "state_after u (currentq u) \<noteq> Some READY"
  shows "\<exists>s'. ts_go_ahead u = Inr s' \<and> prep s s' \<and> fresh_round s'"
proof -
  have tu: "ts_ok u" using p by (simp add: prep_def)
  obtain v where v: "psScheduler u = Ok INIT_TID v" "round_ok u v"
    using psScheduler_total [OF ts_okD(1) [OF tu]] by blast
  have "prep u v" by (rule prep_round [OF tu v(2)])
  then have "prep u (v\<lparr>current_thread := INIT_TID\<rparr>)"
    by (simp add: prep_def ts_ok_def sched_ok_def counters_ok_def)
  moreover have "fresh_round (v\<lparr>current_thread := INIT_TID\<rparr>)"
    using v(2) by (simp add: fresh_round_def round_ok_def)
  moreover have "ts_go_ahead u = Inr (v\<lparr>current_thread := INIT_TID\<rparr>)"
    using assms(2) v(1)
    by (auto simp: ts_go_ahead_def Let_def ts_reschedule_def state_after_def live_def split: if_splits)
  ultimately show ?thesis using prep_trans [OF p] by blast
qed

lemma reschedule_dispatch:
  assumes p: "prep s u"
  shows "\<exists>s'. ts_reschedule (\<lambda>v. Inl (ts_dispatch_current v)) u = Inl (Ok () s') \<and> released_to s s'"
proof -
  have tu: "ts_ok u" using p by (simp add: prep_def)
  obtain v where v: "psScheduler u = Ok INIT_TID v" "round_ok u v"
    using psScheduler_total [OF ts_okD(1) [OF tu]] by blast
  have pv: "prep s v" by (rule prep_trans [OF p prep_round [OF tu v(2)]])
  then have "valid_tid v INIT_TID" using kinv_InitThread(5) [OF ts_okD(3)] by (simp add: prep_def)
  with dispatch_prep [OF pv] v(1) show ?thesis by (auto simp: ts_reschedule_def)
qed

text \<open>The test for a pending event keeps the queue and every state.\<close>

lemma pending_event_prep:
  assumes ts: "ts_ok s" and q: "currentq s \<noteq> NULL"
    and e: "(if g_use_event_responder s = TRUE then has_pending_event (ev_responder_thread s) s else (FALSE, s)) = (b, u)"
  shows "prep s u" and "currentq u = currentq s" and "th_next (theap u x) = th_next (theap s x)"
    and "state_after u x = state_after s x" and "b = TRUE \<Longrightarrow> u = s \<and> live s (ev_responder_thread s)"
proof -
  have "u = s \<or> u = upd_thread (ev_responder_thread s) (\<lambda>th. th\<lparr>th_has_pending_event := FALSE\<rparr>) s"
    and "b = TRUE \<Longrightarrow> u = s \<and> live s (ev_responder_thread s)"
    using e by (auto simp: has_pending_event_cases split: if_splits)
  then show "currentq u = currentq s" "th_next (theap u x) = th_next (theap s x)"
    "state_after u x = state_after s x" "b = TRUE \<Longrightarrow> u = s \<and> live s (ev_responder_thread s)"
    by (elim disjE; simp add: state_after_def live_def)+
  have "s\<lparr>currentq := currentq s\<rparr> = s" by simp
  then have "prep s (upd_thread (ev_responder_thread s) (\<lambda>th. th\<lparr>th_has_pending_event := FALSE\<rparr>) s)"
    using prep_upd [OF ts, of "ev_responder_thread s" "\<lambda>th. th\<lparr>th_has_pending_event := FALSE\<rparr>" "currentq s"] q
    by (simp add: th_keeps_def th_same_def)
  with \<open>u = s \<or> _\<close> prep_refl [OF ts q] show "prep s u" by auto
qed

lemma select_responder_prep:
  assumes "ts_ok s" and "live s (ev_responder_thread s)"
  shows "prep s (ts_select_responder s)" and "state_after (ts_select_responder s) (currentq (ts_select_responder s)) = Some READY"
proof -
  let ?r = "ev_responder_thread s"
  let ?f = "\<lambda>th. th\<lparr>th_runningCount := 0, th_runningCount_ms := 0, th_quantum := QUANTUM_MAX,
      th_priority := PRIORITY_MAX, th_state := READY, th_scheduledCount := th_scheduledCount th + 1,
      th_has_pending_event := FALSE, th_next := NULL\<rparr>"
  have e: "ts_select_responder s = upd_thread ?r ?f (s\<lparr>currentq := ?r\<rparr>)"
    by (simp add: ts_select_responder_def Let_def upd_thread_def)
  show "prep s (ts_select_responder s)"
    unfolding e using live_not_NULL [OF assms(2)]
    by (intro prep_upd [OF assms(1)]) (simp_all add: th_keeps_def th_same_def)
  show "state_after (ts_select_responder s) (currentq (ts_select_responder s)) = Some READY"
    using assms(2) by (simp add: e state_after_def live_def)
qed

lemma ts_pass_cases:
  assumes ts: "ts_ok s" and q: "currentq s \<noteq> NULL"
  shows "(\<exists>s'. ts_pass s = Inl (Ok () s') \<and> released_to s s') \<or>
    \<not> fresh_round s \<and> (\<exists>s'. ts_pass s = Inr s' \<and> prep s s' \<and> fresh_round s')"
proof -
  obtain b u where e: "(if g_use_event_responder s = TRUE then has_pending_event (ev_responder_thread s) s
      else (FALSE, s)) = (b, u)" by force
  note pe = pending_event_prep [OF ts q e]
  note sel = select_responder_prep [OF ts]
  show ?thesis
  proof (cases "b = TRUE")
    case True
    with go_ahead_ready [OF sel(1) sel(2)] pe(5) show ?thesis
      by (auto simp: ts_pass_def Let_def e ts_okD(4) [OF ts])
  next
    case b: False
    let ?n = "th_next (theap s (currentq s))" and ?u = "u\<lparr>currentq := th_next (theap s (currentq s))\<rparr>"
    show ?thesis
    proof (cases "?n = NULL")
      case True
      with b reschedule_dispatch [OF pe(1)] pe(2,3) q show ?thesis
        by (auto simp: ts_pass_def Let_def e ts_okD(4) [OF ts])
    next
      case False
      have p: "prep s ?u"
        using pe(1) False by (simp add: prep_def ts_ok_def sched_ok_def counters_ok_def)
      have "ts_pass s = ts_go_ahead ?u"
        using b False pe(2,3) q by (simp add: ts_pass_def Let_def e ts_okD(4) [OF ts])
      moreover have st: "state_after ?u ?n = state_after s ?n"
        using pe(4) [of ?n] by simp
      ultimately show ?thesis
        using go_ahead_ready [OF p] go_ahead_stale [OF p] False by (auto simp: fresh_round_def)
    qed
  qed
qed

text \<open>The loop ends after at most two passes.\<close>

lemma zero_gravity_total:
  assumes ts: "ts_ok s" and q: "currentq s \<noteq> NULL"
  shows "\<exists>s'. ts_zero_gravity s = Some (Ok () s') \<and> released_to s s'"
proof -
  consider s' where "ts_pass s = Inl (Ok () s')" "released_to s s'"
    | u where "ts_pass s = Inr u" "prep s u" "fresh_round u"
    using ts_pass_cases [OF ts q] by blast
  then show ?thesis
  proof cases
    case 1
    then show ?thesis by (subst ts_zero_gravity.simps) simp
  next
    case (2 u)
    then have "ts_ok u" "currentq u \<noteq> NULL" by (simp_all add: prep_def)
    with ts_pass_cases [of u] 2(3) obtain s' where "ts_pass u = Inl (Ok () s')" "released_to u s'" by blast
    moreover have "released_to s s'"
      using 2(2) calculation(2) by (auto simp: released_to_def prep_def Let_def th_same_def)
    ultimately show ?thesis using 2(1) by (subst ts_zero_gravity.simps) (simp add: ts_zero_gravity.simps)
  qed
qed

end
