(* ===== verification/Ipc_Mailbox.thy ===== *)
theory Ipc_Mailbox
  imports Ipc
begin

text \<open>
  The message queues of \<open>ipc.c\<close> as mailboxes. The first part shows that the steps of the posting
  routines keep the kernel invariant, never panic on a valid receiver, and what they change. The
  locale \<open>mailbox\<close> is the abstract specification of a circular queue whose reader polls slot by
  slot; \<open>drain\<close> and \<open>fifo\<close> are proved from its laws, and the interpretation \<open>mb\<close>
  discharges the laws for \<open>ipc_post_message_to_tid2\<close> and \<open>ipc_get_message\<close>.
\<close>

section \<open>Masks\<close>

lemma and_FFFF: "x AND 0xFFFF = take_bit 16 (x :: int)"
  by (simp add: take_bit_eq_mask mask_numeral)

lemma and_FFFFFFFF: "x AND 0xFFFFFFFF = take_bit 32 (x :: int)"
  by (simp add: take_bit_eq_mask mask_numeral)

lemma tid_mask [simp]: "tid_in_range tid \<Longrightarrow> tid AND 0xFFFF = tid"
  unfolding and_FFFF by (rule take_bit_int_eq_self) (auto simp: tid_in_range_def THREAD_COUNT_MAX_def)

definition is_int32 :: "int \<Rightarrow> bool" where
  "is_int32 x \<longleftrightarrow> - (2 ^ 31) \<le> x \<and> x < 2 ^ 31"

lemma c_int_id: "is_int32 x \<Longrightarrow> c_int x = x"
  unfolding c_int_def is_int32_def by (rule signed_take_bit_int_eq_self) auto

lemma c_int_mask [simp]: "c_int (x AND 0xFFFFFFFF) = c_int x"
  unfolding c_int_def and_FFFFFFFF
  by (rule signed_take_bit_eq_iff_take_bit_eq [THEN iffD2]) simp

lemma c_int_idem [simp]: "c_int (c_int x) = c_int x"
  by (simp add: c_int_def)

section \<open>What the steps leave unchanged\<close>

definition mail_frame :: "kstate \<Rightarrow> kstate \<Rightarrow> bool" where
  "mail_frame s s' \<longleftrightarrow> mheap s' = mheap s \<and> threadList s' = threadList s \<and>
     current_thread s' = current_thread s \<and> jiffies s' = jiffies s \<and>
     (\<forall>p. live s' p = live s p \<and> th_MsgQueue (theap s' p) = th_MsgQueue (theap s p) \<and>
        th_MsgQueueHead (theap s' p) = th_MsgQueueHead (theap s p) \<and>
        th_MsgQueueTail (theap s' p) = th_MsgQueueTail (theap s p) \<and>
        th_msgctl (theap s' p) = th_msgctl (theap s p))"

lemma mail_frame_refl: "mail_frame s s"
  by (simp add: mail_frame_def)

lemma mail_frame_trans: "mail_frame s t \<Longrightarrow> mail_frame t u \<Longrightarrow> mail_frame s u"
  by (simp add: mail_frame_def)

lemma mail_frame_upd_thread:
  "th_keeps (theap s p) (f (theap s p)) \<Longrightarrow>
   th_MsgQueueHead (f (theap s p)) = th_MsgQueueHead (theap s p) \<Longrightarrow>
   th_MsgQueueTail (f (theap s p)) = th_MsgQueueTail (theap s p) \<Longrightarrow>
   th_msgctl (f (theap s p)) = th_msgctl (theap s p) \<Longrightarrow> mail_frame s (upd_thread p f s)"
  by (simp add: mail_frame_def live_upd_thread) (simp add: th_keeps_def)

lemma ipc_wakeup_receiver_cases:
  "ipc_wakeup_receiver t tid s =
     (if th_state (theap s t) \<in> {WAITING, BLOCKED} \<and> reason_is_wakeable (th_wait_reason (theap s t))
      then do_thread_ready tid s else s)"
  by (auto simp: ipc_wakeup_receiver_def Let_def)

lemma ipc_wakeup_receiver_frame: "mail_frame s (ipc_wakeup_receiver t tid s)"
  by (simp add: ipc_wakeup_receiver_cases ready.op_cases mail_frame_refl mail_frame_upd_thread
      th_keeps_def)

lemma ipc_wakeup_receiver_inv [kernel_inv]: "kinv s \<Longrightarrow> kinv (ipc_wakeup_receiver t tid s)"
  by (simp add: ipc_wakeup_receiver_cases ready.op_inv)

lemma ipc_make_responder_live:
  "live s t \<Longrightarrow> ipc_make_responder t s =
     (if g_use_event_responder s = TRUE
      then upd_thread t (\<lambda>th. th\<lparr>th_has_pending_event := TRUE, th_state := READY,
             th_quantum := QUANTUM_MAX, th_priority := PRIORITY_MAX\<rparr>) (s\<lparr>ev_responder_thread := t\<rparr>)
      else s)"
  by (simp add: ipc_make_responder_def set_ev_responder_def live_def upd_thread_def)

lemma live_ev_responder [simp]: "live (s\<lparr>ev_responder_thread := t\<rparr>) p = live s p"
  by (simp add: live_def)

lemma ipc_make_responder_frame: "live s t \<Longrightarrow> mail_frame s (ipc_make_responder t s)"
  by (simp add: ipc_make_responder_live mail_frame_def)
    (simp add: live_def)

lemma ipc_make_responder_inv [kernel_inv]: "kinv s \<Longrightarrow> kinv (ipc_make_responder t s)"
  by (simp add: ipc_make_responder_def sched_inv kinv_upd_thread th_keeps_def)

lemmas ipc_prepare_frame = mail_frame_trans [OF ipc_wakeup_receiver_frame ipc_make_responder_frame]

lemma ipc_receiver_valid:
  "kinv s \<Longrightarrow> valid_tid s tid \<Longrightarrow> ipc_receiver who tid s = Ok (threadList s tid) s"
  by (auto simp: ipc_receiver_def Let_def valid_tid_def tid_in_range_def live_def
      dest: kinv_slot_tid [of s tid])

lemma ipc_receiver_state: "ipc_receiver who tid s = Ok t s' \<Longrightarrow> s' = s \<and> t = threadList s tid \<and> valid_tid s tid"
  by (auto simp: ipc_receiver_def Let_def valid_tid_def tid_in_range_def live_def split: if_splits)

section \<open>Storing\<close>

definition posted :: "int \<Rightarrow> int \<Rightarrow> int \<Rightarrow> u64 \<Rightarrow> u64 \<Rightarrow> u64 \<Rightarrow> u64 \<Rightarrow> msg_d \<Rightarrow> msg_d" where
  "posted src dst code l1 l2 l3 l4 x = x\<lparr>m_opaque_window := NULL, m_msg := code,
     m_long1 := l1, m_long2 := l2, m_long3 := l3, m_long4 := l4,
     m_sender_tid := src, m_receiver_tid := dst, m_next := NULL\<rparr>"

definition tail_slot :: "kstate \<Rightarrow> ptr \<Rightarrow> ptr" where
  "tail_slot s t = th_MsgQueue (theap s t) (th_MsgQueueTail (theap s t))"

definition bump_tail :: "thread_d \<Rightarrow> thread_d" where
  "bump_tail th = th\<lparr>th_MsgQueueTail := queue_next (th_MsgQueueTail th)\<rparr>"

lemma queue_next_qidx [simp]: "qidx k \<Longrightarrow> qidx (queue_next k)"
  by (auto simp: qidx_def queue_next_def MSG_QUEUE_MAX_def)

lemma queue_next_mod: "qidx k \<Longrightarrow> queue_next k = (k + 1) mod MSG_QUEUE_MAX"
  by (cases "k = 63") (auto simp: qidx_def queue_next_def MSG_QUEUE_MAX_def)

lemma ipc_store_message_live:
  assumes "kinv s" and "live s t"
  shows "ipc_store_message who t src dst code l1 l2 l3 l4 s =
    Ok 0 (upd_thread t bump_tail (upd_msg (tail_slot s t) (posted src dst (c_int code) l1 l2 l3 l4) s))"
  using kinv_qidx [OF assms] kinv_msg_ok [OF assms]
  by (auto simp: ipc_store_message_def Let_def msg_ok_def posted_def tail_slot_def bump_tail_def)

lemma stored_inv:
  "kinv s \<Longrightarrow> kinv (upd_thread t bump_tail (upd_msg m (posted src dst code l1 l2 l3 l4) s))"
  by (intro kinv_upd_thread kinv_upd_msg) (simp_all add: th_keeps_def posted_def bump_tail_def)

lemma mail_frame_live: "mail_frame s s' \<Longrightarrow> live s' p = live s p"
  by (simp add: mail_frame_def)

lemma mail_frame_tail_slot: "mail_frame s s' \<Longrightarrow> tail_slot s' p = tail_slot s p"
  by (simp add: mail_frame_def tail_slot_def)

text \<open>The state after the receiver was woken and made the responder.\<close>

definition ipc_prepare :: "int \<Rightarrow> kstate \<Rightarrow> kstate" where
  "ipc_prepare tid s = ipc_make_responder (threadList s tid) (ipc_wakeup_receiver (threadList s tid) tid s)"

lemma ipc_prepare_inv [kernel_inv]: "kinv s \<Longrightarrow> kinv (ipc_prepare tid s)"
  by (simp add: ipc_prepare_def kernel_inv)

lemma ipc_prepare_mail: "valid_tid s tid \<Longrightarrow> mail_frame s (ipc_prepare tid s)"
  unfolding ipc_prepare_def valid_tid_def
  by (rule ipc_prepare_frame) (simp add: mail_frame_live [OF ipc_wakeup_receiver_frame])

lemma post2_valid:
  assumes "kinv s" and "valid_tid s tid" and "0 \<le> c_int code"
  shows "ipc_post_message_to_tid2 src tid code l1 l2 l3 l4 s =
    Ok 0 (upd_thread (threadList s tid) bump_tail
      (upd_msg (tail_slot s (threadList s tid)) (posted (src AND 0xFFFF) tid (c_int code) l1 l2 l3 l4)
        (ipc_prepare tid s)))"
proof -
  note fr = ipc_prepare_mail [OF assms(2)]
  have tid: "tid AND 0xFFFF = tid" using assms(2) by (simp add: valid_tid_def)
  have "live (ipc_prepare tid s) (threadList s tid)"
    using assms(2) by (simp add: mail_frame_live [OF fr] valid_tid_def)
  from ipc_store_message_live [OF ipc_prepare_inv [OF assms(1)] this] assms(3) show ?thesis
    by (simp add: ipc_post_message_to_tid2_def tid ipc_receiver_valid [OF assms(1,2)]
        mail_frame_tail_slot [OF fr] flip: ipc_prepare_def)
qed

lemma post2_inv [kernel_inv]:
  assumes "kinv s" and "ipc_post_message_to_tid2 src tid code l1 l2 l3 l4 s = Ok r s'"
  shows "kinv s'"
proof (cases "c_int code < 0")
  case True
  with assms show ?thesis by (simp add: ipc_post_message_to_tid2_def)
next
  case False
  with assms(2) have "valid_tid s (tid AND 0xFFFF)"
    by (auto simp: ipc_post_message_to_tid2_def Let_def bindR_eq_Ok dest!: ipc_receiver_state)
  moreover have "ipc_post_message_to_tid2 src (tid AND 0xFFFF) code l1 l2 l3 l4 s = Ok r s'"
    using assms(2) by (simp add: ipc_post_message_to_tid2_def)
  ultimately show ?thesis
    using False post2_valid [OF assms(1), of "tid AND 0xFFFF"] stored_inv ipc_prepare_inv [OF assms(1)]
    by auto
qed

section \<open>The abstract mailbox\<close>

text \<open>
  \<open>slot s k\<close> is the message in slot \<open>k\<close>, if there is one. Posting fills the slot at the tail,
  whatever it held, and moves the tail; polling empties the slot at the head and moves the head, also
  when the slot was empty. \<open>img\<close> is what the reader sees of posted arguments.
\<close>

locale mailbox =
  fixes inv :: "'s \<Rightarrow> bool"
    and cap :: nat
    and slot :: "'s \<Rightarrow> nat \<Rightarrow> 'm option"
    and head :: "'s \<Rightarrow> nat"
    and tail :: "'s \<Rightarrow> nat"
    and ok :: "'a \<Rightarrow> bool"
    and img :: "'a \<Rightarrow> 'm"
    and post :: "'a \<Rightarrow> 's \<Rightarrow> 's"
    and poll :: "'s \<Rightarrow> 'm option \<times> 's"
  assumes head_less: "inv s \<Longrightarrow> head s < cap"
    and tail_less: "inv s \<Longrightarrow> tail s < cap"
    and post_inv: "inv s \<Longrightarrow> ok a \<Longrightarrow> inv (post a s)"
    and post_slot: "inv s \<Longrightarrow> ok a \<Longrightarrow> k < cap \<Longrightarrow>
          slot (post a s) k = (if k = tail s then Some (img a) else slot s k)"
    and post_head: "inv s \<Longrightarrow> ok a \<Longrightarrow> head (post a s) = head s"
    and post_tail: "inv s \<Longrightarrow> ok a \<Longrightarrow> tail (post a s) = (tail s + 1) mod cap"
    and poll_inv: "inv s \<Longrightarrow> inv (snd (poll s))"
    and poll_result: "inv s \<Longrightarrow> fst (poll s) = slot s (head s)"
    and poll_slot: "inv s \<Longrightarrow> k < cap \<Longrightarrow>
          slot (snd (poll s)) k = (if k = head s then None else slot s k)"
    and poll_head: "inv s \<Longrightarrow> head (snd (poll s)) = (head s + 1) mod cap"
    and poll_tail: "inv s \<Longrightarrow> tail (snd (poll s)) = tail s"
begin

primrec polls :: "nat \<Rightarrow> 's \<Rightarrow> 'm option list \<times> 's" where
  "polls 0 s = ([], s)"
| "polls (Suc n) s = (let (x, s1) = poll s; (xs, s2) = polls n s1 in (x # xs, s2))"

lemma polls_Suc:
  "fst (polls (Suc n) s) = fst (poll s) # fst (polls n (snd (poll s)))"
  "snd (polls (Suc n) s) = snd (polls n (snd (poll s)))"
  by (simp_all add: split_beta)

lemma mod_window:
  assumes "0 < i" "i < cap" "h < cap"
  shows "(h + i) mod cap \<noteq> h"
  using assms by (cases "h + i < cap") (simp, simp add: mod_if, linarith)

lemma polls_spec:
  assumes "inv s" and "n \<le> cap"
  shows "inv (snd (polls n s)) \<and>
    fst (polls n s) = map (\<lambda>i. slot s ((head s + i) mod cap)) [0..<n] \<and>
    head (snd (polls n s)) = (head s + n) mod cap \<and>
    (\<forall>k < cap. slot (snd (polls n s)) k =
       (if \<exists>i < n. k = (head s + i) mod cap then None else slot s k))"
  using assms
proof (induction n arbitrary: s)
  case 0
  then show ?case using head_less by simp
next
  case (Suc n)
  let ?t = "snd (poll s)"
  note h = head_less [OF Suc.prems(1)]
  have IH: "inv (snd (polls n ?t))"
    "fst (polls n ?t) = map (\<lambda>i. slot ?t ((head ?t + i) mod cap)) [0..<n]"
    "head (snd (polls n ?t)) = (head ?t + n) mod cap"
    "\<forall>k < cap. slot (snd (polls n ?t)) k =
       (if \<exists>i < n. k = (head ?t + i) mod cap then None else slot ?t k)"
    using Suc.IH [OF poll_inv [OF Suc.prems(1)]] Suc.prems(2) by simp_all
  have idx: "(head ?t + i) mod cap = (head s + Suc i) mod cap" for i
    by (simp add: poll_head [OF Suc.prems(1)] mod_add_left_eq)
  have other: "slot ?t ((head s + Suc i) mod cap) = slot s ((head s + Suc i) mod cap)" if "i < n" for i
    using mod_window [of "Suc i" "head s"] that Suc.prems h by (simp add: poll_slot)
  have "fst (polls (Suc n) s) = slot s (head s) # map (\<lambda>i. slot s ((head s + Suc i) mod cap)) [0..<n]"
    using other by (simp del: polls.simps add: polls_Suc IH(2) idx poll_result [OF Suc.prems(1)])
  also have "\<dots> = map (\<lambda>i. slot s ((head s + i) mod cap)) [0..<Suc n]"
    using h by (simp only: upt_conv_Cons [OF zero_less_Suc] map_Suc_upt [symmetric] list.map map_map o_def)
      simp
  finally have "fst (polls (Suc n) s) = map (\<lambda>i. slot s ((head s + i) mod cap)) [0..<Suc n]" .
  moreover have "slot (snd (polls (Suc n) s)) k =
      (if \<exists>i < Suc n. k = (head s + i) mod cap then None else slot s k)" if "k < cap" for k
    using IH(4) that h by (auto simp del: polls.simps simp: polls_Suc idx poll_slot [OF Suc.prems(1)] less_Suc_eq_0_disj)
  ultimately show ?case
    using IH(1,3) by (simp del: polls.simps add: polls_Suc idx)
qed

text \<open>As many polls as there are slots return every message of the mailbox, and leave it empty.\<close>

lemma drain:
  assumes "inv s"
  shows "fst (polls cap s) = map (\<lambda>i. slot s ((head s + i) mod cap)) [0..<cap]"
    and "k < cap \<Longrightarrow> slot (snd (polls cap s)) k = None"
proof -
  show "fst (polls cap s) = map (\<lambda>i. slot s ((head s + i) mod cap)) [0..<cap]"
    using polls_spec [OF assms, of cap] by simp
  assume k: "k < cap"
  have "\<exists>i < cap. k = (head s + i) mod cap"
  proof (cases "head s \<le> k")
    case True
    with k show ?thesis by (intro exI [of _ "k - head s"]) auto
  next
    case False
    with k head_less [OF assms] show ?thesis by (intro exI [of _ "k + cap - head s"]) auto
  qed
  with k show "slot (snd (polls cap s)) k = None"
    using polls_spec [OF assms, of cap] by simp
qed

lemma posts_spec:
  assumes "inv s" and "list_all ok as" and "length as \<le> cap"
  shows "inv (fold post as s) \<and> head (fold post as s) = head s \<and>
    (\<forall>i < length as. slot (fold post as s) ((tail s + i) mod cap) = Some (img (as ! i))) \<and>
    tail (fold post as s) = (tail s + length as) mod cap"
  using assms
proof (induction as rule: rev_induct)
  case Nil
  then show ?case using tail_less by simp
next
  case (snoc a as)
  let ?t = "fold post as s"
  have IH: "inv ?t" "head ?t = head s" "tail ?t = (tail s + length as) mod cap"
    "\<forall>i < length as. slot ?t ((tail s + i) mod cap) = Some (img (as ! i))"
    using snoc.IH snoc.prems by simp_all
  have ok: "ok a" using snoc.prems by simp
  have cap: "0 < cap" using tail_less [OF snoc.prems(1)] by simp
  have "(tail s + i) mod cap \<noteq> (tail s + length as) mod cap" if "i < length as" for i
  proof -
    have "((tail s + i) mod cap + (length as - i)) mod cap \<noteq> (tail s + i) mod cap"
      using that snoc.prems(3) cap by (intro mod_window) auto
    then have "(tail s + i + (length as - i)) mod cap \<noteq> (tail s + i) mod cap"
      by (simp only: mod_add_left_eq not_False_eq_True)
    then show ?thesis using that by simp
  qed
  then have "slot (post a ?t) ((tail s + i) mod cap) = Some (img ((as @ [a]) ! i))"
    if "i < length (as @ [a])" for i
    using that IH cap by (auto simp: post_slot [OF IH(1) ok] less_Suc_eq nth_append)
  then show ?case
    using IH ok cap by (simp add: post_inv post_head post_tail mod_Suc_eq)
qed

text \<open>Messages posted to a mailbox whose head is at its tail are read in the order of posting.\<close>

lemma fifo:
  assumes "inv s" and "list_all ok as" and "length as \<le> cap" and "head s = tail s"
  shows "fst (polls (length as) (fold post as s)) = map (\<lambda>a. Some (img a)) as"
proof -
  note p = posts_spec [OF assms(1-3)]
  have "fst (polls (length as) (fold post as s)) =
      map (\<lambda>i. slot (fold post as s) ((head s + i) mod cap)) [0..<length as]"
    using polls_spec [of "fold post as s" "length as"] p assms(3) by simp
  also have "\<dots> = map (\<lambda>i. Some (img (as ! i))) [0..<length as]"
    using p assms(4) by simp
  also have "\<dots> = map (\<lambda>a. Some (img a)) as"
    by (rule nth_equalityI) simp_all
  finally show ?thesis .
qed

end

section \<open>The message queue of a thread is a mailbox\<close>

text \<open>The fields of the message that \<open>message_to_ubuf\<close> copies, and the cells it copies them to.\<close>

definition msg_words :: "msg_d \<Rightarrow> u64 list" where
  "msg_words m = [m_opaque_window m, word_of_int (m_msg m AND 0xFFFFFFFF), m_long1 m, m_long2 m,
     m_long3 m, m_long4 m, word_of_int (m_sender_tid m), word_of_int (m_receiver_tid m)]"

definition ubuf_words :: "ubuf_t \<Rightarrow> u64 list" where
  "ubuf_words b = map b [0, 1, 2, 3, 4, 5, 8, 9]"

lemma ubuf_words_message: "ubuf_words (message_to_ubuf m now b) = msg_words m"
  by (simp add: ubuf_words_def message_to_ubuf_def msg_words_def)

definition box_inv :: "int \<Rightarrow> kstate \<Rightarrow> bool" where
  "box_inv tid s \<longleftrightarrow> kinv s \<and> valid_tid s tid \<and> current_thread s = tid"

definition box_slot :: "int \<Rightarrow> kstate \<Rightarrow> nat \<Rightarrow> u64 list option" where
  "box_slot tid s k =
     (let m = mheap s (th_MsgQueue (theap s (threadList s tid)) (int k))
      in if 0 < m_msg m then Some (msg_words m) else None)"

definition box_head :: "int \<Rightarrow> kstate \<Rightarrow> nat" where
  "box_head tid s = nat (th_MsgQueueHead (theap s (threadList s tid)))"

definition box_tail :: "int \<Rightarrow> kstate \<Rightarrow> nat" where
  "box_tail tid s = nat (th_MsgQueueTail (theap s (threadList s tid)))"

text \<open>The arguments of a post: sender, code and the four words.\<close>

type_synonym post_args = "int \<times> int \<times> u64 \<times> u64 \<times> u64 \<times> u64"

definition post_ok :: "post_args \<Rightarrow> bool" where
  "post_ok = (\<lambda>(src, code, l1, l2, l3, l4). 0 < code \<and> is_int32 code)"

definition post_words :: "int \<Rightarrow> post_args \<Rightarrow> u64 list" where
  "post_words tid = (\<lambda>(src, code, l1, l2, l3, l4).
     [0, word_of_int (code AND 0xFFFFFFFF), l1, l2, l3, l4, word_of_int (src AND 0xFFFF), word_of_int tid])"

definition box_post :: "int \<Rightarrow> post_args \<Rightarrow> kstate \<Rightarrow> kstate" where
  "box_post tid = (\<lambda>(src, code, l1, l2, l3, l4) s.
     case ipc_post_message_to_tid2 src tid code l1 l2 l3 l4 s of Ok _ s' \<Rightarrow> s' | _ \<Rightarrow> s)"

definition box_poll :: "ubuf_t \<Rightarrow> kstate \<Rightarrow> u64 list option \<times> kstate" where
  "box_poll b s =
     (case ipc_get_message 1 b s of
        Ok rb s' \<Rightarrow> (if fst rb = 1 then Some (ubuf_words (snd rb)) else None, s')
      | _ \<Rightarrow> (None, s))"

lemma nat_queue_next: "qidx k \<Longrightarrow> nat (queue_next k) = (nat k + 1) mod 64"
  by (auto simp: queue_next_mod qidx_def MSG_QUEUE_MAX_def nat_add_distrib nat_mod_distrib)

lemma qidx_nat: "k < 64 \<Longrightarrow> qidx (int k)"
  by (simp add: qidx_def MSG_QUEUE_MAX_def)

lemma box_inv_live: "box_inv tid s \<Longrightarrow> kinv s \<and> live s (threadList s tid)"
  by (simp add: box_inv_def valid_tid_def)

lemma box_cell_inj:
  assumes "box_inv tid s" "qidx i" "qidx j"
  shows "th_MsgQueue (theap s (threadList s tid)) i = th_MsgQueue (theap s (threadList s tid)) j \<longleftrightarrow> i = j"
  using kinv_msg_inj box_inv_live [OF assms(1)] assms(2,3) by blast

subsection \<open>Posting\<close>

lemma box_post_Ok:
  assumes "box_inv tid s" and "post_ok (src, code, l1, l2, l3, l4)"
  shows "ipc_post_message_to_tid2 src tid code l1 l2 l3 l4 s = Ok 0 (box_post tid (src, code, l1, l2, l3, l4) s)"
    and "box_post tid (src, code, l1, l2, l3, l4) s = upd_thread (threadList s tid) bump_tail
      (upd_msg (tail_slot s (threadList s tid)) (posted (src AND 0xFFFF) tid code l1 l2 l3 l4)
        (ipc_prepare tid s))"
  using assms post2_valid [of s tid code src l1 l2 l3 l4]
  by (auto simp: box_post_def box_inv_def post_ok_def c_int_id)

lemma box_post_laws:
  assumes i: "box_inv tid s" and ok: "post_ok a"
  shows "box_inv tid (box_post tid a s)"
    and "k < 64 \<Longrightarrow> box_slot tid (box_post tid a s) k =
           (if k = box_tail tid s then Some (post_words tid a) else box_slot tid s k)"
    and "box_head tid (box_post tid a s) = box_head tid s"
    and "box_tail tid (box_post tid a s) = (box_tail tid s + 1) mod 64"
proof -
  obtain src code l1 l2 l3 l4 where a: "a = (src, code, l1, l2, l3, l4)" by (cases a)
  note e = box_post_Ok(2) [OF i ok [unfolded a], folded a]
  have v: "valid_tid s tid" using i by (simp add: box_inv_def)
  note fr = ipc_prepare_mail [OF v, unfolded mail_frame_def]
  have q: "qidx (th_MsgQueueTail (theap s (threadList s tid)))"
    using kinv_qidx box_inv_live [OF i] by blast
  have lv: "live (upd_thread p bump_tail (upd_msg m g t)) x = live t x" for p m g t x
    by (subst live_upd_thread) (simp_all add: th_keeps_def bump_tail_def)
  show "box_inv tid (box_post tid a s)"
    using i fr unfolding e box_inv_def
    by (auto simp: stored_inv ipc_prepare_inv valid_tid_def lv)
  show "box_head tid (box_post tid a s) = box_head tid s"
    using fr by (simp add: e box_head_def bump_tail_def)
  show "box_tail tid (box_post tid a s) = (box_tail tid s + 1) mod 64"
    using fr nat_queue_next [OF q] by (simp add: e box_tail_def bump_tail_def)
  show "box_slot tid (box_post tid a s) k =
           (if k = box_tail tid s then Some (post_words tid a) else box_slot tid s k)" if k: "k < 64"
  proof -
    have "k = box_tail tid s \<longleftrightarrow> int k = th_MsgQueueTail (theap s (threadList s tid))"
      using q by (auto simp: box_tail_def qidx_def)
    then have "k = box_tail tid s \<longleftrightarrow>
        th_MsgQueue (theap s (threadList s tid)) (int k) = tail_slot s (threadList s tid)"
      using box_cell_inj [OF i qidx_nat [OF k] q] by (simp add: tail_slot_def)
    then show ?thesis
      unfolding e using fr ok by (simp add: box_slot_def a posted_def msg_words_def post_words_def post_ok_def
          bump_tail_def Let_def)
  qed
qed

subsection \<open>Polling\<close>

definition head_slot :: "kstate \<Rightarrow> ptr \<Rightarrow> ptr" where
  "head_slot s t = th_MsgQueue (theap s t) (th_MsgQueueHead (theap s t))"

lemma advance_head_inv [kernel_inv]: "kinv s \<Longrightarrow> kinv (advance_head t s)"
  by (simp add: advance_head_def kinv_upd_thread th_keeps_def)

lemma live_advance_head [simp]: "live (advance_head t s) p = live s p"
  by (simp add: advance_head_def live_upd_thread th_keeps_def)

text \<open>The bookkeeping of a miss: only \<open>msgctl\<close> changes.\<close>

definition count_miss :: "thread_d \<Rightarrow> thread_d" where
  "count_miss th = (let c = th_msgctl th; n = c_int (miss_count c + 1)
     in if block_on_empty c = TRUE \<and> n > MSG_QUEUE_MAX + 4
        then th\<lparr>th_msgctl := c\<lparr>block_in_progress := TRUE, miss_count := 0\<rparr>\<rparr>
        else th\<lparr>th_msgctl := c\<lparr>miss_count := n\<rparr>\<rparr>)"

lemma count_miss_keeps [simp]:
  "th_used (count_miss th) = th_used th" "th_magic (count_miss th) = th_magic th"
  "th_tid (count_miss th) = th_tid th" "th_tgid (count_miss th) = th_tgid th"
  "th_cpl (count_miss th) = th_cpl th" "th_MsgQueue (count_miss th) = th_MsgQueue th"
  "th_MsgQueueHead (count_miss th) = th_MsgQueueHead th"
  "th_MsgQueueTail (count_miss th) = th_MsgQueueTail th"
  by (simp_all add: count_miss_def Let_def)

lemma ipc_get_message_valid:
  assumes "box_inv tid s" and "u \<noteq> 0"
  shows "ipc_get_message u b s =
    (let t = threadList s tid; m = head_slot s t in
     if m_msg (mheap s m) \<le> 0
     then Ok (NULL, b) (advance_head t (upd_thread t count_miss s))
     else Ok (1, message_to_ubuf (mheap s m) (jiffies s) b) (advance_head t (upd_msg m clear_message s)))"
proof -
  let ?t = "threadList s tid"
  note l = box_inv_live [OF assms(1)]
  have q: "qidx (th_MsgQueueHead (theap s ?t))" using kinv_qidx l by blast
  have m: "msg_ok s (head_slot s ?t)" using kinv_msg_ok l q by (auto simp: head_slot_def)
  have miss: "ipc_get_message_fail ?t (block_on_empty (th_msgctl (theap s ?t)) = TRUE) True b
      (upd_thread ?t (\<lambda>th. th\<lparr>th_msgctl := (th_msgctl th)
          \<lparr>miss_count := c_int (miss_count (th_msgctl th) + 1)\<rparr>\<rparr>) s)
    = Ok (NULL, b) (advance_head ?t (upd_thread ?t count_miss s))"
    by (auto simp: ipc_get_message_fail_def Let_def advance_head_def upd_thread_def count_miss_def)
  have "tid_in_range tid" "current_thread s = tid"
    using assms(1) by (simp_all add: box_inv_def valid_tid_def)
  then show ?thesis
    using l q m assms(2) miss
    by (auto simp: ipc_get_message_def Let_def live_def msg_ok_def tid_in_range_def simp flip: head_slot_def)
qed

lemma box_poll_cases:
  assumes "box_inv tid s"
  shows "box_poll b s =
    (let t = threadList s tid; m = head_slot s t in
     if m_msg (mheap s m) \<le> 0
     then (None, advance_head t (upd_thread t count_miss s))
     else (Some (msg_words (mheap s m)), advance_head t (upd_msg m clear_message s)))"
  by (simp add: box_poll_def ipc_get_message_valid [OF assms] Let_def ubuf_words_message)

lemma box_poll_laws:
  assumes i: "box_inv tid s"
  shows "box_inv tid (snd (box_poll b s))"
    and "fst (box_poll b s) = box_slot tid s (box_head tid s)"
    and "k < 64 \<Longrightarrow> box_slot tid (snd (box_poll b s)) k =
           (if k = box_head tid s then None else box_slot tid s k)"
    and "box_head tid (snd (box_poll b s)) = (box_head tid s + 1) mod 64"
    and "box_tail tid (snd (box_poll b s)) = box_tail tid s"
proof -
  let ?t = "threadList s tid" and ?m = "head_slot s (threadList s tid)"
  have q: "qidx (th_MsgQueueHead (theap s ?t))"
    using kinv_qidx box_inv_live [OF i] by blast
  have hd: "int (box_head tid s) = th_MsgQueueHead (theap s ?t)"
    using q by (simp add: box_head_def qidx_def)
  have lv: "live (upd_thread p count_miss t) x = live t x" for p t x
    by (subst live_upd_thread) (simp_all add: th_keeps_def)
  have "kinv (upd_thread ?t count_miss s)" "kinv (upd_msg ?m clear_message s)"
    using i by (simp_all add: kinv_upd_thread kinv_upd_msg th_keeps_def box_inv_def clear_message_def)
  then show "box_inv tid (snd (box_poll b s))"
    using i advance_head_inv by (auto simp: box_poll_cases [OF i] Let_def box_inv_def valid_tid_def lv)
      (simp_all add: advance_head_def)
  show "fst (box_poll b s) = box_slot tid s (box_head tid s)"
    by (simp add: box_poll_cases [OF i] Let_def box_slot_def hd head_slot_def)
  show "box_head tid (snd (box_poll b s)) = (box_head tid s + 1) mod 64"
    using nat_queue_next [OF q] by (simp add: box_poll_cases [OF i] Let_def box_head_def advance_head_def)
  show "box_tail tid (snd (box_poll b s)) = box_tail tid s"
    by (simp add: box_poll_cases [OF i] Let_def box_tail_def advance_head_def)
  show "box_slot tid (snd (box_poll b s)) k = (if k = box_head tid s then None else box_slot tid s k)"
    if k: "k < 64"
  proof -
    have "k = box_head tid s \<longleftrightarrow> int k = th_MsgQueueHead (theap s ?t)"
      unfolding hd [symmetric] by simp
    then have "k = box_head tid s \<longleftrightarrow> th_MsgQueue (theap s ?t) (int k) = ?m"
      using box_cell_inj [OF i qidx_nat [OF k] q] by (simp add: head_slot_def)
    then show ?thesis
      by (auto simp: box_poll_cases [OF i] Let_def box_slot_def advance_head_def clear_message_def)
  qed
qed

interpretation mb: mailbox "box_inv tid" 64 "box_slot tid" "box_head tid" "box_tail tid"
  post_ok "post_words tid" "box_post tid" "box_poll b"
proof unfold_locales
  fix s
  assume "box_inv tid s"
  then have "qidx (th_MsgQueueHead (theap s (threadList s tid)))"
    "qidx (th_MsgQueueTail (theap s (threadList s tid)))"
    using kinv_qidx box_inv_live by blast+
  then show "box_head tid s < 64" "box_tail tid s < 64"
    unfolding box_head_def box_tail_def qidx_def MSG_QUEUE_MAX_def by linarith+
qed (rule box_post_laws box_poll_laws; assumption)+

section \<open>Sequences of calls\<close>

text \<open>
  \<open>post_seq\<close> posts a list of messages to a thread, \<open>read_seq\<close> makes \<open>n\<close> calls of
  \<open>ipc_get_message\<close> and collects the return values with the words found in the buffer when the
  call reported a message.
\<close>

primrec post_seq :: "int \<Rightarrow> post_args list \<Rightarrow> kstate \<Rightarrow> unit kres" where
  "post_seq tid [] s = Ok () s"
| "post_seq tid (a # as) s =
     (case a of (src, code, l1, l2, l3, l4) \<Rightarrow>
        bindR (ipc_post_message_to_tid2 src tid code l1 l2 l3 l4 s) (\<lambda>_ s'. post_seq tid as s'))"

primrec read_seq :: "nat \<Rightarrow> ptr \<Rightarrow> ubuf_t \<Rightarrow> kstate \<Rightarrow> u64 list option list kres" where
  "read_seq 0 u b s = Ok [] s"
| "read_seq (Suc n) u b s =
     bindR (sys_get_message u b s) (\<lambda>rb s1.
       bindR (read_seq n u b s1) (\<lambda>rs s2.
         Ok ((if fst rb = 1 then Some (ubuf_words (snd rb)) else None) # rs) s2))"

lemma post_seq_Ok:
  "box_inv tid s \<Longrightarrow> list_all post_ok as \<Longrightarrow> post_seq tid as s = Ok () (fold (box_post tid) as s)"
  by (induction as arbitrary: s) (auto simp: box_post_Ok(1) mb.post_inv split: prod.splits)

lemma read_seq_Ok:
  "box_inv tid s \<Longrightarrow> u \<noteq> 0 \<Longrightarrow> read_seq n u b s = Ok (fst (mb.polls b n s)) (snd (mb.polls b n s))"
proof (induction n arbitrary: s)
  case (Suc n)
  have "box_inv tid (snd (box_poll b s))" by (rule mb.poll_inv [OF Suc.prems(1)])
  note IH = Suc.IH [OF this Suc.prems(2)]
  show ?case
  proof (cases "m_msg (mheap s (head_slot s (threadList s tid))) \<le> 0")
    case True
    with IH show ?thesis
      using ipc_get_message_valid [OF Suc.prems, of b] Suc.prems(2)
      by (simp add: sys_get_message_def box_poll_cases [OF Suc.prems(1)] Let_def split_beta)
  next
    case False
    with IH show ?thesis
      using ipc_get_message_valid [OF Suc.prems, of b] Suc.prems(2)
      by (simp add: sys_get_message_def box_poll_cases [OF Suc.prems(1)] Let_def split_beta ubuf_words_message)
  qed
qed simp

end
