(* ===== verification/Ipc_Laws.thy ===== *)
theory Ipc_Laws
  imports Ipc_Mailbox Demo_State
begin

text \<open>
  What the messages of \<open>ipc.c\<close> promise: posting to a valid thread returns and keeps the kernel
  invariant, the order of delivery, the merging of mouse moves and repeated keys, the refusals, and
  two places where the code does not do what its comments say.
\<close>

section \<open>ipc\_post\_message\_to\_tid\<close>

definition last_slot :: "kstate \<Rightarrow> ptr \<Rightarrow> ptr" where
  "last_slot s t = th_MsgQueue (theap s t) ((th_MsgQueueTail (theap s t) - 1 + MSG_QUEUE_MAX) mod MSG_QUEUE_MAX)"

lemma last_index_qidx: "qidx ((k - 1 + MSG_QUEUE_MAX) mod MSG_QUEUE_MAX)"
  by (simp add: qidx_def MSG_QUEUE_MAX_def)

lemma last_index_next: "qidx k \<Longrightarrow> (queue_next k - 1 + MSG_QUEUE_MAX) mod MSG_QUEUE_MAX = k"
  by (auto simp: queue_next_def qidx_def MSG_QUEUE_MAX_def)

lemma ipc_last_message_live:
  assumes "kinv s" and "live s t"
  shows "ipc_last_message name t s = Ok (last_slot s t) s"
  using kinv_msg_ok [OF assms last_index_qidx]
  by (simp add: ipc_last_message_def Let_def last_index_qidx [simplified] last_slot_def msg_ok_def)

definition boost_for_move :: "int \<Rightarrow> thread_d \<Rightarrow> thread_d" where
  "boost_for_move code th =
     (if code = MSG_MOUSEMOVE then th\<lparr>th_quantum := QUANTUM_MAX * 2, th_state := READY\<rparr> else th)"

lemma boost_for_move_keeps [simp]:
  "th_keeps th (boost_for_move code th)" "th_MsgQueue (boost_for_move code th) = th_MsgQueue th"
  "th_MsgQueueHead (boost_for_move code th) = th_MsgQueueHead th"
  "th_MsgQueueTail (boost_for_move code th) = th_MsgQueueTail th"
  "th_msgctl (boost_for_move code th) = th_msgctl th"
  by (simp_all add: boost_for_move_def th_keeps_def)

text \<open>What posting does to the last message when it is merged into it.\<close>

definition merges :: "int \<Rightarrow> int \<Rightarrow> u64 \<Rightarrow> msg_d \<Rightarrow> bool" where
  "merges dst code long1 m \<longleftrightarrow> m_receiver_tid m = dst \<and> m_msg m = code \<and>
     (code = MSG_MOUSEMOVE \<or> code = MSG_KEYDOWN \<and> m_long1 m = long1 \<or> 80 \<le> code \<and> code \<le> 83)"

definition merge_into :: "int \<Rightarrow> int \<Rightarrow> int \<Rightarrow> u64 \<Rightarrow> u64 \<Rightarrow> u64 \<Rightarrow> msg_d \<Rightarrow> msg_d" where
  "merge_into src dst code long1 long2 now m =
     (if code = MSG_MOUSEMOVE
      then m\<lparr>m_long1 := long1, m_long2 := long2, m_long3 := now, m_long4 := now,
             m_sender_tid := src, m_receiver_tid := dst\<rparr>
      else if code = MSG_KEYDOWN
      then m\<lparr>m_long1 := long1, m_long2 := long2, m_long3 := now, m_long4 := m_long4 m + 1,
             m_sender_tid := src, m_receiver_tid := dst\<rparr>
      else m\<lparr>m_long3 := now, m_long4 := m_long4 m + 1, m_sender_tid := src, m_receiver_tid := dst\<rparr>)"

definition boosted :: "int \<Rightarrow> int \<Rightarrow> kstate \<Rightarrow> kstate" where
  "boosted tid code s =
     (if code = MSG_MOUSEMOVE then upd_thread (threadList s tid) (boost_for_move code) (ipc_prepare tid s)
      else ipc_prepare tid s)"

lemma boosted_inv [kernel_inv]: "kinv s \<Longrightarrow> kinv (boosted tid code s)"
  by (simp add: boosted_def kinv_upd_thread ipc_prepare_inv)

lemma boosted_mail: "valid_tid s tid \<Longrightarrow> mail_frame s (boosted tid code s)"
  using mail_frame_trans [OF ipc_prepare_mail
      mail_frame_upd_thread [of "ipc_prepare tid s" "threadList s tid" "boost_for_move code"]]
  by (auto simp: boosted_def ipc_prepare_mail)

lemma coalesce_key_live:
  assumes "kinv s" and "live s t" and "code \<noteq> MSG_MOUSEMOVE"
  shows "ipc_coalesce_key t src dst code l1 l2 s =
    (if merges dst code l1 (mheap s (last_slot s t))
     then Ok True (upd_msg (last_slot s t) (merge_into src dst code l1 l2 (jiffies s)) s)
     else Ok False s)"
proof -
  have arrow: "code = 80 \<or> code = 81 \<or> code = 82 \<or> code = 83 \<longleftrightarrow> 80 \<le> code \<and> code \<le> 83"
    by linarith
  consider "code = MSG_KEYDOWN" | "80 \<le> code \<and> code \<le> 83" "code \<noteq> MSG_KEYDOWN"
    | "\<not> (80 \<le> code \<and> code \<le> 83)" "code \<noteq> MSG_KEYDOWN"
    by blast
  then show ?thesis
    by cases (simp_all add: ipc_coalesce_key_def Let_def arrow ipc_last_message_live [OF assms(1,2)]
        merges_def merge_into_def [abs_def] assms(3))
qed

lemma coalesce_key_move: "ipc_coalesce_key t src dst MSG_MOUSEMOVE l1 l2 s = Ok False s"
  by (simp add: ipc_coalesce_key_def)

lemma post_valid:
  assumes "kinv s" and v: "valid_tid s tid" and "0 < c_int code"
  defines "t \<equiv> threadList s tid" and "s1 \<equiv> boosted tid (c_int code) s"
  shows "ipc_post_message_to_tid src tid code l1 l2 s =
    (if merges tid (c_int code) l1 (mheap s (last_slot s t))
     then Ok 0 (upd_msg (last_slot s t) (merge_into (src AND 0xFFFF) tid (c_int code) l1 l2 (jiffies s)) s1)
     else Ok 0 (upd_thread t bump_tail (upd_msg (tail_slot s t)
            (posted (src AND 0xFFFF) tid (c_int code) l1 l2 (jiffies s) (jiffies s)) s1)))"
proof -
  note fr = boosted_mail [OF v, of "c_int code", folded s1_def]
  have tid: "tid AND 0xFFFF = tid" using v by (simp add: valid_tid_def)
  have lv: "live s1 t" and k: "kinv s1"
    using boosted_inv [OF assms(1)] v
    by (simp_all add: mail_frame_live [OF fr, unfolded s1_def] valid_tid_def s1_def t_def)
  note lm = ipc_last_message_live [OF k lv] and st = ipc_store_message_live [OF k lv]
  have ls: "last_slot s1 t = last_slot s t" "mheap s1 = mheap s" "jiffies s1 = jiffies s"
    "tail_slot s1 t = tail_slot s t"
    using fr by (simp_all add: mail_frame_def last_slot_def tail_slot_def)
  have start: "ipc_post_message_to_tid src tid code l1 l2 s =
      bindR (ipc_coalesce_mousemove t (src AND 0xFFFF) tid (c_int code) l1 l2 (ipc_prepare tid s)) (\<lambda>merged s2.
        if merged then Ok 0 s2
        else bindR (ipc_coalesce_key t (src AND 0xFFFF) tid (c_int code) l1 l2 s2) (\<lambda>merged s3.
        if merged then Ok 0 s3
        else ipc_store_message ''ipc_post_message_to_tid'' t (src AND 0xFFFF) tid (c_int code)
               l1 l2 (jiffies s3) (jiffies s3) s3))"
    using assms(3) unfolding t_def
    by (simp add: ipc_post_message_to_tid_def tid ipc_receiver_valid [OF assms(1) v] Let_def
        flip: ipc_prepare_def)
  show ?thesis
  proof (cases "c_int code = MSG_MOUSEMOVE")
    case True
    then have b: "upd_thread t (\<lambda>th. th\<lparr>th_quantum := 12, th_state := READY\<rparr>) (ipc_prepare tid s) = s1"
      by (simp add: s1_def boosted_def boost_for_move_def t_def upd_thread_def)
    have c: "c_int MSG_MOUSEMOVE = MSG_MOUSEMOVE" by (simp add: c_int_id is_int32_def)
    show ?thesis
      by (simp add: start True ipc_coalesce_mousemove_def b lm ls c st merges_def coalesce_key_move
          merge_into_def [abs_def] conj_commute)
  next
    case False
    then have "ipc_prepare tid s = s1" by (simp add: s1_def boosted_def)
    with False show ?thesis
      by (simp add: start ipc_coalesce_mousemove_def coalesce_key_live [OF k lv False] ls st)
  qed
qed

lemma merge_into_sel [simp]:
  "m_used (merge_into src dst code l1 l2 now m) = m_used m"
  "m_magic (merge_into src dst code l1 l2 now m) = m_magic m"
  "m_msg (merge_into src dst code l1 l2 now m) = m_msg m"
  "m_receiver_tid (merge_into src dst code l1 l2 now m) = dst"
  by (simp_all add: merge_into_def)

lemma post_total:
  assumes "kinv s" and "valid_tid s tid"
  shows "\<exists>r s'. ipc_post_message_to_tid src tid code l1 l2 s = Ok r s' \<and> kinv s'"
proof (cases "0 < c_int code")
  case True
  note k = boosted_inv [OF assms(1)]
  from post_valid [OF assms True] show ?thesis
    using stored_inv [OF k] by (auto simp: k kinv_upd_msg)
next
  case False
  with assms(1) show ?thesis by (simp add: ipc_post_message_to_tid_def)
qed

lemma post_mask: "ipc_post_message_to_tid src (tid AND 0xFFFF) code l1 l2 s = ipc_post_message_to_tid src tid code l1 l2 s"
  by (simp add: ipc_post_message_to_tid_def)

lemma post_inv [kernel_inv]:
  assumes "kinv s" and "ipc_post_message_to_tid src tid code l1 l2 s = Ok r s'"
  shows "kinv s'"
proof (cases "0 < c_int code")
  case False
  with assms show ?thesis by (simp add: ipc_post_message_to_tid_def)
next
  case True
  with assms(2) have "valid_tid s (tid AND 0xFFFF)"
    by (auto simp: ipc_post_message_to_tid_def Let_def bindR_eq_Ok dest!: ipc_receiver_state)
  from post_total [OF assms(1) this, of src code l1 l2] assms(2) show ?thesis
    by (simp add: post_mask)
qed

section \<open>Mouse moves\<close>

text \<open>One mouse move: the receiver's last message holds the new position.\<close>

lemma mousemove_step:
  assumes "kinv s" and v: "valid_tid s tid"
  defines "t \<equiv> threadList s tid"
  shows "\<exists>s'. ipc_post_message_to_tid src tid MSG_MOUSEMOVE x y s = Ok 0 s' \<and> kinv s' \<and>
     valid_tid s' tid \<and> threadList s' tid = t \<and>
     m_msg (mheap s' (last_slot s' t)) = MSG_MOUSEMOVE \<and> m_receiver_tid (mheap s' (last_slot s' t)) = tid \<and>
     m_long1 (mheap s' (last_slot s' t)) = x \<and> m_long2 (mheap s' (last_slot s' t)) = y \<and>
     th_MsgQueueTail (theap s' t) =
       (if m_msg (mheap s (last_slot s t)) = MSG_MOUSEMOVE \<and> m_receiver_tid (mheap s (last_slot s t)) = tid
        then th_MsgQueueTail (theap s t) else queue_next (th_MsgQueueTail (theap s t)))"
proof -
  have c: "c_int MSG_MOUSEMOVE = MSG_MOUSEMOVE" by (simp add: c_int_id is_int32_def)
  let ?s1 = "boosted tid MSG_MOUSEMOVE s"
  note fr = boosted_mail [OF v, of MSG_MOUSEMOVE, unfolded mail_frame_def]
  have k: "kinv ?s1" and l: "live ?s1 t" and q: "qidx (th_MsgQueueTail (theap s t))"
    using boosted_inv [OF assms(1)] fr v kinv_qidx [OF assms(1)] by (simp_all add: valid_tid_def t_def)
  have lv: "live (upd_thread p bump_tail u) z = live u z" for p u z
    by (rule live_upd_thread) (simp add: th_keeps_def bump_tail_def)
  have tb: "th_MsgQueueTail (bump_tail th) = queue_next (th_MsgQueueTail th)"
    "th_MsgQueue (bump_tail th) = th_MsgQueue th" for th
    by (simp_all add: bump_tail_def)
  show ?thesis
  proof (cases "merges tid MSG_MOUSEMOVE x (mheap s (last_slot s t))")
    case True
    define s' where "s' = upd_msg (last_slot s t) (merge_into (src AND 0xFFFF) tid MSG_MOUSEMOVE x y (jiffies s)) ?s1"
    have "ipc_post_message_to_tid src tid MSG_MOUSEMOVE x y s = Ok 0 s'"
      using post_valid [OF assms(1) v, of MSG_MOUSEMOVE src x y] True by (simp add: c s'_def t_def)
    moreover have "last_slot s' t = last_slot s t" "kinv s'"
      using fr k by (simp_all add: s'_def last_slot_def kinv_upd_msg)
    ultimately show ?thesis
      using True v fr by (auto simp: s'_def valid_tid_def t_def merges_def merge_into_def)
  next
    case False
    define s' where "s' = upd_thread t bump_tail (upd_msg (tail_slot s t)
      (posted (src AND 0xFFFF) tid MSG_MOUSEMOVE x y (jiffies s) (jiffies s)) ?s1)"
    have "ipc_post_message_to_tid src tid MSG_MOUSEMOVE x y s = Ok 0 s'"
      using post_valid [OF assms(1) v, of MSG_MOUSEMOVE src x y] False by (simp add: c s'_def t_def)
    moreover have "last_slot s' t = tail_slot s t" "kinv s'"
      using fr stored_inv [OF k] last_index_next [OF q, simplified]
      by (simp_all add: s'_def last_slot_def tail_slot_def tb)
    ultimately show ?thesis
      using False v fr by (auto simp: s'_def valid_tid_def t_def merges_def posted_def lv tb)
  qed
qed

primrec move_seq :: "int \<Rightarrow> int \<Rightarrow> (u64 \<times> u64) list \<Rightarrow> kstate \<Rightarrow> unit kres" where
  "move_seq src tid [] s = Ok () s"
| "move_seq src tid (xy # xys) s =
     bindR (ipc_post_message_to_tid src tid MSG_MOUSEMOVE (fst xy) (snd xy) s) (\<lambda>_ s'. move_seq src tid xys s')"

lemma move_seq_merged:
  assumes "kinv s" and "valid_tid s tid"
    and "m_msg (mheap s (last_slot s (threadList s tid))) = MSG_MOUSEMOVE"
    and "m_receiver_tid (mheap s (last_slot s (threadList s tid))) = tid"
  shows "\<exists>s'. move_seq src tid xys s = Ok () s' \<and> kinv s' \<and> threadList s' tid = threadList s tid \<and>
    m_msg (mheap s' (last_slot s' (threadList s tid))) = MSG_MOUSEMOVE \<and>
    th_MsgQueueTail (theap s' (threadList s tid)) = th_MsgQueueTail (theap s (threadList s tid)) \<and>
    (xys \<noteq> [] \<longrightarrow> m_long1 (mheap s' (last_slot s' (threadList s tid))) = fst (last xys) \<and>
       m_long2 (mheap s' (last_slot s' (threadList s tid))) = snd (last xys))"
  using assms
proof (induction xys arbitrary: s)
  case Nil
  then show ?case by simp
next
  case (Cons xy xys)
  obtain s1 where s1: "ipc_post_message_to_tid src tid MSG_MOUSEMOVE (fst xy) (snd xy) s = Ok 0 s1"
    "kinv s1" "valid_tid s1 tid" "threadList s1 tid = threadList s tid"
    "m_msg (mheap s1 (last_slot s1 (threadList s tid))) = MSG_MOUSEMOVE"
    "m_receiver_tid (mheap s1 (last_slot s1 (threadList s tid))) = tid"
    "m_long1 (mheap s1 (last_slot s1 (threadList s tid))) = fst xy"
    "m_long2 (mheap s1 (last_slot s1 (threadList s tid))) = snd xy"
    "th_MsgQueueTail (theap s1 (threadList s tid)) = th_MsgQueueTail (theap s (threadList s tid))"
    using mousemove_step [OF Cons.prems(1,2), of src "fst xy" "snd xy"] Cons.prems(3,4) by auto
  with Cons.IH [OF s1(2,3)] s1 show ?case
    by (cases "xys = []") auto
qed

section \<open>Preservation of the invariant\<close>

lemma ipc_get_message_inv [kernel_inv]:
  "kinv s \<Longrightarrow> ipc_get_message u b s = Ok r s' \<Longrightarrow> kinv s'"
  by (auto simp: ipc_get_message_def ipc_get_message_fail_def Let_def advance_head_inv kinv_upd_thread
      kinv_upd_msg th_keeps_def clear_message_def split: if_splits)

lemma sys_get_message_inv [kernel_inv]:
  "kinv s \<Longrightarrow> sys_get_message u b s = Ok r s' \<Longrightarrow> kinv s'"
  by (auto simp: sys_get_message_def ipc_get_message_inv split: if_splits)

lemma restart_queue_inv [kernel_inv]: "kinv s \<Longrightarrow> kinv (restart_queue t s)"
  by (simp add: restart_queue_def kinv_upd_thread th_keeps_def qidx_def MSG_QUEUE_MAX_def)

lemma sys_get_message2_inv [kernel_inv]:
  assumes "kinv s" and "sys_get_message2 u i restart b s = Ok r s'"
  shows "kinv s'"
proof -
  have k: "kinv (upd_thread t (\<lambda>th. th\<lparr>th_MsgQueueHead := i\<rparr>) s)" if "\<not> (i < 0 \<or> MSG_QUEUE_MAX \<le> i)" for t
    using assms(1) that by (simp add: kinv_upd_thread th_keeps_def qidx_def)
  have m: "kinv (upd_msg m clear_message u)" if "kinv u" for m u
    using that by (simp add: kinv_upd_msg clear_message_def)
  have f: "kinv u'" if "sys_get_message2_fail t x y z b u = Ok r u'" "kinv u" for t x y z u u'
    using that by (auto simp: sys_get_message2_fail_def Let_def restart_queue_inv advance_head_inv
        kinv_upd_thread th_keeps_def split: if_splits)
  from assms k show ?thesis
    by (auto simp: sys_get_message2_def Let_def m restart_queue_inv advance_head_inv
        split: if_splits dest: f)
qed

lemma ipc_destinations_inv [kernel_inv]:
  "kinv s \<Longrightarrow> ipc_post_message_to_foreground_thread msg l1 l2 s = Ok r s' \<Longrightarrow> kinv s'"
  "kinv s \<Longrightarrow> ipc_post_message_to_init msg l1 l2 s = Ok r s' \<Longrightarrow> kinv s'"
  "kinv s \<Longrightarrow> ipc_post_message_to_ds msg l1 l2 s = Ok r s' \<Longrightarrow> kinv s'"
  by (auto simp: ipc_post_message_to_foreground_thread_def ipc_post_message_to_init_def
      ipc_post_message_to_ds_def Let_def bindR_eq_Ok credits.op_inv split: if_splits
      dest: post_inv [rotated])

lemma ipc_post_input_event_to_ds_inv [kernel_inv]:
  "kinv s \<Longrightarrow> ipc_post_input_event_to_ds e l1 l2 s = Ok r s' \<Longrightarrow> kinv s'"
  by (auto simp: ipc_post_input_event_to_ds_def Let_def bindR_eq_Ok split: if_splits
      dest: ipc_destinations_inv(3) [rotated])

lemma ipc_broadcast_loop_inv:
  "kinv s \<Longrightarrow> ipc_broadcast_loop is src msg l1 l2 l3 l4 n s = Ok r s' \<Longrightarrow> kinv s'"
  by (induction "is" arbitrary: s n)
    (auto simp: Let_def bindR_eq_Ok split: if_splits dest: post2_inv [rotated])

lemma ipc_syscalls_inv [kernel_inv]:
  "kinv s \<Longrightarrow> sys_post_message_to_tid tid u m s = Ok r s' \<Longrightarrow> kinv s'"
  "kinv s \<Longrightarrow> sys_broadcast_system_message u m s = Ok r s' \<Longrightarrow> kinv s'"
  by (auto simp: sys_post_message_to_tid_def sys_broadcast_system_message_def
      ipc_broadcast_system_message_def Let_def bindR_eq_Ok split: if_splits
      dest: post2_inv [rotated] ipc_broadcast_loop_inv [rotated])

section \<open>Properties\<close>

text \<open>C10. Order of delivery: when the head of the message queue of the current thread is at its
  tail, as it is in a new queue, up to 64 messages posted to it are all accepted, and as many calls of the
  system call \<open>sys_get_message\<close> by this thread return exactly them, in the order of posting, without a panic or a
  fault. A poll of an empty queue moves the head past the tail, and the order is lost (\<open>ipc_empty_poll_breaks_order\<close>).\<close>

theorem ipc_delivers_in_order:
  assumes "kinv s" and "valid_tid s tid" and "current_thread s = tid"
    and "th_MsgQueueHead (theap s (threadList s tid)) = th_MsgQueueTail (theap s (threadList s tid))"
    and "list_all post_ok as" and "length as \<le> 64" and "u \<noteq> 0"
  shows "\<exists>s'. bindR (post_seq tid as s) (\<lambda>_. read_seq (length as) u b)
                = Ok (map (\<lambda>a. Some (post_words tid a)) as) s' \<and> kinv s'"
proof -
  have i: "box_inv tid s" using assms(1-3) by (simp add: box_inv_def)
  note p = mb.posts_spec [OF i assms(5,6)]
  then have i': "box_inv tid (fold (box_post tid) as s)" by simp
  have "box_head tid s = box_tail tid s" using assms(4) by (simp add: box_head_def box_tail_def)
  from mb.fifo [OF i assms(5,6) this, of b] mb.polls_spec [OF i' assms(6), of b] show ?thesis
    by (simp add: post_seq_Ok [OF i assms(5)] read_seq_Ok [OF i' assms(7)] box_inv_def)
qed

theorem ipc_delivers_in_order_witness:
  "\<exists>s'. bindR (post_seq 0 [(1, 10, 1, 2, 3, 4), (2, 11, 5, 6, 7, 8)] demo) (\<lambda>_. read_seq (Suc (Suc 0)) 7 (\<lambda>_. 0))
      = Ok [Some [0, 10, 1, 2, 3, 4, 1, 0], Some [0, 11, 5, 6, 7, 8, 2, 0]] s' \<and> kinv s'"
  using ipc_delivers_in_order [of demo 0 "[(1, 10, 1, 2, 3, 4), (2, 11, 5, 6, 7, 8)]" 7 "\<lambda>_. 0"]
  by (simp add: post_ok_def is_int32_def post_words_def demo_threads_def demo_threadList_def)

text \<open>No message is lost by polling: 64 calls of \<open>sys_get_message\<close> return the content of every
  slot of the caller's queue, starting at the head and going round, and leave all slots empty.\<close>

theorem ipc_drain:
  assumes "kinv s" and "valid_tid s tid" and "current_thread s = tid" and "u \<noteq> 0"
  shows "\<exists>s'. read_seq 64 u b s
      = Ok (map (\<lambda>i. box_slot tid s ((box_head tid s + i) mod 64)) [0..<64]) s' \<and>
    kinv s' \<and> (\<forall>k < 64. box_slot tid s' k = None)"
proof -
  have i: "box_inv tid s" using assms(1-3) by (simp add: box_inv_def)
  from mb.drain [OF i, where b = b] mb.polls_spec [OF i order.refl, of b] show ?thesis
    by (simp add: read_seq_Ok [OF i assms(4)] box_inv_def)
qed

theorem ipc_drain_witness:
  "\<exists>s'. read_seq 64 7 (\<lambda>_. 0) demo = Ok (map (\<lambda>i. box_slot 0 demo ((box_head 0 demo + i) mod 64)) [0..<64]) s' \<and>
    kinv s' \<and> (\<forall>k < 64. box_slot 0 s' k = None)"
  by (rule ipc_drain) simp_all

text \<open>The poll of an empty queue moves the head, so the order of delivery is lost: after one poll
  that found nothing, of two messages posted next the second one is returned first, and the first
  one comes only after the head has gone round the whole queue.\<close>

theorem ipc_empty_poll_breaks_order:
  assumes "kinv s" and "valid_tid s tid" and "current_thread s = tid" and "u \<noteq> 0"
    and "th_MsgQueueHead (theap s (threadList s tid)) = th_MsgQueueTail (theap s (threadList s tid))"
    and "\<forall>k < 64. box_slot tid s k = None" and "post_ok a" and "post_ok a'"
  shows "\<exists>s'. bindR (read_seq 1 u b s) (\<lambda>_ s1. bindR (post_seq tid [a, a'] s1) (\<lambda>_. read_seq 1 u b))
    = Ok [Some (post_words tid a')] s'"
proof -
  have i: "box_inv tid s" using assms(1-3) by (simp add: box_inv_def)
  let ?s1 = "snd (mb.polls b 1 s)"
  note q = mb.polls_spec [OF i, where n = 1 and b = b]
  have i1: "box_inv tid ?s1" and h1: "box_head tid ?s1 = (box_tail tid s + 1) mod 64"
    and t1: "box_tail tid ?s1 = box_tail tid s"
    using q assms(5) mb.poll_tail [OF i, of b] by (simp_all add: box_head_def box_tail_def split_beta)
  have ok: "list_all post_ok [a, a']" using assms(7,8) by simp
  let ?s2 = "fold (box_post tid) [a, a'] ?s1"
  note p = mb.posts_spec [OF i1 ok]
  have i2: "box_inv tid ?s2" using p by simp
  have "box_slot tid ?s2 (box_head tid ?s2) = Some (post_words tid a')"
    using p [THEN conjunct2, THEN conjunct2, THEN conjunct1, rule_format, of 1] p h1 t1 by simp
  then have "fst (mb.polls b 1 ?s2) = [Some (post_words tid a')]"
    using mb.poll_result [OF i2, of b] by (simp add: split_beta)
  then show ?thesis
    by (simp only: read_seq_Ok [OF i assms(4)] bindR.simps post_seq_Ok [OF i1 ok] read_seq_Ok [OF i2 assms(4)]) simp
qed

lemma box_slot_demo [simp]: "box_slot tid demo k = None"
  by (simp add: box_slot_def blank_msg_def)

theorem ipc_empty_poll_breaks_order_witness:
  "\<exists>s'. bindR (read_seq 1 7 (\<lambda>_. 0) demo)
     (\<lambda>_ s1. bindR (post_seq 0 [(1, 10, 1, 2, 3, 4), (1, 11, 5, 6, 7, 8)] s1) (\<lambda>_. read_seq 1 7 (\<lambda>_. 0)))
    = Ok [Some (post_words 0 (1, 11, 5, 6, 7, 8))] s'"
  by (rule ipc_empty_poll_breaks_order)
    (simp_all add: post_ok_def is_int32_def demo_threads_def demo_threadList_def)

text \<open>Mouse moves do not flood the queue: however many moves are posted to a thread in a row, the
  tail of its queue advances by at most one slot, and the last message of the queue is a mouse move
  with the last position.\<close>

theorem ipc_mouse_moves_coalesce:
  assumes "kinv s" and "valid_tid s tid" and "xys \<noteq> []"
  defines "t \<equiv> threadList s tid"
  shows "\<exists>s'. move_seq src tid xys s = Ok () s' \<and> kinv s' \<and>
    th_MsgQueueTail (theap s' t) \<in> {th_MsgQueueTail (theap s t), queue_next (th_MsgQueueTail (theap s t))} \<and>
    m_msg (mheap s' (last_slot s' t)) = MSG_MOUSEMOVE \<and>
    m_long1 (mheap s' (last_slot s' t)) = fst (last xys) \<and>
    m_long2 (mheap s' (last_slot s' t)) = snd (last xys)"
proof -
  obtain xy xys' where xys: "xys = xy # xys'" using assms(3) by (cases xys) auto
  obtain s1 where s1: "ipc_post_message_to_tid src tid MSG_MOUSEMOVE (fst xy) (snd xy) s = Ok 0 s1"
    "kinv s1" "valid_tid s1 tid" "threadList s1 tid = t"
    "m_msg (mheap s1 (last_slot s1 t)) = MSG_MOUSEMOVE"
    "m_receiver_tid (mheap s1 (last_slot s1 t)) = tid"
    "m_long1 (mheap s1 (last_slot s1 t)) = fst xy" "m_long2 (mheap s1 (last_slot s1 t)) = snd xy"
    "th_MsgQueueTail (theap s1 t) \<in> {th_MsgQueueTail (theap s t), queue_next (th_MsgQueueTail (theap s t))}"
    using mousemove_step [OF assms(1,2), of src "fst xy" "snd xy"] by (auto simp: t_def)
  then show ?thesis
    using move_seq_merged [OF s1(2,3), of src xys'] by (cases "xys' = []") (auto simp: xys)
qed

theorem ipc_mouse_moves_coalesce_witness:
  "\<exists>s'. move_seq 99 1 [(10, 20), (11, 21), (12, 22)] demo = Ok () s' \<and> kinv s' \<and>
    th_MsgQueueTail (theap s' 0x2000) \<in> {0, 1} \<and> m_msg (mheap s' (last_slot s' 0x2000)) = 32 \<and>
    m_long1 (mheap s' (last_slot s' 0x2000)) = 12 \<and> m_long2 (mheap s' (last_slot s' 0x2000)) = 22"
  using ipc_mouse_moves_coalesce [of demo 1 "[(10, 20), (11, 21), (12, 22)]" 99]
  by (simp add: demo_threadList_def demo_threads_def queue_next_def MSG_QUEUE_MAX_def)

text \<open>Functional behaviour of \<open>ipc_post_message_to_tid\<close> for a valid receiver and a positive
  code: it returns 0; a mouse move, a repeated key or a control arrow is merged into the last
  message, every other message is written to the slot at the tail with the time of posting and the
  tail advances; no other slot of any queue changes.\<close>

theorem ipc_post_behaviour:
  assumes "kinv s" and "valid_tid s tid" and "0 < c_int code"
  defines "t \<equiv> threadList s tid"
  shows "\<exists>s'. ipc_post_message_to_tid src tid code l1 l2 s = Ok 0 s' \<and> kinv s' \<and>
    (if merges tid (c_int code) l1 (mheap s (last_slot s t))
     then mheap s' = (mheap s)(last_slot s t :=
            merge_into (src AND 0xFFFF) tid (c_int code) l1 l2 (jiffies s) (mheap s (last_slot s t))) \<and>
          th_MsgQueueTail (theap s' t) = th_MsgQueueTail (theap s t)
     else mheap s' = (mheap s)(tail_slot s t :=
            posted (src AND 0xFFFF) tid (c_int code) l1 l2 (jiffies s) (jiffies s) (mheap s (tail_slot s t))) \<and>
          th_MsgQueueTail (theap s' t) = queue_next (th_MsgQueueTail (theap s t)))"
proof -
  note fr = boosted_mail [OF assms(2), of "c_int code", unfolded mail_frame_def]
  note k = boosted_inv [OF assms(1)]
  from post_valid [OF assms(1-3), of src l1 l2] show ?thesis
    using fr stored_inv [OF k] by (simp add: k kinv_upd_msg t_def bump_tail_def)
qed

theorem ipc_post_behaviour_witness:
  "\<exists>s'. ipc_post_message_to_tid 99 1 20 65 30 demo = Ok 0 s' \<and> kinv s' \<and>
     mheap s' 0x11000 = posted 99 1 20 65 30 100 100 blank_msg \<and> th_MsgQueueTail (theap s' 0x2000) = 1"
proof -
  have c: "c_int 20 = 20" by (simp add: c_int_id is_int32_def)
  show ?thesis
    using ipc_post_behaviour [of demo 1 20 99 65 30]
    by (auto simp: c merges_def blank_msg_def demo_threadList_def demo_threads_def queue_next_def
        MSG_QUEUE_MAX_def tail_slot_def)
qed

text \<open>A system call can stop the kernel: posting a message with a nonnegative code to a tid in
  range that no thread has panics, where every other bad argument of \<open>sys_post_message_to_tid\<close>
  is refused with 0.\<close>

theorem sys_post_to_free_tid_panics:
  assumes "tid_in_range tid" and "threadList s tid = NULL" and "u \<noteq> 0"
    and "0 \<le> c_int (uint (m 1 AND 0xFFFFFFFF))"
  shows "sys_post_message_to_tid tid u m s = Panic ''ipc_post_message_to_tid2: t''"
  using assms by (simp add: sys_post_message_to_tid_def ipc_post_message_to_tid2_def ipc_receiver_def
      Let_def) (simp add: tid_in_range_def)

theorem sys_post_to_free_tid_panics_witness:
  "sys_post_message_to_tid 9 7 (\<lambda>_. 0) demo = Panic ''ipc_post_message_to_tid2: t''"
  by (rule sys_post_to_free_tid_panics)
    (simp_all add: tid_in_range_def THREAD_COUNT_MAX_def demo_threadList_def c_int_def)

text \<open>Every input event posted to the display server other than a mouse move is reported as a
  failure (-1), also when the message was delivered.\<close>

theorem ipc_input_event_result:
  assumes "ipc_post_input_event_to_ds e l1 l2 s = Ok r s'"
  shows "r = (if e = MSG_MOUSEMOVE then 0 else -1)"
  using assms by (auto simp: ipc_post_input_event_to_ds_def bindR_eq_Ok Let_def split: if_splits)

theorem ipc_input_event_result_witness:
  "\<exists>r s'. ipc_post_input_event_to_ds 20 65 0 (demo\<lparr>DisplayServerInfo := \<lparr>ds_initialized = 1, ds_tid = 1\<rparr>\<rparr>) = Ok r s' \<and>
     r = -1"
proof -
  let ?s = "demo\<lparr>DisplayServerInfo := \<lparr>ds_initialized = 1, ds_tid = 1\<rparr>\<rparr>"
  let ?s1 = "do_credits_by_tid 1 (do_credits_by_tid 1 ?s)"
  have k: "kinv ?s1" by (simp add: credits.op_inv)
  have v: "valid_tid ?s1 1"
    by (simp add: valid_tid_def credits.op_globals credits.op_live live_irrelevant [of ?s demo]
        live_demo demo_threadList_def)
  from post_total [OF k v, of 99 20 65 65] obtain r s' where
    "ipc_post_message_to_tid 99 1 20 65 65 ?s1 = Ok r s'" by blast
  then have e: "ipc_post_input_event_to_ds 20 65 0 ?s = Ok (-1) s'"
    by (simp add: ipc_post_input_event_to_ds_def ipc_post_message_to_ds_def THREAD_COUNT_MAX_def)
  from ipc_input_event_result [OF e] e show ?thesis by auto
qed

end
