(* ===== verification/Tick.thy ===== *)
theory Tick
  imports Task_Switch_Laws Ipc_Laws
begin

text \<open>
  The timer tick as a whole: the end of a quantum, the spawning of threads in standby, the delivery
  of callbacks and the interrupt handler. \<open>run_ok\<close> is the invariant between two ticks.
\<close>

section \<open>Spawning\<close>

lemma find_standby_None:
  assumes "kinv s"
  shows "find_standby s = None \<longleftrightarrow> (\<forall>p. state_after s p \<noteq> Some STANDBY)"
proof -
  have "find_standby s = None \<longleftrightarrow> (\<forall>i. tid_in_range i \<longrightarrow> state_after s (threadList s i) \<noteq> Some STANDBY)"
    unfolding find_standby_def list.case_eq_if
    by (auto simp: Let_def filter_empty_conv set_all_tids state_after_def live_def)
  also have "\<dots> \<longleftrightarrow> (\<forall>p. state_after s p \<noteq> Some STANDBY)"
    using kinv_live_slot [OF assms] by (metis option.distinct(1) state_after_def)
  finally show ?thesis .
qed

lemma find_standby_Some:
  assumes "kinv s" and "find_standby s = Some tid"
  shows "valid_tid s tid" and "th_state (theap s (threadList s tid)) = STANDBY"
proof -
  let ?P = "\<lambda>i. let t = threadList s i in t \<noteq> NULL \<and> th_used (theap s t) = TRUE \<and>
             th_magic (theap s t) = 1234 \<and> th_state (theap s t) = STANDBY"
  obtain i js where i: "filter ?P all_tids = i # js" "tid = th_tid (theap s (threadList s i))"
    using assms(2) by (auto simp: find_standby_def split: list.splits)
  have "i \<in> set (filter ?P all_tids)" by (simp add: i(1))
  then have "tid_in_range i" "live s (threadList s i)" "th_state (theap s (threadList s i)) = STANDBY"
    by (simp_all add: Let_def set_all_tids live_def)
  moreover have "tid = i" using kinv_slot_tid [OF assms(1)] calculation i(2) by (simp add: live_def)
  ultimately show "valid_tid s tid" "th_state (theap s (threadList s tid)) = STANDBY"
    by (simp_all add: valid_tid_def)
qed

text \<open>A thread in standby that the spawn routine accepts.\<close>

definition spawnable :: "kstate \<Rightarrow> ptr \<Rightarrow> bool" where
  "spawnable s p \<longleftrightarrow> p \<noteq> InitThread s \<and> th_saved (theap s p) \<noteq> TRUE \<and> th_te (theap s p) \<noteq> NULL"

definition spawned :: "kstate \<Rightarrow> int \<Rightarrow> kstate" where
  "spawned s tid = (let t = threadList s tid in
     (upd_thread t (\<lambda>th. (spawn_fields s th)\<lparr>th_to_user := th_to_user th + 1\<rparr>) s)
       \<lparr>task_switch_status := 1, SchedulerInfo := (SchedulerInfo s)\<lparr>si_is_locked := 1\<rparr>,
        current_pid := th_tgid (theap s t), current_thread := tid, cr3 := th_pml4_PA (theap s t),
        iret_rip := c_rip (th_context (theap s t)), iret_rsp := c_rsp (th_context (theap s t)) - 8\<rparr>)"

lemma spawn_fields_sel [simp]:
  "th_state th = STANDBY \<Longrightarrow> th_state (spawn_fields s th) = RUNNING" "th_te (spawn_fields s th) = th_te th"
  "th_tgid (spawn_fields s th) = th_tgid th" "th_tid (spawn_fields s th) = th_tid th"
  "th_cpl (spawn_fields s th) = th_cpl th" "th_pml4_PA (spawn_fields s th) = th_pml4_PA th"
  "th_context (spawn_fields s th) = th_context th" "th_to_user (spawn_fields s th) = th_to_user th"
  "th_used (spawn_fields s th) = th_used th" "th_magic (spawn_fields s th) = th_magic th"
  "th_is_alertable (spawn_fields s th) = th_is_alertable th" "th_saved (spawn_fields s th) = FALSE"
  "th_callback_in_progress (spawn_fields s th) = th_callback_in_progress th" "th_keeps th (spawn_fields s th)"
  by (simp_all add: spawn_fields_def Let_def th_keeps_def)

lemma spawn_ok:
  assumes k: "kinv s" and c: "counters_ok s" and eoi: "spawn_eoi_is_necessary s = TRUE"
    and f: "find_standby s = Some tid" and sp: "spawnable s (threadList s tid)"
  obtains b where "dc_magic b = 1234" and
    "schedi_check_for_standby s = Iretq ((spawned s tid)\<lparr>DispatchCountBlock := Some b\<rparr>)"
proof -
  let ?t = "threadList s tid"
  note v = find_standby_Some [OF k f]
  have r: "tid_in_range tid" and l: "live s ?t" using v(1) by (simp_all add: valid_tid_def)
  have tid: "th_tid (theap s ?t) = tid" using kinv_slot_tid [OF k r] l by (simp add: live_def)
  have n: "tid \<noteq> INIT_TID" using sp kinv_InitThread(4) [OF k] by (auto simp: spawnable_def)
  have te: "te_valid s (th_tgid (theap s ?t))" "th_cpl (theap s ?t) = 3" using kinv_te [OF k l] by auto
  have c32: "c_int tid = tid"
    using r by (simp add: c_int_id is_int32_def tid_in_range_def THREAD_COUNT_MAX_def)
  have rng: "\<not> tid < 0" "\<not> THREAD_COUNT_MAX \<le> tid" using r by (simp_all add: tid_in_range_def)
  have cur: "set_current_thread tid u = u\<lparr>current_thread := tid\<rparr>" if "live u (threadList u tid)" for u
    using that rng by (auto simp: set_current_thread_def Let_def live_def)
  define s3 where "s3 = (upd_thread ?t (spawn_fields s) s)\<lparr>task_switch_status := 1,
      SchedulerInfo := (SchedulerInfo s)\<lparr>si_is_locked := 1\<rparr>, current_pid := th_tgid (theap s ?t), current_thread := tid\<rparr>"
  obtain b where b: "IncrementDispatcherCount SELECT_INITIALIZED_COUNT s3 = Ok () (s3\<lparr>DispatchCountBlock := Some b\<rparr>)"
    "dc_magic b = 1234"
    using IncrementDispatcherCount_ok [of s3 SELECT_INITIALIZED_COUNT] c by (auto simp: s3_def counters_ok_def)
  have rel: "spawn_release ?t s3 = Iretq ((spawned s tid)\<lparr>DispatchCountBlock := Some b\<rparr>)"
    unfolding spawn_release_def b(1) bindR.simps
    using te(2) eoi by (simp add: Let_def spawn_load_pml4_table_def spawn_is_eoi_needed_def
        spawn_enter_usermode_def s3_def spawned_def upd_thread_def)
  have sf: "spawn_fields (s\<lparr>current_thread := tid\<rparr>) = spawn_fields s" by (simp add: spawn_fields_def fun_eq_iff)
  have "spawn_thread_by_tid_imp tid (s\<lparr>current_thread := tid\<rparr>) = spawn_release ?t s3"
    using l v(2) sp te rng tid
    by (simp add: spawn_thread_by_tid_imp_def c32 Let_def live_def spawnable_def cur sf set_taskswitch_status_def
        scheduler_unlock_def set_current_process_def te_valid_def s3_def upd_thread_def)
  with rel rng n f l that [OF b(2)] show ?thesis
    by (simp add: schedi_check_for_standby_def psSpawnThreadByTID_def cur)
qed

section \<open>The invariant between two ticks\<close>

definition quiet :: "thread_d \<Rightarrow> bool" where
  "quiet th \<longleftrightarrow> th_callback_in_progress th \<noteq> TRUE \<and> th_is_alertable th \<noteq> TRUE"

definition threads_ok :: "kstate \<Rightarrow> bool" where
  "threads_ok s \<longleftrightarrow> (\<forall>p. live s p \<longrightarrow> quiet (theap s p)) \<and> (\<forall>p. state_after s p = Some STANDBY \<longrightarrow> spawnable s p)"

definition run_ok :: "kstate \<Rightarrow> bool" where
  "run_ok s \<longleftrightarrow> ts_ok s \<and> threads_ok s \<and> valid_tid s (current_thread s) \<and>
     th_state (theap s (threadList s (current_thread s))) \<noteq> STANDBY \<and> currentq s \<noteq> NULL \<and>
     task_switch_status s \<in> {0, 1} \<and> 0 \<le> current_pid s \<and> current_pid s < PROCESS_COUNT_MAX"

lemma run_ok_cong:
  assumes "run_ok s" and "theap u = theap s" and "mheap u = mheap s" and "pheap u = pheap s"
    and "threadList u = threadList s" and "teList u = teList s" and "InitThread u = InitThread s"
    and "UPProcessorBlock u = UPProcessorBlock s" and "SchedulerInfo u = SchedulerInfo s"
    and "system_state u = system_state s" and "current_thread u = current_thread s" and "currentq u \<noteq> NULL"
    and "task_switch_status u = task_switch_status s" and "0 \<le> current_pid u" and "current_pid u < PROCESS_COUNT_MAX"
    and "counters_ok u"
  shows "run_ok u"
proof -
  have l: "live u p = live s p" "state_after u p = state_after s p" for p
    by (simp_all add: live_def state_after_def assms(2))
  have "kinv u = kinv s" using assms by (intro kinv_cong) simp_all
  with assms l show ?thesis
    by (simp add: run_ok_def ts_ok_def sched_ok_def threads_ok_def valid_tid_def spawnable_def)
qed

lemma run_ok_facts:
  "run_ok s \<Longrightarrow> counters_ok s" "run_ok s \<Longrightarrow> currentq s \<noteq> NULL" "run_ok s \<Longrightarrow> 0 \<le> current_pid s"
  "run_ok s \<Longrightarrow> current_pid s < PROCESS_COUNT_MAX"
  by (simp_all add: run_ok_def ts_ok_def)

lemma run_ok_irrelevant:
  assumes "run_ok s"
  shows "run_ok (s\<lparr>jiffies := a\<rparr>)" "run_ok (s\<lparr>spawn_eoi_is_necessary := b\<rparr>)" "run_ok (s\<lparr>foreground_thread := c\<rparr>)"
    "run_ok (s\<lparr>ev_responder_thread := d\<rparr>)" "run_ok (s\<lparr>frame := f, contextCPL := g\<rparr>)"
    "run_ok (s\<lparr>extra := c, dead_thread_collector_flag := c'\<rparr>)"
  using run_ok_facts [OF assms]
  by (auto intro: run_ok_cong [OF assms] simp: counters_ok_def)

text \<open>Changes of one thread that a running system tolerates.\<close>

definition th_calm :: "thread_d \<Rightarrow> thread_d \<Rightarrow> bool" where
  "th_calm x y \<longleftrightarrow> th_keeps x y \<and> th_callback_in_progress y = th_callback_in_progress x \<and>
     th_is_alertable y = th_is_alertable x \<and>
     (th_state y = STANDBY \<longrightarrow> th_state x = STANDBY \<and> th_saved y = th_saved x \<and> th_te y = th_te x)"

lemma run_ok_upd:
  assumes r: "run_ok s" and c: "th_calm (theap s p) (f (theap s p))"
  shows "run_ok (upd_thread p f s)"
proof -
  let ?u = "upd_thread p f s"
  have k: "th_keeps (theap s p) (f (theap s p))" using c by (simp add: th_calm_def)
  note l = live_upd_thread [of s p f, OF k]
  have "kinv ?u" using r k by (simp add: run_ok_def ts_okD kinv_upd_thread)
  then have "ts_ok ?u" using r by (simp add: run_ok_def ts_ok_def sched_ok_def counters_ok_def)
  moreover have "threads_ok ?u"
    unfolding threads_ok_def
  proof (intro conjI allI impI)
    fix q
    show "quiet (theap ?u q)" if "live ?u q"
      using r that c unfolding l by (auto simp: run_ok_def threads_ok_def quiet_def th_calm_def)
    show "spawnable ?u q" if "state_after ?u q = Some STANDBY"
    proof -
      have q: "live s q" "th_state (theap ?u q) = STANDBY" using that by (auto simp: state_after_def l split: if_splits)
      then have "state_after s q = Some STANDBY \<and> th_saved (theap ?u q) = th_saved (theap s q) \<and>
          th_te (theap ?u q) = th_te (theap s q)"
        using c by (auto simp: th_calm_def state_after_def split: if_splits)
      with r show ?thesis by (simp add: run_ok_def threads_ok_def spawnable_def)
    qed
  qed
  moreover have "valid_tid ?u (current_thread ?u)" using r by (simp add: run_ok_def valid_tid_def l)
  moreover have "th_state (theap ?u (threadList ?u (current_thread ?u))) \<noteq> STANDBY"
    using r c by (auto simp: run_ok_def th_calm_def)
  ultimately show ?thesis using r by (simp add: run_ok_def)
qed

lemma released_toD:
  assumes "released_to s s'"
  shows "ts_ok s'" "valid_tid s' (current_thread s')" "currentq s' \<noteq> NULL"
    "th_state (theap s' (threadList s' (current_thread s'))) = RUNNING" "InitThread s' = InitThread s"
    "current_pid s' = th_tgid (theap s' (threadList s' (current_thread s')))"
    "task_switch_status s' = task_switch_status s"
    "x \<in> {STANDBY, WAITING} \<Longrightarrow> state_after s' p = Some x \<Longrightarrow> state_after s p = Some x"
    "th_runningCount (theap s' (threadList s' (current_thread s'))) = 0"
    "frame s' = context_to_frame (th_context (theap s (threadList s' (current_thread s')))) (frame s)"
    "cr3 s' = th_pml4_PA (theap s (threadList s' (current_thread s')))"
  using assms unfolding released_to_def Let_def by blast+

lemma released_to_same:
  assumes "released_to s s'"
  shows "th_context (theap s' p) = th_context (theap s p)" "th_pml4_PA (theap s' p) = th_pml4_PA (theap s p)"
    "th_Deferred (theap s' p) = th_Deferred (theap s p)"
  using assms by (simp_all add: released_to_def Let_def th_same_def)

lemma run_ok_released:
  assumes "threads_ok s" and "task_switch_status s \<in> {0, 1}" and rel: "released_to s s'"
  shows "run_ok s'"
proof -
  let ?t = "threadList s' (current_thread s')"
  have lv: "live s p" if "live s' p" for p
    using rel that by (auto simp: released_to_def Let_def th_same_def live_def)
  have same: "th_callback_in_progress (theap s' p) = th_callback_in_progress (theap s p)"
    "th_is_alertable (theap s' p) = th_is_alertable (theap s p)" "th_te (theap s' p) = th_te (theap s p)"
    "p \<noteq> ?t \<Longrightarrow> th_saved (theap s' p) = th_saved (theap s p)" for p
    using rel by (simp_all add: released_to_def Let_def th_same_def)
  have "live s' p \<Longrightarrow> quiet (theap s' p)" for p
    using assms(1) lv [of p] by (simp add: threads_ok_def quiet_def same)
  moreover have "spawnable s' p" if "state_after s' p = Some STANDBY" for p
  proof -
    have "p \<noteq> ?t" using that released_toD(4) [OF rel] by (auto simp: state_after_def split: if_splits)
    moreover have "state_after s p = Some STANDBY" using that released_toD(8) [OF rel] by simp
    ultimately show ?thesis
      using assms(1) released_toD(5) [OF rel] by (simp add: threads_ok_def spawnable_def same)
  qed
  ultimately have "threads_ok s'" by (simp add: threads_ok_def)
  moreover have "te_valid s' (th_tgid (theap s' ?t))"
    using kinv_te [OF ts_okD(3) [OF released_toD(1) [OF rel]]] released_toD(2) [OF rel] by (simp add: valid_tid_def)
  ultimately show ?thesis
    using assms(2) released_toD(1-7) [OF rel] by (simp add: run_ok_def te_valid_def)
qed

lemma run_ok_spawned:
  assumes r: "run_ok s" and f: "find_standby s = Some tid" and "dc_magic b = 1234"
  shows "run_ok ((spawned s tid)\<lparr>DispatchCountBlock := Some b\<rparr>)" (is "run_ok ?u")
proof -
  let ?t = "threadList s tid"
  have k: "kinv s" using r by (simp add: run_ok_def ts_okD)
  note v = find_standby_Some [OF k f]
  have l: "live ?u p = live s p" for p by (simp add: spawned_def Let_def live_def)
  have "kinv (upd_thread ?t (\<lambda>th. (spawn_fields s th)\<lparr>th_to_user := th_to_user th + 1\<rparr>) s)"
    using k spawn_fields_sel(14) [of "theap s ?t" s] by (intro kinv_upd_thread) (simp_all add: th_keeps_def)
  then have "kinv ?u" by (simp add: spawned_def Let_def)
  then have "ts_ok ?u"
    using r assms(3) by (simp add: run_ok_def ts_ok_def sched_ok_def counters_ok_def spawned_def Let_def)
  moreover have "threads_ok ?u"
  proof -
    have "quiet (theap ?u p)" if "live s p" for p
      using r that by (auto simp: run_ok_def threads_ok_def quiet_def spawned_def Let_def)
    moreover have "spawnable ?u p" if "state_after ?u p = Some STANDBY" for p
    proof -
      have "live s p" "th_state (theap ?u p) = STANDBY"
        using that by (auto simp: state_after_def l split: if_splits)
      then have "p \<noteq> ?t" "state_after s p = Some STANDBY"
        using v(2) by (auto simp: state_after_def spawned_def Let_def split: if_splits)
      with r show ?thesis by (simp add: run_ok_def threads_ok_def spawnable_def spawned_def Let_def)
    qed
    ultimately show ?thesis by (simp add: threads_ok_def l)
  qed
  moreover have "valid_tid ?u tid" using v(1) by (simp add: valid_tid_def l) (simp add: spawned_def Let_def)
  moreover have "th_state (theap ?u ?t) = RUNNING" using v(2) by (simp add: spawned_def Let_def)
  moreover have "te_valid s (th_tgid (theap s ?t))" using kinv_te [OF k] v(1) by (simp add: valid_tid_def)
  ultimately show ?thesis
    using r by (simp add: run_ok_def te_valid_def) (simp add: spawned_def Let_def)
qed

section \<open>One tick\<close>

abbreviation cur :: "kstate \<Rightarrow> ptr" where
  "cur s \<equiv> threadList s (current_thread s)"

lemma run_okD:
  assumes "run_ok s"
  shows "kinv s" "ts_ok s" "valid_tid s (current_thread s)" "live s (cur s)" "th_state (theap s (cur s)) \<noteq> STANDBY"
    "te_valid s (th_tgid (theap s (cur s)))" "th_cpl (theap s (cur s)) = 3" "quiet (theap s (cur s))"
proof -
  show "kinv s" "ts_ok s" "valid_tid s (current_thread s)" "live s (cur s)" "th_state (theap s (cur s)) \<noteq> STANDBY"
    using assms by (simp_all add: run_ok_def ts_okD valid_tid_def)
  then show "te_valid s (th_tgid (theap s (cur s)))" "th_cpl (theap s (cur s)) = 3" "quiet (theap s (cur s))"
    using kinv_te assms by (auto simp: run_ok_def threads_ok_def)
qed

text \<open>The current thread after the counting of the tick, and after its registers were saved.\<close>

definition counted :: "kstate \<Rightarrow> kstate" where
  "counted s = upd_thread (cur s) ts_count_fields (s\<lparr>current_pid := th_tgid (theap s (cur s))\<rparr>)"

definition interrupted :: "kstate \<Rightarrow> kstate" where
  "interrupted s = upd_thread (cur s) (\<lambda>th. (saved_fields s th)\<lparr>th_saved := TRUE\<rparr>) (counted s)"

lemma count_fields_sel [simp]:
  "th_keeps th (ts_count_fields th)" "th_state (ts_count_fields th) = th_state th"
  "th_quantum (ts_count_fields th) = th_quantum th" "th_runningCount (ts_count_fields th) = th_runningCount th + 1"
  "th_callback_in_progress (ts_count_fields th) = th_callback_in_progress th" "th_saved (ts_count_fields th) = th_saved th"
  "th_is_alertable (ts_count_fields th) = th_is_alertable th" "th_te (ts_count_fields th) = th_te th"
  "th_context (ts_count_fields th) = th_context th" "th_Deferred (ts_count_fields th) = th_Deferred th"
  "th_used (ts_count_fields th) = th_used th" "th_magic (ts_count_fields th) = th_magic th"
  "th_tid (ts_count_fields th) = th_tid th" "th_cpl (ts_count_fields th) = th_cpl th"
  by (simp_all add: ts_count_fields_def Let_def th_keeps_def)

lemma saved_fields_sel [simp]:
  "th_state (saved_fields s th) = th_state th" "th_quantum (saved_fields s th) = th_quantum th"
  "th_runningCount (saved_fields s th) = th_runningCount th" "th_is_alertable (saved_fields s th) = th_is_alertable th"
  "th_callback_in_progress (saved_fields s th) = th_callback_in_progress th" "th_Deferred (saved_fields s th) = th_Deferred th"
  "th_tid (saved_fields s th) = th_tid th" "th_magic (saved_fields s th) = th_magic th"
  "th_context (saved_fields s th) = frame_to_context (frame s) (th_context th)" "th_used (saved_fields s th) = th_used th"
  by (simp_all add: saved_fields_def)

lemma run_ok_counted: "run_ok s \<Longrightarrow> run_ok (counted s)"
  unfolding counted_def
  by (rule run_ok_upd, rule run_ok_cong, assumption)
    (use run_okD(6) [of s] in \<open>simp_all add: run_ok_def ts_ok_def counters_ok_def te_valid_def th_calm_def\<close>)

lemma run_ok_interrupted:
  assumes "run_ok s"
  shows "run_ok (interrupted s)"
proof -
  have "th_keeps th ((saved_fields s th)\<lparr>th_saved := TRUE\<rparr>)" for th
    using saved_fields_keeps [of th s] by (simp add: th_keeps_def)
  then show ?thesis
    unfolding interrupted_def using run_okD(5) [OF assms]
    by (intro run_ok_upd [OF run_ok_counted [OF assms]]) (simp add: counted_def th_calm_def)
qed

lemma ts_current_ok:
  assumes "run_ok s"
  shows "ts_current s = Ok (cur s) (s\<lparr>current_pid := th_tgid (theap s (cur s))\<rparr>)"
  using valid_tidD [OF run_okD(3) [OF assms]] run_okD(6) [OF assms]
  by (simp add: ts_current_def Let_def te_valid_def set_current_process_def)

lemma task_switch_locked:
  assumes "run_ok s" and "task_switch_status s = 0"
  shows "task_switch s = Some (IncrementDispatcherCount SELECT_CURRENT_COUNT (counted s))"
  using assms by (simp add: task_switch_def ts_current_ok Let_def counted_def)

lemma task_switch_unlocked:
  assumes r: "run_ok s" and "task_switch_status s = 1" and "contextCPL s AND 3 = 3"
  shows "task_switch s = (if th_runningCount (theap s (cur s)) + 1 < th_quantum (theap s (cur s))
     then Some (IncrementDispatcherCount SELECT_CURRENT_COUNT (ts_in_quantum (cur s) (interrupted s)))
     else case tsOnFinishedExecuting (cur s) (interrupted s) of Ok _ u \<Rightarrow> ts_zero_gravity u
       | Iretq u \<Rightarrow> Some (Iretq u) | Panic m \<Rightarrow> Some (Panic m) | Fault m \<Rightarrow> Some (Fault m))"
proof -
  have "save_current_context (counted s) = Ok () (upd_thread (cur s) (saved_fields s) (counted s))"
    using save_valid [of "counted s"] run_okD(3,7) [OF run_ok_counted [OF r]] assms(3)
    by (simp add: counted_def saved_fields_def upd_thread_def)
  moreover have "interrupted s = upd_thread (cur s) (\<lambda>th. th\<lparr>th_saved := TRUE\<rparr>) (upd_thread (cur s) (saved_fields s) (counted s))"
    by (simp add: interrupted_def upd_thread_def)
  moreover have "th_runningCount (theap (interrupted s) (cur s)) = th_runningCount (theap s (cur s)) + 1"
    "th_quantum (theap (interrupted s) (cur s)) = th_quantum (theap s (cur s))"
    by (simp_all add: interrupted_def counted_def)
  moreover have "task_switch_status (counted s) = 1" "th_callback_in_progress (theap (counted s) (cur s)) \<noteq> TRUE"
    using assms(2) run_okD(8) [OF r] by (simp_all add: counted_def quiet_def)
  ultimately show ?thesis
    unfolding task_switch_def ts_current_ok [OF r] res.case Let_def counted_def [symmetric]
    by (auto simp: not_less)
qed

definition preempted :: "kstate \<Rightarrow> kstate" where
  "preempted s = (if th_state (theap s (cur s)) = RUNNING
     then upd_thread (cur s) (\<lambda>th. th\<lparr>th_state := READY, th_readyCount := 0\<rparr>) s else s)"

lemma run_ok_preempted: "run_ok s \<Longrightarrow> run_ok (preempted s)"
  by (simp add: preempted_def run_ok_upd th_calm_def th_keeps_def)

lemma interrupted_sel [simp]:
  "threadList (interrupted s) = threadList s" "current_thread (interrupted s) = current_thread s"
  "InitThread (interrupted s) = InitThread s" "frame (interrupted s) = frame s" "jiffies (interrupted s) = jiffies s"
  "task_switch_status (interrupted s) = task_switch_status s" "cr3 (interrupted s) = cr3 s"
  "spawn_eoi_is_necessary (interrupted s) = spawn_eoi_is_necessary s" "currentq (interrupted s) = currentq s"
  "contextCPL (interrupted s) = contextCPL s" "DispatchCountBlock (interrupted s) = DispatchCountBlock s"
  "SchedulerInfo (interrupted s) = SchedulerInfo s"
  by (simp_all add: interrupted_def counted_def)

lemma preempted_sel [simp]:
  "threadList (preempted s) = threadList s" "current_thread (preempted s) = current_thread s"
  "InitThread (preempted s) = InitThread s" "frame (preempted s) = frame s"
  "task_switch_status (preempted s) = task_switch_status s" "DispatchCountBlock (preempted s) = DispatchCountBlock s"
  "spawn_eoi_is_necessary (preempted s) = spawn_eoi_is_necessary s" "currentq (preempted s) = currentq s"
  "th_context (theap (preempted s) p) = th_context (theap s p)" "th_pml4_PA (theap (preempted s) p) = th_pml4_PA (theap s p)"
  "th_Deferred (theap (preempted s) p) = th_Deferred (theap s p)" "th_saved (theap (preempted s) p) = th_saved (theap s p)"
  "th_tid (theap (preempted s) p) = th_tid (theap s p)" "live (preempted s) p = live s p"
  "th_te (theap (preempted s) p) = th_te (theap s p)" "SchedulerInfo (preempted s) = SchedulerInfo s"
  by (simp_all add: preempted_def live_def)

lemma find_standby_cong:
  assumes "threadList u = threadList s" and "\<And>p. th_tid (theap u p) = th_tid (theap s p)"
    and "\<And>p. state_after u p = Some STANDBY \<longleftrightarrow> state_after s p = Some STANDBY"
  shows "find_standby u = find_standby s"
proof -
  have "find_standby v = (case filter (\<lambda>i. state_after v (threadList v i) = Some STANDBY) all_tids of
      [] \<Rightarrow> None | i # _ \<Rightarrow> Some (th_tid (theap v (threadList v i))))" for v
  proof -
    have P: "state_after v t = Some STANDBY \<longleftrightarrow> t \<noteq> NULL \<and> th_used (theap v t) = TRUE \<and> th_magic (theap v t) = 1234 \<and>
        th_state (theap v t) = STANDBY" for t
      by (auto simp: state_after_def live_def)
    show ?thesis by (simp add: find_standby_def Let_def P)
  qed
  then show ?thesis by (simp add: assms split: list.split)
qed

lemma find_standby_preempted:
  assumes "run_ok s"
  shows "find_standby (preempted (interrupted s)) = find_standby s"
proof (rule find_standby_cong)
  show "threadList (preempted (interrupted s)) = threadList s" by simp
  show "th_tid (theap (preempted (interrupted s)) p) = th_tid (theap s p)" for p
    by (simp add: interrupted_def counted_def)
  show "state_after (preempted (interrupted s)) p = Some STANDBY \<longleftrightarrow> state_after s p = Some STANDBY" for p
    using run_okD(5) [OF assms]
    by (auto simp: state_after_def preempted_def interrupted_def counted_def live_def)
qed

text \<open>The end of a quantum, without and with a thread in standby.\<close>

lemma finished_idle:
  assumes r: "run_ok u" and f: "find_standby (preempted u) = None"
  shows "\<exists>x y. tsOnFinishedExecuting (cur u) u = Ok () ((preempted u)\<lparr>extra := x, dead_thread_collector_flag := y\<rparr>)"
proof -
  have "cur u \<noteq> NULL" "th_magic (theap u (cur u)) = 1234" using run_okD(4) [OF r] by (simp_all add: live_def)
  moreover have "schedi_check_for_standby (preempted u) = Ok () (preempted u)"
    by (simp add: schedi_check_for_standby_def f)
  ultimately have "tsOnFinishedExecuting (cur u) u = Ok () ((preempted u)\<lparr>extra := 0, dead_thread_collector_flag :=
        (if dead_thread_collector_status (preempted u) = TRUE \<and> dead_thread_collector_flag (preempted u) \<noteq> 1
         then 0 else dead_thread_collector_flag (preempted u))\<rparr>)"
    by (simp add: tsOnFinishedExecuting_def Let_def tsCry_def check_for_dead_thread_collector_def flip: preempted_def)
  then show ?thesis by blast
qed

lemma finished_spawn:
  assumes r: "run_ok u" and f: "find_standby (preempted u) = Some tid" and "spawn_eoi_is_necessary u = TRUE"
  obtains b where "dc_magic b = 1234"
    "tsOnFinishedExecuting (cur u) u = Iretq ((spawned (preempted u) tid)\<lparr>DispatchCountBlock := Some b\<rparr>)"
proof -
  note rp = run_ok_preempted [OF r]
  have "state_after (preempted u) (threadList u tid) = Some STANDBY"
    using find_standby_Some [OF run_okD(1) [OF rp] f] by (simp add: state_after_def valid_tid_def)
  then have "spawnable (preempted u) (threadList (preempted u) tid)"
    using rp by (simp add: run_ok_def threads_ok_def)
  then obtain b where b: "dc_magic b = 1234"
    "schedi_check_for_standby (preempted u) = Iretq ((spawned (preempted u) tid)\<lparr>DispatchCountBlock := Some b\<rparr>)"
    using spawn_ok [OF run_okD(1) [OF rp] ts_okD(2) [OF run_okD(2) [OF rp]] _ f] assms(3) by auto
  have "cur u \<noteq> NULL" "th_magic (theap u (cur u)) = 1234" using run_okD(4) [OF r] by (simp_all add: live_def)
  with b that [OF b(1)] show ?thesis by (simp add: tsOnFinishedExecuting_def Let_def flip: preempted_def)
qed

end
