(* ===== verification/Tick_Laws.thy ===== *)
theory Tick_Laws
  imports Tick
begin

text \<open>
  Properties of the timer tick: the loop at ZeroGravity ends, a tick never stops the machine, which
  registers are saved and which are loaded, how a thread in standby is started, and the handler of
  the timer interrupt. The last section has the cases in which the code does not do what its comments
  say: a sleep request that is never served, the fallback of the dispatch and a tick in a callback.
\<close>

section \<open>Lemmas\<close>

lemma count_run_ok:
  assumes "run_ok s" and "0 \<le> type"
  obtains b where "IncrementDispatcherCount type s = Ok () (s\<lparr>DispatchCountBlock := Some b\<rparr>)"
    and "run_ok (s\<lparr>DispatchCountBlock := Some b\<rparr>)"
proof -
  obtain b where b: "IncrementDispatcherCount type s = Ok () (s\<lparr>DispatchCountBlock := Some b\<rparr>)" "dc_magic b = 1234"
    using IncrementDispatcherCount_ok [OF ts_okD(2) [OF run_okD(2) [OF assms(1)]] assms(2)] by blast
  have "run_ok (s\<lparr>DispatchCountBlock := Some b\<rparr>)"
    by (rule run_ok_cong [OF assms(1)]) (use assms(1) b(2) in \<open>simp_all add: run_ok_def counters_ok_def\<close>)
  with b(1) that show ?thesis by blast
qed

lemma callback_quiet:
  assumes "run_ok s"
  shows "ts_callback s = Ok () s"
  using valid_tidD [OF run_okD(3) [OF assms]] run_okD(8) [OF assms]
  by (simp add: ts_callback_def Let_def quiet_def)

lemma tsTaskSwitch_eq:
  assumes "run_ok s"
  shows "tsTaskSwitch s = map_option (\<lambda>r. bindR r (\<lambda>_. ts_callback)) (task_switch s)"
  using valid_tidD [OF run_okD(3) [OF assms]] assms
  by (simp add: tsTaskSwitch_def Let_def get_current_process_def run_ok_def)

lemma tick_returns:
  assumes "run_ok s" and "task_switch s = Some (Ok () s')" and "run_ok s'"
  shows "tsTaskSwitch s = Some (Ok () s')"
  using assms(2) callback_quiet [OF assms(3)] by (simp add: tsTaskSwitch_eq [OF assms(1)])

text \<open>The requests served inside a quantum.\<close>

definition in_quantum_fields :: "u64 \<Rightarrow> thread_d \<Rightarrow> thread_d" where
  "in_quantum_fields now th =
     (let th1 = (if th_state th = RUNNING \<and> yield_in_progress (th_Deferred th) = TRUE
                 then th\<lparr>th_runningCount := th_quantum th, th_Deferred := (th_Deferred th)\<lparr>yield_in_progress := FALSE\<rparr>\<rparr>
                 else th)
      in if th_state th = RUNNING \<and> sleep_in_progress (th_Deferred th) = TRUE
         then th1\<lparr>th_runningCount := th_quantum th, th_state := WAITING, th_waiting_jiffy := now,
                  th_wake_jiffy := now + (if desired_sleep_ms (th_Deferred th) = 0 then 1
                                          else desired_sleep_ms (th_Deferred th)),
                  th_Deferred := (th_Deferred th1)\<lparr>sleep_in_progress := FALSE\<rparr>\<rparr>
         else th1)"

lemma in_quantum_eq:
  assumes "valid_tid s tid" and "t = threadList s tid" and "th_tid (theap s t) = tid"
  shows "ts_in_quantum t s = upd_thread t (in_quantum_fields (jiffies s)) s"
proof -
  have d: "sleep_until tid ms u = upd_thread t (\<lambda>th. th\<lparr>th_state := WAITING, th_waiting_jiffy := jiffies u,
      th_wake_jiffy := jiffies u + (if ms = 0 then 1 else ms)\<rparr>) u"
    if "live u t" "threadList u = threadList s" for u ms
    using assms(1,2) that by (simp add: sleep_until_waiting waiting.op_cases valid_tid_def)
  have l: "live s t" using assms(1,2) by (simp add: valid_tid_def)
  have lu: "live (upd_thread t f s) t" if "th_used (f (theap s t)) = th_used (theap s t)"
    "th_magic (f (theap s t)) = th_magic (theap s t)" for f
    using l that by (simp add: live_def)
  show ?thesis
    using assms(3) l
    by (auto simp: ts_in_quantum_def in_quantum_fields_def Let_def d lu upd_thread_upd_thread)
qed

lemma in_quantum_fields_calm: "th_calm th (in_quantum_fields now th)"
  by (simp add: in_quantum_fields_def Let_def th_calm_def th_keeps_def)

lemma released_to_cong:
  assumes "theap u = theap s" and "threadList u = threadList s" and "InitThread u = InitThread s"
    and "frame u = frame s" and "task_switch_status u = task_switch_status s"
    and "spawn_eoi_is_necessary u = spawn_eoi_is_necessary s"
  shows "released_to u s' = released_to s s'"
proof -
  have "state_after u p = state_after s p" for p by (simp add: state_after_def live_def assms(1))
  then show ?thesis by (simp add: released_to_def Let_def assms)
qed

lemma switch_ok:
  assumes r: "run_ok s" and u: "task_switch_status s = 1" "contextCPL s AND 3 = 3"
    and q: "\<not> th_runningCount (theap s (cur s)) + 1 < th_quantum (theap s (cur s))" and f: "find_standby s = None"
  shows "\<exists>s'. tsTaskSwitch s = Some (Ok () s') \<and> run_ok s' \<and> released_to (preempted (interrupted s)) s'"
proof -
  let ?p = "preempted (interrupted s)"
  note ri = run_ok_interrupted [OF r] and rp = run_ok_preempted [OF run_ok_interrupted [OF r]]
  have f': "find_standby ?p = None" using f by (simp add: find_standby_preempted [OF r])
  obtain x y where fin: "tsOnFinishedExecuting (cur s) (interrupted s) = Ok () (?p\<lparr>extra := x, dead_thread_collector_flag := y\<rparr>)"
    using finished_idle [OF ri f'] by auto
  let ?w = "?p\<lparr>extra := x, dead_thread_collector_flag := y\<rparr>"
  have rw: "run_ok ?w" by (rule run_ok_irrelevant(6) [OF rp])
  then obtain s' where z: "ts_zero_gravity ?w = Some (Ok () s')" "released_to ?w s'"
    using zero_gravity_total [of ?w] by (auto simp: run_ok_def)
  have rs: "run_ok s'" using run_ok_released [OF _ _ z(2)] rw by (simp add: run_ok_def)
  have "released_to ?p s'" using z(2) by (simp add: released_to_cong [of ?w ?p])
  moreover have "task_switch s = Some (Ok () s')" using z(1) q by (simp add: task_switch_unlocked [OF r u] fin)
  ultimately show ?thesis using tick_returns [OF r _ rs] rs by blast
qed

lemma stay_ok:
  assumes r: "run_ok s" and u: "task_switch_status s = 1" "contextCPL s AND 3 = 3"
    and q: "th_runningCount (theap s (cur s)) + 1 < th_quantum (theap s (cur s))"
  shows "\<exists>b. tsTaskSwitch s = Some (Ok () ((upd_thread (cur s) (in_quantum_fields (jiffies s)) (interrupted s))
    \<lparr>DispatchCountBlock := Some b\<rparr>)) \<and>
    run_ok ((upd_thread (cur s) (in_quantum_fields (jiffies s)) (interrupted s))\<lparr>DispatchCountBlock := Some b\<rparr>)"
proof -
  let ?i = "interrupted s" and ?v = "upd_thread (cur s) (in_quantum_fields (jiffies s)) (interrupted s)"
  note ri = run_ok_interrupted [OF r]
  have "th_tid (theap ?i (cur s)) = current_thread s"
    using kinv_slot_tid [OF run_okD(1) [OF ri]] run_okD(3,4) [OF ri] by (simp add: valid_tid_def live_def)
  then have e: "ts_in_quantum (cur s) ?i = ?v"
    using in_quantum_eq [of ?i "current_thread s" "cur s"] run_okD(3) [OF ri] by simp
  have rv: "run_ok ?v" by (intro run_ok_upd [OF ri] in_quantum_fields_calm)
  obtain b where b: "IncrementDispatcherCount SELECT_CURRENT_COUNT ?v = Ok () (?v\<lparr>DispatchCountBlock := Some b\<rparr>)"
    "run_ok (?v\<lparr>DispatchCountBlock := Some b\<rparr>)"
    by (rule count_run_ok [OF rv, of SELECT_CURRENT_COUNT]) auto
  have "task_switch s = Some (Ok () (?v\<lparr>DispatchCountBlock := Some b\<rparr>))"
    using q by (simp add: task_switch_unlocked [OF r u] e b(1))
  with tick_returns [OF r _ b(2)] b(2) show ?thesis by blast
qed

lemma locked_ok:
  assumes r: "run_ok s" and u: "task_switch_status s = 0"
  shows "\<exists>s'. tsTaskSwitch s = Some (Ok () s') \<and> run_ok s'"
proof -
  obtain b where b: "IncrementDispatcherCount SELECT_CURRENT_COUNT (counted s) = Ok () ((counted s)\<lparr>DispatchCountBlock := Some b\<rparr>)"
    "run_ok ((counted s)\<lparr>DispatchCountBlock := Some b\<rparr>)"
    by (rule count_run_ok [OF run_ok_counted [OF r], of SELECT_CURRENT_COUNT]) auto
  with tick_returns [OF r _ b(2)] show ?thesis by (auto simp: task_switch_locked [OF r u])
qed

lemma start_ok:
  assumes r: "run_ok s" and u: "task_switch_status s = 1" "contextCPL s AND 3 = 3" and eoi: "spawn_eoi_is_necessary s = TRUE"
    and q: "\<not> th_runningCount (theap s (cur s)) + 1 < th_quantum (theap s (cur s))" and f: "find_standby s = Some tid"
  shows "\<exists>b. dc_magic b = 1234 \<and>
    tsTaskSwitch s = Some (Iretq ((spawned (preempted (interrupted s)) tid)\<lparr>DispatchCountBlock := Some b\<rparr>)) \<and>
    run_ok ((spawned (preempted (interrupted s)) tid)\<lparr>DispatchCountBlock := Some b\<rparr>)"
proof -
  let ?p = "preempted (interrupted s)"
  note ri = run_ok_interrupted [OF r]
  have f': "find_standby ?p = Some tid" using f by (simp add: find_standby_preempted [OF r])
  obtain b where b: "dc_magic b = 1234"
    "tsOnFinishedExecuting (cur s) (interrupted s) = Iretq ((spawned ?p tid)\<lparr>DispatchCountBlock := Some b\<rparr>)"
    using finished_spawn [OF ri f'] eoi by auto
  have "run_ok ((spawned ?p tid)\<lparr>DispatchCountBlock := Some b\<rparr>)"
    by (rule run_ok_spawned [OF run_ok_preempted [OF ri] f' b(1)])
  with b q show ?thesis by (auto simp: tsTaskSwitch_eq [OF r] task_switch_unlocked [OF r u])
qed

lemma tick_total:
  assumes r: "run_ok s" and c: "contextCPL s AND 3 = 3" and e: "spawn_eoi_is_necessary s = TRUE"
  shows "\<exists>s'. (tsTaskSwitch s = Some (Ok () s') \<or> tsTaskSwitch s = Some (Iretq s')) \<and> run_ok s'"
proof (cases "task_switch_status s = 1")
  case False
  then have "task_switch_status s = 0" using r by (simp add: run_ok_def)
  with locked_ok [OF r] show ?thesis by blast
next
  case u: True
  show ?thesis
  proof (cases "th_runningCount (theap s (cur s)) + 1 < th_quantum (theap s (cur s))")
    case True
    with stay_ok [OF r u c] show ?thesis by blast
  next
    case False
    then show ?thesis
      using switch_ok [OF r u c False] start_ok [OF r u c e False] by (cases "find_standby s") blast+
  qed
qed

section \<open>A running state\<close>

text \<open>The init thread runs, \<open>n\<close> ticks of its quantum of 2 are used, and was interrupted in ring 3.\<close>

definition demo_run :: "u64 \<Rightarrow> kstate" where
  "demo_run n = (upd_thread 0x1000 (\<lambda>th. th\<lparr>th_state := RUNNING, th_runningCount := n\<rparr>) demo)
     \<lparr>contextCPL := 3, spawn_eoi_is_necessary := 1, frame := blank_frame\<lparr>f_rax := 7\<rparr>,
      DispatchCountBlock := Some \<lparr>dc_magic = 1234, SelectIdealCount = 0, SelectCurrentCount = 0,
        SelectInitializedCount = 0, SelectNextCount = 0, SelectAnyCount = 0,
        SelectDispatcherQueueCount = 0, SelectIdleCount = 0\<rparr>\<rparr>"

lemma live_demo_run [simp]: "live (demo_run n) p \<longleftrightarrow> p = 0x1000 \<or> p = 0x2000 \<or> p = 0x3000"
  using live_demo [of p] by (auto simp: demo_run_def live_def)

lemma demo_run_sel [simp]:
  "theap (demo_run n) = demo_threads(0x1000 := (demo_thread 0)\<lparr>th_state := RUNNING, th_runningCount := n\<rparr>)"
  "threadList (demo_run n) = demo_threadList" "current_thread (demo_run n) = 0" "InitThread (demo_run n) = 0x1000"
  "contextCPL (demo_run n) = 3" "spawn_eoi_is_necessary (demo_run n) = 1" "currentq (demo_run n) = 0x1000"
  "task_switch_status (demo_run n) = 1" "jiffies (demo_run n) = 100" "frame (demo_run n) = blank_frame\<lparr>f_rax := 7\<rparr>"
  by (simp_all add: demo_run_def demo_threads_def demo_def)

lemma demo_thread_quiet [simp]:
  "th_callback_in_progress (demo_thread tid) = 0" "th_is_alertable (demo_thread tid) = 0"
  "th_quantum (demo_thread tid) = 2" "th_runningCount (demo_thread tid) = 0" "th_te (demo_thread tid) = 0"
  by (simp_all add: demo_thread_def blank_thread_def)

lemma kinv_demo_run: "kinv (demo_run n)"
  by (simp add: demo_run_def kinv_upd_thread th_keeps_def)

lemma ts_ok_demo_run: "ts_ok (demo_run n)"
proof -
  have "SchedulerInfo (demo_run n) = demo_sched" "system_state (demo_run n) = 4"
    "up_threads_counter (UPProcessorBlock (demo_run n)) = 3" "counters_ok (demo_run n)"
    by (simp_all add: demo_run_def counters_ok_def)
  then show ?thesis by (simp add: ts_ok_def sched_ok_def kinv_demo_run demo_sched_def)
qed

lemma run_ok_demo_run [simp]: "run_ok (demo_run n)"
proof -
  have "threads_ok (demo_run n)"
    by (auto simp: threads_ok_def quiet_def state_after_def demo_threads_def split: if_splits)
  moreover have "valid_tid (demo_run n) 0" by (simp add: valid_tid_def demo_threadList_def)
  moreover have "current_pid (demo_run n) = 0" by (simp add: demo_run_def demo_def)
  ultimately show ?thesis
    by (simp add: run_ok_def ts_ok_demo_run demo_threadList_def PROCESS_COUNT_MAX_def)
qed

lemma no_standby_demo_run: "state_after (demo_run n) p \<noteq> Some STANDBY"
  by (auto simp: state_after_def demo_threads_def)

section \<open>Properties\<close>

text \<open>C4. The loop at the label ZeroGravity ends: with a usable scheduler and a queue, the selection of
  the next thread returns after one pass, or after two when the first one jumps back to the label, and it releases a
  valid thread, now RUNNING with a fresh quantum between 1 and 6, with the registers and the page table that were saved
  for it.\<close>

theorem zero_gravity_ends:
  assumes "ts_ok s" and "currentq s \<noteq> NULL"
  shows "\<exists>s'. ts_zero_gravity s = Some (Ok () s') \<and> released_to s s' \<and>
    (ts_pass s = Inl (Ok () s') \<or> (\<exists>u. ts_pass s = Inr u \<and> ts_pass u = Inl (Ok () s')))"
proof -
  obtain s' where s': "ts_zero_gravity s = Some (Ok () s')" "released_to s s'" using zero_gravity_total [OF assms] by blast
  consider v where "ts_pass s = Inl (Ok () v)" | u where "ts_pass s = Inr u" "prep s u" "fresh_round u"
    using ts_pass_cases [OF assms] by blast
  then have "ts_pass s = Inl (Ok () s') \<or> (\<exists>u. ts_pass s = Inr u \<and> ts_pass u = Inl (Ok () s'))"
  proof cases
    case 1
    then show ?thesis using s'(1) by (subst (asm) ts_zero_gravity.simps) simp
  next
    case (2 u)
    then obtain v where v: "ts_pass u = Inl (Ok () v)" using ts_pass_cases [of u] by (auto simp: prep_def)
    then have "ts_zero_gravity u = Some (Ok () v)" by (subst ts_zero_gravity.simps) simp
    then have "ts_zero_gravity s = Some (Ok () v)" using 2(1) by (subst ts_zero_gravity.simps) simp
    then have "ts_pass u = Inl (Ok () s')" using v s'(1) by simp
    with 2(1) show ?thesis by blast
  qed
  with s' show ?thesis by blast
qed

theorem zero_gravity_ends_witness:
  "\<exists>s'. ts_zero_gravity (demo_run 0) = Some (Ok () s') \<and> released_to (demo_run 0) s'"
  using zero_gravity_ends [of "demo_run 0"] by (auto simp: ts_ok_demo_run)

text \<open>C2. A timer tick never stops the machine: in a running system, interrupted in ring 3,
  \<open>tsTaskSwitch\<close> ends, without a panic or a fault, either by returning to the interrupt stub or
  by entering a new thread through \<open>iretq\<close>; and the system is again in a state in which the next
  tick is safe.\<close>

theorem tick_never_stops_the_machine:
  assumes "run_ok s" and "contextCPL s AND 3 = 3" and "spawn_eoi_is_necessary s = TRUE"
  shows "\<exists>s'. (tsTaskSwitch s = Some (Ok () s') \<or> tsTaskSwitch s = Some (Iretq s')) \<and> run_ok s'"
  by (rule tick_total [OF assms])

theorem tick_never_stops_the_machine_witness:
  "\<exists>s'. (tsTaskSwitch (demo_run 1) = Some (Ok () s') \<or> tsTaskSwitch (demo_run 1) = Some (Iretq s')) \<and> run_ok s'"
  by (rule tick_never_stops_the_machine) simp_all

text \<open>C3. Preemption: in ring 3, when the task switch is not locked, the quantum of the current thread is used up and
  no thread is in standby (with one, the tick enters it, see \<open>tick_starts_standby_thread\<close>), the
  tick stores the registers of the interrupted thread in its structure, changes the saved registers
  of no other thread, and returns with a valid thread RUNNING at the start of its quantum, whose own
  saved registers, page table and process are the ones loaded.\<close>

theorem tick_switches_context:
  assumes r: "run_ok s" and "task_switch_status s = 1" and "contextCPL s AND 3 = 3"
    and "\<not> th_runningCount (theap s (cur s)) + 1 < th_quantum (theap s (cur s))"
    and "\<forall>p. state_after s p \<noteq> Some STANDBY"
  shows "\<exists>s'. tsTaskSwitch s = Some (Ok () s') \<and> run_ok s' \<and>
    th_state (theap s' (cur s')) = RUNNING \<and> th_runningCount (theap s' (cur s')) = 0 \<and>
    th_context (theap s' (cur s)) = frame_to_context (frame s) (th_context (theap s (cur s))) \<and>
    (\<forall>p. p \<noteq> cur s \<longrightarrow> th_context (theap s' p) = th_context (theap s p)) \<and>
    frame s' = context_to_frame (th_context (theap s' (cur s'))) (frame s) \<and>
    cr3 s' = th_pml4_PA (theap s' (cur s')) \<and> current_pid s' = th_tgid (theap s' (cur s'))"
proof -
  let ?p = "preempted (interrupted s)"
  have f: "find_standby s = None" using assms(5) find_standby_None [OF run_okD(1) [OF r]] by simp
  obtain s' where s': "tsTaskSwitch s = Some (Ok () s')" "run_ok s'" "released_to ?p s'"
    using switch_ok [OF r assms(2-4) f] by blast
  note d = released_toD [OF s'(3)] and ctx = released_to_same [OF s'(3)]
  have "th_context (theap ?p p) =
      (if p = cur s then frame_to_context (frame s) (th_context (theap s p)) else th_context (theap s p))" for p
    by (simp add: interrupted_def counted_def)
  then show ?thesis using s'(1,2) d(4,6,9,10,11) by (intro exI [of _ s']) (simp add: ctx)
qed

theorem tick_switches_context_witness:
  "\<exists>s'. tsTaskSwitch (demo_run 1) = Some (Ok () s') \<and> c_rax (th_context (theap s' 0x1000)) = 7"
proof -
  have "th_context (demo_thread 0) = blank_context" by (simp add: demo_thread_def blank_thread_def)
  then show ?thesis
    using tick_switches_context [of "demo_run 1"] no_standby_demo_run
    by (auto simp: demo_threadList_def frame_to_context_def)
qed

text \<open>Inside the quantum: the tick returns with the same thread, registers and page table. A pending
  yield request uses up the quantum and is cleared; a pending sleep request puts the thread in WAITING
  with the wake time it asked for (at least one tick), uses up the quantum and is cleared; a thread
  with no request keeps its state.\<close>

theorem tick_same_thread_continues:
  assumes r: "run_ok s" and "task_switch_status s = 1" and "contextCPL s AND 3 = 3"
    and "th_runningCount (theap s (cur s)) + 1 < th_quantum (theap s (cur s))"
  shows "\<exists>s'. tsTaskSwitch s = Some (Ok () s') \<and> run_ok s' \<and> current_thread s' = current_thread s \<and>
    frame s' = frame s \<and> cr3 s' = cr3 s \<and>
    (let th = theap s (cur s); th' = theap s' (cur s);
         wants_yield = (th_state th = RUNNING \<and> yield_in_progress (th_Deferred th) = TRUE);
         wants_sleep = (th_state th = RUNNING \<and> sleep_in_progress (th_Deferred th) = TRUE)
     in (wants_yield \<longrightarrow> yield_in_progress (th_Deferred th') = FALSE) \<and>
        (wants_sleep \<longrightarrow> sleep_in_progress (th_Deferred th') = FALSE) \<and>
        th_runningCount th' = (if wants_yield \<or> wants_sleep then th_quantum th else th_runningCount th + 1) \<and>
        th_state th' = (if wants_sleep then WAITING else th_state th) \<and>
        (wants_sleep \<longrightarrow> th_wake_jiffy th' = jiffies s + max 1 (desired_sleep_ms (th_Deferred th))))"
proof -
  let ?v = "upd_thread (cur s) (in_quantum_fields (jiffies s)) (interrupted s)"
  obtain b where b: "tsTaskSwitch s = Some (Ok () (?v\<lparr>DispatchCountBlock := Some b\<rparr>))"
    "run_ok (?v\<lparr>DispatchCountBlock := Some b\<rparr>)"
    using stay_ok [OF r assms(2-4)] by blast
  let ?th = "theap (interrupted s) (cur s)"
  have i: "th_state ?th = th_state (theap s (cur s))" "th_Deferred ?th = th_Deferred (theap s (cur s))"
    "th_quantum ?th = th_quantum (theap s (cur s))" "th_runningCount ?th = th_runningCount (theap s (cur s)) + 1"
    by (simp_all add: interrupted_def counted_def)
  have m: "max 1 x = (if x = 0 then 1 else x)" for x :: u64
    using word_not_0 [of x] by (simp add: max_def)
  show ?thesis
    by (intro exI [of _ "?v\<lparr>DispatchCountBlock := Some b\<rparr>"])
      (simp add: b in_quantum_fields_def Let_def i m)
qed

theorem tick_same_thread_continues_witness:
  "\<exists>s'. tsTaskSwitch (sleep 0 50 (demo_run 0)) = Some (Ok () s') \<and> th_state (theap s' 0x1000) = WAITING \<and>
     th_wake_jiffy (theap s' 0x1000) = 150"
proof -
  let ?f = "\<lambda>th. th\<lparr>th_Deferred := (th_Deferred th)\<lparr>sleep_in_progress := 1, desired_sleep_ms := 50\<rparr>\<rparr>"
  have e: "sleep 0 50 (demo_run 0) = upd_thread 0x1000 ?f (demo_run 0)"
    by (simp add: sleep.op_cases valid_tid_def demo_threadList_def)
  have r: "run_ok (sleep 0 50 (demo_run 0))"
    unfolding e by (intro run_ok_upd) (simp_all add: th_calm_def th_keeps_def)
  show ?thesis
    using tick_same_thread_continues [OF r] unfolding e by (auto simp: demo_threadList_def Let_def max_def)
qed

lemma standby_started:
  assumes r: "run_ok s" and "task_switch_status s = 1" and "contextCPL s AND 3 = 3" and "spawn_eoi_is_necessary s = TRUE"
    and "\<not> th_runningCount (theap s (cur s)) + 1 < th_quantum (theap s (cur s))" and f: "find_standby s = Some tid"
  shows "\<exists>s'. tsTaskSwitch s = Some (Iretq s') \<and> run_ok s' \<and> current_thread s' = tid \<and>
    state_after s (threadList s tid) = Some STANDBY \<and> th_state (theap s' (threadList s tid)) = RUNNING \<and>
    iret_rip s' = c_rip (th_context (theap s (threadList s tid))) \<and>
    iret_rsp s' = c_rsp (th_context (theap s (threadList s tid))) - 8 \<and>
    cr3 s' = th_pml4_PA (theap s (threadList s tid)) \<and> current_pid s' = th_tgid (theap s (threadList s tid)) \<and>
    task_switch_status s' = 1 \<and> si_is_locked (SchedulerInfo s') = UNLOCKED \<and>
    th_context (theap s' (cur s)) = frame_to_context (frame s) (th_context (theap s (cur s)))"
proof -
  let ?p = "preempted (interrupted s)" and ?t = "threadList s tid"
  obtain b where b: "tsTaskSwitch s = Some (Iretq ((spawned ?p tid)\<lparr>DispatchCountBlock := Some b\<rparr>))"
    "run_ok ((spawned ?p tid)\<lparr>DispatchCountBlock := Some b\<rparr>)"
    using start_ok [OF assms] by blast
  note st = find_standby_Some [OF run_okD(1) [OF r] f]
  have n: "?t \<noteq> cur s" using st(2) run_okD(5) [OF r] by auto
  then have p: "theap ?p ?t = theap s ?t" "theap (interrupted s) ?t = theap s ?t"
    by (simp_all add: preempted_def interrupted_def counted_def)
  have c: "th_context (theap ?p (cur s)) = frame_to_context (frame s) (th_context (theap s (cur s)))"
    by (simp add: interrupted_def counted_def)
  show ?thesis
    using b st n p c by (intro exI [of _ "(spawned ?p tid)\<lparr>DispatchCountBlock := Some b\<rparr>"])
      (simp add: spawned_def Let_def state_after_def valid_tid_def)
qed

text \<open>A thread in standby is started at the end of the quantum of the current thread: the first one of
  the table becomes the current thread, RUNNING, and the kernel leaves through \<open>iretq\<close> to the entry
  point of its context, on its stack, with its page table and its process, and with the task switch
  and the scheduler unlocked; the interrupted thread keeps its registers in its structure.\<close>

theorem tick_starts_standby_thread:
  assumes r: "run_ok s" and "task_switch_status s = 1" and "contextCPL s AND 3 = 3" and "spawn_eoi_is_necessary s = TRUE"
    and "\<not> th_runningCount (theap s (cur s)) + 1 < th_quantum (theap s (cur s))" and f: "find_standby s = Some tid"
  shows "\<exists>s'. tsTaskSwitch s = Some (Iretq s') \<and> run_ok s' \<and> current_thread s' = tid \<and>
    state_after s (threadList s tid) = Some STANDBY \<and> th_state (theap s' (threadList s tid)) = RUNNING \<and>
    iret_rip s' = c_rip (th_context (theap s (threadList s tid))) \<and>
    iret_rsp s' = c_rsp (th_context (theap s (threadList s tid))) - 8 \<and>
    cr3 s' = th_pml4_PA (theap s (threadList s tid)) \<and> current_pid s' = th_tgid (theap s (threadList s tid)) \<and>
    task_switch_status s' = 1 \<and> si_is_locked (SchedulerInfo s') = UNLOCKED \<and>
    th_context (theap s' (cur s)) = frame_to_context (frame s) (th_context (theap s (cur s)))"
  by (rule standby_started [OF assms])

definition demo_standby :: kstate where
  "demo_standby = upd_thread 0x2000 (\<lambda>th. th\<lparr>th_state := STANDBY, th_saved := 0, th_te := 0x100,
     th_context := blank_context\<lparr>c_rip := 0x201000\<rparr>\<rparr>) (demo_run 1)"

lemma live_demo_standby: "live demo_standby p \<longleftrightarrow> p = 0x1000 \<or> p = 0x2000 \<or> p = 0x3000"
  using live_demo_run [of 1 p] by (auto simp: demo_standby_def live_def)

lemma run_ok_demo_standby: "run_ok demo_standby"
proof -
  have k: "kinv demo_standby" by (simp add: demo_standby_def kinv_demo_run kinv_upd_thread th_keeps_def)
  then have "ts_ok demo_standby"
    using ts_ok_demo_run [of 1] by (simp add: ts_ok_def sched_ok_def counters_ok_def demo_standby_def)
  moreover have "threads_ok demo_standby"
    by (auto simp: threads_ok_def live_demo_standby state_after_def split: if_splits)
      (auto simp: quiet_def spawnable_def demo_standby_def demo_threads_def)
  moreover have "valid_tid demo_standby 0" by (simp add: valid_tid_def live_demo_standby) (simp add: demo_standby_def demo_threadList_def)
  moreover have "current_pid demo_standby = 0" by (simp add: demo_standby_def demo_run_def demo_def)
  ultimately show ?thesis
    by (simp add: run_ok_def PROCESS_COUNT_MAX_def) (simp add: demo_standby_def demo_threadList_def)
qed

lemma find_standby_demo: "find_standby demo_standby = Some 1"
proof -
  note k = run_okD(1) [OF run_ok_demo_standby]
  have s: "state_after demo_standby 0x2000 = Some STANDBY"
    by (simp add: state_after_def live_demo_standby) (simp add: demo_standby_def)
  then obtain tid where t: "find_standby demo_standby = Some tid"
    using find_standby_None [OF k] by (cases "find_standby demo_standby") auto
  have "threadList demo_standby tid = 0x2000"
    using find_standby_Some [OF k t]
    by (auto simp: valid_tid_def live_demo_standby) (auto simp: demo_standby_def demo_threads_def split: if_splits)
  then have "tid = 1" by (auto simp: demo_standby_def demo_threadList_def split: if_splits)
  with t show ?thesis by simp
qed

theorem tick_starts_standby_thread_witness:
  "\<exists>s'. tsTaskSwitch demo_standby = Some (Iretq s') \<and> current_thread s' = 1 \<and> iret_rip s' = 0x201000"
proof -
  have "task_switch_status demo_standby = 1" "contextCPL demo_standby AND 3 = 3" "spawn_eoi_is_necessary demo_standby = TRUE"
    "\<not> th_runningCount (theap demo_standby (cur demo_standby)) + 1 < th_quantum (theap demo_standby (cur demo_standby))"
    by (simp_all add: demo_standby_def demo_threadList_def)
  then obtain s' where "tsTaskSwitch demo_standby = Some (Iretq s')" "current_thread s' = 1"
    "iret_rip s' = c_rip (th_context (theap demo_standby (threadList demo_standby 1)))"
    using tick_starts_standby_thread [OF run_ok_demo_standby _ _ _ _ find_standby_demo] by blast
  then show ?thesis by (simp add: demo_standby_def demo_threadList_def)
qed

text \<open>The timer interrupt, when the window manager timer \<open>wm\<close> returned in a running state and no device is polled.\<close>

lemma timer_after_event:
  assumes r: "run_ok s" and c: "contextCPL s AND 3 = 3"
    and v: "DeviceInterface_PIT initialized wm s = Ok () v" "run_ok v" "contextCPL v = contextCPL s"
  shows "\<exists>s'. (irq0_TIMER initialized wm (Ok ()) s = Some (Ok () s') \<or> irq0_TIMER initialized wm (Ok ()) s = Some (Iretq s')) \<and>
    run_ok s'"
proof -
  note glob = run_ok_irrelevant(2)
  let ?v = "v\<lparr>spawn_eoi_is_necessary := TRUE\<rparr>"
  have e: "irq0_TIMER initialized wm (Ok ()) s =
      map_option (\<lambda>r. bindR r (\<lambda>_ s2. Ok () (s2\<lparr>spawn_eoi_is_necessary := FALSE\<rparr>))) (tsTaskSwitch ?v)"
    by (simp add: irq0_TIMER_def v(1) spawn_set_eoi_state_def spawn_reset_eoi_state_def)
  obtain s' where "tsTaskSwitch ?v = Some (Ok () s') \<or> tsTaskSwitch ?v = Some (Iretq s')" "run_ok s'"
    using tick_total [OF glob [OF v(2)]] c v(3) by auto
  then show ?thesis using glob by (auto simp: e)
qed

section \<open>What the tick does not serve\<close>

text \<open>A sleep request of a thread whose quantum is 1 is not served: the requests are only looked at
  while the quantum lasts, and with a quantum of 1 the first tick already ends it. After that tick the
  request is still pending and the thread is not WAITING.\<close>

theorem tick_sleep_request_ignored:
  assumes r: "run_ok s" and "task_switch_status s = 1" and "contextCPL s AND 3 = 3"
    and "th_runningCount (theap s (cur s)) = 0" and "th_quantum (theap s (cur s)) = 1"
    and "\<forall>p. state_after s p \<noteq> Some STANDBY"
    and "th_state (theap s (cur s)) = RUNNING" and "sleep_in_progress (th_Deferred (theap s (cur s))) = TRUE"
  shows "\<exists>s'. tsTaskSwitch s = Some (Ok () s') \<and> sleep_in_progress (th_Deferred (theap s' (cur s))) = TRUE \<and>
    state_after s' (cur s) \<noteq> Some WAITING"
proof -
  let ?p = "preempted (interrupted s)"
  have f: "find_standby s = None" using assms(6) find_standby_None [OF run_okD(1) [OF r]] by simp
  obtain s' where s': "tsTaskSwitch s = Some (Ok () s')" "released_to ?p s'"
    using switch_ok [OF r assms(2,3) _ f] assms(4,5) by auto
  have "th_Deferred (theap ?p (cur s)) = th_Deferred (theap s (cur s))" by (simp add: interrupted_def counted_def)
  moreover have "th_state (theap (interrupted s) (cur s)) = RUNNING" using assms(7) by (simp add: interrupted_def counted_def)
  then have "th_state (theap ?p (cur s)) = READY" by (simp add: preempted_def)
  then have "state_after ?p (cur s) \<noteq> Some WAITING" by (simp add: state_after_def)
  ultimately show ?thesis
    using s'(1) assms(8) released_toD(8) [OF s'(2), of WAITING] released_to_same(3) [OF s'(2)] by auto
qed

theorem tick_sleep_request_ignored_witness:
  "\<exists>s'. tsTaskSwitch (sleep 0 50 (upd_thread 0x1000 (\<lambda>th. th\<lparr>th_quantum := 1\<rparr>) (demo_run 0))) = Some (Ok () s') \<and>
     sleep_in_progress (th_Deferred (theap s' 0x1000)) = 1 \<and> state_after s' 0x1000 \<noteq> Some WAITING"
proof -
  let ?f = "\<lambda>th. th\<lparr>th_quantum := 1, th_Deferred := (th_Deferred th)\<lparr>sleep_in_progress := 1, desired_sleep_ms := 50\<rparr>\<rparr>"
  let ?s = "upd_thread 0x1000 ?f (demo_run 0)"
  have e: "sleep 0 50 (upd_thread 0x1000 (\<lambda>th. th\<lparr>th_quantum := 1\<rparr>) (demo_run 0)) = ?s"
    by (simp add: sleep.op_cases valid_tid_def demo_threadList_def live_def upd_thread_def)
  have r: "run_ok ?s" by (intro run_ok_upd) (simp_all add: th_calm_def th_keeps_def)
  have "state_after ?s p \<noteq> Some STANDBY" for p
    using no_standby_demo_run [of 0 p] by (auto simp: state_after_def live_def split: if_splits)
  then show ?thesis
    unfolding e using tick_sleep_request_ignored [OF r] by (simp add: demo_threadList_def)
qed

text \<open>The fallback of the dispatch does not work: when the selected thread is not READY the code turns to
  the init thread, but it leaves \<open>current_thread\<close> as it was, so that the dispatcher, which looks the
  thread up again, stops the machine (unless the selected thread is the init thread itself).\<close>

theorem dispatch_fallback_panics:
  assumes "kinv s" and "counters_ok s" and "valid_tid s (current_thread s)" and "current_thread s \<noteq> INIT_TID"
    and "th_state (theap s (cur s)) \<noteq> READY"
  shows "ts_dispatch_current s = Panic ''dispatcher: state''"
proof -
  note v = valid_tidD [OF assms(3)]
  have n: "cur s \<noteq> InitThread s"
    using kinv_slot_neq_Init [OF assms(1)] assms(3,4) by (simp add: valid_tid_def)
  let ?u = "upd_thread (InitThread s) ts_target_fields
      (upd_thread (InitThread s) (\<lambda>th. th\<lparr>th_state := READY, th_next := NULL\<rparr>) s)"
  have "counters_ok ?u" using assms(2) by (simp add: counters_ok_def)
  then obtain b where "IncrementDispatcherCount SELECT_DISPATCHER_COUNT ?u = Ok () (?u\<lparr>DispatchCountBlock := Some b\<rparr>)"
    using IncrementDispatcherCount_ok [of ?u SELECT_DISPATCHER_COUNT] by auto
  with v n assms(5) show ?thesis
    by (simp add: ts_dispatch_current_def Let_def dispatcher_def)
qed

theorem dispatch_fallback_panics_witness:
  "ts_dispatch_current ((do_thread_blocked 1 (demo_run 0))\<lparr>current_thread := 1\<rparr>) = Panic ''dispatcher: state''"
proof -
  let ?s = "(do_thread_blocked 1 (demo_run 0))\<lparr>current_thread := 1\<rparr>"
  have v: "valid_tid (demo_run 0) 1" by (simp add: valid_tid_def demo_threadList_def)
  have "kinv ?s" by (simp add: blocked.op_inv kinv_demo_run)
  moreover have "counters_ok ?s" "valid_tid ?s (current_thread ?s)" "th_state (theap ?s (cur ?s)) \<noteq> READY"
    using v ts_okD(2) [OF ts_ok_demo_run [of 0]]
    by (simp_all add: blocked.op_cases counters_ok_def valid_tid_def live_def demo_threadList_def)
  ultimately show ?thesis by (intro dispatch_fallback_panics) simp_all
qed

text \<open>A tick during a callback stops the machine: once the callback of an alertable thread has been
  prepared, the next unlocked tick panics if it comes before the thread has called the restorer.\<close>

theorem tick_in_callback_panics:
  assumes "kinv s" and "valid_tid s (current_thread s)" and "task_switch_status s = 1"
    and "0 \<le> current_pid s" and "current_pid s < PROCESS_COUNT_MAX" and "th_is_alertable (theap s (cur s)) = TRUE"
  shows "\<exists>s'. ts_callback s = Ok () s' \<and> ring3_callback_address s' = th_cb_r3_address (theap s (cur s)) \<and>
    tsTaskSwitch s' = Some (Panic ''ts: Cant save context. Callback in progress'')"
proof -
  note v = valid_tidD [OF assms(2)]
  have te: "te_valid s (th_tgid (theap s (cur s)))" using kinv_te [OF assms(1)] assms(2) by (simp add: valid_tid_def)
  let ?s = "upd_thread (cur s) (\<lambda>th. th\<lparr>th_callback_in_progress := TRUE\<rparr>)
      ((upd_thread (cur s) (\<lambda>th. th\<lparr>th_is_alertable := FALSE\<rparr>) s)
        \<lparr>asmflagDoCallbackAfterCR3 := 0x1234 AND 0xFFFF, ring3_callback_address := th_cb_r3_address (theap s (cur s))\<rparr>)"
  have "ts_callback s = Ok () ?s" using v assms(6) by (simp add: ts_callback_def Let_def)
  moreover have "ts_current ?s = Ok (cur s) (?s\<lparr>current_pid := th_tgid (theap s (cur s))\<rparr>)"
    using v te by (simp add: ts_current_def Let_def te_valid_def set_current_process_def)
  then have "task_switch ?s = Some (Panic ''ts: Cant save context. Callback in progress'')"
    using assms(3) by (simp add: task_switch_def Let_def)
  then have "tsTaskSwitch ?s = Some (Panic ''ts: Cant save context. Callback in progress'')"
    using v assms(4,5) by (simp add: tsTaskSwitch_def Let_def get_current_process_def)
  ultimately show ?thesis by (intro exI [of _ ?s]) simp
qed

theorem tick_in_callback_panics_witness:
  "\<exists>s'. ts_callback (upd_thread 0x1000 (\<lambda>th. th\<lparr>th_is_alertable := 1\<rparr>) (demo_run 0)) = Ok () s' \<and>
     tsTaskSwitch s' = Some (Panic ''ts: Cant save context. Callback in progress'')"
proof -
  let ?s = "upd_thread 0x1000 (\<lambda>th. th\<lparr>th_is_alertable := 1\<rparr>) (demo_run 0)"
  have "kinv ?s" "valid_tid ?s (current_thread ?s)" "th_is_alertable (theap ?s (cur ?s)) = TRUE"
    by (simp_all add: kinv_demo_run kinv_upd_thread th_keeps_def valid_tid_def live_def demo_threadList_def)
  moreover have "0 \<le> current_pid ?s" "current_pid ?s < PROCESS_COUNT_MAX"
    using run_ok_facts [OF run_ok_demo_run [of 0]] by simp_all
  ultimately show ?thesis using tick_in_callback_panics [of ?s] by auto
qed

end
