(* ===== verification/Thread.thy ===== *)
theory Thread
  imports Round_RR_Laws
begin

text \<open>
  \<open>thread.c\<close>, the operations on existing threads: access by tid, the exit request, the message
  control, the notification of events, the profiler, and the destruction of a structure. The creation
  and the copying of threads (\<open>create_thread\<close>, \<open>copy_thread_struct\<close>) and the statistics are
  not modelled yet. The main property is about the exit: the scheduler never reaps a thread that
  asked to exit.
\<close>

section \<open>Structures and accessors\<close>

definition destroy_thread_structure :: "ptr \<Rightarrow> kstate \<Rightarrow> int \<times> kstate" where
  "destroy_thread_structure thread s =
     (if thread = NULL then (-1, s)
      else if th_used (theap s thread) \<noteq> TRUE then (-1, s)
      else let TID = th_tid (theap s thread) in
      if TID < 0 then (-1, s)
      else if TID \<ge> THREAD_COUNT_MAX then (-1, s)
      else if thread \<noteq> threadList s TID then (-1, s)
      else (0, upd_thread thread (\<lambda>th. th\<lparr>th_magic := 0, th_used := FALSE\<rparr>) s))"

definition gc_thread_structure :: "ptr \<Rightarrow> kstate \<Rightarrow> int" where
  "gc_thread_structure thread s = (if thread = NULL then -1 else 0)"

definition FindReadyThread :: "kstate \<Rightarrow> ptr" where
  "FindReadyThread s =
     (case filter (\<lambda>i. let t = threadList s i in t \<noteq> NULL \<and> th_used (theap s t) = TRUE \<and>
             th_magic (theap s t) = 1234 \<and> th_state (theap s t) = READY) all_tids of
        [] \<Rightarrow> NULL
      | i # _ \<Rightarrow> threadList s i)"

text \<open>\<open>None\<close> is the value -1 of the enumeration.\<close>

definition GetThreadState :: "ptr \<Rightarrow> kstate \<Rightarrow> thread_state_t option" where
  "GetThreadState thread s =
     (if thread = NULL then None
      else if th_used (theap s thread) \<noteq> TRUE then None
      else Some (th_state (theap s thread)))"

definition GetThreadType :: "ptr \<Rightarrow> kstate \<Rightarrow> thread_type_t option" where
  "GetThreadType thread s =
     (if thread = NULL then None
      else if th_used (theap s thread) \<noteq> TRUE then None
      else Some (th_type (theap s thread)))"

definition SetCurrentTID :: "int \<Rightarrow> kstate \<Rightarrow> kstate" where
  "SetCurrentTID tid s = s\<lparr>current_thread := tid\<rparr>"

definition GetCurrentTID :: "kstate \<Rightarrow> int" where
  "GetCurrentTID s = current_thread s"

definition GetThreadByTID :: "int \<Rightarrow> kstate \<Rightarrow> ptr" where
  "GetThreadByTID tid s = (if tid < 0 \<or> tid \<ge> THREAD_COUNT_MAX then NULL else threadList s tid)"

definition GetCurrentThread :: "kstate \<Rightarrow> ptr" where
  "GetCurrentThread s = (if current_thread s < 0 then NULL else GetThreadByTID (current_thread s) s)"

definition GetForegroundThread :: "kstate \<Rightarrow> ptr" where
  "GetForegroundThread s = (if foreground_thread s < 0 then NULL else GetThreadByTID (foreground_thread s) s)"

definition GetDSThread :: "kstate \<Rightarrow> ptr" where
  "GetDSThread s =
     (if ds_initialized (DisplayServerInfo s) \<noteq> TRUE then NULL
      else GetThreadByTID (ds_tid (DisplayServerInfo s)) s)"

definition SelectForExecution :: "ptr \<Rightarrow> kstate \<Rightarrow> kstate" where
  "SelectForExecution Thread s = (if Thread = NULL then s else schediSelectForExecution Thread s)"

section \<open>The profiler\<close>

definition thread_get_profiler_percentage :: "ptr \<Rightarrow> kstate \<Rightarrow> u64 kres" where
  "thread_get_profiler_percentage thread s =
     (if thread = NULL then Panic ''thread_get_profiler_percentage: thread''
      else Ok (th_profiler_percentage_running (theap s thread)) s)"

text \<open>The accounting of one thread (lines 729 to 744); the divisions are on \<open>unsigned long\<close>.\<close>

definition profiler_fields :: "u64 \<Rightarrow> thread_d \<Rightarrow> thread_d" where
  "profiler_fields limit th =
     (let th1 = th\<lparr>th_profiler_last_ticks := th_profiler_ticks_running th\<rparr>;
          th2 = th1\<lparr>th_profiler_ticks_running := 0\<rparr>;
          th3 = th2\<lparr>th_profiler_percentage_running_res := th_profiler_last_ticks th2 div limit\<rparr>;
          th4 = th3\<lparr>th_profiler_percentage_running_mod := th_profiler_last_ticks th3 mod limit\<rparr>
      in th4\<lparr>th_profiler_percentage_running := th_profiler_percentage_running_mod th4 div (limit div 100)\<rparr>)"

text \<open>A limit below 100 makes the last divisor zero, which the processor refuses.\<close>

definition profiler_visit :: "int \<Rightarrow> kstate \<Rightarrow> unit kres" where
  "profiler_visit i s =
     (let tmp = threadList s i in
      if tmp \<noteq> NULL \<and> th_used (theap s tmp) = TRUE \<and> th_magic (theap s tmp) = 1234 then
        (if profiler_ticks_limit s div 100 = 0 then Fault ''divide error''
         else Ok () (upd_thread tmp (profiler_fields (profiler_ticks_limit s)) s))
      else Ok () s)"

definition thread_profiler :: "int \<Rightarrow> kstate \<Rightarrow> int kres" where
  "thread_profiler service s =
     (if service < 0 then Ok (-1) s
      else let Idle = up_IdleThread (UPProcessorBlock s) in
      if Idle = NULL then Panic ''thread_profiler: Idle''
      else if th_magic (theap s Idle) \<noteq> 1234 then Panic ''thread_profiler: Idle validation''
      else let current = GetCurrentThread s in
      if current = NULL then Panic ''thread_profiler: __current''
      else if th_magic (theap s current) \<noteq> 1234 then Panic ''thread_profiler: __current validation''
      else if service = 1 then
        Ok 0 (upd_thread current (\<lambda>th. th\<lparr>th_profiler_ticks_running := th_profiler_ticks_running th + 1\<rparr>) s)
      else if service = 2 then
        bindR (foldR profiler_visit all_tids s) (\<lambda>_ s1.
          Ok 0 (s1\<lparr>profiler_percentage_all_normal_threads := 100 - th_profiler_percentage_running (theap s1 Idle),
                   profiler_percentage_idle_thread := th_profiler_percentage_running (theap s1 Idle)\<rparr>))
      else Ok (-1) s)"

section \<open>System calls\<close>

definition sys_notify_event :: "int \<Rightarrow> int \<Rightarrow> int \<Rightarrow> kstate \<Rightarrow> int \<times> kstate" where
  "sys_notify_event caller_tid target_tid event_number s =
     (if target_tid < 0 \<or> target_tid \<ge> THREAD_COUNT_MAX then (-1, s)
      else let target_thread = threadList s target_tid in
      if target_thread = NULL then (-1, s)
      else if th_magic (theap s target_thread) \<noteq> 1234 then (-1, s)
      else let fIsDisplayServer = (ds_initialized (DisplayServerInfo s) = TRUE \<and>
                                   ds_tid (DisplayServerInfo s) = caller_tid) in
      if event_number = 8000 then
        (0, if fIsDisplayServer
            then upd_thread target_thread (\<lambda>th. th\<lparr>th_msgctl := (th_msgctl th)\<lparr>has_event_from_ds := TRUE\<rparr>\<rparr>) s else s)
      else if event_number = 8001 then
        (0, if fIsDisplayServer
            then upd_thread target_thread (\<lambda>th. th\<lparr>th_msgctl := (th_msgctl th)\<lparr>has_event_from_ds := FALSE\<rparr>\<rparr>) s else s)
      else (-1, s))"

abbreviation (input) THREAD_WANTS_TAB :: u64 where "THREAD_WANTS_TAB \<equiv> 1"
abbreviation (input) THREAD_WANTS_ESC :: u64 where "THREAD_WANTS_ESC \<equiv> 2"

text \<open>The case list of \<open>sys_msgctl\<close>; \<open>None\<close> is the default case.\<close>

definition msgctl_option :: "int \<Rightarrow> (msgctl_d \<Rightarrow> msgctl_d) option" where
  "msgctl_option opt =
     (if opt = 1000 then Some (\<lambda>c. c\<lparr>block_on_empty := TRUE\<rparr>)
      else if opt = 1001 then Some (\<lambda>c. c\<lparr>block_on_empty := FALSE\<rparr>)
      else if opt = 2000 then Some (\<lambda>c. c\<lparr>input_flags := input_flags c OR THREAD_WANTS_TAB\<rparr>)
      else if opt = 2001 then Some (\<lambda>c. c\<lparr>input_flags := input_flags c AND NOT THREAD_WANTS_TAB\<rparr>)
      else if opt = 2002 then Some (\<lambda>c. c\<lparr>input_flags := input_flags c OR THREAD_WANTS_ESC\<rparr>)
      else if opt = 2003 then Some (\<lambda>c. c\<lparr>input_flags := input_flags c AND NOT THREAD_WANTS_ESC\<rparr>)
      else None)"

definition sys_msgctl :: "int \<Rightarrow> int \<Rightarrow> int \<Rightarrow> kstate \<Rightarrow> int \<times> kstate" where
  "sys_msgctl caller_tid opt extra_value s =
     (if caller_tid \<noteq> current_thread s then (-1, s)
      else if caller_tid < 0 \<or> caller_tid \<ge> THREAD_COUNT_MAX then (-1, s)
      else let caller_thread = threadList s caller_tid in
      if caller_thread = NULL then (-1, s)
      else if th_magic (theap s caller_thread) \<noteq> 1234 then (-1, s)
      else case msgctl_option opt of
        None \<Rightarrow> (-1, s)
      | Some f \<Rightarrow> (0, upd_thread caller_thread (\<lambda>th. th\<lparr>th_msgctl := f (th_msgctl th)\<rparr>) s))"

definition exit_thread :: "int \<Rightarrow> kstate \<Rightarrow> int kres" where
  "exit_thread tid s =
     (if tid < 0 \<or> tid \<ge> THREAD_COUNT_MAX then Ok (-1) s
      else let Idle = up_IdleThread (UPProcessorBlock s) in
      if Idle = NULL then Panic ''exit_thread: Idle''
      else if th_magic (theap s Idle) \<noteq> 1234 then Panic ''exit_thread: Idle validation''
      else if tid = th_tid (theap s Idle) then Panic ''exit_thread: We can't kill the Idle thread''
      else let Thread = threadList s tid in
      if Thread = NULL then Ok (-1) s
      else if th_magic (theap s Thread) \<noteq> 1234 then Ok (-1) s
      else Ok 0 (upd_thread Thread (\<lambda>th. th\<lparr>th_Deferred := (th_Deferred th)\<lparr>exit_in_progress := TRUE\<rparr>\<rparr>) s))"

definition exit_current_thread :: "kstate \<Rightarrow> int kres" where
  "exit_current_thread s =
     (if current_thread s < 0 then Ok (-1) s
      else if current_thread s \<ge> THREAD_COUNT_MAX then Ok (-1) s
      else exit_thread (current_thread s) s)"

section \<open>Lemmas\<close>

lemma exit_thread_valid:
  assumes "kinv s" and "valid_tid s tid" and "tid \<noteq> INIT_TID"
  shows "exit_thread tid s = Ok 0 (upd_thread (threadList s tid)
    (\<lambda>th. th\<lparr>th_Deferred := (th_Deferred th)\<lparr>exit_in_progress := TRUE\<rparr>\<rparr>) s)"
  using kinv_InitThread(1-3) [OF assms(1)] assms(2,3)
  by (simp add: exit_thread_def Let_def live_def valid_tid_def tid_in_range_def)

lemma thread_inv [kernel_inv]:
  "kinv s \<Longrightarrow> p \<noteq> InitThread s \<Longrightarrow> kinv (snd (destroy_thread_structure p s))"
  "kinv s \<Longrightarrow> kinv (snd (sys_notify_event c t e s))"
  "kinv s \<Longrightarrow> kinv (snd (sys_msgctl c opt x s))"
  "kinv s \<Longrightarrow> kinv (SelectForExecution p s)"
proof -
  assume k: "kinv s"
  show "p \<noteq> InitThread s \<Longrightarrow> kinv (snd (destroy_thread_structure p s))"
    using k by (simp add: destroy_thread_structure_def Let_def kinv_invalidate)
  show "kinv (snd (sys_notify_event c t e s))"
    using k by (simp add: sys_notify_event_def Let_def kinv_upd_thread th_keeps_def)
  show "kinv (snd (sys_msgctl c opt x s))"
    using k by (simp add: sys_msgctl_def Let_def kinv_upd_thread th_keeps_def split: option.split)
  show "kinv (SelectForExecution p s)"
    using k by (simp add: SelectForExecution_def schediSelectForExecution_inv)
qed

text \<open>A sequence of rounds, the clock showing \<open>t\<close> in each of them.\<close>

primrec rr_rounds :: "u64 list \<Rightarrow> kstate \<Rightarrow> unit kres" where
  "rr_rounds [] s = Ok () s"
| "rr_rounds (t # ts) s = bindR (scheduler_rr 0 (s\<lparr>jiffies := t\<rparr>)) (\<lambda>_ s'. rr_rounds ts s')"

definition rr_ok :: "kstate \<Rightarrow> bool" where
  "rr_ok s \<longleftrightarrow> kinv s \<and> si_initialized (SchedulerInfo s) = TRUE \<and> si_policy (SchedulerInfo s) = SCHED_POLICY_RR"

lemma rr_next_exiting: "exit_in_progress (th_Deferred th) = TRUE \<Longrightarrow> rr_next_state now th \<noteq> None"
  by (simp add: rr_next_state_def)

lemma rr_round_exiting:
  assumes "rr_ok s" and "live s p" and "p \<noteq> InitThread s" and "exit_in_progress (th_Deferred (theap s p)) = TRUE"
  shows "\<exists>s'. scheduler_rr flags s = Ok INIT_TID s' \<and> rr_ok s' \<and> live s' p \<and> p \<noteq> InitThread s' \<and>
    exit_in_progress (th_Deferred (theap s' p)) = TRUE \<and> threadList s' = threadList s"
proof -
  obtain s' where s': "scheduler_rr flags s = Ok INIT_TID s'" "kinv s'" "same_core s s'" "InitThread s' = InitThread s"
    "threadList s' = threadList s" "si_initialized (SchedulerInfo s') = TRUE" "si_policy (SchedulerInfo s') = SCHED_POLICY_RR"
    "state_after s' p = rr_next_state (jiffies s) (theap s p)"
    using scheduler_rr_total [of s flags] assms(1-3) unfolding rr_ok_def by metis
  have "live s' p" using s'(8) rr_next_exiting [OF assms(4), of "jiffies s"] by (metis state_after_def)
  moreover have "th_Deferred (theap s' p) = th_Deferred (theap s p)" using s'(3) by (simp add: same_core_def th_same_def)
  ultimately show ?thesis using s' assms(3,4) by (simp add: rr_ok_def)
qed

lemma rr_rounds_exiting:
  assumes "rr_ok s" and "live s p" and "p \<noteq> InitThread s" and "exit_in_progress (th_Deferred (theap s p)) = TRUE"
  shows "\<exists>s'. rr_rounds ts s = Ok () s' \<and> live s' p \<and> threadList s' = threadList s"
  using assms
proof (induction ts arbitrary: s)
  case Nil
  then show ?case by simp
next
  case (Cons t ts)
  let ?s = "s\<lparr>jiffies := t\<rparr>"
  have "rr_ok ?s" "live ?s p" using Cons.prems(1,2) by (simp_all add: rr_ok_def live_def)
  then obtain u where u: "scheduler_rr 0 ?s = Ok INIT_TID u" "rr_ok u" "live u p" "p \<noteq> InitThread u"
    "exit_in_progress (th_Deferred (theap u p)) = TRUE" "threadList u = threadList s"
    using rr_round_exiting [of ?s p 0] Cons.prems(3,4) by auto
  with Cons.IH [OF u(2-5)] show ?case by auto
qed

text \<open>The accounting loop of the profiler.\<close>

lemma profiler_loop:
  assumes k: "kinv s" and l: "profiler_ticks_limit s div 100 \<noteq> 0"
  shows "\<exists>s'. foldR profiler_visit all_tids s = Ok () s' \<and>
    (\<forall>p. theap s' p = (if live s p then profiler_fields (profiler_ticks_limit s) (theap s p) else theap s p))"
proof -
  let ?L = "profiler_ticks_limit s"
  let ?P = "\<lambda>ys (t :: kstate). threadList t = threadList s \<and> profiler_ticks_limit t = ?L \<and>
      (\<forall>p. theap t p = (if live s p \<and> p \<in> threadList s ` set ys then profiler_fields ?L (theap s p) else theap s p))"
  have "\<exists>s'. foldR profiler_visit all_tids s = Ok () s' \<and> ?P all_tids s'"
  proof (rule foldR_prefix)
    show "?P [] s" by simp
  next
    fix ys zs :: "int list" and i and t :: kstate
    assume split: "all_tids = ys @ i # zs" and P: "?P ys t"
    let ?q = "threadList s i"
    have d: "distinct all_tids" by (simp add: all_tids_def)
    have r: "tid_in_range j \<and> j \<noteq> i" if "j \<in> set ys" for j
      using d that set_all_tids [of j] unfolding split by auto
    have ri: "tid_in_range i" using set_all_tids [of i] unfolding split by simp
    have new: "live s ?q \<Longrightarrow> ?q \<notin> threadList s ` set ys"
      using kinv_slot_inj [OF k ri] r live_not_NULL by fastforce
    then have q: "theap t ?q = theap s ?q" using P by auto
    show "\<exists>t'. profiler_visit i t = Ok () t' \<and> ?P (ys @ [i]) t'"
    proof (cases "live s ?q")
      case True
      with q P l have "profiler_visit i t = Ok () (upd_thread ?q (profiler_fields ?L) t)"
        by (simp add: profiler_visit_def Let_def live_def)
      moreover have "theap (upd_thread ?q (profiler_fields ?L) t) p =
          (if live s p \<and> p \<in> threadList s ` set (ys @ [i]) then profiler_fields ?L (theap s p) else theap s p)" for p
        using P q True by (cases "p = ?q") simp_all
      ultimately show ?thesis using P by simp
    next
      case False
      with q P have "profiler_visit i t = Ok () t" by (auto simp: profiler_visit_def Let_def live_def)
      then show ?thesis using P False by auto
    qed
  qed
  moreover have "live s p \<Longrightarrow> p \<in> threadList s ` set all_tids" for p
    using kinv_live_slot [OF k] set_all_tids by (metis imageI)
  ultimately show ?thesis by fastforce
qed

section \<open>Properties\<close>

text \<open>A thread that asked to exit is never reaped: after \<open>exit_thread\<close> the structure and the slot of
  the thread stay in use through any number of round robin rounds, at any times, because the exit
  request is never cleared and is served before the zombies are. (The reaping of a thread that was
  made a zombie directly does free it, see the life cycle of a round.)\<close>

theorem exited_thread_never_reaped:
  assumes "rr_ok s" and "valid_tid s tid" and "tid \<noteq> INIT_TID"
  shows "\<exists>s1 s2. exit_thread tid s = Ok 0 s1 \<and> rr_rounds ts s1 = Ok () s2 \<and> valid_tid s2 tid"
proof -
  let ?p = "threadList s tid"
  let ?s = "upd_thread ?p (\<lambda>th. th\<lparr>th_Deferred := (th_Deferred th)\<lparr>exit_in_progress := TRUE\<rparr>\<rparr>) s"
  have k: "kinv s" using assms(1) by (simp add: rr_ok_def)
  have "rr_ok ?s" using assms(1) by (simp add: rr_ok_def kinv_upd_thread th_keeps_def)
  moreover have "live ?s ?p" using assms(2) by (simp add: valid_tid_def live_def)
  moreover have "?p \<noteq> InitThread ?s" using kinv_slot_neq_Init [OF k _ assms(3)] assms(2) by (simp add: valid_tid_def)
  ultimately obtain s2 where "rr_rounds ts ?s = Ok () s2" "live s2 ?p" "threadList s2 = threadList s"
    using rr_rounds_exiting [of ?s ?p ts] by auto
  with exit_thread_valid [OF k assms(2,3)] assms(2) show ?thesis by (auto simp: valid_tid_def)
qed

theorem exited_thread_never_reaped_witness:
  "\<exists>s1 s2. exit_thread 1 demo = Ok 0 s1 \<and> rr_rounds [101, 102, 103] s1 = Ok () s2 \<and> valid_tid s2 1"
  by (rule exited_thread_never_reaped) (simp_all add: rr_ok_def demo_sched_def)

text \<open>The profiler: with a limit of at least 100 ticks, the accounting returns and gives every valid
  thread the ticks it ran modulo the limit, in hundredths of the limit; a thread that ran for all
  the ticks of the period is reported with 0 percent.\<close>

theorem profiler_accounts:
  assumes "kinv s" and "valid_tid s (current_thread s)" and "100 \<le> profiler_ticks_limit s"
  shows "\<exists>s'. thread_profiler 2 s = Ok 0 s' \<and> (\<forall>p. live s p \<longrightarrow>
    th_profiler_last_ticks (theap s' p) = th_profiler_ticks_running (theap s p) \<and>
    th_profiler_ticks_running (theap s' p) = 0 \<and>
    th_profiler_percentage_running (theap s' p) =
      (th_profiler_ticks_running (theap s p) mod profiler_ticks_limit s) div (profiler_ticks_limit s div 100) \<and>
    (th_profiler_ticks_running (theap s p) = profiler_ticks_limit s \<longrightarrow> th_profiler_percentage_running (theap s' p) = 0))"
proof -
  have "unat (profiler_ticks_limit s div 100) = unat (profiler_ticks_limit s) div 100"
    by (simp add: unat_div_distrib)
  moreover have "100 \<le> unat (profiler_ticks_limit s)" using assms(3) by (simp add: word_le_nat_alt)
  ultimately have "profiler_ticks_limit s div 100 \<noteq> 0" by (metis div_greater_zero_iff not_gr_zero unat_0 zero_less_numeral)
  then obtain u where u: "foldR profiler_visit all_tids s = Ok () u"
    "\<And>p. live s p \<Longrightarrow> theap u p = profiler_fields (profiler_ticks_limit s) (theap s p)"
    using profiler_loop [OF assms(1)] by auto
  let ?I = "up_IdleThread (UPProcessorBlock s)"
  have "thread_profiler 2 s = Ok 0 (u\<lparr>profiler_percentage_all_normal_threads := 100 - th_profiler_percentage_running (theap u ?I),
      profiler_percentage_idle_thread := th_profiler_percentage_running (theap u ?I)\<rparr>)"
    using kinv_InitThread(1,3) [OF assms(1)] assms(2) u(1)
    by (simp add: thread_profiler_def Let_def live_def GetCurrentThread_def GetThreadByTID_def valid_tid_def tid_in_range_def)
  then show ?thesis by (auto simp: u(2) profiler_fields_def Let_def)
qed

theorem profiler_accounts_witness:
  "\<exists>s'. thread_profiler 2 (upd_thread 0x1000 (\<lambda>th. th\<lparr>th_profiler_ticks_running := 1000\<rparr>) demo\<lparr>profiler_ticks_limit := 1000\<rparr>)
     = Ok 0 s' \<and> th_profiler_percentage_running (theap s' 0x1000) = 0"
proof -
  let ?s = "(upd_thread 0x1000 (\<lambda>th. th\<lparr>th_profiler_ticks_running := 1000\<rparr>) demo)\<lparr>profiler_ticks_limit := 1000\<rparr>"
  have "kinv ?s" by (simp add: kinv_upd_thread th_keeps_def)
  moreover have "valid_tid ?s (current_thread ?s)" "live ?s 0x1000"
    by (simp_all add: valid_tid_def live_def demo_threadList_def demo_threads_def)
  ultimately show ?thesis using profiler_accounts [of ?s] by auto
qed

end
