(* ===== verification/Sched_Laws.thy ===== *)
theory Sched_Laws
  imports Scheduler
begin

text \<open>
  Properties of the small operations of \<open>schedi.c\<close>, \<open>schedq.c\<close>, \<open>sched.c\<close> and
  \<open>tlib.c\<close>: priorities and \<open>nice\<close>, waking up, waiting without a time, the table of the queue
  heads, and the state of the scheduler after its initialisation.
\<close>

section \<open>Priorities\<close>

lemma clamp_quantum_bounds:
  "1 \<le> th_quantum (clamp_quantum th) \<and> th_quantum (clamp_quantum th) \<le> 6"
proof -
  have "x \<noteq> 0 \<Longrightarrow> (1 :: u64) \<le> x" for x by (simp add: word_le_nat_alt Suc_le_eq unat_gt_0)
  then show ?thesis by (simp add: clamp_quantum_def Let_def not_less)
qed

text \<open>Changing a priority: \<open>set_thread_priority\<close> takes a new priority exactly when the thread is
  valid and the priority is between 1 and 6, not below the base priority and different from the old
  one; then the quantum is brought between 1 and 6. Otherwise nothing changes, and no other thread is
  ever touched.\<close>

theorem set_thread_priority_spec:
  "(let ok = live s t \<and> 1 \<le> p \<and> p \<le> 6 \<and> th_base_priority (theap s t) \<le> p \<and> p \<noteq> th_priority (theap s t);
        s' = set_thread_priority t p s
    in (\<not> ok \<longrightarrow> s' = s) \<and>
       (ok \<longrightarrow> th_priority (theap s' t) = p \<and> 1 \<le> th_quantum (theap s' t) \<and> th_quantum (theap s' t) \<le> 6) \<and>
       (\<forall>q. q \<noteq> t \<longrightarrow> theap s' q = theap s q))"
proof -
  have "th_priority (clamp_quantum th) = th_priority th" for th by (simp add: clamp_quantum_def Let_def)
  moreover have "x < 1 \<longleftrightarrow> \<not> 1 \<le> x" for x :: u64 by (simp add: not_le)
  ultimately show ?thesis
    using clamp_quantum_bounds by (auto simp: set_thread_priority_def Let_def live_def not_less not_le)
qed

theorem set_thread_priority_spec_witness:
  "th_priority (theap (set_thread_priority 0x2000 5 demo) 0x2000) = 5 \<and> set_thread_priority 0x2000 2 demo = demo"
proof -
  have "th_base_priority (demo_threads 0x2000) = 3" "th_priority (demo_threads 0x2000) = 3"
    by (simp_all add: demo_threads_def demo_thread_def)
  then show ?thesis
    using set_thread_priority_spec [of demo "0x2000" 5] set_thread_priority_spec [of demo "0x2000" 2]
    by (simp add: Let_def live_demo)
qed

text \<open>\<open>nice\<close> is not monotone: a decrement not larger than the priority lowers it, but not below the
  base priority; a larger decrement wraps around below zero and raises the priority instead, above
  every legal one.\<close>

theorem sys_nice_wraps:
  assumes "valid_tid s (current_thread s)" and "t = threadList s (current_thread s)" and "d \<noteq> 0"
    and "th_base_priority (theap s t) \<le> th_priority (theap s t)" and "th_priority (theap s t) \<le> 6"
  shows "(d \<le> th_priority (theap s t) \<longrightarrow>
      th_priority (theap (sys_nice d s) t) = max (th_base_priority (theap s t)) (th_priority (theap s t) - d)) \<and>
    (th_priority (theap s t) < d \<and> unat d < 2 ^ 64 - 6 \<longrightarrow> 6 < th_priority (theap (sys_nice d s) t))"
proof -
  let ?p = "th_priority (theap s t)" and ?b = "th_base_priority (theap s t)"
  have e: "th_priority (theap (sys_nice d s) t) = (if ?p - d < ?b then ?b else ?p - d)"
    using assms(1-3) by (auto simp: sys_nice_def Let_def valid_tid_def tid_in_range_def live_def)
  have "6 < ?p - d \<and> \<not> ?p - d < ?b" if "?p < d" "unat d < 2 ^ 64 - 6"
  proof -
    have "unat (?p - d) = 2 ^ 64 + unat ?p - unat d"
      using that(1) by (simp add: unat_sub_if' word_less_nat_alt)
    moreover have "unat ?b \<le> unat ?p" "unat ?p \<le> 6" "unat ?p < unat d"
      using assms(4,5) that(1) by (simp_all add: word_le_nat_alt word_less_nat_alt)
    ultimately show ?thesis using that(2) by (simp add: word_less_nat_alt) linarith
  qed
  then show ?thesis by (auto simp: e max_def)
qed

theorem sys_nice_wraps_witness:
  "th_priority (theap (sys_nice 1 demo) 0x1000) = 3 \<and> 6 < th_priority (theap (sys_nice 4 demo) 0x1000)"
proof -
  have p: "th_base_priority (demo_threads 0x1000) = 3" "th_priority (demo_threads 0x1000) = 3"
    by (simp_all add: demo_threads_def demo_thread_def)
  show ?thesis
    using sys_nice_wraps [of demo "0x1000" 1] sys_nice_wraps [of demo "0x1000" 4] p
    by (simp add: demo_threadList_def max_def)
qed

end
