(* ===== verification/Kernel_Run.thy ===== *)
theory Kernel_Run
  imports Tick_Laws Thread Sched_Laws
begin

text \<open>
  The kernel between two interrupts, as a transition system: the timer interrupt with any registers of
  the interrupted thread, the system calls on threads, priorities and messages that are modelled on this state, and the
  internal state changes of \<open>schedi.c\<close>. The timer event of the window manager is that of
  gthouse/wink/evi/ibroker.c. The system calls on files, sockets and processes and the registration of callbacks
  are not steps. The locale \<open>transition_system\<close> is the general fact that an invariant
  kept by every step holds in every reachable state; it is interpreted on \<open>kstep\<close> with the running
  invariant \<open>run_ok\<close>. The locale \<open>calm_op\<close> extends the contract of the thread operations: an
  operation that puts no thread in standby keeps the running invariant.
\<close>

section \<open>Transition systems\<close>

locale transition_system =
  fixes step :: "'s \<Rightarrow> 's \<Rightarrow> bool" and inv :: "'s \<Rightarrow> bool"
  assumes step_inv: "inv s \<Longrightarrow> step s t \<Longrightarrow> inv t"
begin

lemma reachable_inv: "step\<^sup>*\<^sup>* s t \<Longrightarrow> inv s \<Longrightarrow> inv t"
  by (induction rule: rtranclp_induct) (auto intro: step_inv)

end

section \<open>Changes a running system tolerates\<close>

lemma th_calm_refl [simp]: "th_calm x x"
  by (simp add: th_calm_def th_keeps_def)

lemma th_calm_trans: "th_calm x y \<Longrightarrow> th_calm y z \<Longrightarrow> th_calm x z"
  by (auto simp: th_calm_def th_keeps_def)

text \<open>
  \<open>calm_to s u\<close>: every thread of \<open>u\<close> comes from the one of \<open>s\<close> by a tolerated change, and the
  globals of the scheduler are the same. The messages may differ.
\<close>

definition calm_to :: "kstate \<Rightarrow> kstate \<Rightarrow> bool" where
  "calm_to s u \<longleftrightarrow> (\<forall>p. th_calm (theap s p) (theap u p)) \<and> threadList u = threadList s \<and>
     InitThread u = InitThread s \<and> UPProcessorBlock u = UPProcessorBlock s \<and> SchedulerInfo u = SchedulerInfo s \<and>
     system_state u = system_state s \<and> current_thread u = current_thread s \<and> currentq u = currentq s \<and>
     task_switch_status u = task_switch_status s \<and> current_pid u = current_pid s \<and>
     DispatchCountBlock u = DispatchCountBlock s \<and> contextCPL u = contextCPL s"

named_theorems calm \<open>operations that change threads only in tolerated ways\<close>

lemma calm_to_refl [simp, calm]: "calm_to s s"
  by (simp add: calm_to_def)

lemma calm_to_trans: "calm_to s t \<Longrightarrow> calm_to t u \<Longrightarrow> calm_to s u"
  unfolding calm_to_def by (auto intro: th_calm_trans)

lemma calm_to_upd_thread [calm]:
  "th_calm (theap s p) (f (theap s p)) \<Longrightarrow> calm_to s (upd_thread p f s)"
  by (simp add: calm_to_def)

lemma calm_to_upd_msg [calm]: "calm_to s (upd_msg p f s)"
  by (simp add: calm_to_def)

lemma calm_to_globals [calm]:
  "calm_to s (s\<lparr>ev_responder_thread := d\<rparr>)" "calm_to s (s\<lparr>foreground_thread := c\<rparr>)"
  by (simp_all add: calm_to_def)

lemma run_ok_calm:
  assumes r: "run_ok s" and c: "calm_to s u" and k: "kinv u"
  shows "run_ok u"
proof -
  have th: "th_calm (theap s p) (theap u p)" for p using c by (simp add: calm_to_def)
  have l: "live u p = live s p" for p using th [of p] by (simp add: live_def th_calm_def th_keeps_def)
  have "quiet (theap u p)" if "live u p" for p
    using r that th [of p] unfolding l by (simp add: run_ok_def threads_ok_def quiet_def th_calm_def)
  moreover have "spawnable u p" if "state_after u p = Some STANDBY" for p
  proof -
    have u: "live s p" "th_state (theap u p) = STANDBY" using that by (auto simp: state_after_def l split: if_splits)
    then have s: "th_state (theap s p) = STANDBY" "th_saved (theap u p) = th_saved (theap s p)"
      "th_te (theap u p) = th_te (theap s p)"
      using th [of p] by (simp_all add: th_calm_def)
    then have "state_after s p = Some STANDBY" using u by (simp add: state_after_def)
    with r s c show ?thesis by (simp add: run_ok_def threads_ok_def spawnable_def calm_to_def)
  qed
  ultimately have "threads_ok u" by (simp add: threads_ok_def)
  moreover have "th_state (theap u (cur u)) \<noteq> STANDBY"
    using r c th [of "cur s"] by (auto simp: run_ok_def calm_to_def th_calm_def)
  ultimately show ?thesis
    using r c k by (simp add: run_ok_def ts_ok_def sched_ok_def counters_ok_def calm_to_def valid_tid_def l)
qed

section \<open>The operations on one thread\<close>

locale calm_op = thread_op +
  assumes upd_calm: "th_calm t (upd s t)"
begin

lemma op_calm: "calm_to s (op tid s)"
  by (simp add: op_cases calm_to_upd_thread upd_calm)

lemma op_run_ok: "run_ok s \<Longrightarrow> run_ok (op tid s)"
  by (rule run_ok_calm [OF _ op_calm]) (auto intro: op_inv simp: run_okD)

end

lemmas calm_unfold = th_calm_def th_keeps_def

interpretation c_blocked: calm_op do_thread_blocked
  "\<lambda>s th. th\<lparr>th_state := BLOCKED, th_blocked_jiffy := jiffies s\<rparr>" "\<lambda>s tid. True"
  by unfold_locales (simp add: calm_unfold)

interpretation c_dead: calm_op do_thread_dead "\<lambda>s th. th\<lparr>th_state := DEAD\<rparr>" "\<lambda>s tid. True"
  by unfold_locales (simp add: calm_unfold)

interpretation c_initialized: calm_op do_thread_initialized "\<lambda>s th. th\<lparr>th_state := INITIALIZED\<rparr>" "\<lambda>s tid. True"
  by unfold_locales (simp add: calm_unfold)

interpretation c_ready: calm_op do_thread_ready
  "\<lambda>s th. th\<lparr>th_state := READY, th_ready_jiffy := jiffies s\<rparr>" "\<lambda>s tid. True"
  by unfold_locales (simp add: calm_unfold)

interpretation c_running: calm_op do_thread_running "\<lambda>s th. th\<lparr>th_state := RUNNING\<rparr>" "\<lambda>s tid. True"
  by unfold_locales (simp add: calm_unfold)

interpretation c_waiting: calm_op "\<lambda>tid. do_thread_waiting tid ms"
  "\<lambda>s th. th\<lparr>th_state := WAITING, th_waiting_jiffy := jiffies s,
     th_wake_jiffy := jiffies s + (if ms = 0 then 1 else ms)\<rparr>" "\<lambda>s tid. True"
  by unfold_locales (simp add: calm_unfold)

interpretation c_zombie: calm_op do_thread_zombie
  "\<lambda>s th. th\<lparr>th_state := ZOMBIE, th_zombie_jiffy := jiffies s\<rparr>" "\<lambda>s tid. tid \<noteq> INIT_TID"
  by unfold_locales (simp add: calm_unfold)

interpretation c_credits: calm_op do_credits_by_tid "\<lambda>s th. th\<lparr>th_credits := th_credits th + 1\<rparr>" "\<lambda>s tid. True"
  by unfold_locales (simp add: calm_unfold)

interpretation c_reason: calm_op "\<lambda>tid. wait_for_a_reason tid reason"
  "\<lambda>s th. th\<lparr>th_state := WAITING\<rparr>" "\<lambda>s tid. 0 \<le> reason \<and> reason < 10"
  by unfold_locales (simp add: calm_unfold)

interpretation c_wakeup: calm_op wakeup_thread "\<lambda>s th. th\<lparr>th_state := READY, th_ready_jiffy := jiffies s\<rparr>"
  "\<lambda>s tid. th_saved (theap s (threadList s tid)) \<noteq> FALSE \<and> th_state (theap s (threadList s tid)) \<notin> {READY, RUNNING, BLOCKED}"
  by unfold_locales (simp add: calm_unfold)

interpretation c_yield: calm_op yield
  "\<lambda>s th. th\<lparr>th_Deferred := (th_Deferred th)\<lparr>yield_in_progress := TRUE\<rparr>\<rparr>" "\<lambda>s tid. True"
  by unfold_locales (simp add: calm_unfold)

interpretation c_sleep: calm_op "\<lambda>tid. sleep tid ms"
  "\<lambda>s th. th\<lparr>th_Deferred := (th_Deferred th)\<lparr>sleep_in_progress := TRUE, desired_sleep_ms := ms\<rparr>\<rparr>" "\<lambda>s tid. True"
  by unfold_locales (simp add: calm_unfold)

lemmas op_run_ok = c_blocked.op_run_ok c_dead.op_run_ok c_initialized.op_run_ok c_ready.op_run_ok
  c_running.op_run_ok c_waiting.op_run_ok c_zombie.op_run_ok c_credits.op_run_ok c_reason.op_run_ok
  c_wakeup.op_run_ok c_yield.op_run_ok c_sleep.op_run_ok

lemma sys_sleep_run_ok: "run_ok s \<Longrightarrow> run_ok (sys_sleep tid ms s)"
  by (simp add: sys_sleep_def c_sleep.op_run_ok)

lemma sys_yield_run_ok: "run_ok s \<Longrightarrow> run_ok (sys_yield tid s)"
  by (simp add: sys_yield_def c_yield.op_run_ok)

lemma sys_nice_run_ok: "run_ok s \<Longrightarrow> run_ok (sys_nice d s)"
  by (auto simp: sys_nice_def Let_def intro!: run_ok_upd simp: calm_unfold)

lemma set_thread_priority_run_ok: "run_ok s \<Longrightarrow> run_ok (set_thread_priority p x s)"
  by (auto simp: set_thread_priority_def Let_def clamp_quantum_def intro!: run_ok_upd simp: calm_unfold)

lemma set_foreground_thread_run_ok: "run_ok s \<Longrightarrow> run_ok (set_foreground_thread tid s)"
  by (simp add: set_foreground_thread_def Let_def run_ok_irrelevant)

lemma sys_msgctl_run_ok: "run_ok s \<Longrightarrow> run_ok (snd (sys_msgctl c opt x s))"
  by (auto simp: sys_msgctl_def Let_def calm_unfold intro!: run_ok_upd split: option.split)

lemma sys_notify_event_run_ok: "run_ok s \<Longrightarrow> run_ok (snd (sys_notify_event c t e s))"
  by (auto simp: sys_notify_event_def Let_def calm_unfold intro!: run_ok_upd)

lemma exit_thread_run_ok: "run_ok s \<Longrightarrow> exit_thread tid s = Ok r t \<Longrightarrow> run_ok t"
  by (auto simp: exit_thread_def Let_def calm_unfold intro!: run_ok_upd split: if_splits)

section \<open>Messages\<close>

lemma calm_set_ev_responder [calm]: "calm_to s (snd (set_ev_responder p s))"
  by (auto simp: set_ev_responder_def calm_to_def calm_unfold)

lemma calm_make_responder [calm]: "calm_to s (ipc_make_responder p s)"
  unfolding ipc_make_responder_def
  by (auto intro!: calm_to_trans [OF _ calm_set_ev_responder] calm_to_upd_thread simp: calm_unfold)

lemma calm_wakeup_receiver [calm]: "calm_to s (ipc_wakeup_receiver p tid s)"
  by (simp add: ipc_wakeup_receiver_def Let_def c_ready.op_calm)

lemma calm_receive [calm]: "calm_to s (ipc_make_responder p (ipc_wakeup_receiver p tid s))"
  by (rule calm_to_trans [OF calm_wakeup_receiver calm_make_responder])

lemma calm_advance_head [calm]: "calm_to s (advance_head p s)"
  by (simp add: advance_head_def calm_to_upd_thread calm_unfold)

lemma calm_receiver: "ipc_receiver who tid s = Ok t u \<Longrightarrow> u = s"
  by (auto simp: ipc_receiver_def Let_def split: if_splits)

lemma calm_store: "ipc_store_message who p src dst code l1 l2 l3 l4 s = Ok r u \<Longrightarrow> calm_to s u"
  unfolding ipc_store_message_def Let_def
  by (auto intro!: calm_to_trans [OF calm_to_upd_msg calm_to_upd_thread] simp: calm_unfold split: if_splits)

lemma calm_last_message: "ipc_last_message n p s = Ok m u \<Longrightarrow> u = s"
  by (auto simp: ipc_last_message_def Let_def split: if_splits)

lemma calm_mousemove:
  assumes "ipc_coalesce_mousemove p src dst code l1 l2 s = Ok m u"
  shows "calm_to s u"
proof -
  have "calm_to s (upd_thread p (\<lambda>th. th\<lparr>th_quantum := QUANTUM_MAX * 2, th_state := READY\<rparr>) s)"
    by (rule calm_to_upd_thread) (simp add: calm_unfold)
  then show ?thesis
    using assms unfolding ipc_coalesce_mousemove_def
    by (auto simp: bindR_eq_Ok dest!: calm_last_message intro: calm_to_trans [OF _ calm_to_upd_msg] split: if_splits)
qed

lemma calm_key: "ipc_coalesce_key p src dst code l1 l2 s = Ok m u \<Longrightarrow> calm_to s u"
  unfolding ipc_coalesce_key_def Let_def
  by (auto simp: bindR_eq_Ok dest!: calm_last_message intro: calm_to_upd_msg split: if_splits)

lemma calm_post2:
  "ipc_post_message_to_tid2 src tid code l1 l2 l3 l4 s = Ok r u \<Longrightarrow> calm_to s u"
  unfolding ipc_post_message_to_tid2_def Let_def
  by (auto simp: bindR_eq_Ok dest!: calm_receiver calm_store intro: calm_to_trans [OF calm_receive] split: if_splits)

lemma calm_post:
  assumes "ipc_post_message_to_tid src tid code l1 l2 s = Ok r u"
  shows "calm_to s u"
  using assms unfolding ipc_post_message_to_tid_def Let_def
  by (auto simp: bindR_eq_Ok dest!: calm_receiver calm_store calm_mousemove calm_key
      intro: calm_to_trans [OF calm_receive] calm_to_trans split: if_splits)

lemma calm_get_message:
  assumes "ipc_get_message ubuf b s = Ok r u"
  shows "calm_to s u"
proof -
  have f: "calm_to v u" if "ipc_get_message_fail p x y b v = Ok r u" for p x y v
  proof -
    have "calm_to v (upd_thread p (\<lambda>th. th\<lparr>th_msgctl := (th_msgctl th)\<lparr>block_in_progress := TRUE, miss_count := 0\<rparr>\<rparr>) v)"
      by (rule calm_to_upd_thread) (simp add: calm_unfold)
    with that show ?thesis
      by (auto simp: ipc_get_message_fail_def Let_def intro: calm calm_to_trans [OF _ calm_advance_head] split: if_splits)
  qed
  have g: "calm_to s (upd_thread p (\<lambda>th. th\<lparr>th_msgctl := (th_msgctl th)\<lparr>miss_count := k\<rparr>\<rparr>) s)" for p k
    by (rule calm_to_upd_thread) (simp add: calm_unfold)
  have h: "calm_to s (upd_thread p (\<lambda>th. th\<lparr>th_msgctl := (th_msgctl th)\<lparr>miss_count := c_int (miss_count (th_msgctl th) + 1)\<rparr>\<rparr>) s)" for p
    by (rule calm_to_upd_thread) (simp add: calm_unfold)
  from assms show ?thesis
    by (auto simp: ipc_get_message_def Let_def dest!: f
        intro: calm_to_trans [OF calm_to_upd_msg calm_advance_head] calm_to_trans [OF h] split: if_splits)
qed

lemma post_run_ok: "run_ok s \<Longrightarrow> ipc_post_message_to_tid src tid code l1 l2 s = Ok r u \<Longrightarrow> run_ok u"
  by (blast intro: run_ok_calm calm_post post_inv run_okD(1))

lemma post2_run_ok: "run_ok s \<Longrightarrow> ipc_post_message_to_tid2 src tid code l1 l2 l3 l4 s = Ok r u \<Longrightarrow> run_ok u"
  by (blast intro: run_ok_calm calm_post2 post2_inv run_okD(1))

lemma get_message_run_ok: "run_ok s \<Longrightarrow> ipc_get_message ubuf b s = Ok r u \<Longrightarrow> run_ok u"
  by (blast intro: run_ok_calm calm_get_message ipc_get_message_inv run_okD(1))

lemma calm_destinations:
  "ipc_post_message_to_foreground_thread msg l1 l2 s = Ok r u \<Longrightarrow> calm_to s u"
  "ipc_post_message_to_init msg l1 l2 s = Ok r u \<Longrightarrow> calm_to s u"
  "ipc_post_message_to_ds msg l1 l2 s = Ok r u \<Longrightarrow> calm_to s u"
  by (auto simp: ipc_post_message_to_foreground_thread_def ipc_post_message_to_init_def ipc_post_message_to_ds_def Let_def
      bindR_eq_Ok dest!: calm_post intro: calm_to_trans [OF calm_to_trans [OF c_credits.op_calm c_credits.op_calm]] split: if_splits)

lemma calm_input_event: "ipc_post_input_event_to_ds e l1 l2 s = Ok r u \<Longrightarrow> calm_to s u"
  by (auto simp: ipc_post_input_event_to_ds_def Let_def bindR_eq_Ok split: if_splits dest: calm_destinations(3))

lemma calm_broadcast_loop: "ipc_broadcast_loop is src msg l1 l2 l3 l4 n s = Ok r u \<Longrightarrow> calm_to s u"
  by (induction "is" arbitrary: s n) (auto simp: Let_def bindR_eq_Ok split: if_splits dest!: calm_post2 intro: calm_to_trans)

lemma calm_syscalls:
  "sys_post_message_to_tid tid b m s = Ok r u \<Longrightarrow> calm_to s u"
  "sys_broadcast_system_message b m s = Ok r u \<Longrightarrow> calm_to s u"
  by (auto simp: sys_post_message_to_tid_def sys_broadcast_system_message_def ipc_broadcast_system_message_def Let_def
      bindR_eq_Ok split: if_splits dest: calm_post2 calm_broadcast_loop)

lemma calm_restart_queue [calm]: "calm_to s (restart_queue p s)"
  by (simp add: restart_queue_def calm_to_upd_thread calm_unfold qidx_def)

lemma calm_get_message2:
  assumes "sys_get_message2 ubuf index restart b s = Ok r u"
  shows "calm_to s u"
proof -
  have f: "calm_to v u" if "sys_get_message2_fail p x y z b v = Ok r u" for p x y z v
  proof -
    have "calm_to v (upd_thread p (\<lambda>th. th\<lparr>th_msgctl := (th_msgctl th)\<lparr>block_in_progress := TRUE\<rparr>\<rparr>) v)"
      by (rule calm_to_upd_thread) (simp add: calm_unfold)
    with that show ?thesis
      by (auto simp: sys_get_message2_fail_def Let_def intro: calm calm_to_trans [OF _ calm_advance_head]
          calm_to_trans [OF _ calm_restart_queue] split: if_splits)
  qed
  have h: "calm_to s (upd_thread p (\<lambda>th. th\<lparr>th_MsgQueueHead := index\<rparr>) s)" if "0 \<le> index" "index < MSG_QUEUE_MAX" for p
    by (rule calm_to_upd_thread) (use that in \<open>simp add: calm_unfold qidx_def\<close>)
  have q: "calm_to s (upd_msg m g (upd_thread p (\<lambda>th. th\<lparr>th_MsgQueueHead := index\<rparr>) s))" if "0 \<le> index" "index < MSG_QUEUE_MAX" for p m g
    using calm_to_trans [OF h calm_to_upd_msg] that by blast
  from assms show ?thesis
    by (auto simp: sys_get_message2_def Let_def h dest!: f
        intro: calm_to_trans [OF q calm_advance_head] calm_to_trans [OF q calm_restart_queue] calm_to_trans [OF h] split: if_splits)
qed

lemma message_run_ok:
  assumes "run_ok s"
  shows "ipc_post_message_to_foreground_thread msg l1 l2 s = Ok r u \<Longrightarrow> run_ok u"
    "ipc_post_message_to_init msg l1 l2 s = Ok r u \<Longrightarrow> run_ok u"
    "ipc_post_message_to_ds msg l1 l2 s = Ok r u \<Longrightarrow> run_ok u"
    "ipc_post_input_event_to_ds e l1 l2 s = Ok r u \<Longrightarrow> run_ok u"
    "sys_post_message_to_tid tid b m s = Ok r' u \<Longrightarrow> run_ok u"
    "sys_broadcast_system_message b m s = Ok r' u \<Longrightarrow> run_ok u"
    "sys_get_message2 p index restart m s = Ok r'' u \<Longrightarrow> run_ok u"
  using run_okD(1) [OF assms]
  by (blast intro: run_ok_calm [OF assms] calm_destinations calm_input_event calm_syscalls calm_get_message2 kernel_inv)+

section \<open>A thread is selected\<close>

lemma select_run_ok:
  assumes r: "run_ok s" and p: "live s p" "p \<noteq> InitThread s" "p \<noteq> cur s" "th_saved (theap s p) \<noteq> TRUE" and te: "th_te (theap s p) \<noteq> NULL"
  shows "run_ok (SelectForExecution p s)"
proof -
  let ?f = "\<lambda>th. th\<lparr>th_state := STANDBY, th_standbyCount := 0\<rparr>"
  have e: "SelectForExecution p s = upd_thread p ?f s" using live_not_NULL [OF p(1)] by (simp add: SelectForExecution_def schediSelectForExecution_def)
  have k: "kinv (upd_thread p ?f s)" using run_okD(1) [OF r] by (simp add: kinv_upd_thread th_keeps_def)
  have l: "live (upd_thread p ?f s) q = live s q" for q by (rule live_upd_thread) (simp add: th_keeps_def)
  have "threads_ok (upd_thread p ?f s)"
    using r p te by (auto simp: threads_ok_def run_ok_def quiet_def spawnable_def state_after_def l split: if_splits)
  then show ?thesis unfolding e using r p(3) k by (auto simp: run_ok_def ts_ok_def sched_ok_def counters_ok_def valid_tid_def l)
qed

section \<open>The timer event of the window manager\<close>

text \<open>\<open>target_thread_queue\<close> is the field of \<open>InputTargets\<close>.\<close>

definition ibroker_post_message_to_ds :: "int \<Rightarrow> int \<Rightarrow> u64 \<Rightarrow> u64 \<Rightarrow> kstate \<Rightarrow> int kres" where
  "ibroker_post_message_to_ds target_thread_queue msg long1 long2 s =
     (if target_thread_queue \<noteq> TRUE then Ok (- 1) s
      else if msg < 0 then Ok (- 1) s
      else ipc_post_message_to_ds msg long1 long2 s)"

definition wmTimerEvent :: "int \<Rightarrow> int \<Rightarrow> kstate \<Rightarrow> int kres" where
  "wmTimerEvent target_thread_queue signature s =
     (if system_state s \<noteq> SYSTEM_RUNNING then Ok (- 1) s
      else if signature \<noteq> 1234 then Ok (- 1) s
      else if jiffies s mod JIFFY_FREQ = 0
      then bindR (ibroker_post_message_to_ds target_thread_queue MSG_TIMER 1234 (jiffies s) s) (\<lambda>_ s. Ok 0 s)
      else Ok 0 s)"

text \<open>The timer interrupt of the configuration in include/config/config.h: the keyboard and the mouse are not
  polled.\<close>

definition timer_interrupt :: "bool \<Rightarrow> int \<Rightarrow> kstate \<Rightarrow> unit kres option" where
  "timer_interrupt initialized tq = irq0_TIMER initialized (\<lambda>s. bindR (wmTimerEvent tq 1234 s) (\<lambda>_. Ok ())) (Ok ())"

text \<open>The display server, when one is registered with a tid in range, is a valid thread.\<close>

definition ds_alive :: "kstate \<Rightarrow> bool" where
  "ds_alive s \<longleftrightarrow> (ds_initialized (DisplayServerInfo s) = TRUE \<longrightarrow> tid_in_range (ds_tid (DisplayServerInfo s)) \<longrightarrow>
     valid_tid s (ds_tid (DisplayServerInfo s)))"

lemma wm_calm: "wmTimerEvent tq sg s = Ok r u \<Longrightarrow> calm_to s u"
  by (auto simp: wmTimerEvent_def ibroker_post_message_to_ds_def bindR_eq_Ok split: if_splits dest: calm_destinations(3))

lemma wm_run_ok: "run_ok s \<Longrightarrow> wmTimerEvent tq sg s = Ok r u \<Longrightarrow> run_ok u"
  by (auto simp: wmTimerEvent_def ibroker_post_message_to_ds_def bindR_eq_Ok split: if_splits dest: message_run_ok(3))

lemma bindR_eq_Iretq: "bindR r f = Iretq u \<longleftrightarrow> r = Iretq u \<or> (\<exists>a s. r = Ok a s \<and> f a s = Iretq u)"
  by (cases r) auto

lemma post_no_iretq: "ipc_post_message_to_tid src tid code l1 l2 s \<noteq> Iretq u"
proof -
  have base: "ipc_receiver w d v \<noteq> Iretq u" "ipc_last_message w q v \<noteq> Iretq u" "ipc_store_message w q a b c x1 x2 x3 x4 v \<noteq> Iretq u"
    for w d q a b c x1 x2 x3 x4 v
    by (auto simp: ipc_receiver_def ipc_last_message_def ipc_store_message_def Let_def)
  have c: "ipc_coalesce_mousemove q a b c x y v \<noteq> Iretq u" "ipc_coalesce_key q a b c x y v \<noteq> Iretq u" for q a b c x y v
    by (auto simp: ipc_coalesce_mousemove_def ipc_coalesce_key_def Let_def base bindR_eq_Iretq split: if_splits)
  show ?thesis by (auto simp: ipc_post_message_to_tid_def Let_def base c bindR_eq_Iretq split: if_splits)
qed

lemma wm_returns:
  assumes r: "run_ok s" and d: "ds_alive s"
  obtains v u where "wmTimerEvent tq 1234 s = Ok v u"
proof -
  have "\<exists>x v. ipc_post_message_to_ds MSG_TIMER 1234 (jiffies s) s = Ok x v"
  proof -
    let ?t = "ds_tid (DisplayServerInfo s)" and ?c = "\<lambda>s. do_credits_by_tid (ds_tid (DisplayServerInfo s)) s"
    have c: "calm_to s (do_credits_by_tid ?t (do_credits_by_tid ?t s))" by (rule calm_to_trans [OF c_credits.op_calm c_credits.op_calm])
    then have "valid_tid (do_credits_by_tid ?t (do_credits_by_tid ?t s)) ?t" if "valid_tid s ?t"
      using that by (auto simp: calm_to_def valid_tid_def live_def th_calm_def th_keeps_def)
    moreover have "kinv (do_credits_by_tid ?t (do_credits_by_tid ?t s))" using run_okD(1) [OF r] by (simp add: credits.op_inv)
    ultimately have "\<exists>x v. ipc_post_message_to_tid HARDWARE_TID ?t MSG_TIMER 1234 (jiffies s) (do_credits_by_tid ?t (do_credits_by_tid ?t s)) = Ok x v"
      if "valid_tid s ?t" using that post_valid [of _ ?t MSG_TIMER] by (simp add: c_int_id is_int32_def)
    with d show ?thesis by (auto simp: ipc_post_message_to_ds_def ds_alive_def Let_def tid_in_range_def)
  qed
  then have "\<exists>v u. wmTimerEvent tq 1234 s = Ok v u" by (auto simp: wmTimerEvent_def ibroker_post_message_to_ds_def)
  then show ?thesis using that by blast
qed

section \<open>The steps of the kernel\<close>

text \<open>
  One rule per entry into the kernel. \<open>frame\<close> and \<open>contextCPL\<close> are what the interrupt entry
  code stores: the registers of the interrupted thread, in ring 3. A call that returns is a step; one that stops the
  machine is none. A thread may be selected when it is not the current one and has not run yet. The steps of
  \<open>schedi.c\<close> without a system call of their own (\<open>do_thread_ready\<close> and so on) are called by the drivers and
  by the file system.
\<close>

inductive kstep :: "bool \<Rightarrow> int \<Rightarrow> kstate \<Rightarrow> kstate \<Rightarrow> bool" for initialized tq where
  timer: "timer_interrupt initialized tq (s\<lparr>frame := f, contextCPL := 3\<rparr>) = Some (Ok () t) \<Longrightarrow> kstep initialized tq s t"
| timer_spawn: "timer_interrupt initialized tq (s\<lparr>frame := f, contextCPL := 3\<rparr>) = Some (Iretq t) \<Longrightarrow> kstep initialized tq s t"
| sleep: "kstep initialized tq s (sys_sleep tid ms s)"
| yield: "kstep initialized tq s (sys_yield tid s)"
| nice: "kstep initialized tq s (sys_nice d s)"
| priority: "kstep initialized tq s (set_thread_priority p x s)"
| foreground: "kstep initialized tq s (set_foreground_thread tid s)"
| msgctl: "kstep initialized tq s (snd (sys_msgctl tid opt x s))"
| notify: "kstep initialized tq s (snd (sys_notify_event caller tid e s))"
| exit: "exit_thread tid s = Ok r t \<Longrightarrow> kstep initialized tq s t"
| select: "live s p \<Longrightarrow> p \<noteq> InitThread s \<Longrightarrow> p \<noteq> cur s \<Longrightarrow> th_saved (theap s p) \<noteq> TRUE \<Longrightarrow> th_te (theap s p) \<noteq> NULL \<Longrightarrow>
    kstep initialized tq s (SelectForExecution p s)"
| post: "ipc_post_message_to_tid src tid code l1 l2 s = Ok r t \<Longrightarrow> kstep initialized tq s t"
| post2: "ipc_post_message_to_tid2 src tid code l1 l2 l3 l4 s = Ok r t \<Longrightarrow> kstep initialized tq s t"
| post_foreground: "ipc_post_message_to_foreground_thread code l1 l2 s = Ok r t \<Longrightarrow> kstep initialized tq s t"
| post_init: "ipc_post_message_to_init code l1 l2 s = Ok r t \<Longrightarrow> kstep initialized tq s t"
| post_ds: "ipc_post_message_to_ds code l1 l2 s = Ok r t \<Longrightarrow> kstep initialized tq s t"
| input_event: "ipc_post_input_event_to_ds e l1 l2 s = Ok r t \<Longrightarrow> kstep initialized tq s t"
| sys_post: "sys_post_message_to_tid tid b m s = Ok x t \<Longrightarrow> kstep initialized tq s t"
| broadcast: "sys_broadcast_system_message b m s = Ok x t \<Longrightarrow> kstep initialized tq s t"
| get: "ipc_get_message ubuf b s = Ok m t \<Longrightarrow> kstep initialized tq s t"
| get2: "sys_get_message2 ubuf index restart b s = Ok m t \<Longrightarrow> kstep initialized tq s t"
| blocked: "kstep initialized tq s (do_thread_blocked tid s)"
| dead: "kstep initialized tq s (do_thread_dead tid s)"
| initialized: "kstep initialized tq s (do_thread_initialized tid s)"
| ready: "kstep initialized tq s (do_thread_ready tid s)"
| running: "kstep initialized tq s (do_thread_running tid s)"
| waiting: "kstep initialized tq s (do_thread_waiting tid ms s)"
| zombie: "kstep initialized tq s (do_thread_zombie tid s)"
| credits: "kstep initialized tq s (do_credits_by_tid tid s)"
| reason: "kstep initialized tq s (wait_for_a_reason tid why s)"
| wakeup: "kstep initialized tq s (wakeup_thread tid s)"

abbreviation (input) wm_event :: "int \<Rightarrow> kstate \<Rightarrow> unit kres" where
  "wm_event tq \<equiv> \<lambda>s. bindR (wmTimerEvent tq 1234 s) (\<lambda>_. Ok ())"

lemma timer_ok:
  assumes r: "run_ok s" and c: "contextCPL s AND 3 = 3" and v: "DeviceInterface_PIT initialized (wm_event tq) s = Ok () v"
  shows "\<exists>t. (timer_interrupt initialized tq s = Some (Ok () t) \<or> timer_interrupt initialized tq s = Some (Iretq t)) \<and> run_ok t"
proof -
  have j: "run_ok (s\<lparr>jiffies := jiffies s + 1\<rparr>)" using run_ok_irrelevant(1) [OF r] .
  have "run_ok v \<and> contextCPL v = contextCPL s"
    using v r wm_run_ok [OF j] wm_calm [of tq 1234 "s\<lparr>jiffies := jiffies s + 1\<rparr>"]
    by (auto simp: DeviceInterface_PIT_def bindR_eq_Ok calm_to_def split: if_splits)
  with timer_after_event [OF r c v] show ?thesis by (simp add: timer_interrupt_def)
qed

lemma ring3_timer_total:
  assumes r: "run_ok s" and d: "ds_alive s"
  shows "\<exists>t. (timer_interrupt initialized tq (s\<lparr>frame := f, contextCPL := 3\<rparr>) = Some (Ok () t) \<or>
    timer_interrupt initialized tq (s\<lparr>frame := f, contextCPL := 3\<rparr>) = Some (Iretq t)) \<and> run_ok t"
proof -
  let ?s = "s\<lparr>frame := f, contextCPL := 3\<rparr>"
  have r': "run_ok ?s" using run_ok_irrelevant(5) [OF r] .
  have "ds_alive (?s\<lparr>jiffies := jiffies s + 1\<rparr>)" using d by (simp add: ds_alive_def valid_tid_def live_def)
  then obtain x u where "wmTimerEvent tq 1234 (?s\<lparr>jiffies := jiffies s + 1\<rparr>) = Ok x u"
    using wm_returns [OF run_ok_irrelevant(1) [OF r', of "jiffies s + 1"]] by blast
  then have "\<exists>v. DeviceInterface_PIT initialized (wm_event tq) ?s = Ok () v" by (simp add: DeviceInterface_PIT_def)
  then show ?thesis using timer_ok [OF r'] by auto
qed

lemma timer_run_ok:
  assumes r: "run_ok s" and c: "contextCPL s AND 3 = 3"
    and t: "timer_interrupt initialized tq s = Some (Ok () t) \<or> timer_interrupt initialized tq s = Some (Iretq t)"
  shows "run_ok t"
proof (cases "DeviceInterface_PIT initialized (wm_event tq) s")
  case (Ok x v)
  with timer_ok [OF r c, of initialized tq v] t show ?thesis by auto
next
  case (Iretq v)
  have "wmTimerEvent tq 1234 u \<noteq> Iretq v" for u
    by (auto simp: wmTimerEvent_def ibroker_post_message_to_ds_def ipc_post_message_to_ds_def Let_def bindR_eq_Iretq post_no_iretq)
  with Iretq show ?thesis by (auto simp: DeviceInterface_PIT_def bindR_eq_Iretq split: if_splits)
qed (use t in \<open>auto simp: timer_interrupt_def irq0_TIMER_def\<close>)

lemma kstep_run_ok:
  assumes "kstep initialized tq s t" and r: "run_ok s"
  shows "run_ok t"
  using assms(1)
proof cases
  case (timer f)
  then show ?thesis using timer_run_ok [OF run_ok_irrelevant(5) [OF r, where f = f and g = 3], of initialized tq t] by simp
next
  case (timer_spawn f)
  then show ?thesis using timer_run_ok [OF run_ok_irrelevant(5) [OF r, where f = f and g = 3], of initialized tq t] by simp
qed (use r in \<open>auto intro: op_run_ok sys_sleep_run_ok sys_yield_run_ok sys_nice_run_ok set_thread_priority_run_ok
  set_foreground_thread_run_ok sys_msgctl_run_ok sys_notify_event_run_ok exit_thread_run_ok post_run_ok post2_run_ok
  get_message_run_ok select_run_ok message_run_ok\<close>)

interpretation kernel: transition_system "kstep initialized tq" run_ok
  by unfold_locales (rule kstep_run_ok)

lemma kernel_reachable_ok: "(kstep initialized tq)\<^sup>*\<^sup>* s t \<Longrightarrow> run_ok s \<Longrightarrow> run_ok t"
  by (rule kernel.reachable_inv)

end
