(* ===== verification/Process.thy ===== *)
theory Process
  imports Demo_State
begin

text \<open>
  \<open>te.c\<close>, the table of the processes: finding a free pid, testing a process, signals, page tables,
  destroying a structure and closing all processes. The kernel process is the global
  \<open>TEKernelProcess\<close>, an argument here. The creation of processes and the loading of images are not
  modelled yet.
\<close>

section \<open>Definitions\<close>

definition destroy_process_structure :: "ptr \<Rightarrow> kstate \<Rightarrow> int \<times> kstate" where
  "destroy_process_structure process s =
     (if process = NULL then (-1, s)
      else if te_used (pheap s process) \<noteq> TRUE then (-1, s)
      else let PID = te_pid (pheap s process) in
      if PID < 0 then (-1, s)
      else if PID \<ge> PROCESS_COUNT_MAX then (-1, s)
      else if process \<noteq> teList s PID then (-1, s)
      else (0, upd_te process (\<lambda>e. e\<lparr>te_magic := 0, te_used := FALSE\<rparr>) s))"

definition gc_process_structure :: "ptr \<Rightarrow> kstate \<Rightarrow> int" where
  "gc_process_structure process s = 0"

text \<open>\<open>for (i=0; i<=PROCESS_COUNT_MAX; i++)\<close>: the last index is outside of the table.\<close>

definition close_visit :: "ptr \<Rightarrow> int \<Rightarrow> kstate \<Rightarrow> unit kres" where
  "close_visit TEKernelProcess i s =
     (if i \<ge> PROCESS_COUNT_MAX then Fault ''teList[i]''
      else let p = teList s i in
      if p \<noteq> TEKernelProcess then
        (if p = NULL then Fault ''p->state''
         else Ok () ((upd_te p (\<lambda>e. e\<lparr>te_state := PROCESS_BLOCKED, te_used := FALSE, te_magic := 0\<rparr>) s)
                \<lparr>teList := (teList s)(i := NULL)\<rparr>))
      else Ok () s)"

definition close_all_processes :: "ptr \<Rightarrow> kstate \<Rightarrow> unit kres" where
  "close_all_processes TEKernelProcess s =
     (if TEKernelProcess = NULL then Panic ''close_all_processes: TEKernelProcess''
      else foldR (close_visit TEKernelProcess) [0 .. PROCESS_COUNT_MAX] s)"

abbreviation (input) GRAMADO_PID_BASE :: int where "GRAMADO_PID_BASE \<equiv> 0"

definition getNewPID :: "kstate \<Rightarrow> int" where
  "getNewPID s =
     (case filter (\<lambda>i. teList s i = NULL) [GRAMADO_PID_BASE .. PROCESS_COUNT_MAX - 1] of
        [] \<Rightarrow> -1
      | i # _ \<Rightarrow> i)"

definition processTesting :: "int \<Rightarrow> kstate \<Rightarrow> int" where
  "processTesting pid s =
     (if pid < 0 then -1
      else if pid \<ge> PROCESS_COUNT_MAX then -1
      else let p = teList s pid in
      if p = NULL then 0
      else if te_used (pheap s p) = TRUE \<and> te_magic (pheap s p) = 1234 then 1234
      else 0)"

definition processSendSignal :: "ptr \<Rightarrow> u64 \<Rightarrow> kstate \<Rightarrow> int \<times> kstate" where
  "processSendSignal p signal s =
     (if signal = 0 then (1, s)
      else if p \<noteq> NULL then (0, upd_te p (\<lambda>e. e\<lparr>te_signal := signal\<rparr>) s)
      else (1, s))"

definition GetProcessPML4_PA :: "ptr \<Rightarrow> kstate \<Rightarrow> u64" where
  "GetProcessPML4_PA process s = (if process \<noteq> NULL then te_pml4_PA (pheap s process) else 0)"

definition SetProcessPML4_PA :: "ptr \<Rightarrow> u64 \<Rightarrow> kstate \<Rightarrow> kstate" where
  "SetProcessPML4_PA process pa s =
     (if process \<noteq> NULL then upd_te process (\<lambda>e. e\<lparr>te_pml4_PA := pa\<rparr>) s else s)"

section \<open>Properties\<close>

text \<open>A new pid: \<open>getNewPID\<close> returns the lowest pid whose slot is free, and -1 exactly when every
  slot of the table is taken.\<close>

theorem getNewPID_lowest_free:
  "getNewPID s = -1 \<and> (\<forall>i. 0 \<le> i \<and> i < PROCESS_COUNT_MAX \<longrightarrow> teList s i \<noteq> NULL) \<or>
   0 \<le> getNewPID s \<and> getNewPID s < PROCESS_COUNT_MAX \<and> teList s (getNewPID s) = NULL \<and>
   (\<forall>i. 0 \<le> i \<and> i < getNewPID s \<longrightarrow> teList s i \<noteq> NULL)"
proof (cases "filter (\<lambda>i. teList s i = NULL) [0 .. PROCESS_COUNT_MAX - 1]")
  case Nil
  then show ?thesis by (auto simp: getNewPID_def filter_empty_conv)
next
  case (Cons i js)
  then obtain us vs where u: "[0 .. PROCESS_COUNT_MAX - 1] = us @ i # vs" "\<forall>j \<in> set us. teList s j \<noteq> NULL" "teList s i = NULL"
    by (auto dest: filter_eq_ConsD)
  have "i \<in> set [0 .. PROCESS_COUNT_MAX - 1]" by (simp add: u(1))
  moreover have "j \<in> set us" if "0 \<le> j" "j < i" for j
  proof -
    have "sorted (us @ i # vs)" using sorted_upto [of 0 "PROCESS_COUNT_MAX - 1"] by (simp only: u(1))
    moreover have "j \<in> set (us @ i # vs)" using that calculation \<open>i \<in> _\<close> by (simp flip: u(1))
    ultimately show ?thesis using that by (auto simp: sorted_append)
  qed
  ultimately show ?thesis using u(2,3) by (auto simp: getNewPID_def Cons)
qed

theorem getNewPID_lowest_free_witness:
  "getNewPID demo = 1"
proof -
  have "getNewPID demo = -1 \<Longrightarrow> False"
    using getNewPID_lowest_free [of demo] by (auto simp: PROCESS_COUNT_MAX_def dest: spec [of _ 1])
  moreover have "getNewPID demo \<noteq> 0" using getNewPID_lowest_free [of demo] by auto
  moreover have "\<not> 1 < getNewPID demo" using getNewPID_lowest_free [of demo] by (auto dest: spec [of _ 1])
  ultimately show ?thesis using getNewPID_lowest_free [of demo] by auto
qed

text \<open>Closing all processes never returns: the loop of \<open>close_all_processes\<close> dereferences the first
  empty slot of the table, and if there is none it runs one past the end.\<close>

theorem close_all_processes_never_returns:
  "\<exists>m. close_all_processes K s = Panic m \<or> close_all_processes K s = Fault m"
proof -
  have step: "(\<exists>u. close_visit K i t = Ok () u) \<or> (\<exists>m. close_visit K i t = Fault m)" for i t
    by (simp add: close_visit_def Let_def)
  have loop: "\<exists>m. foldR (close_visit K) (is @ [PROCESS_COUNT_MAX]) t = Fault m" for "is" t
  proof (induction "is" arbitrary: t)
    case Nil
    then show ?case by (simp add: close_visit_def)
  next
    case (Cons i "is")
    with step [of i t] show ?case by auto
  qed
  have "[0 .. PROCESS_COUNT_MAX] = [0 .. PROCESS_COUNT_MAX - 1] @ [PROCESS_COUNT_MAX]"
    by (rule upto_rec2) (simp add: PROCESS_COUNT_MAX_def)
  with loop [of "[0 .. PROCESS_COUNT_MAX - 1]" s] show ?thesis by (auto simp: close_all_processes_def)
qed

end
