(* ===== verification/Kernel_Memory.thy ===== *)
theory Kernel_Memory
  imports Kernel_Prelude
begin

text \<open>
  Byte addressed memory for the C library of the kernel. A pointer is a 64 bit address, arithmetic on
  it wraps around, and every address can be read and written, as in the kernel's own comments ("kernel
  has access to the whole memory"). \<open>cstr m p xs\<close>: at \<open>p\<close> there is a C string with the
  characters \<open>xs\<close>. \<open>put m p xs\<close> is the memory after the bytes \<open>xs\<close> are written at \<open>p\<close>,
  and \<open>region p n\<close> the addresses of \<open>n\<close> bytes from \<open>p\<close>.
\<close>

type_synonym mem = "ptr \<Rightarrow> u8"

lemma unat_of_nat64: "n < 2 ^ 64 \<Longrightarrow> unat (of_nat n :: ptr) = n"
  by (simp add: unat_of_nat)

lemma unat_of_nat64_le: "unat (of_nat n :: ptr) \<le> n"
  by (simp add: unat_of_nat)

section \<open>Regions\<close>

definition region :: "ptr \<Rightarrow> nat \<Rightarrow> ptr set" where
  "region p n = {a. unat (a - p) < n}"

definition apart :: "ptr \<Rightarrow> nat \<Rightarrow> ptr \<Rightarrow> nat \<Rightarrow> bool" where
  "apart p n q k \<longleftrightarrow> region p n \<inter> region q k = {}"

lemma apart_sym: "apart p n q k \<Longrightarrow> apart q k p n"
  by (auto simp: apart_def)

lemma unat_diff_Suc:
  fixes a p :: ptr
  assumes "a \<noteq> p"
  shows "unat (a - p) = Suc (unat (a - (p + 1)))"
proof -
  have "a - p \<noteq> 0" using assms by simp
  then have "unat (a - p - 1) = unat (a - p) - 1" by (rule unat_minus_one)
  moreover have "0 < unat (a - p)" using \<open>a - p \<noteq> 0\<close> by (simp add: unat_gt_0)
  ultimately show ?thesis by (simp add: diff_diff_add)
qed

lemma region_0 [simp]: "region p 0 = {}"
  by (simp add: region_def)

lemma region_self [simp]: "p \<in> region p (Suc n)"
  by (simp add: region_def)

lemma unat_minus_one_max: "unat (p - (p + 1) :: ptr) = 2 ^ 64 - 1"
  by (simp add: unsigned_minus_1_eq_mask mask_eq_exp_minus_1)

lemma region_Suc:
  assumes n: "n < 2 ^ 64"
  shows "region p (Suc n) = insert p (region (p + 1) n)"
proof (rule set_eqI)
  fix a
  show "a \<in> region p (Suc n) \<longleftrightarrow> a \<in> insert p (region (p + 1) n)"
    using n unat_minus_one_max [of p] by (cases "a = p") (simp_all add: region_def unat_diff_Suc)
qed

lemma region_mono: "n \<le> k \<Longrightarrow> region p n \<subseteq> region p k"
  by (auto simp: region_def)

lemma region_shift: "region (p + 1) n \<subseteq> region p (Suc n)"
proof
  fix a assume a: "a \<in> region (p + 1) n"
  show "a \<in> region p (Suc n)"
  proof (cases "a = p")
    case False
    with a show ?thesis by (simp add: region_def unat_diff_Suc)
  qed (simp add: region_def)
qed

lemma region_offset: "region (p + of_nat i) n \<subseteq> region p (i + n)"
proof (induction i arbitrary: p)
  case (Suc i)
  have e: "p + of_nat (Suc i) = (p + 1) + of_nat i" by (simp add: algebra_simps)
  have "region ((p + 1) + of_nat i) n \<subseteq> region (p + 1) (i + n)" by (rule Suc.IH)
  also have "\<dots> \<subseteq> region p (Suc (i + n))" by (rule region_shift)
  finally show ?case by (simp only: e add_Suc)
qed simp

lemma in_region_offset: "i < n \<Longrightarrow> p + of_nat i \<in> region p n"
  using unat_of_nat64_le [of i] by (simp add: region_def)

lemma offset_inj: "i < 2 ^ 64 \<Longrightarrow> j < 2 ^ 64 \<Longrightarrow> (p :: ptr) + of_nat i = p + of_nat j \<Longrightarrow> i = j"
  by (metis add_left_cancel unat_of_nat64)

lemma in_regionE:
  assumes "a \<in> region p n"
  obtains j where "j < n" and "j < 2 ^ 64" and "a = p + of_nat j"
proof -
  have "unat (a - p) < 2 ^ 64" using unsigned_less [of "a - p", where 'a = nat] by simp
  with assms that [of "unat (a - p)"] show ?thesis by (simp add: region_def)
qed

lemma region_disjoint:
  assumes "i + n \<le> 2 ^ 64"
  shows "region p i \<inter> region (p + of_nat i) n = {}"
proof (rule equals0I)
  fix a assume "a \<in> region p i \<inter> region (p + of_nat i) n"
  then obtain j k where "j < i" "k < n" "a = p + of_nat j" "a = p + of_nat i + of_nat k" by (auto elim!: in_regionE)
  moreover from this have "p + of_nat j = p + of_nat (i + k)" by (simp add: add.assoc)
  ultimately show False using offset_inj [of j "i + k" p] assms by simp
qed

lemma unat_offset: "unat (p :: ptr) + i < 2 ^ 64 \<Longrightarrow> unat (p + of_nat i) = unat p + i"
  by (simp add: unat_word_ariths unat_of_nat)

lemma apart_ordered:
  assumes "unat p + n \<le> unat q" and "unat q + k \<le> 2 ^ 64"
  shows "apart p n q k"
proof -
  have False if "i < n" "j < k" "p + of_nat i = q + of_nat j" for i j
    using that assms unat_offset [of p i] unat_offset [of q j] by simp
  then show ?thesis by (fastforce simp: apart_def elim!: in_regionE)
qed

section \<open>Strings\<close>

primrec cstr :: "mem \<Rightarrow> ptr \<Rightarrow> u8 list \<Rightarrow> bool" where
  "cstr m p [] \<longleftrightarrow> m p = 0"
| "cstr m p (x # xs) \<longleftrightarrow> m p = x \<and> x \<noteq> 0 \<and> cstr m (p + 1) xs"

lemma cstr_nth:
  "cstr m p xs \<longleftrightarrow> (\<forall>i < length xs. m (p + of_nat i) = xs ! i \<and> xs ! i \<noteq> 0) \<and> m (p + of_nat (length xs)) = 0"
proof (induction xs arbitrary: p)
  case (Cons x xs)
  have "(\<forall>i < Suc (length xs). P i) \<longleftrightarrow> P 0 \<and> (\<forall>i < length xs. P (Suc i))" for P
    by (metis gr0_implies_Suc less_Suc_eq_0_disj not_less_eq zero_less_Suc)
  then show ?case by (simp add: Cons.IH) (simp add: algebra_simps)
qed simp

lemma cstr_append:
  "cstr m p (xs @ ys) \<longleftrightarrow> (\<forall>i < length xs. m (p + of_nat i) = xs ! i \<and> xs ! i \<noteq> 0) \<and> cstr m (p + of_nat (length xs)) ys"
proof (induction xs arbitrary: p)
  case (Cons x xs)
  have "(\<forall>i < Suc (length xs). P i) \<longleftrightarrow> P 0 \<and> (\<forall>i < length xs. P (Suc i))" for P
    by (metis gr0_implies_Suc less_Suc_eq_0_disj not_less_eq zero_less_Suc)
  then show ?case by (simp add: Cons.IH) (simp add: algebra_simps)
qed simp

lemma cstr_length:
  assumes "cstr m p xs"
  shows "length xs < 2 ^ 64"
proof (rule ccontr)
  assume n: "\<not> length xs < 2 ^ 64"
  let ?n = "length xs mod 2 ^ 64"
  have "(of_nat (length xs) :: ptr) = of_nat ?n"
    by (simp add: word_unat_eq_iff unat_of_nat)
  moreover have "?n < length xs" using n mod_less_divisor [of "2 ^ 64" "length xs"] by (simp add: not_less less_le_trans)
  ultimately show False using assms by (metis cstr_nth)
qed

lemma cstr_nonzero: "cstr m p xs \<Longrightarrow> 0 \<notin> set xs"
  by (induction xs arbitrary: p) auto

lemma cstr_unique: "cstr m p xs \<Longrightarrow> cstr m p ys \<Longrightarrow> xs = ys"
proof (induction xs arbitrary: p ys)
  case Nil
  then show ?case by (cases ys) auto
next
  case (Cons x xs)
  then show ?case by (cases ys) auto
qed

lemma cstr_cong:
  assumes "\<And>a. a \<in> region p (Suc (length xs)) \<Longrightarrow> m' a = m a"
  shows "cstr m' p xs = cstr m p xs"
proof -
  have "m' (p + of_nat i) = m (p + of_nat i)" if "i \<le> length xs" for i
    using that assms in_region_offset [of i "Suc (length xs)" p] by simp
  then show ?thesis by (simp add: cstr_nth)
qed

lemma cstr_tail: "cstr m p (x # xs) \<Longrightarrow> cstr m (p + 1) xs"
  by simp

lemma cstr_drop: "cstr m p xs \<Longrightarrow> i \<le> length xs \<Longrightarrow> cstr m (p + of_nat i) (drop i xs)"
  using cstr_append [of m p "take i xs" "drop i xs"] by simp

section \<open>Writing\<close>

definition put :: "mem \<Rightarrow> ptr \<Rightarrow> u8 list \<Rightarrow> mem" where
  "put m p xs = (\<lambda>a. if unat (a - p) < length xs then xs ! unat (a - p) else m a)"

lemma put_Nil [simp]: "put m p [] = m"
  by (simp add: put_def)

lemma put_outside: "a \<notin> region p (length xs) \<Longrightarrow> put m p xs a = m a"
  by (simp add: put_def region_def)

lemma put_nth: "i < length xs \<Longrightarrow> i < 2 ^ 64 \<Longrightarrow> put m p xs (p + of_nat i) = xs ! i"
  by (simp add: put_def unat_of_nat64)

lemma put_Cons:
  assumes "length xs < 2 ^ 64"
  shows "put m p (x # xs) = put (m(p := x)) (p + 1) xs"
proof
  fix a
  show "put m p (x # xs) a = put (m(p := x)) (p + 1) xs a"
  proof (cases "a = p")
    case True
    then show ?thesis using assms unat_minus_one_max [of p] by (simp add: put_def)
  next
    case False
    then show ?thesis by (simp add: put_def unat_diff_Suc)
  qed
qed

lemma put_head [simp]: "put m p (x # xs) p = x"
  by (simp add: put_def)

lemma put_head_upd: "(put m p (x # xs))(p := y) = put m p (y # xs)"
  by (auto simp: put_def fun_eq_iff unat_diff_Suc)

lemma put_append:
  "length xs + length ys \<le> 2 ^ 64 \<Longrightarrow> put m p (xs @ ys) = put (put m p xs) (p + of_nat (length xs)) ys"
proof (induction xs arbitrary: m p)
  case (Cons x xs)
  then show ?case by (simp add: put_Cons) (simp add: algebra_simps)
qed simp

lemma put_snoc:
  assumes "length xs < 2 ^ 64"
  shows "put m v (xs @ [z]) = put (m(v + of_nat (length xs) := z)) v xs"
proof -
  let ?e = "v + of_nat (length xs)"
  have "?e \<notin> region v (length xs)" using assms by (simp add: region_def unat_of_nat64)
  then have "(put m v xs)(?e := z) = put (m(?e := z)) v xs" by (auto simp: put_def region_def)
  with assms put_append [of xs "[z]" m v] show ?thesis by (simp add: put_Cons)
qed

lemma cstr_put:
  assumes "0 \<notin> set xs" and "length xs < 2 ^ 64"
  shows "cstr (put m p (xs @ [0])) p xs"
  unfolding cstr_nth
proof (intro conjI allI impI)
  fix i assume "i < length xs"
  with assms show "put m p (xs @ [0]) (p + of_nat i) = xs ! i" "xs ! i \<noteq> 0"
    by (simp_all add: put_nth nth_append) (metis nth_mem)
next
  show "put m p (xs @ [0]) (p + of_nat (length xs)) = 0"
    using assms by (simp add: put_nth nth_append)
qed

lemma cstr_put_apart:
  assumes "apart p (length ys) q (Suc (length xs))"
  shows "cstr (put m p ys) q xs = cstr m q xs"
  using assms by (intro cstr_cong put_outside) (auto simp: apart_def)

end
