(* ===== verification/Kstring.thy ===== *)
theory Kstring
  imports Kernel_Memory
begin

text \<open>
  \<open>libk/kstring.c\<close>, the string library of the kernel
  (\<open>src/coreos/kernel/gthouse/libk/kstring.c\<close>). A loop whose end depends on the memory is a
  \<open>partial_function\<close> with the value \<open>None\<close> when it does not end; a loop over a count is total.
  \<open>char\<close> is a signed byte and \<open>size_t\<close> is a signed \<open>int\<close> in this kernel (kstddef.h); lengths
  and indices are unbounded integers, since a string of \<open>2 ^ 31\<close> bytes does not occur.
\<close>

abbreviation at_index :: "ptr \<Rightarrow> int \<Rightarrow> ptr" where
  "at_index p i \<equiv> p + word_of_int i"

section \<open>Checksum\<close>

function checksum_loop :: "mem \<Rightarrow> ptr \<Rightarrow> u64 \<Rightarrow> u64 \<Rightarrow> u64" where
  "checksum_loop m buffer l Tot =
     (if l > 0 then checksum_loop m (buffer + 1) (l - 1) (Tot + (ucast (m buffer) AND 0xFF)) else Tot)"
  by auto
termination
  by (relation "measure (\<lambda>(m, b, l, t). unat l)") (auto simp: unat_minus_one unat_gt_0)

declare checksum_loop.simps [simp del]

definition string_compute_checksum :: "mem \<Rightarrow> ptr \<Rightarrow> u64 \<Rightarrow> u64" where
  "string_compute_checksum m buffer lenght = (if lenght = 0 then 0 else checksum_loop m buffer lenght 0)"

section \<open>Comparison\<close>

partial_function (option) strcmp_loop :: "mem \<Rightarrow> ptr \<Rightarrow> ptr \<Rightarrow> int \<Rightarrow> int option" where
  "strcmp_loop m s1 s2 i =
     (if m (at_index s1 i) = m (at_index s2 i)
      then if m (at_index s1 i) = 0 then Some 0 else strcmp_loop m s1 s2 (i + 1)
      else Some (sint (m (at_index s1 i)) - sint (m (at_index s2 i))))"

definition strcmp :: "mem \<Rightarrow> ptr \<Rightarrow> ptr \<Rightarrow> int option" where
  "strcmp m s1 s2 = strcmp_loop m s1 s2 0"

function kstrncmp :: "mem \<Rightarrow> ptr \<Rightarrow> ptr \<Rightarrow> int \<Rightarrow> int" where
  "kstrncmp m s1 s2 n =
     (if n > 0 then if m s1 \<noteq> m s2 then 1 else kstrncmp m (s1 + 1) (s2 + 1) (n - 1)
      else if m s1 \<noteq> 0 \<or> m s2 \<noteq> 0 then 2 else 0)"
  by auto
termination by (relation "measure (\<lambda>(m, s1, s2, n). nat n)") auto

declare kstrncmp.simps [simp del]

partial_function (option) str_cmp :: "mem \<Rightarrow> ptr \<Rightarrow> ptr \<Rightarrow> int option" where
  "str_cmp m str1 str2 =
     (if m str1 = m str2 \<and> m str1 \<noteq> 0 \<and> m str2 \<noteq> 0 then str_cmp m (str1 + 1) (str2 + 1)
      else if m str1 = m str2 then Some 0
      else if m str1 > m str2 then Some 1
      else Some (- 1))"

section \<open>Copying\<close>

function memcpy_loop :: "mem \<Rightarrow> ptr \<Rightarrow> ptr \<Rightarrow> u64 \<Rightarrow> mem" where
  "memcpy_loop m dst src Copy =
     (if Copy = 0 then m else memcpy_loop (m(dst := m src)) (dst + 1) (src + 1) (Copy - 1))"
  by auto
termination by (relation "measure (\<lambda>(m, d, s, n). unat n)") (auto simp: unat_minus_one unat_gt_0)

declare memcpy_loop.simps [simp del]

text \<open>The pointer results are the destination and are left out.\<close>

definition memcpy :: "mem \<Rightarrow> ptr \<Rightarrow> ptr \<Rightarrow> u64 \<Rightarrow> mem" where
  "memcpy m v_dst v_src n = memcpy_loop m v_dst v_src n"

text \<open>One element of \<open>k\<close> bytes: it is read as a whole and then written.\<close>

definition copy_element :: "nat \<Rightarrow> mem \<Rightarrow> ptr \<Rightarrow> ptr \<Rightarrow> mem" where
  "copy_element k m dst src = put m dst (map (\<lambda>i. m (src + of_nat i)) [0..<k])"

function copy_elements :: "nat \<Rightarrow> mem \<Rightarrow> ptr \<Rightarrow> ptr \<Rightarrow> u64 \<Rightarrow> mem" where
  "copy_elements k m dst src Copy =
     (if Copy = 0 then m
      else copy_elements k (copy_element k m dst src) (dst + of_nat k) (src + of_nat k) (Copy - 1))"
  by auto
termination by (relation "measure (\<lambda>(k, m, d, s, n). unat n)") (auto simp: unat_minus_one unat_gt_0)

declare copy_elements.simps [simp del]

definition memcpy32 :: "mem \<Rightarrow> ptr \<Rightarrow> ptr \<Rightarrow> u64 \<Rightarrow> mem" where
  "memcpy32 m v_dst v_src n = copy_elements 4 m v_dst v_src n"

definition memcpy64 :: "mem \<Rightarrow> ptr \<Rightarrow> ptr \<Rightarrow> u64 \<Rightarrow> mem" where
  "memcpy64 m v_dst v_src n = copy_elements 8 m v_dst v_src n"

function safe_strcpy_loop :: "mem \<Rightarrow> ptr \<Rightarrow> ptr \<Rightarrow> int \<Rightarrow> int \<Rightarrow> mem" where
  "safe_strcpy_loop m to from maxlen i =
     (if i < maxlen - 1 \<and> m (at_index from i) \<noteq> 0
      then safe_strcpy_loop (m(at_index to i := m (at_index from i))) to from maxlen (i + 1)
      else m(at_index to i := 0))"
  by auto
termination by (relation "measure (\<lambda>(m, t, f, k, i). nat (k - i))") auto

declare safe_strcpy_loop.simps [simp del]

definition safe_strcpy :: "mem \<Rightarrow> ptr \<Rightarrow> ptr \<Rightarrow> int \<Rightarrow> mem" where
  "safe_strcpy m to from maxlen = safe_strcpy_loop m to from maxlen 0"

partial_function (option) strcpy_loop :: "mem \<Rightarrow> ptr \<Rightarrow> ptr \<Rightarrow> int \<Rightarrow> mem option" where
  "strcpy_loop m to from i =
     (if m (at_index from i) \<noteq> 0
      then strcpy_loop (m(at_index to i := m (at_index from i))) to from (i + 1)
      else Some (m(at_index to i := m (at_index from i))))"

definition strcpy :: "mem \<Rightarrow> ptr \<Rightarrow> ptr \<Rightarrow> mem option" where
  "strcpy m to from = strcpy_loop m to from 0"

function strncpy_fill :: "mem \<Rightarrow> ptr \<Rightarrow> int \<Rightarrow> mem" where
  "strncpy_fill m s n = (if n > 0 then strncpy_fill (m(s := 0)) (s + 1) (n - 1) else m)"
  by auto
termination by (relation "measure (\<lambda>(m, s, n). nat n)") auto

function strncpy :: "mem \<Rightarrow> ptr \<Rightarrow> ptr \<Rightarrow> int \<Rightarrow> mem" where
  "strncpy m s s2 n =
     (if n > 0 \<and> m s2 \<noteq> 0 then strncpy (m(s := m s2)) (s + 1) (s2 + 1) (n - 1) else strncpy_fill m s n)"
  by auto
termination by (relation "measure (\<lambda>(m, s, s2, n). nat n)") auto

declare strncpy_fill.simps [simp del] strncpy.simps [simp del]

partial_function (option) strcat_end :: "mem \<Rightarrow> ptr \<Rightarrow> ptr option" where
  "strcat_end m to = (if m to \<noteq> 0 then strcat_end m (to + 1) else Some to)"

definition strcat :: "mem \<Rightarrow> ptr \<Rightarrow> ptr \<Rightarrow> mem option" where
  "strcat m to from = Option.bind (strcat_end m to) (\<lambda>e. strcpy m e from)"

text \<open>\<open>while (len--)\<close> ends for no negative length.\<close>

partial_function (option) bcopy :: "mem \<Rightarrow> ptr \<Rightarrow> ptr \<Rightarrow> int \<Rightarrow> mem option" where
  "bcopy m from to len = (if len = 0 then Some m else bcopy (m(to := m from)) (from + 1) (to + 1) (len - 1))"

partial_function (option) bzero :: "mem \<Rightarrow> ptr \<Rightarrow> int \<Rightarrow> mem option" where
  "bzero m cp len = (if len = 0 then Some m else bzero (m(at_index cp (len - 1) := 0)) cp (len - 1))"

section \<open>Length and filling\<close>

partial_function (option) strlen_loop :: "mem \<Rightarrow> ptr \<Rightarrow> int \<Rightarrow> int option" where
  "strlen_loop m s i = (if m (at_index s i) \<noteq> 0 then strlen_loop m s (i + 1) else Some i)"

definition strlen :: "mem \<Rightarrow> ptr \<Rightarrow> int option" where
  "strlen m s = strlen_loop m s 0"

function k_strnlen_loop :: "mem \<Rightarrow> ptr \<Rightarrow> int \<Rightarrow> int \<Rightarrow> int" where
  "k_strnlen_loop m s maxlen i =
     (if i < maxlen \<and> m (at_index s i) \<noteq> 0 then k_strnlen_loop m s maxlen (i + 1) else i)"
  by auto
termination by (relation "measure (\<lambda>(m, s, k, i). nat (k - i))") auto

declare k_strnlen_loop.simps [simp del]

definition k_strnlen :: "mem \<Rightarrow> ptr \<Rightarrow> int \<Rightarrow> int" where
  "k_strnlen m s maxlen = k_strnlen_loop m s maxlen 0"

definition memset :: "mem \<Rightarrow> ptr \<Rightarrow> int \<Rightarrow> int \<Rightarrow> mem" where
  "memset m p val sz =
     (if p \<noteq> NULL \<and> sz > 0 then fold (\<lambda>i m. m(at_index p i := word_of_int val)) [0..sz - 1] m else m)"

section \<open>Spans\<close>

text \<open>The length of the second string, and the inner loop: whether the character is in it.\<close>

partial_function (option) in_chars :: "mem \<Rightarrow> ptr \<Rightarrow> u8 \<Rightarrow> bool option" where
  "in_chars m p c = (if m p = 0 then Some False else if c = m p then Some True else in_chars m (p + 1) c)"

text \<open>
  The condition of both outer loops is the assignment \<open>result = 1\<close>: every pass looks at
  \<open>str[1]\<close>. \<open>matches\<close> is never reset.
\<close>

partial_function (option) strcspn_loop :: "mem \<Rightarrow> ptr \<Rightarrow> ptr \<Rightarrow> bool \<Rightarrow> int option" where
  "strcspn_loop m str reject matches =
     (let result = 1; c = m (at_index str result) in
      if c = 0 then Some result
      else Option.bind (in_chars m reject c) (\<lambda>b.
        if matches \<or> b then Some result else strcspn_loop m str reject (matches \<or> b)))"

definition strcspn :: "mem \<Rightarrow> ptr \<Rightarrow> ptr \<Rightarrow> int option" where
  "strcspn m str reject = Option.bind (strlen m reject) (\<lambda>_. strcspn_loop m str reject False)"

partial_function (option) strspn_loop :: "mem \<Rightarrow> ptr \<Rightarrow> ptr \<Rightarrow> bool \<Rightarrow> int option" where
  "strspn_loop m str accept matches =
     (let result = 1; c = m (at_index str result) in
      if c = 0 then Some result
      else Option.bind (in_chars m accept c) (\<lambda>b.
        if \<not> (matches \<or> b) then Some result else strspn_loop m str accept (matches \<or> b)))"

definition strspn :: "mem \<Rightarrow> ptr \<Rightarrow> ptr \<Rightarrow> int option" where
  "strspn m str accept = Option.bind (strlen m accept) (\<lambda>_. strspn_loop m str accept False)"

section \<open>Tokens\<close>

text \<open>The \<open>do\<close> loop over the delimiters, which also compares with the terminator.\<close>

partial_function (option) in_delims :: "mem \<Rightarrow> ptr \<Rightarrow> u8 \<Rightarrow> bool option" where
  "in_delims m spanp c =
     (if m spanp = c then Some True else if m spanp \<noteq> 0 then in_delims m (spanp + 1) c else Some False)"

text \<open>The label \<open>cont\<close>: the address of the first character that is no delimiter.\<close>

partial_function (option) strtok_skip :: "mem \<Rightarrow> ptr \<Rightarrow> ptr \<Rightarrow> ptr option" where
  "strtok_skip m s delim =
     Option.bind (in_chars m delim (m s)) (\<lambda>b. if b then strtok_skip m (s + 1) delim else Some s)"

text \<open>The scan of the token: the address of the delimiter or terminator after it.\<close>

partial_function (option) strtok_scan :: "mem \<Rightarrow> ptr \<Rightarrow> ptr \<Rightarrow> ptr option" where
  "strtok_scan m s delim =
     Option.bind (in_delims m delim (m s)) (\<lambda>b. if b then Some s else strtok_scan m (s + 1) delim)"

text \<open>The result is the token, the new value of \<open>*last\<close> and the memory.\<close>

definition k_strtok_r :: "mem \<Rightarrow> ptr \<Rightarrow> ptr \<Rightarrow> ptr \<Rightarrow> (ptr \<times> ptr \<times> mem) option" where
  "k_strtok_r m s delim last_p =
     (if s = NULL \<and> last_p = NULL then Some (NULL, last_p, m)
      else let s0 = (if s = NULL then last_p else s) in
        Option.bind (strtok_skip m s0 delim) (\<lambda>tok.
          if m tok = 0 then Some (NULL, NULL, m)
          else Option.bind (strtok_scan m (tok + 1) delim) (\<lambda>e.
            if m e = 0 then Some (tok, NULL, m) else Some (tok, e + 1, m(e := 0)))))"

text \<open>The static variable \<open>last\<close> is threaded.\<close>

definition k_strtok :: "mem \<Rightarrow> ptr \<Rightarrow> ptr \<Rightarrow> ptr \<Rightarrow> (ptr \<times> ptr \<times> mem) option" where
  "k_strtok m s delim last_p = k_strtok_r m s delim last_p"

section \<open>Duplication\<close>

text \<open>\<open>kmalloc\<close> is a parameter: a size and a memory give an address, NULL when there is none.\<close>

definition strdup :: "(int \<Rightarrow> mem \<Rightarrow> ptr \<times> mem) \<Rightarrow> mem \<Rightarrow> ptr \<Rightarrow> (ptr \<times> mem) option" where
  "strdup kmalloc m str = Option.bind (strlen m str) (\<lambda>n.
     let len = n + 1; (copy, m1) = kmalloc len m
     in if copy = NULL then Some (NULL, m1) else Some (copy, memcpy m1 copy str (word_of_int len)))"

end
