(* ===== verification/Kstring_Laws.thy ===== *)
theory Kstring_Laws
  imports Kstring
begin

text \<open>
  Properties of the string library: length, copying and concatenation on C strings, the bounded copy,
  the orders of the two comparison functions, tokens, and the two span functions that do not scan.
\<close>

section \<open>Filling\<close>

lemma memset_outside:
  assumes "a \<notin> region p (nat n)"
  shows "memset m p v n a = m a"
proof -
  have "fold (\<lambda>i m. m(at_index p i := word_of_int v)) is m a = m a" if "set is \<subseteq> {0..n - 1}" for "is"
    using that
  proof (induction "is" arbitrary: m)
    case (Cons i "is")
    then have "at_index p i = p + of_nat (nat i)" "nat i < nat n" by simp_all
    then have "a \<noteq> at_index p i" using assms in_region_offset [of "nat i" "nat n" p] by auto
    with Cons show ?case by simp
  qed simp
  then show ?thesis by (simp add: memset_def)
qed

lemma memset_zero:
  assumes "a \<in> region p (nat n)" and "p \<noteq> NULL"
  shows "memset m p 0 n a = 0"
proof -
  obtain j where j: "j < nat n" "a = p + of_nat j" using assms(1) by (rule in_regionE)
  have stay: "fold (\<lambda>i m. m(at_index p i := 0)) is m a = 0" if "m a = 0" for "is" m
    using that by (induction "is" arbitrary: m) auto
  have "fold (\<lambda>i m. m(at_index p i := 0)) is m a = 0" if "int j \<in> set is" for "is"
    using that by (induction "is" arbitrary: m) (auto simp: j(2) intro: stay [unfolded j(2)])
  moreover have "int j \<in> set [0..n - 1]" "0 < n" using j(1) by auto
  ultimately show ?thesis using assms(2) by (simp add: memset_def)
qed

section \<open>Indices\<close>

lemma offset_Suc: "(p :: ptr) + of_nat (Suc k) = p + of_nat k + 1"
  by (simp add: algebra_simps)

lemma int_Suc_index: "int k + 1 = int (Suc k)"
  by simp

lemma apart_tail:
  assumes "apart p (Suc n) q (Suc k)"
  shows "apart (p + 1) n (q + 1) k" and "n < 2 ^ 64 \<Longrightarrow> p \<notin> region (q + 1) k" and "p \<notin> region q (Suc k)"
proof -
  show "apart (p + 1) n (q + 1) k"
    using assms region_shift [of p n] region_shift [of q k] unfolding apart_def by blast
  show "p \<notin> region q (Suc k)" using assms region_self [of p n] unfolding apart_def by blast
  then show "p \<notin> region (q + 1) k" using region_shift [of q k] by blast
qed

lemma byte_sint: "sint (x :: u8) = (if x < 128 then uint x else uint x - 256)"
proof -
  have r: "uint x < 256" "0 \<le> uint x" using uint_lt2p [of x] by simp_all
  have "(uint x + 128) mod 256 = uint x - 128" if "128 \<le> uint x"
  proof -
    have "(uint x + 128) mod 256 = (uint x - 128 + 256) mod 256" by (simp add: add.commute)
    also have "\<dots> = uint x - 128" using r that by (simp only: mod_add_self2) simp
    finally show ?thesis .
  qed
  then show ?thesis
    using r by (simp add: sint_uint signed_take_bit_eq_take_bit_shift take_bit_eq_mod word_less_def)
qed

section \<open>Length\<close>

lemma strlen_loop_cstr: "cstr m (s + of_nat k) xs \<Longrightarrow> strlen_loop m s (int k) = Some (int (k + length xs))"
proof (induction xs arbitrary: k)
  case Nil
  then show ?case by (subst strlen_loop.simps) simp
next
  case (Cons x xs)
  from Cons.prems have "cstr m (s + of_nat (Suc k)) xs" by (simp only: offset_Suc cstr.simps)
  from Cons.IH [OF this] Cons.prems show ?case
    by (subst strlen_loop.simps) (simp add: add.commute)
qed

lemma strlen_cstr: "cstr m s xs \<Longrightarrow> strlen m s = Some (int (length xs))"
  using strlen_loop_cstr [of m s 0 xs] by (simp add: strlen_def)

lemma k_strnlen_cstr:
  assumes "cstr m s xs" and "0 \<le> n"
  shows "k_strnlen m s n = min n (int (length xs))"
proof -
  have "k_strnlen_loop m s n (int k) = min n (int (length xs))" if "k \<le> length xs" "int k \<le> n" for k
    using that
  proof (induction "length xs - k" arbitrary: k)
    case 0
    then have "m (s + of_nat k) = 0" using assms(1) by (simp add: cstr_nth)
    with 0 show ?case by (subst k_strnlen_loop.simps) simp
  next
    case (Suc d)
    then have "m (s + of_nat k) \<noteq> 0" using assms(1) by (simp add: cstr_nth)
    with Suc.hyps(1) [of "Suc k"] Suc.hyps(2) Suc.prems show ?case
      by (subst k_strnlen_loop.simps) (auto simp: int_Suc_index simp del: of_nat_Suc)
  qed
  from this [of 0] assms(2) show ?thesis by (simp add: k_strnlen_def)
qed

section \<open>Copying\<close>

text \<open>
  The copy reads each byte before it writes over it when the destination is apart from the source, and
  also when it is below the source: then a byte already written is never read again.
\<close>

definition copy_safe :: "ptr \<Rightarrow> ptr \<Rightarrow> nat \<Rightarrow> bool" where
  "copy_safe to from n \<longleftrightarrow> (\<forall>i j. i < j \<longrightarrow> j \<le> n \<longrightarrow> to + of_nat i \<noteq> from + of_nat j)"

lemma copy_safe_apart: "apart to (Suc n) from (Suc n) \<Longrightarrow> copy_safe to from n"
  unfolding copy_safe_def apart_def
  by (metis disjoint_iff in_region_offset le_less_trans less_Suc_eq_le less_imp_le)

lemma copy_safe_below:
  assumes "d + n < 2 ^ 64"
  shows "copy_safe to (to + of_nat d) n"
  unfolding copy_safe_def
proof (intro allI impI)
  fix i j assume "i < j" "j \<le> n"
  then show "to + of_nat i \<noteq> to + of_nat d + of_nat j"
    using assms offset_inj [of i "d + j" to] by (auto simp: add.assoc)
qed

lemma strcpy_loop_cstr:
  assumes "cstr m (from + of_nat k) xs" and "copy_safe (to + of_nat k) (from + of_nat k) (length xs)"
  shows "strcpy_loop m to from (int k) = Some (put m (to + of_nat k) (xs @ [0]))"
  using assms
proof (induction xs arbitrary: m k)
  case Nil
  then show ?case by (subst strcpy_loop.simps) (simp add: put_Cons)
next
  case (Cons x xs)
  let ?m = "m(to + of_nat k := x)"
  have cs: "copy_safe (to + of_nat (Suc k)) (from + of_nat (Suc k)) (length xs)"
    unfolding copy_safe_def
  proof (intro allI impI)
    fix i j assume "i < j" "j \<le> length xs"
    then show "to + of_nat (Suc k) + of_nat i \<noteq> from + of_nat (Suc k) + of_nat j"
      using Cons.prems(2) [unfolded copy_safe_def, rule_format, of "Suc i" "Suc j"] by (simp add: algebra_simps)
  qed
  have "to + of_nat k \<notin> region (from + of_nat k + 1) (Suc (length xs))"
  proof
    assume "to + of_nat k \<in> region (from + of_nat k + 1) (Suc (length xs))"
    then obtain j where "j < Suc (length xs)" "to + of_nat k = from + of_nat k + 1 + of_nat j" by (rule in_regionE)
    with Cons.prems(2) [unfolded copy_safe_def, rule_format, of 0 "Suc j"] show False by (simp add: algebra_simps)
  qed
  then have "cstr ?m (from + of_nat k + 1) xs = cstr m (from + of_nat k + 1) xs" by (intro cstr_cong) auto
  then have "cstr ?m (from + of_nat (Suc k)) xs" using Cons.prems(1) by (simp only: offset_Suc cstr.simps)
  from Cons.IH [OF this cs] have "strcpy_loop ?m to from (int k + 1) = Some (put ?m (to + of_nat k + 1) (xs @ [0]))"
    by (simp only: int_Suc_index offset_Suc)
  moreover have "put m (to + of_nat k) ((x # xs) @ [0]) = put ?m (to + of_nat k + 1) (xs @ [0])"
    using cstr_length [OF Cons.prems(1)] by (simp add: put_Cons)
  ultimately show ?case using Cons.prems(1) by (subst strcpy_loop.simps) simp
qed

lemma strcpy_cstr:
  assumes "cstr m from xs" and "copy_safe to from (length xs)"
  shows "strcpy m to from = Some (put m to (xs @ [0]))"
  using strcpy_loop_cstr [of m "from" 0 xs to] assms by (simp add: strcpy_def)

lemma strcat_end_cstr: "cstr m p xs \<Longrightarrow> strcat_end m p = Some (p + of_nat (length xs))"
proof (induction xs arbitrary: p)
  case Nil
  then show ?case by (subst strcat_end.simps) simp
next
  case (Cons x xs)
  then show ?case by (subst strcat_end.simps) (simp add: algebra_simps)
qed

text \<open>Concatenation: when the destination holds \<open>xs\<close>, the source \<open>ys\<close>, and the space for the
  result is apart from the source, \<open>strcat\<close> ends, the destination then holds \<open>xs @ ys\<close>, its
  \<open>strlen\<close> is the sum of the lengths, the source is as before, and no byte outside the space of the
  result is changed.\<close>

theorem strcat_appends:
  assumes "cstr m to xs" and "cstr m from ys" and "length xs + length ys + 1 < 2 ^ 64"
    and "apart to (length xs + length ys + 1) from (length ys + 1)"
  shows "\<exists>m'. strcat m to from = Some m' \<and> cstr m' to (xs @ ys) \<and> cstr m' from ys \<and>
    strlen m' to = Some (int (length xs + length ys)) \<and>
    (\<forall>a. a \<notin> region to (length xs + length ys + 1) \<longrightarrow> m' a = m a)"
proof -
  let ?e = "to + of_nat (length xs)" and ?n = "length xs + length ys + 1"
  have sub: "region ?e (Suc (length ys)) \<subseteq> region to ?n"
    using region_offset [of to "length xs" "Suc (length ys)"] by simp
  then have ap: "apart ?e (Suc (length ys)) from (Suc (length ys))" using assms(4) by (auto simp: apart_def)
  define m' where "m' = put m ?e (ys @ [0])"
  have cat: "strcat m to from = Some m'"
    by (simp add: strcat_def strcat_end_cstr [OF assms(1)] strcpy_cstr [OF assms(2) copy_safe_apart [OF ap]] m'_def)
  have out: "m' a = m a" if "a \<notin> region ?e (Suc (length ys))" for a
    using that by (simp add: m'_def put_outside)
  have "to + of_nat i \<notin> region ?e (Suc (length ys))" if "i < length xs" for i
    using that assms(3) region_disjoint [of "length xs" "Suc (length ys)" to] in_region_offset [of i "length xs" to] by auto
  then have xs: "m' (to + of_nat i) = xs ! i \<and> xs ! i \<noteq> 0" if "i < length xs" for i
    using that out assms(1) by (simp add: cstr_nth)
  have "cstr m' ?e ys" unfolding m'_def using cstr_nonzero [OF assms(2)] assms(3) by (intro cstr_put) auto
  with xs have to: "cstr m' to (xs @ ys)" by (simp add: cstr_append)
  moreover have "cstr m' from ys" using assms(2) ap by (simp add: m'_def cstr_put_apart)
  moreover have "strlen m' to = Some (int (length xs + length ys))" using strlen_cstr [OF to] by simp
  ultimately show ?thesis using cat out sub by blast
qed

theorem strcat_appends_witness:
  "\<exists>m'. strcat (put (put (\<lambda>_. 0) 0x1000 [72, 105]) 0x2000 [33, 33]) 0x1000 0x2000 = Some m' \<and>
     cstr m' 0x1000 [72, 105, 33, 33]"
proof -
  let ?m = "put (put (\<lambda>_. 0) 0x1000 [72, 105]) 0x2000 [33, 33]"
  have "apart (0x1000 :: ptr) (length [72 :: u8, 105] + length [33 :: u8, 33] + 1) 0x2000 (length [33 :: u8, 33] + 1)" by (rule apart_ordered) simp_all
  moreover have "cstr ?m 0x1000 [72, 105]" "cstr ?m 0x2000 [33, 33]" by (simp_all add: put_Cons)
  ultimately show ?thesis using strcat_appends [of ?m "0x1000" "[72, 105]" "0x2000" "[33, 33]"] by auto
qed

section \<open>The bounded copy\<close>

lemma safe_strcpy_loop_cstr:
  assumes "cstr m (from + of_nat k) xs" and "int k \<le> maxlen - 1" and "ys = take (nat (maxlen - 1 - int k)) xs"
    and "apart (to + of_nat k) (Suc (length ys)) (from + of_nat k) (Suc (length xs))"
  shows "safe_strcpy_loop m to from maxlen (int k) = put m (to + of_nat k) (ys @ [0])"
  using assms
proof (induction xs arbitrary: m k ys)
  case Nil
  then show ?case by (subst safe_strcpy_loop.simps) (simp add: put_Cons)
next
  case (Cons x xs)
  show ?case
  proof (cases "int k < maxlen - 1")
    case False
    then have "maxlen = int k + 1" "ys = []" using Cons.prems(2,3) by simp_all
    then show ?thesis by (subst safe_strcpy_loop.simps) (simp add: put_Cons)
  next
    case True
    let ?m = "m(to + of_nat k := x)" and ?ys = "take (nat (maxlen - 1 - int (Suc k))) xs"
    have "nat (maxlen - 1 - int k) = Suc (nat (maxlen - 1 - int (Suc k)))" using True by simp
    then have ys: "ys = x # ?ys" using Cons.prems(3) by simp
    have len: "length ?ys \<le> length xs" by simp
    have n: "Suc (length ?ys) < 2 ^ 64" using cstr_length [OF Cons.prems(1)] len by simp
    have ap: "apart (to + of_nat (Suc k)) (Suc (length ?ys)) (from + of_nat (Suc k)) (Suc (length xs))"
      using apart_tail(1) [OF Cons.prems(4) [unfolded ys list.size add_0_right add_Suc_right]] by (simp only: offset_Suc)
    have "to + of_nat k \<notin> region (from + of_nat k + 1) (Suc (length xs))"
      using apart_tail(3) [OF Cons.prems(4)] region_shift [of "from + of_nat k" "Suc (length xs)"] by auto
    then have "cstr ?m (from + of_nat k + 1) xs = cstr m (from + of_nat k + 1) xs" by (intro cstr_cong) auto
    then have "cstr ?m (from + of_nat (Suc k)) xs" using Cons.prems(1) by (simp only: offset_Suc cstr.simps)
    from Cons.IH [OF this _ refl ap] True
    have "safe_strcpy_loop ?m to from maxlen (int k + 1) = put ?m (to + of_nat k + 1) (?ys @ [0])"
      by (simp only: int_Suc_index offset_Suc)
    moreover have "put m (to + of_nat k) (ys @ [0]) = put ?m (to + of_nat k + 1) (?ys @ [0])"
      unfolding ys using n by (simp add: put_Cons)
    ultimately show ?thesis using Cons.prems(1) True by (subst safe_strcpy_loop.simps) simp
  qed
qed

text \<open>The bounded copy never overruns its buffer and always terminates the string: for a buffer of
  \<open>maxlen > 0\<close> bytes apart from the source, the result is the source cut to \<open>maxlen - 1\<close>
  characters, and only the buffer is changed.\<close>

theorem safe_strcpy_truncates:
  assumes "cstr m from xs" and "0 < maxlen" and "maxlen < 2 ^ 31" and "apart to (nat maxlen) from (Suc (length xs))"
  shows "cstr (safe_strcpy m to from maxlen) to (take (nat maxlen - 1) xs) \<and>
    (\<forall>a. a \<notin> region to (nat maxlen) \<longrightarrow> safe_strcpy m to from maxlen a = m a)"
proof -
  let ?ys = "take (nat maxlen - 1) xs"
  have len: "Suc (length ?ys) \<le> nat maxlen" using assms(2) by auto
  have "apart to (Suc (length ?ys)) from (Suc (length xs))"
    using assms(4) region_mono [OF len, of to] by (auto simp: apart_def)
  then have e: "safe_strcpy m to from maxlen = put m to (?ys @ [0])"
    using safe_strcpy_loop_cstr [of m "from" 0 xs maxlen ?ys to] assms(1,2) by (simp add: safe_strcpy_def nat_diff_distrib)
  have "cstr (put m to (?ys @ [0])) to ?ys"
    using cstr_nonzero [OF assms(1)] cstr_length [OF assms(1)] by (intro cstr_put) (auto dest: in_set_takeD)
  moreover have "put m to (?ys @ [0]) a = m a" if "a \<notin> region to (nat maxlen)" for a
    using that region_mono [OF len, of to] by (intro put_outside) auto
  ultimately show ?thesis by (simp add: e)
qed

theorem safe_strcpy_truncates_witness:
  "cstr (safe_strcpy (put (\<lambda>_. 0) 0x2000 [97, 98, 99, 100]) 0x1000 0x2000 3) 0x1000 [97, 98]"
proof -
  let ?m = "put (\<lambda>_. 0) 0x2000 [97, 98, 99, 100]"
  have "apart (0x1000 :: ptr) (nat 3) 0x2000 (Suc (length [97 :: u8, 98, 99, 100]))" by (rule apart_ordered) simp_all
  moreover have "cstr ?m 0x2000 [97, 98, 99, 100]" by (simp add: put_Cons)
  ultimately show ?thesis using safe_strcpy_truncates [of ?m "0x2000" "[97, 98, 99, 100]" 3 "0x1000"] by simp
qed

section \<open>Comparison\<close>

lemma str_cmp_cstr:
  "cstr m p xs \<Longrightarrow> cstr m q ys \<Longrightarrow>
    str_cmp m p q = Some (if xs = ys then 0 else if ord_class.lexordp ys xs then 1 else - 1)"
proof (induction xs arbitrary: p q ys)
  case Nil
  then show ?case by (cases ys) (subst str_cmp.simps, auto)+
next
  case (Cons x xs)
  show ?case
  proof (cases ys)
    case Nil
    with Cons.prems show ?thesis by (subst str_cmp.simps) (auto simp: word_gt_0)
  next
    case (Cons y zs)
    with Cons.prems Cons.IH [of "p + 1" "q + 1" zs] show ?thesis
      by (subst str_cmp.simps) (auto simp: not_less_iff_gr_or_eq)
  qed
qed

lemma strcmp_loop_cstr:
  assumes "cstr m (p + of_nat k) xs" and "cstr m (q + of_nat k) ys"
  shows "\<exists>r. strcmp_loop m p q (int k) = Some r \<and> (r = 0 \<longleftrightarrow> xs = ys) \<and>
    (set xs \<subseteq> {..< 128} \<and> set ys \<subseteq> {..< 128} \<longrightarrow> (0 < r \<longleftrightarrow> ord_class.lexordp ys xs))"
  using assms
proof (induction xs arbitrary: k ys)
  case Nil
  show ?case
  proof (cases ys)
    case Nil
    with \<open>cstr m (p + of_nat k) []\<close> Nil.prems(2) show ?thesis by (subst strcmp_loop.simps) auto
  next
    case (Cons y zs)
    then have m: "m (p + of_nat k) = 0" "m (q + of_nat k) = y" "y \<noteq> 0" using Nil.prems by auto
    then have "strcmp_loop m p q (int k) = Some (- sint y)" by (subst strcmp_loop.simps) simp
    moreover have "sint y \<noteq> 0" using m(3) by (metis signed_0 signed_word_eqI)
    moreover have "0 \<le> sint y" if "y < 128" using that byte_sint [of y] by simp
    ultimately show ?thesis using Cons by auto
  qed
next
  case (Cons x xs)
  then have mx: "m (p + of_nat k) = x" "x \<noteq> 0" by auto
  show ?case
  proof (cases ys)
    case Nil
    then have "m (q + of_nat k) = 0" using Cons.prems by auto
    with mx have "strcmp_loop m p q (int k) = Some (sint x)" by (subst strcmp_loop.simps) simp
    moreover have "sint x \<noteq> 0" using mx(2) by (metis signed_0 signed_word_eqI)
    moreover have "0 \<le> sint x" if "x < 128" using that byte_sint [of x] by simp
    ultimately show ?thesis using Nil by force
  next
    case (Cons y zs)
    then have my: "m (q + of_nat k) = y" using Cons.prems by auto
    show ?thesis
    proof (cases "x = y")
      case True
      have "cstr m (p + of_nat (Suc k)) xs" "cstr m (q + of_nat (Suc k)) zs"
        using Cons.prems \<open>ys = y # zs\<close> by (simp_all only: offset_Suc cstr.simps)
      from Cons.IH [OF this] show ?thesis
        using mx my True \<open>ys = y # zs\<close>
        by (subst strcmp_loop.simps) (auto simp: int_Suc_index simp del: of_nat_Suc)
    next
      case False
      then have "strcmp_loop m p q (int k) = Some (sint x - sint y)"
        using mx my by (subst strcmp_loop.simps) simp
      moreover have "sint x \<noteq> sint y" using False by (metis signed_word_eqI)
      moreover have "0 < sint x - sint y \<longleftrightarrow> y < x" if "x < 128" "y < 128"
        using that byte_sint [of x] byte_sint [of y] by (simp add: word_less_def)
      ultimately show ?thesis using False \<open>ys = y # zs\<close> by auto
    qed
  qed
qed

text \<open>The two comparison functions: both end on C strings and return 0 exactly for equal strings.
  \<open>str_cmp\<close> returns the lexicographic order of the unsigned bytes as -1, 0 or 1. \<open>strcmp\<close>
  returns the signed difference at the first different byte, which has the same sign when all bytes
  are below 128.\<close>

theorem string_comparison:
  assumes "cstr m p xs" and "cstr m q ys"
  shows "\<exists>r. strcmp m p q = Some r \<and> (r = 0 \<longleftrightarrow> xs = ys) \<and>
    str_cmp m p q = Some (if xs = ys then 0 else if ord_class.lexordp ys xs then 1 else - 1) \<and>
    (set xs \<subseteq> {..< 128} \<and> set ys \<subseteq> {..< 128} \<longrightarrow> str_cmp m p q = Some (sgn r))"
proof -
  obtain r where r: "strcmp m p q = Some r" "r = 0 \<longleftrightarrow> xs = ys"
    "set xs \<subseteq> {..< 128} \<and> set ys \<subseteq> {..< 128} \<longrightarrow> (0 < r \<longleftrightarrow> ord_class.lexordp ys xs)"
    using strcmp_loop_cstr [of m p 0 xs q ys] assms by (auto simp: strcmp_def)
  moreover have "\<not> ord_class.lexordp ys xs" if "xs = ys" using that by (simp add: lexordp_irreflexive)
  ultimately show ?thesis using str_cmp_cstr [OF assms] by (auto simp: sgn_if)
qed

theorem string_comparison_witness:
  "\<exists>r. strcmp (put (put (\<lambda>_. 0) 0x1000 [97, 98]) 0x2000 [97, 200]) 0x1000 0x2000 = Some r \<and> r \<noteq> 0 \<and>
     str_cmp (put (put (\<lambda>_. 0) 0x1000 [97, 98]) 0x2000 [97, 200]) 0x1000 0x2000 = Some (- 1)"
proof -
  let ?m = "put (put (\<lambda>_. 0) 0x1000 [97, 98]) 0x2000 [97, 200]"
  have "cstr ?m 0x1000 [97, 98]" "cstr ?m 0x2000 [97, 200]" by (simp_all add: put_Cons)
  from string_comparison [OF this] show ?thesis by auto
qed

section \<open>Spans\<close>

lemma in_chars_cstr: "cstr m p ds \<Longrightarrow> in_chars m p c = Some (c \<in> set ds)"
proof (induction ds arbitrary: p)
  case Nil
  then show ?case by (subst in_chars.simps) simp
next
  case (Cons d ds)
  then show ?case by (subst in_chars.simps) auto
qed

lemma strspn_loop_stuck:
  assumes "strspn_loop m str accept b = Some r" and "cstr m accept ds" and "m (str + 1) \<noteq> 0"
  shows "\<not> b \<and> m (str + 1) \<notin> set ds"
proof -
  have "m (str + 1) \<noteq> 0 \<longrightarrow> cstr m accept ds \<longrightarrow> \<not> b \<and> m (str + 1) \<notin> set ds"
  proof (rule strspn_loop.raw_induct [where P = "\<lambda>m str accept b r. m (str + 1) \<noteq> 0 \<longrightarrow> cstr m accept ds \<longrightarrow>
      \<not> b \<and> m (str + 1) \<notin> set ds", OF _ assms(1)], intro impI)
    fix f :: "mem \<Rightarrow> ptr \<Rightarrow> ptr \<Rightarrow> bool \<Rightarrow> int option" and m str accept b r
    assume IH: "\<And>m str accept b r. f m str accept b = Some r \<Longrightarrow>
        m (str + 1) \<noteq> 0 \<longrightarrow> cstr m accept ds \<longrightarrow> \<not> b \<and> m (str + 1) \<notin> set ds"
      and body: "(let result = 1; c = m (at_index str result) in if c = 0 then Some result
        else Option.bind (in_chars m accept c) (\<lambda>b'. if \<not> (b \<or> b') then Some result else f m str accept (b \<or> b'))) = Some r"
      and nz: "m (str + 1) \<noteq> 0" and c: "cstr m accept ds"
    show "\<not> b \<and> m (str + 1) \<notin> set ds"
      using body nz c IH [of m str accept True r] by (auto simp: in_chars_cstr [OF c] split: if_splits)
  qed
  with assms(2,3) show ?thesis by blast
qed

lemma strcspn_loop_stuck:
  assumes "strcspn_loop m str reject b = Some r" and "cstr m reject ds" and "m (str + 1) \<noteq> 0"
  shows "b \<or> m (str + 1) \<in> set ds"
proof -
  have "m (str + 1) \<noteq> 0 \<longrightarrow> cstr m reject ds \<longrightarrow> b \<or> m (str + 1) \<in> set ds"
  proof (rule strcspn_loop.raw_induct [where P = "\<lambda>m str reject b r. m (str + 1) \<noteq> 0 \<longrightarrow> cstr m reject ds \<longrightarrow>
      b \<or> m (str + 1) \<in> set ds", OF _ assms(1)], intro impI)
    fix f :: "mem \<Rightarrow> ptr \<Rightarrow> ptr \<Rightarrow> bool \<Rightarrow> int option" and m str reject b r
    assume IH: "\<And>m str reject b r. f m str reject b = Some r \<Longrightarrow>
        m (str + 1) \<noteq> 0 \<longrightarrow> cstr m reject ds \<longrightarrow> b \<or> m (str + 1) \<in> set ds"
      and body: "(let result = 1; c = m (at_index str result) in if c = 0 then Some result
        else Option.bind (in_chars m reject c) (\<lambda>b'. if b \<or> b' then Some result else f m str reject (b \<or> b'))) = Some r"
      and nz: "m (str + 1) \<noteq> 0" and c: "cstr m reject ds"
    show "b \<or> m (str + 1) \<in> set ds"
      using body nz c IH [of m str reject False r] by (auto simp: in_chars_cstr [OF c] split: if_splits)
  qed
  with assms(2,3) show ?thesis by blast
qed

text \<open>The span functions do not scan: whatever the first string is, \<open>strcspn\<close> returns 1 when its
  second byte is the terminator or is in the second string, and otherwise never returns; \<open>strspn\<close>
  returns 1 when the second byte is the terminator or is not in the second string, and otherwise never
  returns.\<close>

theorem spans_never_scan:
  assumes "cstr m q ds"
  shows "strcspn m p q = (if m (p + 1) = 0 \<or> m (p + 1) \<in> set ds then Some 1 else None) \<and>
    strspn m p q = (if m (p + 1) = 0 \<or> m (p + 1) \<notin> set ds then Some 1 else None)"
proof
  note len = strlen_cstr [OF assms] and chars = in_chars_cstr [OF assms]
  show "strcspn m p q = (if m (p + 1) = 0 \<or> m (p + 1) \<in> set ds then Some 1 else None)"
  proof (cases "m (p + 1) = 0 \<or> m (p + 1) \<in> set ds")
    case True
    then show ?thesis by (simp add: strcspn_def len) (subst strcspn_loop.simps, auto simp: chars Let_def)
  next
    case False
    then have "strcspn_loop m p q False = None"
      using strcspn_loop_stuck [OF _ assms, of p False] by (cases "strcspn_loop m p q False") auto
    with False show ?thesis by (simp add: strcspn_def len)
  qed
  show "strspn m p q = (if m (p + 1) = 0 \<or> m (p + 1) \<notin> set ds then Some 1 else None)"
  proof (cases "m (p + 1) = 0 \<or> m (p + 1) \<notin> set ds")
    case True
    then show ?thesis by (simp add: strspn_def len) (subst strspn_loop.simps, auto simp: chars Let_def)
  next
    case False
    then have "strspn_loop m p q False = None"
      using strspn_loop_stuck [OF _ assms, of p False] by (cases "strspn_loop m p q False") auto
    with False show ?thesis by (simp add: strspn_def len)
  qed
qed

theorem spans_never_scan_witness:
  "strspn (put (put (\<lambda>_. 0) 0x1000 [97, 97, 98]) 0x2000 [97]) 0x1000 0x2000 = None \<and>
   strcspn (put (put (\<lambda>_. 0) 0x1000 [97, 97, 98]) 0x2000 [98]) 0x1000 0x2000 = None"
proof -
  have "cstr (put (put (\<lambda>_. 0) 0x1000 [97, 97, 98]) 0x2000 [c]) 0x2000 [c]" if "c \<noteq> 0" for c
    using that by (simp add: put_Cons)
  from spans_never_scan [OF this [of 97], of "0x1000"] spans_never_scan [OF this [of 98], of "0x1000"] show ?thesis
    by (simp add: put_Cons)
qed

section \<open>Tokens\<close>

text \<open>The reference: the maximal runs of characters that are no delimiters.\<close>

function tokens :: "u8 set \<Rightarrow> u8 list \<Rightarrow> u8 list list" where
  "tokens D xs = (let ys = dropWhile (\<lambda>c. c \<in> D) xs in
     if ys = [] then [] else takeWhile (\<lambda>c. c \<notin> D) ys # tokens D (tl (dropWhile (\<lambda>c. c \<notin> D) ys)))"
  by auto
termination
proof (relation "measure (\<lambda>(D, xs). length xs)")
  fix D xs ys
  assume ys: "ys = dropWhile (\<lambda>c. c \<in> D) xs" "ys \<noteq> []"
  have "length (dropWhile (\<lambda>c. c \<notin> D) ys) \<le> length ys" "length ys \<le> length xs"
    using ys by (simp_all add: length_dropWhile_le)
  then show "((D, tl (dropWhile (\<lambda>c. c \<notin> D) ys)), D, xs) \<in> measure (\<lambda>(D, xs). length xs)"
    using ys(2) length_greater_0_conv [of ys] by (simp del: length_greater_0_conv)
qed simp

declare tokens.simps [simp del]

text \<open>A client that asks for tokens until there are no more: the strings of the tokens, in order.\<close>

inductive strtok_session :: "mem \<Rightarrow> ptr \<Rightarrow> ptr \<Rightarrow> ptr \<Rightarrow> u8 list list \<Rightarrow> bool" where
  finish: "k_strtok_r m s delim l = Some (NULL, l', m') \<Longrightarrow> strtok_session m s delim l []"
| token: "k_strtok_r m s delim l = Some (t, l', m') \<Longrightarrow> t \<noteq> NULL \<Longrightarrow> cstr m' t w \<Longrightarrow>
    strtok_session m' NULL delim l' ws \<Longrightarrow> strtok_session m s delim l (w # ws)"

lemma in_delims_cstr: "cstr m p ds \<Longrightarrow> in_delims m p c = Some (c \<in> set ds \<or> c = 0)"
proof (induction ds arbitrary: p)
  case Nil
  then show ?case by (subst in_delims.simps) auto
next
  case (Cons d ds)
  then show ?case by (subst in_delims.simps) auto
qed

lemma strtok_skip_cstr:
  "cstr m s xs \<Longrightarrow> cstr m delim ds \<Longrightarrow>
    strtok_skip m s delim = Some (s + of_nat (length (takeWhile (\<lambda>c. c \<in> set ds) xs)))"
proof (induction xs arbitrary: s)
  case Nil
  then show ?case using cstr_nonzero [OF Nil.prems(2)] by (subst strtok_skip.simps) (simp add: in_chars_cstr)
next
  case (Cons x xs)
  then show ?case by (subst strtok_skip.simps) (simp add: in_chars_cstr algebra_simps)
qed

lemma strtok_scan_cstr:
  "cstr m s xs \<Longrightarrow> cstr m delim ds \<Longrightarrow>
    strtok_scan m s delim = Some (s + of_nat (length (takeWhile (\<lambda>c. c \<notin> set ds) xs)))"
proof (induction xs arbitrary: s)
  case Nil
  then show ?case by (subst strtok_scan.simps) (simp add: in_delims_cstr)
next
  case (Cons x xs)
  then show ?case by (subst strtok_scan.simps) (simp add: in_delims_cstr algebra_simps)
qed

lemma strtok_call_none:
  assumes "cstr m s0 xs" and "cstr m delim ds" and "s0 = (if s = NULL then l else s)" and "s0 \<noteq> NULL"
    and "dropWhile (\<lambda>c. c \<in> set ds) xs = []"
  shows "k_strtok_r m s delim l = Some (NULL, NULL, m)"
proof -
  have tw: "takeWhile (\<lambda>c. c \<in> set ds) xs = xs" using assms(5) by (metis takeWhile_dropWhile_id append_Nil2)
  have "strtok_skip m s0 delim = Some (s0 + of_nat (length xs))" using strtok_skip_cstr [OF assms(1,2)] unfolding tw .
  moreover have "m (s0 + of_nat (length xs)) = 0" using assms(1) by (simp add: cstr_nth)
  ultimately show ?thesis
    using assms(3,4) by (simp add: k_strtok_r_def split: if_splits)
qed

lemma cstr_cut:
  assumes "cstr m t (w @ d # r)"
  shows "cstr (m(t + of_nat (length w) := 0)) t w" and "cstr (m(t + of_nat (length w) := 0)) (t + of_nat (length w) + 1) r"
proof -
  let ?e = "t + of_nat (length w)"
  have n: "length w + Suc (length r) < 2 ^ 64" using cstr_length [OF assms] by simp
  have w: "\<forall>i < length w. m (t + of_nat i) = w ! i \<and> w ! i \<noteq> 0" and r: "cstr m (?e + 1) r"
    using assms by (simp_all add: cstr_append)
  have "t + of_nat i \<noteq> ?e" if "i < length w" for i using that n offset_inj [of i "length w" t] by auto
  with w show "cstr (m(?e := 0)) t w" by (simp add: cstr_nth)
  have "?e \<notin> region (?e + 1) (Suc (length r))"
    using n unat_minus_one_max [of ?e] by (simp add: region_def)
  then have "cstr (m(?e := 0)) (?e + 1) r = cstr m (?e + 1) r" by (intro cstr_cong) auto
  with r show "cstr (m(?e := 0)) (?e + 1) r" by simp
qed

lemma strtok_call_some:
  assumes c: "cstr m s0 xs" and d: "cstr m delim ds" and s0: "s0 = (if s = NULL then l else s)" "s0 \<noteq> NULL"
    and ys: "dropWhile (\<lambda>c. c \<in> set ds) xs = ys" "ys \<noteq> []"
    and w: "w = takeWhile (\<lambda>c. c \<notin> set ds) ys" and r: "r = dropWhile (\<lambda>c. c \<notin> set ds) ys"
    and t: "t = s0 + of_nat (length xs - length ys)"
  shows "cstr m t (w @ r)" and "k_strtok_r m s delim l =
    Some (if r = [] then (t, NULL, m) else (t, t + of_nat (length w) + 1, m(t + of_nat (length w) := 0)))"
proof -
  let ?pre = "takeWhile (\<lambda>c. c \<in> set ds) xs"
  have xs: "xs = ?pre @ ys" using ys(1) by (metis takeWhile_dropWhile_id)
  have pre: "length xs - length ys = length ?pre" using xs by (metis add_diff_cancel_right' length_append)
  have "cstr m t ys" using c xs unfolding t pre by (metis cstr_append)
  moreover have yw: "ys = w @ r" by (simp add: w r)
  ultimately show cw: "cstr m t (w @ r)" by simp
  obtain y zs where yz: "ys = y # zs" using ys(2) by (cases ys) auto
  have y: "y \<notin> set ds" using ys(1) yz hd_dropWhile [of "\<lambda>c. c \<in> set ds" xs] ys(2) by auto
  have cz: "m t = y" "y \<noteq> 0" "cstr m (t + 1) zs" using \<open>cstr m t ys\<close> yz by auto
  have lw: "t + 1 + of_nat (length (takeWhile (\<lambda>c. c \<notin> set ds) zs)) = t + of_nat (length w)"
    using y by (simp add: w yz algebra_simps)
  have me: "m (t + of_nat (length w)) = 0 \<longleftrightarrow> r = []" 
    using cw unfolding cstr_append by (cases r) auto
  have skip: "strtok_skip m s0 delim = Some t" using strtok_skip_cstr [OF c d] unfolding t pre .
  have scan: "strtok_scan m (t + 1) delim = Some (t + of_nat (length w))" using strtok_scan_cstr [OF cz(3) d] unfolding lw .
  show "k_strtok_r m s delim l =
      Some (if r = [] then (t, NULL, m) else (t, t + of_nat (length w) + 1, m(t + of_nat (length w) := 0)))"
    using s0 cz(1,2) me skip scan by (simp add: k_strtok_r_def split: if_splits)
qed

lemma strtok_session_tokens:
  assumes "cstr m s0 xs" and "cstr m delim ds" and "s0 = (if s = NULL then l else s)"
    and "apart s0 (Suc (length xs)) delim (Suc (length ds))" and "NULL \<notin> region s0 (Suc (length xs))"
  shows "strtok_session m s delim l (tokens (set ds) xs)"
  using assms
proof (induction "length xs" arbitrary: m s0 xs s l rule: less_induct)
  case less
  let ?ys = "dropWhile (\<lambda>c. c \<in> set ds) xs"
  have s0: "s0 \<noteq> NULL" using less.prems(5) by auto
  show ?case
  proof (cases "?ys = []")
    case True
    then show ?thesis
      using strtok_call_none [OF less.prems(1-3) s0] by (subst tokens.simps) (simp add: strtok_session.finish)
  next
    case False
    define w r t where "w = takeWhile (\<lambda>c. c \<notin> set ds) ?ys" and "r = dropWhile (\<lambda>c. c \<notin> set ds) ?ys"
      and "t = s0 + of_nat (length xs - length ?ys)"
    let ?e = "t + of_nat (length w)"
    note call = strtok_call_some [OF less.prems(1-3) s0 refl False w_def r_def t_def]
    have tok: "tokens (set ds) xs = w # tokens (set ds) (tl r)"
      using False by (subst tokens.simps) (simp only: Let_def w_def r_def if_False)
    have len: "length w + length r = length ?ys" "length ?ys \<le> length xs"
      unfolding w_def r_def by (metis length_append takeWhile_dropWhile_id) (rule length_dropWhile_le)
    have sub: "region t (Suc (length ?ys)) \<subseteq> region s0 (Suc (length xs))"
      using region_offset [of s0 "length xs - length ?ys" "Suc (length ?ys)"] len(2) by (simp add: t_def)
    have t: "t \<noteq> NULL" using sub less.prems(5) region_self [of t "length ?ys"] by blast
    show ?thesis
    proof (cases r)
      case Nil
      have "strtok_session m NULL delim NULL []" by (rule strtok_session.finish) (simp add: k_strtok_r_def)
      with call t Nil show ?thesis
        unfolding tok by (auto intro!: strtok_session.token simp: tokens.simps)
    next
      case (Cons d r')
      let ?m = "m(?e := 0)"
      have cut: "cstr ?m t w" "cstr ?m (?e + 1) r'" using cstr_cut call(1) Cons by auto
      have e: "?e \<in> region t (Suc (length ?ys))" using len(1) by (intro in_region_offset) simp
      have rest: "region (?e + 1) (Suc (length r')) \<subseteq> region t (Suc (length ?ys))"
        using region_offset [of t "length w + 1" "Suc (length r')"] len(1) Cons by (simp add: algebra_simps)
      have ap: "apart (?e + 1) (Suc (length r')) delim (Suc (length ds))" and nz: "NULL \<notin> region (?e + 1) (Suc (length r'))"
        using rest sub less.prems(4,5) unfolding apart_def by blast+
      have "?e \<notin> region delim (Suc (length ds))" using e sub less.prems(4) by (auto simp: apart_def)
      then have "cstr ?m delim ds = cstr m delim ds" by (intro cstr_cong) auto
      moreover have "?e + 1 \<noteq> NULL" using nz by auto
      moreover have "length r' < length xs" using len Cons by simp
      ultimately have "strtok_session ?m NULL delim (?e + 1) (tokens (set ds) r')"
        using less.hyps [of r' ?m "?e + 1" NULL "?e + 1"] cut(2) less.prems(2) ap nz by simp
      with call(2) t cut(1) Cons show ?thesis unfolding tok by (auto intro: strtok_session.token)
    qed
  qed
qed

lemma strtok_session_unique: "strtok_session m s delim l ws \<Longrightarrow> strtok_session m s delim l vs \<Longrightarrow> ws = vs"
proof (induction arbitrary: vs rule: strtok_session.induct)
  case (finish m s delim l l' m')
  from finish.prems show ?case by cases (use finish.hyps in auto)
next
  case (token m s delim l t l' m' w ws)
  note hyps = token.hyps and IH = token.IH
  from token.prems show ?case
  proof cases
    case finish
    with hyps(1,2) show ?thesis by simp
  next
    case (token t2 l2 m2 v us)
    then have "t2 = t" "l2 = l'" "m2 = m'" using hyps(1) by simp_all
    with \<open>vs = v # us\<close> \<open>cstr m2 t2 v\<close> \<open>strtok_session m2 NULL delim l2 us\<close> hyps(3) IH [of us] show ?thesis by (simp add: cstr_unique)
  qed
qed

text \<open>C30. Tokens: a client that calls \<open>k_strtok_r\<close> on a string and then with NULL until it returns
  NULL gets exactly the maximal runs of characters that are not delimiters, in order, whatever
  \<open>*last\<close> was before; the string and the delimiters must be apart and must not contain address
  0.\<close>

theorem strtok_splits:
  assumes "cstr m s xs" and "cstr m delim ds" and "apart s (Suc (length xs)) delim (Suc (length ds))"
    and "NULL \<notin> region s (Suc (length xs))"
  shows "strtok_session m s delim l ws \<longleftrightarrow> ws = tokens (set ds) xs"
proof -
  have "s \<noteq> NULL" using assms(4) by auto
  then have "strtok_session m s delim l (tokens (set ds) xs)" using assms by (intro strtok_session_tokens) auto
  then show ?thesis using strtok_session_unique by blast
qed

theorem strtok_splits_witness:
  "strtok_session (put (put (\<lambda>_. 0) 0x1000 [47, 98, 105, 110, 47, 47, 108, 115]) 0x2000 [47]) 0x1000 0x2000 0
     [[98, 105, 110], [108, 115]]"
proof -
  let ?m = "put (put (\<lambda>_. 0) 0x1000 [47, 98, 105, 110, 47, 47, 108, 115]) 0x2000 [47]"
  let ?xs = "[47, 98, 105, 110, 47, 47, 108, 115] :: u8 list"
  have "cstr ?m 0x1000 ?xs" "cstr ?m 0x2000 [47]" by (simp_all add: put_Cons)
  moreover have "apart (0x1000 :: ptr) (Suc (length ?xs)) 0x2000 (Suc (length [47 :: u8]))"
    by (rule apart_ordered) simp_all
  moreover have "NULL \<notin> region 0x1000 (Suc (length ?xs))" by (simp add: region_def)
  moreover have "tokens (set [47]) ?xs = [[98, 105, 110], [108, 115]]" by (simp add: tokens.simps)
  ultimately show ?thesis using strtok_splits [of ?m "0x1000" ?xs "0x2000" "[47]" 0] by simp
qed

end
