(* ===== verification/Kconv.thy ===== *)
theory Kconv
  imports Kstring
begin

text \<open>
  Numbers and text: \<open>k_atoi\<close> of libk/kstdlib.c and the conversions and the formatter of
  libk/kstdio.c (\<open>kinguio_itoa\<close>, \<open>__utoa_r\<close>, \<open>kinguio_utoa\<close>, the two \<open>i2hex\<close> routines,
  \<open>_vsputs_r\<close> and \<open>kinguio_vsprintf\<close>, the worker of \<open>printk\<close>). An \<open>int\<close> that overflows in
  \<open>k_atoi\<close> wraps around to 32 bits.
\<close>

abbreviation (input) chr0 :: u8 where "chr0 \<equiv> 48"
abbreviation (input) chr9 :: u8 where "chr9 \<equiv> 57"
abbreviation (input) chrMinus :: u8 where "chrMinus \<equiv> 45"
abbreviation (input) chrPlus :: u8 where "chrPlus \<equiv> 43"
abbreviation (input) chrPercent :: u8 where "chrPercent \<equiv> 37"

section \<open>k\_atoi (kstdlib.c)\<close>

definition is_digit :: "u8 \<Rightarrow> bool" where
  "is_digit c \<longleftrightarrow> c \<le> chr9 \<and> c \<ge> chr0"

partial_function (option) atoi_skip :: "mem \<Rightarrow> ptr \<Rightarrow> ptr option" where
  "atoi_skip m str =
     (if m str \<noteq> 0 then
        if is_digit (m str) \<or> m str = chrMinus \<or> m str = chrPlus then Some str else atoi_skip m (str + 1)
      else Some str)"

partial_function (option) atoi_digits :: "mem \<Rightarrow> ptr \<Rightarrow> int \<Rightarrow> int option" where
  "atoi_digits m str rv =
     (if m str \<noteq> 0 \<and> is_digit (m str)
      then atoi_digits m (str + 1) (c_int (c_int (rv * 10) + (sint (m str) - sint chr0)))
      else Some rv)"

definition k_atoi :: "mem \<Rightarrow> ptr \<Rightarrow> int option" where
  "k_atoi m str = Option.bind (atoi_skip m str) (\<lambda>p.
     let sign = (m p = chrMinus); p1 = (if m p = chrMinus \<or> m p = chrPlus then p + 1 else p)
     in map_option (\<lambda>rv. if sign then c_int (- rv) else rv) (atoi_digits m p1 0))"

section \<open>Decimal\<close>

text \<open>
  The \<open>do\<close> loops that write the digits, the lowest first: the memory and the end pointer. The
  number is not negative in \<open>kinguio_itoa\<close>, where the loop goes on while the quotient is not 0.
\<close>

function itoa_digits :: "mem \<Rightarrow> ptr \<Rightarrow> int \<Rightarrow> mem \<times> ptr" where
  "itoa_digits m p num =
     (let m1 = m(p := word_of_int (num mod 10) + chr0)
      in if num div 10 \<le> 0 then (m1, p + 1) else itoa_digits m1 (p + 1) (num div 10))"
  by auto
termination by (relation "measure (\<lambda>(m, p, num). nat num)") auto

function utoa_digits :: "mem \<Rightarrow> ptr \<Rightarrow> u64 \<Rightarrow> mem \<times> ptr" where
  "utoa_digits m p num =
     (let m1 = m(p := ucast (num mod 10) + chr0)
      in if num div 10 = 0 then (m1, p + 1) else utoa_digits m1 (p + 1) (num div 10))"
  by auto
termination
proof (relation "measure (\<lambda>(m, p, num). unat num)")
  fix m :: mem and p :: ptr and num :: u64 and m1
  assume "num div 10 \<noteq> 0"
  then have "unat num \<noteq> 0" by (auto simp: unat_eq_zero)
  then show "((m1, p + 1, num div 10), m, p, num) \<in> measure (\<lambda>(m, p, num). unat num)"
    by (simp add: unat_div)
qed simp

text \<open>\<open>while (p > valuestring)\<close>: the reversal in place, the same in both functions.\<close>

function swap_loop :: "mem \<Rightarrow> ptr \<Rightarrow> ptr \<Rightarrow> mem" where
  "swap_loop m valuestring p =
     (if p > valuestring
      then swap_loop (m(valuestring := m p, p := m valuestring)) (valuestring + 1) (p - 1) else m)"
  by auto
termination
proof (relation "measure (\<lambda>(m, v, p). unat p - unat v)")
  fix m :: mem and v p :: ptr
  assume "v < p"
  then have lt: "unat v < unat p" "p \<noteq> 0" by (auto simp: word_less_nat_alt)
  then have "unat (v + 1) = unat v + 1" using unsigned_less [of p, where 'a = nat] unat_offset [of v 1] by simp
  with lt show "((m(v := m p, p := m v), v + 1, p - 1), m, v, p) \<in> measure (\<lambda>(m, v, p). unat p - unat v)"
    by (simp add: unat_minus_one)
qed simp

declare itoa_digits.simps [simp del] utoa_digits.simps [simp del] swap_loop.simps [simp del]

abbreviation (input) INT_MAX :: int where "INT_MAX \<equiv> 0x7fffffff"

definition utoa_r :: "u64 \<Rightarrow> ptr \<Rightarrow> mem \<Rightarrow> mem" where
  "utoa_r val str m =
     (let (m1, p) = utoa_digits m str val; m2 = m1(p := 0) in swap_loop m2 str (p - 1))"

text \<open>
  For the least \<open>int\<close> the digits of \<open>INT_MAX\<close> are written and the first one written, the lowest,
  is incremented.
\<close>

definition kinguio_itoa :: "int \<Rightarrow> ptr \<Rightarrow> mem \<Rightarrow> mem" where
  "kinguio_itoa val str m =
     (let m0 = (if 0 > val then m(str := chrMinus) else m);
          valuestring = (if 0 > val then str + 1 else str);
          min_flag = (if 0 > val \<and> - INT_MAX > val then INT_MAX else 0);
          num = (if 0 > val then if - INT_MAX > val then INT_MAX else - val else val);
          (m1, p) = itoa_digits m0 valuestring num;
          m2 = (if min_flag \<noteq> 0 then m1(valuestring := m1 valuestring + 1) else m1);
          m3 = m2(p := 0)
      in swap_loop m3 valuestring (p - 1))"

section \<open>Hexadecimal\<close>

text \<open>\<open>while (cp > dest)\<close>: the digits from the last to the first, on \<open>unsigned long\<close> or \<open>unsigned\<close>.\<close>

function hex_write :: "mem \<Rightarrow> ptr \<Rightarrow> ptr \<Rightarrow> 'a::len word \<Rightarrow> mem" where
  "hex_write m dest cp n =
     (if cp > dest
      then let x = ucast (n AND 0xF) :: u8
           in hex_write (m(cp - 1 := x + (if x > 9 then 55 else chr0))) dest (cp - 1) (drop_bit 4 n)
      else m)"
  by auto
termination
proof (relation "measure (\<lambda>(m, d, cp, n). unat cp)")
  fix m :: mem and dest cp :: ptr and n :: "'a word" and x :: u8
  assume "dest < cp"
  then have "cp \<noteq> 0" by auto
  then show "((m(cp - 1 := x + (if 9 < x then 55 else chr0)), dest, cp - 1, drop_bit 4 n), m, dest, cp, n)
      \<in> measure (\<lambda>(m, d, cp, n). unat cp)"
    by (simp add: unat_minus_one unat_gt_0)
qed simp

function hex_strip :: "mem \<Rightarrow> ptr \<Rightarrow> ptr \<Rightarrow> int \<Rightarrow> int \<Rightarrow> mem option" where
  "hex_strip m dest cp i len =
     (if i < len then if m cp = chr0 then hex_strip m dest (cp + 1) (i + 1) len else strcpy m dest cp
      else Some m)"
  by auto
termination by (relation "measure (\<lambda>(m, d, cp, i, len). nat (len - i))") auto

declare hex_write.simps [simp del] hex_strip.simps [simp del]

definition kinguio_i2hex_versao2 :: "u64 \<Rightarrow> ptr \<Rightarrow> int \<Rightarrow> mem \<Rightarrow> mem option" where
  "kinguio_i2hex_versao2 val dest len m =
     (if val = 0 then Some (m(dest := chr0, dest + 1 := 0))
      else let m1 = hex_write m dest (at_index dest len) val; m2 = m1(at_index dest len := 0)
        in Option.bind (hex_strip m2 dest dest 0 len) (\<lambda>m3.
           map_option (\<lambda>n. memset m3 (at_index dest n) 0 (len - n)) (strlen m3 dest)))"

text \<open>The length in the last line is 8, not \<open>len\<close>.\<close>

definition kinguio_i2hex :: "u32 \<Rightarrow> ptr \<Rightarrow> int \<Rightarrow> mem \<Rightarrow> mem option" where
  "kinguio_i2hex val dest len m =
     (if val = 0 then Some (m(dest := chr0, dest + 1 := 0))
      else let m1 = hex_write m dest (at_index dest len) val; m2 = m1(at_index dest len := 0)
        in Option.bind (hex_strip m2 dest dest 0 len) (\<lambda>m3.
           map_option (\<lambda>n. memset m3 (at_index dest n) 0 (8 - n)) (strlen m3 dest)))"

definition kinguio_utoa :: "u64 \<Rightarrow> ptr \<Rightarrow> int \<Rightarrow> mem \<Rightarrow> mem option" where
  "kinguio_utoa val dst radix m =
     (if radix = 16 then kinguio_i2hex_versao2 val dst 16 m else Some (utoa_r val dst m))"

section \<open>The formatter\<close>

partial_function (option) vsputs_r :: "mem \<Rightarrow> ptr \<Rightarrow> ptr \<Rightarrow> (mem \<times> ptr) option" where
  "vsputs_r m dest src = (if m src \<noteq> 0 then vsputs_r (m(dest := m src)) (dest + 1) (src + 1) else Some (m, dest))"

text \<open>
  The same for a string that is a constant or the two bytes of \<open>_c_r\<close>, which no write of the
  formatter touches.
\<close>

primrec vsputs_const :: "mem \<Rightarrow> ptr \<Rightarrow> u8 list \<Rightarrow> mem \<times> ptr" where
  "vsputs_const m dest [] = (m, dest)"
| "vsputs_const m dest (x # xs) = vsputs_const (m(dest := x)) (dest + 1) xs"

definition one_char :: "u8 \<Rightarrow> u8 list" where
  "one_char c = (if c = 0 then [] else [c])"

text \<open>
  The arguments are the slots of the \<open>va_list\<close>, 64 bits each; \<open>va_arg\<close> of an \<open>int\<close> takes the
  low half. The state of the loop: memory, output pointer, remaining slots and the flag
  \<open>type64bit\<close>.
\<close>

type_synonym vs_state = "mem \<times> ptr \<times> (nat \<Rightarrow> u64) \<times> bool"

abbreviation (input) next_args :: "(nat \<Rightarrow> u64) \<Rightarrow> nat \<Rightarrow> u64" where
  "next_args ap \<equiv> (\<lambda>i. ap (Suc i))"

definition int_arg :: "u64 \<Rightarrow> int" where
  "int_arg a = sint (ucast a :: u32)"

definition vs_buffer :: "mem option \<Rightarrow> ptr \<Rightarrow> ptr \<Rightarrow> (nat \<Rightarrow> u64) \<Rightarrow> bool \<Rightarrow> vs_state option" where
  "vs_buffer r buffer out ap t64 =
     Option.bind r (\<lambda>m. map_option (\<lambda>(m', out'). (m', out', next_args ap, t64)) (vsputs_r m out buffer))"

definition vs_directive :: "ptr \<Rightarrow> u8 \<Rightarrow> vs_state \<Rightarrow> vs_state option" where
  "vs_directive buffer d = (\<lambda>(m, out, ap, type64bit).
     if d = 99 then
       let (m', out') = vsputs_const m out (one_char (ucast (ap 0))) in Some (m', out', next_args ap, type64bit)
     else if d = 115 \<or> d = 83 then
       if ap 0 \<noteq> NULL
       then map_option (\<lambda>(m', out'). (m', out', next_args ap, type64bit)) (vsputs_r m out (ap 0))
       else let (m', out') = vsputs_const m out [40, 110, 117, 108, 108, 41] in Some (m', out', next_args ap, type64bit)
     else if d = 100 \<or> d = 105 then
       vs_buffer (Some (kinguio_itoa (int_arg (ap 0)) buffer m)) buffer out ap type64bit
     else if d = 117 then
       if type64bit then vs_buffer (kinguio_utoa (ap 0) buffer 10 m) buffer out ap False
       else vs_buffer (Some (kinguio_itoa (int_arg (ap 0)) buffer m)) buffer out ap type64bit
     else if d = 88 \<or> d = 120 then
       if type64bit then vs_buffer (kinguio_utoa (ap 0) buffer 16 m) buffer out ap False
       else vs_buffer (kinguio_i2hex (ucast (ap 0)) buffer 8 m) buffer out ap type64bit
     else if d = 112 then
       Option.bind (kinguio_utoa (ap 0) buffer 16 m) (\<lambda>m1.
         let (m2, out2) = vsputs_const m1 out [chr0, 120] in vs_buffer (Some m2) buffer out2 ap type64bit)
     else let (m', out') = vsputs_const m out [chrPercent, chrPercent] in Some (m', out', ap, type64bit))"

text \<open>
  The loop over the format. After a directive the index is moved past its last character, also when
  that character is the terminator.
\<close>

partial_function (option) vsprintf_loop :: "ptr \<Rightarrow> ptr \<Rightarrow> int \<Rightarrow> vs_state \<Rightarrow> vs_state option" where
  "vsprintf_loop buffer fmt index st =
     (let (m, out, ap, type64bit) = st; c = m (at_index fmt index) in
      if c = 0 then Some st
      else if c = chrPercent then
        let long = (m (at_index fmt (index + 1)) = 108);
            i = (if long then index + 2 else index + 1)
        in Option.bind (vs_directive buffer (m (at_index fmt i)) (m, out, ap, type64bit \<or> long))
             (vsprintf_loop buffer fmt (i + 1))
      else let (m', out') = vsputs_const m out (one_char c)
        in vsprintf_loop buffer fmt (index + 1) (m', out', ap, type64bit))"

definition kinguio_vsprintf :: "ptr \<Rightarrow> ptr \<Rightarrow> ptr \<Rightarrow> (nat \<Rightarrow> u64) \<Rightarrow> mem \<Rightarrow> (int \<times> mem) option" where
  "kinguio_vsprintf buffer str fmt ap m =
     map_option (\<lambda>(m', out, _, _). (int_arg (out - str), m')) (vsprintf_loop buffer fmt 0 (m, str, ap, False))"

end
