(* ===== verification/Kconv_Laws.thy ===== *)
theory Kconv_Laws
  imports Kconv Kstring_Laws
begin

text \<open>
  Properties of the conversions: the decimal and hexadecimal texts are the usual ones for every number,
  \<open>k_atoi\<close> reads back what \<open>kinguio_itoa\<close> wrote, and \<open>kinguio_vsprintf\<close> writes the
  rendering of its format.
\<close>

section \<open>Decimal numerals\<close>

fun dec :: "nat \<Rightarrow> u8 list" where
  "dec n = (if n < 10 then [of_nat n + 48] else dec (n div 10) @ [of_nat (n mod 10) + 48])"

declare dec.simps [simp del]

definition dec_int :: "int \<Rightarrow> u8 list" where
  "dec_int v = (if v < 0 then 45 # dec (nat (- v)) else dec (nat v))"

lemma dec_length: "length (dec n) \<le> 1 + n div 10"
proof (induction n rule: dec.induct)
  case (1 n)
  show ?case
  proof (cases "n < 10")
    case True
    then show ?thesis by (subst dec.simps) simp
  next
    case False
    then have "length (dec n) \<le> 2 + n div 10 div 10" using 1 by (subst dec.simps) simp
    moreover have "n div 10 div 10 < n div 10" using False by (intro div_less_dividend) simp_all
    ultimately show ?thesis by linarith
  qed
qed

lemma dec_ne [simp]: "dec n \<noteq> []"
  by (subst dec.simps) simp

lemma dec_rev: "rev (dec n) = (of_nat (n mod 10) + 48) # (if n < 10 then [] else rev (dec (n div 10)))"
  by (subst dec.simps) simp

text \<open>Digits are the bytes 48 to 57.\<close>

lemma digit_byte:
  assumes "k < 10"
  shows "is_digit (of_nat k + 48)" and "sint (of_nat k + 48 :: u8) = int k + 48" and "of_nat k + 48 \<noteq> (0 :: u8)"
    and "of_nat k + 48 \<noteq> (45 :: u8)" and "of_nat k + 48 \<noteq> (43 :: u8)"
proof -
  have u: "unat (of_nat k + 48 :: u8) = k + 48" using assms by (simp add: unat_word_ariths unat_of_nat)
  then show "is_digit (of_nat k + 48)" using assms by (simp add: is_digit_def word_le_nat_alt)
  have "uint (of_nat k + 48 :: u8) = int k + 48" using u by (metis int_nat_eq of_nat_add of_nat_numeral uint_nat)
  moreover have "of_nat k + 48 < (128 :: u8)" using u assms by (simp add: word_less_nat_alt)
  ultimately show "sint (of_nat k + 48 :: u8) = int k + 48" by (simp add: byte_sint)
  have "unat (of_nat k + 48 :: u8) \<noteq> unat (0 :: u8)" "unat (of_nat k + 48 :: u8) \<noteq> unat (45 :: u8)"
    "unat (of_nat k + 48 :: u8) \<noteq> unat (43 :: u8)"
    unfolding u by simp_all
  then show "of_nat k + 48 \<noteq> (0 :: u8)" "of_nat k + 48 \<noteq> (45 :: u8)" "of_nat k + 48 \<noteq> (43 :: u8)" by metis+
qed

lemma dec_digits: "c \<in> set (dec n) \<Longrightarrow> \<exists>k < 10. c = of_nat k + 48"
proof (induction n rule: dec.induct)
  case (1 n)
  show ?case
  proof (cases "n < 10")
    case True
    then show ?thesis using "1.prems" by (auto simp: dec.simps [of n])
  next
    case False
    then have "c \<in> set (dec (n div 10)) \<or> c = of_nat (n mod 10) + 48" using "1.prems" by (auto simp: dec.simps [of n])
    moreover have "n mod 10 < 10" by simp
    ultimately show ?thesis using "1.IH" [OF False] by blast
  qed
qed

lemma dec_nonzero: "0 \<notin> set (dec n)"
  using dec_digits digit_byte(3) by metis

section \<open>Writing digits\<close>

lemma itoa_digits_put:
  "n < 2 ^ 64 \<Longrightarrow> itoa_digits m p (int n) = (put m p (rev (dec n)), p + of_nat (length (dec n)))"
proof (induction n arbitrary: m p rule: dec.induct)
  case (1 n)
  let ?m = "m(p := of_nat (n mod 10) + 48)"
  have c: "word_of_int (int n mod 10) = (of_nat (n mod 10) :: u8)" 
    by (metis of_int_of_nat_eq of_nat_mod of_nat_numeral)
  have q: "int n div 10 = int (n div 10)" by (simp add: zdiv_int)
  show ?case
  proof (cases "n < 10")
    case True
    then show ?thesis using c by (subst itoa_digits.simps) (simp add: dec.simps [of n] put_Cons)
  next
    case False
    have "length (dec (n div 10)) < 2 ^ 64" using dec_length [of "n div 10"] "1.prems" by (simp add: less_le_trans)
    then have "put m p (rev (dec n)) = put ?m (p + 1) (rev (dec (n div 10)))"
      using False by (simp add: dec_rev [of n] put_Cons)
    moreover have "length (dec n) = Suc (length (dec (n div 10)))" using False by (simp add: dec.simps [of n])
    moreover have "\<not> int n div 10 \<le> 0" using False by simp
    ultimately show ?thesis
      using "1.IH" [OF False, of ?m "p + 1", folded q] "1.prems" c by (subst itoa_digits.simps) (simp add: add.assoc del: fun_upd_apply)
  qed
qed

lemma utoa_digits_put:
  "utoa_digits m p u = (put m p (rev (dec (unat u))), p + of_nat (length (dec (unat u))))"
proof (induction m p u rule: utoa_digits.induct)
  case (1 m p u)
  let ?n = "unat u" and ?m = "m(p := of_nat (unat u mod 10) + 48)"
  have n: "?n < 2 ^ 64" using unsigned_less [of u, where 'a = nat] by simp
  have "unat (u mod 10) = ?n mod 10" "unat (u div 10) = ?n div 10" by (simp_all add: unat_mod unat_div)
  then have c: "ucast (u mod 10) = (of_nat (?n mod 10) :: u8)" and q: "unat (u div 10) = ?n div 10"
    by (metis of_nat_unat, simp)
  have z: "u div 10 = 0 \<longleftrightarrow> ?n < 10" using q by (metis div_eq_0_iff unat_eq_zero zero_neq_numeral)
  show ?case
  proof (cases "?n < 10")
    case True
    then show ?thesis using z c by (subst utoa_digits.simps) (simp add: dec.simps [of ?n] put_Cons)
  next
    case False
    have "length (dec (?n div 10)) < 2 ^ 64" using dec_length [of "?n div 10"] n by (simp add: less_le_trans)
    then have "put m p (rev (dec ?n)) = put ?m (p + 1) (rev (dec (?n div 10)))"
      using False by (simp add: dec_rev [of ?n] put_Cons)
    moreover have "length (dec ?n) = Suc (length (dec (?n div 10)))" using False by (simp add: dec.simps [of ?n])
    ultimately show ?thesis
      using "1.IH" [OF refl] False z c q by (subst utoa_digits.simps) (simp add: add.assoc del: fun_upd_apply)
  qed
qed

section \<open>Reversal in place\<close>

lemma put_ends:
  assumes "Suc (Suc (length ys)) < 2 ^ 64"
  shows "put m v (x # ys @ [z]) = put (m(v := x, v + of_nat (Suc (length ys)) := z)) (v + 1) ys"
proof
  fix a
  let ?e = "v + of_nat (Suc (length ys))"
  have e: "?e \<noteq> v" using assms offset_inj [of "Suc (length ys)" 0 v] by auto
  show "put m v (x # ys @ [z]) a = put (m(v := x, ?e := z)) (v + 1) ys a"
  proof (cases "a = v")
    case True
    then show ?thesis using assms e unat_minus_one_max [of v] by (simp add: put_def)
  next
    case False
    then have u: "unat (a - v) = Suc (unat (a - (v + 1)))" by (rule unat_diff_Suc)
    have "a = ?e \<longleftrightarrow> unat (a - (v + 1)) = length ys"
    proof
      assume "unat (a - (v + 1)) = length ys"
      then have "a - v = of_nat (Suc (length ys))" using u by (metis of_nat_unat ucast_id)
      then show "a = ?e" by (simp add: diff_eq_eq add.commute)
    next
      assume "a = ?e"
      then have "unat (a - v) = Suc (length ys)" using assms by (simp add: unat_of_nat64 del: of_nat_Suc)
      with u show "unat (a - (v + 1)) = length ys" by simp
    qed
    then show ?thesis using False u by (auto simp: put_def nth_append less_Suc_eq)
  qed
qed

lemma swap_loop_rev:
  "unat v + length xs < 2 ^ 64 \<Longrightarrow> xs \<noteq> [] \<Longrightarrow>
    swap_loop (put m v xs) v (v + of_nat (length xs) - 1) = put m v (rev xs)"
proof (induction xs arbitrary: m v rule: length_induct)
  case (1 xs)
  show ?case
  proof (cases "length xs = 1")
    case True
    then obtain x where "xs = [x]" by (cases xs) auto
    then show ?thesis by (subst swap_loop.simps) simp
  next
    case False
    then obtain x ys z where xs: "xs = x # ys @ [z]"
      using "1.prems"(2) by (metis One_nat_def append_butlast_last_id length_Cons list.exhaust list.size(3))
    let ?e = "v + of_nat (Suc (length ys))"
    have n: "unat v + Suc (length ys) < 2 ^ 64" using "1.prems"(1) xs by simp
    have len: "Suc (Suc (length ys)) < 2 ^ 64" using "1.prems"(1) xs by simp
    have e: "v + of_nat (length xs) - 1 = ?e" by (simp add: xs)
    have lt: "v < ?e" using unat_offset [OF n] by (simp add: word_less_nat_alt del: of_nat_Suc)
    have at: "put m v xs v = x" "put m v xs ?e = z"
      using put_nth [of 0 xs m v] put_nth [of "Suc (length ys)" xs m v] len by (simp_all add: xs nth_append)
    have sw: "(put m v xs)(v := z, ?e := x) = put m v (z # ys @ [x])"
      unfolding xs put_ends [OF len]
    proof
      fix a
      have "v \<notin> region (v + 1) (length ys)" "?e \<notin> region (v + 1) (length ys)"
        using unat_minus_one_max [of v] len unat_of_nat64 [of "length ys"] by (simp_all add: region_def)
      then show "((put (m(v := x, ?e := z)) (v + 1) ys)(v := z, ?e := x)) a = put (m(v := z, ?e := x)) (v + 1) ys a"
        by (auto simp: put_def region_def)
    qed
    have step: "swap_loop (put m v xs) v ?e = swap_loop (put m v (z # ys @ [x])) (v + 1) (?e - 1)"
      using lt at sw by (subst swap_loop.simps) simp
    let ?m = "m(v := z, ?e := x)"
    have "swap_loop (put ?m (v + 1) ys) (v + 1) (?e - 1) = put ?m (v + 1) (rev ys)"
    proof (cases "ys = []")
      case True
      then show ?thesis by (subst swap_loop.simps) (use lt in \<open>auto simp: True\<close>)
    next
      case False
      have "unat (v + 1) = unat v + 1" using unat_offset [of v 1] n by simp
      then show ?thesis
        using "1.IH" [rule_format, of ys "v + 1" ?m] n False xs by (simp add: algebra_simps)
    qed
    moreover have "put ?m (v + 1) (rev ys) = put m v (z # rev ys @ [x])" using put_ends [of "rev ys" m v z x] len by simp
    ultimately show ?thesis unfolding e step put_ends [OF len] by (simp add: xs)
  qed
qed

section \<open>The decimal conversions\<close>

lemma dec_bound: "n < 10 ^ k \<Longrightarrow> 0 < k \<Longrightarrow> length (dec n) \<le> k"
proof (induction n arbitrary: k rule: dec.induct)
  case (1 n)
  show ?case
  proof (cases "n < 10")
    case True
    then show ?thesis using "1.prems" by (simp add: dec.simps [of n])
  next
    case False
    obtain j where k: "k = Suc j" using "1.prems"(2) by (cases k) auto
    with False "1.prems"(1) have j: "k = Suc j" "0 < j" by (auto intro: gr0I)
    then have "n div 10 < 10 ^ j" using "1.prems" by (simp add: div_less_iff_less_mult mult.commute)
    from "1.IH" [OF False this j(2)] show ?thesis using False j by (simp add: dec.simps [of n])
  qed
qed

lemma swap_terminated:
  assumes "unat v + length xs < 2 ^ 64" and "xs \<noteq> []"
  shows "swap_loop ((put m v xs)(v + of_nat (length xs) := 0)) v (v + of_nat (length xs) - 1) = put m v (rev xs @ [0])"
proof -
  let ?e = "v + of_nat (length xs)"
  have n: "length xs < 2 ^ 64" using assms(1) by simp
  have "(put m v xs)(?e := 0) = put (m(?e := 0)) v xs"
    using n put_append [of xs "[0]" m v] put_snoc [of xs m v 0] by (simp add: put_Cons)
  with swap_loop_rev [OF assms, of "m(?e := 0)"] put_snoc [of "rev xs" m v 0] n show ?thesis by simp
qed

lemma utoa_r_put:
  assumes "unat str + 20 < 2 ^ 64"
  shows "utoa_r u str m = put m str (dec (unat u) @ [0])"
proof -
  have "unat u < 10 ^ 20" using unsigned_less [of u, where 'a = nat] by simp
  then have "length (dec (unat u)) \<le> 20" by (rule dec_bound) simp
  then have "unat str + length (rev (dec (unat u))) < 2 ^ 64" using assms by simp
  from swap_terminated [OF this] show ?thesis
    unfolding utoa_r_def utoa_digits_put Let_def prod.case by simp
qed

lemma dec_int_length: "- (2 ^ 31) \<le> v \<Longrightarrow> v < 2 ^ 31 \<Longrightarrow> length (dec_int v) \<le> 11"
proof -
  assume v: "- (2 ^ 31) \<le> v" "v < 2 ^ 31"
  have "length (dec (nat (- v))) \<le> 10" "length (dec (nat v)) \<le> 10" by (rule dec_bound; use v in simp)+
  then show ?thesis by (simp add: dec_int_def)
qed

lemma dec_int_min: "dec_int (- (2 ^ 31)) = 45 # rev (56 # tl (rev (dec 2147483647)))"
  by (simp add: dec_int_def dec.simps)

lemma kinguio_itoa_put:
  assumes v: "- (2 ^ 31) \<le> v" "v < 2 ^ 31" and s: "unat str + 11 < 2 ^ 64"
  shows "kinguio_itoa v str m = put m str (dec_int v @ [0])"
proof (cases "v < 0")
  case False
  have "unat str + length (rev (dec (nat v))) < 2 ^ 64" using dec_int_length [OF v] s False by (simp add: dec_int_def)
  from swap_terminated [OF this] show ?thesis
    using False v itoa_digits_put [of "nat v" m str] by (simp add: kinguio_itoa_def dec_int_def)
next
  case True
  let ?m = "m(str := 45)" and ?v = "str + 1"
  define n where "n = (if v < - INT_MAX then nat INT_MAX else nat (- v))"
  define xs where "xs = (if v < - INT_MAX then 56 # tl (rev (dec n)) else rev (dec n))"
  have n: "n < 2 ^ 31" using v by (auto simp: n_def nat_less_iff)
  have len: "length xs = length (dec n)" by (simp add: xs_def)
  have "length (dec n) \<le> 10" using n by (intro dec_bound) simp_all
  moreover have u: "unat ?v = unat str + 1" using s unat_offset [of str 1] by simp
  ultimately have fit: "unat ?v + length xs < 2 ^ 64" using s len by simp
  have dig: "itoa_digits ?m ?v (int n) = (put ?m ?v (rev (dec n)), ?v + of_nat (length (dec n)))"
    using n by (intro itoa_digits_put) simp
  have ne: "xs \<noteq> []" by (simp add: xs_def)
  have mem: "(if v < - INT_MAX then (put ?m ?v (rev (dec n)))(?v := put ?m ?v (rev (dec n)) ?v + 1) else put ?m ?v (rev (dec n)))
      = put ?m ?v xs"
    by (simp add: xs_def n_def dec_rev [of 2147483647] put_head_upd)
  have "45 # rev xs = dec_int v"
  proof (cases "v < - INT_MAX")
    case True
    then have "v = - (2 ^ 31)" using v by simp
    then show ?thesis unfolding xs_def n_def by (simp add: dec_int_min [simplified])
  next
    case False
    then show ?thesis using \<open>v < 0\<close> by (simp add: xs_def n_def dec_int_def)
  qed
  moreover have "put ?m ?v (rev xs @ [0]) = put m str (45 # rev xs @ [0])" using fit u by (simp add: put_Cons)
  ultimately have goal: "put ?m ?v (rev xs @ [0]) = put m str (dec_int v @ [0])" by (metis append_Cons)
  have "kinguio_itoa v str m = swap_loop ((put ?m ?v xs)(?v + of_nat (length xs) := 0)) ?v (?v + of_nat (length xs) - 1)"
    using True v dig mem unfolding kinguio_itoa_def n_def len by (simp add: Let_def split: if_splits)
  then show ?thesis using swap_terminated [OF fit ne, of ?m] goal by simp
qed

section \<open>Reading a number\<close>

lemma c_int_mod:
  "c_int (c_int x + y) = c_int (x + y)" "c_int (c_int x * y) = c_int (x * y)" "c_int (- c_int x) = c_int (- x)"
proof -
  have i: "signed_take_bit 31 (signed_take_bit 31 x) = signed_take_bit 31 x" for x :: int by simp
  show "c_int (c_int x + y) = c_int (x + y)" unfolding c_int_def by (metis i signed_take_bit_add)
  show "c_int (c_int x * y) = c_int (x * y)" unfolding c_int_def by (metis i signed_take_bit_mult)
  show "c_int (- c_int x) = c_int (- x)" unfolding c_int_def by (rule signed_take_bit_minus)
qed

lemma c_int_same: "- (2 ^ 31) \<le> v \<Longrightarrow> v < 2 ^ 31 \<Longrightarrow> c_int v = v"
  unfolding c_int_def by (intro signed_take_bit_int_eq_self) simp_all

definition digits_val :: "int \<Rightarrow> u8 list \<Rightarrow> int" where
  "digits_val a xs = foldl (\<lambda>a c. a * 10 + (sint c - 48)) a xs"

lemma digits_val_dec: "digits_val a (dec n) = a * 10 ^ length (dec n) + int n"
proof (induction n rule: dec.induct)
  case (1 n)
  show ?case
  proof (cases "n < 10")
    case True
    then show ?thesis using digit_byte(2) [of n] by (simp add: dec.simps [of n] digits_val_def)
  next
    case False
    have "digits_val a (dec n) = digits_val a (dec (n div 10)) * 10 + int (n mod 10)"
      using False digit_byte(2) [of "n mod 10"] by (simp add: dec.simps [of n] digits_val_def)
    also have "\<dots> = (a * 10 ^ length (dec (n div 10)) + int (n div 10)) * 10 + int (n mod 10)"
      using "1.IH" [OF False] by simp
    also have "\<dots> = a * 10 ^ length (dec n) + (int (n div 10) * 10 + int (n mod 10))"
      using False by (simp add: dec.simps [of n] algebra_simps)
    also have "int (n div 10) * 10 + int (n mod 10) = int n"
      by (metis div_mult_mod_eq of_nat_add of_nat_mult of_nat_numeral)
    finally show ?thesis .
  qed
qed

lemma atoi_digits_cstr:
  assumes "cstr m p xs" and "\<And>c. c \<in> set xs \<Longrightarrow> is_digit c"
  shows "atoi_digits m p (c_int a) = Some (c_int (digits_val a xs))"
  using assms
proof (induction xs arbitrary: p a)
  case Nil
  then show ?case by (subst atoi_digits.simps) (simp add: digits_val_def)
next
  case (Cons x xs)
  have "c_int (c_int (c_int a * 10) + (sint x - sint (48 :: u8))) = c_int (a * 10 + (sint x - 48))"
    by (simp add: c_int_mod)
  with Cons.IH [of "p + 1" "a * 10 + (sint x - 48)"] Cons.prems show ?case
    by (subst atoi_digits.simps) (simp add: digits_val_def)
qed

lemma k_atoi_dec:
  assumes "cstr m p (dec_int v)"
  shows "k_atoi m p = Some (c_int v)"
proof (cases "v < 0")
  case True
  let ?n = "nat (- v)"
  have m: "m p = 45" "cstr m (p + 1) (dec ?n)" using assms True by (simp_all add: dec_int_def)
  have "atoi_digits m (p + 1) (c_int 0) = Some (c_int (digits_val 0 (dec ?n)))"
    using m(2) by (rule atoi_digits_cstr) (auto dest!: dec_digits simp: digit_byte)
  then have "atoi_digits m (p + 1) 0 = Some (c_int (- v))" using True by (simp add: digits_val_dec c_int_def)
  moreover have "atoi_skip m p = Some p" using m by (subst atoi_skip.simps) simp
  ultimately show ?thesis using m True by (simp add: k_atoi_def c_int_mod)
next
  case False
  let ?n = "nat v"
  have c: "cstr m p (dec ?n)" using assms False by (simp add: dec_int_def)
  obtain x xs where xs: "dec ?n = x # xs" using dec_ne by (cases "dec ?n") auto
  then obtain k where k: "k < 10" "x = of_nat k + 48" using dec_digits [of x ?n] by auto
  have "atoi_digits m p (c_int 0) = Some (c_int (digits_val 0 (dec ?n)))"
    using c by (rule atoi_digits_cstr) (auto dest!: dec_digits simp: digit_byte)
  then have "atoi_digits m p 0 = Some (c_int v)" using False by (simp add: digits_val_dec c_int_def)
  moreover have "m p = x" using c xs by simp
  moreover have "atoi_skip m p = Some p"
    using c xs k digit_byte(1,3) [OF k(1)] by (subst atoi_skip.simps) simp
  ultimately show ?thesis using digit_byte(4,5) [OF k(1)] k(2) by (simp add: k_atoi_def)
qed

lemma dec_int_nonzero: "0 \<notin> set (dec_int v)"
  by (simp add: dec_int_def dec_nonzero)

text \<open>C29. Numbers round trip: for every \<open>int\<close>, the least one included, \<open>kinguio_itoa\<close> writes its
  usual decimal text as a C string of at most 12 bytes, changes nothing else, and \<open>k_atoi\<close> reads
  the number back.\<close>

theorem itoa_atoi_roundtrip:
  assumes "- (2 ^ 31) \<le> v" and "v < 2 ^ 31" and "unat str + 11 < 2 ^ 64"
  shows "cstr (kinguio_itoa v str m) str (dec_int v) \<and> k_atoi (kinguio_itoa v str m) str = Some v \<and>
    (\<forall>a. a \<notin> region str 12 \<longrightarrow> kinguio_itoa v str m a = m a)"
proof -
  note e = kinguio_itoa_put [OF assms, of m] and len = dec_int_length [OF assms(1,2)]
  have c: "cstr (kinguio_itoa v str m) str (dec_int v)" unfolding e using len dec_int_nonzero by (intro cstr_put) simp_all
  moreover have "k_atoi (kinguio_itoa v str m) str = Some v"
    using k_atoi_dec [OF c] c_int_same [OF assms(1,2)] by simp
  moreover have "kinguio_itoa v str m a = m a" if "a \<notin> region str 12" for a
    unfolding e using that len region_mono [of "length (dec_int v @ [0])" 12 str] by (intro put_outside) auto
  ultimately show ?thesis by blast
qed

theorem itoa_atoi_roundtrip_witness:
  "k_atoi (kinguio_itoa (- 2147483648) 0x1000 (\<lambda>_. 0)) 0x1000 = Some (- 2147483648)"
  using itoa_atoi_roundtrip [of "- 2147483648" "0x1000" "\<lambda>_. 0"] by simp

section \<open>Hexadecimal numerals\<close>

definition hexd :: "nat \<Rightarrow> u8" where
  "hexd x = of_nat x + (if x > 9 then 55 else 48)"

fun hexs :: "nat \<Rightarrow> u8 list" where
  "hexs n = (if n < 16 then [hexd n] else hexs (n div 16) @ [hexd (n mod 16)])"

declare hexs.simps [simp del]

primrec hexpad :: "nat \<Rightarrow> nat \<Rightarrow> u8 list" where
  "hexpad 0 n = []"
| "hexpad (Suc k) n = hexpad k (n div 16) @ [hexd (n mod 16)]"

lemma hexpad_length [simp]: "length (hexpad k n) = k"
  by (induction k arbitrary: n) simp_all

lemma hexd_unat: "x < 16 \<Longrightarrow> unat (hexd x) = x + (if x > 9 then 55 else 48)"
  by (simp add: hexd_def unat_word_ariths unat_of_nat)

lemma hexd_cases: "x < 16 \<Longrightarrow> hexd x \<noteq> 0" "x < 16 \<Longrightarrow> hexd x = 48 \<longleftrightarrow> x = 0"
proof -
  assume x: "x < 16"
  have "unat (hexd x) \<noteq> unat (0 :: u8)" "unat (hexd x) = unat (48 :: u8) \<longleftrightarrow> x = 0"
    unfolding hexd_unat [OF x] by auto
  then show "hexd x \<noteq> 0" "hexd x = 48 \<longleftrightarrow> x = 0" by (metis, metis word_unat_eq_iff)
qed

lemma hexpad_nonzero: "0 \<notin> set (hexpad k n)"
  by (induction k arbitrary: n) (auto dest!: sym simp: hexd_cases)

lemma hexpad_strip: "0 < n \<Longrightarrow> n < 16 ^ k \<Longrightarrow> dropWhile (\<lambda>c. c = 48) (hexpad k n) = hexs n"
proof (induction k arbitrary: n)
  case (Suc k)
  show ?case
  proof (cases "n < 16")
    case True
    have "set (hexpad k 0) \<subseteq> {48}" by (induction k) (auto simp: hexd_def)
    then have "dropWhile (\<lambda>c. c = 48) (hexpad k 0) = []" by auto
    then show ?thesis using True Suc.prems hexd_cases(2) [of n] by (simp add: hexs.simps [of n] dropWhile_append)
  next
    case False
    then have d: "0 < n div 16" "n div 16 < 16 ^ k" using Suc.prems by (simp_all add: div_less_iff_less_mult mult.commute div_greater_zero_iff)
    from Suc.IH [OF d] have "dropWhile (\<lambda>c. c = 48) (hexpad k (n div 16)) = hexs (n div 16)" .
    moreover have "hexs (n div 16) \<noteq> []" by (subst hexs.simps) simp
    ultimately have "dropWhile (\<lambda>c. c = 48) (hexpad k (n div 16)) \<noteq> []" by metis
    then have "\<not> (\<forall>c \<in> set (hexpad k (n div 16)). c = 48)" by simp
    then have "dropWhile (\<lambda>c. c = 48) (hexpad (Suc k) n) = dropWhile (\<lambda>c. c = 48) (hexpad k (n div 16)) @ [hexd (n mod 16)]"
      by (auto simp: dropWhile_append1)
    with Suc.IH [OF d] False show ?thesis by (simp only: hexs.simps [of n] if_False)
  qed
qed simp

lemma hex_digit_word:
  fixes w :: "'a::len word"
  assumes "4 \<le> LENGTH('a)"
  shows "(ucast (w AND 0xF) :: u8) + (if (ucast (w AND 0xF) :: u8) > 9 then 55 else 48) = hexd (unat w mod 16)"
    and "unat (drop_bit 4 w) = unat w div 16"
proof -
  have t: "w AND 0xF = take_bit 4 w" by (simp add: take_bit_eq_mask mask_eq_exp_minus_1)
  have "unat (w AND 0xF) = take_bit 4 (unat w)" unfolding t by (rule unsigned_take_bit_eq)
  then have "unat (w AND 0xF) = unat w mod 16" by (simp add: take_bit_eq_mod)
  then have c: "(ucast (w AND 0xF) :: u8) = of_nat (unat w mod 16)" by (metis of_nat_unat)
  have "(of_nat (unat w mod 16) :: u8) > 9 \<longleftrightarrow> unat w mod 16 > 9"
    by (simp add: word_less_nat_alt unat_of_nat)
  with c show "(ucast (w AND 0xF) :: u8) + (if (ucast (w AND 0xF) :: u8) > 9 then 55 else 48) = hexd (unat w mod 16)"
    by (simp add: hexd_def)
  have "unat (drop_bit 4 w) = drop_bit 4 (take_bit LENGTH('a) (unat w))" by (rule unsigned_drop_bit_eq)
  moreover have "take_bit LENGTH('a) (unat w) = unat w" by (rule take_bit_nat_eq_self) (rule unsigned_less)
  ultimately show "unat (drop_bit 4 w) = unat w div 16" by (simp only: drop_bit_eq_div) simp
qed

lemma hex_write_put:
  fixes w :: "'a::len word"
  assumes "4 \<le> LENGTH('a)" and "unat dest + k < 2 ^ 64"
  shows "hex_write m dest (dest + of_nat k) w = put m dest (hexpad k (unat w))"
  using assms(2)
proof (induction k arbitrary: m w)
  case 0
  show ?case by (subst hex_write.simps) simp
next
  case (Suc k)
  have "unat (dest + of_nat (Suc k)) = unat dest + Suc k" using Suc.prems by (rule unat_offset)
  then have lt: "dest < dest + of_nat (Suc k)" by (simp add: word_less_nat_alt del: of_nat_Suc)
  have "hex_write m dest (dest + of_nat (Suc k)) w =
      hex_write (m(dest + of_nat k := hexd (unat w mod 16))) dest (dest + of_nat k) (drop_bit 4 w)"
    using lt hex_digit_word(1) [OF assms(1), of w] by (subst hex_write.simps) (simp add: Let_def algebra_simps)
  also have "\<dots> = put (m(dest + of_nat k := hexd (unat w mod 16))) dest (hexpad k (unat w div 16))"
    using Suc hex_digit_word(2) [OF assms(1), of w] by simp
  also have "\<dots> = put m dest (hexpad (Suc k) (unat w))"
    using Suc.prems put_snoc [of "hexpad k (unat w div 16)" m dest "hexd (unat w mod 16)"] by simp
  finally show ?case .
qed

lemma hex_strip_put:
  assumes "cstr m dest xs" and "i = length (takeWhile (\<lambda>c. c = 48) xs)" and "i < length xs"
  shows "hex_strip m dest dest 0 (int (length xs)) = Some (put m dest (dropWhile (\<lambda>c. c = 48) xs @ [0]))"
proof -
  have n: "length xs < 2 ^ 64" by (rule cstr_length [OF assms(1)])
  have drop: "drop i xs = dropWhile (\<lambda>c. c = 48) xs" by (simp add: assms(2) dropWhile_eq_drop)
  have c: "cstr m (dest + of_nat i) (drop i xs)" using assms by (intro cstr_drop) simp_all
  have "copy_safe dest (dest + of_nat i) (length (drop i xs))" using n assms(3) by (intro copy_safe_below) simp
  from strcpy_cstr [OF c this] have sc: "strcpy m dest (dest + of_nat i) = Some (put m dest (drop i xs @ [0]))" .
  have "hex_strip m dest (dest + of_nat j) (int j) (int (length xs)) = Some (put m dest (drop i xs @ [0]))" if "j \<le> i" for j
    using that
  proof (induction "i - j" arbitrary: j)
    case 0
    have "xs ! i \<noteq> 48" using assms(2,3) nth_length_takeWhile [of "\<lambda>c. c = 48" xs] by simp
    moreover have "m (dest + of_nat i) = xs ! i" using assms(1,3) by (simp add: cstr_nth)
    ultimately show ?case using 0 assms(3) sc by (subst hex_strip.simps) simp
  next
    case (Suc d)
    then have "j < i" by simp
    then have "xs ! j = 48" using assms(2) by (metis (mono_tags) nth_mem set_takeWhileD takeWhile_nth)
    moreover have "m (dest + of_nat j) = xs ! j" using assms(1,3) \<open>j < i\<close> by (simp add: cstr_nth)
    moreover have "hex_strip m dest (dest + of_nat (Suc j)) (int (Suc j)) (int (length xs)) = Some (put m dest (drop i xs @ [0]))"
      using Suc by (intro Suc.hyps) simp_all
    ultimately show ?case using assms(3) \<open>j < i\<close>
      by (subst hex_strip.simps) (simp only: offset_Suc int_Suc_index simp_thms if_True of_nat_less_iff less_trans [of j i])
  qed
  from this [of 0] show ?thesis by (simp add: drop)
qed

text \<open>The tail of both hexadecimal routines, for a number with \<open>k\<close> digits of space.\<close>

lemma hex_finish:
  fixes w :: "'a::len word"
  assumes "4 \<le> LENGTH('a)" and "w \<noteq> 0" and "unat w < 16 ^ k" and "unat dest + k < 2 ^ 64"
  obtains m' where "Option.bind (hex_strip ((hex_write m dest (at_index dest (int k)) w)(at_index dest (int k) := 0)) dest dest 0 (int k))
      (\<lambda>m3. map_option (\<lambda>n. memset m3 (at_index dest n) 0 (int k - n)) (strlen m3 dest)) = Some m'"
    and "cstr m' dest (hexs (unat w))" and "\<And>a. a \<notin> region dest (Suc k) \<Longrightarrow> m' a = m a"
proof -
  define xs where "xs = hexpad k (unat w)"
  let ?ys = "hexs (unat w)" and ?m2 = "put m dest (xs @ [0])"
  have pos: "0 < unat w" using assms(2) by (simp add: unat_gt_0)
  have ys: "dropWhile (\<lambda>c. c = 48) xs = ?ys" unfolding xs_def by (rule hexpad_strip [OF pos assms(3)])
  have k: "k < 2 ^ 64" "length xs = k" using assms(4) by (simp_all add: xs_def)
  have "?ys \<noteq> []" by (subst hexs.simps) simp
  have "length (takeWhile (\<lambda>c. c = 48) xs) + length ?ys = k" unfolding ys [symmetric] using k(2)
    by (metis length_append takeWhile_dropWhile_id)
  moreover have "0 < length ?ys" using \<open>?ys \<noteq> []\<close> by simp
  ultimately have i: "length (takeWhile (\<lambda>c. c = 48) xs) < length xs" and le: "length ?ys \<le> k" using k(2) by linarith+
  have "hex_write m dest (dest + of_nat k) w = put m dest xs" unfolding xs_def by (rule hex_write_put [OF assms(1,4)])
  then have m2: "(hex_write m dest (at_index dest (int k)) w)(at_index dest (int k) := 0) = ?m2"
    using put_append [of xs "[0]" m dest] k by (simp add: put_Cons)
  have c2: "cstr ?m2 dest xs" using k hexpad_nonzero by (intro cstr_put) (simp_all add: xs_def)
  define m3 where "m3 = put ?m2 dest (?ys @ [0])"
  have strip: "hex_strip ?m2 dest dest 0 (int k) = Some m3"
    using hex_strip_put [OF c2 refl i] k(2) by (simp add: m3_def ys)
  have nz: "0 \<notin> set ?ys" unfolding ys [symmetric] xs_def using hexpad_nonzero set_dropWhileD by fast
  have c3: "cstr m3 dest ?ys" unfolding m3_def using nz le k by (intro cstr_put) simp_all
  let ?q = "dest + of_nat (length ?ys)"
  define m' where "m' = memset m3 ?q 0 (int k - int (length ?ys))"
  have "unat ?q = unat dest + length ?ys" using le assms(4) by (intro unat_offset) simp
  then have q: "?q \<noteq> NULL" using \<open>0 < length ?ys\<close> by (auto simp: unat_eq_zero)
  have sub: "region ?q (nat (int k - int (length ?ys))) \<subseteq> region dest (Suc k)"
    using region_offset [of dest "length ?ys" "k - length ?ys"] region_mono [of k "Suc k" dest] le by (auto simp: nat_diff_distrib)
  have out: "m' a = m3 a" if "a \<notin> region ?q (nat (int k - int (length ?ys)))" for a
    unfolding m'_def by (rule memset_outside [OF that])
  have "m' (dest + of_nat j) = m3 (dest + of_nat j)" if "j < length ?ys" for j
  proof (rule out, rule notI)
    assume "dest + of_nat j \<in> region ?q (nat (int k - int (length ?ys)))"
    moreover have "dest + of_nat j \<in> region dest (length ?ys)" using that by (rule in_region_offset)
    moreover have "length ?ys + nat (int k - int (length ?ys)) \<le> 2 ^ 64" using le k(1) by linarith
    ultimately show False using region_disjoint [of "length ?ys" "nat (int k - int (length ?ys))" dest] by blast
  qed
  moreover have "m' ?q = 0"
  proof (cases "?q \<in> region ?q (nat (int k - int (length ?ys)))")
    case True
    then show ?thesis unfolding m'_def using q by (rule memset_zero)
  next
    case False
    with out c3 show ?thesis by (simp add: cstr_nth)
  qed
  ultimately have "cstr m' dest ?ys" using c3 by (simp add: cstr_nth)
  moreover have "m' a = m a" if "a \<notin> region dest (Suc k)" for a
  proof -
    have "a \<notin> region dest (Suc (length ?ys))" using that region_mono [of "Suc (length ?ys)" "Suc k" dest] le by auto
    moreover have "a \<notin> region dest (Suc (length xs))" using that k(2) by simp
    ultimately have "m3 a = m a" by (simp add: m3_def put_outside)
    with out [of a] sub that show ?thesis by auto
  qed
  moreover have "Option.bind (hex_strip ?m2 dest dest 0 (int k))
      (\<lambda>m3. map_option (\<lambda>n. memset m3 (at_index dest n) 0 (int k - n)) (strlen m3 dest)) = Some m'"
    by (simp add: strip strlen_cstr [OF c3] m'_def)
  ultimately show ?thesis using that [of m'] m2 by simp
qed

lemma hex_zero:
  assumes "1 \<le> k" and "k < 2 ^ 64"
  shows "cstr (m(dest := 48, dest + 1 := 0)) dest (hexs 0)"
    and "a \<notin> region dest (Suc k) \<Longrightarrow> (m(dest := 48, dest + 1 := 0)) a = m a"
proof -
  show "cstr (m(dest := 48, dest + 1 := 0)) dest (hexs 0)" by (simp add: hexs.simps [of 0] hexd_def)
  show "(m(dest := 48, dest + 1 := 0)) a = m a" if "a \<notin> region dest (Suc k)"
    using that in_region_offset [of 0 "Suc k" dest] in_region_offset [of 1 "Suc k" dest] assms(1) by auto
qed

lemma i2hex2_text:
  assumes "unat dest + 16 < 2 ^ 64"
  obtains m' where "kinguio_i2hex_versao2 w dest 16 m = Some m'" and "cstr m' dest (hexs (unat w))"
    and "\<And>a. a \<notin> region dest 17 \<Longrightarrow> m' a = m a"
proof (cases "w = 0")
  case True
  have "cstr (m(dest := 48, dest + 1 := 0)) dest (hexs (unat w))" using hex_zero(1) [of 16 m dest] True by simp
  moreover have "(m(dest := 48, dest + 1 := 0)) a = m a" if "a \<notin> region dest 17" for a
    using that hex_zero(2) [of 16 a dest m] by simp
  ultimately show ?thesis using that True by (simp add: kinguio_i2hex_versao2_def del: fun_upd_apply)
next
  case False
  have "unat w < 16 ^ 16" using unsigned_less [of w, where 'a = nat] by simp
  then obtain m' where "kinguio_i2hex_versao2 w dest (int 16) m = Some m'" "cstr m' dest (hexs (unat w))"
    "\<And>a. a \<notin> region dest (Suc 16) \<Longrightarrow> m' a = m a"
    using hex_finish [of w 16 dest m] assms False unfolding kinguio_i2hex_versao2_def Let_def if_not_P [OF False] by auto
  with that show ?thesis by simp
qed

lemma i2hex_text:
  assumes "unat dest + 8 < 2 ^ 64"
  obtains m' where "kinguio_i2hex w dest 8 m = Some m'" and "cstr m' dest (hexs (unat w))"
    and "\<And>a. a \<notin> region dest 9 \<Longrightarrow> m' a = m a"
proof (cases "w = 0")
  case True
  have "cstr (m(dest := 48, dest + 1 := 0)) dest (hexs (unat w))" using hex_zero(1) [of 8 m dest] True by simp
  moreover have "(m(dest := 48, dest + 1 := 0)) a = m a" if "a \<notin> region dest 9" for a
    using that hex_zero(2) [of 8 a dest m] by simp
  ultimately show ?thesis using that True by (simp add: kinguio_i2hex_def del: fun_upd_apply)
next
  case False
  have "unat w < 16 ^ 8" using unsigned_less [of w, where 'a = nat] by simp
  then obtain m' where "kinguio_i2hex w dest (int 8) m = Some m'" "cstr m' dest (hexs (unat w))"
    "\<And>a. a \<notin> region dest (Suc 8) \<Longrightarrow> m' a = m a"
    using hex_finish [of w 8 dest m] assms False unfolding kinguio_i2hex_def Let_def if_not_P [OF False] by auto
  with that show ?thesis by simp
qed

end
