(* ===== verification/Kformat_Laws.thy ===== *)
theory Kformat_Laws
  imports Kconv_Laws
begin

text \<open>
  \<open>kinguio_vsprintf\<close> against a reference: a format is a list of pieces, characters and the nine
  supported directives; the output is the rendering of the pieces with the arguments in order. The
  rendering of \<open>%u\<close> without the length modifier is the one of a signed number, as in the code.
\<close>

section \<open>The reference\<close>

datatype piece = Lit u8 | Chr | Str | Dec | Uns | ULong | Hex | LHex | Ptr

primrec piece_text :: "piece \<Rightarrow> u8 list" where
  "piece_text (Lit c) = [c]"
| "piece_text Chr = [37, 99]"
| "piece_text Str = [37, 115]"
| "piece_text Dec = [37, 100]"
| "piece_text Uns = [37, 117]"
| "piece_text ULong = [37, 108, 117]"
| "piece_text Hex = [37, 120]"
| "piece_text LHex = [37, 108, 120]"
| "piece_text Ptr = [37, 112]"

text \<open>\<open>strs\<close> gives the text of the string arguments.\<close>

primrec render :: "(ptr \<Rightarrow> u8 list) \<Rightarrow> piece \<Rightarrow> u64 \<Rightarrow> u8 list" where
  "render strs (Lit c) a = [c]"
| "render strs Chr a = one_char (ucast a)"
| "render strs Str a = (if a = NULL then [40, 110, 117, 108, 108, 41] else strs a)"
| "render strs Dec a = dec_int (int_arg a)"
| "render strs Uns a = dec_int (int_arg a)"
| "render strs ULong a = dec (unat a)"
| "render strs Hex a = hexs (unat (ucast a :: u32))"
| "render strs LHex a = hexs (unat a)"
| "render strs Ptr a = [48, 120] @ hexs (unat a)"

definition args_after :: "piece \<Rightarrow> (nat \<Rightarrow> u64) \<Rightarrow> nat \<Rightarrow> u64" where
  "args_after p ap = (case p of Lit _ \<Rightarrow> ap | _ \<Rightarrow> next_args ap)"

primrec render_all :: "(ptr \<Rightarrow> u8 list) \<Rightarrow> piece list \<Rightarrow> (nat \<Rightarrow> u64) \<Rightarrow> u8 list" where
  "render_all strs [] ap = []"
| "render_all strs (p # ps) ap = render strs p (ap 0) @ render_all strs ps (args_after p ap)"

text \<open>
  \<open>buffer_size\<close> bytes of the static buffer are used. A literal character is not the terminator and
  not \<open>%\<close>; a string argument is a C string apart from the buffer and the output.
\<close>

abbreviation (input) buffer_size :: nat where "buffer_size \<equiv> 24"

definition piece_ok :: "(ptr \<Rightarrow> u8 list) \<Rightarrow> mem \<Rightarrow> ptr set \<Rightarrow> piece \<Rightarrow> u64 \<Rightarrow> bool" where
  "piece_ok strs m W p a \<longleftrightarrow> (case p of Lit c \<Rightarrow> c \<noteq> 0 \<and> c \<noteq> 37
     | Str \<Rightarrow> a \<noteq> NULL \<longrightarrow> cstr m a (strs a) \<and> region a (Suc (length (strs a))) \<inter> W = {} | _ \<Rightarrow> True)"

primrec pieces_ok :: "(ptr \<Rightarrow> u8 list) \<Rightarrow> mem \<Rightarrow> ptr set \<Rightarrow> piece list \<Rightarrow> (nat \<Rightarrow> u64) \<Rightarrow> bool" where
  "pieces_ok strs m W [] ap \<longleftrightarrow> True"
| "pieces_ok strs m W (p # ps) ap \<longleftrightarrow> piece_ok strs m W p (ap 0) \<and> pieces_ok strs m W ps (args_after p ap)"

section \<open>What a step writes\<close>

definition wrote :: "ptr \<Rightarrow> mem \<Rightarrow> ptr \<Rightarrow> u8 list \<Rightarrow> mem \<Rightarrow> bool" where
  "wrote buffer m out xs m' \<longleftrightarrow> (\<forall>i < length xs. m' (out + of_nat i) = xs ! i) \<and>
     (\<forall>a. a \<notin> region out (length xs) \<union> region buffer buffer_size \<longrightarrow> m' a = m a)"

lemma wrote_Nil [simp]: "wrote buffer m out [] m"
  by (simp add: wrote_def)

lemma wrote_put:
  assumes "length xs < 2 ^ 64" and "\<And>a. a \<notin> region buffer buffer_size \<Longrightarrow> mb a = m a"
  shows "wrote buffer m out xs (put mb out xs)"
  using assms by (auto simp: wrote_def put_nth put_outside)

lemma wrote_append:
  assumes "wrote buffer m out xs m1" and "wrote buffer m1 (out + of_nat (length xs)) ys m2"
    and n: "length xs + length ys < 2 ^ 64" and ap: "apart out (length xs + length ys) buffer buffer_size"
  shows "wrote buffer m out (xs @ ys) m2"
proof -
  let ?e = "out + of_nat (length xs)"
  have sub: "region ?e (length ys) \<subseteq> region out (length xs + length ys)" by (rule region_offset)
  have keep: "m2 (out + of_nat i) = m1 (out + of_nat i)" if "i < length xs" for i
  proof -
    have "out + of_nat i \<in> region out (length xs)" using that by (rule in_region_offset)
    moreover have "region out (length xs) \<inter> region ?e (length ys) = {}" using n by (intro region_disjoint) simp
    moreover have "region out (length xs) \<subseteq> region out (length xs + length ys)" by (rule region_mono) simp
    ultimately have "out + of_nat i \<notin> region ?e (length ys) \<union> region buffer buffer_size" using ap unfolding apart_def by blast
    with assms(2) show ?thesis by (simp add: wrote_def)
  qed
  have "m2 (out + of_nat i) = (xs @ ys) ! i" if "i < length (xs @ ys)" for i
  proof (cases "i < length xs")
    case True
    with keep assms(1) show ?thesis by (simp add: wrote_def nth_append)
  next
    case False
    then obtain j where j: "i = length xs + j" using le_Suc_ex [of "length xs" i] by auto
    have "j < length ys" using that by (simp add: j)
    have "m2 (?e + of_nat j) = ys ! j" using assms(2) \<open>j < length ys\<close> by (simp add: wrote_def)
    then show ?thesis by (simp add: j nth_append add.assoc)
  qed
  moreover have "m2 a = m a" if "a \<notin> region out (length (xs @ ys)) \<union> region buffer buffer_size" for a
  proof -
    have "a \<notin> region out (length xs)" "a \<notin> region ?e (length ys)"
      using that sub region_mono [of "length xs" "length xs + length ys" out] by auto
    with that assms(1,2) show ?thesis by (simp add: wrote_def)
  qed
  ultimately show ?thesis by (simp add: wrote_def)
qed

lemma vsputs_const_put: "length xs < 2 ^ 64 \<Longrightarrow> vsputs_const m out xs = (put m out xs, out + of_nat (length xs))"
  by (induction xs arbitrary: m out) (simp_all add: put_Cons add.assoc)

lemma vsputs_r_put:
  assumes "cstr m src xs" and "region out (length xs) \<inter> region src (Suc (length xs)) = {}"
  shows "vsputs_r m out src = Some (put m out xs, out + of_nat (length xs))"
  using assms
proof (induction xs arbitrary: m out src)
  case Nil
  then show ?case by (subst vsputs_r.simps) simp
next
  case (Cons x xs)
  have n: "length xs < 2 ^ 64" using cstr_length [OF Cons.prems(1)] by simp
  have o: "out \<notin> region (src + 1) (Suc (length xs))"
    using Cons.prems(2) region_self [of out "length xs"] region_shift [of src "Suc (length xs)"]
    unfolding length_Cons by blast
  then have "cstr (m(out := x)) (src + 1) xs = cstr m (src + 1) xs" by (intro cstr_cong) auto
  moreover have "region (out + 1) (length xs) \<inter> region (src + 1) (Suc (length xs)) = {}"
    using Cons.prems(2) region_shift [of out "length xs"] region_shift [of src "Suc (length xs)"]
    unfolding length_Cons by blast
  ultimately have "vsputs_r (m(out := x)) (out + 1) (src + 1) = Some (put (m(out := x)) (out + 1) xs, out + 1 + of_nat (length xs))"
    using Cons.IH Cons.prems(1) by simp
  with Cons.prems(1) n show ?case by (subst vsputs_r.simps) (simp add: put_Cons add.assoc del: fun_upd_apply)
qed

section \<open>Directives\<close>

text \<open>A conversion has left the text \<open>xs\<close> in the buffer and changed nothing else.\<close>

definition in_buffer :: "ptr \<Rightarrow> mem \<Rightarrow> mem option \<Rightarrow> u8 list \<Rightarrow> bool" where
  "in_buffer buffer m r xs \<longleftrightarrow> length xs < buffer_size \<and>
     (\<exists>mb. r = Some mb \<and> cstr mb buffer xs \<and> (\<forall>a. a \<notin> region buffer buffer_size \<longrightarrow> mb a = m a))"

lemma vs_buffer_wrote:
  assumes "in_buffer buffer m r xs" and "apart out (length xs) buffer buffer_size"
  shows "\<exists>m'. vs_buffer r buffer out ap t = Some (m', out + of_nat (length xs), next_args ap, t) \<and> wrote buffer m out xs m'"
proof -
  obtain mb where mb: "r = Some mb" "cstr mb buffer xs" "\<And>a. a \<notin> region buffer buffer_size \<Longrightarrow> mb a = m a"
    and n: "length xs < buffer_size" using assms(1) by (auto simp: in_buffer_def)
  have "region out (length xs) \<inter> region buffer (Suc (length xs)) = {}"
    using n assms(2) region_mono [of "Suc (length xs)" buffer_size buffer] by (auto simp: apart_def)
  from vsputs_r_put [OF mb(2) this] have "vs_buffer r buffer out ap t = Some (put mb out xs, out + of_nat (length xs), next_args ap, t)"
    by (simp add: vs_buffer_def mb(1))
  moreover have "wrote buffer m out xs (put mb out xs)" using mb(3) n by (intro wrote_put) auto
  ultimately show ?thesis by blast
qed

lemma in_buffer_put:
  assumes "0 \<notin> set xs" and "length xs < buffer_size"
  shows "in_buffer buffer m (Some (put m buffer (xs @ [0]))) xs"
  using assms region_mono [of "Suc (length xs)" buffer_size buffer]
  by (auto simp: in_buffer_def intro!: cstr_put put_outside)

lemma in_buffer_small:
  assumes "r = Some m'" and "cstr m' buffer xs" and "\<And>a. a \<notin> region buffer k \<Longrightarrow> m' a = m a"
    and "length xs < k" and "k \<le> buffer_size"
  shows "in_buffer buffer m r xs"
  using assms region_mono [of k buffer_size buffer] by (auto simp: in_buffer_def)

lemma hexs_bound: "n < 16 ^ k \<Longrightarrow> 0 < k \<Longrightarrow> length (hexs n) \<le> k"
proof (induction n arbitrary: k rule: hexs.induct)
  case (1 n)
  show ?case
  proof (cases "n < 16")
    case True
    then show ?thesis using "1.prems" by (simp add: hexs.simps [of n])
  next
    case False
    obtain j where k: "k = Suc j" using "1.prems"(2) by (cases k) auto
    with False "1.prems"(1) have j: "0 < j" by (auto intro: gr0I)
    then have "n div 16 < 16 ^ j" using "1.prems" k by (simp add: div_less_iff_less_mult mult.commute)
    from "1.IH" [OF False this j] show ?thesis using False k by (simp add: hexs.simps [of n])
  qed
qed

lemma int_arg_range: "- (2 ^ 31) \<le> int_arg a" "int_arg a < 2 ^ 31"
  using sint_range_size [of "ucast a :: u32"] by (simp_all add: int_arg_def word_size)

lemma itoa_buffer:
  assumes "unat buffer + buffer_size < 2 ^ 64"
  shows "in_buffer buffer m (Some (kinguio_itoa (int_arg v) buffer m)) (dec_int (int_arg v))"
proof -
  have len: "length (dec_int (int_arg v)) \<le> 11" by (rule dec_int_length [OF int_arg_range])
  have e: "kinguio_itoa (int_arg v) buffer m = put m buffer (dec_int (int_arg v) @ [0])"
    using assms by (intro kinguio_itoa_put int_arg_range) simp
  show ?thesis unfolding e using len dec_int_nonzero by (intro in_buffer_put) simp_all
qed

lemma utoa10_buffer:
  assumes "unat buffer + buffer_size < 2 ^ 64"
  shows "in_buffer buffer m (kinguio_utoa u buffer 10 m) (dec (unat u))"
proof -
  have "unat u < 10 ^ 20" using unsigned_less [of u, where 'a = nat] by simp
  then have len: "length (dec (unat u)) \<le> 20" by (rule dec_bound) simp
  have e: "kinguio_utoa u buffer 10 m = Some (put m buffer (dec (unat u) @ [0]))"
    using assms utoa_r_put [of buffer u m] by (simp add: kinguio_utoa_def)
  show ?thesis unfolding e using len dec_nonzero by (intro in_buffer_put) simp_all
qed

lemma utoa16_buffer:
  assumes "unat buffer + buffer_size < 2 ^ 64"
  shows "in_buffer buffer m (kinguio_utoa u buffer 16 m) (hexs (unat u))"
proof -
  have "unat u < 16 ^ 16" using unsigned_less [of u, where 'a = nat] by simp
  then have len: "length (hexs (unat u)) < 17" using hexs_bound [of "unat u" 16] by simp
  have room: "unat buffer + 16 < 2 ^ 64" using assms by simp
  obtain m' where "kinguio_i2hex_versao2 u buffer 16 m = Some m'" "cstr m' buffer (hexs (unat u))"
    "\<And>a. a \<notin> region buffer 17 \<Longrightarrow> m' a = m a" by (rule i2hex2_text [OF room, of u m]) blast
  with len show ?thesis by (intro in_buffer_small [of _ m' _ _ 17]) (simp_all add: kinguio_utoa_def)
qed

lemma i2hex_buffer:
  assumes "unat buffer + buffer_size < 2 ^ 64"
  shows "in_buffer buffer m (kinguio_i2hex u buffer 8 m) (hexs (unat u))"
proof -
  have "unat u < 16 ^ 8" using unsigned_less [of u, where 'a = nat] by simp
  then have len: "length (hexs (unat u)) < 9" using hexs_bound [of "unat u" 8] by simp
  have room: "unat buffer + 8 < 2 ^ 64" using assms by simp
  obtain m' where "kinguio_i2hex u buffer 8 m = Some m'" "cstr m' buffer (hexs (unat u))"
    "\<And>a. a \<notin> region buffer 9 \<Longrightarrow> m' a = m a" by (rule i2hex_text [OF room, of u m]) blast
  with len show ?thesis by (intro in_buffer_small [of _ m' _ _ 9]) simp_all
qed

text \<open>The last character of a directive, and whether it has the length modifier.\<close>

definition long_piece :: "piece \<Rightarrow> bool" where
  "long_piece p \<longleftrightarrow> p = ULong \<or> p = LHex"

lemma pointer_wrote:
  assumes room: "unat buffer + buffer_size < 2 ^ 64" and ap: "apart out (2 + length (hexs (unat a))) buffer buffer_size"
  shows "\<exists>m'. Option.bind (kinguio_utoa a buffer 16 m) (\<lambda>m1.
         let (m2, out2) = vsputs_const m1 out [chr0, 120] in vs_buffer (Some m2) buffer out2 args t)
       = Some (m', out + of_nat (2 + length (hexs (unat a))), next_args args, t)
    \<and> wrote buffer m out ([48, 120] @ hexs (unat a)) m'"
proof -
  let ?h = "hexs (unat a)" and ?x = "[48, 120] :: u8 list"
  obtain m1 where m1: "kinguio_utoa a buffer 16 m = Some m1" "cstr m1 buffer ?h"
    "\<And>a. a \<notin> region buffer buffer_size \<Longrightarrow> m1 a = m a" "length ?h < buffer_size"
    using utoa16_buffer [OF room, of m a] by (auto simp: in_buffer_def)
  let ?m2 = "put m1 out ?x"
  have w: "wrote buffer m out ?x ?m2" using m1(3) by (intro wrote_put) auto
  have "apart out (length ?x) buffer (Suc (length ?h))"
    using ap m1(4) region_mono [of 2 "2 + length ?h" out] region_mono [of "Suc (length ?h)" buffer_size buffer]
    unfolding apart_def by (auto simp: numeral_2_eq_2)
  then have c: "cstr ?m2 buffer ?h" using m1(2) by (simp only: cstr_put_apart)
  have "apart (out + 2) (length ?h) buffer buffer_size"
    using ap region_offset [of out 2 "length ?h"] unfolding apart_def by auto
  moreover have "in_buffer buffer ?m2 (Some ?m2) ?h" using c m1(4) by (simp add: in_buffer_def)
  ultimately obtain m' where
    m': "vs_buffer (Some ?m2) buffer (out + 2) args t = Some (m', out + 2 + of_nat (length ?h), next_args args, t)"
      "wrote buffer ?m2 (out + 2) ?h m'" using vs_buffer_wrote [of buffer ?m2 "Some ?m2" ?h "out + 2" args t] by blast
  have "wrote buffer m out (?x @ ?h) m'" using w m'(2) m1(4) ap by (intro wrote_append) auto
  with m' m1(1) show ?thesis
    by (simp add: vsputs_const_put add.assoc del: vsputs_const.simps)
qed

lemma vs_directive_wrote:
  assumes lit: "\<And>c. p \<noteq> Lit c" and ok: "piece_ok strs m W p (ap 0)" and room: "unat buffer + buffer_size < 2 ^ 64"
    and W: "region out (length (render strs p (ap 0))) \<union> region buffer buffer_size \<subseteq> W"
    and ap: "apart out (length (render strs p (ap 0))) buffer buffer_size"
  shows "\<exists>m'. vs_directive buffer (List.last (piece_text p)) (m, out, ap, long_piece p) =
      Some (m', out + of_nat (length (render strs p (ap 0))), next_args ap, False)
    \<and> wrote buffer m out (render strs p (ap 0)) m'"
proof (cases p)
  case (Lit c)
  with lit show ?thesis by blast
next
  case Chr
  have "length (one_char (ucast (ap 0))) < 2 ^ 64" by (simp add: one_char_def)
  then show ?thesis using wrote_put [of _ buffer m m out]
    by (simp add: Chr vs_directive_def long_piece_def vsputs_const_put)
next
  case Str
  show ?thesis
  proof (cases "ap 0 = NULL")
    case True
    then show ?thesis using wrote_put [of "[40, 110, 117, 108, 108, 41]" buffer m m out]
      by (simp add: Str vs_directive_def long_piece_def vsputs_const_put del: vsputs_const.simps)
  next
    case False
    then have c: "cstr m (ap 0) (strs (ap 0))" and d: "region (ap 0) (Suc (length (strs (ap 0)))) \<inter> W = {}"
      using ok by (simp_all add: Str piece_ok_def)
    have "region out (length (strs (ap 0))) \<inter> region (ap 0) (Suc (length (strs (ap 0)))) = {}"
      using d W False by (auto simp: Str)
    from vsputs_r_put [OF c this] show ?thesis using False wrote_put [of "strs (ap 0)" buffer m m out] cstr_length [OF c]
      by (simp add: Str vs_directive_def long_piece_def)
  qed
next
  case Dec
  show ?thesis using vs_buffer_wrote [OF itoa_buffer [OF room], of out _ m ap False] ap
    by (simp add: Dec vs_directive_def long_piece_def)
next
  case Uns
  show ?thesis using vs_buffer_wrote [OF itoa_buffer [OF room], of out _ m ap False] ap
    by (simp add: Uns vs_directive_def long_piece_def)
next
  case ULong
  show ?thesis using vs_buffer_wrote [OF utoa10_buffer [OF room], of out _ m ap False] ap
    by (simp add: ULong vs_directive_def long_piece_def)
next
  case Hex
  show ?thesis using vs_buffer_wrote [OF i2hex_buffer [OF room], of out _ m ap False] ap
    by (simp add: Hex vs_directive_def long_piece_def)
next
  case LHex
  show ?thesis using vs_buffer_wrote [OF utoa16_buffer [OF room], of out _ m ap False] ap
    by (simp add: LHex vs_directive_def long_piece_def)
next
  case Ptr
  show ?thesis using pointer_wrote [OF room, where out = out and a = "ap 0" and m = m and args = ap and t = False] ap
    by (simp add: Ptr vs_directive_def long_piece_def del: vsputs_const.simps)
qed

section \<open>The loop\<close>

lemma pieces_ok_cong:
  assumes "\<And>a. a \<notin> W \<Longrightarrow> m' a = m a"
  shows "pieces_ok strs m W ps ap \<Longrightarrow> pieces_ok strs m' W ps ap"
proof (induction ps arbitrary: ap)
  case (Cons p ps)
  have "cstr m' a xs" if "cstr m a xs" "region a (Suc (length xs)) \<inter> W = {}" for a xs
    using that cstr_cong [of a xs m' m] assms by blast
  then have "piece_ok strs m' W p (ap 0)" using Cons.prems by (auto simp: piece_ok_def split: piece.splits)
  with Cons show ?case by simp
qed simp

lemma at_index_add: "at_index p (i + int n) = at_index p i + of_nat n"
  by (simp add: add.assoc)

lemma vsprintf_step:
  assumes c: "cstr m (at_index fmt k) (piece_text p @ rest)" and ok: "piece_ok strs m W p (ap 0)"
    and room: "unat buffer + buffer_size < 2 ^ 64"
    and W: "region out (length (render strs p (ap 0))) \<union> region buffer buffer_size \<subseteq> W"
    and ap: "apart out (length (render strs p (ap 0))) buffer buffer_size"
  shows "\<exists>m'. vsprintf_loop buffer fmt k (m, out, ap, False) =
      vsprintf_loop buffer fmt (k + int (length (piece_text p)))
        (m', out + of_nat (length (render strs p (ap 0))), args_after p ap, False)
    \<and> wrote buffer m out (render strs p (ap 0)) m'"
proof (cases "\<exists>c. p = Lit c")
  case True
  then obtain x where p: "p = Lit x" by blast
  then have "m (at_index fmt k) = x" "x \<noteq> 0" "x \<noteq> chrPercent" using c ok by (simp_all add: piece_ok_def)
  then have "vsprintf_loop buffer fmt k (m, out, ap, False) = vsprintf_loop buffer fmt (k + 1) (put m out [x], out + 1, ap, False)"
    by (subst vsprintf_loop.simps) (simp add: one_char_def put_Cons)
  moreover have "wrote buffer m out [x] (put m out [x])" by (rule wrote_put) simp_all
  ultimately show ?thesis by (auto simp: p args_after_def)
next
  case False
  then have "\<exists>m'. vs_directive buffer (List.last (piece_text p)) (m, out, ap, long_piece p) =
      Some (m', out + of_nat (length (render strs p (ap 0))), next_args ap, False)
    \<and> wrote buffer m out (render strs p (ap 0)) m'"
    by (intro vs_directive_wrote [where W = W] ok room W ap) blast
  then obtain m' where m': "vs_directive buffer (List.last (piece_text p)) (m, out, ap, long_piece p) =
      Some (m', out + of_nat (length (render strs p (ap 0))), next_args ap, False)"
    "wrote buffer m out (render strs p (ap 0)) m'" by blast
  have "vsprintf_loop buffer fmt k (m, out, ap, False) = Option.bind
      (vs_directive buffer (List.last (piece_text p)) (m, out, ap, long_piece p))
      (vsprintf_loop buffer fmt (k + int (length (piece_text p))))"
    using c False by (subst vsprintf_loop.simps, cases p) (simp_all add: long_piece_def add.assoc)
  moreover have "args_after p ap = next_args ap" using False by (auto simp: args_after_def split: piece.splits)
  ultimately show ?thesis using m' by auto
qed

lemma vsprintf_loop_renders:
  assumes "cstr m (at_index fmt k) (concat (map piece_text ps))" and "pieces_ok strs m W ps ap"
    and "region (at_index fmt k) (Suc (length (concat (map piece_text ps)))) \<inter> W = {}"
    and room: "unat buffer + buffer_size < 2 ^ 64"
    and "region out (length (render_all strs ps ap)) \<union> region buffer buffer_size \<subseteq> W"
    and "apart out (length (render_all strs ps ap)) buffer buffer_size"
    and "length (render_all strs ps ap) < 2 ^ 64"
  shows "\<exists>m' ap'. vsprintf_loop buffer fmt k (m, out, ap, False)
      = Some (m', out + of_nat (length (render_all strs ps ap)), ap', False)
    \<and> wrote buffer m out (render_all strs ps ap) m'"
  using assms(1-3,5-)
proof (induction ps arbitrary: m k out ap)
  case Nil
  then show ?case by (subst vsprintf_loop.simps) simp
next
  case (Cons p ps)
  let ?x = "render strs p (ap 0)" and ?ys = "render_all strs ps (args_after p ap)"
  let ?t = "piece_text p" and ?ts = "concat (map piece_text ps)"
  let ?e = "out + of_nat (length ?x)" and ?k = "k + int (length ?t)"
  have sub: "region out (length ?x) \<subseteq> region out (length ?x + length ?ys)" "region ?e (length ?ys) \<subseteq> region out (length ?x + length ?ys)"
    by (simp_all add: region_mono region_offset)
  have W: "region out (length ?x) \<union> region buffer buffer_size \<subseteq> W" "region ?e (length ?ys) \<union> region buffer buffer_size \<subseteq> W"
    using Cons.prems(4) sub by auto
  have ap: "apart out (length ?x) buffer buffer_size" "apart ?e (length ?ys) buffer buffer_size"
    using Cons.prems(5) sub unfolding apart_def by auto
  have "cstr m (at_index fmt k) (?t @ ?ts)" using Cons.prems(1) by simp
  then obtain m' where
    step: "vsprintf_loop buffer fmt k (m, out, ap, False) = vsprintf_loop buffer fmt ?k (m', ?e, args_after p ap, False)"
    and w: "wrote buffer m out ?x m'"
    using vsprintf_step [of m fmt k p ?ts strs W ap buffer out] Cons.prems(2) room W(1) ap(1) by auto
  have keep: "m' a = m a" if "a \<notin> W" for a using w W(1) that by (auto simp: wrote_def)
  have reg: "region (at_index fmt ?k) (Suc (length ?ts)) \<inter> W = {}"
    using Cons.prems(3) region_offset [of "at_index fmt k" "length ?t" "Suc (length ?ts)"]
    unfolding at_index_add by auto
  have "cstr m (at_index fmt ?k) ?ts" using Cons.prems(1) unfolding at_index_add by (simp add: cstr_append)
  then have "cstr m' (at_index fmt ?k) ?ts" using cstr_cong [of "at_index fmt ?k" ?ts m' m] keep reg by blast
  moreover have "pieces_ok strs m' W ps (args_after p ap)" using pieces_ok_cong [OF keep] Cons.prems(2) by simp
  ultimately obtain m2 ap2 where
    rest: "vsprintf_loop buffer fmt ?k (m', ?e, args_after p ap, False) = Some (m2, ?e + of_nat (length ?ys), ap2, False)"
      "wrote buffer m' ?e ?ys m2"
    using Cons.IH [of m' ?k "args_after p ap" ?e] reg W(2) ap(2) Cons.prems(6) by auto
  have "wrote buffer m out (?x @ ?ys) m2"
    using w rest(2) Cons.prems(5,6) by (intro wrote_append [of _ _ _ _ m']) simp_all
  with step rest(1) show ?case by (auto simp: add.assoc)
qed

text \<open>C28. The formatter of the kernel's \<open>printk\<close> and \<open>ksprintf\<close>: for every format made of ordinary characters
  and the directives \<open>%c %s %d %u %lu %x %lx %p\<close>, and all arguments, \<open>kinguio_vsprintf\<close> terminates, writes at \<open>str\<close>
  exactly the concatenation of the rendered pieces (decimal, signed decimal for \<open>%u\<close>, hexadecimal without leading
  zeros, \<open>(null)\<close> for a null string), changes no other memory but its conversion buffer and returns the number of
  characters. The format, the string arguments, the output and the buffer do not overlap.\<close>

theorem vsprintf_renders:
  assumes "cstr m fmt (concat (map piece_text ps))"
    and "W = region str (length (render_all strs ps ap)) \<union> region buffer buffer_size"
    and "pieces_ok strs m W ps ap" and "region fmt (Suc (length (concat (map piece_text ps)))) \<inter> W = {}"
    and "unat buffer + buffer_size < 2 ^ 64" and "apart str (length (render_all strs ps ap)) buffer buffer_size"
    and "length (render_all strs ps ap) < 2 ^ 31"
  shows "\<exists>m'. kinguio_vsprintf buffer str fmt ap m = Some (int (length (render_all strs ps ap)), m')
    \<and> (\<forall>i < length (render_all strs ps ap). m' (str + of_nat i) = render_all strs ps ap ! i)
    \<and> (\<forall>a. a \<notin> W \<longrightarrow> m' a = m a)"
proof -
  let ?n = "length (render_all strs ps ap)"
  obtain m' ap' where "vsprintf_loop buffer fmt 0 (m, str, ap, False) = Some (m', str + of_nat ?n, ap', False)"
    and w: "wrote buffer m str (render_all strs ps ap) m'"
    using vsprintf_loop_renders [of m fmt 0 ps strs W ap buffer str] assms by auto
  moreover have "int_arg (of_nat ?n) = int ?n"
    using assms(7) by (simp add: int_arg_def unsigned_of_nat signed_of_nat take_bit_nat_eq_self signed_take_bit_int_eq_self)
  ultimately have "kinguio_vsprintf buffer str fmt ap m = Some (int ?n, m')" by (simp add: kinguio_vsprintf_def)
  with w assms(2) show ?thesis by (auto simp: wrote_def)
qed

text \<open>\<open>"x=%d,%lx%s"\<close> with the arguments -5, 31 and a null pointer gives \<open>"x=-5,1F(null)"\<close>.\<close>

lemma render_example:
  "render_all (\<lambda>_. []) [Lit 120, Lit 61, Dec, Lit 44, LHex, Str] (\<lambda>i. if i = 0 then 0xFFFFFFFB else if i = 1 then 31 else 0)
   = [120, 61, 45, 53, 44, 49, 70, 40, 110, 117, 108, 108, 41]"
  by (simp add: args_after_def dec_int_def int_arg_def dec.simps [of 5] hexs.simps [of 31] hexs.simps [of "Suc 0"] hexd_def)

theorem vsprintf_renders_witness:
  "\<exists>m'. kinguio_vsprintf 0x2000 0x3000 0x1000 (\<lambda>i. if i = 0 then 0xFFFFFFFB else if i = 1 then 31 else 0)
      (put (\<lambda>_. 0) 0x1000 [120, 61, 37, 100, 44, 37, 108, 120, 37, 115]) = Some (13, m')
    \<and> m' 0x3002 = 45 \<and> m' 0x3006 = 70 \<and> m' 0x300C = 41 \<and> m' 0x1000 = 120"
proof -
  let ?ps = "[Lit 120, Lit 61, Dec, Lit 44, LHex, Str]"
  let ?ap = "\<lambda>i :: nat. if i = 0 then 0xFFFFFFFB else if i = 1 then 31 else 0 :: u64"
  let ?m = "put (\<lambda>_. 0) 0x1000 [120, 61, 37, 100, 44, 37, 108, 120, 37, 115]"
  let ?r = "[120, 61, 45, 53, 44, 49, 70, 40, 110, 117, 108, 108, 41] :: u8 list"
  let ?W = "region (0x3000 :: ptr) (length (render_all (\<lambda>_. []) ?ps ?ap)) \<union> region 0x2000 buffer_size"
  have f: "cstr ?m 0x1000 (concat (map piece_text ?ps))" by (simp add: put_Cons)
  have ok: "pieces_ok (\<lambda>_. []) ?m ?W ?ps ?ap" by (simp add: piece_ok_def args_after_def)
  have "apart (0x1000 :: ptr) 11 0x3000 13" "apart (0x1000 :: ptr) 11 0x2000 buffer_size" by (rule apart_ordered; simp)+
  then have d: "region 0x1000 (Suc (length (concat (map piece_text ?ps)))) \<inter> ?W = {}"
    unfolding render_example by (simp add: apart_def eval_nat_numeral) blast
  have b: "apart (0x3000 :: ptr) (length (render_all (\<lambda>_. []) ?ps ?ap)) 0x2000 buffer_size"
    unfolding render_example by (rule apart_sym, rule apart_ordered) simp_all
  obtain m' where m': "kinguio_vsprintf 0x2000 0x3000 0x1000 ?ap ?m = Some (int (length ?r), m')"
    "\<And>i. i < length ?r \<Longrightarrow> m' (0x3000 + of_nat i) = ?r ! i" "\<And>a. a \<notin> ?W \<Longrightarrow> m' a = ?m a"
    using vsprintf_renders [OF f refl ok d _ b] unfolding render_example by auto
  have "0x1000 \<notin> ?W" using d region_self [of "0x1000" "length (concat (map piece_text ?ps))"] by blast
  with m'(1) m'(2) [of 2] m'(2) [of 6] m'(2) [of 12] m'(3) [of "0x1000"] show ?thesis by (simp add: put_Cons)
qed

end
