(* ===== verification/Paging.thy ===== *)
theory Paging
  imports Kernel_Prelude
begin

text \<open>
  The page tables of the kernel (src/coreos/kernel/halls/apphalls/req/mm/x86_64/paging.c and x64mm.c).
  Memory is read and written in units of eight bytes: \<open>qm\<close> maps the address of such a unit to its
  content, and \<open>qat base i\<close> is the address of \<open>base[i]\<close> for a table of \<open>unsigned long\<close>. The
  region where the tables are is mapped one to one, so that their virtual and physical addresses are
  the same, as the code assumes; \<open>Paging_Laws\<close> shows that the tables it builds keep it so.
\<close>

type_synonym qmem = "u64 \<Rightarrow> u64"

definition qat :: "u64 \<Rightarrow> nat \<Rightarrow> u64" where
  "qat base i = base + 8 * of_nat i"

text \<open>The regions of 2MB that the kernel maps, each with its entries in the tables of addresses.\<close>

datatype area = Ring0Area | Ring3Area | KernelImage | FrontBuffer | BackBuffer | PagedPool | HeapPool
  | ExtraHeap1 | ExtraHeap2 | ExtraHeap3

record paging =
  qm :: qmem
  table_pointer_heap_base :: u64
  gKernelPML4Address :: u64
  kmd_pml4_va :: u64
  kmd_pml4_pa :: u64
  kmd_pdpt0_va :: u64
  kmd_pdpt0_pa :: u64
  kmd_pd0_va :: u64
  kmd_pd0_pa :: u64
  kmd_used :: int
  kmd_magic :: int
  gSavedLFB :: u64
  SMALL_pa :: "area \<Rightarrow> u64"
  paList :: "area \<Rightarrow> u64"
  vaList :: "area \<Rightarrow> u64"
  area_va :: "area \<Rightarrow> u64"
  mm_used :: "area \<Rightarrow> u64"
  g_frontbuffer_pa :: u64
  g_backbuffer_pa :: u64
  g_heap_count :: u64
  g_heap_count_max :: u64
  g_heap_size :: u64
  extraheap_size :: "area \<Rightarrow> u64"
  extraheap_initialized :: "area \<Rightarrow> int"

definition TABLE_POINTER_HEAP_BASE :: u64 where [simp]: "TABLE_POINTER_HEAP_BASE = 0x1000"
definition FAT_ADDRESS :: u64 where [simp]: "FAT_ADDRESS = 0x30000"
definition KERNEL_PD_PA :: u64 where [simp]: "KERNEL_PD_PA = 0x9A000"
definition KERNEL_PDPT_PA :: u64 where [simp]: "KERNEL_PDPT_PA = 0x9B000"
definition KERNEL_PML4_PA :: u64 where [simp]: "KERNEL_PML4_PA = 0x9C000"
definition KERNEL_PML4_VA :: u64 where [simp]: "KERNEL_PML4_VA = 0x9C000"

definition PAGE_PRESENT :: u64 where [simp]: "PAGE_PRESENT = 1"
definition PAGE_WRITE :: u64 where [simp]: "PAGE_WRITE = 2"
definition PAGE_USER :: u64 where [simp]: "PAGE_USER = 4"

text \<open>\<open>0xFFFFFFFFF000\<close> selects the address in an entry of a table.\<close>

definition entry_mask :: u64 where "entry_mask = 0xFFFFFFFFF000"

section \<open>Walking the tables\<close>

text \<open>The endless loops after an error message stop the machine; the message is the left value.\<close>

definition virtual_to_physical :: "qmem \<Rightarrow> u64 \<Rightarrow> u64 \<Rightarrow> string + u64" where
  "virtual_to_physical m virtual_address pml4 =
     (let a = unat (drop_bit 39 virtual_address AND 0x1FF);
          b = unat (drop_bit 30 virtual_address AND 0x1FF);
          d = unat (drop_bit 21 virtual_address AND 0x1FF);
          t = unat (drop_bit 12 virtual_address AND 0x1FF);
          off = virtual_address AND 0xFFF
      in if a \<ge> 512 \<or> b \<ge> 512 \<or> d \<ge> 512 \<or> t \<ge> 512 \<or> off \<ge> 4096 then Inl ''entry limits''
         else if a \<noteq> 0 then Inl ''a''
         else if b \<noteq> 0 then Inl ''b''
         else if pml4 = 0 then Inl ''Invalid pml4_va''
         else let ptpt = m (qat pml4 a) AND entry_mask;
                  dir = m (qat ptpt b) AND entry_mask;
                  pt = m (qat dir d) AND entry_mask;
                  address = m (qat pt t) AND entry_mask
           in Inr (address + off))"

text \<open>The macro \<open>X64_GET_PDE_INDEX\<close> works on the low 32 bits.\<close>

definition X64_GET_PDE_INDEX :: "u64 \<Rightarrow> int" where
  "X64_GET_PDE_INDEX va = uint (drop_bit 21 (ucast va :: u32) AND 0x1FF)"

section \<open>Filling tables\<close>

primrec fill_entries :: "u64 \<Rightarrow> u64 \<Rightarrow> u64 \<Rightarrow> nat list \<Rightarrow> qmem \<Rightarrow> qmem" where
  "fill_entries pt pa flags [] m = m"
| "fill_entries pt pa flags (i # is) m = fill_entries pt (pa + 4096) flags is (m(qat pt i := pa OR flags))"

definition mm_fill_page_table :: "u64 \<Rightarrow> int \<Rightarrow> u64 \<Rightarrow> u64 \<Rightarrow> u64 \<Rightarrow> qmem \<Rightarrow> int \<times> qmem" where
  "mm_fill_page_table directory_va directory_entry pt_va region_2mb_pa flags m =
     (if directory_entry < 0 \<or> directory_entry \<ge> 512 then (- 1, m)
      else let m1 = fill_entries pt_va region_2mb_pa flags [0..<512] m;
               e = qat directory_va (nat directory_entry);
               m2 = m1(e := pt_va)
        in (0, m2(e := m2 e OR flags)))"

definition get_table_pointer_va :: "paging \<Rightarrow> (paging, u64) res" where
  "get_table_pointer_va s =
     (let s1 = s\<lparr>table_pointer_heap_base := table_pointer_heap_base s + 0x1000\<rparr>
      in if table_pointer_heap_base s1 \<ge> FAT_ADDRESS then Panic ''get_table_pointer_va: [FIXME] Limits''
         else Ok (table_pointer_heap_base s1) s1)"

definition mm_map_2mb_region :: "u64 \<Rightarrow> u64 \<Rightarrow> paging \<Rightarrow> (paging, int) res" where
  "mm_map_2mb_region pa va s =
     bindR (get_table_pointer_va s) (\<lambda>pt s1.
       let pdindex = X64_GET_PDE_INDEX va in
       if pt = 0 then Ok (- 1) s1
       else if pdindex < 0 then Ok (- 1) s1
       else if pdindex \<ge> 512 then Ok (- 1) s1
       else Ok 0 (s1\<lparr>qm := snd (mm_fill_page_table KERNEL_PD_PA pdindex pt pa 0x1B (qm s1))\<rparr>))"

section \<open>Cloning tables\<close>

definition copy_table :: "u64 \<Rightarrow> u64 \<Rightarrow> qmem \<Rightarrow> qmem" where
  "copy_table src dst m = fold (\<lambda>i m. m(qat dst i := m (qat src i))) [0..<512] m"

definition clone_table :: "string \<Rightarrow> u64 \<Rightarrow> paging \<Rightarrow> (paging, u64) res" where
  "clone_table msg src s =
     bindR (get_table_pointer_va s) (\<lambda>dst s1.
       if dst = 0 then Panic msg else Ok dst (s1\<lparr>qm := copy_table src dst (qm s1)\<rparr>))"

definition CloneKernelPD0 :: "paging \<Rightarrow> (paging, u64) res" where
  "CloneKernelPD0 s = clone_table ''CloneKernelPD0: destAddressVA'' (kmd_pd0_va s) s"

definition CloneKernelPDPT0 :: "paging \<Rightarrow> (paging, u64) res" where
  "CloneKernelPDPT0 s = clone_table ''CloneKernelPDPT0: destAddressVA'' (kmd_pdpt0_va s) s"

definition CloneKernelPML4 :: "paging \<Rightarrow> (paging, u64) res" where
  "CloneKernelPML4 s = clone_table ''CloneKernelPML4: destAddressVA'' (gKernelPML4Address s) s"

definition clone_pml4 :: "u64 \<Rightarrow> paging \<Rightarrow> (paging, u64) res" where
  "clone_pml4 pml4 s =
     (if pml4 = 0 then Panic ''clone_pml4: pml4_va'' else clone_table ''clone_pml4: destAddressVA'' pml4 s)"

section \<open>Initialisation\<close>

text \<open>Of the three system sizes, the one that the kernel uses.\<close>

definition initialize_canonical_physical_regions :: "paging \<Rightarrow> paging" where
  "initialize_canonical_physical_regions s =
     s\<lparr>SMALL_pa := (\<lambda>a. case a of Ring0Area \<Rightarrow> 0 | KernelImage \<Rightarrow> 0x100000 | Ring3Area \<Rightarrow> 0x2000000
        | FrontBuffer \<Rightarrow> gSavedLFB s | BackBuffer \<Rightarrow> 0x4000000 | PagedPool \<Rightarrow> 0x1800000 | HeapPool \<Rightarrow> 0x1000000
        | ExtraHeap1 \<Rightarrow> 0x1200000 | ExtraHeap2 \<Rightarrow> 0x1400000 | ExtraHeap3 \<Rightarrow> 0x1600000)\<rparr>"

text \<open>What the ten routines share: a new table, the lists of addresses, the amount used, the mapping.\<close>

definition initialize_area :: "area \<Rightarrow> u64 \<Rightarrow> u64 \<Rightarrow> u64 \<Rightarrow> u64 \<Rightarrow> paging \<Rightarrow> (paging, unit) res" where
  "initialize_area A pa va used flags s =
     bindR (get_table_pointer_va s) (\<lambda>pt s1.
       Ok () (s1\<lparr>paList := (paList s1)(A := pa), vaList := (vaList s1)(A := va), area_va := (area_va s1)(A := va),
         mm_used := (mm_used s1)(A := used),
         qm := snd (mm_fill_page_table KERNEL_PD_PA (X64_GET_PDE_INDEX va) pt pa flags (qm s1))\<rparr>))"

definition initialize_ring0area :: "paging \<Rightarrow> (paging, unit) res" where
  "initialize_ring0area s = initialize_area Ring0Area 0 0 (1024 * 1) (PAGE_WRITE OR PAGE_PRESENT) s"

definition initialize_ring3area :: "paging \<Rightarrow> (paging, unit) res" where
  "initialize_ring3area s =
     initialize_area Ring3Area 0x2000000 0x200000 (1024 * 2) (PAGE_USER OR PAGE_WRITE OR PAGE_PRESENT) s"

definition initialize_kernelimage_region :: "paging \<Rightarrow> (paging, unit) res" where
  "initialize_kernelimage_region s =
     initialize_area KernelImage 0x100000 0x30000000 (1024 * 2) (PAGE_WRITE OR PAGE_PRESENT) s"

definition initialize_frontbuffer :: "paging \<Rightarrow> (paging, unit) res" where
  "initialize_frontbuffer s =
     initialize_area FrontBuffer (SMALL_pa s FrontBuffer) 0x30200000 (1024 * 2) (PAGE_USER OR PAGE_WRITE OR PAGE_PRESENT)
       (s\<lparr>g_frontbuffer_pa := SMALL_pa s FrontBuffer\<rparr>)"

definition initialize_backbuffer :: "paging \<Rightarrow> (paging, unit) res" where
  "initialize_backbuffer s =
     initialize_area BackBuffer (SMALL_pa s BackBuffer) 0x30400000 (1024 * 2) (PAGE_USER OR PAGE_WRITE OR PAGE_PRESENT)
       (s\<lparr>g_backbuffer_pa := SMALL_pa s BackBuffer\<rparr>)"

definition initialize_pagedpool :: "paging \<Rightarrow> (paging, unit) res" where
  "initialize_pagedpool s =
     initialize_area PagedPool (SMALL_pa s PagedPool) 0x30600000 (1024 * 2) (PAGE_USER OR PAGE_WRITE OR PAGE_PRESENT) s"

definition initialize_heappool :: "paging \<Rightarrow> (paging, unit) res" where
  "initialize_heappool s =
     initialize_area HeapPool (SMALL_pa s HeapPool) 0x30800000 (1024 * 2) (PAGE_USER OR PAGE_WRITE OR PAGE_PRESENT)
       (s\<lparr>g_heap_count := 0, g_heap_count_max := 64, g_heap_size := 32 * 1024\<rparr>)"

definition initialize_extraheap :: "area \<Rightarrow> u64 \<Rightarrow> u64 \<Rightarrow> paging \<Rightarrow> (paging, unit) res" where
  "initialize_extraheap A va flags s =
     bindR (initialize_area A (SMALL_pa s A) va (1024 * 2) flags s) (\<lambda>_ s1.
       Ok () (s1\<lparr>extraheap_size := (extraheap_size s1)(A := 1024 * 2), extraheap_initialized := (extraheap_initialized s1)(A := TRUE)\<rparr>))"

definition initialize_extraheap1 :: "paging \<Rightarrow> (paging, unit) res" where
  "initialize_extraheap1 s = initialize_extraheap ExtraHeap1 0x30A00000 (PAGE_WRITE OR PAGE_PRESENT) s"

definition initialize_extraheap2 :: "paging \<Rightarrow> (paging, unit) res" where
  "initialize_extraheap2 s = initialize_extraheap ExtraHeap2 0x30C00000 (PAGE_USER OR PAGE_WRITE OR PAGE_PRESENT) s"

definition initialize_extraheap3 :: "paging \<Rightarrow> (paging, unit) res" where
  "initialize_extraheap3 s = initialize_extraheap ExtraHeap3 0x30E00000 (PAGE_USER OR PAGE_WRITE OR PAGE_PRESENT) s"

text \<open>The slab allocator, which is set up last, is in \<open>Page_Pool\<close>; it only reads the addresses.\<close>

definition initialize_canonical_kernel_pagetables :: "paging \<Rightarrow> (paging, unit) res" where
  "initialize_canonical_kernel_pagetables s =
     foldR (\<lambda>f s. f s) [initialize_ring0area, initialize_ring3area, initialize_kernelimage_region,
       initialize_frontbuffer, initialize_backbuffer, initialize_pagedpool, initialize_heappool,
       initialize_extraheap1, initialize_extraheap2, initialize_extraheap3] s"

definition clear_table :: "u64 \<Rightarrow> qmem \<Rightarrow> qmem" where
  "clear_table t m = fold (\<lambda>i m. m(qat t i := 0 OR PAGE_WRITE)) [0..<512] m"

definition set_entry :: "u64 \<Rightarrow> u64 \<Rightarrow> u64 \<Rightarrow> qmem \<Rightarrow> qmem" where
  "set_entry e target flags m = (let m1 = m(e := target) in m1(e := m1 e OR flags))"

text \<open>
  The frame table, the sums of used memory and the load of CR3 at the end of the routine are not
  part of the model.
\<close>

definition pagesInitializePaging :: "paging \<Rightarrow> (paging, int) res" where
  "pagesInitializePaging s =
     (let s0 = s\<lparr>mm_used := (\<lambda>a. if a = FrontBuffer then mm_used s a else 0)\<rparr>;
          s1 = initialize_canonical_physical_regions s0;
          s2 = s1\<lparr>gKernelPML4Address := KERNEL_PML4_VA, kmd_pml4_va := KERNEL_PML4_PA, kmd_pml4_pa := KERNEL_PML4_PA,
                 kmd_pdpt0_va := KERNEL_PDPT_PA, kmd_pdpt0_pa := KERNEL_PDPT_PA,
                 kmd_pd0_va := KERNEL_PD_PA, kmd_pd0_pa := KERNEL_PD_PA, kmd_used := TRUE, kmd_magic := 1234\<rparr>;
          m1 = clear_table KERNEL_PD_PA (clear_table KERNEL_PDPT_PA (clear_table KERNEL_PML4_PA (qm s2)));
          f = PAGE_USER OR PAGE_WRITE OR PAGE_PRESENT;
          m2 = set_entry (qat KERNEL_PDPT_PA 0) KERNEL_PD_PA f m1;
          m3 = set_entry (qat KERNEL_PML4_PA 0) KERNEL_PDPT_PA f m2
      in if kmd_pml4_va s2 = 0 \<or> kmd_pml4_pa s2 = 0 \<or> kmd_pdpt0_va s2 = 0 \<or> kmd_pdpt0_pa s2 = 0
            \<or> kmd_pd0_va s2 = 0 \<or> kmd_pd0_pa s2 = 0
         then Panic ''pagesInitializePaging: Invalid kernel_mm_data''
         else bindR (initialize_canonical_kernel_pagetables (s2\<lparr>qm := m3\<rparr>)) (\<lambda>_ s3. Ok 0 s3))"

end
