(* ===== verification/Paging_Laws.thy ===== *)
theory Paging_Laws
  imports Paging
begin

text \<open>
  What the page tables translate to. A table is 4096 bytes at an address that is a multiple of 4096,
  so tables at different addresses do not overlap. \<open>paging_ok\<close> is the invariant: the three fixed
  tables point to one another, and all page tables are below the next table to be handed out.
  \<open>mapped m d pa\<close>: the entry \<open>d\<close> of the page directory maps 2MB from \<open>pa\<close>.
\<close>

section \<open>Addresses\<close>

definition page_aligned :: "u64 \<Rightarrow> bool" where
  "page_aligned p \<longleftrightarrow> 4096 dvd unat p"

lemma aligned_room:
  assumes "page_aligned p"
  shows "unat p + 4096 \<le> 2 ^ 64"
proof -
  obtain k where k: "unat p = 4096 * k" using assms by (auto simp: page_aligned_def elim: dvdE)
  have "unat p < 2 ^ 64" using unsigned_less [of p, where 'a = nat] by simp
  then have "k < 2 ^ 52" using k by simp
  then show ?thesis using k by simp
qed

lemma unat_qat: "page_aligned t \<Longrightarrow> i < 512 \<Longrightarrow> unat (qat t i) = unat t + 8 * i"
  using aligned_room [of t] by (simp add: qat_def unat_word_ariths unat_of_nat)

lemma qat_eq:
  assumes "page_aligned t" and "page_aligned u" and "i < 512" and "j < 512"
  shows "qat t i = qat u j \<longleftrightarrow> t = u \<and> i = j"
proof
  assume e: "qat t i = qat u j"
  obtain k l where k: "unat t = 4096 * k" "unat u = 4096 * l" using assms(1,2) by (auto simp: page_aligned_def elim!: dvdE)
  have s: "4096 * k + 8 * i = 4096 * l + 8 * j" using e unat_qat assms k by metis
  then have "(8 * i + 4096 * k) div 4096 = (8 * j + 4096 * l) div 4096" by (simp add: add.commute)
  then have "k = l" using assms(3,4) by simp
  with s have "i = j" by simp
  note this \<open>k = l\<close>
  then show "t = u \<and> i = j" using k by (simp add: word_unat_eq_iff)
qed auto

lemma entry_mask_bits: "bit entry_mask n \<longleftrightarrow> 12 \<le> n \<and> n < 48"
proof -
  have e: "entry_mask = push_bit 12 (mask 36)" by (simp add: entry_mask_def mask_eq_exp_minus_1 push_bit_eq_mult)
  show ?thesis unfolding e by (auto simp: bit_push_bit_iff bit_mask_iff possible_bit_word)
qed

lemma aligned_take_bit: "page_aligned p \<longleftrightarrow> take_bit 12 p = 0"
proof -
  have "unat (take_bit 12 p) = unat p mod 2 ^ 12" by (rule trans [OF unsigned_take_bit_eq take_bit_eq_mod])
  moreover have "(2 :: nat) ^ 12 = 4096" by simp
  ultimately have "unat (take_bit 12 p) = unat p mod 4096" by (simp only:)
  then show ?thesis unfolding page_aligned_def dvd_eq_mod_eq_0 by (metis unat_0 unsigned_0 word_unat_eq_iff)
qed

lemma masked_aligned: "page_aligned (x AND entry_mask)"
  unfolding aligned_take_bit by (rule bit_eqI) (auto simp: bit_simps entry_mask_bits)

lemma entry_address:
  assumes "page_aligned p" and "unat p < 2 ^ 48" and "unat f < 4096"
  shows "(p OR f) AND entry_mask = p"
proof -
  have low: "12 \<le> n" if "bit p n" for n
    using that assms(1) unfolding aligned_take_bit by (metis bit_take_bit_iff bit_0_eq bot_apply bot_bool_def not_le)
  have "take_bit 48 p = p" using assms(2) by (simp add: word_unat_eq_iff unsigned_take_bit_eq take_bit_nat_eq_self)
  then have high: "n < 48" if "bit p n" for n using that by (metis bit_take_bit_iff)
  have "take_bit 12 f = f" using assms(3) by (simp add: word_unat_eq_iff unsigned_take_bit_eq take_bit_nat_eq_self)
  then have "n < 12" if "bit f n" for n using that by (metis bit_take_bit_iff)
  then show ?thesis using low high by (intro bit_eqI) (force simp: bit_simps entry_mask_bits)
qed

lemma aligned_offset:
  assumes "page_aligned p" and "unat p + 2 ^ 21 \<le> 2 ^ 48" and "i < 512"
  shows "page_aligned (p + 4096 * of_nat i)" and "unat (p + 4096 * of_nat i) < 2 ^ 48"
proof -
  have e: "unat (p + 4096 * of_nat i) = unat p + 4096 * i" using assms(2,3) by (simp add: unat_word_ariths unat_of_nat)
  show "page_aligned (p + 4096 * of_nat i)" using assms(1) by (simp add: page_aligned_def e)
  show "unat (p + 4096 * of_nat i) < 2 ^ 48" using assms(2,3) by (simp add: e)
qed

section \<open>Tables\<close>

definition in_table :: "u64 \<Rightarrow> u64 \<Rightarrow> bool" where
  "in_table t a \<longleftrightarrow> (\<exists>i < 512. a = qat t i)"

lemma not_in_table: "page_aligned t \<Longrightarrow> page_aligned u \<Longrightarrow> t \<noteq> u \<Longrightarrow> i < 512 \<Longrightarrow> \<not> in_table t (qat u i)"
  by (auto simp: in_table_def qat_eq)

lemma fill_other: "set is \<subseteq> {0..<512} \<Longrightarrow> \<not> in_table pt a \<Longrightarrow> fill_entries pt pa f is m a = m a"
  by (induction "is" arbitrary: pa m) (auto simp: in_table_def)

lemma fill_at:
  assumes "page_aligned pt" and "k + n \<le> 512" and "j < 512"
  shows "fill_entries pt pa f [k..<k + n] m (qat pt j) =
    (if k \<le> j \<and> j < k + n then (pa + 4096 * of_nat (j - k)) OR f else m (qat pt j))"
  using assms
proof (induction n arbitrary: k pa m)
  case 0
  then show ?case by auto
next
  case (Suc n)
  have e: "[k..<k + Suc n] = k # [Suc k..<Suc k + n]" by (simp add: upt_rec)
  have "qat pt j = qat pt k \<longleftrightarrow> j = k" using Suc.prems by (simp add: qat_eq)
  moreover have "pa + 4096 + 4096 * of_nat (j - Suc k) = pa + 4096 * of_nat (j - k)" if "k < j"
    using that by (simp add: of_nat_diff algebra_simps)
  ultimately show ?case using Suc.IH [of "Suc k" "pa + 4096"] Suc.prems unfolding e by auto
qed

text \<open>A page table that maps 2MB from \<open>pa\<close>.\<close>

definition maps :: "qmem \<Rightarrow> u64 \<Rightarrow> u64 \<Rightarrow> bool" where
  "maps m pt pa \<longleftrightarrow> (\<forall>i < 512. m (qat pt i) AND entry_mask = pa + 4096 * of_nat i)"

definition good_region :: "u64 \<Rightarrow> bool" where
  "good_region pa \<longleftrightarrow> page_aligned pa \<and> unat pa + 2 ^ 21 \<le> 2 ^ 48"

lemma fill_maps:
  assumes "page_aligned pt" and "good_region pa" and "unat f < 4096"
  shows "maps (fill_entries pt pa f [0..<512] m) pt pa"
  unfolding maps_def
proof (intro allI impI)
  fix i :: nat assume i: "i < 512"
  have "fill_entries pt pa f [0..<512] m (qat pt i) = (pa + 4096 * of_nat i) OR f"
    using fill_at [OF assms(1), of 0 512 i pa f m] i by simp
  then show "fill_entries pt pa f [0..<512] m (qat pt i) AND entry_mask = pa + 4096 * of_nat i"
    using entry_address [OF aligned_offset [of pa i]] assms(2,3) i by (simp add: good_region_def)
qed

lemma maps_cong: "maps m pt pa \<Longrightarrow> (\<And>i. i < 512 \<Longrightarrow> m' (qat pt i) = m (qat pt i)) \<Longrightarrow> maps m' pt pa"
  by (simp add: maps_def)

lemma copy_table_other: "\<not> in_table dst a \<Longrightarrow> copy_table src dst m a = m a"
proof -
  assume a: "\<not> in_table dst a"
  have f: "fold (\<lambda>i m. m(qat dst i := m (qat src i))) is m a = m a" if "set is \<subseteq> {0..<512}" for "is" m
    using that a by (induction "is" arbitrary: m) (auto simp: in_table_def)
  show ?thesis unfolding copy_table_def by (rule f) simp
qed

lemma copy_table_at:
  assumes "page_aligned src" and "page_aligned dst" and "src \<noteq> dst" and "i < 512"
  shows "copy_table src dst m (qat dst i) = m (qat src i)"
proof -
  let ?c = "\<lambda>n. fold (\<lambda>i m. m(qat dst i := m (qat src i))) [0..<n] m"
  have "(\<forall>i < n. ?c n (qat dst i) = m (qat src i)) \<and> (\<forall>i < 512. ?c n (qat src i) = m (qat src i))" if "n \<le> 512" for n
    using that
  proof (induction n)
    case (Suc n)
    then show ?case using assms(1-3) by (auto simp: qat_eq less_Suc_eq)
  qed simp
  then show ?thesis using assms(4) by (simp add: copy_table_def)
qed

lemma clear_table_at: "page_aligned t \<Longrightarrow> i < 512 \<Longrightarrow> clear_table t m (qat t i) = 2"
  and clear_table_other: "\<not> in_table t a \<Longrightarrow> clear_table t m a = m a"
proof -
  have "fold (\<lambda>i m. m(qat t i := 0 OR PAGE_WRITE)) [0..<n] m a = (if \<exists>i < n. a = qat t i then 2 else m a)" for n a
    by (induction n) (auto simp: less_Suc_eq)
  note f = this [of 512]
  show "page_aligned t \<Longrightarrow> i < 512 \<Longrightarrow> clear_table t m (qat t i) = 2" using f [of "qat t i"] by (auto simp: clear_table_def)
  show "\<not> in_table t a \<Longrightarrow> clear_table t m a = m a" using f [of a] by (auto simp: clear_table_def in_table_def)
qed

section \<open>Walking the tables\<close>

definition kernel_tables :: "qmem \<Rightarrow> bool" where
  "kernel_tables m \<longleftrightarrow> m (qat KERNEL_PML4_PA 0) AND entry_mask = KERNEL_PDPT_PA
     \<and> m (qat KERNEL_PDPT_PA 0) AND entry_mask = KERNEL_PD_PA"

definition mapped :: "qmem \<Rightarrow> nat \<Rightarrow> u64 \<Rightarrow> bool" where
  "mapped m d pa \<longleftrightarrow> maps m (m (qat KERNEL_PD_PA d) AND entry_mask) pa"

lemma fixed_aligned [simp]: "page_aligned 0x9A000" "page_aligned 0x9B000" "page_aligned 0x9C000"
  by (simp_all add: page_aligned_def)

lemma table_index:
  fixes va :: u64
  assumes "unat va = n"
  shows "unat (drop_bit k va AND 0x1FF) = n div 2 ^ k mod 512" and "unat (va AND 0xFFF) = n mod 4096"
proof -
  have m: "(0x1FF :: u64) = mask 9" "(0xFFF :: u64) = mask 12" by (simp_all add: mask_eq_exp_minus_1)
  have dr: "unat (drop_bit k va) = n div 2 ^ k" by (rule trans [OF unat_drop_bit_eq]) (simp only: drop_bit_eq_div assms)
  have "unat (take_bit 9 (drop_bit k va)) = take_bit 9 (unat (drop_bit k va))" by (rule unsigned_take_bit_eq)
  also have "\<dots> = n div 2 ^ k mod 2 ^ 9" by (simp only: take_bit_eq_mod dr)
  finally show "unat (drop_bit k va AND 0x1FF) = n div 2 ^ k mod 512" unfolding m by (simp add: take_bit_eq_mask)
  have "unat (take_bit 12 va) = take_bit 12 (unat va)" by (rule unsigned_take_bit_eq)
  also have "\<dots> = n mod 2 ^ 12" by (simp only: take_bit_eq_mod assms)
  finally show "unat (va AND 0xFFF) = n mod 4096" unfolding m by (simp add: take_bit_eq_mask)
qed

lemma walk:
  assumes k: "kernel_tables m" and mp: "mapped m d pa" and d: "d < 512" and x: "x < 2 ^ 21"
  shows "virtual_to_physical m (of_nat (d * 2 ^ 21 + x)) KERNEL_PML4_VA = Inr (pa + of_nat x)"
proof -
  let ?n = "d * 2 ^ 21 + x" and ?va = "of_nat (d * 2 ^ 21 + x) :: u64" and ?t = "x div 4096"
  have n: "?n < 2 ^ 30" using d x by simp
  have u: "unat ?va = ?n" using n unfolding unat_of_nat by simp
  note ix = table_index [OF u]
  have i39: "unat (drop_bit 39 ?va AND 0x1FF) = 0" and i30: "unat (drop_bit 30 ?va AND 0x1FF) = 0"
    using n unfolding ix by simp_all
  have i21: "unat (drop_bit 21 ?va AND 0x1FF) = d" using d x unfolding ix by simp
  have "?n div 4096 = d * 512 + ?t" by simp
  then have i12: "unat (drop_bit 12 ?va AND 0x1FF) = ?t" using x unfolding ix by simp
  have o: "unat (?va AND 0xFFF) = x mod 4096" unfolding ix
  proof -
    have "?n = x + d * 512 * 4096" by simp
    then show "?n mod 4096 = x mod 4096" by (metis mod_mult_self1)
  qed
  then have lim: "\<not> ?va AND 0xFFF \<ge> 4096" and oe: "?va AND 0xFFF = of_nat (x mod 4096)"
    by (simp_all add: word_le_nat_alt word_unat_eq_iff unat_of_nat)
  have t: "?t < 512" using x by simp
  have "m (qat (m (qat KERNEL_PD_PA d) AND entry_mask) ?t) AND entry_mask = pa + 4096 * of_nat ?t"
    using mp t by (simp add: mapped_def maps_def)
  moreover have "pa + 4096 * of_nat ?t + of_nat (x mod 4096) = pa + of_nat x"
  proof -
    have "(of_nat x :: u64) = of_nat (4096 * ?t + x mod 4096)" by simp
    then show ?thesis by (simp only: of_nat_add of_nat_mult of_nat_numeral add.assoc)
  qed
  ultimately show ?thesis using k d t lim
    unfolding virtual_to_physical_def Let_def i39 i30 i21 i12 oe kernel_tables_def by simp
qed

section \<open>The invariant\<close>

definition paging_ok :: "paging \<Rightarrow> bool" where
  "paging_ok s \<longleftrightarrow> kernel_tables (qm s) \<and> page_aligned (table_pointer_heap_base s)
     \<and> (\<forall>d < 512. qm s (qat KERNEL_PD_PA d) AND entry_mask \<le> table_pointer_heap_base s)"

text \<open>There is room for one more table.\<close>

definition table_room :: "paging \<Rightarrow> bool" where
  "table_room s \<longleftrightarrow> unat (table_pointer_heap_base s) + 0x1000 < unat FAT_ADDRESS"

lemma next_table:
  assumes "paging_ok s" and "table_room s"
  defines "p \<equiv> table_pointer_heap_base s + 0x1000"
  shows "get_table_pointer_va s = Ok p (s\<lparr>table_pointer_heap_base := p\<rparr>)" and "page_aligned p"
    and "unat p = unat (table_pointer_heap_base s) + 0x1000" and "table_pointer_heap_base s < p"
    and "p \<noteq> 0x9A000" and "p \<noteq> 0x9B000" and "p \<noteq> 0x9C000" and "p \<noteq> 0"
proof -
  show u: "unat p = unat (table_pointer_heap_base s) + 0x1000"
    using assms(2) by (simp add: p_def table_room_def unat_word_ariths)
  then show "page_aligned p" using assms(1) by (simp add: paging_ok_def page_aligned_def)
  show "table_pointer_heap_base s < p" using u by (simp add: word_less_nat_alt)
  have l: "unat p < 0x30000" using u assms(2) by (simp add: table_room_def)
  then show "get_table_pointer_va s = Ok p (s\<lparr>table_pointer_heap_base := p\<rparr>)"
    by (simp add: get_table_pointer_va_def Let_def p_def [symmetric] word_le_nat_alt)
  show "p \<noteq> 0x9A000" "p \<noteq> 0x9B000" "p \<noteq> 0x9C000" "p \<noteq> 0" using l u by auto
qed

text \<open>Filling a new table and putting it in the directory.\<close>

lemma fill_new_table:
  assumes ok: "paging_ok s" and room: "table_room s" and d: "d < 512" and pa: "good_region pa" and f: "unat f < 4096"
  defines "p \<equiv> table_pointer_heap_base s + 0x1000"
  defines "m \<equiv> snd (mm_fill_page_table KERNEL_PD_PA (int d) p pa f (qm s))"
  shows "paging_ok (s\<lparr>table_pointer_heap_base := p, qm := m\<rparr>)" and "mapped m d pa"
    and "\<And>e q. e < 512 \<Longrightarrow> e \<noteq> d \<Longrightarrow> mapped (qm s) e q \<Longrightarrow> mapped m e q"
proof -
  note nt = next_table [OF ok room, folded p_def]
  let ?m1 = "fill_entries p pa f [0..<512] (qm s)" and ?e = "qat KERNEL_PD_PA d"
  have m: "m = ?m1(?e := p OR f)" using d by (simp add: m_def mm_fill_page_table_def Let_def)
  have other: "m a = qm s a" if "a \<noteq> ?e" "\<not> in_table p a" for a using that by (simp add: m fill_other)
  have tab: "m (qat t i) = qm s (qat t i)" if "page_aligned t" "t \<noteq> p" "t \<noteq> 0x9A000" "i < 512" for t i
    using that d nt(2) by (intro other not_in_table) (simp_all add: qat_eq)
  have pd: "m (qat 0x9A000 i) = (if i = d then p OR f else qm s (qat 0x9A000 i))" if "i < 512" for i
    using that d nt(2,5) not_in_table [of p "0x9A000" i] by (simp add: m fill_other qat_eq)
  have "unat p < 2 ^ 48" using nt(3) room by (simp add: table_room_def)
  then have pe: "(p OR f) AND entry_mask = p" by (rule entry_address [OF nt(2) _ f])
  have "kernel_tables m" using ok tab [of "0x9B000" 0] tab [of "0x9C000" 0] nt(6,7) by (simp add: paging_ok_def kernel_tables_def)
  moreover have "m (qat 0x9A000 i) AND entry_mask \<le> p" if "i < 512" for i
  proof (cases "i = d")
    case False
    have "qm s (qat 0x9A000 i) AND entry_mask \<le> table_pointer_heap_base s" using ok that by (simp add: paging_ok_def)
    then show ?thesis using False that nt(4) by (simp add: pd)
  qed (simp add: pd pe d)
  ultimately show "paging_ok (s\<lparr>table_pointer_heap_base := p, qm := m\<rparr>)" using nt(2) by (simp add: paging_ok_def)
  have "maps ?m1 p pa" by (rule fill_maps [OF nt(2) pa f])
  then have "maps m p pa" using d nt(2,5) by (elim maps_cong) (simp add: m qat_eq)
  then show "mapped m d pa" using d by (simp add: mapped_def pd pe)
  show "mapped m e q" if "e < 512" "e \<noteq> d" "mapped (qm s) e q" for e q
  proof -
    let ?t = "qm s (qat 0x9A000 e) AND entry_mask"
    have "?t \<le> table_pointer_heap_base s" using ok that(1) by (simp add: paging_ok_def)
    moreover from this have "?t \<noteq> p" using nt(4) by auto
    moreover have "table_pointer_heap_base s < 0x9A000" using room by (simp add: table_room_def word_less_nat_alt)
    ultimately have t: "?t \<noteq> p" "?t \<noteq> 0x9A000" by auto
    have "maps (qm s) ?t q" using that(3) by (simp add: mapped_def)
    then have "maps m ?t q" using tab [OF masked_aligned t] by (rule maps_cong)
    then show ?thesis using that by (simp add: mapped_def pd)
  qed
qed

section \<open>Mapping one region\<close>

lemma pde_index:
  assumes "d < 512"
  shows "X64_GET_PDE_INDEX (of_nat (d * 2 ^ 21)) = int d"
proof -
  have u: "unat (ucast (of_nat (d * 2 ^ 21) :: u64) :: u32) = d * 2 ^ 21"
    unfolding unsigned_of_nat using assms by (simp add: take_bit_nat_eq_self)
  have "unat (drop_bit 21 (ucast (of_nat (d * 2 ^ 21) :: u64) :: u32) AND mask 9) = d"
    using assms by (simp only: take_bit_eq_mask [symmetric] unsigned_take_bit_eq unat_drop_bit_eq u)
      (simp add: drop_bit_eq_div take_bit_nat_eq_self)
  then show ?thesis by (simp add: X64_GET_PDE_INDEX_def uint_nat mask_eq_exp_minus_1)
qed

text \<open>Mapping a region of 2MB adds a translation and keeps the others: with room for one more page table, for every
  physical address that is a multiple of the page size and every virtual address below 1GB that is a multiple of 2MB,
  \<open>mm_map_2mb_region\<close> succeeds, all virtual addresses of the region translate to the physical ones, and every other
  directory entry that mapped a region still maps the same one.\<close>

theorem map_2mb_region_translates:
  assumes ok: "paging_ok s" and room: "table_room s" and d: "d < 512" and pa: "good_region pa"
  shows "\<exists>s'. mm_map_2mb_region pa (of_nat (d * 2 ^ 21)) s = Ok 0 s' \<and> paging_ok s' \<and>
    (\<forall>x < 2 ^ 21. virtual_to_physical (qm s') (of_nat (d * 2 ^ 21 + x)) KERNEL_PML4_VA = Inr (pa + of_nat x)) \<and>
    (\<forall>e < 512. \<forall>q. e \<noteq> d \<longrightarrow> mapped (qm s) e q \<longrightarrow>
       (\<forall>x < 2 ^ 21. virtual_to_physical (qm s') (of_nat (e * 2 ^ 21 + x)) KERNEL_PML4_VA = Inr (q + of_nat x)))"
proof -
  note nt = next_table [OF ok room]
  have "unat (0x1B :: u64) < 4096" by simp
  note f = fill_new_table [OF ok room d pa this]
  let ?p = "table_pointer_heap_base s + 0x1000"
  let ?m = "snd (mm_fill_page_table KERNEL_PD_PA (int d) ?p pa 0x1B (qm s))"
  let ?s = "s\<lparr>table_pointer_heap_base := ?p, qm := ?m\<rparr>"
  have "mm_map_2mb_region pa (of_nat (d * 2 ^ 21)) s = Ok 0 ?s"
    unfolding mm_map_2mb_region_def nt(1) pde_index [OF d] using nt(8) d by simp
  moreover have "kernel_tables ?m" using f(1) by (simp add: paging_ok_def)
  ultimately show ?thesis using f(1) walk [OF _ f(2) d] walk [OF _ f(3)] by (intro exI [of _ ?s]) simp
qed

section \<open>The map of the kernel\<close>

text \<open>
  The contract of the ten routines that map an area: the area \<open>A\<close> gets the directory entry \<open>d\<close>;
  its physical address \<open>pa\<close> is a constant or an entry of the table of addresses.
\<close>

locale area_installer =
  fixes install :: "paging \<Rightarrow> (paging, unit) res" and A :: area and d :: nat and pa :: "(area \<Rightarrow> u64) \<Rightarrow> u64"
  assumes d_bound: "d < 512"
    and install_ok: "paging_ok s \<Longrightarrow> table_room s \<Longrightarrow> good_region (pa (SMALL_pa s)) \<Longrightarrow>
      \<exists>s'. install s = Ok () s' \<and> paging_ok s' \<and> table_pointer_heap_base s' = table_pointer_heap_base s + 0x1000 \<and>
        SMALL_pa s' = SMALL_pa s \<and> gKernelPML4Address s' = gKernelPML4Address s \<and> mapped (qm s') d (pa (SMALL_pa s)) \<and>
        (\<forall>e < 512. \<forall>q. e \<noteq> d \<longrightarrow> mapped (qm s) e q \<longrightarrow> mapped (qm s') e q) \<and>
        area_va s' = (area_va s)(A := of_nat (d * 2 ^ 21)) \<and> paList s' = (paList s)(A := pa (SMALL_pa s))"
begin

lemma install_translates:
  assumes "paging_ok s" and "table_room s" and "good_region (pa (SMALL_pa s))"
  shows "\<exists>s'. install s = Ok () s' \<and> (\<forall>x < 2 ^ 21. virtual_to_physical (qm s') (area_va s' A + of_nat x) KERNEL_PML4_VA
    = Inr (paList s' A + of_nat x))"
proof -
  obtain s' where s': "install s = Ok () s'" "paging_ok s'" "mapped (qm s') d (pa (SMALL_pa s))"
    "area_va s' = (area_va s)(A := of_nat (d * 2 ^ 21))" "paList s' = (paList s)(A := pa (SMALL_pa s))"
    using install_ok [OF assms] by blast
  then have "area_va s' A = of_nat (d * 2 ^ 21)" "paList s' A = pa (SMALL_pa s)" "kernel_tables (qm s')"
    by (simp_all only: fun_upd_same paging_ok_def)
  then show ?thesis using s'(1,3) walk [OF _ s'(3) d_bound, unfolded of_nat_add] by metis
qed

end

text \<open>Updates of the state that the tables do not depend on.\<close>

definition same_map :: "(paging \<Rightarrow> paging) \<Rightarrow> bool" where
  "same_map g \<longleftrightarrow> (\<forall>s. qm (g s) = qm s \<and> table_pointer_heap_base (g s) = table_pointer_heap_base s \<and> SMALL_pa (g s) = SMALL_pa s
     \<and> gKernelPML4Address (g s) = gKernelPML4Address s \<and> area_va (g s) = area_va s \<and> paList (g s) = paList s)"

lemma same_mapD:
  assumes "same_map g"
  shows "qm (g s) = qm s" "table_pointer_heap_base (g s) = table_pointer_heap_base s" "SMALL_pa (g s) = SMALL_pa s"
    "gKernelPML4Address (g s) = gKernelPML4Address s" "area_va (g s) = area_va s" "paList (g s) = paList s"
    "paging_ok (g s) = paging_ok s" "table_room (g s) = table_room s"
  using assms by (simp_all add: same_map_def paging_ok_def table_room_def)

lemma area_installerI:
  assumes d: "d < 512" and f: "unat fl < 4096" and g: "same_map g" and h: "same_map h"
    and eq: "\<And>s. install s = bindR (initialize_area A (pa (SMALL_pa s)) (of_nat (d * 2 ^ 21)) used fl (g s)) (\<lambda>_ s'. Ok () (h s'))"
  shows "area_installer install A d pa"
proof
  fix s assume ok: "paging_ok s" and room: "table_room s" and pa: "good_region (pa (SMALL_pa s))"
  note g = same_mapD [OF g] and h = same_mapD [OF h]
  have ok': "paging_ok (g s)" and room': "table_room (g s)" using ok room by (simp_all add: g)
  note nt = next_table [OF ok' room'] and ft = fill_new_table [OF ok' room' d pa f]
  let ?p = "table_pointer_heap_base (g s) + 0x1000"
  let ?m = "snd (mm_fill_page_table KERNEL_PD_PA (int d) ?p (pa (SMALL_pa s)) fl (qm (g s)))"
  let ?t = "(g s)\<lparr>table_pointer_heap_base := ?p, paList := (paList (g s))(A := pa (SMALL_pa s)),
      vaList := (vaList (g s))(A := of_nat (d * 2 ^ 21)), area_va := (area_va (g s))(A := of_nat (d * 2 ^ 21)),
      mm_used := (mm_used (g s))(A := used), qm := ?m\<rparr>"
  have i: "install s = Ok () (h ?t)" unfolding eq initialize_area_def nt(1) pde_index [OF d] by simp
  have "paging_ok ?t" using ft(1) by (simp add: paging_ok_def)
  then have okt: "paging_ok (h ?t)" by (simp only: h)
  have "qm (h ?t) = ?m" "table_pointer_heap_base (h ?t) = table_pointer_heap_base s + 0x1000" "SMALL_pa (h ?t) = SMALL_pa s"
    "gKernelPML4Address (h ?t) = gKernelPML4Address s" "area_va (h ?t) = (area_va s)(A := of_nat (d * 2 ^ 21))"
    "paList (h ?t) = (paList s)(A := pa (SMALL_pa s))" by (simp_all add: g h del: of_nat_mult)
  then show "\<exists>s'. install s = Ok () s' \<and> paging_ok s' \<and> table_pointer_heap_base s' = table_pointer_heap_base s + 0x1000 \<and>
        SMALL_pa s' = SMALL_pa s \<and> gKernelPML4Address s' = gKernelPML4Address s \<and> mapped (qm s') d (pa (SMALL_pa s)) \<and>
        (\<forall>e < 512. \<forall>q. e \<noteq> d \<longrightarrow> mapped (qm s) e q \<longrightarrow> mapped (qm s') e q) \<and>
        area_va s' = (area_va s)(A := of_nat (d * 2 ^ 21)) \<and> paList s' = (paList s)(A := pa (SMALL_pa s))"
    using ft(2,3) i okt by (intro exI [of _ "h ?t"]) (simp only: g simp_thms, blast)
qed (rule d)

text \<open>The ten routines.\<close>

lemma same_map_simps [simp]:
  "same_map (\<lambda>s. s)" "same_map (\<lambda>s. s\<lparr>g_frontbuffer_pa := x s\<rparr>)" "same_map (\<lambda>s. s\<lparr>g_backbuffer_pa := x s\<rparr>)"
  "same_map (\<lambda>s. s\<lparr>g_heap_count := a, g_heap_count_max := b, g_heap_size := c\<rparr>)"
  "same_map (\<lambda>s. s\<lparr>extraheap_size := u s, extraheap_initialized := v s\<rparr>)"
  by (simp_all add: same_map_def)

lemma bindR_unit: "bindR r Ok = (r :: ('s, unit) res)"
  by (cases r) simp_all

interpretation ring0: area_installer initialize_ring0area Ring0Area "0" "\<lambda>_. 0"
  by (rule area_installerI [where fl = 3 and g = "\<lambda>s. s" and h = "\<lambda>s. s" and used = 1024])
    (simp_all add: initialize_ring0area_def bindR_unit)

interpretation ring3: area_installer initialize_ring3area Ring3Area "1" "\<lambda>_. 0x2000000"
  by (rule area_installerI [where fl = 7 and g = "\<lambda>s. s" and h = "\<lambda>s. s" and used = 2048])
    (simp_all add: initialize_ring3area_def bindR_unit)

interpretation image: area_installer initialize_kernelimage_region KernelImage "0x180" "\<lambda>_. 0x100000"
  by (rule area_installerI [where fl = 3 and g = "\<lambda>s. s" and h = "\<lambda>s. s" and used = 2048])
    (simp_all add: initialize_kernelimage_region_def bindR_unit)

interpretation frontbuf: area_installer initialize_frontbuffer FrontBuffer "0x181" "\<lambda>t. t FrontBuffer"
  by (rule area_installerI [where fl = 7 and g = "\<lambda>s. s\<lparr>g_frontbuffer_pa := SMALL_pa s FrontBuffer\<rparr>" and h = "\<lambda>s. s" and used = 2048])
    (simp_all add: initialize_frontbuffer_def bindR_unit)

interpretation backbuf: area_installer initialize_backbuffer BackBuffer "0x182" "\<lambda>t. t BackBuffer"
  by (rule area_installerI [where fl = 7 and g = "\<lambda>s. s\<lparr>g_backbuffer_pa := SMALL_pa s BackBuffer\<rparr>" and h = "\<lambda>s. s" and used = 2048])
    (simp_all add: initialize_backbuffer_def bindR_unit)

interpretation paged: area_installer initialize_pagedpool PagedPool "0x183" "\<lambda>t. t PagedPool"
  by (rule area_installerI [where fl = 7 and g = "\<lambda>s. s" and h = "\<lambda>s. s" and used = 2048])
    (simp_all add: initialize_pagedpool_def bindR_unit)

interpretation heappool: area_installer initialize_heappool HeapPool "0x184" "\<lambda>t. t HeapPool"
  by (rule area_installerI [where fl = 7 and h = "\<lambda>s. s" and used = 2048
      and g = "\<lambda>s. s\<lparr>g_heap_count := 0, g_heap_count_max := 64, g_heap_size := 32 * 1024\<rparr>"])
    (simp_all add: initialize_heappool_def bindR_unit)

lemma extraheap_installer:
  assumes "d < 512" and "unat fl < 4096"
  shows "area_installer (initialize_extraheap A (of_nat (d * 2 ^ 21)) fl) A d (\<lambda>t. t A)"
  by (rule area_installerI [OF assms, where g = "\<lambda>s. s" and used = 2048 and h = "\<lambda>s. s\<lparr>
      extraheap_size := (extraheap_size s)(A := 1024 * 2), extraheap_initialized := (extraheap_initialized s)(A := TRUE)\<rparr>"])
    (simp_all add: initialize_extraheap_def)

interpretation extra1: area_installer initialize_extraheap1 ExtraHeap1 "0x185" "\<lambda>t. t ExtraHeap1"
  using extraheap_installer [of "0x185" 3 ExtraHeap1] by (simp add: initialize_extraheap1_def [abs_def])

interpretation extra2: area_installer initialize_extraheap2 ExtraHeap2 "0x186" "\<lambda>t. t ExtraHeap2"
  using extraheap_installer [of "0x186" 7 ExtraHeap2] by (simp add: initialize_extraheap2_def [abs_def])

interpretation extra3: area_installer initialize_extraheap3 ExtraHeap3 "0x187" "\<lambda>t. t ExtraHeap3"
  using extraheap_installer [of "0x187" 7 ExtraHeap3] by (simp add: initialize_extraheap3_def [abs_def])

text \<open>All of them in a row: distinct areas at distinct entries.\<close>

definition area_done :: "paging \<Rightarrow> area \<Rightarrow> nat \<Rightarrow> u64 \<Rightarrow> bool" where
  "area_done s A d pa \<longleftrightarrow> d < 512 \<and> mapped (qm s) d pa \<and> area_va s A = of_nat (d * 2 ^ 21) \<and> paList s A = pa"

lemma install_all:
  assumes "\<forall>(f, A, d, pa) \<in> set L. area_installer f A d pa \<and> good_region (pa (SMALL_pa s))"
    and "distinct (map (\<lambda>x. fst (snd x)) L)" and "distinct (map (\<lambda>x. fst (snd (snd x))) L)"
    and "paging_ok s" and "unat (table_pointer_heap_base s) + 0x1000 * length L < unat FAT_ADDRESS"
  shows "\<exists>s'. foldR (\<lambda>f s. f s) (map fst L) s = Ok () s' \<and> paging_ok s' \<and> gKernelPML4Address s' = gKernelPML4Address s \<and>
    (\<forall>(f, A, d, pa) \<in> set L. area_done s' A d (pa (SMALL_pa s))) \<and>
    (\<forall>A d pa. A \<notin> (\<lambda>x. fst (snd x)) ` set L \<longrightarrow> d \<notin> (\<lambda>x. fst (snd (snd x))) ` set L \<longrightarrow> area_done s A d pa \<longrightarrow> area_done s' A d pa)"
  using assms
proof (induction L arbitrary: s)
  case (Cons x L)
  obtain f A d pa where x: "x = (f, A, d, pa)" by (cases x)
  have i: "area_installer f A d pa" and good: "good_region (pa (SMALL_pa s))" using Cons.prems(1) by (auto simp: x)
  have room: "table_room s" using Cons.prems(5) by (simp add: table_room_def)
  obtain s1 where s1: "f s = Ok () s1" "paging_ok s1" "table_pointer_heap_base s1 = table_pointer_heap_base s + 0x1000"
    "SMALL_pa s1 = SMALL_pa s" "gKernelPML4Address s1 = gKernelPML4Address s" "mapped (qm s1) d (pa (SMALL_pa s))"
    "\<forall>e < 512. \<forall>q. e \<noteq> d \<longrightarrow> mapped (qm s) e q \<longrightarrow> mapped (qm s1) e q"
    "area_va s1 = (area_va s)(A := of_nat (d * 2 ^ 21))" "paList s1 = (paList s)(A := pa (SMALL_pa s))"
    using area_installer.install_ok [OF i Cons.prems(4) room good] by blast
  have d: "d < 512" by (rule area_installer.d_bound [OF i])
  have u: "unat (table_pointer_heap_base s1) = unat (table_pointer_heap_base s) + 0x1000"
    using next_table(3) [OF Cons.prems(4) room] s1(3) by simp
  have "\<exists>s'. foldR (\<lambda>f s. f s) (map fst L) s1 = Ok () s' \<and> paging_ok s' \<and> gKernelPML4Address s' = gKernelPML4Address s1 \<and>
    (\<forall>(f, A, d, pa) \<in> set L. area_done s' A d (pa (SMALL_pa s1))) \<and>
    (\<forall>A d pa. A \<notin> (\<lambda>x. fst (snd x)) ` set L \<longrightarrow> d \<notin> (\<lambda>x. fst (snd (snd x))) ` set L \<longrightarrow> area_done s1 A d pa \<longrightarrow> area_done s' A d pa)"
    using Cons.prems(1-3,5) s1(2,4) u by (intro Cons.IH) auto
  then obtain s' where s': "foldR (\<lambda>f s. f s) (map fst L) s1 = Ok () s'" "paging_ok s'" "gKernelPML4Address s' = gKernelPML4Address s1"
    "\<forall>(f, A, d, pa) \<in> set L. area_done s' A d (pa (SMALL_pa s1))"
    "\<And>A d pa. A \<notin> (\<lambda>x. fst (snd x)) ` set L \<Longrightarrow> d \<notin> (\<lambda>x. fst (snd (snd x))) ` set L \<Longrightarrow> area_done s1 A d pa \<Longrightarrow> area_done s' A d pa"
    by blast
  have "area_done s1 A d (pa (SMALL_pa s))" using s1(6,8,9) d by (simp add: area_done_def)
  then have "area_done s' A d (pa (SMALL_pa s))" using s'(5) Cons.prems(2,3) by (simp add: x)
  moreover have "area_done s' B e q" if "B \<notin> (\<lambda>x. fst (snd x)) ` set (x # L)" "e \<notin> (\<lambda>x. fst (snd (snd x))) ` set (x # L)"
      "area_done s B e q" for B e q
    using that s1(7,8,9) by (intro s'(5)) (auto simp: x area_done_def)
  ultimately show ?case using s1(1,4,5) s'(1-4) by (intro exI [of _ s']) (simp add: x)
qed simp

definition kernel_areas :: "((paging \<Rightarrow> (paging, unit) res) \<times> area \<times> nat \<times> ((area \<Rightarrow> u64) \<Rightarrow> u64)) list" where
  "kernel_areas = [(initialize_ring0area, Ring0Area, 0, \<lambda>_. 0), (initialize_ring3area, Ring3Area, 1, \<lambda>_. 0x2000000),
     (initialize_kernelimage_region, KernelImage, 0x180, \<lambda>_. 0x100000), (initialize_frontbuffer, FrontBuffer, 0x181, \<lambda>t. t FrontBuffer),
     (initialize_backbuffer, BackBuffer, 0x182, \<lambda>t. t BackBuffer), (initialize_pagedpool, PagedPool, 0x183, \<lambda>t. t PagedPool),
     (initialize_heappool, HeapPool, 0x184, \<lambda>t. t HeapPool), (initialize_extraheap1, ExtraHeap1, 0x185, \<lambda>t. t ExtraHeap1),
     (initialize_extraheap2, ExtraHeap2, 0x186, \<lambda>t. t ExtraHeap2), (initialize_extraheap3, ExtraHeap3, 0x187, \<lambda>t. t ExtraHeap3)]"

lemma kernel_areas_installers: "\<forall>(f, A, d, pa) \<in> set kernel_areas. area_installer f A d pa"
  using ring0.area_installer_axioms ring3.area_installer_axioms image.area_installer_axioms frontbuf.area_installer_axioms
    backbuf.area_installer_axioms paged.area_installer_axioms heappool.area_installer_axioms extra1.area_installer_axioms
    extra2.area_installer_axioms extra3.area_installer_axioms
  by (simp add: kernel_areas_def)

lemma kernel_areas_distinct:
  "distinct (map (\<lambda>x. fst (snd x)) kernel_areas)" "distinct (map (\<lambda>x. fst (snd (snd x))) kernel_areas)" "length kernel_areas = 10"
  by (simp_all add: kernel_areas_def)

lemma kernel_areas_fst: "foldR (\<lambda>f s. f s) (map fst kernel_areas) s = initialize_canonical_kernel_pagetables s"
  by (simp add: kernel_areas_def initialize_canonical_kernel_pagetables_def)

lemma every_area: "\<exists>f d pa. (f, A, d, pa) \<in> set kernel_areas"
  unfolding kernel_areas_def by (cases A; simp; blast)

lemma cleared_tables:
  fixes m :: qmem
  defines "f \<equiv> PAGE_USER OR PAGE_WRITE OR PAGE_PRESENT"
  defines "m1 \<equiv> clear_table KERNEL_PD_PA (clear_table KERNEL_PDPT_PA (clear_table KERNEL_PML4_PA m))"
  defines "m3 \<equiv> set_entry (qat KERNEL_PML4_PA 0) KERNEL_PDPT_PA f (set_entry (qat KERNEL_PDPT_PA 0) KERNEL_PD_PA f m1)"
  shows "kernel_tables m3" and "\<And>d. d < 512 \<Longrightarrow> m3 (qat KERNEL_PD_PA d) AND entry_mask = 0"
proof -
  have "unat f < 4096" by (simp add: f_def)
  then have e: "(0x9B000 OR f) AND entry_mask = 0x9B000" "(0x9A000 OR f) AND entry_mask = 0x9A000"
    by (intro entry_address; simp)+
  have m3: "m3 = (m1(qat 0x9B000 0 := 0x9A000 OR f))(qat 0x9C000 0 := 0x9B000 OR f)"
    by (simp add: m3_def set_entry_def Let_def)
  show "kernel_tables m3" using e by (simp add: kernel_tables_def m3 qat_eq)
  show "m3 (qat KERNEL_PD_PA d) AND entry_mask = 0" if "d < 512" for d
    using that by (simp add: m3 qat_eq m1_def clear_table_at entry_mask_def)
qed

text \<open>Every area is installed at its directory entry, whatever the memory holds before.\<close>

lemma pagesInitializePaging_done:
  assumes "table_pointer_heap_base s = TABLE_POINTER_HEAP_BASE" and "good_region (gSavedLFB s)"
  shows "\<exists>s'. pagesInitializePaging s = Ok 0 s' \<and> kernel_tables (qm s') \<and> gKernelPML4Address s' = KERNEL_PML4_VA \<and>
    (\<forall>(f, A, d, pa) \<in> set kernel_areas. area_done s' A d (pa (SMALL_pa (initialize_canonical_physical_regions s))))"
proof -
  let ?f = "PAGE_USER OR PAGE_WRITE OR PAGE_PRESENT"
  let ?m = "set_entry (qat KERNEL_PML4_PA 0) KERNEL_PDPT_PA ?f (set_entry (qat KERNEL_PDPT_PA 0) KERNEL_PD_PA ?f
      (clear_table KERNEL_PD_PA (clear_table KERNEL_PDPT_PA (clear_table KERNEL_PML4_PA (qm s)))))"
  define t where "t = (initialize_canonical_physical_regions (s\<lparr>mm_used := (\<lambda>a. if a = FrontBuffer then mm_used s a else 0)\<rparr>))
    \<lparr>gKernelPML4Address := KERNEL_PML4_VA, kmd_pml4_va := KERNEL_PML4_PA, kmd_pml4_pa := KERNEL_PML4_PA,
     kmd_pdpt0_va := KERNEL_PDPT_PA, kmd_pdpt0_pa := KERNEL_PDPT_PA, kmd_pd0_va := KERNEL_PD_PA, kmd_pd0_pa := KERNEL_PD_PA,
     kmd_used := TRUE, kmd_magic := 1234, qm := ?m\<rparr>"
  have t: "qm t = ?m" "table_pointer_heap_base t = 0x1000" "gKernelPML4Address t = KERNEL_PML4_VA"
    "SMALL_pa t = SMALL_pa (initialize_canonical_physical_regions s)"
    using assms(1) by (simp_all add: t_def initialize_canonical_physical_regions_def fun_eq_iff split: area.split)
  have run: "pagesInitializePaging s = bindR (initialize_canonical_kernel_pagetables t) (\<lambda>_ s3. Ok 0 s3)"
    by (simp add: pagesInitializePaging_def Let_def t_def initialize_canonical_physical_regions_def cong del: area.case_cong_weak)
  have "page_aligned 0x1000" by (simp add: page_aligned_def)
  then have ok: "paging_ok t" using cleared_tables [where m = "qm s"] by (simp add: paging_ok_def t)
  have "\<forall>(f, A, d, pa) \<in> set kernel_areas. good_region (pa (SMALL_pa t))"
    using assms(2) by (simp add: kernel_areas_def t(4) initialize_canonical_physical_regions_def good_region_def page_aligned_def)
  then have "\<forall>(f, A, d, pa) \<in> set kernel_areas. area_installer f A d pa \<and> good_region (pa (SMALL_pa t))"
    using kernel_areas_installers by blast
  from install_all [OF this kernel_areas_distinct(1,2) ok] obtain s' where
    s': "initialize_canonical_kernel_pagetables t = Ok () s'" "paging_ok s'" "gKernelPML4Address s' = KERNEL_PML4_VA"
    "\<forall>(f, A, d, pa) \<in> set kernel_areas. area_done s' A d (pa (SMALL_pa t))"
    using t kernel_areas_distinct(3) by (auto simp: kernel_areas_fst)
  have "kernel_tables (qm s')" using s'(2) by (simp add: paging_ok_def)
  with s' run show ?thesis unfolding t(4) by (intro exI [of _ s']) simp
qed

lemma area_done_translates:
  assumes k: "kernel_tables (qm s')" and p: "gKernelPML4Address s' = KERNEL_PML4_VA" and a: "area_done s' A d pa"
    and x: "x < 2 ^ 21"
  shows "virtual_to_physical (qm s') (area_va s' A + of_nat x) (gKernelPML4Address s') = Inr (paList s' A + of_nat x)"
proof -
  have d: "d < 512" and mp: "mapped (qm s') d pa" and v: "area_va s' A = of_nat (d * 2 ^ 21)" "paList s' A = pa"
    using a by (simp_all add: area_done_def del: of_nat_mult)
  show ?thesis unfolding v p using walk [OF k mp d x] by (simp only: of_nat_add)
qed

text \<open>C25. The address space of the kernel: from any memory content, when the frame buffer starts on a page boundary and
  the allocator of tables has not been used, \<open>pagesInitializePaging\<close> returns without a panic, and afterwards every
  address of each of the ten areas (the 2MB identity map, the user area, the kernel image, the frame and back buffers,
  the pools and the extra heaps) is translated by \<open>virtual_to_physical\<close> to the corresponding physical address.\<close>

theorem kernel_address_space:
  assumes "table_pointer_heap_base s = TABLE_POINTER_HEAP_BASE" and "good_region (gSavedLFB s)"
  shows "\<exists>s'. pagesInitializePaging s = Ok 0 s' \<and> (\<forall>A. \<forall>x < 2 ^ 21.
    virtual_to_physical (qm s') (area_va s' A + of_nat x) (gKernelPML4Address s') = Inr (paList s' A + of_nat x))"
proof -
  obtain s' where s': "pagesInitializePaging s = Ok 0 s'" "kernel_tables (qm s')" "gKernelPML4Address s' = KERNEL_PML4_VA"
    "\<forall>(f, A, d, pa) \<in> set kernel_areas. area_done s' A d (pa (SMALL_pa (initialize_canonical_physical_regions s)))"
    using pagesInitializePaging_done [OF assms] by blast
  have "virtual_to_physical (qm s') (area_va s' A + of_nat x) (gKernelPML4Address s') = Inr (paList s' A + of_nat x)"
    if x: "x < 2 ^ 21" for A x
  proof -
    obtain f d pa where "(f, A, d, pa) \<in> set kernel_areas" using every_area by blast
    with s'(4) have "area_done s' A d (pa (SMALL_pa (initialize_canonical_physical_regions s)))" by blast
    then show ?thesis by (rule area_done_translates [OF s'(2,3) _ x])
  qed
  with s'(1) show ?thesis by blast
qed

text \<open>A machine at the start, with the frame buffer at 3.5GB, and one whose three fixed tables are set.\<close>

definition blank_paging :: paging where
  "blank_paging = \<lparr>qm = (\<lambda>_. 0xFFFF), table_pointer_heap_base = 0x1000, gKernelPML4Address = 0, kmd_pml4_va = 0, kmd_pml4_pa = 0,
     kmd_pdpt0_va = 0, kmd_pdpt0_pa = 0, kmd_pd0_va = 0, kmd_pd0_pa = 0, kmd_used = 0, kmd_magic = 0, gSavedLFB = 0xE0000000,
     SMALL_pa = (\<lambda>_. 0), paList = (\<lambda>_. 0), vaList = (\<lambda>_. 0), area_va = (\<lambda>_. 0), mm_used = (\<lambda>_. 0),
     g_frontbuffer_pa = 0, g_backbuffer_pa = 0, g_heap_count = 0, g_heap_count_max = 0, g_heap_size = 0,
     extraheap_size = (\<lambda>_. 0), extraheap_initialized = (\<lambda>_. 0)\<rparr>"

definition minimal_paging :: paging where
  "minimal_paging = blank_paging\<lparr>qm := (\<lambda>_. 0)(qat 0x9C000 0 := 0x9B007, qat 0x9B000 0 := 0x9A007)\<rparr>"

theorem kernel_address_space_witness:
  "\<exists>s'. pagesInitializePaging blank_paging = Ok 0 s' \<and>
     virtual_to_physical (qm s') (area_va s' FrontBuffer + 0x12345) (gKernelPML4Address s') = Inr (paList s' FrontBuffer + 0x12345)"
proof -
  have "good_region (gSavedLFB blank_paging)" by (simp add: good_region_def page_aligned_def blank_paging_def)
  then obtain s' where "pagesInitializePaging blank_paging = Ok 0 s'" and "\<forall>A. \<forall>x < 2 ^ 21.
      virtual_to_physical (qm s') (area_va s' A + of_nat x) (gKernelPML4Address s') = Inr (paList s' A + of_nat x)"
    using kernel_address_space [of blank_paging] by (auto simp: blank_paging_def)
  moreover from this(2) [rule_format, of "0x12345" FrontBuffer]
  have "virtual_to_physical (qm s') (area_va s' FrontBuffer + 0x12345) (gKernelPML4Address s') = Inr (paList s' FrontBuffer + 0x12345)"
    by simp
  ultimately show ?thesis by blast
qed

theorem map_2mb_region_translates_witness:
  "\<exists>s'. mm_map_2mb_region 0xFEC00000 0x3F000000 minimal_paging = Ok 0 s' \<and>
     virtual_to_physical (qm s') 0x3F000010 KERNEL_PML4_VA = Inr 0xFEC00010"
proof -
  have ok: "paging_ok minimal_paging" "table_room minimal_paging"
    by (simp_all add: paging_ok_def table_room_def minimal_paging_def blank_paging_def kernel_tables_def qat_eq entry_mask_def page_aligned_def)
  have "good_region 0xFEC00000" by (simp add: good_region_def page_aligned_def)
  from map_2mb_region_translates [OF ok _ this, of "0x1F8"] obtain s' where
    "mm_map_2mb_region 0xFEC00000 (of_nat (0x1F8 * 2 ^ 21)) minimal_paging = Ok 0 s'"
    "\<forall>x < 2 ^ 21. virtual_to_physical (qm s') (of_nat (0x1F8 * 2 ^ 21 + x)) KERNEL_PML4_VA = Inr (0xFEC00000 + of_nat x)" by auto
  moreover from this(2) [rule_format, of 16] have "virtual_to_physical (qm s') 0x3F000010 KERNEL_PML4_VA = Inr 0xFEC00010" by simp
  ultimately show ?thesis by auto
qed

end
