(* ===== verification/Kernel_Heap.thy ===== *)
theory Kernel_Heap
  imports Kstring
begin

text \<open>
  The allocator of the kernel heap (src/coreos/kernel/halls/apphalls/req/mm/mm.c) and its front end
  in the C library (\<open>kmalloc\<close>, \<open>kcalloc\<close>, \<open>kfree\<close> of kstdlib.c). The heap is a range of
  addresses; a block is a header, the structure \<open>mmblock_d\<close>, followed by the user area. Headers are
  kept in a heap of their own, \<open>bheap\<close>, indexed by the address of the header; the bytes of the
  user areas are in \<open>hmem\<close>. The state is extensible: the clients of the allocator add their
  variables to it.
\<close>

definition KERNEL_HEAP_START :: u64 where [simp]: "KERNEL_HEAP_START = 0x30100000"
definition KERNEL_HEAP_END :: u64 where [simp]: "KERNEL_HEAP_END = 0x301D0000"
definition MMBLOCK_COUNT_MAX :: int where [simp]: "MMBLOCK_COUNT_MAX = 2 * 4096"
definition HEAP_COUNT_MAX :: int where [simp]: "HEAP_COUNT_MAX = 8"

text \<open>
  The fields of \<open>mmblock_d\<close> that are used. The whole structure has five \<open>unsigned long\<close>s, six
  \<open>int\<close>s and a pointer: 72 bytes.
\<close>

record mmblock =
  b_Header :: u64
  b_headerSize :: u64
  b_userArea :: u64
  b_userareaSize :: u64
  b_Footer :: u64
  b_Id :: int
  b_Used :: int
  b_Magic :: int
  b_Free :: int

definition sizeof_mmblock :: u64 where [simp]: "sizeof_mmblock = 5 * 8 + 6 * 4 + 8"

text \<open>The fields of a process that \<open>kmalloc\<close> uses, by the address of the process structure.\<close>

record kheap =
  KernelHeap_initialized :: int
  kernel_heap_start :: u64
  kernel_heap_end :: u64
  g_heap_pointer :: u64
  g_available_heap :: u64
  heapCount :: u64
  heapList :: "int \<Rightarrow> u64"
  mmblockCount :: int
  mmblockList :: "int \<Rightarrow> ptr"
  mm_prev_pointer :: u64
  bheap :: "ptr \<Rightarrow> mmblock"
  hmem :: mem
  proc_magic :: "ptr \<Rightarrow> int"
  allocated_memory :: "ptr \<Rightarrow> u64"

section \<open>Initialisation\<close>

text \<open>\<open>__init_kernel_heap\<close>, and the part of phase 0 of \<open>mmInitialize\<close> that clears the block list.\<close>

definition init_kernel_heap :: "'a kheap_scheme \<Rightarrow> int \<times> 'a kheap_scheme" where
  "init_kernel_heap s =
     (let s1 = s\<lparr>KernelHeap_initialized := FALSE, kernel_heap_start := KERNEL_HEAP_START,
            kernel_heap_end := KERNEL_HEAP_END, g_heap_pointer := KERNEL_HEAP_START,
            g_available_heap := KERNEL_HEAP_END - KERNEL_HEAP_START, heapCount := 0\<rparr>
      in if kernel_heap_start s1 = 0 \<or> kernel_heap_end s1 = 0 \<or> g_heap_pointer s1 = 0
            \<or> g_heap_pointer s1 > kernel_heap_end s1 \<or> g_available_heap s1 = 0
         then (- 1, s1\<lparr>KernelHeap_initialized := FALSE\<rparr>)
         else (0, s1\<lparr>heapList := (\<lambda>i. if 0 \<le> i \<and> i < HEAP_COUNT_MAX then 0 else heapList s1 i),
                 KernelHeap_initialized := TRUE\<rparr>))"

definition mmInitialize_heap :: "'a kheap_scheme \<Rightarrow> int \<times> 'a kheap_scheme" where
  "mmInitialize_heap s =
     (let (Status, s1) = init_kernel_heap s
      in if Status \<noteq> 0 then (FALSE, s1)
         else (TRUE, s1\<lparr>mmblockList := (\<lambda>i. if 0 \<le> i \<and> i < MMBLOCK_COUNT_MAX then 0 else mmblockList s1 i),
                mmblockCount := 0\<rparr>))"

section \<open>Allocation\<close>

definition heapAllocateMemory :: "u64 \<Rightarrow> 'a kheap_scheme \<Rightarrow> ('a kheap_scheme, u64) res" where
  "heapAllocateMemory sz s =
     (let UserAreaInBytes = (if sz = 0 then 8 else sz) in
      if g_available_heap s = 0 then Ok 0 s
      else if UserAreaInBytes \<ge> g_available_heap s then Ok 0 s
      else let s1 = s\<lparr>mmblockCount := mmblockCount s + 1\<rparr> in
        if mmblockCount s1 \<ge> MMBLOCK_COUNT_MAX then Panic ''heapAllocateMemory: mmblockCount''
        else if g_heap_pointer s1 < KERNEL_HEAP_START \<or> g_heap_pointer s1 \<ge> KERNEL_HEAP_END
        then Panic ''heapAllocateMemory: Out of kernel heap''
        else let Current = g_heap_pointer s1 in
          if Current = NULL then Ok 0 s1
          else let UserAreaBase = Current + sizeof_mmblock;
                   Footer = UserAreaBase + UserAreaInBytes;
                   Total = Footer - Current
            in Ok UserAreaBase (s1\<lparr>
                 bheap := (bheap s1)(Current := \<lparr>b_Header = Current, b_headerSize = sizeof_mmblock,
                     b_userArea = UserAreaBase, b_userareaSize = UserAreaInBytes, b_Footer = Footer,
                     b_Id = mmblockCount s1, b_Used = TRUE, b_Magic = 1234, b_Free = FALSE\<rparr>),
                 g_available_heap := g_available_heap s1 - Total,
                 mm_prev_pointer := g_heap_pointer s1, g_heap_pointer := Footer,
                 mmblockList := (mmblockList s1)(mmblockCount s1 := Current)\<rparr>))"

section \<open>Release and reuse\<close>

definition heapFreeMemory :: "ptr \<Rightarrow> 'a kheap_scheme \<Rightarrow> 'a kheap_scheme" where
  "heapFreeMemory p s =
     (if p = NULL then s
      else if p < KERNEL_HEAP_START \<or> p \<ge> KERNEL_HEAP_END then s
      else let block_header = p - sizeof_mmblock; b = bheap s block_header in
        if block_header = NULL then s
        else if b_Used b \<noteq> TRUE \<or> b_Magic b \<noteq> 1234 then s
        else s\<lparr>bheap := (bheap s)(block_header := b\<lparr>b_Used := TRUE, b_Magic := 4321\<rparr>)\<rparr>)"

definition is_reusable :: "u64 \<Rightarrow> 'a kheap_scheme \<Rightarrow> ptr \<Rightarrow> bool" where
  "is_reusable sz s b \<longleftrightarrow> b \<noteq> NULL \<and> b_Used (bheap s b) = TRUE \<and> b_Magic (bheap s b) = 4321
     \<and> b_userareaSize (bheap s b) \<ge> sz"

definition find_reusable_block :: "u64 \<Rightarrow> 'a kheap_scheme \<Rightarrow> ptr" where
  "find_reusable_block sz s =
     (if sz = 0 then NULL
      else case find (\<lambda>i. is_reusable sz s (mmblockList s i)) [1..mmblockCount s] of
        None \<Rightarrow> NULL | Some i \<Rightarrow> mmblockList s i)"

definition heapReuseMemory :: "u64 \<Rightarrow> int \<Rightarrow> 'a kheap_scheme \<Rightarrow> u64 \<times> 'a kheap_scheme" where
  "heapReuseMemory sz cleanup s =
     (let sz' = (if sz = 0 then 8 else sz); reuse = find_reusable_block sz' s in
      if reuse = NULL then (0, s)
      else let b = (bheap s reuse)\<lparr>b_Free := FALSE, b_Used := TRUE, b_Magic := 1234\<rparr>;
               s1 = s\<lparr>bheap := (bheap s)(reuse := b)\<rparr>;
               s2 = (if cleanup = TRUE
                     then s1\<lparr>hmem := memset (hmem s1) (b_userArea b) 0 (c_int (uint (b_userareaSize b)))\<rparr> else s1)
        in (b_userArea b, s2))"

section \<open>The front end\<close>

definition kmalloc_impl :: "int \<Rightarrow> int \<Rightarrow> 'a kheap_scheme \<Rightarrow> ('a kheap_scheme, ptr) res" where
  "kmalloc_impl sz clean s =
     bindR (heapAllocateMemory (ucast (word_of_int sz :: u32)) s) (\<lambda>p s1.
       if clean = TRUE \<and> p \<noteq> NULL then Ok p (s1\<lparr>hmem := memset (hmem s1) p 0 sz\<rparr>) else Ok p s1)"

text \<open>
  \<open>process\<close> is the result of \<open>get_current_process_pointer\<close>. Its \<open>magic\<close> is read also when
  the pointer is NULL; the value does not matter then.
\<close>

definition kmalloc :: "ptr \<Rightarrow> int \<Rightarrow> 'a kheap_scheme \<Rightarrow> ('a kheap_scheme, ptr) res" where
  "kmalloc process sz s =
     (let IncrementUsageCounter = (process \<noteq> NULL \<and> proc_magic s process = 1234) in
      if sz < 0 then Ok NULL s
      else let lsize = (if sz = 0 then 1 else sz) in
        bindR (kmalloc_impl lsize FALSE s) (\<lambda>p s1.
          if p = NULL then Ok NULL s1
          else if IncrementUsageCounter \<and> process \<noteq> NULL \<and> proc_magic s1 process = 1234
          then Ok p (s1\<lparr>allocated_memory := (allocated_memory s1)(process := allocated_memory s1 process + word_of_int lsize)\<rparr>)
          else Ok p s1))"

definition kfree :: "ptr \<Rightarrow> 'a kheap_scheme \<Rightarrow> 'a kheap_scheme" where
  "kfree p s = (if p = NULL then s else heapFreeMemory p s)"

definition kcalloc :: "int \<Rightarrow> int \<Rightarrow> 'a kheap_scheme \<Rightarrow> ('a kheap_scheme, ptr) res" where
  "kcalloc count sz s = kmalloc_impl (if count \<le> 0 then sz else c_int (count * sz)) TRUE s"

end
