(* ===== verification/Page_Pool.thy ===== *)
theory Page_Pool
  imports Kernel_Heap Paging
begin

text \<open>
  The pool of pages (src/coreos/kernel/halls/apphalls/req/mm/mmpool.c), the small operations on pages of
  paging.c, and the slab allocator (slab.c). A page is a structure \<open>page_d\<close> allocated with
  \<open>kmalloc\<close>; slot \<open>i\<close> of \<open>pageAllocList\<close> stands for the page at \<open>g_pagedpool_va + i * 4096\<close>.
  The state extends the one of the kernel heap. \<open>process\<close> is the pointer of the current process.
\<close>

definition PAGE_COUNT_MAX :: int where [simp]: "PAGE_COUNT_MAX = 512"

record page =
  pg_id :: int
  pg_used :: int
  pg_magic :: int
  pg_absolute_frame_number :: u32
  pg_locked :: int
  pg_free :: int
  pg_ref_count :: int
  pg_next :: ptr

definition sizeof_page :: int where [simp]: "sizeof_page = 40"

record ppool = kheap +
  pageAllocList :: "int \<Rightarrow> ptr"
  pgheap :: "ptr \<Rightarrow> page"
  g_pagedpool_va :: u64
  pp_pml4 :: u64
  pp_qm :: qmem
  np_initialized :: int
  np_va :: "nat \<Rightarrow> u64"
  np_free :: "nat \<Rightarrow> int"
  g_extraheap2_va :: u64
  g_extraheap3_va :: u64

text \<open>\<open>memset\<close> of the whole structure.\<close>

definition zero_page :: page where
  "zero_page = \<lparr>pg_id = 0, pg_used = 0, pg_magic = 0, pg_absolute_frame_number = 0, pg_locked = 0, pg_free = 0,
     pg_ref_count = 0, pg_next = NULL\<rparr>"

section \<open>Slots\<close>

definition pageObject :: "ptr \<Rightarrow> ppool \<Rightarrow> (ppool, ptr) res" where
  "pageObject process s =
     (case find (\<lambda>i. pageAllocList s i = NULL) [0..PAGE_COUNT_MAX - 1] of
        None \<Rightarrow> Ok NULL s
      | Some slot \<Rightarrow> bindR (kmalloc process sizeof_page s) (\<lambda>New s1.
          if New = NULL then Ok NULL s1
          else Ok New (s1\<lparr>pgheap := (pgheap s1)(New := zero_page\<lparr>pg_id := slot, pg_used := TRUE, pg_magic := 1234, pg_free := 0,
              pg_next := NULL\<rparr>), pageAllocList := (pageAllocList s1)(slot := New)\<rparr>)))"

text \<open>The jump to \<open>tryAgain\<close> restarts the loop at the new base.\<close>

partial_function (option) first_slot_loop :: "(int \<Rightarrow> ptr) \<Rightarrow> int \<Rightarrow> int \<Rightarrow> int \<Rightarrow> int \<Rightarrow> int option" where
  "first_slot_loop l sz Base Count i =
     (if i < PAGE_COUNT_MAX
      then if l i \<noteq> NULL then first_slot_loop l sz (Base + Count + 1) 0 (Base + Count + 1)
           else if Count + 1 \<ge> sz then Some Base else first_slot_loop l sz Base (Count + 1) (i + 1)
      else Some (- 1))"

definition firstSlotForAList :: "int \<Rightarrow> ppool \<Rightarrow> int option" where
  "firstSlotForAList sz s = first_slot_loop (pageAllocList s) sz 0 0 0"

section \<open>Pages\<close>

definition frame_number :: "u64 \<Rightarrow> u32" where
  "frame_number pa = ucast ((if pa mod 4096 \<noteq> 0 then pa - pa mod 4096 else pa) div 4096)"

definition mmNewPage :: "ptr \<Rightarrow> ppool \<Rightarrow> (ppool, u64) res" where
  "mmNewPage process s =
     (let base = g_pagedpool_va s in
      if base = 0 then Panic ''mmNewPage: base''
      else bindR (pageObject process s) (\<lambda>New s1.
        if New = NULL then Panic ''mmNewPage: New''
        else let pg = pgheap s1 New in
          if pg_used pg \<noteq> TRUE then Panic ''mmNewPage: New used''
          else if pg_magic pg \<noteq> 1234 then Panic ''mmNewPage: New magic''
          else if pg_id pg < 0 then Panic ''mmNewPage: id underflow''
          else if pg_id pg \<ge> PAGE_COUNT_MAX then Panic ''mmNewPage: id overflow''
          else let s2 = s1\<lparr>pgheap := (pgheap s1)(New := pg\<lparr>pg_locked := FALSE, pg_ref_count := 1\<rparr>)\<rparr>;
                   va = base + word_of_int (c_int (pg_id pg * 4096))
            in if va = 0 then Panic ''mmNewPage: va==0''
               else case virtual_to_physical (pp_qm s2) va (pp_pml4 s2) of
                 Inl e \<Rightarrow> Panic e
               | Inr pa \<Rightarrow> if pa = 0 then Panic ''mmNewPage: pa==0''
                   else Ok va (s2\<lparr>pgheap := (pgheap s2)(New := (pgheap s2 New)\<lparr>pg_absolute_frame_number := frame_number pa\<rparr>)\<rparr>)))"

definition mm_alloc_single_page :: "ptr \<Rightarrow> ppool \<Rightarrow> (ppool, u64) res" where
  "mm_alloc_single_page process s = mmNewPage process s"

definition mm_alloc_contig_pages :: "int \<Rightarrow> ppool \<Rightarrow> (ppool, u64) res" where
  "mm_alloc_contig_pages sz s = Panic ''mm_alloc_contig_pages: [TODO] its a work in progress''"

text \<open>
  One turn of the loop of \<open>allocPages\<close>: the state carried is \<open>pageConductor\<close> and \<open>Count\<close>, and
  the result is the address to return, when there are enough pages. The variable \<open>pageConductor\<close> is
  not initialised in the source: its first value, the garbage on the stack, is a parameter. The write of the
  first link goes through it, so it hits whatever is there; only when the garbage happens to be the address of a page
  structure of the table is the effect known, and everything else is a \<open>Fault\<close>.
\<close>

definition is_page_struct :: "ptr \<Rightarrow> ppool \<Rightarrow> bool" where
  "is_page_struct q s \<longleftrightarrow> q \<noteq> NULL \<and> q \<in> set (map (pageAllocList s) [0..PAGE_COUNT_MAX - 1])"

definition new_page_at :: "int \<Rightarrow> ptr \<Rightarrow> u64 \<Rightarrow> ppool \<Rightarrow> ppool" where
  "new_page_at slot p pa s =
     s\<lparr>pgheap := (pgheap s)(p := zero_page\<lparr>pg_id := slot, pg_used := TRUE, pg_magic := 1234, pg_free := FALSE, pg_locked := FALSE,
         pg_ref_count := 1, pg_absolute_frame_number := (if pa = 0 then 0 else frame_number pa)\<rparr>),
       pageAllocList := (pageAllocList s)(slot := p)\<rparr>"

definition set_next :: "ptr \<Rightarrow> ptr \<Rightarrow> ppool \<Rightarrow> ppool" where
  "set_next q p s = s\<lparr>pgheap := (pgheap s)(q := (pgheap s q)\<lparr>pg_next := p\<rparr>)\<rparr>"

primrec alloc_loop :: "ptr \<Rightarrow> u64 \<Rightarrow> int \<Rightarrow> int \<Rightarrow> int list \<Rightarrow> ptr \<Rightarrow> int \<Rightarrow> ppool \<Rightarrow> (ppool, u64) res" where
  "alloc_loop process base first sz [] conductor Count s = Panic ''allocPages: fail''"
| "alloc_loop process base first sz (slot # slots) conductor Count s =
     (if pageAllocList s slot \<noteq> NULL then alloc_loop process base first sz slots conductor Count s
      else bindR (kmalloc process sizeof_page s) (\<lambda>p s1.
        if p = NULL then Panic ''allocPages: fail 2''
        else case virtual_to_physical (pp_qm s1) (base + word_of_int (c_int (slot * 4096))) (pp_pml4 s1) of
            Inl e \<Rightarrow> Panic e
          | Inr pa \<Rightarrow>
              if \<not> is_page_struct conductor (new_page_at slot p pa s1) then Fault ''allocPages: pageConductor->next''
              else let s2 = set_next conductor p (new_page_at slot p pa s1);
                  conductor' = pg_next (pgheap s2 conductor)
              in if Count + 1 \<ge> sz
                 then let pRet = pageAllocList s2 first in
                   if pRet = NULL then Panic ''allocPages: pRet''
                   else if pg_used (pgheap s2 pRet) \<noteq> TRUE then Panic ''allocPages: pRet->used''
                   else if pg_magic (pgheap s2 pRet) \<noteq> 1234 then Panic ''allocPages: pRet->magic''
                   else Ok (base + word_of_int (c_int (pg_id (pgheap s2 pRet) * 4096))) s2
                 else alloc_loop process base first sz slots conductor' (Count + 1) s2))"

definition allocPages :: "ptr \<Rightarrow> ptr \<Rightarrow> int \<Rightarrow> ppool \<Rightarrow> (ppool, u64) res option" where
  "allocPages process garbage sz s =
     (if sz \<le> 0 then Some (Panic ''allocPages: size 0'')
      else if sz = 1
      then Some (bindR (mmNewPage process s) (\<lambda>va s1.
        if va \<noteq> 0 then Ok va (s1\<lparr>hmem := memset (hmem s1) va 0 4096\<rparr>) else Ok va s1))
      else if sz \<ge> PAGE_COUNT_MAX then Some (Panic ''allocPages: size limits'')
      else map_option (\<lambda>first.
        if first = - 1 then Panic ''allocPages: No more free slots''
        else if first + sz + 1 \<ge> PAGE_COUNT_MAX then Panic ''allocPages: TargetSize''
        else alloc_loop process (g_pagedpool_va s) first sz [first..first + sz] garbage 0 s)
        (firstSlotForAList sz s))"

definition mmAllocPage :: "ptr \<Rightarrow> ppool \<Rightarrow> (ppool, u64) res" where
  "mmAllocPage process s = mmNewPage process s"

definition mmAllocPages :: "ptr \<Rightarrow> ptr \<Rightarrow> int \<Rightarrow> ppool \<Rightarrow> (ppool, u64) res option" where
  "mmAllocPages process garbage sz s = allocPages process garbage sz s"

definition initializeFramesAlloc :: "ptr \<Rightarrow> ppool \<Rightarrow> (ppool, unit) res" where
  "initializeFramesAlloc process s =
     (let s1 = s\<lparr>pageAllocList := (\<lambda>i. if 0 \<le> i \<and> i < PAGE_COUNT_MAX then 0 else pageAllocList s i)\<rparr> in
      bindR (kmalloc process sizeof_page s1) (\<lambda>p s2.
        if p = NULL then Panic ''initializeFramesAlloc:''
        else Ok () (s2\<lparr>pgheap := (pgheap s2)(p := zero_page\<lparr>pg_used := TRUE, pg_magic := 1234, pg_id := 0, pg_free := TRUE, pg_next := NULL\<rparr>),
               pageAllocList := (pageAllocList s2)(0 := p)\<rparr>)))"

section \<open>Page structures\<close>

definition isValidPageStruct :: "ptr \<Rightarrow> ppool \<Rightarrow> int" where
  "isValidPageStruct p s =
     (if p = NULL then FALSE else if pg_used (pgheap s p) = TRUE \<and> pg_magic (pgheap s p) = 1234 then TRUE else FALSE)"

definition freePage :: "ptr \<Rightarrow> ppool \<Rightarrow> ppool" where
  "freePage p s =
     (if p = NULL then s
      else if pg_used (pgheap s p) = TRUE \<and> pg_magic (pgheap s p) = 1234
      then s\<lparr>pgheap := (pgheap s)(p := (pgheap s p)\<lparr>pg_free := TRUE\<rparr>)\<rparr> else s)"

definition notfreePage :: "ptr \<Rightarrow> ppool \<Rightarrow> ppool" where
  "notfreePage p s =
     (if p = NULL then s
      else if pg_used (pgheap s p) = 1 \<and> pg_magic (pgheap s p) = 1234
      then s\<lparr>pgheap := (pgheap s)(p := (pgheap s p)\<lparr>pg_free := 0\<rparr>)\<rparr> else s)"

definition mm_is_page_aligned_va :: "u64 \<Rightarrow> int" where
  "mm_is_page_aligned_va va = (if va AND 0xFFF = 0 then TRUE else FALSE)"

section \<open>Blocks of 1MB\<close>

definition slab_initialize :: "ppool \<Rightarrow> (ppool, unit) res" where
  "slab_initialize s =
     (let s1 = s\<lparr>np_initialized := FALSE\<rparr> in
      if g_extraheap2_va s1 = 0 \<or> g_extraheap3_va s1 = 0 then Panic ''slab_initialize: address''
      else Ok () (s1\<lparr>np_va := (np_va s1)(0 := g_extraheap2_va s1, 1 := g_extraheap2_va s1 + 1024 * 1024,
             2 := g_extraheap3_va s1, 3 := g_extraheap3_va s1 + 1024 * 1024),
           np_free := (np_free s1)(0 := TRUE, 1 := TRUE, 2 := TRUE, 3 := TRUE), np_initialized := TRUE\<rparr>))"

definition slab_1MB_allocator :: "ptr \<Rightarrow> ppool \<Rightarrow> (ppool, u64) res" where
  "slab_1MB_allocator process s =
     (if np_initialized s \<noteq> TRUE then Ok NULL s
      else if process = NULL then Panic ''slab_1MB_allocator: process''
      else if proc_magic s process \<noteq> 1234 then Panic ''slab_1MB_allocator: process validation''
      else case find (\<lambda>i. np_free s i = TRUE) [0, 1, 2, 3] of
        None \<Rightarrow> Ok NULL s
      | Some i \<Rightarrow> Ok (np_va s i) (s\<lparr>np_free := (np_free s)(i := FALSE),
          allocated_memory := (allocated_memory s)(process := allocated_memory s process + 1024 * 1024)\<rparr>))"

end
