(* ===== verification/Kernel_Heap_Laws.thy ===== *)
theory Kernel_Heap_Laws
  imports Kernel_Heap Kstring_Laws
begin

text \<open>
  The allocator hands out disjoint blocks inside the heap. \<open>heap_ok\<close> is the invariant: the blocks of
  the list follow one another from the start of the heap up to the heap pointer, and the free rest
  reaches to the end of the heap. The locale \<open>allocator\<close> is the contract that the clients of
  \<open>kmalloc\<close> use; it is interpreted on \<open>kmalloc\<close>.
\<close>

section \<open>Contract\<close>

locale allocator =
  fixes alloc :: "int \<Rightarrow> 's \<Rightarrow> ('s, ptr) res" and inv :: "'s \<Rightarrow> bool" and owned :: "'s \<Rightarrow> ptr set"
    and cost :: "int \<Rightarrow> nat" and budget :: "'s \<Rightarrow> nat" and slots :: "'s \<Rightarrow> nat"
  assumes alloc_ok: "inv s \<Longrightarrow> 0 < n \<Longrightarrow> n < 2 ^ 31 \<Longrightarrow> cost n \<le> budget s \<Longrightarrow> 0 < slots s \<Longrightarrow>
      \<exists>p s'. alloc n s = Ok p s' \<and> inv s' \<and> p \<noteq> NULL \<and> region p (nat n) \<inter> owned s = {} \<and>
        owned s \<union> region p (nat n) \<subseteq> owned s' \<and> budget s' = budget s - cost n \<and> slots s' = slots s - 1"
begin

primrec allocs :: "int list \<Rightarrow> 's \<Rightarrow> ('s, ptr list) res" where
  "allocs [] s = Ok [] s"
| "allocs (n # ns) s = bindR (alloc n s) (\<lambda>p s'. bindR (allocs ns s') (\<lambda>ps s''. Ok (p # ps) s''))"

text \<open>A batch of allocations that fits is served, and its blocks are disjoint and new.\<close>

lemma allocs_disjoint:
  assumes "inv s" and "\<forall>n \<in> set ns. 0 < n \<and> n < 2 ^ 31" and "sum_list (map cost ns) \<le> budget s" and "length ns \<le> slots s"
  shows "\<exists>ps s'. allocs ns s = Ok ps s' \<and> inv s' \<and> length ps = length ns \<and> NULL \<notin> set ps \<and> owned s \<subseteq> owned s' \<and>
    (\<forall>i < length ns. region (ps ! i) (nat (ns ! i)) \<inter> owned s = {} \<and> region (ps ! i) (nat (ns ! i)) \<subseteq> owned s') \<and>
    (\<forall>i < length ns. \<forall>j < i. region (ps ! i) (nat (ns ! i)) \<inter> region (ps ! j) (nat (ns ! j)) = {})"
  using assms
proof (induction ns arbitrary: s)
  case (Cons n ns)
  then obtain p s1 where a: "alloc n s = Ok p s1" "inv s1" "p \<noteq> NULL" "region p (nat n) \<inter> owned s = {}"
    "owned s \<union> region p (nat n) \<subseteq> owned s1" "budget s1 = budget s - cost n" "slots s1 = slots s - 1"
    using alloc_ok [of s n] by auto
  have b: "\<forall>n \<in> set ns. 0 < n \<and> n < 2 ^ 31" "sum_list (map cost ns) \<le> budget s1" "length ns \<le> slots s1"
    using Cons.prems a(6,7) by simp_all
  obtain ps s2 where r: "allocs ns s1 = Ok ps s2" "inv s2" "length ps = length ns" "NULL \<notin> set ps" "owned s1 \<subseteq> owned s2"
    and ri: "\<forall>i < length ns. region (ps ! i) (nat (ns ! i)) \<inter> owned s1 = {} \<and> region (ps ! i) (nat (ns ! i)) \<subseteq> owned s2"
    and rj: "\<forall>i < length ns. \<forall>j < i. region (ps ! i) (nat (ns ! i)) \<inter> region (ps ! j) (nat (ns ! j)) = {}"
    using Cons.IH [OF a(2) b] by blast
  have "region ((p # ps) ! i) (nat ((n # ns) ! i)) \<inter> owned s = {} \<and> region ((p # ps) ! i) (nat ((n # ns) ! i)) \<subseteq> owned s2"
    if "i < length (n # ns)" for i
    using that a(4,5) r(5) ri by (cases i) (simp, blast, simp, blast)
  moreover have "region ((p # ps) ! i) (nat ((n # ns) ! i)) \<inter> region ((p # ps) ! j) (nat ((n # ns) ! j)) = {}"
    if "i < length (n # ns)" "j < i" for i j
    using that a(5) ri rj by (cases i; cases j; simp; blast)
  ultimately show ?case using a r by auto
qed simp

end

section \<open>The invariant\<close>

text \<open>Where the \<open>i\<close>-th block begins; the block after the last one would begin at the heap pointer.\<close>

definition bound :: "'a kheap_scheme \<Rightarrow> int \<Rightarrow> ptr" where
  "bound s i = (if i \<le> mmblockCount s then mmblockList s i else g_heap_pointer s)"

definition block_ok :: "'a kheap_scheme \<Rightarrow> ptr \<Rightarrow> ptr \<Rightarrow> bool" where
  "block_ok s p q \<longleftrightarrow> b_Header (bheap s p) = p \<and> b_headerSize (bheap s p) = sizeof_mmblock
     \<and> b_userArea (bheap s p) = p + sizeof_mmblock \<and> b_Footer (bheap s p) = q
     \<and> b_Used (bheap s p) = TRUE \<and> b_Magic (bheap s p) \<in> {1234, 4321}
     \<and> unat p + 72 + unat (b_userareaSize (bheap s p)) = unat q"

definition heap_ok :: "'a kheap_scheme \<Rightarrow> bool" where
  "heap_ok s \<longleftrightarrow> 0 \<le> mmblockCount s \<and> mmblockCount s < MMBLOCK_COUNT_MAX
     \<and> unat (g_heap_pointer s) + unat (g_available_heap s) = unat KERNEL_HEAP_END
     \<and> bound s 1 = KERNEL_HEAP_START
     \<and> (\<forall>i \<in> {1..mmblockCount s}. block_ok s (bound s i) (bound s (i + 1)))"

lemma heap_ok_init: "heap_ok (snd (mmInitialize_heap s))" "fst (mmInitialize_heap s) = TRUE"
  by (simp_all add: mmInitialize_heap_def init_kernel_heap_def heap_ok_def bound_def)

lemma bound_step:
  assumes "heap_ok s" and "1 \<le> i" and "i \<le> mmblockCount s"
  shows "unat (bound s i) + 72 + unat (b_userareaSize (bheap s (bound s i))) = unat (bound s (i + 1))"
  using assms by (simp add: heap_ok_def block_ok_def)

lemma bound_mono:
  assumes ok: "heap_ok s" and "1 \<le> i" and "i < j" and "j \<le> mmblockCount s + 1"
  shows "unat (bound s i) + 72 + unat (b_userareaSize (bheap s (bound s i))) \<le> unat (bound s j)"
proof -
  have "unat (bound s (i + 1)) \<le> unat (bound s (i + 1 + int k))" if "i + 1 + int k \<le> mmblockCount s + 1" for k
    using that
  proof (induction k)
    case (Suc k)
    then show ?case using bound_step [OF ok, of "i + 1 + int k"] assms(2) by (simp add: add.assoc)
  qed simp
  from this [of "nat (j - i - 1)"] show ?thesis using bound_step [OF ok, of i] assms by simp
qed

lemma heap_pointer_range:
  assumes "heap_ok s"
  shows "unat KERNEL_HEAP_START \<le> unat (g_heap_pointer s)" and "unat (g_heap_pointer s) \<le> unat KERNEL_HEAP_END"
proof -
  show "unat (g_heap_pointer s) \<le> unat KERNEL_HEAP_END" using assms by (simp add: heap_ok_def)
  show "unat KERNEL_HEAP_START \<le> unat (g_heap_pointer s)"
  proof (cases "mmblockCount s = 0")
    case False
    then have "0 < mmblockCount s" using assms by (simp add: heap_ok_def)
    then have "unat (bound s 1) \<le> unat (bound s (mmblockCount s + 1))" using bound_mono [OF assms, of 1 "mmblockCount s + 1"] by simp
    then show ?thesis using assms by (simp add: heap_ok_def bound_def)
  qed (use assms in \<open>simp add: heap_ok_def bound_def\<close>)
qed

text \<open>The addresses that have been handed out, with their headers.\<close>

definition owned :: "'a kheap_scheme \<Rightarrow> ptr set" where
  "owned s = region KERNEL_HEAP_START (unat (g_heap_pointer s) - unat KERNEL_HEAP_START)"

definition extent :: "'a kheap_scheme \<Rightarrow> int \<Rightarrow> ptr set" where
  "extent s i = region (bound s i) (72 + unat (b_userareaSize (bheap s (bound s i))))"

lemma region_unat:
  assumes "unat p + n \<le> 2 ^ 64"
  shows "region p n = {a. unat p \<le> unat a \<and> unat a < unat p + n}"
proof (intro set_eqI iffI)
  fix a :: ptr assume "a \<in> region p n"
  then obtain j where "j < n" "a = p + of_nat j" by (auto elim: in_regionE)
  then show "a \<in> {a. unat p \<le> unat a \<and> unat a < unat p + n}" using assms by (simp add: unat_offset)
next
  fix a :: ptr assume "a \<in> {a. unat p \<le> unat a \<and> unat a < unat p + n}"
  then show "a \<in> region p n" by (auto simp: region_def unat_sub word_le_nat_alt)
qed

lemma extent_unat:
  assumes "heap_ok s" and "1 \<le> i" and "i \<le> mmblockCount s"
  shows "extent s i = {a. unat (bound s i) \<le> unat a \<and> unat a < unat (bound s (i + 1))}"
proof -
  have "unat (bound s (i + 1)) \<le> 2 ^ 64" using unsigned_less [of "bound s (i + 1)", where 'a = nat] by simp
  then show ?thesis using bound_step [OF assms] region_unat [of "bound s i" "72 + unat (b_userareaSize (bheap s (bound s i)))"]
    by (simp add: extent_def add.assoc)
qed

lemma owned_unat:
  assumes "heap_ok s"
  shows "owned s = {a. unat KERNEL_HEAP_START \<le> unat a \<and> unat a < unat (g_heap_pointer s)}"
  using heap_pointer_range [OF assms] region_unat [of KERNEL_HEAP_START "unat (g_heap_pointer s) - unat KERNEL_HEAP_START"]
  by (simp add: owned_def)

text \<open>The blocks are disjoint and inside the heap.\<close>

lemma blocks_disjoint:
  assumes ok: "heap_ok s" and ij: "1 \<le> i" "i < j" "j \<le> mmblockCount s"
  shows "extent s i \<inter> extent s j = {}"
  using bound_mono [OF ok, of i j] bound_step [OF ok, of i] ij by (auto simp: extent_unat [OF ok])

lemma block_in_heap:
  assumes ok: "heap_ok s" and i: "1 \<le> i" "i \<le> mmblockCount s"
  shows "extent s i \<subseteq> owned s" and "owned s \<subseteq> region KERNEL_HEAP_START (unat (KERNEL_HEAP_END - KERNEL_HEAP_START))"
proof -
  have "unat KERNEL_HEAP_START \<le> unat (bound s i)"
    using bound_mono [OF ok, of 1 i] ok i by (cases "i = 1") (auto simp: heap_ok_def)
  moreover have "unat (bound s (i + 1)) \<le> unat (g_heap_pointer s)"
    using bound_mono [OF ok, of "i + 1" "mmblockCount s + 1"] i by (cases "i = mmblockCount s") (auto simp: bound_def)
  ultimately show "extent s i \<subseteq> owned s" unfolding extent_unat [OF ok i] owned_unat [OF ok] by auto
  show "owned s \<subseteq> region KERNEL_HEAP_START (unat (KERNEL_HEAP_END - KERNEL_HEAP_START))"
    using heap_pointer_range [OF ok] unfolding owned_def by (intro region_mono) simp
qed

section \<open>Allocation\<close>

definition area_size :: "u64 \<Rightarrow> u64" where
  "area_size sz = (if sz = 0 then 8 else sz)"

text \<open>The state after a successful allocation.\<close>

definition allocated :: "u64 \<Rightarrow> 'a kheap_scheme \<Rightarrow> 'a kheap_scheme" where
  "allocated sz s =
     (let p = g_heap_pointer s; n = mmblockCount s + 1; e = p + sizeof_mmblock + area_size sz in
      s\<lparr>mmblockCount := n,
        bheap := (bheap s)(p := \<lparr>b_Header = p, b_headerSize = sizeof_mmblock, b_userArea = p + sizeof_mmblock,
          b_userareaSize = area_size sz, b_Footer = e, b_Id = n, b_Used = TRUE, b_Magic = 1234, b_Free = FALSE\<rparr>),
        g_available_heap := g_available_heap s - (e - p), mm_prev_pointer := p, g_heap_pointer := e,
        mmblockList := (mmblockList s)(n := p)\<rparr>)"

lemma alloc_eq:
  assumes ok: "heap_ok s" and n: "mmblockCount s + 1 < MMBLOCK_COUNT_MAX" and sz: "area_size sz < g_available_heap s"
  shows "heapAllocateMemory sz s = Ok (g_heap_pointer s + sizeof_mmblock) (allocated sz s)"
proof -
  have "0 < unat (g_available_heap s)" using sz by (simp add: word_less_nat_alt)
  then have "KERNEL_HEAP_START \<le> g_heap_pointer s" "g_heap_pointer s < KERNEL_HEAP_END"
    using heap_pointer_range [OF ok] ok by (simp_all add: heap_ok_def word_le_nat_alt word_less_nat_alt)
  moreover from this have "g_heap_pointer s \<noteq> 0" by auto
  moreover have "g_available_heap s \<noteq> 0" using sz by auto
  moreover have "\<not> g_available_heap s \<le> (if sz = 0 then 8 else sz)" using sz by (simp add: area_size_def not_le)
  ultimately show ?thesis using n
    by (simp add: heapAllocateMemory_def allocated_def Let_def area_size_def not_less)
qed

lemma bound_allocated:
  assumes "heap_ok s" and "1 \<le> i" and "i \<le> mmblockCount s + 1"
  shows "bound (allocated sz s) i = bound s i"
  using assms by (auto simp: bound_def allocated_def Let_def)

lemma bheap_allocated:
  assumes ok: "heap_ok s" and "1 \<le> i" and "i \<le> mmblockCount s"
  shows "bheap (allocated sz s) (bound s i) = bheap s (bound s i)"
proof -
  have "unat (bound s i) < unat (g_heap_pointer s)"
    using bound_mono [OF ok, of i "mmblockCount s + 1"] assms(2,3) by (simp add: bound_def)
  then show ?thesis by (auto simp: allocated_def Let_def)
qed

lemma allocated_pointer:
  assumes ok: "heap_ok s" and r: "unat (area_size sz) + 72 \<le> unat (g_available_heap s)"
  shows "unat (g_heap_pointer (allocated sz s)) = unat (g_heap_pointer s) + 72 + unat (area_size sz)"
    and "unat (g_available_heap (allocated sz s)) = unat (g_available_heap s) - (72 + unat (area_size sz))"
proof -
  have b: "unat (g_heap_pointer s) + 72 + unat (area_size sz) < 2 ^ 64"
    using ok r by (simp add: heap_ok_def)
  have 72: "unat (g_heap_pointer s + 72) = unat (g_heap_pointer s) + 72"
    using unat_offset [of "g_heap_pointer s" 72] b by simp
  show "unat (g_heap_pointer (allocated sz s)) = unat (g_heap_pointer s) + 72 + unat (area_size sz)"
    using b 72 by (simp add: allocated_def Let_def unat_word_ariths)
  have "unat (72 + area_size sz) = 72 + unat (area_size sz)" using b by (simp add: unat_word_ariths)
  then show "unat (g_available_heap (allocated sz s)) = unat (g_available_heap s) - (72 + unat (area_size sz))"
    using r by (simp add: allocated_def Let_def algebra_simps unat_sub word_le_nat_alt)
qed

lemma heap_ok_allocated:
  assumes ok: "heap_ok s" and n: "mmblockCount s + 1 < MMBLOCK_COUNT_MAX"
    and r: "unat (area_size sz) + 72 \<le> unat (g_available_heap s)"
  shows "heap_ok (allocated sz s)"
proof -
  let ?t = "allocated sz s" and ?n = "mmblockCount s + 1"
  note p = allocated_pointer [OF ok r]
  have c: "mmblockCount ?t = ?n" by (simp add: allocated_def Let_def)
  have "block_ok ?t (bound ?t i) (bound ?t (i + 1))" if "1 \<le> i" "i \<le> ?n" for i
  proof (cases "i = ?n")
    case True
    then have "bound ?t i = g_heap_pointer s" "bound ?t (i + 1) = g_heap_pointer ?t" by (simp_all add: bound_def allocated_def Let_def)
    then show ?thesis using p(1) by (simp add: block_ok_def allocated_def Let_def)
  next
    case False
    then have i: "i \<le> mmblockCount s" using that(2) by simp
    have "block_ok s (bound s i) (bound s (i + 1))" using ok that(1) i by (simp add: heap_ok_def)
    then show ?thesis using that i bheap_allocated [OF ok that(1) i]
      by (simp add: bound_allocated [OF ok] block_ok_def)
  qed
  moreover have "bound ?t 1 = KERNEL_HEAP_START" using ok by (simp add: bound_allocated heap_ok_def)
  moreover have "unat (g_heap_pointer ?t) + unat (g_available_heap ?t) = unat KERNEL_HEAP_END"
    using p ok r by (simp add: heap_ok_def)
  ultimately show ?thesis using ok n c by (simp add: heap_ok_def)
qed

lemma area_fits:
  assumes "unat (area_size sz) + 72 \<le> unat (g_available_heap s)"
  shows "area_size sz < g_available_heap s"
  using assms by (simp add: word_less_nat_alt)

lemma owned_allocated:
  assumes ok: "heap_ok s" and n: "mmblockCount s + 1 < MMBLOCK_COUNT_MAX"
    and r: "unat (area_size sz) + 72 \<le> unat (g_available_heap s)"
  shows "region (g_heap_pointer s + sizeof_mmblock) (unat (area_size sz)) \<inter> owned s = {}"
    and "owned s \<union> region (g_heap_pointer s + sizeof_mmblock) (unat (area_size sz)) \<subseteq> owned (allocated sz s)"
proof -
  have b: "unat (g_heap_pointer s) + 72 + unat (area_size sz) < 2 ^ 64" using ok r by (simp add: heap_ok_def)
  have u: "unat (g_heap_pointer s + sizeof_mmblock) = unat (g_heap_pointer s) + 72"
    using unat_offset [of "g_heap_pointer s" 72] b by simp
  have reg: "region (g_heap_pointer s + sizeof_mmblock) (unat (area_size sz)) =
      {a. unat (g_heap_pointer s) + 72 \<le> unat a \<and> unat a < unat (g_heap_pointer s) + 72 + unat (area_size sz)}"
    using region_unat [of "g_heap_pointer s + sizeof_mmblock" "unat (area_size sz)"] b unfolding u by simp
  show "region (g_heap_pointer s + sizeof_mmblock) (unat (area_size sz)) \<inter> owned s = {}"
    unfolding reg owned_unat [OF ok] by auto
  show "owned s \<union> region (g_heap_pointer s + sizeof_mmblock) (unat (area_size sz)) \<subseteq> owned (allocated sz s)"
    using heap_pointer_range [OF ok]
    unfolding reg owned_unat [OF ok] owned_unat [OF heap_ok_allocated [OF ok n r]] allocated_pointer [OF ok r] by auto
qed

section \<open>Release and reuse\<close>

text \<open>Writing a header of a block without changing its place and size.\<close>

lemma heap_ok_header:
  assumes ok: "heap_ok s"
    and "b_Header b = b_Header (bheap s p)" "b_headerSize b = b_headerSize (bheap s p)"
      "b_userArea b = b_userArea (bheap s p)" "b_userareaSize b = b_userareaSize (bheap s p)"
      "b_Footer b = b_Footer (bheap s p)" "b_Used b = TRUE" "b_Magic b \<in> {1234, 4321}"
  shows "heap_ok (s\<lparr>bheap := (bheap s)(p := b)\<rparr>)" and "extent (s\<lparr>bheap := (bheap s)(p := b)\<rparr>) i = extent s i"
    and "owned (s\<lparr>bheap := (bheap s)(p := b)\<rparr>) = owned s"
proof -
  let ?t = "s\<lparr>bheap := (bheap s)(p := b)\<rparr>"
  have b: "bound ?t j = bound s j" for j by (simp add: bound_def)
  have "block_ok ?t x y" if "block_ok s x y" for x y using that assms(2-) by (auto simp: block_ok_def)
  then show "heap_ok ?t" using ok by (simp add: heap_ok_def b)
  show "extent ?t i = extent s i" using assms(5) by (simp add: extent_def b)
  show "owned ?t = owned s" by (simp add: owned_def)
qed

lemma heap_ok_free: "heap_ok s \<Longrightarrow> heap_ok (heapFreeMemory p s)"
  by (auto simp: heapFreeMemory_def Let_def intro!: heap_ok_header(1))

lemma heap_ok_hmem: "heap_ok (s\<lparr>hmem := m\<rparr>) = heap_ok s"
  by (simp add: heap_ok_def bound_def block_ok_def)

lemma heap_ok_reuse: "heap_ok s \<Longrightarrow> heap_ok (snd (heapReuseMemory sz c s))"
  by (auto simp: heapReuseMemory_def Let_def heap_ok_hmem intro!: heap_ok_header(1))

section \<open>Any sequence of operations\<close>

inductive heap_step :: "'a kheap_scheme \<Rightarrow> 'a kheap_scheme \<Rightarrow> bool" where
  allocate: "heapAllocateMemory sz s = Ok p s' \<Longrightarrow> unat (area_size sz) + 72 \<le> unat (g_available_heap s) \<Longrightarrow> heap_step s s'"
| refused: "heapAllocateMemory sz s = Ok 0 s' \<Longrightarrow> g_available_heap s \<le> area_size sz \<Longrightarrow> heap_step s s'"
| release: "heap_step s (heapFreeMemory p s)"
| reuse: "heap_step s (snd (heapReuseMemory sz c s))"

lemma alloc_count: "heapAllocateMemory sz s = Ok p s' \<Longrightarrow> area_size sz < g_available_heap s \<Longrightarrow> mmblockCount s + 1 < MMBLOCK_COUNT_MAX"
  by (auto simp: heapAllocateMemory_def area_size_def Let_def split: if_splits)

lemma alloc_refused: "g_available_heap s \<le> area_size sz \<Longrightarrow> heapAllocateMemory sz s = Ok 0 s"
  by (simp add: heapAllocateMemory_def area_size_def Let_def)

lemma heap_step_ok: "heap_step s s' \<Longrightarrow> heap_ok s \<Longrightarrow> heap_ok s'"
proof (induction rule: heap_step.induct)
  case (allocate sz s p s')
  note n = alloc_count [OF allocate(1) area_fits [OF allocate(2)]]
  show ?case using heap_ok_allocated [OF allocate(3) n allocate(2)] alloc_eq [OF allocate(3) n area_fits [OF allocate(2)]] allocate(1)
    by simp
next
  case (refused sz s s')
  then show ?case using alloc_refused by fastforce
qed (simp_all add: heap_ok_free heap_ok_reuse)

lemma heap_steps_ok: "heap_step\<^sup>*\<^sup>* s t \<Longrightarrow> heap_ok s \<Longrightarrow> heap_ok t"
  by (induction rule: rtranclp_induct) (auto intro: heap_step_ok)

text \<open>A fresh heap, and the heap after one allocation of 100 bytes, for the witnesses.\<close>

definition fresh_heap :: kheap where
  "fresh_heap = snd (mmInitialize_heap \<lparr>KernelHeap_initialized = 0, kernel_heap_start = 0, kernel_heap_end = 0,
     g_heap_pointer = 0, g_available_heap = 0, heapCount = 0, heapList = (\<lambda>_. 0), mmblockCount = 0, mmblockList = (\<lambda>_. 0),
     mm_prev_pointer = 0, bheap = (\<lambda>_. \<lparr>b_Header = 0, b_headerSize = 0, b_userArea = 0, b_userareaSize = 0, b_Footer = 0,
       b_Id = 0, b_Used = 0, b_Magic = 0, b_Free = 0\<rparr>), hmem = (\<lambda>_. 0xCC), proc_magic = (\<lambda>_. 0), allocated_memory = (\<lambda>_. 0)\<rparr>)"

lemma fresh_heap_simps [simp]:
  "g_heap_pointer fresh_heap = 0x30100000" "g_available_heap fresh_heap = 0xD0000" "mmblockCount fresh_heap = 0"
  "hmem fresh_heap = (\<lambda>_. 0xCC)"
  by (simp_all add: fresh_heap_def mmInitialize_heap_def init_kernel_heap_def)

lemma fresh_heap_ok [simp]: "heap_ok fresh_heap"
  by (simp add: fresh_heap_def heap_ok_init)

definition used_heap :: kheap where
  "used_heap = allocated 100 fresh_heap"

lemma used_heap_simps [simp]:
  "g_heap_pointer used_heap = 0x301000AC" "g_available_heap used_heap = 0xCFF54" "mmblockCount used_heap = 1"
  "bound used_heap 1 = 0x30100000" "hmem used_heap = (\<lambda>_. 0xCC)"
  "b_userareaSize (bheap used_heap 0x30100000) = 100" "b_Magic (bheap used_heap 0x30100000) = 1234"
  "b_userArea (bheap used_heap 0x30100000) = 0x30100048"
  by (simp_all add: used_heap_def allocated_def area_size_def Let_def bound_def)

lemma used_heap_step: "heap_step fresh_heap used_heap"
proof (rule heap_step.allocate)
  show "heapAllocateMemory 100 fresh_heap = Ok (g_heap_pointer fresh_heap + sizeof_mmblock) used_heap"
    unfolding used_heap_def by (rule alloc_eq) (simp_all add: area_size_def)
qed (simp add: area_size_def)

lemma used_heap_ok [simp]: "heap_ok used_heap"
  by (rule heap_step_ok [OF used_heap_step]) simp

text \<open>C9. Safety of the kernel heap as long as it is not overrun: after the initialisation and any sequence of
  allocations that fit with their headers, refused allocations, releases of arbitrary pointers and reuses, all blocks
  with their headers are disjoint and inside the heap, and the next allocation that fits with its header, while the
  table of blocks is not full, returns an area inside the heap that meets no block, free or not, and leaves the header
  and the extent of every block as it was. The test of the code leaves out the 72 bytes of the header, so it also grants
  allocations that do not fit; after one of them the invariant is lost (\<open>heap_overrun\<close>).\<close>

theorem heap_allocation_fresh:
  assumes "heap_step\<^sup>*\<^sup>* (snd (mmInitialize_heap s0)) s" and "mmblockCount s + 1 < MMBLOCK_COUNT_MAX"
    and "unat (area_size sz) + 72 \<le> unat (g_available_heap s)"
  shows "\<exists>p s'. heapAllocateMemory sz s = Ok p s' \<and> p \<noteq> NULL \<and>
    region p (unat (area_size sz)) \<subseteq> region KERNEL_HEAP_START (unat (KERNEL_HEAP_END - KERNEL_HEAP_START)) \<and>
    (\<forall>i \<in> {1..mmblockCount s}. region p (unat (area_size sz)) \<inter> extent s i = {} \<and>
       extent s' i = extent s i \<and> bheap s' (bound s i) = bheap s (bound s i)) \<and>
    (\<forall>i \<in> {1..mmblockCount s}. \<forall>j \<in> {i + 1..mmblockCount s}. extent s i \<inter> extent s j = {})"
proof -
  have ok: "heap_ok s" using heap_steps_ok [OF assms(1) heap_ok_init(1)] .
  let ?p = "g_heap_pointer s + sizeof_mmblock" and ?s = "allocated sz s"
  note ow = owned_allocated [OF ok assms(2,3)] and ok' = heap_ok_allocated [OF ok assms(2,3)]
  have e: "heapAllocateMemory sz s = Ok ?p ?s" by (rule alloc_eq [OF ok assms(2) area_fits [OF assms(3)]])
  have "unat ?p = unat (g_heap_pointer s) + 72"
    using unat_offset [of "g_heap_pointer s" 72] heap_pointer_range [OF ok] by simp
  then have nz: "?p \<noteq> NULL" by (metis add_is_0 unat_0 zero_neq_numeral)
  have "mmblockCount ?s = mmblockCount s + 1" by (simp add: allocated_def Let_def)
  then have "owned ?s \<subseteq> region KERNEL_HEAP_START (unat (KERNEL_HEAP_END - KERNEL_HEAP_START))"
    using block_in_heap(2) [OF ok', of 1] ok by (simp add: heap_ok_def)
  then have inside: "region ?p (unat (area_size sz)) \<subseteq> region KERNEL_HEAP_START (unat (KERNEL_HEAP_END - KERNEL_HEAP_START))"
    using ow(2) by blast
  have each: "region ?p (unat (area_size sz)) \<inter> extent s i = {}" "extent ?s i = extent s i"
      "bheap ?s (bound s i) = bheap s (bound s i)" if "1 \<le> i" "i \<le> mmblockCount s" for i
    using that ow(1) block_in_heap(1) [OF ok that] bheap_allocated [OF ok that] bound_allocated [OF ok that(1)]
    by (auto simp: extent_def)
  have "extent s i \<inter> extent s j = {}" if "1 \<le> i" "i + 1 \<le> j" "j \<le> mmblockCount s" for i j
    using blocks_disjoint [OF ok that(1) _ that(3)] that(2) by simp
  with e nz inside each show ?thesis by auto
qed

theorem heap_allocation_fresh_witness:
  "\<exists>p s'. heapAllocateMemory 64 used_heap = Ok p s' \<and> p \<noteq> NULL \<and> region p 64 \<inter> extent used_heap 1 = {}"
proof -
  have "heap_step\<^sup>*\<^sup>* fresh_heap used_heap" using used_heap_step by blast
  from heap_allocation_fresh [OF this [unfolded fresh_heap_def], of 64] show ?thesis
    by (auto simp: area_size_def)
qed

text \<open>The test of the allocator forgets the header: an allocation that fits without its header but not with it
  is granted, its area reaches beyond the end of the heap, the amount of free memory wraps around to a number close
  to the largest one, and every later allocation stops the machine.\<close>

theorem heap_overrun:
  assumes "heap_ok s" and "mmblockCount s + 2 < MMBLOCK_COUNT_MAX" and "area_size sz < g_available_heap s"
    and "unat (g_available_heap s) < unat (area_size sz) + 72" and "n < 2 ^ 63"
  shows "\<exists>p s'. heapAllocateMemory sz s = Ok p s' \<and> unat KERNEL_HEAP_END < unat p + unat (area_size sz) \<and>
    2 ^ 64 - 72 \<le> unat (g_available_heap s') \<and> heapAllocateMemory n s' = Panic ''heapAllocateMemory: Out of kernel heap''"
proof -
  let ?p = "g_heap_pointer s + sizeof_mmblock" and ?s = "allocated sz s" and ?u = "unat (area_size sz)"
  have sum: "unat (g_heap_pointer s) + unat (g_available_heap s) = unat KERNEL_HEAP_END" using assms(1) by (simp add: heap_ok_def)
  have e: "heapAllocateMemory sz s = Ok ?p ?s" using assms(2) by (intro alloc_eq assms(1,3)) simp
  have lt: "?u < unat (g_available_heap s)" using assms(3) by (simp add: word_less_nat_alt)
  have "unat ?p = unat (g_heap_pointer s) + 72" using unat_offset [of "g_heap_pointer s" 72] sum by simp
  then have past: "unat KERNEL_HEAP_END < unat ?p + ?u" using sum assms(4) by simp
  have ptr: "unat (g_heap_pointer ?s) = unat (g_heap_pointer s) + 72 + ?u"
    using sum lt by (simp add: allocated_def Let_def unat_word_ariths)
  let ?d = "72 + ?u - unat (g_available_heap s)"
  have d: "?d \<le> 72" "0 < ?d" using lt assms(4) by simp_all
  have "g_available_heap ?s = g_available_heap s - of_nat (72 + ?u)" by (simp add: allocated_def Let_def algebra_simps)
  also have "\<dots> = - of_nat ?d" using assms(4) by (simp add: of_nat_diff)
  also have "\<dots> = of_nat (2 ^ 64 - ?d)" using d(1) by (subst of_nat_diff) simp_all
  finally have av: "unat (g_available_heap ?s) = 2 ^ 64 - ?d" using d unat_of_nat64 [of "2 ^ 64 - ?d"] by simp
  have big: "2 ^ 64 - 72 \<le> unat (g_available_heap ?s)" using av d(1) by simp
  have "area_size n < g_available_heap ?s" using big assms(5) by (auto simp: word_less_nat_alt area_size_def)
  moreover have "KERNEL_HEAP_END \<le> g_heap_pointer ?s" using ptr sum assms(4) by (simp add: word_le_nat_alt)
  moreover have "mmblockCount ?s = mmblockCount s + 1" by (simp add: allocated_def Let_def)
  ultimately have "heapAllocateMemory n ?s = Panic ''heapAllocateMemory: Out of kernel heap''"
    using assms(2) by (auto simp: heapAllocateMemory_def area_size_def Let_def not_le)
  with e past big show ?thesis by blast
qed

theorem heap_overrun_witness:
  "\<exists>p s'. heapAllocateMemory 851967 fresh_heap = Ok p s' \<and> 0x301D0000 < unat p + 851967 \<and>
    heapAllocateMemory 1 s' = Panic ''heapAllocateMemory: Out of kernel heap''"
  using heap_overrun [of fresh_heap 851967 1] by (auto simp: area_size_def)

section \<open>Reuse\<close>

lemma block_size_small:
  assumes ok: "heap_ok s" and i: "1 \<le> i" "i \<le> mmblockCount s"
  shows "unat (b_userareaSize (bheap s (bound s i))) < 2 ^ 31"
proof -
  have "unat (bound s (i + 1)) \<le> unat (g_heap_pointer s)"
    using bound_mono [OF ok, of "i + 1" "mmblockCount s + 1"] i by (cases "i = mmblockCount s") (auto simp: bound_def)
  then show ?thesis using bound_step [OF ok i] heap_pointer_range [OF ok] by simp
qed

lemma block_address:
  assumes ok: "heap_ok s" and i: "1 \<le> i" "i \<le> mmblockCount s"
  shows "KERNEL_HEAP_START \<le> bound s i" "bound s i + sizeof_mmblock < KERNEL_HEAP_END \<or> b_userareaSize (bheap s (bound s i)) = 0"
    and "b_userArea (bheap s (bound s i)) = bound s i + sizeof_mmblock" and "bound s i = mmblockList s i"
    and "KERNEL_HEAP_START \<le> bound s i + sizeof_mmblock"
proof -
  have lo: "unat KERNEL_HEAP_START \<le> unat (bound s i)"
    using bound_mono [OF ok, of 1 i] ok i by (cases "i = 1") (auto simp: heap_ok_def)
  have hi: "unat (bound s (i + 1)) \<le> unat (g_heap_pointer s)"
    using bound_mono [OF ok, of "i + 1" "mmblockCount s + 1"] i by (cases "i = mmblockCount s") (auto simp: bound_def)
  have u: "unat (bound s i + sizeof_mmblock) = unat (bound s i) + 72"
    using unat_offset [of "bound s i" 72] bound_step [OF ok i] hi heap_pointer_range [OF ok] by simp
  show "KERNEL_HEAP_START \<le> bound s i" using lo by (simp add: word_le_nat_alt)
  show "KERNEL_HEAP_START \<le> bound s i + sizeof_mmblock" using lo u by (simp add: word_le_nat_alt)
  show "bound s i + sizeof_mmblock < KERNEL_HEAP_END \<or> b_userareaSize (bheap s (bound s i)) = 0"
    using u bound_step [OF ok i] hi heap_pointer_range [OF ok] unat_gt_0 [of "b_userareaSize (bheap s (bound s i))"]
    by (auto simp: word_less_nat_alt)
  show "b_userArea (bheap s (bound s i)) = bound s i + sizeof_mmblock" using ok i by (simp add: heap_ok_def block_ok_def)
  show "bound s i = mmblockList s i" using i by (simp add: bound_def)
qed

lemma free_block:
  assumes ok: "heap_ok s" and i: "1 \<le> i" "i \<le> mmblockCount s" and live: "b_Magic (bheap s (bound s i)) = 1234"
    and sz: "b_userareaSize (bheap s (bound s i)) \<noteq> 0"
  shows "heapFreeMemory (b_userArea (bheap s (bound s i))) s =
    s\<lparr>bheap := (bheap s)(bound s i := (bheap s (bound s i))\<lparr>b_Used := TRUE, b_Magic := 4321\<rparr>)\<rparr>"
proof -
  note a = block_address [OF ok i]
  have "bound s i \<noteq> 0" "bound s i + 72 \<noteq> 0" using a(1,5) by auto
  moreover have "\<not> bound s i + 72 < KERNEL_HEAP_START" "\<not> KERNEL_HEAP_END \<le> bound s i + 72" using a(2,5) sz by auto
  moreover have "b_Used (bheap s (bound s i)) = TRUE" using ok i by (simp add: heap_ok_def block_ok_def)
  ultimately show ?thesis using live by (simp add: heapFreeMemory_def Let_def a(3))
qed

lemma find_append_None: "find P xs = None \<Longrightarrow> find P (xs @ ys) = find P ys"
  by (induction xs) (simp_all split: if_splits)

lemma find_first:
  assumes "1 \<le> i" and "i \<le> n" and "P i" and "\<And>j. 1 \<le> j \<Longrightarrow> j < i \<Longrightarrow> \<not> P j"
  shows "find P [1..n] = Some i"
proof -
  have "[1..n] = [1..i - 1] @ i # [i + 1..n]"
    using assms(1,2) upto_split3 [of 1 i n] by simp
  moreover have "find P [1..i - 1] = None" using assms(4) by (auto simp: find_None_iff)
  ultimately show ?thesis using assms(3) by (simp add: find_append_None)
qed

text \<open>A released block comes back: when a live block is released and no block before it in the list is released and
  large enough, a request of at most its size is served by the same area. With the cleaning flag all bytes of the area
  are 0 and no other byte has changed; the header is the one of a live block again and no other header has changed.\<close>

theorem heap_reuse_released:
  assumes ok: "heap_ok s" and i: "1 \<le> i" "i \<le> mmblockCount s" and live: "b_Magic (bheap s (bound s i)) = 1234"
    and sz: "sz \<noteq> 0" "sz \<le> b_userareaSize (bheap s (bound s i))"
    and first: "\<forall>j \<in> {1..i - 1}. \<not> is_reusable sz s (bound s j)"
  shows "\<exists>s'. heapReuseMemory sz TRUE (heapFreeMemory (b_userArea (bheap s (bound s i))) s) = (b_userArea (bheap s (bound s i)), s') \<and>
    bheap s' = (bheap s)(bound s i := (bheap s (bound s i))\<lparr>b_Free := FALSE\<rparr>) \<and>
    (\<forall>a. hmem s' a = (if a \<in> region (b_userArea (bheap s (bound s i))) (unat (b_userareaSize (bheap s (bound s i)))) then 0 else hmem s a))"
proof -
  let ?p = "bound s i" and ?b = "bheap s (bound s i)"
  let ?t = "s\<lparr>bheap := (bheap s)(?p := ?b\<lparr>b_Used := TRUE, b_Magic := 4321\<rparr>)\<rparr>"
  note ad = block_address [OF ok i]
  have pos: "b_userareaSize ?b \<noteq> 0" using sz by auto
  have free: "heapFreeMemory (b_userArea ?b) s = ?t" by (rule free_block [OF ok i live pos])
  have nn: "?p \<noteq> NULL" "b_userArea ?b \<noteq> NULL" using ad(1,3,5) by auto
  have used: "b_Used ?b = TRUE" using ok i by (simp add: heap_ok_def block_ok_def)
  have nr: "\<not> is_reusable sz ?t (mmblockList ?t j)" if "1 \<le> j" "j < i" for j
  proof -
    have "bound s j \<noteq> ?p" using bound_mono [OF ok that] i by auto
    moreover have "mmblockList ?t j = bound s j" using that i by (simp add: bound_def)
    moreover have "\<not> is_reusable sz s (bound s j)" using first that by simp
    ultimately show ?thesis by (simp add: is_reusable_def)
  qed
  have "find (\<lambda>j. is_reusable sz ?t (mmblockList ?t j)) [1..mmblockCount ?t] = Some i"
  proof (rule find_first)
    have "mmblockList ?t i = ?p" using ad(4) by simp
    moreover have "is_reusable sz ?t ?p" using nn(1) sz(2) by (simp add: is_reusable_def)
    ultimately show "is_reusable sz ?t (mmblockList ?t i)" by (simp only:)
    show "\<not> is_reusable sz ?t (mmblockList ?t j)" if "1 \<le> j" "j < i" for j by (rule nr [OF that])
  qed (use i in simp_all)
  then have found: "find_reusable_block sz ?t = ?p" using sz(1) ad(4) by (simp add: find_reusable_block_def)
  have int: "c_int (uint (b_userareaSize ?b)) = int (unat (b_userareaSize ?b))"
    unfolding uint_nat c_int_def using block_size_small [OF ok i]
    by (intro signed_take_bit_int_eq_self) (simp_all del: of_nat_unat uint_nat)
  let ?s = "?t\<lparr>bheap := (bheap ?t)(?p := ?b\<lparr>b_Free := FALSE, b_Used := TRUE, b_Magic := 1234\<rparr>),
      hmem := memset (hmem s) (b_userArea ?b) 0 (int (unat (b_userareaSize ?b)))\<rparr>"
  have "heapReuseMemory sz TRUE ?t = (b_userArea ?b, ?s)"
    using found nn(1) sz(1) by (simp add: heapReuseMemory_def Let_def int)
  moreover have "bheap ?s = (bheap s)(?p := ?b\<lparr>b_Free := FALSE\<rparr>)" using used live by (simp add: fun_eq_iff)
  moreover have "hmem ?s a = (if a \<in> region (b_userArea ?b) (unat (b_userareaSize ?b)) then 0 else hmem s a)" for a
    using nn(2) memset_zero [of a "b_userArea ?b" "int (unat (b_userareaSize ?b))"]
      memset_outside [of a "b_userArea ?b" "int (unat (b_userareaSize ?b))"] by simp
  ultimately show ?thesis unfolding free by blast
qed

theorem heap_reuse_released_witness:
  "\<exists>s'. heapReuseMemory 50 TRUE (heapFreeMemory 0x30100048 used_heap) = (0x30100048, s') \<and>
     hmem s' 0x30100049 = 0 \<and> hmem s' 0x30100000 = 0xCC"
  using heap_reuse_released [of used_heap 1 50] by (auto simp: region_def)

section \<open>The contract holds for kmalloc\<close>

lemma heap_ok_usage: "heap_ok (s\<lparr>allocated_memory := f\<rparr>) = heap_ok s" "owned (s\<lparr>allocated_memory := f\<rparr>) = owned s"
  by (simp_all add: heap_ok_def bound_def block_ok_def owned_def)

lemma kmalloc_ok:
  assumes ok: "heap_ok s" and n: "0 < n" "n < 2 ^ 31" and r: "nat n + 72 \<le> unat (g_available_heap s)"
    and c: "mmblockCount s + 1 < MMBLOCK_COUNT_MAX"
  shows "\<exists>f. kmalloc process n s = Ok (g_heap_pointer s + sizeof_mmblock) (allocated (word_of_int n) s\<lparr>allocated_memory := f\<rparr>)"
    and "unat (area_size (word_of_int n)) = nat n"
proof -
  have w: "(ucast (word_of_int n :: u32) :: u64) = word_of_int n"
    using n by (simp add: unsigned_of_int take_bit_int_eq_self)
  have u: "unat (word_of_int n :: u64) = nat n" using n by (simp add: unat_eq_nat_uint uint_word_of_int)
  then show a: "unat (area_size (word_of_int n)) = nat n" using n by (auto simp: area_size_def)
  have e: "heapAllocateMemory (word_of_int n) s = Ok (g_heap_pointer s + sizeof_mmblock) (allocated (word_of_int n) s)"
    using r a by (intro alloc_eq ok c area_fits) simp
  have "unat (g_heap_pointer s + sizeof_mmblock) = unat (g_heap_pointer s) + 72"
    using unat_offset [of "g_heap_pointer s" 72] heap_pointer_range [OF ok] by simp
  then have nz: "g_heap_pointer s + sizeof_mmblock \<noteq> NULL" by (metis add_is_0 unat_0 zero_neq_numeral)
  have "\<exists>f. t = t\<lparr>allocated_memory := f\<rparr>" for t :: "'a kheap_scheme" by (rule exI [of _ "allocated_memory t"]) simp
  then show "\<exists>f. kmalloc process n s = Ok (g_heap_pointer s + sizeof_mmblock) (allocated (word_of_int n) s\<lparr>allocated_memory := f\<rparr>)"
    using n e nz by (auto simp: kmalloc_def kmalloc_impl_def Let_def w)
qed

interpretation km: allocator "kmalloc process" heap_ok owned "\<lambda>n. nat n + 72" "\<lambda>s. unat (g_available_heap s)"
  "\<lambda>s. nat (MMBLOCK_COUNT_MAX - 1 - mmblockCount s)" for process
proof
  fix s :: "'a kheap_scheme" and n :: int
  assume ok: "heap_ok s" and n: "0 < n" "n < 2 ^ 31" and r: "nat n + 72 \<le> unat (g_available_heap s)"
    and c: "0 < nat (MMBLOCK_COUNT_MAX - 1 - mmblockCount s)"
  have c': "mmblockCount s + 1 < MMBLOCK_COUNT_MAX" using c by simp
  obtain f where f: "kmalloc process n s = Ok (g_heap_pointer s + sizeof_mmblock) (allocated (word_of_int n) s\<lparr>allocated_memory := f\<rparr>)"
    using kmalloc_ok(1) [OF ok n r c'] by blast
  note a = kmalloc_ok(2) [OF ok n r c']
  have r': "unat (area_size (word_of_int n)) + 72 \<le> unat (g_available_heap s)" using r a by simp
  have "unat (g_heap_pointer s + sizeof_mmblock) = unat (g_heap_pointer s) + 72"
    using unat_offset [of "g_heap_pointer s" 72] heap_pointer_range [OF ok] by simp
  then have "g_heap_pointer s + sizeof_mmblock \<noteq> NULL" by (metis add_is_0 unat_0 zero_neq_numeral)
  moreover have "mmblockCount (allocated (word_of_int n) s) = mmblockCount s + 1" by (simp add: allocated_def Let_def)
  ultimately show "\<exists>p s'. kmalloc process n s = Ok p s' \<and> heap_ok s' \<and> p \<noteq> NULL \<and> region p (nat n) \<inter> owned s = {} \<and>
      owned s \<union> region p (nat n) \<subseteq> owned s' \<and> unat (g_available_heap s') = unat (g_available_heap s) - (nat n + 72) \<and>
      nat (MMBLOCK_COUNT_MAX - 1 - mmblockCount s') = nat (MMBLOCK_COUNT_MAX - 1 - mmblockCount s) - 1"
    using f heap_ok_allocated [OF ok c' r'] owned_allocated [OF ok c' r'] allocated_pointer(2) [OF ok r'] a
    by (auto simp: heap_ok_usage)
qed

text \<open>The other components of the state are not touched.\<close>

lemma kmalloc_more:
  fixes s :: "'a kheap_scheme"
  assumes "kmalloc process n s = Ok p s'"
  shows "kheap.more s' = kheap.more s"
proof -
  have 0: "case heapAllocateMemory sz s of Ok q t \<Rightarrow> kheap.more t = kheap.more s | _ \<Rightarrow> True" for sz
    unfolding heapAllocateMemory_def Let_def by simp
  have a: "kheap.more t = kheap.more s" if e: "heapAllocateMemory sz s = Ok q t" for sz q t
    using 0 [of sz] unfolding e by simp
  have i: "kheap.more t = kheap.more s" if "kmalloc_impl sz c s = Ok q t" for sz c q t
    using that a by (cases "heapAllocateMemory (ucast (word_of_int sz :: u32)) s") (auto simp: kmalloc_impl_def split: if_splits)
  show ?thesis using assms i
    by (cases "kmalloc_impl (if n = 0 then 1 else n) FALSE s") (auto simp: kmalloc_def Let_def split: if_splits)
qed

end
