(* ===== verification/Page_Pool_Laws.thy ===== *)
theory Page_Pool_Laws
  imports Page_Pool Kernel_Heap_Laws
begin

text \<open>
  The search for consecutive free slots is a first fit; \<open>allocPages\<close> returns consecutive pages with
  valid structures at distinct addresses, by the contract of \<open>kmalloc\<close>. \<open>pool_ok\<close> is the invariant
  of the pool, established by \<open>initializeFramesAlloc\<close>.
\<close>

section \<open>First fit\<close>

definition free_run :: "(int \<Rightarrow> ptr) \<Rightarrow> int \<Rightarrow> int \<Rightarrow> bool" where
  "free_run l sz b \<longleftrightarrow> 0 \<le> b \<and> b + sz \<le> PAGE_COUNT_MAX \<and> (\<forall>i \<in> {b..<b + sz}. l i = NULL)"

lemma first_slot_loop_spec:
  assumes "1 \<le> sz" and "i = Base + Count" and "0 \<le> Base" and "0 \<le> Count" and "Count < sz" and "i \<le> PAGE_COUNT_MAX"
    and "\<forall>j \<in> {Base..<i}. l j = NULL" and "\<forall>b < Base. \<not> free_run l sz b"
  shows "\<exists>r. first_slot_loop l sz Base Count i = Some r \<and>
    (free_run l sz r \<and> (\<forall>b < r. \<not> free_run l sz b) \<or> r = - 1 \<and> (\<forall>b. \<not> free_run l sz b))"
  using assms(2-)
proof (induction "nat (PAGE_COUNT_MAX - i)" arbitrary: Base Count i rule: less_induct)
  case less
  consider (done_all) "i = PAGE_COUNT_MAX" | (taken) "i < PAGE_COUNT_MAX" "l i \<noteq> NULL"
    | (found) "i < PAGE_COUNT_MAX" "l i = NULL" "sz \<le> Count + 1" | (next_slot) "i < PAGE_COUNT_MAX" "l i = NULL" "Count + 1 < sz"
    using less.prems(5) by (cases "i = PAGE_COUNT_MAX"; cases "l i = NULL"; cases "sz \<le> Count + 1") auto
  then show ?case
  proof cases
    case done_all
    have "\<not> free_run l sz b" for b
      using less.prems(1,4,7) done_all by (cases "b < Base") (auto simp: free_run_def)
    then show ?thesis using done_all by (subst first_slot_loop.simps) simp
  next
    case taken
    have "\<not> free_run l sz b" if "b < i + 1" for b
    proof (cases "b < Base")
      case False
      then have "free_run l sz b \<longrightarrow> b \<le> i \<and> i < b + sz" using that less.prems(1,4) by (auto simp: free_run_def)
      with taken(2) show ?thesis by (auto simp: free_run_def)
    qed (use less.prems(7) in blast)
    then have "\<exists>r. first_slot_loop l sz (i + 1) 0 (i + 1) = Some r \<and>
        (free_run l sz r \<and> (\<forall>b < r. \<not> free_run l sz b) \<or> r = - 1 \<and> (\<forall>b. \<not> free_run l sz b))"
      using taken(1) less.prems assms(1) by (intro less.hyps) auto
    then show ?thesis using taken less.prems(1) by (subst first_slot_loop.simps) simp
  next
    case found
    have "\<forall>j \<in> {Base..<Base + sz}. l j = NULL"
    proof
      fix j assume j: "j \<in> {Base..<Base + sz}"
      show "l j = NULL"
      proof (cases "j = i")
        case False
        then have "j \<in> {Base..<i}" using j found(3) less.prems(1,4) by auto
        with less.prems(6) show ?thesis by blast
      qed (simp add: found(2))
    qed
    moreover have "Base + sz \<le> PAGE_COUNT_MAX" using found(1,3) less.prems(1,4) by simp
    ultimately have "free_run l sz Base" using less.prems(2) by (simp add: free_run_def)
    then show ?thesis using found less.prems(7) by (subst first_slot_loop.simps) simp
  next
    case next_slot
    have "\<forall>j \<in> {Base..<i + 1}. l j = NULL"
    proof
      fix j assume "j \<in> {Base..<i + 1}"
      then have "j \<in> {Base..<i} \<or> j = i" by auto
      with less.prems(6) next_slot(2) show "l j = NULL" by blast
    qed
    then have "\<exists>r. first_slot_loop l sz Base (Count + 1) (i + 1) = Some r \<and>
        (free_run l sz r \<and> (\<forall>b < r. \<not> free_run l sz b) \<or> r = - 1 \<and> (\<forall>b. \<not> free_run l sz b))"
      using next_slot less.prems by (intro less.hyps) auto
    then show ?thesis using next_slot by (subst first_slot_loop.simps) simp
  qed
qed

text \<open>C33. The search for \<open>sz\<close> consecutive free slots of the page pool ends, although it jumps back to its start at
  every occupied slot, and is a first fit: its result is the least base of such a run inside the table, and -1 exactly
  when there is none.\<close>

theorem first_slot_is_first_fit:
  assumes "1 \<le> sz"
  shows "\<exists>r. firstSlotForAList sz s = Some r \<and>
    (free_run (pageAllocList s) sz r \<and> (\<forall>b < r. \<not> free_run (pageAllocList s) sz b) \<or>
     r = - 1 \<and> (\<forall>b. \<not> free_run (pageAllocList s) sz b))"
  unfolding firstSlotForAList_def
  using assms by (intro first_slot_loop_spec) (auto simp: free_run_def)

text \<open>An empty pool over the fresh heap, with page tables that translate every address of the first gigabyte.\<close>

definition fresh_pool :: ppool where
  "fresh_pool = kheap.extend fresh_heap (ppool.fields (\<lambda>_. 0) (\<lambda>_. zero_page) 0x30600000 0x1000 (\<lambda>_. 0) 0 (\<lambda>_. 0) (\<lambda>_. 0) 0 0)"

lemma fresh_pool_simps [simp]:
  "pageAllocList fresh_pool = (\<lambda>_. 0)" "g_pagedpool_va fresh_pool = 0x30600000" "pp_pml4 fresh_pool = 0x1000"
  "g_available_heap fresh_pool = 0xD0000" "mmblockCount fresh_pool = 0"
  using fresh_heap_simps by (simp_all add: fresh_pool_def kheap.defs ppool.defs)

text \<open>A pool where every second slot is taken up to slot 9.\<close>

theorem first_slot_is_first_fit_witness:
  "\<exists>r. firstSlotForAList 2 (fresh_pool\<lparr>pageAllocList := (\<lambda>i. if i \<in> {0, 2, 4, 6, 8} then 0x30100048 else 0)\<rparr>) = Some r \<and>
     free_run (\<lambda>i. if i \<in> {0, 2, 4, 6, 8} then 0x30100048 else 0) 2 r"
proof -
  let ?l = "\<lambda>i. if i \<in> {0 :: int, 2, 4, 6, 8} then 0x30100048 else 0 :: ptr"
  have "free_run ?l 2 9" by (auto simp: free_run_def)
  then show ?thesis using first_slot_is_first_fit [of 2 "fresh_pool\<lparr>pageAllocList := ?l\<rparr>"] by auto
qed

section \<open>The invariant of the pool\<close>

definition slot_ok :: "ppool \<Rightarrow> int \<Rightarrow> bool" where
  "slot_ok s i \<longleftrightarrow> (let p = pageAllocList s i in p \<noteq> NULL \<longrightarrow>
     p \<in> owned s \<and> pg_id (pgheap s p) = i \<and> pg_used (pgheap s p) = TRUE \<and> pg_magic (pgheap s p) = 1234)"

definition pool_ok :: "ppool \<Rightarrow> bool" where
  "pool_ok s \<longleftrightarrow> heap_ok s \<and> (\<forall>i \<in> {0..<PAGE_COUNT_MAX}. slot_ok s i)"

text \<open>The pages of the pool are mapped.\<close>

definition pool_mapped :: "ppool \<Rightarrow> bool" where
  "pool_mapped s \<longleftrightarrow> (\<forall>i \<in> {0..<PAGE_COUNT_MAX}. \<exists>pa.
     virtual_to_physical (pp_qm s) (g_pagedpool_va s + word_of_int (i * 4096)) (pp_pml4 s) = Inr pa)"

text \<open>Room in the heap for \<open>n\<close> page structures.\<close>

definition page_room :: "int \<Rightarrow> ppool \<Rightarrow> bool" where
  "page_room n s \<longleftrightarrow> 112 * nat n \<le> unat (g_available_heap s) \<and> mmblockCount s + n < MMBLOCK_COUNT_MAX"

lemma ppool_more:
  assumes "kheap.more (s' :: ppool) = kheap.more s"
  shows "pageAllocList s' = pageAllocList s" "pgheap s' = pgheap s" "g_pagedpool_va s' = g_pagedpool_va s"
    "pp_pml4 s' = pp_pml4 s" "pp_qm s' = pp_qm s"
  using assms by (cases s; cases s'; simp)+

lemma page_kmalloc:
  assumes ok: "pool_ok s" and room: "page_room n s" and n: "0 < n"
  shows "\<exists>p s1. kmalloc process sizeof_page s = Ok p s1 \<and> heap_ok s1 \<and> p \<noteq> NULL \<and> p \<notin> owned s \<and> p \<in> owned s1 \<and>
    owned s \<subseteq> owned s1 \<and> page_room (n - 1) s1 \<and> pageAllocList s1 = pageAllocList s \<and> pgheap s1 = pgheap s \<and>
    g_pagedpool_va s1 = g_pagedpool_va s \<and> pp_pml4 s1 = pp_pml4 s \<and> pp_qm s1 = pp_qm s"
proof -
  have h: "heap_ok s" using ok by (simp add: pool_ok_def)
  have b: "nat sizeof_page + 72 \<le> unat (g_available_heap s)" "0 < nat (MMBLOCK_COUNT_MAX - 1 - mmblockCount s)"
    using room n by (auto simp: page_room_def)
  obtain p s1 where k: "kmalloc process sizeof_page s = Ok p s1" "heap_ok s1" "p \<noteq> NULL" "region p (nat sizeof_page) \<inter> owned s = {}"
      "owned s \<union> region p (nat sizeof_page) \<subseteq> owned s1" "unat (g_available_heap s1) = unat (g_available_heap s) - (nat sizeof_page + 72)"
      "nat (MMBLOCK_COUNT_MAX - 1 - mmblockCount s1) = nat (MMBLOCK_COUNT_MAX - 1 - mmblockCount s) - 1"
    using km.alloc_ok [OF h _ _ b, of process] by auto
  have "p \<in> region p (nat sizeof_page)" by (simp add: region_def)
  moreover have "page_room (n - 1) s1"
  proof -
    have e: "nat n = Suc (nat (n - 1))" using n by simp
    have "112 * nat n \<le> unat (g_available_heap s)" using room by (simp add: page_room_def)
    then have "112 * nat (n - 1) \<le> unat (g_available_heap s1)" using k(6) by (simp add: e)
    moreover have "mmblockCount s1 + (n - 1) < MMBLOCK_COUNT_MAX" using room n k(2,7) by (auto simp: page_room_def heap_ok_def)
    ultimately show ?thesis by (simp add: page_room_def)
  qed
  ultimately show ?thesis using k(1-5) ppool_more [OF kmalloc_more [OF k(1)]] by blast
qed

lemma heap_ok_pool [simp]: "heap_ok (s\<lparr>pgheap := x\<rparr>) = heap_ok s" "heap_ok (s\<lparr>pageAllocList := y\<rparr>) = heap_ok s"
  by (simp_all add: heap_ok_def block_ok_def bound_def)

lemma new_page_ok:
  assumes ok: "pool_ok s" and h: "heap_ok s1" and p: "p \<notin> owned s" "p \<in> owned s1" "owned s \<subseteq> owned s1"
    and l: "pageAllocList s1 = pageAllocList s" "pgheap s1 = pgheap s" and slot: "pageAllocList s slot = NULL"
  shows "pool_ok (set_next q p (new_page_at slot p pa s1))"
proof -
  let ?t = "set_next q p (new_page_at slot p pa s1)"
  have o: "owned ?t = owned s1" by (simp add: set_next_def new_page_at_def owned_def)
  have f: "pg_id (pgheap ?t a) = pg_id (pgheap (new_page_at slot p pa s1) a)" "pg_used (pgheap ?t a) = pg_used (pgheap (new_page_at slot p pa s1) a)"
    "pg_magic (pgheap ?t a) = pg_magic (pgheap (new_page_at slot p pa s1) a)" for a by (simp_all add: set_next_def)
  have "slot_ok ?t i" if "i \<in> {0..<PAGE_COUNT_MAX}" for i
  proof (cases "i = slot")
    case True
    then show ?thesis unfolding slot_ok_def Let_def o f using p by (simp add: set_next_def new_page_at_def zero_page_def)
  next
    case False
    have "slot_ok s i" using ok that by (simp add: pool_ok_def)
    then show ?thesis using False p unfolding slot_ok_def Let_def o f
      by (auto simp: set_next_def new_page_at_def l)
  qed
  moreover have "heap_ok ?t" using h by (simp add: set_next_def new_page_at_def)
  ultimately show ?thesis by (simp add: pool_ok_def)
qed

section \<open>Several pages\<close>

lemma c_int_slot [simp]: "0 \<le> i \<Longrightarrow> i < 512 \<Longrightarrow> c_int (i * 4096) = i * 4096"
  by (simp add: c_int_def signed_take_bit_int_eq_self)

lemma set_next_conductor [simp]: "pg_next (pgheap (set_next q p s) q) = p"
  by (simp add: set_next_def)

lemma set_next_new_page [simp]:
  "pageAllocList (set_next q p (new_page_at slot p pa s)) = (pageAllocList s)(slot := p)"
  "g_pagedpool_va (set_next q p (new_page_at slot p pa s)) = g_pagedpool_va s"
  "pp_pml4 (set_next q p (new_page_at slot p pa s)) = pp_pml4 s"
  "pp_qm (set_next q p (new_page_at slot p pa s)) = pp_qm s"
  "page_room n (set_next q p (new_page_at slot p pa s)) = page_room n s"
  by (simp_all add: set_next_def new_page_at_def page_room_def)

lemma is_page_struct_iff: "is_page_struct q s \<longleftrightarrow> q \<noteq> NULL \<and> (\<exists>i \<in> {0..<PAGE_COUNT_MAX}. pageAllocList s i = q)"
  unfolding is_page_struct_def by auto

lemma page_struct_new:
  "is_page_struct q s \<Longrightarrow> pageAllocList s1 = pageAllocList s \<Longrightarrow> pageAllocList s slot = NULL \<Longrightarrow> is_page_struct q (new_page_at slot p pa s1)"
  by (auto simp: is_page_struct_iff new_page_at_def)

lemma page_struct_self: "p \<noteq> NULL \<Longrightarrow> slot \<in> {0..<PAGE_COUNT_MAX} \<Longrightarrow> is_page_struct p (set_next q p (new_page_at slot p pa s))"
  by (auto simp: is_page_struct_iff)

lemma page_struct_owned: "pool_ok s \<Longrightarrow> is_page_struct q s \<Longrightarrow> q \<in> owned s"
  by (auto simp: is_page_struct_iff pool_ok_def slot_ok_def Let_def)

text \<open>The links that the loop writes: the structure that \<open>q\<close> points at gets the first new page as its successor, the
  other structures of the table are not touched, and the new pages are linked in order.\<close>

definition linked :: "ptr \<Rightarrow> int \<Rightarrow> int \<Rightarrow> ppool \<Rightarrow> ppool \<Rightarrow> bool" where
  "linked q slot end s s' \<longleftrightarrow>
     (\<forall>x. is_page_struct x s \<longrightarrow> pgheap s' x = (if x = q then (pgheap s x)\<lparr>pg_next := pageAllocList s' slot\<rparr> else pgheap s x)) \<and>
     (\<forall>i. slot \<le> i \<longrightarrow> i + 1 < end \<longrightarrow> pg_next (pgheap s' (pageAllocList s' i)) = pageAllocList s' (i + 1)) \<and>
     pp_qm s' = pp_qm s \<and> pp_pml4 s' = pp_pml4 s \<and> g_pagedpool_va s' = g_pagedpool_va s"

lemma alloc_loop_ok:
  assumes "pool_ok s" and "pool_mapped s" and "page_room (first + sz - slot) s"
    and "0 \<le> first" and "first \<le> slot" and "slot < first + sz" and "first + sz < PAGE_COUNT_MAX"
    and "\<forall>i \<in> {slot..<first + sz}. pageAllocList s i = NULL" and "\<forall>i \<in> {first..<slot}. pageAllocList s i \<noteq> NULL"
    and "is_page_struct q s"
  shows "\<exists>s'. alloc_loop process (g_pagedpool_va s) first sz [slot..first + sz] q (slot - first) s
      = Ok (g_pagedpool_va s + word_of_int (first * 4096)) s' \<and> pool_ok s' \<and>
    (\<forall>i \<in> {first..<first + sz}. pageAllocList s' i \<noteq> NULL) \<and>
    (\<forall>i. i \<notin> {slot..<first + sz} \<longrightarrow> pageAllocList s' i = pageAllocList s i) \<and> linked q slot (first + sz) s s'"
  using assms
proof (induction "nat (first + sz - slot)" arbitrary: slot q s rule: less_induct)
  case less
  have sl: "[slot..first + sz] = slot # [slot + 1..first + sz]" using less.prems(6) by (simp add: upto_rec1)
  have free: "pageAllocList s slot = NULL" using less.prems(6,8) by simp
  have i: "slot \<in> {0..<PAGE_COUNT_MAX}" "slot < 512" "0 \<le> slot" "first < 512" using less.prems(4-7) by auto
  have "0 < first + sz - slot" using less.prems(6) by simp
  from page_kmalloc [OF less.prems(1,3) this, of process] obtain p s1 where k:
      "kmalloc process sizeof_page s = Ok p s1" "heap_ok s1" "p \<noteq> NULL" "p \<notin> owned s" "p \<in> owned s1" "owned s \<subseteq> owned s1"
      "page_room (first + sz - slot - 1) s1" "pageAllocList s1 = pageAllocList s" "pgheap s1 = pgheap s"
      "g_pagedpool_va s1 = g_pagedpool_va s" "pp_pml4 s1 = pp_pml4 s" "pp_qm s1 = pp_qm s" by blast
  obtain pa where pa: "virtual_to_physical (pp_qm s) (g_pagedpool_va s + word_of_int (slot * 4096)) (pp_pml4 s) = Inr pa"
    using less.prems(2) i(1) unfolding pool_mapped_def by blast
  define s2 where "s2 = set_next q p (new_page_at slot p pa s1)"
  have ok2: "pool_ok s2" unfolding s2_def by (rule new_page_ok [OF less.prems(1) k(2,4,5,6,8,9) free])
  have l2: "pageAllocList s2 = (pageAllocList s)(slot := p)" "g_pagedpool_va s2 = g_pagedpool_va s" "pp_pml4 s2 = pp_pml4 s"
      "pp_qm s2 = pp_qm s" "page_room (first + sz - (slot + 1)) s2" "pg_next (pgheap s2 q) = p"
    using k(7) by (simp_all add: s2_def k diff_diff_eq)
  have q1: "is_page_struct q (new_page_at slot p pa s1)" by (rule page_struct_new [OF less.prems(10) k(8) free])
  have p2: "is_page_struct p s2" unfolding s2_def by (rule page_struct_self [OF k(3) i(1)])
  have x2: "x \<noteq> p" "is_page_struct x s2" "pgheap s2 x = (if x = q then (pgheap s x)\<lparr>pg_next := p\<rparr> else pgheap s x)"
    if "is_page_struct x s" for x
  proof -
    show "x \<noteq> p" using page_struct_owned [OF less.prems(1) that] k(4) by blast
    then show "pgheap s2 x = (if x = q then (pgheap s x)\<lparr>pg_next := p\<rparr> else pgheap s x)"
      by (auto simp: s2_def set_next_def new_page_at_def k(9))
    show "is_page_struct x s2" using that free by (auto simp: is_page_struct_iff l2(1))
  qed
  have k40: "kmalloc process 40 s = Ok p s1" using k(1) by simp
  have pa': "virtual_to_physical (pp_qm s) (g_pagedpool_va s + word_of_int slot * 4096) (pp_pml4 s) = Inr pa" using pa by simp
  have taken: "\<forall>i \<in> {first..<slot + 1}. pageAllocList s2 i \<noteq> NULL" using less.prems(9) k(3) by (auto simp: l2)
  show ?case
  proof (cases "slot + 1 < first + sz")
    case True
    have m2: "pool_mapped s2" using less.prems(2) by (simp add: pool_mapped_def l2)
    have "\<exists>s'. alloc_loop process (g_pagedpool_va s2) first sz [slot + 1..first + sz] p (slot + 1 - first) s2
        = Ok (g_pagedpool_va s2 + word_of_int (first * 4096)) s' \<and> pool_ok s' \<and>
      (\<forall>i \<in> {first..<first + sz}. pageAllocList s' i \<noteq> NULL) \<and>
      (\<forall>i. i \<notin> {slot + 1..<first + sz} \<longrightarrow> pageAllocList s' i = pageAllocList s2 i) \<and> linked p (slot + 1) (first + sz) s2 s'"
    proof (rule less.hyps)
      show "nat (first + sz - (slot + 1)) < nat (first + sz - slot)" using True by simp
      show "\<forall>i \<in> {slot + 1..<first + sz}. pageAllocList s2 i = NULL" using less.prems(8) by (auto simp: l2)
    qed (use ok2 m2 l2(5) less.prems(4,5,7) True taken p2 in auto)
    then obtain s' where s': "alloc_loop process (g_pagedpool_va s) first sz [slot + 1..first + sz] p (slot + 1 - first) s2
          = Ok (g_pagedpool_va s + word_of_int (first * 4096)) s'" "pool_ok s'"
        "\<forall>i \<in> {first..<first + sz}. pageAllocList s' i \<noteq> NULL"
        "\<forall>i. i \<notin> {slot + 1..<first + sz} \<longrightarrow> pageAllocList s' i = pageAllocList s2 i"
        "linked p (slot + 1) (first + sz) s2 s'"
      unfolding l2(2) by blast
    have c: "slot - first + 1 = slot + 1 - first" "\<not> sz \<le> slot + 1 - first" using True by simp_all
    have "alloc_loop process (g_pagedpool_va s) first sz [slot..first + sz] q (slot - first) s
        = alloc_loop process (g_pagedpool_va s) first sz [slot + 1..first + sz] p (slot + 1 - first) s2"
      using k(3) i(2,3) c(2) q1 by (simp add: sl free k40 k(8-12) pa' s2_def [symmetric] l2(6) Let_def c(1))
    moreover have "\<forall>i. i \<notin> {slot..<first + sz} \<longrightarrow> pageAllocList s' i = pageAllocList s i"
      using s'(4) less.prems(6) by (auto simp: l2)
    moreover have "linked q slot (first + sz) s s'"
    proof -
      have sp: "pageAllocList s' slot = p" using s'(4) by (simp add: l2(1))
      have "pg_next (pgheap s' p) = pageAllocList s' (slot + 1)" using s'(5) p2 by (simp add: linked_def)
      moreover have "pgheap s' x = pgheap s2 x" if "is_page_struct x s" for x using s'(5) x2(1,2) [OF that] by (simp add: linked_def)
      moreover have "slot = i \<or> slot + 1 \<le> i" if "slot \<le> i" for i using that by linarith
      ultimately show ?thesis using s'(5) x2(3) unfolding linked_def l2(2-4) sp by (metis sp)
    qed
    ultimately show ?thesis using s' by metis
  next
    case False
    then have last: "sz \<le> slot - first + 1" using less.prems(6) by simp
    have p1: "pageAllocList s2 first \<noteq> NULL" using taken less.prems(5) by auto
    have "slot_ok s2 first" using ok2 i less.prems(4,5) by (simp add: pool_ok_def)
    then have v: "pg_id (pgheap s2 (pageAllocList s2 first)) = first" "pg_used (pgheap s2 (pageAllocList s2 first)) = TRUE"
        "pg_magic (pgheap s2 (pageAllocList s2 first)) = 1234" using p1 by (simp_all add: slot_ok_def Let_def)
    have e: "alloc_loop process (g_pagedpool_va s) first sz [slot..first + sz] q (slot - first) s
        = Ok (g_pagedpool_va s + word_of_int (first * 4096)) s2"
      using k(3) i(2,3,4) less.prems(4) last p1 v q1
      by (simp add: sl free k40 k(8-12) pa' s2_def [symmetric] Let_def)
    have "\<forall>i \<in> {first..<first + sz}. pageAllocList s2 i \<noteq> NULL" using taken False less.prems(6) by auto
    moreover have "\<forall>i. i \<notin> {slot..<first + sz} \<longrightarrow> pageAllocList s2 i = pageAllocList s i"
      using less.prems(6) by (auto simp: l2)
    moreover have "linked q slot (first + sz) s s2" using False x2(3) by (auto simp: linked_def l2)
    ultimately show ?thesis using e ok2 by blast
  qed
qed

text \<open>Without such luck the effect of the call is not defined: when a call for two or more pages returns, the garbage is
  a page structure of the table afterwards.\<close>

lemma kmalloc_table: "kmalloc process n (s :: ppool) = Ok p s1 \<Longrightarrow> pageAllocList s1 = pageAllocList s"
  by (rule ppool_more(1) [OF kmalloc_more])

lemma alloc_loop_pointer:
  "alloc_loop process base first sz slots q c s = Ok va u \<Longrightarrow>
    is_page_struct q u \<and> (\<forall>i. pageAllocList s i \<noteq> NULL \<longrightarrow> pageAllocList u i = pageAllocList s i)"
proof (induction slots arbitrary: q c s)
  case (Cons slot slots)
  show ?case
  proof (cases "pageAllocList s slot = NULL")
    case False
    then show ?thesis using Cons by simp
  next
    case free: True
    then obtain p s1 where k: "kmalloc process sizeof_page s = Ok p s1" "p \<noteq> NULL" using Cons.prems by (auto simp: bindR_eq_Ok split: if_splits)
    note t1 = kmalloc_table [OF k(1)]
    obtain pa where pa: "virtual_to_physical (pp_qm s1) (base + word_of_int (c_int (slot * 4096))) (pp_pml4 s1) = Inr pa"
      using Cons.prems free k by (auto split: sum.splits)
    let ?s2 = "set_next q p (new_page_at slot p pa s1)"
    have q: "is_page_struct q (new_page_at slot p pa s1)" using Cons.prems free k pa by (auto split: if_splits)
    have keep: "\<forall>i. pageAllocList s i \<noteq> NULL \<longrightarrow> pageAllocList ?s2 i = pageAllocList s i" using free by (simp add: t1)
    show ?thesis
    proof (cases "sz \<le> c + 1")
      case True
      then have "u = ?s2" using Cons.prems free k pa q by (simp add: Let_def split: if_splits)
      then show ?thesis using q keep by (simp add: is_page_struct_def new_page_at_def set_next_def)
    next
      case False
      then have "alloc_loop process base first sz slots p (c + 1) ?s2 = Ok va u" using Cons.prems free k pa q by (simp add: Let_def)
      from Cons.IH [OF this] have u: "\<forall>i. pageAllocList ?s2 i \<noteq> NULL \<longrightarrow> pageAllocList u i = pageAllocList ?s2 i" by blast
      moreover have "is_page_struct q ?s2" using q by (simp add: is_page_struct_def new_page_at_def set_next_def)
      ultimately have "is_page_struct q u" unfolding is_page_struct_iff by metis
      then show ?thesis using u keep by metis
    qed
  qed
qed simp

theorem allocPages_needs_page_pointer:
  assumes "allocPages process garbage sz s = Some (Ok va u)" and "sz \<noteq> 1"
  shows "is_page_struct garbage u"
  using assms alloc_loop_pointer by (auto simp: allocPages_def split: if_splits)

lemma pages_distinct:
  assumes ok: "pool_ok s" and t: "\<forall>i \<in> A. pageAllocList s i \<noteq> NULL" and A: "A \<subseteq> {0..<PAGE_COUNT_MAX}"
  shows "inj_on (pageAllocList s) A"
proof (rule inj_onI)
  fix i j assume ij: "i \<in> A" "j \<in> A" and e: "pageAllocList s i = pageAllocList s j"
  have id: "pg_id (pgheap s (pageAllocList s k)) = k" if "k \<in> A" for k
  proof -
    have "slot_ok s k" using ok A that unfolding pool_ok_def by blast
    then show ?thesis using t that by (simp add: slot_ok_def Let_def)
  qed
  show "i = j" using id [OF ij(1), unfolded e] id [OF ij(2)] by (rule trans [OF sym])
qed

text \<open>The initialisation of the pool establishes the invariant.\<close>

lemma initializeFramesAlloc_ok:
  assumes h: "heap_ok s" and room: "page_room n s" "0 < n"
  shows "\<exists>s'. initializeFramesAlloc process s = Ok () s' \<and> pool_ok s' \<and> page_room (n - 1) s' \<and>
    pageAllocList s' 0 \<noteq> NULL \<and> (\<forall>i \<in> {1..<PAGE_COUNT_MAX}. pageAllocList s' i = NULL)"
proof -
  let ?s = "s\<lparr>pageAllocList := (\<lambda>i. if 0 \<le> i \<and> i < PAGE_COUNT_MAX then 0 else pageAllocList s i)\<rparr>"
  have ok: "pool_ok ?s" using h by (simp add: pool_ok_def slot_ok_def)
  have "page_room n ?s" using room(1) by (simp add: page_room_def)
  from page_kmalloc [OF ok this room(2), of process] obtain p s1 where k: "kmalloc process sizeof_page ?s = Ok p s1" "heap_ok s1" "p \<noteq> NULL" "p \<notin> owned ?s" "p \<in> owned s1"
      "owned ?s \<subseteq> owned s1" "page_room (n - 1) s1" "pageAllocList s1 = pageAllocList ?s" "pgheap s1 = pgheap ?s"
    by blast
  let ?t = "s1\<lparr>pgheap := (pgheap s1)(p := zero_page\<lparr>pg_used := TRUE, pg_magic := 1234, pg_id := 0, pg_free := TRUE, pg_next := NULL\<rparr>),
      pageAllocList := (pageAllocList s1)(0 := p)\<rparr>"
  have o: "owned ?t = owned s1" by (simp add: owned_def)
  have "slot_ok ?t i" if "i \<in> {0..<PAGE_COUNT_MAX}" for i
    unfolding slot_ok_def Let_def o using that k(3,5,8) by (simp add: zero_page_def)
  then have "pool_ok ?t" using k(2) by (simp add: pool_ok_def)
  moreover have "page_room (n - 1) ?t" using k(7) by (simp add: page_room_def)
  moreover have "initializeFramesAlloc process s = Ok () ?t"
    unfolding initializeFramesAlloc_def Let_def k(1) using k(3) by simp
  moreover have "pageAllocList ?t 0 \<noteq> NULL" "\<forall>i \<in> {1..<PAGE_COUNT_MAX}. pageAllocList ?t i = NULL" using k(3,8) by simp_all
  ultimately show ?thesis by blast
qed

lemma allocPages_at:
  assumes "pool_ok s" and "pool_mapped s" and "page_room sz s" and "2 \<le> sz" and f: "firstSlotForAList sz s = Some first"
    and run: "free_run (pageAllocList s) sz first" and lim: "first + sz + 1 < PAGE_COUNT_MAX" and g: "is_page_struct garbage s"
  shows "\<exists>s'. allocPages process garbage sz s = Some (Ok (g_pagedpool_va s + word_of_int (first * 4096)) s') \<and> pool_ok s' \<and>
    inj_on (pageAllocList s') {first..<first + sz} \<and>
    (\<forall>i \<in> {first..<first + sz}. pageAllocList s' i \<noteq> NULL \<and> pageAllocList s' i \<in> owned s' \<and>
       pg_id (pgheap s' (pageAllocList s' i)) = i \<and> isValidPageStruct (pageAllocList s' i) s' = TRUE) \<and>
    (\<forall>i. i \<notin> {first..<first + sz} \<longrightarrow> pageAllocList s' i = pageAllocList s i) \<and> linked garbage first (first + sz) s s'"
proof -
  have r: "0 \<le> first" "sz < PAGE_COUNT_MAX" "\<forall>i \<in> {first..<first + sz}. pageAllocList s i = NULL"
    using run lim by (auto simp: free_run_def)
  obtain s' where a: "alloc_loop process (g_pagedpool_va s) first sz [first..first + sz] garbage 0 s
      = Ok (g_pagedpool_va s + word_of_int (first * 4096)) s'" "pool_ok s'"
      "\<forall>i \<in> {first..<first + sz}. pageAllocList s' i \<noteq> NULL"
      "\<forall>i. i \<notin> {first..<first + sz} \<longrightarrow> pageAllocList s' i = pageAllocList s i" "linked garbage first (first + sz) s s'"
    using alloc_loop_ok [OF assms(1,2), where slot = first and first = first and sz = sz and process = process and q = garbage]
      assms(3,4) r lim g by auto
  have in_table: "{first..<first + sz} \<subseteq> {0..<PAGE_COUNT_MAX}" using r(1) lim by auto
  have "allocPages process garbage sz s = Some (Ok (g_pagedpool_va s + word_of_int (first * 4096)) s')"
    using assms(4) r(1,2) lim by (simp add: allocPages_def f a(1))
  moreover have "pageAllocList s' i \<noteq> NULL \<and> pageAllocList s' i \<in> owned s' \<and> pg_id (pgheap s' (pageAllocList s' i)) = i \<and>
      isValidPageStruct (pageAllocList s' i) s' = TRUE" if "i \<in> {first..<first + sz}" for i
  proof -
    have "slot_ok s' i" using a(2) in_table that unfolding pool_ok_def by blast
    then show ?thesis using a(3) that by (simp add: slot_ok_def Let_def isValidPageStruct_def)
  qed
  ultimately show ?thesis using a(2,4,5) pages_distinct [OF a(2,3) in_table] by blast
qed

text \<open>One page: the first free slot, without the uninitialised pointer.\<close>

lemma allocPages_one:
  assumes ok: "pool_ok s" and room: "page_room 1 s" and f: "find (\<lambda>i. pageAllocList s i = NULL) [0..PAGE_COUNT_MAX - 1] = Some slot"
    and va: "g_pagedpool_va s \<noteq> 0" "g_pagedpool_va s + word_of_int (slot * 4096) \<noteq> 0"
    and pa: "virtual_to_physical (pp_qm s) (g_pagedpool_va s + word_of_int (slot * 4096)) (pp_pml4 s) = Inr pa" "pa \<noteq> 0"
  shows "\<exists>s'. allocPages process garbage 1 s = Some (Ok (g_pagedpool_va s + word_of_int (slot * 4096)) s') \<and> pool_ok s' \<and>
    pageAllocList s' slot \<noteq> NULL \<and> (\<forall>i. i \<noteq> slot \<longrightarrow> pageAllocList s' i = pageAllocList s i)"
proof -
  have sl: "0 \<le> slot" "slot < 512" "pageAllocList s slot = NULL" using f by (auto simp: find_Some_iff)
  have "(0 :: int) < 1" by simp
  from page_kmalloc [OF ok room this, of process] obtain p s1 where k: "kmalloc process sizeof_page s = Ok p s1" "heap_ok s1" "p \<noteq> NULL"
      "p \<notin> owned s" "p \<in> owned s1" "owned s \<subseteq> owned s1" "pageAllocList s1 = pageAllocList s" "pgheap s1 = pgheap s"
      "g_pagedpool_va s1 = g_pagedpool_va s" "pp_pml4 s1 = pp_pml4 s" "pp_qm s1 = pp_qm s" by blast
  let ?va = "g_pagedpool_va s + word_of_int (slot * 4096)"
  let ?pg = "zero_page\<lparr>pg_id := slot, pg_used := TRUE, pg_magic := 1234, pg_free := 0, pg_next := NULL\<rparr>"
  let ?t = "s1\<lparr>pgheap := (pgheap s1)(p := ?pg\<lparr>pg_locked := FALSE, pg_ref_count := 1, pg_absolute_frame_number := frame_number pa\<rparr>),
      pageAllocList := (pageAllocList s1)(slot := p)\<rparr>"
  have obj: "pageObject process s = Ok p (s1\<lparr>pgheap := (pgheap s1)(p := ?pg), pageAllocList := (pageAllocList s1)(slot := p)\<rparr>)"
    using f k(1,3) by (simp add: pageObject_def del: sizeof_page_def upto.simps)
  have new: "mmNewPage process s = Ok ?va ?t"
    unfolding mmNewPage_def Let_def obj bindR.simps
    using va pa k(3,8-11) sl by (simp add: zero_page_def)
  have o: "owned (?t\<lparr>hmem := m\<rparr>) = owned s1" for m by (simp add: owned_def)
  have "slot_ok (?t\<lparr>hmem := m\<rparr>) i" if "i \<in> {0..<PAGE_COUNT_MAX}" for i m
  proof (cases "i = slot")
    case False
    have "slot_ok s i" using ok that by (simp add: pool_ok_def)
    then show ?thesis using False k(4,6) unfolding slot_ok_def Let_def o by (auto simp: k(7,8))
  next
    case True
    then show ?thesis using k(5) unfolding slot_ok_def Let_def o by (simp add: zero_page_def)
  qed
  moreover have "heap_ok (?t\<lparr>hmem := m\<rparr>)" for m using k(2) by (simp add: heap_ok_hmem)
  ultimately have "pool_ok (?t\<lparr>hmem := m\<rparr>)" for m by (simp add: pool_ok_def)
  then show ?thesis
    using va(2) k(3,7) by (intro exI [of _ "?t\<lparr>hmem := memset (hmem ?t) ?va 0 4096\<rparr>"]) (simp add: allocPages_def new)
qed

lemma first_slot_first:
  assumes "1 \<le> sz" and "free_run (pageAllocList s) sz b"
  shows "\<exists>first \<le> b. firstSlotForAList sz s = Some first \<and> free_run (pageAllocList s) sz first \<and>
    (\<forall>c < first. \<not> free_run (pageAllocList s) sz c)"
proof -
  obtain first where "firstSlotForAList sz s = Some first" "free_run (pageAllocList s) sz first"
      "\<forall>c < first. \<not> free_run (pageAllocList s) sz c"
    using first_slot_loop_spec [of sz 0 0 0 "pageAllocList s"] assms unfolding firstSlotForAList_def
    by (force simp: free_run_def)
  moreover have "first \<le> b" using calculation(3) assms(2) by (metis not_less)
  ultimately show ?thesis by blast
qed

text \<open>C27. The allocation of two or more pages, when some run of free slots that is long enough ends before the
  last two slots of the table, the heap has room for the structures, and the uninitialised pointer through which
  the code writes its first link happens to hold the address of a page structure of the table: it returns the address of
  the first page of the first such run; the pages of the run are taken, each with its own valid structure with the number
  of its slot, linked in order; no other slot changes; of the old structures only the one that the pointer designates
  changes, whose link now leads to the first new page; the page tables are the same and the invariant of the pool and of
  the heap holds again. Without that luck the call is undefined (\<open>allocPages_needs_page_pointer\<close>).\<close>

theorem allocPages_contiguous:
  assumes "pool_ok s" and "pool_mapped s" and "page_room sz s" and "2 \<le> sz" and "free_run (pageAllocList s) sz b"
    and "b + sz + 1 < PAGE_COUNT_MAX" and "is_page_struct garbage s"
  shows "\<exists>first s'. allocPages process garbage sz s = Some (Ok (g_pagedpool_va s + word_of_int (first * 4096)) s') \<and>
    free_run (pageAllocList s) sz first \<and> (\<forall>c < first. \<not> free_run (pageAllocList s) sz c) \<and> pool_ok s' \<and>
    inj_on (pageAllocList s') {first..<first + sz} \<and>
    (\<forall>i \<in> {first..<first + sz}. pageAllocList s' i \<noteq> NULL \<and> pageAllocList s' i \<in> owned s' \<and>
       pg_id (pgheap s' (pageAllocList s' i)) = i \<and> isValidPageStruct (pageAllocList s' i) s' = TRUE) \<and>
    (\<forall>i. i \<notin> {first..<first + sz} \<longrightarrow> pageAllocList s' i = pageAllocList s i) \<and>
    (\<forall>i. first \<le> i \<and> i + 1 < first + sz \<longrightarrow> pg_next (pgheap s' (pageAllocList s' i)) = pageAllocList s' (i + 1)) \<and>
    (\<forall>x. is_page_struct x s \<longrightarrow>
       pgheap s' x = (if x = garbage then (pgheap s x)\<lparr>pg_next := pageAllocList s' first\<rparr> else pgheap s x)) \<and>
    pp_qm s' = pp_qm s \<and> pp_pml4 s' = pp_pml4 s"
proof -
  have "1 \<le> sz" using assms(4) by simp
  from first_slot_first [OF this assms(5)] obtain first where f: "firstSlotForAList sz s = Some first" "first \<le> b"
      "free_run (pageAllocList s) sz first" "\<forall>c < first. \<not> free_run (pageAllocList s) sz c" by blast
  then have "first + sz + 1 < PAGE_COUNT_MAX" using assms(6) by simp
  from allocPages_at [OF assms(1-4) f(1,3) this assms(7), of process] obtain s' where
    s': "allocPages process garbage sz s = Some (Ok (g_pagedpool_va s + word_of_int (first * 4096)) s')" "pool_ok s'"
      "inj_on (pageAllocList s') {first..<first + sz}"
      "\<forall>i \<in> {first..<first + sz}. pageAllocList s' i \<noteq> NULL \<and> pageAllocList s' i \<in> owned s' \<and>
         pg_id (pgheap s' (pageAllocList s' i)) = i \<and> isValidPageStruct (pageAllocList s' i) s' = TRUE"
      "\<forall>i. i \<notin> {first..<first + sz} \<longrightarrow> pageAllocList s' i = pageAllocList s i" "linked garbage first (first + sz) s s'" by blast
  show ?thesis using s'(1-5) f(3,4) s'(6) [unfolded linked_def] by (intro exI [of _ first] exI [of _ s'] conjI allI impI) blast+
qed

lemma fresh_pool_ok: "pool_ok fresh_pool"
proof -
  have "heap_ok fresh_pool = heap_ok fresh_heap"
    by (simp add: heap_ok_def block_ok_def bound_def fresh_pool_def kheap.defs ppool.defs)
  then show ?thesis by (simp add: pool_ok_def slot_ok_def)
qed

text \<open>The addresses of the pool are in the first gigabyte.\<close>

lemma pool_address_low:
  assumes "i \<in> {0..<PAGE_COUNT_MAX}"
  shows "unat (0x30600000 + word_of_int (i * 4096) :: u64) < 2 ^ 30"
proof -
  have "uint (word_of_int (i * 4096) :: u64) = i * 4096"
    unfolding uint_word_of_int using assms by (intro mod_pos_pos_trivial) auto
  then have "uint (0x30600000 + word_of_int (i * 4096) :: u64) = 0x30600000 + i * 4096"
    using assms by (simp add: uint_word_ariths)
  then show ?thesis using assms by (simp add: unat_eq_nat_uint nat_less_iff)
qed

lemma fresh_pool_mapped: "pool_mapped fresh_pool"
proof -
  have "\<exists>pa. virtual_to_physical m va 0x1000 = Inr pa" if "unat va < 2 ^ 30" for m va
  proof -
    have z: "drop_bit n va = 0" if "30 \<le> n" for n
    proof -
      have "(2 :: nat) ^ 30 \<le> 2 ^ n" using that by (intro power_increasing) auto
      then have "unat va div 2 ^ n = 0" using \<open>unat va < 2 ^ 30\<close> by simp
      then have "unat (drop_bit n va) = 0" unfolding unat_drop_bit_eq by (simp add: drop_bit_eq_div)
      then show ?thesis by (simp add: unat_eq_0)
    qed
    have l: "unat (x AND 0x1FF) \<ge> 512 \<longleftrightarrow> False" "x AND 0xFFF \<ge> 4096 \<longleftrightarrow> False" for x :: u64
      using word_and_le1 [of x "0x1FF"] word_and_le1 [of x "0xFFF"]
      by (auto simp: word_le_nat_alt)
    have z0: "unat (drop_bit 39 va AND 0x1FF) = 0" "unat (drop_bit 30 va AND 0x1FF) = 0" using z [of 39] z [of 30] by simp_all
    show ?thesis unfolding virtual_to_physical_def Let_def l z0 by simp
  qed
  then show ?thesis using pool_address_low unfolding pool_mapped_def by auto
qed

text \<open>The pool at the start, with its first structure.\<close>

lemma started_pool:
  obtains s where "initializeFramesAlloc 0x2000 fresh_pool = Ok () s" "pool_ok s" "pool_mapped s" "page_room 3 s"
    "pageAllocList s 0 \<noteq> NULL" "\<forall>i \<in> {1..<PAGE_COUNT_MAX}. pageAllocList s i = NULL" "g_pagedpool_va s = 0x30600000"
proof -
  have "heap_ok fresh_pool" "page_room 4 fresh_pool" using fresh_pool_ok by (simp_all add: pool_ok_def page_room_def)
  from initializeFramesAlloc_ok [OF this, of "0x2000"] obtain s where s: "initializeFramesAlloc 0x2000 fresh_pool = Ok () s" "pool_ok s"
    "page_room 3 s" "pageAllocList s 0 \<noteq> NULL" "\<forall>i \<in> {1..<PAGE_COUNT_MAX}. pageAllocList s i = NULL" by auto
  from s(1) obtain p t where t: "kmalloc 0x2000 sizeof_page (fresh_pool\<lparr>pageAllocList := (\<lambda>i. if 0 \<le> i \<and> i < PAGE_COUNT_MAX then 0 else pageAllocList fresh_pool i)\<rparr>) = Ok p t"
      "g_pagedpool_va s = g_pagedpool_va t" "pp_qm s = pp_qm t" "pp_pml4 s = pp_pml4 t"
    by (auto simp: initializeFramesAlloc_def bindR_eq_Ok simp del: fresh_pool_simps split: if_splits)
  have "g_pagedpool_va s = g_pagedpool_va fresh_pool" "pp_qm s = pp_qm fresh_pool" "pp_pml4 s = pp_pml4 fresh_pool"
    using ppool_more(3-5) [OF kmalloc_more [OF t(1)]] t(2-4) by simp_all
  then show ?thesis using s fresh_pool_mapped that by (simp add: pool_mapped_def)
qed

theorem allocPages_contiguous_witness:
  "\<exists>s first s'. initializeFramesAlloc 0x2000 fresh_pool = Ok () s \<and>
     allocPages 0x2000 (pageAllocList s 0) 3 s = Some (Ok (0x30600000 + word_of_int (first * 4096)) s') \<and> first = 1 \<and>
     pg_id (pgheap s' (pageAllocList s' 2)) = 2 \<and> pageAllocList s' 4 = NULL \<and>
     pg_next (pgheap s' (pageAllocList s 0)) = pageAllocList s' 1"
proof -
  obtain s where s: "initializeFramesAlloc 0x2000 fresh_pool = Ok () s" "pool_ok s" "pool_mapped s" "page_room 3 s"
    "pageAllocList s 0 \<noteq> NULL" "\<forall>i \<in> {1..<PAGE_COUNT_MAX}. pageAllocList s i = NULL" "g_pagedpool_va s = 0x30600000"
    using started_pool by blast
  have r: "free_run (pageAllocList s) 3 1" using s(6) by (auto simp: free_run_def)
  have g: "is_page_struct (pageAllocList s 0) s" using s(5) by (auto simp: is_page_struct_iff)
  obtain first s' where a: "allocPages 0x2000 (pageAllocList s 0) 3 s = Some (Ok (g_pagedpool_va s + word_of_int (first * 4096)) s')"
      "free_run (pageAllocList s) 3 first" "\<forall>c < first. \<not> free_run (pageAllocList s) 3 c"
      "\<forall>i \<in> {first..<first + 3}. pg_id (pgheap s' (pageAllocList s' i)) = i"
      "\<forall>i. i \<notin> {first..<first + 3} \<longrightarrow> pageAllocList s' i = pageAllocList s i"
      "pg_next (pgheap s' (pageAllocList s 0)) = pageAllocList s' first"
    using allocPages_contiguous [OF s(2,3,4) _ r _ g, of "0x2000"] g by auto
  have "\<not> first < 1" "\<not> 1 < first" using a(2,3) r s(5) by (auto simp: free_run_def)
  then have f: "first = 1" by simp
  have "2 \<in> {first..<first + 3}" "4 \<notin> {first..<first + 3}" "4 \<in> {1..<PAGE_COUNT_MAX}" by (simp_all add: f)
  then have "pg_id (pgheap s' (pageAllocList s' 2)) = 2" "pageAllocList s' 4 = NULL" using a(4,5) s(6) by metis+
  with a(1,6) show ?thesis unfolding s(7) using s(1) f by blast
qed

end
