(* ===== verification/Memory_Boot.thy ===== *)
theory Memory_Boot
  imports Paging_Laws Page_Pool_Laws
begin

text \<open>
  The start of the memory manager: the size of the physical memory (mmsize.c), the frame table
  (mmft.c), the kernel stack and the two phases of \<open>mmInitialize\<close> (mm.c), all under
  src/coreos/kernel/halls/apphalls/req/mm. Here the kernel heap, the page pool and the page tables
  meet: the state has the globals of all three. The base memory that the CMOS reports and the address
  of the last valid megabyte that the boot loader found are inputs.
\<close>

definition FRAMETABLE_START_PA :: u64 where [simp]: "FRAMETABLE_START_PA = 128 * 1024 * 1024"
definition FRAMETABLE_END_PA :: u64 where [simp]: "FRAMETABLE_END_PA = 256 * 1024 * 1024 - 0x800000"
definition FT_NUMBER_OF_SYSTEM_FRAMES :: u64 where [simp]: "FT_NUMBER_OF_SYSTEM_FRAMES = 512"
definition FT_NUMBER_OF_USER_FRAMES :: u64 where [simp]: "FT_NUMBER_OF_USER_FRAMES = 512"
definition KERNEL_STACK_START :: u64 where [simp]: "KERNEL_STACK_START = 0x301FFFF0"
definition KERNEL_STACK_END :: u64 where [simp]: "KERNEL_STACK_END = 0x301E0000"

datatype mm_system_type = stNull | stSmallSystem | stMediumSystem | stLargeSystem

record frame_table =
  ft_used :: int
  ft_magic :: int
  ft_initialized :: int
  ft_start_pa :: u64
  ft_end_pa :: u64
  ft_size_in_bytes :: u64
  ft_size_in_kb :: u64
  ft_size_in_mb :: u64
  ft_size_in_frames :: u64
  ft_number_of_system_frames :: u64
  ft_number_of_user_frames :: u64
  ft_number_of_used_frames :: u64
  ft_number_of_reserved_frames :: u64

record mboot =
  mb_pool :: ppool
  mb_paging :: paging
  memorysizeBaseMemory :: u64
  memorysizeOtherMemory :: u64
  memorysizeExtendedMemory :: u64
  memorysizeTotal :: u64
  memorysizeUsed :: u64
  memorysizeFree :: u64
  g_mm_system_type :: mm_system_type
  msi_initialized :: int
  FT :: frame_table
  mm_used_frame_table :: u64
  ks_initialized :: int
  ks_start :: u64
  ks_end :: u64

section \<open>Physical memory\<close>

definition mmsize_initialize :: "u64 \<Rightarrow> u64 \<Rightarrow> mboot \<Rightarrow> int \<times> mboot" where
  "mmsize_initialize blSavedLastValidAddress cmos_base s =
     (let total_in_kb = blSavedLastValidAddress div 0x400;
          base = cmos_base;
          other = 1024 - base;
          extended = total_in_kb - base - other;
          total = base + other + extended;
          s1 = s\<lparr>msi_initialized := FALSE, memorysizeBaseMemory := base, memorysizeOtherMemory := other,
             memorysizeExtendedMemory := extended, memorysizeTotal := total,
             g_mm_system_type := (if total \<ge> (1024 - 1) * 1024 then stLargeSystem else if total \<ge> (512 - 1) * 1024 then stMediumSystem
               else if total \<ge> (256 - 1) * 1024 then stSmallSystem else stNull)\<rparr>
      in if total = 0 then (FALSE, s1\<lparr>g_mm_system_type := stNull, msi_initialized := FALSE\<rparr>)
         else (TRUE, s1\<lparr>msi_initialized := TRUE\<rparr>))"

text \<open>The frame table. All three sizes of memory end in the same limit.\<close>

definition I_initialize_frame_table :: "mboot \<Rightarrow> (mboot, int) res" where
  "I_initialize_frame_table s =
     (if msi_initialized s \<noteq> TRUE then Panic ''I_initialize_frame_table: MemorySizeInfo''
      else let ft = (FT s)\<lparr>ft_initialized := FALSE, ft_used := FALSE, ft_magic := 0, ft_start_pa := FRAMETABLE_START_PA,
                 ft_end_pa := FRAMETABLE_START_PA\<rparr>
        in if memorysizeTotal s < 256 * 1024 \<and> memorysizeTotal s < 250 * 1024
           then Panic ''I_initialize_frame_table: Less than 250MB''
           else if memorysizeTotal s < 256 * 1024 \<and> FRAMETABLE_END_PA div 1024 \<ge> memorysizeTotal s
           then Panic ''I_initialize_frame_table:  Invalid FRAMETABLE_END_PA''
           else let ft1 = ft\<lparr>ft_end_pa := FRAMETABLE_END_PA\<rparr>
             in if ft_end_pa ft1 < ft_start_pa ft1 then Panic ''I_initialize_frame_table: FT.end_pa < FT.start_pa''
                else if ft_end_pa ft1 = ft_start_pa ft1 then Panic ''I_initialize_frame_table: No table''
                else if ft_end_pa ft1 > FRAMETABLE_END_PA then Panic ''I_initialize_frame_table: FT.end_pa > FRAMETABLE_END_PA''
                else let used = (ft_end_pa ft1 - ft_start_pa ft1) div 1024
                  in if ft_start_pa ft1 = 0 then Panic ''I_initialize_frame_table: FT.start_pa''
                     else if ft_end_pa ft1 = 0 then Panic ''I_initialize_frame_table: FT.end_pa''
                     else let bytes = ft_end_pa ft1 - ft_start_pa ft1; kb = bytes div 1024;
                              ft2 = ft1\<lparr>ft_size_in_bytes := bytes, ft_size_in_kb := kb, ft_size_in_mb := kb div 1024,
                                ft_size_in_frames := bytes div 4096,
                                ft_number_of_system_frames := FT_NUMBER_OF_SYSTEM_FRAMES,
                                ft_number_of_user_frames := FT_NUMBER_OF_USER_FRAMES,
                                ft_number_of_used_frames := FT_NUMBER_OF_SYSTEM_FRAMES + FT_NUMBER_OF_USER_FRAMES\<rparr>
                       in if ft_size_in_frames ft2 \<le> ft_number_of_used_frames ft2
                          then Panic ''I_initialize_frame_table: FT.size_in_frames''
                          else Ok 0 (s\<lparr>mm_used_frame_table := used,
                            FT := ft2\<lparr>ft_number_of_reserved_frames := ft_size_in_frames ft2 - ft_number_of_used_frames ft2,
                              ft_used := TRUE, ft_magic := 1234, ft_initialized := TRUE\<rparr>\<rparr>))"

definition mmGetFTStartPA :: "mboot \<Rightarrow> u64" where
  "mmGetFTStartPA s = ft_start_pa (FT s)"

definition mmGetFTEndPA :: "mboot \<Rightarrow> u64" where
  "mmGetFTEndPA s = ft_end_pa (FT s)"

definition mmSetupMemoryUsage :: "mboot \<Rightarrow> mboot" where
  "mmSetupMemoryUsage s =
     (let u = mm_used (mb_paging s);
          used = u Ring0Area + u Ring3Area + u KernelImage + u BackBuffer + u PagedPool + u HeapPool
            + u ExtraHeap1 + u ExtraHeap2 + u ExtraHeap3 + mm_used_frame_table s
      in s\<lparr>memorysizeUsed := used, memorysizeFree := memorysizeTotal s - used\<rparr>)"

section \<open>The two phases\<close>

definition init_kernel_stack :: "mboot \<Rightarrow> int \<times> mboot" where
  "init_kernel_stack s =
     (let s1 = s\<lparr>ks_initialized := FALSE, ks_end := KERNEL_STACK_END, ks_start := KERNEL_STACK_START\<rparr>
      in if ks_end s1 = 0 \<or> ks_start s1 = 0 then (- 1, s1\<lparr>ks_initialized := FALSE\<rparr>)
         else (0, s1\<lparr>ks_initialized := TRUE\<rparr>))"

text \<open>
  The globals that the page pool and the slab allocator read are those the page tables were built
  with. The routine \<open>slab_initialize\<close> is called inside \<open>pagesInitializePaging\<close>, after the last area.
\<close>

definition share_tables :: "mboot \<Rightarrow> mboot" where
  "share_tables s =
     (let g = mb_paging s
      in s\<lparr>mb_pool := (mb_pool s)\<lparr>pp_qm := qm g, pp_pml4 := gKernelPML4Address g, g_pagedpool_va := area_va g PagedPool,
           g_extraheap2_va := area_va g ExtraHeap2, g_extraheap3_va := area_va g ExtraHeap3\<rparr>\<rparr>)"

definition lift_pool :: "(ppool \<Rightarrow> (ppool, 'a) res) \<Rightarrow> mboot \<Rightarrow> (mboot, 'a) res" where
  "lift_pool f s = (case f (mb_pool s) of Ok a t \<Rightarrow> Ok a (s\<lparr>mb_pool := t\<rparr>) | Iretq t \<Rightarrow> Iretq (s\<lparr>mb_pool := t\<rparr>)
     | Panic e \<Rightarrow> Panic e | Fault e \<Rightarrow> Fault e)"

definition lift_paging :: "(paging \<Rightarrow> (paging, 'a) res) \<Rightarrow> mboot \<Rightarrow> (mboot, 'a) res" where
  "lift_paging f s = (case f (mb_paging s) of Ok a t \<Rightarrow> Ok a (s\<lparr>mb_paging := t\<rparr>) | Iretq t \<Rightarrow> Iretq (s\<lparr>mb_paging := t\<rparr>)
     | Panic e \<Rightarrow> Panic e | Fault e \<Rightarrow> Fault e)"

definition mmInitialize :: "u64 \<Rightarrow> u64 \<Rightarrow> ptr \<Rightarrow> int \<Rightarrow> mboot \<Rightarrow> (mboot, int) res" where
  "mmInitialize blSavedLastValidAddress cmos_base process phase s =
     (if phase = 0
      then let (Status, pool) = mmInitialize_heap (mb_pool s); s1 = s\<lparr>mb_pool := pool\<rparr>
        in if Status = FALSE then Ok FALSE s1
           else let (Status, s2) = init_kernel_stack s1
             in if Status \<noteq> 0 then Ok FALSE s2
                else Ok TRUE (snd (mmsize_initialize blSavedLastValidAddress cmos_base s2))
      else if phase = 1
      then bindR (lift_pool (initializeFramesAlloc process) s) (\<lambda>_ s1.
           bindR (lift_paging pagesInitializePaging s1) (\<lambda>PagingStatus s2.
           bindR (lift_pool slab_initialize (share_tables s2)) (\<lambda>_ s3.
           bindR (I_initialize_frame_table s3) (\<lambda>_ s4.
             if PagingStatus < 0 then Panic ''mmInitialize: Paging'' else Ok TRUE (mmSetupMemoryUsage s4)))))
      else Ok TRUE s)"

end
