(* ===== verification/Memory_Boot_Laws.thy ===== *)
theory Memory_Boot_Laws
  imports Memory_Boot
begin

text \<open>
  After the two phases of \<open>mmInitialize\<close> the invariants of the heap, the page pool and the page tables
  hold together: this is where the hypotheses of the laws of the page pool come from.
\<close>

section \<open>The frame table and the sizes\<close>

lemma mmsize_total:
  assumes "0x400 \<le> last_va"
  shows "fst (mmsize_initialize last_va base s) = TRUE" "memorysizeTotal (snd (mmsize_initialize last_va base s)) = last_va div 0x400"
    "msi_initialized (snd (mmsize_initialize last_va base s)) = TRUE"
proof -
  have "last_va div 0x400 \<noteq> 0"
  proof
    assume "last_va div 0x400 = 0"
    then have "unat (last_va div 0x400) = 0" by simp
    then have "unat last_va div 0x400 = 0" by (simp add: unat_div)
    then show False using assms by (simp add: word_le_nat_alt)
  qed
  then show "fst (mmsize_initialize last_va base s) = TRUE" "memorysizeTotal (snd (mmsize_initialize last_va base s)) = last_va div 0x400"
    "msi_initialized (snd (mmsize_initialize last_va base s)) = TRUE"
    by (simp_all add: mmsize_initialize_def Let_def)
qed

lemma mmsize_pool [simp]:
  "mb_pool (snd (mmsize_initialize last_va base s)) = mb_pool s" "mb_paging (snd (mmsize_initialize last_va base s)) = mb_paging s"
  by (simp_all add: mmsize_initialize_def Let_def)

lemma frame_table_ok:
  assumes "msi_initialized s = TRUE" and "250 * 1024 \<le> memorysizeTotal s"
  shows "\<exists>s'. I_initialize_frame_table s = Ok 0 s' \<and> mb_pool s' = mb_pool s \<and> mb_paging s' = mb_paging s \<and>
    memorysizeTotal s' = memorysizeTotal s \<and> mm_used_frame_table s' = 120 * 1024 \<and>
    ft_initialized (FT s') = TRUE \<and> ft_number_of_used_frames (FT s') + ft_number_of_reserved_frames (FT s') = 30 * 1024 \<and>
    mmGetFTStartPA s' + 4096 * ft_size_in_frames (FT s') = mmGetFTEndPA s'"
proof -
  have "\<not> memorysizeTotal s < 250 * 1024" "\<not> FRAMETABLE_END_PA div 1024 \<ge> memorysizeTotal s"
    using assms(2) by (auto simp: word_less_nat_alt word_le_nat_alt unat_div)
  then show ?thesis using assms(1) by (simp add: I_initialize_frame_table_def Let_def mmGetFTStartPA_def mmGetFTEndPA_def)
qed

lemma frame_table_small:
  assumes "memorysizeTotal s < 250 * 1024"
  shows "\<exists>m. I_initialize_frame_table s = Panic m"
proof -
  have "memorysizeTotal s < 256 * 1024" using assms by (auto simp: word_less_nat_alt)
  then show ?thesis using assms by (simp add: I_initialize_frame_table_def Let_def)
qed

section \<open>The amount of memory used by the areas\<close>

lemma initialize_area_used:
  "initialize_area A pa va used fl s = Ok () s' \<Longrightarrow> mm_used s' = (mm_used s)(A := used) \<and> SMALL_pa s' = SMALL_pa s"
  by (auto simp: initialize_area_def get_table_pointer_va_def bindR_eq_Ok Let_def split: if_splits)

lemmas area_routines = initialize_ring0area_def initialize_ring3area_def initialize_kernelimage_region_def
  initialize_frontbuffer_def initialize_backbuffer_def initialize_pagedpool_def initialize_heappool_def
  initialize_extraheap1_def initialize_extraheap2_def initialize_extraheap3_def initialize_extraheap_def

lemma areas_used:
  assumes "initialize_canonical_kernel_pagetables s = Ok () s'"
  shows "mm_used s' A = (if A = Ring0Area then 1024 else 2048)"
  using assms unfolding initialize_canonical_kernel_pagetables_def
  by (cases A) (auto simp: bindR_eq_Ok area_routines dest!: initialize_area_used)

lemma paging_used:
  assumes "pagesInitializePaging s = Ok r s'"
  shows "mm_used s' A = (if A = Ring0Area then 1024 else 2048)"
proof -
  obtain t where "initialize_canonical_kernel_pagetables t = Ok () s'"
    using assms by (auto simp: pagesInitializePaging_def bindR_eq_Ok Let_def split: if_splits)
  then show ?thesis by (rule areas_used)
qed

section \<open>The two phases\<close>

lemma phase0:
  assumes "0x400 \<le> last_va"
  shows "\<exists>s'. mmInitialize last_va base process 0 s = Ok TRUE s' \<and> heap_ok (mb_pool s') \<and> page_room 512 (mb_pool s') \<and>
    mb_paging s' = mb_paging s \<and> msi_initialized s' = TRUE \<and> memorysizeTotal s' = last_va div 0x400"
proof -
  define pool where "pool = snd (mmInitialize_heap (mb_pool s))"
  have p: "mmInitialize_heap (mb_pool s) = (TRUE, pool)" "heap_ok pool"
    using heap_ok_init [of "mb_pool s"] unfolding pool_def by (simp_all add: prod_eq_iff)
  obtain s1 where s1: "init_kernel_stack (s\<lparr>mb_pool := pool\<rparr>) = (0, s1)" "mb_pool s1 = pool" "mb_paging s1 = mb_paging s"
    by (simp add: init_kernel_stack_def Let_def)
  have "mmInitialize last_va base process 0 s = Ok TRUE (snd (mmsize_initialize last_va base s1))"
    unfolding mmInitialize_def p(1) using s1(1) by simp
  moreover have "page_room 512 pool"
    by (simp add: pool_def page_room_def mmInitialize_heap_def init_kernel_heap_def Let_def)
  ultimately show ?thesis using p(2) mmsize_total [OF assms, of base s1] s1(2,3) by simp
qed

text \<open>The page tables as \<open>mmInitialize\<close> leaves them.\<close>

lemma paging_boot:
  assumes "table_pointer_heap_base g = TABLE_POINTER_HEAP_BASE" and "good_region (gSavedLFB g)"
  shows "\<exists>g'. pagesInitializePaging g = Ok 0 g' \<and> area_va g' PagedPool = 0x30600000 \<and>
    area_va g' ExtraHeap2 = 0x30C00000 \<and> area_va g' ExtraHeap3 = 0x30E00000 \<and>
    (\<forall>A. mm_used g' A = (if A = Ring0Area then 1024 else 2048)) \<and>
    (\<forall>x < 2 ^ 21. virtual_to_physical (qm g') (0x30600000 + of_nat x) (gKernelPML4Address g') = Inr (0x1800000 + of_nat x)) \<and>
    (\<forall>x < 2 ^ 21. virtual_to_physical (qm g') (0x30000000 + of_nat x) (gKernelPML4Address g') = Inr (0x100000 + of_nat x))"
proof -
  let ?t = "SMALL_pa (initialize_canonical_physical_regions g)"
  obtain g' where g': "pagesInitializePaging g = Ok 0 g'" "kernel_tables (qm g')" "gKernelPML4Address g' = KERNEL_PML4_VA"
    and all: "\<forall>(f, A, d, pa) \<in> set kernel_areas. area_done g' A d (pa ?t)"
    using pagesInitializePaging_done [OF assms] by blast
  have d: "area_done g' PagedPool 0x183 (?t PagedPool)" "area_done g' ExtraHeap2 0x186 (?t ExtraHeap2)"
    "area_done g' ExtraHeap3 0x187 (?t ExtraHeap3)" "area_done g' KernelImage 0x180 0x100000"
    using all by (simp_all add: kernel_areas_def)
  have v: "area_va g' PagedPool = 0x30600000" "area_va g' ExtraHeap2 = 0x30C00000" "area_va g' ExtraHeap3 = 0x30E00000"
    "area_va g' KernelImage = 0x30000000" "paList g' PagedPool = 0x1800000" "paList g' KernelImage = 0x100000"
    using d by (simp_all add: area_done_def initialize_canonical_physical_regions_def)
  show ?thesis
    using g'(1) v(1-3) paging_used [OF g'(1)] area_done_translates [OF g'(2,3) d(1), unfolded v]
      area_done_translates [OF g'(2,3) d(4), unfolded v] by blast
qed

lemma slab_initialize_ok:
  assumes "g_extraheap2_va s \<noteq> 0" and "g_extraheap3_va s \<noteq> 0"
  shows "\<exists>s'. slab_initialize s = Ok () s' \<and> np_initialized s' = TRUE \<and> (\<forall>i < 4. np_free s' i = TRUE) \<and> owned s' = owned s \<and>
    pool_ok s' = pool_ok s \<and> page_room n s' = page_room n s \<and> pool_mapped s' = pool_mapped s \<and> pageAllocList s' = pageAllocList s \<and>
    g_pagedpool_va s' = g_pagedpool_va s \<and> pp_qm s' = pp_qm s \<and> pp_pml4 s' = pp_pml4 s"
proof -
  have "(\<forall>i < 4. P i) \<longleftrightarrow> P 0 \<and> P 1 \<and> P 2 \<and> P (3 :: nat)" for P
    by (auto simp: numeral_eq_Suc less_Suc_eq)
  then show ?thesis using assms
    by (simp add: slab_initialize_def Let_def pool_ok_def slot_ok_def page_room_def pool_mapped_def owned_def heap_ok_def block_ok_def bound_def)
qed

lemma mapped_pool:
  assumes "g_pagedpool_va s = 0x30600000"
    and "\<forall>x < 2 ^ 21. virtual_to_physical (pp_qm s) (0x30600000 + of_nat x) (pp_pml4 s) = Inr (0x1800000 + of_nat x)"
  shows "pool_mapped s"
  unfolding pool_mapped_def
proof
  fix i assume i: "i \<in> {0..<PAGE_COUNT_MAX}"
  have "(word_of_int (i * 4096) :: u64) = of_nat (nat (i * 4096))" using i by (simp add: of_nat_nat)
  moreover have "nat (i * 4096) < 2 ^ 21" using i by (simp add: nat_less_iff)
  ultimately show "\<exists>pa. virtual_to_physical (pp_qm s) (g_pagedpool_va s + word_of_int (i * 4096)) (pp_pml4 s) = Inr pa"
    unfolding assms(1) using assms(2) by metis
qed

lemma phase1:
  assumes h: "heap_ok (mb_pool s)" "page_room 512 (mb_pool s)" and m: "msi_initialized s = TRUE" "250 * 1024 \<le> memorysizeTotal s"
    and g: "table_pointer_heap_base (mb_paging s) = TABLE_POINTER_HEAP_BASE" "good_region (gSavedLFB (mb_paging s))"
  shows "\<exists>s'. mmInitialize last_va base process 1 s = Ok TRUE s' \<and> pool_ok (mb_pool s') \<and> pool_mapped (mb_pool s') \<and>
    page_room 511 (mb_pool s') \<and> np_initialized (mb_pool s') = TRUE \<and> g_pagedpool_va (mb_pool s') = 0x30600000 \<and>
    pageAllocList (mb_pool s') 0 \<noteq> NULL \<and> (\<forall>i \<in> {1..<PAGE_COUNT_MAX}. pageAllocList (mb_pool s') i = NULL) \<and>
    (\<forall>x < 2 ^ 21. virtual_to_physical (pp_qm (mb_pool s')) (0x30600000 + of_nat x) (pp_pml4 (mb_pool s')) = Inr (0x1800000 + of_nat x)) \<and>
    memorysizeUsed s' = 137 * 1024 \<and> memorysizeUsed s' + memorysizeFree s' = memorysizeTotal s"
proof -
  obtain p1 where p1: "initializeFramesAlloc process (mb_pool s) = Ok () p1" "pool_ok p1" "page_room (512 - 1) p1"
    "pageAllocList p1 0 \<noteq> NULL" "\<forall>i \<in> {1..<PAGE_COUNT_MAX}. pageAllocList p1 i = NULL"
    using initializeFramesAlloc_ok [OF h(1,2), of process] by auto
  obtain g' where g': "pagesInitializePaging (mb_paging s) = Ok 0 g'" "area_va g' PagedPool = 0x30600000"
    "area_va g' ExtraHeap2 = 0x30C00000" "area_va g' ExtraHeap3 = 0x30E00000" "\<forall>A. mm_used g' A = (if A = Ring0Area then 1024 else 2048)"
    "\<forall>x < 2 ^ 21. virtual_to_physical (qm g') (0x30600000 + of_nat x) (gKernelPML4Address g') = Inr (0x1800000 + of_nat x)"
    using paging_boot [OF g] by blast
  define p2 where "p2 = p1\<lparr>pp_qm := qm g', pp_pml4 := gKernelPML4Address g', g_pagedpool_va := area_va g' PagedPool,
      g_extraheap2_va := area_va g' ExtraHeap2, g_extraheap3_va := area_va g' ExtraHeap3\<rparr>"
  have "pool_ok p2 = pool_ok p1" "page_room 511 p2 = page_room 511 p1"
    by (simp_all add: p2_def pool_ok_def slot_ok_def page_room_def owned_def heap_ok_def block_ok_def bound_def)
  then have p2: "pool_ok p2" "page_room 511 p2" "pageAllocList p2 = pageAllocList p1" "g_pagedpool_va p2 = 0x30600000" "pp_qm p2 = qm g'"
    "pp_pml4 p2 = gKernelPML4Address g'" "g_extraheap2_va p2 \<noteq> 0" "g_extraheap3_va p2 \<noteq> 0"
    using p1(2,3) by (simp_all add: p2_def g')
  have mp: "pool_mapped p2" using g'(6) by (intro mapped_pool) (simp_all add: p2(4-6))
  obtain p3 where p3: "slab_initialize p2 = Ok () p3" "np_initialized p3 = TRUE" "pool_ok p3" "page_room 511 p3" "pool_mapped p3"
    "pageAllocList p3 = pageAllocList p1" "g_pagedpool_va p3 = 0x30600000" "pp_qm p3 = qm g'" "pp_pml4 p3 = gKernelPML4Address g'"
    using slab_initialize_ok [OF p2(7,8), of 511] p2(1-6) mp by auto
  define s3 where "s3 = s\<lparr>mb_paging := g', mb_pool := p3\<rparr>"
  obtain s4 where s4: "I_initialize_frame_table s3 = Ok 0 s4" "mb_pool s4 = p3" "mb_paging s4 = g'"
    "memorysizeTotal s4 = memorysizeTotal s" "mm_used_frame_table s4 = 120 * 1024"
    using frame_table_ok [of s3] m by (auto simp: s3_def)
  have "mmInitialize last_va base process 1 s = Ok TRUE (mmSetupMemoryUsage s4)"
    using p3(1) s4(1) unfolding s3_def p2_def
    by (simp add: mmInitialize_def lift_pool_def lift_paging_def p1(1) g'(1) share_tables_def Let_def)
  moreover have "mb_pool (mmSetupMemoryUsage s4) = p3" "memorysizeUsed (mmSetupMemoryUsage s4) = 137 * 1024"
    "memorysizeUsed (mmSetupMemoryUsage s4) + memorysizeFree (mmSetupMemoryUsage s4) = memorysizeTotal s"
    by (simp_all add: mmSetupMemoryUsage_def Let_def s4 g'(5))
  ultimately show ?thesis using p1(4,5) p3 g'(6) by auto
qed

text \<open>C7. The start of the memory manager on any machine whose last valid address is at 250MB or above, where the frame
  buffer lies in a region that the tables can map and the heap of page tables starts at its fixed address: both phases
  of \<open>mmInitialize\<close> succeed, from any content of the memory; afterwards the invariants of the heap and of the page
  pool hold, the accounts of used and free memory add up to the total, and a request for one page is granted at the
  second page of the pool, whose addresses the new page tables translate to the physical region of the pool. A
  request for between 2 and 509 pages is granted there as well when the uninitialised pointer of \<open>allocPages\<close>
  designates the only page structure of the table, and is undefined otherwise.\<close>

theorem memory_boot:
  assumes "table_pointer_heap_base (mb_paging s) = TABLE_POINTER_HEAP_BASE" and "good_region (gSavedLFB (mb_paging s))"
    and "250 * 1024 * 1024 \<le> last_va"
  shows "\<exists>s1 s2. mmInitialize last_va base process 0 s = Ok TRUE s1 \<and> mmInitialize last_va base process 1 s1 = Ok TRUE s2 \<and>
    pool_ok (mb_pool s2) \<and> memorysizeUsed s2 = 137 * 1024 \<and> memorysizeUsed s2 + memorysizeFree s2 = last_va div 1024 \<and>
    (\<forall>garbage. \<exists>s3. allocPages process garbage 1 (mb_pool s2) = Some (Ok 0x30601000 s3) \<and> pool_ok s3) \<and>
    (\<forall>sz. 2 \<le> sz \<longrightarrow> sz < 510 \<longrightarrow>
      (\<exists>s3. allocPages process (pageAllocList (mb_pool s2) 0) sz (mb_pool s2) = Some (Ok 0x30601000 s3) \<and> pool_ok s3)) \<and>
    (\<forall>x < 2 ^ 21. virtual_to_physical (pp_qm (mb_pool s2)) (0x30600000 + of_nat x) (pp_pml4 (mb_pool s2))
      = Inr (0x1800000 + of_nat x))"
proof -
  have l: "0x400 \<le> last_va" "250 * 1024 \<le> last_va div 0x400"
    using assms(3) by (simp_all add: word_le_nat_alt unat_div)
  obtain s1 where s1: "mmInitialize last_va base process 0 s = Ok TRUE s1" "heap_ok (mb_pool s1)" "page_room 512 (mb_pool s1)"
    "mb_paging s1 = mb_paging s" "msi_initialized s1 = TRUE" "memorysizeTotal s1 = last_va div 0x400"
    using phase0 [OF l(1)] by blast
  obtain s2 where s2: "mmInitialize last_va base process 1 s1 = Ok TRUE s2" "pool_ok (mb_pool s2)" "pool_mapped (mb_pool s2)"
    "page_room 511 (mb_pool s2)" "g_pagedpool_va (mb_pool s2) = 0x30600000"
    "pageAllocList (mb_pool s2) 0 \<noteq> NULL" "\<forall>i \<in> {1..<PAGE_COUNT_MAX}. pageAllocList (mb_pool s2) i = NULL"
    "\<forall>x < 2 ^ 21. virtual_to_physical (pp_qm (mb_pool s2)) (0x30600000 + of_nat x) (pp_pml4 (mb_pool s2)) = Inr (0x1800000 + of_nat x)"
    "memorysizeUsed s2 = 137 * 1024" "memorysizeUsed s2 + memorysizeFree s2 = last_va div 0x400"
    using phase1 [OF s1(2,3,5), of last_va base process] s1(4,6) l(2) assms(1,2) by auto
  have g: "is_page_struct (pageAllocList (mb_pool s2) 0) (mb_pool s2)" using s2(6) by (auto simp: is_page_struct_iff)
  have "\<exists>s3. allocPages process (pageAllocList (mb_pool s2) 0) sz (mb_pool s2) = Some (Ok 0x30601000 s3) \<and> pool_ok s3"
    if "2 \<le> sz" "sz < 510" for sz
  proof -
    have sz: "1 \<le> sz" and run: "free_run (pageAllocList (mb_pool s2)) sz 1" using that s2(7) by (auto simp: free_run_def)
    from first_slot_first [OF sz run] obtain first where f: "firstSlotForAList sz (mb_pool s2) = Some first" "first \<le> 1"
      "free_run (pageAllocList (mb_pool s2)) sz first" by blast
    then have "first = 1" using s2(6) sz by (cases "first = 0") (auto simp: free_run_def)
    moreover have "page_room sz (mb_pool s2)" using s2(4) that by (auto simp: page_room_def nat_le_iff)
    ultimately show ?thesis
      using allocPages_at [OF s2(2,3) _ that(1) f(1,3) _ g, of process] s2(5) that by auto
  qed
  moreover have "\<exists>s3. allocPages process garbage 1 (mb_pool s2) = Some (Ok 0x30601000 s3) \<and> pool_ok s3" for garbage
  proof -
    have "[0..PAGE_COUNT_MAX - 1] = 0 # 1 # [2..PAGE_COUNT_MAX - 1]" by (simp add: upto_rec1 [of 0] upto_rec1 [of 1])
    then have f: "find (\<lambda>i. pageAllocList (mb_pool s2) i = NULL) [0..PAGE_COUNT_MAX - 1] = Some 1" using s2(6,7) by simp
    have "page_room 1 (mb_pool s2)" using s2(4) by (auto simp: page_room_def)
    from allocPages_one [OF s2(2) this f, of "0x1801000" process garbage] s2(5) s2(8) [rule_format, of 4096] show ?thesis by auto
  qed
  ultimately show ?thesis using s1(1) s2 by simp
qed

text \<open>A machine with 256MB, of which the boot loader does not count the last megabyte.\<close>

definition boot_256 :: mboot where
  "boot_256 = \<lparr>mb_pool = fresh_pool\<lparr>pageAllocList := (\<lambda>_. 0xAAAA)\<rparr>, mb_paging = blank_paging, memorysizeBaseMemory = 0, memorysizeOtherMemory = 0,
     memorysizeExtendedMemory = 0, memorysizeTotal = 0, memorysizeUsed = 0, memorysizeFree = 0, g_mm_system_type = stNull, msi_initialized = 0,
     FT = \<lparr>ft_used = 0, ft_magic = 0, ft_initialized = 0, ft_start_pa = 0, ft_end_pa = 0, ft_size_in_bytes = 0, ft_size_in_kb = 0,
       ft_size_in_mb = 0, ft_size_in_frames = 0, ft_number_of_system_frames = 0, ft_number_of_user_frames = 0,
       ft_number_of_used_frames = 0, ft_number_of_reserved_frames = 0\<rparr>,
     mm_used_frame_table = 0, ks_initialized = 0, ks_start = 0, ks_end = 0\<rparr>"

theorem memory_boot_witness:
  "\<exists>s1 s2 s3 s4. mmInitialize 0xFF00000 640 0x2000 0 boot_256 = Ok TRUE s1 \<and>
     mmInitialize 0xFF00000 640 0x2000 1 s1 = Ok TRUE s2 \<and> allocPages 0x2000 0xDEAD 1 (mb_pool s2) = Some (Ok 0x30601000 s3) \<and>
     allocPages 0x2000 (pageAllocList (mb_pool s2) 0) 8 (mb_pool s2) = Some (Ok 0x30601000 s4)"
proof -
  have "good_region (gSavedLFB (mb_paging boot_256))"
    by (simp add: good_region_def page_aligned_def boot_256_def blank_paging_def)
  moreover have "table_pointer_heap_base (mb_paging boot_256) = TABLE_POINTER_HEAP_BASE" "250 * 1024 * 1024 \<le> (0xFF00000 :: u64)"
    by (simp_all add: boot_256_def blank_paging_def)
  ultimately obtain s1 s2 where
    b: "mmInitialize 0xFF00000 640 0x2000 0 boot_256 = Ok TRUE s1" "mmInitialize 0xFF00000 640 0x2000 1 s1 = Ok TRUE s2"
    "\<forall>garbage. \<exists>s3. allocPages 0x2000 garbage 1 (mb_pool s2) = Some (Ok 0x30601000 s3) \<and> pool_ok s3"
    "\<forall>sz. 2 \<le> sz \<longrightarrow> sz < 510 \<longrightarrow> (\<exists>s3. allocPages 0x2000 (pageAllocList (mb_pool s2) 0) sz (mb_pool s2) = Some (Ok 0x30601000 s3) \<and> pool_ok s3)"
    using memory_boot by blast
  have "\<exists>s3. allocPages 0x2000 (pageAllocList (mb_pool s2) 0) 8 (mb_pool s2) = Some (Ok 0x30601000 s3)" using b(4) [rule_format, of 8] by auto
  with b(1,2,3) show ?thesis by blast
qed

end
