(* ===== verification/Fat_Disk.thy ===== *)
theory Fat_Disk
  imports Kstring
begin

text \<open>
  The disk below the file system: reading and writing of sectors (\<open>read_lba\<close>, \<open>write_lba\<close> of
  src/coreos/kernel/halls/apphalls/per/blkdev/storage.c, the entry points of ata/atahdd.c) and of
  sequences of sectors (ata/disk_r.c, ata/disk_w.c), with the cache of the FAT and of the root
  directory at fixed addresses of the memory. The drive is a map from sectors to bytes. Whether it
  answers a command in time is a part of the state (\<open>drive_ready\<close>): the port protocol itself is not
  modelled, its timeout is.
\<close>

definition VOLUME1_FAT_ADDRESS :: ptr where [simp]: "VOLUME1_FAT_ADDRESS = 0x30000"
definition VOLUME1_ROOTDIR_ADDRESS :: ptr where [simp]: "VOLUME1_ROOTDIR_ADDRESS = 0x70000"
definition MBR_LBA :: u64 where [simp]: "MBR_LBA = 0"
definition VOLUME1_FAT_LBA :: u64 where [simp]: "VOLUME1_FAT_LBA = 67"
definition VOLUME1_ROOTDIR_LBA :: u64 where [simp]: "VOLUME1_ROOTDIR_LBA = 559"
definition VOLUME1_DATAAREA_LBA :: u64 where [simp]: "VOLUME1_DATAAREA_LBA = 591"
definition VOLUME1_FAT_SIZE :: nat where [simp]: "VOLUME1_FAT_SIZE = 246"
definition FAT_CACHE_LOADED :: int where [simp]: "FAT_CACHE_LOADED = 1"
definition FAT_CACHE_NOT_LOADED :: int where [simp]: "FAT_CACHE_NOT_LOADED = 0"
definition FAT_CACHE_SAVED :: int where [simp]: "FAT_CACHE_SAVED = 1"
definition FAT_CACHE_NOT_SAVED :: int where [simp]: "FAT_CACHE_NOT_SAVED = 0"
definition FAT16_ROOT_ENTRIES :: nat where [simp]: "FAT16_ROOT_ENTRIES = 512"
definition CLUSTERS_TO_SAVE_MAX :: nat where [simp]: "CLUSTERS_TO_SAVE_MAX = 32 * 1024"
definition SECTOR_SIZE :: nat where [simp]: "SECTOR_SIZE = 512"

text \<open>The root file system: \<open>fs_root = None\<close> is the null pointer.\<close>

record filesystem =
  fs_used :: int
  fs_magic :: int
  fs_type :: int
  fs_spc :: int
  fs_dir_entries :: int
  fs_rootdir_address :: u64
  fs_rootdir_first_lba :: u64
  fs_fat_address :: u64
  fs_fat_first_lba :: u64
  fs_dataarea_first_lba :: u64
  fs_entry_size :: int

record fatfs =
  fmem :: mem
  disk :: "u64 \<Rightarrow> nat \<Rightarrow> u8"
  drive_ready :: "u64 \<Rightarrow> bool"
  gNumberOfSectorsInBootDisk :: u64
  g_currentvolume_fatbits :: int
  g_fat_cache_loaded :: int
  g_fat_cache_saved :: int
  fs_root :: "filesystem option"
  fat16ClustersToSave :: "nat \<Rightarrow> u16"

section \<open>Sectors\<close>

definition sector :: "fatfs \<Rightarrow> u64 \<Rightarrow> u8 list" where
  "sector s lba = map (disk s lba) [0..<SECTOR_SIZE]"

definition bytes :: "mem \<Rightarrow> ptr \<Rightarrow> nat \<Rightarrow> u8 list" where
  "bytes m p n = map (\<lambda>i. m (p + of_nat i)) [0..<n]"

text \<open>The 512 bytes that are stored in a sector.\<close>

definition sector_of :: "mem \<Rightarrow> ptr \<Rightarrow> nat \<Rightarrow> u8" where
  "sector_of m p = (\<lambda>i. if i < SECTOR_SIZE then m (p + of_nat i) else 0)"

definition ataReadSector :: "ptr \<Rightarrow> u64 \<Rightarrow> fatfs \<Rightarrow> (fatfs, int) res" where
  "ataReadSector buffer lba s =
     (if gNumberOfSectorsInBootDisk s = 0 then Panic ''ataReadSector: gNumberOfSectorsInBootDisk''
      else if lba \<ge> gNumberOfSectorsInBootDisk s then Panic ''ataReadSector: lba limits''
      else if \<not> drive_ready s lba then Ok (- 3) s
      else Ok 0 (s\<lparr>fmem := put (fmem s) buffer (sector s lba)\<rparr>))"

definition ataWriteSector :: "ptr \<Rightarrow> u64 \<Rightarrow> fatfs \<Rightarrow> (fatfs, int) res" where
  "ataWriteSector buffer lba s =
     (if gNumberOfSectorsInBootDisk s = 0 then Panic ''ataWriteSector: gNumberOfSectorsInBootDisk''
      else if lba \<ge> gNumberOfSectorsInBootDisk s then Panic ''ataWriteSector: lba limits''
      else if \<not> drive_ready s lba then Ok (- 3) s
      else Ok 0 (s\<lparr>disk := (disk s)(lba := sector_of (fmem s) buffer)\<rparr>))"

definition read_lba :: "int \<Rightarrow> ptr \<Rightarrow> u64 \<Rightarrow> fatfs \<Rightarrow> (fatfs, int) res" where
  "read_lba disk_id address lba s =
     (if address = 0 then Ok (- 1) s
      else if g_currentvolume_fatbits s = 32 then Ok (- 1) s
      else if g_currentvolume_fatbits s = 16 then bindR (ataReadSector address lba s) (\<lambda>_ s1. Ok 0 s1)
      else if g_currentvolume_fatbits s = 12 then Ok (- 1) s
      else Panic ''read_lba: default'')"

definition write_lba :: "int \<Rightarrow> ptr \<Rightarrow> u64 \<Rightarrow> fatfs \<Rightarrow> (fatfs, int) res" where
  "write_lba disk_id address lba s =
     (if address = 0 then Ok (- 1) s
      else if g_currentvolume_fatbits s = 32 then Ok (- 1) s
      else if g_currentvolume_fatbits s = 16 then bindR (ataWriteSector address lba s) (\<lambda>_ s1. Ok 0 s1)
      else if g_currentvolume_fatbits s = 12 then Ok (- 1) s
      else Panic ''read_lba: default'')"

section \<open>Sequences of sectors\<close>

definition load_sequential_sectors :: "ptr \<Rightarrow> u64 \<Rightarrow> nat \<Rightarrow> fatfs \<Rightarrow> (fatfs, unit) res" where
  "load_sequential_sectors address lba sectors s =
     foldR (\<lambda>i s. bindR (ataReadSector (address + of_nat (512 * i)) (lba + of_nat i) s) (\<lambda>_ s1. Ok () s1)) [0..<sectors] s"

definition do_save_sequence :: "ptr \<Rightarrow> u64 \<Rightarrow> nat \<Rightarrow> fatfs \<Rightarrow> (fatfs, unit) res" where
  "do_save_sequence buffer_va lba sectors s =
     foldR (\<lambda>i s. bindR (ataWriteSector (buffer_va + of_nat (512 * i)) (lba + of_nat i) s) (\<lambda>_ s1. Ok () s1)) [0..<sectors] s"

definition fatClustToSect :: "u16 \<Rightarrow> u64 \<Rightarrow> u64 \<Rightarrow> u64" where
  "fatClustToSect cluster spc first_data_sector = (ucast cluster - 2) * spc + first_data_sector"

definition fatLoadCluster :: "u64 \<Rightarrow> ptr \<Rightarrow> nat \<Rightarrow> fatfs \<Rightarrow> (fatfs, unit) res" where
  "fatLoadCluster sect address spc s =
     foldR (\<lambda>i s. bindR (read_lba 0 (address + of_nat (512 * i)) (sect + of_nat i) s) (\<lambda>_ s1. Ok () s1)) [0..<spc] s"

definition fatWriteCluster :: "u64 \<Rightarrow> ptr \<Rightarrow> nat \<Rightarrow> fatfs \<Rightarrow> (fatfs, unit) res" where
  "fatWriteCluster sect address spc s =
     (if spc = 0 then Ok () s
      else foldR (\<lambda>i s. bindR (write_lba 0 (address + of_nat (512 * i)) (sect + of_nat i) s) (\<lambda>_ s1. Ok () s1)) [0..<spc] s)"

definition ata_load_boot_metafile :: "ptr \<Rightarrow> u64 \<Rightarrow> u64 \<Rightarrow> fatfs \<Rightarrow> (fatfs, unit) res" where
  "ata_load_boot_metafile buffer first_lba size_in_sectors s =
     (if buffer = 0 then Ok () s else if size_in_sectors = 0 then Ok () s
      else load_sequential_sectors buffer first_lba (unat (size_in_sectors AND 0xFFFFFFFF)) s)"

definition ata_store_boot_metafile :: "ptr \<Rightarrow> u64 \<Rightarrow> u64 \<Rightarrow> fatfs \<Rightarrow> (fatfs, unit) res" where
  "ata_store_boot_metafile buffer first_lba size_in_sectors s =
     (if buffer = 0 then Panic ''ata_store_boot_metafile: buffer''
      else if first_lba = 0 then Panic ''ata_store_boot_metafile: first_lba''
      else do_save_sequence buffer first_lba (nat (c_int (uint size_in_sectors))) s)"

definition fs_load_mbr :: "ptr \<Rightarrow> fatfs \<Rightarrow> (fatfs, unit) res" where
  "fs_load_mbr mbr_address s = load_sequential_sectors mbr_address MBR_LBA 1 s"

definition fs_load_fat :: "ptr \<Rightarrow> u64 \<Rightarrow> nat \<Rightarrow> fatfs \<Rightarrow> (fatfs, unit) res" where
  "fs_load_fat fat_address fat_lba sz s =
     (if g_fat_cache_loaded s = FAT_CACHE_LOADED then Ok () s
      else bindR (load_sequential_sectors fat_address fat_lba (sz mod 0x10000) s) (\<lambda>_ s1.
        Ok () (s1\<lparr>g_fat_cache_loaded := FAT_CACHE_LOADED\<rparr>)))"

definition fs_load_rootdir :: "ptr \<Rightarrow> u64 \<Rightarrow> nat \<Rightarrow> fatfs \<Rightarrow> (fatfs, unit) res" where
  "fs_load_rootdir root_address root_lba sz s = load_sequential_sectors root_address root_lba (sz mod 0x10000) s"

definition fs_save_fat :: "ptr \<Rightarrow> u64 \<Rightarrow> nat \<Rightarrow> fatfs \<Rightarrow> (fatfs, int) res" where
  "fs_save_fat fat_address fat_lba fat_size s =
     (if fat_address = 0 then Panic ''fs_save_fat: fat_address''
      else if fat_lba = 0 then Panic ''fs_save_fat: fat_lba''
      else if fat_size \<noteq> VOLUME1_FAT_SIZE then Panic ''fs_save_fat: fat_size''
      else bindR (do_save_sequence fat_address fat_lba fat_size s) (\<lambda>_ s1. Ok 0 s1))"

definition fs_save_rootdir :: "ptr \<Rightarrow> u64 \<Rightarrow> nat \<Rightarrow> fatfs \<Rightarrow> (fatfs, int) res" where
  "fs_save_rootdir root_address root_lba root_size s =
     (if root_address = 0 then Panic ''fs_save_rootdir: root_address''
      else if root_lba = 0 then Panic ''fs_save_rootdir: root_lba''
      else if root_size \<noteq> 32 then Panic ''fs_save_rootdir: root_size''
      else bindR (do_save_sequence root_address root_lba root_size s) (\<lambda>_ s1. Ok 0 s1))"

definition fs_fat16_cache_not_saved :: "fatfs \<Rightarrow> fatfs" where
  "fs_fat16_cache_not_saved s = s\<lparr>g_fat_cache_saved := FAT_CACHE_NOT_SAVED\<rparr>"

definition fs_save_fat16_cache :: "fatfs \<Rightarrow> (fatfs, int) res" where
  "fs_save_fat16_cache s =
     (if g_fat_cache_saved s \<noteq> FAT_CACHE_NOT_SAVED then Ok (- 1) s
      else bindR (fs_save_fat VOLUME1_FAT_ADDRESS VOLUME1_FAT_LBA VOLUME1_FAT_SIZE s) (\<lambda>_ s1.
        Ok 0 (s1\<lparr>g_fat_cache_saved := FAT_CACHE_SAVED\<rparr>)))"

end
