(* ===== verification/Fat_File.thy ===== *)
theory Fat_File
  imports Fat_Disk
begin

text \<open>
  Files of the FAT16 volume: names and directory entries (per/fs/fat/fat16.c, per/fs/search.c),
  loading a file along its cluster chain (\<open>fsLoadFile\<close>, per/fs/fsload.c) and saving one
  (\<open>fsSaveFile\<close>, per/fs/fslib.c), all under src/coreos/kernel/halls/apphalls. A loop that walks
  the chain in the FAT may not end: \<open>None\<close>. Local character arrays live at \<open>stk\<close>, the address of
  the stack frame; they are dead after the call and are not part of the resulting state.
\<close>

section \<open>Words of two bytes\<close>

definition short_at :: "mem \<Rightarrow> ptr \<Rightarrow> u16" where
  "short_at m a = ucast (m (a + 1)) * 256 + ucast (m a)"

definition put_short :: "mem \<Rightarrow> ptr \<Rightarrow> u16 \<Rightarrow> mem" where
  "put_short m a w = put m a [ucast w, ucast (drop_bit 8 w)]"

definition int_at :: "mem \<Rightarrow> ptr \<Rightarrow> u32" where
  "int_at m a = ucast (short_at m (a + 2)) * 65536 + ucast (short_at m a)"

text \<open>Elements of a table of shorts.\<close>

definition fat_at :: "ptr \<Rightarrow> u16 \<Rightarrow> ptr" where
  "fat_at fat c = fat + 2 * ucast c"

section \<open>Names\<close>

text \<open>The two loops that drop the spaces at the end of a part of the name: \<open>j\<close> counts down to \<open>lo\<close>.\<close>

function trim_spaces :: "mem \<Rightarrow> ptr \<Rightarrow> int \<Rightarrow> int \<Rightarrow> int" where
  "trim_spaces m src lo j = (if j \<ge> lo \<and> m (at_index src j) = 0x20 then trim_spaces m src lo (j - 1) else j)"
  by auto
termination by (relation "measure (\<lambda>(m, src, lo, j). nat (j - lo + 1))") auto

declare trim_spaces.simps [simp del]

text \<open>A loop that copies the characters \<open>is\<close> of \<open>src\<close> to \<open>dst\<close> from the index \<open>k\<close> on.\<close>

primrec copy_chars :: "ptr \<Rightarrow> ptr \<Rightarrow> int list \<Rightarrow> int \<Rightarrow> mem \<Rightarrow> mem \<times> int" where
  "copy_chars src dst [] k m = (m, k)"
| "copy_chars src dst (i # is) k m = copy_chars src dst is (k + 1) (m(at_index dst k := m (at_index src i)))"

definition from_FAT_name :: "ptr \<Rightarrow> ptr \<Rightarrow> mem \<Rightarrow> mem" where
  "from_FAT_name src dst m =
     (if src = NULL then m else if dst = NULL then m else if m src = 0 then m else if m dst = 0 then m
      else let j = trim_spaces m src 0 7;
               (m1, k) = copy_chars src dst [0..j] 0 m;
               (m2, k) = (if m1 src \<noteq> 0x2E then (m1(at_index dst k := 0x2E), k + 1) else (m1, k));
               j = trim_spaces m2 src 8 10
        in if j = 7
           then if k = 1 then m2(at_index dst k := 0)
                else if m2 dst = 0x2E then m2(at_index dst k := 0) else m2(at_index dst (k - 1) := 0)
           else let (m3, k) = copy_chars src dst [8..j] k m2 in m3(at_index dst k := 0))"

text \<open>The loops of \<open>to_FAT_name\<close>: copying up to the limit or a stop character, and filling with spaces.\<close>

function copy_part :: "bool \<Rightarrow> int \<Rightarrow> ptr \<Rightarrow> ptr \<Rightarrow> int \<Rightarrow> mem \<Rightarrow> mem \<times> ptr \<times> int" where
  "copy_part dot lim p dst i m =
     (if i < lim \<and> m p \<noteq> 0 \<and> \<not> (dot \<and> m p = 0x2E)
      then copy_part dot lim (p + 1) dst (i + 1) (m(at_index dst i := m p)) else (m, p, i))"
  by auto
termination by (relation "measure (\<lambda>(d, lim, p, dst, i, m). nat (lim - i))") auto

declare copy_part.simps [simp del]

function fill_spaces :: "int \<Rightarrow> ptr \<Rightarrow> int \<Rightarrow> mem \<Rightarrow> mem" where
  "fill_spaces lim dst i m = (if i < lim then fill_spaces lim dst (i + 1) (m(at_index dst i := 0x20)) else m)"
  by auto
termination by (relation "measure (\<lambda>(lim, dst, i, m). nat (lim - i))") auto

declare fill_spaces.simps [simp del]

text \<open>\<open>dots1\<close> and \<open>dots2\<close> are the addresses of the string constants of the current and the parent directory.\<close>

definition to_FAT_name :: "ptr \<Rightarrow> ptr \<Rightarrow> ptr \<Rightarrow> ptr \<Rightarrow> mem \<Rightarrow> mem option" where
  "to_FAT_name dots1 dots2 src dst m =
     Option.bind (strcmp m src dots2) (\<lambda>r2.
       if r2 = 0 then Option.bind (strcpy m dst src) (\<lambda>m1. Some (fill_spaces 11 dst 2 m1))
       else Option.bind (strcmp m src dots1) (\<lambda>r1.
         if r1 = 0 then Option.bind (strcpy m dst src) (\<lambda>m1. Some (fill_spaces 11 dst 1 m1))
         else let (m1, p, i) = copy_part True 8 src dst 0 m;
                  m2 = fill_spaces 8 dst i m1;
                  p = (if m2 p = 0x2E then p + 1 else p);
                  (m3, p, i) = copy_part False 11 p dst 8 m2
           in Some (fill_spaces 11 dst i m3)))"

section \<open>Directories\<close>

text \<open>The entry at \<open>e\<close> is compared with the name on \<open>n\<close> characters, through a copy in the stack frame.\<close>

definition entry_cmp :: "mem \<Rightarrow> ptr \<Rightarrow> ptr \<Rightarrow> ptr \<Rightarrow> int \<Rightarrow> int" where
  "entry_cmp m stk name e n =
     (let m1 = memcpy m stk e (word_of_int n) in kstrncmp (m1(at_index stk n := 0)) name stk n)"

definition dir_entry :: "ptr \<Rightarrow> nat \<Rightarrow> ptr" where
  "dir_entry dir i = dir + of_nat (32 * i)"

definition find_entry :: "mem \<Rightarrow> ptr \<Rightarrow> ptr \<Rightarrow> ptr \<Rightarrow> int \<Rightarrow> nat \<Rightarrow> nat option" where
  "find_entry m stk name dir n max_entries =
     find (\<lambda>i. short_at m (dir_entry dir i) \<noteq> 0 \<and> entry_cmp m stk name (dir_entry dir i) n = 0) [0..<max_entries]"

definition fsGetFileSize :: "ptr \<Rightarrow> ptr \<Rightarrow> ptr \<Rightarrow> fatfs \<Rightarrow> (fatfs, u64) res option" where
  "fsGetFileSize stk file_name dir_address s =
     (if file_name = NULL then Some (Ok 0 s) else if fmem s file_name = 0 then Some (Ok 0 s)
      else if dir_address = 0 then Some (Ok 0 s)
      else case (if dir_address = VOLUME1_ROOTDIR_ADDRESS then fs_load_rootdir VOLUME1_ROOTDIR_ADDRESS VOLUME1_ROOTDIR_LBA 32 s else Ok () s) of
        Ok _ s1 \<Rightarrow> (case fs_root s1 of None \<Rightarrow> Some (Panic ''fsGetFileSize: [FAIL] No root file system!'')
          | Some root \<Rightarrow> if fs_spc root \<le> 0 then Some (Panic ''fsGetFileSize: [FAIL] spc'')
             else if fs_dir_entries root = 0 then Some (Panic ''fsGetFileSize: [FAIL] max root entries'')
             else map_option (\<lambda>len.
               let sz = (if len > 11 then 11 else len)
               in case find_entry (fmem s1) stk file_name dir_address sz (nat (fs_dir_entries root)) of
                    None \<Rightarrow> Ok 0 s1
                  | Some i \<Rightarrow> Ok (ucast (int_at (fmem s1) (dir_entry dir_address i + 28))) s1)
               (strlen (fmem s1) file_name))
      | Iretq s1 \<Rightarrow> Some (Iretq s1) | Panic e \<Rightarrow> Some (Panic e) | Fault e \<Rightarrow> Some (Fault e))"

definition findEmptyDirectoryEntry :: "ptr \<Rightarrow> int \<Rightarrow> fatfs \<Rightarrow> int" where
  "findEmptyDirectoryEntry dir_address number_of_entries s =
     (if dir_address = 0 then - 1 else if number_of_entries < 0 then - 1
      else case find (\<lambda>i. fmem s (dir_entry dir_address i) = 0) [0..<nat number_of_entries] of
        None \<Rightarrow> - 1 | Some i \<Rightarrow> int i)"

text \<open>The copy of the desired name is padded with spaces when it has 8 to 10 characters; \<open>strncpy\<close> then fills it.\<close>

definition search_in_dir_imp :: "ptr \<Rightarrow> ptr \<Rightarrow> ptr \<Rightarrow> mem \<Rightarrow> int option" where
  "search_in_dir_imp stk file_name dir_address m =
     (if file_name = NULL then Some FALSE else if m file_name = 0 then Some FALSE else if dir_address = 0 then Some FALSE
      else map_option (\<lambda>len.
        if len > 11 then FALSE
        else let m1 = (if len = 10 then m(at_index stk 10 := 0x20)
                       else if len = 9 then m(at_index stk 10 := 0x20, at_index stk 9 := 0x20)
                       else if len = 8 then m(at_index stk 10 := 0x20, at_index stk 9 := 0x20, at_index stk 8 := 0x20) else m);
                 m2 = (strncpy m1 stk file_name 11)(at_index stk 11 := 0)
          in if m2 file_name = 0x2F then FALSE
             else case find (\<lambda>i. let e = dir_entry dir_address i in
                  m2 e \<noteq> 0xE5 \<and> m2 e \<noteq> 0x2E \<and> m2 e \<noteq> 0 \<and> entry_cmp m2 (stk + 13) stk e 11 = 0) [0..<512] of
               None \<Rightarrow> FALSE | Some i \<Rightarrow> TRUE) (strlen m file_name))"

definition search_in_dir :: "ptr \<Rightarrow> ptr \<Rightarrow> ptr \<Rightarrow> mem \<Rightarrow> int option" where
  "search_in_dir stk file_name dir_address m =
     (if file_name = NULL then Some FALSE else if m file_name = 0 then Some FALSE
      else search_in_dir_imp stk file_name dir_address m)"

definition search_in_root :: "ptr \<Rightarrow> ptr \<Rightarrow> mem \<Rightarrow> int option" where
  "search_in_root stk file_name m =
     (if file_name = NULL then Some FALSE else if m file_name = 0 then Some FALSE
      else search_in_dir stk file_name VOLUME1_ROOTDIR_ADDRESS m)"

definition fsSearchFileInRoot :: "ptr \<Rightarrow> ptr \<Rightarrow> mem \<Rightarrow> int option" where
  "fsSearchFileInRoot stk file_name m = (if file_name = NULL then Some FALSE else search_in_root stk file_name m)"

section \<open>Loading\<close>

definition check_address_validation :: "ptr \<Rightarrow> int" where
  "check_address_validation address =
     (if address = 0x30000 \<or> address = 0x70000 \<or> address = 0x30000000 \<or> address = 0x30200000 \<or> address = 0x30400000
      then FALSE else TRUE)"

text \<open>The chain: the FAT is read after the sector, from the memory that the sector was loaded into.\<close>

definition cluster_lba :: "u16 \<Rightarrow> u64" where
  "cluster_lba cluster = VOLUME1_DATAAREA_LBA + ucast cluster - 2"

partial_function (option) load_chain :: "ptr \<Rightarrow> u16 \<Rightarrow> ptr \<Rightarrow> int \<Rightarrow> fatfs \<Rightarrow> (fatfs, int) res option" where
  "load_chain fat cluster buffer nreads s =
     (if check_address_validation buffer \<noteq> TRUE then Some (Panic ''fsLoadFile: Not a valid address'')
      else if cluster = 0 \<or> cluster > 0xFFF0 then Some (Panic ''fsLoadFile: fat[] vector limits.'')
      else case read_lba 0 buffer (cluster_lba cluster) s of
        Ok _ s1 \<Rightarrow>
          (let next_cluster = short_at (fmem s1) (fat_at fat cluster) in
           if next_cluster = 0xFFF7 then Some (Panic ''fsLoadFile: Bad cluster'')
           else if next_cluster = 0xFFFF \<or> next_cluster = 0xFFF8
           then if (nreads + 1) div 2 > 408 then Some (Panic ''fsLoadFile: nreads'') else Some (Ok 0 s1)
           else load_chain fat next_cluster (buffer + of_nat SECTOR_SIZE) (nreads + 1) s1)
      | Iretq s1 \<Rightarrow> Some (Iretq s1) | Panic e \<Rightarrow> Some (Panic e) | Fault e \<Rightarrow> Some (Fault e))"

text \<open>The part after the file was found in entry \<open>e\<close>.\<close>

definition load_entry :: "ptr \<Rightarrow> ptr \<Rightarrow> ptr \<Rightarrow> fatfs \<Rightarrow> (fatfs, int) res option" where
  "load_entry fat e buffer s =
     (let cluster = short_at (fmem s) (e + 26) in
      if cluster = 0 \<or> cluster > 0xFFF0 then Some (Ok (- 1) s)
      else case fs_load_fat VOLUME1_FAT_ADDRESS VOLUME1_FAT_LBA 246 s of
        Ok _ s1 \<Rightarrow> load_chain fat cluster buffer 0 s1
      | Iretq s1 \<Rightarrow> Some (Iretq s1) | Panic m \<Rightarrow> Some (Panic m) | Fault m \<Rightarrow> Some (Fault m))"

definition fsLoadFile :: "ptr \<Rightarrow> ptr \<Rightarrow> ptr \<Rightarrow> int \<Rightarrow> ptr \<Rightarrow> ptr \<Rightarrow> u64 \<Rightarrow> fatfs \<Rightarrow> (fatfs, int) res option" where
  "fsLoadFile stk fat_address dir_address dir_entries file_name buffer buffer_size_in_bytes s =
     (let DirEntries = dir_entries mod 0x10000; BufferSizeInBytes = buffer_size_in_bytes AND 0xFFFFFFFF in
      if fat_address = 0 then Some (Panic ''fsLoadFile: fat_address'')
      else if dir_address = 0 then Some (Panic ''fsLoadFile: dir_address'')
      else if fat_address \<noteq> VOLUME1_FAT_ADDRESS then Some (Panic ''fsLoadFile: Not valid FAT address'')
      else if DirEntries > int FAT16_ROOT_ENTRIES then Some (Panic ''fsLoadFile: DirEntries'')
      else if DirEntries \<noteq> int FAT16_ROOT_ENTRIES then Some (Panic ''fsLoadFile: [DEBUG] DirEntries IS LESS THE 512'')
      else if BufferSizeInBytes = 0 then Some (Panic ''fsLoadFile: BufferSizeInBytes = 0'')
      else if BufferSizeInBytes > 512 * 4096 then Some (Panic ''fsLoadFile: BufferSizeInBytes limits'')
      else case fs_root s of None \<Rightarrow> Some (Panic ''fsLoadFile: root'') | Some root \<Rightarrow>
        if fs_used root \<noteq> TRUE \<or> fs_magic root \<noteq> 1234 then Some (Panic ''fsLoadFile: root validation'')
        else if fs_spc root \<le> 0 then Some (Panic ''fsLoadFile: Spc'')
        else if fs_dir_entries root \<noteq> int FAT16_ROOT_ENTRIES then Some (Panic ''fsLoadFile: root->dir_entries'')
        else if file_name = NULL then Some (Ok (- 1) s)
        else if fmem s file_name = 0 then Some (Ok (- 1) s)
        else Option.bind (strlen (fmem s) file_name) (\<lambda>FileNameSize.
          if FileNameSize > 11 then Some (Ok (- 1) s)
          else Option.bind (fsGetFileSize stk file_name dir_address s) (\<lambda>r. case r of
            Ok FileSize s1 \<Rightarrow>
              if FileSize \<ge> BufferSizeInBytes then Some (Ok (- 1) s1)
              else (case find_entry (fmem s1) stk file_name dir_address FileNameSize FAT16_ROOT_ENTRIES of
                  None \<Rightarrow> Some (Ok (- 1) s1)
                | Some i \<Rightarrow> load_entry fat_address (dir_entry dir_address i) buffer s1)
          | Iretq s1 \<Rightarrow> Some (Iretq s1) | Panic m \<Rightarrow> Some (Panic m) | Fault m \<Rightarrow> Some (Fault m))))"

section \<open>Saving\<close>

text \<open>
  The search for free clusters fills the list \<open>fat16ClustersToSave\<close>: \<open>k\<close> entries of the FAT remain
  to be visited, from cluster \<open>c\<close> on; the list ends with a marker, which is only written when one
  more free entry is found.
\<close>

primrec collect_free :: "mem \<Rightarrow> ptr \<Rightarrow> nat \<Rightarrow> u16 \<Rightarrow> nat \<Rightarrow> nat \<Rightarrow> (nat \<Rightarrow> u16) \<Rightarrow> bool \<times> (nat \<Rightarrow> u16)" where
  "collect_free m fat 0 c sz j l = (False, l)"
| "collect_free m fat (Suc k) c sz j l =
     (if short_at m (fat_at fat c) = 0
      then if sz = 0 then (True, l(j := 0xFFF8)) else collect_free m fat k (c + 1) (sz - 1) (j + 1) (l(j := c))
      else collect_free m fat k (c + 1) sz j l)"

definition new_dir_entry :: "mem \<Rightarrow> ptr \<Rightarrow> u16 \<Rightarrow> u64 \<Rightarrow> u8 \<Rightarrow> u8 list" where
  "new_dir_entry m file_name first_cluster size_in_bytes flag =
     bytes m file_name 8 @ (if flag = 0x10 then [0x20, 0x20, 0x20] else bytes m (file_name + 8) 3) @
     [flag, 0, 0x97, 0xD3, 0xBA, 0xE2, 0x58, 0xE2, 0x58, 0, 0, 0xD3, 0xBA, 0xE2, 0x58,
      ucast first_cluster, ucast (drop_bit 8 first_cluster)] @
     (if flag = 0x10 then [0, 0, 0, 0]
      else [ucast size_in_bytes, ucast (drop_bit 8 size_in_bytes), ucast (drop_bit 16 size_in_bytes), ucast (drop_bit 24 size_in_bytes)])"

text \<open>The loop over the list. Before its first element there is nothing: reading there is undefined.\<close>

function save_loop :: "ptr \<Rightarrow> nat \<Rightarrow> ptr \<Rightarrow> fatfs \<Rightarrow> (fatfs, int) res" where
  "save_loop fat i address s =
     (let next_cluster = fat16ClustersToSave s i in
      if next_cluster = 0xFFF8
      then if i = 0 then Fault ''fsSaveFile: fat16ClustersToSave[-1]''
           else Ok 0 (s\<lparr>fmem := put_short (fmem s) (fat_at fat (fat16ClustersToSave s (i - 1))) 0xFFF8\<rparr>)
      else bindR (ataWriteSector address (cluster_lba next_cluster)
             (s\<lparr>fmem := put_short (fmem s) (fat_at fat next_cluster) (fat16ClustersToSave s (i + 1))\<rparr>)) (\<lambda>_ s1.
        if i + 1 > 16 then Ok 1 s1 else save_loop fat (i + 1) (address + 512) s1))"
  by auto
termination by (relation "measure (\<lambda>(fat, i, address, s). 17 - i)") auto

declare save_loop.simps [simp del]

definition fsSaveFile :: "ptr \<Rightarrow> ptr \<Rightarrow> int \<Rightarrow> ptr \<Rightarrow> u64 \<Rightarrow> u64 \<Rightarrow> ptr \<Rightarrow> u8 \<Rightarrow> fatfs \<Rightarrow> (fatfs, int) res" where
  "fsSaveFile fat_address dir_address dir_entries file_name file_size size_in_bytes file_address flag s =
     (if fat_address = 0 then Panic ''fsSaveFile: fat_address''
      else if dir_address = 0 then Panic ''fsSaveFile: dir_address''
      else if fat_address \<noteq> VOLUME1_FAT_ADDRESS then Panic ''fsSaveFile: fat_address''
      else if file_name = NULL then Ok 1 s
      else if fmem s file_name = 0 then Ok 1 s
      else if dir_entries = 0 \<or> dir_entries > int FAT16_ROOT_ENTRIES then Panic ''fsSaveFile: [FAIL] max dir entries''
      else if file_size > 16 then Ok 1 s
      else bindR (fs_load_rootdir VOLUME1_ROOTDIR_ADDRESS VOLUME1_ROOTDIR_LBA 32 s) (\<lambda>_ s1.
           bindR (fs_load_fat VOLUME1_FAT_ADDRESS VOLUME1_FAT_LBA 246 s1) (\<lambda>_ s2.
             let (found, list) = collect_free (fmem s2) fat_address CLUSTERS_TO_SAVE_MAX 3 (unat file_size) 0 (fat16ClustersToSave s2);
                 s3 = s2\<lparr>fat16ClustersToSave := list\<rparr>
             in if \<not> found then Ok 1 s3
                else let DirEntry = new_dir_entry (fmem s3) file_name (list 0) size_in_bytes flag;
                         FreeIndex = findEmptyDirectoryEntry dir_address dir_entries s3
                  in if FreeIndex = - 1 then Ok 1 s3
                     else bindR (save_loop fat_address 0 file_address
                            (s3\<lparr>fmem := put (fmem s3) (dir_entry dir_address (nat FreeIndex)) DirEntry\<rparr>)) (\<lambda>r s4.
                       if r \<noteq> 0 then Ok 1 s4
                       else bindR (fs_save_rootdir VOLUME1_ROOTDIR_ADDRESS VOLUME1_ROOTDIR_LBA 32 s4) (\<lambda>_ s5.
                         Ok 0 (fs_fat16_cache_not_saved s5))))))"

definition EINVAL :: int where [simp]: "EINVAL = 22"

definition do_write_file_to_disk :: "ptr \<Rightarrow> u64 \<Rightarrow> u64 \<Rightarrow> ptr \<Rightarrow> u8 \<Rightarrow> fatfs \<Rightarrow> (fatfs, int) res" where
  "do_write_file_to_disk file_name file_size size_in_bytes file_address flag s =
     (if file_name = NULL then Ok (- EINVAL) s else if fmem s file_name = 0 then Ok (- EINVAL) s
      else fsSaveFile VOLUME1_FAT_ADDRESS VOLUME1_ROOTDIR_ADDRESS (int FAT16_ROOT_ENTRIES)
        (if fmem s file_name = 0x2F then file_name + 1 else file_name) file_size size_in_bytes file_address flag s)"

end
