(* ===== verification/Fat_Laws.thy ===== *)
theory Fat_Laws
  imports Fat_File Kstring_Laws
begin

text \<open>
  Loading a file. \<open>volume_ok\<close>: the boot volume is a FAT16 volume and the drive answers.
  \<open>mounted s\<close> is the state after the root directory and, if it is not cached, the FAT were read.
  \<open>fat_chain\<close> is a well formed chain of clusters in the cached FAT.
\<close>

section \<open>Words and bytes\<close>

lemma short_eq: "(ucast hi :: u16) * 256 + ucast lo = w \<longleftrightarrow> lo = ucast w \<and> hi = ucast (drop_bit 8 w)" for lo hi :: u8
proof -
  have lh: "unat lo < 256" "unat hi < 256" using unsigned_less [of lo, where 'a = nat] unsigned_less [of hi, where 'a = nat] by simp_all
  have w: "unat w < 65536" using unsigned_less [of w, where 'a = nat] by simp
  have s: "unat ((ucast hi :: u16) * 256 + ucast lo) = unat hi * 256 + unat lo"
    using lh by (simp add: unat_word_ariths unsigned_ucast_eq take_bit_eq_mod)
  have "unat (ucast w :: u8) = unat w mod 256" by (simp add: unsigned_ucast_eq take_bit_eq_mod)
  moreover have "unat (ucast (drop_bit 8 w) :: u8) = unat w div 256"
  proof -
    have "unat w div 256 < 256" using w by (simp add: div_less_iff_less_mult)
    then show ?thesis unfolding unsigned_ucast_eq unat_drop_bit_eq by (simp add: take_bit_eq_mod drop_bit_eq_div)
  qed
  moreover have "a * 256 + b = c \<longleftrightarrow> b = c mod 256 \<and> a = c div 256" if "b < 256" for a b c :: nat
    using that div_mult_mod_eq [of c 256] by auto
  ultimately show ?thesis unfolding word_unat_eq_iff s by (simp only: lh)
qed

lemma short_at_put: "short_at (put_short m a w) a = w"
proof -
  have "put_short m a w (a + 1) = ucast (drop_bit 8 w)" "put_short m a w a = ucast w"
    by (simp_all add: put_short_def put_Cons)
  then show ?thesis unfolding short_at_def using short_eq by blast
qed

lemma short_at_cong: "m' a = m a \<Longrightarrow> m' (a + 1) = m (a + 1) \<Longrightarrow> short_at m' a = short_at m a"
  by (simp add: short_at_def)

lemma length_bytes [simp]: "length (bytes m p n) = n"
  by (simp add: bytes_def)

lemma nth_bytes [simp]: "i < n \<Longrightarrow> bytes m p n ! i = m (p + of_nat i)"
  by (simp add: bytes_def)

lemma bytes_cong: "(\<And>a. a \<in> region p n \<Longrightarrow> m' a = m a) \<Longrightarrow> bytes m' p n = bytes m p n"
  by (simp add: bytes_def in_region_offset)

lemma bytes_put: "length xs \<le> 2 ^ 64 \<Longrightarrow> bytes (put m p xs) p (length xs) = xs"
  by (simp add: list_eq_iff_nth_eq put_nth)

lemma length_sector [simp]: "length (sector s lba) = 512"
  by (simp add: sector_def)

lemma memcpy_loop_put:
  assumes "apart d (unat n) p (unat n)"
  shows "memcpy_loop m d p n = put m d (bytes m p (unat n))"
  using assms
proof (induction "unat n" arbitrary: m d p n)
  case 0
  then have "n = 0" by (simp add: unat_eq_0)
  then show ?case by (simp add: memcpy_loop.simps bytes_def)
next
  case (Suc k)
  have n0: "n \<noteq> 0" using Suc.hyps(2) by auto
  have k: "unat (n - 1) = k" using Suc.hyps(2) n0 by (simp add: unat_minus_one)
  have kb: "k < 2 ^ 64" using unsigned_less [of "n - 1", where 'a = nat] k by simp
  have sub: "region (d + 1) k \<subseteq> region d (Suc k)" "region (p + 1) k \<subseteq> region p (Suc k)" by (rule region_shift)+
  have ap: "apart d (Suc k) p (Suc k)" using Suc.prems Suc.hyps(2) by simp
  have "apart (d + 1) (unat (n - 1)) (p + 1) (unat (n - 1))" unfolding k using ap sub by (auto simp: apart_def)
  from Suc.hyps(1) [OF k [symmetric] this]
  have "memcpy_loop m d p n = put (m(d := m p)) (d + 1) (bytes (m(d := m p)) (p + 1) k)"
    using n0 k by (subst memcpy_loop.simps) simp
  also have "bytes (m(d := m p)) (p + 1) k = bytes m (p + 1) k"
  proof (rule bytes_cong)
    fix a assume "a \<in> region (p + 1) k"
    then have "a \<noteq> d" using ap sub(2) region_self [of d k] unfolding apart_def by blast
    then show "(m(d := m p)) a = m a" by simp
  qed
  also have "put (m(d := m p)) (d + 1) (bytes m (p + 1) k) = put m d (m p # bytes m (p + 1) k)"
    using kb by (simp add: put_Cons)
  also have "m p # bytes m (p + 1) k = bytes m p (Suc k)"
    by (rule nth_equalityI) (auto simp: nth_Cons' algebra_simps split: nat.split)
  finally show ?case using Suc.hyps(2) by simp
qed

lemma memcpy_put: "apart d (unat n) p (unat n) \<Longrightarrow> memcpy m d p n = put m d (bytes m p (unat n))"
  by (simp add: memcpy_def memcpy_loop_put)

lemma kstrncmp_0:
  assumes "0 \<le> n"
  shows "kstrncmp m p q n = 0 \<longleftrightarrow>
    bytes m p (nat n) = bytes m q (nat n) \<and> m (p + word_of_int n) = 0 \<and> m (q + word_of_int n) = 0"
  using assms
proof (induction "nat n" arbitrary: p q n)
  case 0
  then show ?case by (subst kstrncmp.simps) (simp add: bytes_def)
next
  case (Suc k)
  then have n: "n = int k + 1" "0 \<le> int k" "nat (int k) = k" by simp_all
  have cons: "bytes m r (Suc k) = m r # bytes m (r + 1) k" for r
    by (rule nth_equalityI) (auto simp: nth_Cons' algebra_simps split: nat.split)
  have sh: "r + (of_nat k + 1) = r + 1 + of_nat k" for r :: ptr by simp
  show ?case
    using Suc.hyps(1) [OF n(3) [symmetric] n(2), of "p + 1" "q + 1"]
    by (subst kstrncmp.simps) (simp add: n(1) nat_add_distrib cons sh)
qed

lemma entry_cmp_iff:
  assumes nm: "cstr m name nm" "length nm = n" "n \<le> 11" and s: "apart stk 12 name (Suc n)" "apart stk 12 e n"
  shows "entry_cmp m stk name e (int n) = 0 \<longleftrightarrow> bytes m e n = nm"
proof -
  have un: "unat (word_of_int (int n) :: u64) = n" using nm(3) by (simp add: unat_of_nat64)
  have st: "region stk n \<subseteq> region stk 12" using nm(3) by (intro region_mono) simp
  have "apart stk n e n" using s(2) st by (auto simp: apart_def)
  then have cp: "memcpy m stk e (word_of_int (int n)) = put m stk (bytes m e n)"
    using memcpy_put [of stk "word_of_int (int n)" e m] by (simp only: un)
  let ?m = "(put m stk (bytes m e n))(at_index stk (int n) := 0)"
  have m: "?m = put m stk (bytes m e n @ [0])" using nm(3) by (simp add: put_append put_Cons)
  have out: "?m a = m a" if "a \<notin> region stk 12" for a
  proof -
    have "region stk (Suc n) \<subseteq> region stk 12" using nm(3) by (intro region_mono) simp
    then show ?thesis unfolding m using that by (intro put_outside) auto
  qed
  have "region name n \<subseteq> region name (Suc n)" by (intro region_mono) simp
  then have "bytes ?m name n = bytes m name n" using s(1) by (intro bytes_cong out) (auto simp: apart_def)
  also have "\<dots> = nm" using nm(1,2) by (auto simp: list_eq_iff_nth_eq cstr_nth)
  finally have b1: "bytes ?m name n = nm" .
  have "name + of_nat n \<in> region name (Suc n)" by (rule in_region_offset) simp
  then have "name + of_nat n \<notin> region stk 12" using s(1) unfolding apart_def by blast
  from out [OF this] have b2: "?m (name + of_nat n) = 0" using nm(1,2) by (simp add: cstr_nth del: fun_upd_apply)
  have b3: "bytes ?m stk n = bytes m e n" unfolding m using nm(3)
    by (auto simp: list_eq_iff_nth_eq put_nth nth_append)
  have b4: "?m (stk + of_nat n) = 0" by simp
  show ?thesis unfolding entry_cmp_def Let_def cp using b1 b2 b3 b4
    by (subst kstrncmp_0) (auto simp del: fun_upd_apply)
qed

section \<open>The volume and its tables\<close>

definition drive_ok :: "fatfs \<Rightarrow> bool" where
  "drive_ok s \<longleftrightarrow> 0 < gNumberOfSectorsInBootDisk s \<and> (\<forall>lba < gNumberOfSectorsInBootDisk s. drive_ready s lba)"

definition volume_ok :: "fatfs \<Rightarrow> bool" where
  "volume_ok s \<longleftrightarrow> drive_ok s \<and> VOLUME1_DATAAREA_LBA \<le> gNumberOfSectorsInBootDisk s \<and> g_currentvolume_fatbits s = 16 \<and>
     (case fs_root s of None \<Rightarrow> False | Some r \<Rightarrow> fs_used r = TRUE \<and> fs_magic r = 1234 \<and> 0 < fs_spc r \<and> fs_dir_entries r = 512)"

lemma read_ok: "drive_ok s \<Longrightarrow> lba < gNumberOfSectorsInBootDisk s \<Longrightarrow> ataReadSector a lba s = Ok 0 (s\<lparr>fmem := put (fmem s) a (sector s lba)\<rparr>)"
  by (auto simp: ataReadSector_def drive_ok_def)

lemma write_ok: "drive_ok s \<Longrightarrow> lba < gNumberOfSectorsInBootDisk s \<Longrightarrow>
    ataWriteSector a lba s = Ok 0 (s\<lparr>disk := (disk s)(lba := sector_of (fmem s) a)\<rparr>)"
  by (auto simp: ataWriteSector_def drive_ok_def)

lemma read_lba_ok: "volume_ok s \<Longrightarrow> lba < gNumberOfSectorsInBootDisk s \<Longrightarrow> a \<noteq> 0 \<Longrightarrow>
    read_lba d a lba s = Ok 0 (s\<lparr>fmem := put (fmem s) a (sector s lba)\<rparr>)"
  by (simp add: read_lba_def volume_ok_def read_ok)

lemma volume_ok_fmem [simp]: "volume_ok (s\<lparr>fmem := m\<rparr>) = volume_ok s" "drive_ok (s\<lparr>fmem := m\<rparr>) = drive_ok s"
    "volume_ok (s\<lparr>g_fat_cache_loaded := l\<rparr>) = volume_ok s" "drive_ok (s\<lparr>g_fat_cache_loaded := l\<rparr>) = drive_ok s"
    "sector (s\<lparr>fmem := m\<rparr>) = sector s" "sector (s\<lparr>g_fat_cache_loaded := l\<rparr>) = sector s"
  by (simp_all add: volume_ok_def drive_ok_def sector_def fun_eq_iff)

definition disk_range :: "fatfs \<Rightarrow> u64 \<Rightarrow> nat \<Rightarrow> u8 list" where
  "disk_range s lba n = concat (map (\<lambda>i. sector s (lba + of_nat i)) [0..<n])"

lemma length_disk_range [simp]: "length (disk_range s lba n) = 512 * n"
  by (induction n) (simp_all add: disk_range_def)

lemma disk_range_Suc: "disk_range s lba (Suc n) = disk_range s lba n @ sector s (lba + of_nat n)"
  by (simp add: disk_range_def)

lemma lba_less:
  assumes "unat lba + n \<le> unat (g :: u64)" and "i < n"
  shows "lba + of_nat i < g"
proof -
  have "unat (lba + of_nat i) = unat lba + i" using assms unsigned_less [of g, where 'a = nat] by (intro unat_offset) simp
  then show ?thesis using assms by (simp add: word_less_nat_alt)
qed

lemma load_sequential_ok:
  assumes "drive_ok s" and "unat lba + n \<le> unat (gNumberOfSectorsInBootDisk s)" and "512 * n \<le> 2 ^ 64"
  shows "load_sequential_sectors a lba n s = Ok () (s\<lparr>fmem := put (fmem s) a (disk_range s lba n)\<rparr>)"
  using assms
proof (induction n)
  case 0
  then show ?case by (simp add: load_sequential_sectors_def disk_range_def)
next
  case (Suc n)
  let ?s = "s\<lparr>fmem := put (fmem s) a (disk_range s lba n)\<rparr>"
  have l: "lba + of_nat n < gNumberOfSectorsInBootDisk s" using lba_less [OF Suc.prems(2), of n] by simp
  have "load_sequential_sectors a lba (Suc n) s
      = bindR (load_sequential_sectors a lba n s) (\<lambda>_ s1. bindR (ataReadSector (a + of_nat (512 * n)) (lba + of_nat n) s1) (\<lambda>_ s1. Ok () s1))"
    by (cases "load_sequential_sectors a lba n s") (simp_all add: load_sequential_sectors_def foldR_append bindR_assoc)
  also have "\<dots> = bindR (ataReadSector (a + of_nat (512 * n)) (lba + of_nat n) ?s) (\<lambda>_ s1. Ok () s1)"
    using Suc by simp
  also have "\<dots> = Ok () (s\<lparr>fmem := put (put (fmem s) a (disk_range s lba n)) (a + of_nat (512 * n)) (sector s (lba + of_nat n))\<rparr>)"
    using read_ok [of ?s] Suc.prems(1) l by simp
  also have "put (put (fmem s) a (disk_range s lba n)) (a + of_nat (512 * n)) (sector s (lba + of_nat n)) = put (fmem s) a (disk_range s lba (Suc n))"
    using put_append [of "disk_range s lba n" "sector s (lba + of_nat n)" "fmem s" a] Suc.prems(3) by (simp add: disk_range_Suc)
  finally show ?case .
qed

definition with_root :: "fatfs \<Rightarrow> fatfs" where
  "with_root s = s\<lparr>fmem := put (fmem s) VOLUME1_ROOTDIR_ADDRESS (disk_range s VOLUME1_ROOTDIR_LBA 32)\<rparr>"

definition with_fat :: "fatfs \<Rightarrow> fatfs" where
  "with_fat s = (if g_fat_cache_loaded s = FAT_CACHE_LOADED then s
     else s\<lparr>fmem := put (fmem s) VOLUME1_FAT_ADDRESS (disk_range s VOLUME1_FAT_LBA 246), g_fat_cache_loaded := FAT_CACHE_LOADED\<rparr>)"

definition mounted :: "fatfs \<Rightarrow> fatfs" where
  "mounted s = with_fat (with_root s)"

lemma mounted_keeps [simp]:
  "disk (with_root s) = disk s" "disk (with_fat s) = disk s" "volume_ok (with_root s) = volume_ok s" "volume_ok (with_fat s) = volume_ok s"
  "fs_root (with_root s) = fs_root s" "fs_root (with_fat s) = fs_root s" "sector (with_root s) = sector s" "sector (with_fat s) = sector s"
  "gNumberOfSectorsInBootDisk (with_root s) = gNumberOfSectorsInBootDisk s"
  "gNumberOfSectorsInBootDisk (with_fat s) = gNumberOfSectorsInBootDisk s" "g_fat_cache_loaded (with_fat s) = FAT_CACHE_LOADED"
  by (simp_all add: with_root_def with_fat_def)

lemma load_tables_ok:
  assumes "volume_ok s"
  shows "fs_load_rootdir VOLUME1_ROOTDIR_ADDRESS VOLUME1_ROOTDIR_LBA 32 s = Ok () (with_root s)"
    and "fs_load_fat VOLUME1_FAT_ADDRESS VOLUME1_FAT_LBA 246 s = Ok () (with_fat s)"
proof -
  have d: "drive_ok s" and l: "591 \<le> unat (gNumberOfSectorsInBootDisk s)"
    using assms by (auto simp: volume_ok_def word_le_nat_alt)
  show "fs_load_rootdir VOLUME1_ROOTDIR_ADDRESS VOLUME1_ROOTDIR_LBA 32 s = Ok () (with_root s)"
    using load_sequential_ok [OF d, of 559 32 "0x70000"] l by (simp add: fs_load_rootdir_def with_root_def)
  show "fs_load_fat VOLUME1_FAT_ADDRESS VOLUME1_FAT_LBA 246 s = Ok () (with_fat s)"
    using load_sequential_ok [OF d, of 67 246 "0x30000"] l by (simp add: fs_load_fat_def with_fat_def)
qed

text \<open>The regions of the two caches; the FAT with all entries that a short can index.\<close>

abbreviation "root_region \<equiv> region VOLUME1_ROOTDIR_ADDRESS 0x4000"
abbreviation "fat_region \<equiv> region VOLUME1_FAT_ADDRESS 0x20000"

lemma caches_apart: "fat_region \<inter> root_region = {}"
  using apart_ordered [of "0x30000" "0x20000" "0x70000" "0x4000"] by (simp add: apart_def)

lemma with_root_outside: "a \<notin> root_region \<Longrightarrow> fmem (with_root s) a = fmem s a"
  by (simp add: with_root_def put_outside)

lemma with_fat_outside: "a \<notin> fat_region \<Longrightarrow> fmem (with_fat s) a = fmem s a"
  using region_mono [of "512 * 246" "0x20000" "0x30000"] by (auto simp: with_fat_def intro!: put_outside)

section \<open>Chains of clusters\<close>

fun fat_chain :: "mem \<Rightarrow> u16 list \<Rightarrow> bool" where
  "fat_chain m [] \<longleftrightarrow> False"
| "fat_chain m [c] \<longleftrightarrow> c \<noteq> 0 \<and> c \<le> 0xFFF0 \<and> short_at m (fat_at VOLUME1_FAT_ADDRESS c) \<in> {0xFFFF, 0xFFF8}"
| "fat_chain m (c # d # cs) \<longleftrightarrow> c \<noteq> 0 \<and> c \<le> 0xFFF0 \<and> short_at m (fat_at VOLUME1_FAT_ADDRESS c) = d \<and> fat_chain m (d # cs)"

lemma fat_chain_head: "fat_chain m (c # cs) \<Longrightarrow> c \<noteq> 0 \<and> c \<le> 0xFFF0"
  by (cases cs) auto

lemma fat_at_region: "fat_at VOLUME1_FAT_ADDRESS c \<in> fat_region" "fat_at VOLUME1_FAT_ADDRESS c + 1 \<in> fat_region"
proof -
  have c: "unat c < 65536" using unsigned_less [of c, where 'a = nat] by simp
  have e: "fat_at VOLUME1_FAT_ADDRESS c = VOLUME1_FAT_ADDRESS + of_nat (2 * unat c)"
    by (simp add: fat_at_def word_unat_eq_iff unsigned_ucast_eq take_bit_nat_eq_self unat_word_ariths unat_of_nat64)
  have e1: "fat_at VOLUME1_FAT_ADDRESS c + 1 = VOLUME1_FAT_ADDRESS + of_nat (2 * unat c + 1)" unfolding e by simp
  show "fat_at VOLUME1_FAT_ADDRESS c \<in> fat_region" unfolding e using c by (intro in_region_offset) simp
  show "fat_at VOLUME1_FAT_ADDRESS c + 1 \<in> fat_region" unfolding e1 using c by (intro in_region_offset) simp
qed

lemma fat_short_cong:
  assumes "\<And>a. a \<in> fat_region \<Longrightarrow> m' a = m a"
  shows "short_at m' (fat_at VOLUME1_FAT_ADDRESS c) = short_at m (fat_at VOLUME1_FAT_ADDRESS c)"
  using assms fat_at_region by (intro short_at_cong) auto

lemma fat_chain_cong:
  assumes "\<And>a. a \<in> fat_region \<Longrightarrow> m' a = m a"
  shows "fat_chain m' cs = fat_chain m cs"
proof -
  have "\<forall>c. short_at m' (fat_at VOLUME1_FAT_ADDRESS c) = short_at m (fat_at VOLUME1_FAT_ADDRESS c)"
    using fat_short_cong [of m' m] assms by blast
  then show ?thesis by (induction m cs rule: fat_chain.induct) simp_all
qed

text \<open>The data of a chain, and the buffers that a file of \<open>n\<close> clusters may be loaded to.\<close>

definition chain_data :: "fatfs \<Rightarrow> u16 list \<Rightarrow> u8 list" where
  "chain_data s cs = concat (map (\<lambda>c. sector s (cluster_lba c)) cs)"

lemma length_chain_data [simp]: "length (chain_data s cs) = 512 * length cs"
  by (induction cs) (simp_all add: chain_data_def)

lemma chain_data_Cons: "chain_data s (c # cs) = sector s (cluster_lba c) @ chain_data s cs"
  by (simp add: chain_data_def)

lemma chain_data_fmem [simp]: "chain_data (s\<lparr>fmem := m\<rparr>) cs = chain_data s cs"
  by (simp add: chain_data_def)

definition buffer_ok :: "ptr \<Rightarrow> nat \<Rightarrow> bool" where
  "buffer_ok b n \<longleftrightarrow> 512 * n < 2 ^ 64 \<and> region b (512 * n) \<inter> fat_region = {} \<and>
     (\<forall>i < n. b + of_nat (512 * i) \<notin> {0, 0x30000, 0x70000, 0x30000000, 0x30200000, 0x30400000})"

lemma buffer_ok_Suc:
  assumes "buffer_ok b (Suc n)"
  shows "buffer_ok (b + 512) n" "b \<notin> {0, 0x30000, 0x70000, 0x30000000, 0x30200000, 0x30400000}" "region b 512 \<inter> fat_region = {}"
proof -
  have lim: "512 * Suc n < 2 ^ 64" and ap: "region b (512 * Suc n) \<inter> fat_region = {}"
    and bad: "\<And>i. i < Suc n \<Longrightarrow> b + of_nat (512 * i) \<notin> {0, 0x30000, 0x70000, 0x30000000, 0x30200000, 0x30400000}"
    using assms by (auto simp: buffer_ok_def)
  have e: "512 + 512 * n = 512 * Suc n" "b + of_nat 512 = b + 512" by simp_all
  have "region (b + 512) (512 * n) \<subseteq> region b (512 * Suc n)" using region_offset [of b 512 "512 * n"] unfolding e .
  then have "region (b + 512) (512 * n) \<inter> fat_region = {}" using ap by blast
  moreover have "b + 512 + of_nat (512 * i) \<notin> {0, 0x30000, 0x70000, 0x30000000, 0x30200000, 0x30400000}" if "i < n" for i
  proof -
    have "b + 512 + of_nat (512 * i) = b + of_nat (512 * Suc i)" by simp
    then show ?thesis using bad [of "Suc i"] that by (simp only: Suc_less_eq not_False_eq_True)
  qed
  ultimately show "buffer_ok (b + 512) n" using lim unfolding buffer_ok_def by simp
  show "b \<notin> {0, 0x30000, 0x70000, 0x30000000, 0x30200000, 0x30400000}" using bad [of 0] by simp
  have "region b 512 \<subseteq> region b (512 * Suc n)" by (intro region_mono) simp
  then show "region b 512 \<inter> fat_region = {}" using ap by blast
qed

lemma load_chain_ok:
  assumes "volume_ok s" and "fat_chain (fmem s) cs" and "\<forall>c \<in> set cs. cluster_lba c < gNumberOfSectorsInBootDisk s"
    and "buffer_ok b (length cs)" and "(nreads + int (length cs)) div 2 \<le> 408"
  shows "load_chain VOLUME1_FAT_ADDRESS (hd cs) b nreads s = Some (Ok 0 (s\<lparr>fmem := put (fmem s) b (chain_data s cs)\<rparr>))"
  using assms
proof (induction cs arbitrary: s b nreads)
  case (Cons c cs)
  have b: "buffer_ok (b + 512) (length cs)" "check_address_validation b = TRUE" "b \<noteq> 0" "region b 512 \<inter> fat_region = {}"
    using buffer_ok_Suc [of b "length cs"] Cons.prems(4) by (auto simp: check_address_validation_def)
  have c: "c \<noteq> 0" "\<not> c > 0xFFF0" using fat_chain_head [OF Cons.prems(2)] by auto
  define s1 where "s1 = s\<lparr>fmem := put (fmem s) b (sector s (cluster_lba c))\<rparr>"
  have r: "read_lba 0 b (cluster_lba c) s = Ok 0 s1"
    using read_lba_ok [OF Cons.prems(1)] Cons.prems(3) b(3) by (simp add: s1_def)
  have fat: "fmem s1 a = fmem s a" if "a \<in> fat_region" for a
  proof -
    have "a \<notin> region b 512" using b(4) that by blast
    then show ?thesis by (simp add: s1_def put_outside)
  qed
  have nx: "short_at (fmem s1) (fat_at VOLUME1_FAT_ADDRESS c) = short_at (fmem s) (fat_at VOLUME1_FAT_ADDRESS c)"
    using fat_short_cong [of "fmem s1" "fmem s"] fat by blast
  show ?case
  proof (cases cs)
    case Nil
    then show ?thesis using Cons.prems(2,5) b(2) c r nx
      by (subst load_chain.simps) (auto simp: Let_def s1_def chain_data_def)
  next
    case (Cons d ds)
    have ch: "fat_chain (fmem s1) cs" using Cons.prems(2) fat_chain_cong [of "fmem s1" "fmem s" cs] fat by (simp add: Cons)
    have d: "short_at (fmem s) (fat_at VOLUME1_FAT_ADDRESS c) = d" "d \<le> 0xFFF0"
      using Cons.prems(2) fat_chain_head [of "fmem s" d ds] by (simp_all add: Cons)
    then have nd: "d \<noteq> 0xFFF7" "d \<noteq> 0xFFFF" "d \<noteq> 0xFFF8" by auto
    have "load_chain VOLUME1_FAT_ADDRESS (hd cs) (b + 512) (nreads + 1) s1
        = Some (Ok 0 (s1\<lparr>fmem := put (fmem s1) (b + 512) (chain_data s1 cs)\<rparr>))"
      using Cons.prems(1,3,5) ch b(1) by (intro Cons.IH) (auto simp: s1_def)
    moreover have "load_chain VOLUME1_FAT_ADDRESS c b nreads s = load_chain VOLUME1_FAT_ADDRESS d (b + 512) (nreads + 1) s1"
      using b(2) c r nx d nd by (subst load_chain.simps) (simp add: Let_def)
    moreover have "put (fmem s1) (b + 512) (chain_data s1 cs) = put (fmem s) b (chain_data s (c # cs))"
      using put_append [of "sector s (cluster_lba c)" "chain_data s cs" "fmem s" b] Cons.prems(4)
      by (simp add: s1_def chain_data_Cons buffer_ok_def)
    ultimately show ?thesis by (simp add: Cons s1_def)
  qed
qed simp

section \<open>The directory entry\<close>

lemma root_entry_region:
  assumes "i < 512" and "j < 32"
  shows "dir_entry VOLUME1_ROOTDIR_ADDRESS i + of_nat j \<in> root_region"
proof -
  have "dir_entry VOLUME1_ROOTDIR_ADDRESS i + of_nat j = VOLUME1_ROOTDIR_ADDRESS + of_nat (32 * i + j)" by (simp add: dir_entry_def)
  also have "\<dots> \<in> root_region" using assms by (intro in_region_offset) simp
  finally show ?thesis .
qed

lemma root_entry_subset:
  assumes "i < 512" and "n \<le> 32"
  shows "region (dir_entry VOLUME1_ROOTDIR_ADDRESS i) n \<subseteq> root_region"
  using assms root_entry_region by (auto elim!: in_regionE)

text \<open>The entry of a name: the first one whose first characters are the name.\<close>

definition entry_of :: "mem \<Rightarrow> u8 list \<Rightarrow> nat \<Rightarrow> bool" where
  "entry_of m nm i \<longleftrightarrow> i < 512 \<and> bytes m (dir_entry VOLUME1_ROOTDIR_ADDRESS i) (length nm) = nm \<and>
     (\<forall>j < i. bytes m (dir_entry VOLUME1_ROOTDIR_ADDRESS j) (length nm) \<noteq> nm)"

definition file_name_ok :: "ptr \<Rightarrow> mem \<Rightarrow> ptr \<Rightarrow> u8 list \<Rightarrow> bool" where
  "file_name_ok stk m name nm \<longleftrightarrow> cstr m name nm \<and> nm \<noteq> [] \<and> length nm \<le> 11 \<and> name \<noteq> NULL \<and>
     apart stk 12 name (Suc (length nm)) \<and> region stk 12 \<inter> root_region = {} \<and>
     region name (Suc (length nm)) \<inter> (root_region \<union> fat_region) = {}"

lemma find_entry_root:
  assumes f: "file_name_ok stk m name nm" and e: "entry_of m nm i"
  shows "find_entry m stk name VOLUME1_ROOTDIR_ADDRESS (int (length nm)) 512 = Some i"
proof -
  let ?e = "dir_entry VOLUME1_ROOTDIR_ADDRESS"
  have nm: "cstr m name nm" "length nm \<le> 11" "apart stk 12 name (Suc (length nm))" "nm \<noteq> []" using f by (simp_all add: file_name_ok_def)
  have cmp: "entry_cmp m stk name (?e j) (int (length nm)) = 0 \<longleftrightarrow> bytes m (?e j) (length nm) = nm" if "j < 512" for j
  proof -
    have "region (?e j) (length nm) \<subseteq> root_region" using that nm(2) by (intro root_entry_subset) auto
    then have "apart stk 12 (?e j) (length nm)" using f by (auto simp: apart_def file_name_ok_def)
    then show ?thesis using entry_cmp_iff [OF nm(1) refl nm(2,3)] by blast
  qed
  have short: "short_at m (?e j) \<noteq> 0" if b: "bytes m (?e j) (length nm) = nm" for j
  proof
    assume "short_at m (?e j) = 0"
    then have "m (?e j) = ucast (0 :: u16)" unfolding short_at_def short_eq by blast
    moreover have "nm ! 0 = m (?e j)" using nm(4) arg_cong [OF b, of "\<lambda>l. l ! 0"] by (simp add: bytes_def)
    ultimately show False using nm(1,4) cstr_nonzero [OF nm(1)] by (metis length_greater_0_conv nth_mem unsigned_0)
  qed
  have "find (\<lambda>j. short_at m (?e j) \<noteq> 0 \<and> entry_cmp m stk name (?e j) (int (length nm)) = 0) [0..<512] = Some i"
    using e cmp short unfolding find_Some_iff by (intro exI [of _ i]) (auto simp: entry_of_def)
  then show ?thesis by (simp add: find_entry_def)
qed

lemma file_name_ok_cong:
  assumes "\<And>a. a \<notin> root_region \<union> fat_region \<Longrightarrow> m' a = m a"
  shows "file_name_ok stk m' name nm = file_name_ok stk m name nm"
proof -
  have "cstr m' name nm = cstr m name nm" if "region name (Suc (length nm)) \<inter> (root_region \<union> fat_region) = {}"
    using assms that by (intro cstr_cong) blast
  then show ?thesis by (auto simp: file_name_ok_def)
qed

lemma root_cong:
  assumes "\<And>a. a \<in> root_region \<Longrightarrow> m' a = m a"
  shows "entry_of m' nm i \<and> length nm \<le> 32 \<longleftrightarrow> entry_of m nm i \<and> length nm \<le> 32"
    and "i < 512 \<Longrightarrow> j < 31 \<Longrightarrow> short_at m' (dir_entry VOLUME1_ROOTDIR_ADDRESS i + of_nat j) = short_at m (dir_entry VOLUME1_ROOTDIR_ADDRESS i + of_nat j)"
proof -
  have b: "bytes m' (dir_entry VOLUME1_ROOTDIR_ADDRESS i) n = bytes m (dir_entry VOLUME1_ROOTDIR_ADDRESS i) n" if "i < 512" "n \<le> 32" for i n
    using assms root_entry_subset [OF that] by (intro bytes_cong) auto
  show "entry_of m' nm i \<and> length nm \<le> 32 \<longleftrightarrow> entry_of m nm i \<and> length nm \<le> 32"
    by (auto simp: entry_of_def b [simplified] dest: less_trans)
  assume ij: "i < 512" "j < 31"
  have e: "dir_entry VOLUME1_ROOTDIR_ADDRESS i + of_nat j + 1 = dir_entry VOLUME1_ROOTDIR_ADDRESS i + of_nat (Suc j)" by simp
  have "dir_entry VOLUME1_ROOTDIR_ADDRESS i + of_nat j + 1 \<in> root_region"
    unfolding e using ij by (intro root_entry_region) auto
  then show "short_at m' (dir_entry VOLUME1_ROOTDIR_ADDRESS i + of_nat j) = short_at m (dir_entry VOLUME1_ROOTDIR_ADDRESS i + of_nat j)"
    using ij root_entry_region [of i j] assms by (intro short_at_cong) auto
qed

section \<open>Loading a file\<close>

definition entry_size :: "mem \<Rightarrow> nat \<Rightarrow> u64" where
  "entry_size m i = ucast (int_at m (dir_entry VOLUME1_ROOTDIR_ADDRESS i + 28))"

definition entry_cluster :: "mem \<Rightarrow> nat \<Rightarrow> u16" where
  "entry_cluster m i = short_at m (dir_entry VOLUME1_ROOTDIR_ADDRESS i + 26)"

lemma fsGetFileSize_ok:
  assumes v: "volume_ok s" and f: "file_name_ok stk (fmem s) name nm" and e: "entry_of (fmem (with_root s)) nm i"
  shows "fsGetFileSize stk name VOLUME1_ROOTDIR_ADDRESS s = Some (Ok (entry_size (fmem (with_root s)) i) (with_root s))"
proof -
  have f': "file_name_ok stk (fmem (with_root s)) name nm"
    using f file_name_ok_cong [of "fmem (with_root s)" "fmem s"] with_root_outside by simp
  then have l: "strlen (fmem (with_root s)) name = Some (int (length nm))" "length nm \<le> 11" "name \<noteq> NULL"
    using strlen_cstr by (auto simp: file_name_ok_def)
  obtain r where r: "fs_root s = Some r" "\<not> fs_spc r \<le> 0" "fs_dir_entries r = 512" using v by (auto simp: volume_ok_def split: option.splits)
  have n0: "fmem s name \<noteq> 0" using f by (cases nm) (auto simp: file_name_ok_def)
  show ?thesis
    using load_tables_ok(1) [OF v] find_entry_root [OF f' e] l r n0
    by (simp add: fsGetFileSize_def entry_size_def)
qed

lemma load_entry_ok:
  assumes v: "volume_ok s" and c: "fat_chain (fmem (with_fat s)) cs" and h: "short_at (fmem s) (e + 26) = hd cs"
    and d: "\<forall>c \<in> set cs. cluster_lba c < gNumberOfSectorsInBootDisk s" and b: "buffer_ok b (length cs)" "length cs \<le> 817"
  shows "load_entry VOLUME1_FAT_ADDRESS e b s = Some (Ok 0 ((with_fat s)\<lparr>fmem := put (fmem (with_fat s)) b (chain_data s cs)\<rparr>))"
proof -
  have "hd cs \<noteq> 0 \<and> \<not> hd cs > 0xFFF0" using c fat_chain_head [of _ "hd cs" "tl cs"] by (cases cs) (auto dest: leD)
  moreover have "load_chain VOLUME1_FAT_ADDRESS (hd cs) b 0 (with_fat s)
      = Some (Ok 0 ((with_fat s)\<lparr>fmem := put (fmem (with_fat s)) b (chain_data (with_fat s) cs)\<rparr>))"
    using v c d b by (intro load_chain_ok) simp_all
  ultimately show ?thesis using load_tables_ok(2) [OF v] h by (simp add: load_entry_def Let_def chain_data_def)
qed

lemma load_file_ok:
  assumes "volume_ok s" and "file_name_ok stk (fmem s) name nm" and "entry_of (fmem (mounted s)) nm i"
    and "fat_chain (fmem (mounted s)) cs" and "entry_cluster (fmem (mounted s)) i = hd cs" and "length cs \<le> 817"
    and "\<forall>c \<in> set cs. cluster_lba c < gNumberOfSectorsInBootDisk s" and "buffer_ok b (length cs)"
    and "entry_size (fmem (mounted s)) i < sz" and "sz \<le> 512 * 4096"
  shows "fsLoadFile stk VOLUME1_FAT_ADDRESS VOLUME1_ROOTDIR_ADDRESS 512 name b sz s
    = Some (Ok 0 ((mounted s)\<lparr>fmem := put (fmem (mounted s)) b (chain_data s cs)\<rparr>))"
proof -
  let ?t = "with_root s"
  have m: "fmem (mounted s) a = fmem ?t a" if "a \<in> root_region" for a
    using that caches_apart unfolding mounted_def by (intro with_fat_outside) blast
  have c: "cstr (fmem s) name nm" "nm \<noteq> []" "length nm \<le> 11" "name \<noteq> NULL" using assms(2) by (simp_all add: file_name_ok_def)
  then have n0: "fmem s name \<noteq> 0" by (cases nm) auto
  note nm = c(3) strlen_cstr [OF c(1)] c(4) n0
  have i: "i < 512" using assms(3) by (simp add: entry_of_def)
  have e: "entry_of (fmem ?t) nm i" using root_cong(1) [of "fmem (mounted s)" "fmem ?t" nm i] m assms(3) nm(1) by simp
  have sh: "short_at (fmem (mounted s)) (dir_entry VOLUME1_ROOTDIR_ADDRESS i + of_nat j)
      = short_at (fmem ?t) (dir_entry VOLUME1_ROOTDIR_ADDRESS i + of_nat j)" if "j < 31" for j
    using root_cong(2) [of "fmem (mounted s)" "fmem ?t"] m i that by blast
  have sz: "entry_size (fmem ?t) i = entry_size (fmem (mounted s)) i"
    using sh [of 28] sh [of 30] by (simp add: entry_size_def int_at_def add.assoc)
  have cl: "short_at (fmem ?t) (dir_entry VOLUME1_ROOTDIR_ADDRESS i + 26) = hd cs"
    using sh [of 26] assms(5) by (simp add: entry_cluster_def)
  have f': "file_name_ok stk (fmem ?t) name nm"
    using assms(2) file_name_ok_cong [of "fmem ?t" "fmem s"] with_root_outside by simp
  have "load_entry VOLUME1_FAT_ADDRESS (dir_entry VOLUME1_ROOTDIR_ADDRESS i) b ?t
      = Some (Ok 0 ((mounted s)\<lparr>fmem := put (fmem (mounted s)) b (chain_data s cs)\<rparr>))"
    using load_entry_ok [of ?t cs] assms(1,4,6,7,8) cl by (simp add: mounted_def chain_data_def)
  moreover have "sz AND 0xFFFFFFFF = sz"
  proof -
    have "unat sz < 2 ^ 32" using assms(10) by (simp add: word_le_nat_alt)
    then have "take_bit 32 sz = sz" by (simp add: word_unat_eq_iff unsigned_take_bit_eq take_bit_nat_eq_self)
    then show ?thesis by (simp add: take_bit_eq_mask mask_eq_exp_minus_1)
  qed
  moreover have "sz \<noteq> 0" using assms(9) by auto
  ultimately show ?thesis
    using fsGetFileSize_ok [OF assms(1,2) e] find_entry_root [OF f' e] nm assms(1,9,10) sz
    by (auto simp: fsLoadFile_def Let_def volume_ok_def split: option.splits)
qed

end
