(* ===== verification/Fat_Save_Laws.thy ===== *)
theory Fat_Save_Laws
  imports Fat_Laws
begin

text \<open>
  Saving a file, and loading it again. \<open>free_clusters\<close> are the free entries of the FAT that the search
  of \<open>fsSaveFile\<close> visits; \<open>link_fat\<close> and \<open>write_clusters\<close> are what its last loop does to the FAT and to
  the disk.
\<close>

section \<open>Free clusters\<close>

definition free_clusters :: "mem \<Rightarrow> nat \<Rightarrow> u16 \<Rightarrow> u16 list" where
  "free_clusters m k c = filter (\<lambda>d. short_at m (fat_at VOLUME1_FAT_ADDRESS d) = 0) (map (\<lambda>i. c + of_nat i) [0..<k])"

lemma free_clusters_Suc:
  "free_clusters m (Suc k) c = (if short_at m (fat_at VOLUME1_FAT_ADDRESS c) = 0 then c # free_clusters m k (c + 1) else free_clusters m k (c + 1))"
proof -
  have "map (\<lambda>i. c + of_nat i) [0..<Suc k] = c # map (\<lambda>i. c + 1 + of_nat i) [0..<k]"
    by (rule nth_equalityI) (auto simp: nth_Cons' simp del: upt_Suc split: nat.split)
  then show ?thesis by (simp add: free_clusters_def del: upt_Suc)
qed

lemma collect_free_eq:
  "collect_free m VOLUME1_FAT_ADDRESS k c n j l = (r, l') \<Longrightarrow> r = (n < length (free_clusters m k c)) \<and>
    (r \<longrightarrow> (\<forall>i < n. l' (j + i) = free_clusters m k c ! i) \<and> l' (j + n) = 0xFFF8 \<and> (\<forall>i < j. l' i = l i))"
proof (induction k arbitrary: c n j l)
  case 0
  then show ?case by (simp add: free_clusters_def)
next
  case (Suc k)
  show ?case
  proof (cases "short_at m (fat_at VOLUME1_FAT_ADDRESS c) = 0 \<and> n \<noteq> 0")
    case True
    then obtain n' where n: "n = Suc n'" by (cases n) auto
    have "collect_free m VOLUME1_FAT_ADDRESS k (c + 1) n' (Suc j) (l(j := c)) = (r, l')" using Suc.prems True by (simp add: n)
    from Suc.IH [OF this] have r: "r = (n' < length (free_clusters m k (c + 1)))"
      and l: "r \<Longrightarrow> (\<forall>i < n'. l' (Suc j + i) = free_clusters m k (c + 1) ! i) \<and> l' (Suc j + n') = 0xFFF8 \<and> (\<forall>i < Suc j. l' i = (l(j := c)) i)" by auto
    have fc: "free_clusters m (Suc k) c = c # free_clusters m k (c + 1)" using True free_clusters_Suc by simp
    have "l' (j + i) = (c # free_clusters m k (c + 1)) ! i" if "r" "i < Suc n'" for i
    proof (cases i)
      case 0
      have "l' j = (l(j := c)) j" using l [OF \<open>r\<close>] lessI by blast
      then show ?thesis by (simp add: 0)
    next
      case (Suc i')
      then show ?thesis using l [OF \<open>r\<close>] that by simp
    qed
    moreover have "l' i = l i" if "r" "i < j" for i
    proof -
      have "l' i = (l(j := c)) i" using l [OF \<open>r\<close>] that less_SucI by blast
      then show ?thesis using that by simp
    qed
    moreover have "r \<longrightarrow> l' (j + n) = 0xFFF8" using l by (simp add: n)
    ultimately show ?thesis using r unfolding fc n by auto
  next
    case False
    show ?thesis
    proof (cases "short_at m (fat_at VOLUME1_FAT_ADDRESS c) = 0")
      case True
      then show ?thesis using False Suc.prems by (auto simp: free_clusters_Suc)
    next
      case F: False
      then show ?thesis using Suc.IH [of "c + 1" n j l] Suc.prems by (simp add: free_clusters_Suc)
    qed
  qed
qed

lemma free_clusters_props:
  assumes "c \<in> set (free_clusters m 32768 3)"
  shows "3 \<le> unat c" "unat c \<le> 32770" "short_at m (fat_at VOLUME1_FAT_ADDRESS c) = 0"
proof -
  obtain i where i: "i < 32768" "c = 3 + of_nat i" "short_at m (fat_at VOLUME1_FAT_ADDRESS c) = 0"
    using assms by (auto simp: free_clusters_def)
  have "unat c = 3 + i" using i(1,2) by (simp add: unat_word_ariths unat_of_nat)
  then show "3 \<le> unat c" "unat c \<le> 32770" "short_at m (fat_at VOLUME1_FAT_ADDRESS c) = 0" using i by simp_all
qed

lemma distinct_free_clusters: "distinct (free_clusters m 32768 3)"
proof -
  have "inj_on (\<lambda>i. 3 + of_nat i :: u16) {0..<32768}"
  proof (rule inj_onI)
    fix x y :: nat assume xy: "x \<in> {0..<32768}" "y \<in> {0..<32768}" "(3 + of_nat x :: u16) = 3 + of_nat y"
    have u: "unat (3 + of_nat z :: u16) = 3 + z" if "z < 32768" for z :: nat using that by (simp add: unat_word_ariths unat_of_nat)
    have "3 + x = unat (3 + of_nat x :: u16)" "unat (3 + of_nat y :: u16) = 3 + y" using u xy(1,2) by simp_all
    then show "x = y" unfolding xy(3) by linarith
  qed
  then show ?thesis by (simp add: free_clusters_def distinct_map)
qed

section \<open>Links in the FAT\<close>

lemma fat_at_offset: "fat_at VOLUME1_FAT_ADDRESS c = VOLUME1_FAT_ADDRESS + of_nat (2 * unat c)"
  by (simp add: fat_at_def word_unat_eq_iff unsigned_ucast_eq take_bit_nat_eq_self unat_word_ariths unat_of_nat64)

lemma put_short_outside: "a \<noteq> p \<Longrightarrow> a \<noteq> p + 1 \<Longrightarrow> put_short m p w a = m a"
  by (simp add: put_short_def put_Cons)

lemma put_short_again: "put_short (put_short m p w) p w = put_short m p w"
  by (simp add: put_short_def put_Cons fun_eq_iff)

lemma fat_at_neq:
  assumes "c \<noteq> d"
  shows "fat_at VOLUME1_FAT_ADDRESS c \<noteq> fat_at VOLUME1_FAT_ADDRESS d" "fat_at VOLUME1_FAT_ADDRESS c \<noteq> fat_at VOLUME1_FAT_ADDRESS d + 1"
    "fat_at VOLUME1_FAT_ADDRESS c + 1 \<noteq> fat_at VOLUME1_FAT_ADDRESS d + 1"
proof -
  have b: "2 * unat c + 1 < 2 ^ 64" "2 * unat d + 1 < 2 ^ 64"
    using unsigned_less [of c, where 'a = nat] unsigned_less [of d, where 'a = nat] by simp_all
  have e: "fat_at VOLUME1_FAT_ADDRESS x + 1 = VOLUME1_FAT_ADDRESS + of_nat (2 * unat x + 1)" for x
    unfolding fat_at_offset by simp
  have n: "unat c \<noteq> unat d" using assms by (simp add: word_unat_eq_iff)
  show "fat_at VOLUME1_FAT_ADDRESS c \<noteq> fat_at VOLUME1_FAT_ADDRESS d"
    using offset_inj [of "2 * unat c" "2 * unat d" VOLUME1_FAT_ADDRESS] b n unfolding fat_at_offset by auto
  show "fat_at VOLUME1_FAT_ADDRESS c \<noteq> fat_at VOLUME1_FAT_ADDRESS d + 1"
  proof
    assume "fat_at VOLUME1_FAT_ADDRESS c = fat_at VOLUME1_FAT_ADDRESS d + 1"
    then have "2 * unat c = 2 * unat d + 1" using b unfolding e unfolding fat_at_offset by (intro offset_inj) auto
    then show False by presburger
  qed
  show "fat_at VOLUME1_FAT_ADDRESS c + 1 \<noteq> fat_at VOLUME1_FAT_ADDRESS d + 1"
  proof
    assume "fat_at VOLUME1_FAT_ADDRESS c + 1 = fat_at VOLUME1_FAT_ADDRESS d + 1"
    then have "2 * unat c + 1 = 2 * unat d + 1" using b unfolding e by (intro offset_inj)
    then show False using n by simp
  qed
qed

lemma short_at_put_other:
  assumes "c \<noteq> d"
  shows "short_at (put_short m (fat_at VOLUME1_FAT_ADDRESS c) w) (fat_at VOLUME1_FAT_ADDRESS d) = short_at m (fat_at VOLUME1_FAT_ADDRESS d)"
  using assms fat_at_neq [of d c] fat_at_neq [of c d] by (intro short_at_cong put_short_outside) (metis)+

lemma put_short_fat_outside: "a \<notin> fat_region \<Longrightarrow> put_short m (fat_at VOLUME1_FAT_ADDRESS c) w a = m a"
  using fat_at_region by (intro put_short_outside) metis+

fun link_fat :: "mem \<Rightarrow> u16 list \<Rightarrow> mem" where
  "link_fat m [] = m"
| "link_fat m [c] = put_short m (fat_at VOLUME1_FAT_ADDRESS c) 0xFFF8"
| "link_fat m (c # d # cs) = link_fat (put_short m (fat_at VOLUME1_FAT_ADDRESS c) d) (d # cs)"

lemma link_fat_outside: "a \<notin> fat_region \<Longrightarrow> link_fat m cs a = m a"
  by (induction m cs rule: link_fat.induct) (simp_all del: VOLUME1_FAT_ADDRESS_def add: put_short_fat_outside)

lemma link_fat_other: "d \<notin> set cs \<Longrightarrow> short_at (link_fat m cs) (fat_at VOLUME1_FAT_ADDRESS d) = short_at m (fat_at VOLUME1_FAT_ADDRESS d)"
  by (induction m cs rule: link_fat.induct) (simp_all del: VOLUME1_FAT_ADDRESS_def add: short_at_put_other [OF not_sym])

lemma link_fat_chain:
  assumes "distinct cs" and "cs \<noteq> []" and "\<forall>c \<in> set cs. c \<noteq> 0 \<and> c \<le> 0xFFF0"
  shows "fat_chain (link_fat m cs) cs"
  using assms
proof (induction m cs rule: link_fat.induct)
  case (3 m c d cs)
  have "short_at (link_fat (put_short m (fat_at VOLUME1_FAT_ADDRESS c) d) (d # cs)) (fat_at VOLUME1_FAT_ADDRESS c) = d"
    using 3(2) by (subst link_fat_other) (auto simp: short_at_put)
  with 3 show ?case by simp
qed (auto simp: short_at_put)

section \<open>Data on the disk\<close>

primrec write_clusters :: "mem \<Rightarrow> ptr \<Rightarrow> u16 list \<Rightarrow> (u64 \<Rightarrow> nat \<Rightarrow> u8) \<Rightarrow> (u64 \<Rightarrow> nat \<Rightarrow> u8)" where
  "write_clusters m a [] d = d"
| "write_clusters m a (c # cs) d = write_clusters m (a + 512) cs (d(cluster_lba c := sector_of m a))"

lemma write_clusters_other: "lba \<notin> cluster_lba ` set cs \<Longrightarrow> write_clusters m a cs d lba = d lba"
  by (induction cs arbitrary: a d) auto

lemma cluster_lba_inj: "cluster_lba c = cluster_lba d \<Longrightarrow> c = d"
proof -
  assume "cluster_lba c = cluster_lba d"
  then have "(ucast c :: u64) = ucast d" by (simp add: cluster_lba_def)
  then have "unat (ucast c :: u64) = unat (ucast d :: u64)" by simp
  moreover have "unat (ucast x :: u64) = unat x" for x :: u16
    using unsigned_less [of x, where 'a = nat] by (simp add: unsigned_ucast_eq take_bit_nat_eq_self)
  ultimately show "c = d" by (simp add: word_unat_eq_iff)
qed

lemma bytes_append: "bytes m p (k + n) = bytes m p k @ bytes m (p + of_nat k) n"
  by (rule nth_equalityI) (auto simp: nth_append add.assoc simp flip: of_nat_add)

lemma chain_data_written:
  assumes "distinct cs"
  shows "chain_data (s\<lparr>disk := write_clusters m a cs d\<rparr>) cs = bytes m a (512 * length cs)"
  using assms
proof (induction cs arbitrary: a d)
  case Nil
  then show ?case by (simp add: chain_data_def bytes_def)
next
  case (Cons c cs)
  let ?d = "d(cluster_lba c := sector_of m a)"
  have "write_clusters m (a + 512) cs ?d (cluster_lba c) = ?d (cluster_lba c)"
    using Cons.prems cluster_lba_inj by (intro write_clusters_other) auto
  then have "sector (s\<lparr>disk := write_clusters m a (c # cs) d\<rparr>) (cluster_lba c) = bytes m a 512"
    by (simp add: sector_def bytes_def sector_of_def del: fun_upd_apply) (simp add: fun_upd_def)
  moreover have "chain_data (s\<lparr>disk := write_clusters m a (c # cs) d\<rparr>) cs = bytes m (a + 512) (512 * length cs)"
    unfolding write_clusters.simps using Cons.prems by (intro Cons.IH) simp
  ultimately show ?case using bytes_append [of m a 512 "512 * length cs"] by (simp add: chain_data_Cons)
qed

lemma sector_of_cong: "(\<And>x. x \<in> region a 512 \<Longrightarrow> m' x = m x) \<Longrightarrow> sector_of m' a = sector_of m a"
  by (simp add: sector_of_def fun_eq_iff in_region_offset)

lemma write_clusters_cong:
  assumes "\<And>x. x \<in> region a (512 * length cs) \<Longrightarrow> m' x = m x"
  shows "write_clusters m' a cs d = write_clusters m a cs d"
  using assms
proof (induction cs arbitrary: a d)
  case (Cons c cs)
  have sub: "region a 512 \<subseteq> region a (512 * length (c # cs))" "region (a + 512) (512 * length cs) \<subseteq> region a (512 * length (c # cs))"
    using region_mono [of 512 "512 * length (c # cs)" a] region_offset [of a 512 "512 * length cs"] by simp_all
  have "sector_of m' a = sector_of m a" using Cons.prems sub(1) by (intro sector_of_cong) blast
  moreover have "write_clusters m' (a + 512) cs d' = write_clusters m (a + 512) cs d'" for d'
    using Cons.prems sub(2) by (intro Cons.IH) blast
  ultimately show ?case by simp
qed simp

section \<open>The loop of \<open>fsSaveFile\<close>\<close>

lemma save_loop_step:
  assumes "drive_ok s" and "fat16ClustersToSave s i = c" and "c \<noteq> 0xFFF8" and "i < 16" and "cluster_lba c < gNumberOfSectorsInBootDisk s"
    and "region a 512 \<inter> fat_region = {}"
  shows "save_loop VOLUME1_FAT_ADDRESS i a s = save_loop VOLUME1_FAT_ADDRESS (Suc i) (a + 512)
     (s\<lparr>fmem := put_short (fmem s) (fat_at VOLUME1_FAT_ADDRESS c) (fat16ClustersToSave s (Suc i)),
        disk := (disk s)(cluster_lba c := sector_of (fmem s) a)\<rparr>)"
proof -
  let ?m = "put_short (fmem s) (fat_at VOLUME1_FAT_ADDRESS c) (fat16ClustersToSave s (Suc i))"
  have "sector_of ?m a = sector_of (fmem s) a"
    using assms(6) by (intro sector_of_cong put_short_fat_outside) blast
  then have "ataWriteSector a (cluster_lba c) (s\<lparr>fmem := ?m\<rparr>) = Ok 0 (s\<lparr>fmem := ?m, disk := (disk s)(cluster_lba c := sector_of (fmem s) a)\<rparr>)"
    using write_ok [of "s\<lparr>fmem := ?m\<rparr>" "cluster_lba c" a] assms(1,5) by simp
  then show ?thesis using assms(2,3,4) by (subst save_loop.simps) (simp add: Let_def del: VOLUME1_FAT_ADDRESS_def)
qed

lemma save_loop_ok:
  assumes "drive_ok s" and "cs \<noteq> []" and "\<forall>k < length cs. fat16ClustersToSave s (i + k) = cs ! k" and "fat16ClustersToSave s (i + length cs) = 0xFFF8"
    and "0xFFF8 \<notin> set cs" and "i + length cs \<le> 16" and "\<forall>c \<in> set cs. cluster_lba c < gNumberOfSectorsInBootDisk s"
    and "region a (512 * length cs) \<inter> fat_region = {}"
  shows "save_loop VOLUME1_FAT_ADDRESS i a s
    = Ok 0 (s\<lparr>fmem := link_fat (fmem s) cs, disk := write_clusters (fmem s) a cs (disk s)\<rparr>)"
  using assms
proof (induction cs arbitrary: s i a)
  case (Cons c cs)
  have l: "fat16ClustersToSave s i = c" using Cons.prems(3) by force
  have sub: "region a 512 \<subseteq> region a (512 * length (c # cs))" "region (a + 512) (512 * length cs) \<subseteq> region a (512 * length (c # cs))"
    using region_mono [of 512 "512 * length (c # cs)" a] region_offset [of a 512 "512 * length cs"] by simp_all
  define s1 where "s1 = s\<lparr>fmem := put_short (fmem s) (fat_at VOLUME1_FAT_ADDRESS c) (fat16ClustersToSave s (Suc i)),
        disk := (disk s)(cluster_lba c := sector_of (fmem s) a)\<rparr>"
  have st: "save_loop VOLUME1_FAT_ADDRESS i a s = save_loop VOLUME1_FAT_ADDRESS (Suc i) (a + 512) s1"
    unfolding s1_def using Cons.prems sub(1) l by (intro save_loop_step) auto
  have d1: "drive_ok s1" using Cons.prems(1) by (simp add: s1_def drive_ok_def)
  show ?case
  proof (cases cs)
    case Nil
    then show ?thesis using Cons.prems(4) l unfolding st
      by (subst save_loop.simps) (simp add: s1_def put_short_again del: VOLUME1_FAT_ADDRESS_def)
  next
    case (Cons d ds)
    have n: "fat16ClustersToSave s (Suc i) = d" using Cons.prems(3) by (force simp: Cons)
    have "save_loop VOLUME1_FAT_ADDRESS (Suc i) (a + 512) s1
        = Ok 0 (s1\<lparr>fmem := link_fat (fmem s1) cs, disk := write_clusters (fmem s1) (a + 512) cs (disk s1)\<rparr>)"
    proof (rule Cons.IH [OF d1])
      show "\<forall>k < length cs. fat16ClustersToSave s1 (Suc i + k) = cs ! k"
      proof (intro allI impI)
        fix k assume "k < length cs"
        then show "fat16ClustersToSave s1 (Suc i + k) = cs ! k" using spec [OF Cons.prems(3), of "Suc k"] by (simp add: s1_def)
      qed
      show "region (a + 512) (512 * length cs) \<inter> fat_region = {}" using Cons.prems(8) sub(2) by blast
    qed (use Cons.prems in \<open>auto simp: Cons s1_def\<close>)
    moreover have "write_clusters (fmem s1) (a + 512) cs dk = write_clusters (fmem s) (a + 512) cs dk" for dk
    proof (rule write_clusters_cong)
      fix x assume "x \<in> region (a + 512) (512 * length cs)"
      then have "x \<notin> fat_region" using Cons.prems(8) sub(2) by blast
      then show "fmem s1 x = fmem s x" using put_short_fat_outside by (simp add: s1_def del: VOLUME1_FAT_ADDRESS_def)
    qed
    ultimately show ?thesis unfolding st by (simp add: s1_def Cons n del: VOLUME1_FAT_ADDRESS_def)
  qed
qed simp

end
