(* ===== verification/Fat_Roundtrip.thy ===== *)
theory Fat_Roundtrip
  imports Fat_Save_Laws
begin

text \<open>
  The whole of \<open>fsSaveFile\<close> on a good volume, and loading the file that was saved. \<open>save_range\<close> is what
  storing the cache of the root directory does to the disk.
\<close>

section \<open>Storing a sequence of sectors\<close>

definition save_range :: "mem \<Rightarrow> ptr \<Rightarrow> u64 \<Rightarrow> nat \<Rightarrow> (u64 \<Rightarrow> nat \<Rightarrow> u8) \<Rightarrow> u64 \<Rightarrow> nat \<Rightarrow> u8" where
  "save_range m a lba n d l = (if unat (l - lba) < n then sector_of m (a + of_nat (512 * unat (l - lba))) else d l)"

lemma save_range_0: "save_range m a lba 0 d = d"
  by (simp add: save_range_def fun_eq_iff)

lemma save_range_Suc:
  assumes "n < 2 ^ 64"
  shows "save_range m a lba (Suc n) d = (save_range m a lba n d)(lba + of_nat n := sector_of m (a + of_nat (512 * n)))"
proof (rule ext)
  fix l
  have "l = lba + of_nat n \<longleftrightarrow> unat (l - lba) = n"
  proof
    assume n: "unat (l - lba) = n"
    have "l - lba = of_nat (unat (l - lba))" by simp
    then show "l = lba + of_nat n" unfolding n by (simp only: diff_eq_eq add.commute)
  qed (use assms in \<open>simp add: unat_of_nat64\<close>)
  then show "save_range m a lba (Suc n) d l = ((save_range m a lba n d)(lba + of_nat n := sector_of m (a + of_nat (512 * n)))) l"
    by (auto simp: save_range_def less_Suc_eq)
qed

lemma do_save_sequence_ok:
  assumes "drive_ok s" and "unat lba + n \<le> unat (gNumberOfSectorsInBootDisk s)"
  shows "do_save_sequence a lba n s = Ok () (s\<lparr>disk := save_range (fmem s) a lba n (disk s)\<rparr>)"
  using assms(2)
proof (induction n)
  case 0
  then show ?case by (simp add: do_save_sequence_def save_range_0)
next
  case (Suc n)
  let ?s = "s\<lparr>disk := save_range (fmem s) a lba n (disk s)\<rparr>"
  have l: "lba + of_nat n < gNumberOfSectorsInBootDisk s" using lba_less [OF Suc.prems, of n] by simp
  have n: "n < 2 ^ 64" using Suc.prems unsigned_less [of "gNumberOfSectorsInBootDisk s", where 'a = nat] by simp
  have d: "drive_ok ?s" using assms(1) by (simp add: drive_ok_def)
  have "do_save_sequence a lba (Suc n) s
      = bindR (do_save_sequence a lba n s) (\<lambda>_ s1. bindR (ataWriteSector (a + of_nat (512 * n)) (lba + of_nat n) s1) (\<lambda>_ s1. Ok () s1))"
    by (cases "do_save_sequence a lba n s") (simp_all add: do_save_sequence_def foldR_append bindR_assoc)
  also have "\<dots> = bindR (ataWriteSector (a + of_nat (512 * n)) (lba + of_nat n) ?s) (\<lambda>_ s1. Ok () s1)"
    using Suc by simp
  also have "\<dots> = Ok () (s\<lparr>disk := save_range (fmem s) a lba (Suc n) (disk s)\<rparr>)"
    using write_ok [OF d, of "lba + of_nat n"] l save_range_Suc [OF n] by simp
  finally show ?case .
qed

lemma save_range_outside: "\<not> unat (l - lba) < n \<Longrightarrow> save_range m a lba n d l = d l"
  by (simp add: save_range_def)

lemma disk_range_disk: "disk s' = disk s \<Longrightarrow> disk_range s' lba n = disk_range s lba n"
  by (simp add: disk_range_def sector_def)

lemma disk_range_saved:
  assumes "n < 2 ^ 64"
  shows "k \<le> n \<Longrightarrow> disk_range (s\<lparr>disk := save_range m a lba n d\<rparr>) lba k = bytes m a (512 * k)"
proof (induction k)
  case 0
  then show ?case by (simp add: disk_range_def bytes_def)
next
  case (Suc k)
  have "sector (s\<lparr>disk := save_range m a lba n d\<rparr>) (lba + of_nat k) = bytes m (a + of_nat (512 * k)) 512"
    using Suc.prems assms by (simp add: sector_def save_range_def unat_of_nat64 bytes_def sector_of_def)
  then show ?case using Suc bytes_append [of m a "512 * k" 512] by (simp add: disk_range_Suc add.commute)
qed

lemma put_bytes_same: "put m a (bytes m a n) = m"
  by (rule ext) (simp add: put_def)

section \<open>The new directory entry\<close>

lemma length_new_dir_entry [simp]: "length (new_dir_entry m name c sz f) = 32"
  by (simp add: new_dir_entry_def)

lemma new_dir_entry_name:
  "f \<noteq> 0x10 \<Longrightarrow> take 11 (new_dir_entry m name c sz f) = bytes m name 11"
  using bytes_append [of m name 8 3] by (simp add: new_dir_entry_def)

lemma new_dir_entry_tail:
  assumes "f \<noteq> 0x10"
  shows "drop 26 (new_dir_entry m name c sz f) = [ucast c, ucast (drop_bit 8 c), ucast sz, ucast (drop_bit 8 sz), ucast (drop_bit 16 sz), ucast (drop_bit 24 sz)]"
  using assms by (simp add: new_dir_entry_def)

lemma dir_entry_neq:
  assumes "i < 512" "k < 512" "i \<noteq> k" "j < 32"
  shows "dir_entry VOLUME1_ROOTDIR_ADDRESS i + of_nat j \<notin> region (dir_entry VOLUME1_ROOTDIR_ADDRESS k) 32"
proof
  assume "dir_entry VOLUME1_ROOTDIR_ADDRESS i + of_nat j \<in> region (dir_entry VOLUME1_ROOTDIR_ADDRESS k) 32"
  then obtain q where q: "q < 32" "dir_entry VOLUME1_ROOTDIR_ADDRESS i + of_nat j = dir_entry VOLUME1_ROOTDIR_ADDRESS k + of_nat q"
    by (auto elim!: in_regionE)
  then have "VOLUME1_ROOTDIR_ADDRESS + of_nat (32 * i + j) = VOLUME1_ROOTDIR_ADDRESS + of_nat (32 * k + q)"
    unfolding dir_entry_def by (simp only: of_nat_add add.assoc)
  moreover have "32 * i + j < 2 ^ 64" "32 * k + q < 2 ^ 64" using assms(1,2,4) q(1) by simp_all
  ultimately have "32 * i + j = 32 * k + q" using offset_inj by blast
  then have "(32 * i + j) div 32 = (32 * k + q) div 32" by simp
  then show False using assms(3,4) q(1) by simp
qed

section \<open>Saving a file\<close>

definition new_clusters :: "fatfs \<Rightarrow> nat \<Rightarrow> u16 list" where
  "new_clusters s n = take n (free_clusters (fmem (mounted s)) CLUSTERS_TO_SAVE_MAX 3)"

definition empty_entry :: "mem \<Rightarrow> nat \<Rightarrow> bool" where
  "empty_entry m k \<longleftrightarrow> k < 512 \<and> m (dir_entry VOLUME1_ROOTDIR_ADDRESS k) = 0 \<and> (\<forall>j < k. m (dir_entry VOLUME1_ROOTDIR_ADDRESS j) \<noteq> 0)"

text \<open>There is room for \<open>n\<close> clusters and one more, and entry \<open>k\<close> is the first empty one.\<close>

definition save_ready :: "fatfs \<Rightarrow> ptr \<Rightarrow> ptr \<Rightarrow> nat \<Rightarrow> nat \<Rightarrow> bool" where
  "save_ready s name a n k \<longleftrightarrow> volume_ok s \<and> 33360 \<le> gNumberOfSectorsInBootDisk s \<and> name \<noteq> NULL \<and> fmem s name \<noteq> 0 \<and>
     1 \<le> n \<and> n \<le> 16 \<and> n < length (free_clusters (fmem (mounted s)) CLUSTERS_TO_SAVE_MAX 3) \<and>
     empty_entry (fmem (mounted s)) k \<and> region a (512 * n) \<inter> (root_region \<union> fat_region) = {}"

definition with_entry :: "fatfs \<Rightarrow> ptr \<Rightarrow> nat \<Rightarrow> u64 \<Rightarrow> u8 \<Rightarrow> nat \<Rightarrow> mem" where
  "with_entry s name n sb flag k = put (fmem (mounted s)) (dir_entry VOLUME1_ROOTDIR_ADDRESS k)
     (new_dir_entry (fmem (mounted s)) name (hd (new_clusters s n)) sb flag)"

definition saved :: "fatfs \<Rightarrow> ptr \<Rightarrow> nat \<Rightarrow> u64 \<Rightarrow> ptr \<Rightarrow> u8 \<Rightarrow> nat \<Rightarrow> fatfs" where
  "saved s name n sb a flag k =
     (let m = with_entry s name n sb flag k; cs = new_clusters s n
      in (mounted s)\<lparr>fmem := link_fat m cs,
        disk := save_range (link_fat m cs) VOLUME1_ROOTDIR_ADDRESS VOLUME1_ROOTDIR_LBA 32 (write_clusters m a cs (disk s)),
        g_fat_cache_saved := FAT_CACHE_NOT_SAVED,
        fat16ClustersToSave := snd (collect_free (fmem (mounted s)) VOLUME1_FAT_ADDRESS CLUSTERS_TO_SAVE_MAX 3 n 0 (fat16ClustersToSave (mounted s)))\<rparr>)"

lemma mounted_more [simp]:
  "disk (mounted s) = disk s" "volume_ok (mounted s) = volume_ok s" "sector (mounted s) = sector s"
  "gNumberOfSectorsInBootDisk (mounted s) = gNumberOfSectorsInBootDisk s" "g_fat_cache_loaded (mounted s) = FAT_CACHE_LOADED"
  by (simp_all add: mounted_def del: FAT_CACHE_LOADED_def)

lemma mounted_outside: "a \<notin> root_region \<union> fat_region \<Longrightarrow> fmem (mounted s) a = fmem s a"
  by (simp add: mounted_def with_fat_outside with_root_outside del: VOLUME1_FAT_ADDRESS_def VOLUME1_ROOTDIR_ADDRESS_def)

lemma new_clusters_props:
  assumes "n < length (free_clusters (fmem (mounted s)) CLUSTERS_TO_SAVE_MAX 3)"
  shows "length (new_clusters s n) = n" "distinct (new_clusters s n)"
    "\<forall>c \<in> set (new_clusters s n). 3 \<le> unat c \<and> unat c \<le> 32770 \<and> short_at (fmem (mounted s)) (fat_at VOLUME1_FAT_ADDRESS c) = 0"
proof -
  show "length (new_clusters s n) = n" using assms by (simp add: new_clusters_def)
  show "distinct (new_clusters s n)" using distinct_free_clusters by (simp add: new_clusters_def)
  have "set (new_clusters s n) \<subseteq> set (free_clusters (fmem (mounted s)) 32768 3)"
    unfolding new_clusters_def using set_take_subset by simp
  then show "\<forall>c \<in> set (new_clusters s n). 3 \<le> unat c \<and> unat c \<le> 32770 \<and> short_at (fmem (mounted s)) (fat_at VOLUME1_FAT_ADDRESS c) = 0"
    using free_clusters_props by blast
qed

lemma cluster_lba_unat: "1 \<le> unat c \<Longrightarrow> unat (cluster_lba c) = 589 + unat c"
proof -
  have u: "unat (ucast c :: u64) = unat c" "unat c < 65536"
    using unsigned_less [of c, where 'a = nat] by (simp_all add: unsigned_ucast_eq take_bit_nat_eq_self)
  have "cluster_lba c = 589 + ucast c" by (simp add: cluster_lba_def)
  then show ?thesis using u by (simp add: unat_word_ariths)
qed

lemma new_cluster_lba:
  assumes "save_ready s name a n k" and "c \<in> set (new_clusters s n)"
  shows "cluster_lba c < gNumberOfSectorsInBootDisk s" "c \<noteq> 0xFFF8" "c \<noteq> 0" "c \<le> 0xFFF0" "c \<noteq> 1"
proof -
  have c: "3 \<le> unat c" "unat c \<le> 32770" using new_clusters_props(3) [of n s] assms by (auto simp: save_ready_def)
  have "33360 \<le> unat (gNumberOfSectorsInBootDisk s)" using assms(1) by (simp add: save_ready_def word_le_nat_alt)
  then show "cluster_lba c < gNumberOfSectorsInBootDisk s" using c cluster_lba_unat [of c] by (simp add: word_less_nat_alt)
  show "c \<noteq> 0xFFF8" "c \<noteq> 0" "c \<noteq> 1" "c \<le> 0xFFF0" using c by (auto simp: word_le_nat_alt)
qed

lemma with_entry_outside:
  assumes "k < 512" and "x \<notin> root_region"
  shows "with_entry s name n sb flag k x = fmem (mounted s) x"
  unfolding with_entry_def using assms root_entry_subset [of k 32] by (intro put_outside) auto

lemma save_file_ok:
  assumes r: "save_ready s name a (unat n) k"
  shows "fsSaveFile VOLUME1_FAT_ADDRESS VOLUME1_ROOTDIR_ADDRESS 512 name n sb a flag s = Ok 0 (saved s name (unat n) sb a flag k)"
proof -
  let ?t = "mounted s" and ?cs = "new_clusters s (unat n)" and ?m = "with_entry s name (unat n) sb flag k"
  have v: "volume_ok s" and len: "unat n < length (free_clusters (fmem ?t) CLUSTERS_TO_SAVE_MAX 3)" and k: "k < 512" "empty_entry (fmem ?t) k"
    and nm: "name \<noteq> NULL" "fmem s name \<noteq> 0" and n16: "unat n \<le> 16" "1 \<le> unat n"
    and ap: "region a (512 * unat n) \<inter> (root_region \<union> fat_region) = {}"
    using r by (auto simp: save_ready_def empty_entry_def)
  define l where "l = snd (collect_free (fmem ?t) VOLUME1_FAT_ADDRESS CLUSTERS_TO_SAVE_MAX 3 (unat n) 0 (fat16ClustersToSave ?t))"
  define s4 where "s4 = ?t\<lparr>fat16ClustersToSave := l, fmem := ?m\<rparr>"
  have cf: "collect_free (fmem ?t) VOLUME1_FAT_ADDRESS CLUSTERS_TO_SAVE_MAX 3 (unat n) 0 (fat16ClustersToSave ?t) = (True, l)"
    and lc: "\<forall>i < unat n. l i = ?cs ! i" "l (unat n) = 0xFFF8"
    using collect_free_eq [of "fmem ?t" CLUSTERS_TO_SAVE_MAX 3 "unat n" 0 "fat16ClustersToSave ?t" "fst (collect_free (fmem ?t) VOLUME1_FAT_ADDRESS CLUSTERS_TO_SAVE_MAX 3 (unat n) 0 (fat16ClustersToSave ?t))" l] len
    by (simp_all add: l_def prod_eq_iff new_clusters_def del: CLUSTERS_TO_SAVE_MAX_def VOLUME1_FAT_ADDRESS_def)
  have cs: "length ?cs = unat n" "?cs \<noteq> []" using new_clusters_props(1) [OF len] n16(2) by auto
  have l0: "l 0 = hd ?cs" using lc(1) n16(2) cs by (simp add: hd_conv_nth)
  have fe: "findEmptyDirectoryEntry VOLUME1_ROOTDIR_ADDRESS 512 (?t\<lparr>fat16ClustersToSave := l\<rparr>) = int k"
  proof -
    have "find (\<lambda>i. fmem ?t (dir_entry VOLUME1_ROOTDIR_ADDRESS i) = 0) [0..<512] = Some k"
      using k unfolding find_Some_iff by (intro exI [of _ k]) (auto simp: empty_entry_def)
    then show ?thesis by (simp add: findEmptyDirectoryEntry_def)
  qed
  have sl: "save_loop VOLUME1_FAT_ADDRESS 0 a s4 = Ok 0 (s4\<lparr>fmem := link_fat (fmem s4) ?cs, disk := write_clusters (fmem s4) a ?cs (disk s4)\<rparr>)"
  proof (rule save_loop_ok)
    show "drive_ok s4" using v mounted_more(2) [of s] by (simp add: s4_def volume_ok_def drive_ok_def)
    show "\<forall>c \<in> set ?cs. cluster_lba c < gNumberOfSectorsInBootDisk s4" using new_cluster_lba(1) [OF r] by (simp add: s4_def)
    show "0xFFF8 \<notin> set ?cs" using new_cluster_lba(2) [OF r] by blast
    show "region a (512 * length ?cs) \<inter> fat_region = {}" using ap cs by auto
  qed (use lc cs n16 in \<open>simp_all add: s4_def\<close>)
  define s5 where "s5 = s4\<lparr>fmem := link_fat (fmem s4) ?cs, disk := write_clusters (fmem s4) a ?cs (disk s4)\<rparr>"
  have sr: "fs_save_rootdir VOLUME1_ROOTDIR_ADDRESS VOLUME1_ROOTDIR_LBA 32 s5
      = Ok 0 (s5\<lparr>disk := save_range (fmem s5) VOLUME1_ROOTDIR_ADDRESS VOLUME1_ROOTDIR_LBA 32 (disk s5)\<rparr>)"
  proof -
    have "drive_ok s5" using v mounted_more(2) [of s] by (simp add: s5_def s4_def volume_ok_def drive_ok_def)
    moreover have "unat VOLUME1_ROOTDIR_LBA + 32 \<le> unat (gNumberOfSectorsInBootDisk s5)"
      using r by (simp add: s5_def s4_def save_ready_def word_le_nat_alt)
    ultimately show ?thesis using do_save_sequence_ok by (simp add: fs_save_rootdir_def)
  qed
  have n16w: "\<not> n > 16" using n16(1) by (simp add: word_less_nat_alt)
  have t: "fs_load_fat VOLUME1_FAT_ADDRESS VOLUME1_FAT_LBA 246 (with_root s) = Ok () ?t"
    using load_tables_ok(2) [of "with_root s"] v by (simp add: mounted_def)
  have lists: "put (fmem ?t) (dir_entry VOLUME1_ROOTDIR_ADDRESS k) (new_dir_entry (fmem ?t) name (l 0) sb flag) = ?m"
    by (simp add: with_entry_def l0)
  show ?thesis
    using nm n16w load_tables_ok(1) [OF v] t cf fe sl sr lists unfolding s5_def s4_def
    by (simp add: fsSaveFile_def saved_def Let_def fs_fat16_cache_not_saved_def l_def [symmetric])
qed

section \<open>The saved state\<close>

lemma saved_keeps [simp]:
  "fmem (saved s name n sb a flag k) = link_fat (with_entry s name n sb flag k) (new_clusters s n)"
  "gNumberOfSectorsInBootDisk (saved s name n sb a flag k) = gNumberOfSectorsInBootDisk s"
  "volume_ok (saved s name n sb a flag k) = volume_ok s"
  "g_fat_cache_loaded (saved s name n sb a flag k) = FAT_CACHE_LOADED"
proof -
  have v: "volume_ok (t\<lparr>fmem := x, disk := y, g_fat_cache_saved := z, fat16ClustersToSave := w\<rparr>) = volume_ok t" for t x y z w
    by (simp add: volume_ok_def drive_ok_def)
  show "volume_ok (saved s name n sb a flag k) = volume_ok s" by (simp add: saved_def Let_def v)
qed (simp_all add: saved_def Let_def del: FAT_CACHE_LOADED_def)

lemma saved_root: "disk_range (saved s name n sb a flag k) VOLUME1_ROOTDIR_LBA 32 = bytes (fmem (saved s name n sb a flag k)) VOLUME1_ROOTDIR_ADDRESS 0x4000"
proof -
  let ?s = "saved s name n sb a flag k"
  have d: "disk ?s = save_range (fmem ?s) VOLUME1_ROOTDIR_ADDRESS VOLUME1_ROOTDIR_LBA 32 (write_clusters (with_entry s name n sb flag k) a (new_clusters s n) (disk s))"
    by (simp add: saved_def Let_def)
  have "disk_range ?s VOLUME1_ROOTDIR_LBA 32 = disk_range (s\<lparr>disk := disk ?s\<rparr>) VOLUME1_ROOTDIR_LBA 32"
    by (rule disk_range_disk) simp
  also have "\<dots> = bytes (fmem ?s) VOLUME1_ROOTDIR_ADDRESS (512 * 32)"
    unfolding d by (rule disk_range_saved) simp_all
  finally show ?thesis by simp
qed

lemma mounted_saved: "mounted (saved s name n sb a flag k) = saved s name n sb a flag k"
proof -
  let ?s = "saved s name n sb a flag k"
  have "with_root ?s = ?s" using saved_root [of s name n sb a flag k] put_bytes_same [of "fmem ?s" VOLUME1_ROOTDIR_ADDRESS "0x4000"]
    by (simp add: with_root_def del: saved_keeps(1))
  moreover have "with_fat ?s = ?s" by (simp add: with_fat_def)
  ultimately show ?thesis by (simp add: mounted_def)
qed

lemma saved_data_sector:
  assumes "2 \<le> unat c"
  shows "disk (saved s name n sb a flag k) (cluster_lba c) = write_clusters (with_entry s name n sb flag k) a (new_clusters s n) (disk s) (cluster_lba c)"
proof -
  have "unat (cluster_lba c - 559) = 30 + unat c"
    using assms cluster_lba_unat [of c] by (simp add: unat_sub word_le_nat_alt)
  then have "\<not> unat (cluster_lba c - VOLUME1_ROOTDIR_LBA) < 32" using assms by simp
  then show ?thesis using save_range_outside by (simp add: saved_def Let_def del: VOLUME1_ROOTDIR_LBA_def)
qed

lemma chain_data_cong:
  assumes "\<And>c. c \<in> set cs \<Longrightarrow> disk s' (cluster_lba c) = disk s (cluster_lba c)"
  shows "chain_data s' cs = chain_data s cs"
proof -
  have "map (\<lambda>c. sector s' (cluster_lba c)) cs = map (\<lambda>c. sector s (cluster_lba c)) cs" using assms by (simp add: sector_def)
  then show ?thesis unfolding chain_data_def by (rule arg_cong)
qed

lemma saved_chain:
  assumes "save_ready s name a n k"
  shows "fat_chain (fmem (saved s name n sb a flag k)) (new_clusters s n)"
    and "chain_data (saved s name n sb a flag k) (new_clusters s n) = bytes (fmem s) a (512 * n)"
proof -
  let ?cs = "new_clusters s n" and ?m = "with_entry s name n sb flag k"
  have r: "n < length (free_clusters (fmem (mounted s)) CLUSTERS_TO_SAVE_MAX 3)" "1 \<le> n" "k < 512"
    and ap: "region a (512 * n) \<inter> (root_region \<union> fat_region) = {}"
    using assms by (auto simp: save_ready_def empty_entry_def)
  note cs = new_clusters_props [OF r(1)]
  show "fat_chain (fmem (saved s name n sb a flag k)) ?cs"
    unfolding saved_keeps using cs(1,2) r(2) new_cluster_lba [OF assms] by (intro link_fat_chain) auto
  have "chain_data (saved s name n sb a flag k) ?cs = chain_data (s\<lparr>disk := write_clusters ?m a ?cs (disk s)\<rparr>) ?cs"
  proof (rule chain_data_cong)
    fix c assume "c \<in> set ?cs"
    then have "2 \<le> unat c" using cs(3) by fastforce
    from saved_data_sector [OF this] show "disk (saved s name n sb a flag k) (cluster_lba c) = disk (s\<lparr>disk := write_clusters ?m a ?cs (disk s)\<rparr>) (cluster_lba c)"
      by simp
  qed
  also have "\<dots> = bytes ?m a (512 * n)" using chain_data_written [OF cs(2)] cs(1) by simp
  also have "\<dots> = bytes (fmem s) a (512 * n)"
  proof (rule bytes_cong)
    fix x assume "x \<in> region a (512 * n)"
    then have "x \<notin> root_region \<union> fat_region" using ap by blast
    then show "?m x = fmem s x" using with_entry_outside [OF r(3)] mounted_outside by (metis UnI1)
  qed
  finally show "chain_data (saved s name n sb a flag k) ?cs = bytes (fmem s) a (512 * n)" .
qed

lemma fat_chain_used: "fat_chain m cs \<Longrightarrow> c \<in> set cs \<Longrightarrow> short_at m (fat_at VOLUME1_FAT_ADDRESS c) \<noteq> 0"
proof (induction m cs rule: fat_chain.induct)
  case (3 m c' d cs)
  then show ?case using fat_chain_head [of m d cs] by auto
qed (auto simp del: VOLUME1_FAT_ADDRESS_def)

lemma fat_chain_other:
  assumes "\<And>c. c \<in> set cs \<Longrightarrow> short_at m' (fat_at VOLUME1_FAT_ADDRESS c) = short_at m (fat_at VOLUME1_FAT_ADDRESS c)"
  shows "fat_chain m' cs = fat_chain m cs"
  using assms by (induction m cs rule: fat_chain.induct) simp_all

lemma saved_frame:
  assumes "save_ready s name a n k" and "fat_chain (fmem (mounted s)) ds"
  shows "fat_chain (fmem (saved s name n sb a flag k)) ds"
    and "1 \<notin> set ds \<Longrightarrow> chain_data (saved s name n sb a flag k) ds = chain_data s ds"
proof -
  let ?cs = "new_clusters s n" and ?m = "with_entry s name n sb flag k"
  have r: "n < length (free_clusters (fmem (mounted s)) CLUSTERS_TO_SAVE_MAX 3)" "k < 512"
    using assms(1) by (auto simp: save_ready_def empty_entry_def)
  have dis: "d \<notin> set ?cs" if "d \<in> set ds" for d
    using fat_chain_used [OF assms(2) that] new_clusters_props(3) [OF r(1)] by blast
  have "?m x = fmem (mounted s) x" if "x \<in> fat_region" for x
    using with_entry_outside [OF r(2)] that caches_apart by blast
  then have m: "short_at ?m (fat_at VOLUME1_FAT_ADDRESS d) = short_at (fmem (mounted s)) (fat_at VOLUME1_FAT_ADDRESS d)" for d
    by (intro fat_short_cong)
  show "fat_chain (fmem (saved s name n sb a flag k)) ds"
    using assms(2) fat_chain_other [of ds "link_fat ?m ?cs" "fmem (mounted s)"] dis link_fat_other m by simp
  assume one: "1 \<notin> set ds"
  show "chain_data (saved s name n sb a flag k) ds = chain_data s ds"
  proof (rule chain_data_cong)
    fix d assume d: "d \<in> set ds"
    have "d \<noteq> 0"
    proof -
      have "\<forall>c \<in> set ds. c \<noteq> 0" if "fat_chain m ds" for m using that by (induction m ds rule: fat_chain.induct) auto
      then show ?thesis using assms(2) d by blast
    qed
    moreover have "d \<noteq> 1" using one d by auto
    ultimately have "unat d \<noteq> 0 \<and> unat d \<noteq> 1" by (simp add: word_unat_eq_iff)
    then have "2 \<le> unat d" by linarith
    then have "disk (saved s name n sb a flag k) (cluster_lba d) = write_clusters ?m a ?cs (disk s) (cluster_lba d)"
      by (rule saved_data_sector)
    also have "\<dots> = disk s (cluster_lba d)"
      using dis [OF d] cluster_lba_inj by (intro write_clusters_other) blast
    finally show "disk (saved s name n sb a flag k) (cluster_lba d) = disk s (cluster_lba d)" .
  qed
qed

section \<open>The saved entry\<close>

lemma saved_root_byte: "x \<in> root_region \<Longrightarrow> fmem (saved s name n sb a flag k) x = with_entry s name n sb flag k x"
  unfolding saved_keeps using caches_apart by (intro link_fat_outside) blast

lemma saved_entry_byte:
  assumes "k < 512" and "j < 32"
  shows "fmem (saved s name n sb a flag k) (dir_entry VOLUME1_ROOTDIR_ADDRESS k + of_nat j)
    = new_dir_entry (fmem (mounted s)) name (hd (new_clusters s n)) sb flag ! j"
  using saved_root_byte [OF root_entry_region [OF assms]] assms unfolding with_entry_def by (simp add: put_nth)

lemma saved_other_entry:
  assumes "k < 512" and "i < 512" and "i \<noteq> k" and "l \<le> 32"
  shows "bytes (fmem (saved s name n sb a flag k)) (dir_entry VOLUME1_ROOTDIR_ADDRESS i) l = bytes (fmem (mounted s)) (dir_entry VOLUME1_ROOTDIR_ADDRESS i) l"
proof (rule bytes_cong)
  fix x assume "x \<in> region (dir_entry VOLUME1_ROOTDIR_ADDRESS i) l"
  then obtain j where jl: "j < l" "x = dir_entry VOLUME1_ROOTDIR_ADDRESS i + of_nat j" by (rule in_regionE)
  with assms(4) have j: "j < 32" "x = dir_entry VOLUME1_ROOTDIR_ADDRESS i + of_nat j" by simp_all
  have "x \<notin> region (dir_entry VOLUME1_ROOTDIR_ADDRESS k) 32" unfolding j(2) using assms j(1) by (intro dir_entry_neq)
  then show "fmem (saved s name n sb a flag k) x = fmem (mounted s) x"
    using saved_root_byte root_entry_region [OF assms(2) j(1)] unfolding with_entry_def j(2) by (simp add: put_outside)
qed

lemma saved_entry:
  assumes "k < 512" and "flag \<noteq> 0x10"
  shows "bytes (fmem (saved s name n sb a flag k)) (dir_entry VOLUME1_ROOTDIR_ADDRESS k) 11 = bytes (fmem (mounted s)) name 11"
    and "entry_cluster (fmem (saved s name n sb a flag k)) k = hd (new_clusters s n)"
    and "entry_size (fmem (saved s name n sb a flag k)) k = ucast (ucast sb :: u32)"
proof -
  let ?m = "fmem (saved s name n sb a flag k)" and ?e = "dir_entry VOLUME1_ROOTDIR_ADDRESS k"
    and ?d = "new_dir_entry (fmem (mounted s)) name (hd (new_clusters s n)) sb flag"
  note b = saved_entry_byte [OF assms(1), of _ s name n sb a flag]
  have "bytes ?m ?e 11 = take 11 ?d" using b by (intro nth_equalityI) auto
  then show "bytes ?m ?e 11 = bytes (fmem (mounted s)) name 11" using new_dir_entry_name [OF assms(2)] by simp
  have d: "?d ! (26 + j) = drop 26 ?d ! j" for j by simp
  have sh: "short_at ?m (?e + of_nat j) = ucast (?d ! Suc j) * 256 + ucast (?d ! j)" if "Suc j < 32" for j
    using b [of "Suc j"] b [of j] that by (simp add: short_at_def add.assoc add.commute)
  have join: "ucast (ucast (drop_bit 8 w) :: u8) * 256 + ucast (ucast w :: u8) = w" for w :: u16
    using short_eq [of "ucast (drop_bit 8 w)" "ucast w" w] by simp
  have t: "?d ! 26 = ucast (hd (new_clusters s n))" "?d ! 27 = ucast (drop_bit 8 (hd (new_clusters s n)))"
    "?d ! 28 = ucast sb" "?d ! 29 = ucast (drop_bit 8 sb)" "?d ! 30 = ucast (drop_bit 16 sb)" "?d ! 31 = ucast (drop_bit 24 sb)"
    using d [of 0] d [of 1] d [of 2] d [of 3] d [of 4] d [of 5] new_dir_entry_tail [OF assms(2)] by (simp_all add: nth_Cons')
  show "entry_cluster ?m k = hd (new_clusters s n)" using sh [of 26] t join by (simp add: entry_cluster_def)
  have lo: "short_at ?m (?e + 28) = ucast sb"
  proof -
    have "short_at ?m (?e + 28) = ucast (ucast (drop_bit 8 sb) :: u8) * 256 + ucast (ucast sb :: u8)" using sh [of 28] t by simp
    also have "\<dots> = ucast sb" unfolding short_eq by (intro conjI; rule bit_word_eqI; simp add: bit_simps)
    finally show ?thesis .
  qed
  have hi: "short_at ?m (?e + 28 + 2) = ucast (drop_bit 16 sb)"
  proof -
    have "short_at ?m (?e + 28 + 2) = ucast (ucast (drop_bit 24 sb) :: u8) * 256 + ucast (ucast (drop_bit 16 sb) :: u8)"
      using sh [of 30] t by (simp add: add.assoc)
    also have "\<dots> = ucast (drop_bit 16 sb)" unfolding short_eq by (intro conjI; rule bit_word_eqI; simp add: bit_simps)
    finally show ?thesis .
  qed
  have "(ucast (ucast (drop_bit 16 sb) :: u16) :: u32) * 65536 + ucast (ucast sb :: u16) = ucast sb"
  proof -
    have split: "unat sb mod 2 ^ 32 = (unat sb div 2 ^ 16 mod 2 ^ 16) * 2 ^ 16 + unat sb mod 2 ^ 16"
      by (metis (no_types) div_mult_mod_eq mod_mult2_eq mult.commute power_add numeral_Bit0 add.commute)
    have big: "unat sb div 65536 mod 18446744073709551616 = unat sb div 65536"
      using unsigned_less [of sb, where 'a = nat] by (intro mod_less) (simp add: div_less_iff_less_mult)
    show ?thesis using split big
      by (simp add: mod_mod_cancel split [symmetric, simplified] word_unat_eq_iff unat_word_ariths unsigned_ucast_eq take_bit_eq_mod unat_drop_bit_eq drop_bit_eq_div)
  qed
  then show "entry_size ?m k = ucast (ucast sb :: u32)" unfolding entry_size_def int_at_def lo hi by (rule arg_cong)
qed

section \<open>A volume\<close>

text \<open>An empty volume of 40000 sectors, with the name of a file at 4096 and its two bytes at 8192.\<close>

definition demo_name :: "u8 list" where
  "demo_name = [72, 69, 76, 76, 79, 32, 32, 32, 84, 88, 84]"

definition demo_root :: filesystem where
  "demo_root = \<lparr>fs_used = 1, fs_magic = 1234, fs_type = 1, fs_spc = 1, fs_dir_entries = 512, fs_rootdir_address = VOLUME1_ROOTDIR_ADDRESS,
    fs_rootdir_first_lba = VOLUME1_ROOTDIR_LBA, fs_fat_address = VOLUME1_FAT_ADDRESS, fs_fat_first_lba = VOLUME1_FAT_LBA,
    fs_dataarea_first_lba = VOLUME1_DATAAREA_LBA, fs_entry_size = 32\<rparr>"

definition demo_volume :: fatfs where
  "demo_volume = \<lparr>fmem = put (put (\<lambda>a. 0) 0x1000 (demo_name @ [0])) 0x2000 [72, 105], disk = (\<lambda>l i. 0), drive_ready = (\<lambda>l. True),
    gNumberOfSectorsInBootDisk = 40000, g_currentvolume_fatbits = 16, g_fat_cache_loaded = 1, g_fat_cache_saved = 1,
    fs_root = Some demo_root, fat16ClustersToSave = (\<lambda>i. 0)\<rparr>"

lemma demo_zero:
  assumes "x \<in> root_region \<union> fat_region"
  shows "fmem (mounted demo_volume) x = 0"
proof -
  have "apart 0x1000 (length (demo_name @ [0])) 0x30000 0x20000" "apart 0x2000 (length [72 :: u8, 105]) 0x30000 0x20000"
    "apart 0x1000 (length (demo_name @ [0])) 0x70000 0x4000" "apart 0x2000 (length [72 :: u8, 105]) 0x70000 0x4000"
    by (rule apart_ordered; simp add: demo_name_def)+
  then have "x \<notin> region 0x1000 (length (demo_name @ [0]))" "x \<notin> region 0x2000 (length [72 :: u8, 105])"
    using assms unfolding apart_def VOLUME1_FAT_ADDRESS_def VOLUME1_ROOTDIR_ADDRESS_def by blast+
  then have z: "fmem demo_volume x = 0" unfolding demo_volume_def by (simp only: put_outside fatfs.simps not_False_eq_True)
  have d: "set (disk_range demo_volume l n) \<subseteq> {0}" for l n
    by (auto simp: disk_range_def sector_def demo_volume_def)
  have "fmem (with_root demo_volume) x = 0"
  proof (cases "unat (x - VOLUME1_ROOTDIR_ADDRESS) < length (disk_range demo_volume VOLUME1_ROOTDIR_LBA 32)")
    case True
    then have "disk_range demo_volume VOLUME1_ROOTDIR_LBA 32 ! unat (x - VOLUME1_ROOTDIR_ADDRESS) = 0" using d nth_mem by blast
    then show ?thesis using True by (simp add: with_root_def put_def)
  next
    case False
    then show ?thesis using z by (simp add: with_root_def put_def)
  qed
  moreover have "with_fat (with_root demo_volume) = with_root demo_volume" by (simp add: with_fat_def with_root_def demo_volume_def)
  ultimately show ?thesis by (simp add: mounted_def)
qed

lemma demo_ready: "save_ready demo_volume 0x1000 0x2000 (unat (1 :: u64)) 0"
proof -
  have "short_at (fmem (mounted demo_volume)) (fat_at VOLUME1_FAT_ADDRESS c) = 0" for c
    using demo_zero fat_at_region unfolding short_at_def by simp
  then have "length (free_clusters (fmem (mounted demo_volume)) CLUSTERS_TO_SAVE_MAX 3) = 32768" by (simp add: free_clusters_def)
  moreover have "empty_entry (fmem (mounted demo_volume)) 0"
    using demo_zero [OF UnI1, OF root_entry_region [of 0 0]] by (simp add: empty_entry_def)
  moreover have "apart 0x2000 512 0x30000 0x20000" "apart 0x2000 512 0x70000 0x4000"
    by (rule apart_ordered; simp)+
  moreover have "volume_ok demo_volume" by (simp add: volume_ok_def drive_ok_def demo_volume_def demo_root_def)
  moreover have "fmem demo_volume 0x1000 \<noteq> 0" by (simp add: demo_volume_def demo_name_def put_def)
  ultimately show ?thesis by (auto simp: save_ready_def apart_def demo_volume_def)
qed

lemma demo_file_name: "file_name_ok 0x4000 (fmem demo_volume) 0x1000 demo_name" "length demo_name = 11"
proof -
  have "cstr (put (\<lambda>a. 0) 0x1000 (demo_name @ [0])) 0x1000 demo_name"
    by (rule cstr_put) (simp_all add: demo_name_def)
  moreover have "apart 0x2000 (length [72 :: u8, 105]) 0x1000 (Suc (length demo_name))"
    by (subst apart_sym, rule apart_ordered) (simp_all add: demo_name_def)
  ultimately have "cstr (fmem demo_volume) 0x1000 demo_name" unfolding demo_volume_def by (simp only: cstr_put_apart fatfs.simps)
  moreover have "apart 0x4000 12 0x1000 12" "apart 0x4000 12 0x70000 0x4000" "apart 0x1000 12 0x30000 0x20000" "apart 0x1000 12 0x70000 0x4000"
    by (rule apart_ordered apart_sym [OF apart_ordered]; simp)+
  moreover have "Suc (length demo_name) = 12" "length demo_name \<le> 11" "demo_name \<noteq> []" by (simp_all add: demo_name_def)
  ultimately show "file_name_ok 0x4000 (fmem demo_volume) 0x1000 demo_name" by (auto simp: file_name_ok_def apart_def)
qed (simp add: demo_name_def)

lemma demo_no_entry: "\<forall>i < 512. bytes (fmem (mounted demo_volume)) (dir_entry VOLUME1_ROOTDIR_ADDRESS i) 11 \<noteq> demo_name"
proof (intro allI impI notI)
  fix i :: nat assume i: "i < 512" "bytes (fmem (mounted demo_volume)) (dir_entry VOLUME1_ROOTDIR_ADDRESS i) 11 = demo_name"
  have "bytes (fmem (mounted demo_volume)) (dir_entry VOLUME1_ROOTDIR_ADDRESS i) 11 ! 0 = 0"
    using demo_zero [OF UnI1, OF root_entry_region [OF i(1), of 0]] by simp
  then show False by (simp only: i(2)) (simp add: demo_name_def)
qed

lemma demo_buffer: "buffer_ok 0x6000 1"
proof -
  have "apart 0x6000 512 0x30000 0x20000" by (rule apart_ordered; simp)
  then show ?thesis by (auto simp: buffer_ok_def apart_def)
qed

text \<open>The saved state satisfies what loading asks for.\<close>

lemma saved_outside:
  assumes "k < 512" and "x \<notin> root_region \<union> fat_region"
  shows "fmem (saved s name n sb a flag k) x = fmem s x"
proof -
  have "fmem (saved s name n sb a flag k) x = with_entry s name n sb flag k x"
    unfolding saved_keeps using assms(2) by (intro link_fat_outside) blast
  also have "\<dots> = fmem (mounted s) x" using assms by (intro with_entry_outside) blast+
  also have "\<dots> = fmem s x" by (rule mounted_outside [OF assms(2)])
  finally show ?thesis .
qed

lemma saved_entry_of:
  assumes "k < 512" and "flag \<noteq> 0x10" and "length nm = 11" and "file_name_ok stk (fmem s) name nm"
    and "\<forall>i < 512. bytes (fmem (mounted s)) (dir_entry VOLUME1_ROOTDIR_ADDRESS i) 11 \<noteq> nm"
  shows "file_name_ok stk (fmem (saved s name n sb a flag k)) name nm" and "entry_of (fmem (saved s name n sb a flag k)) nm k"
proof -
  show "file_name_ok stk (fmem (saved s name n sb a flag k)) name nm"
    using assms(4) file_name_ok_cong [of "fmem (saved s name n sb a flag k)" "fmem s"] saved_outside [OF assms(1)] by blast
  have "bytes (fmem (mounted s)) name 11 = bytes (fmem s) name 11"
  proof (rule bytes_cong)
    fix x assume "x \<in> region name 11"
    then have "x \<in> region name (Suc (length nm))" using region_mono [of 11 12 name] assms(3) by auto
    then have "x \<notin> root_region \<union> fat_region" using assms(4) by (auto simp: file_name_ok_def)
    then show "fmem (mounted s) x = fmem s x" by (rule mounted_outside)
  qed
  also have "\<dots> = nm" using assms(3,4) by (auto simp: file_name_ok_def list_eq_iff_nth_eq cstr_nth)
  finally show "entry_of (fmem (saved s name n sb a flag k)) nm k"
    using saved_entry(1) [OF assms(1,2)] saved_other_entry [OF assms(1)] assms(1,3,5) unfolding entry_of_def by auto
qed

section \<open>Saving and loading\<close>

text \<open>C26. Saving a file on a FAT16 volume with room for it: the routine ends with success, the clusters of the
  file are the first free ones and form a chain of \<open>n\<close> clusters in the FAT that holds exactly the sectors of the
  source, the first empty entry of the root directory has the name, the first cluster and the size; the directory
  on the disk is the one in memory; every other entry and every chain that was there before are kept, with their
  data (cluster 1, which the code maps into the directory, apart).\<close>

theorem save_file_allocates:
  assumes "save_ready s name a (unat n) k" and "flag \<noteq> 0x10"
  shows "\<exists>s' cs. fsSaveFile VOLUME1_FAT_ADDRESS VOLUME1_ROOTDIR_ADDRESS 512 name n sb a flag s = Ok 0 s' \<and>
    cs = take (unat n) (free_clusters (fmem (mounted s)) CLUSTERS_TO_SAVE_MAX 3) \<and> length cs = unat n \<and>
    fat_chain (fmem s') cs \<and> chain_data s' cs = bytes (fmem s) a (512 * unat n) \<and>
    bytes (fmem s') (dir_entry VOLUME1_ROOTDIR_ADDRESS k) 11 = bytes (fmem (mounted s)) name 11 \<and>
    entry_cluster (fmem s') k = hd cs \<and> entry_size (fmem s') k = ucast (ucast sb :: u32) \<and> mounted s' = s' \<and>
    (\<forall>i < 512. i \<noteq> k \<longrightarrow> bytes (fmem s') (dir_entry VOLUME1_ROOTDIR_ADDRESS i) 32 = bytes (fmem (mounted s)) (dir_entry VOLUME1_ROOTDIR_ADDRESS i) 32) \<and>
    (\<forall>ds. fat_chain (fmem (mounted s)) ds \<longrightarrow> fat_chain (fmem s') ds \<and> (1 \<notin> set ds \<longrightarrow> chain_data s' ds = chain_data s ds))"
proof (intro exI conjI)
  have r: "unat n < length (free_clusters (fmem (mounted s)) CLUSTERS_TO_SAVE_MAX 3)" "k < 512"
    using assms(1) by (auto simp: save_ready_def empty_entry_def)
  show "fsSaveFile VOLUME1_FAT_ADDRESS VOLUME1_ROOTDIR_ADDRESS 512 name n sb a flag s = Ok 0 (saved s name (unat n) sb a flag k)"
    by (rule save_file_ok [OF assms(1)])
  show "new_clusters s (unat n) = take (unat n) (free_clusters (fmem (mounted s)) CLUSTERS_TO_SAVE_MAX 3)"
    by (rule new_clusters_def)
  show "length (new_clusters s (unat n)) = unat n" by (rule new_clusters_props(1) [OF r(1)])
  show "\<forall>i < 512. i \<noteq> k \<longrightarrow> bytes (fmem (saved s name (unat n) sb a flag k)) (dir_entry VOLUME1_ROOTDIR_ADDRESS i) 32
      = bytes (fmem (mounted s)) (dir_entry VOLUME1_ROOTDIR_ADDRESS i) 32"
    using saved_other_entry [OF r(2)] by blast
  show "\<forall>ds. fat_chain (fmem (mounted s)) ds \<longrightarrow> fat_chain (fmem (saved s name (unat n) sb a flag k)) ds \<and>
      (1 \<notin> set ds \<longrightarrow> chain_data (saved s name (unat n) sb a flag k) ds = chain_data s ds)"
    using saved_frame [OF assms(1)] by blast
qed (rule saved_chain [OF assms(1)] saved_entry [OF _ assms(2)] mounted_saved | use assms(1) in \<open>simp add: save_ready_def empty_entry_def\<close>)+

theorem save_file_allocates_witness:
  "\<exists>s' cs. fsSaveFile VOLUME1_FAT_ADDRESS VOLUME1_ROOTDIR_ADDRESS 512 0x1000 1 2 0x2000 1 demo_volume = Ok 0 s' \<and>
    length cs = 1 \<and> fat_chain (fmem s') cs \<and> chain_data s' cs = bytes (fmem demo_volume) 0x2000 512 \<and>
    entry_cluster (fmem s') 0 = hd cs \<and> entry_size (fmem s') 0 = 2"
proof -
  have "(1 :: u8) \<noteq> 0x10" by simp
  from save_file_allocates [OF demo_ready this, of 2] obtain s' cs
    where "fsSaveFile VOLUME1_FAT_ADDRESS VOLUME1_ROOTDIR_ADDRESS 512 0x1000 1 2 0x2000 1 demo_volume = Ok 0 s'"
      "length cs = unat (1 :: u64)" "fat_chain (fmem s') cs" "chain_data s' cs = bytes (fmem demo_volume) 0x2000 (512 * unat (1 :: u64))"
      "entry_cluster (fmem s') 0 = hd cs" "entry_size (fmem s') 0 = ucast (ucast (2 :: u64) :: u32)" by blast
  then show ?thesis by (intro exI [of _ s'] exI [of _ cs]) simp
qed

text \<open>Loading a file of the root directory: when the name (at most 11 characters) is the start of some entry, the
  size in the first such entry is below the size of the buffer, and its first cluster starts a well formed chain of
  at most 817 clusters in the FAT, the routine ends with success, the buffer holds exactly the sectors of the chain
  in order, and all other memory is as the two tables were read.\<close>

theorem load_file_reads_chain:
  assumes "volume_ok s" and "file_name_ok stk (fmem s) name nm" and "entry_of (fmem (mounted s)) nm i"
    and "fat_chain (fmem (mounted s)) cs" and "entry_cluster (fmem (mounted s)) i = hd cs" and "length cs \<le> 817"
    and "\<forall>c \<in> set cs. cluster_lba c < gNumberOfSectorsInBootDisk s" and "buffer_ok b (length cs)"
    and "entry_size (fmem (mounted s)) i < sz" and "sz \<le> 512 * 4096"
  shows "fsLoadFile stk VOLUME1_FAT_ADDRESS VOLUME1_ROOTDIR_ADDRESS 512 name b sz s
    = Some (Ok 0 ((mounted s)\<lparr>fmem := put (fmem (mounted s)) b (chain_data s cs)\<rparr>))"
  by (rule load_file_ok [OF assms])

theorem load_file_reads_chain_witness:
  "fsLoadFile 0x4000 VOLUME1_FAT_ADDRESS VOLUME1_ROOTDIR_ADDRESS 512 0x1000 0x6000 1024 (saved demo_volume 0x1000 1 2 0x2000 1 0)
    = Some (Ok 0 ((saved demo_volume 0x1000 1 2 0x2000 1 0)\<lparr>fmem := put (fmem (saved demo_volume 0x1000 1 2 0x2000 1 0)) 0x6000
        (bytes (fmem demo_volume) 0x2000 512)\<rparr>))"
proof -
  let ?s = "saved demo_volume 0x1000 1 2 0x2000 1 0" and ?cs = "new_clusters demo_volume 1"
  have r: "save_ready demo_volume 0x1000 0x2000 1 0" using demo_ready by simp
  then have v: "volume_ok ?s" "length ?cs = 1" using new_clusters_props(1) [of 1 demo_volume] by (simp_all add: save_ready_def)
  have f: "(0 :: nat) < 512" "(1 :: u8) \<noteq> 0x10" by simp_all
  have "\<forall>c \<in> set ?cs. cluster_lba c < gNumberOfSectorsInBootDisk ?s" using new_cluster_lba(1) [OF r] by simp
  then show ?thesis
    using load_file_reads_chain [of ?s "0x4000" "0x1000" demo_name 0 ?cs "0x6000" 1024] v demo_buffer
      saved_entry_of [OF f demo_file_name(2,1) demo_no_entry, of 1 2 "0x2000"] saved_chain [OF r, of 2 1] saved_entry(2,3) [OF f, of demo_volume "0x1000" 1 2 "0x2000"]
    unfolding mounted_saved by simp
qed

text \<open>C8. Saving a new file and loading it: on a volume with room for the file (the conditions of
  \<open>save_file_allocates\<close>), when the name has exactly 11 characters and no entry of the directory has that name,
  \<open>fsLoadFile\<close> after \<open>fsSaveFile\<close> succeeds and fills the buffer, which is large enough, with the bytes that were
  saved. Under a name that exists the old file is loaded (\<open>save_over_old_file\<close>).\<close>

theorem save_then_load:
  assumes "save_ready s name a (unat n) k" and "flag \<noteq> 0x10" and "length nm = 11" and "file_name_ok stk (fmem s) name nm"
    and "\<forall>i < 512. bytes (fmem (mounted s)) (dir_entry VOLUME1_ROOTDIR_ADDRESS i) 11 \<noteq> nm"
    and "buffer_ok b (unat n)" and "ucast (ucast sb :: u32) < sz" and "sz \<le> 512 * 4096"
  shows "\<exists>s1 s2. fsSaveFile VOLUME1_FAT_ADDRESS VOLUME1_ROOTDIR_ADDRESS 512 name n sb a flag s = Ok 0 s1 \<and>
    fsLoadFile stk VOLUME1_FAT_ADDRESS VOLUME1_ROOTDIR_ADDRESS 512 name b sz s1 = Some (Ok 0 s2) \<and>
    bytes (fmem s2) b (512 * unat n) = bytes (fmem s) a (512 * unat n)"
proof -
  let ?s = "saved s name (unat n) sb a flag k" and ?cs = "new_clusters s (unat n)"
  have r: "unat n < length (free_clusters (fmem (mounted s)) CLUSTERS_TO_SAVE_MAX 3)" "k < 512" "volume_ok s" "unat n \<le> 16"
    using assms(1) by (auto simp: save_ready_def empty_entry_def)
  have "fsLoadFile stk VOLUME1_FAT_ADDRESS VOLUME1_ROOTDIR_ADDRESS 512 name b sz ?s
      = Some (Ok 0 (?s\<lparr>fmem := put (fmem ?s) b (chain_data ?s ?cs)\<rparr>))"
  proof -
    have "\<forall>c \<in> set ?cs. cluster_lba c < gNumberOfSectorsInBootDisk ?s" using new_cluster_lba(1) [OF assms(1)] by simp
    then show ?thesis
      using load_file_ok [of ?s stk name nm k ?cs b sz] saved_entry_of [OF r(2) assms(2-5)] r assms(6,7,8) saved_chain(1) [OF assms(1)] saved_entry(2,3) [OF r(2) assms(2)]
        new_clusters_props(1) [OF r(1)] unfolding mounted_saved by simp
  qed
  moreover have "bytes (put (fmem ?s) b (chain_data ?s ?cs)) b (512 * unat n) = bytes (fmem s) a (512 * unat n)"
    using bytes_put [of "chain_data ?s ?cs" "fmem ?s" b] saved_chain(2) [OF assms(1)] r(4) by simp
  ultimately show ?thesis using save_file_ok [OF assms(1)]
    by (intro exI [of _ ?s] exI [of _ "?s\<lparr>fmem := put (fmem ?s) b (chain_data ?s ?cs)\<rparr>"] conjI) simp_all
qed

theorem save_then_load_witness:
  "\<exists>s1 s2. fsSaveFile VOLUME1_FAT_ADDRESS VOLUME1_ROOTDIR_ADDRESS 512 0x1000 1 2 0x2000 1 demo_volume = Ok 0 s1 \<and>
    fsLoadFile 0x4000 VOLUME1_FAT_ADDRESS VOLUME1_ROOTDIR_ADDRESS 512 0x1000 0x6000 1024 s1 = Some (Ok 0 s2) \<and>
    bytes (fmem s2) 0x6000 512 = bytes (fmem demo_volume) 0x2000 512"
  using save_then_load [OF demo_ready _ demo_file_name(2,1) demo_no_entry, of 1 "0x6000" 2 1024] demo_buffer by simp

section \<open>Saving under a name that exists\<close>

text \<open>The routine does not look for an entry of the name: it fills the first empty entry, so when the old entry comes
  before that one, as it does in a directory without holes, loading the name gives the data of the old file.\<close>

theorem save_over_old_file:
  assumes r: "save_ready s name a (unat n) k" and nm: "file_name_ok stk (fmem s) name nm"
    and old: "entry_of (fmem (mounted s)) nm i" "i < k" "fat_chain (fmem (mounted s)) cs" "entry_cluster (fmem (mounted s)) i = hd cs"
      "1 \<notin> set cs" "length cs \<le> 817" "\<forall>c \<in> set cs. cluster_lba c < gNumberOfSectorsInBootDisk s"
    and b: "buffer_ok b (length cs)" "entry_size (fmem (mounted s)) i < sz" "sz \<le> 512 * 4096"
  shows "\<exists>s1 s2. fsSaveFile VOLUME1_FAT_ADDRESS VOLUME1_ROOTDIR_ADDRESS 512 name n sb a flag s = Ok 0 s1 \<and>
    fsLoadFile stk VOLUME1_FAT_ADDRESS VOLUME1_ROOTDIR_ADDRESS 512 name b sz s1 = Some (Ok 0 s2) \<and>
    bytes (fmem s2) b (512 * length cs) = chain_data s cs"
proof -
  let ?s = "saved s name (unat n) sb a flag k" and ?e = "dir_entry VOLUME1_ROOTDIR_ADDRESS"
  have k: "k < 512" and v: "volume_ok s" using r by (auto simp: save_ready_def empty_entry_def)
  have i: "i < 512" using old(1) by (simp add: entry_of_def)
  have byte: "fmem ?s (?e i + of_nat j) = fmem (mounted s) (?e i + of_nat j)" if "j < 32" for j
  proof -
    have "bytes (fmem ?s) (?e i) 32 ! j = bytes (fmem (mounted s)) (?e i) 32 ! j" using saved_other_entry [OF k i, of 32] old(2) by simp
    then show ?thesis using that by (simp add: bytes_def)
  qed
  have short: "short_at (fmem ?s) (?e i + of_nat j) = short_at (fmem (mounted s)) (?e i + of_nat j)" if "j < 31" for j
    using byte [of j] byte [of "Suc j"] that by (simp add: short_at_def add.assoc add.commute)
  have len: "length nm \<le> 32" using nm by (simp add: file_name_ok_def)
  have "entry_of (fmem ?s) nm i"
    using old(1,2) k saved_other_entry [OF k _ _ len] by (auto simp: entry_of_def)
  moreover have "file_name_ok stk (fmem ?s) name nm"
    using nm file_name_ok_cong [of "fmem ?s" "fmem s"] saved_outside [OF k] by blast
  moreover have "entry_cluster (fmem ?s) i = hd cs" using short [of 26] old(4) by (simp add: entry_cluster_def)
  moreover have "entry_size (fmem ?s) i < sz"
    using short [of 28] short [of 30] b(2) by (simp add: entry_size_def int_at_def add.assoc)
  moreover note saved_frame [OF r old(3)]
  ultimately have "fsLoadFile stk VOLUME1_FAT_ADDRESS VOLUME1_ROOTDIR_ADDRESS 512 name b sz ?s
      = Some (Ok 0 (?s\<lparr>fmem := put (fmem ?s) b (chain_data s cs)\<rparr>))"
    using load_file_ok [of ?s stk name nm i cs b sz] v old(5-7) b(1,3) unfolding mounted_saved by simp
  moreover have "bytes (put (fmem ?s) b (chain_data s cs)) b (512 * length cs) = chain_data s cs"
    using bytes_put [of "chain_data s cs" "fmem ?s" b] old(6) by simp
  ultimately show ?thesis using save_file_ok [OF r]
    by (intro exI [of _ ?s] exI [of _ "?s\<lparr>fmem := put (fmem ?s) b (chain_data s cs)\<rparr>"] conjI) simp_all
qed

end
