(* ===== verification/IO_Model.thy ===== *)
theory IO_Model
  imports Dispatch Kernel_Heap Fat_File
begin

text \<open>
  The data of the character devices above the drivers: files, pipes, terminals and sockets (\<open>file_d\<close> of
  gthouse/libk/kstdio.h, \<open>pipe_info_d\<close> of per/fs/pipe.h, \<open>tty_d\<close> of uhalls/chardev/tty/tty.h,
  \<open>socket_d\<close> of per/net/socket.h), with the fields that the modelled functions use. The state extends
  the kernel heap: the structures live in typed heaps indexed by their addresses, the bytes of the
  buffers in \<open>hmem\<close>. The threads and processes are the component \<open>ks\<close>, the volume is \<open>fat\<close> (its own
  memory is not used: it is \<open>hmem\<close>). \<open>Objects\<close> is the table of open files of a process, \<open>priv\<close> its
  private socket.
\<close>

definition BUFSIZ :: int where [simp]: "BUFSIZ = 1024"
definition OPEN_MAX :: int where [simp]: "OPEN_MAX = 32"
definition EOF :: int where [simp]: "EOF = - 1"
definition EBADF :: int where [simp]: "EBADF = 9"
definition EPERM :: int where [simp]: "EPERM = 1"
definition EMFILE :: int where [simp]: "EMFILE = 24"
definition ENOTSOCK :: int where [simp]: "ENOTSOCK = 88"
definition SRD :: u16 where [simp]: "SRD = 0x0004"
definition SWR :: u16 where [simp]: "SWR = 0x0008"
definition STDIN_FILENO :: int where [simp]: "STDIN_FILENO = 0"
definition STDOUT_FILENO :: int where [simp]: "STDOUT_FILENO = 1"
definition STDERR_FILENO :: int where [simp]: "STDERR_FILENO = 2"
definition FLOWERTHREAD_BASE :: u64 where [simp]: "FLOWERTHREAD_BASE = 0x00200000"

datatype object_type = ObjectTypeNull | ObjectTypeFile | ObjectTypePipe | ObjectTypeFileSystem | ObjectTypePTMX |
  ObjectTypeTTY | ObjectTypeVirtualConsole | ObjectTypeNIC | ObjectTypeSocket | ObjectTypeIoBuffer | ObjectTypeOther

record sync_d =
  sender_pid :: int
  receiver_pid :: int
  sync_action :: int
  can_read :: int
  can_write :: int
  can_execute :: int
  can_accept :: int
  can_connect :: int
  block_on_read :: int
  block_on_read_empty :: int
  block_on_write :: int
  block_on_write_full :: int
  is_blocked :: int

record file_d =
  f_used :: int
  f_magic :: int
  f_file :: int
  f_object :: object_type
  f_tty :: ptr
  f_socket :: ptr
  f_tmpfname :: ptr
  f_pid :: int
  f_uid :: int
  f_gid :: int
  socket_buffer_full :: int
  f_base :: ptr
  f_p :: ptr
  f_r :: int
  f_w :: int
  f_lbfsize :: int
  f_fsize :: int
  f_cnt :: int
  f_flags :: u16
  f_sync :: sync_d
  fd_counter :: int
  tid_waiting :: int
  pipe_info :: ptr

record pipe_info_d =
  pi_base :: ptr
  buffer_size :: int
  pi_counter :: int
  write_pos :: int
  read_pos :: int

record tty_queue =
  q_buf :: "nat \<Rightarrow> u8"
  q_buffer_size :: int
  q_cnt :: int
  q_head :: u64
  q_tail :: u64

record tty_d =
  tty_used :: int
  tty_magic :: int
  tty_type :: int
  tty_subtype :: int
  tty_is_blocked :: int
  raw_queue :: tty_queue
  canonical_queue :: tty_queue
  output_queue :: tty_queue
  output_worker_number :: int
  c_lflag :: u16
  c_cc :: "nat \<Rightarrow> u8"
  tty_link :: ptr

definition SS_LISTENING :: int where [simp]: "SS_LISTENING = 1"
definition SS_UNCONNECTED :: int where [simp]: "SS_UNCONNECTED = 2"
definition SS_CONNECTING :: int where [simp]: "SS_CONNECTING = 3"
definition SS_CONNECTED :: int where [simp]: "SS_CONNECTED = 4"

record socket_d =
  so_objectType :: object_type
  so_used :: int
  so_magic :: int
  so_family :: int
  so_type :: int
  so_protocol :: int
  so_ep :: ptr
  so_pid :: int
  so_uid :: int
  so_gid :: int
  connection_type :: int
  ip_ipv4 :: u32
  ip_ipv6 :: u64
  so_port :: u16
  pending_server_endpoints :: "int \<Rightarrow> ptr"
  pending_server_count :: int
  pending_client_endpoints :: "int \<Rightarrow> ptr"
  pending_client_count :: int
  backlog_max :: int
  backlog_head :: int
  isAcceptingConnections :: int
  so_link :: ptr
  so_state :: int
  conn_copy :: int
  clientfd_on_server :: int
  private_file :: ptr
  magic_string :: "nat \<Rightarrow> u8"
  addr_family :: u16
  addr_data :: "nat \<Rightarrow> u8"
  in_family :: u8
  in_addr :: u32
  in_port :: u16

record endpoint_d =
  ep_used :: int
  ep_magic :: int
  side_id :: int
  case_id :: int
  is_remote :: int
  ep_socket :: ptr

text \<open>\<open>console_out\<close> and \<open>serial_out\<close> are the characters given to the console (with its number) and to the serial port.\<close>

record iostate = kheap +
  ks :: kstate
  fat :: fatfs
  files :: "ptr \<Rightarrow> file_d"
  pipes :: "ptr \<Rightarrow> pipe_info_d"
  ttys :: "ptr \<Rightarrow> tty_d"
  socks :: "ptr \<Rightarrow> socket_d"
  eps :: "ptr \<Rightarrow> endpoint_d"
  Objects :: "ptr \<Rightarrow> int \<Rightarrow> ptr"
  priv :: "ptr \<Rightarrow> ptr"
  read_counter :: "ptr \<Rightarrow> u64"
  write_counter :: "ptr \<Rightarrow> u64"
  stdin :: ptr
  special_reader :: int
  current_user :: int
  current_group :: int
  gramado_ports :: "int \<Rightarrow> int"
  new_client_port_number :: u16
  fg_console :: int
  console_out :: "(int \<times> u8) list"
  serial_out :: "u8 list"

section \<open>Updates\<close>

definition upd_file :: "ptr \<Rightarrow> (file_d \<Rightarrow> file_d) \<Rightarrow> iostate \<Rightarrow> iostate" where
  "upd_file p f s = s\<lparr>files := (files s)(p := f (files s p))\<rparr>"

definition upd_pipe :: "ptr \<Rightarrow> (pipe_info_d \<Rightarrow> pipe_info_d) \<Rightarrow> iostate \<Rightarrow> iostate" where
  "upd_pipe p f s = s\<lparr>pipes := (pipes s)(p := f (pipes s p))\<rparr>"

definition upd_tty :: "ptr \<Rightarrow> (tty_d \<Rightarrow> tty_d) \<Rightarrow> iostate \<Rightarrow> iostate" where
  "upd_tty p f s = s\<lparr>ttys := (ttys s)(p := f (ttys s p))\<rparr>"

definition upd_sock :: "ptr \<Rightarrow> (socket_d \<Rightarrow> socket_d) \<Rightarrow> iostate \<Rightarrow> iostate" where
  "upd_sock p f s = s\<lparr>socks := (socks s)(p := f (socks s p))\<rparr>"

definition set_object :: "ptr \<Rightarrow> int \<Rightarrow> ptr \<Rightarrow> iostate \<Rightarrow> iostate" where
  "set_object p fd f s = s\<lparr>Objects := (Objects s)(p := (Objects s p)(fd := f))\<rparr>"

definition on_ks :: "(kstate \<Rightarrow> kstate) \<Rightarrow> iostate \<Rightarrow> iostate" where
  "on_ks f s = s\<lparr>ks := f (ks s)\<rparr>"

text \<open>Every service begins by giving a credit to the current thread.\<close>

definition credit_current :: "iostate \<Rightarrow> iostate" where
  "credit_current s = on_ks (do_credits_by_tid (current_thread (ks s))) s"

definition yield_current :: "iostate \<Rightarrow> iostate" where
  "yield_current s = on_ks (yield (current_thread (ks s))) s"

section \<open>Blank structures\<close>

text \<open>The structures after \<open>memset\<close> with 0.\<close>

definition zero_sync :: sync_d where
  "zero_sync = \<lparr>sender_pid = 0, receiver_pid = 0, sync_action = 0, can_read = 0, can_write = 0, can_execute = 0,
     can_accept = 0, can_connect = 0, block_on_read = 0, block_on_read_empty = 0, block_on_write = 0,
     block_on_write_full = 0, is_blocked = 0\<rparr>"

definition zero_file :: file_d where
  "zero_file = \<lparr>f_used = 0, f_magic = 0, f_file = 0, f_object = ObjectTypeNull, f_tty = NULL, f_socket = NULL,
     f_tmpfname = NULL, f_pid = 0, f_uid = 0, f_gid = 0, socket_buffer_full = 0, f_base = NULL, f_p = NULL, f_r = 0,
     f_w = 0, f_lbfsize = 0, f_fsize = 0, f_cnt = 0, f_flags = 0, f_sync = zero_sync, fd_counter = 0, tid_waiting = 0,
     pipe_info = NULL\<rparr>"

definition zero_socket :: socket_d where
  "zero_socket = \<lparr>so_objectType = ObjectTypeNull, so_used = 0, so_magic = 0, so_family = 0, so_type = 0, so_protocol = 0,
     so_ep = NULL, so_pid = 0, so_uid = 0, so_gid = 0, connection_type = 0, ip_ipv4 = 0, ip_ipv6 = 0, so_port = 0,
     pending_server_endpoints = (\<lambda>_. NULL), pending_server_count = 0, pending_client_endpoints = (\<lambda>_. NULL),
     pending_client_count = 0, backlog_max = 0, backlog_head = 0, isAcceptingConnections = 0, so_link = NULL, so_state = 0,
     conn_copy = 0, clientfd_on_server = 0, private_file = NULL, magic_string = (\<lambda>_. 0), addr_family = 0,
     addr_data = (\<lambda>_. 0), in_family = 0, in_addr = 0, in_port = 0\<rparr>"

section \<open>Allocation\<close>

definition sizeof_file :: int where [simp]: "sizeof_file = 328"

text \<open>The allocator reads the validation field of the process structures, which are in \<open>ks\<close> here.\<close>

definition io_kmalloc :: "int \<Rightarrow> iostate \<Rightarrow> (iostate, ptr) res" where
  "io_kmalloc n s =
     (case get_current_process_pointer (ks s) of
        Ok process _ \<Rightarrow> kmalloc process n (s\<lparr>proc_magic := (\<lambda>p. te_magic (pheap (ks s) p))\<rparr>)
      | Iretq _ \<Rightarrow> Iretq s | Panic e \<Rightarrow> Panic e | Fault e \<Rightarrow> Fault e)"

end
