(* ===== verification/File_Buffer.thy ===== *)
theory File_Buffer
  imports IO_Model
begin

text \<open>
  Reading and writing the buffer of an open file (\<open>file_read_buffer\<close> and \<open>file_write_buffer\<close> of
  per/fs/fslib.c), the ring buffer of a pipe and the duplication of descriptors (per/fs/pipe.c), and the
  standard input (gthouse/libk/kstdio.c), in src/coreos/kernel.
\<close>

section \<open>Descriptors\<close>

definition is_socket :: "ptr \<Rightarrow> iostate \<Rightarrow> int" where
  "is_socket f s =
     (if f = NULL then FALSE
      else if f_magic (files s f) \<noteq> 1234 then FALSE
      else if f_object (files s f) = ObjectTypeSocket then TRUE
      else FALSE)"

definition get_file_from_fd :: "int \<Rightarrow> iostate \<Rightarrow> (iostate, ptr) res" where
  "get_file_from_fd fd s =
     (let pid = get_current_process (ks s) in
      if fd < 0 \<or> fd \<ge> 32 then Ok NULL s
      else if pid < 0 \<or> pid \<ge> PROCESS_COUNT_MAX then Ok NULL s
      else let p = teList (ks s) pid in
      if p = NULL then Panic ''get_file_from_fd: p''
      else if te_used (pheap (ks s) p) \<noteq> TRUE then Ok NULL s
      else if te_magic (pheap (ks s) p) \<noteq> 1234 then Ok NULL s
      else Ok (Objects s p fd) s)"

text \<open>\<open>get_current_process_struct\<close> of pipe.c indexes the table without a test of its range.\<close>

definition get_current_process_struct :: "iostate \<Rightarrow> (iostate, ptr) res" where
  "get_current_process_struct s =
     (let pid = get_current_process (ks s) in
      if pid < 0 \<or> pid \<ge> PROCESS_COUNT_MAX then Fault ''teList''
      else let p = teList (ks s) pid in
      if p = NULL then Ok NULL s
      else if te_used (pheap (ks s) p) \<noteq> TRUE \<or> te_magic (pheap (ks s) p) \<noteq> 1234 then Ok NULL s
      else Ok p s)"

definition k_rewind :: "ptr \<Rightarrow> iostate \<Rightarrow> iostate" where
  "k_rewind f s = (if f = NULL then s else upd_file f (\<lambda>fi. fi\<lparr>f_p := f_base fi\<rparr>) s)"

definition k_fclose :: "ptr \<Rightarrow> iostate \<Rightarrow> int \<times> iostate" where
  "k_fclose f s =
     (if f = NULL then (EOF, s)
      else if f_used (files s f) \<noteq> TRUE then (EOF, s)
      else if f_magic (files s f) \<noteq> 1234 then (EOF, s)
      else (0, upd_file f (\<lambda>fi. fi\<lparr>f_used := TRUE, f_magic := 4321\<rparr>) s))"

definition sys_dup :: "int \<Rightarrow> iostate \<Rightarrow> (iostate, int) res" where
  "sys_dup oldfd s =
     (if oldfd < 0 \<or> oldfd \<ge> OPEN_MAX then Ok (- EBADF) s
      else bindR (get_current_process_struct s) (\<lambda>Process s.
        if Process = NULL then Ok (- EBADF) s
        else let fp = Objects s Process oldfd in
        if fp = NULL then Ok (- EBADF) s
        else case find (\<lambda>i. Objects s Process i = NULL) [0..OPEN_MAX - 1] of
          None \<Rightarrow> Ok (- EMFILE) s
        | Some newfd \<Rightarrow> Ok newfd (upd_file fp (\<lambda>fi. fi\<lparr>fd_counter := fd_counter fi + 1\<rparr>) (set_object Process newfd fp s))))"

text \<open>What \<open>sys_dup2\<close> and \<open>sys_dup3\<close> do with the old file of the new descriptor, and then.\<close>

definition release_fd :: "ptr \<Rightarrow> int \<Rightarrow> iostate \<Rightarrow> iostate" where
  "release_fd Process newfd s =
     (let old = Objects s Process newfd in
      if old = NULL then s
      else let s1 = upd_file old (\<lambda>fi. fi\<lparr>fd_counter := fd_counter fi - 1\<rparr>) s;
               s2 = (if fd_counter (files s1 old) \<le> 0 then snd (k_fclose old s1) else s1)
        in set_object Process newfd NULL s2)"

definition dup_to :: "ptr \<Rightarrow> ptr \<Rightarrow> int \<Rightarrow> iostate \<Rightarrow> (iostate, int) res" where
  "dup_to Process fp newfd s =
     (let s1 = set_object Process newfd fp (release_fd Process newfd s)
      in Ok newfd (upd_file fp (\<lambda>fi. fi\<lparr>fd_counter := fd_counter fi + 1\<rparr>) s1))"

definition sys_dup2 :: "int \<Rightarrow> int \<Rightarrow> iostate \<Rightarrow> (iostate, int) res" where
  "sys_dup2 oldfd newfd s =
     (if oldfd < 0 \<or> oldfd \<ge> OPEN_MAX \<or> newfd < 0 \<or> newfd \<ge> OPEN_MAX then Ok (- EBADF) s
      else bindR (get_current_process_struct s) (\<lambda>Process s.
        if Process = NULL then Ok (- EBADF) s
        else let fp = Objects s Process oldfd in
        if fp = NULL then Ok (- EBADF) s
        else if oldfd = newfd then Ok newfd s
        else dup_to Process fp newfd s))"

definition sys_dup3 :: "int \<Rightarrow> int \<Rightarrow> int \<Rightarrow> iostate \<Rightarrow> (iostate, int) res" where
  "sys_dup3 oldfd newfd flags s =
     (if oldfd < 0 \<or> oldfd \<ge> OPEN_MAX \<or> newfd < 0 \<or> newfd \<ge> OPEN_MAX then Ok (- EBADF) s
      else if oldfd = newfd then Ok (- EINVAL) s
      else bindR (get_current_process_struct s) (\<lambda>Process s.
        if Process = NULL then Ok (- EBADF) s
        else let fp = Objects s Process oldfd in
        if fp = NULL then Ok (- EBADF) s
        else dup_to Process fp newfd s))"

section \<open>Pipes\<close>

definition sizeof_pipe_info :: int where [simp]: "sizeof_pipe_info = 24"

definition put_u32 :: "mem \<Rightarrow> ptr \<Rightarrow> u32 \<Rightarrow> mem" where
  "put_u32 m a w = put m a [ucast w, ucast (drop_bit 8 w), ucast (drop_bit 16 w), ucast (drop_bit 24 w)]"

text \<open>
  The two structures are not cleared: the fields that are not set keep what the heap had there. The table of
  processes is indexed without a test of the range.
\<close>

definition pipe_file_of :: "iostate \<Rightarrow> ptr \<Rightarrow> int \<Rightarrow> file_d \<Rightarrow> file_d" where
  "pipe_file_of s sh_buff slot fi = fi\<lparr>f_used := TRUE, f_magic := 1234, f_object := ObjectTypePipe, f_pid := get_current_process (ks s),
     f_uid := current_user s, f_gid := current_group s,
     f_sync := (f_sync fi)\<lparr>sender_pid := - 1, receiver_pid := - 1, sync_action := 0, can_read := TRUE, can_write := TRUE,
       can_execute := FALSE, can_accept := FALSE, can_connect := FALSE\<rparr>,
     f_tmpfname := NULL, f_base := sh_buff, f_p := sh_buff, f_lbfsize := BUFSIZ, f_fsize := 0, f_cnt := BUFSIZ, f_r := 0, f_w := 0,
     f_file := slot\<rparr>"

definition first_free :: "iostate \<Rightarrow> ptr \<Rightarrow> int \<Rightarrow> int" where
  "first_free s p i = (case find (\<lambda>i. Objects s p i = NULL) [i..OPEN_MAX - 1] of None \<Rightarrow> - 1 | Some j \<Rightarrow> j)"

definition sys_pipe :: "ptr \<Rightarrow> int \<Rightarrow> iostate \<Rightarrow> (iostate, int) res" where
  "sys_pipe pipefd flags s =
     (let pid = get_current_process (ks s) in
      if pid < 0 \<or> pid \<ge> PROCESS_COUNT_MAX then Fault ''teList''
      else let p = teList (ks s) pid in
      if p = NULL then Ok (- 1) s
      else if te_used (pheap (ks s) p) \<noteq> TRUE \<or> te_magic (pheap (ks s) p) \<noteq> 1234 then Ok (- 1) s
      else let slot1 = first_free s p 3; slot2 = first_free s p (slot1 + 1);
               release = (\<lambda>s. set_object p slot2 NULL (set_object p slot1 NULL s)) in
      if slot1 = - 1 \<or> slot2 = - 1 then Ok (- 1) s
      else bindR (io_kmalloc BUFSIZ s) (\<lambda>sh_buff s.
        if sh_buff = NULL then Ok (- 1) (release s)
        else bindR (io_kmalloc sizeof_file s) (\<lambda>f1 s. bindR (io_kmalloc sizeof_file s) (\<lambda>f2 s.
          if f1 = NULL \<or> f2 = NULL then Ok (- 1) (release s)
          else let s = upd_file f2 (pipe_file_of s sh_buff slot2) (upd_file f1 (pipe_file_of s sh_buff slot1) s);
                   s = set_object p slot2 f2 (set_object p slot1 f1 s);
                   s = s\<lparr>hmem := put_u32 (put_u32 (hmem s) pipefd (word_of_int slot1)) (pipefd + 4) (word_of_int slot2)\<rparr>
            in bindR (io_kmalloc sizeof_pipe_info s) (\<lambda>pi s.
              if pi = NULL then Ok (- 1) s
              else let s = s\<lparr>pipes := (pipes s)(pi := \<lparr>pi_base = sh_buff, buffer_size = BUFSIZ, pi_counter = 0, write_pos = 0, read_pos = 0\<rparr>)\<rparr>
                in Ok 0 (upd_file f2 (\<lambda>fi. fi\<lparr>pipe_info := pi\<rparr>) (upd_file f1 (\<lambda>fi. fi\<lparr>pipe_info := pi\<rparr>) s)))))))"

primrec pipe_read_loop :: "nat \<Rightarrow> ptr \<Rightarrow> int \<Rightarrow> mem \<Rightarrow> pipe_info_d \<Rightarrow> int \<times> mem \<times> pipe_info_d" where
  "pipe_read_loop 0 p Count m q = (Count, m, q)"
| "pipe_read_loop (Suc n) p Count m q =
     (if pi_counter q \<le> 0 then (Count, m, q\<lparr>pi_counter := 0\<rparr>)
      else let q1 = (if read_pos q \<ge> buffer_size q then q\<lparr>read_pos := 0\<rparr> else q)
        in pipe_read_loop n (p + 1) (Count + 1) (m(p := m (at_index (pi_base q1) (read_pos q1))))
             (q1\<lparr>read_pos := read_pos q1 + 1, pi_counter := pi_counter q1 - 1\<rparr>))"

primrec pipe_write_loop :: "nat \<Rightarrow> ptr \<Rightarrow> int \<Rightarrow> mem \<Rightarrow> pipe_info_d \<Rightarrow> int \<times> mem \<times> pipe_info_d" where
  "pipe_write_loop 0 p Count m q = (Count, m, q)"
| "pipe_write_loop (Suc n) p Count m q =
     (if pi_counter q \<ge> buffer_size q then (Count, m, q)
      else let q1 = (if write_pos q \<ge> buffer_size q then q\<lparr>write_pos := 0\<rparr> else q)
        in pipe_write_loop n (p + 1) (Count + 1) (m(at_index (pi_base q1) (write_pos q1) := m p))
             (q1\<lparr>write_pos := write_pos q1 + 1, pi_counter := pi_counter q1 + 1\<rparr>))"

definition pipe_error :: "ptr \<Rightarrow> ptr \<Rightarrow> int \<Rightarrow> iostate \<Rightarrow> int option" where
  "pipe_error f buffer len s =
     (if f = NULL \<or> f_object (files s f) \<noteq> ObjectTypePipe then Some (- EBADF)
      else if f_used (files s f) \<noteq> TRUE \<or> f_magic (files s f) \<noteq> 1234 then Some (- EBADF)
      else if buffer = NULL \<or> len \<le> 0 then Some (- EINVAL)
      else if pipe_info (files s f) = NULL then Some (- EBADF)
      else None)"

definition file_read_pipe_buffer :: "ptr \<Rightarrow> ptr \<Rightarrow> int \<Rightarrow> iostate \<Rightarrow> int \<times> iostate" where
  "file_read_pipe_buffer f buffer len s =
     (case pipe_error f buffer len s of Some e \<Rightarrow> (e, s)
      | None \<Rightarrow>
          let pi = pipe_info (files s f);
              (Count, m, q) = pipe_read_loop (nat len) buffer 0 (hmem s) (pipes s pi)
          in (Count, upd_file f (\<lambda>fi. fi\<lparr>f_flags := SWR, f_sync := (f_sync fi)\<lparr>can_write := TRUE\<rparr>\<rparr>)
               (s\<lparr>hmem := m, pipes := (pipes s)(pi := q)\<rparr>)))"

definition file_write_pipe_buffer :: "ptr \<Rightarrow> ptr \<Rightarrow> int \<Rightarrow> iostate \<Rightarrow> int \<times> iostate" where
  "file_write_pipe_buffer f buffer len s =
     (case pipe_error f buffer len s of Some e \<Rightarrow> (e, s)
      | None \<Rightarrow>
          let pi = pipe_info (files s f);
              (Count, m, q) = pipe_write_loop (nat len) buffer 0 (hmem s) (pipes s pi)
          in (Count, upd_file f (\<lambda>fi. fi\<lparr>f_flags := SRD, f_sync := (f_sync fi)\<lparr>can_read := TRUE\<rparr>\<rparr>)
               (s\<lparr>hmem := m, pipes := (pipes s)(pi := q)\<rparr>)))"

definition sys_read_pipe :: "int \<Rightarrow> ptr \<Rightarrow> int \<Rightarrow> iostate \<Rightarrow> (iostate, int) res" where
  "sys_read_pipe fd ubuf count s =
     (if fd < 0 \<or> fd \<ge> OPEN_MAX then Ok (- EBADF) s
      else if ubuf = NULL then Ok (- EINVAL) s
      else if count \<le> 0 then Ok (- 1) s
      else bindR (get_file_from_fd fd s) (\<lambda>fp s.
        if fp = NULL then Ok (- EBADF) s
        else let (n, s1) = file_read_pipe_buffer fp ubuf count s in Ok n s1))"

definition sys_write_pipe :: "int \<Rightarrow> ptr \<Rightarrow> int \<Rightarrow> iostate \<Rightarrow> (iostate, int) res" where
  "sys_write_pipe fd ubuf count s =
     (if fd < 0 \<or> fd \<ge> OPEN_MAX then Ok (- EBADF) s
      else if ubuf = NULL then Ok (- EINVAL) s
      else if count \<le> 0 then Ok (- 1) s
      else bindR (get_file_from_fd fd s) (\<lambda>fp s.
        if fp = NULL then Ok (- EBADF) s
        else let (n, s1) = file_write_pipe_buffer fp ubuf count s in Ok n s1))"

definition pipe_ioctl :: "int \<Rightarrow> u64 \<Rightarrow> u64 \<Rightarrow> int" where
  "pipe_ioctl fd request arg = (if fd < 0 \<or> fd \<ge> OPEN_MAX then - EBADF else - 1)"

section \<open>The buffer of a file\<close>

definition has_offsets :: "object_type \<Rightarrow> bool" where
  "has_offsets t \<longleftrightarrow> t = ObjectTypeFile \<or> t = ObjectTypeTTY \<or> t = ObjectTypeIoBuffer"

definition file_read_buffer :: "ptr \<Rightarrow> ptr \<Rightarrow> int \<Rightarrow> iostate \<Rightarrow> int \<times> iostate" where
  "file_read_buffer f buffer len s =
     (let Count = len mod 0x10000; fi = files s f in
      if f = NULL then (EOF, s)
      else if f_used fi \<noteq> TRUE \<or> f_magic fi \<noteq> 1234 then (EOF, s)
      else if buffer = NULL then (EOF, s)
      else if Count \<le> 0 then (EOF, s)
      else if Count > f_lbfsize fi then (EOF, s)
      else if f_object fi = ObjectTypeSocket
      then (Count, upd_file f (\<lambda>fi. fi\<lparr>f_flags := f_flags fi OR SWR\<rparr>)
              (s\<lparr>hmem := memcpy (hmem s) buffer (f_base fi) (word_of_int Count)\<rparr>))
      else if f_object fi = ObjectTypePipe then file_read_pipe_buffer f buffer Count s
      else if has_offsets (f_object fi)
      then if f_lbfsize fi \<le> 0 then (EOF, s)
           else if f_lbfsize fi > 8 * 1024 then (EOF, s)
           else if f_r fi < 0 then (EOF, upd_file f (\<lambda>fi. fi\<lparr>f_r := 0\<rparr>) s)
           else if f_r fi > f_lbfsize fi then (EOF, s)
           else if f_r fi > f_w fi then (0, upd_file f (\<lambda>fi. fi\<lparr>f_r := f_w fi\<rparr>) s)
           else let Count = (if Count > f_lbfsize fi then f_lbfsize fi - 1 else Count);
                    delta = f_w fi - f_r fi
             in if delta = 0 then (0, s)
                else let Count = (if Count > delta then delta else Count);
                         s1 = upd_file f (\<lambda>fi. fi\<lparr>f_p := at_index (f_base fi) (f_r fi)\<rparr>) s
                  in if Count \<le> 0 then (EOF, s1)
                     else (Count, upd_file f (\<lambda>fi. fi\<lparr>f_p := at_index (f_p fi) Count,
                              f_r := (if f_r fi + Count > f_w fi then f_w fi else f_r fi + Count),
                              f_flags := f_flags fi OR SWR, f_sync := (f_sync fi)\<lparr>can_write := TRUE\<rparr>\<rparr>)
                            (s1\<lparr>hmem := memcpy (hmem s1) buffer (f_p (files s1 f)) (word_of_int Count)\<rparr>))
      else (EOF, s))"

text \<open>The writer of a file with offsets: the parts before the copy, which adjust the offsets, and the copy.\<close>

definition write_adjust :: "file_d \<Rightarrow> file_d" where
  "write_adjust fi =
     (if f_cnt fi > f_lbfsize fi then fi\<lparr>f_cnt := f_lbfsize fi, f_p := f_base fi, f_w := 0, f_r := 0\<rparr> else fi)"

definition write_skip :: "file_d \<Rightarrow> file_d" where
  "write_skip fi = (if f_w fi < f_r fi then fi\<lparr>f_w := f_r fi, f_cnt := f_lbfsize fi - f_r fi\<rparr> else fi)"

definition write_copy :: "ptr \<Rightarrow> ptr \<Rightarrow> int \<Rightarrow> iostate \<Rightarrow> int \<times> iostate" where
  "write_copy f string len s =
     (let s1 = upd_file f (\<lambda>fi. let fi = write_skip fi in fi\<lparr>f_p := at_index (f_base fi) (f_w fi)\<rparr>) s
      in (len, upd_file f (\<lambda>fi. fi\<lparr>f_p := at_index (f_p fi) len, f_w := f_w fi + len, f_cnt := f_cnt fi - len,
                 f_flags := SRD, f_sync := (f_sync fi)\<lparr>can_read := TRUE\<rparr>\<rparr>)
           (s1\<lparr>hmem := memcpy (hmem s1) (f_p (files s1 f)) string (word_of_int len)\<rparr>)))"

definition file_write_buffer :: "ptr \<Rightarrow> ptr \<Rightarrow> int \<Rightarrow> iostate \<Rightarrow> int \<times> iostate" where
  "file_write_buffer f string len s =
     (let fi = files s f in
      if f = NULL then (EOF, s)
      else if string = NULL then (EOF, s)
      else if len \<ge> BUFSIZ then (EOF, s)
      else if f_object fi = ObjectTypeSocket
      then (len, s\<lparr>hmem := memcpy (hmem s) (f_base fi) string (word_of_int len)\<rparr>)
      else if f_object fi = ObjectTypePipe then file_write_pipe_buffer f string len s
      else if has_offsets (f_object fi)
      then if f_lbfsize fi > BUFSIZ then (EOF, s)
           else if f_w fi < 0
           then (EOF, upd_file f (\<lambda>fi. fi\<lparr>f_p := f_base fi, f_w := 0, f_r := 0, f_cnt := f_lbfsize fi\<rparr>) s)
           else if f_w fi \<ge> BUFSIZ then (EOF, upd_file f (\<lambda>fi. fi\<lparr>f_w := BUFSIZ, f_cnt := 0\<rparr>) s)
           else if f_cnt fi < 0
           then (EOF, upd_file f (\<lambda>fi. fi\<lparr>f_cnt := 0, f_w := f_lbfsize fi, f_r := f_lbfsize fi, f_p := at_index (f_base fi) (f_lbfsize fi)\<rparr>) s)
           else let s1 = upd_file f write_adjust s; fi = files s1 f in
             if len < 0 then (- 1, s1)
             else if len > f_cnt fi \<and> f_cnt fi \<le> 0
             then (- 1, upd_file f (\<lambda>fi. fi\<lparr>f_w := f_lbfsize fi, f_r := f_lbfsize fi, f_p := at_index (f_base fi) (f_lbfsize fi), f_cnt := 0\<rparr>) s1)
             else write_copy f string (if len > f_cnt fi then f_cnt fi else len) s1
      else (EOF, s))"

section \<open>The standard input\<close>

text \<open>\<open>stk\<close> is the address of the local buffer of one character.\<close>

definition kstdio_feed_stdin :: "ptr \<Rightarrow> int \<Rightarrow> iostate \<Rightarrow> int \<times> iostate" where
  "kstdio_feed_stdin stk ch s =
     (let f = stdin s in
      if f = NULL then (- 1, s)
      else if f_used (files s f) \<noteq> TRUE then (- 1, s)
      else if f_magic (files s f) \<noteq> 1234 then (- 1, s)
      else let s1 = upd_file f (\<lambda>fi. fi\<lparr>f_sync := (f_sync fi)\<lparr>can_write := TRUE\<rparr>, f_flags := SWR\<rparr>)
                  (s\<lparr>hmem := (hmem s)(stk := word_of_int (ch mod 256))\<rparr>);
               (wbytes, s2) = file_write_buffer f stk 1 s1
        in (wbytes, upd_file f (\<lambda>fi. fi\<lparr>f_sync := (f_sync fi)\<lparr>can_read := TRUE\<rparr>, f_flags := SRD\<rparr>) s2))"

definition sys_setup_stdin :: "int \<Rightarrow> iostate \<Rightarrow> int \<times> iostate" where
  "sys_setup_stdin stdin_fd s =
     (let pid = get_current_process (ks s) in
      if stdin_fd < 0 \<or> stdin_fd \<ge> 32 then (FALSE, s)
      else if pid < 0 \<or> pid \<ge> PROCESS_COUNT_MAX then (FALSE, s)
      else let p = teList (ks s) pid in
      if p = NULL then (FALSE, s)
      else if te_used (pheap (ks s) p) \<noteq> TRUE then (FALSE, s)
      else if te_magic (pheap (ks s) p) \<noteq> 1234 then (FALSE, s)
      else let f = Objects s p stdin_fd in
      if f = NULL then (FALSE, s)
      else if f_used (files s f) \<noteq> TRUE then (FALSE, s)
      else if f_magic (files s f) \<noteq> 1234 then (FALSE, s)
      else (TRUE, upd_file f (\<lambda>fi. fi\<lparr>f_sync := (f_sync fi)\<lparr>can_write := TRUE\<rparr>, f_flags := f_flags fi OR SWR\<rparr>) (s\<lparr>stdin := f\<rparr>)))"

end
