(* ===== verification/Tty.thy ===== *)
theory Tty
  imports File_Buffer
begin

text \<open>
  Terminals (src/coreos/kernel/halls/uhalls/chardev/tty/tty.c). Each terminal has three ring queues of bytes:
  raw and canonical input, and output. A queue keeps one slot free, so it holds one byte less than its
  size. An index outside the array and a division by a size of 0 are faults. The loops that empty a queue
  go on until the two offsets meet: \<open>None\<close> when they never do. The drawing of a character
  (\<open>console_outbyte\<close>) is in \<open>Console\<close>: here the characters are logged.
\<close>

definition TTY_MAGIC :: int where [simp]: "TTY_MAGIC = 1234"
definition TTY_BUF_SIZE :: nat where [simp]: "TTY_BUF_SIZE = 1024"
definition TTY_SUBTYPE_PTY_MASTER :: int where [simp]: "TTY_SUBTYPE_PTY_MASTER = 300"
definition TTY_SUBTYPE_PTY_SLAVE :: int where [simp]: "TTY_SUBTYPE_PTY_SLAVE = 400"
definition TTY_OUTPUT_WORKER_FGCONSOLE :: int where [simp]: "TTY_OUTPUT_WORKER_FGCONSOLE = 0"
definition TTY_OUTPUT_WORKER_STDIN :: int where [simp]: "TTY_OUTPUT_WORKER_STDIN = 1"
definition TTY_OUTPUT_WORKER_SERIALPORT :: int where [simp]: "TTY_OUTPUT_WORKER_SERIALPORT = 2"
definition TTY_OUTPUT_WORKER_PTYSLAVE :: int where [simp]: "TTY_OUTPUT_WORKER_PTYSLAVE = 3"
definition ICANON :: u16 where [simp]: "ICANON = 0x0010"
definition VERASE :: nat where [simp]: "VERASE = 2"

section \<open>Queues\<close>

text \<open>The two queue operations; a C caller never passes the null pointer here.\<close>

definition tty_queue_getchar :: "tty_queue \<Rightarrow> (tty_queue, int) res" where
  "tty_queue_getchar q =
     (if q_head q = q_tail q then Ok (- 1) q
      else if unat (q_tail q) \<ge> TTY_BUF_SIZE then Fault ''q->buf''
      else if q_buffer_size q = 0 then Fault ''divide''
      else Ok (uint (q_buf q (unat (q_tail q))))
             (q\<lparr>q_tail := (q_tail q + 1) mod word_of_int (q_buffer_size q), q_cnt := q_cnt q - 1\<rparr>))"

definition tty_queue_putchar :: "u8 \<Rightarrow> tty_queue \<Rightarrow> (tty_queue, int) res" where
  "tty_queue_putchar c q =
     (if q_buffer_size q = 0 then Fault ''divide''
      else let next_head = (q_head q + 1) mod word_of_int (q_buffer_size q) in
        if next_head = q_tail q then Ok (- 1) q
        else if unat (q_head q) \<ge> TTY_BUF_SIZE then Fault ''q->buf''
        else Ok 0 (q\<lparr>q_buf := (q_buf q)(unat (q_head q) := c), q_head := next_head, q_cnt := q_cnt q + 1\<rparr>))"

text \<open>Which queue of a terminal.\<close>

datatype which = Raw | Canonical | Output

primrec get_queue :: "which \<Rightarrow> tty_d \<Rightarrow> tty_queue" where
  "get_queue Raw t = raw_queue t"
| "get_queue Canonical t = canonical_queue t"
| "get_queue Output t = output_queue t"

primrec set_queue :: "which \<Rightarrow> tty_queue \<Rightarrow> tty_d \<Rightarrow> tty_d" where
  "set_queue Raw q t = t\<lparr>raw_queue := q\<rparr>"
| "set_queue Canonical q t = t\<lparr>canonical_queue := q\<rparr>"
| "set_queue Output q t = t\<lparr>output_queue := q\<rparr>"

definition on_queue :: "which \<Rightarrow> ptr \<Rightarrow> (tty_queue \<Rightarrow> (tty_queue, 'a) res) \<Rightarrow> iostate \<Rightarrow> (iostate, 'a) res" where
  "on_queue w t op s =
     (case op (get_queue w (ttys s t)) of
        Ok r q \<Rightarrow> Ok r (upd_tty t (set_queue w q) s)
      | Iretq q \<Rightarrow> Iretq s | Panic e \<Rightarrow> Panic e | Fault e \<Rightarrow> Fault e)"

section \<open>Emptying a queue\<close>

partial_function (option) flush_loop :: "which \<Rightarrow> ptr \<Rightarrow> (u8 \<Rightarrow> iostate \<Rightarrow> iostate) \<Rightarrow> iostate \<Rightarrow> (iostate, unit) res option" where
  "flush_loop w t emit s =
     (let q = get_queue w (ttys s t) in
      if q_tail q = q_head q then Some (Ok () s)
      else if unat (q_tail q) \<ge> TTY_BUF_SIZE then Some (Fault ''q->buf'')
      else if q_buffer_size q = 0 then Some (Fault ''divide'')
      else let q1 = q\<lparr>q_tail := (q_tail q + 1) mod word_of_int (q_buffer_size q),
                      q_cnt := (if q_cnt q > 0 then q_cnt q - 1 else q_cnt q)\<rparr>
        in flush_loop w t emit (emit (q_buf q (unat (q_tail q))) (upd_tty t (set_queue w q1) s)))"

definition to_console :: "int \<Rightarrow> u8 \<Rightarrow> iostate \<Rightarrow> iostate" where
  "to_console n c s = s\<lparr>console_out := console_out s @ [(n, c)]\<rparr>"

definition to_serial :: "u8 \<Rightarrow> iostate \<Rightarrow> iostate" where
  "to_serial c s = s\<lparr>serial_out := serial_out s @ [c]\<rparr>"

definition tty_flush_raw_queue :: "ptr \<Rightarrow> int \<Rightarrow> iostate \<Rightarrow> (iostate, unit) res option" where
  "tty_flush_raw_queue t n s =
     (if t = NULL \<or> tty_magic (ttys s t) \<noteq> TTY_MAGIC then Some (Ok () s) else flush_loop Raw t (to_console n) s)"

definition tty_flush_canonical_queue :: "ptr \<Rightarrow> int \<Rightarrow> iostate \<Rightarrow> (iostate, unit) res option" where
  "tty_flush_canonical_queue t n s =
     (if t = NULL \<or> tty_magic (ttys s t) \<noteq> TTY_MAGIC then Some (Ok () s) else flush_loop Canonical t (to_console n) s)"

definition tty_flush_output_queue :: "ptr \<Rightarrow> int \<Rightarrow> iostate \<Rightarrow> (iostate, unit) res option" where
  "tty_flush_output_queue t n s =
     (if t = NULL \<or> tty_magic (ttys s t) \<noteq> TTY_MAGIC then Some (Ok () s) else flush_loop Output t (to_console n) s)"

definition tty_flush_output_queue_to_serial :: "ptr \<Rightarrow> int \<Rightarrow> iostate \<Rightarrow> (iostate, unit) res option" where
  "tty_flush_output_queue_to_serial t port s =
     (if t = NULL \<or> tty_magic (ttys s t) \<noteq> TTY_MAGIC then Some (Ok () s)
      else if port \<noteq> 0x3F8 \<and> port \<noteq> 0x2F8 \<and> port \<noteq> 0x3E8 \<and> port \<noteq> 0x2E8 then Some (Ok () s)
      else flush_loop Output t to_serial s)"

definition tty_flush_output_queue_to_stdin :: "ptr \<Rightarrow> ptr \<Rightarrow> iostate \<Rightarrow> (iostate, unit) res option" where
  "tty_flush_output_queue_to_stdin stk t s =
     (if t = NULL \<or> tty_magic (ttys s t) \<noteq> TTY_MAGIC then Some (Ok () s)
      else flush_loop Output t (\<lambda>c s. snd (kstdio_feed_stdin stk (uint c) s)) s)"

text \<open>Copies the arrays, not the offsets.\<close>

definition tty_copy_raw_buffer :: "ptr \<Rightarrow> ptr \<Rightarrow> iostate \<Rightarrow> int \<times> iostate" where
  "tty_copy_raw_buffer to from s =
     (if to = NULL \<or> from = NULL then (- 1, s)
      else if tty_magic (ttys s to) \<noteq> 1234 then (- 1, s)
      else if tty_magic (ttys s from) \<noteq> 1234 then (- 1, s)
      else (int TTY_BUF_SIZE, upd_tty to (\<lambda>t. t\<lparr>raw_queue := (raw_queue t)\<lparr>q_buf := (\<lambda>i.
              if i < TTY_BUF_SIZE then q_buf (raw_queue (ttys s from)) i else q_buf (raw_queue t) i)\<rparr>\<rparr>) s))"

definition tty_copy_output_buffer :: "ptr \<Rightarrow> ptr \<Rightarrow> iostate \<Rightarrow> int \<times> iostate" where
  "tty_copy_output_buffer to from s =
     (if to = NULL \<or> from = NULL then (- 1, s)
      else if tty_magic (ttys s to) \<noteq> 1234 then (- 1, s)
      else if tty_magic (ttys s from) \<noteq> 1234 then (- 1, s)
      else (int TTY_BUF_SIZE, upd_tty to (\<lambda>t. t\<lparr>output_queue := (output_queue t)\<lparr>q_buf := (\<lambda>i.
              if i < TTY_BUF_SIZE then q_buf (output_queue (ttys s from)) i else q_buf (output_queue t) i)\<rparr>\<rparr>) s))"

definition tty_flush_output_queue_ex :: "ptr \<Rightarrow> ptr \<Rightarrow> iostate \<Rightarrow> (iostate, unit) res option" where
  "tty_flush_output_queue_ex stk t s =
     (if t = NULL \<or> tty_magic (ttys s t) \<noteq> TTY_MAGIC then Some (Ok () s)
      else let n = output_worker_number (ttys s t) in
      if n = TTY_OUTPUT_WORKER_FGCONSOLE then tty_flush_output_queue t (fg_console s) s
      else if n = TTY_OUTPUT_WORKER_STDIN then tty_flush_output_queue_to_stdin stk t s
      else if n = TTY_OUTPUT_WORKER_SERIALPORT then tty_flush_output_queue_to_serial t 0x3F8 s
      else if n = TTY_OUTPUT_WORKER_PTYSLAVE
      then let link = tty_link (ttys s t) in
        if link = NULL then Some (Ok () s)
        else if tty_magic (ttys s link) \<noteq> 1234 then Some (Ok () s)
        else Some (Ok () (snd (tty_copy_output_buffer link t s)))
      else Some (Ok () s))"

section \<open>Reading and writing\<close>

text \<open>The reading loop; with \<open>line\<close> it stops after a newline.\<close>

primrec tty_read_loop :: "bool \<Rightarrow> which \<Rightarrow> nat \<Rightarrow> ptr \<Rightarrow> ptr \<Rightarrow> int \<Rightarrow> iostate \<Rightarrow> (iostate, int) res" where
  "tty_read_loop line w 0 t buf count s = Ok count s"
| "tty_read_loop line w (Suc n) t buf count s =
     bindR (on_queue w t tty_queue_getchar s) (\<lambda>ch s1.
       if ch < 0 then Ok count s1
       else let s2 = s1\<lparr>hmem := (hmem s1)(at_index buf count := word_of_int ch)\<rparr> in
         if line \<and> ch = 10 then Ok (count + 1) s2 else tty_read_loop line w n t buf (count + 1) s2)"

text \<open>\<open>__tty_read\<close> to \<open>__tty_read3\<close> and \<open>__tty_read_mode\<close>.\<close>

definition tty_read1 :: "ptr \<Rightarrow> ptr \<Rightarrow> int \<Rightarrow> iostate \<Rightarrow> (iostate, int) res" where
  "tty_read1 t buf sz s =
     (if t = NULL \<or> buf = NULL \<or> sz = 0 then Ok 0 s else tty_read_loop False Raw (nat sz) t buf 0 s)"

definition tty_read2 :: "ptr \<Rightarrow> ptr \<Rightarrow> int \<Rightarrow> iostate \<Rightarrow> (iostate, int) res" where
  "tty_read2 t buffer nr s =
     (if t = NULL \<or> tty_magic (ttys s t) \<noteq> TTY_MAGIC then Ok (- 1) s
      else if buffer = NULL \<or> nr \<le> 0 then Ok (- 1) s
      else tty_read_loop False Output (nat nr) t buffer 0 s)"

definition tty_read3 :: "ptr \<Rightarrow> ptr \<Rightarrow> int \<Rightarrow> iostate \<Rightarrow> (iostate, int) res" where
  "tty_read3 t buffer nr s =
     (if t = NULL \<or> tty_magic (ttys s t) \<noteq> TTY_MAGIC then Ok (- 1) s
      else if buffer = NULL \<or> nr \<le> 0 then Ok (- 1) s
      else if c_lflag (ttys s t) AND ICANON \<noteq> 0 then tty_read_loop True Canonical (nat nr) t buffer 0 s
      else tty_read_loop False Raw (nat nr) t buffer 0 s)"

definition tty_read_mode :: "ptr \<Rightarrow> ptr \<Rightarrow> int \<Rightarrow> int \<Rightarrow> iostate \<Rightarrow> (iostate, int) res" where
  "tty_read_mode t buffer nr mode s =
     (if t = NULL \<or> tty_magic (ttys s t) \<noteq> TTY_MAGIC then Ok (- 1) s
      else if buffer = NULL \<or> nr \<le> 0 then Ok (- 1) s
      else tty_read_loop (mode = uint ICANON) (if mode = uint ICANON then Canonical else Raw) (nat nr) t buffer 0 s)"

text \<open>\<open>__tty_write\<close> does not look at the result of putting a byte.\<close>

primrec tty_write_loop1 :: "nat \<Rightarrow> ptr \<Rightarrow> ptr \<Rightarrow> int \<Rightarrow> iostate \<Rightarrow> (iostate, unit) res" where
  "tty_write_loop1 0 t buf i s = Ok () s"
| "tty_write_loop1 (Suc n) t buf i s =
     bindR (on_queue Raw t (tty_queue_putchar (hmem s (at_index buf i))) s) (\<lambda>_ s1. tty_write_loop1 n t buf (i + 1) s1)"

definition tty_write1 :: "ptr \<Rightarrow> ptr \<Rightarrow> int \<Rightarrow> iostate \<Rightarrow> (iostate, int) res" where
  "tty_write1 t buf sz s =
     (if t = NULL \<or> buf = NULL \<or> sz = 0 then Ok 0 s else bindR (tty_write_loop1 (nat sz) t buf 0 s) (\<lambda>_ s1. Ok sz s1))"

primrec tty_write_loop2 :: "nat \<Rightarrow> ptr \<Rightarrow> ptr \<Rightarrow> int \<Rightarrow> iostate \<Rightarrow> (iostate, int) res" where
  "tty_write_loop2 0 t buffer written s = Ok written s"
| "tty_write_loop2 (Suc n) t buffer written s =
     bindR (on_queue Output t (tty_queue_putchar (hmem s (at_index buffer written))) s) (\<lambda>r s1.
       if r < 0 then Ok written s1 else tty_write_loop2 n t buffer (written + 1) s1)"

definition tty_write2 :: "ptr \<Rightarrow> ptr \<Rightarrow> int \<Rightarrow> iostate \<Rightarrow> (iostate, int) res" where
  "tty_write2 t buffer nr s =
     (if t = NULL \<or> tty_magic (ttys s t) \<noteq> TTY_MAGIC then Ok (- 1) s
      else if buffer = NULL \<or> nr \<le> 0 then Ok (- 1) s
      else tty_write_loop2 (nat nr) t buffer 0 s)"

definition erase_last :: "tty_queue \<Rightarrow> (tty_queue, int) res" where
  "erase_last q =
     (if q_cnt q > 0
      then if q_buffer_size q = 0 then Fault ''divide''
           else Ok 0 (q\<lparr>q_head := (q_head q - 1 + word_of_int (q_buffer_size q)) mod word_of_int (q_buffer_size q), q_cnt := q_cnt q - 1\<rparr>)
      else Ok 0 q)"

definition bindO :: "(iostate, 'a) res option \<Rightarrow> ('a \<Rightarrow> iostate \<Rightarrow> (iostate, 'b) res option) \<Rightarrow> (iostate, 'b) res option" where
  "bindO r f = (case r of None \<Rightarrow> None | Some (Ok x s) \<Rightarrow> f x s | Some (Iretq s) \<Rightarrow> Some (Iretq s)
      | Some (Panic e) \<Rightarrow> Some (Panic e) | Some (Fault e) \<Rightarrow> Some (Fault e))"

text \<open>The comparison with the erase character is between a signed and an unsigned character.\<close>

primrec tty_write_loop3 :: "nat \<Rightarrow> ptr \<Rightarrow> ptr \<Rightarrow> ptr \<Rightarrow> int \<Rightarrow> iostate \<Rightarrow> (iostate, int) res option" where
  "tty_write_loop3 0 stk t buffer written s = Some (Ok written s)"
| "tty_write_loop3 (Suc n) stk t buffer written s =
     (let c = hmem s (at_index buffer written) in
      bindO (if c_lflag (ttys s t) AND ICANON \<noteq> 0
             then if c = 10
                  then bindO (Some (on_queue Canonical t (tty_queue_putchar c) s)) (\<lambda>_ s1. tty_flush_output_queue_ex stk t s1)
                  else if sint c = uint (c_cc (ttys s t) VERASE)
                  then bindO (Some (on_queue Canonical t erase_last s)) (\<lambda>_ s1. Some (Ok () s1))
                  else bindO (Some (on_queue Canonical t (tty_queue_putchar c) s)) (\<lambda>_ s1. Some (Ok () s1))
             else bindO (Some (on_queue Raw t (tty_queue_putchar c) s)) (\<lambda>_ s1. Some (Ok () s1)))
        (\<lambda>_ s1. tty_write_loop3 n stk t buffer (written + 1) s1))"

definition tty_write3 :: "ptr \<Rightarrow> ptr \<Rightarrow> ptr \<Rightarrow> int \<Rightarrow> iostate \<Rightarrow> (iostate, int) res option" where
  "tty_write3 stk t buffer nr s =
     (if t = NULL \<or> tty_magic (ttys s t) \<noteq> TTY_MAGIC then Some (Ok (- 1) s)
      else if buffer = NULL \<or> nr \<le> 0 then Some (Ok (- 1) s)
      else tty_write_loop3 (nat nr) stk t buffer 0 s)"

primrec tty_write_mode_loop :: "nat \<Rightarrow> ptr \<Rightarrow> ptr \<Rightarrow> ptr \<Rightarrow> int \<Rightarrow> int \<Rightarrow> iostate \<Rightarrow> (iostate, int) res option" where
  "tty_write_mode_loop 0 stk t buffer mode written s = Some (Ok written s)"
| "tty_write_mode_loop (Suc n) stk t buffer mode written s =
     (let c = hmem s (at_index buffer written) in
      bindO (if mode = uint ICANON
             then if sint c = uint (c_cc (ttys s t) VERASE)
                  then bindO (Some (on_queue Canonical t erase_last s)) (\<lambda>_ s1. Some (Ok () s1))
                  else bindO (Some (on_queue Canonical t (tty_queue_putchar c) s)) (\<lambda>_ s1.
                    if c = 10 then tty_flush_output_queue_ex stk t s1 else Some (Ok () s1))
             else bindO (Some (on_queue Raw t (tty_queue_putchar c) s)) (\<lambda>_ s1. Some (Ok () s1)))
        (\<lambda>_ s1. tty_write_mode_loop n stk t buffer mode (written + 1) s1))"

definition tty_write_mode :: "ptr \<Rightarrow> ptr \<Rightarrow> ptr \<Rightarrow> int \<Rightarrow> int \<Rightarrow> iostate \<Rightarrow> (iostate, int) res option" where
  "tty_write_mode stk t buffer nr mode s =
     (if t = NULL \<or> tty_magic (ttys s t) \<noteq> TTY_MAGIC then Some (Ok (- 1) s)
      else if buffer = NULL \<or> nr \<le> 0 then Some (Ok (- 1) s)
      else tty_write_mode_loop (nat nr) stk t buffer mode 0 s)"

section \<open>The services\<close>

definition tty_of_fd :: "int \<Rightarrow> iostate \<Rightarrow> ptr option" where
  "tty_of_fd fd s =
     (let pid = get_current_process (ks s) in
      if pid < 0 \<or> pid \<ge> PROCESS_COUNT_MAX then None
      else let p = teList (ks s) pid in
      if p = NULL then None
      else if te_magic (pheap (ks s) p) \<noteq> 1234 then None
      else let f = Objects s p fd in
      if f = NULL then None
      else if f_magic (files s f) \<noteq> 1234 then None
      else if f_object (files s f) \<noteq> ObjectTypeTTY then None
      else if f_tty (files s f) = NULL then None
      else Some (f_tty (files s f)))"

definition tty_read :: "int \<Rightarrow> ptr \<Rightarrow> int \<Rightarrow> iostate \<Rightarrow> (iostate, int) res" where
  "tty_read fd buffer n s =
     (if fd < 0 \<or> fd > 31 then Ok (- EBADF) s
      else case tty_of_fd fd s of None \<Rightarrow> Ok (- 1) s | Some t \<Rightarrow> tty_read2 t buffer n s)"

definition sys_tty_read :: "int \<Rightarrow> ptr \<Rightarrow> int \<Rightarrow> iostate \<Rightarrow> (iostate, int) res" where
  "sys_tty_read fd buffer n s =
     (if fd < 0 then Ok (- 1) s else if buffer = NULL then Ok (- 1) s else tty_read fd buffer n s)"

definition tty_write :: "int \<Rightarrow> ptr \<Rightarrow> int \<Rightarrow> iostate \<Rightarrow> (iostate, int) res" where
  "tty_write fd buffer n s =
     (if fd < 0 \<or> fd > 31 then Ok (- EBADF) s
      else if buffer = NULL then Ok (- EINVAL) s
      else case tty_of_fd fd s of None \<Rightarrow> Ok (- 1) s | Some t \<Rightarrow> tty_write2 t buffer n s)"

definition sys_tty_write :: "int \<Rightarrow> ptr \<Rightarrow> int \<Rightarrow> iostate \<Rightarrow> (iostate, int) res" where
  "sys_tty_write fd buffer n s =
     (if fd < 0 \<or> fd > 31 then Ok (- EBADF) s else if buffer = NULL then Ok (- 1) s else tty_write fd buffer n s)"

definition tty_set_output_worker :: "ptr \<Rightarrow> int \<Rightarrow> iostate \<Rightarrow> int \<times> iostate" where
  "tty_set_output_worker t n s =
     (if t = NULL \<or> tty_magic (ttys s t) \<noteq> TTY_MAGIC then (- 1, s)
      else if n = TTY_OUTPUT_WORKER_FGCONSOLE \<or> n = TTY_OUTPUT_WORKER_STDIN \<or> n = TTY_OUTPUT_WORKER_SERIALPORT \<or> n = TTY_OUTPUT_WORKER_PTYSLAVE
      then (0, upd_tty t (\<lambda>t. t\<lparr>output_worker_number := n\<rparr>) s)
      else (- 1, s))"

definition file_tty :: "ptr \<Rightarrow> iostate \<Rightarrow> ptr" where
  "file_tty f s = (if f = NULL then NULL else f_tty (files s f))"

definition tty_flush0 :: "ptr \<Rightarrow> int \<Rightarrow> iostate \<Rightarrow> (iostate, unit) res option" where
  "tty_flush0 t n s =
     (if t = NULL then Some (Ok () s)
      else if tty_magic (ttys s t) \<noteq> 1234 then Some (Ok () s)
      else if n < 0 then Some (Ok () s)
      else tty_flush_output_queue t n s)"

definition tty_flush :: "ptr \<Rightarrow> iostate \<Rightarrow> (iostate, unit) res option" where
  "tty_flush t s =
     (if t = NULL then Some (Ok () s)
      else if tty_magic (ttys s t) \<noteq> 1234 then Some (Ok () s)
      else tty_flush0 t (fg_console s) s)"

definition tty_start :: "ptr \<Rightarrow> iostate \<Rightarrow> iostate" where
  "tty_start t s =
     (if t = NULL then s else if tty_is_blocked (ttys s t) = FALSE then s
      else upd_tty t (\<lambda>t. t\<lparr>tty_is_blocked := FALSE\<rparr>) s)"

definition tty_stop :: "ptr \<Rightarrow> iostate \<Rightarrow> iostate" where
  "tty_stop t s =
     (if t = NULL then s else if tty_is_blocked (ttys s t) = TRUE then s
      else upd_tty t (\<lambda>t. t\<lparr>tty_is_blocked := TRUE\<rparr>) s)"

definition tty_delete :: "ptr \<Rightarrow> iostate \<Rightarrow> int \<times> iostate" where
  "tty_delete t s = (if t = NULL then (- 1, s) else (0, tty_stop t (upd_tty t (\<lambda>t. t\<lparr>tty_magic := 216\<rparr>) s)))"

end
