(* ===== verification/Console.thy ===== *)
theory Console
  imports Tty Kconv
begin

text \<open>
  The virtual consoles (src/coreos/kernel/halls/uhalls/chardev/console/console.c): four terminals
  (\<open>CONSOLE_TTYS\<close>) with a cursor, colours, control characters, and escape sequences of the VT100 family.
  A console extends the terminal structure with the fields for the display. The display driver
  (gthouse/wink/gdi/gre) is not modelled: what the consoles ask of it is logged in \<open>screen\<close>, the pixel
  coordinates included. The state of the parser of escape sequences is shared by all consoles, as in
  the source.
\<close>

definition CONSOLETTYS_COUNT_MAX :: int where [simp]: "CONSOLETTYS_COUNT_MAX = 4"
definition NPAR :: nat where [simp]: "NPAR = 16"
definition ECHO :: u16 where [simp]: "ECHO = 0x0001"
definition CONSOLE_SCROLL_DIRECTION_DOWN :: int where [simp]: "CONSOLE_SCROLL_DIRECTION_DOWN = 1000"
definition CONSOLE_SCROLL_DIRECTION_UP :: int where [simp]: "CONSOLE_SCROLL_DIRECTION_UP = 2000"
definition COLOR_WHITE :: u32 where [simp]: "COLOR_WHITE = 0x00FFFFFF"
definition COLOR_BLACK :: u32 where [simp]: "COLOR_BLACK = 0x00000000"
definition COLOR_RED :: u32 where [simp]: "COLOR_RED = 0x00FF0000"
definition COLOR_GREEN :: u32 where [simp]: "COLOR_GREEN = 0x0000FF00"
definition COLOR_BLUE :: u32 where [simp]: "COLOR_BLUE = 0x000000FF"
definition COLOR_YELLOW :: u32 where [simp]: "COLOR_YELLOW = 0x00FFFF00"
definition COLOR_CYAN :: u32 where [simp]: "COLOR_CYAN = 0x0000FFFF"

datatype screen_call =
    Char_draw u64 u64 int u32 u32
  | Scroll_screen
  | Draw_rectangle u64 u64 u64 u64 u64
  | Bg_initialize u32
  | Refresh_rectangle u64 u64 u64 u64
  | Refresh_screen

record console_d = tty_d +
  con_initialized :: int
  prev_char :: u8
  operation_mode :: int
  virtual_terminal_pid :: int
  charset_id :: int
  charset_lang_id :: int
  cursor_x :: u64
  cursor_y :: u64
  cursor_left :: u64
  cursor_top :: u64
  cursor_right :: u64
  cursor_bottom :: u64
  cursor_width_in_pixels :: u64
  cursor_height_in_pixels :: u64
  bg_color :: u32
  fg_color :: u32
  default_bg_color :: u32
  default_fg_color :: u32
  fullscreen_flag :: int

record constate =
  CONSOLE_TTYS :: "int \<Rightarrow> console_d"
  foreground :: int
  saved_x :: int
  saved_y :: int
  EscapeSequenceStage :: nat
  par :: "nat \<Rightarrow> u64"
  npar :: nat
  ques :: bool
  in_terminalmode :: int
  in_verbosemode :: int
  useGui :: int
  char_width :: int
  char_height :: int
  gSavedX :: u64
  gSavedY :: u64
  gSavedBPP :: u64
  screen_width :: u64
  screen_height :: u64
  screen :: "screen_call list"

abbreviation con :: "constate \<Rightarrow> int \<Rightarrow> console_d" where "con s n \<equiv> CONSOLE_TTYS s n"

definition upd_con :: "int \<Rightarrow> (console_d \<Rightarrow> console_d) \<Rightarrow> constate \<Rightarrow> constate" where
  "upd_con n f s = s\<lparr>CONSOLE_TTYS := (CONSOLE_TTYS s)(n := f (CONSOLE_TTYS s n))\<rparr>"

definition display :: "screen_call \<Rightarrow> constate \<Rightarrow> constate" where
  "display e s = s\<lparr>screen := screen s @ [e]\<rparr>"

definition no_console :: "int \<Rightarrow> bool" where
  "no_console n \<longleftrightarrow> n < 0 \<or> n \<ge> CONSOLETTYS_COUNT_MAX"

section \<open>Cursor and colours\<close>

text \<open>The comparisons with the margins are unsigned: a negative position is beyond them.\<close>

definition local_gotoxy :: "int \<Rightarrow> int \<Rightarrow> int \<Rightarrow> constate \<Rightarrow> constate" where
  "local_gotoxy new_x new_y n s =
     (if no_console n then s
      else if word_of_int new_x > cursor_right (con s n) then s
      else if word_of_int new_y > cursor_bottom (con s n) then s
      else upd_con n (\<lambda>t. t\<lparr>cursor_x := word_of_int new_x AND 0xFFFFFFFF, cursor_y := word_of_int new_y AND 0xFFFFFFFF\<rparr>) s)"

definition local_save_cur :: "int \<Rightarrow> constate \<Rightarrow> constate" where
  "local_save_cur n s = s\<lparr>saved_x := c_int (uint (cursor_x (con s n))), saved_y := c_int (uint (cursor_y (con s n)))\<rparr>"

definition local_restore_cur :: "int \<Rightarrow> constate \<Rightarrow> constate" where
  "local_restore_cur n s =
     (if no_console n then s
      else upd_con n (\<lambda>t. t\<lparr>cursor_x := word_of_int (saved_x s) AND 0xFFFF, cursor_y := word_of_int (saved_y s) AND 0xFFFF\<rparr>) s)"

definition console_set_current_virtual_console :: "int \<Rightarrow> constate \<Rightarrow> constate" where
  "console_set_current_virtual_console n s =
     (if n = foreground s then s else if no_console n then s else s\<lparr>foreground := n\<rparr>)"

definition set_up_cursor :: "u64 \<Rightarrow> u64 \<Rightarrow> constate \<Rightarrow> constate" where
  "set_up_cursor x y s =
     (if no_console (foreground s) then s else upd_con (foreground s) (\<lambda>t. t\<lparr>cursor_x := x, cursor_y := y\<rparr>) s)"

definition get_cursor_x :: "constate \<Rightarrow> u64" where
  "get_cursor_x s = (if no_console (foreground s) then 0 else cursor_x (con s (foreground s)))"

definition get_cursor_y :: "constate \<Rightarrow> u64" where
  "get_cursor_y s = (if no_console (foreground s) then 0 else cursor_y (con s (foreground s)))"

definition get_bg_color :: "constate \<Rightarrow> u32" where
  "get_bg_color s = (if no_console (foreground s) then COLOR_WHITE else bg_color (con s (foreground s)))"

definition get_fg_color :: "constate \<Rightarrow> u32" where
  "get_fg_color s = (if no_console (foreground s) then COLOR_BLACK else fg_color (con s (foreground s)))"

section \<open>Scrolling\<close>

text \<open>The tests of \<open>scroll_screen_rect\<close> (gre/rect.c); the copying of the lines is a call of the display.\<close>

definition scroll_screen_rect :: "constate \<Rightarrow> (constate, unit) res" where
  "scroll_screen_rect s =
     (if screen_width s = 0 \<or> screen_height s = 0 then Panic ''scroll_screen_rect: [PANIC] w h''
      else if gSavedBPP s \<noteq> 32 \<and> gSavedBPP s \<noteq> 24 then Panic ''scroll_screen_rect: gSavedBPP''
      else Ok () (display Scroll_screen s))"

definition console_scroll_rect :: "int \<Rightarrow> int \<Rightarrow> constate \<Rightarrow> (constate, int) res" where
  "console_scroll_rect n direction s =
     (if useGui s \<noteq> TRUE then Panic ''console_scroll_rect: no GUI''
      else if no_console n then Ok (- 1) s
      else bindR (scroll_screen_rect s) (\<lambda>_ s.
        let s = display (Draw_rectangle 0 (gSavedY s - 8) (gSavedX s) 8 (ucast (bg_color (con s n)))) s;
            s = upd_con n (\<lambda>t. t\<lparr>cursor_left := cursor_left t AND 0xFFFF, cursor_top := cursor_top t AND 0xFFFF,
                  cursor_right := cursor_right t AND 0xFFFF, cursor_bottom := cursor_bottom t AND 0xFFFF\<rparr>) s;
            s = upd_con n (\<lambda>t. t\<lparr>cursor_x := 0, cursor_y := cursor_bottom t - 1\<rparr>) s
        in Ok 0 (display Refresh_screen s)))"

text \<open>The scroll when the cursor is below the last line.\<close>

definition scroll_if_fullscreen :: "int \<Rightarrow> constate \<Rightarrow> (constate, unit) res" where
  "scroll_if_fullscreen n s =
     (if fullscreen_flag (con s n) = TRUE
      then bindR (console_scroll_rect n CONSOLE_SCROLL_DIRECTION_UP s) (\<lambda>_ s. Ok () s) else Ok () s)"

section \<open>Characters\<close>

definition console_outbyte_imp :: "int \<Rightarrow> int \<Rightarrow> constate \<Rightarrow> (constate, unit) res" where
  "console_outbyte_imp Ch n s =
     (if no_console n then Ok () s
      else if char_width s = 0 \<or> char_height s = 0 then Panic ''__console_outbyte_imp: fail w h''
      else if useGui s \<noteq> TRUE then Panic ''__console_outbyte_imp: kernel in text mode''
      else Ok () (display (Char_draw (word_of_int (char_width s) * cursor_x (con s n)) (word_of_int (char_height s) * cursor_y (con s n))
                     Ch (fg_color (con s n)) (bg_color (con s n))) s))"

definition line_feed :: "int \<Rightarrow> int \<Rightarrow> constate \<Rightarrow> (constate, unit) res" where
  "line_feed Ch n s =
     (if cursor_y (con s n) \<ge> cursor_bottom (con s n)
      then bindR (scroll_if_fullscreen n s) (\<lambda>_ s.
             Ok () (upd_con n (\<lambda>t. t\<lparr>cursor_y := cursor_bottom t - 1, prev_char := word_of_int Ch\<rparr>) s))
      else let back = (prev_char (con s n) = 13 \<or> in_terminalmode s = TRUE \<or> in_verbosemode s = TRUE)
        in Ok () (upd_con n (\<lambda>t. t\<lparr>cursor_y := cursor_y t + 1, cursor_x := (if back then cursor_left t else cursor_x t),
                    prev_char := word_of_int Ch\<rparr>) s))"

text \<open>The part of \<open>console_outbyte\<close> after the control characters: margins, wrapping, drawing.\<close>

definition at_end_of_line :: "int \<Rightarrow> constate \<Rightarrow> bool" where
  "at_end_of_line n s \<longleftrightarrow> cursor_x (con s n) \<ge> cursor_right (con s n) - 1"

definition wrap_line :: "int \<Rightarrow> constate \<Rightarrow> constate" where
  "wrap_line n s =
     (if at_end_of_line n s then upd_con n (\<lambda>t. t\<lparr>cursor_y := cursor_y t + 1, cursor_x := cursor_left t\<rparr>) s else s)"

definition fix_row :: "int \<Rightarrow> constate \<Rightarrow> (constate, unit) res" where
  "fix_row n s =
     (if cursor_y (con s n) \<ge> cursor_bottom (con s n)
      then bindR (scroll_if_fullscreen n s) (\<lambda>_ s. Ok () (upd_con n (\<lambda>t. t\<lparr>cursor_x := 0, cursor_y := cursor_bottom t - 1\<rparr>) s))
      else Ok () s)"

definition glyph_done :: "bool \<Rightarrow> int \<Rightarrow> int \<Rightarrow> constate \<Rightarrow> constate" where
  "glyph_done Increment Ch n s =
     (let w = word_of_int (char_width s); h = word_of_int (char_height s);
          s = upd_con n (\<lambda>t. t\<lparr>prev_char := word_of_int Ch\<rparr>) s;
          s = display (Refresh_rectangle (cursor_x (con s n) * w) (cursor_y (con s n) * h) w h) s
      in if Increment then upd_con n (\<lambda>t. t\<lparr>cursor_x := cursor_x t + 1\<rparr>) s else s)"

definition put_glyph :: "int \<Rightarrow> int \<Rightarrow> constate \<Rightarrow> (constate, unit) res" where
  "put_glyph Ch n s =
     (if cursor_left (con s n) \<ge> cursor_right (con s n) then Panic ''console_outbyte: l >= r''
      else if cursor_top (con s n) \<ge> cursor_bottom (con s n) then Panic ''console_outbyte: t >= b''
      else bindR (fix_row n (wrap_line n s)) (\<lambda>_ s1.
        bindR (if c_lflag (con s1 n) AND ECHO \<noteq> 0 then console_outbyte_imp Ch n s1 else Ok () s1)
          (\<lambda>_ s2. Ok () (glyph_done (\<not> at_end_of_line n s) Ch n s2))))"

definition console_outbyte :: "int \<Rightarrow> int \<Rightarrow> constate \<Rightarrow> (constate, unit) res" where
  "console_outbyte Ch n s =
     (let prev = (\<lambda>t. t\<lparr>prev_char := word_of_int Ch\<rparr>) in
      if no_console n then Ok () s
      else if char_width s = 0 \<or> char_height s = 0 then Panic ''console_outbyte: char size''
      else if con_initialized (con s n) \<noteq> TRUE then Ok () s
      else if Ch = 12 then Ok () (upd_con n (\<lambda>t. t\<lparr>cursor_y := cursor_top t, cursor_x := cursor_left t\<rparr>) s)
      else if Ch = 10 then line_feed Ch n s
      else if Ch = 9 then Ok () (upd_con n (\<lambda>t. prev (t\<lparr>cursor_x := cursor_x t + 8\<rparr>)) s)
      else if Ch = 13 then Ok () (upd_con n (\<lambda>t. prev (t\<lparr>cursor_x := cursor_left t\<rparr>)) s)
      else if Ch = 0x20 then Ok () (upd_con n (\<lambda>t. prev (t\<lparr>cursor_x := cursor_x t + 1\<rparr>)) s)
      else if Ch = 8
      then let s = upd_con n prev s in
        if cursor_x (con s n) > 0 then Ok () (upd_con n (\<lambda>t. t\<lparr>cursor_x := cursor_x t - 1\<rparr>) s)
        else if cursor_y (con s n) > 0 then Ok () (upd_con n (\<lambda>t. t\<lparr>cursor_y := cursor_y t - 1, cursor_x := cursor_right t - 1\<rparr>) s)
        else put_glyph Ch n s
      else put_glyph Ch n s)"

definition console_echo :: "int \<Rightarrow> int \<Rightarrow> constate \<Rightarrow> (constate, unit) res" where
  "console_echo c n s = (if no_console n then Ok () s else console_outbyte c n s)"

definition console_putchar :: "int \<Rightarrow> int \<Rightarrow> constate \<Rightarrow> (constate, unit) res" where
  "console_putchar c n s =
     (let w = word_of_int (char_width s) AND 0xFFFF :: u64; h = word_of_int (char_height s) AND 0xFFFF :: u64 in
      if no_console n then Ok () s
      else if w = 0 \<or> h = 0 then Panic ''console_putchar: char''
      else bindR (console_outbyte c n (s\<lparr>in_terminalmode := TRUE\<rparr>)) (\<lambda>_ s.
        let s = display (Refresh_rectangle (cursor_x (con s n) * w) (cursor_y (con s n) * h) w h) s
        in Ok () (s\<lparr>in_terminalmode := FALSE\<rparr>)))"

definition console_print_indent :: "int \<Rightarrow> int \<Rightarrow> constate \<Rightarrow> (constate, unit) res" where
  "console_print_indent indent n s =
     (if no_console n then Ok () s else foldR (\<lambda>_. console_putchar 0x20 n) [0..<nat indent] s)"

section \<open>Escape sequences\<close>

definition local_insert_line :: "int \<Rightarrow> constate \<Rightarrow> (constate, unit) res" where
  "local_insert_line n s =
     (if no_console n then Ok () s
      else let oldtop = c_int (uint (cursor_top (con s n))); oldbottom = c_int (uint (cursor_bottom (con s n)));
               s = upd_con n (\<lambda>t. t\<lparr>cursor_top := cursor_y t\<rparr>) s
        in bindR (if fullscreen_flag (con s n) = TRUE then bindR (console_scroll_rect n 1 s) (\<lambda>_ s. Ok () s) else Ok () s)
             (\<lambda>_ s. Ok () (upd_con n (\<lambda>t. t\<lparr>cursor_top := word_of_int oldtop, cursor_bottom := word_of_int oldbottom\<rparr>) s)))"

definition local_delete_line :: "int \<Rightarrow> constate \<Rightarrow> constate" where
  "local_delete_line n s =
     (if no_console n then s
      else let oldtop = c_int (uint (cursor_top (con s n))); oldbottom = c_int (uint (cursor_bottom (con s n)))
        in upd_con n (\<lambda>t. t\<lparr>cursor_top := word_of_int oldtop, cursor_bottom := word_of_int oldbottom\<rparr>)
             (upd_con n (\<lambda>t. t\<lparr>cursor_top := word_of_int (c_int (uint (cursor_y t)))\<rparr>) s))"

definition csi_J :: "int \<Rightarrow> constate \<Rightarrow> constate" where
  "csi_J p s = s"

text \<open>Works on the foreground console, whatever console the sequence is written to.\<close>

definition erase_range :: "int \<Rightarrow> console_d \<Rightarrow> (u64 \<times> u64) option" where
  "erase_range mode t =
     (if mode = 0 then Some (cursor_x t, cursor_right t)
      else if mode = 1 then Some (cursor_left t, cursor_x t + 1)
      else if mode = 2 then Some (cursor_left t, cursor_right t)
      else None)"

definition csi_K :: "int \<Rightarrow> constate \<Rightarrow> (constate, unit) res" where
  "csi_K mode s =
     (let n = foreground s; x = cursor_x (con s n); y = cursor_y (con s n); pos = (\<lambda>v. c_int (uint v)) in
      case erase_range mode (con s n) of None \<Rightarrow> Ok () s
      | Some (start, stop) \<Rightarrow>
          bindR (foldR (\<lambda>col s. console_outbyte 0x20 n (local_gotoxy (pos (of_nat col)) (pos y) n s)) [unat start..<unat stop] s)
            (\<lambda>_ s. Ok () (local_gotoxy (pos x) (pos y) n s)))"

definition csi_L :: "int \<Rightarrow> int \<Rightarrow> constate \<Rightarrow> (constate, unit) res" where
  "csi_L nr n s =
     (if no_console n then Ok () s
      else foldR (\<lambda>_. local_insert_line n) [0..<nat (if nr \<le> 0 then 1 else nr)] s)"

definition csi_M :: "int \<Rightarrow> int \<Rightarrow> constate \<Rightarrow> constate" where
  "csi_M nr n s =
     (if no_console n then s
      else fold (\<lambda>_. local_delete_line n) [0..<nat (if nr \<le> 0 then 1 else nr)] s)"

text \<open>One parameter of \<open>csi_m\<close>: the switch.\<close>

definition select_graphic :: "int \<Rightarrow> console_d \<Rightarrow> console_d" where
  "select_graphic p t =
     (if p = 0 then t\<lparr>fg_color := default_fg_color t, bg_color := default_bg_color t\<rparr>
      else if p = 30 then t\<lparr>fg_color := COLOR_BLACK\<rparr>
      else if p = 31 then t\<lparr>fg_color := COLOR_RED\<rparr>
      else if p = 32 then t\<lparr>fg_color := COLOR_GREEN\<rparr>
      else if p = 33 then t\<lparr>fg_color := COLOR_YELLOW\<rparr>
      else if p = 34 then t\<lparr>fg_color := COLOR_BLUE\<rparr>
      else if p = 35 then t\<lparr>fg_color := COLOR_RED\<rparr>
      else if p = 36 then t\<lparr>fg_color := COLOR_CYAN\<rparr>
      else if p = 37 then t\<lparr>fg_color := COLOR_WHITE\<rparr>
      else if p = 40 then t\<lparr>bg_color := COLOR_BLACK\<rparr>
      else if p = 41 then t\<lparr>bg_color := COLOR_RED\<rparr>
      else if p = 42 then t\<lparr>bg_color := COLOR_GREEN\<rparr>
      else if p = 43 then t\<lparr>bg_color := COLOR_YELLOW\<rparr>
      else if p = 44 then t\<lparr>bg_color := COLOR_BLUE\<rparr>
      else if p = 45 then t\<lparr>bg_color := COLOR_RED\<rparr>
      else if p = 46 then t\<lparr>bg_color := COLOR_CYAN\<rparr>
      else if p = 47 then t\<lparr>bg_color := COLOR_WHITE\<rparr>
      else t)"

definition clear_par :: "constate \<Rightarrow> constate" where
  "clear_par s = s\<lparr>par := (\<lambda>i. if i < NPAR then 0 else par s i), npar := 0\<rparr>"

definition csi_m :: "constate \<Rightarrow> constate" where
  "csi_m s =
     (let n = foreground s in
      if npar s = 0 then upd_con n (\<lambda>t. t\<lparr>fg_color := default_fg_color t, bg_color := default_bg_color t\<rparr>) s
      else clear_par (fold (\<lambda>i s. upd_con n (select_graphic (c_int (uint (par s i)))) s) [0..<npar s] s))"

definition local_insert_char :: "int \<Rightarrow> constate \<Rightarrow> (constate, unit) res" where
  "local_insert_char n s = (if no_console n then Ok () s else console_putchar 0x20 n s)"

definition local_delete_char :: "int \<Rightarrow> constate \<Rightarrow> (constate, unit) res" where
  "local_delete_char n s = (if no_console n then Ok () s else console_putchar 0x20 n s)"

text \<open>The number of characters that \<open>csi_P\<close> and \<open>csi_at\<close> treat.\<close>

definition char_count :: "int \<Rightarrow> console_d \<Rightarrow> int" where
  "char_count nr t =
     (if word_of_int nr > cursor_right t - 1 then c_int (uint (cursor_right t - 1)) else if nr = 0 then 1 else nr)"

definition csi_P :: "int \<Rightarrow> int \<Rightarrow> constate \<Rightarrow> (constate, unit) res" where
  "csi_P nr n s =
     (if no_console n then Ok () s
      else foldR (\<lambda>_. local_delete_char n) [0..<nat (char_count nr (con s n))] s)"

definition csi_at :: "int \<Rightarrow> int \<Rightarrow> constate \<Rightarrow> (constate, unit) res" where
  "csi_at nr n s =
     (if no_console n then Ok () s
      else foldR (\<lambda>_. local_insert_char n) [0..<nat (char_count nr (con s n))] s)"

text \<open>
  A parameter is the last digit that was read, as a character; its value is that of the string in the local
  variable \<open>ivalue\<close>, whose second byte is 0. \<open>k_atoi\<close> always ends on it.
\<close>

definition par_value :: "nat \<Rightarrow> constate \<Rightarrow> int" where
  "par_value i s = (case k_atoi (put (\<lambda>_. 0) 0 [ucast (par s i AND 0xFF), 0, 0, 0]) 0 of Some v \<Rightarrow> v | None \<Rightarrow> 0)"

text \<open>The arguments of \<open>local_gotoxy\<close> are computed as \<open>unsigned long\<close> and cut to \<open>int\<close>.\<close>

definition goto_word :: "u64 \<Rightarrow> u64 \<Rightarrow> int \<Rightarrow> constate \<Rightarrow> constate" where
  "goto_word x y n s = local_gotoxy (c_int (uint x)) (c_int (uint y)) n s"

definition stage :: "nat \<Rightarrow> constate \<Rightarrow> constate" where
  "stage k s = s\<lparr>EscapeSequenceStage := k\<rparr>"

text \<open>Stage 4: the last character of a sequence.\<close>

definition csi_command :: "u8 \<Rightarrow> int \<Rightarrow> constate \<Rightarrow> (constate, unit) res" where
  "csi_command ch n s =
     (let s = stage 0 s; v = par_value 0 s; w = word_of_int v; x = cursor_x (con s n); y = cursor_y (con s n);
          next = (\<lambda>_ s. Ok () (stage 4 s)) in
      if ch = 0x47 \<or> ch = 0x60 then next () (local_gotoxy v (c_int (uint y)) n s)
      else if ch = 0x41 \<or> ch = 0x66 then next () (goto_word x (y - w) n s)
      else if ch = 0x42 \<or> ch = 0x65 then next () (goto_word x (y + w) n s)
      else if ch = 0x43 \<or> ch = 0x61 then next () (goto_word (x + w) y n s)
      else if ch = 0x44 \<or> ch = 0x64 then next () (goto_word (x - w) y n s)
      else if ch = 0x45 then next () (goto_word 0 (y + w) n s)
      else if ch = 0x46 then next () (goto_word 0 (y - w) n s)
      else if ch = 0x48 then next () (local_gotoxy v (par_value 1 s) n s)
      else if ch = 0x4A then next () (csi_J v s)
      else if ch = 0x4B then bindR (csi_K v s) next
      else if ch = 0x4C then bindR (csi_L v n s) next
      else if ch = 0x4D then next () (csi_M v n s)
      else if ch = 0x50 then bindR (csi_P v n s) next
      else if ch = 0x40 then bindR (csi_at v n s) next
      else if ch = 0x6D then Ok () (stage 0 (csi_m s))
      else if ch = 0x72 then next () s
      else if ch = 0x73 then next () (local_save_cur n s)
      else if ch = 0x75 then next () (local_restore_cur n s)
      else Ok () s)"

text \<open>Stage 3: the parameters.\<close>

definition csi_parameter :: "u8 \<Rightarrow> int \<Rightarrow> constate \<Rightarrow> (constate, unit) res" where
  "csi_parameter ch n s =
     (if ch = 0x3B \<and> npar s < NPAR - 1 then Ok () (s\<lparr>npar := npar s + 1\<rparr>)
      else if ch \<ge> 0x30 \<and> ch \<le> 0x39 then Ok () (s\<lparr>par := (par s)(npar s := ucast ch)\<rparr>)
      else csi_command ch n (stage 4 s))"

text \<open>Stage 0: characters outside of sequences.\<close>

definition plain_char :: "bool \<Rightarrow> u8 \<Rightarrow> int \<Rightarrow> constate \<Rightarrow> (constate, unit) res" where
  "plain_char DoEcho ch n s =
     (if ch \<ge> 32 \<and> ch \<noteq> 127 then if DoEcho \<and> ch < 128 then console_echo (uint ch) n s else Ok () s
      else if ch = 27 then Ok () (stage 1 s)
      else if ch = 10 \<or> ch = 13 \<or> ch = 8 \<or> ch = 9 then console_putchar (uint ch) n s
      else Ok () s)"

text \<open>Stage 1: after the escape; \<open>respond\<close> writes the answer to \<open>ESC Z\<close>.\<close>

definition after_escape :: "(constate \<Rightarrow> (constate, unit) res) \<Rightarrow> u8 \<Rightarrow> int \<Rightarrow> constate \<Rightarrow> (constate, unit) res" where
  "after_escape respond ch n s =
     (let s = stage 0 s in
      if ch = 0x5B then Ok () (stage 2 s)
      else if ch = 0x45 then Ok () (goto_word 0 (cursor_y (con s n) + 1) n s)
      else if ch = 0x4D then Ok () s
      else if ch = 0x44 then console_putchar (uint ch) n s
      else if ch = 0x5A then respond s
      else Ok () s)"

definition first_parameter :: "u8 \<Rightarrow> int \<Rightarrow> constate \<Rightarrow> (constate, unit) res" where
  "first_parameter ch n s =
     (let s = stage 3 (clear_par s); q = (ch = 0x3F) in
      if q then Ok () (s\<lparr>ques := q\<rparr>) else csi_parameter ch n (s\<lparr>ques := q\<rparr>))"

text \<open>One character of \<open>console_write\<close>: the switch over the stages.\<close>

definition write_step :: "(constate \<Rightarrow> (constate, unit) res) \<Rightarrow> bool \<Rightarrow> int \<Rightarrow> u8 \<Rightarrow> constate \<Rightarrow> (constate, bool) res" where
  "write_step respond DoEcho n ch s =
     (let go = (\<lambda>_ s. Ok True s) in
      if EscapeSequenceStage s = 0 then bindR (plain_char DoEcho ch n s) go
      else if EscapeSequenceStage s = 1 then bindR (after_escape respond ch n s) go
      else if EscapeSequenceStage s = 2 then bindR (first_parameter ch n s) go
      else if EscapeSequenceStage s = 3 then bindR (csi_parameter ch n s) go
      else if EscapeSequenceStage s = 4 then bindR (csi_command ch n s) go
      else Ok False s)"

primrec write_loop :: "(constate \<Rightarrow> (constate, unit) res) \<Rightarrow> bool \<Rightarrow> int \<Rightarrow> u8 list \<Rightarrow> constate \<Rightarrow> (constate, bool) res" where
  "write_loop respond DoEcho n [] s = Ok True s"
| "write_loop respond DoEcho n (ch # cs) s =
     bindR (write_step respond DoEcho n ch s) (\<lambda>go s. if go then write_loop respond DoEcho n cs s else Ok False s)"

text \<open>
  \<open>console_write\<close> with the bytes of its buffer (\<open>None\<close> for a null pointer). The answer to \<open>ESC Z\<close> calls
  \<open>console_write\<close> again, for one character at a time: \<open>depth\<close> bounds this recursion. A call for one
  character starts in stage 0 and does not answer, so a depth of 2 is enough (\<open>write_depth\<close>).
\<close>

definition RESPONSE :: "u8 list" where
  "RESPONSE = [0x1B, 0x5B, 0x3F, 0x31, 0x3B, 0x32, 0x63]"

definition write_string_with :: "(int \<Rightarrow> u8 list option \<Rightarrow> constate \<Rightarrow> (constate, int) res) \<Rightarrow> int \<Rightarrow> u8 list option \<Rightarrow> constate \<Rightarrow> (constate, int) res" where
  "write_string_with write n string s =
     (if no_console n then Ok 0 s
      else case string of None \<Rightarrow> Ok 0 s
      | Some cs \<Rightarrow> if cs = [] then Ok 0 s
          else bindR (foldR (\<lambda>c s. bindR (write n (Some [c]) s) (\<lambda>_ s. Ok () s)) cs s) (\<lambda>_ s. Ok (int (length cs)) s))"

primrec console_write_depth :: "nat \<Rightarrow> int \<Rightarrow> u8 list option \<Rightarrow> constate \<Rightarrow> (constate, int) res" where
  "console_write_depth 0 n buf s = Fault ''depth''"
| "console_write_depth (Suc d) n buf s =
     (if no_console n then Ok (- 1) s
      else case buf of None \<Rightarrow> Ok (- 1) s
      | Some cs \<Rightarrow>
          if cs = [] then Ok (- 1) s
          else if tty_magic (con s n) \<noteq> 1234 then Panic ''console_write: tty validation''
          else bindR (write_loop (\<lambda>s. bindR (write_string_with (console_write_depth d) n (Some RESPONSE) s) (\<lambda>_ s. Ok () s))
                        (c_lflag (con s n) AND ECHO \<noteq> 0) n cs (stage 0 s))
                 (\<lambda>go s. Ok (if go then int (length cs) else - 1) s))"

definition console_write :: "int \<Rightarrow> u8 list option \<Rightarrow> constate \<Rightarrow> (constate, int) res" where
  "console_write n buf s = console_write_depth 2 n buf s"

definition console_write_string :: "int \<Rightarrow> u8 list option \<Rightarrow> constate \<Rightarrow> (constate, int) res" where
  "console_write_string n string s = write_string_with console_write n string s"

section \<open>Clearing, control and initialisation\<close>

definition console_clear_imp :: "u32 \<Rightarrow> u32 \<Rightarrow> int \<Rightarrow> constate \<Rightarrow> int \<times> constate" where
  "console_clear_imp bg fg n s =
     (if useGui s \<noteq> TRUE then (- 1, s)
      else if no_console n then (- 1, s)
      else (0, display (Bg_initialize bg) (local_gotoxy 0 0 n (upd_con n (\<lambda>t. t\<lparr>bg_color := bg, fg_color := fg\<rparr>) s))))"

definition console_clear00 :: "int \<Rightarrow> constate \<Rightarrow> int \<times> constate" where
  "console_clear00 n s =
     (if no_console n then (- 1, s)
      else (0, snd (console_clear_imp (bg_color (con s n)) (fg_color (con s n)) n s)))"

definition console_clear :: "constate \<Rightarrow> int \<times> constate" where
  "console_clear s = (if no_console (foreground s) then (- 1, s) else console_clear00 (foreground s) s)"

definition TIOCCONS :: u64 where [simp]: "TIOCCONS = 0x541D"

definition console_ioctl :: "int \<Rightarrow> u64 \<Rightarrow> u64 \<Rightarrow> constate \<Rightarrow> (constate, int) res" where
  "console_ioctl fd request arg s =
     (let n = foreground s; t = con s n; pos = c_int (uint arg) in
      if fd < 0 \<or> fd \<ge> OPEN_MAX then Ok (- EBADF) s
      else if fd \<noteq> 1 then Panic ''console_ioctl: fd != 1''
      else if no_console n then Panic ''console_ioctl: fg_console''
      else if request = 1 \<or> request = 2 \<or> request = 3 then Ok (- 1) (display Refresh_screen s)
      else if request = 400 \<or> request = 402 \<or> request = 1000 then Ok 0 s
      else if request = 401 then Ok (c_int (uint (get_fg_color s))) s
      else if request = 403 then Ok (c_int (uint (get_bg_color s))) s
      else if request = 440 then Ok 0 (snd (console_clear_imp (bg_color t) (fg_color t) n s))
      else if request = 500 then Ok (con_initialized t) s
      else if request = 501 then Ok (tty_is_blocked t) s
      else if request = 502 then Ok (- 1) s
      else if request = 503 then Ok (operation_mode t) s
      else if request = 504 then Ok (tty_type t) s
      else if request = 505 then Ok (tty_subtype t) s
      else if request = 506 then Ok (virtual_terminal_pid t) s
      else if request = 507 then Ok (fullscreen_flag t) s
      else if request = 508 then Ok (charset_id t) s
      else if request = 509 then Ok (charset_lang_id t) s
      else if request = 510 then Ok (c_int (uint (cursor_left t))) s
      else if request = 511 then Ok (c_int (uint (cursor_top t))) s
      else if request = 512 then Ok (c_int (uint (cursor_right t))) s
      else if request = 513 then Ok (c_int (uint (cursor_bottom t))) s
      else if request = 514 then Ok (c_int (uint (cursor_width_in_pixels t))) s
      else if request = 515 then Ok (c_int (uint (cursor_height_in_pixels t))) s
      else if request = 998 then bindR (console_scroll_rect n CONSOLE_SCROLL_DIRECTION_DOWN s) (\<lambda>_ s. Ok 0 s)
      else if request = 999 then bindR (console_scroll_rect n CONSOLE_SCROLL_DIRECTION_UP s) (\<lambda>_ s. Ok 0 s)
      else if request = 1001 then Ok 0 (local_gotoxy pos (c_int (uint (cursor_y t))) n s)
      else if request = 1002 then Ok 0 (local_gotoxy (c_int (uint (cursor_x t))) pos n s)
      else if request = 1003 then if arg < 4 then Ok 0 (s\<lparr>foreground := uint arg\<rparr>) else Ok (- EINVAL) s
      else if request = 1008 then Ok (- 1) (local_gotoxy pos 0 n s)
      else if request = 1009 then Ok (- 1) (local_gotoxy pos (c_int (uint (cursor_bottom t - 1))) n s)
      else if request = 1010 then if arg < 70 then bindR (console_print_indent pos n s) (\<lambda>_ s. Ok (- 1) s) else Ok (- 1) s
      else if request = 1011 then Ok (c_int (uint (get_cursor_x s))) s
      else if request = 1012 then Ok (c_int (uint (get_cursor_y s))) s
      else if request = TIOCCONS then Ok 0 s
      else Ok (- EINVAL) s)"

definition blank_queue :: "tty_queue \<Rightarrow> tty_queue" where
  "blank_queue q = q\<lparr>q_cnt := 0, q_head := 0, q_tail := 0, q_buffer_size := int TTY_BUF_SIZE,
     q_buf := (\<lambda>i. if i < TTY_BUF_SIZE then 0 else q_buf q i)\<rparr>"

definition DDINIT_console :: "int \<Rightarrow> u32 \<Rightarrow> u32 \<Rightarrow> constate \<Rightarrow> (constate, unit) res" where
  "DDINIT_console n bg fg s =
     (if no_console n then Panic ''DDINIT_console: [FAIL] ConsoleIndex''
      else Ok () (upd_con n (\<lambda>t. t\<lparr>tty_used := TRUE, tty_magic := 1234, tty_type := 0, tty_subtype := 0, tty_is_blocked := FALSE,
             virtual_terminal_pid := 0, raw_queue := blank_queue (raw_queue t), canonical_queue := blank_queue (canonical_queue t),
             output_queue := blank_queue (output_queue t), output_worker_number := TTY_OUTPUT_WORKER_FGCONSOLE,
             cursor_width_in_pixels := 8, cursor_height_in_pixels := 8, cursor_x := 0, cursor_y := 0, fullscreen_flag := TRUE,
             cursor_left := 0, cursor_top := 0, cursor_right := gSavedX s div 8, cursor_bottom := gSavedY s div 8,
             bg_color := bg, fg_color := fg, default_bg_color := bg, default_fg_color := fg, c_lflag := ECHO,
             operation_mode := 1000, charset_id := 0, charset_lang_id := 0, tty_link := NULL, con_initialized := TRUE\<rparr>) s))"

text \<open>
  The part of \<open>VirtualConsole_early_initialization\<close> before it switches to the first console, without the two
  brokers; \<open>colors\<close> are those of its two tables.
\<close>

definition VirtualConsole_early_initialization :: "constate \<Rightarrow> (constate, unit) res" where
  "VirtualConsole_early_initialization s =
     (let COLOR_ORANGE = 0x00FFA500;
          colors = [(0, COLOR_BLUE, COLOR_WHITE), (1, COLOR_BLUE, COLOR_YELLOW), (2, COLOR_ORANGE, COLOR_WHITE), (3, COLOR_RED, COLOR_YELLOW)];
          s = s\<lparr>foreground := 0, EscapeSequenceStage := 0, par := (\<lambda>i. if i < NPAR then 0 else par s i)\<rparr>
      in foldR (\<lambda>(n, bg, fg). DDINIT_console n bg fg) colors s)"

end
