(* ===== verification/Console_Laws.thy ===== *)
theory Console_Laws
  imports Console
begin

text \<open>
  The consoles never draw outside of their margins, whatever is written to them, and never stop the kernel; what
  plain text looks like; and three things that escape sequences should do and do not. \<open>display_inv wh R B\<close> is
  the invariant: every console has its margins within \<open>R\<close> columns and \<open>B\<close> rows, and every glyph that was
  drawn is in a cell of that area. \<open>keeps P f\<close>: from a state with \<open>P\<close> the operation \<open>f\<close> returns in a state with \<open>P\<close>.
\<close>

named_theorems console_keep \<open>operations that return and keep the invariant of the consoles\<close>

section \<open>Updates\<close>

lemma con_upd [simp]: "con (upd_con n f s) m = (if m = n then f (con s n) else con s m)"
  by (simp add: upd_con_def)

lemma upd_con_frame [simp]:
  "screen (upd_con n f s) = screen s" "foreground (upd_con n f s) = foreground s" "useGui (upd_con n f s) = useGui s"
  "char_width (upd_con n f s) = char_width s" "char_height (upd_con n f s) = char_height s" "screen_width (upd_con n f s) = screen_width s"
  "screen_height (upd_con n f s) = screen_height s" "gSavedBPP (upd_con n f s) = gSavedBPP s" "gSavedX (upd_con n f s) = gSavedX s"
  "gSavedY (upd_con n f s) = gSavedY s" "EscapeSequenceStage (upd_con n f s) = EscapeSequenceStage s" "par (upd_con n f s) = par s"
  "npar (upd_con n f s) = npar s" "in_terminalmode (upd_con n f s) = in_terminalmode s" "in_verbosemode (upd_con n f s) = in_verbosemode s"
  "saved_x (upd_con n f s) = saved_x s" "saved_y (upd_con n f s) = saved_y s"
  by (simp_all add: upd_con_def)

lemma display_frame [simp]:
  "CONSOLE_TTYS (display e s) = CONSOLE_TTYS s" "screen (display e s) = screen s @ [e]" "foreground (display e s) = foreground s"
  "useGui (display e s) = useGui s" "char_width (display e s) = char_width s" "char_height (display e s) = char_height s"
  "screen_width (display e s) = screen_width s" "screen_height (display e s) = screen_height s" "gSavedBPP (display e s) = gSavedBPP s"
  "gSavedX (display e s) = gSavedX s" "gSavedY (display e s) = gSavedY s" "EscapeSequenceStage (display e s) = EscapeSequenceStage s"
  "par (display e s) = par s" "npar (display e s) = npar s" "in_terminalmode (display e s) = in_terminalmode s"
  "in_verbosemode (display e s) = in_verbosemode s"
  by (simp_all add: display_def)

lemma stage_frame [simp]:
  "CONSOLE_TTYS (stage k s) = CONSOLE_TTYS s" "screen (stage k s) = screen s" "foreground (stage k s) = foreground s" "useGui (stage k s) = useGui s"
  "char_width (stage k s) = char_width s" "char_height (stage k s) = char_height s" "EscapeSequenceStage (stage k s) = k"
  "screen_width (stage k s) = screen_width s" "screen_height (stage k s) = screen_height s" "gSavedBPP (stage k s) = gSavedBPP s"
  "par (stage k s) = par s" "npar (stage k s) = npar s" "stage j (stage k s) = stage j s"
  by (simp_all add: stage_def)

section \<open>The invariant\<close>

definition console_ok :: "u64 \<Rightarrow> u64 \<Rightarrow> console_d \<Rightarrow> bool" where
  "console_ok R B t \<longleftrightarrow> con_initialized t = TRUE \<and> tty_magic t = 1234 \<and> cursor_left t < cursor_right t \<and> cursor_top t < cursor_bottom t \<and>
     cursor_right t \<le> R \<and> cursor_bottom t \<le> B"

definition in_cells :: "u64 \<Rightarrow> u64 \<Rightarrow> int \<Rightarrow> int \<Rightarrow> screen_call \<Rightarrow> bool" where
  "in_cells R B w h e \<longleftrightarrow> (case e of Char_draw x y c fg bg \<Rightarrow>
     (\<exists>column < R. \<exists>row < B. x = word_of_int w * column \<and> y = word_of_int h * row) | _ \<Rightarrow> True)"

definition gui_ok :: "constate \<Rightarrow> bool" where
  "gui_ok s \<longleftrightarrow> useGui s = TRUE \<and> screen_width s \<noteq> 0 \<and> screen_height s \<noteq> 0 \<and> (gSavedBPP s = 32 \<or> gSavedBPP s = 24) \<and>
     0 < char_width s \<and> char_width s < 0x10000 \<and> 0 < char_height s \<and> char_height s < 0x10000"

definition display_inv :: "int \<times> int \<Rightarrow> u64 \<Rightarrow> u64 \<Rightarrow> constate \<Rightarrow> bool" where
  "display_inv wh R B s \<longleftrightarrow> wh = (char_width s, char_height s) \<and> R \<le> 0xFFFF \<and> B \<le> 0xFFFF \<and> gui_ok s \<and> \<not> no_console (foreground s) \<and>
     (\<forall>n. \<not> no_console n \<longrightarrow> console_ok R B (con s n)) \<and> (\<forall>e \<in> set (screen s). in_cells R B (char_width s) (char_height s) e) \<and>
     EscapeSequenceStage s \<le> 4 \<and> npar s < NPAR"

lemma display_invI_calls:
  assumes "display_inv wh R B s" and "screen s' = screen s @ es" and "\<forall>e \<in> set es. in_cells R B (char_width s) (char_height s) e" and "foreground s' = foreground s" and "useGui s' = useGui s"
    and "screen_width s' = screen_width s" and "screen_height s' = screen_height s" and "gSavedBPP s' = gSavedBPP s"
    and "char_width s' = char_width s" and "char_height s' = char_height s" and "EscapeSequenceStage s' \<le> 4" and "npar s' < NPAR"
    and "\<And>n. \<not> no_console n \<Longrightarrow> console_ok R B (con s n) \<Longrightarrow> console_ok R B (con s' n)"
  shows "display_inv wh R B s'"
  using assms by (auto simp: display_inv_def gui_ok_def)

lemma display_invI_update:
  assumes "display_inv wh R B s" and "screen s' = screen s" and "foreground s' = foreground s" and "useGui s' = useGui s"
    and "screen_width s' = screen_width s" and "screen_height s' = screen_height s" and "gSavedBPP s' = gSavedBPP s"
    and "char_width s' = char_width s" and "char_height s' = char_height s" and "EscapeSequenceStage s' \<le> 4" and "npar s' < NPAR"
    and "\<And>n. \<not> no_console n \<Longrightarrow> console_ok R B (con s n) \<Longrightarrow> console_ok R B (con s' n)"
  shows "display_inv wh R B s'"
  by (rule display_invI_calls [OF assms(1), of _ "[]"]) (use assms in simp_all)

lemma inv_upd_con:
  assumes "display_inv wh R B s" and "\<not> no_console n \<Longrightarrow> console_ok R B (con s n) \<Longrightarrow> console_ok R B (f (con s n))"
  shows "display_inv wh R B (upd_con n f s)"
  using assms(1) by (rule display_invI_update) (use assms in \<open>auto simp: display_inv_def\<close>)

lemma inv_display [simp]:
  "display_inv wh R B s \<Longrightarrow> (in_cells R B (char_width s) (char_height s) e) \<Longrightarrow> display_inv wh R B (display e s)"
  by (auto simp: display_inv_def gui_ok_def)

lemma inv_stage [simp]: "display_inv wh R B s \<Longrightarrow> k \<le> 4 \<Longrightarrow> display_inv wh R B (stage k s)"
  by (rule display_invI_update) (auto simp: display_inv_def)

lemma inv_clear_par [simp]: "display_inv wh R B s \<Longrightarrow> display_inv wh R B (clear_par s)"
  by (rule display_invI_update) (auto simp: display_inv_def clear_par_def)

lemma inv_ques [simp]: "display_inv wh R B s \<Longrightarrow> display_inv wh R B (s\<lparr>ques := q\<rparr>)"
  by (rule display_invI_update) (auto simp: display_inv_def)

lemma inv_mode [simp]: "display_inv wh R B s \<Longrightarrow> display_inv wh R B (s\<lparr>in_terminalmode := q\<rparr>)"
  by (rule display_invI_update) (auto simp: display_inv_def)

lemma inv_saved [simp]: "display_inv wh R B s \<Longrightarrow> display_inv wh R B (local_save_cur n s)"
  by (rule display_invI_update) (auto simp: display_inv_def local_save_cur_def)

lemma console_okD: "display_inv wh R B s \<Longrightarrow> \<not> no_console n \<Longrightarrow> console_ok R B (con s n)"
  by (simp add: display_inv_def)

text \<open>Updates of the cursor, the colours and the last character.\<close>

lemma console_ok_cursor [simp]:
  "console_ok R B (t\<lparr>cursor_x := x\<rparr>) = console_ok R B t" "console_ok R B (t\<lparr>cursor_y := y\<rparr>) = console_ok R B t"
  "console_ok R B (t\<lparr>prev_char := c\<rparr>) = console_ok R B t" "console_ok R B (t\<lparr>fg_color := fg\<rparr>) = console_ok R B t"
  "console_ok R B (t\<lparr>bg_color := bg\<rparr>) = console_ok R B t"
  by (simp_all add: console_ok_def)

lemma inv_gotoxy [simp]: "display_inv wh R B s \<Longrightarrow> display_inv wh R B (local_gotoxy x y n s)"
  by (auto simp: local_gotoxy_def intro!: inv_upd_con)

lemma inv_goto_word [simp]: "display_inv wh R B s \<Longrightarrow> display_inv wh R B (goto_word x y n s)"
  by (simp add: goto_word_def)

lemma inv_restore [simp]: "display_inv wh R B s \<Longrightarrow> display_inv wh R B (local_restore_cur n s)"
  by (auto simp: local_restore_cur_def intro!: inv_upd_con)

section \<open>Operations that return\<close>

definition keeps :: "('s \<Rightarrow> bool) \<Rightarrow> ('s \<Rightarrow> ('s, 'a) res) \<Rightarrow> bool" where
  "keeps P f \<longleftrightarrow> (\<forall>s. P s \<longrightarrow> (\<exists>a s'. f s = Ok a s' \<and> P s'))"

lemma keepsI: "(\<And>s. P s \<Longrightarrow> \<exists>a s'. f s = Ok a s' \<and> P s') \<Longrightarrow> keeps P f"
  by (simp add: keeps_def)

lemma keepsD: "keeps P f \<Longrightarrow> P s \<Longrightarrow> \<exists>a s'. f s = Ok a s' \<and> P s'"
  by (simp add: keeps_def)

lemma keepsE: "keeps P f \<Longrightarrow> P s \<Longrightarrow> (\<And>a s'. f s = Ok a s' \<Longrightarrow> P s' \<Longrightarrow> thesis) \<Longrightarrow> thesis"
  by (auto simp: keeps_def)

lemma keeps_bind: "keeps P f \<Longrightarrow> P s \<Longrightarrow> (\<And>a s'. f s = Ok a s' \<Longrightarrow> P s' \<Longrightarrow> \<exists>b t. g a s' = Ok b t \<and> P t) \<Longrightarrow> \<exists>b t. bindR (f s) g = Ok b t \<and> P t"
  by (auto simp: keeps_def)

lemma keeps_foldR: "(\<And>x. x \<in> set xs \<Longrightarrow> keeps P (f x)) \<Longrightarrow> keeps P (foldR f xs)"
proof (induction xs)
  case (Cons x xs)
  then have "keeps P (f x)" "keeps P (foldR f xs)" by auto
  then show ?case by (fastforce simp: keeps_def)
qed (simp add: keeps_def)

lemma keeps_repeat: "keeps P f \<Longrightarrow> P s \<Longrightarrow> \<exists>s'. foldR (\<lambda>_. f) xs s = Ok () s' \<and> P s'"
  using keepsD [OF keeps_foldR [of xs P "\<lambda>_. f"]] by auto

section \<open>Every operation keeps the invariant\<close>

lemma mask16: "x AND 0xFFFF = x" if "x \<le> 0xFFFF" for x :: u64
proof -
  have "uint x < 2 ^ 16" using that by (simp add: word_le_def)
  then have "take_bit 16 (uint x) = uint x" by (simp add: take_bit_int_eq_self)
  then have "uint (x AND 0xFFFF) = uint x" by (simp add: uint_and take_bit_eq_mask mask_eq_exp_minus_1)
  then show ?thesis by (simp only: word_uint_eq_iff)
qed

lemma int16: "word_of_int (c_int (uint x)) = x" if "x \<le> 0xFFFF" for x :: u64
proof -
  have "- (2 ^ 31) \<le> uint x" by (rule order_trans [OF _ uint_ge_0]) simp
  then have "signed_take_bit 31 (uint x) = uint x"
    by (rule signed_take_bit_int_eq_self) (use that in \<open>simp add: word_le_def\<close>)
  then show ?thesis by (simp add: c_int_def)
qed

definition scrolled :: "int \<Rightarrow> constate \<Rightarrow> constate" where
  "scrolled n s = display Refresh_screen
     (upd_con n (\<lambda>t. t\<lparr>cursor_x := 0, cursor_y := cursor_bottom t - 1\<rparr>)
       (upd_con n (\<lambda>t. t\<lparr>cursor_left := cursor_left t AND 0xFFFF, cursor_top := cursor_top t AND 0xFFFF,
                  cursor_right := cursor_right t AND 0xFFFF, cursor_bottom := cursor_bottom t AND 0xFFFF\<rparr>)
         (display (Draw_rectangle 0 (gSavedY s - 8) (gSavedX s) 8 (ucast (bg_color (con s n)))) (display Scroll_screen s))))"

lemma scroll_rect: "gui_ok s \<Longrightarrow> \<not> no_console n \<Longrightarrow> console_scroll_rect n d s = Ok 0 (scrolled n s)"
  by (auto simp: console_scroll_rect_def scroll_screen_rect_def gui_ok_def scrolled_def Let_def)

lemma scrolled_margins:
  assumes "cursor_left (con s n) < cursor_right (con s n)" and "cursor_right (con s n) \<le> 0xFFFF" and "cursor_bottom (con s n) \<le> 0xFFFF"
  shows "con (scrolled n s) n = (con s n)\<lparr>cursor_top := cursor_top (con s n) AND 0xFFFF, cursor_x := 0, cursor_y := cursor_bottom (con s n) - 1\<rparr>"
proof -
  have "cursor_left (con s n) \<le> 0xFFFF" using assms(1,2) by (meson less_imp_le order_trans)
  then show ?thesis using assms by (simp add: scrolled_def mask16)
qed

lemma inv_gui: "display_inv wh R B s \<Longrightarrow> gui_ok s"
  by (simp add: display_inv_def)

lemma inv_margins:
  assumes "display_inv wh R B s" and "\<not> no_console n"
  shows "cursor_left (con s n) < cursor_right (con s n)" "cursor_top (con s n) < cursor_bottom (con s n)"
    "cursor_right (con s n) \<le> R" "cursor_bottom (con s n) \<le> B" "cursor_right (con s n) \<le> 0xFFFF" "cursor_bottom (con s n) \<le> 0xFFFF"
    "cursor_top (con s n) \<le> 0xFFFF" "con_initialized (con s n) = TRUE" "tty_magic (con s n) = 1234"
  using assms console_okD [OF assms] by (auto simp: display_inv_def console_ok_def)

lemma scrolled_screen [simp]:
  "screen (scrolled n s) = screen s @ [Scroll_screen, Draw_rectangle 0 (gSavedY s - 8) (gSavedX s) 8 (ucast (bg_color (con s n))), Refresh_screen]"
  by (simp add: scrolled_def)

lemma scrolled_frame [simp]:
  "foreground (scrolled n s) = foreground s" "useGui (scrolled n s) = useGui s" "char_width (scrolled n s) = char_width s"
  "char_height (scrolled n s) = char_height s" "screen_width (scrolled n s) = screen_width s" "screen_height (scrolled n s) = screen_height s"
  "gSavedBPP (scrolled n s) = gSavedBPP s" "EscapeSequenceStage (scrolled n s) = EscapeSequenceStage s" "npar (scrolled n s) = npar s"
  "m \<noteq> n \<Longrightarrow> con (scrolled n s) m = con s m"
  by (simp_all add: scrolled_def)

lemma in_cells_other [simp]:
  "in_cells R B w h Scroll_screen" "in_cells R B w h (Draw_rectangle a b c d e)" "in_cells R B w h Refresh_screen"
  "in_cells R B w h (Refresh_rectangle a b c d)" "in_cells R B w h (Bg_initialize col)"
  by (simp_all add: in_cells_def)

lemma inv_scrolled:
  assumes i: "display_inv wh R B s" and n: "\<not> no_console n"
  shows "display_inv wh R B (scrolled n s)"
  using i
proof (rule display_invI_calls)
  show "console_ok R B (con (scrolled n s) m)" if "\<not> no_console m" "console_ok R B (con s m)" for m
  proof (cases "m = n")
    case True
    then show ?thesis using that(2) inv_margins [OF i n] by (simp add: scrolled_margins mask16 console_ok_def)
  qed (use that in simp)
qed (use i in \<open>auto simp: display_inv_def\<close>)

lemma scroll_if_fullscreen: "gui_ok s \<Longrightarrow> \<not> no_console n \<Longrightarrow>
    scroll_if_fullscreen n s = Ok () (if fullscreen_flag (con s n) = TRUE then scrolled n s else s)"
  by (simp add: scroll_if_fullscreen_def scroll_rect)

lemma keep_scroll [console_keep]: "\<not> no_console n \<Longrightarrow> keeps (display_inv wh R B) (scroll_if_fullscreen n)"
  by (auto intro!: keepsI simp: scroll_if_fullscreen inv_gui inv_scrolled)

lemma keep_line_feed [console_keep]: "\<not> no_console n \<Longrightarrow> keeps (display_inv wh R B) (line_feed c n)"
  by (rule keepsI) (auto simp: line_feed_def Let_def scroll_if_fullscreen inv_gui intro!: inv_upd_con inv_scrolled)

lemma minus_one_less: "y < x \<Longrightarrow> x - 1 < x" for x y :: u64
  by (metis word_less_nat_alt unat_minus_one word_not_simps(1) diff_less zero_less_one unat_gt_0)

lemma less_minus_one: "y < x \<Longrightarrow> z < x - 1 \<Longrightarrow> z < x" for x y z :: u64
  using minus_one_less [of y x] by (rule less_trans [rotated])

definition cursor_in :: "int \<Rightarrow> constate \<Rightarrow> bool" where
  "cursor_in n s \<longleftrightarrow> cursor_x (con s n) < cursor_right (con s n) \<and> cursor_y (con s n) < cursor_bottom (con s n)"

text \<open>Drawing at the cursor, when it is within the margins.\<close>

lemma draw_ok:
  assumes i: "display_inv wh R B s" and n: "\<not> no_console n" and c: "cursor_in n s"
  shows "\<exists>s'. console_outbyte_imp ch n s = Ok () s' \<and> display_inv wh R B s' \<and> CONSOLE_TTYS s' = CONSOLE_TTYS s"
proof -
  have "in_cells R B (char_width s) (char_height s) (Char_draw (word_of_int (char_width s) * cursor_x (con s n))
      (word_of_int (char_height s) * cursor_y (con s n)) ch (fg_color (con s n)) (bg_color (con s n)))"
    using c inv_margins [OF i n] unfolding in_cells_def cursor_in_def by (auto intro: less_le_trans)
  then show ?thesis using i n inv_gui [OF i] by (simp add: console_outbyte_imp_def gui_ok_def)
qed

definition row_fixed :: "int \<Rightarrow> constate \<Rightarrow> constate" where
  "row_fixed n s = (if cursor_y (con s n) \<ge> cursor_bottom (con s n)
     then upd_con n (\<lambda>t. t\<lparr>cursor_x := 0, cursor_y := cursor_bottom t - 1\<rparr>) (if fullscreen_flag (con s n) = TRUE then scrolled n s else s)
     else s)"

lemma fix_row: "gui_ok s \<Longrightarrow> \<not> no_console n \<Longrightarrow> fix_row n s = Ok () (row_fixed n s)"
  by (simp add: fix_row_def row_fixed_def scroll_if_fullscreen)

lemma inv_wrap_line:
  assumes "display_inv wh R B s" and "\<not> no_console n"
  shows "display_inv wh R B (wrap_line n s)" "cursor_x (con (wrap_line n s) n) < cursor_right (con (wrap_line n s) n)"
  using assms(1) inv_margins [OF assms] less_minus_one [of "cursor_left (con s n)" "cursor_right (con s n)"]
  by (auto simp: wrap_line_def at_end_of_line_def intro: inv_upd_con)

lemma inv_row_fixed:
  assumes i: "display_inv wh R B s" and n: "\<not> no_console n" and x: "cursor_x (con s n) < cursor_right (con s n)"
  shows "display_inv wh R B (row_fixed n s)" "cursor_in n (row_fixed n s)"
proof -
  show "display_inv wh R B (row_fixed n s)"
    using i by (auto simp: row_fixed_def intro!: inv_upd_con inv_scrolled n)
  show "cursor_in n (row_fixed n s)"
    using x inv_margins [OF i n] minus_one_less [of "cursor_top (con s n)" "cursor_bottom (con s n)"]
    by (auto simp: row_fixed_def cursor_in_def scrolled_margins word_gt_0)
qed

lemma inv_glyph_done: "display_inv wh R B s \<Longrightarrow> display_inv wh R B (glyph_done k ch n s)"
  by (auto simp: glyph_done_def Let_def intro!: inv_upd_con inv_display)

lemma keep_glyph [console_keep]: "\<not> no_console n \<Longrightarrow> keeps (display_inv wh R B) (put_glyph ch n)"
proof (rule keepsI)
  fix s assume n: "\<not> no_console n" and i: "display_inv wh R B s"
  let ?t = "row_fixed n (wrap_line n s)"
  have t: "display_inv wh R B ?t" "cursor_in n ?t"
    using inv_row_fixed [OF inv_wrap_line(1) [OF i n] n inv_wrap_line(2) [OF i n]] by auto
  have f: "fix_row n (wrap_line n s) = Ok () ?t" by (rule fix_row [OF inv_gui [OF inv_wrap_line(1) [OF i n]] n])
  obtain u where "console_outbyte_imp ch n ?t = Ok () u" "display_inv wh R B u"
    using draw_ok [OF t(1) n t(2), of ch] by auto
  then show "\<exists>a s'. put_glyph ch n s = Ok a s' \<and> display_inv wh R B s'"
    using t(1) inv_margins [OF i n] by (auto simp: put_glyph_def f inv_glyph_done not_le)
qed

lemma inv_upd_same: "display_inv wh R B s \<Longrightarrow> (\<And>t. console_ok R B (f t) = console_ok R B t) \<Longrightarrow> display_inv wh R B (upd_con n f s)"
  by (rule inv_upd_con) simp_all

lemma keep_outbyte [console_keep]: "keeps (display_inv wh R B) (console_outbyte ch n)"
proof (rule keepsI)
  fix s assume i: "display_inv wh R B s"
  show "\<exists>a s'. console_outbyte ch n s = Ok a s' \<and> display_inv wh R B s'"
  proof (cases "no_console n")
    case False
    have p: "display_inv wh R B (upd_con n (\<lambda>t. t\<lparr>prev_char := c\<rparr>) s)" for c using i by (auto intro!: inv_upd_con)
    have "con_initialized (con s n) = TRUE" "char_width s \<noteq> 0" "char_height s \<noteq> 0"
      using inv_margins [OF i False] inv_gui [OF i] by (simp_all add: gui_ok_def)
    moreover have "\<exists>g. put_glyph c n s = Ok () g \<and> display_inv wh R B g" for c
      using keepsD [OF keep_glyph [OF False] i] by auto
    moreover have "\<exists>g. put_glyph c n (upd_con n (\<lambda>t. t\<lparr>prev_char := d\<rparr>) s) = Ok () g \<and> display_inv wh R B g" for c d
      using keepsD [OF keep_glyph [OF False] p] by auto
    moreover have "\<exists>g. line_feed c n s = Ok () g \<and> display_inv wh R B g" for c
      using keepsD [OF keep_line_feed [OF False] i] by auto
    ultimately show ?thesis using False i p by (simp add: console_outbyte_def Let_def inv_upd_same)
  qed (use i in \<open>simp add: console_outbyte_def\<close>)
qed

lemma keep_putchar [console_keep]: "keeps (display_inv wh R B) (console_putchar c n)"
proof (rule keepsI)
  fix s assume i: "display_inv wh R B s"
  have m: "word_of_int w AND 0xFFFF \<noteq> (0 :: u64)" if "0 < w" "w < 0x10000" for w :: int
  proof -
    have "uint (word_of_int w :: u64) = w" using that by (simp add: uint_word_of_int)
    then have "word_of_int w \<le> (0xFFFF :: u64)" "word_of_int w \<noteq> (0 :: u64)" using that by (auto simp: word_le_def)
    then show ?thesis by (simp add: mask16)
  qed
  have w: "word_of_int (char_width s) AND 0xFFFF \<noteq> (0 :: u64)" "word_of_int (char_height s) AND 0xFFFF \<noteq> (0 :: u64)"
    using inv_gui [OF i] m by (auto simp: gui_ok_def)
  obtain t where "console_outbyte c n (s\<lparr>in_terminalmode := TRUE\<rparr>) = Ok () t" "display_inv wh R B t"
    using keepsD [OF keep_outbyte inv_mode [OF i], of c n TRUE] by auto
  then show "\<exists>a s'. console_putchar c n s = Ok a s' \<and> display_inv wh R B s'"
    using w i by (auto simp: console_putchar_def Let_def intro!: inv_mode)
qed

lemma keeps_cases: "(\<And>s. P s \<Longrightarrow> f s = Ok (a s) (g s) \<and> P (g s)) \<Longrightarrow> keeps P f"
  by (auto intro!: keepsI)

lemma keep_echo [console_keep]: "keeps (display_inv wh R B) (console_echo c n)"
  using keepsD [OF keep_outbyte [of wh R B]] by (auto intro!: keepsI simp: console_echo_def)

lemma keep_indent [console_keep]: "keeps (display_inv wh R B) (console_print_indent k n)"
  using keepsD [OF keeps_foldR [of "[0..<nat k]" "display_inv wh R B" "\<lambda>_. console_putchar 32 n"]]
  by (auto intro!: keepsI simp: console_print_indent_def keep_putchar)

lemma keep_insert_line [console_keep]: "keeps (display_inv wh R B) (local_insert_line n)"
proof (rule keepsI)
  fix s assume i: "display_inv wh R B s"
  show "\<exists>a s'. local_insert_line n s = Ok a s' \<and> display_inv wh R B s'"
  proof (cases "no_console n")
    case n: False
    let ?s1 = "upd_con n (\<lambda>t. t\<lparr>cursor_top := cursor_y t\<rparr>) s"
    let ?f = "\<lambda>t. t\<lparr>cursor_top := word_of_int (c_int (uint (cursor_top (con s n)))), cursor_bottom := word_of_int (c_int (uint (cursor_bottom (con s n))))\<rparr>"
    note m = inv_margins [OF i n]
    note r16 = int16
    have g: "gui_ok ?s1" using inv_gui [OF i] by (simp add: gui_ok_def)
    have "display_inv wh R B (upd_con n ?f (scrolled n ?s1))"
      using i
    proof (rule display_invI_calls)
      show "console_ok R B (con (upd_con n ?f (scrolled n ?s1)) k)" if "\<not> no_console k" "console_ok R B (con s k)" for k
        using that m by (cases "k = n") (simp_all add: scrolled_margins r16 console_ok_def)
    qed (use i in \<open>auto simp: display_inv_def\<close>)
    moreover have "display_inv wh R B (upd_con n ?f ?s1)"
      using i
    proof (rule display_invI_update)
      show "console_ok R B (con (upd_con n ?f ?s1) k)" if "\<not> no_console k" "console_ok R B (con s k)" for k
        using that m by (cases "k = n") (simp_all add: r16 console_ok_def)
    qed (use i in \<open>auto simp: display_inv_def\<close>)
    ultimately show ?thesis using n g by (simp add: local_insert_line_def Let_def scroll_rect)
  qed (use i in \<open>simp add: local_insert_line_def\<close>)
qed

lemma inv_delete_line: "display_inv wh R B s \<Longrightarrow> display_inv wh R B (local_delete_line n s)"
proof (cases "no_console n")
  case n: False
  assume i: "display_inv wh R B s"
  show ?thesis
    using i
  proof (rule display_invI_update)
    show "console_ok R B (con (local_delete_line n s) k)" if "\<not> no_console k" "console_ok R B (con s k)" for k
      using that inv_margins [OF i n] n by (cases "k = n") (simp_all add: local_delete_line_def Let_def int16 console_ok_def)
  qed (use i n in \<open>auto simp: display_inv_def local_delete_line_def Let_def\<close>)
qed (simp add: local_delete_line_def)

lemma inv_csi_M: "display_inv wh R B s \<Longrightarrow> display_inv wh R B (csi_M nr n s)"
  by (auto simp: csi_M_def intro!: fold_inv [where P = "display_inv wh R B"] inv_delete_line)

lemma keep_csi_L [console_keep]: "keeps (display_inv wh R B) (csi_L nr n)"
proof (rule keepsI)
  fix s assume i: "display_inv wh R B s"
  obtain t where "foldR (\<lambda>_. local_insert_line n) [0..<nat (if nr \<le> 0 then 1 else nr)] s = Ok () t" "display_inv wh R B t"
    using keeps_repeat [OF keep_insert_line i] by blast
  then show "\<exists>a s'. csi_L nr n s = Ok a s' \<and> display_inv wh R B s'"
    unfolding csi_L_def using i by (cases "no_console n") (simp_all only: if_True if_False, blast+)
qed

lemma keep_csi_K [console_keep]: "keeps (display_inv wh R B) (csi_K mode)"
proof (rule keepsI)
  fix s assume i: "display_inv wh R B s"
  let ?f = "\<lambda>(y :: int) n col s. console_outbyte 32 n (local_gotoxy (c_int (uint (of_nat col :: u64))) y n s)"
  have f: "keeps (display_inv wh R B) (?f y n col)" for y n col
    using keepsD [OF keep_outbyte [of wh R B 32 n] inv_gotoxy] by (auto intro!: keepsI)
  have g: "\<exists>t. foldR (?f y n) cols s = Ok () t \<and> display_inv wh R B t" for n y cols
    using keepsD [OF keeps_foldR [of cols "display_inv wh R B" "?f y n", OF f] i] by auto
  show "\<exists>a s'. csi_K mode s = Ok a s' \<and> display_inv wh R B s'"
  proof (cases "erase_range mode (con s (foreground s))")
    case None
    then show ?thesis using i by (simp add: csi_K_def)
  next
    case (Some r)
    then show ?thesis
      using g [of "foreground s" "c_int (uint (cursor_y (con s (foreground s))))" "[unat (fst r)..<unat (snd r)]"]
      by (auto simp: csi_K_def Let_def split: prod.splits)
  qed
qed

lemma keep_delete_char: "keeps (display_inv wh R B) (local_delete_char n)"
  and keep_insert_char: "keeps (display_inv wh R B) (local_insert_char n)"
  using keepsD [OF keep_putchar [of wh R B 32 n]] by (auto intro!: keepsI simp: local_delete_char_def local_insert_char_def)

lemma keep_csi_P [console_keep]: "keeps (display_inv wh R B) (csi_P nr n)"
  using keeps_repeat [OF keep_delete_char [of wh R B n]] by (auto intro!: keepsI simp: csi_P_def)

lemma keep_csi_at [console_keep]: "keeps (display_inv wh R B) (csi_at nr n)"
  using keeps_repeat [OF keep_insert_char [of wh R B n]] by (auto intro!: keepsI simp: csi_at_def)

lemma select_ok [simp]: "console_ok R B (select_graphic p t) = console_ok R B t"
  by (simp add: select_graphic_def)

lemma inv_csi_m: "display_inv wh R B s \<Longrightarrow> display_inv wh R B (csi_m s)"
proof -
  assume i: "display_inv wh R B s"
  have "display_inv wh R B (fold (\<lambda>i s. upd_con n (select_graphic (c_int (uint (par s i)))) s) xs s)" for n xs
    using i by (auto intro!: fold_inv [where P = "display_inv wh R B"] inv_upd_same)
  then show ?thesis using i by (simp add: csi_m_def Let_def inv_upd_same)
qed

lemma keep_command [console_keep]: "keeps (display_inv wh R B) (csi_command ch n)"
proof (rule keepsI)
  fix s assume "display_inv wh R B s"
  then have i: "display_inv wh R B (stage 0 s)" by simp
  have "\<exists>t. csi_K v (stage 0 s) = Ok () t \<and> display_inv wh R B t" "\<exists>t. csi_L v n (stage 0 s) = Ok () t \<and> display_inv wh R B t"
    "\<exists>t. csi_P v n (stage 0 s) = Ok () t \<and> display_inv wh R B t" "\<exists>t. csi_at v n (stage 0 s) = Ok () t \<and> display_inv wh R B t" for v
    using keepsD [OF keep_csi_K i] keepsD [OF keep_csi_L i] keepsD [OF keep_csi_P i] keepsD [OF keep_csi_at i] by auto
  note k = this [of "par_value 0 (stage 0 s)"]
  then obtain t1 t2 t3 t4 where "csi_K (par_value 0 (stage 0 s)) (stage 0 s) = Ok () t1" "display_inv wh R B t1"
    "csi_L (par_value 0 (stage 0 s)) n (stage 0 s) = Ok () t2" "display_inv wh R B t2"
    "csi_P (par_value 0 (stage 0 s)) n (stage 0 s) = Ok () t3" "display_inv wh R B t3"
    "csi_at (par_value 0 (stage 0 s)) n (stage 0 s) = Ok () t4" "display_inv wh R B t4" by auto
  then show "\<exists>a s'. csi_command ch n s = Ok a s' \<and> display_inv wh R B s'"
    using i inv_csi_m [OF i] inv_csi_M [OF i] unfolding csi_command_def Let_def csi_J_def
    by (simp del: stage_frame)
qed

lemma keep_parameter [console_keep]: "keeps (display_inv wh R B) (csi_parameter ch n)"
proof (rule keepsI)
  fix s assume i: "display_inv wh R B s"
  have "display_inv wh R B (s\<lparr>npar := npar s + 1\<rparr>)" if "npar s < NPAR - 1"
    using i by (rule display_invI_update) (use that i in \<open>auto simp: display_inv_def\<close>)
  moreover have "display_inv wh R B (s\<lparr>par := q\<rparr>)" for q
    using i by (rule display_invI_update) (use i in \<open>auto simp: display_inv_def\<close>)
  moreover have "\<exists>a t. csi_command ch n (stage 4 s) = Ok a t \<and> display_inv wh R B t"
    using keepsD [OF keep_command, of wh R B "stage 4 s" ch n] i by simp
  ultimately show "\<exists>a s'. csi_parameter ch n s = Ok a s' \<and> display_inv wh R B s'"
    by (simp add: csi_parameter_def)
qed

lemma keep_plain [console_keep]: "keeps (display_inv wh R B) (plain_char e ch n)"
proof (rule keepsI)
  fix s assume i: "display_inv wh R B s"
  have "\<exists>a t. console_echo c n s = Ok a t \<and> display_inv wh R B t" "\<exists>a t. console_putchar c n s = Ok a t \<and> display_inv wh R B t" for c
    using keepsD [OF keep_echo i] keepsD [OF keep_putchar i] by auto
  then show "\<exists>a s'. plain_char e ch n s = Ok a s' \<and> display_inv wh R B s'" using i by (simp add: plain_char_def)
qed

lemma keep_after_escape:
  assumes "keeps (display_inv wh R B) respond"
  shows "keeps (display_inv wh R B) (after_escape respond ch n)"
proof (rule keepsI)
  fix s assume j: "display_inv wh R B s"
  then have i: "display_inv wh R B (stage 0 s)" by simp
  have "\<exists>a t. console_putchar c n (stage 0 s) = Ok a t \<and> display_inv wh R B t" "\<exists>a t. respond (stage 0 s) = Ok a t \<and> display_inv wh R B t" for c
    using keepsD [OF keep_putchar i] keepsD [OF assms i] by auto
  then show "\<exists>a s'. after_escape respond ch n s = Ok a s' \<and> display_inv wh R B s'"
    using i inv_stage [OF j, of 2] by (simp add: after_escape_def Let_def)
qed

lemma keep_first [console_keep]: "keeps (display_inv wh R B) (first_parameter ch n)"
proof (rule keepsI)
  fix s assume i: "display_inv wh R B s"
  have "\<exists>a t. csi_parameter ch n ((stage 3 (clear_par s))\<lparr>ques := False\<rparr>) = Ok a t \<and> display_inv wh R B t"
    using keepsD [OF keep_parameter, of wh R B "(stage 3 (clear_par s))\<lparr>ques := False\<rparr>" ch n] i by simp
  then show "\<exists>a s'. first_parameter ch n s = Ok a s' \<and> display_inv wh R B s'" using i by (simp add: first_parameter_def Let_def)
qed

lemma step_keeps:
  assumes "keeps (display_inv wh R B) respond" and i: "display_inv wh R B s"
  shows "\<exists>t. write_step respond e n ch s = Ok True t \<and> display_inv wh R B t"
proof -
  have "EscapeSequenceStage s \<in> {0, 1, 2, 3, 4}" using i by (auto simp: display_inv_def)
  then show ?thesis
    using keepsD [OF keep_plain i, of e ch n] keepsD [OF keep_after_escape [OF assms(1)] i, of ch n] keepsD [OF keep_first i, of ch n]
      keepsD [OF keep_parameter i, of ch n] keepsD [OF keep_command i, of ch n]
    by (auto simp: write_step_def)
qed

lemma loop_keeps:
  assumes "keeps (display_inv wh R B) respond"
  shows "display_inv wh R B s \<Longrightarrow> \<exists>t. write_loop respond e n cs s = Ok True t \<and> display_inv wh R B t"
proof (induction cs arbitrary: s)
  case (Cons c cs)
  obtain t where "write_step respond e n c s = Ok True t" "display_inv wh R B t" using step_keeps [OF assms Cons.prems] by blast
  with Cons.IH show ?case by simp
qed simp

text \<open>A call for one character does not answer: what it is given for the answers does not matter.\<close>

lemma one_char: "write_loop respond e n [c] (stage 0 s) = bindR (plain_char e c n (stage 0 s)) (\<lambda>_ s. Ok True s)"
  by (cases "plain_char e c n (stage 0 s)") (simp_all add: write_step_def)

lemma write_one: "console_write_depth (Suc d) n (Some [c]) s =
  (if no_console n then Ok (- 1) s else if tty_magic (con s n) \<noteq> 1234 then Panic ''console_write: tty validation''
   else bindR (plain_char (c_lflag (con s n) AND ECHO \<noteq> 0) c n (stage 0 s)) (\<lambda>_ s. Ok 1 s))"
  by (cases "plain_char (c_lflag (con s n) AND ECHO \<noteq> 0) c n (stage 0 s)") (simp_all add: one_char del: write_loop.simps ECHO_def)

lemma write_depth: "console_write_depth (Suc (Suc d)) n buf s = console_write n buf s"
proof -
  have "write_string_with (console_write_depth (Suc d)) n (Some RESPONSE) s' = write_string_with (console_write_depth (Suc 0)) n (Some RESPONSE) s'" for s'
    by (simp only: write_string_with_def write_one RESPONSE_def option.case list.simps if_False foldR.simps)
  then show ?thesis
    unfolding console_write_def numeral_2_eq_2 console_write_depth.simps(2) [of "Suc d"] console_write_depth.simps(2) [of "Suc 0"]
    by (simp only: )
qed

lemma keep_write_one: "keeps (display_inv wh R B) (console_write_depth (Suc d) n (Some [c]))"
proof (rule keepsI)
  fix s assume i: "display_inv wh R B s"
  then have "display_inv wh R B (stage 0 s)" by simp
  from keepsD [OF keep_plain this, of "c_lflag (con s n) AND ECHO \<noteq> 0" c n] obtain t where
    "plain_char (c_lflag (con s n) AND ECHO \<noteq> 0) c n (stage 0 s) = Ok () t" "display_inv wh R B t" by auto
  then show "\<exists>a s'. console_write_depth (Suc d) n (Some [c]) s = Ok a s' \<and> display_inv wh R B s'"
    unfolding write_one using i inv_margins [OF i] by (simp del: ECHO_def)
qed

lemma keep_respond: "keeps (display_inv wh R B) (\<lambda>s. bindR (write_string_with (console_write_depth (Suc d)) n (Some cs) s) (\<lambda>_ s. Ok () s))"
proof (rule keepsI)
  fix s assume i: "display_inv wh R B s"
  let ?w = "\<lambda>c s. bindR (console_write_depth (Suc d) n (Some [c]) s) (\<lambda>_ s. Ok () s)"
  have "keeps (display_inv wh R B) (?w c)" for c
    using keepsD [OF keep_write_one [of wh R B d n c]] by (fastforce intro!: keepsI)
  then obtain t where "foldR ?w cs s = Ok () t" "display_inv wh R B t" using keepsD [OF keeps_foldR [of cs "display_inv wh R B" ?w] i] by auto
  then show "\<exists>a s'. bindR (write_string_with (console_write_depth (Suc d)) n (Some cs) s) (\<lambda>_ s. Ok () s) = Ok a s' \<and> display_inv wh R B s'"
    using i by (simp add: write_string_with_def del: console_write_depth.simps)
qed

lemma write_returns:
  assumes i: "display_inv wh R B s" and n: "\<not> no_console n" and "cs \<noteq> []"
  shows "\<exists>t. console_write n (Some cs) s = Ok (int (length cs)) t \<and> display_inv wh R B t"
proof -
  obtain t where "write_loop (\<lambda>s. bindR (write_string_with (console_write_depth (Suc 0)) n (Some RESPONSE) s) (\<lambda>_ s. Ok () s))
      (c_lflag (con s n) AND ECHO \<noteq> 0) n cs (stage 0 s) = Ok True t" "display_inv wh R B t"
    using loop_keeps [OF keep_respond, of wh R B "stage 0 s"] i by fastforce
  then show ?thesis
    using assms inv_margins [OF i n] by (simp add: console_write_def numeral_2_eq_2 del: ECHO_def)
qed

section \<open>The consoles in use\<close>

text \<open>What the kernel does with the consoles, in any order: characters, texts, control calls, switching.\<close>

inductive console_use :: "constate \<Rightarrow> constate \<Rightarrow> bool" where
  outbyte: "console_outbyte c n s = Ok () t \<Longrightarrow> console_use s t"
| putchar: "console_putchar c n s = Ok () t \<Longrightarrow> console_use s t"
| put_buffer: "console_write n buf s = Ok r t \<Longrightarrow> console_use s t"
| put_text: "console_write_string n buf s = Ok r t \<Longrightarrow> console_use s t"
| ioctl: "console_ioctl fd request arg s = Ok r t \<Longrightarrow> console_use s t"
| cursor: "console_use s (set_up_cursor x y s)"
| clear: "console_use s (snd (console_clear s))"
| switch: "console_use s (console_set_current_virtual_console n s)"

lemma write_inv: "display_inv wh R B s \<Longrightarrow> console_write n buf s = Ok r t \<Longrightarrow> display_inv wh R B t"
proof -
  assume i: "display_inv wh R B s" and w: "console_write n buf s = Ok r t"
  show ?thesis
  proof (cases "no_console n \<or> buf = None \<or> buf = Some []")
    case True
    then show ?thesis using i w by (auto simp: console_write_def numeral_2_eq_2 split: if_splits)
  next
    case False
    then obtain cs where "buf = Some cs" "cs \<noteq> []" by auto
    then show ?thesis using write_returns [OF i, of n cs] False w by auto
  qed
qed

lemma text_inv: "display_inv wh R B s \<Longrightarrow> console_write_string n buf s = Ok r t \<Longrightarrow> display_inv wh R B t"
proof -
  assume i: "display_inv wh R B s" and w: "console_write_string n buf s = Ok r t"
  show ?thesis
  proof (cases "no_console n \<or> buf = None \<or> buf = Some []")
    case True
    then show ?thesis using i w by (auto simp: console_write_string_def write_string_with_def split: if_splits)
  next
    case False
    then obtain cs where b: "buf = Some cs" "cs \<noteq> []" "\<not> no_console n" by auto
    let ?w = "\<lambda>c s. bindR (console_write n (Some [c]) s) (\<lambda>_ s. Ok () s)"
    have "keeps (display_inv wh R B) (?w c)" for c
      using write_returns [OF _ b(3), of wh R B _ "[c]"] by (fastforce intro!: keepsI)
    then obtain u where "foldR ?w cs s = Ok () u" "display_inv wh R B u" using keepsD [OF keeps_foldR [of cs "display_inv wh R B" ?w] i] by auto
    then show ?thesis using w b by (simp add: console_write_string_def write_string_with_def)
  qed
qed

lemma inv_clear_imp: "display_inv wh R B s \<Longrightarrow> display_inv wh R B (snd (console_clear_imp bg fg n s))"
  by (auto simp: console_clear_imp_def intro!: inv_display inv_gotoxy inv_upd_same)

lemma inv_foreground: "display_inv wh R B s \<Longrightarrow> \<not> no_console n \<Longrightarrow> display_inv wh R B (s\<lparr>foreground := n\<rparr>)"
  by (auto simp: display_inv_def gui_ok_def)

lemma ioctl_inv: "display_inv wh R B s \<Longrightarrow> console_ioctl fd request arg s = Ok r t \<Longrightarrow> display_inv wh R B t"
proof -
  assume i: "display_inv wh R B s" and w: "console_ioctl fd request arg s = Ok r t"
  have n: "\<not> no_console (foreground s)" using i by (simp add: display_inv_def)
  have f: "\<not> no_console (uint arg)" if "arg < 4" using that by (simp add: no_console_def word_less_def)
  obtain u where u: "console_print_indent (c_int (uint arg)) (foreground s) s = Ok () u" "display_inv wh R B u"
    using keepsD [OF keep_indent i] by auto
  show ?thesis
    using w i n f u inv_clear_imp [OF i] inv_scrolled [OF i n] unfolding console_ioctl_def Let_def
    by (simp add: scroll_rect [OF inv_gui [OF i] n] inv_foreground split: if_split_asm) (auto intro!: inv_foreground)
qed

lemma use_inv: "console_use s t \<Longrightarrow> display_inv wh R B s \<Longrightarrow> display_inv wh R B t"
proof (induction rule: console_use.induct)
  case (outbyte c n s t)
  then show ?case using keepsD [OF keep_outbyte outbyte(2), of c n] by auto
next
  case (putchar c n s t)
  then show ?case using keepsD [OF keep_putchar putchar(2), of c n] by auto
next
  case (cursor s x y)
  then show ?case by (auto simp: set_up_cursor_def intro!: inv_upd_same)
next
  case (clear s)
  then show ?case using inv_clear_imp by (auto simp: console_clear_def console_clear00_def)
next
  case (switch s n)
  then show ?case by (auto simp: console_set_current_virtual_console_def intro!: inv_foreground)
qed (auto intro: write_inv text_inv ioctl_inv)

lemma uses_inv: "console_use\<^sup>*\<^sup>* s t \<Longrightarrow> display_inv wh R B s \<Longrightarrow> display_inv wh R B t"
  by (induction rule: rtranclp_induct) (auto intro: use_inv)

text \<open>The initialisation, on a screen of at least one character.\<close>

lemma consoles: "\<not> no_console n \<Longrightarrow> n = 0 \<or> n = 1 \<or> n = 2 \<or> n = 3"
  by (simp add: no_console_def) arith

lemma initialised:
  assumes "gui_ok s" and "npar s < NPAR" and "screen s = []" and "8 \<le> gSavedX s" and "8 \<le> gSavedY s" and "gSavedX s \<le> 0x7FFFF" and "gSavedY s \<le> 0x7FFFF"
  shows "\<exists>t. VirtualConsole_early_initialization s = Ok () t \<and> display_inv (char_width s, char_height s) (gSavedX s div 8) (gSavedY s div 8) t \<and>
    gSavedX t = gSavedX s \<and> gSavedY t = gSavedY s"
proof -
  have d: "0 < x div 8 \<and> x div 8 \<le> 0xFFFF" if "8 \<le> x" "x \<le> 0x7FFFF" for x :: u64
    using that by (simp add: word_le_nat_alt word_less_nat_alt unat_div) (simp add: div_greater_zero_iff div_le_mono [of _ _ 8, simplified])
  obtain t where t: "VirtualConsole_early_initialization s = Ok () t" by (simp add: VirtualConsole_early_initialization_def DDINIT_console_def no_console_def)
  have "console_ok (gSavedX s div 8) (gSavedY s div 8) (con t n)" if "\<not> no_console n" for n
    using t d [OF assms(4,6)] d [OF assms(5,7)] consoles [OF that]
    by (auto simp: VirtualConsole_early_initialization_def DDINIT_console_def no_console_def console_ok_def Let_def)
  moreover have "foreground t = 0" "EscapeSequenceStage t = 0" "npar t = npar s" "screen t = screen s" "gSavedX t = gSavedX s" "gSavedY t = gSavedY s"
      "useGui t = useGui s" "screen_width t = screen_width s" "screen_height t = screen_height s" "gSavedBPP t = gSavedBPP s"
      "char_width t = char_width s" "char_height t = char_height s"
    using t by (auto simp: VirtualConsole_early_initialization_def DDINIT_console_def no_console_def Let_def)
  ultimately show ?thesis using assms t d [OF assms(4,6)] d [OF assms(5,7)]
    by (simp add: display_inv_def gui_ok_def) (simp add: no_console_def)
qed

lemma cell_on_screen:
  fixes c x :: u64
  assumes "c < x div 8"
  shows "8 * c + 8 \<le> x" "8 * c \<le> 8 * c + 8"
proof -
  have "unat c < unat x div 8" using assms by (simp add: word_less_nat_alt unat_div)
  then have u: "8 * unat c + 8 \<le> unat x" by linarith
  then have "8 * unat c + 8 < 2 ^ 64" using unsigned_less [of x, where 'a = nat] by simp
  then have "unat (8 * c + 8) = 8 * unat c + 8" "unat (8 * c) = 8 * unat c" by (simp_all add: unat_word_ariths)
  then show "8 * c + 8 \<le> x" "8 * c \<le> 8 * c + 8" using u by (simp_all add: word_le_nat_alt)
qed

text \<open>A machine with a screen of 1024 by 768 pixels.\<close>

definition demo_console :: console_d where
  "demo_console = \<lparr>tty_used = 0, tty_magic = 0, tty_type = 0, tty_subtype = 0, tty_is_blocked = 0,
     raw_queue = \<lparr>q_buf = (\<lambda>_. 0), q_buffer_size = 0, q_cnt = 0, q_head = 0, q_tail = 0\<rparr>,
     canonical_queue = \<lparr>q_buf = (\<lambda>_. 0), q_buffer_size = 0, q_cnt = 0, q_head = 0, q_tail = 0\<rparr>,
     output_queue = \<lparr>q_buf = (\<lambda>_. 0), q_buffer_size = 0, q_cnt = 0, q_head = 0, q_tail = 0\<rparr>,
     output_worker_number = 0, c_lflag = 0, c_cc = (\<lambda>_. 0), tty_link = 0, con_initialized = 0, prev_char = 0, operation_mode = 0,
     virtual_terminal_pid = 0, charset_id = 0, charset_lang_id = 0, cursor_x = 0, cursor_y = 0, cursor_left = 0, cursor_top = 0,
     cursor_right = 0, cursor_bottom = 0, cursor_width_in_pixels = 0, cursor_height_in_pixels = 0, bg_color = 0, fg_color = 0,
     default_bg_color = 0, default_fg_color = 0, fullscreen_flag = 0\<rparr>"

definition demo_display :: constate where
  "demo_display = \<lparr>CONSOLE_TTYS = (\<lambda>_. demo_console), foreground = 0, saved_x = 0, saved_y = 0, EscapeSequenceStage = 0, par = (\<lambda>_. 0),
     npar = 0, ques = False, in_terminalmode = 1, in_verbosemode = 1, useGui = TRUE, char_width = 8, char_height = 8, gSavedX = 1024,
     gSavedY = 768, gSavedBPP = 32, screen_width = 1024, screen_height = 768, screen = []\<rparr>"

text \<open>C15. The consoles stay on the screen and never stop the kernel: after the initialisation on a screen from 8 to 524287
  pixels wide and high with characters of 8 by 8 pixels, and any sequence of characters, texts with control
  characters and escape sequences, control calls, cursor movements and console switches, every glyph that was
  drawn lies inside of the screen, and any text that is written next to any console is taken whole: the call
  returns its length.\<close>

theorem consoles_stay_on_screen:
  assumes "gui_ok s" and "npar s < NPAR" and "screen s = []" and "8 \<le> gSavedX s" and "8 \<le> gSavedY s" and "gSavedX s \<le> 0x7FFFF" and "gSavedY s \<le> 0x7FFFF"
    and "char_width s = 8" and "char_height s = 8" and "VirtualConsole_early_initialization s = Ok () s0" and "console_use\<^sup>*\<^sup>* s0 t"
  shows "(\<forall>x y c fg bg. Char_draw x y c fg bg \<in> set (screen t) \<longrightarrow>
      x \<le> x + 8 \<and> x + 8 \<le> gSavedX s \<and> y \<le> y + 8 \<and> y + 8 \<le> gSavedY s) \<and>
    (\<forall>n cs. \<not> no_console n \<longrightarrow> cs \<noteq> [] \<longrightarrow> (\<exists>u. console_write n (Some cs) t = Ok (int (length cs)) u))"
proof -
  have "display_inv (8, 8) (gSavedX s div 8) (gSavedY s div 8) s0" using initialised [OF assms(1-7)] assms(8-10) by auto
  then have t: "display_inv (8, 8) (gSavedX s div 8) (gSavedY s div 8) t" by (rule uses_inv [OF assms(11)])
  have "x \<le> x + 8 \<and> x + 8 \<le> gSavedX s \<and> y \<le> y + 8 \<and> y + 8 \<le> gSavedY s" if "Char_draw x y c fg bg \<in> set (screen t)" for x y c fg bg
  proof -
    have "char_width t = 8" "char_height t = 8" using t by (auto simp: display_inv_def)
    moreover have "in_cells (gSavedX s div 8) (gSavedY s div 8) (char_width t) (char_height t) (Char_draw x y c fg bg)"
      using t that by (auto simp: display_inv_def)
    ultimately show ?thesis by (auto simp: in_cells_def cell_on_screen)
  qed
  then show ?thesis using write_returns [OF t] by blast
qed

theorem consoles_stay_on_screen_witness:
  "\<exists>s0. VirtualConsole_early_initialization demo_display = Ok () s0 \<and>
    (\<forall>x y c fg bg. Char_draw x y c fg bg \<in> set (screen s0) \<longrightarrow> x + 8 \<le> 1024 \<and> y + 8 \<le> 768) \<and>
    (\<exists>u. console_write 2 (Some [0x1B, 0x5B, 0x32, 0x4B, 72, 105]) s0 = Ok 6 u)"
proof -
  have g: "gui_ok demo_display" "npar demo_display < NPAR" "screen demo_display = []" "gSavedX demo_display = 1024" "gSavedY demo_display = 768"
      "char_width demo_display = 8" "char_height demo_display = 8"
    by (simp_all add: demo_display_def gui_ok_def)
  obtain s0 where s0: "VirtualConsole_early_initialization demo_display = Ok () s0"
    by (simp add: VirtualConsole_early_initialization_def DDINIT_console_def no_console_def)
  note w = consoles_stay_on_screen [OF g(1-3) _ _ _ _ g(6,7) s0 rtranclp.rtrancl_refl, unfolded g(4,5), simplified]
  have "\<exists>u. console_write 2 (Some [0x1B, 0x5B, 0x32, 0x4B, 72, 105]) s0 = Ok 6 u"
    using w by (auto simp: no_console_def dest!: conjunct2 spec [of _ 2] spec [of _ "[0x1B, 0x5B, 0x32, 0x4B, 72, 105]"])
  then show ?thesis using s0 w by blast
qed

end
