(* ===== verification/Escape_Laws.thy ===== *)
theory Escape_Laws
  imports Console_Laws
begin

text \<open>
  What texts do on a console: plain text appears in consecutive cells, and three things that the escape
  sequences of console.c should do and do not: a colour is never set, erasing a part of a line erases
  nothing, and the character after a sequence is lost. \<open>same_look\<close> relates two states in which all
  consoles have the same colours and the parser the same parameters.
\<close>

lemma demo_started:
  "\<exists>s0. VirtualConsole_early_initialization demo_display = Ok () s0 \<and> display_inv (8, 8) 128 96 s0"
proof -
  have "gui_ok demo_display" "npar demo_display < NPAR" "screen demo_display = []" "gSavedX demo_display = 1024" "gSavedY demo_display = 768"
    "char_width demo_display = 8" "char_height demo_display = 8"
    by (simp_all add: demo_display_def gui_ok_def)
  then show ?thesis using initialised [of demo_display] by auto
qed

section \<open>Colours\<close>

definition look :: "console_d \<Rightarrow> u32 \<times> u32 \<times> u32 \<times> u32" where
  "look t = (fg_color t, bg_color t, default_fg_color t, default_bg_color t)"

definition same_look :: "constate \<Rightarrow> constate \<Rightarrow> bool" where
  "same_look s t \<longleftrightarrow> (\<forall>n. look (con t n) = look (con s n)) \<and> par t = par s \<and> npar t = npar s"

lemma same_look_refl [simp]: "same_look s s"
  by (simp add: same_look_def)

lemma same_look_trans: "same_look s t \<Longrightarrow> same_look t u \<Longrightarrow> same_look s u"
  by (simp add: same_look_def)

lemma look_updates [simp]:
  "look (t\<lparr>cursor_x := x\<rparr>) = look t" "look (t\<lparr>cursor_y := x\<rparr>) = look t" "look (t\<lparr>cursor_top := x\<rparr>) = look t"
  "look (t\<lparr>cursor_bottom := x\<rparr>) = look t" "look (t\<lparr>cursor_left := x\<rparr>) = look t" "look (t\<lparr>cursor_right := x\<rparr>) = look t"
  "look (t\<lparr>prev_char := c\<rparr>) = look t"
  by (simp_all add: look_def)

lemma same_look_upd: "same_look s t \<Longrightarrow> (\<And>k. look (f k) = look k) \<Longrightarrow> same_look s (upd_con n f t)"
  by (simp add: same_look_def)

lemma same_look_display [simp]: "same_look s (display e t) = same_look s t"
  by (simp add: same_look_def)

lemma same_look_stage [simp]: "same_look s (stage k t) = same_look s t"
  by (simp add: same_look_def)

lemma same_look_fields [simp]:
  "same_look s (t\<lparr>in_terminalmode := m\<rparr>) = same_look s t" "same_look s (t\<lparr>saved_x := x, saved_y := y\<rparr>) = same_look s t"
  by (simp_all add: same_look_def)

text \<open>\<open>ends P r\<close>: when the outcome \<open>r\<close> is a return, it is in a state with \<open>P\<close>.\<close>

definition ends :: "('s \<Rightarrow> bool) \<Rightarrow> ('s, 'a) res \<Rightarrow> bool" where
  "ends P r \<longleftrightarrow> (\<forall>a t. r = Ok a t \<longrightarrow> P t)"

named_theorems ends_intro \<open>outcomes in states with the same colours\<close>

lemma ends_Ok [simp]: "ends P (Ok a t) = P t" and ends_Panic [simp]: "ends P (Panic e)" and ends_Fault [simp]: "ends P (Fault e)"
  by (simp_all add: ends_def)

lemma ends_bind [ends_intro]: "ends P r \<Longrightarrow> (\<And>a t. P t \<Longrightarrow> ends P (f a t)) \<Longrightarrow> ends P (bindR r f)"
  by (cases r) (simp_all add: ends_def)

lemma ends_if [ends_intro]: "(c \<Longrightarrow> ends P r) \<Longrightarrow> (\<not> c \<Longrightarrow> ends P q) \<Longrightarrow> ends P (if c then r else q)"
  by simp

lemma ends_foldR: "(\<And>x t. P t \<Longrightarrow> ends P (f x t)) \<Longrightarrow> P s \<Longrightarrow> ends P (foldR f xs s)"
  by (induction xs arbitrary: s) (auto intro!: ends_bind)

lemma look_gotoxy [simp]: "same_look r s \<Longrightarrow> same_look r (local_gotoxy x y n s)"
  by (auto simp: local_gotoxy_def intro!: same_look_upd)

lemma look_goto_word [simp]: "same_look r s \<Longrightarrow> same_look r (goto_word x y n s)"
  by (simp add: goto_word_def)

lemma look_scroll_rect [ends_intro]: "same_look r s \<Longrightarrow> ends (same_look r) (console_scroll_rect n d s)"
  unfolding console_scroll_rect_def scroll_screen_rect_def Let_def by (intro ends_intro) (auto intro!: same_look_upd)

lemma look_scroll [ends_intro]: "same_look r s \<Longrightarrow> ends (same_look r) (scroll_if_fullscreen n s)"
  unfolding scroll_if_fullscreen_def by (intro ends_intro) auto

lemma look_line_feed [ends_intro]: "same_look r s \<Longrightarrow> ends (same_look r) (line_feed c n s)"
  unfolding line_feed_def Let_def by (intro ends_intro) (auto intro!: same_look_upd)

lemma look_glyph_imp [ends_intro]: "same_look r s \<Longrightarrow> ends (same_look r) (console_outbyte_imp c n s)"
  unfolding console_outbyte_imp_def by (intro ends_intro) auto

lemma look_fix_row [ends_intro]: "same_look r s \<Longrightarrow> ends (same_look r) (fix_row n s)"
  unfolding fix_row_def by (intro ends_intro) (auto intro!: same_look_upd)

lemma look_glyph [ends_intro]: "same_look r s \<Longrightarrow> ends (same_look r) (put_glyph c n s)"
proof -
  assume "same_look r s"
  then have "same_look r (wrap_line n s)" by (auto simp: wrap_line_def intro!: same_look_upd)
  moreover have "same_look r t \<Longrightarrow> same_look r (glyph_done k c n t)" for k t by (auto simp: glyph_done_def Let_def intro!: same_look_upd)
  ultimately show ?thesis unfolding put_glyph_def by (intro ends_intro) auto
qed

lemma look_outbyte [ends_intro]: "same_look r s \<Longrightarrow> ends (same_look r) (console_outbyte c n s)"
  unfolding console_outbyte_def Let_def by (intro ends_intro) (auto intro!: same_look_upd)

lemma look_putchar [ends_intro]: "same_look r s \<Longrightarrow> ends (same_look r) (console_putchar c n s)"
  unfolding console_putchar_def Let_def by (intro ends_intro) auto

lemma look_echo [ends_intro]: "same_look r s \<Longrightarrow> ends (same_look r) (console_echo c n s)"
  unfolding console_echo_def by (intro ends_intro) auto

lemma look_insert_line [ends_intro]: "same_look r s \<Longrightarrow> ends (same_look r) (local_insert_line n s)"
  unfolding local_insert_line_def Let_def by (intro ends_intro) (auto intro!: same_look_upd)

lemma look_csi_K [ends_intro]: "same_look r s \<Longrightarrow> ends (same_look r) (csi_K mode s)"
  unfolding csi_K_def Let_def by (auto split: option.splits intro!: ends_intro ends_foldR)

lemma look_csi_L [ends_intro]: "same_look r s \<Longrightarrow> ends (same_look r) (csi_L nr n s)"
  unfolding csi_L_def by (intro ends_intro ends_foldR) auto

lemma look_csi_P [ends_intro]: "same_look r s \<Longrightarrow> ends (same_look r) (csi_P nr n s)"
  unfolding csi_P_def local_delete_char_def by (intro ends_intro ends_foldR) auto

lemma look_csi_at [ends_intro]: "same_look r s \<Longrightarrow> ends (same_look r) (csi_at nr n s)"
  unfolding csi_at_def local_insert_char_def by (intro ends_intro ends_foldR) auto

lemma look_csi_M [simp]: "same_look r s \<Longrightarrow> same_look r (csi_M nr n s)"
proof -
  have "same_look r t \<Longrightarrow> same_look r (local_delete_line n t)" for t
    by (auto simp: local_delete_line_def Let_def intro!: same_look_upd)
  then show "same_look r s \<Longrightarrow> ?thesis" by (auto simp: csi_M_def intro!: fold_inv [where P = "same_look r"])
qed

section \<open>No sequence sets a colour\<close>

text \<open>The colours are those of the start or the default ones, and the parameters are last digits, or 0.\<close>

definition reset_look :: "u32 \<times> u32 \<times> u32 \<times> u32 \<Rightarrow> u32 \<times> u32 \<times> u32 \<times> u32" where
  "reset_look l = (case l of (f, b, df, db) \<Rightarrow> (df, db, df, db))"

definition plain_or_reset :: "constate \<Rightarrow> constate \<Rightarrow> bool" where
  "plain_or_reset r t \<longleftrightarrow> (\<forall>n. look (con t n) \<in> {look (con r n), reset_look (look (con r n))}) \<and>
     (\<forall>i. par t i = 0 \<or> 0x30 \<le> par t i \<and> par t i \<le> 0x39)"

lemma por_same_look: "plain_or_reset r s \<Longrightarrow> same_look s t \<Longrightarrow> plain_or_reset r t"
  by (simp add: plain_or_reset_def same_look_def)

lemma por_ends: "plain_or_reset r s \<Longrightarrow> ends (same_look s) q \<Longrightarrow> ends (plain_or_reset r) q"
  by (auto simp: ends_def intro: por_same_look)

lemma por_simps [simp]:
  "plain_or_reset r (stage k s) = plain_or_reset r s" "plain_or_reset r (s\<lparr>npar := k\<rparr>) = plain_or_reset r s"
  "plain_or_reset r (s\<lparr>ques := q\<rparr>) = plain_or_reset r s"
  by (simp_all add: plain_or_reset_def)

lemma por_clear_par: "plain_or_reset r s \<Longrightarrow> plain_or_reset r (clear_par s)"
  by (simp add: plain_or_reset_def clear_par_def)

lemma look_select:
  fixes p :: u64
  assumes "look t \<in> {l, reset_look l}" and "p = 0 \<or> 0x30 \<le> p \<and> p \<le> 0x39"
  shows "look (select_graphic (c_int (uint p)) t) \<in> {l, reset_look l}"
proof -
  have "c_int (uint p) = uint p" "uint p = 0 \<or> 48 \<le> uint p \<and> uint p \<le> 57"
    using assms(2) by (auto simp: c_int_def signed_take_bit_int_eq_self word_le_def)
  then show ?thesis using assms(1) by (cases l) (auto simp: select_graphic_def look_def reset_look_def)
qed

lemma por_csi_m: "plain_or_reset r s \<Longrightarrow> plain_or_reset r (csi_m s)"
proof -
  assume i: "plain_or_reset r s"
  have "plain_or_reset r (upd_con n (select_graphic (c_int (uint (par t k)))) t)" if "plain_or_reset r t" for k n t
    using that look_select [of "con t n" _ "par t k"] by (simp add: plain_or_reset_def)
  then have "plain_or_reset r (fold (\<lambda>k t. upd_con n (select_graphic (c_int (uint (par t k)))) t) xs s)" for n xs
    using i by (auto intro!: fold_inv [where P = "plain_or_reset r"])
  moreover have "plain_or_reset r (upd_con n (\<lambda>t. t\<lparr>fg_color := default_fg_color t, bg_color := default_bg_color t\<rparr>) s)" for n
    using i by (auto simp: plain_or_reset_def look_def reset_look_def)
  ultimately show ?thesis by (simp add: csi_m_def Let_def por_clear_par)
qed

lemma por_command [ends_intro]: "plain_or_reset r s \<Longrightarrow> ends (plain_or_reset r) (csi_command ch n s)"
proof -
  assume i: "plain_or_reset r s"
  then have j: "plain_or_reset r (stage 0 s)" by simp
  have K: "ends (plain_or_reset r) (csi_K v (stage 0 s))" "ends (plain_or_reset r) (csi_L v n (stage 0 s))"
      "ends (plain_or_reset r) (csi_P v n (stage 0 s))" "ends (plain_or_reset r) (csi_at v n (stage 0 s))" for v
    by (auto intro!: por_ends [OF j] ends_intro)
  have g: "plain_or_reset r (local_gotoxy x y n (stage 0 s))" "plain_or_reset r (goto_word a b n (stage 0 s))" "plain_or_reset r (csi_M v n (stage 0 s))"
      "plain_or_reset r (local_save_cur n (stage 0 s))" "plain_or_reset r (local_restore_cur n (stage 0 s))" for x y a b v
    by (auto intro!: por_same_look [OF j] same_look_upd simp: j local_save_cur_def local_restore_cur_def simp del: same_look_stage por_simps)
  show ?thesis
    unfolding csi_command_def Let_def csi_J_def
    by (intro ends_if ends_bind K) (simp_all add: i g por_csi_m)
qed

lemma por_parameter [ends_intro]: "plain_or_reset r s \<Longrightarrow> ends (plain_or_reset r) (csi_parameter ch n s)"
proof -
  assume i: "plain_or_reset r s"
  have "plain_or_reset r (s\<lparr>par := (par s)(npar s := ucast ch)\<rparr>)" if "ch \<ge> 0x30" "ch \<le> 0x39"
  proof -
    have "uint ch < 2 ^ 64" by (rule less_le_trans [OF unsigned_less]) simp
    then have "uint (ucast ch :: u64) = uint ch" by (simp add: unsigned_ucast_eq take_bit_int_eq_self)
    then have "(0x30 :: u64) \<le> ucast ch" "(ucast ch :: u64) \<le> 0x39" using that by (simp_all add: word_le_def)
    then show ?thesis using i by (simp add: plain_or_reset_def)
  qed
  then show ?thesis unfolding csi_parameter_def using i by (auto intro!: ends_intro)
qed

lemma por_plain [ends_intro]:
  assumes "plain_or_reset r s"
  shows "ends (plain_or_reset r) (plain_char e ch n s)"
  unfolding plain_char_def by (auto intro!: por_ends [OF assms] ends_intro simp: assms)

lemma por_after_escape:
  assumes "\<And>t. plain_or_reset r t \<Longrightarrow> ends (plain_or_reset r) (respond t)" and "plain_or_reset r s"
  shows "ends (plain_or_reset r) (after_escape respond ch n s)"
proof -
  have j: "plain_or_reset r (stage 0 s)" using assms(2) by simp
  have "plain_or_reset r (goto_word a b n (stage 0 s))" "ends (plain_or_reset r) (console_putchar c n (stage 0 s))" for a b c
    by (auto intro!: por_same_look [OF j] por_ends [OF j] ends_intro)
  then show ?thesis using assms unfolding after_escape_def Let_def by simp
qed

lemma por_first: "plain_or_reset r s \<Longrightarrow> ends (plain_or_reset r) (first_parameter ch n s)"
  unfolding first_parameter_def Let_def by (auto intro!: ends_intro por_clear_par)

lemma por_loop:
  assumes r: "\<And>t. plain_or_reset r t \<Longrightarrow> ends (plain_or_reset r) (respond t)"
  shows "plain_or_reset r s \<Longrightarrow> ends (plain_or_reset r) (write_loop respond e n cs s)"
proof (induction cs arbitrary: s)
  case (Cons c cs)
  then have "ends (plain_or_reset r) (write_step respond e n c s)"
    unfolding write_step_def Let_def using por_after_escape [OF r] por_first by (intro ends_intro) auto
  then show ?case by (auto intro!: ends_intro Cons.IH)
qed simp

lemma por_depth: "plain_or_reset r s \<Longrightarrow> ends (plain_or_reset r) (console_write_depth d n buf s)"
proof (induction d arbitrary: s n buf)
  case (Suc d)
  have "ends (plain_or_reset r) (write_string_with (console_write_depth d) n string t)" if "plain_or_reset r t" for t n string
    unfolding write_string_with_def using that by (auto split: option.splits intro!: ends_intro ends_foldR Suc.IH)
  then show ?case using Suc.prems by (auto split: option.splits intro!: ends_intro por_loop)
qed simp

text \<open>C39. No escape sequence ever sets a colour: whatever is written to a console, the colours of every console are
  afterwards the ones that it had before, or its default ones. \<open>ESC [ 31 m\<close>, which should select red, selects the
  default colours: the number of parameters counts the separators, and a parameter is the last digit only.\<close>

theorem escapes_never_set_colours:
  assumes "console_write n buf s = Ok r t" and "\<forall>i. par s i = 0 \<or> 0x30 \<le> par s i \<and> par s i \<le> 0x39"
  shows "(fg_color (con t k), bg_color (con t k)) \<in> {(fg_color (con s k), bg_color (con s k)), (default_fg_color (con s k), default_bg_color (con s k))}"
proof -
  have "plain_or_reset s s" using assms(2) by (simp add: plain_or_reset_def)
  then have "ends (plain_or_reset s) (console_write n buf s)" unfolding console_write_def by (rule por_depth)
  then have "look (con t k) \<in> {look (con s k), reset_look (look (con s k))}" using assms(1) by (simp add: ends_def plain_or_reset_def)
  then show ?thesis by (auto simp: look_def reset_look_def)
qed

theorem escapes_never_set_colours_witness:
  "\<exists>s0 t. VirtualConsole_early_initialization demo_display = Ok () s0 \<and>
    console_write 0 (Some [0x1B, 0x5B, 0x33, 0x31, 0x6D]) s0 = Ok 5 t \<and> fg_color (con t 0) = COLOR_WHITE"
proof -
  obtain s0 where i: "VirtualConsole_early_initialization demo_display = Ok () s0" "display_inv (8, 8) 128 96 s0" using demo_started by blast
  have s0: "\<forall>i. par s0 i = 0" "fg_color (con s0 0) = COLOR_WHITE" "default_fg_color (con s0 0) = COLOR_WHITE"
    using i(1) by (auto simp: VirtualConsole_early_initialization_def DDINIT_console_def no_console_def demo_display_def Let_def)
  obtain t where w: "console_write 0 (Some [0x1B, 0x5B, 0x33, 0x31, 0x6D]) s0 = Ok 5 t"
    using write_returns [OF i(2), of 0 "[0x1B, 0x5B, 0x33, 0x31, 0x6D]"] by (auto simp: no_console_def)
  show ?thesis using escapes_never_set_colours [OF w, of 0] i(1) w s0 by auto
qed

section \<open>Plain text\<close>

definition glyphs :: "screen_call list \<Rightarrow> screen_call list" where
  "glyphs es = [e \<leftarrow> es. case e of Char_draw _ _ _ _ _ \<Rightarrow> True | _ \<Rightarrow> False]"

text \<open>The glyphs of a text from column \<open>x\<close> of row \<open>y\<close> on; a space has none.\<close>

primrec text_glyphs :: "u64 \<Rightarrow> u64 \<Rightarrow> u32 \<Rightarrow> u32 \<Rightarrow> u64 \<Rightarrow> u64 \<Rightarrow> u8 list \<Rightarrow> screen_call list" where
  "text_glyphs w h fg bg x y [] = []"
| "text_glyphs w h fg bg x y (c # cs) =
     (if c = 0x20 then [] else [Char_draw (w * x) (h * y) (uint c) fg bg]) @ text_glyphs w h fg bg (x + 1) y cs"

lemma glyphs_simps [simp]:
  "glyphs [] = []" "glyphs (a @ b) = glyphs a @ glyphs b" "glyphs (Char_draw x y c fg bg # es) = Char_draw x y c fg bg # glyphs es"
  "glyphs (Refresh_rectangle p q v u # es) = glyphs es" "glyphs (Scroll_screen # es) = glyphs es" "glyphs (Refresh_screen # es) = glyphs es"
  "glyphs (Draw_rectangle p q v u d # es) = glyphs es" "glyphs (Bg_initialize k # es) = glyphs es"
  by (simp_all add: glyphs_def)

text \<open>One character that fits on the line.\<close>

lemma printable_char:
  assumes i: "display_inv wh R B s" and n: "\<not> no_console n" and c: "0x20 \<le> c" "c < 0x7F"
    and e: "c_lflag (con s n) AND ECHO \<noteq> 0" and x: "cursor_x (con s n) < cursor_right (con s n) - 1" and y: "cursor_y (con s n) < cursor_bottom (con s n)"
  shows "\<exists>t. console_outbyte (uint c) n s = Ok () t \<and> con t n = (con s n)\<lparr>cursor_x := cursor_x (con s n) + 1, prev_char := c\<rparr> \<and>
    EscapeSequenceStage t = EscapeSequenceStage s \<and> char_width t = char_width s \<and> char_height t = char_height s \<and>
    glyphs (screen t) = glyphs (screen s) @ text_glyphs (word_of_int (char_width s)) (word_of_int (char_height s)) (fg_color (con s n)) (bg_color (con s n))
      (cursor_x (con s n)) (cursor_y (con s n)) [c]"
proof -
  have u: "32 \<le> uint c" "uint c < 127" using c by (simp_all add: word_le_def word_less_def)
  have m: "cursor_left (con s n) < cursor_right (con s n)" "cursor_top (con s n) < cursor_bottom (con s n)" "con_initialized (con s n) = TRUE"
    using inv_margins [OF i n] by auto
  have g: "char_width s \<noteq> 0" "char_height s \<noteq> 0" "useGui s = TRUE" using inv_gui [OF i] by (auto simp: gui_ok_def)
  have f: "fix_row n (wrap_line n s) = Ok () s" "\<not> at_end_of_line n s" using x y by (auto simp: fix_row_def wrap_line_def at_end_of_line_def)
  show ?thesis
  proof (cases "c = 0x20")
    case True
    then show ?thesis using n m g by (simp add: console_outbyte_def Let_def)
  next
    case False
    then have "uint c \<noteq> 32" by (metis word_of_int_uint word_of_int_numeral)
    then have "console_outbyte (uint c) n s = put_glyph (uint c) n s" using u n m g by (simp add: console_outbyte_def)
    also have "\<dots> = Ok () (glyph_done True (uint c) n (display (Char_draw (word_of_int (char_width s) * cursor_x (con s n))
        (word_of_int (char_height s) * cursor_y (con s n)) (uint c) (fg_color (con s n)) (bg_color (con s n))) s))"
      using m n e f g by (simp add: put_glyph_def console_outbyte_imp_def not_le)
    finally show ?thesis using False by (simp add: glyph_done_def Let_def)
  qed
qed

lemma plain_loop:
  assumes n: "\<not> no_console n"
  shows "display_inv wh R B s \<Longrightarrow> EscapeSequenceStage s = 0 \<Longrightarrow> \<forall>c \<in> set cs. 0x20 \<le> c \<and> c < 0x7F \<Longrightarrow> c_lflag (con s n) AND ECHO \<noteq> 0 \<Longrightarrow>
    unat (cursor_x (con s n)) + length cs < unat (cursor_right (con s n)) \<Longrightarrow> cursor_y (con s n) < cursor_bottom (con s n) \<Longrightarrow>
    \<exists>t. write_loop respond True n cs s = Ok True t \<and> cursor_x (con t n) = cursor_x (con s n) + of_nat (length cs) \<and>
      cursor_y (con t n) = cursor_y (con s n) \<and>
      glyphs (screen t) = glyphs (screen s) @ text_glyphs (word_of_int (char_width s)) (word_of_int (char_height s)) (fg_color (con s n)) (bg_color (con s n))
        (cursor_x (con s n)) (cursor_y (con s n)) cs"
proof (induction cs arbitrary: s)
  case (Cons c cs)
  have r: "unat (cursor_right (con s n) - 1) = unat (cursor_right (con s n)) - 1"
    using Cons.prems(5) by (intro unat_minus_one) auto
  then have x: "cursor_x (con s n) < cursor_right (con s n) - 1" using Cons.prems(5) by (simp add: word_less_nat_alt)
  have c: "0x20 \<le> c" "c < 0x7F" using Cons.prems(3) by auto
  from printable_char [OF Cons.prems(1) n c Cons.prems(4) x Cons.prems(6)] obtain t where
    t: "console_outbyte (uint c) n s = Ok () t" "con t n = (con s n)\<lparr>cursor_x := cursor_x (con s n) + 1, prev_char := c\<rparr>"
      "EscapeSequenceStage t = EscapeSequenceStage s" "char_width t = char_width s" "char_height t = char_height s"
      "glyphs (screen t) = glyphs (screen s) @ text_glyphs (word_of_int (char_width s)) (word_of_int (char_height s)) (fg_color (con s n)) (bg_color (con s n))
      (cursor_x (con s n)) (cursor_y (con s n)) [c]" by blast
  have i: "display_inv wh R B t" using keepsD [OF keep_outbyte Cons.prems(1), of "uint c" n] t(1) by auto
  have u: "unat (cursor_x (con s n) + 1) = unat (cursor_x (con s n)) + 1"
    using Cons.prems(5) unsigned_less [of "cursor_right (con s n)", where 'a = nat] by (simp add: unat_word_ariths)
  have c128: "c < 0x80" using c(2) by (simp add: word_less_def)
  have "write_step respond True n c s = Ok True t"
    using Cons.prems(2) c c128 t(1) n by (auto simp: write_step_def plain_char_def console_echo_def)
  then show ?case
    using Cons.IH [OF i] Cons.prems t u by (auto simp: add.assoc)
qed simp

text \<open>Plain text appears where the cursor is: a text of printable characters that fits on the rest of the line is
  taken whole, and what is drawn is each of its characters in its own cell, from the cursor to the right, in
  the colours of the console; a space draws nothing, and the cursor ends behind the text.\<close>

theorem plain_text_appears:
  assumes "display_inv wh R B s" and "\<not> no_console n" and "cs \<noteq> []" and "\<forall>c \<in> set cs. 0x20 \<le> c \<and> c < 0x7F" and "c_lflag (con s n) AND ECHO \<noteq> 0"
    and "unat (cursor_x (con s n)) + length cs < unat (cursor_right (con s n))" and "cursor_y (con s n) < cursor_bottom (con s n)"
  shows "\<exists>t. console_write n (Some cs) s = Ok (int (length cs)) t \<and> cursor_x (con t n) = cursor_x (con s n) + of_nat (length cs) \<and>
    cursor_y (con t n) = cursor_y (con s n) \<and>
    glyphs (screen t) = glyphs (screen s) @ text_glyphs (word_of_int (char_width s)) (word_of_int (char_height s)) (fg_color (con s n)) (bg_color (con s n))
      (cursor_x (con s n)) (cursor_y (con s n)) cs"
proof -
  let ?r = "\<lambda>s. bindR (write_string_with (console_write_depth (Suc 0)) n (Some RESPONSE) s) (\<lambda>_ s. Ok () s)"
  have "display_inv wh R B (stage 0 s)" using assms(1) by simp
  from plain_loop [OF assms(2) this, of cs ?r] obtain t where "write_loop ?r True n cs (stage 0 s) = Ok True t"
    "cursor_x (con t n) = cursor_x (con s n) + of_nat (length cs)" "cursor_y (con t n) = cursor_y (con s n)"
    "glyphs (screen t) = glyphs (screen s) @ text_glyphs (word_of_int (char_width s)) (word_of_int (char_height s)) (fg_color (con s n)) (bg_color (con s n))
        (cursor_x (con s n)) (cursor_y (con s n)) cs" using assms(4-7) by auto
  moreover have "(c_lflag (con s n) AND ECHO \<noteq> 0) = True" using assms(5) by simp
  ultimately show ?thesis
    using assms(2,3) inv_margins [OF assms(1,2)] by (simp add: console_write_def numeral_2_eq_2 del: ECHO_def)
qed

theorem plain_text_appears_witness:
  "\<exists>s0 t. VirtualConsole_early_initialization demo_display = Ok () s0 \<and> console_write 0 (Some [72, 105, 32, 33]) s0 = Ok 4 t \<and>
    glyphs (screen t) = [Char_draw 0 0 72 COLOR_WHITE COLOR_BLUE, Char_draw 8 0 105 COLOR_WHITE COLOR_BLUE, Char_draw 24 0 33 COLOR_WHITE COLOR_BLUE]"
proof -
  have g: "gui_ok demo_display" "npar demo_display < NPAR" "screen demo_display = []" "gSavedX demo_display = 1024" "gSavedY demo_display = 768"
    by (simp_all add: demo_display_def gui_ok_def)
  obtain s0 where s0: "VirtualConsole_early_initialization demo_display = Ok () s0"
      and i: "display_inv (char_width demo_display, char_height demo_display) (gSavedX demo_display div 8) (gSavedY demo_display div 8) s0"
    using initialised [OF g(1-3)] g(4,5) by auto
  have v: "cursor_x (con s0 0) = 0" "cursor_y (con s0 0) = 0" "cursor_right (con s0 0) = 128" "cursor_bottom (con s0 0) = 96"
      "c_lflag (con s0 0) = 1" "fg_color (con s0 0) = COLOR_WHITE" "bg_color (con s0 0) = COLOR_BLUE" "char_width s0 = 8" "char_height s0 = 8" "screen s0 = []"
    using s0 by (auto simp: VirtualConsole_early_initialization_def DDINIT_console_def no_console_def demo_display_def Let_def)
  from plain_text_appears [OF i, of 0 "[72, 105, 32, 33]"] obtain t where
    "console_write 0 (Some [72, 105, 32, 33]) s0 = Ok 4 t"
    "glyphs (screen t) = text_glyphs 8 8 COLOR_WHITE COLOR_BLUE 0 0 [72, 105, 32, 33]" by (auto simp: v no_console_def)
  then show ?thesis using s0 by (auto simp del: COLOR_WHITE_def COLOR_BLUE_def)
qed

section \<open>Sequences that do less, and more, than they should\<close>

definition draws_nothing :: "(int \<times> int) \<Rightarrow> u64 \<Rightarrow> u64 \<Rightarrow> screen_call list \<Rightarrow> constate \<Rightarrow> bool" where
  "draws_nothing wh R B es s \<longleftrightarrow> display_inv wh R B s \<and> screen s = es"

lemma csi_K_draws_nothing:
  assumes i: "display_inv wh R B s"
  shows "\<exists>t. csi_K mode s = Ok () t \<and> display_inv wh R B t \<and> screen t = screen s"
proof -
  let ?P = "draws_nothing wh R B (screen s)"
  have g: "screen (local_gotoxy x y n u) = screen u" for x y n u by (simp add: local_gotoxy_def)
  have "keeps ?P (\<lambda>u. console_outbyte 32 n (local_gotoxy x y n u))" for x y n
  proof (rule keepsI)
    fix u assume "?P u"
    then have u: "display_inv wh R B (local_gotoxy x y n u)" "screen (local_gotoxy x y n u) = screen s" by (auto simp: draws_nothing_def g)
    from keepsD [OF keep_outbyte u(1), of 32 n] obtain v where v: "console_outbyte 32 n (local_gotoxy x y n u) = Ok () v" "display_inv wh R B v" by auto
    then have "screen v = screen (local_gotoxy x y n u)" by (auto simp: console_outbyte_def Let_def split: if_splits)
    then show "\<exists>a t. console_outbyte 32 n (local_gotoxy x y n u) = Ok a t \<and> ?P t" using u v by (auto simp: draws_nothing_def)
  qed
  then have f: "\<exists>t. foldR (\<lambda>col u. console_outbyte 32 n (local_gotoxy (c_int (uint (of_nat col :: u64))) y n u)) cols s = Ok () t \<and> ?P t" for n y cols
    using keepsD [OF keeps_foldR [of cols ?P "\<lambda>col u. console_outbyte 32 n (local_gotoxy (c_int (uint (of_nat col :: u64))) y n u)"]] i
    by (auto simp: draws_nothing_def)
  show ?thesis
  proof (cases "erase_range mode (con s (foreground s))")
    case None
    then show ?thesis using i by (simp add: csi_K_def)
  next
    case (Some r)
    then show ?thesis
      using f [of "foreground s" "c_int (uint (cursor_y (con s (foreground s))))" "[unat (fst r)..<unat (snd r)]"]
      by (auto simp: csi_K_def Let_def draws_nothing_def g split: prod.splits)
  qed
qed

text \<open>A sequence of one parameter, up to its command.\<close>

lemma write_sequence:
  assumes i: "display_inv wh R B s" and n: "\<not> no_console n" and d: "0x30 \<le> d" "d \<le> 0x39" and k: "k \<noteq> 0x3B" "\<not> (0x30 \<le> k \<and> k \<le> 0x39)"
  shows "\<exists>u. display_inv wh R B u \<and> screen u = screen s \<and> (\<forall>cs. write_loop respond e n (0x1B # 0x5B # d # k # cs) (stage 0 s) =
    bindR (csi_command k n u) (\<lambda>_ v. write_loop respond e n cs v))"
proof -
  let ?u = "stage 3 (clear_par (stage 2 s))\<lparr>ques := False\<rparr>"
  let ?v = "?u\<lparr>par := (par ?u)(0 := ucast d)\<rparr>"
  have e: "plain_char e 0x1B n (stage 0 s) = Ok () (stage 1 s)" "after_escape respond 0x5B n (stage 1 s) = Ok () (stage 2 s)"
    by (simp_all add: plain_char_def after_escape_def)
  have d3: "d \<noteq> 0x3F" "d \<noteq> 0x3B" using d by (auto simp: word_le_def)
  have p: "first_parameter d n (stage 2 s) = Ok () ?v"
    using d d3 by (simp add: first_parameter_def csi_parameter_def Let_def) (simp add: clear_par_def stage_def)
  have st: "EscapeSequenceStage ?v = 3" by (simp add: stage_def)
  have c: "csi_parameter k n ?v = csi_command k n (stage 4 ?v)" using k by (auto simp: csi_parameter_def)
  have vi: "display_inv wh R B ?v" using i by (intro display_invI_update [of wh R B "?u" "?v"]) (auto simp: display_inv_def stage_def clear_par_def gui_ok_def)
  have vs: "screen ?v = screen s" by (simp add: stage_def clear_par_def)
  obtain v where v: "first_parameter d n (stage 2 s) = Ok () v" "EscapeSequenceStage v = 3" "csi_parameter k n v = csi_command k n (stage 4 v)"
      "display_inv wh R B v" "screen v = screen s" using p st c vi vs by blast
  have "write_loop respond e n (0x1B # 0x5B # d # k # cs) (stage 0 s) = bindR (csi_command k n (stage 4 v)) (\<lambda>_ v. write_loop respond e n cs v)" for cs
    using v by (cases "csi_command k n (stage 4 v)") (simp_all add: write_step_def e del: One_nat_def)
  then show ?thesis using v by (intro exI [of _ "stage 4 v"]) simp
qed

text \<open>Erasing in a line erases nothing: the three variants of the sequence (to the end of the line, to its start, and
  the whole line) are accepted, but not one call reaches the display, because a space is never drawn.\<close>

theorem erase_in_line_erases_nothing:
  assumes "display_inv wh R B s" and "\<not> no_console n" and "d \<in> {0x30, 0x31, 0x32}"
  shows "\<exists>t. console_write n (Some [0x1B, 0x5B, d, 0x4B]) s = Ok 4 t \<and> screen t = screen s"
proof -
  let ?r = "\<lambda>s. bindR (write_string_with (console_write_depth (Suc 0)) n (Some RESPONSE) s) (\<lambda>_ s. Ok () s)"
  have d: "0x30 \<le> d" "d \<le> 0x39" using assms(3) by auto
  obtain u where u: "display_inv wh R B u" "screen u = screen s"
    "write_loop ?r (c_lflag (con s n) AND ECHO \<noteq> 0) n [0x1B, 0x5B, d, 0x4B] (stage 0 s) = bindR (csi_command 0x4B n u) (\<lambda>_ v. write_loop ?r (c_lflag (con s n) AND ECHO \<noteq> 0) n [] v)"
    using write_sequence [OF assms(1,2) d, of "0x4B" ?r "c_lflag (con s n) AND ECHO \<noteq> 0"] by (auto simp del: write_loop.simps ECHO_def)
  have "display_inv wh R B (stage 0 u)" using u(1) by simp
  from csi_K_draws_nothing [OF this, of "par_value 0 (stage 0 u)"] obtain t where
    "csi_K (par_value 0 (stage 0 u)) (stage 0 u) = Ok () t" "screen t = screen u" by auto
  then have "csi_command 0x4B n u = Ok () (stage 4 t)" "screen (stage 4 t) = screen s" using u(2) by (simp_all add: csi_command_def Let_def)
  then show ?thesis
    using u(3) assms(2) inv_margins [OF assms(1,2)]
    by (simp add: console_write_def numeral_2_eq_2 del: ECHO_def write_loop.simps) simp
qed

text \<open>The initial state of the witnesses.\<close>

theorem erase_in_line_erases_nothing_witness:
  "\<exists>s0 t. VirtualConsole_early_initialization demo_display = Ok () s0 \<and> console_write 1 (Some [0x1B, 0x5B, 0x32, 0x4B]) s0 = Ok 4 t \<and> screen t = screen s0"
proof -
  obtain s0 where "VirtualConsole_early_initialization demo_display = Ok () s0" "display_inv (8, 8) 128 96 s0" using demo_started by blast
  then show ?thesis using erase_in_line_erases_nothing [of "(8, 8)" 128 96 s0 1 "0x32"] by (simp add: no_console_def)
qed

definition csi_finals :: "u8 set" where
  "csi_finals = {0x47, 0x60, 0x41, 0x66, 0x42, 0x65, 0x43, 0x61, 0x44, 0x64, 0x45, 0x46, 0x48, 0x4A, 0x4B, 0x4C, 0x4D, 0x50, 0x40, 0x72, 0x73, 0x75}"

lemma command_stage:
  assumes "k \<in> csi_finals" and "csi_command k n s = Ok () u"
  shows "EscapeSequenceStage u = 4"
proof -
  have "k = 0x47 \<or> k = 0x60 \<or> k = 0x41 \<or> k = 0x66 \<or> k = 0x42 \<or> k = 0x65 \<or> k = 0x43 \<or> k = 0x61 \<or> k = 0x44 \<or> k = 0x64 \<or> k = 0x45 \<or> k = 0x46 \<or>
    k = 0x48 \<or> k = 0x4A \<or> k = 0x4B \<or> k = 0x4C \<or> k = 0x4D \<or> k = 0x50 \<or> k = 0x40 \<or> k = 0x72 \<or> k = 0x73 \<or> k = 0x75"
    using assms(1) by (simp add: csi_finals_def)
  then show ?thesis using assms(2) by (elim disjE; simp add: csi_command_def Let_def bindR_eq_Ok; auto)
qed

lemma no_command: "c \<notin> csi_finals \<Longrightarrow> c \<noteq> 0x6D \<Longrightarrow> csi_command c n s = Ok () (stage 0 s)"
  by (simp add: csi_command_def csi_finals_def Let_def)

text \<open>C40. The character after a sequence is lost: after a sequence ESC [ d k of one digit d and a command letter k other
  than m, the parser stays in its last stage, so the next character of the text, if it is neither m nor another
  command letter, is swallowed: with it or without it the display and the consoles are the same.\<close>

theorem character_after_sequence_lost:
  assumes "display_inv wh R B s" and "\<not> no_console n" and "0x30 \<le> d" and "d \<le> 0x39" and "k \<in> csi_finals" and "c \<notin> csi_finals" and "c \<noteq> 0x6D"
  shows "\<exists>u. console_write n (Some [0x1B, 0x5B, d, k]) s = Ok 4 u \<and> console_write n (Some [0x1B, 0x5B, d, k, c]) s = Ok 5 (stage 0 u)"
proof -
  let ?r = "\<lambda>s. bindR (write_string_with (console_write_depth (Suc 0)) n (Some RESPONSE) s) (\<lambda>_ s. Ok () s)" and ?e = "c_lflag (con s n) AND ECHO \<noteq> 0"
  have k: "k \<noteq> 0x3B" "\<not> (0x30 \<le> k \<and> k \<le> 0x39)" using assms(5) by (auto simp: csi_finals_def)
  obtain t where t: "display_inv wh R B t" "\<And>cs. write_loop ?r ?e n (0x1B # 0x5B # d # k # cs) (stage 0 s) = bindR (csi_command k n t) (\<lambda>_ v. write_loop ?r ?e n cs v)"
    using write_sequence [OF assms(1-4) k] by blast
  obtain u where u: "csi_command k n t = Ok () u" using keepsD [OF keep_command t(1), of k n] by auto
  have "EscapeSequenceStage u = 4" by (rule command_stage [OF assms(5) u])
  then have "write_loop ?r ?e n [c] u = Ok True (stage 0 u)" by (simp add: write_step_def no_command [OF assms(6,7)])
  then show ?thesis
    using t(2) [of "[]"] t(2) [of "[c]"] u assms(2) inv_margins [OF assms(1,2)]
    by (simp add: console_write_def numeral_2_eq_2 del: ECHO_def write_loop.simps) simp
qed

theorem character_after_sequence_lost_witness:
  "\<exists>s0 u. VirtualConsole_early_initialization demo_display = Ok () s0 \<and> console_write 0 (Some [0x1B, 0x5B, 0x35, 0x43]) s0 = Ok 4 u \<and>
    console_write 0 (Some [0x1B, 0x5B, 0x35, 0x43, 0x78]) s0 = Ok 5 (stage 0 u)"
proof -
  obtain s0 where "VirtualConsole_early_initialization demo_display = Ok () s0" "display_inv (8, 8) 128 96 s0" using demo_started by blast
  then show ?thesis
    using character_after_sequence_lost [of "(8, 8)" 128 96 s0 0 "0x35" "0x43" "0x78"] by (simp add: no_console_def csi_finals_def)
qed

end
