(* ===== verification/Byte_Queue.thy ===== *)
theory Byte_Queue
  imports Kernel_Memory
begin

text \<open>
  The contract of a bounded queue of bytes, which the pipes and the queues of the terminals share.
  \<open>contents\<close> is the abstract queue and \<open>room\<close> the number of bytes that still fit. A client puts and takes
  bytes one at a time until the queue is full or empty, as the loops of pipe.c and tty.c do. \<open>serve\<close> is
  any sequence of such requests.
\<close>

primrec put_all :: "(u8 \<Rightarrow> 'q \<Rightarrow> 'q option) \<Rightarrow> u8 list \<Rightarrow> 'q \<Rightarrow> nat \<times> 'q" where
  "put_all pt [] q = (0, q)"
| "put_all pt (c # cs) q = (case pt c q of None \<Rightarrow> (0, q) | Some q1 \<Rightarrow> let (n, q2) = put_all pt cs q1 in (Suc n, q2))"

primrec get_all :: "('q \<Rightarrow> (u8 \<times> 'q) option) \<Rightarrow> nat \<Rightarrow> 'q \<Rightarrow> u8 list \<times> 'q" where
  "get_all gt 0 q = ([], q)"
| "get_all gt (Suc n) q = (case gt q of None \<Rightarrow> ([], q) | Some (c, q1) \<Rightarrow> let (cs, q2) = get_all gt n q1 in (c # cs, q2))"

datatype request = Put "u8 list" | Get nat

primrec serve :: "(u8 \<Rightarrow> 'q \<Rightarrow> 'q option) \<Rightarrow> ('q \<Rightarrow> (u8 \<times> 'q) option) \<Rightarrow> request list \<Rightarrow> 'q \<Rightarrow> u8 list \<times> u8 list \<times> 'q" where
  "serve pt gt [] q = ([], [], q)"
| "serve pt gt (r # rs) q = (case r of
     Put xs \<Rightarrow> (let (n, q1) = put_all pt xs q; (i, d, q2) = serve pt gt rs q1 in (take n xs @ i, d, q2))
   | Get n \<Rightarrow> (let (cs, q1) = get_all gt n q; (i, d, q2) = serve pt gt rs q1 in (i, cs @ d, q2)))"

locale byte_queue =
  fixes ok :: "'q \<Rightarrow> bool" and contents :: "'q \<Rightarrow> u8 list" and room :: "'q \<Rightarrow> nat"
    and pt :: "u8 \<Rightarrow> 'q \<Rightarrow> 'q option" and gt :: "'q \<Rightarrow> (u8 \<times> 'q) option"
  assumes put_room: "ok q \<Longrightarrow> 0 < room q \<Longrightarrow> \<exists>q'. pt c q = Some q' \<and> ok q' \<and> contents q' = contents q @ [c] \<and> room q = Suc (room q')"
    and put_full: "ok q \<Longrightarrow> room q = 0 \<Longrightarrow> pt c q = None"
    and get_next: "ok q \<Longrightarrow> contents q = c # cs \<Longrightarrow> \<exists>q'. gt q = Some (c, q') \<and> ok q' \<and> contents q' = cs \<and> room q' = Suc (room q)"
    and get_empty: "ok q \<Longrightarrow> contents q = [] \<Longrightarrow> gt q = None"
begin

lemma put_all_spec:
  "ok q \<Longrightarrow> \<exists>q'. put_all pt xs q = (min (length xs) (room q), q') \<and> ok q' \<and> contents q' = contents q @ take (room q) xs \<and>
     room q' = room q - length xs"
proof (induction xs arbitrary: q)
  case (Cons x xs)
  show ?case
  proof (cases "room q")
    case 0
    then show ?thesis using put_full [OF Cons.prems] Cons.prems by simp
  next
    case (Suc k)
    then obtain q1 where q1: "pt x q = Some q1" "ok q1" "contents q1 = contents q @ [x]" "room q1 = k"
      using put_room [OF Cons.prems, of x] by auto
    from Cons.IH [OF q1(2)] show ?thesis using q1 Suc by auto
  qed
qed simp

lemma get_all_spec:
  "ok q \<Longrightarrow> \<exists>q'. get_all gt n q = (take n (contents q), q') \<and> ok q' \<and> contents q' = drop n (contents q) \<and>
     room q' = room q + min n (length (contents q))"
proof (induction n arbitrary: q)
  case (Suc n)
  show ?case
  proof (cases "contents q")
    case Nil
    then show ?thesis using get_empty [OF Suc.prems] Suc.prems by simp
  next
    case (Cons c cs)
    then obtain q1 where q1: "gt q = Some (c, q1)" "ok q1" "contents q1 = cs" "room q1 = Suc (room q)"
      using get_next [OF Suc.prems] by blast
    from Suc.IH [OF q1(2)] show ?thesis using q1 Cons by auto
  qed
qed simp

lemma put_then_get:
  assumes "ok q" and "contents q = []" and "length xs \<le> room q" and "put_all pt xs q = (n, q1)" and "get_all gt k q1 = (ys, q2)"
  shows "n = length xs" and "ys = take k xs" and "ok q2" and "contents q2 = drop k xs"
proof -
  obtain q' where q': "put_all pt xs q = (min (length xs) (room q), q')" "ok q'" "contents q' = contents q @ take (room q) xs"
    using put_all_spec [OF assms(1)] by blast
  then have q1: "q1 = q'" "n = length xs" using assms(3,4) by auto
  obtain q'' where q'': "get_all gt k q1 = (take k (contents q1), q'')" "ok q''" "contents q'' = drop k (contents q1)"
    using get_all_spec [of q1] q'(2) q1 by blast
  then show "n = length xs" "ys = take k xs" "ok q2" "contents q2 = drop k xs" using q' q1 assms(2,3,5) by auto
qed

text \<open>No byte is lost, doubled or overtaken, whatever the sequence of requests is.\<close>

lemma serve_fifo:
  assumes "ok q" and "serve pt gt rs q = (i, d, q')"
  shows "ok q' \<and> contents q @ i = d @ contents q'"
  using assms
proof (induction rs arbitrary: q i d q')
  case (Cons r rs)
  show ?case
  proof (cases r)
    case (Put xs)
    obtain q1 where q1: "put_all pt xs q = (min (length xs) (room q), q1)" "ok q1" "contents q1 = contents q @ take (room q) xs"
      using put_all_spec [OF Cons.prems(1)] by blast
    obtain i' d' q2 where s: "serve pt gt rs q1 = (i', d', q2)" by (cases "serve pt gt rs q1") auto
    have e: "take (min (length xs) (room q)) xs = take (room q) xs" by (simp add: min_def)
    have "i = take (room q) xs @ i'" "d = d'" "q' = q2" using Cons.prems(2) Put q1(1) s by (auto simp: e)
    then show ?thesis using Cons.IH [OF q1(2) s] q1(3) by simp
  next
    case (Get n)
    obtain q1 where q1: "get_all gt n q = (take n (contents q), q1)" "ok q1" "contents q1 = drop n (contents q)"
      using get_all_spec [OF Cons.prems(1)] by blast
    obtain i' d' q2 where s: "serve pt gt rs q1 = (i', d', q2)" by (cases "serve pt gt rs q1") auto
    have "i = i'" "d = take n (contents q) @ d'" "q' = q2" using Cons.prems(2) Get q1(1) s by auto
    moreover have "contents q1 @ i' = d' @ contents q2" using Cons.IH [OF q1(2) s] by simp
    moreover have "contents q = take n (contents q) @ contents q1" using q1(3) by simp
    ultimately show ?thesis using Cons.IH [OF q1(2) s] by (metis append.assoc)
  qed
qed simp

end

end
