(* ===== verification/Byte_Channel.thy ===== *)
theory Byte_Channel
  imports IO_Model Byte_Queue Fat_Laws
begin

text \<open>
  A channel is a byte queue behind two services, one that writes a buffer of the user and one that reads to a
  buffer of the user. \<open>talk\<close> is a conversation: the writer stores its data at \<open>wb\<close> and writes them, the
  reader reads to \<open>rb\<close>; the result lists what was accepted and what was delivered. A service that fails ends
  the conversation. The locale shows that a conversation is a sequence of requests to the queue.
\<close>

type_synonym service = "int \<Rightarrow> iostate \<Rightarrow> (iostate, int) res"

primrec talk :: "service \<Rightarrow> service \<Rightarrow> ptr \<Rightarrow> ptr \<Rightarrow> request list \<Rightarrow> iostate \<Rightarrow> (iostate, u8 list \<times> u8 list) res" where
  "talk wr rd wb rb [] s = Ok ([], []) s"
| "talk wr rd wb rb (r # rs) s = (case r of
     Put xs \<Rightarrow> bindR (wr (int (length xs)) (s\<lparr>hmem := put (hmem s) wb xs\<rparr>)) (\<lambda>n s1.
       bindR (talk wr rd wb rb rs s1) (\<lambda>(i, d) s2. Ok (take (nat n) xs @ i, d) s2))
   | Get k \<Rightarrow> bindR (rd (int k) s) (\<lambda>n s1.
       bindR (talk wr rd wb rb rs s1) (\<lambda>(i, d) s2. Ok (i, bytes (hmem s1) rb (nat n) @ d) s2)))"

definition request_size :: "request \<Rightarrow> nat" where
  "request_size r = (case r of Put xs \<Rightarrow> length xs | Get n \<Rightarrow> n)"

locale byte_channel = byte_queue ok contents room pt gt
  for ok :: "'q \<Rightarrow> bool" and contents room pt gt +
  fixes inv :: "iostate \<Rightarrow> bool" and view :: "iostate \<Rightarrow> 'q" and wr rd :: service and wb rb :: ptr and n :: nat
  assumes inv_ok: "inv s \<Longrightarrow> ok (view s)"
    and store: "inv s \<Longrightarrow> length xs \<le> n \<Longrightarrow> inv (s\<lparr>hmem := put (hmem s) wb xs\<rparr>) \<and> view (s\<lparr>hmem := put (hmem s) wb xs\<rparr>) = view s \<and>
      bytes (put (hmem s) wb xs) wb (length xs) = xs"
    and write_0: "inv s \<Longrightarrow> \<exists>e \<le> 0. wr 0 s = Ok e s"
    and read_0: "inv s \<Longrightarrow> \<exists>e \<le> 0. rd 0 s = Ok e s"
    and write_k: "inv s \<Longrightarrow> 0 < k \<Longrightarrow> k \<le> n \<Longrightarrow> put_all pt (bytes (hmem s) wb k) (view s) = (j, v) \<Longrightarrow>
      \<exists>s'. wr (int k) s = Ok (int j) s' \<and> inv s' \<and> view s' = v"
    and read_k: "inv s \<Longrightarrow> 0 < k \<Longrightarrow> k \<le> n \<Longrightarrow> get_all gt k (view s) = (cs, v) \<Longrightarrow>
      \<exists>s'. rd (int k) s = Ok (int (length cs)) s' \<and> inv s' \<and> view s' = v \<and> bytes (hmem s') rb (length cs) = cs"
begin

lemma talk_serve:
  assumes "inv s" and "\<forall>r \<in> set rs. request_size r \<le> n"
  shows "\<exists>i d s'. talk wr rd wb rb rs s = Ok (i, d) s' \<and> inv s' \<and> serve pt gt rs (view s) = (i, d, view s')"
  using assms
proof (induction rs arbitrary: s)
  case (Cons r rs)
  have rn: "request_size r \<le> n" "\<forall>r \<in> set rs. request_size r \<le> n" using Cons.prems(2) by auto
  show ?case
  proof (cases r)
    case (Put xs)
    then have xs: "length xs \<le> n" using rn by (simp add: request_size_def)
    let ?s = "s\<lparr>hmem := put (hmem s) wb xs\<rparr>"
    have st: "inv ?s" "view ?s = view s" "bytes (hmem ?s) wb (length xs) = xs" using store [OF Cons.prems(1) xs] by simp_all
    obtain j v where pa: "put_all pt xs (view s) = (j, v)" by (cases "put_all pt xs (view s)")
    have "\<exists>e s1. wr (int (length xs)) ?s = Ok e s1 \<and> nat e = j \<and> inv s1 \<and> view s1 = v"
    proof (cases "xs = []")
      case True
      then show ?thesis using write_0 [OF st(1)] st pa by auto
    next
      case False
      then show ?thesis using write_k [OF st(1) _ xs, of j v] st pa by auto
    qed
    then obtain e s1 where s1: "wr (int (length xs)) ?s = Ok e s1" "nat e = j" "inv s1" "view s1 = v" by blast
    obtain i d s' where "talk wr rd wb rb rs s1 = Ok (i, d) s'" "inv s'" "serve pt gt rs (view s1) = (i, d, view s')"
      using Cons.IH [OF s1(3) rn(2)] by blast
    then show ?thesis using s1 pa by (simp add: Put)
  next
    case (Get k)
    then have k: "k \<le> n" using rn by (simp add: request_size_def)
    obtain cs v where ga: "get_all gt k (view s) = (cs, v)" by (cases "get_all gt k (view s)")
    have "\<exists>e s1. rd (int k) s = Ok e s1 \<and> nat e = length cs \<and> inv s1 \<and> view s1 = v \<and> bytes (hmem s1) rb (length cs) = cs"
    proof (cases "k = 0")
      case True
      then show ?thesis using read_0 [OF Cons.prems(1)] Cons.prems(1) ga by (auto simp: bytes_def)
    next
      case False
      then show ?thesis using read_k [OF Cons.prems(1) _ k ga] by auto
    qed
    then obtain e s1 where s1: "rd (int k) s = Ok e s1" "nat e = length cs" "inv s1" "view s1 = v" "bytes (hmem s1) rb (length cs) = cs" by blast
    obtain i d s' where "talk wr rd wb rb rs s1 = Ok (i, d) s'" "inv s'" "serve pt gt rs (view s1) = (i, d, view s')"
      using Cons.IH [OF s1(3) rn(2)] by blast
    then show ?thesis using s1 ga by (simp add: Get)
  qed
qed simp

lemma talk_fifo:
  assumes "inv s" and "\<forall>r \<in> set rs. request_size r \<le> n"
  shows "\<exists>i d s'. talk wr rd wb rb rs s = Ok (i, d) s' \<and> inv s' \<and> contents (view s) @ i = d @ contents (view s')"
  using talk_serve [OF assms] serve_fifo [OF inv_ok [OF assms(1)]] by blast

end

end
