(* ===== verification/Demo_IO.thy ===== *)
theory Demo_IO
  imports IO_Model Demo_State Kernel_Heap_Laws
begin

text \<open>
  A concrete state of the devices, for the theorems that have hypotheses: a server (process 0 at 0x100) and a
  client (process 1 at 0x200) with a socket each as descriptor 3, a pipe of 8 bytes with its two ends, a regular
  file, and a terminal.
\<close>

definition demo_socket_file :: "ptr \<Rightarrow> ptr \<Rightarrow> file_d" where
  "demo_socket_file buff sock = zero_file\<lparr>f_object := ObjectTypeSocket, f_used := TRUE, f_magic := 1234, f_file := 3,
     f_sync := zero_sync\<lparr>can_read := TRUE, can_write := TRUE, can_accept := TRUE, can_connect := TRUE,
       block_on_read_empty := TRUE, block_on_write := TRUE, block_on_write_full := TRUE\<rparr>,
     f_flags := SWR, f_base := buff, f_p := buff, f_lbfsize := BUFSIZ, f_cnt := BUFSIZ, f_socket := sock\<rparr>"

definition demo_pipe_file :: file_d where
  "demo_pipe_file = zero_file\<lparr>f_object := ObjectTypePipe, f_used := TRUE, f_magic := 1234, pipe_info := 0x7000\<rparr>"

definition demo_regular :: file_d where
  "demo_regular = zero_file\<lparr>f_object := ObjectTypeFile, f_used := TRUE, f_magic := 1234, f_file := 4, f_flags := SWR,
     f_base := 0x22000, f_p := 0x22000, f_lbfsize := 512, f_cnt := 512,
     f_sync := zero_sync\<lparr>can_read := TRUE, can_write := TRUE\<rparr>\<rparr>"

definition demo_files :: "ptr \<Rightarrow> file_d" where
  "demo_files = (\<lambda>_. zero_file)(0x4000 := demo_pipe_file, 0x4100 := demo_pipe_file, 0x5000 := demo_socket_file 0x20000 0x9000,
     0x5100 := demo_socket_file 0x20400 0x9100, 0x6000 := demo_regular)"

definition demo_socket :: "ptr \<Rightarrow> socket_d" where
  "demo_socket f = zero_socket\<lparr>so_used := TRUE, so_magic := 1234, backlog_max := 4, so_state := SS_UNCONNECTED, conn_copy := TRUE,
     clientfd_on_server := - 1, private_file := f, addr_family := 8000\<rparr>"

definition demo_socks :: "ptr \<Rightarrow> socket_d" where
  "demo_socks = (\<lambda>_. zero_socket)(0x9000 := (demo_socket 0x5000)\<lparr>so_state := SS_LISTENING\<rparr>, 0x9100 := demo_socket 0x5100)"

definition demo_queue :: tty_queue where
  "demo_queue = \<lparr>q_buf = (\<lambda>_. 0), q_buffer_size = 1024, q_cnt = 0, q_head = 0, q_tail = 0\<rparr>"

definition demo_tty :: tty_d where
  "demo_tty = \<lparr>tty_used = 1, tty_magic = 1234, tty_type = 0, tty_subtype = 0, tty_is_blocked = 0, raw_queue = demo_queue,
     canonical_queue = demo_queue, output_queue = demo_queue, output_worker_number = 0, c_lflag = 0, c_cc = (\<lambda>_. 0), tty_link = NULL\<rparr>"

text \<open>The address ''ds'' of the family \<open>AF_GRAMADO\<close> is at 0x300000.\<close>

definition demo_memory :: mem where
  "demo_memory = (\<lambda>_. 0xCC)(0x300000 := 0x40, 0x300001 := 0x1F, 0x300002 := 0x64, 0x300003 := 0x73)"

definition demo_kstate :: kstate where
  "demo_kstate = demo\<lparr>pheap := (demo_processes)(0x200 := (demo_processes 0x100)\<lparr>te_pid := 1\<rparr>), teList := (\<lambda>i. if i = 0 then 0x100 else if i = 1 then 0x200 else 0)\<rparr>"

definition demo_fat :: fatfs where
  "demo_fat = \<lparr>fmem = demo_memory, disk = (\<lambda>_ _. 0), drive_ready = (\<lambda>_. True), gNumberOfSectorsInBootDisk = 0x100000,
     g_currentvolume_fatbits = 16, g_fat_cache_loaded = 0, g_fat_cache_saved = 0, fs_root = None, fat16ClustersToSave = (\<lambda>_. 0)\<rparr>"

definition demo_io :: iostate where
  "demo_io = kheap.extend (fresh_heap\<lparr>hmem := demo_memory\<rparr>)
     (iostate.fields demo_kstate demo_fat demo_files
       ((\<lambda>_. \<lparr>pi_base = NULL, buffer_size = 0, pi_counter = 0, write_pos = 0, read_pos = 0\<rparr>)
          (0x7000 := \<lparr>pi_base = 0x10000, buffer_size = 8, pi_counter = 0, write_pos = 0, read_pos = 0\<rparr>))
       (\<lambda>_. demo_tty) demo_socks (\<lambda>_. \<lparr>ep_used = 0, ep_magic = 0, side_id = 0, case_id = 0, is_remote = 0, ep_socket = NULL\<rparr>)
       ((\<lambda>_ _. NULL)(0x100 := (\<lambda>_. NULL)(3 := 0x5000), 0x200 := (\<lambda>_. NULL)(3 := 0x5100, 4 := 0x6000)))
       ((\<lambda>_. NULL)(0x100 := 0x9000, 0x200 := 0x9100)) (\<lambda>_. 0) (\<lambda>_. 0) NULL 0 0 0 ((\<lambda>_. 0)(11 := 0)) 11000 0 [] [])"

lemma demo_io_sel [simp]:
  "hmem demo_io = demo_memory" "ks demo_io = demo_kstate" "fat demo_io = demo_fat" "files demo_io = demo_files"
  "pipes demo_io 0x7000 = \<lparr>pi_base = 0x10000, buffer_size = 8, pi_counter = 0, write_pos = 0, read_pos = 0\<rparr>"
  "ttys demo_io = (\<lambda>_. demo_tty)" "socks demo_io = demo_socks"
  "Objects demo_io = (\<lambda>_ _. NULL)(0x100 := (\<lambda>_. NULL)(3 := 0x5000), 0x200 := (\<lambda>_. NULL)(3 := 0x5100, 4 := 0x6000))"
  "priv demo_io = (\<lambda>_. NULL)(0x100 := 0x9000, 0x200 := 0x9100)" "gramado_ports demo_io = (\<lambda>_. 0)(11 := 0)"
  "console_out demo_io = []"
  by (simp_all add: demo_io_def kheap.defs iostate.defs)

lemma demo_kstate_sel [simp]:
  "teList demo_kstate = (\<lambda>i. if i = 0 then 0x100 else if i = 1 then 0x200 else 0)" "current_pid demo_kstate = 0"
  "pheap demo_kstate = (demo_processes)(0x200 := (demo_processes 0x100)\<lparr>te_pid := 1\<rparr>)" "current_thread demo_kstate = 0"
  by (simp_all add: demo_kstate_def demo_def)

lemma zero_file_sel [simp]:
  "f_flags zero_file = 0" "socket_buffer_full zero_file = 0" "f_sync zero_file = zero_sync" "f_r zero_file = 0" "f_w zero_file = 0"
  by (simp_all add: zero_file_def)

lemma demo_file [simp]:
  "demo_files 0x5000 = demo_socket_file 0x20000 0x9000" "demo_files 0x5100 = demo_socket_file 0x20400 0x9100" "demo_files 0x6000 = demo_regular"
  "demo_files 0x4000 = demo_pipe_file" "demo_files 0x4100 = demo_pipe_file"
  by (simp_all add: demo_files_def)

lemma demo_te [simp]: "te_used (demo_processes 0x100) = 1" "te_magic (demo_processes 0x100) = 1234"
  by (simp_all add: demo_processes_def)

end
