(* ===== verification/Pipe_Laws.thy ===== *)
theory Pipe_Laws
  imports Tty Byte_Channel Demo_IO
begin

text \<open>
  A pipe is a queue of bytes: the interpretation of \<open>byte_queue\<close> on one turn of the two loops of pipe.c,
  the loops, and the conversation of the processes at both ends.
\<close>

section \<open>One byte\<close>

text \<open>The ring buffer of a pipe, with the offsets.\<close>

definition pipe_view :: "mem \<Rightarrow> pipe_info_d \<Rightarrow> u8 list \<times> pipe_info_d" where
  "pipe_view m q = (bytes m (pi_base q) (nat (buffer_size q)), q)"

fun pipe_put :: "u8 \<Rightarrow> u8 list \<times> pipe_info_d \<Rightarrow> (u8 list \<times> pipe_info_d) option" where
  "pipe_put c (b, q) =
     (if pi_counter q \<ge> buffer_size q then None
      else let w = (if write_pos q \<ge> buffer_size q then 0 else write_pos q)
        in Some (b[nat w := c], q\<lparr>write_pos := w + 1, pi_counter := pi_counter q + 1\<rparr>))"

fun pipe_get :: "u8 list \<times> pipe_info_d \<Rightarrow> (u8 \<times> u8 list \<times> pipe_info_d) option" where
  "pipe_get (b, q) =
     (if pi_counter q \<le> 0 then None
      else let r = (if read_pos q \<ge> buffer_size q then 0 else read_pos q)
        in Some (b ! nat r, b, q\<lparr>read_pos := r + 1, pi_counter := pi_counter q - 1\<rparr>))"

fun pipe_ok :: "u8 list \<times> pipe_info_d \<Rightarrow> bool" where
  "pipe_ok (b, q) \<longleftrightarrow> 0 < buffer_size q \<and> int (length b) = buffer_size q \<and> buffer_size q < 2 ^ 63 \<and> 0 \<le> pi_counter q \<and> pi_counter q \<le> buffer_size q \<and>
     0 \<le> read_pos q \<and> read_pos q \<le> buffer_size q \<and> 0 \<le> write_pos q \<and> write_pos q \<le> buffer_size q \<and>
     (read_pos q + pi_counter q) mod buffer_size q = write_pos q mod buffer_size q"

fun pipe_contents :: "u8 list \<times> pipe_info_d \<Rightarrow> u8 list" where
  "pipe_contents (b, q) = map (\<lambda>i. b ! nat ((read_pos q + int i) mod buffer_size q)) [0..<nat (pi_counter q)]"

fun pipe_room :: "u8 list \<times> pipe_info_d \<Rightarrow> nat" where
  "pipe_room (b, q) = nat (buffer_size q - pi_counter q)"

lemma wrap_pos: "0 \<le> p \<Longrightarrow> p \<le> n \<Longrightarrow> 0 < n \<Longrightarrow> (if p \<ge> n then 0 else p) = p mod (n :: int)"
  by auto

lemma ring_index_neq:
  assumes "0 \<le> i" and "i < c" and "c < (n :: int)"
  shows "(r + i) mod n \<noteq> (r + c) mod n"
proof
  assume "(r + i) mod n = (r + c) mod n"
  then have "n dvd (r + c) - (r + i)" by (metis mod_eq_dvd_iff)
  then have "n dvd c - i" by simp
  then show False using assms zdvd_not_zless [of "c - i" n] by simp
qed

lemma pipe_put_ok:
  assumes "pipe_ok q" and "0 < pipe_room q"
  shows "\<exists>q'. pipe_put c q = Some q' \<and> pipe_ok q' \<and> pipe_contents q' = pipe_contents q @ [c] \<and> pipe_room q = Suc (pipe_room q')"
proof -
  obtain b p where q: "q = (b, p)" by (cases q)
  let ?n = "buffer_size p" and ?w = "write_pos p mod buffer_size p"
  have n: "0 < ?n" "int (length b) = ?n" "?n < 2 ^ 63" and c: "0 \<le> pi_counter p" "pi_counter p < ?n"
    and r: "0 \<le> read_pos p" "read_pos p \<le> ?n" and w: "0 \<le> write_pos p" "write_pos p \<le> ?n"
    and e: "(read_pos p + pi_counter p) mod ?n = ?w"
    using assms unfolding q by auto
  have wp: "(if write_pos p \<ge> ?n then 0 else write_pos p) = ?w" by (rule wrap_pos [OF w n(1)])
  let ?q' = "(b[nat ?w := c], p\<lparr>write_pos := ?w + 1, pi_counter := pi_counter p + 1\<rparr>)"
  have wb: "0 \<le> ?w" "?w < ?n" using n(1) by auto
  have "pipe_put c q = Some ?q'" unfolding q using c(2) by (simp only: pipe_put.simps wp Let_def) simp
  moreover have "pipe_ok ?q'"
  proof -
    have "(read_pos p + (pi_counter p + 1)) mod ?n = (?w + 1) mod ?n"
      using e by (metis add.assoc mod_add_left_eq)
    moreover have "0 \<le> ?w + 1" "?w + 1 \<le> ?n" using wb by linarith+
    ultimately show ?thesis using n c r by (simp del: pos_mod_bound pos_mod_sign)
  qed
  moreover have "pipe_contents ?q' = pipe_contents q @ [c]"
  proof -
    have "b[nat ?w := c] ! nat ((read_pos p + int i) mod ?n) = b ! nat ((read_pos p + int i) mod ?n)" if "i < nat (pi_counter p)" for i
    proof -
      have "(read_pos p + int i) mod ?n \<noteq> ?w" using ring_index_neq [of "int i" "pi_counter p" ?n "read_pos p"] c that e by auto
      moreover have "0 \<le> (read_pos p + int i) mod ?n" using n(1) by simp
      ultimately show ?thesis using wb by (simp add: nth_list_update_neq nat_eq_iff)
    qed
    moreover have "b[nat ?w := c] ! nat ((read_pos p + pi_counter p) mod ?n) = c" unfolding e using wb n(2) by simp
    moreover have "nat (pi_counter p + 1) = Suc (nat (pi_counter p))" using c(1) by simp
    ultimately show ?thesis unfolding q using c(1) by simp
  qed
  moreover have "pipe_room q = Suc (pipe_room ?q')" unfolding q using c by simp
  ultimately show ?thesis by blast
qed

lemma pipe_get_ok:
  assumes "pipe_ok q" and "pipe_contents q = c # cs"
  shows "\<exists>q'. pipe_get q = Some (c, q') \<and> pipe_ok q' \<and> pipe_contents q' = cs \<and> pipe_room q' = Suc (pipe_room q)"
proof -
  obtain b p where q: "q = (b, p)" by (cases q)
  let ?n = "buffer_size p" and ?r = "read_pos p mod buffer_size p"
  have n: "0 < ?n" "int (length b) = ?n" "?n < 2 ^ 63" and c: "0 \<le> pi_counter p" "pi_counter p \<le> ?n"
    and r: "0 \<le> read_pos p" "read_pos p \<le> ?n" and w: "0 \<le> write_pos p" "write_pos p \<le> ?n"
    and e: "(read_pos p + pi_counter p) mod ?n = write_pos p mod ?n"
    using assms(1) unfolding q by auto
  have "nat (pi_counter p) = length (pipe_contents q)" unfolding q by simp
  then obtain k where k: "nat (pi_counter p) = Suc k" using assms(2) by simp
  have c1: "\<not> pi_counter p \<le> 0" "nat (pi_counter p - 1) = k" using k by auto
  have "pipe_contents q ! 0 = b ! nat ?r" unfolding q using c1 by simp
  then have hd: "c = b ! nat ?r" using assms(2) by simp
  have rp: "(if read_pos p \<ge> ?n then 0 else read_pos p) = ?r" by (rule wrap_pos [OF r n(1)])
  let ?q' = "(b, p\<lparr>read_pos := ?r + 1, pi_counter := pi_counter p - 1\<rparr>)"
  have rb: "0 \<le> ?r" "?r < ?n" using n(1) by auto
  have "pipe_get q = Some (c, ?q')" unfolding q hd using c1(1) by (simp only: pipe_get.simps rp Let_def) simp
  moreover have "pipe_ok ?q'"
  proof -
    have "(?r + 1 + (pi_counter p - 1)) mod ?n = (read_pos p + pi_counter p) mod ?n" by (simp add: mod_add_left_eq)
    moreover have "0 \<le> ?r + 1" "?r + 1 \<le> ?n" using rb by linarith+
    ultimately show ?thesis using n c c1(1) w e by (simp del: pos_mod_bound pos_mod_sign)
  qed
  moreover have "pipe_contents ?q' = cs"
  proof (rule nth_equalityI)
    have "length cs = k" using k assms(2) unfolding q by (metis length_Cons length_map length_upt minus_nat.diff_0 old.nat.inject pipe_contents.simps)
    then show "length (pipe_contents ?q') = length cs" using c1(2) by simp
    fix i assume "i < length (pipe_contents ?q')"
    then have i: "i < k" using c1(2) by simp
    have "cs ! i = pipe_contents q ! Suc i" using assms(2) by simp
    also have "\<dots> = b ! nat ((read_pos p + int (Suc i)) mod ?n)" unfolding q using i k by (simp del: upt_Suc)
    also have "(read_pos p + int (Suc i)) mod ?n = (?r + 1 + int i) mod ?n"
      using mod_add_left_eq [of "read_pos p" ?n "1 + int i"] by (simp add: add.assoc)
    finally show "pipe_contents ?q' ! i = cs ! i" using i c1(2) by simp
  qed
  moreover have "pipe_room ?q' = Suc (pipe_room q)" unfolding q using c c1(1) by simp
  ultimately show ?thesis by blast
qed

interpretation pq: byte_queue pipe_ok pipe_contents pipe_room pipe_put pipe_get
proof
  fix q :: "u8 list \<times> pipe_info_d" and c
  show "pipe_ok q \<Longrightarrow> pipe_room q = 0 \<Longrightarrow> pipe_put c q = None" by (cases q) auto
  show "pipe_ok q \<Longrightarrow> pipe_contents q = [] \<Longrightarrow> pipe_get q = None" by (cases q) auto
qed (fact pipe_put_ok pipe_get_ok)+

section \<open>The loops\<close>

lemma pipe_view_cong:
  "(\<And>a. a \<in> region (pi_base q) (nat (buffer_size q)) \<Longrightarrow> m' a = m a) \<Longrightarrow> pipe_view m' q = pipe_view m q"
  unfolding pipe_view_def by (subst bytes_cong [of "pi_base q" _ m' m]) blast+

lemma pipe_index: "0 \<le> i \<Longrightarrow> i < n \<Longrightarrow> at_index p i \<in> region p (nat n)"
  using in_region_offset [of "nat i" "nat n" p] by simp

lemma bytes_upd_inside:
  assumes "0 \<le> i" and "i < n" and "n < 2 ^ 63"
  shows "bytes (m(at_index p i := c)) p (nat n) = (bytes m p (nat n))[nat i := c]"
proof (rule nth_equalityI)
  fix j assume "j < length (bytes (m(at_index p i := c)) p (nat n))"
  then have j: "j < nat n" by simp
  have e: "at_index p i = p + of_nat (nat i)" using assms(1) by simp
  have k: "j < 2 ^ 64" "nat i < 2 ^ 64" using j assms by auto
  show "bytes (m(at_index p i := c)) p (nat n) ! j = (bytes m p (nat n))[nat i := c] ! j"
  proof (cases "j = nat i")
    case True
    then show ?thesis using j e by (simp add: nth_list_update)
  next
    case False
    then have "p + of_nat j \<noteq> at_index p i" using offset_inj [OF k, of p] e by metis
    then show ?thesis using j False by (simp del: of_nat_nat)
  qed
qed simp

lemma pipe_read_loop_all:
  assumes "pipe_ok (pipe_view m q)" and "apart p n (pi_base q) (nat (buffer_size q))" and "n < 2 ^ 64"
    and "get_all pipe_get n (pipe_view m q) = (cs, v)"
  shows "\<exists>q'. pipe_read_loop n p k m q = (k + int (length cs), put m p cs, q') \<and> v = pipe_view (put m p cs) q' \<and>
    pi_base q' = pi_base q \<and> buffer_size q' = buffer_size q"
  using assms
proof (induction n arbitrary: p k m q cs v)
  case 0
  then show ?case by simp
next
  case (Suc n)
  show ?case
  proof (cases "pi_counter q \<le> 0")
    case True
    then have "q\<lparr>pi_counter := 0\<rparr> = q" using Suc.prems(1) by (simp add: pipe_view_def)
    then show ?thesis using True Suc.prems(4) by (auto simp: pipe_view_def)
  next
    case False
    let ?r = "if read_pos q \<ge> buffer_size q then 0 else read_pos q"
    define q1 where "q1 = q\<lparr>read_pos := ?r + 1, pi_counter := pi_counter q - 1\<rparr>"
    define x where "x = m (at_index (pi_base q) ?r)"
    define m1 where "m1 = m(p := x)"
    have rb: "0 \<le> ?r" "?r < buffer_size q" using Suc.prems(1) by (auto simp: pipe_view_def)
    have b: "bytes m (pi_base q) (nat (buffer_size q)) ! nat ?r = x"
      using rb unfolding x_def by (subst nth_bytes) auto
    have g: "pipe_get (pipe_view m q) = Some (x, bytes m (pi_base q) (nat (buffer_size q)), q1)"
      using False b by (simp add: pipe_view_def q1_def Let_def)
    have kp: "pi_base q1 = pi_base q" "buffer_size q1 = buffer_size q" by (simp_all add: q1_def)
    have v1: "pipe_view m1 q1 = (bytes m (pi_base q) (nat (buffer_size q)), q1)"
    proof -
      have "p \<in> region p (Suc n)" by simp
      then have "p \<notin> region (pi_base q) (nat (buffer_size q))" using Suc.prems(2) unfolding apart_def by blast
      then have "bytes m1 (pi_base q) (nat (buffer_size q)) = bytes m (pi_base q) (nat (buffer_size q))"
        unfolding m1_def by (intro bytes_cong) auto
      then show ?thesis by (simp add: pipe_view_def kp)
    qed
    obtain cs' where cs: "cs = x # cs'" and ga: "get_all pipe_get n (pipe_view m1 q1) = (cs', v)"
      using Suc.prems(4) g v1 by (auto split: prod.splits)
    have ok1: "pipe_ok (pipe_view m1 q1)"
    proof -
      obtain c cs'' where "pipe_contents (pipe_view m q) = c # cs''"
        using pq.get_empty [OF Suc.prems(1)] g by (cases "pipe_contents (pipe_view m q)") auto
      from pipe_get_ok [OF Suc.prems(1) this] g v1 show ?thesis by auto
    qed
    have ap: "apart (p + 1) n (pi_base q1) (nat (buffer_size q1))"
      using Suc.prems(2) region_shift [of p n] unfolding kp apart_def by blast
    obtain q' where q': "pipe_read_loop n (p + 1) (k + 1) m1 q1 = (k + 1 + int (length cs'), put m1 (p + 1) cs', q')"
      "v = pipe_view (put m1 (p + 1) cs') q'" "pi_base q' = pi_base q1" "buffer_size q' = buffer_size q1"
      using Suc.IH [OF ok1 ap _ ga, of "k + 1"] Suc.prems(3) by auto
    have l: "length cs' < 2 ^ 64"
      using pq.get_all_spec [OF ok1, of n] ga Suc.prems(3) by auto
    have "put m1 (p + 1) cs' = put m p cs" unfolding cs m1_def using l by (simp add: put_Cons)
    moreover have "pipe_read_loop (Suc n) p k m q = pipe_read_loop n (p + 1) (k + 1) m1 q1"
      using False by (simp add: q1_def m1_def x_def)
    ultimately show ?thesis using q' kp by (simp add: cs)
  qed
qed

lemma pipe_write_loop_all:
  assumes "pipe_ok (pipe_view m q)" and "apart p n (pi_base q) (nat (buffer_size q))"
    and "put_all pipe_put (bytes m p n) (pipe_view m q) = (j, v)"
  shows "\<exists>m' q'. pipe_write_loop n p k m q = (k + int j, m', q') \<and> v = pipe_view m' q' \<and>
    pi_base q' = pi_base q \<and> buffer_size q' = buffer_size q \<and> (\<forall>a. a \<notin> region (pi_base q) (nat (buffer_size q)) \<longrightarrow> m' a = m a)"
  using assms
proof (induction n arbitrary: p k m q j v)
  case 0
  then show ?case by (auto simp: bytes_def)
next
  case (Suc n)
  have cons: "bytes m p (Suc n) = m p # bytes m (p + 1) n"
    by (rule nth_equalityI) (auto simp: nth_Cons' algebra_simps split: nat.split)
  show ?case
  proof (cases "pi_counter q \<ge> buffer_size q")
    case True
    then show ?thesis using Suc.prems(3) by (auto simp: cons pipe_view_def)
  next
    case False
    let ?w = "if write_pos q \<ge> buffer_size q then 0 else write_pos q"
    define q1 where "q1 = q\<lparr>write_pos := ?w + 1, pi_counter := pi_counter q + 1\<rparr>"
    define m1 where "m1 = m(at_index (pi_base q) ?w := m p)"
    have wb: "0 \<le> ?w" "?w < buffer_size q" "buffer_size q < 2 ^ 63" using Suc.prems(1) by (auto simp: pipe_view_def)
    have kp: "pi_base q1 = pi_base q" "buffer_size q1 = buffer_size q" by (simp_all add: q1_def)
    have v1: "pipe_view m1 q1 = ((bytes m (pi_base q) (nat (buffer_size q)))[nat ?w := m p], q1)"
      unfolding pipe_view_def kp m1_def using bytes_upd_inside [OF wb] by simp
    have g: "pipe_put (m p) (pipe_view m q) = Some (pipe_view m1 q1)"
      unfolding v1 using False by (simp add: pipe_view_def q1_def Let_def)
    have out: "m1 a = m a" if "a \<notin> region (pi_base q) (nat (buffer_size q))" for a
      using pipe_index [OF wb(1,2), of "pi_base q"] that by (auto simp: m1_def)
    have ap: "apart (p + 1) n (pi_base q1) (nat (buffer_size q1))"
      using Suc.prems(2) region_shift [of p n] unfolding kp apart_def by blast
    have "bytes m1 (p + 1) n = bytes m (p + 1) n"
      using ap unfolding kp apart_def by (intro bytes_cong out) blast
    then obtain j' where j: "j = Suc j'" and pa: "put_all pipe_put (bytes m1 (p + 1) n) (pipe_view m1 q1) = (j', v)"
      using Suc.prems(3) g by (auto simp: cons split: prod.splits)
    have ok1: "pipe_ok (pipe_view m1 q1)"
      using pipe_put_ok [OF Suc.prems(1), of "m p"] g False by (auto simp: pipe_view_def)
    obtain m' q' where q': "pipe_write_loop n (p + 1) (k + 1) m1 q1 = (k + 1 + int j', m', q')" "v = pipe_view m' q'"
      "pi_base q' = pi_base q" "buffer_size q' = buffer_size q" "\<forall>a. a \<notin> region (pi_base q) (nat (buffer_size q)) \<longrightarrow> m' a = m1 a"
      using Suc.IH [OF ok1 ap pa, of "k + 1"] unfolding kp by blast
    moreover have "pipe_write_loop (Suc n) p k m q = pipe_write_loop n (p + 1) (k + 1) m1 q1"
      using False by (simp add: q1_def m1_def)
    ultimately show ?thesis using out by (auto simp: j)
  qed
qed

section \<open>The conversation\<close>

definition pipe_end :: "iostate \<Rightarrow> ptr \<Rightarrow> ptr \<Rightarrow> bool" where
  "pipe_end s f pi \<longleftrightarrow> f \<noteq> NULL \<and> f_object (files s f) = ObjectTypePipe \<and> f_used (files s f) = TRUE \<and> f_magic (files s f) = 1234 \<and>
     pipe_info (files s f) = pi \<and> pi \<noteq> NULL"

abbreviation view_of :: "iostate \<Rightarrow> ptr \<Rightarrow> u8 list \<times> pipe_info_d" where
  "view_of s pi \<equiv> pipe_view (hmem s) (pipes s pi)"

text \<open>A buffer of the user that holds \<open>n\<close> bytes and does not meet the buffer of the pipe.\<close>

definition pipe_user :: "iostate \<Rightarrow> ptr \<Rightarrow> ptr \<Rightarrow> nat \<Rightarrow> bool" where
  "pipe_user s pi u n \<longleftrightarrow> u \<noteq> NULL \<and> n < 2 ^ 64 \<and> apart u n (pi_base (pipes s pi)) (nat (buffer_size (pipes s pi)))"

definition same_shape :: "iostate \<Rightarrow> iostate \<Rightarrow> ptr \<Rightarrow> bool" where
  "same_shape s s' pi \<longleftrightarrow> pi_base (pipes s' pi) = pi_base (pipes s pi) \<and> buffer_size (pipes s' pi) = buffer_size (pipes s pi) \<and>
     (\<forall>f. pipe_end s f pi \<longrightarrow> pipe_end s' f pi)"

lemma pipe_end_upd_file:
  assumes "\<And>fi. f_object (h fi) = f_object fi \<and> f_used (h fi) = f_used fi \<and> f_magic (h fi) = f_magic fi \<and> pipe_info (h fi) = pipe_info fi"
  shows "pipe_end (upd_file g h s) f pi = pipe_end s f pi"
  using assms by (auto simp: pipe_end_def upd_file_def)

lemma pipe_write_ok:
  assumes f: "pipe_end s f pi" and ok: "pipe_ok (view_of s pi)" and u: "pipe_user s pi u n" and n: "0 < n"
    and pa: "put_all pipe_put (bytes (hmem s) u n) (view_of s pi) = (j, v)"
  shows "\<exists>s'. file_write_pipe_buffer f u (int n) s = (int j, s') \<and> view_of s' pi = v \<and> same_shape s s' pi"
proof -
  have ap: "apart u n (pi_base (pipes s pi)) (nat (buffer_size (pipes s pi)))" using u by (simp add: pipe_user_def)
  obtain m' q' where l: "pipe_write_loop n u 0 (hmem s) (pipes s pi) = (int j, m', q')" "v = pipe_view m' q'"
    "pi_base q' = pi_base (pipes s pi)" "buffer_size q' = buffer_size (pipes s pi)"
    using pipe_write_loop_all [OF ok ap pa, of 0] by auto
  let ?h = "\<lambda>fi. fi\<lparr>f_flags := SRD, f_sync := (f_sync fi)\<lparr>can_read := TRUE\<rparr>\<rparr>"
  let ?s = "upd_file f ?h (s\<lparr>hmem := m', pipes := (pipes s)(pi := q')\<rparr>)"
  have "file_write_pipe_buffer f u (int n) s = (int j, ?s)"
    using f u n l(1) by (simp add: file_write_pipe_buffer_def pipe_error_def pipe_end_def pipe_user_def)
  moreover have "view_of ?s pi = v" using l by (simp add: upd_file_def)
  moreover have "same_shape s ?s pi"
    unfolding same_shape_def using l(3,4) pipe_end_upd_file [of ?h] by (auto simp: upd_file_def pipe_end_def)
  ultimately show ?thesis by blast
qed

lemma pipe_read_ok:
  assumes f: "pipe_end s f pi" and ok: "pipe_ok (view_of s pi)" and u: "pipe_user s pi u n" and n: "0 < n"
    and ga: "get_all pipe_get n (view_of s pi) = (cs, v)"
  shows "\<exists>s'. file_read_pipe_buffer f u (int n) s = (int (length cs), s') \<and> hmem s' = put (hmem s) u cs \<and> view_of s' pi = v \<and> same_shape s s' pi"
proof -
  have ap: "apart u n (pi_base (pipes s pi)) (nat (buffer_size (pipes s pi)))" "n < 2 ^ 64" using u by (simp_all add: pipe_user_def)
  obtain q' where l: "pipe_read_loop n u 0 (hmem s) (pipes s pi) = (int (length cs), put (hmem s) u cs, q')" "v = pipe_view (put (hmem s) u cs) q'"
    "pi_base q' = pi_base (pipes s pi)" "buffer_size q' = buffer_size (pipes s pi)"
    using pipe_read_loop_all [OF ok ap ga, of 0] by auto
  let ?h = "\<lambda>fi. fi\<lparr>f_flags := SWR, f_sync := (f_sync fi)\<lparr>can_write := TRUE\<rparr>\<rparr>"
  let ?s = "upd_file f ?h (s\<lparr>hmem := put (hmem s) u cs, pipes := (pipes s)(pi := q')\<rparr>)"
  have "file_read_pipe_buffer f u (int n) s = (int (length cs), ?s)"
    using f u n l(1) by (simp add: file_read_pipe_buffer_def pipe_error_def pipe_end_def pipe_user_def)
  moreover have "view_of ?s pi = v" "hmem ?s = put (hmem s) u cs" using l by (simp_all add: upd_file_def)
  moreover have "same_shape s ?s pi"
    unfolding same_shape_def using l(3,4) pipe_end_upd_file [of ?h] by (auto simp: upd_file_def pipe_end_def)
  ultimately show ?thesis by blast
qed

lemma same_shape_user: "same_shape s s' pi \<Longrightarrow> pipe_user s' pi u n = pipe_user s pi u n"
  by (simp add: pipe_user_def same_shape_def)

lemma pipe_user_mono: "pipe_user s pi u n \<Longrightarrow> k \<le> n \<Longrightarrow> pipe_user s pi u k"
  using region_mono [of k n u] by (auto simp: pipe_user_def apart_def)

text \<open>The two ends of a pipe as services, and what holds between the calls.\<close>

definition pipe_write_end :: "ptr \<Rightarrow> ptr \<Rightarrow> service" where
  "pipe_write_end f wb k s = (case file_write_pipe_buffer f wb k s of (r, s') \<Rightarrow> Ok r s')"

definition pipe_read_end :: "ptr \<Rightarrow> ptr \<Rightarrow> service" where
  "pipe_read_end f rb k s = (case file_read_pipe_buffer f rb k s of (r, s') \<Rightarrow> Ok r s')"

definition pipe_inv :: "ptr \<Rightarrow> ptr \<Rightarrow> ptr \<Rightarrow> ptr \<Rightarrow> ptr \<Rightarrow> nat \<Rightarrow> iostate \<Rightarrow> bool" where
  "pipe_inv fw fr pi wb rb n s \<longleftrightarrow> pipe_end s fw pi \<and> pipe_end s fr pi \<and> pipe_ok (view_of s pi) \<and> pipe_user s pi wb n \<and> pipe_user s pi rb n"

lemma pipe_inv_shape: "pipe_inv fw fr pi wb rb n s \<Longrightarrow> same_shape s s' pi \<Longrightarrow> pipe_ok (view_of s' pi) \<Longrightarrow> pipe_inv fw fr pi wb rb n s'"
  using same_shape_user [of s s' pi] by (auto simp: pipe_inv_def same_shape_def)

lemma pipe_store:
  assumes "pipe_inv fw fr pi wb rb n s" and "length xs \<le> n"
  shows "view_of (s\<lparr>hmem := put (hmem s) wb xs\<rparr>) pi = view_of s pi" "bytes (put (hmem s) wb xs) wb (length xs) = xs"
proof -
  have wu: "pipe_user s pi wb (length xs)" using assms pipe_user_mono by (auto simp: pipe_inv_def)
  have "put (hmem s) wb xs a = hmem s a" if "a \<in> region (pi_base (pipes s pi)) (nat (buffer_size (pipes s pi)))" for a
    using wu that by (intro put_outside) (auto simp: pipe_user_def apart_def)
  then show "view_of (s\<lparr>hmem := put (hmem s) wb xs\<rparr>) pi = view_of s pi"
    using pipe_view_cong [of "pipes s pi" "put (hmem s) wb xs" "hmem s"] by auto
  show "bytes (put (hmem s) wb xs) wb (length xs) = xs" using bytes_put [of xs "hmem s" wb] wu by (simp add: pipe_user_def)
qed

interpretation pipe_channel: byte_channel pipe_ok pipe_contents pipe_room pipe_put pipe_get
  "pipe_inv fw fr pi wb rb n" "\<lambda>s. view_of s pi" "pipe_write_end fw wb" "pipe_read_end fr rb" wb rb n
  for fw fr pi wb rb n
proof
  fix s xs k j v cs
  assume inv: "pipe_inv fw fr pi wb rb n s"
  then show ok: "pipe_ok (view_of s pi)" by (simp add: pipe_inv_def)
  have e: "pipe_end s fw pi" "pipe_end s fr pi" "pipe_user s pi wb n" "pipe_user s pi rb n" using inv by (simp_all add: pipe_inv_def)
  show "length xs \<le> n \<Longrightarrow> pipe_inv fw fr pi wb rb n (s\<lparr>hmem := put (hmem s) wb xs\<rparr>) \<and>
      view_of (s\<lparr>hmem := put (hmem s) wb xs\<rparr>) pi = view_of s pi \<and> bytes (put (hmem s) wb xs) wb (length xs) = xs"
    using pipe_store [OF inv, of xs] ok inv by (simp add: pipe_inv_def pipe_end_def pipe_user_def)
  show "\<exists>e \<le> 0. pipe_write_end fw wb 0 s = Ok e s"
    using e(1) by (auto simp: pipe_write_end_def file_write_pipe_buffer_def pipe_error_def pipe_end_def)
  show "\<exists>e \<le> 0. pipe_read_end fr rb 0 s = Ok e s"
    using e(2) by (auto simp: pipe_read_end_def file_read_pipe_buffer_def pipe_error_def pipe_end_def)
  show "\<exists>s'. pipe_write_end fw wb (int k) s = Ok (int j) s' \<and> pipe_inv fw fr pi wb rb n s' \<and> view_of s' pi = v"
    if "0 < k" "k \<le> n" "put_all pipe_put (bytes (hmem s) wb k) (view_of s pi) = (j, v)"
  proof -
    have "pipe_ok v" using pq.put_all_spec [OF ok] that(3) by (metis prod.inject)
    then show ?thesis using pipe_write_ok [OF e(1) ok pipe_user_mono [OF e(3) that(2)] that(1,3)] pipe_inv_shape [OF inv]
      by (auto simp: pipe_write_end_def)
  qed
  show "\<exists>s'. pipe_read_end fr rb (int k) s = Ok (int (length cs)) s' \<and> pipe_inv fw fr pi wb rb n s' \<and> view_of s' pi = v \<and>
      bytes (hmem s') rb (length cs) = cs" if "0 < k" "k \<le> n" "get_all pipe_get k (view_of s pi) = (cs, v)"
  proof -
    have v: "pipe_ok v" "length cs \<le> k" using pq.get_all_spec [OF ok, of k] that(3) by auto
    have "bytes (put (hmem s) rb cs) rb (length cs) = cs" using bytes_put [of cs] v(2) that(2) e(4) by (simp add: pipe_user_def)
    then show ?thesis using pipe_read_ok [OF e(2) ok pipe_user_mono [OF e(4) that(2)] that(1,3)] pipe_inv_shape [OF inv] v(1)
      by (auto simp: pipe_read_end_def)
  qed
qed

text \<open>A pipe is a first in, first out queue: whatever the two processes write and read, in any order and in
  pieces of any size, no call fails, the bytes delivered are the bytes accepted (after those that were in the
  pipe), in order, without loss or repetition, and what is still in the pipe is the rest.\<close>

theorem pipe_conversation_fifo:
  assumes "pipe_inv fw fr pi wb rb n s" and "\<forall>r \<in> set rs. request_size r \<le> n"
  shows "\<exists>accepted delivered s'. talk (pipe_write_end fw wb) (pipe_read_end fr rb) wb rb rs s = Ok (accepted, delivered) s' \<and>
    pipe_inv fw fr pi wb rb n s' \<and> pipe_contents (view_of s pi) @ accepted = delivered @ pipe_contents (view_of s' pi)"
  by (rule pipe_channel.talk_fifo [OF assms])

theorem pipe_conversation_fifo_witness:
  "\<exists>accepted delivered s'. talk (pipe_write_end 0x4000 0x400000) (pipe_read_end 0x4100 0x500000) 0x400000 0x500000
       [Put [1, 2, 3, 4, 5, 6, 7, 8, 9, 10], Get 4, Put [11, 12], Get 20] demo_io = Ok (accepted, delivered) s' \<and>
    pipe_contents (view_of demo_io 0x7000) @ accepted = delivered @ pipe_contents (view_of s' 0x7000)"
proof -
  have r: "apart 0x400000 100 0x10000 8" "apart 0x500000 100 0x10000 8"
    by (rule apart_sym, rule apart_ordered; simp)+
  have "pipe_inv 0x4000 0x4100 0x7000 0x400000 0x500000 100 demo_io"
    using r by (simp add: pipe_inv_def pipe_end_def pipe_user_def demo_pipe_file_def pipe_view_def bytes_def)
  from pipe_conversation_fifo [OF this, of "[Put [1, 2, 3, 4, 5, 6, 7, 8, 9, 10], Get 4, Put [11, 12], Get 20]"]
  show ?thesis by (simp add: request_size_def del: talk.simps) blast
qed

end
