(* ===== verification/Tty_Laws.thy ===== *)
theory Tty_Laws
  imports Pipe_Laws Demo_IO
begin

text \<open>
  The queues of a terminal are byte queues as well: the interpretation of \<open>byte_queue\<close>, the loops that
  read, write and flush, and a conversation over a pair of terminals.
\<close>

section \<open>One byte\<close>

definition tq_size :: "tty_queue \<Rightarrow> nat" where
  "tq_size q = nat (q_buffer_size q)"

definition tq_length :: "tty_queue \<Rightarrow> nat" where
  "tq_length q = (unat (q_head q) + tq_size q - unat (q_tail q)) mod tq_size q"

definition tq_ok :: "tty_queue \<Rightarrow> bool" where
  "tq_ok q \<longleftrightarrow> 0 < q_buffer_size q \<and> q_buffer_size q \<le> 1024 \<and> unat (q_head q) < tq_size q \<and> unat (q_tail q) < tq_size q \<and>
     q_cnt q = int (tq_length q)"

definition tq_contents :: "tty_queue \<Rightarrow> u8 list" where
  "tq_contents q = map (\<lambda>i. q_buf q ((unat (q_tail q) + i) mod tq_size q)) [0..<tq_length q]"

definition tq_room :: "tty_queue \<Rightarrow> nat" where
  "tq_room q = tq_size q - 1 - tq_length q"

definition tq_put :: "u8 \<Rightarrow> tty_queue \<Rightarrow> tty_queue option" where
  "tq_put c q = (case tty_queue_putchar c q of Ok r q1 \<Rightarrow> if r < 0 then None else Some q1 | _ \<Rightarrow> None)"

definition tq_get :: "tty_queue \<Rightarrow> (u8 \<times> tty_queue) option" where
  "tq_get q = (case tty_queue_getchar q of Ok r q1 \<Rightarrow> if r < 0 then None else Some (word_of_int r, q1) | _ \<Rightarrow> None)"

lemma next_slot:
  fixes x :: u64
  assumes "0 < q_buffer_size q" and "q_buffer_size q \<le> 1024" and "unat x < tq_size q"
  shows "unat ((x + 1) mod word_of_int (q_buffer_size q)) = (unat x + 1) mod tq_size q"
proof -
  have n: "tq_size q \<le> 1024" "0 < tq_size q" "q_buffer_size q = int (tq_size q)" using assms by (auto simp: tq_size_def)
  have "unat (word_of_int (q_buffer_size q) :: u64) = tq_size q" using n by (simp add: unat_of_nat64)
  moreover have "unat (x + 1) = unat x + 1" using assms(3) n by (simp add: unat_word_ariths)
  ultimately show ?thesis by (simp add: unat_mod)
qed

text \<open>The arithmetic of the ring, on naturals: \<open>h\<close> is the head, \<open>t\<close> the tail, \<open>n\<close> the size.\<close>

lemma ring_length:
  fixes h t n :: nat
  assumes "h < n" and "t < n"
  shows "(h + n - t) mod n = (if t \<le> h then h - t else h + n - t)"
proof (cases "t \<le> h")
  case True
  then have e: "h + n - t = (h - t) + n" by simp
  show ?thesis using True assms by (simp only: e mod_add_self2) simp
next
  case False
  then show ?thesis using assms by simp
qed

lemma ring_next: "h < n \<Longrightarrow> (h + 1) mod n = (if h + 1 = n then 0 else h + 1 :: nat)"
  by simp

lemma ring_suc_head:
  fixes h t n :: nat
  assumes "h < n" and "t < n" and "(h + 1) mod n \<noteq> t"
  shows "((h + 1) mod n + n - t) mod n = Suc ((h + n - t) mod n)" "(t + (h + n - t) mod n) mod n = h"
proof -
  have h: "(h + 1) mod n < n" using assms(1) by simp
  show "((h + 1) mod n + n - t) mod n = Suc ((h + n - t) mod n)"
    unfolding ring_length [OF h assms(2)] ring_length [OF assms(1,2)] using assms ring_next [OF assms(1)] by auto
  show "(t + (h + n - t) mod n) mod n = h" unfolding ring_length [OF assms(1,2)] using assms by (cases "t \<le> h") auto
qed

lemma ring_full:
  fixes h t n :: nat
  assumes "h < n" and "t < n"
  shows "(h + 1) mod n = t \<longleftrightarrow> (h + n - t) mod n = n - 1"
  unfolding ring_length [OF assms] ring_next [OF assms(1)] using assms by auto

lemma ring_suc_tail:
  fixes h t n :: nat
  assumes "h < n" and "t < n" and "h \<noteq> t"
  shows "Suc ((h + n - (t + 1) mod n) mod n) = (h + n - t) mod n"
proof -
  have t: "(t + 1) mod n < n" using assms(2) by simp
  show ?thesis unfolding ring_length [OF assms(1) t] ring_length [OF assms(1,2)] unfolding ring_next [OF assms(2)] using assms by auto
qed

lemma tq_putchar:
  assumes "tq_ok q" and "0 < tq_room q"
  shows "\<exists>q'. tty_queue_putchar c q = Ok 0 q' \<and> tq_ok q' \<and> tq_contents q' = tq_contents q @ [c] \<and> tq_room q = Suc (tq_room q') \<and> q_buffer_size q' = q_buffer_size q"
proof -
  let ?n = "tq_size q" and ?h = "unat (q_head q)" and ?t = "unat (q_tail q)"
  have b: "0 < q_buffer_size q" "q_buffer_size q \<le> 1024" "?h < ?n" "?t < ?n" and cnt: "q_cnt q = int (tq_length q)"
    using assms(1) by (auto simp: tq_ok_def)
  have n: "?n \<le> 1024" using b by (simp add: tq_size_def)
  have nf: "(?h + 1) mod ?n \<noteq> ?t" using assms(2) ring_full [OF b(3,4)] by (simp add: tq_room_def tq_length_def)
  let ?x = "(q_head q + 1) mod word_of_int (q_buffer_size q)"
  have ux: "unat ?x = (?h + 1) mod ?n" by (rule next_slot [OF b(1,2,3)])
  let ?q = "q\<lparr>q_buf := (q_buf q)(?h := c), q_head := ?x, q_cnt := q_cnt q + 1\<rparr>"
  have "?x \<noteq> q_tail q" using nf ux by auto
  then have "tty_queue_putchar c q = Ok 0 ?q" using b n by (simp add: tty_queue_putchar_def Let_def)
  moreover have len: "tq_length ?q = Suc (tq_length q)" "tq_size ?q = ?n"
    using ring_suc_head(1) [OF b(3,4) nf] ux by (simp_all add: tq_length_def tq_size_def)
  moreover have "tq_ok ?q" using b cnt len ux by (simp add: tq_ok_def)
  moreover have "tq_contents ?q = tq_contents q @ [c]"
  proof -
    have "(?t + i) mod ?n \<noteq> ?h" if "i < tq_length q" for i
    proof
      assume "(?t + i) mod ?n = ?h"
      then have "(?t + i) mod ?n = (?t + tq_length q) mod ?n" using ring_suc_head(2) [OF b(3,4) nf] by (simp add: tq_length_def)
      moreover have "tq_length q < ?n" using b by (simp add: tq_length_def)
      ultimately show False using ring_index_neq [of "int i" "int (tq_length q)" "int ?n" "int ?t"] that
        by (metis of_nat_0_le_iff of_nat_add of_nat_less_iff zmod_int)
    qed
    moreover have "(?t + tq_length q) mod ?n = ?h" using ring_suc_head(2) [OF b(3,4) nf] by (simp add: tq_length_def)
    ultimately show ?thesis unfolding tq_contents_def len by simp
  qed
  moreover have "tq_room q = Suc (tq_room ?q)" unfolding tq_room_def len using assms(2) by (simp add: tq_room_def)
  ultimately show ?thesis by auto
qed

lemma tq_putchar_full:
  assumes "tq_ok q" and "tq_room q = 0"
  shows "tty_queue_putchar c q = Ok (- 1) q"
proof -
  have b: "0 < q_buffer_size q" "q_buffer_size q \<le> 1024" "unat (q_head q) < tq_size q" "unat (q_tail q) < tq_size q"
    using assms(1) by (auto simp: tq_ok_def)
  have "tq_length q < tq_size q" using b by (simp add: tq_length_def)
  then have "(unat (q_head q) + 1) mod tq_size q = unat (q_tail q)"
    using assms(2) ring_full [OF b(3,4)] by (simp add: tq_room_def tq_length_def)
  then have "(q_head q + 1) mod word_of_int (q_buffer_size q) = q_tail q"
    using next_slot [OF b(1,2,3)] by (simp add: word_unat_eq_iff)
  then show ?thesis using b by (simp add: tty_queue_putchar_def Let_def)
qed

text \<open>Taking a byte: the tail moves on, whoever does it.\<close>

lemma tq_step:
  assumes "tq_ok q" and "tq_contents q = c # cs"
  defines "q1 \<equiv> q\<lparr>q_tail := (q_tail q + 1) mod word_of_int (q_buffer_size q), q_cnt := q_cnt q - 1\<rparr>"
  shows "q_tail q \<noteq> q_head q" "unat (q_tail q) < TTY_BUF_SIZE" "q_buffer_size q \<noteq> 0" "0 < q_cnt q" "q_buf q (unat (q_tail q)) = c"
    "tq_ok q1" "tq_contents q1 = cs" "tq_room q1 = Suc (tq_room q)"
proof -
  let ?n = "tq_size q" and ?h = "unat (q_head q)" and ?t = "unat (q_tail q)"
  have b: "0 < q_buffer_size q" "q_buffer_size q \<le> 1024" "?h < ?n" "?t < ?n" and cnt: "q_cnt q = int (tq_length q)"
    using assms(1) by (auto simp: tq_ok_def)
  have "length (tq_contents q) = tq_length q" by (simp add: tq_contents_def)
  then have "tq_length q = Suc (length cs)" using assms(2) by simp
  then obtain k where k: "tq_length q = Suc k" by blast
  show ne: "q_tail q \<noteq> q_head q" using k b by (auto simp: tq_length_def)
  show "unat (q_tail q) < TTY_BUF_SIZE" "q_buffer_size q \<noteq> 0" "0 < q_cnt q" using b cnt k by (auto simp: tq_size_def)
  have "tq_contents q ! 0 = q_buf q ?t" using k b by (simp add: tq_contents_def del: upt_Suc)
  then show "q_buf q ?t = c" using assms(2) by simp
  have ux: "unat (q_tail q1) = (?t + 1) mod ?n" using next_slot [OF b(1,2,4)] by (simp add: q1_def)
  have "?h \<noteq> ?t" using ne by (auto simp: word_unat_eq_iff)
  then have len: "tq_length q1 = k" "tq_size q1 = ?n"
    using ring_suc_tail [OF b(3,4)] ux k by (simp_all add: tq_length_def tq_size_def q1_def)
  then show "tq_ok q1" using b cnt k ux by (simp add: tq_ok_def q1_def)
  show "tq_contents q1 = cs"
  proof (rule nth_equalityI)
    have "Suc (length cs) = length (tq_contents q)" using assms(2) by simp
    then have "length cs = k" using k by (simp add: tq_contents_def)
    then show "length (tq_contents q1) = length cs" using len by (simp add: tq_contents_def)
    fix i assume "i < length (tq_contents q1)"
    then have i: "i < k" using len by (simp add: tq_contents_def)
    have "cs ! i = tq_contents q ! Suc i" using assms(2) by simp
    also have "\<dots> = q_buf q ((?t + Suc i) mod ?n)" using i k by (simp add: tq_contents_def del: upt_Suc)
    also have "\<dots> = q_buf q (((?t + 1) mod ?n + i) mod ?n)" by (simp add: mod_add_left_eq)
    finally show "tq_contents q1 ! i = cs ! i" using i len ux by (simp add: tq_contents_def q1_def)
  qed
  show "tq_room q1 = Suc (tq_room q)"
  proof -
    have "Suc k < ?n" using k b by (metis tq_length_def mod_less_divisor gr_zeroI not_less_zero)
    then show ?thesis using len k by (simp add: tq_room_def)
  qed
qed

lemma tq_getchar:
  assumes "tq_ok q" and "tq_contents q = c # cs"
  shows "\<exists>q'. tty_queue_getchar q = Ok (uint c) q' \<and> tq_ok q' \<and> tq_contents q' = cs \<and> tq_room q' = Suc (tq_room q)"
  using tq_step [OF assms] by (auto simp: tty_queue_getchar_def)

lemma tq_empty:
  assumes "tq_ok q" and "tq_contents q = []"
  shows "q_head q = q_tail q"
proof -
  have b: "unat (q_head q) < tq_size q" "unat (q_tail q) < tq_size q" using assms(1) by (auto simp: tq_ok_def)
  have "tq_length q = 0" using assms(2) by (simp add: tq_contents_def)
  then have "unat (q_head q) = unat (q_tail q)" using ring_length [OF b] b by (auto simp: tq_length_def split: if_splits)
  then show ?thesis by (simp add: word_unat_eq_iff)
qed

lemma tq_getchar_empty: "tq_ok q \<Longrightarrow> tq_contents q = [] \<Longrightarrow> tty_queue_getchar q = Ok (- 1) q"
  using tq_empty by (simp add: tty_queue_getchar_def)

interpretation tq: byte_queue tq_ok tq_contents tq_room tq_put tq_get
proof
  fix q :: tty_queue and c cs
  show "tq_ok q \<Longrightarrow> 0 < tq_room q \<Longrightarrow> \<exists>q'. tq_put c q = Some q' \<and> tq_ok q' \<and> tq_contents q' = tq_contents q @ [c] \<and> tq_room q = Suc (tq_room q')"
    using tq_putchar [of q c] by (auto simp: tq_put_def)
  show "tq_ok q \<Longrightarrow> tq_room q = 0 \<Longrightarrow> tq_put c q = None" by (simp add: tq_put_def tq_putchar_full)
  show "tq_ok q \<Longrightarrow> tq_contents q = c # cs \<Longrightarrow> \<exists>q'. tq_get q = Some (c, q') \<and> tq_ok q' \<and> tq_contents q' = cs \<and> tq_room q' = Suc (tq_room q)"
    using tq_getchar [of q c cs] by (auto simp: tq_get_def)
  show "tq_ok q \<Longrightarrow> tq_contents q = [] \<Longrightarrow> tq_get q = None" by (simp add: tq_get_def tq_getchar_empty)
qed

section \<open>The loops\<close>

lemma get_set_queue [simp]: "get_queue w (set_queue w q t) = q" "set_queue w q (set_queue w q' t) = set_queue w q t"
  "set_queue w (get_queue w t) t = t" "tty_magic (set_queue w q t) = tty_magic t"
  by (cases w; simp)+

lemma upd_tty_simps [simp]:
  "ttys (upd_tty t f s) = (ttys s)(t := f (ttys s t))" "hmem (upd_tty t f s) = hmem s" "console_out (upd_tty t f s) = console_out s"
  by (simp_all add: upd_tty_def)

lemma upd_queue_twice: "upd_tty t (set_queue w q) (upd_tty t (set_queue w q') s) = upd_tty t (set_queue w q) s"
  by (simp add: upd_tty_def)

lemma upd_queue_same: "upd_tty t (set_queue w (get_queue w (ttys s t))) s = s"
  by (simp add: upd_tty_def)

lemma upd_queue_hmem: "(upd_tty t f s)\<lparr>hmem := m\<rparr> = upd_tty t f (s\<lparr>hmem := m\<rparr>)"
  by (simp add: upd_tty_def)

lemma tty_write_loop2_all:
  assumes "tq_ok (output_queue (ttys s t))" and "put_all tq_put (bytes (hmem s) (at_index b k) n) (output_queue (ttys s t)) = (j, q)"
  shows "tty_write_loop2 n t b k s = Ok (k + int j) (upd_tty t (set_queue Output q) s)"
  using assms
proof (induction n arbitrary: k s j q)
  case 0
  then show ?case using upd_queue_same [of t Output s] by (auto simp: bytes_def simp del: set_queue.simps)
next
  case (Suc n)
  let ?o = "output_queue (ttys s t)" and ?c = "hmem s (at_index b k)"
  have cons: "bytes (hmem s) (at_index b k) (Suc n) = ?c # bytes (hmem s) (at_index b (k + 1)) n"
    by (rule nth_equalityI) (auto simp: nth_Cons' algebra_simps split: nat.split)
  show ?case
  proof (cases "tq_room ?o = 0")
    case True
    then have "tty_queue_putchar ?c ?o = Ok (- 1) ?o" using tq_putchar_full [OF Suc.prems(1)] by blast
    moreover have "j = 0" "q = ?o" using Suc.prems(2) tq.put_full [OF Suc.prems(1) True] by (auto simp: cons)
    ultimately show ?thesis using upd_queue_same [of t Output s] by (simp add: on_queue_def del: set_queue.simps)
  next
    case False
    then obtain q1 where q1: "tty_queue_putchar ?c ?o = Ok 0 q1" "tq_ok q1" using tq_putchar [OF Suc.prems(1), of ?c] by auto
    let ?s = "upd_tty t (set_queue Output q1) s"
    have "tq_put ?c ?o = Some q1" using q1(1) by (simp add: tq_put_def)
    then obtain j' where j: "j = Suc j'" "put_all tq_put (bytes (hmem s) (at_index b (k + 1)) n) q1 = (j', q)"
      using Suc.prems(2) by (auto simp: cons split: prod.splits)
    have "tty_write_loop2 n t b (k + 1) ?s = Ok (k + 1 + int j') (upd_tty t (set_queue Output q) ?s)"
      using Suc.IH [of ?s "k + 1" j' q] q1(2) j(2) by (simp del: set_queue.simps(3) add: get_set_queue(1) [of Output, unfolded get_queue.simps])
    then show ?thesis using q1(1) j(1) by (simp add: on_queue_def upd_queue_twice del: set_queue.simps)
  qed
qed

lemma tty_read_loop_all:
  assumes "tq_ok (get_queue w (ttys s t))" and "get_all tq_get n (get_queue w (ttys s t)) = (cs, q)" and "n < 2 ^ 64"
  shows "tty_read_loop False w n t b k s = Ok (k + int (length cs)) (upd_tty t (set_queue w q) (s\<lparr>hmem := put (hmem s) (at_index b k) cs\<rparr>))"
  using assms
proof (induction n arbitrary: k s cs q)
  case 0
  then show ?case using upd_queue_same [of t w s] by auto
next
  case (Suc n)
  let ?q = "get_queue w (ttys s t)"
  show ?case
  proof (cases "tq_contents ?q")
    case Nil
    then have "tty_queue_getchar ?q = Ok (- 1) ?q" by (rule tq_getchar_empty [OF Suc.prems(1)])
    moreover have "cs = []" "q = ?q" using Suc.prems(2) tq.get_empty [OF Suc.prems(1) Nil] by auto
    ultimately show ?thesis by (simp add: on_queue_def upd_queue_same)
  next
    case (Cons c ds)
    then obtain q1 where q1: "tty_queue_getchar ?q = Ok (uint c) q1" "tq_ok q1" using tq_getchar [OF Suc.prems(1)] by blast
    let ?s = "upd_tty t (set_queue w q1) (s\<lparr>hmem := (hmem s)(at_index b k := c)\<rparr>)"
    have "tq_get ?q = Some (c, q1)" using q1(1) by (simp add: tq_get_def not_less)
    then obtain cs' where cs: "cs = c # cs'" "get_all tq_get n q1 = (cs', q)" using Suc.prems(2) by (auto split: prod.splits)
    have l: "length cs' < 2 ^ 64" using tq.get_all_spec [OF q1(2), of n] cs(2) Suc.prems(3) by auto
    have "tty_read_loop False w n t b (k + 1) ?s = Ok (k + 1 + int (length cs')) (upd_tty t (set_queue w q) (?s\<lparr>hmem := put (hmem ?s) (at_index b (k + 1)) cs'\<rparr>))"
      using Suc.IH [of ?s cs' q "k + 1"] q1(2) cs(2) Suc.prems(3) by (simp del: fun_upd_apply add: fun_upd_same)
    also have "?s\<lparr>hmem := put (hmem ?s) (at_index b (k + 1)) cs'\<rparr> = upd_tty t (set_queue w q1) (s\<lparr>hmem := put (hmem s) (at_index b k) cs\<rparr>)"
      using put_Cons [OF l, of "hmem s" "at_index b k" c] by (simp add: cs upd_queue_hmem add.assoc del: fun_upd_apply)
    finally show ?thesis using q1(1) by (simp add: on_queue_def cs upd_queue_twice upd_queue_hmem not_less add.assoc del: fun_upd_apply)
  qed
qed

text \<open>Flushing shows the contents in order and leaves the queue empty.\<close>

lemma flush_console_ok:
  assumes "tq_ok (get_queue w (ttys s t))"
  shows "\<exists>q. flush_loop w t (to_console n) s
      = Some (Ok () ((upd_tty t (set_queue w q) s)\<lparr>console_out := console_out s @ map (Pair n) (tq_contents (get_queue w (ttys s t)))\<rparr>)) \<and>
    tq_ok q \<and> tq_contents q = []"
  using assms
proof (induction "tq_contents (get_queue w (ttys s t))" arbitrary: s)
  case Nil
  let ?q = "get_queue w (ttys s t)"
  have "q_tail ?q = q_head ?q" using tq_empty [of ?q] Nil by simp
  then have "flush_loop w t (to_console n) s = Some (Ok () s)" by (subst flush_loop.simps) simp
  then show ?case using Nil upd_queue_same [of t w s] by (intro exI [of _ ?q]) (simp flip: Nil(1))
next
  case (Cons c cs)
  let ?q = "get_queue w (ttys s t)"
  define q1 where "q1 = ?q\<lparr>q_tail := (q_tail ?q + 1) mod word_of_int (q_buffer_size ?q), q_cnt := q_cnt ?q - 1\<rparr>"
  note st = tq_step [OF Cons.prems Cons.hyps(2) [symmetric], folded q1_def]
  let ?s = "to_console n c (upd_tty t (set_queue w q1) s)"
  have g: "get_queue w (ttys ?s t) = q1" by (simp add: to_console_def)
  have e: "flush_loop w t (to_console n) s = flush_loop w t (to_console n) ?s"
    using st(1-5) by (subst flush_loop.simps) (simp add: Let_def q1_def)
  obtain q where q: "flush_loop w t (to_console n) ?s
      = Some (Ok () ((upd_tty t (set_queue w q) ?s)\<lparr>console_out := console_out ?s @ map (Pair n) (tq_contents q1)\<rparr>))" "tq_ok q" "tq_contents q = []"
    using Cons.hyps(1) [of ?s] st(6,7) unfolding g by blast
  have "(upd_tty t (set_queue w q) ?s)\<lparr>console_out := console_out ?s @ map (Pair n) (tq_contents q1)\<rparr>
      = (upd_tty t (set_queue w q) s)\<lparr>console_out := console_out s @ map (Pair n) (c # cs)\<rparr>"
    unfolding st(7) by (simp add: to_console_def upd_tty_def)
  then show ?case using e q Cons.hyps(2) by auto
qed

section \<open>The pseudo terminal\<close>

text \<open>
  The way from the slave to the master: the slave writes to the output queue of the master, and the master
  reads it. \<open>t\<close> is the terminal of the master.
\<close>

definition tty_inv :: "ptr \<Rightarrow> ptr \<Rightarrow> ptr \<Rightarrow> nat \<Rightarrow> iostate \<Rightarrow> bool" where
  "tty_inv t wb rb n s \<longleftrightarrow> t \<noteq> NULL \<and> tty_magic (ttys s t) = TTY_MAGIC \<and> tq_ok (output_queue (ttys s t)) \<and> wb \<noteq> NULL \<and> rb \<noteq> NULL \<and> n < 2 ^ 64"

interpretation pty_output: byte_channel tq_ok tq_contents tq_room tq_put tq_get
  "tty_inv t wb rb n" "\<lambda>s. output_queue (ttys s t)" "tty_write2 t wb" "tty_read2 t rb" wb rb n
  for t wb rb n
proof
  fix s xs k j v cs
  assume inv: "tty_inv t wb rb n s"
  then show ok: "tq_ok (output_queue (ttys s t))" by (simp add: tty_inv_def)
  show "length xs \<le> n \<Longrightarrow> tty_inv t wb rb n (s\<lparr>hmem := put (hmem s) wb xs\<rparr>) \<and>
      output_queue (ttys (s\<lparr>hmem := put (hmem s) wb xs\<rparr>) t) = output_queue (ttys s t) \<and> bytes (put (hmem s) wb xs) wb (length xs) = xs"
    using inv bytes_put [of xs "hmem s" wb] by (simp add: tty_inv_def)
  show "\<exists>e \<le> 0. tty_write2 t wb 0 s = Ok e s" "\<exists>e \<le> 0. tty_read2 t rb 0 s = Ok e s"
    by (auto simp: tty_write2_def tty_read2_def)
  show "\<exists>s'. tty_write2 t wb (int k) s = Ok (int j) s' \<and> tty_inv t wb rb n s' \<and> output_queue (ttys s' t) = v"
    if "0 < k" "k \<le> n" "put_all tq_put (bytes (hmem s) wb k) (output_queue (ttys s t)) = (j, v)"
  proof -
    have "tq_ok v" using tq.put_all_spec [OF ok] that(3) by (metis prod.inject)
    moreover have "tty_write2 t wb (int k) s = Ok (int j) (upd_tty t (set_queue Output v) s)"
      using tty_write_loop2_all [OF ok, of wb 0 k j v] that inv by (simp add: tty_write2_def tty_inv_def)
    ultimately show ?thesis using inv by (simp add: tty_inv_def)
  qed
  show "\<exists>s'. tty_read2 t rb (int k) s = Ok (int (length cs)) s' \<and> tty_inv t wb rb n s' \<and> output_queue (ttys s' t) = v \<and>
      bytes (hmem s') rb (length cs) = cs" if "0 < k" "k \<le> n" "get_all tq_get k (output_queue (ttys s t)) = (cs, v)"
  proof -
    have v: "tq_ok v" "length cs \<le> k" using tq.get_all_spec [OF ok, of k] that(3) by auto
    have b: "bytes (put (hmem s) rb cs) rb (length cs) = cs" using bytes_put [of cs] v(2) that(2) inv by (simp add: tty_inv_def)
    have "tty_read2 t rb (int k) s = Ok (int (length cs)) (upd_tty t (set_queue Output v) (s\<lparr>hmem := put (hmem s) rb cs\<rparr>))"
      using tty_read_loop_all [of Output s t k cs v rb 0] ok that inv by (simp add: tty_read2_def tty_inv_def)
    then show ?thesis using inv v b by (simp add: tty_inv_def)
  qed
qed

text \<open>C18. The output of a pseudo terminal is a first in, first out queue: in any conversation of the slave, which
  writes, and the master, which reads, the bytes delivered are the bytes accepted, in order, without loss or
  repetition.\<close>

theorem pty_conversation_fifo:
  assumes "tty_inv t wb rb n s" and "\<forall>r \<in> set rs. request_size r \<le> n"
  shows "\<exists>accepted delivered s'. talk (tty_write2 t wb) (tty_read2 t rb) wb rb rs s = Ok (accepted, delivered) s' \<and>
    tty_inv t wb rb n s' \<and> tq_contents (output_queue (ttys s t)) @ accepted = delivered @ tq_contents (output_queue (ttys s' t))"
  by (rule pty_output.talk_fifo [OF assms])

lemma demo_queue_ok [simp]: "tq_ok demo_queue" "tq_contents demo_queue = []" "tq_room demo_queue = 1023"
  by (simp_all add: tq_ok_def tq_contents_def tq_room_def tq_length_def tq_size_def demo_queue_def)

theorem pty_conversation_fifo_witness:
  "\<exists>accepted delivered s'. talk (tty_write2 0x8000 0x400000) (tty_read2 0x8000 0x500000) 0x400000 0x500000
       [Put [1, 2, 3, 4, 5], Get 2, Put [6], Get 9] demo_io = Ok (accepted, delivered) s' \<and>
    tq_contents demo_queue @ accepted = delivered @ tq_contents (output_queue (ttys s' 0x8000))"
proof -
  have "tty_inv 0x8000 0x400000 0x500000 100 demo_io" by (simp add: tty_inv_def demo_tty_def)
  from pty_conversation_fifo [OF this, of "[Put [1, 2, 3, 4, 5], Get 2, Put [6], Get 9]"]
  show ?thesis by (simp add: request_size_def demo_tty_def del: talk.simps) blast
qed

text \<open>A terminal shows what was written to it: on a terminal with an empty output queue, flushing after a
  write that fits gives the console exactly the bytes written, in order, once each, and the flush ends with an
  empty queue.\<close>

theorem console_shows_output:
  assumes "t \<noteq> NULL" and "tty_magic (ttys s t) = TTY_MAGIC" and "tq_ok (output_queue (ttys s t))" and "tq_contents (output_queue (ttys s t)) = []"
    and "b \<noteq> NULL" and "0 < n" and "n \<le> tq_room (output_queue (ttys s t))"
  shows "\<exists>s1 s2. tty_write2 t b (int n) s = Ok (int n) s1 \<and> tty_flush_output_queue t c s1 = Some (Ok () s2) \<and>
    console_out s2 = console_out s @ map (Pair c) (bytes (hmem s) b n) \<and> tq_contents (output_queue (ttys s2 t)) = []"
proof -
  let ?o = "output_queue (ttys s t)"
  obtain q where q: "put_all tq_put (bytes (hmem s) b n) ?o = (n, q)" "tq_ok q" "tq_contents q = bytes (hmem s) b n"
    using tq.put_all_spec [OF assms(3), of "bytes (hmem s) b n"] assms(4,7) by (auto simp: min_def)
  let ?s1 = "upd_tty t (set_queue Output q) s"
  have w: "tty_write2 t b (int n) s = Ok (int n) ?s1"
    using tty_write_loop2_all [OF assms(3), of b 0 n n q] q(1) assms(1,2,5,6) by (simp add: tty_write2_def)
  obtain q' where q': "flush_loop Output t (to_console c) ?s1
      = Some (Ok () ((upd_tty t (set_queue Output q') ?s1)\<lparr>console_out := console_out s @ map (Pair c) (bytes (hmem s) b n)\<rparr>))"
      "tq_contents q' = []"
    using flush_console_ok [of Output ?s1 t c] q by auto
  have "tty_flush_output_queue t c ?s1
      = Some (Ok () ((upd_tty t (set_queue Output q') ?s1)\<lparr>console_out := console_out s @ map (Pair c) (bytes (hmem s) b n)\<rparr>))"
    using q'(1) assms(1,2) by (simp add: tty_flush_output_queue_def)
  then show ?thesis using w q'(2) by (intro exI conjI) auto
qed

theorem console_shows_output_witness:
  "\<exists>s1 s2. tty_write2 0x8000 0x300000 (int 4) demo_io = Ok (int 4) s1 \<and> tty_flush_output_queue 0x8000 0 s1 = Some (Ok () s2) \<and>
    console_out s2 = map (Pair 0) (bytes demo_memory 0x300000 4)"
  using console_shows_output [of "0x8000" demo_io "0x300000" 4 0] by (simp add: demo_tty_def) blast

section \<open>Input\<close>

lemma tty_write_loop1_full:
  assumes "tq_ok (raw_queue (ttys s t))" and "tq_room (raw_queue (ttys s t)) = 0"
  shows "tty_write_loop1 n t b k s = Ok () s"
proof (induction n arbitrary: k)
  case (Suc n)
  have "on_queue Raw t (tty_queue_putchar c) s = Ok (- 1) s" for c
    using tq_putchar_full [OF assms, of c] upd_queue_same [of t Raw s] by (simp add: on_queue_def del: set_queue.simps)
  then show ?case using Suc by simp
qed simp

lemma tty_write_loop1_all:
  assumes "tq_ok (raw_queue (ttys s t))" and "put_all tq_put (bytes (hmem s) (at_index b k) n) (raw_queue (ttys s t)) = (j, q)"
  shows "tty_write_loop1 n t b k s = Ok () (upd_tty t (set_queue Raw q) s)"
  using assms
proof (induction n arbitrary: k s j q)
  case 0
  then show ?case using upd_queue_same [of t Raw s] by (auto simp: bytes_def simp del: set_queue.simps)
next
  case (Suc n)
  let ?o = "raw_queue (ttys s t)" and ?c = "hmem s (at_index b k)"
  have cons: "bytes (hmem s) (at_index b k) (Suc n) = ?c # bytes (hmem s) (at_index b (k + 1)) n"
    by (rule nth_equalityI) (auto simp: nth_Cons' algebra_simps split: nat.split)
  show ?case
  proof (cases "tq_room ?o = 0")
    case True
    then have "q = ?o" using Suc.prems(2) tq.put_full [OF Suc.prems(1) True] by (auto simp: cons)
    then show ?thesis using tty_write_loop1_full [OF Suc.prems(1) True] upd_queue_same [of t Raw s] by (simp del: tty_write_loop1.simps set_queue.simps)
  next
    case False
    then obtain q1 where q1: "tty_queue_putchar ?c ?o = Ok 0 q1" "tq_ok q1" using tq_putchar [OF Suc.prems(1), of ?c] by auto
    let ?s = "upd_tty t (set_queue Raw q1) s"
    have "tq_put ?c ?o = Some q1" using q1(1) by (simp add: tq_put_def)
    then obtain j' where "put_all tq_put (bytes (hmem s) (at_index b (k + 1)) n) q1 = (j', q)"
      using Suc.prems(2) by (auto simp: cons split: prod.splits)
    then have "tty_write_loop1 n t b (k + 1) ?s = Ok () (upd_tty t (set_queue Raw q) ?s)"
      using Suc.IH [of ?s "k + 1" j' q] q1(2) by (simp del: set_queue.simps(1) add: get_set_queue(1) [of Raw, unfolded get_queue.simps])
    then show ?thesis using q1(1) by (simp add: on_queue_def upd_queue_twice del: set_queue.simps)
  qed
qed

text \<open>Input to a terminal is lost silently: writing more bytes to its input queue than fit (as the master of a
  pseudo terminal does) reports all of them as written, but only those that fit are in the queue afterwards.\<close>

theorem tty_input_reports_lost_bytes:
  assumes "t \<noteq> NULL" and "tq_ok (raw_queue (ttys s t))" and "b \<noteq> NULL" and "tq_room (raw_queue (ttys s t)) < n"
  shows "\<exists>s'. tty_write1 t b (int n) s = Ok (int n) s' \<and>
    tq_contents (raw_queue (ttys s' t)) = tq_contents (raw_queue (ttys s t)) @ bytes (hmem s) b (tq_room (raw_queue (ttys s t)))"
proof -
  let ?o = "raw_queue (ttys s t)"
  obtain q where q: "put_all tq_put (bytes (hmem s) b n) ?o = (tq_room ?o, q)" "tq_contents q = tq_contents ?o @ take (tq_room ?o) (bytes (hmem s) b n)"
    using tq.put_all_spec [OF assms(2), of "bytes (hmem s) b n"] assms(4) by (auto simp: min_def)
  have "take (tq_room ?o) (bytes (hmem s) b n) = bytes (hmem s) b (tq_room ?o)"
    using assms(4) by (simp add: bytes_def take_map)
  then show ?thesis using tty_write_loop1_all [OF assms(2), of b 0 n] q assms(1,3,4) by (auto simp: tty_write1_def)
qed

theorem tty_input_reports_lost_bytes_witness:
  "\<exists>s'. tty_write1 0x8000 0x300000 (int 1024) demo_io = Ok (int 1024) s' \<and>
    tq_contents (raw_queue (ttys s' 0x8000)) = bytes demo_memory 0x300000 1023"
  using tty_input_reports_lost_bytes [of "0x8000" demo_io "0x300000" 1024] by (simp add: demo_tty_def)

end
