(* ===== verification/Terminal_Screen.thy ===== *)
theory Terminal_Screen
  imports Escape_Laws Tty_Laws
begin

text \<open>
  From a terminal to the screen: what is written to a terminal (\<open>Tty\<close>) and flushed is given to
  \<open>console_outbyte\<close> of the console (\<open>Console\<close>), one character at a time. \<open>show_log\<close> makes the calls that
  the flushing logs.
\<close>

definition show_log :: "(int \<times> u8) list \<Rightarrow> constate \<Rightarrow> (constate, unit) res" where
  "show_log log d = foldR (\<lambda>(n, c). console_outbyte (sint c) n) log d"

lemma sint_printable: "c < 0x7F \<Longrightarrow> sint c = uint c" for c :: u8
  by (simp add: word_less_def signed_take_bit_int_eq_self sint_uint) (rule signed_take_bit_int_eq_self; simp add: order_trans [OF _ uint_ge_0])

lemma show_printable:
  assumes n: "\<not> no_console n"
  shows "display_inv wh R B s \<Longrightarrow> \<forall>c \<in> set cs. 0x20 \<le> c \<and> c < 0x7F \<Longrightarrow> c_lflag (con s n) AND ECHO \<noteq> 0 \<Longrightarrow>
    unat (cursor_x (con s n)) + length cs < unat (cursor_right (con s n)) \<Longrightarrow> cursor_y (con s n) < cursor_bottom (con s n) \<Longrightarrow>
    \<exists>t. show_log (map (Pair n) cs) s = Ok () t \<and> display_inv wh R B t \<and>
      glyphs (screen t) = glyphs (screen s) @ text_glyphs (word_of_int (char_width s)) (word_of_int (char_height s)) (fg_color (con s n)) (bg_color (con s n))
        (cursor_x (con s n)) (cursor_y (con s n)) cs"
proof (induction cs arbitrary: s)
  case (Cons c cs)
  have r: "unat (cursor_right (con s n) - 1) = unat (cursor_right (con s n)) - 1"
    using Cons.prems(4) by (intro unat_minus_one) auto
  then have x: "cursor_x (con s n) < cursor_right (con s n) - 1" using Cons.prems(4) by (simp add: word_less_nat_alt)
  have c: "0x20 \<le> c" "c < 0x7F" using Cons.prems(2) by auto
  from printable_char [OF Cons.prems(1) n c Cons.prems(3) x Cons.prems(5)] obtain t where
    t: "console_outbyte (uint c) n s = Ok () t" "con t n = (con s n)\<lparr>cursor_x := cursor_x (con s n) + 1, prev_char := c\<rparr>"
      "char_width t = char_width s" "char_height t = char_height s"
      "glyphs (screen t) = glyphs (screen s) @ text_glyphs (word_of_int (char_width s)) (word_of_int (char_height s)) (fg_color (con s n)) (bg_color (con s n))
      (cursor_x (con s n)) (cursor_y (con s n)) [c]" by blast
  have i: "display_inv wh R B t" using keepsD [OF keep_outbyte Cons.prems(1), of "uint c" n] t(1) by auto
  have u: "unat (cursor_x (con s n) + 1) = unat (cursor_x (con s n)) + 1"
    using Cons.prems(4) unsigned_less [of "cursor_right (con s n)", where 'a = nat] by (simp add: unat_word_ariths)
  show ?case
    using Cons.IH [OF i] Cons.prems t u c by (auto simp: show_log_def sint_printable)
qed (simp add: show_log_def)

text \<open>C16. What is written to a terminal is seen on the screen: printable bytes that fit in the output queue of a terminal
  and on the rest of the console's line are accepted whole, the flush ends, the characters it gives to the console
  return, and what the display then has more than before is a glyph for each of them, in order, in consecutive
  cells from the cursor on.\<close>

theorem terminal_output_on_screen:
  assumes "t \<noteq> NULL" and "tty_magic (ttys s t) = TTY_MAGIC" and "tq_ok (output_queue (ttys s t))" and "tq_contents (output_queue (ttys s t)) = []"
    and "b \<noteq> NULL" and "0 < n" and "n \<le> tq_room (output_queue (ttys s t))"
    and "display_inv wh R B d" and "\<not> no_console k" and "\<forall>c \<in> set (bytes (hmem s) b n). 0x20 \<le> c \<and> c < 0x7F" and "c_lflag (con d k) AND ECHO \<noteq> 0"
    and "unat (cursor_x (con d k)) + n < unat (cursor_right (con d k))" and "cursor_y (con d k) < cursor_bottom (con d k)"
  shows "\<exists>s1 s2 calls d'. tty_write2 t b (int n) s = Ok (int n) s1 \<and> tty_flush_output_queue t k s1 = Some (Ok () s2) \<and>
    console_out s2 = console_out s @ calls \<and> show_log calls d = Ok () d' \<and>
    glyphs (screen d') = glyphs (screen d) @ text_glyphs (word_of_int (char_width d)) (word_of_int (char_height d)) (fg_color (con d k)) (bg_color (con d k))
      (cursor_x (con d k)) (cursor_y (con d k)) (bytes (hmem s) b n)"
  using console_shows_output [OF assms(1-7), of k] show_printable [OF assms(9,8,10,11) _ assms(13)] assms(12) by fastforce

theorem terminal_output_on_screen_witness:
  "\<exists>d0 s1 s2 calls d'. VirtualConsole_early_initialization demo_display = Ok () d0 \<and>
    tty_write2 0x8000 0x300000 (int 2) (demo_io\<lparr>hmem := put demo_memory 0x300000 [72, 105]\<rparr>) = Ok (int 2) s1 \<and>
    tty_flush_output_queue 0x8000 0 s1 = Some (Ok () s2) \<and> show_log calls d0 = Ok () d' \<and>
    glyphs (screen d') = [Char_draw 0 0 72 COLOR_WHITE COLOR_BLUE, Char_draw 8 0 105 COLOR_WHITE COLOR_BLUE]"
proof -
  obtain d0 where d0: "VirtualConsole_early_initialization demo_display = Ok () d0" "display_inv (8, 8) 128 96 d0" using demo_started by blast
  have v: "cursor_x (con d0 0) = 0" "cursor_y (con d0 0) = 0" "cursor_right (con d0 0) = 128" "cursor_bottom (con d0 0) = 96"
      "c_lflag (con d0 0) = 1" "fg_color (con d0 0) = COLOR_WHITE" "bg_color (con d0 0) = COLOR_BLUE" "char_width d0 = 8" "char_height d0 = 8" "screen d0 = []"
    using d0 by (auto simp: VirtualConsole_early_initialization_def DDINIT_console_def no_console_def demo_display_def Let_def)
  let ?s = "demo_io\<lparr>hmem := put demo_memory 0x300000 [72, 105]\<rparr>"
  have b: "bytes (hmem ?s) 0x300000 2 = [72, 105]" by (simp add: bytes_def numeral_2_eq_2 put_def)
  from terminal_output_on_screen [of "0x8000" ?s "0x300000" 2 "(8, 8)" 128 96 d0 0] d0(2) b obtain s1 s2 calls d' where
    "tty_write2 0x8000 0x300000 (int 2) ?s = Ok (int 2) s1" "tty_flush_output_queue 0x8000 0 s1 = Some (Ok () s2)"
    "show_log calls d0 = Ok () d'" "glyphs (screen d') = text_glyphs 8 8 COLOR_WHITE COLOR_BLUE 0 0 [72, 105]"
    by (auto simp: v no_console_def demo_tty_def)
  then show ?thesis using d0(1) by (auto simp del: COLOR_WHITE_def COLOR_BLUE_def)
qed

end
