(* ===== verification/Read_Write.thy ===== *)
theory Read_Write
  imports Tty
begin

text \<open>
  The services that read, write and close an open file (\<open>__read_imp\<close>, \<open>__write_imp\<close> and \<open>__close_imp\<close> of
  per/fs/fslib.c) and the system calls over them (per/fs/fs.c), in src/coreos/kernel/halls/apphalls. A
  label that two branches of the C code jump to is a definition of its own. \<open>stk\<close> is the address of local
  buffers. A flush of a terminal may not end: \<open>None\<close>.
\<close>

section \<open>The current process\<close>

definition valid_current :: "iostate \<Rightarrow> ptr option" where
  "valid_current s =
     (let pid = get_current_process (ks s) in
      if pid < 0 \<or> pid \<ge> PROCESS_COUNT_MAX then None
      else let p = teList (ks s) pid in
      if p = NULL then None
      else if te_used (pheap (ks s) p) \<noteq> TRUE \<or> te_magic (pheap (ks s) p) \<noteq> 1234 then None
      else Some p)"

section \<open>Reading\<close>

definition read_socket :: "ptr \<Rightarrow> ptr \<Rightarrow> int \<Rightarrow> iostate \<Rightarrow> (iostate, int) res" where
  "read_socket fp ubuf count s =
     (let s = credit_current s; fi = files s fp in
      if f_flags fi AND SRD = 0 then Ok (- 1) s
      else if socket_buffer_full fi = FALSE
      then if block_on_read_empty (f_sync fi) = TRUE then Panic ''__read_imp: [DEBUG] Couldn't read socket. Buffer not full''
           else Ok (- 1) (yield_current (upd_file fp (\<lambda>fi. fi\<lparr>f_flags := SWR, tid_waiting := - 1\<rparr>) s))
      else if socket_buffer_full fi = TRUE
      then let (nbytes, s1) = file_read_buffer fp ubuf count s in
        if nbytes \<le> 0 then Ok (- 1) s1
        else Ok nbytes (upd_file fp (\<lambda>fi. fi\<lparr>socket_buffer_full := FALSE, f_flags := (f_flags fi AND NOT SRD) OR SWR, tid_waiting := - 1\<rparr>) s1)
      else Panic ''__read_imp: Unexpected error when reading socket'')"

definition read_regular :: "ptr \<Rightarrow> ptr \<Rightarrow> int \<Rightarrow> iostate \<Rightarrow> (iostate, int) res" where
  "read_regular fp ubuf count s =
     (if f_flags (files s fp) AND SRD = 0 then Ok (- 1) s
      else let (nbytes, s1) = file_read_buffer fp ubuf count s in
        if nbytes \<le> 0 then Ok (- 1) s1
        else Ok nbytes (upd_file fp (\<lambda>fi. fi\<lparr>f_flags := f_flags fi OR SWR, f_sync := (f_sync fi)\<lparr>can_write := TRUE\<rparr>\<rparr>) s1))"

definition read_tty :: "ptr \<Rightarrow> ptr \<Rightarrow> int \<Rightarrow> iostate \<Rightarrow> (iostate, int) res" where
  "read_tty fp ubuf count s =
     (let t = f_tty (files s fp) in
      if t = NULL then Ok (- 1) s
      else if tty_subtype (ttys s t) = TTY_SUBTYPE_PTY_MASTER then tty_read2 t ubuf count s
      else if tty_subtype (ttys s t) = TTY_SUBTYPE_PTY_SLAVE then tty_read1 t ubuf count s
      else Ok 0 s)"

text \<open>The chain of tests after those of the standard streams, from the socket on.\<close>

definition read_object :: "int \<Rightarrow> ptr \<Rightarrow> ptr \<Rightarrow> int \<Rightarrow> iostate \<Rightarrow> (iostate, int) res" where
  "read_object fd fp ubuf count s =
     (let fi = files s fp in
      if f_object fi = ObjectTypeSocket then read_socket fp ubuf count s
      else if f_object fi = ObjectTypeFile then read_regular fp ubuf count s
      else if f_object fi = ObjectTypePTMX then Ok 0 s
      else if f_object fi = ObjectTypeTTY then read_tty fp ubuf count s
      else if f_object fi = ObjectTypeVirtualConsole
      then if fd = STDIN_FILENO \<or> fd = STDOUT_FILENO \<or> fd = STDERR_FILENO then Ok (- 1) s
           else if f_tty fi \<noteq> NULL then tty_read1 (f_tty fi) ubuf count s
           else Ok (- EINVAL) s
      else if f_object fi = ObjectTypeFileSystem then Ok 0 s
      else if f_object fi = ObjectTypePipe then (let (n, s1) = file_read_buffer fp ubuf count s in Ok n s1)
      else Ok (- 1) s)"

definition read_imp :: "int \<Rightarrow> ptr \<Rightarrow> int \<Rightarrow> iostate \<Rightarrow> (iostate, int) res" where
  "read_imp fd ubuf count s =
     (case valid_current s of None \<Rightarrow> Ok (- 1) s
      | Some p \<Rightarrow>
        (let s = s\<lparr>read_counter := (read_counter s)(p := read_counter s p + 1)\<rparr> in
         if fd < 0 \<or> fd \<ge> OPEN_MAX then Ok (- EBADF) s
         else if ubuf = NULL then Ok (- EINVAL) s
         else if count < 0 then Ok (- EINVAL) s
         else if count = 0 then Ok 0 s
         else bindR (get_file_from_fd fd s) (\<lambda>fp s.
           let fi = files s fp in
           if fp = NULL then Ok (- 1) s
           else if can_read (f_sync fi) \<noteq> TRUE then Ok (- 1) s
           else if f_file fi = STDIN_FILENO \<and> f_object fi = ObjectTypeVirtualConsole
           then if f_tty fi \<noteq> NULL then tty_read1 (f_tty fi) ubuf count s else Ok (- 1) s
           else if f_file fi = STDOUT_FILENO \<or> f_file fi = STDERR_FILENO
           then if f_object fi = ObjectTypeVirtualConsole then Ok (- 1) s
                else if f_object fi = ObjectTypeFile then read_regular fp ubuf count s
                else if f_object fi = ObjectTypeTTY then read_tty fp ubuf count s
                else Ok (- 1) s
           else read_object fd fp ubuf count s)))"

definition sys_read :: "int \<Rightarrow> ptr \<Rightarrow> int \<Rightarrow> iostate \<Rightarrow> (iostate, int) res" where
  "sys_read fd ubuf count s =
     (if fd < 0 then Ok (- EBADF) s
      else if fd = 0 \<and> current_thread (ks s) \<noteq> foreground_thread (ks s) \<and> current_thread (ks s) \<noteq> special_reader s then Ok (- EPERM) s
      else if ubuf < FLOWERTHREAD_BASE then Panic ''sys_read: Invalid ubuf''
      else if count = 0 then Ok (- EINVAL) s
      else read_imp fd ubuf count s)"

section \<open>Writing\<close>

definition write_socket :: "ptr \<Rightarrow> ptr \<Rightarrow> int \<Rightarrow> iostate \<Rightarrow> (iostate, int) res" where
  "write_socket fp ubuf count s =
     (let s = credit_current s; fi = files s fp in
      if f_flags fi AND SWR = 0 then Ok (- 1) s
      else if socket_buffer_full fi = TRUE
      then let s1 = on_ks (do_thread_ready (tid_waiting fi)) (upd_file fp (\<lambda>fi. fi\<lparr>f_flags := SRD\<rparr>) s);
               s2 = upd_file fp (\<lambda>fi. fi\<lparr>tid_waiting :=
                      (if block_on_write_full (f_sync fi) = TRUE then current_thread (ks s1) else - 1)\<rparr>) s1
        in Ok (- 1) (yield_current s2)
      else if socket_buffer_full fi = FALSE
      then let (nbytes, s1) = file_write_buffer fp ubuf count (upd_file fp (\<lambda>fi. fi\<lparr>f_flags := 0\<rparr>) s) in
        if nbytes \<le> 0 then Ok (- 1) (yield_current s1)
        else Ok nbytes (upd_file fp (\<lambda>fi. fi\<lparr>socket_buffer_full := TRUE, f_flags := (f_flags fi AND NOT SWR) OR SRD,
               tid_waiting := (if block_on_write (f_sync fi) = TRUE then current_thread (ks s1) else - 1)\<rparr>) s1)
      else Panic ''__write_imp: Unexpected error when writing on socket'')"

definition write_regular :: "ptr \<Rightarrow> ptr \<Rightarrow> int \<Rightarrow> iostate \<Rightarrow> (iostate, int) res" where
  "write_regular fp ubuf count s =
     (if f_flags (files s fp) AND SWR = 0 then Ok 0 s
      else let (nbytes, s1) = file_write_buffer fp ubuf count s in
        if nbytes > 0
        then Ok nbytes (on_ks (do_thread_ready (tid_waiting (files s1 fp)))
               (upd_file fp (\<lambda>fi. fi\<lparr>f_flags := SRD, f_sync := (f_sync fi)\<lparr>can_read := TRUE\<rparr>\<rparr>) s1))
        else Ok 0 s1)"

definition write_tty :: "ptr \<Rightarrow> ptr \<Rightarrow> int \<Rightarrow> iostate \<Rightarrow> (iostate, int) res" where
  "write_tty fp ubuf count s =
     (let t = f_tty (files s fp) in
      if t = NULL then Ok (- 1) s
      else if tty_subtype (ttys s t) = TTY_SUBTYPE_PTY_MASTER
      then if tty_link (ttys s t) = NULL then Ok (- 1) s else tty_write1 (tty_link (ttys s t)) ubuf count s
      else if tty_subtype (ttys s t) = TTY_SUBTYPE_PTY_SLAVE
      then if tty_link (ttys s t) = NULL then Ok (- 1) s else tty_write2 (tty_link (ttys s t)) ubuf count s
      else Ok 0 s)"

text \<open>Writing to a console and showing it at once.\<close>

definition write_console :: "ptr \<Rightarrow> ptr \<Rightarrow> ptr \<Rightarrow> int \<Rightarrow> iostate \<Rightarrow> (iostate, int) res option" where
  "write_console stk t ubuf count s =
     bindO (Some (tty_write2 t ubuf count s)) (\<lambda>nbytes s1.
       bindO (tty_flush_output_queue_ex stk t (upd_tty t (\<lambda>t. t\<lparr>output_worker_number := TTY_OUTPUT_WORKER_FGCONSOLE\<rparr>) s1))
         (\<lambda>_ s2. Some (Ok nbytes s2)))"

definition write_object :: "ptr \<Rightarrow> int \<Rightarrow> ptr \<Rightarrow> ptr \<Rightarrow> int \<Rightarrow> iostate \<Rightarrow> (iostate, int) res option" where
  "write_object stk fd fp ubuf count s =
     (let fi = files s fp in
      if f_object fi = ObjectTypeNIC then Some (Ok 0 s)
      else if f_object fi = ObjectTypeSocket then Some (write_socket fp ubuf count s)
      else if f_object fi = ObjectTypeFile then Some (write_regular fp ubuf count s)
      else if f_object fi = ObjectTypePTMX then Some (Ok 0 s)
      else if f_object fi = ObjectTypeTTY then Some (write_tty fp ubuf count s)
      else if f_object fi = ObjectTypeVirtualConsole
      then if fd = STDIN_FILENO \<or> fd = STDOUT_FILENO \<or> fd = STDERR_FILENO then Some (Ok (- 1) s)
           else if f_tty fi \<noteq> NULL then write_console stk (f_tty fi) ubuf count s
           else Some (Ok (- EINVAL) s)
      else if f_object fi = ObjectTypeFileSystem then Some (Ok 0 s)
      else if f_object fi = ObjectTypePipe then (let (n, s1) = file_write_buffer fp ubuf count s in Some (Ok n s1))
      else Some (Ok (- 1) s))"

definition write_imp :: "ptr \<Rightarrow> int \<Rightarrow> ptr \<Rightarrow> int \<Rightarrow> iostate \<Rightarrow> (iostate, int) res option" where
  "write_imp stk fd ubuf count s =
     (case valid_current s of None \<Rightarrow> Some (Ok (- 1) s)
      | Some p \<Rightarrow>
        (let s = s\<lparr>write_counter := (write_counter s)(p := write_counter s p + 1)\<rparr> in
         if fd < 0 \<or> fd \<ge> OPEN_MAX then Some (Ok (- EBADF) s)
         else if ubuf = NULL then Some (Ok (- EINVAL) s)
         else if count < 0 then Some (Ok (- EINVAL) s)
         else if count = 0 then Some (Ok 0 s)
         else bindO (Some (get_file_from_fd fd s)) (\<lambda>fp s.
           let fi = files s fp in
           if fp = NULL then Some (Ok (- 1) s)
           else if can_write (f_sync fi) \<noteq> TRUE then Some (Ok (- 1) s)
           else if f_file fi = STDIN_FILENO \<or> f_file fi = STDOUT_FILENO \<or> f_file fi = STDERR_FILENO
           then if f_object fi = ObjectTypeVirtualConsole
                then if f_tty fi = NULL then Some (Ok (- 1) s)
                     else if f_file fi = STDIN_FILENO then Some (tty_write1 (f_tty fi) ubuf count s)
                     else write_console stk (f_tty fi) ubuf count s
                else if f_object fi = ObjectTypeFile then Some (write_regular fp ubuf count s)
                else if f_object fi = ObjectTypeTTY then Some (write_tty fp ubuf count s)
                else Some (Ok (- 1) s)
           else write_object stk fd fp ubuf count s)))"

definition sys_write :: "ptr \<Rightarrow> int \<Rightarrow> ptr \<Rightarrow> int \<Rightarrow> iostate \<Rightarrow> (iostate, int) res option" where
  "sys_write stk fd ubuf count s =
     (if fd < 0 then Some (Ok (- EBADF) s)
      else if ubuf < FLOWERTHREAD_BASE then Some (Panic ''sys_write: Invalid ubuf'')
      else if count = 0 then Some (Ok (- EINVAL) s)
      else write_imp stk fd ubuf count s)"

section \<open>Closing\<close>

definition on_fat :: "(fatfs \<Rightarrow> (fatfs, 'a) res) \<Rightarrow> iostate \<Rightarrow> (iostate, 'a) res" where
  "on_fat op s = (case op ((fat s)\<lparr>fmem := hmem s\<rparr>) of
        Ok r f \<Rightarrow> Ok r (s\<lparr>fat := f, hmem := fmem f\<rparr>)
      | Iretq f \<Rightarrow> Iretq s | Panic e \<Rightarrow> Panic e | Fault e \<Rightarrow> Fault e)"

definition close_object :: "ptr \<Rightarrow> int \<Rightarrow> ptr \<Rightarrow> iostate \<Rightarrow> (iostate, int) res" where
  "close_object p fd f s =
     (let fi = files s f in
      if f_object fi = ObjectTypeSocket
      then Ok 0 (set_object p fd NULL (upd_sock (f_socket fi) (\<lambda>so. so\<lparr>so_used := FALSE, so_magic := 0\<rparr>) s))
      else if f_object fi = ObjectTypePipe then Ok 0 (set_object p fd NULL s)
      else if f_object fi = ObjectTypeVirtualConsole then Ok 0 s
      else if f_object fi = ObjectTypeTTY then Ok 0 (set_object p fd NULL s)
      else if f_object fi = ObjectTypeFile
      then let s1 = (if f_lbfsize fi < 512 then upd_file f (\<lambda>fi. fi\<lparr>f_lbfsize := 512\<rparr>) s else s); fi = files s1 f in
        bindR (on_fat (fsSaveFile VOLUME1_FAT_ADDRESS VOLUME1_ROOTDIR_ADDRESS (int FAT16_ROOT_ENTRIES) (f_tmpfname fi)
                 (word_of_int (f_lbfsize fi div 512)) (word_of_int (f_lbfsize fi)) (f_base fi) 0x20) s1)
          (\<lambda>_ s2. Ok 0 (set_object p fd NULL s2))
      else Ok (- 1) s)"

definition close_imp :: "int \<Rightarrow> iostate \<Rightarrow> (iostate, int) res" where
  "close_imp fd s =
     (if fd < 0 \<or> fd \<ge> OPEN_MAX then Ok (- EBADF) s
      else if fd = 0 \<or> fd = 1 \<or> fd = 2 then Ok (- EBADF) s
      else case valid_current s of None \<Rightarrow> Ok (- 1) s
      | Some p \<Rightarrow>
         let f = Objects s p fd in
         if f = NULL then Ok (- 1) s
         else if f_used (files s f) \<noteq> TRUE \<or> f_magic (files s f) \<noteq> 1234 then Ok (- 1) s
         else close_object p fd f s)"

definition sys_close :: "int \<Rightarrow> iostate \<Rightarrow> (iostate, int) res" where
  "sys_close fd s = (if fd < 0 then Ok (- EBADF) s else close_imp fd s)"

section \<open>Synchronisation\<close>

text \<open>The file of a descriptor, as the synchronisation calls look it up: the process need not be in use.\<close>

definition sync_object :: "int \<Rightarrow> iostate \<Rightarrow> ptr option" where
  "sync_object fd s =
     (let pid = get_current_process (ks s) in
      if pid < 0 \<or> pid \<ge> PROCESS_COUNT_MAX then None
      else let p = teList (ks s) pid in
      if p = NULL then None
      else if te_magic (pheap (ks s) p) \<noteq> 1234 then None
      else let f = Objects s p fd in
      if f = NULL then None
      else if f_used (files s f) \<noteq> TRUE \<or> f_magic (files s f) \<noteq> 1234 then None
      else Some f)"

definition SYNC_REQUEST_SET_ACTION :: int where [simp]: "SYNC_REQUEST_SET_ACTION = 1"
definition SYNC_REQUEST_GET_ACTION :: int where [simp]: "SYNC_REQUEST_GET_ACTION = 2"

definition sys_set_file_sync :: "int \<Rightarrow> int \<Rightarrow> int \<Rightarrow> iostate \<Rightarrow> iostate" where
  "sys_set_file_sync fd request data s =
     (if fd < 0 \<or> fd \<ge> OPEN_MAX then s
      else case sync_object fd s of None \<Rightarrow> s
      | Some f \<Rightarrow>
         if request = SYNC_REQUEST_SET_ACTION then upd_file f (\<lambda>fi. fi\<lparr>f_sync := (f_sync fi)\<lparr>sync_action := data\<rparr>\<rparr>) s
         else if request = 216
         then upd_file f (\<lambda>fi. fi\<lparr>f_r := 0, f_w := 0, socket_buffer_full := FALSE\<rparr>)
                (k_rewind f (upd_file f (\<lambda>fi. fi\<lparr>f_sync := (f_sync fi)\<lparr>sync_action := 0\<rparr>, f_flags := SWR\<rparr>) s))
         else if request = 217 then upd_file f (\<lambda>fi. fi\<lparr>f_sync := (f_sync fi)\<lparr>sync_action := 0\<rparr>, f_flags := SRD\<rparr>) s
         else s)"

definition sys_get_file_sync :: "int \<Rightarrow> int \<Rightarrow> iostate \<Rightarrow> int" where
  "sys_get_file_sync fd request s =
     (if fd < 0 \<or> fd \<ge> OPEN_MAX then - EBADF
      else case sync_object fd s of None \<Rightarrow> - 1
      | Some f \<Rightarrow> if request = SYNC_REQUEST_GET_ACTION then sync_action (f_sync (files s f)) else - 1)"

definition sys_sleep_if_socket_is_empty :: "int \<Rightarrow> iostate \<Rightarrow> int \<times> iostate" where
  "sys_sleep_if_socket_is_empty fd s =
     (if fd < 0 \<or> fd \<ge> OPEN_MAX then (- EBADF, s)
      else case sync_object fd s of None \<Rightarrow> (- 1, s)
      | Some f \<Rightarrow>
         if f_object (files s f) \<noteq> ObjectTypeSocket then (- 1, s)
         else if socket_buffer_full (files s f) = FALSE
         then (FALSE, upd_file f (\<lambda>fi. fi\<lparr>f_flags := f_flags fi OR SWR, tid_waiting := current_thread (ks s)\<rparr>) s)
         else if socket_buffer_full (files s f) = TRUE
         then (TRUE, upd_file f (\<lambda>fi. fi\<lparr>f_flags := f_flags fi OR SRD\<rparr>) s)
         else (- 1, s))"

end
