(* ===== verification/Socket.thy ===== *)
theory Socket
  imports Read_Write
begin

text \<open>
  Sockets (src/coreos/kernel/halls/apphalls/per/net): the socket and endpoint objects and the creation of
  a socket file (sockint.c, net.c), and the system calls of socket.c. The bytes of an address structure of
  the caller are read from \<open>hmem\<close>. \<open>__accept_imp\<close>, \<open>__connect_inet\<close>, \<open>__connect_local\<close> and
  \<open>__listen_imp\<close> lose their underscores.
\<close>

section \<open>Constants\<close>

definition AF_UNIX :: int where [simp]: "AF_UNIX = 1"
definition AF_INET :: int where [simp]: "AF_INET = 2"
definition AF_GRAMADO :: int where [simp]: "AF_GRAMADO = 8000"
definition SOCK_STREAM :: int where [simp]: "SOCK_STREAM = 1"
definition SOCK_DGRAM :: int where [simp]: "SOCK_DGRAM = 2"
definition SOCK_RAW :: int where [simp]: "SOCK_RAW = 3"
definition PORTS_WS :: u16 where [simp]: "PORTS_WS = 4040"
definition PORTS_NS :: u16 where [simp]: "PORTS_NS = 4041"
definition GRAMADO_PORT_WS :: int where [simp]: "GRAMADO_PORT_WS = 11"
definition GRAMADO_PORT_NS :: int where [simp]: "GRAMADO_PORT_NS = 14"
definition GRAMADO_PORT_FS :: int where [simp]: "GRAMADO_PORT_FS = 16"
definition GRAMADO_PORT_MAX :: int where [simp]: "GRAMADO_PORT_MAX = 32"

text \<open>The sizes of the structures on x86-64.\<close>

definition sizeof_socket :: int where [simp]: "sizeof_socket = 696"
definition sizeof_endpoint :: int where [simp]: "sizeof_endpoint = 40"

section \<open>Ports and objects\<close>

definition socket_initialize_gramado_ports :: "iostate \<Rightarrow> iostate" where
  "socket_initialize_gramado_ports s =
     s\<lparr>gramado_ports := (\<lambda>i. if 0 \<le> i \<and> i < GRAMADO_PORT_MAX then 0 else gramado_ports s i)\<rparr>"

definition socket_get_gramado_port :: "int \<Rightarrow> iostate \<Rightarrow> int" where
  "socket_get_gramado_port port s = (if port < 0 \<or> port > 31 then - 1 else gramado_ports s port)"

definition socket_set_gramado_port :: "int \<Rightarrow> int \<Rightarrow> iostate \<Rightarrow> int \<times> iostate" where
  "socket_set_gramado_port port pid s =
     (if port < 0 \<or> port > 31 then (- 1, s)
      else if pid < 0 \<or> pid \<ge> PROCESS_COUNT_MAX then (- 1, s)
      else (0, s\<lparr>gramado_ports := (gramado_ports s)(port := pid)\<rparr>))"

definition create_socket_object :: "iostate \<Rightarrow> (iostate, ptr) res" where
  "create_socket_object s =
     bindR (io_kmalloc sizeof_socket s) (\<lambda>so s1.
       if so = NULL then Ok NULL s1
       else Ok so (upd_sock so (\<lambda>_. zero_socket\<lparr>so_pid := get_current_process (ks s1), so_uid := current_user s1,
              so_gid := current_group s1, backlog_max := 4, isAcceptingConnections := FALSE, so_state := SS_UNCONNECTED,
              conn_copy := TRUE, clientfd_on_server := - 1, so_used := TRUE, so_magic := 1234\<rparr>) s1))"

definition create_endpoint_object :: "iostate \<Rightarrow> (iostate, ptr) res" where
  "create_endpoint_object s =
     bindR (io_kmalloc sizeof_endpoint s) (\<lambda>e s1.
       if e = NULL then Ok NULL s1
       else Ok e (s1\<lparr>eps := (eps s1)(e := \<lparr>ep_used = TRUE, ep_magic = 1234, side_id = 0, case_id = 0,
              is_remote = FALSE, ep_socket = NULL\<rparr>)\<rparr>))"

definition get_socket_from_fd :: "int \<Rightarrow> iostate \<Rightarrow> ptr" where
  "get_socket_from_fd fd s =
     (let pid = get_current_process (ks s) in
      if fd < 0 \<or> fd \<ge> OPEN_MAX then NULL
      else if pid < 0 \<or> pid \<ge> PROCESS_COUNT_MAX then NULL
      else let p = teList (ks s) pid in
      if p = NULL then NULL
      else let f = Objects s p fd in
      if f = NULL then NULL
      else if f_magic (files s f) \<noteq> 1234 then NULL
      else f_socket (files s f))"

definition getSocketIPV4 :: "ptr \<Rightarrow> iostate \<Rightarrow> u32" where
  "getSocketIPV4 so s = (if so = NULL then 0 else if so_magic (socks s so) \<noteq> 1234 then 0 else ip_ipv4 (socks s so))"

definition getSocketIPV6 :: "ptr \<Rightarrow> iostate \<Rightarrow> u64" where
  "getSocketIPV6 so s = (if so = NULL then 0 else if so_magic (socks s so) \<noteq> 1234 then 0 else ip_ipv6 (socks s so))"

definition getSocketPort :: "ptr \<Rightarrow> iostate \<Rightarrow> u16" where
  "getSocketPort so s = (if so = NULL then 0 else if so_magic (socks s so) \<noteq> 1234 then 0 else so_port (socks s so))"

definition get_socket_in_process_list :: "u16 \<Rightarrow> iostate \<Rightarrow> ptr" where
  "get_socket_in_process_list target_port s =
     (case find (\<lambda>i. let p = teList (ks s) i; so = priv s p
             in p \<noteq> NULL \<and> te_magic (pheap (ks s) p) = 1234 \<and> so \<noteq> NULL \<and> so_magic (socks s so) = 1234 \<and>
                so_objectType (socks s so) = ObjectTypeSocket \<and> so_port (socks s so) = target_port) [0..PROCESS_COUNT_MAX - 1] of
        None \<Rightarrow> NULL | Some i \<Rightarrow> priv s (teList (ks s) i))"

definition update_socket :: "ptr \<Rightarrow> u32 \<Rightarrow> u16 \<Rightarrow> iostate \<Rightarrow> int \<times> iostate" where
  "update_socket so ip port s =
     (if so = NULL then (- 1, s) else (0, upd_sock so (\<lambda>k. k\<lparr>ip_ipv4 := ip, so_port := port\<rparr>) s))"

definition socket_read :: "int \<Rightarrow> ptr \<Rightarrow> int \<Rightarrow> iostate \<Rightarrow> (iostate, int) res" where
  "socket_read fd buf count s = (if fd < 0 then Ok (- EINVAL) s else read_imp fd buf count s)"

definition socket_write :: "ptr \<Rightarrow> int \<Rightarrow> ptr \<Rightarrow> int \<Rightarrow> iostate \<Rightarrow> (iostate, int) res option" where
  "socket_write stk fd buf count s = (if fd < 0 then Some (Ok (- EINVAL) s) else write_imp stk fd buf count s)"

text \<open>\<open>teList\<close> is indexed without a test of the range.\<close>

definition socket_ioctl :: "int \<Rightarrow> u64 \<Rightarrow> u64 \<Rightarrow> iostate \<Rightarrow> (iostate, int) res" where
  "socket_ioctl fd request arg s =
     (let pid = get_current_process (ks s) in
      if fd < 0 \<or> fd \<ge> OPEN_MAX then Ok (- EBADF) s
      else if pid < 0 \<or> pid \<ge> PROCESS_COUNT_MAX then Fault ''teList''
      else let p = teList (ks s) pid in
      if p = NULL then Ok (- 1) s
      else let f = Objects s p fd in
      if f = NULL then Ok (- 1) s
      else if f_used (files s f) \<noteq> TRUE \<or> f_magic (files s f) \<noteq> 1234 then Panic ''socket_ioctl: validation''
      else if request = 4000 then Ok 0 (upd_file f (\<lambda>fi. fi\<lparr>f_sync := (f_sync fi)\<lparr>sender_pid := c_int (uint arg)\<rparr>\<rparr>) s)
      else if request = 4001 then Ok (sender_pid (f_sync (files s f))) s
      else if request = 4002 then Ok (can_read (f_sync (files s f))) s
      else if request = 4003 then Ok (can_write (f_sync (files s f))) s
      else if request = 4004 then Ok (can_execute (f_sync (files s f))) s
      else Ok (- EINVAL) s)"

section \<open>The file of a socket\<close>

text \<open>
  What \<open>socket_gramado\<close>, \<open>socket_unix\<close> and \<open>socket_inet\<close> do after their address: a free descriptor from 3 to
  30, a buffer, and the file structure.
\<close>

definition free_slot :: "iostate \<Rightarrow> ptr \<Rightarrow> int option" where
  "free_slot s p = find (\<lambda>i. Objects s p i = NULL) [3..30]"

definition socket_file_of :: "iostate \<Rightarrow> ptr \<Rightarrow> ptr \<Rightarrow> int \<Rightarrow> file_d" where
  "socket_file_of s buff sock slot = zero_file\<lparr>f_object := ObjectTypeSocket, f_pid := get_current_process (ks s),
     f_uid := current_user s, f_gid := current_group s,
     f_sync := zero_sync\<lparr>sender_pid := - 1, receiver_pid := - 1, sync_action := 0, can_read := TRUE, can_write := TRUE,
       can_execute := FALSE, can_accept := TRUE, can_connect := TRUE, block_on_read := FALSE, block_on_read_empty := TRUE,
       block_on_write := TRUE, block_on_write_full := TRUE, is_blocked := FALSE\<rparr>,
     f_flags := SWR, f_base := buff, f_p := buff, f_lbfsize := BUFSIZ, f_cnt := BUFSIZ, f_r := 0, f_w := 0,
     socket_buffer_full := 0, f_socket := sock, f_file := slot, f_used := TRUE, f_magic := 1234\<rparr>"

definition open_socket_file :: "ptr \<Rightarrow> iostate \<Rightarrow> (iostate, int) res" where
  "open_socket_file sock s =
     (case valid_current s of None \<Rightarrow> Ok (- 1) s
      | Some p \<Rightarrow>
        (case free_slot s p of None \<Rightarrow> Ok (- 1) s
         | Some slot \<Rightarrow>
           bindR (io_kmalloc BUFSIZ s) (\<lambda>buff s1.
             if buff = NULL then Ok (- 1) s1
             else bindR (io_kmalloc sizeof_file s1) (\<lambda>f s2.
               if f = NULL then Ok (- 1) s2
               else let s3 = upd_file f (\<lambda>_. socket_file_of s2 buff sock slot) s2;
                        s4 = upd_sock sock (\<lambda>k. k\<lparr>private_file := f\<rparr>) s3;
                        s5 = s4\<lparr>priv := (priv s4)(p := sock)\<rparr>
                 in Ok slot (set_object p slot f s5)))))"

definition socket_gramado :: "ptr \<Rightarrow> int \<Rightarrow> int \<Rightarrow> int \<Rightarrow> iostate \<Rightarrow> (iostate, int) res" where
  "socket_gramado sock family type protocol s =
     (if sock = NULL then Ok (- 1) s
      else if so_magic (socks s sock) \<noteq> 1234 then Ok (- 1) s
      else if family \<noteq> AF_GRAMADO then Ok (- 1) s
      else open_socket_file sock (upd_sock sock (\<lambda>k. k\<lparr>addr_family := word_of_int family,
             addr_data := (addr_data k)(0 := 0x78, 1 := 0x78)\<rparr>) s))"

definition socket_unix :: "ptr \<Rightarrow> int \<Rightarrow> int \<Rightarrow> int \<Rightarrow> iostate \<Rightarrow> (iostate, int) res" where
  "socket_unix sock family type protocol s =
     (if sock = NULL then Ok (- 1) s
      else if so_magic (socks s sock) \<noteq> 1234 then Ok (- 1) s
      else if family \<noteq> AF_UNIX then Ok (- 1) s
      else open_socket_file sock (upd_sock sock (\<lambda>k. k\<lparr>addr_family := word_of_int family,
             addr_data := (addr_data k)(0 := 0x78, 1 := 0x78)\<rparr>) s))"

text \<open>127.0.0.1 and port 11369. The field \<open>addr\<close>, which \<open>sys_bind\<close> tests, keeps the family 0.\<close>

definition socket_inet :: "ptr \<Rightarrow> int \<Rightarrow> int \<Rightarrow> int \<Rightarrow> iostate \<Rightarrow> (iostate, int) res" where
  "socket_inet sock family type protocol s =
     (if sock = NULL then Ok (- 1) s
      else if so_magic (socks s sock) \<noteq> 1234 then Ok (- 1) s
      else if family \<noteq> AF_INET then Ok (- 1) s
      else open_socket_file sock (upd_sock sock (\<lambda>k. k\<lparr>in_family := 2, in_addr := 0x7F000001, in_port := 11369\<rparr>) s))"

section \<open>The system calls\<close>

definition sys_socket :: "int \<Rightarrow> int \<Rightarrow> int \<Rightarrow> iostate \<Rightarrow> (iostate, int) res" where
  "sys_socket family type protocol s =
     (let s = credit_current s; pid = get_current_process (ks s) in
      if family < 0 then Ok (- EINVAL) s
      else if type \<noteq> SOCK_STREAM \<and> type \<noteq> SOCK_DGRAM \<and> type \<noteq> SOCK_RAW then Ok (- EINVAL) s
      else if protocol < 0 then Ok (- EINVAL) s
      else if protocol \<noteq> 0 then Panic ''sys_socket: protocol not supported yet''
      else if pid < 0 \<or> pid \<ge> PROCESS_COUNT_MAX then Panic ''sys_socket: current_process fail''
      else let p = teList (ks s) pid in
      if p = NULL then Panic ''sys_socket: p''
      else if te_magic (pheap (ks s) p) \<noteq> 1234 then Panic ''sys_socket: p validation''
      else bindR (create_socket_object s) (\<lambda>so s.
        if so = NULL then Ok (- 1) s
        else let s = upd_sock so (\<lambda>k. k\<lparr>so_family := family, so_type := type, so_protocol := protocol, ip_ipv6 := 0, ip_ipv4 := 0,
                       so_port := 0, so_pid := pid, so_uid := current_user s, so_gid := current_group s\<rparr>) s;
                 s = s\<lparr>priv := (priv s)(p := so)\<rparr>
          in bindR (create_endpoint_object s) (\<lambda>e s.
            if e = NULL then Panic ''sys_socket: ep''
            else if ep_magic (eps s e) \<noteq> 1234 then Panic ''sys_socket: ep->magic''
            else let s = upd_sock so (\<lambda>k. k\<lparr>so_ep := e\<rparr>) s;
                     s1 = s\<lparr>eps := (eps s)(e := (eps s e)\<lparr>is_remote := FALSE, ep_socket := so\<rparr>)\<rparr>
              in if family = AF_GRAMADO then socket_gramado so AF_GRAMADO type protocol (upd_sock so (\<lambda>k. k\<lparr>connection_type := 1\<rparr>) s1)
                 else if family = AF_UNIX then socket_unix so AF_UNIX type protocol (upd_sock so (\<lambda>k. k\<lparr>connection_type := 1\<rparr>) s1)
                 else if family = AF_INET
                 then if type \<noteq> SOCK_RAW then Panic ''sys_socket: Only SOCK_RAW in AF_INET for now''
                      else socket_inet so AF_INET type protocol (upd_sock so (\<lambda>k. k\<lparr>connection_type := 0\<rparr>) s1)
                 else Ok (- 1) s)))"

definition sock_socketpair :: "int \<Rightarrow> int \<Rightarrow> int \<Rightarrow> ptr \<Rightarrow> iostate \<Rightarrow> (iostate, int) res" where
  "sock_socketpair family type protocol usockvec s =
     bindR (sys_socket family type protocol s) (\<lambda>fd1 s.
       if get_socket_from_fd fd1 s = NULL then Ok (- 1) s
       else bindR (sys_socket family type protocol s) (\<lambda>fd2 s.
         if get_socket_from_fd fd2 s = NULL then Ok (- 1) s
         else Ok 0 (s\<lparr>hmem := put_u32 (put_u32 (hmem s) usockvec (word_of_int fd1)) (usockvec + 4) (word_of_int fd2)\<rparr>)))"

definition socket_dialog :: "u64 \<Rightarrow> u64 \<Rightarrow> u64 \<Rightarrow> u64 \<Rightarrow> iostate \<Rightarrow> (iostate, u64) res" where
  "socket_dialog number arg2 arg3 arg4 s =
     (if number < 7000 \<or> number \<ge> 8000 then Ok 0 s
      else if number = 7000
      then bindR (sys_socket (c_int (uint arg2)) (c_int (uint arg3)) (c_int (uint arg4)) s) (\<lambda>r s. Ok (word_of_int r) s)
      else Ok 0 s)"

end
