(* ===== verification/Socket_Calls.thy ===== *)
theory Socket_Calls
  imports Socket
begin

text \<open>
  The system calls that connect sockets (per/net/socket.c): bind, listen, connect and accept. A server has a
  table of 32 pending clients; \<open>sys_connect\<close> stores the client at the next position, \<open>accept_imp\<close> takes the
  first client at or after its own position.
\<close>

section \<open>accept\<close>

definition pending_from :: "socket_d \<Rightarrow> int \<Rightarrow> ptr" where
  "pending_from k i =
     (case find (\<lambda>j. pending_client_endpoints k j \<noteq> NULL) [i..backlog_max k] of
        None \<Rightarrow> NULL | Some j \<Rightarrow> pending_client_endpoints k j)"

text \<open>The position of the queue moves also when nobody is waiting; the state of the server is restored then.\<close>

definition accept_pending :: "ptr \<Rightarrow> ptr \<Rightarrow> iostate \<Rightarrow> (iostate, int) res" where
  "accept_pending p so s =
     (let OldState = so_state (socks s so);
          h = backlog_head (socks s so) + 1;
          i = (if h \<ge> backlog_max (socks s so) then 0 else h);
          s1 = upd_sock so (\<lambda>k. k\<lparr>so_state := SS_CONNECTED, backlog_head := i\<rparr>) s
      in if i < 0 \<or> i \<ge> backlog_max (socks s1 so) then Panic ''__accept_imp: Backlog limits''
         else let c = pending_from (socks s1 so) i in
         if c = NULL then Ok (- 1) (upd_sock so (\<lambda>k. k\<lparr>so_state := OldState\<rparr>) s1)
         else if so_used (socks s1 c) \<noteq> TRUE \<or> so_magic (socks s1 c) \<noteq> 1234
         then Ok (- 1) (upd_sock so (\<lambda>k. k\<lparr>so_state := OldState\<rparr>) s1)
         else let s2 = upd_sock c (\<lambda>k. k\<lparr>so_state := SS_CONNECTED\<rparr>) s1; fp = private_file (socks s2 c) in
         if fp = NULL then Fault ''ep1_pending_fp->_file''
         else Ok 31 (upd_file fp (\<lambda>fi. fi\<lparr>f_file := 31\<rparr>) (set_object p 31 fp s2)))"

definition accept_imp :: "int \<Rightarrow> ptr \<Rightarrow> ptr \<Rightarrow> iostate \<Rightarrow> (iostate, int) res" where
  "accept_imp sockfd addr addrlen s =
     (let s = credit_current s in
      if sockfd < 0 \<or> sockfd \<ge> OPEN_MAX then Ok (- EBADF) s
      else if addr = NULL then Ok (- EINVAL) s
      else if addr < FLOWERTHREAD_BASE then Panic ''__accept_imp: addr is not ring3''
      else if addrlen = NULL then Ok (- EINVAL) s
      else case valid_current s of None \<Rightarrow> Ok (- 1) s
      | Some p \<Rightarrow>
         let f = Objects s p sockfd in
         if f = NULL then Ok (- 1) s
         else if f_used (files s f) \<noteq> TRUE \<or> f_magic (files s f) \<noteq> 1234 then Ok (- 1) s
         else if is_socket f s \<noteq> TRUE then Ok (- ENOTSOCK) s
         else if can_accept (f_sync (files s f)) \<noteq> TRUE then Ok (- 1) s
         else let so = f_socket (files s f) in
         if so = NULL then Ok (- 1) s
         else if so_used (socks s so) \<noteq> TRUE \<or> so_magic (socks s so) \<noteq> 1234 then Ok (- 1) s
         else if so_state (socks s so) = SS_LISTENING \<or> so_state (socks s so) = SS_CONNECTING \<or> so_state (socks s so) = SS_CONNECTED
         then accept_pending p so s
         else Ok (- 1) s)"

definition sys_accept :: "int \<Rightarrow> ptr \<Rightarrow> ptr \<Rightarrow> iostate \<Rightarrow> (iostate, int) res" where
  "sys_accept sockfd addr addrlen s = accept_imp sockfd addr addrlen s"

definition sys_gramado_accept :: "int \<Rightarrow> ptr \<Rightarrow> ptr \<Rightarrow> iostate \<Rightarrow> (iostate, int) res" where
  "sys_gramado_accept sockfd addr addrlen s = accept_imp sockfd addr addrlen s"

section \<open>bind\<close>

text \<open>The family of an address, and byte \<open>i\<close> of its name.\<close>

definition sa_family :: "ptr \<Rightarrow> iostate \<Rightarrow> int" where
  "sa_family addr s = uint (short_at (hmem s) addr)"

definition sa_data :: "ptr \<Rightarrow> nat \<Rightarrow> iostate \<Rightarrow> u8" where
  "sa_data addr i s = hmem s (addr + 2 + of_nat i)"

definition sys_bind :: "int \<Rightarrow> ptr \<Rightarrow> u32 \<Rightarrow> iostate \<Rightarrow> (iostate, int) res" where
  "sys_bind sockfd addr addrlen s =
     (let s = credit_current s; pid = get_current_process (ks s) in
      if sockfd < 0 \<or> sockfd \<ge> OPEN_MAX then Ok (- EBADF) s
      else if addr = NULL then Ok (- 1) s
      else if addr < FLOWERTHREAD_BASE then Panic ''sys_bind: addr is not ring3''
      else if addrlen = 0 then Ok (- EINVAL) s
      else if pid < 0 \<or> pid \<ge> PROCESS_COUNT_MAX then Ok (- 1) s
      else let p = teList (ks s) pid in
      if p = NULL then Ok (- 1) s
      else if te_magic (pheap (ks s) p) \<noteq> 1234 then Ok (- 1) s
      else let f = Objects s p sockfd in
      if f = NULL then Ok (- 1) s
      else if f_magic (files s f) \<noteq> 1234 then Ok (- 1) s
      else if is_socket f s \<noteq> TRUE then Ok (- ENOTSOCK) s
      else let so = f_socket (files s f) in
      if so = NULL then Ok (- 1) s
      else if uint (addr_family (socks s so)) = AF_GRAMADO
      then Ok 0 (upd_sock so (\<lambda>k. k\<lparr>addr_data := (\<lambda>i. if i < 14 then sa_data addr i s else addr_data k i)\<rparr>) s)
      else Ok (- 1) s)"

section \<open>connect\<close>

text \<open>The two workers are the same from the search of the client's socket on.\<close>

definition client_socket_of :: "int \<Rightarrow> iostate \<Rightarrow> (int, ptr \<times> ptr) sum" where
  "client_socket_of sockfd s =
     (let pid = get_current_process (ks s) in
      if pid < 0 \<or> pid \<ge> PROCESS_COUNT_MAX then Inl (- 1)
      else let p = teList (ks s) pid in
      if p = NULL then Inl (- 1)
      else let f = Objects s p sockfd in
      if f = NULL then Inl (- 1)
      else if is_socket f s \<noteq> TRUE then Inl (- ENOTSOCK)
      else if can_connect (f_sync (files s f)) \<noteq> TRUE then Inl (- 1)
      else let c = f_socket (files s f) in
      if c = NULL then Inl (- 1)
      else if so_state (socks s c) \<noteq> SS_UNCONNECTED then Inl (- 1)
      else Inr (f, c))"

definition link_sockets :: "ptr \<Rightarrow> ptr \<Rightarrow> ptr \<Rightarrow> ptr \<Rightarrow> int \<Rightarrow> iostate \<Rightarrow> iostate" where
  "link_sockets sp so f c slot s =
     (let s1 = upd_sock c (\<lambda>k. k\<lparr>clientfd_on_server := slot, so_link := so, so_state := SS_CONNECTING,
                 magic_string := (magic_string k)(0 := 0x43, 1 := 0)\<rparr>) (set_object sp 31 f s)
      in upd_sock so (\<lambda>k. let n = pending_client_count k + 1; tail = (if n \<ge> backlog_max k then 0 else n)
            in k\<lparr>clientfd_on_server := slot, so_link := c, so_state := SS_CONNECTING, pending_client_count := tail,
                 pending_client_endpoints := (pending_client_endpoints k)(tail := c)\<rparr>) s1)"

definition connect_to :: "int \<Rightarrow> int \<Rightarrow> iostate \<Rightarrow> (iostate, int) res" where
  "connect_to sockfd target_pid s =
     (case client_socket_of sockfd s of Inl e \<Rightarrow> Ok e s
      | Inr (f, c) \<Rightarrow>
         let port = new_client_port_number s + 1;
             s = upd_sock c (\<lambda>k. k\<lparr>so_port := port\<rparr>) (s\<lparr>new_client_port_number := port\<rparr>)
         in if target_pid < 0 \<or> target_pid \<ge> PROCESS_COUNT_MAX then Ok (- 1) s
         else let sp = teList (ks s) target_pid in
         if sp = NULL then Ok (- 1) s
         else case free_slot s sp of None \<Rightarrow> Panic ''[FIXME] We need a slot in the server''
         | Some slot \<Rightarrow>
            let so = priv s sp in
            if so = NULL then Ok (- 1) s
            else Ok 0 (link_sockets sp so f c slot s))"

text \<open>\<open>struct sockaddr_in\<close>: a length, the family, the port and the address.\<close>

definition sin_family :: "ptr \<Rightarrow> iostate \<Rightarrow> u8" where "sin_family addr s = hmem s (addr + 1)"
definition sin_port :: "ptr \<Rightarrow> iostate \<Rightarrow> u16" where "sin_port addr s = short_at (hmem s) (addr + 2)"
definition given_ip :: "ptr \<Rightarrow> nat \<Rightarrow> iostate \<Rightarrow> u8" where "given_ip addr i s = hmem s (addr + 4 + of_nat i)"

definition connect_inet :: "int \<Rightarrow> ptr \<Rightarrow> iostate \<Rightarrow> (iostate, int) res" where
  "connect_inet sockfd addr s =
     (let s = credit_current s;
          in_localhost = (given_ip addr 3 s = 127 \<and> given_ip addr 2 s = 0 \<and> given_ip addr 1 s = 0 \<and> given_ip addr 0 s = 1)
      in if sockfd < 0 \<or> sockfd \<ge> OPEN_MAX then Ok (- EINVAL) s
         else if addr = NULL then Ok (- EINVAL) s
         else if sa_family addr s = AF_UNIX \<or> sa_family addr s = AF_GRAMADO then Ok (- 1) s
         else if sin_family addr s \<noteq> 2 then Ok (- 1) s
         else if sin_port addr s \<in> {21, 23, 67, 80, 443} then Ok (- 1) s
         else if sin_port addr s \<noteq> PORTS_WS \<and> sin_port addr s \<noteq> PORTS_NS then Ok (- 1) s
         else let target_pid = socket_get_gramado_port (if sin_port addr s = PORTS_WS then GRAMADO_PORT_WS else GRAMADO_PORT_NS) s
         in if \<not> in_localhost then Ok (- 1) s else connect_to sockfd target_pid s)"

definition connect_local :: "int \<Rightarrow> ptr \<Rightarrow> iostate \<Rightarrow> (iostate, int) res" where
  "connect_local sockfd addr s =
     (let s = credit_current s; a = sa_data addr 0 s; b = sa_data addr 1 s
      in if sockfd < 0 \<or> sockfd \<ge> OPEN_MAX then Ok (- EINVAL) s
         else if addr = NULL then Ok (- EINVAL) s
         else if sa_family addr s \<noteq> AF_GRAMADO then Ok (- 1) s
         else let target_pid =
              (if a = 0x64 \<and> b = 0x73 then socket_get_gramado_port GRAMADO_PORT_WS s
               else if a = 0x6E \<and> b = 0x73 then socket_get_gramado_port GRAMADO_PORT_NS s
               else if a = 0x66 \<and> b = 0x73 then socket_get_gramado_port GRAMADO_PORT_FS s
               else - 1)
         in if target_pid < 0 \<or> target_pid \<ge> PROCESS_COUNT_MAX then Ok (- 1) s else connect_to sockfd target_pid s)"

definition sys_connect :: "int \<Rightarrow> ptr \<Rightarrow> u32 \<Rightarrow> iostate \<Rightarrow> (iostate, int) res" where
  "sys_connect sockfd addr addrlen s =
     (if sockfd < 0 \<or> sockfd \<ge> OPEN_MAX then Ok (- EBADF) s
      else if addr = NULL then Ok (- EINVAL) s
      else if addr < FLOWERTHREAD_BASE then Panic ''sys_connect: addr is not ring3''
      else if addrlen = 0 then Ok (- EINVAL) s
      else if sa_family addr s = AF_UNIX \<or> sa_family addr s = AF_GRAMADO then connect_local sockfd addr s
      else connect_inet sockfd addr s)"

section \<open>getsockname, listen, shutdown\<close>

text \<open>The name is that of the private socket of the process, whatever the file is; the length is set to 0.\<close>

definition sys_getsockname :: "int \<Rightarrow> ptr \<Rightarrow> ptr \<Rightarrow> iostate \<Rightarrow> (iostate, int) res" where
  "sys_getsockname sockfd addr addrlen s =
     (let pid = get_current_process (ks s) in
      if sockfd < 0 \<or> sockfd \<ge> OPEN_MAX then Ok (- 1) s
      else if addr = NULL then Ok (- 1) s
      else if addrlen = NULL then Ok (- EINVAL) s
      else if pid < 0 \<or> pid \<ge> PROCESS_COUNT_MAX then Fault ''teList''
      else let p = teList (ks s) pid in
      if p = NULL then Ok (- 1) s
      else if Objects s p sockfd = NULL then Ok (- 1) s
      else let so = priv s p in
      if so = NULL then Ok (- 1) s
      else if uint (addr_family (socks s so)) = AF_GRAMADO
      then Ok 0 (s\<lparr>hmem := put (put_u32 (hmem s) addrlen 0) (addr + 2) (map (addr_data (socks s so)) [0..<14])\<rparr>)
      else Ok (- 1) s)"

definition start_listening :: "int \<Rightarrow> socket_d \<Rightarrow> socket_d" where
  "start_listening backlog k =
     (let b = (if backlog \<le> 0 then 1 else backlog); b = (if b \<ge> 32 then 31 else b); clear = (\<lambda>q i. if 0 \<le> i \<and> i < (32 :: int) then NULL else q i)
      in k\<lparr>backlog_max := b, pending_server_endpoints := clear (pending_server_endpoints k),
           pending_client_endpoints := clear (pending_client_endpoints k), pending_server_count := 0, pending_client_count := 0,
           so_state := SS_LISTENING, isAcceptingConnections := TRUE\<rparr>)"

definition listen_imp :: "int \<Rightarrow> int \<Rightarrow> iostate \<Rightarrow> (iostate, int) res" where
  "listen_imp sockfd backlog s =
     (let s = credit_current s; pid = get_current_process (ks s) in
      if sockfd < 0 \<or> sockfd \<ge> OPEN_MAX then Ok (- EBADF) s
      else if pid < 0 \<or> pid \<ge> PROCESS_COUNT_MAX then Ok (- 1) s
      else let p = teList (ks s) pid in
      if p = NULL then Ok (- 1) s
      else let f = Objects s p sockfd in
      if f = NULL then Ok (- 1) s
      else if is_socket f s \<noteq> TRUE then Ok (- ENOTSOCK) s
      else let so = f_socket (files s f) in
      if so = NULL then Ok (- 1) s
      else let s = upd_sock so (\<lambda>k. k\<lparr>isAcceptingConnections := FALSE\<rparr>) s in
      if so \<noteq> priv s p then Panic ''sys_listen: [TEST] f->socket != p->priv''
      else Ok 0 (upd_sock so (start_listening backlog) s))"

definition sys_listen :: "int \<Rightarrow> int \<Rightarrow> iostate \<Rightarrow> (iostate, int) res" where
  "sys_listen sockfd backlog s =
     (if sockfd < 0 \<or> sockfd \<ge> OPEN_MAX then Ok (- EBADF) s else listen_imp sockfd backlog s)"

definition sys_socket_shutdown :: "int \<Rightarrow> int \<Rightarrow> iostate \<Rightarrow> (iostate, int) res" where
  "sys_socket_shutdown socket how s =
     (let pid = get_current_process (ks s) in
      if socket < 0 \<or> socket \<ge> OPEN_MAX then Ok (- EBADF) s
      else if pid < 0 \<or> pid \<ge> PROCESS_COUNT_MAX then Ok (- 1) s
      else let p = teList (ks s) pid in
      if p = NULL then Ok (- 1) s
      else let f = Objects s p socket in
      if f = NULL then Ok (- 1) s
      else if is_socket f s \<noteq> TRUE then Ok (- ENOTSOCK) s
      else let so = f_socket (files s f) in
      if so = NULL then Ok (- 1) s
      else Ok 0 (upd_sock so (\<lambda>k. k\<lparr>so_state := 216\<rparr>) s))"

end
