(* ===== verification/Socket_Laws.thy ===== *)
theory Socket_Laws
  imports Socket_Calls Byte_Channel Demo_IO
begin

text \<open>
  The buffer of a socket as a state machine: \<open>socket_ok\<close> is its invariant, which every call keeps but one. With it
  the readers and writers never reach the panics of \<open>__read_imp\<close> and \<open>__write_imp\<close>, and a message that was
  written is the message that is read.
\<close>

section \<open>What the scheduler does to the devices\<close>

lemma credits_frame [simp, kernel_frame]:
  "teList (do_credits_by_tid tid k) = teList k" "pheap (do_credits_by_tid tid k) = pheap k"
  "current_pid (do_credits_by_tid tid k) = current_pid k" "current_thread (do_credits_by_tid tid k) = current_thread k"
  "foreground_thread (do_credits_by_tid tid k) = foreground_thread k"
  by (simp_all add: do_credits_by_tid_def do_credits_def upd_thread_def Let_def)

lemma ready_frame [simp, kernel_frame]:
  "teList (do_thread_ready tid k) = teList k" "pheap (do_thread_ready tid k) = pheap k"
  "current_pid (do_thread_ready tid k) = current_pid k" "current_thread (do_thread_ready tid k) = current_thread k"
  "foreground_thread (do_thread_ready tid k) = foreground_thread k"
  by (simp_all add: do_thread_ready_def upd_thread_def Let_def)

lemma yield_frame [simp, kernel_frame]:
  "teList (yield tid k) = teList k" "pheap (yield tid k) = pheap k"
  "current_pid (yield tid k) = current_pid k" "current_thread (yield tid k) = current_thread k"
  "foreground_thread (yield tid k) = foreground_thread k"
  by (simp_all add: yield_def upd_thread_def Let_def)

lemma on_ks_sel [simp]:
  "ks (on_ks g s) = g (ks s)" "hmem (on_ks g s) = hmem s" "files (on_ks g s) = files s" "pipes (on_ks g s) = pipes s" "ttys (on_ks g s) = ttys s"
  "socks (on_ks g s) = socks s" "Objects (on_ks g s) = Objects s" "priv (on_ks g s) = priv s" "gramado_ports (on_ks g s) = gramado_ports s"
  "new_client_port_number (on_ks g s) = new_client_port_number s"
  by (simp_all add: on_ks_def)

lemma credit_current_sel [simp]:
  "ks (credit_current s) = do_credits_by_tid (current_thread (ks s)) (ks s)" "hmem (credit_current s) = hmem s" "files (credit_current s) = files s"
  "socks (credit_current s) = socks s" "Objects (credit_current s) = Objects s" "priv (credit_current s) = priv s"
  "gramado_ports (credit_current s) = gramado_ports s" "new_client_port_number (credit_current s) = new_client_port_number s"
  by (simp_all add: credit_current_def)

lemma yield_current_sel [simp]:
  "ks (yield_current s) = yield (current_thread (ks s)) (ks s)" "hmem (yield_current s) = hmem s" "files (yield_current s) = files s"
  "socks (yield_current s) = socks s" "Objects (yield_current s) = Objects s" "priv (yield_current s) = priv s"
  by (simp_all add: yield_current_def)

lemma upd_file_sel [simp]:
  "files (upd_file f g s) = (files s)(f := g (files s f))" "hmem (upd_file f g s) = hmem s" "ks (upd_file f g s) = ks s" "socks (upd_file f g s) = socks s"
  "Objects (upd_file f g s) = Objects s" "priv (upd_file f g s) = priv s" "gramado_ports (upd_file f g s) = gramado_ports s"
  by (simp_all add: upd_file_def)

lemma upd_sock_sel [simp]:
  "socks (upd_sock f g s) = (socks s)(f := g (socks s f))" "hmem (upd_sock f g s) = hmem s" "ks (upd_sock f g s) = ks s" "files (upd_sock f g s) = files s"
  "Objects (upd_sock f g s) = Objects s" "priv (upd_sock f g s) = priv s" "gramado_ports (upd_sock f g s) = gramado_ports s"
  by (simp_all add: upd_sock_def)

lemma set_object_sel [simp]:
  "Objects (set_object p fd f s) = (Objects s)(p := (Objects s p)(fd := f))" "hmem (set_object p fd f s) = hmem s" "ks (set_object p fd f s) = ks s"
  "files (set_object p fd f s) = files s" "socks (set_object p fd f s) = socks s" "priv (set_object p fd f s) = priv s"
  by (simp_all add: set_object_def)

lemma get_current_process_frame [simp]:
  "get_current_process (do_credits_by_tid tid k) = get_current_process k" "get_current_process (yield tid k) = get_current_process k"
  "get_current_process (do_thread_ready tid k) = get_current_process k"
  by (simp_all add: get_current_process_def)

text \<open>The current process depends on three fields only.\<close>

lemma valid_current_cong:
  "current_pid (ks s') = current_pid (ks s) \<Longrightarrow> teList (ks s') = teList (ks s) \<Longrightarrow> pheap (ks s') = pheap (ks s) \<Longrightarrow> valid_current s' = valid_current s"
  by (simp add: valid_current_def get_current_process_def Let_def)

lemma valid_current_frame [simp]:
  "valid_current (credit_current s) = valid_current s" "valid_current (upd_file f g s) = valid_current s"
  "valid_current (upd_sock so h s) = valid_current s" "valid_current (set_object p fd f s) = valid_current s"
  "valid_current (s\<lparr>read_counter := rc\<rparr>) = valid_current s" "valid_current (s\<lparr>write_counter := rc\<rparr>) = valid_current s"
  by (rule valid_current_cong; simp)+

lemma valid_current_SomeD:
  assumes "valid_current s = Some p"
  shows "0 \<le> get_current_process (ks s)" "get_current_process (ks s) < PROCESS_COUNT_MAX" "teList (ks s) (get_current_process (ks s)) = p" "p \<noteq> NULL"
    "te_used (pheap (ks s) p) = TRUE" "te_magic (pheap (ks s) p) = 1234"
  using assms by (auto simp: valid_current_def Let_def split: if_splits)

lemma get_file_from_fd_valid:
  "valid_current s = Some p \<Longrightarrow> 0 \<le> fd \<Longrightarrow> fd < 32 \<Longrightarrow> get_file_from_fd fd s = Ok (Objects s p fd) s"
  using valid_current_SomeD [of s p] by (simp add: get_file_from_fd_def)

section \<open>The buffer of a socket\<close>

text \<open>An empty buffer may be written, or is dead (no flag at all); a full one may be read.\<close>

definition socket_ok :: "file_d \<Rightarrow> bool" where
  "socket_ok fi \<longleftrightarrow> f_object fi = ObjectTypeSocket \<and>
     (socket_buffer_full fi = FALSE \<and> (f_flags fi = SWR \<or> f_flags fi = 0) \<or> socket_buffer_full fi = TRUE \<and> f_flags fi = SRD)"

lemma socket_okE:
  assumes "socket_ok fi"
  obtains (empty) "f_object fi = ObjectTypeSocket" "socket_buffer_full fi = 0" "f_flags fi = 8"
    | (dead) "f_object fi = ObjectTypeSocket" "socket_buffer_full fi = 0" "f_flags fi = 0"
    | (full) "f_object fi = ObjectTypeSocket" "socket_buffer_full fi = 1" "f_flags fi = 4"
  using assms by (auto simp: socket_ok_def)

lemma read_buffer_socket:
  assumes "f_object (files s f) = ObjectTypeSocket" and "file_read_buffer f u n s = (r, s')"
  shows "r \<le> 0 \<and> s' = s \<or> 0 < r \<and> r = n mod 0x10000 \<and> files s' = files (upd_file f (\<lambda>fi. fi\<lparr>f_flags := f_flags fi OR SWR\<rparr>) s) \<and>
    hmem s' = memcpy (hmem s) u (f_base (files s f)) (word_of_int r) \<and> ks s' = ks s \<and> Objects s' = Objects s"
  using assms by (auto simp: file_read_buffer_def Let_def split: if_splits)

lemma write_buffer_socket:
  assumes "f_object (files s f) = ObjectTypeSocket" and "file_write_buffer f u n s = (r, s')"
  shows "(r = EOF \<or> r = n) \<and> files s' = files s \<and> ks s' = ks s \<and> Objects s' = Objects s"
  using assms by (auto simp: file_write_buffer_def Let_def split: if_splits)

lemma read_socket_ok:
  assumes "socket_ok (files s f)"
  shows "\<exists>r s'. read_socket f u n s = Ok r s' \<and> socket_ok (files s' f) \<and> Objects s' = Objects s \<and>
    (f_flags (files s f) = 0 \<longrightarrow> r = - 1 \<and> files s' = files s)"
  using assms
proof (cases rule: socket_okE)
  case full
  obtain r s1 where r: "file_read_buffer f u n (credit_current s) = (r, s1)" by (cases "file_read_buffer f u n (credit_current s)")
  from read_buffer_socket [OF _ r] full consider "r \<le> 0" "s1 = credit_current s"
    | "0 < r" "files s1 = files (upd_file f (\<lambda>fi. fi\<lparr>f_flags := f_flags fi OR SWR\<rparr>) s)" "Objects s1 = Objects s" by fastforce
  then show ?thesis using full r assms by cases (auto simp: read_socket_def Let_def socket_ok_def)
qed (auto simp: read_socket_def Let_def socket_ok_def)

lemma write_socket_ok:
  assumes "socket_ok (files s f)"
  shows "\<exists>r s'. write_socket f u n s = Ok r s' \<and> socket_ok (files s' f) \<and> Objects s' = Objects s \<and>
    (f_flags (files s f) = 0 \<longrightarrow> r = - 1 \<and> files s' = files s)"
  using assms
proof (cases rule: socket_okE)
  case empty
  let ?s = "upd_file f (\<lambda>fi. fi\<lparr>f_flags := 0\<rparr>) (credit_current s)"
  obtain r s1 where r: "file_write_buffer f u n ?s = (r, s1)" by (cases "file_write_buffer f u n ?s")
  then have "files s1 = files ?s" "Objects s1 = Objects s" using write_buffer_socket [of ?s f u n r s1] empty by auto
  then show ?thesis using empty r by (auto simp: write_socket_def Let_def socket_ok_def)
qed (auto simp: write_socket_def Let_def socket_ok_def)

section \<open>Reads, writes and the scheduler\<close>

definition names :: "int \<Rightarrow> ptr \<Rightarrow> iostate \<Rightarrow> bool" where
  "names fd f s \<longleftrightarrow> (\<forall>p. valid_current s = Some p \<longrightarrow> Objects s p fd = f)"

lemma read_imp_socket:
  assumes "socket_ok (files s f)" and "names fd f s"
  shows "\<exists>r s'. read_imp fd u n s = Ok r s' \<and> socket_ok (files s' f) \<and> (f_flags (files s f) = 0 \<longrightarrow> r \<le> 0 \<and> files s' = files s)"
proof (cases "valid_current s")
  case (Some p)
  let ?s = "s\<lparr>read_counter := (read_counter s)(p := read_counter s p + 1)\<rparr>"
  have k: "f_object (files s f) = ObjectTypeSocket" using assms(1) by (auto simp: socket_ok_def)
  have g: "get_file_from_fd fd ?s = Ok f ?s" if "0 \<le> fd" "fd < 32"
    using get_file_from_fd_valid [of ?s p fd] Some that assms(2) by (simp add: names_def)
  have o: "read_object fd f u n ?s = read_socket f u n ?s" using k by (simp add: read_object_def)
  obtain r s' where r: "read_socket f u n ?s = Ok r s'" "socket_ok (files s' f)" "f_flags (files s f) = 0 \<longrightarrow> r = - 1 \<and> files s' = files s"
    using read_socket_ok [of ?s f u n] assms(1) by auto
  consider "fd < 0 \<or> fd \<ge> 32 \<or> u = NULL \<or> n < 0 \<or> n = 0 \<or> f = NULL \<or> can_read (f_sync (files s f)) \<noteq> TRUE \<or> f_file (files s f) = 1 \<or> f_file (files s f) = 2"
    | "0 \<le> fd" "fd < 32" "u \<noteq> NULL" "0 < n" "f \<noteq> NULL" "can_read (f_sync (files s f)) = TRUE" "f_file (files s f) \<noteq> 1" "f_file (files s f) \<noteq> 2" by linarith
  then show ?thesis
  proof cases
    case 1
    then show ?thesis using Some g k assms(1) by (auto simp: read_imp_def Let_def)
  next
    case 2
    then have "read_imp fd u n s = Ok r s'" using Some g k o r by (simp add: read_imp_def Let_def)
    then show ?thesis using r by auto
  qed
qed (use assms in \<open>auto simp: read_imp_def\<close>)

lemma write_imp_socket:
  assumes "socket_ok (files s f)" and "names fd f s"
  shows "\<exists>r s'. write_imp stk fd u n s = Some (Ok r s') \<and> socket_ok (files s' f) \<and> (f_flags (files s f) = 0 \<longrightarrow> r \<le> 0 \<and> files s' = files s)"
proof (cases "valid_current s")
  case (Some p)
  let ?s = "s\<lparr>write_counter := (write_counter s)(p := write_counter s p + 1)\<rparr>"
  have k: "f_object (files s f) = ObjectTypeSocket" using assms(1) by (auto simp: socket_ok_def)
  have g: "get_file_from_fd fd ?s = Ok f ?s" if "0 \<le> fd" "fd < 32"
    using get_file_from_fd_valid [of ?s p fd] Some that assms(2) by (simp add: names_def)
  have o: "write_object stk fd f u n ?s = Some (write_socket f u n ?s)" using k by (simp add: write_object_def)
  obtain r s' where r: "write_socket f u n ?s = Ok r s'" "socket_ok (files s' f)" "f_flags (files s f) = 0 \<longrightarrow> r = - 1 \<and> files s' = files s"
    using write_socket_ok [of ?s f u n] assms(1) by auto
  consider "fd < 0 \<or> fd \<ge> 32 \<or> u = NULL \<or> n < 0 \<or> n = 0 \<or> f = NULL \<or> can_write (f_sync (files s f)) \<noteq> TRUE \<or> f_file (files s f) = 0 \<or> f_file (files s f) = 1 \<or> f_file (files s f) = 2"
    | "0 \<le> fd" "fd < 32" "u \<noteq> NULL" "0 < n" "f \<noteq> NULL" "can_write (f_sync (files s f)) = TRUE" "f_file (files s f) \<noteq> 0" "f_file (files s f) \<noteq> 1" "f_file (files s f) \<noteq> 2" by linarith
  then show ?thesis
  proof cases
    case 1
    then show ?thesis using Some g k assms(1) by (auto simp: write_imp_def Let_def bindO_def)
  next
    case 2
    then have "write_imp stk fd u n s = Some (Ok r s')" using Some g k o r by (simp add: write_imp_def Let_def bindO_def)
    then show ?thesis using r by auto
  qed
qed (use assms in \<open>auto simp: write_imp_def\<close>)

text \<open>
  The life of the buffer of the file \<open>f\<close> between two moments: reads and writes of any process that has \<open>f\<close> open, and
  whatever the scheduler does (\<open>socket_io\<close>); and the synchronisation calls, but for request 217 (\<open>socket_use\<close>).
\<close>

inductive socket_io :: "ptr \<Rightarrow> iostate \<Rightarrow> iostate \<Rightarrow> bool" for f where
  sock_read: "names fd f s \<Longrightarrow> read_imp fd u n s = Ok r s' \<Longrightarrow> socket_io f s s'"
| sock_write: "names fd f s \<Longrightarrow> write_imp stk fd u n s = Some (Ok r s') \<Longrightarrow> socket_io f s s'"
| sock_schedule: "socket_io f s (on_ks g s)"

inductive socket_use :: "ptr \<Rightarrow> iostate \<Rightarrow> iostate \<Rightarrow> bool" for f where
  use_io: "socket_io f s s' \<Longrightarrow> socket_use f s s'"
| use_sleep: "sync_object fd s \<in> {None, Some f} \<Longrightarrow> sys_sleep_if_socket_is_empty fd s = (r, s') \<Longrightarrow> socket_use f s s'"
| use_sync: "sync_object fd s \<in> {None, Some f} \<Longrightarrow> request \<noteq> 217 \<Longrightarrow> socket_use f s (sys_set_file_sync fd request data s)"

inductive_cases socket_ioE: "socket_io f s s'"
inductive_cases socket_useE: "socket_use f s s'"

lemma socket_io_ok: "socket_io f s s' \<Longrightarrow> socket_ok (files s f) \<Longrightarrow> socket_ok (files s' f)"
proof (erule socket_ioE)
  fix fd u n r assume "names fd f s" "read_imp fd u n s = Ok r s'" "socket_ok (files s f)"
  then show ?thesis using read_imp_socket [of s f fd u n] by auto
next
  fix fd stk u n r assume "names fd f s" "write_imp stk fd u n s = Some (Ok r s')" "socket_ok (files s f)"
  then show ?thesis using write_imp_socket [of s f fd stk u n] by auto
qed simp

lemma socket_io_dead: "socket_io f s s' \<Longrightarrow> socket_ok (files s f) \<Longrightarrow> f_flags (files s f) = 0 \<Longrightarrow> files s' = files s"
proof (erule socket_ioE)
  fix fd u n r assume "names fd f s" "read_imp fd u n s = Ok r s'" "socket_ok (files s f)" "f_flags (files s f) = 0"
  then show ?thesis using read_imp_socket [of s f fd u n] by auto
next
  fix fd stk u n r assume "names fd f s" "write_imp stk fd u n s = Some (Ok r s')" "socket_ok (files s f)" "f_flags (files s f) = 0"
  then show ?thesis using write_imp_socket [of s f fd stk u n] by auto
qed simp

lemma sleep_ok:
  assumes "socket_ok (files s f)" and "sync_object fd s \<in> {None, Some f}" and "sys_sleep_if_socket_is_empty fd s = (r, s')"
  shows "socket_ok (files s' f)"
  using assms by (auto simp: sys_sleep_if_socket_is_empty_def socket_ok_def split: if_splits)

lemma sync_ok:
  assumes "socket_ok (files s f)" and "sync_object fd s \<in> {None, Some f}" and "request \<noteq> 217"
  shows "socket_ok (files (sys_set_file_sync fd request data s) f)"
  using assms by (cases "request = 1"; cases "request = 216") (auto simp: sys_set_file_sync_def socket_ok_def k_rewind_def split: option.splits)

lemma socket_use_ok: "(socket_use f)\<^sup>*\<^sup>* s s' \<Longrightarrow> socket_ok (files s f) \<Longrightarrow> socket_ok (files s' f)"
proof (induction rule: rtranclp_induct)
  case (step s1 s2)
  from step.hyps(2) step.IH [OF step.prems] show ?case by (cases rule: socket_use.cases) (auto intro: socket_io_ok sleep_ok sync_ok)
qed simp

lemma socket_dead_for_ever:
  "(socket_io f)\<^sup>*\<^sup>* s s' \<Longrightarrow> socket_ok (files s f) \<Longrightarrow> f_flags (files s f) = 0 \<Longrightarrow> files s' f = files s f"
proof (induction rule: rtranclp_induct)
  case (step s1 s2)
  then show ?case using socket_io_dead [of f s1 s2] by auto
qed simp

section \<open>What holds and what does not\<close>

text \<open>C20. Reading and writing a socket never stops the machine: from a socket whose buffer is empty and may be
  written (or full and may be read), whatever sequence of reads, writes, synchronisation calls other than request
  217 and scheduling follows, the next read and the next write of any size return, the panics of \<open>__read_imp\<close>
  and \<open>__write_imp\<close> being unreachable, and the flags still agree with the buffer.\<close>

theorem socket_io_never_panics:
  assumes "(socket_use f)\<^sup>*\<^sup>* s s'" and "socket_ok (files s f)" and "names fd f s'"
  shows "socket_ok (files s' f) \<and> (\<exists>r t. read_imp fd u n s' = Ok r t) \<and> (\<exists>r t. write_imp stk fd u n s' = Some (Ok r t))"
  using socket_use_ok [OF assms(1,2)] read_imp_socket [OF _ assms(3)] write_imp_socket [OF _ assms(3)] by blast

lemma demo_current [simp]: "valid_current demo_io = Some 0x100"
  by (simp add: valid_current_def get_current_process_def PROCESS_COUNT_MAX_def)

theorem socket_io_never_panics_witness:
  "(\<exists>r t. read_imp 3 0x400000 8 demo_io = Ok r t) \<and> (\<exists>r t. write_imp 0 3 0x400000 8 demo_io = Some (Ok r t))"
  using socket_io_never_panics [of "0x5000" demo_io demo_io 3 "0x400000" 8 0]
  by (simp add: socket_ok_def demo_socket_file_def names_def)

text \<open>Request 217 breaks it: after \<open>sys_set_file_sync\<close> with 217 on a socket that is empty, a read by any process
  stops the machine.\<close>

theorem sync_217_then_read_panics:
  assumes "valid_current s = Some p" and "Objects s p fd = f" and "f \<noteq> NULL" and "3 \<le> fd" and "fd < OPEN_MAX"
    and "f_used (files s f) = TRUE" and "f_magic (files s f) = 1234" and "f_object (files s f) = ObjectTypeSocket"
    and "socket_buffer_full (files s f) = FALSE" and "block_on_read_empty (f_sync (files s f)) = TRUE"
    and "can_read (f_sync (files s f)) = TRUE" and "f_file (files s f) = fd" and "u \<noteq> NULL" and "0 < n"
  shows "read_imp fd u n (sys_set_file_sync fd 217 data s) = Panic ''__read_imp: [DEBUG] Couldn't read socket. Buffer not full''"
proof -
  note v = valid_current_SomeD [OF assms(1)]
  have "sync_object fd s = Some f" using v assms by (simp add: sync_object_def)
  then have e: "sys_set_file_sync fd 217 data s = upd_file f (\<lambda>fi. fi\<lparr>f_sync := (f_sync fi)\<lparr>sync_action := 0\<rparr>, f_flags := SRD\<rparr>) s"
    using assms by (simp add: sys_set_file_sync_def)
  let ?s = "upd_file f (\<lambda>fi. fi\<lparr>f_sync := (f_sync fi)\<lparr>sync_action := 0\<rparr>, f_flags := SRD\<rparr>) s"
  let ?t = "?s\<lparr>read_counter := (read_counter ?s)(p := read_counter ?s p + 1)\<rparr>"
  have g: "get_file_from_fd fd ?t = Ok f ?t" using get_file_from_fd_valid [of ?t p fd] assms by simp
  show ?thesis unfolding e using assms g
    by (simp add: read_imp_def Let_def read_object_def read_socket_def)
qed

theorem sync_217_then_read_panics_witness:
  "\<exists>e. read_imp 3 0x400000 8 (sys_set_file_sync 3 217 0 demo_io) = Panic e"
  using sync_217_then_read_panics [of demo_io "0x100" 3 "0x5000" "0x400000" 8 0]
  by (simp add: demo_socket_file_def zero_sync_def)

text \<open>C36. A message that is too long blocks a socket: writing 1024 bytes or more to a socket that is empty and may be
  written fails, and after that, as long as only reads, writes and scheduling follow, no read and no write succeeds: the
  flags are lost, the buffer stays as it was. Request 216 of \<open>sys_set_file_sync\<close> and \<open>sys_sleep_if_socket_is_empty\<close>
  make it usable again.\<close>

theorem long_message_kills_socket:
  assumes "valid_current s = Some p" and "Objects s p fd = f" and "f \<noteq> NULL" and "3 \<le> fd" and "fd < OPEN_MAX"
    and "socket_ok (files s f)" and "f_flags (files s f) = SWR" and "can_write (f_sync (files s f)) = TRUE" and "f_file (files s f) = fd"
    and "u \<noteq> NULL" and "n \<ge> BUFSIZ"
  shows "\<exists>s1. write_imp stk fd u n s = Some (Ok (- 1) s1) \<and>
    (\<forall>s2 fd' v k. (socket_io f)\<^sup>*\<^sup>* s1 s2 \<longrightarrow> names fd' f s2 \<longrightarrow>
       (\<exists>r t. read_imp fd' v k s2 = Ok r t \<and> r \<le> 0 \<and> files t f = files s1 f) \<and>
       (\<exists>r t. write_imp stk fd' v k s2 = Some (Ok r t) \<and> r \<le> 0 \<and> files t f = files s1 f))"
proof -
  let ?s = "s\<lparr>write_counter := (write_counter s)(p := write_counter s p + 1)\<rparr>"
  let ?d = "upd_file f (\<lambda>fi. fi\<lparr>f_flags := 0\<rparr>) (credit_current ?s)"
  have k: "f_object (files s f) = ObjectTypeSocket" "socket_buffer_full (files s f) = 0" using assms(6,7) by (auto simp: socket_ok_def)
  have g: "get_file_from_fd fd ?s = Ok f ?s" using get_file_from_fd_valid [of ?s p fd] assms by simp
  have "file_write_buffer f u n ?d = (EOF, ?d)" using assms by (simp add: file_write_buffer_def)
  then have "write_imp stk fd u n s = Some (Ok (- 1) (yield_current ?d))"
    using assms g k by (simp add: write_imp_def Let_def bindO_def write_object_def write_socket_def)
  moreover have d: "socket_ok (files (yield_current ?d) f)" "f_flags (files (yield_current ?d) f) = 0" using k by (auto simp: socket_ok_def)
  moreover have "(\<exists>r t. read_imp fd' v k s2 = Ok r t \<and> r \<le> 0 \<and> files t f = files (yield_current ?d) f) \<and>
       (\<exists>r t. write_imp stk fd' v k s2 = Some (Ok r t) \<and> r \<le> 0 \<and> files t f = files (yield_current ?d) f)"
    if "(socket_io f)\<^sup>*\<^sup>* (yield_current ?d) s2" "names fd' f s2" for s2 fd' v k
  proof -
    have e: "files s2 f = files (yield_current ?d) f" by (rule socket_dead_for_ever [OF that(1) d])
    have ds: "socket_ok (files s2 f)" "f_flags (files s2 f) = 0" unfolding e by (rule d)+
    show ?thesis using read_imp_socket [OF ds(1) that(2), of v k] write_imp_socket [OF ds(1) that(2), of stk v k] ds(2) unfolding e [symmetric] by auto
  qed
  ultimately show ?thesis by blast
qed

theorem long_message_kills_socket_witness:
  "\<exists>s1. write_imp 0 3 0x400000 1024 demo_io = Some (Ok (- 1) s1) \<and>
    (\<forall>s2 v k. (socket_io 0x5000)\<^sup>*\<^sup>* s1 s2 \<longrightarrow> names 3 0x5000 s2 \<longrightarrow> (\<exists>r t. write_imp 0 3 v k s2 = Some (Ok r t) \<and> r \<le> 0))"
proof -
  have "socket_ok (files demo_io 0x5000)" "f_flags (files demo_io 0x5000) = SWR" "can_write (f_sync (files demo_io 0x5000)) = TRUE"
    "f_file (files demo_io 0x5000) = 3" by (simp_all add: demo_socket_file_def socket_ok_def zero_sync_def)
  from long_message_kills_socket [OF demo_current _ _ _ _ this, of "0x400000" 1024 0] show ?thesis by simp blast
qed

end
