(* ===== verification/Connection_Laws.thy ===== *)
theory Connection_Laws
  imports Socket_Laws
begin

text \<open>
  Servers and clients: \<open>server_ready\<close> and \<open>clients_ok\<close> are what \<open>sys_accept\<close> needs and keeps; every client in the
  table is reached within one turn; and the whole dialog of a client and a server, from \<open>sys_listen\<close> to the message.
\<close>

section \<open>accept goes round the table\<close>

definition next_head :: "int \<Rightarrow> int \<Rightarrow> int" where
  "next_head b h = (if h + 1 \<ge> b then 0 else h + 1)"

text \<open>The number of calls until the position is \<open>t\<close>.\<close>

definition turns :: "int \<Rightarrow> int \<Rightarrow> int \<Rightarrow> int" where
  "turns b h t = (if h < t then t - h else if h < b then b - h + t else 1 + t)"

lemma next_head_range: "0 \<le> h \<Longrightarrow> 0 < b \<Longrightarrow> 0 \<le> next_head b h \<and> next_head b h < b"
  by (auto simp: next_head_def)

lemma turns_range: "0 \<le> h \<Longrightarrow> 0 \<le> t \<Longrightarrow> t < b \<Longrightarrow> 0 < turns b h t \<and> turns b h t \<le> b"
  by (auto simp: turns_def)

lemma turns_next: "0 \<le> h \<Longrightarrow> 0 \<le> t \<Longrightarrow> t < b \<Longrightarrow> next_head b h \<noteq> t \<Longrightarrow> turns b (next_head b h) t = turns b h t - 1"
  by (auto simp: turns_def next_head_def split: if_splits)

definition server_ready :: "ptr \<Rightarrow> int \<Rightarrow> ptr \<Rightarrow> iostate \<Rightarrow> bool" where
  "server_ready p fd so s \<longleftrightarrow> (let f = Objects s p fd in
     valid_current s = Some p \<and> 0 \<le> fd \<and> fd < 31 \<and> f \<noteq> NULL \<and> f_used (files s f) = TRUE \<and> f_magic (files s f) = 1234 \<and>
     f_object (files s f) = ObjectTypeSocket \<and> can_accept (f_sync (files s f)) = TRUE \<and> f_socket (files s f) = so \<and> so \<noteq> NULL \<and>
     so_used (socks s so) = TRUE \<and> so_magic (socks s so) = 1234 \<and>
     (so_state (socks s so) = SS_LISTENING \<or> so_state (socks s so) = SS_CONNECTING \<or> so_state (socks s so) = SS_CONNECTED) \<and>
     0 < backlog_max (socks s so) \<and> 0 \<le> backlog_head (socks s so))"

definition client_ok :: "ptr \<Rightarrow> iostate \<Rightarrow> ptr \<Rightarrow> bool" where
  "client_ok so s c \<longleftrightarrow> c \<noteq> so \<and> so_used (socks s c) = TRUE \<and> so_magic (socks s c) = 1234 \<and> private_file (socks s c) \<noteq> NULL"

definition clients_ok :: "ptr \<Rightarrow> iostate \<Rightarrow> bool" where
  "clients_ok so s \<longleftrightarrow> (\<forall>i. 0 \<le> i \<and> i \<le> backlog_max (socks s so) \<and> pending_client_endpoints (socks s so) i \<noteq> NULL \<longrightarrow> client_ok so s (pending_client_endpoints (socks s so) i))"

text \<open>What a call of accept leaves as it was.\<close>

definition same_table :: "ptr \<Rightarrow> iostate \<Rightarrow> iostate \<Rightarrow> bool" where
  "same_table so s s' \<longleftrightarrow> pending_client_endpoints (socks s' so) = pending_client_endpoints (socks s so) \<and>
     backlog_max (socks s' so) = backlog_max (socks s so) \<and> (\<forall>c. private_file (socks s' c) = private_file (socks s c))"

lemma pending_from_cases:
  "pending_from k i = NULL \<or> (\<exists>j. i \<le> j \<and> j \<le> backlog_max k \<and> pending_from k i = pending_client_endpoints k j)"
proof (cases "find (\<lambda>j. pending_client_endpoints k j \<noteq> NULL) [i..backlog_max k]")
  case (Some j)
  then have "j \<in> set [i..backlog_max k]" by (metis find_Some_iff nth_mem)
  then show ?thesis using Some by (auto simp: pending_from_def)
qed (simp add: pending_from_def)

lemma pending_from_first: "i \<le> backlog_max k \<Longrightarrow> pending_client_endpoints k i \<noteq> NULL \<Longrightarrow> pending_from k i = pending_client_endpoints k i"
  by (simp add: pending_from_def upto_rec1)

lemma pending_from_cong:
  "pending_client_endpoints k' = pending_client_endpoints k \<Longrightarrow> backlog_max k' = backlog_max k \<Longrightarrow> pending_from k' i = pending_from k i"
  by (simp add: pending_from_def cong: option.case_cong)

text \<open>The states after a call: nobody found, or the client \<open>c\<close>.\<close>

definition accepted_none :: "ptr \<Rightarrow> iostate \<Rightarrow> iostate" where
  "accepted_none so s = upd_sock so (\<lambda>k. k\<lparr>so_state := so_state (socks s so)\<rparr>)
     (upd_sock so (\<lambda>k. k\<lparr>so_state := SS_CONNECTED, backlog_head := next_head (backlog_max (socks s so)) (backlog_head (socks s so))\<rparr>) s)"

definition accepted :: "ptr \<Rightarrow> ptr \<Rightarrow> ptr \<Rightarrow> iostate \<Rightarrow> iostate" where
  "accepted p so c s = upd_file (private_file (socks s c)) (\<lambda>fi. fi\<lparr>f_file := 31\<rparr>) (set_object p 31 (private_file (socks s c))
     (upd_sock c (\<lambda>k. k\<lparr>so_state := SS_CONNECTED\<rparr>)
       (upd_sock so (\<lambda>k. k\<lparr>so_state := SS_CONNECTED, backlog_head := next_head (backlog_max (socks s so)) (backlog_head (socks s so))\<rparr>) s)))"

lemma accept_pending_eq:
  assumes "0 < backlog_max (socks s so)" and "0 \<le> backlog_head (socks s so)" and "clients_ok so s"
    and "c = pending_from (socks s so) (next_head (backlog_max (socks s so)) (backlog_head (socks s so)))"
  shows "accept_pending p so s = (if c = NULL then Ok (- 1) (accepted_none so s) else Ok 31 (accepted p so c s))" and "c \<noteq> NULL \<Longrightarrow> client_ok so s c"
proof -
  show ok: "c \<noteq> NULL \<Longrightarrow> client_ok so s c"
    using assms(3) pending_from_cases [of "socks s so" "next_head (backlog_max (socks s so)) (backlog_head (socks s so))"]
      next_head_range [OF assms(2,1)] unfolding assms(4) clients_ok_def by (metis order_trans)
  let ?i = "next_head (backlog_max (socks s so)) (backlog_head (socks s so))"
  let ?k = "(socks s so)\<lparr>so_state := SS_CONNECTED, backlog_head := ?i\<rparr>"
  have r: "\<not> (?i < 0 \<or> ?i \<ge> backlog_max ?k)" using next_head_range [OF assms(2,1)] by auto
  have i: "(if backlog_head (socks s so) + 1 \<ge> backlog_max (socks s so) then 0 else backlog_head (socks s so) + 1) = ?i" by (simp add: next_head_def)
  have c: "pending_from ?k ?i = c" unfolding assms(4) by (rule pending_from_cong) simp_all
  show "accept_pending p so s = (if c = NULL then Ok (- 1) (accepted_none so s) else Ok 31 (accepted p so c s))"
    unfolding accept_pending_def Let_def i upd_sock_sel fun_upd_same c using r ok
    by (auto simp: accepted_none_def accepted_def client_ok_def)
qed

lemma accept_imp_ready:
  assumes "server_ready p fd so s" and "addr \<ge> FLOWERTHREAD_BASE" and "addrlen \<noteq> NULL"
  shows "accept_imp fd addr addrlen s = accept_pending p so (credit_current s)"
proof -
  have "addr \<noteq> NULL" using assms(2) by auto
  then show ?thesis using assms by (auto simp: accept_imp_def server_ready_def Let_def is_socket_def)
qed

lemma server_ready_accepted:
  assumes "server_ready p fd so s" and "client_ok so s c"
  shows "server_ready p fd so (accepted p so c s)"
  using assms next_head_range [of "backlog_head (socks s so)" "backlog_max (socks s so)"]
  by (auto simp: server_ready_def Let_def accepted_def client_ok_def)

lemma server_ready_none: "server_ready p fd so s \<Longrightarrow> server_ready p fd so (accepted_none so s)"
  using next_head_range [of "backlog_head (socks s so)" "backlog_max (socks s so)"]
  by (simp add: server_ready_def Let_def accepted_none_def)

lemma same_table_accepted: "c \<noteq> so \<Longrightarrow> same_table so s (accepted p so c s)" "same_table so s (accepted_none so s)"
  by (simp_all add: same_table_def accepted_def accepted_none_def)

lemma clients_ok_accepted:
  assumes "clients_ok so s"
  shows "clients_ok so (accepted_none so s)" and "c \<noteq> so \<Longrightarrow> clients_ok so (accepted p so c s)"
  using assms by (auto simp: clients_ok_def client_ok_def accepted_none_def accepted_def)

lemma accept_step:
  assumes "server_ready p fd so s" and "clients_ok so s" and "addr \<ge> FLOWERTHREAD_BASE" and "addrlen \<noteq> NULL"
    and "h = next_head (backlog_max (socks s so)) (backlog_head (socks s so))" and "c = pending_client_endpoints (socks s so) h"
  shows "\<exists>r s'. accept_imp fd addr addrlen s = Ok r s' \<and> server_ready p fd so s' \<and> clients_ok so s' \<and> same_table so s s' \<and>
    backlog_head (socks s' so) = h \<and>
    (c \<noteq> NULL \<longrightarrow> r = 31 \<and> Objects s' p 31 = private_file (socks s c) \<and> so_state (socks s' c) = SS_CONNECTED)"
proof -
  let ?s = "credit_current s"
  have sr: "server_ready p fd so ?s" using assms(1) by (simp add: server_ready_def Let_def)
  have co: "clients_ok so ?s" using assms(2) by (simp add: clients_ok_def client_ok_def)
  have b: "0 < backlog_max (socks s so)" "0 \<le> backlog_head (socks s so)" using assms(1) by (auto simp: server_ready_def Let_def)
  let ?c = "pending_from (socks s so) h"
  have e: "accept_imp fd addr addrlen s = (if ?c = NULL then Ok (- 1) (accepted_none so ?s) else Ok 31 (accepted p so ?c ?s))"
    and ok: "?c \<noteq> NULL \<Longrightarrow> client_ok so ?s ?c"
    using accept_imp_ready [OF assms(1,3,4)] accept_pending_eq [of ?s so ?c] b co assms(5) by auto
  have hr: "h \<le> backlog_max (socks s so)" using next_head_range [OF b(2,1)] assms(5) by simp
  show ?thesis
  proof (cases "?c = NULL")
    case True
    then have "c = NULL" using pending_from_first [OF hr] assms(6) by auto
    then show ?thesis using True e server_ready_none [OF sr] clients_ok_accepted(1) [OF co] same_table_accepted(2) [of so ?s] assms(5)
      by (auto simp: same_table_def accepted_none_def)
  next
    case False
    then have "?c \<noteq> so" using ok by (simp add: client_ok_def)
    moreover have "c \<noteq> NULL \<Longrightarrow> ?c = c" using pending_from_first [OF hr] assms(6) by simp
    ultimately show ?thesis using False e server_ready_accepted [OF sr ok] clients_ok_accepted(2) [OF co, of ?c p] same_table_accepted(1) [of ?c so ?s p] assms(5)
      by (auto simp: same_table_def accepted_def)
  qed
qed

text \<open>\<open>n\<close> calls of accept, with their results.\<close>

primrec accept_times :: "nat \<Rightarrow> int \<Rightarrow> ptr \<Rightarrow> ptr \<Rightarrow> iostate \<Rightarrow> (iostate, int list) res" where
  "accept_times 0 fd addr addrlen s = Ok [] s"
| "accept_times (Suc n) fd addr addrlen s =
     bindR (accept_imp fd addr addrlen s) (\<lambda>r s1. bindR (accept_times n fd addr addrlen s1) (\<lambda>rs s2. Ok (r # rs) s2))"

lemma accept_times_length: "accept_times n fd addr addrlen s = Ok rs s' \<Longrightarrow> length rs = n"
  by (induction n arbitrary: s rs) (auto simp: bindR_eq_Ok)

lemma accept_reaches:
  assumes "server_ready p fd so s" and "clients_ok so s" and "addr \<ge> FLOWERTHREAD_BASE" and "addrlen \<noteq> NULL"
    and "0 \<le> t" and "t < backlog_max (socks s so)" and "c = pending_client_endpoints (socks s so) t" and "c \<noteq> NULL"
    and "nat (turns (backlog_max (socks s so)) (backlog_head (socks s so)) t) = Suc n"
  shows "\<exists>rs s'. accept_times (Suc n) fd addr addrlen s = Ok rs s' \<and> last rs = 31 \<and> Objects s' p 31 = private_file (socks s c) \<and>
    so_state (socks s' c) = SS_CONNECTED"
  using assms
proof (induction n arbitrary: s)
  case (0 s)
  let ?b = "backlog_max (socks s so)" and ?h = "backlog_head (socks s so)"
  have b: "0 \<le> ?h" using 0(1) by (auto simp: server_ready_def Let_def)
  have "next_head ?b ?h = t"
  proof (rule ccontr)
    assume "next_head ?b ?h \<noteq> t"
    then have "turns ?b (next_head ?b ?h) t = turns ?b ?h t - 1" by (rule turns_next [OF b 0(5,6)])
    moreover have "0 < turns ?b (next_head ?b ?h) t" using turns_range [OF _ 0(5,6)] next_head_range [OF b] 0(5,6) by simp
    ultimately show False using 0(9) by simp
  qed
  then show ?case using accept_step [OF 0(1-4) refl, of c] 0(7,8) by auto
next
  case (Suc n s)
  let ?b = "backlog_max (socks s so)" and ?h = "backlog_head (socks s so)"
  have b: "0 \<le> ?h" using Suc.prems(1) by (auto simp: server_ready_def Let_def)
  obtain r s1 where s1: "accept_imp fd addr addrlen s = Ok r s1" "server_ready p fd so s1" "clients_ok so s1" "same_table so s s1"
    "backlog_head (socks s1 so) = next_head ?b ?h"
    using accept_step [OF Suc.prems(1-4) refl refl] by blast
  have t: "turns ?b ?h t = int (Suc (Suc n))" using Suc.prems(9) by linarith
  have "next_head ?b ?h \<noteq> t"
  proof
    assume "next_head ?b ?h = t"
    then have "turns ?b ?h t = 1" using b Suc.prems(5,6) by (auto simp: turns_def next_head_def split: if_splits)
    then show False using t by simp
  qed
  then have n: "nat (turns (backlog_max (socks s1 so)) (backlog_head (socks s1 so)) t) = Suc n"
    using turns_next [OF b Suc.prems(5,6)] t s1(4,5) by (simp add: same_table_def)
  obtain rs s' where rs: "accept_times (Suc n) fd addr addrlen s1 = Ok rs s'" "last rs = 31" "Objects s' p 31 = private_file (socks s1 c)" "so_state (socks s' c) = SS_CONNECTED"
    using Suc.IH [OF s1(2,3) Suc.prems(3,4,5) _ _ Suc.prems(8) n] s1(4) Suc.prems(6,7) unfolding same_table_def by auto
  moreover have "rs \<noteq> []" using accept_times_length [OF rs(1)] by auto
  ultimately show ?case using s1(1,4) by (subst accept_times.simps) (auto simp: same_table_def simp del: accept_times.simps)
qed

text \<open>C22. A server that keeps calling accept serves every client: a client whose connection is pending, wherever it
  is in the table, is the one that a call returns within at most \<open>backlog_max\<close> calls; then descriptor 31 of the
  server is the client's file and the client is connected.\<close>

theorem accept_serves_every_client:
  assumes "server_ready p fd so s" and "clients_ok so s" and "addr \<ge> FLOWERTHREAD_BASE" and "addrlen \<noteq> NULL"
    and "0 \<le> t" and "t < backlog_max (socks s so)" and "c = pending_client_endpoints (socks s so) t" and "c \<noteq> NULL"
  shows "\<exists>n rs s'. 0 < n \<and> int n \<le> backlog_max (socks s so) \<and> accept_times n fd addr addrlen s = Ok rs s' \<and> last rs = 31 \<and>
    Objects s' p 31 = private_file (socks s c) \<and> so_state (socks s' c) = SS_CONNECTED"
proof -
  let ?d = "turns (backlog_max (socks s so)) (backlog_head (socks s so)) t"
  have "0 \<le> backlog_head (socks s so)" using assms(1) by (auto simp: server_ready_def Let_def)
  from turns_range [OF this assms(5,6)] have d: "0 < ?d" "?d \<le> backlog_max (socks s so)" by simp_all
  then obtain n where n: "nat ?d = Suc n" by (cases "nat ?d") auto
  then have "int (Suc n) \<le> backlog_max (socks s so)" using d by linarith
  then show ?thesis using accept_reaches [OF assms n] by blast
qed

theorem accept_serves_every_client_witness:
  "\<exists>n rs s'. 0 < n \<and> int n \<le> 4 \<and>
     accept_times n 3 0x300000 0x300010 (upd_sock 0x9000 (\<lambda>k. k\<lparr>pending_client_endpoints := (\<lambda>_. NULL)(2 := 0x9100)\<rparr>) demo_io) = Ok rs s' \<and>
     last rs = 31 \<and> Objects s' 0x100 31 = 0x5100 \<and> so_state (socks s' 0x9100) = SS_CONNECTED"
  using accept_serves_every_client [of "0x100" 3 "0x9000" "upd_sock 0x9000 (\<lambda>k. k\<lparr>pending_client_endpoints := (\<lambda>_. NULL)(2 := 0x9100)\<rparr>) demo_io"
    "0x300000" "0x300010" 2 "0x9100"]
  by (simp add: server_ready_def clients_ok_def client_ok_def demo_socket_file_def demo_socks_def demo_socket_def zero_sync_def zero_socket_def)

section \<open>A dialog\<close>

definition as_process :: "int \<Rightarrow> iostate \<Rightarrow> iostate" where
  "as_process pid s = on_ks (set_current_process pid) s"

text \<open>Process \<open>pid\<close> has the socket \<open>so\<close> open as descriptor \<open>fd\<close>, with an empty buffer at \<open>b\<close>.\<close>

definition socket_end :: "int \<Rightarrow> ptr \<Rightarrow> int \<Rightarrow> ptr \<Rightarrow> ptr \<Rightarrow> ptr \<Rightarrow> iostate \<Rightarrow> bool" where
  "socket_end pid p fd f so b s \<longleftrightarrow>
     0 \<le> pid \<and> pid < PROCESS_COUNT_MAX \<and> teList (ks s) pid = p \<and> p \<noteq> NULL \<and> te_used (pheap (ks s) p) = TRUE \<and> te_magic (pheap (ks s) p) = 1234 \<and>
     3 \<le> fd \<and> fd < 31 \<and> Objects s p fd = f \<and> f \<noteq> NULL \<and> f_used (files s f) = TRUE \<and> f_magic (files s f) = 1234 \<and>
     socket_ok (files s f) \<and> f_flags (files s f) = SWR \<and> can_read (f_sync (files s f)) = TRUE \<and> can_write (f_sync (files s f)) = TRUE \<and>
     can_accept (f_sync (files s f)) = TRUE \<and> can_connect (f_sync (files s f)) = TRUE \<and>
     f_socket (files s f) = so \<and> f_base (files s f) = b \<and> f_lbfsize (files s f) = BUFSIZ \<and> f_file (files s f) = fd \<and>
     so \<noteq> NULL \<and> so_used (socks s so) = TRUE \<and> so_magic (socks s so) = 1234 \<and> private_file (socks s so) = f \<and> priv s p = so"

lemma as_process_sel [simp]:
  "hmem (as_process pid s) = hmem s" "files (as_process pid s) = files s" "socks (as_process pid s) = socks s" "Objects (as_process pid s) = Objects s"
  "priv (as_process pid s) = priv s" "gramado_ports (as_process pid s) = gramado_ports s" "teList (ks (as_process pid s)) = teList (ks s)"
  "pheap (ks (as_process pid s)) = pheap (ks s)" "current_pid (ks (as_process pid s)) = pid" "get_current_process (ks (as_process pid s)) = pid"
  by (simp_all add: as_process_def set_current_process_def get_current_process_def)

lemma valid_as_process: "socket_end pid p fd f so b s \<Longrightarrow> valid_current (as_process pid s) = Some p"
  by (simp add: valid_current_def socket_end_def Let_def)

lemma socket_end_facts:
  assumes "socket_end pid p fd f so b s"
  shows "teList (ks s) pid = p" "\<not> (pid < 0 \<or> pid \<ge> PROCESS_COUNT_MAX)" "p \<noteq> NULL" "te_magic (pheap (ks s) p) = 1234" "Objects s p fd = f" "f \<noteq> NULL" "is_socket f s = TRUE"
    "f_socket (files s f) = so" "so \<noteq> NULL" "priv s p = so" "0 \<le> fd" "fd < 31" "can_connect (f_sync (files s f)) = TRUE" "private_file (socks s so) = f"
  using assms by (auto simp: socket_end_def is_socket_def socket_ok_def)

lemma is_socket_cong: "files s' = files s \<Longrightarrow> is_socket f s' = is_socket f s"
  by (simp add: is_socket_def)

text \<open>\<open>moved s s'\<close>: only sockets, file tables and the scheduler have changed.\<close>

definition moved :: "iostate \<Rightarrow> iostate \<Rightarrow> bool" where
  "moved s s' \<longleftrightarrow> teList (ks s') = teList (ks s) \<and> pheap (ks s') = pheap (ks s) \<and> hmem s' = hmem s \<and> priv s' = priv s \<and> gramado_ports s' = gramado_ports s"

lemma listen_step:
  assumes "socket_end pid p fd f so b s"
  shows "\<exists>s1. sys_listen fd backlog (as_process pid s) = Ok 0 s1 \<and> moved s s1 \<and> files s1 = files s \<and> Objects s1 = Objects s \<and>
    socks s1 = (socks s)(so := start_listening backlog ((socks s so)\<lparr>isAcceptingConnections := FALSE\<rparr>))"
proof -
  note e = socket_end_facts [OF assms]
  have "is_socket f (credit_current (as_process pid s)) = TRUE" using e(7) is_socket_cong [of "credit_current (as_process pid s)" s f] by simp
  then show ?thesis using e by (simp add: sys_listen_def listen_imp_def Let_def moved_def)
qed

text \<open>The address ''ds'' of the family \<open>AF_GRAMADO\<close>.\<close>

definition ds_address :: "ptr \<Rightarrow> iostate \<Rightarrow> bool" where
  "ds_address addr s \<longleftrightarrow> addr \<ge> FLOWERTHREAD_BASE \<and> sa_family addr s = AF_GRAMADO \<and> sa_data addr 0 s = 0x64 \<and> sa_data addr 1 s = 0x73"

lemma ds_address_cong: "hmem s' = hmem s \<Longrightarrow> ds_address addr s' = ds_address addr s"
  by (simp add: ds_address_def sa_family_def sa_data_def)

definition enqueued :: "ptr \<Rightarrow> int \<Rightarrow> socket_d \<Rightarrow> socket_d" where
  "enqueued c slot k = (let tail = next_head (backlog_max k) (pending_client_count k)
     in k\<lparr>clientfd_on_server := slot, so_link := c, so_state := SS_CONNECTING, pending_client_count := tail,
          pending_client_endpoints := (pending_client_endpoints k)(tail := c)\<rparr>)"

lemma link_sockets_sel:
  "ks (link_sockets sp so f c slot s) = ks s" "hmem (link_sockets sp so f c slot s) = hmem s" "files (link_sockets sp so f c slot s) = files s"
  "priv (link_sockets sp so f c slot s) = priv s" "Objects (link_sockets sp so f c slot s) = (Objects s)(sp := (Objects s sp)(31 := f))"
  "gramado_ports (link_sockets sp so f c slot s) = gramado_ports s"
  "so \<noteq> c \<Longrightarrow> socks (link_sockets sp so f c slot s) so = enqueued c slot (socks s so)"
  "so \<noteq> c \<Longrightarrow> socks (link_sockets sp so f c slot s) c = (socks s c)\<lparr>clientfd_on_server := slot, so_link := so, so_state := SS_CONNECTING,
     magic_string := (magic_string (socks s c))(0 := 0x43, 1 := 0)\<rparr>"
  by (simp_all add: link_sockets_def Let_def enqueued_def next_head_def set_object_def upd_sock_def)

lemma connect_step:
  assumes c: "socket_end cpid cp cfd cf co cb s" and u: "so_state (socks s co) = SS_UNCONNECTED" and g: "gramado_ports s GRAMADO_PORT_WS = spid"
    and sp: "0 \<le> spid" "spid < PROCESS_COUNT_MAX" "teList (ks s) spid = sp" "sp \<noteq> NULL" and slot: "free_slot s sp = Some slot"
    and so: "priv s sp = so" "so \<noteq> NULL" "so \<noteq> co" and a: "ds_address addr s" "addrlen \<noteq> 0"
  shows "\<exists>s2. sys_connect cfd addr addrlen (as_process cpid s) = Ok 0 s2 \<and> moved s s2 \<and> files s2 = files s \<and>
    Objects s2 = (Objects s)(sp := (Objects s sp)(31 := cf)) \<and> socks s2 so = enqueued co slot (socks s so) \<and>
    so_used (socks s2 co) = so_used (socks s co) \<and> so_magic (socks s2 co) = so_magic (socks s co) \<and> private_file (socks s2 co) = private_file (socks s co)"
proof -
  note e = socket_end_facts [OF c]
  let ?s = "credit_current (as_process cpid s)"
  let ?port = "new_client_port_number ?s + 1"
  let ?t = "upd_sock co (\<lambda>k. k\<lparr>so_port := ?port\<rparr>) (?s\<lparr>new_client_port_number := ?port\<rparr>)"
  have ar: "addr \<noteq> NULL" "\<not> addr < FLOWERTHREAD_BASE" "ds_address addr ?s" using a(1) ds_address_cong [of ?s s addr] by (auto simp: ds_address_def)
  have "is_socket cf ?s = TRUE" using e(7) is_socket_cong [of ?s s cf] by simp
  then have cs: "client_socket_of cfd ?s = Inr (cf, co)" using e u by (simp add: client_socket_of_def)
  have fs: "free_slot ?t sp = Some slot" using slot by (simp add: free_slot_def)
  have "connect_to cfd spid ?s = Ok 0 (link_sockets sp so cf co slot ?t)"
    unfolding connect_to_def cs Let_def using sp so fs by simp
  moreover have "sys_connect cfd addr addrlen (as_process cpid s) = connect_to cfd spid ?s"
    using ar a e(11,12) sp(1,2) g by (simp add: sys_connect_def connect_local_def ds_address_def sa_family_def sa_data_def socket_get_gramado_port_def)
  ultimately show ?thesis using so(3) by (simp add: link_sockets_sel moved_def)
qed

lemma send_step:
  assumes "valid_current s = Some p" and "Objects s p fd = f" and "f \<noteq> NULL" and "0 \<le> fd" and "fd < 32" and "f_file (files s f) > 2"
    and "socket_ok (files s f)" and "f_flags (files s f) = SWR" and "can_write (f_sync (files s f)) = TRUE"
    and "u \<noteq> NULL" and "0 < n" and "n < BUFSIZ"
  shows "\<exists>s' w. write_imp stk fd u n s = Some (Ok n s') \<and> hmem s' = memcpy (hmem s) (f_base (files s f)) u (word_of_int n) \<and>
    teList (ks s') = teList (ks s) \<and> pheap (ks s') = pheap (ks s) \<and> Objects s' = Objects s \<and>
    files s' f = (files s f)\<lparr>socket_buffer_full := TRUE, f_flags := SRD, tid_waiting := w\<rparr>"
proof -
  let ?s = "s\<lparr>write_counter := (write_counter s)(p := write_counter s p + 1)\<rparr>"
  let ?d = "upd_file f (\<lambda>fi. fi\<lparr>f_flags := 0\<rparr>) (credit_current ?s)"
  have k: "f_object (files s f) = ObjectTypeSocket" "socket_buffer_full (files s f) = 0" using assms(7,8) by (auto simp: socket_ok_def)
  have g: "get_file_from_fd fd ?s = Ok f ?s" using get_file_from_fd_valid [of ?s p fd] assms by simp
  have w: "file_write_buffer f u n ?d = (n, ?d\<lparr>hmem := memcpy (hmem s) (f_base (files s f)) u (word_of_int n)\<rparr>)"
    using assms k by (simp add: file_write_buffer_def)
  have "write_imp stk fd u n s = Some (write_socket f u n ?s)"
    using assms g k by (simp add: write_imp_def Let_def bindO_def write_object_def)
  then show ?thesis using assms(7,8,11) k w by (simp add: write_socket_def Let_def) blast
qed

lemma receive_step:
  assumes "valid_current s = Some p" and "Objects s p fd = f" and "f \<noteq> NULL" and "0 \<le> fd" and "fd < 32" and "f_file (files s f) > 2"
    and "socket_ok (files s f)" and "f_flags (files s f) = SRD" and "can_read (f_sync (files s f)) = TRUE"
    and "f_used (files s f) = TRUE" and "f_magic (files s f) = 1234" and "f_lbfsize (files s f) = BUFSIZ"
    and "v \<noteq> NULL" and "0 < n" and "n < BUFSIZ"
  shows "\<exists>s'. read_imp fd v n s = Ok n s' \<and> hmem s' = memcpy (hmem s) v (f_base (files s f)) (word_of_int n) \<and>
    files s' f = (files s f)\<lparr>socket_buffer_full := FALSE, f_flags := SWR, tid_waiting := - 1\<rparr>"
proof -
  let ?s = "s\<lparr>read_counter := (read_counter s)(p := read_counter s p + 1)\<rparr>"
  have k: "f_object (files s f) = ObjectTypeSocket" "socket_buffer_full (files s f) = 1" using assms(7,8) by (auto simp: socket_ok_def)
  have g: "get_file_from_fd fd ?s = Ok f ?s" using get_file_from_fd_valid [of ?s p fd] assms by simp
  have w: "file_read_buffer f v n (credit_current ?s) = (n, upd_file f (\<lambda>fi. fi\<lparr>f_flags := f_flags fi OR SWR\<rparr>)
      ((credit_current ?s)\<lparr>hmem := memcpy (hmem s) v (f_base (files s f)) (word_of_int n)\<rparr>))"
    using assms k by (simp add: file_read_buffer_def)
  have "read_imp fd v n s = read_socket f v n ?s"
    using assms g k by (simp add: read_imp_def Let_def read_object_def)
  then show ?thesis using assms(7,8,14) k w by (simp add: read_socket_def Let_def)
qed

text \<open>C17. The dialog of the display server and its clients: the server listens, a client connects to the name ''ds'',
  the server accepts and gets descriptor 31, and a message of less than 1024 bytes that the server writes there is,
  byte for byte, what the client reads from its own descriptor; after that the socket is ready for the next
  message. Every call of the five succeeds.\<close>

theorem socket_dialog_delivers:
  assumes server: "socket_end spid sp sfd sf so sb s" and client: "socket_end cpid cp cfd cf co cb s"
    and apart_ends: "so \<noteq> co" "sf \<noteq> cf" "sp \<noteq> cp" and "so_state (socks s co) = SS_UNCONNECTED" and "backlog_head (socks s so) = 0"
    and "gramado_ports s GRAMADO_PORT_WS = spid" and "free_slot s sp = Some slot"
    and "ds_address addr s" "addrlen \<noteq> 0" and a: "a \<ge> FLOWERTHREAD_BASE" "l \<noteq> NULL"
    and n: "0 < n" "n < 1024" and uv: "u \<noteq> NULL" "v \<noteq> NULL" "apart cb n u n" "apart v n cb n"
  shows "\<exists>s1 s2 s3 s4 s5. sys_listen sfd backlog (as_process spid s) = Ok 0 s1 \<and>
    sys_connect cfd addr addrlen (as_process cpid s1) = Ok 0 s2 \<and> sys_accept sfd a l (as_process spid s2) = Ok 31 s3 \<and>
    write_imp stk 31 u (int n) s3 = Some (Ok (int n) s4) \<and> read_imp cfd v (int n) (as_process cpid s4) = Ok (int n) s5 \<and>
    bytes (hmem s5) v n = bytes (hmem s) u n \<and> f_flags (files s5 cf) = SWR \<and> socket_ok (files s5 cf)"
proof -
  obtain s1 where s1: "sys_listen sfd backlog (as_process spid s) = Ok 0 s1" "moved s s1" "files s1 = files s" "Objects s1 = Objects s"
    "socks s1 = (socks s)(so := start_listening backlog ((socks s so)\<lparr>isAcceptingConnections := FALSE\<rparr>))"
    using listen_step [OF server, of backlog] by blast
  have c1: "socket_end cpid cp cfd cf co cb s1" and e1: "socket_end spid sp sfd sf so sb s1"
    using s1(2-5) client server apart_ends(1) by (auto simp: socket_end_def moved_def start_listening_def Let_def)
  have "free_slot s1 sp = Some slot" "ds_address addr s1"
    using assms(9,10) ds_address_cong [of s1 s addr] s1(2,4) by (simp_all add: free_slot_def moved_def)
  then obtain s2 where s2: "sys_connect cfd addr addrlen (as_process cpid s1) = Ok 0 s2" "moved s1 s2" "files s2 = files s1"
    "Objects s2 = (Objects s1)(sp := (Objects s1 sp)(31 := cf))" "socks s2 so = enqueued co slot (socks s1 so)"
    "so_used (socks s2 co) = so_used (socks s1 co)" "so_magic (socks s2 co) = so_magic (socks s1 co)" "private_file (socks s2 co) = private_file (socks s1 co)"
    using connect_step [OF c1, of spid sp slot so addr addrlen] socket_end_facts [OF e1] assms(6,8,11) apart_ends(1) s1(2,5) by (auto simp: moved_def)
  let ?t = "as_process spid s2"
  let ?b = "backlog_max (socks s1 so)"
  have b32: "?b < 32" using s1(5) by (auto simp: start_listening_def Let_def)
  have b: "0 < ?b" "pending_client_count (socks s1 so) = 0" "backlog_head (socks s1 so) = 0"
    "\<And>i. 0 \<le> i \<and> i < 32 \<Longrightarrow> pending_client_endpoints (socks s1 so) i = NULL"
    using s1(5) assms(7) by (auto simp: start_listening_def Let_def)
  let ?k = "enqueued co slot (socks s1 so)"
  have bk: "backlog_max ?k = ?b" "backlog_head ?k = 0" by (simp_all add: enqueued_def Let_def b)
  have pend: "pending_client_endpoints ?k (next_head ?b 0) = co" by (simp add: enqueued_def Let_def b)
  have sr: "server_ready sp sfd so ?t"
    using e1 s2(2-5) b valid_as_process [OF e1] apart_ends
    by (auto simp: server_ready_def socket_end_def socket_ok_def moved_def enqueued_def Let_def valid_current_def)
  have ck: "client_ok so ?t co" using c1 s2(6-8) apart_ends(1) by (auto simp: client_ok_def socket_end_def)
  have co: "clients_ok so (credit_current ?t)"
    using ck b(4) b32 by (auto simp: clients_ok_def client_ok_def s2(5) enqueued_def Let_def)
  have pf: "pending_from ?k (next_head ?b 0) = co"
    using pending_from_first [of "next_head ?b 0" ?k] pend bk next_head_range [of 0 ?b] b(1) socket_end_facts(9) [OF c1] by simp
  have acc: "sys_accept sfd a l ?t = Ok 31 (accepted sp so co (credit_current ?t))"
  proof -
    have k: "socks (credit_current ?t) so = ?k" using s2(5) by simp
    have h: "0 < backlog_max (socks (credit_current ?t) so)" "0 \<le> backlog_head (socks (credit_current ?t) so)" unfolding k bk using b(1) by simp_all
    have "co = pending_from (socks (credit_current ?t) so) (next_head (backlog_max (socks (credit_current ?t) so)) (backlog_head (socks (credit_current ?t) so)))"
      unfolding k bk by (rule pf [symmetric])
    from accept_pending_eq(1) [OF h co this, of sp] show ?thesis
      unfolding sys_accept_def accept_imp_ready [OF sr a] using socket_end_facts(9) [OF c1] by (simp only: if_False)
  qed
  let ?s3 = "accepted sp so co (credit_current ?t)"
  have f3: "files ?s3 cf = (files s cf)\<lparr>f_file := 31\<rparr>" "Objects ?s3 sp 31 = cf" "Objects ?s3 cp cfd = cf" "hmem ?s3 = hmem s"
    "teList (ks ?s3) = teList (ks s)" "pheap (ks ?s3) = pheap (ks s)" "valid_current ?s3 = Some sp"
    using s1 s2 c1 e1 apart_ends sr by (auto simp: accepted_def moved_def socket_end_def server_ready_def Let_def)
  note cl = client [unfolded socket_end_def]
  obtain s4 w where s4: "write_imp stk 31 u (int n) ?s3 = Some (Ok (int n) s4)" "hmem s4 = memcpy (hmem s) cb u (word_of_int (int n))"
    "teList (ks s4) = teList (ks s)" "pheap (ks s4) = pheap (ks s)" "Objects s4 = Objects ?s3"
    "files s4 cf = (files ?s3 cf)\<lparr>socket_buffer_full := TRUE, f_flags := SRD, tid_waiting := w\<rparr>"
    using send_step [OF f3(7,2), of u "int n" stk] f3 cl n uv by (auto simp: socket_ok_def)
  have v4: "valid_current (as_process cpid s4) = Some cp" using s4(3,4) cl by (simp add: valid_current_def Let_def)
  obtain s5 where s5: "read_imp cfd v (int n) (as_process cpid s4) = Ok (int n) s5" "hmem s5 = memcpy (hmem s4) v cb (word_of_int (int n))"
    "files s5 cf = (files s4 cf)\<lparr>socket_buffer_full := FALSE, f_flags := SWR, tid_waiting := - 1\<rparr>"
    using receive_step [OF v4, of cfd cf v "int n"] f3 s4 cl n uv by (auto simp: socket_ok_def)
  have nu: "unat (word_of_int (int n) :: u64) = n" using n by (simp add: unat_of_nat)
  have "bytes (hmem s4) cb n = bytes (hmem s) u n"
    using memcpy_put [of cb "word_of_int (int n)" u "hmem s"] uv(3) bytes_put [of "bytes (hmem s) u n" "hmem s" cb] n s4(2) unfolding nu by (simp add: bytes_def)
  moreover have "bytes (hmem s5) v n = bytes (hmem s4) cb n"
    using memcpy_put [of v "word_of_int (int n)" cb "hmem s4"] uv(4) bytes_put [of "bytes (hmem s4) cb n" "hmem s4" v] n s5(2) unfolding nu by (simp add: bytes_def)
  moreover have "f_flags (files s5 cf) = SWR" "socket_ok (files s5 cf)"
    using s5(3) s4(6) f3(1) cl by (auto simp: socket_ok_def)
  ultimately show ?thesis using s1(1) s2(1) acc s4(1) s5(1) by metis
qed

lemma demo_ends:
  "socket_end 0 0x100 3 0x5000 0x9000 0x20000 demo_io" "socket_end 1 0x200 3 0x5100 0x9100 0x20400 demo_io"
  by (simp_all add: socket_end_def socket_ok_def demo_socket_file_def demo_socks_def demo_socket_def zero_sync_def zero_socket_def PROCESS_COUNT_MAX_def)

lemma demo_slot: "free_slot demo_io 0x100 = Some 4"
  by (simp add: free_slot_def upto_rec1)

lemma demo_address: "ds_address 0x300000 demo_io"
  by (simp add: ds_address_def sa_family_def sa_data_def short_at_def demo_memory_def)

theorem socket_dialog_delivers_witness:
  "\<exists>s1 s2 s3 s4 s5. sys_listen 3 4 (as_process 0 demo_io) = Ok 0 s1 \<and> sys_connect 3 0x300000 16 (as_process 1 s1) = Ok 0 s2 \<and>
    sys_accept 3 0x300000 0x300010 (as_process 0 s2) = Ok 31 s3 \<and> write_imp 0 31 0x400000 (int 100) s3 = Some (Ok (int 100) s4) \<and>
    read_imp 3 0x500000 (int 100) (as_process 1 s4) = Ok (int 100) s5 \<and> bytes (hmem s5) 0x500000 100 = bytes (hmem demo_io) 0x400000 100"
proof -
  have r: "apart 0x20400 100 0x400000 100" "apart 0x500000 100 0x20400 100"
    by (rule apart_ordered; simp) (rule apart_sym, rule apart_ordered; simp)
  show ?thesis
    using socket_dialog_delivers [OF demo_ends _ _ _ _ _ _ demo_slot demo_address _ _ _ _ _ _ _ r, of 16 "0x300000" "0x300010" 4 0]
    by (simp add: demo_socks_def demo_socket_def zero_socket_def) blast
qed

end
