(* ===== verification/File_Laws.thy ===== *)
theory File_Laws
  imports Socket_Laws
begin

text \<open>
  The buffer of a regular file (\<open>file_ok\<close>): what was written and not yet read is \<open>unread\<close>. A write appends what
  fits, a read takes from the front; writing to a full file loses the unread bytes. And the descriptors: closing
  one of two descriptors of a file by \<open>sys_dup2\<close> closes both.
\<close>

section \<open>Regular files\<close>

definition file_ok :: "file_d \<Rightarrow> bool" where
  "file_ok fi \<longleftrightarrow> f_used fi = TRUE \<and> f_magic fi = 1234 \<and> f_object fi = ObjectTypeFile \<and> 0 < f_lbfsize fi \<and> f_lbfsize fi \<le> BUFSIZ \<and>
     0 \<le> f_r fi \<and> f_r fi \<le> f_w fi \<and> f_w fi \<le> f_lbfsize fi \<and> f_cnt fi = f_lbfsize fi - f_w fi"

definition unread :: "mem \<Rightarrow> file_d \<Rightarrow> u8 list" where
  "unread m fi = bytes m (at_index (f_base fi) (f_r fi)) (nat (f_w fi - f_r fi))"

text \<open>A buffer of the caller, away from the buffer of the file.\<close>

definition file_user :: "file_d \<Rightarrow> ptr \<Rightarrow> int \<Rightarrow> bool" where
  "file_user fi u n \<longleftrightarrow> u \<noteq> NULL \<and> 0 < n \<and> n < BUFSIZ \<and> apart u (nat n) (f_base fi) 1024"

lemma memcpy_int:
  assumes "0 \<le> k" and "k < 2 ^ 63" and "apart d (nat k) p (nat k)"
  shows "memcpy m d p (word_of_int k) = put m d (bytes m p (nat k))"
proof -
  have "unat (word_of_int k :: u64) = nat k" using assms(1,2) by (simp add: unat_eq_nat_uint uint_word_of_int)
  then show ?thesis using memcpy_put [of d "word_of_int k" p m] assms(3) by simp
qed

lemma region_index:
  assumes "0 \<le> i" and "0 \<le> k" and "i + k \<le> n"
  shows "region (at_index p i) (nat k) \<subseteq> region p (nat n)"
proof -
  have "region (p + of_nat (nat i)) (nat k) \<subseteq> region p (nat i + nat k)" by (rule region_offset)
  also have "\<dots> \<subseteq> region p (nat n)" using assms by (intro region_mono) linarith
  finally show ?thesis using assms(1) by simp
qed

lemma bytes_split: "bytes m p (i + k) = bytes m p i @ bytes m (p + of_nat i) k"
  by (rule nth_equalityI) (auto simp: bytes_def nth_append algebra_simps)

lemma write_adjust_same: "f_cnt fi \<le> f_lbfsize fi \<Longrightarrow> write_adjust fi = fi"
  by (simp add: write_adjust_def)

lemma file_write_buffer_file:
  assumes "f \<noteq> NULL" and "u \<noteq> NULL" and "n < BUFSIZ" and "f_object (files s f) = ObjectTypeFile" and "f_lbfsize (files s f) \<le> BUFSIZ"
    and "0 \<le> f_w (files s f)" and "f_w (files s f) < BUFSIZ" and "0 < f_cnt (files s f)" and "f_cnt (files s f) \<le> f_lbfsize (files s f)" and "0 \<le> n"
  shows "file_write_buffer f u n s = write_copy f u (if n > f_cnt (files s f) then f_cnt (files s f) else n) (upd_file f write_adjust s)"
  using assms by (simp add: file_write_buffer_def has_offsets_def write_adjust_same)

lemma write_copy_file:
  assumes "f_r (files s f) \<le> f_w (files s f)"
  shows "\<exists>s'. write_copy f u k (upd_file f write_adjust s) = (k, s') \<and>
    (f_cnt (files s f) \<le> f_lbfsize (files s f) \<longrightarrow>
      hmem s' = memcpy (hmem s) (at_index (f_base (files s f)) (f_w (files s f))) u (word_of_int k) \<and>
      files s' f = (files s f)\<lparr>f_p := at_index (f_base (files s f)) (f_w (files s f) + k), f_w := f_w (files s f) + k, f_cnt := f_cnt (files s f) - k,
        f_flags := SRD, f_sync := (f_sync (files s f))\<lparr>can_read := TRUE\<rparr>\<rparr>)"
proof -
  have "write_skip (files s f) = files s f" using assms by (simp add: write_skip_def)
  then show ?thesis by (simp add: write_copy_def write_adjust_same add.assoc Let_def)
qed

lemma file_write_appends:
  assumes ok: "file_ok (files s f)" and f: "f \<noteq> NULL" and u: "file_user (files s f) u n"
    and k: "k = min n (f_lbfsize (files s f) - f_w (files s f))" "0 < k"
  shows "\<exists>s'. file_write_buffer f u n s = (k, s') \<and> unread (hmem s') (files s' f) = unread (hmem s) (files s f) @ bytes (hmem s) u (nat k) \<and>
    hmem s' = put (hmem s) (at_index (f_base (files s f)) (f_w (files s f))) (bytes (hmem s) u (nat k)) \<and>
    files s' f = (files s f)\<lparr>f_p := at_index (f_base (files s f)) (f_w (files s f) + k), f_w := f_w (files s f) + k, f_cnt := f_cnt (files s f) - k,
      f_flags := SRD, f_sync := (f_sync (files s f))\<lparr>can_read := TRUE\<rparr>\<rparr>"
proof -
  let ?fi = "files s f"
  let ?d = "at_index (f_base ?fi) (f_w ?fi)"
  let ?f' = "?fi\<lparr>f_p := at_index (f_base ?fi) (f_w ?fi + k), f_w := f_w ?fi + k, f_cnt := f_cnt ?fi - k,
      f_flags := SRD, f_sync := (f_sync ?fi)\<lparr>can_read := TRUE\<rparr>\<rparr>"
  have o: "0 < f_lbfsize ?fi" "f_lbfsize ?fi \<le> 1024" "0 \<le> f_r ?fi" "f_r ?fi \<le> f_w ?fi" "f_w ?fi \<le> f_lbfsize ?fi" "f_w ?fi < 1024"
    "f_cnt ?fi = f_lbfsize ?fi - f_w ?fi" "f_object ?fi = ObjectTypeFile" using ok k by (auto simp: file_ok_def)
  have un: "u \<noteq> NULL" "0 < n" "n < 1024" "apart u (nat n) (f_base ?fi) 1024" using u by (auto simp: file_user_def)
  have kk: "k \<le> n" "k \<le> f_lbfsize ?fi - f_w ?fi" using k by auto
  have r: "region ?d (nat k) \<subseteq> region (f_base ?fi) 1024"
    using region_index [of "f_w ?fi" k 1024 "f_base ?fi"] o kk k(2) by simp
  have "apart ?d (nat k) u (nat k)"
    using un(4) r region_mono [of "nat k" "nat n" u] kk unfolding apart_def by fastforce
  then have c: "memcpy (hmem s) ?d u (word_of_int k) = put (hmem s) ?d (bytes (hmem s) u (nat k))"
    using k(2) kk un(3) by (intro memcpy_int) auto
  have "\<exists>s'. file_write_buffer f u n s = (k, s') \<and> hmem s' = put (hmem s) ?d (bytes (hmem s) u (nat k)) \<and> files s' f = ?f'"
  proof -
    have e: "(if n > f_cnt ?fi then f_cnt ?fi else n) = k" using k(1) o(7) by auto
    have "file_write_buffer f u n s = write_copy f u k (upd_file f write_adjust s)"
      unfolding e [symmetric] using o k un f by (intro file_write_buffer_file) auto
    then show ?thesis using write_copy_file [OF o(4), of u k] o c by (auto simp: write_adjust_same)
  qed
  then obtain s' where w: "file_write_buffer f u n s = (k, s')" "hmem s' = put (hmem s) ?d (bytes (hmem s) u (nat k))" "files s' f = ?f'" by blast
  have "unread (hmem s') (files s' f) = unread (hmem s) ?fi @ bytes (hmem s) u (nat k)"
  proof -
    let ?r = "at_index (f_base ?fi) (f_r ?fi)" and ?i = "nat (f_w ?fi - f_r ?fi)"
    have l: "length (bytes (hmem s) u (nat k)) = nat k" by (simp add: bytes_def)
    have d: "?r + of_nat ?i = ?d" using o by simp
    have "nat (f_w ?fi + k - f_r ?fi) = ?i + nat k" using o k(2) by simp
    then have "unread (hmem s') (files s' f) = bytes (hmem s') ?r ?i @ bytes (hmem s') ?d (nat k)"
      unfolding unread_def w(3) using bytes_split [of "hmem s'" ?r ?i "nat k"] d by simp
    moreover have "bytes (hmem s') ?d (nat k) = bytes (hmem s) u (nat k)"
      unfolding w(2) using bytes_put [of "bytes (hmem s) u (nat k)" "hmem s" ?d] kk un(3) by (simp add: l)
    moreover have "bytes (hmem s') ?r ?i = bytes (hmem s) ?r ?i"
    proof (rule bytes_cong)
      fix a assume "a \<in> region ?r ?i"
      moreover have "region ?r ?i \<inter> region ?d (nat k) = {}"
        using region_disjoint [of ?i "nat k" ?r] o kk un(3) unfolding d by auto
      ultimately have "a \<notin> region ?d (nat k)" by blast
      then show "hmem s' a = hmem s a" unfolding w(2) by (intro put_outside) (simp add: l)
    qed
    ultimately show ?thesis by (simp add: unread_def)
  qed
  then show ?thesis using w by blast
qed

lemma file_read_takes:
  assumes ok: "file_ok (files s f)" and f: "f \<noteq> NULL" and u: "file_user (files s f) v n" and l: "n \<le> f_lbfsize (files s f)"
    and k: "k = min n (f_w (files s f) - f_r (files s f))" "0 < k"
  shows "\<exists>s'. file_read_buffer f v n s = (k, s') \<and> bytes (hmem s') v (nat k) = take (nat n) (unread (hmem s) (files s f)) \<and>
    unread (hmem s') (files s' f) = drop (nat n) (unread (hmem s) (files s f)) \<and> file_ok (files s' f)"
proof -
  let ?fi = "files s f"
  let ?r = "at_index (f_base ?fi) (f_r ?fi)" and ?w = "f_w ?fi - f_r ?fi"
  have o: "0 < f_lbfsize ?fi" "f_lbfsize ?fi \<le> 1024" "0 \<le> f_r ?fi" "f_r ?fi \<le> f_w ?fi" "f_w ?fi \<le> f_lbfsize ?fi"
    "f_cnt ?fi = f_lbfsize ?fi - f_w ?fi" "f_object ?fi = ObjectTypeFile" "f_used ?fi = 1" "f_magic ?fi = 1234" using ok by (auto simp: file_ok_def)
  have un: "v \<noteq> NULL" "0 < n" "n < 1024" "apart v (nat n) (f_base ?fi) 1024" using u by (auto simp: file_user_def)
  have kk: "k \<le> n" "k \<le> ?w" "0 < ?w" using k by auto
  have c: "memcpy (hmem s) v ?r (word_of_int k) = put (hmem s) v (bytes (hmem s) ?r (nat k))"
  proof (rule memcpy_int)
    have "region ?r (nat k) \<subseteq> region (f_base ?fi) 1024" using region_index [of "f_r ?fi" k 1024 "f_base ?fi"] o kk k(2) by simp
    then show "apart v (nat k) ?r (nat k)" using un(4) region_mono [of "nat k" "nat n" v] kk unfolding apart_def by fastforce
  qed (use k(2) kk un(3) in auto)
  let ?f' = "?fi\<lparr>f_p := at_index ?r k, f_r := f_r ?fi + k, f_flags := f_flags ?fi OR SWR, f_sync := (f_sync ?fi)\<lparr>can_write := TRUE\<rparr>\<rparr>"
  have e: "n mod 0x10000 = n" "(if n > ?w then ?w else n) = k" "\<not> f_r ?fi + k > f_w ?fi" using un k kk by auto
  have "\<exists>s'. file_read_buffer f v n s = (k, s') \<and> hmem s' = put (hmem s) v (bytes (hmem s) ?r (nat k)) \<and> files s' f = ?f'"
    using o un f l k(2) kk e c by (simp add: file_read_buffer_def has_offsets_def Let_def)
  then obtain s' where w: "file_read_buffer f v n s = (k, s')" "hmem s' = put (hmem s) v (bytes (hmem s) ?r (nat k))" "files s' f = ?f'" by blast
  have sp: "unread (hmem s) ?fi = bytes (hmem s) ?r (nat k) @ bytes (hmem s) (at_index ?r k) (nat (?w - k))"
  proof -
    have "nat ?w = nat k + nat (?w - k)" using kk k(2) by simp
    then show ?thesis unfolding unread_def using bytes_split [of "hmem s" ?r "nat k" "nat (?w - k)"] k(2) by simp
  qed
  have tk: "take (nat n) (unread (hmem s) ?fi) = bytes (hmem s) ?r (nat k)" "drop (nat n) (unread (hmem s) ?fi) = bytes (hmem s) (at_index ?r k) (nat (?w - k))"
  proof -
    have "k = n \<or> ?w - k = 0" using k(1) by auto
    then show "take (nat n) (unread (hmem s) ?fi) = bytes (hmem s) ?r (nat k)" "drop (nat n) (unread (hmem s) ?fi) = bytes (hmem s) (at_index ?r k) (nat (?w - k))"
      unfolding sp using kk by (auto simp: bytes_def)
  qed
  have "bytes (hmem s') v (nat k) = bytes (hmem s) ?r (nat k)"
    unfolding w(2) using bytes_put [of "bytes (hmem s) ?r (nat k)" "hmem s" v] kk un(3) by (simp add: bytes_def)
  moreover have "unread (hmem s') (files s' f) = bytes (hmem s) (at_index ?r k) (nat (?w - k))"
  proof -
    have "bytes (hmem s') (at_index ?r k) (nat (?w - k)) = bytes (hmem s) (at_index ?r k) (nat (?w - k))"
    proof (rule bytes_cong)
      fix a assume "a \<in> region (at_index ?r k) (nat (?w - k))"
      moreover have "region (at_index ?r k) (nat (?w - k)) \<subseteq> region (f_base ?fi) 1024"
        using region_index [of "f_r ?fi + k" "?w - k" 1024 "f_base ?fi"] o kk k(2) by (simp add: add.assoc)
      ultimately have "a \<notin> region v (nat k)" using un(4) region_mono [of "nat k" "nat n" v] kk unfolding apart_def by fastforce
      then show "hmem s' a = hmem s a" unfolding w(2) by (intro put_outside) (simp add: bytes_def)
    qed
    moreover have e: "f_w ?fi - (f_r ?fi + k) = ?w - k" "at_index (f_base ?fi) (f_r ?fi + k) = at_index ?r k" by (simp_all add: add.assoc)
    have "unread (hmem s') (files s' f) = bytes (hmem s') (at_index (f_base ?fi) (f_r ?fi + k)) (nat (f_w ?fi - (f_r ?fi + k)))"
      unfolding unread_def w(3) by simp
    ultimately show ?thesis by (simp only: e)
  qed
  moreover have "file_ok (files s' f)" unfolding w(3) using ok o kk k(2) by (auto simp: file_ok_def)
  ultimately show ?thesis using w(1) tk by metis
qed

lemma file_ok_cong:
  assumes "f_used g = f_used fi \<and> f_magic g = f_magic fi \<and> f_object g = f_object fi \<and> f_lbfsize g = f_lbfsize fi \<and> f_r g = f_r fi \<and> f_w g = f_w fi \<and>
    f_cnt g = f_cnt fi \<and> f_base g = f_base fi"
  shows "file_ok g = file_ok fi" and "unread m g = unread m fi" and "file_user g u n = file_user fi u n"
  using assms by (simp_all add: file_ok_def unread_def file_user_def)

text \<open>C21. What is written to a regular file is what is read from it: on a file that may be written, a write of
  \<open>n\<close> bytes that fit is accepted whole, and a read of \<open>m\<close> bytes then gives the first \<open>m\<close> bytes (or as many as
  there are) of the unread ones followed by the new ones; the rest stays for the next read.\<close>

theorem file_write_then_read:
  assumes "file_ok (files s f)" and "f \<noteq> NULL" and "f_flags (files s f) AND SWR \<noteq> 0" and "file_user (files s f) u n"
    and "n \<le> f_lbfsize (files s f) - f_w (files s f)" and "file_user (files s f) v m" and "m \<le> f_lbfsize (files s f)"
    and "data = unread (hmem s) (files s f) @ bytes (hmem s) u (nat n)"
  shows "\<exists>s1 s2. write_regular f u n s = Ok n s1 \<and> read_regular f v m s1 = Ok (min m (int (length data))) s2 \<and>
    bytes (hmem s2) v (min (nat m) (length data)) = take (nat m) data \<and> unread (hmem s2) (files s2 f) = drop (nat m) data \<and> file_ok (files s2 f)"
proof -
  let ?fi = "files s f"
  have n: "0 < n" "0 < m" using assms(4,6) by (simp_all add: file_user_def)
  have k: "n = min n (f_lbfsize ?fi - f_w ?fi)" using assms(5) by simp
  obtain t where t: "file_write_buffer f u n s = (n, t)" "unread (hmem t) (files t f) = data"
    "files t f = ?fi\<lparr>f_p := at_index (f_base ?fi) (f_w ?fi + n), f_w := f_w ?fi + n, f_cnt := f_cnt ?fi - n,
      f_flags := SRD, f_sync := (f_sync ?fi)\<lparr>can_read := TRUE\<rparr>\<rparr>"
    using file_write_appends [OF assms(1,2,4) k n(1)] assms(8) by auto
  let ?s1 = "on_ks (do_thread_ready (tid_waiting (files t f))) (upd_file f (\<lambda>fi. fi\<lparr>f_flags := SRD, f_sync := (f_sync fi)\<lparr>can_read := TRUE\<rparr>\<rparr>) t)"
  have w: "write_regular f u n s = Ok n ?s1" using assms(3) t(1) n by (simp add: write_regular_def)
  have g: "files ?s1 f = (files t f)\<lparr>f_flags := SRD, f_sync := (f_sync (files t f))\<lparr>can_read := TRUE\<rparr>\<rparr>" "hmem ?s1 = hmem t" by simp_all
  have ok1: "file_ok (files ?s1 f)" "unread (hmem ?s1) (files ?s1 f) = data" "file_user (files ?s1 f) v m" "m \<le> f_lbfsize (files ?s1 f)"
    "f_flags (files ?s1 f) = SRD" "f_w (files ?s1 f) - f_r (files ?s1 f) = int (length data)" "data \<noteq> []"
  proof -
    have o: "file_ok ?fi" "0 \<le> f_w ?fi - f_r ?fi" using assms(1) by (auto simp: file_ok_def)
    show "file_ok (files ?s1 f)" using o(1) n assms(5) unfolding g unfolding t(3) by (auto simp: file_ok_def)
    show "unread (hmem ?s1) (files ?s1 f) = data" using t(2) unfolding g by (simp add: unread_def)
    show "file_user (files ?s1 f) v m" "m \<le> f_lbfsize (files ?s1 f)" "f_flags (files ?s1 f) = SRD"
      using assms(6,7) unfolding g unfolding t(3) by (simp_all add: file_user_def)
    show "f_w (files ?s1 f) - f_r (files ?s1 f) = int (length data)" using o(2) n(1) unfolding g unfolding t(3) assms(8) by (simp add: unread_def bytes_def)
    show "data \<noteq> []" using n(1) unfolding assms(8) by (simp add: bytes_def)
  qed
  have k2: "min m (int (length data)) = min m (f_w (files ?s1 f) - f_r (files ?s1 f))" "0 < min m (int (length data))"
    using ok1(6,7) n by simp_all
  obtain s2 where s2: "file_read_buffer f v m ?s1 = (min m (int (length data)), s2)"
    "bytes (hmem s2) v (nat (min m (int (length data)))) = take (nat m) data" "unread (hmem s2) (files s2 f) = drop (nat m) data" "file_ok (files s2 f)"
    using file_read_takes [OF ok1(1) assms(2) ok1(3,4) k2] unfolding ok1(2) by blast
  let ?s3 = "upd_file f (\<lambda>fi. fi\<lparr>f_flags := f_flags fi OR SWR, f_sync := (f_sync fi)\<lparr>can_write := TRUE\<rparr>\<rparr>) s2"
  have "read_regular f v m ?s1 = Ok (min m (int (length data))) ?s3" using ok1(5) s2(1) k2(2) by (simp add: read_regular_def del: min_less_iff_conj)
  moreover have "nat (min m (int (length data))) = min (nat m) (length data)" using n by auto
  moreover have "file_ok (files ?s3 f)" "unread (hmem ?s3) (files ?s3 f) = drop (nat m) data"
  proof -
    have "file_ok (files ?s3 f) = file_ok (files s2 f)" by (rule file_ok_cong(1)) simp
    then show "file_ok (files ?s3 f)" using s2(4) by simp
    have "unread (hmem s2) (files ?s3 f) = unread (hmem s2) (files s2 f)" by (rule file_ok_cong(2)) simp
    then show "unread (hmem ?s3) (files ?s3 f) = drop (nat m) data" using s2(3) by simp
  qed
  moreover have "bytes (hmem ?s3) v (min (nat m) (length data)) = take (nat m) data" using s2(2) calculation(2) by simp
  ultimately show ?thesis using w by blast
qed

lemma demo_regular_file:
  "file_ok (files demo_io 0x6000)" "f_flags (files demo_io 0x6000) AND SWR \<noteq> 0" "file_user (files demo_io 0x6000) 0x400000 100"
  "file_user (files demo_io 0x6000) 0x500000 60" "f_lbfsize (files demo_io 0x6000) = 512" "f_w (files demo_io 0x6000) = 0"
  "f_r (files demo_io 0x6000) = 0"
proof -
  have "apart 0x400000 100 0x22000 1024" "apart 0x500000 60 0x22000 1024" by (rule apart_sym, rule apart_ordered; simp)+
  then show "file_user (files demo_io 0x6000) 0x400000 100" "file_user (files demo_io 0x6000) 0x500000 60"
    by (simp_all add: file_user_def demo_regular_def)
qed (simp_all add: file_ok_def demo_regular_def)

theorem file_write_then_read_witness:
  "\<exists>s1 s2. write_regular 0x6000 0x400000 100 demo_io = Ok 100 s1 \<and> read_regular 0x6000 0x500000 60 s1 = Ok 60 s2 \<and>
    bytes (hmem s2) 0x500000 60 = bytes demo_memory 0x400000 60"
proof -
  have "unread (hmem demo_io) (files demo_io 0x6000) = []" using demo_regular_file(6,7) by (simp add: unread_def bytes_def)
  then have d: "unread (hmem demo_io) (files demo_io 0x6000) @ bytes (hmem demo_io) 0x400000 (nat 100) = bytes demo_memory 0x400000 100" by simp
  have "length (bytes demo_memory 0x400000 100) = 100" "take 60 (bytes demo_memory 0x400000 100) = bytes demo_memory 0x400000 60"
    by (simp_all add: bytes_def take_map)
  then show ?thesis
    using file_write_then_read [OF demo_regular_file(1) _ demo_regular_file(2,3) _ demo_regular_file(4) _ d [symmetric]] demo_regular_file(5,6) by auto
qed

text \<open>Writing to a full file throws the unread data away: when the buffer of a regular file of less than 1024
  bytes is full and has data that nobody has read, one more write is refused and the data are gone.\<close>

theorem full_file_write_loses_data:
  assumes "file_ok (files s f)" and "f \<noteq> NULL" and "f_flags (files s f) AND SWR \<noteq> 0" and "f_lbfsize (files s f) < BUFSIZ"
    and "f_w (files s f) = f_lbfsize (files s f)" and "f_r (files s f) < f_w (files s f)" and "u \<noteq> NULL" and "0 < n" and "n < BUFSIZ"
  shows "unread (hmem s) (files s f) \<noteq> [] \<and> (\<exists>s'. write_regular f u n s = Ok 0 s' \<and> unread (hmem s') (files s' f) = [])"
proof -
  have o: "f_object (files s f) = ObjectTypeFile" "0 < f_lbfsize (files s f)" "f_cnt (files s f) = 0" using assms(1,5) by (auto simp: file_ok_def)
  have "unread (hmem s) (files s f) \<noteq> []" using assms(6) by (simp add: unread_def bytes_def)
  moreover have "\<exists>s'. write_regular f u n s = Ok 0 s' \<and> unread (hmem s') (files s' f) = []"
    using assms(2-9) o by (simp add: write_regular_def file_write_buffer_def has_offsets_def write_adjust_same unread_def bytes_def Let_def)
  ultimately show ?thesis ..
qed

theorem full_file_write_loses_data_witness:
  "\<exists>s'. write_regular 0x6000 0x400000 1 (upd_file 0x6000 (\<lambda>fi. fi\<lparr>f_w := 512, f_cnt := 0\<rparr>) demo_io) = Ok 0 s' \<and>
    unread (hmem s') (files s' 0x6000) = []"
  using full_file_write_loses_data [of "upd_file 0x6000 (\<lambda>fi. fi\<lparr>f_w := 512, f_cnt := 0\<rparr>) demo_io" "0x6000" "0x400000" 1]
  by (simp add: file_ok_def demo_regular_def)

section \<open>Descriptors\<close>

text \<open>C38. Releasing one of two descriptors closes the file of the other, for a file whose count of descriptors is 0, as
  that of a new socket is (files from the disk and the standard streams start with 1): after \<open>sys_dup\<close> of \<open>a\<close> gave the descriptor \<open>b\<close>, an \<open>sys_dup2\<close> onto \<open>b\<close> closes the
  file that \<open>a\<close> still names, so that closing \<open>a\<close> fails afterwards.\<close>

theorem dup2_closes_shared_file:
  assumes "valid_current s = Some p" and "3 \<le> a" and "a < OPEN_MAX" and "0 \<le> c" and "c < OPEN_MAX" and "Objects s p a = f" and "f \<noteq> NULL"
    and "Objects s p c = g" and "g \<noteq> NULL" and "g \<noteq> f" and "f_used (files s f) = TRUE" and "f_magic (files s f) = 1234" and "fd_counter (files s f) = 0"
    and "find (\<lambda>i. Objects s p i = NULL) [0..OPEN_MAX - 1] = Some b"
  shows "\<exists>s1 s2. sys_dup a s = Ok b s1 \<and> sys_dup2 c b s1 = Ok b s2 \<and> Objects s2 p a = f \<and> f_magic (files s2 f) = 4321 \<and> close_imp a s2 = Ok (- 1) s2"
proof -
  note v = valid_current_SomeD [OF assms(1)]
  have cp: "get_current_process_struct s = Ok p s" using v by (simp add: get_current_process_struct_def)
  have b: "0 \<le> b" "b < 32" "Objects s p b = NULL"
    using assms(14) by (auto simp: find_Some_iff)
  then have ne: "b \<noteq> a" "b \<noteq> c" using assms(6-9) by auto
  let ?s1 = "upd_file f (\<lambda>fi. fi\<lparr>fd_counter := fd_counter fi + 1\<rparr>) (set_object p b f s)"
  have d: "sys_dup a s = Ok b ?s1" using assms(2,3,6,7,14) cp v(4) by (simp add: sys_dup_def del: upto.simps)
  have cp1: "get_current_process_struct ?s1 = Ok p ?s1" using v by (simp add: get_current_process_struct_def)
  obtain s2 where s2: "sys_dup2 c b ?s1 = Ok b s2" "Objects s2 p a = f" "f_magic (files s2 f) = 4321" "valid_current s2 = Some p" "f_used (files s2 f) = TRUE"
    using assms(4,5,7-13) b ne cp1 v(4) assms(1,6)
    by (simp add: sys_dup2_def dup_to_def release_fd_def k_fclose_def Let_def)
  have "close_imp a s2 = Ok (- 1) s2" using s2(2-5) assms(2,3,7) by (simp add: close_imp_def)
  then show ?thesis using d s2(1-3) by blast
qed

theorem dup2_closes_shared_file_witness:
  "\<exists>s1 s2. sys_dup 3 (on_ks (set_current_process 1) demo_io) = Ok 0 s1 \<and> sys_dup2 4 0 s1 = Ok 0 s2 \<and> close_imp 3 s2 = Ok (- 1) s2"
proof -
  let ?s = "on_ks (set_current_process 1) demo_io"
  have v: "valid_current ?s = Some 0x200" by (simp add: valid_current_def get_current_process_def set_current_process_def PROCESS_COUNT_MAX_def)
  have "find (\<lambda>i. Objects ?s 0x200 i = NULL) [0..OPEN_MAX - 1] = Some 0" by (simp add: upto_rec1)
  from dup2_closes_shared_file [OF v _ _ _ _ _ _ _ _ _ _ _ _ this, of 3 4 "0x5100" "0x6000"] show ?thesis
    by (simp add: demo_socket_file_def zero_file_def) blast
qed

end
