(* ===== verification/Open_Laws.thy ===== *)
theory Open_Laws
  imports Connection_Laws File_Laws Pipe_Laws
begin

text \<open>
  Opening sockets and pipes: with room in the kernel heap \<open>sys_socket\<close> and \<open>sys_pipe\<close> succeed, and what they give
  satisfies the conditions of the other theorems (\<open>socket_end\<close>, \<open>pipe_inv\<close>). \<open>io_room ns s\<close>: the heap is
  well formed and has room for blocks of the sizes \<open>ns\<close>.
\<close>

section \<open>Allocation\<close>

definition io_room :: "int list \<Rightarrow> iostate \<Rightarrow> bool" where
  "io_room ns s \<longleftrightarrow> heap_ok s \<and> sum_list (map (\<lambda>n. nat n + 72) ns) \<le> unat (g_available_heap s) \<and>
     mmblockCount s + int (length ns) < MMBLOCK_COUNT_MAX \<and> (\<forall>n \<in> set ns. 0 < n \<and> n < 2 ^ 31)"

lemma io_more:
  assumes "kheap.more (s' :: iostate) = kheap.more s"
  shows "ks s' = ks s" "files s' = files s" "pipes s' = pipes s" "socks s' = socks s" "eps s' = eps s" "Objects s' = Objects s" "priv s' = priv s"
    "current_user s' = current_user s" "current_group s' = current_group s" "gramado_ports s' = gramado_ports s"
  using assms by (cases s; cases s'; simp)+

lemma heap_ok_frame:
  "heap_ok (s\<lparr>proc_magic := g\<rparr>) = heap_ok s" "owned (s\<lparr>proc_magic := g\<rparr>) = owned s"
  by (simp_all add: heap_ok_def bound_def block_ok_def owned_def)

lemma owned_frame [simp]:
  "owned (upd_sock a h s) = owned s" "owned (upd_file a k s) = owned s" "owned (set_object p fd f s) = owned s" "owned (on_ks g s) = owned s"
  "owned (s\<lparr>priv := q\<rparr>) = owned s" "owned (s\<lparr>eps := e\<rparr>) = owned s" "owned (s\<lparr>hmem := m\<rparr>) = owned s" "owned (s\<lparr>pipes := ps\<rparr>) = owned s"
  "owned (credit_current s) = owned s"
  by (simp_all add: owned_def upd_sock_def upd_file_def set_object_def on_ks_def credit_current_def)

lemma io_room_frame [simp]:
  "io_room ns (upd_sock a h s) = io_room ns s" "io_room ns (upd_file a k s) = io_room ns s" "io_room ns (set_object p fd f s) = io_room ns s"
  "io_room ns (on_ks g s) = io_room ns s" "io_room ns (s\<lparr>priv := q\<rparr>) = io_room ns s" "io_room ns (s\<lparr>eps := e\<rparr>) = io_room ns s"
  "io_room ns (s\<lparr>hmem := m\<rparr>) = io_room ns s" "io_room ns (s\<lparr>pipes := ps\<rparr>) = io_room ns s" "io_room ns (credit_current s) = io_room ns s"
  by (simp_all add: io_room_def heap_ok_def bound_def block_ok_def upd_sock_def upd_file_def set_object_def on_ks_def credit_current_def)

lemma io_alloc:
  assumes r: "io_room (n # ns) s" and v: "valid_current s = Some p"
  shows "\<exists>a s'. io_kmalloc n s = Ok a s' \<and> io_room ns s' \<and> a \<noteq> NULL \<and> a \<notin> owned s \<and> region a (nat n) \<inter> owned s = {} \<and>
    owned s \<subseteq> owned s' \<and> region a (nat n) \<subseteq> owned s' \<and> a \<in> owned s' \<and> kheap.more s' = kheap.more s"
proof -
  note c = valid_current_SomeD [OF v]
  let ?s = "s\<lparr>proc_magic := (\<lambda>p. te_magic (pheap (ks s) p))\<rparr>"
  have "get_current_process_pointer (ks s) = Ok (if system_state (ks s) \<noteq> SYSTEM_RUNNING then NULL else p) (ks s)"
    using c by (simp add: get_current_process_pointer_def Let_def)
  then obtain q where q: "get_current_process_pointer (ks s) = Ok q (ks s)" ..
  have h: "heap_ok ?s" "0 < n" "n < 2 ^ 31" "nat n + 72 \<le> unat (g_available_heap ?s)" "0 < nat (MMBLOCK_COUNT_MAX - 1 - mmblockCount ?s)"
    using r by (auto simp: io_room_def heap_ok_frame)
  obtain a s' where a: "kmalloc q n ?s = Ok a s'" "heap_ok s'" "a \<noteq> NULL" "region a (nat n) \<inter> owned ?s = {}" "owned ?s \<union> region a (nat n) \<subseteq> owned s'"
    "unat (g_available_heap s') = unat (g_available_heap ?s) - (nat n + 72)"
    "nat (MMBLOCK_COUNT_MAX - 1 - mmblockCount s') = nat (MMBLOCK_COUNT_MAX - 1 - mmblockCount ?s) - 1"
    using km.alloc_ok [OF h, of q] by blast
  have "io_kmalloc n s = Ok a s'" using a(1) q by (simp add: io_kmalloc_def)
  moreover have "mmblockCount s' + int (length ns) < MMBLOCK_COUNT_MAX"
    using r a(2,7) by (cases ns) (auto simp: io_room_def heap_ok_def)
  then have "io_room ns s'" using r a(2,6) by (auto simp: io_room_def)
  moreover have "a \<in> region a (nat n)" using region_self [of a "nat n - 1"] h(2) by simp
  then have "a \<notin> owned s" "a \<in> owned s'" using a(4,5) by (auto simp: heap_ok_frame)
  moreover have "kheap.more s' = kheap.more s" using kmalloc_more [OF a(1)] by simp
  ultimately show ?thesis using a(3-5) by (auto simp: heap_ok_frame)
qed

lemma valid_current_more: "ks s' = ks s \<Longrightarrow> valid_current s' = valid_current s"
  by (rule valid_current_cong) simp_all

section \<open>Sockets\<close>

lemma open_socket_ok:
  assumes v: "valid_current s = Some p" and sl: "free_slot s p = Some slot" and r: "io_room (BUFSIZ # sizeof_file # ns) s"
  shows "\<exists>f b s'. open_socket_file so s = Ok slot s' \<and> io_room ns s' \<and> owned s \<subseteq> owned s' \<and> f \<in> owned s' \<and> files s' = (files s)(f := socket_file_of s b so slot) \<and>
    socks s' = (socks s)(so := (socks s so)\<lparr>private_file := f\<rparr>) \<and> Objects s' = (Objects s)(p := (Objects s p)(slot := f)) \<and>
    priv s' = (priv s)(p := so) \<and> ks s' = ks s \<and> f \<noteq> NULL \<and> f \<notin> owned s \<and> region b 1024 \<inter> owned s = {}"
proof -
  obtain b s1 where b: "io_kmalloc BUFSIZ s = Ok b s1" "io_room (sizeof_file # ns) s1" "b \<noteq> NULL" "region b (nat BUFSIZ) \<inter> owned s = {}" "owned s \<subseteq> owned s1"
    "kheap.more s1 = kheap.more s" using io_alloc [OF r v] by blast
  have v1: "valid_current s1 = Some p" using v valid_current_more [OF io_more(1) [OF b(6)]] by simp
  obtain f s2 where f: "io_kmalloc sizeof_file s1 = Ok f s2" "f \<noteq> NULL" "f \<notin> owned s1" "kheap.more s2 = kheap.more s1" "io_room ns s2"
    "owned s1 \<subseteq> owned s2" "f \<in> owned s2"
    using io_alloc [OF b(2) v1] by blast
  note m1 = io_more [OF b(6)] note m2 = io_more [OF f(4)]
  have sf: "socket_file_of s2 b so slot = socket_file_of s b so slot" using m1 m2 by (simp add: socket_file_of_def)
  show ?thesis
    using b(1,3-5) f v sl m1 m2 sf unfolding open_socket_file_def
    by (intro exI [of _ f] exI [of _ b] exI [of _ "set_object p slot f ((upd_sock so (\<lambda>k. k\<lparr>private_file := f\<rparr>) (upd_file f (\<lambda>_. socket_file_of s2 b so slot) s2))
        \<lparr>priv := (priv s2)(p := so)\<rparr>)"]) auto
qed

lemma find_upto: "find P [a..b] = Some i \<Longrightarrow> a \<le> i \<and> i \<le> b \<and> P i"
  by (metis atLeastAtMost_iff find_Some_iff nth_mem set_upto)

lemma free_slot_range: "free_slot s p = Some slot \<Longrightarrow> 3 \<le> slot \<and> slot < 31 \<and> Objects s p slot = NULL"
  unfolding free_slot_def by (drule find_upto) simp

lemma socket_file_of_ok:
  "socket_ok (socket_file_of s b so slot)" "f_flags (socket_file_of s b so slot) = SWR" "f_used (socket_file_of s b so slot) = TRUE"
  "f_magic (socket_file_of s b so slot) = 1234" "can_read (f_sync (socket_file_of s b so slot)) = TRUE" "can_write (f_sync (socket_file_of s b so slot)) = TRUE"
  "can_accept (f_sync (socket_file_of s b so slot)) = TRUE" "can_connect (f_sync (socket_file_of s b so slot)) = TRUE"
  "f_socket (socket_file_of s b so slot) = so" "f_base (socket_file_of s b so slot) = b" "f_lbfsize (socket_file_of s b so slot) = BUFSIZ"
  "f_file (socket_file_of s b so slot) = slot"
  by (simp_all add: socket_file_of_def socket_ok_def)

lemma upd_sock_twice: "upd_sock so g (upd_sock so h s) = upd_sock so (\<lambda>k. g (h k)) s"
  by (simp add: upd_sock_def)

text \<open>The last part of \<open>sys_socket\<close> sets the address and opens the file.\<close>

definition sets_address :: "(socket_d \<Rightarrow> socket_d) \<Rightarrow> bool" where
  "sets_address h \<longleftrightarrow> (\<forall>k. so_used (h k) = so_used k \<and> so_magic (h k) = so_magic k \<and> so_state (h k) = so_state k \<and> so_family (h k) = so_family k \<and>
     backlog_head (h k) = backlog_head k \<and> pending_client_endpoints (h k) = pending_client_endpoints k)"

definition family_ok :: "int \<Rightarrow> int \<Rightarrow> bool" where
  "family_ok family type \<longleftrightarrow> type \<in> {SOCK_STREAM, SOCK_DGRAM, SOCK_RAW} \<and> (family = AF_GRAMADO \<or> family = AF_UNIX \<or> family = AF_INET \<and> type = SOCK_RAW)"

lemma family_worker:
  assumes "so \<noteq> NULL" and "so_magic (socks s so) = 1234" and "family_ok family type"
  obtains h where "sets_address h"
    "(if family = AF_GRAMADO then socket_gramado so AF_GRAMADO type protocol (upd_sock so (\<lambda>k. k\<lparr>connection_type := 1\<rparr>) s)
        else if family = AF_UNIX then socket_unix so AF_UNIX type protocol (upd_sock so (\<lambda>k. k\<lparr>connection_type := 1\<rparr>) s)
        else if family = AF_INET
        then if type \<noteq> SOCK_RAW then Panic ''sys_socket: Only SOCK_RAW in AF_INET for now''
             else socket_inet so AF_INET type protocol (upd_sock so (\<lambda>k. k\<lparr>connection_type := 0\<rparr>) s)
        else Ok (- 1) s') = open_socket_file so (upd_sock so h s)"
proof -
  let ?hg = "\<lambda>k. k\<lparr>connection_type := 1, addr_family := 8000, addr_data := (addr_data k)(0 := 0x78, 1 := 0x78)\<rparr>"
  let ?hu = "\<lambda>k. k\<lparr>connection_type := 1, addr_family := 1, addr_data := (addr_data k)(0 := 0x78, 1 := 0x78)\<rparr>"
  let ?hi = "\<lambda>k. k\<lparr>connection_type := 0, in_family := 2, in_addr := 0x7F000001, in_port := 11369\<rparr>"
  have k: "sets_address ?hg" "sets_address ?hu" "sets_address ?hi" by (simp_all add: sets_address_def)
  consider "family = AF_GRAMADO" | "family = AF_UNIX" | "family = AF_INET" "type = SOCK_RAW" using assms(3) by (auto simp: family_ok_def)
  then show thesis
  proof cases
    case 1 then show thesis using that [OF k(1)] assms(1,2) by (simp add: socket_gramado_def upd_sock_twice)
  next
    case 2 then show thesis using that [OF k(2)] assms(1,2) by (simp add: socket_unix_def upd_sock_twice)
  next
    case 3 then show thesis using that [OF k(3)] assms(1,2) by (simp add: socket_inet_def upd_sock_twice)
  qed
qed

lemma sys_socket_ok:
  assumes v: "valid_current s = Some p" and sl: "free_slot s p = Some slot" and fam: "family_ok family type"
    and r: "io_room (sizeof_socket # sizeof_endpoint # BUFSIZ # sizeof_file # ns) s"
  shows "\<exists>s' f so b. sys_socket family type 0 s = Ok slot s' \<and> socket_end (get_current_process (ks s)) p slot f so b s' \<and>
    so_family (socks s' so) = family \<and> so_state (socks s' so) = SS_UNCONNECTED \<and> backlog_head (socks s' so) = 0 \<and>
    (\<forall>i. pending_client_endpoints (socks s' so) i = NULL) \<and> f \<notin> owned s \<and> so \<notin> owned s \<and> region b 1024 \<inter> owned s = {} \<and>
    (\<forall>x. x \<noteq> f \<longrightarrow> files s' x = files s x) \<and> (\<forall>x. x \<noteq> so \<longrightarrow> socks s' x = socks s x) \<and>
    (\<forall>q fd. (q, fd) \<noteq> (p, slot) \<longrightarrow> Objects s' q fd = Objects s q fd) \<and> valid_current s' = Some p \<and>
    io_room ns s' \<and> f \<in> owned s' \<and> so \<in> owned s'"
proof -
  note c = valid_current_SomeD [OF v]
  let ?s = "credit_current s"
  have v0: "valid_current ?s = Some p" using v by simp
  have r0: "io_room (sizeof_socket # sizeof_endpoint # BUFSIZ # sizeof_file # ns) ?s" using r by simp
  obtain so s1 where so: "io_kmalloc sizeof_socket ?s = Ok so s1" "io_room (sizeof_endpoint # BUFSIZ # sizeof_file # ns) s1" "so \<noteq> NULL" "so \<notin> owned ?s" "so \<in> owned s1"
    "owned ?s \<subseteq> owned s1" "kheap.more s1 = kheap.more ?s" using io_alloc [OF r0 v0] by blast
  note m1 = io_more [OF so(7)]
  define g where "g = (\<lambda>_ :: socket_d. zero_socket\<lparr>backlog_max := 4, isAcceptingConnections := FALSE, so_state := SS_UNCONNECTED, conn_copy := TRUE,
      clientfd_on_server := - 1, so_used := TRUE, so_magic := 1234, so_family := family, so_type := type, so_protocol := 0, ip_ipv6 := 0, ip_ipv4 := 0,
      so_port := 0, so_pid := get_current_process (ks s), so_uid := current_user s1, so_gid := current_group s1\<rparr>)"
  define s2 where "s2 = (upd_sock so g s1)\<lparr>priv := (priv s1)(p := so)\<rparr>"
  have v2: "valid_current s2 = Some p" "io_room (sizeof_endpoint # BUFSIZ # sizeof_file # ns) s2"
    using v0 valid_current_more [of s2 ?s] m1(1) so(2) by (simp_all add: s2_def)
  obtain e s3 where e: "io_kmalloc sizeof_endpoint s2 = Ok e s3" "io_room (BUFSIZ # sizeof_file # ns) s3" "e \<noteq> NULL" "owned s2 \<subseteq> owned s3" "kheap.more s3 = kheap.more s2"
    using io_alloc [OF v2(2,1)] by blast
  note m3 = io_more [OF e(5)]
  have mag: "so_magic (socks s3 so) = 1234" "so_magic (g k) = 1234" for k by (simp_all add: m3 s2_def g_def)
  define s3e where "s3e = s3\<lparr>eps := (eps s3)(e := \<lparr>ep_used = TRUE, ep_magic = 1234, side_id = 0, case_id = 0, is_remote = FALSE, ep_socket = NULL\<rparr>)\<rparr>"
  define s4 where "s4 = upd_sock so (\<lambda>k. k\<lparr>so_ep := e\<rparr>) s3e"
  define s5 where "s5 = s4\<lparr>eps := (eps s4)(e := (eps s4 e)\<lparr>is_remote := FALSE, ep_socket := so\<rparr>)\<rparr>"
  have mag5: "so_magic (socks s5 so) = 1234" using mag by (simp add: s5_def s4_def s3e_def)
  obtain h where h: "sets_address h" "(if family = AF_GRAMADO then socket_gramado so AF_GRAMADO type 0 (upd_sock so (\<lambda>k. k\<lparr>connection_type := 1\<rparr>) s5)
        else if family = AF_UNIX then socket_unix so AF_UNIX type 0 (upd_sock so (\<lambda>k. k\<lparr>connection_type := 1\<rparr>) s5)
        else if family = AF_INET
        then if type \<noteq> SOCK_RAW then Panic ''sys_socket: Only SOCK_RAW in AF_INET for now''
             else socket_inet so AF_INET type 0 (upd_sock so (\<lambda>k. k\<lparr>connection_type := 0\<rparr>) s5)
        else Ok (- 1) s4) = open_socket_file so (upd_sock so h s5)"
    by (rule family_worker [OF so(3) mag5 fam])
  let ?s6 = "upd_sock so h s5"
  have run: "sys_socket family type 0 s = open_socket_file so ?s6"
  proof -
    have cs: "create_socket_object ?s = Ok so (upd_sock so (\<lambda>_. zero_socket\<lparr>so_pid := get_current_process (ks s), so_uid := current_user s1,
      so_gid := current_group s1, backlog_max := 4, isAcceptingConnections := FALSE, so_state := SS_UNCONNECTED, conn_copy := TRUE, clientfd_on_server := - 1,
      so_used := TRUE, so_magic := 1234\<rparr>) s1)"
      using so(1,3) m1(1) by (simp add: create_socket_object_def)
    have ce: "create_endpoint_object s2 = Ok e s3e" using e(1,3) by (simp add: create_endpoint_object_def s3e_def)
    have em: "\<not> ep_magic (eps s3e e) \<noteq> 1234" by (simp add: s3e_def)
    have f0: "\<not> family < 0" "\<not> (type \<noteq> SOCK_STREAM \<and> type \<noteq> SOCK_DGRAM \<and> type \<noteq> SOCK_RAW)" using fam by (auto simp: family_ok_def)
    have c0: "\<not> (get_current_process (ks ?s) < 0 \<or> get_current_process (ks ?s) \<ge> PROCESS_COUNT_MAX)" "teList (ks ?s) (get_current_process (ks ?s)) = p"
      "p \<noteq> NULL" "te_magic (pheap (ks ?s) p) = 1234" using c by simp_all
    have g2: "upd_sock so (\<lambda>k. k\<lparr>so_family := family, so_type := type, so_protocol := 0, ip_ipv6 := 0, ip_ipv4 := 0,
                       so_port := 0, so_pid := get_current_process (ks ?s), so_uid := current_user (upd_sock so z s1), so_gid := current_group (upd_sock so z s1)\<rparr>) (upd_sock so z s1)
      = upd_sock so g s1" if "z = (\<lambda>_. zero_socket\<lparr>so_pid := get_current_process (ks s), so_uid := current_user s1,
      so_gid := current_group s1, backlog_max := 4, isAcceptingConnections := FALSE, so_state := SS_UNCONNECTED, conn_copy := TRUE, clientfd_on_server := - 1,
      so_used := TRUE, so_magic := 1234\<rparr>)" for z
      unfolding that g_def upd_sock_def by simp
    have p2: "(upd_sock so g s1)\<lparr>priv := (priv (upd_sock so g s1))(p := so)\<rparr> = s2" by (simp add: s2_def)
    show ?thesis
      unfolding sys_socket_def Let_def cs bindR.simps using f0 c0 so(3) e(3) em
      by (simp only: if_False if_True simp_thms g2 [OF refl] p2 ce bindR.simps s4_def [symmetric] s5_def [symmetric] h(2)) simp
  qed
  have k6: "valid_current ?s6 = Some p" "io_room (BUFSIZ # sizeof_file # ns) ?s6" "free_slot ?s6 p = Some slot"
    using v2(1) valid_current_more [of s5 s2] m1 m3 sl e(2) by (simp_all add: s5_def s4_def s3e_def s2_def free_slot_def)
  obtain f b s' where f: "open_socket_file so ?s6 = Ok slot s'" "files s' = (files ?s6)(f := socket_file_of ?s6 b so slot)"
    "socks s' = (socks ?s6)(so := (socks ?s6 so)\<lparr>private_file := f\<rparr>)" "Objects s' = (Objects ?s6)(p := (Objects ?s6 p)(slot := f))"
    "priv s' = (priv ?s6)(p := so)" "ks s' = ks ?s6" "f \<noteq> NULL" "f \<notin> owned ?s6" "region b 1024 \<inter> owned ?s6 = {}"
    "io_room ns s'" "owned ?s6 \<subseteq> owned s'" "f \<in> owned s'"
    using open_socket_ok [OF k6(1,3,2), of so] by blast
  have ow: "owned s \<subseteq> owned ?s6"
    using so(6) e(4) by (simp add: s5_def s4_def s3e_def s2_def)
  have os: "so \<in> owned s'" using so(5) e(4) f(11) by (auto simp: s5_def s4_def s3e_def s2_def)
  have k: "ks s' = ks ?s" "files ?s6 = files s" "Objects ?s6 = Objects s" "\<And>x. x \<noteq> so \<Longrightarrow> socks ?s6 x = socks s x"
    "socks ?s6 so = h ((g undefined)\<lparr>so_ep := e\<rparr>)"
    using f(6) m1 m3 by (simp_all add: s5_def s4_def s3e_def s2_def g_def)
  have hk: "so_used (socks ?s6 so) = 1" "so_magic (socks ?s6 so) = 1234" "so_state (socks ?s6 so) = SS_UNCONNECTED" "so_family (socks ?s6 so) = family"
    "backlog_head (socks ?s6 so) = 0" "pending_client_endpoints (socks ?s6 so) = (\<lambda>_. NULL)"
    unfolding k(5) using h(1) by (simp_all add: sets_address_def g_def zero_socket_def)
  have se: "socket_end (get_current_process (ks s)) p slot f so b s'"
    using c k(1) free_slot_range [OF sl] f(7) so(3) hk unfolding socket_end_def f(2-5)
    by (simp add: socket_file_of_ok)
  have vc: "valid_current s' = Some p" using v0 valid_current_more [OF k(1)] by simp
  show ?thesis
  proof (intro exI conjI)
    show "sys_socket family type 0 s = Ok slot s'" unfolding run by (rule f(1))
    show "f \<notin> owned s" "region b 1024 \<inter> owned s = {}" using f(8,9) ow by blast+
    show "so \<notin> owned s" using so(4) by simp
  qed (use se vc hk f(2-5,10,12) k(2-4) os in \<open>auto\<close>)
qed

text \<open>C23. Opening a socket: for every supported family and type, with room in the heap and a free descriptor from 3 to
  30, \<open>sys_socket\<close> returns the lowest of them, and what the process has then is a socket of that family, not
  connected, with an empty buffer that may be written; the structures and the buffer are new ones, and no other
  file, socket or descriptor has changed.\<close>

theorem sys_socket_opens:
  assumes "valid_current s = Some p" and "free_slot s p = Some slot" and "family_ok family type"
    and "io_room [sizeof_socket, sizeof_endpoint, BUFSIZ, sizeof_file] s"
  shows "\<exists>s' f so b. sys_socket family type 0 s = Ok slot s' \<and> socket_end (get_current_process (ks s)) p slot f so b s' \<and>
    so_family (socks s' so) = family \<and> so_state (socks s' so) = SS_UNCONNECTED \<and> backlog_head (socks s' so) = 0 \<and>
    (\<forall>i. pending_client_endpoints (socks s' so) i = NULL) \<and> f \<notin> owned s \<and> so \<notin> owned s \<and> region b 1024 \<inter> owned s = {} \<and>
    (\<forall>x. x \<noteq> f \<longrightarrow> files s' x = files s x) \<and> (\<forall>x. x \<noteq> so \<longrightarrow> socks s' x = socks s x) \<and>
    (\<forall>q fd. (q, fd) \<noteq> (p, slot) \<longrightarrow> Objects s' q fd = Objects s q fd)"
  using sys_socket_ok [OF assms] by blast

lemma demo_heap: "heap_ok demo_io" "g_available_heap demo_io = 0xD0000" "mmblockCount demo_io = 0"
proof -
  have "heap_ok demo_io = heap_ok fresh_heap"
    by (simp add: heap_ok_def bound_def block_ok_def demo_io_def kheap.defs)
  then show "heap_ok demo_io" by simp
qed (use fresh_heap_simps in \<open>simp_all add: demo_io_def kheap.defs\<close>)

theorem sys_socket_opens_witness:
  "\<exists>s' f so b. sys_socket 8000 1 0 demo_io = Ok 4 s' \<and> socket_end 0 0x100 4 f so b s' \<and> so_family (socks s' so) = 8000"
proof -
  have "io_room [sizeof_socket, sizeof_endpoint, BUFSIZ, sizeof_file] demo_io"
    by (simp add: io_room_def demo_heap MMBLOCK_COUNT_MAX_def)
  from sys_socket_opens [OF demo_current demo_slot _ this, of 8000 1] show ?thesis
    by (simp add: family_ok_def get_current_process_def) blast
qed

text \<open>C37. A second socket takes the server down with the machine: when a process that has opened a socket opens another
  one, \<open>sys_listen\<close> on the first stops the kernel (it insists on the socket opened last).\<close>

theorem second_socket_listen_panics:
  assumes v: "valid_current s = Some p" and sl: "free_slot s p = Some slot" and fam: "family_ok family type" "family_ok family' type'"
    and r: "io_room [sizeof_socket, sizeof_endpoint, BUFSIZ, sizeof_file, sizeof_socket, sizeof_endpoint, BUFSIZ, sizeof_file] s"
  shows "\<exists>s1. sys_socket family type 0 s = Ok slot s1 \<and> (\<forall>slot'. free_slot s1 p = Some slot' \<longrightarrow>
    (\<exists>s2. sys_socket family' type' 0 s1 = Ok slot' s2 \<and> (\<exists>e. sys_listen slot backlog s2 = Panic e)))"
proof -
  obtain s1 f so b where s1: "sys_socket family type 0 s = Ok slot s1" "socket_end (get_current_process (ks s)) p slot f so b s1"
    "valid_current s1 = Some p" "io_room [sizeof_socket, sizeof_endpoint, BUFSIZ, sizeof_file] s1" "f \<in> owned s1" "so \<in> owned s1"
    using sys_socket_ok [OF v sl fam(1) r] by blast
  have "\<exists>s2. sys_socket family' type' 0 s1 = Ok slot' s2 \<and> (\<exists>e. sys_listen slot backlog s2 = Panic e)" if sl': "free_slot s1 p = Some slot'" for slot'
  proof -
    obtain s2 f' so' b' where s2: "sys_socket family' type' 0 s1 = Ok slot' s2" "socket_end (get_current_process (ks s1)) p slot' f' so' b' s2"
      "f' \<notin> owned s1" "so' \<notin> owned s1" "\<forall>x. x \<noteq> f' \<longrightarrow> files s2 x = files s1 x"
      "\<forall>q fd. (q, fd) \<noteq> (p, slot') \<longrightarrow> Objects s2 q fd = Objects s1 q fd" "valid_current s2 = Some p"
      using sys_socket_ok [OF s1(3) sl' fam(2) s1(4)] by blast
    have ne: "f' \<noteq> f" "so' \<noteq> so" using s1(5,6) s2(3,4) by blast+
    note e = socket_end_facts [OF s1(2)] note e' = socket_end_facts [OF s2(2)] note c = valid_current_SomeD [OF s2(7)]
    have "slot \<noteq> slot'" using free_slot_range [OF sl'] e(5,6) by auto
    then have o: "Objects s2 p slot = f" "files s2 f = files s1 f" using s2(5,6) ne e(5) by auto
    have "is_socket f s2 = is_socket f s1" using o(2) by (simp add: is_socket_def)
    then have "is_socket f s2 = TRUE" using e(7) by simp
    then have "is_socket f (credit_current s2) = TRUE" using is_socket_cong [of "credit_current s2" s2 f] by simp
    then have "\<exists>m. sys_listen slot backlog s2 = Panic m"
      using c o e(6,8,9,11,12) e'(10) ne(2) by (simp add: sys_listen_def listen_imp_def Let_def)
    then show ?thesis using s2(1) by blast
  qed
  then show ?thesis using s1(1) by blast
qed

theorem second_socket_listen_panics_witness:
  "\<exists>s1. sys_socket 8000 1 0 demo_io = Ok 4 s1 \<and> (\<forall>slot'. free_slot s1 0x100 = Some slot' \<longrightarrow>
    (\<exists>s2. sys_socket 2 3 0 s1 = Ok slot' s2 \<and> (\<exists>e. sys_listen 4 4 s2 = Panic e)))"
proof -
  have "io_room [sizeof_socket, sizeof_endpoint, BUFSIZ, sizeof_file, sizeof_socket, sizeof_endpoint, BUFSIZ, sizeof_file] demo_io"
    by (simp add: io_room_def demo_heap MMBLOCK_COUNT_MAX_def)
  from second_socket_listen_panics [OF demo_current demo_slot _ _ this, of 8000 1 2 3 4] show ?thesis by (simp add: family_ok_def)
qed

section \<open>Pipes\<close>

definition kernel_heap :: "ptr set" where
  "kernel_heap = region KERNEL_HEAP_START (unat KERNEL_HEAP_END - unat KERNEL_HEAP_START)"

lemma owned_kernel_heap: "heap_ok s \<Longrightarrow> owned s \<subseteq> kernel_heap"
  unfolding owned_def kernel_heap_def by (rule region_mono) (auto simp: heap_ok_def)

text \<open>C19. A new pipe works: with room in the heap and two free descriptors, \<open>sys_pipe\<close> succeeds and installs its two
  ends there; and from then on any conversation over them, with buffers outside the kernel heap, in pieces of any
  size up to \<open>n\<close> and in any order, delivers exactly the bytes that were accepted, in order, but for the ones still
  in the pipe.\<close>

theorem new_pipe_is_fifo:
  assumes v: "valid_current s = Some p" and i: "first_free s p 3 = i" "i \<noteq> - 1" and j: "first_free s p (i + 1) = j" "j \<noteq> - 1"
    and r: "io_room [BUFSIZ, sizeof_file, sizeof_file, sizeof_pipe_info] s"
    and wb: "wb \<noteq> NULL" "n < 2 ^ 64" "region wb n \<inter> kernel_heap = {}" and rb: "rb \<noteq> NULL" "region rb n \<inter> kernel_heap = {}"
    and rs: "\<forall>q \<in> set rs. request_size q \<le> n"
  shows "\<exists>s1 f1 f2 pi. sys_pipe pipefd flags s = Ok 0 s1 \<and> Objects s1 p i = f1 \<and> Objects s1 p j = f2 \<and> pipe_end s1 f1 pi \<and> pipe_end s1 f2 pi \<and>
    (\<exists>accepted delivered s2. talk (pipe_write_end f2 wb) (pipe_read_end f1 rb) wb rb rs s1 = Ok (accepted, delivered) s2 \<and>
       accepted = delivered @ pipe_contents (view_of s2 pi))"
proof -
  note c = valid_current_SomeD [OF v]
  obtain b s1 where b: "io_kmalloc BUFSIZ s = Ok b s1" "io_room [sizeof_file, sizeof_file, sizeof_pipe_info] s1" "b \<noteq> NULL" "region b (nat BUFSIZ) \<subseteq> owned s1"
    "kheap.more s1 = kheap.more s" using io_alloc [OF r v] by blast
  have v1: "valid_current s1 = Some p" using v valid_current_more [OF io_more(1) [OF b(5)]] by simp
  obtain f1 s2 where f1: "io_kmalloc sizeof_file s1 = Ok f1 s2" "io_room [sizeof_file, sizeof_pipe_info] s2" "f1 \<noteq> NULL" "f1 \<in> owned s2" "owned s1 \<subseteq> owned s2"
    "kheap.more s2 = kheap.more s1" using io_alloc [OF b(2) v1] by blast
  have v2: "valid_current s2 = Some p" using v1 valid_current_more [OF io_more(1) [OF f1(6)]] by simp
  obtain f2 s3 where f2: "io_kmalloc sizeof_file s2 = Ok f2 s3" "io_room [sizeof_pipe_info] s3" "f2 \<noteq> NULL" "f2 \<notin> owned s2" "owned s2 \<subseteq> owned s3"
    "kheap.more s3 = kheap.more s2" using io_alloc [OF f1(2) v2] by blast
  note m = io_more [OF b(5)] io_more [OF f1(6)] io_more [OF f2(6)]
  have ne: "f1 \<noteq> f2" using f1(4) f2(4) by blast
  have ij: "i \<noteq> j" using i j find_upto [of _ "i + 1" "OPEN_MAX - 1" j] by (auto simp: first_free_def simp del: upto.simps split: option.splits)
  define s4 where "s4 = set_object p j f2 (set_object p i f1 (upd_file f2 (pipe_file_of s3 b j) (upd_file f1 (pipe_file_of s3 b i) s3)))"
  define s5 where "s5 = s4\<lparr>hmem := put_u32 (put_u32 (hmem s3) pipefd (word_of_int i)) (pipefd + 4) (word_of_int j)\<rparr>"
  have v5: "valid_current s5 = Some p" "io_room [sizeof_pipe_info] s5"
    using v2 valid_current_more [of s5 s2] m f2(2) by (simp_all add: s5_def s4_def)
  obtain pi s6 where pi: "io_kmalloc sizeof_pipe_info s5 = Ok pi s6" "io_room [] s6" "pi \<noteq> NULL" "owned s5 \<subseteq> owned s6" "kheap.more s6 = kheap.more s5"
    using io_alloc [OF v5(2,1)] by blast
  note m6 = io_more [OF pi(5)]
  define s7 where "s7 = upd_file f2 (\<lambda>fi. fi\<lparr>pipe_info := pi\<rparr>) (upd_file f1 (\<lambda>fi. fi\<lparr>pipe_info := pi\<rparr>)
    (s6\<lparr>pipes := (pipes s6)(pi := \<lparr>pi_base = b, buffer_size = BUFSIZ, pi_counter = 0, write_pos = 0, read_pos = 0\<rparr>)\<rparr>))"
  have run: "sys_pipe pipefd flags s = Ok 0 s7"
    using c i j b(1,3) f1(1,3) f2(1,3) pi(1,3) unfolding sys_pipe_def Let_def
    by (simp add: s4_def [symmetric] s5_def [symmetric] s7_def)
  have o: "Objects s7 p i = f1" "Objects s7 p j = f2" using ij by (simp_all add: s7_def m6 s5_def s4_def)
  have pe: "pipe_end s7 f1 pi" "pipe_end s7 f2 pi"
    using f1(3) f2(3) pi(3) ne by (simp_all add: pipe_end_def s7_def m6 s5_def s4_def pipe_file_of_def)
  have pv: "pipes s7 pi = \<lparr>pi_base = b, buffer_size = BUFSIZ, pi_counter = 0, write_pos = 0, read_pos = 0\<rparr>" by (simp add: s7_def upd_file_def)
  have kh: "region b 1024 \<subseteq> kernel_heap"
  proof -
    have "heap_ok s1" using b(2) by (simp add: io_room_def)
    from owned_kernel_heap [OF this] show ?thesis using b(4) by auto
  qed
  have inv: "pipe_inv f2 f1 pi wb rb n s7"
    using pe wb rb kh by (auto simp: pipe_inv_def pipe_user_def pv pipe_view_def bytes_def apart_def)
  have "pipe_contents (view_of s7 pi) = []" by (simp add: pipe_view_def pv)
  then have "\<exists>accepted delivered s2. talk (pipe_write_end f2 wb) (pipe_read_end f1 rb) wb rb rs s7 = Ok (accepted, delivered) s2 \<and>
       accepted = delivered @ pipe_contents (view_of s2 pi)"
    using pipe_channel.talk_fifo [OF inv rs] by auto
  then show ?thesis using run o pe by blast
qed

theorem new_pipe_is_fifo_witness:
  "\<exists>s1 f1 f2 pi. sys_pipe 0x600000 0 demo_io = Ok 0 s1 \<and> Objects s1 0x100 4 = f1 \<and> Objects s1 0x100 5 = f2 \<and> pipe_end s1 f1 pi \<and> pipe_end s1 f2 pi \<and>
    (\<exists>accepted delivered s2. talk (pipe_write_end f2 0x400000) (pipe_read_end f1 0x500000) 0x400000 0x500000 [Put [1, 2, 3], Get 2, Get 9] s1 = Ok (accepted, delivered) s2 \<and>
       accepted = delivered @ pipe_contents (view_of s2 pi))"
proof -
  have r: "io_room [BUFSIZ, sizeof_file, sizeof_file, sizeof_pipe_info] demo_io" by (simp add: io_room_def demo_heap MMBLOCK_COUNT_MAX_def)
  have ff: "first_free demo_io 0x100 3 = 4" "first_free demo_io 0x100 (4 + 1) = 5" by (simp_all add: first_free_def upto_rec1)
  have u: "region 0x400000 16 \<inter> kernel_heap = {}" "region 0x500000 16 \<inter> kernel_heap = {}"
    using apart_ordered [of "0x400000" 16 KERNEL_HEAP_START "unat KERNEL_HEAP_END - unat KERNEL_HEAP_START"]
      apart_ordered [of "0x500000" 16 KERNEL_HEAP_START "unat KERNEL_HEAP_END - unat KERNEL_HEAP_START"] by (simp_all add: apart_def kernel_heap_def)
  show ?thesis
    using new_pipe_is_fifo [OF demo_current ff(1) _ ff(2) _ r _ _ u(1) _ u(2), of "[Put [1, 2, 3], Get 2, Get 9]" "0x600000" 0]
    by (simp add: request_size_def del: talk.simps)
qed

end
