(* ===== verification/Wproxy.thy ===== *)
theory Wproxy
  imports IO_Model
begin

text \<open>
  The window proxies of the kernel (gthouse/wink/gdi/wproxy.c): the list that every new thread extends, and the test
  that finds the proxy under the mouse. \<open>cstate\<close> is the state of the creation of threads: the device state \<open>io\<close> (with
  the threads and the heap), the proxies and rectangles, and the fields of \<open>thread_d\<close> and \<open>te_d\<close> that the scheduler
  does not use (\<open>tmore\<close>, \<open>pmore\<close>). The drawing functions are not modelled.
\<close>

section \<open>Structures\<close>

definition HIT_NONE :: int where [simp]: "HIT_NONE = 0"
definition HIT_FRAME :: int where [simp]: "HIT_FRAME = 1"
definition HIT_CLIENT :: int where [simp]: "HIT_CLIENT = 2"

record wproxy_d =
  wp_used :: int
  wp_magic :: int
  wp_tid :: int
  wp_wid :: int
  wp_l :: u64
  wp_t :: u64
  wp_w :: u64
  wp_h :: u64
  ca_l :: u64
  ca_t :: u64
  ca_w :: u64
  ca_h :: u64
  hit_area :: int
  has_frame :: int
  expanded_nonclient_area :: int
  wp_color :: u32
  wp_data :: ptr
  wp_data_size :: int
  wp_next :: ptr

text \<open>\<open>struct rect_d\<close> (gre/rect.h): the fields that a new thread sets; the others are 0.\<close>

record surface_d =
  sr_used :: int
  sr_magic :: int
  sr_dirty :: int
  sr_left :: u64
  sr_top :: u64
  sr_width :: u64
  sr_height :: u64

text \<open>The other fields of a thread; \<open>threadname\<close> is \<open>__threadname\<close>. The object type and class, which are constants,
  and fields that are never set are left out.\<close>

record thread_more =
  thread_flags :: u64
  disable_boost :: int
  quantum_limit_min :: u64
  quantum_limit_max :: u64
  input_mode :: u32
  surface_rect :: ptr
  th_wproxy :: ptr
  th_protected :: int
  signal_in_progress :: int
  sig_handlers :: "nat \<Rightarrow> u64"
  th_umask :: u64
  plane :: int
  name_address :: u64
  threadname :: "nat \<Rightarrow> u8"
  threadName_len :: int
  current_processor :: int
  next_processor :: int
  affinity_processor :: int
  tm_pml4_VA :: u64
  tm_pdpt0_VA :: u64
  tm_pdpt0_PA :: u64
  tm_pd0_VA :: u64
  tm_pd0_PA :: u64
  in_pf :: int
  pf_counter :: u32
  is_preemptable :: int
  HeapStart :: u64
  HeapSize :: u64
  StackStart :: u64
  StackSize :: u64
  ready_limit :: u64
  waiting_limit :: u64
  blocked_limit :: u64
  ticks_remaining :: u64
  initial_rip :: u64

record process_more =
  pm_pml4_VA :: u64
  pm_pdpt0_VA :: u64
  pm_pdpt0_PA :: u64
  pm_pd0_VA :: u64
  pm_pd0_PA :: u64

record cstate =
  io :: iostate
  wproxies :: "ptr \<Rightarrow> wproxy_d"
  wproxy_head :: ptr
  wproxy_hover :: ptr
  wproxy_shell :: ptr
  rects :: "ptr \<Rightarrow> surface_d"
  tmore :: "ptr \<Rightarrow> thread_more"
  pmore :: "ptr \<Rightarrow> process_more"
  ClonedThread :: ptr

type_synonym 'a cres = "(cstate, 'a) res"

primrec on_io :: "cstate \<Rightarrow> (iostate, 'a) res \<Rightarrow> 'a cres" where
  "on_io s (Ok a t) = Ok a (s\<lparr>io := t\<rparr>)"
| "on_io s (Iretq t) = Iretq (s\<lparr>io := t\<rparr>)"
| "on_io s (Panic e) = Panic e"
| "on_io s (Fault e) = Fault e"

definition c_kmalloc :: "int \<Rightarrow> cstate \<Rightarrow> ptr cres" where
  "c_kmalloc n s = on_io s (io_kmalloc n (io s))"

abbreviation (input) kst :: "cstate \<Rightarrow> kstate" where "kst s \<equiv> ks (io s)"

definition on_kst :: "(kstate \<Rightarrow> kstate) \<Rightarrow> cstate \<Rightarrow> cstate" where
  "on_kst f s = s\<lparr>io := on_ks f (io s)\<rparr>"

definition upd_wp :: "ptr \<Rightarrow> (wproxy_d \<Rightarrow> wproxy_d) \<Rightarrow> cstate \<Rightarrow> cstate" where
  "upd_wp p f s = s\<lparr>wproxies := (wproxies s)(p := f (wproxies s p))\<rparr>"

definition upd_more :: "ptr \<Rightarrow> (thread_more \<Rightarrow> thread_more) \<Rightarrow> cstate \<Rightarrow> cstate" where
  "upd_more p f s = s\<lparr>tmore := (tmore s)(p := f (tmore s p))\<rparr>"

section \<open>The list\<close>

definition valid_wp :: "ptr \<Rightarrow> cstate \<Rightarrow> bool" where
  "valid_wp p s \<longleftrightarrow> p \<noteq> NULL \<and> wp_used (wproxies s p) = TRUE \<and> wp_magic (wproxies s p) = 1234"

text \<open>The last element of the list that starts at \<open>w\<close>; \<open>None\<close> when the list has a cycle.\<close>

partial_function (option) list_end :: "(ptr \<Rightarrow> wproxy_d) \<Rightarrow> ptr \<Rightarrow> ptr option" where
  "list_end m w = (if wp_next (m w) = NULL then Some w else list_end m (wp_next (m w)))"

text \<open>A cycle makes the loop of \<open>__wproxy_add_to_list\<close> run for ever, which is a \<open>Fault\<close> here.\<close>

definition wproxy_add_to_list :: "ptr \<Rightarrow> cstate \<Rightarrow> int cres" where
  "wproxy_add_to_list p s =
     (if p = NULL then Ok (- 1) s
      else if wp_used (wproxies s p) \<noteq> TRUE \<or> wp_magic (wproxies s p) \<noteq> 1234 then Ok (- 1) s
      else if wproxy_head s = NULL then Ok 0 (upd_wp p (\<lambda>w. w\<lparr>wp_next := NULL\<rparr>) (s\<lparr>wproxy_head := p\<rparr>))
      else case list_end (wproxies s) (wproxy_head s) of
        None \<Rightarrow> Fault ''__wproxy_add_to_list: endless loop''
      | Some e \<Rightarrow> Ok 0 (upd_wp p (\<lambda>w. w\<lparr>wp_next := NULL\<rparr>) (upd_wp e (\<lambda>w. w\<lparr>wp_next := p\<rparr>) s)))"

definition sizeof_wproxy :: int where [simp]: "sizeof_wproxy = 120"

text \<open>The structure is not cleared: the other fields have whatever the memory had.\<close>

definition wproxyCreateObject :: "cstate \<Rightarrow> ptr cres" where
  "wproxyCreateObject s =
     bindR (c_kmalloc sizeof_wproxy s) (\<lambda>p s.
       if p = NULL then Ok NULL s
       else bindR (wproxy_add_to_list p (upd_wp p (\<lambda>w. w\<lparr>wp_used := TRUE, wp_magic := 1234, has_frame := TRUE\<rparr>) s)) (\<lambda>status s.
         if status \<noteq> 0 then Ok NULL s else Ok p s))"

definition wproxy_create0 :: "int \<Rightarrow> u64 \<Rightarrow> u64 \<Rightarrow> u64 \<Rightarrow> u64 \<Rightarrow> u32 \<Rightarrow> cstate \<Rightarrow> ptr cres" where
  "wproxy_create0 tid l t w h color s =
     (if tid < 0 then Ok NULL s
      else if tid \<ge> THREAD_COUNT_MAX then Ok NULL s
      else bindR (wproxyCreateObject s) (\<lambda>p s.
        if p = NULL then Ok NULL s
        else Ok p (upd_wp p (\<lambda>x. x\<lparr>wp_l := l, wp_t := t, wp_w := w, wp_h := h, wp_color := color,
               ca_l := l, ca_t := t, ca_w := w, ca_h := h, wp_tid := tid\<rparr>) s)))"

section \<open>The proxy of a thread\<close>

text \<open>The checks that the services share: the thread and its proxy are valid.\<close>

definition proxy_of :: "int \<Rightarrow> cstate \<Rightarrow> ptr option" where
  "proxy_of tid s =
     (if tid < 0 \<or> tid \<ge> THREAD_COUNT_MAX then None
      else let t = threadList (kst s) tid in
      if t = NULL \<or> th_used (theap (kst s) t) \<noteq> TRUE \<or> th_magic (theap (kst s) t) \<noteq> 1234 then None
      else let p = th_wproxy (tmore s t) in
      if p = NULL \<or> wp_used (wproxies s p) \<noteq> TRUE \<or> wp_magic (wproxies s p) \<noteq> 1234 then None else Some p)"

definition wproxy_set_shell :: "int \<Rightarrow> cstate \<Rightarrow> int \<times> cstate" where
  "wproxy_set_shell tid s =
     (case proxy_of tid s of
        None \<Rightarrow> (- 1, s)
      | Some p \<Rightarrow> (0, upd_wp p (\<lambda>w. w\<lparr>has_frame := FALSE\<rparr>) (s\<lparr>wproxy_shell := p\<rparr>)))"

definition wproxy_set_expanded_nonclient_area :: "int \<Rightarrow> cstate \<Rightarrow> int \<times> cstate" where
  "wproxy_set_expanded_nonclient_area tid s =
     (case proxy_of tid s of
        None \<Rightarrow> (- 1, s)
      | Some p \<Rightarrow> (0, upd_wp p (\<lambda>w. w\<lparr>expanded_nonclient_area := TRUE\<rparr>) s))"

definition wproxy_set_parameters_given_tid :: "int \<Rightarrow> u64 \<Rightarrow> u64 \<Rightarrow> u64 \<Rightarrow> u64 \<Rightarrow> u64 \<Rightarrow> u64 \<Rightarrow> u64 \<Rightarrow> u64 \<Rightarrow> cstate \<Rightarrow> cstate" where
  "wproxy_set_parameters_given_tid tid l t w h cl ct cw ch s =
     (case proxy_of tid s of
        None \<Rightarrow> s
      | Some p \<Rightarrow> upd_wp p (\<lambda>x. x\<lparr>wp_l := l, wp_t := t, wp_w := w, wp_h := h, ca_l := cl, ca_t := ct, ca_w := cw, ca_h := ch\<rparr>) s)"

definition wproxy_create_data_buffer :: "ptr \<Rightarrow> int \<Rightarrow> cstate \<Rightarrow> ptr cres" where
  "wproxy_create_data_buffer p n s =
     (if p = NULL then Ok NULL s
      else if wp_used (wproxies s p) \<noteq> TRUE \<or> wp_magic (wproxies s p) \<noteq> 1234 then Ok NULL s
      else bindR (c_kmalloc n s) (\<lambda>b s.
        let s1 = upd_wp p (\<lambda>w. w\<lparr>wp_data := b\<rparr>) s in
        if b = NULL then Ok NULL s1 else Ok b (upd_wp p (\<lambda>w. w\<lparr>wp_data_size := n\<rparr>) s1)))"

definition wproxy_get_data_buffer :: "ptr \<Rightarrow> cstate \<Rightarrow> ptr" where
  "wproxy_get_data_buffer p s = (if valid_wp p s then wp_data (wproxies s p) else NULL)"

section \<open>The hit test\<close>

text \<open>The sums are on \<open>unsigned long\<close>; the far edges belong to the rectangle.\<close>

definition in_box :: "u64 \<Rightarrow> u64 \<Rightarrow> u64 \<Rightarrow> u64 \<Rightarrow> u64 \<Rightarrow> u64 \<Rightarrow> bool" where
  "in_box l t r b x y \<longleftrightarrow> x \<ge> l \<and> x \<le> r \<and> y \<ge> t \<and> y \<le> b"

definition in_frame :: "wproxy_d \<Rightarrow> u64 \<Rightarrow> u64 \<Rightarrow> bool" where
  "in_frame w x y \<longleftrightarrow> in_box (wp_l w) (wp_t w) (wp_l w + wp_w w) (wp_t w + wp_h w) x y"

text \<open>The client area as \<open>wproxy_hit_test00\<close> computes it: relative to the frame.\<close>

definition in_client :: "wproxy_d \<Rightarrow> u64 \<Rightarrow> u64 \<Rightarrow> bool" where
  "in_client w x y \<longleftrightarrow> in_box (wp_l w + ca_l w) (wp_t w + ca_t w) (wp_l w + (ca_l w + ca_w w)) (wp_t w + (ca_t w + ca_h w)) x y"

definition wproxy_is_inside_frame :: "ptr \<Rightarrow> u64 \<Rightarrow> u64 \<Rightarrow> cstate \<Rightarrow> bool" where
  "wproxy_is_inside_frame p x y s \<longleftrightarrow> valid_wp p s \<and> in_frame (wproxies s p) x y"

text \<open>Here the client area is absolute.\<close>

definition wproxy_is_inside_client_area :: "ptr \<Rightarrow> u64 \<Rightarrow> u64 \<Rightarrow> cstate \<Rightarrow> bool" where
  "wproxy_is_inside_client_area p x y s \<longleftrightarrow> valid_wp p s \<and>
     (let w = wproxies s p in in_box (ca_l w) (ca_t w) (ca_l w + ca_w w) (ca_t w + ca_h w) x y)"

definition hit_area_of :: "wproxy_d \<Rightarrow> u64 \<Rightarrow> u64 \<Rightarrow> int" where
  "hit_area_of w x y = (if in_client w x y then if expanded_nonclient_area w = TRUE then HIT_FRAME else HIT_CLIENT else HIT_FRAME)"

definition hit_step :: "u64 \<Rightarrow> u64 \<Rightarrow> ptr \<Rightarrow> ptr \<times> (ptr \<Rightarrow> wproxy_d) \<Rightarrow> ptr \<times> (ptr \<Rightarrow> wproxy_d)" where
  "hit_step x y w = (\<lambda>(hover, m).
     if wp_magic (m w) = 1234 \<and> in_frame (m w) x y then (w, m(w := (m w)\<lparr>hit_area := hit_area_of (m w) x y\<rparr>)) else (hover, m))"

partial_function (option) hit_loop :: "u64 \<Rightarrow> u64 \<Rightarrow> ptr \<Rightarrow> ptr \<times> (ptr \<Rightarrow> wproxy_d) \<Rightarrow> (ptr \<times> (ptr \<Rightarrow> wproxy_d)) option" where
  "hit_loop x y w hm =
     (if w = NULL then Some hm
      else let hm1 = hit_step x y w hm in hit_loop x y (wp_next (snd hm1 w)) hm1)"

text \<open>\<open>None\<close>: the list has a cycle and the loop does not end.\<close>

definition wproxy_hit_test00 :: "u64 \<Rightarrow> u64 \<Rightarrow> cstate \<Rightarrow> cstate option" where
  "wproxy_hit_test00 x y s =
     (let w = wproxy_shell s in
      if w \<noteq> NULL \<and> wp_magic (wproxies s w) = 1234 \<and> in_frame (wproxies s w) x y
      then Some (upd_wp w (\<lambda>w. w\<lparr>hit_area := HIT_CLIENT\<rparr>) (s\<lparr>wproxy_hover := w\<rparr>))
      else case hit_loop x y (wproxy_head s) (NULL, wproxies s) of
        None \<Rightarrow> None
      | Some (hover, m) \<Rightarrow>
          let s1 = s\<lparr>wproxies := m\<rparr> in
          Some (if hover \<noteq> wproxy_hover s1 then s1\<lparr>wproxy_hover := hover\<rparr> else s1))"

end
