(* ===== verification/Wproxy_Laws.thy ===== *)
theory Wproxy_Laws
  imports Wproxy
begin

text \<open>
  The hit test of the window proxies: which proxy it finds and which area it reports, and the place where the two
  notions of the client area in wproxy.c differ.
\<close>

section \<open>The loop\<close>

definition under :: "u64 \<Rightarrow> u64 \<Rightarrow> (ptr \<Rightarrow> wproxy_d) \<Rightarrow> ptr \<Rightarrow> bool" where
  "under x y m p \<longleftrightarrow> wp_magic (m p) = 1234 \<and> in_frame (m p) x y"

lemma hit_step_next [simp]: "wp_next (snd (hit_step x y w (h, m)) p) = wp_next (m p)"
  by (simp add: hit_step_def)

lemma hit_loop_fold:
  "chain (\<lambda>p. wp_next (m p)) w ps \<Longrightarrow> hit_loop x y w (h, m) = Some (fold (hit_step x y) ps (h, m))"
proof (induction ps arbitrary: w h m)
  case (Cons p ps)
  then have w: "w = p" "p \<noteq> NULL" "chain (\<lambda>q. wp_next (m q)) (wp_next (m p)) ps" by simp_all
  obtain h1 m1 where s: "hit_step x y p (h, m) = (h1, m1)" by fastforce
  have n: "wp_next (m1 q) = wp_next (m q)" for q using hit_step_next [of x y p h m q] by (simp only: s snd_conv)
  have "chain (\<lambda>q. wp_next (m1 q)) (wp_next (m1 p)) ps" using w(3) by (simp add: n)
  then have "hit_loop x y (wp_next (m1 p)) (h1, m1) = Some (fold (hit_step x y) ps (h1, m1))" by (rule Cons.IH)
  then show ?case using w(1,2) by (simp add: hit_loop.simps [of x y p "(h, m)"] Let_def s)
qed (simp add: hit_loop.simps [of x y NULL])

definition marked :: "u64 \<Rightarrow> u64 \<Rightarrow> ptr set \<Rightarrow> (ptr \<Rightarrow> wproxy_d) \<Rightarrow> ptr \<Rightarrow> wproxy_d" where
  "marked x y P m p = (if p \<in> P \<and> under x y m p then (m p)\<lparr>hit_area := hit_area_of (m p) x y\<rparr> else m p)"

lemma under_marked [simp]: "under x y (marked x y P m) p = under x y m p"
  by (simp add: marked_def under_def in_frame_def)

lemma area_marked [simp]: "hit_area_of (marked x y P m p) x y = hit_area_of (m p) x y"
  by (simp add: marked_def hit_area_of_def in_client_def)

lemma hit_step_eq: "hit_step x y p (h, m) = (if under x y m p then p else h, if under x y m p then m(p := (m p)\<lparr>hit_area := hit_area_of (m p) x y\<rparr>) else m)"
  by (simp add: hit_step_def under_def)

lemma fold_hit:
  "fold (hit_step x y) ps (h, m) = ((case find (under x y m) (rev ps) of None \<Rightarrow> h | Some p \<Rightarrow> p), marked x y (set ps) m)"
proof (induction ps rule: rev_induct)
  case (snoc p ps)
  have "(if under x y m p then (marked x y (set ps) m)(p := (marked x y (set ps) m p)\<lparr>hit_area := hit_area_of (m p) x y\<rparr>) else marked x y (set ps) m)
      = marked x y (set (ps @ [p])) m"
    by (auto simp: marked_def fun_eq_iff)
  then show ?case by (cases "under x y m p") (simp_all add: snoc.IH hit_step_eq)
qed (simp add: marked_def fun_eq_iff)

text \<open>C24. The hit test, on a list of proxies that ends: it always ends. When the mouse is over the taskbar, that is the proxy
  found, in its client area, and no other proxy changes. Otherwise the proxy under the mouse is the last one of the
  list, which is in the order of creation, whose frame contains the point, or none if there is none; every proxy whose
  frame contains the point gets its area, the others keep theirs.\<close>

theorem hit_test_finds_topmost:
  assumes "chain (\<lambda>p. wp_next (wproxies s p)) (wproxy_head s) ps"
  shows "\<exists>u. wproxy_hit_test00 x y s = Some u \<and>
    (if wproxy_shell s \<noteq> NULL \<and> under x y (wproxies s) (wproxy_shell s)
     then wproxy_hover u = wproxy_shell s \<and>
       (\<forall>p. hit_area (wproxies u p) = (if p = wproxy_shell s then HIT_CLIENT else hit_area (wproxies s p)))
     else wproxy_hover u = (case find (under x y (wproxies s)) (rev ps) of None \<Rightarrow> NULL | Some p \<Rightarrow> p) \<and>
       (\<forall>p. hit_area (wproxies u p) = (if p \<in> set ps \<and> under x y (wproxies s) p then hit_area_of (wproxies s p) x y else hit_area (wproxies s p))))"
proof (cases "wproxy_shell s \<noteq> NULL \<and> under x y (wproxies s) (wproxy_shell s)")
  case True
  then have t: "wproxy_shell s \<noteq> NULL \<and> wp_magic (wproxies s (wproxy_shell s)) = 1234 \<and> in_frame (wproxies s (wproxy_shell s)) x y"
    by (simp add: under_def)
  show ?thesis unfolding wproxy_hit_test00_def Let_def if_P [OF t] if_P [OF True] by (simp add: upd_wp_def)
next
  case False
  then have n: "\<not> (wproxy_shell s \<noteq> NULL \<and> wp_magic (wproxies s (wproxy_shell s)) = 1234 \<and> in_frame (wproxies s (wproxy_shell s)) x y)"
    by (simp add: under_def)
  show ?thesis unfolding wproxy_hit_test00_def Let_def if_not_P [OF n] if_not_P [OF False]
    by (simp add: hit_loop_fold [OF assms(1)] fold_hit marked_def)
qed

definition demo_proxy :: "u64 \<Rightarrow> u64 \<Rightarrow> u64 \<Rightarrow> ptr \<Rightarrow> wproxy_d" where
  "demo_proxy l t w next = \<lparr>wp_used = 1, wp_magic = 1234, wp_tid = 0, wp_wid = 0, wp_l = l, wp_t = t, wp_w = w, wp_h = w, ca_l = 0, ca_t = 0,
     ca_w = w, ca_h = w, hit_area = 0, has_frame = 1, expanded_nonclient_area = 0, wp_color = 0, wp_data = NULL, wp_data_size = 0, wp_next = next\<rparr>"

theorem hit_test_finds_topmost_witness:
  "\<exists>s0 u v. wproxy_hit_test00 60 60 (s0\<lparr>wproxies := (\<lambda>p. if p = 0x100 then demo_proxy 0 0 100 0x200 else demo_proxy 50 50 100 NULL),
      wproxy_head := 0x100, wproxy_shell := NULL\<rparr>) = Some u \<and> wproxy_hover u = 0x200 \<and> hit_area (wproxies u 0x100) = HIT_CLIENT \<and>
    wproxy_hit_test00 60 60 (s0\<lparr>wproxies := (\<lambda>p. if p = 0x100 then demo_proxy 0 0 100 0x200 else demo_proxy 50 50 100 NULL),
      wproxy_head := 0x100, wproxy_shell := 0x100\<rparr>) = Some v \<and> wproxy_hover v = 0x100"
proof -
  fix s0 :: cstate
  let ?m = "\<lambda>p. if p = (0x100 :: ptr) then demo_proxy 0 0 100 0x200 else demo_proxy 50 50 100 NULL"
  let ?s = "\<lambda>sh. s0\<lparr>wproxies := ?m, wproxy_head := 0x100, wproxy_shell := sh\<rparr>"
  have c: "chain (\<lambda>p. wp_next (wproxies (?s sh) p)) (wproxy_head (?s sh)) [0x100, 0x200]" for sh by (simp add: demo_proxy_def)
  have un: "under 60 60 ?m 0x100" "under 60 60 ?m 0x200" by (simp_all add: under_def in_frame_def in_box_def demo_proxy_def)
  obtain u where u: "wproxy_hit_test00 60 60 (?s NULL) = Some u" "wproxy_hover u = 0x200" "hit_area (wproxies u 0x100) = hit_area_of (?m 0x100) 60 60"
    using hit_test_finds_topmost [OF c [of NULL], of 60 60] un by auto
  obtain v where v: "wproxy_hit_test00 60 60 (?s 0x100) = Some v" "wproxy_hover v = 0x100"
    using hit_test_finds_topmost [OF c [of "0x100"], of 60 60] un by auto
  have "hit_area_of (?m 0x100) 60 60 = HIT_CLIENT" by (simp add: hit_area_of_def in_client_def in_box_def demo_proxy_def)
  with u v show ?thesis by metis
qed

text \<open>A proxy that was just created at a point other than the origin: the point is in its client area for
  \<open>wproxy_is_inside_client_area\<close>, where the area is absolute, but not for the hit test, where it is relative.\<close>

theorem new_proxy_client_area_displaced:
  assumes "wproxy_create0 tid l t w h color s = Ok p u" and "p \<noteq> NULL" and "0 < l" and "l < 2 ^ 31" and "t < 2 ^ 31" and "w < 2 ^ 31" and "h < 2 ^ 31"
  shows "wproxy_is_inside_client_area p l t u \<and> in_frame (wproxies u p) l t \<and> hit_area_of (wproxies u p) l t = HIT_FRAME"
proof -
  have b: "x \<le> x + y" if "x < 2 ^ 31" "y < 2 ^ 31" for x y :: u64
    using that by (simp add: word_le_nat_alt word_less_nat_alt unat_word_ariths)
  have "l < l + l" using assms(3,4) by (simp add: word_less_nat_alt unat_word_ariths)
  moreover have "wp_used (wproxies u p) = TRUE" "wp_magic (wproxies u p) = 1234" "ca_l (wproxies u p) = l" "ca_t (wproxies u p) = t" "ca_w (wproxies u p) = w"
    "ca_h (wproxies u p) = h" "wp_l (wproxies u p) = l" "wp_t (wproxies u p) = t" "wp_w (wproxies u p) = w" "wp_h (wproxies u p) = h"
    using assms(1,2)
    by (auto simp: wproxy_create0_def wproxyCreateObject_def wproxy_add_to_list_def upd_wp_def elim!: bindR_OkE split: if_splits option.splits)
  ultimately show ?thesis
    using b [OF assms(4,6)] b [OF assms(5,7)] assms(2)
    by (simp add: wproxy_is_inside_client_area_def valid_wp_def in_box_def in_frame_def hit_area_of_def in_client_def not_le)
qed

end
