(* ===== verification/Thread_Create.thy ===== *)
theory Thread_Create
  imports Wproxy Console Schedi
begin

text \<open>
  The creation of threads: \<open>create_thread\<close> and \<open>copy_thread_struct\<close> of intake/thread.c with their workers,
  \<open>init_threads\<close>, and the system call \<open>sys_create_thread\<close> (kwrap/sci/sys.c). A thread takes 67 blocks of the kernel
  heap: the structure, 64 messages, a window proxy and a rectangle.
\<close>

section \<open>The structure\<close>

definition USER_THRESHOLD_TID :: int where [simp]: "USER_THRESHOLD_TID = 100"
definition THREAD_MAGIC :: int where [simp]: "THREAD_MAGIC = 1234"
definition RING0 :: u32 where [simp]: "RING0 = 0"
definition RING3 :: u32 where [simp]: "RING3 = 3"
definition FOREGROUND_THREAD :: int where [simp]: "FOREGROUND_THREAD = 2"
definition IM_MESSAGE_INPUT :: u32 where [simp]: "IM_MESSAGE_INPUT = 2"
definition PREEMPTABLE :: int where [simp]: "PREEMPTABLE = TRUE"
definition PRIORITY_NORMAL_BALANCED :: u64 where [simp]: "PRIORITY_NORMAL_BALANCED = 2"
definition PRIORITY_SYSTEM_BALANCED :: u64 where [simp]: "PRIORITY_SYSTEM_BALANCED = 5"
definition QUANTUM_SYSTEM_BALANCED :: u64 where [simp]: "QUANTUM_SYSTEM_BALANCED = 5"
definition sizeof_thread :: int where [simp]: "sizeof_thread = 2792"
definition sizeof_msg :: int where [simp]: "sizeof_msg = 80"
definition sizeof_rect :: int where [simp]: "sizeof_rect = 128"

text \<open>The structures after \<open>memset\<close> with 0.\<close>

definition zero_context :: x64_context_d where
  "zero_context = \<lparr>c_rax = 0, c_rcx = 0, c_rdx = 0, c_rbx = 0, c_rsp = 0, c_rbp = 0, c_rsi = 0, c_rdi = 0, c_r8 = 0, c_r9 = 0,
     c_r10 = 0, c_r11 = 0, c_r12 = 0, c_r13 = 0, c_r14 = 0, c_r15 = 0, c_rip = 0, c_cs = 0, c_ds = 0, c_es = 0, c_fs = 0, c_gs = 0,
     c_ss = 0, c_rflags = 0, c_fpu_buffer = (\<lambda>_. 0)\<rparr>"

definition zero_thread :: thread_d where
  "zero_thread = \<lparr>th_used = 0, th_magic = 0, th_type = THREAD_TYPE_NULL, th_te = NULL, th_tgid = 0, th_tid = 0, th_base_priority = 0,
     th_priority = 0, th_quantum = 0, th_state = THREAD_STATE_CREATED, th_new_clone = 0,
     th_Deferred = \<lparr>yield_in_progress = 0, sleep_in_progress = 0, desired_sleep_ms = 0, exit_in_progress = 0, exit_code = 0\<rparr>,
     th_callback_in_progress = 0, th_cb_r3_address = 0, th_is_alertable = 0, th_signal = 0, th_has_pending_event = 0, th_its_my_party = 0,
     th_wait_reason = WAIT_REASON_NULL, th_pml4_PA = 0, th_cpl = 0, th_rflags_initial_iopl = 0, th_rflags_current_iopl = 0,
     th_to_supervisor = 0, th_to_user = 0, th_initial_jiffy = 0, th_ready_jiffy = 0, th_waiting_jiffy = 0, th_blocked_jiffy = 0,
     th_zombie_jiffy = 0, th_wake_jiffy = 0, th_step = 0, th_initial_time_ms = 0, th_total_time_ms = 0, th_credits = 0,
     th_standbyCount = 0, th_standbyCount_ms = 0, th_runningCount = 0, th_runningCount_ms = 0, th_readyCount = 0, th_readyCount_ms = 0,
     th_waitingCount = 0, th_waitingCount_ms = 0, th_blockedCount = 0, th_blockedCount_ms = 0, th_scheduledCount = 0, th_alarm = 0,
     th_profiler_percentage_running = 0, th_profiler_percentage_running_res = 0, th_profiler_percentage_running_mod = 0,
     th_profiler_ticks_running = 0, th_profiler_last_ticks = 0, th_link = NULL, th_is_linked = 0, th_MsgQueue = (\<lambda>_. NULL),
     th_MsgQueueHead = 0, th_MsgQueueTail = 0,
     th_msgctl = \<lparr>input_flags = 0, block_in_progress = 0, block_on_empty = 0, miss_count = 0, has_event_from_ds = 0\<rparr>,
     th_context = zero_context, th_saved = 0, th_next = NULL\<rparr>"

definition zero_more :: thread_more where
  "zero_more = \<lparr>thread_flags = 0, disable_boost = 0, quantum_limit_min = 0, quantum_limit_max = 0, input_mode = 0, surface_rect = NULL,
     th_wproxy = NULL, th_protected = 0, signal_in_progress = 0, sig_handlers = (\<lambda>_. 0), th_umask = 0, plane = 0, name_address = 0,
     threadname = (\<lambda>_. 0), threadName_len = 0, current_processor = 0, next_processor = 0, affinity_processor = 0, tm_pml4_VA = 0, tm_pdpt0_VA = 0, tm_pdpt0_PA = 0, tm_pd0_VA = 0, tm_pd0_PA = 0, in_pf = 0, pf_counter = 0,
     is_preemptable = 0, HeapStart = 0, HeapSize = 0, StackStart = 0, StackSize = 0, ready_limit = 0, waiting_limit = 0,
     blocked_limit = 0, ticks_remaining = 0, initial_rip = 0\<rparr>"

definition zero_msg :: msg_d where
  "zero_msg = \<lparr>m_used = 0, m_magic = 0, m_opaque_window = NULL, m_msg = 0, m_long1 = 0, m_long2 = 0, m_long3 = 0, m_long4 = 0,
     m_sender_tid = 0, m_receiver_tid = 0, m_sender_pid = 0, m_receiver_pid = 0, m_next = NULL\<rparr>"

definition upd_th :: "ptr \<Rightarrow> (thread_d \<Rightarrow> thread_d) \<Rightarrow> cstate \<Rightarrow> cstate" where
  "upd_th p f s = on_kst (upd_thread p f) s"

definition threadObject :: "cstate \<Rightarrow> ptr cres" where
  "threadObject s =
     bindR (c_kmalloc sizeof_thread s) (\<lambda>p s.
       if p = NULL then Ok NULL s else Ok p (upd_more p (\<lambda>_. zero_more) (upd_th p (\<lambda>_. zero_thread) s)))"

section \<open>The common elements\<close>

text \<open>One slot of the message queue.\<close>

definition new_message :: "ptr \<Rightarrow> int \<Rightarrow> cstate \<Rightarrow> unit cres" where
  "new_message t i s =
     bindR (c_kmalloc sizeof_msg s) (\<lambda>tmp s.
       if tmp = NULL then Panic ''__ps_initialize_thread_common_elements: tmp''
       else Ok () (upd_th t (\<lambda>th. th\<lparr>th_MsgQueue := (th_MsgQueue th)(i := tmp)\<rparr>)
              (on_kst (upd_msg tmp (\<lambda>_. zero_msg\<lparr>m_used := TRUE, m_magic := 1234\<rparr>)) s)))"

text \<open>The loop over the signal handlers writes to index 32 each time, which is the field after the array, \<open>signal\<close>.\<close>

definition ps_initialize_thread_common_elements :: "ptr \<Rightarrow> cstate \<Rightarrow> unit cres" where
  "ps_initialize_thread_common_elements t s =
     (let s1 = upd_th t (\<lambda>th. th\<lparr>th_MsgQueue := (\<lambda>i. if 0 \<le> i \<and> i < MSG_QUEUE_MAX then 0 else th_MsgQueue th i),
                 th_MsgQueueHead := 0, th_MsgQueueTail := 0\<rparr>) (upd_more t (\<lambda>m. m\<lparr>thread_flags := 0\<rparr>) s)
      in bindR (foldR (new_message t) [0..MSG_QUEUE_MAX - 1] s1) (\<lambda>_ s.
        Ok () (upd_th t (\<lambda>th. th\<lparr>
            th_msgctl := (th_msgctl th)\<lparr>block_on_empty := FALSE, block_in_progress := FALSE, miss_count := 0, has_event_from_ds := FALSE\<rparr>,
            th_Deferred := (th_Deferred th)\<lparr>yield_in_progress := FALSE, sleep_in_progress := FALSE, exit_in_progress := FALSE, exit_code := 0\<rparr>,
            th_callback_in_progress := FALSE, th_cb_r3_address := 0, th_is_alertable := FALSE, th_signal := 0\<rparr>)
          (upd_more t (\<lambda>m. m\<lparr>signal_in_progress := FALSE, th_umask := 0\<rparr>) s))))"

section \<open>The context\<close>

definition ring0_context :: "u64 \<Rightarrow> u64 \<Rightarrow> x64_context_d \<Rightarrow> x64_context_d" where
  "ring0_context stack rip c = c\<lparr>c_ss := 0x10, c_rsp := stack, c_rflags := 0x0202, c_cs := 0x8, c_rip := rip,
     c_ds := 0x10, c_es := 0x10, c_fs := 0x10, c_gs := 0x10\<rparr>"

definition ring3_context :: "u64 \<Rightarrow> u64 \<Rightarrow> x64_context_d \<Rightarrow> x64_context_d" where
  "ring3_context stack rip c = c\<lparr>c_ss := 0x23, c_rsp := stack, c_rflags := 0x3202, c_cs := 0x1B, c_rip := rip,
     c_ds := 0x23, c_es := 0x23, c_fs := 0x23, c_gs := 0x23\<rparr>"

definition clear_registers :: "x64_context_d \<Rightarrow> x64_context_d" where
  "clear_registers c = c\<lparr>c_rax := 0, c_rbx := 0, c_rcx := 0, c_rdx := 0, c_rsi := 0, c_rdi := 0, c_rbp := 0, c_r8 := 0, c_r9 := 0,
     c_r10 := 0, c_r11 := 0, c_r12 := 0, c_r13 := 0, c_r14 := 0, c_r15 := 0\<rparr>"

definition ps_setup_x64_context :: "ptr \<Rightarrow> u32 \<Rightarrow> u64 \<Rightarrow> u64 \<Rightarrow> cstate \<Rightarrow> unit cres" where
  "ps_setup_x64_context t cpl init_stack init_rip s =
     (if cpl \<noteq> RING0 \<and> cpl \<noteq> RING3 then Panic ''__ps_setup_x64_context: Invalid cpl''
      else let ring = (\<lambda>th. if cpl = RING0
                 then th\<lparr>th_rflags_initial_iopl := 0, th_rflags_current_iopl := 0, th_context := ring0_context init_stack init_rip (th_context th)\<rparr>
                 else th\<lparr>th_rflags_initial_iopl := 3, th_rflags_current_iopl := 3, th_context := ring3_context init_stack init_rip (th_context th)\<rparr>)
      in Ok () (upd_th t (\<lambda>th. (ring (th\<lparr>th_cpl := cpl\<rparr>))\<lparr>th_context := clear_registers (th_context (ring th)), th_saved := FALSE\<rparr>)
           (upd_more t (\<lambda>m. m\<lparr>initial_rip := init_rip\<rparr>) s)))"

section \<open>The creation\<close>

text \<open>The search for a tid: three rounds over the slots of the user threads.\<close>

function try_next_slot :: "(int \<Rightarrow> ptr) \<Rightarrow> int \<Rightarrow> int \<Rightarrow> int option" where
  "try_next_slot slots i Cycle =
     (if Cycle \<ge> 3 then None
      else if slots i \<noteq> NULL
      then if i + 1 \<ge> THREAD_COUNT_MAX then try_next_slot slots USER_THRESHOLD_TID (Cycle + 1) else try_next_slot slots (i + 1) Cycle
      else Some i)"
  by auto

termination
  by (relation "measures [\<lambda>(_, _, c). nat (3 - c), \<lambda>(_, i, _). nat (THREAD_COUNT_MAX - i)]") auto

text \<open>The name with its terminator must fit in the 64 bytes of \<open>__threadname\<close>; a longer one would overwrite the fields
  after it, and is a \<open>Fault\<close> here.\<close>

definition thread_name :: "mem \<Rightarrow> ptr \<Rightarrow> u8 list" where
  "thread_name m name = takeWhile (\<lambda>c. c \<noteq> 0) (bytes m name 64)"

definition copy_name :: "u8 list \<Rightarrow> (nat \<Rightarrow> u8) \<Rightarrow> nat \<Rightarrow> u8" where
  "copy_name cs f i = (if i < length cs then cs ! i else if i = length cs then 0 else f i)"

definition get_milliseconds :: "kstate \<Rightarrow> u64" where
  "get_milliseconds s = (jiffies s * 1000) div JIFFY_FREQ"

text \<open>The assignments from the name to the paging (lines 1629 to 1684), and the thread's own ones in \<open>tmore\<close>.\<close>

definition set_scheduling :: "thread_type_t \<Rightarrow> u64 \<Rightarrow> thread_d \<Rightarrow> thread_d" where
  "set_scheduling type pml4_PA th =
     (let sys = (type = THREAD_TYPE_SYSTEM); prio = (if sys then PRIORITY_SYSTEM_BALANCED else PRIORITY_NORMAL_BALANCED)
      in th\<lparr>th_type := (if sys then THREAD_TYPE_SYSTEM else THREAD_TYPE_NORMAL), th_base_priority := prio, th_priority := prio,
          th_quantum := (if sys then QUANTUM_SYSTEM_BALANCED else QUANTUM_NORMAL_BALANCED), th_pml4_PA := pml4_PA\<rparr>)"

definition set_scheduling_more :: "thread_type_t \<Rightarrow> ptr \<Rightarrow> u8 list \<Rightarrow> process_more \<Rightarrow> thread_more \<Rightarrow> thread_more" where
  "set_scheduling_more type name cs p m =
     m\<lparr>name_address := name, threadname := copy_name cs (threadname m),
       disable_boost := (if type = THREAD_TYPE_SYSTEM then FALSE else TRUE), quantum_limit_min := QUANTUM_MIN, quantum_limit_max := QUANTUM_MAX,
       HeapStart := 0, HeapSize := 0, StackStart := 0, StackSize := 0, tm_pml4_VA := pm_pml4_VA p, tm_pdpt0_VA := pm_pdpt0_VA p,
       tm_pdpt0_PA := pm_pdpt0_PA p, tm_pd0_VA := pm_pd0_VA p, tm_pd0_PA := pm_pd0_PA p, in_pf := FALSE, pf_counter := 0,
       plane := FOREGROUND_THREAD\<rparr>"

text \<open>The counters (lines 1714 to 1769).\<close>

definition set_counters :: "u64 \<Rightarrow> thread_d \<Rightarrow> thread_d" where
  "set_counters ms th = th\<lparr>th_link := NULL, th_is_linked := FALSE, th_step := 0, th_credits := 0, th_standbyCount := 0, th_runningCount := 0,
     th_runningCount_ms := 0, th_readyCount := 0, th_waitingCount := 0, th_blockedCount := 0,
     th_Deferred := (th_Deferred th)\<lparr>yield_in_progress := FALSE, sleep_in_progress := FALSE, desired_sleep_ms := 0\<rparr>,
     th_has_pending_event := FALSE, th_wait_reason := WAIT_REASON_NULL, th_scheduledCount := 0, th_initial_time_ms := ms,
     th_total_time_ms := 0, th_to_supervisor := 0, th_to_user := 0\<rparr>"

definition set_counters_more :: "ptr \<Rightarrow> thread_more \<Rightarrow> thread_more" where
  "set_counters_more r m = m\<lparr>surface_rect := r, input_mode := IM_MESSAGE_INPUT, th_protected := FALSE, is_preemptable := PREEMPTABLE,
     ready_limit := QUANTUM_MAX, waiting_limit := QUANTUM_MAX, blocked_limit := QUANTUM_MAX, ticks_remaining := 1000\<rparr>"

text \<open>The last part: the thread enters the table, and only then the counter is checked.\<close>

definition register_thread :: "ptr \<Rightarrow> cstate \<Rightarrow> ptr cres" where
  "register_thread t s =
     (let s1 = upd_th t (\<lambda>th. th\<lparr>th_next := NULL\<rparr>) s;
          s2 = on_kst (\<lambda>k. k\<lparr>threadList := (threadList k)(th_tid (theap k t) := t)\<rparr>) s1;
          s3 = upd_th t (\<lambda>th. th\<lparr>th_state := INITIALIZED, th_used := TRUE, th_magic := THREAD_MAGIC\<rparr>) s2;
          s4 = on_kst (\<lambda>k. k\<lparr>UPProcessorBlock := (UPProcessorBlock k)\<lparr>up_threads_counter := up_threads_counter (UPProcessorBlock k) + 1\<rparr>\<rparr>) s3
      in if up_threads_counter (UPProcessorBlock (kst s4)) \<ge> 1024 then Panic ''create_thread: [FAIL] UPProcessorBlock.threads_counter''
         else Ok t s4)"

text \<open>From the proxy to the context: lines 1609 to 1833. \<open>t\<close> is the thread, \<open>Process\<close> its process.\<close>

definition complete_thread :: "thread_type_t \<Rightarrow> u64 \<Rightarrow> u64 \<Rightarrow> ptr \<Rightarrow> u32 \<Rightarrow> ptr \<Rightarrow> ptr \<Rightarrow> cstate \<Rightarrow> ptr cres" where
  "complete_thread type init_rip init_stack name cpl Process t s =
     bindR (wproxy_create0 (th_tid (theap (kst s) t)) 0 0 100 100 COLOR_BLUE s) (\<lambda>w s.
     let s = upd_more t (\<lambda>m. m\<lparr>th_wproxy := w\<rparr>) s; cs = thread_name (hmem (io s)) name in
     if length cs = 64 then Fault ''create_thread: __threadname''
     else let s = upd_th t (set_scheduling type (te_pml4_PA (pheap (kst s) Process)))
                    (upd_more t (set_scheduling_more type name cs (pmore s Process)) s) in
     bindR (c_kmalloc sizeof_rect s) (\<lambda>r s.
     if r = NULL then Panic ''create_thread: r''
     else let s = upd_th t (set_counters (get_milliseconds (kst s))) (upd_more t (set_counters_more r)
            (s\<lparr>rects := (rects s)(r := \<lparr>sr_used = TRUE, sr_magic = 1234, sr_dirty = FALSE, sr_left = 0, sr_top = 0, sr_width = 50, sr_height = 50\<rparr>)\<rparr>)) in
     bindR (if cpl = RING0
            then ps_setup_x64_context t RING0 init_stack init_rip (upd_th t (\<lambda>th. th\<lparr>th_rflags_initial_iopl := 0, th_rflags_current_iopl := 0\<rparr>) s)
            else if cpl = RING3
            then ps_setup_x64_context t RING3 init_stack init_rip (upd_th t (\<lambda>th. th\<lparr>th_rflags_initial_iopl := 3, th_rflags_current_iopl := 3\<rparr>) s)
            else Ok () s) (\<lambda>_ s. register_thread t s)))"

text \<open>The argument \<open>cg\<close> is not used.\<close>

definition create_thread :: "thread_type_t \<Rightarrow> u64 \<Rightarrow> u64 \<Rightarrow> int \<Rightarrow> ptr \<Rightarrow> u32 \<Rightarrow> cstate \<Rightarrow> ptr cres" where
  "create_thread type init_rip init_stack pid name cpl s =
     (if pid < 0 then Panic ''create_thread: [ERROR] pid''
      else if name = NULL then Panic ''create_thread: [ERROR] name''
      else if hmem (io s) name = 0 then Panic ''create_thread: [ERROR] *name''
      else if cpl \<noteq> RING0 \<and> cpl \<noteq> RING3 then Panic ''create_thread: [ERROR] Invalid cpl''
      else if current_thread (kst s) < 0 \<or> current_thread (kst s) \<ge> THREAD_COUNT_MAX then Ok NULL s
      else if pid < 0 \<or> pid \<ge> PROCESS_COUNT_MAX then Panic ''create_thread: ProcessID''
      else let Process = teList (kst s) pid in
      if Process = NULL then Panic ''create_thread: Process''
      else if te_used (pheap (kst s) Process) \<noteq> TRUE then Panic ''create_thread: Process->used''
      else if te_magic (pheap (kst s) Process) \<noteq> 1234 then Panic ''create_thread: Process->magic''
      else bindR (threadObject s) (\<lambda>t s.
        if t = NULL then Panic ''create_thread: Thread''
        else bindR (ps_initialize_thread_common_elements t (upd_th t (\<lambda>th. th\<lparr>th_type := type, th_state := THREAD_STATE_CREATED\<rparr>) s)) (\<lambda>_ s.
          case try_next_slot (threadList (kst s)) USER_THRESHOLD_TID 0 of
            None \<Rightarrow> Panic ''create_thread: [FAIL] No more slots''
          | Some i \<Rightarrow> complete_thread type init_rip init_stack name cpl Process t
              (upd_th t (\<lambda>th. th\<lparr>th_tid := i, th_te := Process, th_tgid := pid\<rparr>) s))))"

section \<open>Copies\<close>

text \<open>The registers that the copy gets; \<open>fpu_buffer\<close> is not among them.\<close>

definition copy_context :: "x64_context_d \<Rightarrow> x64_context_d \<Rightarrow> x64_context_d" where
  "copy_context f c = c\<lparr>c_ss := c_ss f, c_rsp := c_rsp f, c_rflags := c_rflags f, c_cs := c_cs f, c_rip := c_rip f, c_ds := c_ds f,
     c_es := c_es f, c_fs := c_fs f, c_gs := c_gs f, c_rax := c_rax f, c_rbx := c_rbx f, c_rcx := c_rcx f, c_rdx := c_rdx f,
     c_rsi := c_rsi f, c_rdi := c_rdi f, c_rbp := c_rbp f, c_r8 := c_r8 f, c_r9 := c_r9 f, c_r10 := c_r10 f, c_r11 := c_r11 f,
     c_r12 := c_r12 f, c_r13 := c_r13 f, c_r14 := c_r14 f, c_r15 := c_r15 f\<rparr>"

definition clamp_copied_quantum :: "u64 \<Rightarrow> u64" where
  "clamp_copied_quantum q = (let q1 = (if q < QUANTUM_MIN then QUANTUM_MIN else q) in if q1 > QUANTUM_MAX then QUANTUM_MAX else q1)"

text \<open>The assignments before the context (lines 1085 to 1233). \<open>f\<close> is the father.\<close>

definition copy_scheduling :: "thread_d \<Rightarrow> thread_d \<Rightarrow> thread_d" where
  "copy_scheduling f c = c\<lparr>th_type := th_type f, th_base_priority := th_base_priority f, th_priority := th_priority f, th_state := BLOCKED\<rparr>"

definition copy_times :: "thread_d \<Rightarrow> thread_d \<Rightarrow> thread_d" where
  "copy_times f c = c\<lparr>th_saved := th_saved f, th_callback_in_progress := FALSE, th_cb_r3_address := 0, th_is_alertable := FALSE, th_step := 0,
     th_quantum := clamp_copied_quantum (th_quantum f), th_standbyCount := 0, th_runningCount := 0, th_runningCount_ms := 0, th_readyCount := 0,
     th_waitingCount := 0, th_blockedCount := 0, th_scheduledCount := 0,
     th_Deferred := (th_Deferred c)\<lparr>yield_in_progress := FALSE, sleep_in_progress := FALSE, desired_sleep_ms := 0\<rparr>,
     th_has_pending_event := FALSE, th_wait_reason := WAIT_REASON_NULL, th_initial_time_ms := th_initial_time_ms f,
     th_total_time_ms := th_total_time_ms f, th_signal := 0, th_context := copy_context (th_context f) (th_context c)\<rparr>"

definition copy_more :: "thread_more \<Rightarrow> thread_more \<Rightarrow> thread_more" where
  "copy_more f c = c\<lparr>is_preemptable := is_preemptable f,
     quantum_limit_min := (if quantum_limit_min f < QUANTUM_MIN then QUANTUM_MIN else quantum_limit_min f),
     quantum_limit_max := (if quantum_limit_max f > QUANTUM_MAX then QUANTUM_MAX else quantum_limit_max f),
     ready_limit := ready_limit f, waiting_limit := waiting_limit f, blocked_limit := blocked_limit f, ticks_remaining := ticks_remaining f,
     signal_in_progress := FALSE, th_umask := 0, initial_rip := initial_rip f\<rparr>"

text \<open>\<open>name\<close> is the address of the string constant ''clone-thread''. The check of the privilege reads the copied \<open>cs\<close>.\<close>

definition copy_thread_struct :: "ptr \<Rightarrow> ptr \<Rightarrow> cstate \<Rightarrow> ptr cres" where
  "copy_thread_struct name father s =
     (if father = NULL then Panic ''copy_thread_struct: father''
      else if th_magic (theap (kst s) father) \<noteq> 1234 then Panic ''copy_thread_struct: father validation''
      else let FatherType = (if th_type (theap (kst s) father) = THREAD_TYPE_NULL then THREAD_TYPE_NORMAL else th_type (theap (kst s) father)) in
      if th_cpl (theap (kst s) father) \<noteq> RING3 then Panic ''copy_thread_struct: father_cpl!=RING3''
      else bindR (create_thread FatherType 0 0 (th_tgid (theap (kst s) father)) name (th_cpl (theap (kst s) father)) s) (\<lambda>clone s.
        if clone = NULL then Panic ''copy_thread_struct: clone''
        else if th_magic (theap (kst s) clone) \<noteq> 1234 then Panic ''copy_thread_struct: clone validation''
        else let s = upd_more clone (\<lambda>m. m\<lparr>plane := plane (tmore s father)\<rparr>)
                       (upd_th clone (copy_scheduling (theap (kst s) father)) (s\<lparr>ClonedThread := clone\<rparr>)) in
        if th_cpl (theap (kst s) clone) \<noteq> RING3 then Panic ''copy_thread_struct: clone_cpl!=RING3''
        else let s = upd_th clone (\<lambda>c. c\<lparr>th_rflags_initial_iopl := th_rflags_initial_iopl (theap (kst s) father),
                       th_rflags_current_iopl := th_rflags_current_iopl (theap (kst s) father)\<rparr>) s in
        if th_rflags_initial_iopl (theap (kst s) clone) \<noteq> 3 then Panic ''copy_thread_struct: clone rflags_initial_iopl''
        else let s = upd_more clone (copy_more (tmore s father)) (upd_th clone (copy_times (theap (kst s) father)) s) in
        if c_cs (th_context (theap (kst s) clone)) AND 3 \<noteq> 3 then Panic ''copy_thread_struct: cpl''
        else Ok clone (upd_th clone (\<lambda>c. c\<lparr>th_waitingCount := th_waitingCount (theap (kst s) father),
               th_blockedCount := th_blockedCount (theap (kst s) father), th_te := th_te (theap (kst s) father),
               th_Deferred := (th_Deferred c)\<lparr>exit_code := exit_code (th_Deferred (theap (kst s) father))\<rparr>\<rparr>)
             (upd_more clone (\<lambda>m. m\<lparr>thread_flags := 0\<rparr>) s))))"

section \<open>System calls and the initialisation\<close>

text \<open>The assignment of the normal type is a comparison in the source, without effect; \<open>create_thread\<close> makes it.\<close>

definition sys_create_thread :: "thread_type_t \<Rightarrow> u64 \<Rightarrow> u64 \<Rightarrow> int \<Rightarrow> ptr \<Rightarrow> cstate \<Rightarrow> ptr cres" where
  "sys_create_thread type rip stack ppid name s =
     (if rip = 0 then Ok NULL s
      else if rip < FLOWERTHREAD_BASE then Ok NULL s
      else if name = NULL then Ok NULL s
      else bindR (create_thread type rip stack ppid name RING3 s) (\<lambda>t s.
        if t = NULL then Ok NULL s else Ok t (upd_th t (\<lambda>th. th\<lparr>th_saved := FALSE\<rparr>) s)))"

definition init_threads :: "cstate \<Rightarrow> int \<times> cstate" where
  "init_threads s =
     (0, on_kst (\<lambda>k. k\<lparr>current_thread := 0, UPProcessorBlock := (UPProcessorBlock k)\<lparr>up_threads_counter := 0\<rparr>,
            threadList := (\<lambda>i. if 0 \<le> i \<and> i < THREAD_COUNT_MAX then NULL else threadList k i), g_use_event_responder := TRUE\<rparr>) s)"

section \<open>Statistics and names\<close>

definition type_number :: "thread_type_t \<Rightarrow> u64" where
  "type_number t = (case t of THREAD_TYPE_NULL \<Rightarrow> 0 | THREAD_TYPE_SYSTEM \<Rightarrow> 1 | THREAD_TYPE_NORMAL \<Rightarrow> 2)"

definition state_number :: "thread_state_t \<Rightarrow> u64" where
  "state_number t = (case t of THREAD_STATE_CREATED \<Rightarrow> 0 | INITIALIZED \<Rightarrow> 1 | STANDBY \<Rightarrow> 2 | ZOMBIE \<Rightarrow> 3 | DEAD \<Rightarrow> 4 | READY \<Rightarrow> 5 |
     RUNNING \<Rightarrow> 6 | WAITING \<Rightarrow> 7 | BLOCKED \<Rightarrow> 8)"

text \<open>The case list; an \<open>int\<close> is converted to \<open>unsigned long\<close>.\<close>

definition thread_stat :: "int \<Rightarrow> thread_d \<Rightarrow> thread_more \<Rightarrow> u64" where
  "thread_stat index t m =
     (if index = 1 then word_of_int (th_tid t) else if index = 2 then word_of_int (th_tgid t)
      else if index = 3 then type_number (th_type t) else if index = 4 then state_number (th_state t)
      else if index = 5 then word_of_int (plane m) else if index = 7 then word_of_int (current_processor m)
      else if index = 8 then word_of_int (next_processor m) else if index = 9 then word_of_int (affinity_processor m)
      else if index = 11 then ucast (th_rflags_initial_iopl t AND 3)
      else if index = 12 then th_base_priority t else if index = 13 then th_priority t
      else if index = 15 then word_of_int (is_preemptable m) else if index = 16 then word_of_int (th_saved t)
      else if index = 17 then HeapStart m else if index = 18 then StackStart m
      else if index = 19 then HeapSize m else if index = 20 then StackSize m
      else if index = 21 then th_step t else if index = 22 then th_initial_time_ms t else if index = 23 then th_total_time_ms t
      else if index = 24 then th_quantum t else if index = 25 then quantum_limit_max m
      else if index = 26 then th_standbyCount t else if index = 27 then th_runningCount t else if index = 28 then th_runningCount_ms t
      else if index = 29 then th_readyCount t else if index = 30 then ready_limit m
      else if index = 31 then th_waitingCount t else if index = 32 then waiting_limit m
      else if index = 33 then th_blockedCount t else if index = 34 then blocked_limit m else if index = 35 then ticks_remaining m
      else if index = 36 then th_profiler_percentage_running t else if index = 37 then th_profiler_percentage_running_res t
      else if index = 38 then th_profiler_percentage_running_mod t else if index = 39 then th_profiler_ticks_running t
      else if index = 40 then th_profiler_last_ticks t else if index = 42 then th_signal t else if index = 43 then th_umask m
      else 0)"

definition GetThreadStats :: "int \<Rightarrow> int \<Rightarrow> cstate \<Rightarrow> u64 cres" where
  "GetThreadStats tid index s =
     (if tid < 0 \<or> tid \<ge> THREAD_COUNT_MAX then Ok 0 s
      else if index < 0 then Ok 0 s
      else let t = threadList (kst s) tid in
      if t = NULL then Ok 0 s
      else if th_magic (theap (kst s) t) \<noteq> 1234 then Ok 0 s
      else if index = 41 then Panic ''GetThreadStats: 41''
      else Ok (thread_stat index (theap (kst s) t) (tmore s t)) s)"

text \<open>A name without terminator would be read past the array, which is a \<open>Fault\<close> here.\<close>

definition getthreadname :: "int \<Rightarrow> ptr \<Rightarrow> cstate \<Rightarrow> int cres" where
  "getthreadname tid buffer s =
     (if tid < 0 \<or> tid \<ge> THREAD_COUNT_MAX then Ok (- 1) s
      else if buffer = NULL then Ok (- 1) s
      else let t = threadList (kst s) tid in
      if t = NULL then Ok (- 1) s
      else if th_used (theap (kst s) t) \<noteq> TRUE \<or> th_magic (theap (kst s) t) \<noteq> 1234 then Ok (- 1) s
      else let cs = takeWhile (\<lambda>c. c \<noteq> 0) (map (threadname (tmore s t)) [0..<64]) in
      if length cs = 64 then Fault ''getthreadname: __threadname''
      else Ok (threadName_len (tmore s t)) (s\<lparr>io := (io s)\<lparr>hmem := put (hmem (io s)) buffer (cs @ [0])\<rparr>\<rparr>))"

end
