(* ===== verification/Thread_Create_Laws.thy ===== *)
theory Thread_Create_Laws
  imports Thread_Create Open_Laws
begin

text \<open>
  The creation of a thread: with room in the kernel heap and a free slot, \<open>create_thread\<close> registers a new thread and
  keeps the invariant of the threads. \<open>free_heap s\<close> is the part of the kernel heap that has not been handed out;
  \<open>placed s\<close> says that no structure in use is there; \<open>extends t s u\<close> that from \<open>s\<close> to \<open>u\<close> only the thread \<open>t\<close> and
  messages in the free part have changed.
\<close>

section \<open>Frames\<close>

definition free_heap :: "iostate \<Rightarrow> ptr set" where
  "free_heap s = kernel_heap - owned s"

definition extends :: "ptr \<Rightarrow> cstate \<Rightarrow> cstate \<Rightarrow> bool" where
  "extends t s u \<longleftrightarrow> free_heap (io u) \<subseteq> free_heap (io s) \<and> hmem (io u) = hmem (io s) \<and>
     (kst u)\<lparr>theap := theap (kst s), mheap := mheap (kst s)\<rparr> = kst s \<and> (\<forall>p. p \<noteq> t \<longrightarrow> theap (kst u) p = theap (kst s) p) \<and>
     (\<forall>m. m \<notin> free_heap (io s) \<longrightarrow> mheap (kst u) m = mheap (kst s) m)"

lemma extends_refl [simp]: "extends t s s"
  by (simp add: extends_def)

lemma extends_fields:
  assumes "extends t s u"
  shows "pheap (kst u) = pheap (kst s)" "threadList (kst u) = threadList (kst s)" "teList (kst u) = teList (kst s)"
    "current_thread (kst u) = current_thread (kst s)" "current_pid (kst u) = current_pid (kst s)" "InitThread (kst u) = InitThread (kst s)"
    "UPProcessorBlock (kst u) = UPProcessorBlock (kst s)" "jiffies (kst u) = jiffies (kst s)" "hmem (io u) = hmem (io s)"
    "system_state (kst u) = system_state (kst s)"
proof -
  have e: "(kst u)\<lparr>theap := theap (kst s), mheap := mheap (kst s)\<rparr> = kst s" using assms by (simp add: extends_def)
  show "pheap (kst u) = pheap (kst s)" "threadList (kst u) = threadList (kst s)" "teList (kst u) = teList (kst s)"
    "current_thread (kst u) = current_thread (kst s)" "current_pid (kst u) = current_pid (kst s)" "InitThread (kst u) = InitThread (kst s)"
    "UPProcessorBlock (kst u) = UPProcessorBlock (kst s)" "jiffies (kst u) = jiffies (kst s)" "system_state (kst u) = system_state (kst s)"
    by (subst e [symmetric], simp)+
  show "hmem (io u) = hmem (io s)" using assms by (simp add: extends_def)
qed

lemma extends_trans:
  assumes su: "extends t s u" and uv: "extends t u v"
  shows "extends t s v"
proof -
  have e1: "(kst u)\<lparr>theap := theap (kst s), mheap := mheap (kst s)\<rparr> = kst s" using su by (simp add: extends_def)
  have e2: "(kst v)\<lparr>theap := theap (kst u), mheap := mheap (kst u)\<rparr> = kst u" using uv by (simp add: extends_def)
  have "(kst v)\<lparr>theap := theap (kst s), mheap := mheap (kst s)\<rparr> =
      ((kst v)\<lparr>theap := theap (kst u), mheap := mheap (kst u)\<rparr>)\<lparr>theap := theap (kst s), mheap := mheap (kst s)\<rparr>" by simp
  also have "\<dots> = kst s" by (simp only: e2 e1)
  finally have k: "(kst v)\<lparr>theap := theap (kst s), mheap := mheap (kst s)\<rparr> = kst s" .
  have f: "free_heap (io v) \<subseteq> free_heap (io s)" "hmem (io v) = hmem (io s)" "\<forall>p. p \<noteq> t \<longrightarrow> theap (kst v) p = theap (kst s) p"
    using su uv by (auto simp: extends_def)
  have "\<forall>m. m \<notin> free_heap (io s) \<longrightarrow> mheap (kst v) m = mheap (kst s) m" using su uv unfolding extends_def by (metis subset_iff)
  with f k show ?thesis by (simp add: extends_def)
qed

lemma extends_valid_current:
  assumes "extends t s u" shows "valid_current (io u) = valid_current (io s)"
proof -
  note f = extends_fields [OF assms]
  show ?thesis by (rule valid_current_cong) (simp_all add: f get_current_process_def)
qed

lemma free_heap_on_kst [simp]: "free_heap (io (on_kst f s)) = free_heap (io s)"
  by (simp add: on_kst_def free_heap_def)

lemma cstate_frame [simp]:
  "kst (upd_th p f s) = upd_thread p f (kst s)" "kst (upd_more p g s) = kst s" "kst (upd_wp p h s) = kst s" "kst (on_kst k s) = k (kst s)"
  "io (upd_more p g s) = io s" "io (upd_wp p h s) = io s" "hmem (io (upd_th p f s)) = hmem (io s)" "hmem (io (on_kst k s)) = hmem (io s)"
  "free_heap (io (upd_th p f s)) = free_heap (io s)" "io_room ns (io (upd_th p f s)) = io_room ns (io s)"
  "io_room ns (io (on_kst k s)) = io_room ns (io s)"
  "wproxies (upd_th p f s) = wproxies s" "wproxies (upd_more p g s) = wproxies s" "wproxies (on_kst k s) = wproxies s"
  "wproxies (upd_wp p h s) = (wproxies s)(p := h (wproxies s p))"
  "wproxy_head (upd_th p f s) = wproxy_head s" "wproxy_head (upd_more p g s) = wproxy_head s" "wproxy_head (on_kst k s) = wproxy_head s"
  "wproxy_head (upd_wp p h s) = wproxy_head s"
  "pmore (upd_th p f s) = pmore s" "pmore (upd_more p g s) = pmore s" "pmore (on_kst k s) = pmore s" "pmore (upd_wp p h s) = pmore s"
  "tmore (upd_th p f s) = tmore s" "tmore (on_kst k s) = tmore s" "tmore (upd_wp p h s) = tmore s" "tmore (upd_more p g s) = (tmore s)(p := g (tmore s p))"
  by (simp_all add: upd_th_def on_kst_def upd_more_def upd_wp_def on_ks_def free_heap_def io_room_def heap_ok_def bound_def block_ok_def owned_def)

lemma extends_upd [simp]:
  "extends t s (upd_th t f u) = extends t s u" "extends t s (upd_more p g u) = extends t s u" "extends t s (upd_wp p h u) = extends t s u"
  "extends t s (u\<lparr>rects := r\<rparr>) = extends t s u"
  by (simp_all add: extends_def upd_thread_def)

lemma extends_msg: "extends t s u \<Longrightarrow> m \<in> free_heap (io s) \<Longrightarrow> extends t s (on_kst (upd_msg m f) u)"
  by (auto simp: extends_def upd_msg_def)

text \<open>Everything but the heaps, the table and the processor block is the same.\<close>

definition rest_same :: "kstate \<Rightarrow> kstate \<Rightarrow> bool" where
  "rest_same k k' \<longleftrightarrow>
     k'\<lparr>theap := theap k, mheap := mheap k, threadList := threadList k, UPProcessorBlock := UPProcessorBlock k\<rparr> = k"

lemma rest_same_trans:
  assumes kl: "rest_same k l" and lm: "rest_same l m"
  shows "rest_same k m"
proof -
  have "m\<lparr>theap := theap k, mheap := mheap k, threadList := threadList k, UPProcessorBlock := UPProcessorBlock k\<rparr> =
      (m\<lparr>theap := theap l, mheap := mheap l, threadList := threadList l, UPProcessorBlock := UPProcessorBlock l\<rparr>)
        \<lparr>theap := theap k, mheap := mheap k, threadList := threadList k, UPProcessorBlock := UPProcessorBlock k\<rparr>" by simp
  also have "\<dots> = k" by (simp only: lm [unfolded rest_same_def] kl [unfolded rest_same_def])
  finally show ?thesis by (simp only: rest_same_def)
qed

lemma extends_rest:
  assumes "extends t s u" shows "rest_same (kst s) (kst u)"
proof -
  let ?k = "kst s"
  have e: "(kst u)\<lparr>theap := theap ?k, mheap := mheap ?k\<rparr> = ?k" using assms by (simp add: extends_def)
  have 1: "(kst u)\<lparr>theap := theap ?k, mheap := mheap ?k, threadList := threadList ?k, UPProcessorBlock := UPProcessorBlock ?k\<rparr> =
    ((kst u)\<lparr>theap := theap ?k, mheap := mheap ?k\<rparr>)\<lparr>threadList := threadList ?k, UPProcessorBlock := UPProcessorBlock ?k\<rparr>" by simp
  have 2: "((kst u)\<lparr>theap := theap ?k, mheap := mheap ?k\<rparr>)\<lparr>threadList := threadList ?k, UPProcessorBlock := UPProcessorBlock ?k\<rparr> = ?k"
    by (subst e) simp
  show ?thesis unfolding rest_same_def by (rule trans [OF 1 2])
qed

lemma rest_same_fields:
  assumes "rest_same k l"
  shows "SchedulerInfo l = SchedulerInfo k" "system_state l = system_state k" "DispatchCountBlock l = DispatchCountBlock k" "current_pid l = current_pid k"
    "current_thread l = current_thread k" "currentq l = currentq k" "task_switch_status l = task_switch_status k" "contextCPL l = contextCPL k"
    "spawn_eoi_is_necessary l = spawn_eoi_is_necessary k" "InitThread l = InitThread k" "pheap l = pheap k" "teList l = teList k"
proof -
  note e = assms [unfolded rest_same_def]
  show "SchedulerInfo l = SchedulerInfo k" "system_state l = system_state k" "DispatchCountBlock l = DispatchCountBlock k" "current_pid l = current_pid k"
    "current_thread l = current_thread k" "currentq l = currentq k" "task_switch_status l = task_switch_status k" "contextCPL l = contextCPL k"
    "spawn_eoi_is_necessary l = spawn_eoi_is_necessary k" "InitThread l = InitThread k" "pheap l = pheap k" "teList l = teList k"
    by (subst e [symmetric], simp)+
qed

section \<open>Allocation\<close>

lemma kmalloc_hmem: "kmalloc process n s = Ok a s' \<Longrightarrow> hmem s' = hmem s"
  by (auto simp: kmalloc_def kmalloc_impl_def heapAllocateMemory_def Let_def split: if_splits)

lemma c_alloc:
  assumes r: "io_room (n # ns) (io s)" and v: "valid_current (io s) = Some c"
  shows "\<exists>a u. c_kmalloc n s = Ok a (s\<lparr>io := u\<rparr>) \<and> io_room ns u \<and> a \<noteq> NULL \<and> a \<in> free_heap (io s) \<and> a \<notin> free_heap u \<and>
    extends t s (s\<lparr>io := u\<rparr>) \<and> kst (s\<lparr>io := u\<rparr>) = kst s \<and> free_heap u \<subseteq> free_heap (io s) \<and> hmem u = hmem (io s)"
proof -
  obtain a u where a: "io_kmalloc n (io s) = Ok a u" "io_room ns u" "a \<noteq> NULL" "a \<notin> owned (io s)" "owned (io s) \<subseteq> owned u" "a \<in> owned u"
    "kheap.more u = kheap.more (io s)" using io_alloc [OF r v] by blast
  have k: "ks u = ks (io s)" using io_more(1) [OF a(7)] .
  have h: "hmem u = hmem (io s)"
    using a(1) by (auto simp: io_kmalloc_def split: res.splits dest!: kmalloc_hmem)
  have ok: "heap_ok u" using a(2) by (simp add: io_room_def)
  have f: "free_heap u \<subseteq> free_heap (io s)" "a \<in> free_heap (io s)" "a \<notin> free_heap u"
    using a(4-6) owned_kernel_heap [OF ok] by (auto simp: free_heap_def)
  have "extends t s (s\<lparr>io := u\<rparr>)"
    using f(1) k h by (simp add: extends_def)
  then show ?thesis using a(1-3) f k h by (auto simp: c_kmalloc_def)
qed

section \<open>The message queue\<close>

lemma new_message_ok:
  assumes r: "io_room (sizeof_msg # ns) (io s)" and v: "valid_current (io s) = Some c"
  shows "\<exists>m u. new_message t i s = Ok () u \<and> extends t s u \<and> io_room ns (io u) \<and> u = s\<lparr>io := io u\<rparr> \<and>
    theap (kst u) t = (theap (kst s) t)\<lparr>th_MsgQueue := (th_MsgQueue (theap (kst s) t))(i := m)\<rparr> \<and>
    msg_ok (kst u) m \<and> m \<in> free_heap (io s) \<and> m \<notin> free_heap (io u)"
proof -
  obtain a w where a: "c_kmalloc sizeof_msg s = Ok a (s\<lparr>io := w\<rparr>)" "io_room ns w" "a \<noteq> NULL" "a \<in> free_heap (io s)" "a \<notin> free_heap w"
    "extends t s (s\<lparr>io := w\<rparr>)" "ks w = ks (io s)" using c_alloc [OF r v, of t] by auto
  let ?m = "zero_msg\<lparr>m_used := TRUE, m_magic := 1234\<rparr>"
  let ?u = "upd_th t (\<lambda>th. th\<lparr>th_MsgQueue := (th_MsgQueue th)(i := a)\<rparr>) (on_kst (upd_msg a (\<lambda>_. ?m)) (s\<lparr>io := w\<rparr>))"
  have "extends t s (on_kst (upd_msg a (\<lambda>_. ?m)) (s\<lparr>io := w\<rparr>))"
    using extends_msg [OF a(6,4)] .
  then have "extends t s ?u" by simp
  moreover have "new_message t i s = Ok () ?u" using a(1,3) by (simp add: new_message_def)
  moreover have "?u = s\<lparr>io := io ?u\<rparr>" by (simp add: upd_th_def on_kst_def)
  moreover have "io_room ns (io ?u)" "a \<notin> free_heap (io ?u)" using a(2,5) by simp_all
  moreover have "msg_ok (kst ?u) a" using a(3) by (simp add: msg_ok_def)
  ultimately show ?thesis using a(4,7) by (intro exI [of _ a] exI [of _ ?u]) simp
qed

text \<open>The queue \<open>q\<close> has a message of its own in each of the slots \<open>xs\<close>, all taken from the free part of \<open>s\<close>.\<close>

definition fresh_queue :: "cstate \<Rightarrow> cstate \<Rightarrow> int set \<Rightarrow> (int \<Rightarrow> ptr) \<Rightarrow> bool" where
  "fresh_queue s u X q \<longleftrightarrow> inj_on q X \<and> (\<forall>i \<in> X. msg_ok (kst u) (q i) \<and> q i \<in> free_heap (io s) \<and> q i \<notin> free_heap (io u))"

lemma msg_ok_extends: "extends t s u \<Longrightarrow> m \<notin> free_heap (io s) \<Longrightarrow> msg_ok (kst u) m = msg_ok (kst s) m"
  by (simp add: extends_def msg_ok_def)

lemma free_heap_mono: "extends t s u \<Longrightarrow> free_heap (io u) \<subseteq> free_heap (io s)"
  by (simp add: extends_def)

lemma fresh_queue_extends:
  assumes "fresh_queue s u X q" and e: "extends t u v"
  shows "fresh_queue s v X q"
  using assms(1) msg_ok_extends [OF e] free_heap_mono [OF e] unfolding fresh_queue_def by blast

lemma new_messages_ok:
  assumes "io_room (replicate (length xs) sizeof_msg @ ns) (io s)" and "valid_current (io s) = Some c" and "distinct xs"
  shows "\<exists>q u. foldR (new_message t) xs s = Ok () u \<and> extends t s u \<and> io_room ns (io u) \<and> u = s\<lparr>io := io u\<rparr> \<and>
    theap (kst u) t = (theap (kst s) t)\<lparr>th_MsgQueue := q\<rparr> \<and> fresh_queue s u (set xs) q \<and>
    (\<forall>i. i \<notin> set xs \<longrightarrow> q i = th_MsgQueue (theap (kst s) t) i)"
  using assms
proof (induction xs arbitrary: s)
  case Nil
  then show ?case by (intro exI [of _ "th_MsgQueue (theap (kst s) t)"] exI [of _ s]) (simp add: fresh_queue_def)
next
  case (Cons x xs)
  from Cons.prems(1) have "io_room (sizeof_msg # replicate (length xs) sizeof_msg @ ns) (io s)" by simp
  from new_message_ok [OF this Cons.prems(2), of t x] obtain m u where u: "new_message t x s = Ok () u" "extends t s u"
    "io_room (replicate (length xs) sizeof_msg @ ns) (io u)" "u = s\<lparr>io := io u\<rparr>"
    "theap (kst u) t = (theap (kst s) t)\<lparr>th_MsgQueue := (th_MsgQueue (theap (kst s) t))(x := m)\<rparr>"
    "msg_ok (kst u) m" "m \<in> free_heap (io s)" "m \<notin> free_heap (io u)" by blast
  have "valid_current (io u) = Some c" using extends_valid_current [OF u(2)] Cons.prems(2) by simp
  from Cons.IH [OF u(3) this] Cons.prems(3) obtain q v where v: "foldR (new_message t) xs u = Ok () v" "extends t u v" "io_room ns (io v)"
    "v = u\<lparr>io := io v\<rparr>" "theap (kst v) t = (theap (kst u) t)\<lparr>th_MsgQueue := q\<rparr>" "fresh_queue u v (set xs) q"
    "\<forall>i. i \<notin> set xs \<longrightarrow> q i = th_MsgQueue (theap (kst u) t) i" by auto
  have x: "q x = m" "x \<notin> set xs" using v(7) u(5) Cons.prems(3) by simp_all
  have m: "msg_ok (kst v) m" "m \<notin> free_heap (io v)" using msg_ok_extends [OF v(2) u(8)] u(6,8) free_heap_mono [OF v(2)] by auto
  have "m \<notin> q ` set xs" using v(6) u(8) by (auto simp: fresh_queue_def)
  then have "fresh_queue s v (set (x # xs)) q"
    using v(6) x m u(7) free_heap_mono [OF u(2)] by (auto simp: fresh_queue_def)
  moreover have "v = s\<lparr>io := io v\<rparr>" using v(4) u(4) by (metis cstate.surjective cstate.update_convs(1))
  ultimately show ?case
    using u(1,5) v(1,3,5,7) extends_trans [OF u(2) v(2)] by (intro exI [of _ q] exI [of _ v]) simp
qed

section \<open>The slot\<close>

declare try_next_slot.simps [simp del]

definition first_free_slot :: "kstate \<Rightarrow> int \<Rightarrow> bool" where
  "first_free_slot k i \<longleftrightarrow> USER_THRESHOLD_TID \<le> i \<and> i < THREAD_COUNT_MAX \<and> threadList k i = NULL \<and>
     (\<forall>j. USER_THRESHOLD_TID \<le> j \<and> j < i \<longrightarrow> threadList k j \<noteq> NULL)"

lemma try_next_slot_first:
  assumes "first_free_slot k i" and "USER_THRESHOLD_TID \<le> j" and "j \<le> i" and "c < 3"
  shows "try_next_slot (threadList k) j c = Some i"
  using assms(2,3)
proof (induction "nat (i - j)" arbitrary: j)
  case 0
  then show ?case using assms(1,4) by (simp add: try_next_slot.simps [of _ j] first_free_slot_def)
next
  case (Suc n)
  then have "j < i" by simp
  then have "threadList k j \<noteq> NULL" "j + 1 < THREAD_COUNT_MAX" using assms(1) Suc.prems(1) by (auto simp: first_free_slot_def)
  moreover have "try_next_slot (threadList k) (j + 1) c = Some i" using Suc \<open>j < i\<close> by simp
  ultimately show ?case using assms(4) by (simp add: try_next_slot.simps [of _ j])
qed

section \<open>The proxy\<close>

abbreviation (input) wnext :: "cstate \<Rightarrow> ptr \<Rightarrow> ptr" where "wnext s \<equiv> \<lambda>p. wp_next (wproxies s p)"

definition wlist :: "cstate \<Rightarrow> ptr list \<Rightarrow> bool" where
  "wlist s ps \<longleftrightarrow> chain (wnext s) (wproxy_head s) ps \<and> distinct ps \<and> set ps \<inter> free_heap (io s) = {}"

lemma list_end_last: "chain (\<lambda>p. wp_next (m p)) p ps \<Longrightarrow> ps \<noteq> [] \<Longrightarrow> list_end m p = Some (last ps)"
proof (induction ps arbitrary: p)
  case (Cons x ps)
  then show ?case by (cases ps) (auto simp: list_end.simps [of m x])
qed simp

lemma wproxy_add_ok:
  assumes w: "wlist s ps" and p: "p \<noteq> NULL" "wp_used (wproxies s p) = TRUE" "wp_magic (wproxies s p) = 1234" "p \<notin> set ps" "p \<notin> free_heap (io s)"
  shows "\<exists>u. wproxy_add_to_list p s = Ok 0 u \<and> wlist u (ps @ [p]) \<and> io u = io s \<and> tmore u = tmore s \<and> rects u = rects s \<and> pmore u = pmore s"
proof (cases "ps = []")
  case True
  then show ?thesis using w p by (auto simp: wproxy_add_to_list_def wlist_def upd_wp_def)
next
  case False
  note c = w [unfolded wlist_def]
  have h: "wproxy_head s = hd ps" "NULL \<notin> set ps" "links (wnext s) ps" using c False by (simp_all add: chain_links)
  have hn: "wproxy_head s \<noteq> NULL" using h(1,2) False by (metis hd_in_set)
  let ?e = "last ps"
  have e: "?e \<noteq> p" using p(4) False by auto
  let ?u = "upd_wp p (\<lambda>w. w\<lparr>wp_next := NULL\<rparr>) (upd_wp ?e (\<lambda>w. w\<lparr>wp_next := p\<rparr>) s)"
  have "links (wnext s) ps \<longleftrightarrow> links ((wnext s)(p := NULL)) ps"
    by (rule links_cong) (use p(4) in \<open>auto dest: in_set_butlastD\<close>)
  then have "links (((wnext s)(p := NULL))(?e := p)) (ps @ [p])" using links_upd_last [of "(wnext s)(p := NULL)" ps p] h(3) c False by simp
  moreover have "wnext ?u = ((wnext s)(p := NULL))(?e := p)" using e by (auto simp: fun_eq_iff)
  ultimately have "chain (wnext ?u) (wproxy_head s) (ps @ [p])"
    using h p(1) False e by (simp add: chain_links)
  then have "wlist ?u (ps @ [p])" using c p(4,5) by (simp add: wlist_def)
  moreover have "wproxy_add_to_list p s = Ok 0 ?u"
    using p(1-3) hn list_end_last [OF conjunct1 [OF c] False] by (simp add: wproxy_add_to_list_def)
  ultimately show ?thesis by (intro exI [of _ ?u]) (simp add: upd_wp_def)
qed

lemma wlist_io:
  assumes "wlist s ps" and "free_heap t \<subseteq> free_heap (io s)"
  shows "wlist (s\<lparr>io := t\<rparr>) ps"
  using assms by (auto simp: wlist_def)

lemma wlist_upd: "wlist s ps \<Longrightarrow> (\<And>w. wp_next (f w) = wp_next w) \<Longrightarrow> wlist (upd_wp p f s) ps"
proof -
  assume w: "wlist s ps" and f: "\<And>w. wp_next (f w) = wp_next w"
  have "wnext (upd_wp p f s) = wnext s" by (simp add: fun_eq_iff f)
  then show ?thesis using w by (simp add: wlist_def)
qed

lemma wproxy_create0_ok:
  assumes r: "io_room (sizeof_wproxy # ns) (io s)" and v: "valid_current (io s) = Some c" and w: "wlist s ps" and i: "tid_in_range tid"
  shows "\<exists>p u. wproxy_create0 tid wl wt ww wh col s = Ok p u \<and> extends t s u \<and> io_room ns (io u) \<and> p \<noteq> NULL \<and> kst u = kst s \<and>
    tmore u = tmore s \<and> pmore u = pmore s \<and> wlist u (ps @ [p]) \<and> hmem (io u) = hmem (io s)"
proof -
  obtain a w1 where a: "c_kmalloc sizeof_wproxy s = Ok a (s\<lparr>io := w1\<rparr>)" "io_room ns w1" "a \<noteq> NULL" "a \<in> free_heap (io s)" "a \<notin> free_heap w1"
    "extends t s (s\<lparr>io := w1\<rparr>)" "ks w1 = ks (io s)" "free_heap w1 \<subseteq> free_heap (io s)" "hmem w1 = hmem (io s)" using c_alloc [OF r v, of t] by auto
  let ?s = "upd_wp a (\<lambda>w. w\<lparr>wp_used := TRUE, wp_magic := 1234, has_frame := TRUE\<rparr>) (s\<lparr>io := w1\<rparr>)"
  have "wlist ?s ps" by (rule wlist_upd) (use wlist_io [OF w a(8)] in simp_all)
  moreover have "a \<notin> set ps" using w a(4) by (auto simp: wlist_def)
  ultimately obtain u where u: "wproxy_add_to_list a ?s = Ok 0 u" "wlist u (ps @ [a])" "io u = w1" "tmore u = tmore s" "pmore u = pmore s"
    using wproxy_add_ok [of ?s ps a] a(3,5) by (auto simp: upd_wp_def)
  let ?f = "\<lambda>x. x\<lparr>wp_l := wl, wp_t := wt, wp_w := ww, wp_h := wh, wp_color := col, ca_l := wl, ca_t := wt, ca_w := ww, ca_h := wh, wp_tid := tid\<rparr>"
  have "wlist (upd_wp a ?f u) (ps @ [a])" by (rule wlist_upd) (use u(2) in simp_all)
  moreover have "wproxy_create0 tid wl wt ww wh col s = Ok a (upd_wp a ?f u)"
    using i a(1,3) u(1) by (simp add: wproxy_create0_def wproxyCreateObject_def tid_in_range_def)
  moreover have "extends t s (upd_wp a ?f u)" using a(6) u(3) by (simp add: extends_def)
  ultimately show ?thesis using a(2,3,7,9) u(3-5) by (intro exI [of _ a] exI [of _ "upd_wp a ?f u"]) simp
qed

section \<open>The new thread\<close>

text \<open>A thread \<open>x\<close> at \<open>t\<close> in a free slot, with new messages, keeps the invariant.\<close>

lemma kinv_new_thread:
  assumes k: "kinv k" and i: "tid_in_range i" "threadList k i = NULL" "th_tid x = i"
    and t: "t \<noteq> NULL" "\<forall>j. tid_in_range j \<longrightarrow> threadList k j \<noteq> t" and x: "th_used x = TRUE" "th_magic x = 1234"
    and q: "qidx (th_MsgQueueHead x)" "qidx (th_MsgQueueTail x)" "inj_on (th_MsgQueue x) (Collect qidx)"
      "\<forall>j. qidx j \<longrightarrow> msg_ok k' (th_MsgQueue x j) \<and> (\<forall>p l. live k p \<longrightarrow> qidx l \<longrightarrow> th_MsgQueue (theap k p) l \<noteq> th_MsgQueue x j)"
    and m: "\<forall>p l. live k p \<longrightarrow> qidx l \<longrightarrow> mheap k' (th_MsgQueue (theap k p) l) = mheap k (th_MsgQueue (theap k p) l)"
    and p: "te_valid k (th_tgid x)" "th_cpl x = 3"
    and k': "theap k' = (theap k)(t := x)" "threadList k' = (threadList k)(i := t)" "pheap k' = pheap k" "teList k' = teList k"
      "InitThread k' = InitThread k" "up_IdleThread (UPProcessorBlock k') = up_IdleThread (UPProcessorBlock k)"
  shows "kinv k'"
proof -
  note d = k [unfolded kinv_defs]
  have nl: "\<not> live k t" using d t(2) unfolding kinv_defs by blast
  have lv: "live k' p \<longleftrightarrow> p = t \<or> live k p" for p using t(1) x nl by (simp add: live_def k'(1))
  have slots: "p \<noteq> t \<Longrightarrow> live k p \<Longrightarrow> th_tid (theap k p) \<noteq> i" for p using d i(2) live_not_NULL by metis
  have "table_ok k'"
    unfolding table_ok_def
  proof (intro conjI allI impI)
    fix j assume "tid_in_range j" "threadList k' j \<noteq> NULL"
    then show "th_tid (theap k' (threadList k' j)) = j" using d t(2) i(3) by (auto simp: k'(1,2))
  next
    fix p assume "live k' p"
    then have p: "p = t \<or> p \<noteq> t \<and> live k p" by (auto simp: lv)
    then show "tid_in_range (th_tid (theap k' p))" using d i(1,3) by (auto simp: k'(1))
    show "threadList k' (th_tid (theap k' p)) = p" using p d i(3) slots by (auto simp: k'(1,2))
  qed
  moreover have "init_ok k'"
    using d nl by (auto simp: init_ok_def lv k'(1,5,6))
  moreover have "mbox_ok k'"
    unfolding mbox_ok_def
  proof (intro conjI allI impI)
    fix p j assume "live k' p"
    then have p: "p = t \<or> p \<noteq> t \<and> live k p" by (auto simp: lv)
    then show "qidx (th_MsgQueueHead (theap k' p))" "qidx (th_MsgQueueTail (theap k' p))" using d q(1,2) by (auto simp: k'(1))
    assume "qidx j" then show "msg_ok k' (th_MsgQueue (theap k' p) j)" using p d q(4) m by (auto simp: k'(1) msg_ok_def)
  next
    fix p r j l assume "live k' p" "live k' r" "qidx j" "qidx l" "th_MsgQueue (theap k' p) j = th_MsgQueue (theap k' r) l"
    then show "p = r" "j = l" using d q(3,4) nl by (auto simp: lv k'(1) inj_on_def split: if_splits) metis+
  qed
  moreover have "te_ok k'" using d p by (auto simp: te_ok_def lv k'(1) te_valid_def k'(3,4))
  ultimately show ?thesis by (simp add: kinv_def)
qed

section \<open>The parts of the creation\<close>

definition same_proxies :: "cstate \<Rightarrow> cstate \<Rightarrow> bool" where
  "same_proxies s u \<longleftrightarrow> wproxies u = wproxies s \<and> wproxy_head u = wproxy_head s"

lemma wlist_same: "wlist s ps \<Longrightarrow> same_proxies s u \<Longrightarrow> extends t s u \<Longrightarrow> wlist u ps"
  using free_heap_mono [of t s u] by (auto simp: wlist_def same_proxies_def)

lemma threadObject_ok:
  assumes r: "io_room (sizeof_thread # ns) (io s)" and v: "valid_current (io s) = Some c"
  shows "\<exists>t u. threadObject s = Ok t u \<and> extends t s u \<and> io_room ns (io u) \<and> t \<noteq> NULL \<and> t \<in> free_heap (io s) \<and> t \<notin> free_heap (io u) \<and>
    theap (kst u) t = zero_thread \<and> same_proxies s u \<and> pmore u = pmore s"
proof -
  obtain t w where a: "c_kmalloc sizeof_thread s = Ok t (s\<lparr>io := w\<rparr>)" "io_room ns w" "t \<noteq> NULL" "t \<in> free_heap (io s)" "t \<notin> free_heap w"
    "free_heap w \<subseteq> free_heap (io s)" "hmem w = hmem (io s)" "ks w = ks (io s)" using c_alloc [OF r v, of NULL] by auto
  let ?u = "upd_more t (\<lambda>_. zero_more) (upd_th t (\<lambda>_. zero_thread) (s\<lparr>io := w\<rparr>))"
  have "extends t s ?u" using a(6-8) by (simp add: extends_def)
  moreover have "threadObject s = Ok t ?u" using a(1,3) by (simp add: threadObject_def)
  ultimately show ?thesis using a(2-5) by (intro exI [of _ t] exI [of _ ?u]) (simp add: same_proxies_def)
qed

lemma common_elements_ok:
  assumes r: "io_room (replicate 64 sizeof_msg @ ns) (io s)" and v: "valid_current (io s) = Some c"
    and z: "theap (kst s) t = zero_thread\<lparr>th_type := ty, th_state := st\<rparr>"
  shows "\<exists>q u. ps_initialize_thread_common_elements t s = Ok () u \<and> extends t s u \<and> io_room ns (io u) \<and>
    fresh_queue s u (Collect qidx) q \<and> theap (kst u) t = zero_thread\<lparr>th_type := ty, th_state := st, th_MsgQueue := q\<rparr> \<and> same_proxies s u \<and>
    pmore u = pmore s"
proof -
  let ?s = "upd_th t (\<lambda>th. th\<lparr>th_MsgQueue := (\<lambda>i. if 0 \<le> i \<and> i < MSG_QUEUE_MAX then 0 else th_MsgQueue th i),
      th_MsgQueueHead := 0, th_MsgQueueTail := 0\<rparr>) (upd_more t (\<lambda>m. m\<lparr>thread_flags := 0\<rparr>) s)"
  have e: "extends t s ?s" by simp
  have x: "length [0..MSG_QUEUE_MAX - 1] = 64" "set [0..MSG_QUEUE_MAX - 1] = Collect qidx" by (auto simp: MSG_QUEUE_MAX_def qidx_def)
  have "io_room (replicate (length [0..MSG_QUEUE_MAX - 1]) sizeof_msg @ ns) (io ?s)" "valid_current (io ?s) = Some c"
    using r v x(1) extends_valid_current [OF e] by simp_all
  from new_messages_ok [OF this, of t] obtain q u where u: "foldR (new_message t) [0..MSG_QUEUE_MAX - 1] ?s = Ok () u" "extends t ?s u" "io_room ns (io u)"
    "u = ?s\<lparr>io := io u\<rparr>" "theap (kst u) t = (theap (kst ?s) t)\<lparr>th_MsgQueue := q\<rparr>" "fresh_queue ?s u (Collect qidx) q" by (auto simp only: x distinct_upto)
  let ?t = "upd_th t (\<lambda>th. th\<lparr>
            th_msgctl := (th_msgctl th)\<lparr>block_on_empty := FALSE, block_in_progress := FALSE, miss_count := 0, has_event_from_ds := FALSE\<rparr>,
            th_Deferred := (th_Deferred th)\<lparr>yield_in_progress := FALSE, sleep_in_progress := FALSE, exit_in_progress := FALSE, exit_code := 0\<rparr>,
            th_callback_in_progress := FALSE, th_cb_r3_address := 0, th_is_alertable := FALSE, th_signal := 0\<rparr>)
          (upd_more t (\<lambda>m. m\<lparr>signal_in_progress := FALSE, th_umask := 0\<rparr>) u)"
  have "extends t u ?t" by simp
  from fresh_queue_extends [OF u(6) this] have "fresh_queue s ?t (Collect qidx) q" by (simp add: fresh_queue_def)
  moreover have "extends t s ?t" using extends_trans [OF e u(2)] by simp
  moreover have "ps_initialize_thread_common_elements t s = Ok () ?t" using u(1) by (simp add: ps_initialize_thread_common_elements_def)
  moreover have "theap (kst ?t) t = zero_thread\<lparr>th_type := ty, th_state := st, th_MsgQueue := q\<rparr>"
    using z by (simp add: u(5) zero_thread_def)
  moreover have "wproxies u = wproxies s" "wproxy_head u = wproxy_head s" "pmore u = pmore s" by (subst u(4), simp)+
  ultimately show ?thesis using u(3) by (intro exI [of _ q] exI [of _ ?t]) (simp add: same_proxies_def)
qed

lemma context_ok:
  "ps_setup_x64_context t 3 stack rip s = Ok () (upd_th t (\<lambda>th. th\<lparr>th_cpl := 3, th_rflags_initial_iopl := 3,
     th_rflags_current_iopl := 3, th_context := clear_registers (ring3_context stack rip (th_context th)), th_saved := FALSE\<rparr>)
     (upd_more t (\<lambda>m. m\<lparr>initial_rip := rip\<rparr>) s))"
  by (simp add: ps_setup_x64_context_def Let_def)

lemma get_milliseconds_upd [simp]: "get_milliseconds (upd_thread p f k) = get_milliseconds k"
  by (simp add: get_milliseconds_def)

text \<open>The thread that \<open>create_thread\<close> makes for ring 3.\<close>

definition new_thread :: "thread_type_t \<Rightarrow> u64 \<Rightarrow> u64 \<Rightarrow> int \<Rightarrow> int \<Rightarrow> ptr \<Rightarrow> u64 \<Rightarrow> u64 \<Rightarrow> (int \<Rightarrow> ptr) \<Rightarrow> thread_d" where
  "new_thread type rip stack i pid Process pml4 ms q =
     (set_counters ms (set_scheduling type pml4 (zero_thread\<lparr>th_MsgQueue := q, th_tid := i, th_te := Process, th_tgid := pid\<rparr>)))
       \<lparr>th_cpl := RING3, th_rflags_initial_iopl := 3, th_rflags_current_iopl := 3, th_context := clear_registers (ring3_context stack rip zero_context),
        th_state := INITIALIZED, th_used := TRUE, th_magic := THREAD_MAGIC\<rparr>"

lemma register_ok:
  assumes "unat (up_threads_counter (UPProcessorBlock (kst s))) < 1023"
  shows "\<exists>u. register_thread t s = Ok t u \<and> free_heap (io u) = free_heap (io s) \<and> mheap (kst u) = mheap (kst s) \<and>
    theap (kst u) = (theap (kst s))(t := (theap (kst s) t)\<lparr>th_next := NULL, th_state := INITIALIZED, th_used := TRUE, th_magic := THREAD_MAGIC\<rparr>) \<and>
    threadList (kst u) = (threadList (kst s))(th_tid (theap (kst s) t) := t) \<and> pheap (kst u) = pheap (kst s) \<and> teList (kst u) = teList (kst s) \<and>
    InitThread (kst u) = InitThread (kst s) \<and> up_IdleThread (UPProcessorBlock (kst u)) = up_IdleThread (UPProcessorBlock (kst s)) \<and>
    up_threads_counter (UPProcessorBlock (kst u)) = up_threads_counter (UPProcessorBlock (kst s)) + 1 \<and> current_thread (kst u) = current_thread (kst s) \<and>
    io_room ns (io u) = io_room ns (io s) \<and> same_proxies s u \<and> hmem (io u) = hmem (io s) \<and> valid_current (io u) = valid_current (io s) \<and> rest_same (kst s) (kst u)"
proof -
  have c: "\<not> up_threads_counter (UPProcessorBlock (kst s)) + 1 \<ge> 1024"
    using assms by (simp add: word_le_nat_alt unat_word_ariths)
  let ?u = "on_kst (\<lambda>k. k\<lparr>UPProcessorBlock := (UPProcessorBlock k)\<lparr>up_threads_counter := up_threads_counter (UPProcessorBlock k) + 1\<rparr>\<rparr>)
      (upd_th t (\<lambda>th. th\<lparr>th_state := INITIALIZED, th_used := TRUE, th_magic := THREAD_MAGIC\<rparr>)
      (on_kst (\<lambda>k. k\<lparr>threadList := (threadList k)(th_tid (theap k t) := t)\<rparr>) (upd_th t (\<lambda>th. th\<lparr>th_next := NULL\<rparr>) s)))"
  have "register_thread t s = Ok t ?u" using c by (simp add: register_thread_def Let_def)
  moreover have "valid_current (io ?u) = valid_current (io s)" by (rule valid_current_cong) (simp_all add: get_current_process_def)
  moreover have "rest_same (kst s) (kst ?u)" by (simp add: rest_same_def upd_thread_def)
  ultimately show ?thesis by (intro exI [of _ ?u]) (simp add: same_proxies_def)
qed

lemma complete_thread_ok:
  assumes r: "io_room (sizeof_wproxy # sizeof_rect # ns) (io s)" and v: "valid_current (io s) = Some c" and w: "wlist s ps"
    and t: "theap (kst s) t = zero_thread\<lparr>th_type := ty, th_MsgQueue := q, th_tid := i, th_te := Process, th_tgid := pid\<rparr>"
    and i: "tid_in_range i" and n: "length (thread_name (hmem (io s)) name) < 64"
    and cnt: "unat (up_threads_counter (UPProcessorBlock (kst s))) < 1023"
  shows "\<exists>u x p. complete_thread type rip stack name RING3 Process t s = Ok t u \<and> extends t s x \<and> free_heap (io u) = free_heap (io x) \<and>
    mheap (kst u) = mheap (kst x) \<and>
    theap (kst u) = (theap (kst x))(t := new_thread type rip stack i pid Process (te_pml4_PA (pheap (kst s) Process)) (get_milliseconds (kst s)) q) \<and>
    threadList (kst u) = (threadList (kst s))(i := t) \<and> pheap (kst u) = pheap (kst s) \<and> teList (kst u) = teList (kst s) \<and>
    InitThread (kst u) = InitThread (kst s) \<and> up_IdleThread (UPProcessorBlock (kst u)) = up_IdleThread (UPProcessorBlock (kst s)) \<and>
    up_threads_counter (UPProcessorBlock (kst u)) = up_threads_counter (UPProcessorBlock (kst s)) + 1 \<and> current_thread (kst u) = current_thread (kst s) \<and>
    io_room ns (io u) \<and> wlist u (ps @ [p]) \<and> hmem (io u) = hmem (io s) \<and> valid_current (io u) = Some c \<and> rest_same (kst s) (kst u)"
proof -
  have ti: "th_tid (theap (kst s) t) = i" using t by simp
  obtain p s1 where s1: "wproxy_create0 i 0 0 100 100 COLOR_BLUE s = Ok p s1" "extends t s s1" "io_room (sizeof_rect # ns) (io s1)" "kst s1 = kst s"
    "wlist s1 (ps @ [p])" "hmem (io s1) = hmem (io s)" using wproxy_create0_ok [OF r v w i, of 0 0 100 100 COLOR_BLUE t] by blast
  let ?cs = "thread_name (hmem (io s)) name"
  let ?s2 = "upd_th t (set_scheduling type (te_pml4_PA (pheap (kst s) Process)))
     (upd_more t (set_scheduling_more type name ?cs (pmore (upd_more t (\<lambda>m. m\<lparr>th_wproxy := p\<rparr>) s1) Process)) (upd_more t (\<lambda>m. m\<lparr>th_wproxy := p\<rparr>) s1))"
  have e2: "extends t s ?s2" using s1(2) by simp
  have "io_room (sizeof_rect # ns) (io ?s2)" "valid_current (io ?s2) = Some c" using s1(3) extends_valid_current [OF e2] v by simp_all
  from c_alloc [OF this, of t] obtain rp w3 where a: "c_kmalloc sizeof_rect ?s2 = Ok rp (?s2\<lparr>io := w3\<rparr>)" "io_room ns w3" "rp \<noteq> NULL"
    "extends t ?s2 (?s2\<lparr>io := w3\<rparr>)" "ks w3 = ks (io ?s2)" "free_heap w3 \<subseteq> free_heap (io ?s2)" by auto
  let ?s4 = "upd_th t (set_counters (get_milliseconds (kst s))) (upd_more t (set_counters_more rp) ((?s2\<lparr>io := w3\<rparr>)\<lparr>rects := (rects (?s2\<lparr>io := w3\<rparr>))(rp :=
     \<lparr>sr_used = TRUE, sr_magic = 1234, sr_dirty = FALSE, sr_left = 0, sr_top = 0, sr_width = 50, sr_height = 50\<rparr>)\<rparr>))"
  let ?s5 = "upd_th t (\<lambda>th. th\<lparr>th_cpl := RING3, th_rflags_initial_iopl := 3,
     th_rflags_current_iopl := 3, th_context := clear_registers (ring3_context stack rip (th_context th)), th_saved := FALSE\<rparr>)
     (upd_more t (\<lambda>m. m\<lparr>initial_rip := rip\<rparr>) (upd_th t (\<lambda>th. th\<lparr>th_rflags_initial_iopl := 3, th_rflags_current_iopl := 3\<rparr>) ?s4))"
  have e3: "extends t s (?s2\<lparr>io := w3\<rparr>)" by (rule extends_trans [OF e2 a(4)])
  have e5: "extends t s ?s5" using e3 by simp
  note f = extends_fields [OF e5]
  have x5: "theap (kst ?s5) t = (new_thread type rip stack i pid Process (te_pml4_PA (pheap (kst s) Process)) (get_milliseconds (kst s)) q)
      \<lparr>th_state := THREAD_STATE_CREATED, th_used := 0, th_magic := 0\<rparr>"
    by (simp add: a(5) s1(4) t new_thread_def set_counters_def set_scheduling_def Let_def zero_thread_def)
  have tid5: "th_tid (theap (kst ?s5) t) = i" by (simp only: x5) (simp add: new_thread_def set_counters_def set_scheduling_def Let_def)
  have run5: "complete_thread type rip stack name RING3 Process t s = register_thread t ?s5"
    unfolding complete_thread_def ti using s1 n a by (simp add: context_ok Let_def)
  have w5: "wlist ?s5 (ps @ [p])" using s1(5) a(6) by (auto simp: wlist_def)
  have r5: "io_room ns (io ?s5)" using a(2) by simp
  obtain v5 where v5: "v5 = ?s5" by simp
  note e = e5 [folded v5] and x = x5 [folded v5] and tid = tid5 [folded v5] and run = run5 [folded v5] and wl = w5 [folded v5] and room = r5 [folded v5]
  note g = extends_fields [OF e]
  have cnt5: "unat (up_threads_counter (UPProcessorBlock (kst v5))) < 1023" using cnt g(7) by simp
  from register_ok [OF this, of t ns] obtain u where u: "register_thread t v5 = Ok t u" "free_heap (io u) = free_heap (io v5)" "mheap (kst u) = mheap (kst v5)"
    "theap (kst u) = (theap (kst v5))(t := (theap (kst v5) t)\<lparr>th_next := NULL, th_state := INITIALIZED, th_used := TRUE, th_magic := THREAD_MAGIC\<rparr>)"
    "threadList (kst u) = (threadList (kst v5))(th_tid (theap (kst v5) t) := t)" "pheap (kst u) = pheap (kst v5)" "teList (kst u) = teList (kst v5)"
    "InitThread (kst u) = InitThread (kst v5)" "up_IdleThread (UPProcessorBlock (kst u)) = up_IdleThread (UPProcessorBlock (kst v5))"
    "up_threads_counter (UPProcessorBlock (kst u)) = up_threads_counter (UPProcessorBlock (kst v5)) + 1" "current_thread (kst u) = current_thread (kst v5)"
    "io_room ns (io u) = io_room ns (io v5)" "same_proxies v5 u" "hmem (io u) = hmem (io v5)" "valid_current (io u) = valid_current (io v5)"
    "rest_same (kst v5) (kst u)" by blast
  have th: "theap (kst u) = (theap (kst v5))(t := new_thread type rip stack i pid Process (te_pml4_PA (pheap (kst s) Process)) (get_milliseconds (kst s)) q)"
    by (simp only: u(4) x) (simp add: new_thread_def set_counters_def set_scheduling_def Let_def zero_thread_def)
  have wu: "wlist u (ps @ [p])" using wl u(2,13) by (simp add: wlist_def same_proxies_def)
  have rs: "rest_same (kst s) (kst u)" by (rule rest_same_trans [OF extends_rest [OF e] u(16)])
  have ru: "complete_thread type rip stack name RING3 Process t s = Ok t u" using run u(1) by simp
  have vc: "valid_current (io u) = Some c" using u(15) extends_valid_current [OF e] v by simp
  show ?thesis
    by (rule exI [of _ u], rule exI [of _ v5], rule exI [of _ p], intro conjI)
      (simp_all add: ru e u(2,3) th u(5-12,14) wu vc rs tid g room del: RING3_def)
qed

section \<open>The creation\<close>

definition placed :: "cstate \<Rightarrow> bool" where
  "placed s \<longleftrightarrow> (\<exists>ps. wlist s ps) \<and> (\<forall>i. tid_in_range i \<longrightarrow> threadList (kst s) i \<noteq> NULL \<longrightarrow> threadList (kst s) i \<notin> free_heap (io s)) \<and>
     (\<forall>p l. live (kst s) p \<longrightarrow> qidx l \<longrightarrow> th_MsgQueue (theap (kst s) p) l \<notin> free_heap (io s))"

definition creation_sizes :: "int list" where
  "creation_sizes = sizeof_thread # replicate 64 sizeof_msg @ [sizeof_wproxy, sizeof_rect]"

lemma thread_name_nonempty: "thread_name m p \<noteq> [] \<Longrightarrow> m p \<noteq> 0"
  by (auto simp: thread_name_def bytes_def upt_conv_Cons split: if_splits)

lemma new_thread_sel [simp]:
  "th_used (new_thread type rip stack i pid P pml4 ms q) = 1" "th_magic (new_thread type rip stack i pid P pml4 ms q) = 1234"
  "th_tid (new_thread type rip stack i pid P pml4 ms q) = i" "th_tgid (new_thread type rip stack i pid P pml4 ms q) = pid"
  "th_cpl (new_thread type rip stack i pid P pml4 ms q) = 3" "th_MsgQueue (new_thread type rip stack i pid P pml4 ms q) = q"
  "th_MsgQueueHead (new_thread type rip stack i pid P pml4 ms q) = 0" "th_MsgQueueTail (new_thread type rip stack i pid P pml4 ms q) = 0"
  "th_state (new_thread type rip stack i pid P pml4 ms q) = INITIALIZED"
  "c_rip (th_context (new_thread type rip stack i pid P pml4 ms q)) = rip" "c_rsp (th_context (new_thread type rip stack i pid P pml4 ms q)) = stack"
  "c_cs (th_context (new_thread type rip stack i pid P pml4 ms q)) = 0x1B" "c_rflags (th_context (new_thread type rip stack i pid P pml4 ms q)) = 0x3202"
  "th_pml4_PA (new_thread type rip stack i pid P pml4 ms q) = pml4" "th_saved (new_thread type rip stack i pid P pml4 ms q) = 0"
  by (simp_all add: new_thread_def set_counters_def set_scheduling_def Let_def zero_thread_def clear_registers_def ring3_context_def)

text \<open>What a creation does; the witness of the new thread is \<open>t\<close>.\<close>

definition created :: "thread_type_t \<Rightarrow> u64 \<Rightarrow> u64 \<Rightarrow> int \<Rightarrow> int \<Rightarrow> ptr \<Rightarrow> cstate \<Rightarrow> cstate \<Rightarrow> bool" where
  "created type rip stack pid i t s u \<longleftrightarrow> \<not> live (kst s) t \<and> live (kst u) t \<and> threadList (kst u) = (threadList (kst s))(i := t) \<and>
     (\<forall>p. p \<noteq> t \<longrightarrow> theap (kst u) p = theap (kst s) p) \<and>
     (\<exists>q. theap (kst u) t = new_thread type rip stack i pid (teList (kst s) pid) (te_pml4_PA (pheap (kst s) (teList (kst s) pid))) (get_milliseconds (kst s)) q) \<and>
     pheap (kst u) = pheap (kst s) \<and> teList (kst u) = teList (kst s) \<and> current_thread (kst u) = current_thread (kst s) \<and>
     up_threads_counter (UPProcessorBlock (kst u)) = up_threads_counter (UPProcessorBlock (kst s)) + 1 \<and> hmem (io u) = hmem (io s) \<and> rest_same (kst s) (kst u)"

lemma create_thread_ok:
  assumes k: "kinv (kst s)" and pl: "placed s" and r: "io_room (creation_sizes @ ns) (io s)" and v: "valid_current (io s) = Some c"
    and pid: "te_valid (kst s) pid" and ct: "tid_in_range (current_thread (kst s))" and i: "first_free_slot (kst s) i"
    and name: "name \<noteq> NULL" "thread_name (hmem (io s)) name \<noteq> []" "length (thread_name (hmem (io s)) name) < 64"
    and cnt: "unat (up_threads_counter (UPProcessorBlock (kst s))) < 1023"
  shows "\<exists>t u. create_thread type rip stack pid name RING3 s = Ok t u \<and> created type rip stack pid i t s u \<and> kinv (kst u) \<and> placed u \<and>
    io_room ns (io u) \<and> valid_current (io u) = Some c \<and> t \<noteq> NULL"
proof -
  let ?k = "kst s" let ?P = "teList ?k pid"
  obtain ps where ps: "wlist s ps" using pl by (auto simp: placed_def)
  have "io_room (sizeof_thread # replicate 64 sizeof_msg @ sizeof_wproxy # sizeof_rect # ns) (io s)" using r by (simp add: creation_sizes_def)
  from threadObject_ok [OF this v] obtain t s1 where s1: "threadObject s = Ok t s1" "extends t s s1"
    "io_room (replicate 64 sizeof_msg @ sizeof_wproxy # sizeof_rect # ns) (io s1)" "t \<noteq> NULL" "t \<in> free_heap (io s)" "t \<notin> free_heap (io s1)"
    "theap (kst s1) t = zero_thread" "same_proxies s s1" by blast
  let ?s2 = "upd_th t (\<lambda>th. th\<lparr>th_type := type, th_state := THREAD_STATE_CREATED\<rparr>) s1"
  have e2: "extends t s ?s2" using s1(2) by simp
  have "io_room (replicate 64 sizeof_msg @ sizeof_wproxy # sizeof_rect # ns) (io ?s2)" "valid_current (io ?s2) = Some c"
    "theap (kst ?s2) t = zero_thread\<lparr>th_type := type, th_state := THREAD_STATE_CREATED\<rparr>"
    using s1(3,7) extends_valid_current [OF e2] v by simp_all
  from common_elements_ok [OF this] obtain q s3 where s3: "ps_initialize_thread_common_elements t ?s2 = Ok () s3" "extends t ?s2 s3"
    "io_room (sizeof_wproxy # sizeof_rect # ns) (io s3)" "fresh_queue ?s2 s3 (Collect qidx) q"
    "theap (kst s3) t = zero_thread\<lparr>th_type := type, th_state := THREAD_STATE_CREATED, th_MsgQueue := q\<rparr>" "same_proxies ?s2 s3" by blast
  have e3: "extends t s s3" by (rule extends_trans [OF e2 s3(2)])
  note f3 = extends_fields [OF e3]
  let ?s4 = "upd_th t (\<lambda>th. th\<lparr>th_tid := i, th_te := ?P, th_tgid := pid\<rparr>) s3"
  have e4: "extends t s ?s4" using e3 by simp
  note f4 = extends_fields [OF e4]
  have sp: "same_proxies s ?s4" using s1(8) s3(6) by (simp add: same_proxies_def)
  have ir: "tid_in_range i" "threadList ?k i = NULL" using i by (auto simp: first_free_slot_def tid_in_range_def)
  have slot: "try_next_slot (threadList (kst s3)) USER_THRESHOLD_TID 0 = Some i" by (simp only: f3(2), rule try_next_slot_first [OF i]) (use i in \<open>auto simp: first_free_slot_def\<close>)
  have t4: "theap (kst ?s4) t = zero_thread\<lparr>th_type := type, th_MsgQueue := q, th_tid := i, th_te := ?P, th_tgid := pid\<rparr>"
    by (simp add: s3(5) zero_thread_def)
  have "io_room (sizeof_wproxy # sizeof_rect # ns) (io ?s4)" "valid_current (io ?s4) = Some c" "length (thread_name (hmem (io ?s4)) name) < 64"
    "unat (up_threads_counter (UPProcessorBlock (kst ?s4))) < 1023"
    using s3(3) extends_valid_current [OF e4] v name(3) cnt f4(7,9) by simp_all
  from complete_thread_ok [OF this(1,2) wlist_same [OF ps sp e4] t4 ir(1) this(3,4), of type rip stack]
  obtain u x p where u: "complete_thread type rip stack name RING3 ?P t ?s4 = Ok t u" "extends t ?s4 x" "free_heap (io u) = free_heap (io x)"
    "mheap (kst u) = mheap (kst x)" "theap (kst u) = (theap (kst x))(t := new_thread type rip stack i pid ?P (te_pml4_PA (pheap ?k ?P)) (get_milliseconds ?k) q)"
    "threadList (kst u) = (threadList ?k)(i := t)" "pheap (kst u) = pheap ?k" "teList (kst u) = teList ?k" "InitThread (kst u) = InitThread ?k"
    "up_IdleThread (UPProcessorBlock (kst u)) = up_IdleThread (UPProcessorBlock ?k)"
    "up_threads_counter (UPProcessorBlock (kst u)) = up_threads_counter (UPProcessorBlock ?k) + 1" "current_thread (kst u) = current_thread ?k"
    "io_room ns (io u)" "wlist u (ps @ [p])" "hmem (io u) = hmem (io s)" "valid_current (io u) = Some c" "rest_same (kst ?s4) (kst u)"
    by (auto simp only: f4 get_milliseconds_def)
  have ex: "extends t s x" by (rule extends_trans [OF e4 u(2)])
  have run: "create_thread type rip stack pid name RING3 s = Ok t u"
    using pid ct name(1) thread_name_nonempty [OF name(2)] s1(1,4) s3(1) slot u(1)
    by (simp add: create_thread_def te_valid_def tid_in_range_def Let_def)
  have fu: "free_heap (io u) \<subseteq> free_heap (io s)" using free_heap_mono [OF ex] u(3) by simp
  have "extends t s3 ?s4" by simp
  from extends_trans [OF this u(2)] have e3x: "extends t s3 x" .
  have tu: "t \<notin> free_heap (io u)" using s1(6) free_heap_mono [OF s3(2)] free_heap_mono [OF e3x] u(3) by auto
  have tn: "\<forall>j. tid_in_range j \<longrightarrow> threadList ?k j \<noteq> t" using pl s1(4,5) by (auto simp: placed_def)
  have nl: "live ?k p \<Longrightarrow> p \<noteq> t" for p using kinv_live_slot [OF k] tn by metis
  have same: "p \<noteq> t \<Longrightarrow> theap (kst u) p = theap ?k p" for p using u(5) ex by (simp add: extends_def)
  from fresh_queue_extends [OF s3(4) e3x] have "fresh_queue ?s2 x (Collect qidx) q" .
  then have q: "inj_on q (Collect qidx)" "qidx j \<Longrightarrow> msg_ok (kst u) (q j) \<and> q j \<in> free_heap (io s) \<and> q j \<notin> free_heap (io u)" for j
    using u(3,4) free_heap_mono [OF e2] by (auto simp: fresh_queue_def msg_ok_def)
  have m: "live ?k p \<Longrightarrow> qidx l \<Longrightarrow> th_MsgQueue (theap ?k p) l \<notin> free_heap (io s)" for p l using pl by (simp add: placed_def)
  have heap: "theap (kst u) = (theap ?k)(t := new_thread type rip stack i pid ?P (te_pml4_PA (pheap ?k ?P)) (get_milliseconds ?k) q)"
    using same u(5) by (auto simp: fun_eq_iff)
  have "kinv (kst u)"
  proof (rule kinv_new_thread [OF k ir(1,2) _ s1(4) tn _ _ _ _ _ _ _ _ _ heap u(6-10)])
    show "\<forall>j. qidx j \<longrightarrow> msg_ok (kst u) (th_MsgQueue (new_thread type rip stack i pid ?P (te_pml4_PA (pheap ?k ?P)) (get_milliseconds ?k) q) j) \<and>
      (\<forall>p l. live ?k p \<longrightarrow> qidx l \<longrightarrow> th_MsgQueue (theap ?k p) l \<noteq> th_MsgQueue (new_thread type rip stack i pid ?P (te_pml4_PA (pheap ?k ?P)) (get_milliseconds ?k) q) j)"
      using q(2) m by fastforce
    show "\<forall>p l. live ?k p \<longrightarrow> qidx l \<longrightarrow> mheap (kst u) (th_MsgQueue (theap ?k p) l) = mheap ?k (th_MsgQueue (theap ?k p) l)"
      using m ex u(4) by (simp add: extends_def)
  qed (use q(1) pid in \<open>simp_all add: qidx_def MSG_QUEUE_MAX_def\<close>)
  moreover have lu: "live (kst u) p \<longleftrightarrow> p = t \<or> live ?k p" for p using s1(4) nl by (auto simp: live_def heap)
  have "placed u"
    unfolding placed_def
  proof (intro conjI allI impI)
    show "\<exists>ps. wlist u ps" using u(14) by blast
    show "threadList (kst u) j \<notin> free_heap (io u)" if "tid_in_range j" "threadList (kst u) j \<noteq> NULL" for j
      using that tu fu pl by (cases "j = i") (auto simp: u(6) placed_def)
    show "th_MsgQueue (theap (kst u) p) l \<notin> free_heap (io u)" if "live (kst u) p" "qidx l" for p l
      using that q(2) m fu by (cases "p = t") (auto simp: lu heap)
  qed
  moreover have "created type rip stack pid i t s u"
    unfolding created_def using same lu nl [of t] u(6-8,11,12,15) heap rest_same_trans [OF extends_rest [OF e4] u(17)] by (auto intro!: exI [of _ q])
  ultimately show ?thesis using run u(13,16) s1(4) by blast
qed

end
