(* ===== verification/Thread_Start.thy ===== *)
theory Thread_Start
  imports Thread_Create_Laws Tick_Laws Thread
begin

text \<open>
  From the creation of a thread to its first instruction: the system call \<open>sys_create_thread\<close>, the selection for
  execution and the next tick compose.
\<close>

section \<open>A running kernel stays one\<close>

lemma new_thread_more [simp]:
  "th_te (new_thread type rip stack i pid P pml4 ms q) = P" "th_callback_in_progress (new_thread type rip stack i pid P pml4 ms q) = 0"
  "th_is_alertable (new_thread type rip stack i pid P pml4 ms q) = 0"
  by (simp_all add: new_thread_def set_counters_def set_scheduling_def Let_def zero_thread_def)

lemma created_heap:
  assumes c: "created type rip stack pid i t s u" and t: "t \<noteq> NULL"
  shows "live (kst u) p \<longleftrightarrow> p = t \<or> live (kst s) p" and "live (kst s) p \<Longrightarrow> p \<noteq> t"
    and "p \<noteq> t \<Longrightarrow> theap (kst u) p = theap (kst s) p"
  using c t by (auto simp: created_def live_def)

lemma select_live:
  "t \<noteq> NULL \<Longrightarrow> SelectForExecution t k = upd_thread t (\<lambda>th. th\<lparr>th_state := STANDBY, th_standbyCount := 0\<rparr>) k"
  by (simp add: SelectForExecution_def schediSelectForExecution_def)

lemma created_standby:
  assumes r: "run_ok (kst s)" and c: "created type rip stack pid i t s u" and k: "kinv (kst u)" and t: "t \<noteq> NULL"
    and pid: "te_valid (kst s) pid" and i: "first_free_slot (kst s) i" and n: "unat (up_threads_counter (UPProcessorBlock (kst s))) < 1023"
  shows "run_ok (SelectForExecution t (kst u))"
proof -
  let ?v = "SelectForExecution t (kst u)"
  note h = created_heap [OF c t]
  have rs: "rest_same (kst s) (kst u)" using c by (simp add: created_def)
  note f = rest_same_fields [OF rs]
  have kv: "kinv ?v" using k by (rule thread_inv(4))
  have "up_threads_counter (UPProcessorBlock (kst u)) \<noteq> 0"
  proof -
    have "unat (up_threads_counter (UPProcessorBlock (kst u))) = unat (up_threads_counter (UPProcessorBlock (kst s))) + 1"
      using c n by (simp add: created_def unat_word_ariths)
    then show ?thesis by auto
  qed
  then have so: "ts_ok ?v" using r kv by (simp add: select_live t run_ok_def ts_ok_def sched_ok_def counters_ok_def f)
  have x: "theap ?v t = (theap (kst u) t)\<lparr>th_state := STANDBY, th_standbyCount := 0\<rparr>" "p \<noteq> t \<Longrightarrow> theap ?v p = theap (kst s) p" for p
    using h(3) by (simp_all add: select_live t)
  obtain q where q: "theap (kst u) t = new_thread type rip stack i pid (teList (kst s) pid) (te_pml4_PA (pheap (kst s) (teList (kst s) pid)))
    (get_milliseconds (kst s)) q" using c by (auto simp: created_def)
  have lv: "live ?v p \<longleftrightarrow> p = t \<or> live (kst s) p" for p
    using h(1) [of p] h(1) [of t] by (auto simp: select_live t live_def)
  have n: "t \<noteq> InitThread (kst s)" using kinv_InitThread(1) [OF run_okD(1) [OF r]] h(2) by blast
  have iv: "InitThread ?v = InitThread (kst s)" by (simp add: select_live t f)
  have "threads_ok ?v"
    unfolding threads_ok_def
  proof (intro conjI allI impI)
    fix p assume "live ?v p"
    then show "quiet (theap ?v p)" using r x by (cases "p = t") (auto simp: lv q quiet_def run_ok_def threads_ok_def)
  next
    fix p assume "state_after ?v p = Some STANDBY"
    then show "spawnable ?v p"
      using r x n pid by (cases "p = t") (auto simp: state_after_def lv q spawnable_def iv run_ok_def threads_ok_def te_valid_def split: if_splits)
  qed
  moreover have "threadList (kst s) (current_thread (kst s)) \<noteq> t" "current_thread (kst s) \<noteq> i"
    using run_okD(3) [OF r] h(2) i live_not_NULL by (auto simp: valid_tid_def first_free_slot_def)
  moreover have "threadList ?v = (threadList (kst s))(i := t)" "current_thread ?v = current_thread (kst s)"
    using c f(5) by (simp_all add: select_live t created_def)
  ultimately show ?thesis using r so x(2)
    by (simp add: run_ok_def valid_tid_def lv) (simp add: select_live t f)
qed

lemma created_found:
  assumes r: "run_ok (kst s)" and c: "created type rip stack pid i t s u" and k: "kinv (kst u)" and t: "t \<noteq> NULL"
    and i: "tid_in_range i" and none: "find_standby (kst s) = None"
  shows "find_standby (SelectForExecution t (kst u)) = Some i"
proof -
  let ?v = "SelectForExecution t (kst u)"
  note h = created_heap [OF c t]
  have kv: "kinv ?v" using k by (rule thread_inv(4))
  have lt: "live ?v t" using h(1) [of t] by (simp add: select_live t live_def)
  then have "state_after ?v t = Some STANDBY" by (simp add: state_after_def) (simp add: select_live t)
  then obtain tid where tid: "find_standby ?v = Some tid"
    using find_standby_None [OF kv] by (cases "find_standby ?v") auto
  note st = find_standby_Some [OF kv tid]
  have "threadList ?v tid = t"
  proof (rule ccontr)
    assume n: "threadList ?v tid \<noteq> t"
    then have "state_after (kst s) (threadList ?v tid) = Some STANDBY"
      using st h by (auto simp: valid_tid_def select_live t state_after_def live_def split: if_splits)
    then show False using none find_standby_None [OF run_okD(1) [OF r]] by simp
  qed
  moreover have "threadList ?v i = t" using c by (simp add: select_live t created_def)
  ultimately have "tid = i" using kinv_slot_inj [OF kv, of tid i] st i t by (auto simp: valid_tid_def)
  with tid show ?thesis by simp
qed

section \<open>Properties\<close>

text \<open>C6. A new thread runs: while the kernel runs and no thread waits to be started, with room in the kernel heap and a
  free slot, \<open>sys_create_thread\<close> gives a new thread in the lowest free slot of the user threads, and after its
  selection the tick that ends the quantum of the current thread leaves the kernel into it: at the instruction that the
  caller asked for, on its stack (8 bytes below), in the address space of its process. The other threads are as
  they were when it is created, and the kernel keeps running.\<close>

theorem new_thread_runs:
  assumes r: "run_ok (kst s)" and pl: "placed s" and room: "io_room (creation_sizes @ ns) (io s)" and v: "valid_current (io s) = Some c"
    and pid: "te_valid (kst s) pid" and i: "first_free_slot (kst s) i" and rip: "FLOWERTHREAD_BASE \<le> rip"
    and name: "name \<noteq> NULL" "thread_name (hmem (io s)) name \<noteq> []" "length (thread_name (hmem (io s)) name) < 64"
    and cnt: "unat (up_threads_counter (UPProcessorBlock (kst s))) < 1023"
    and tick: "task_switch_status (kst s) = 1" "contextCPL (kst s) AND 3 = 3" "spawn_eoi_is_necessary (kst s) = TRUE"
      "\<not> th_runningCount (theap (kst s) (cur (kst s))) + 1 < th_quantum (theap (kst s) (cur (kst s)))" "find_standby (kst s) = None"
  shows "\<exists>t u s'. sys_create_thread type rip stack pid name s = Ok t u \<and> placed u \<and> \<not> live (kst s) t \<and> threadList (kst u) = (threadList (kst s))(i := t) \<and>
    (\<forall>p. p \<noteq> t \<longrightarrow> theap (kst u) p = theap (kst s) p) \<and>
    tsTaskSwitch (SelectForExecution t (kst u)) = Some (Iretq s') \<and> run_ok s' \<and> current_thread s' = i \<and> th_state (theap s' t) = RUNNING \<and>
    iret_rip s' = rip \<and> iret_rsp s' = stack - 8 \<and> current_pid s' = pid \<and> cr3 s' = te_pml4_PA (pheap (kst s) (teList (kst s) pid))"
proof -
  have ct: "tid_in_range (current_thread (kst s))" using run_okD(3) [OF r] by (simp add: valid_tid_def)
  from create_thread_ok [OF run_okD(1) [OF r] pl room v pid ct i name cnt, of type rip stack]
  obtain t u where u: "create_thread type rip stack pid name RING3 s = Ok t u" "created type rip stack pid i t s u" "kinv (kst u)" "placed u" "t \<noteq> NULL" by blast
  obtain q where q: "theap (kst u) t = new_thread type rip stack i pid (teList (kst s) pid) (te_pml4_PA (pheap (kst s) (teList (kst s) pid)))
    (get_milliseconds (kst s)) q" using u(2) by (auto simp: created_def)
  have "rip \<noteq> 0" using rip by auto
  have same: "upd_th t (\<lambda>th. th\<lparr>th_saved := FALSE\<rparr>) u = u"
  proof -
    have "(theap (kst u) t)\<lparr>th_saved := FALSE\<rparr> = theap (kst u) t" by (simp add: q new_thread_def set_counters_def set_scheduling_def Let_def zero_thread_def)
    then have "upd_thread t (\<lambda>th. th\<lparr>th_saved := FALSE\<rparr>) (kst u) = kst u" by (simp add: upd_thread_def)
    then show ?thesis by (simp add: upd_th_def on_kst_def on_ks_def)
  qed
  have run: "sys_create_thread type rip stack pid name s = Ok t u"
    using u(1,5) rip \<open>rip \<noteq> 0\<close> name(1) by (simp add: sys_create_thread_def not_less same del: RING3_def)
  let ?v = "SelectForExecution t (kst u)"
  have ir: "tid_in_range i" using i by (simp add: first_free_slot_def tid_in_range_def)
  note rv = created_standby [OF r u(2,3,5) pid i cnt] and fv = created_found [OF r u(2,3,5) ir tick(5)]
  note f = rest_same_fields [of "kst s" "kst u"]
  have rs: "rest_same (kst s) (kst u)" using u(2) by (simp add: created_def)
  have tl: "threadList ?v = (threadList (kst s))(i := t)" "current_thread ?v = current_thread (kst s)"
    using u(2) f(5) [OF rs] by (simp_all add: select_live u(5) created_def)
  have cur: "current_thread (kst s) \<noteq> i" "cur (kst s) \<noteq> t"
    using run_okD(3) [OF r] created_heap(2) [OF u(2,5)] i live_not_NULL by (auto simp: valid_tid_def first_free_slot_def)
  have "theap ?v (cur ?v) = theap (kst s) (cur (kst s))"
    using created_heap(3) [OF u(2,5) cur(2)] cur by (simp add: tl) (simp add: select_live u(5))
  then have "\<not> th_runningCount (theap ?v (cur ?v)) + 1 < th_quantum (theap ?v (cur ?v))" using tick(4) by simp
  moreover have "task_switch_status ?v = 1" "contextCPL ?v AND 3 = 3" "spawn_eoi_is_necessary ?v = TRUE"
    using tick(1-3) f(7-9) [OF rs] by (simp_all add: select_live u(5))
  ultimately obtain s' where s': "tsTaskSwitch ?v = Some (Iretq s')" "run_ok s'" "current_thread s' = i" "th_state (theap s' (threadList ?v i)) = RUNNING"
    "iret_rip s' = c_rip (th_context (theap ?v (threadList ?v i)))" "iret_rsp s' = c_rsp (th_context (theap ?v (threadList ?v i))) - 8"
    "cr3 s' = th_pml4_PA (theap ?v (threadList ?v i))" "current_pid s' = th_tgid (theap ?v (threadList ?v i))"
    using standby_started [OF rv _ _ _ _ fv] by blast
  have x: "threadList ?v i = t" "theap ?v t = (theap (kst u) t)\<lparr>th_state := STANDBY, th_standbyCount := 0\<rparr>"
    by (simp_all add: tl(1)) (simp add: select_live u(5))
  show ?thesis
    using run u(2,4) s' by (intro exI [of _ t] exI [of _ u] exI [of _ s']) (simp add: x q created_def)
qed

text \<open>A user program can stop the kernel with the creation of a thread for a process that does not exist, and with a
  request for the statistic 41 of any thread.\<close>

theorem wrong_pid_stops_kernel:
  assumes "FLOWERTHREAD_BASE \<le> rip" and "name \<noteq> NULL" and "tid_in_range (current_thread (kst s))"
    and "pid < 0 \<or> PROCESS_COUNT_MAX \<le> pid \<or> teList (kst s) pid = NULL"
  shows "\<exists>e. sys_create_thread type rip stack pid name s = Panic e"
proof -
  have "rip \<noteq> 0" using assms(1) by auto
  then show ?thesis using assms
    by (auto simp: sys_create_thread_def create_thread_def tid_in_range_def Let_def not_less not_le)
qed

theorem statistic_41_stops_kernel:
  assumes "valid_tid (kst s) tid"
  shows "\<exists>e. GetThreadStats tid 41 s = Panic e"
  using assms by (auto simp: GetThreadStats_def valid_tid_def tid_in_range_def live_def Let_def)

text \<open>The running kernel of \<open>demo_run\<close> with the devices of \<open>demo_io\<close> and the name ''t'' at 0x600000.\<close>

definition demo_creation :: cstate where
  "demo_creation = \<lparr>io = on_ks (\<lambda>_. demo_run 1) (demo_io\<lparr>hmem := put demo_memory 0x600000 [0x74, 0]\<rparr>),
     wproxies = (\<lambda>_. \<lparr>wp_used = 0, wp_magic = 0, wp_tid = 0, wp_wid = 0, wp_l = 0, wp_t = 0, wp_w = 0, wp_h = 0, ca_l = 0, ca_t = 0,
       ca_w = 0, ca_h = 0, hit_area = 0, has_frame = 0, expanded_nonclient_area = 0, wp_color = 0, wp_data = NULL, wp_data_size = 0,
       wp_next = NULL\<rparr>), wproxy_head = NULL, wproxy_hover = NULL, wproxy_shell = NULL,
     rects = (\<lambda>_. \<lparr>sr_used = 0, sr_magic = 0, sr_dirty = 0, sr_left = 0, sr_top = 0, sr_width = 0, sr_height = 0\<rparr>),
     tmore = (\<lambda>_. zero_more), pmore = (\<lambda>_. \<lparr>pm_pml4_VA = 0, pm_pdpt0_VA = 0, pm_pdpt0_PA = 0, pm_pd0_VA = 0, pm_pd0_PA = 0\<rparr>),
     ClonedThread = NULL\<rparr>"

lemma demo_creation_sel [simp]:
  "ks (io demo_creation) = demo_run 1" "hmem (io demo_creation) = put demo_memory 0x600000 [0x74, 0]" "wproxy_head demo_creation = NULL"
  "io_room ns (io demo_creation) = io_room ns demo_io"
  by (simp_all add: demo_creation_def on_ks_def io_room_def heap_ok_def bound_def block_ok_def)

lemma low_not_free: "unat a < 0x30100000 \<Longrightarrow> a \<notin> free_heap s"
  by (simp add: free_heap_def kernel_heap_def region_unat)

lemma demo_placed: "placed demo_creation"
proof -
  have "wlist demo_creation []" by (simp add: wlist_def)
  moreover have "threadList (demo_run 1) j \<notin> free_heap (io demo_creation)" for j
    by (rule low_not_free) (simp add: demo_threadList_def)
  moreover have "th_MsgQueue (theap (demo_run 1) p) l \<notin> free_heap (io demo_creation)" if "live (demo_run 1) p" "qidx l" for p l
  proof (rule low_not_free)
    define tid :: int where "tid = (if p = 0x1000 then 0 else if p = 0x2000 then 1 else 2)"
    have "p = 0x1000 \<or> p = 0x2000 \<or> p = 0x3000" using that(1) by simp
    then have q: "th_MsgQueue (theap (demo_run 1) p) l = word_of_int (0x10000 + 0x1000 * tid + l)"
      by (auto simp: demo_threads_def demo_thread_def tid_def)
    have "0 \<le> tid" "tid \<le> 2" by (simp_all add: tid_def)
    then have b: "0 \<le> 0x10000 + 0x1000 * tid + l" "0x10000 + 0x1000 * tid + l < 0x20000" using that(2) by (auto simp: qidx_def MSG_QUEUE_MAX_def)
    then have "uint (word_of_int (0x10000 + 0x1000 * tid + l) :: u64) = 0x10000 + 0x1000 * tid + l" by (simp only: uint_word_of_int mod_pos_pos_trivial) simp
    then show "unat (th_MsgQueue (theap (demo_run 1) p) l) < 0x30100000" using b(2) unfolding q unat_eq_nat_uint by simp
  qed
  ultimately show ?thesis by (auto simp: placed_def)
qed

lemma demo_creation_room: "io_room creation_sizes (io demo_creation)"
  unfolding demo_creation_sel by (simp add: io_room_def demo_heap MMBLOCK_COUNT_MAX_def creation_sizes_def sum_list_replicate)

lemma demo_creation_ok:
  "te_valid (demo_run 1) 0" "valid_current (io demo_creation) = Some 0x100" "first_free_slot (demo_run 1) 100" "find_standby (demo_run 1) = None"
  "thread_name (hmem (io demo_creation)) 0x600000 = [0x74]" "unat (up_threads_counter (UPProcessorBlock (demo_run 1))) < 1023"
proof -
  have k: "kinv (demo_run 1)" by (rule kinv_demo_run)
  then show "te_valid (demo_run 1) 0" using live_demo_run [of 1 "0x2000"] by (auto simp: kinv_defs demo_threads_def dest: spec [of _ "0x2000"])
  show "valid_current (io demo_creation) = Some 0x100"
    by (simp add: valid_current_def get_current_process_def demo_run_def demo_def demo_processes_def PROCESS_COUNT_MAX_def)
  show "first_free_slot (demo_run 1) 100" by (simp add: first_free_slot_def THREAD_COUNT_MAX_def demo_threadList_def)
  show "find_standby (demo_run 1) = None" unfolding find_standby_None [OF k] by (auto simp: state_after_def demo_threads_def)
  show "thread_name (hmem (io demo_creation)) 0x600000 = [0x74]" by (simp add: thread_name_def bytes_def put_def upt_conv_Cons)
  show "unat (up_threads_counter (UPProcessorBlock (demo_run 1))) < 1023" by (simp add: demo_run_def demo_def)
qed

theorem new_thread_runs_witness:
  "\<exists>t u s'. sys_create_thread THREAD_TYPE_NORMAL 0x201000 0x29FFF0 0 0x600000 demo_creation = Ok t u \<and> threadList (kst u) 100 = t \<and>
    tsTaskSwitch (SelectForExecution t (kst u)) = Some (Iretq s') \<and> current_thread s' = 100 \<and> iret_rip s' = 0x201000 \<and> iret_rsp s' = 0x29FFE8"
  using new_thread_runs [of demo_creation "[]" "0x100" 0 100 "0x201000" "0x600000" THREAD_TYPE_NORMAL "0x29FFF0"]
    demo_creation_ok demo_creation_room demo_placed by (auto simp: demo_threadList_def)

end
