(* ===== verification/Thread_Limits.thy ===== *)
theory Thread_Limits
  imports Thread_Start
begin

text \<open>
  How many threads fit: every creation takes 12984 bytes of the kernel heap, which ends after 65 of them, long before
  the table of 1024 threads is full. \<open>gp s\<close> is the end of the part of the heap that is handed out.
\<close>

definition gp :: "cstate \<Rightarrow> nat" where
  "gp s = unat (g_heap_pointer (io s))"

abbreviation (input) avail :: "cstate \<Rightarrow> u64" where "avail s \<equiv> g_available_heap (io s)"

lemma gp_frame [simp]:
  "gp (upd_th p f s) = gp s" "gp (upd_more p g s) = gp s" "gp (upd_wp p h s) = gp s" "gp (on_kst k s) = gp s" "gp (s\<lparr>rects := r\<rparr>) = gp s"
  "g_available_heap (io (upd_th p f s)) = g_available_heap (io s)" "g_available_heap (io (on_kst k s)) = g_available_heap (io s)"
  by (simp_all add: gp_def upd_th_def on_kst_def on_ks_def)

text \<open>An allocation moves the end of the heap, or fails and changes nothing.\<close>

definition heap_moves :: "nat \<Rightarrow> ptr \<Rightarrow> 'a kheap_scheme \<Rightarrow> 'a kheap_scheme \<Rightarrow> bool" where
  "heap_moves n p s t \<longleftrightarrow>
     (if p = NULL then g_heap_pointer t = g_heap_pointer s \<and> g_available_heap t = g_available_heap s \<and> unat (g_available_heap s) \<le> n
      else unat (g_heap_pointer t) = unat (g_heap_pointer s) + 72 + n \<and> n < unat (g_available_heap s) \<and>
        unat KERNEL_HEAP_START \<le> unat (g_heap_pointer s) \<and> unat (g_heap_pointer s) < unat KERNEL_HEAP_END)"

lemma heapAllocateMemory_moves:
  assumes a: "heapAllocateMemory w s = Ok p t" and w: "unat w = n" "0 < n" "n < 2 ^ 31"
  shows "heap_moves n p s t"
proof -
  have w0: "w \<noteq> 0" using w by auto
  let ?g = "g_heap_pointer s"
  consider "g_available_heap s \<le> w" "p = NULL" "t = s" |
    "w < g_available_heap s" "KERNEL_HEAP_START \<le> ?g" "?g < KERNEL_HEAP_END" "p = ?g + sizeof_mmblock" "g_heap_pointer t = ?g + sizeof_mmblock + w"
  proof -
    have "g_available_heap s \<noteq> 0 \<Longrightarrow> \<not> g_available_heap s \<le> w \<Longrightarrow> KERNEL_HEAP_START \<le> ?g \<and> ?g < KERNEL_HEAP_END"
      using a w0 by (auto simp: heapAllocateMemory_def Let_def not_less split: if_splits)
    moreover have "KERNEL_HEAP_START \<le> ?g \<Longrightarrow> ?g \<noteq> 0" by auto
    ultimately show thesis using that a w0 by (auto simp: heapAllocateMemory_def Let_def not_less not_le split: if_splits)
  qed
  then show ?thesis
  proof cases
    case 1 then show ?thesis using w(1) by (simp add: heap_moves_def word_le_nat_alt)
  next
    case 2
    have g: "unat KERNEL_HEAP_START \<le> unat ?g" "unat ?g < unat KERNEL_HEAP_END" using 2 by (simp_all add: word_le_nat_alt word_less_nat_alt)
    have u: "unat (?g + sizeof_mmblock) = unat ?g + 72" using g by (simp add: unat_word_ariths)
    have "unat (?g + sizeof_mmblock + w) = (unat (?g + sizeof_mmblock) + unat w) mod 2 ^ LENGTH(64)" by (rule unat_word_ariths(1))
    then have "unat (?g + sizeof_mmblock + w) = unat ?g + 72 + n" using g w u by simp
    moreover have "p \<noteq> NULL" using u 2(4) by (metis add_is_0 unat_0 zero_neq_numeral)
    ultimately show ?thesis using 2 g w(1) by (simp add: heap_moves_def word_less_nat_alt)
  qed
qed

lemma c_kmalloc_moves:
  assumes a: "c_kmalloc n s = Ok p u" and n: "0 < n" "n < 2 ^ 31"
  shows "heap_moves (nat n) p (io s) (io u)" and "\<exists>t. u = s\<lparr>io := t\<rparr>"
proof -
  obtain t where t: "io_kmalloc n (io s) = Ok p t" "u = s\<lparr>io := t\<rparr>"
    using a by (cases "io_kmalloc n (io s)") (auto simp: c_kmalloc_def)
  then show "\<exists>t. u = s\<lparr>io := t\<rparr>" by blast
  obtain process z where "kmalloc process n ((io s)\<lparr>proc_magic := z\<rparr>) = Ok p t"
    using t(1) by (auto simp: io_kmalloc_def split: res.splits)
  then obtain v where v: "heapAllocateMemory (ucast (word_of_int n :: u32)) ((io s)\<lparr>proc_magic := z\<rparr>) = Ok p v"
    "g_heap_pointer t = g_heap_pointer v" "g_available_heap t = g_available_heap v"
    using n by (auto simp: kmalloc_def kmalloc_impl_def Let_def elim!: bindR_OkE split: if_splits)
  have w: "(ucast (word_of_int n :: u32) :: u64) = word_of_int n" using n by (simp add: unsigned_of_int take_bit_int_eq_self)
  have nn: "unat (word_of_int n :: u64) = nat n" "0 < nat n" "nat n < 2 ^ 31" using n by (simp_all add: unat_eq_nat_uint uint_word_of_int)
  from heapAllocateMemory_moves [OF v(1) [unfolded w] this] show "heap_moves (nat n) p (io s) (io u)"
    using v(2,3) t(2) by (cases "p = NULL") (simp_all add: heap_moves_def)
qed

section \<open>One creation\<close>

lemma moves_gp:
  "heap_moves n p (io s) (io u) \<Longrightarrow> p \<noteq> NULL \<Longrightarrow> gp u = gp s + 72 + n \<and> unat KERNEL_HEAP_START \<le> gp s \<and> gp s < unat KERNEL_HEAP_END \<and> n < unat (avail s)"
  "heap_moves n NULL (io s) (io u) \<Longrightarrow> gp u = gp s \<and> avail u = avail s \<and> unat (avail s) \<le> n"
  by (simp_all add: heap_moves_def gp_def)

lemma threadObject_gp:
  assumes "threadObject s = Ok t u" and "t \<noteq> NULL"
  shows "gp u = gp s + 2864 \<and> unat KERNEL_HEAP_START \<le> gp s"
  using assms by (auto simp: threadObject_def elim!: bindR_OkE split: if_splits dest!: c_kmalloc_moves(1) moves_gp(1))

lemma new_message_gp: "new_message t i s = Ok () u \<Longrightarrow> gp u = gp s + 152"
  by (auto simp: new_message_def elim!: bindR_OkE split: if_splits dest!: c_kmalloc_moves(1) moves_gp(1))

lemma messages_gp: "foldR (new_message t) xs s = Ok () u \<Longrightarrow> gp u = gp s + 152 * length xs"
  by (induction xs arbitrary: s) (auto elim!: bindR_OkE dest: new_message_gp)

lemma common_elements_gp:
  assumes "ps_initialize_thread_common_elements t s = Ok () u"
  shows "gp u = gp s + 9728"
proof -
  have "length [0..MSG_QUEUE_MAX - 1] = 64" by (simp add: MSG_QUEUE_MAX_def)
  then show ?thesis using assms by (auto simp: ps_initialize_thread_common_elements_def Let_def elim!: bindR_OkE dest!: messages_gp)
qed

lemma wproxy_add_io: "wproxy_add_to_list p s = Ok r u \<Longrightarrow> io u = io s \<and> (valid_wp p s \<longrightarrow> r = 0)"
  by (auto simp: wproxy_add_to_list_def valid_wp_def split: if_splits option.splits)

lemma wproxy_create0_gp:
  assumes c: "wproxy_create0 tid a b w h col s = Ok p u" and "tid_in_range tid"
  shows "gp u = gp s + 192 \<or> gp u = gp s \<and> avail u = avail s \<and> unat (avail s) \<le> 120"
proof -
  obtain q v where q: "wproxyCreateObject s = Ok q v" "io u = io v"
    using assms by (auto simp: wproxy_create0_def tid_in_range_def elim!: bindR_OkE split: if_splits)
  from q(1) obtain m x where m: "c_kmalloc 120 s = Ok m x" "m = NULL \<Longrightarrow> x = v" "m \<noteq> NULL \<Longrightarrow> io v = io x"
    by (auto simp: wproxyCreateObject_def elim!: bindR_OkE split: if_splits dest!: wproxy_add_io)
  from c_kmalloc_moves(1) [OF m(1)] have "heap_moves 120 m (io s) (io x)" by simp
  then show ?thesis
    using m(2,3) q(2) moves_gp(1) [of 120 m s x] moves_gp(2) [of 120 s x] by (cases "m = NULL") (auto simp: gp_def)
qed

lemma setup_gp: "ps_setup_x64_context t cpl st rip s = Ok () u \<Longrightarrow> gp u = gp s"
  by (auto simp: ps_setup_x64_context_def Let_def split: if_splits)

lemma register_gp: "register_thread t s = Ok p u \<Longrightarrow> gp u = gp s"
  by (auto simp: register_thread_def Let_def split: if_splits)

lemma rect_gp:
  assumes "c_kmalloc sizeof_rect s = Ok r u" and "r \<noteq> NULL"
  shows "gp u = gp s + 200 \<and> gp s < unat KERNEL_HEAP_END \<and> 128 < unat (avail s)"
  using moves_gp(1) [of 128 r s u] c_kmalloc_moves(1) [OF assms(1)] assms(2) by simp

lemma complete_gp:
  assumes c: "complete_thread type rip stack name cpl Process t s = Ok p u" and i: "tid_in_range (th_tid (theap (kst s) t))"
  shows "gp u = gp s + 392 \<and> gp u < unat KERNEL_HEAP_END + 200"
  using c unfolding complete_thread_def Let_def
  by (auto elim!: bindR_OkE split: if_splits dest!: setup_gp register_gp rect_gp wproxy_create0_gp [OF _ i] simp del: sizeof_rect_def)

lemma try_next_slot_range:
  "try_next_slot slots i c = Some j \<Longrightarrow> 0 \<le> i \<Longrightarrow> i < THREAD_COUNT_MAX \<Longrightarrow> tid_in_range j"
proof (induction slots i c rule: try_next_slot.induct)
  case (1 slots i c)
  then show ?case
    by (cases "i + 1 \<ge> THREAD_COUNT_MAX") (auto simp: try_next_slot.simps [of slots i c] tid_in_range_def THREAD_COUNT_MAX_def split: if_splits)
qed

lemma create_thread_gp:
  assumes c: "create_thread type rip stack pid name cpl s = Ok t u" and t: "t \<noteq> NULL"
  shows "gp u = gp s + 12984 \<and> unat KERNEL_HEAP_START \<le> gp s \<and> gp u < unat KERNEL_HEAP_END + 200"
proof -
  let ?P = "teList (kst s) pid"
  obtain q s1 s2 i where q: "threadObject s = Ok q s1" "q \<noteq> NULL"
    and s2: "ps_initialize_thread_common_elements q (upd_th q (\<lambda>th. th\<lparr>th_type := type, th_state := THREAD_STATE_CREATED\<rparr>) s1) = Ok () s2"
    and i: "try_next_slot (threadList (kst s2)) USER_THRESHOLD_TID 0 = Some i"
    and cm: "complete_thread type rip stack name cpl ?P q (upd_th q (\<lambda>th. th\<lparr>th_tid := i, th_te := ?P, th_tgid := pid\<rparr>) s2) = Ok t u"
    using c t unfolding create_thread_def Let_def by (auto elim!: bindR_OkE split: if_splits option.splits simp del: USER_THRESHOLD_TID_def)
  have "tid_in_range i" using try_next_slot_range [OF i] by (simp add: THREAD_COUNT_MAX_def)
  then show ?thesis using complete_gp [OF cm] threadObject_gp [OF q] common_elements_gp [OF s2] by simp
qed

section \<open>Any number of creations\<close>

text \<open>\<open>creates n s u\<close>: from \<open>s\<close> to \<open>u\<close> the kernel has created \<open>n\<close> threads and done other things, none of which takes back
  a part of the heap (no function of the heap lowers its end).\<close>

inductive creates :: "nat \<Rightarrow> cstate \<Rightarrow> cstate \<Rightarrow> bool" where
  start: "creates 0 s s"
| create: "creates n s u \<Longrightarrow> create_thread type rip stack pid name cpl u = Ok t v \<Longrightarrow> t \<noteq> NULL \<Longrightarrow> creates (Suc n) s v"
| other: "creates n s u \<Longrightarrow> g_heap_pointer (io u) \<le> g_heap_pointer (io v) \<Longrightarrow> creates n s v"

inductive_cases creates_SucE: "creates (Suc n) s u"

lemma creates_gp: "creates n s u \<Longrightarrow> n = 0 \<or> (\<exists>w. gp w < unat KERNEL_HEAP_END + 200 \<and> 12984 * n + unat KERNEL_HEAP_START \<le> gp w \<and> gp w \<le> gp u)"
proof (induction rule: creates.induct)
  case (create n s u type rip stack pid name cpl t v)
  then show ?case using create_thread_gp [OF create.hyps(2,3)] by auto
next
  case (other n s u v)
  then show ?case by (force simp: gp_def word_le_nat_alt)
qed simp

text \<open>C14. The kernel heap ends before the thread table is full: whatever else happens between them, no more than 65
  creations of threads ever succeed, because each takes 12984 bytes of a heap of 851968 that are never reused, although the table has 1024 slots
  and the counter of threads is checked against 1024.\<close>

theorem at_most_65_threads:
  assumes "creates n s u"
  shows "n \<le> 65"
  using creates_gp [OF assms] by auto

theorem at_most_65_threads_witness:
  "\<exists>u. creates 1 demo_creation u \<and> (1 :: nat) \<le> 65"
proof -
  have "tid_in_range (current_thread (demo_run 1))" by simp
  then obtain t u where "create_thread THREAD_TYPE_NORMAL 0x201000 0x29FFF0 0 0x600000 RING3 demo_creation = Ok t u" "t \<noteq> NULL"
    using create_thread_ok [of demo_creation "[]" "0x100" 0 100 "0x600000" THREAD_TYPE_NORMAL "0x201000" "0x29FFF0"]
      demo_creation_ok demo_creation_room demo_placed kinv_demo_run by auto
  then have "creates (Suc 0) demo_creation u" by (rule creates.create [OF creates.start])
  then show ?thesis using at_most_65_threads [of 1 demo_creation u] by auto
qed

end
