(* ===== verification/Thread_Copy.thy ===== *)
theory Thread_Copy
  imports Thread_Start
begin

text \<open>
  Copies of threads: \<open>copy_thread_struct\<close> gives a blocked thread with the registers of its father, but not with the
  state of its floating point unit.
\<close>

text \<open>C13. A copy of a thread: with room in the kernel heap and a free slot, \<open>copy_thread_struct\<close> makes a new thread of the
  same process in the lowest free slot, BLOCKED, that has all the registers of its father but none of the
  floating point state, which is zero whatever the father's is; the father and all other threads are not changed.\<close>

theorem copied_thread:
  assumes k: "kinv (kst s)" and pl: "placed s" and room: "io_room (creation_sizes @ ns) (io s)" and v: "valid_current (io s) = Some c"
    and ct: "tid_in_range (current_thread (kst s))" and i: "first_free_slot (kst s) i"
    and name: "name \<noteq> NULL" "thread_name (hmem (io s)) name \<noteq> []" "length (thread_name (hmem (io s)) name) < 64"
    and cnt: "unat (up_threads_counter (UPProcessorBlock (kst s))) < 1023"
    and f: "live (kst s) father" "th_rflags_initial_iopl (theap (kst s) father) = 3" "c_cs (th_context (theap (kst s) father)) AND 3 = 3"
  shows "\<exists>t u. copy_thread_struct name father s = Ok t u \<and> kinv (kst u) \<and> \<not> live (kst s) t \<and> live (kst u) t \<and> ClonedThread u = t \<and>
    threadList (kst u) = (threadList (kst s))(i := t) \<and> (\<forall>p. p \<noteq> t \<longrightarrow> theap (kst u) p = theap (kst s) p) \<and>
    th_state (theap (kst u) t) = BLOCKED \<and> th_tgid (theap (kst u) t) = th_tgid (theap (kst s) father) \<and>
    th_te (theap (kst u) t) = th_te (theap (kst s) father) \<and> th_priority (theap (kst u) t) = th_priority (theap (kst s) father) \<and>
    th_context (theap (kst u) t) = (th_context (theap (kst s) father))\<lparr>c_fpu_buffer := (\<lambda>_. 0)\<rparr>"
proof -
  let ?f = "theap (kst s) father"
  have fv: "father \<noteq> NULL" "th_magic ?f = 1234" using f(1) by (simp_all add: live_def)
  have pid: "te_valid (kst s) (th_tgid ?f)" "th_cpl ?f = 3" using k f(1) by (auto simp: kinv_defs)
  let ?ty = "if th_type ?f = THREAD_TYPE_NULL then THREAD_TYPE_NORMAL else th_type ?f"
  from create_thread_ok [OF k pl room v pid(1) ct i name cnt, of ?ty 0 0]
  obtain t u where u: "create_thread ?ty 0 0 (th_tgid ?f) name RING3 s = Ok t u" "created ?ty 0 0 (th_tgid ?f) i t s u" "kinv (kst u)" "t \<noteq> NULL" by blast
  obtain P pml4 ms q where q: "theap (kst u) t = new_thread ?ty 0 0 i (th_tgid ?f) P pml4 ms q" using u(2) by (auto simp: created_def)
  have ft: "father \<noteq> t" "theap (kst u) father = ?f" using created_heap(2,3) [OF u(2,4)] f(1) by blast+
  have z: "c_fpu_buffer (th_context (theap (kst u) t)) = (\<lambda>_. 0)"
    by (simp add: q new_thread_def clear_registers_def ring3_context_def zero_context_def)
  let ?s1 = "upd_more t (\<lambda>m. m\<lparr>plane := plane (tmore (u\<lparr>ClonedThread := t\<rparr>) father)\<rparr>) (upd_th t (copy_scheduling ?f) (u\<lparr>ClonedThread := t\<rparr>))"
  let ?s2 = "upd_th t (\<lambda>c. c\<lparr>th_rflags_initial_iopl := th_rflags_initial_iopl ?f, th_rflags_current_iopl := th_rflags_current_iopl ?f\<rparr>) ?s1"
  let ?s3 = "upd_more t (copy_more (tmore ?s2 father)) (upd_th t (copy_times ?f) ?s2)"
  let ?s4 = "upd_th t (\<lambda>c. c\<lparr>th_waitingCount := th_waitingCount ?f, th_blockedCount := th_blockedCount ?f, th_te := th_te ?f,
      th_Deferred := (th_Deferred c)\<lparr>exit_code := exit_code (th_Deferred ?f)\<rparr>\<rparr>) (upd_more t (\<lambda>m. m\<lparr>thread_flags := 0\<rparr>) ?s3)"
  have x: "th_magic (theap (kst u) t) = 1234" "th_cpl (theap (kst u) t) = 3" by (simp_all add: q)
  have run: "copy_thread_struct name father s = Ok t ?s4"
    using u(1,4) fv pid(2) f(2,3) ft x
    by (simp add: copy_thread_struct_def Let_def copy_scheduling_def copy_times_def copy_context_def)
  have ku: "kst (u\<lparr>ClonedThread := t\<rparr>) = kst u" by simp
  have "kinv (kst ?s4)"
    unfolding cstate_frame
    by (intro kinv_upd_thread) (simp_all add: u(3) th_keeps_def copy_scheduling_def copy_times_def)
  moreover have th: "theap (kst ?s4) p = theap (kst u) p" if "p \<noteq> t" for p using that by simp
  moreover have "th_context (theap (kst ?s4) t) = (th_context ?f)\<lparr>c_fpu_buffer := (\<lambda>_. 0)\<rparr>"
    using z by (simp add: copy_times_def copy_scheduling_def copy_context_def)
  moreover have "ClonedThread ?s4 = t" by (simp add: upd_th_def upd_more_def on_kst_def)
  moreover have "threadList (kst ?s4) = (threadList (kst s))(i := t)" using u(2) by (simp add: created_def)
  moreover have "live (kst ?s4) t" using x u(4) created_heap(1) [OF u(2,4), of t] by (simp add: live_def copy_scheduling_def copy_times_def)
  moreover have "th_state (theap (kst ?s4) t) = BLOCKED" "th_tgid (theap (kst ?s4) t) = th_tgid ?f" "th_te (theap (kst ?s4) t) = th_te ?f"
    "th_priority (theap (kst ?s4) t) = th_priority ?f" by (simp_all add: copy_scheduling_def copy_times_def q)
  moreover have "\<not> live (kst s) t" using u(2) by (simp add: created_def)
  ultimately show ?thesis using run created_heap(3) [OF u(2,4)] by (intro exI [of _ t] exI [of _ ?s4]) simp
qed

theorem copied_thread_witness:
  "\<exists>t u. copy_thread_struct 0x600000 0x3000 (upd_th 0x3000 (\<lambda>th. th\<lparr>th_rflags_initial_iopl := 3,
      th_context := (th_context th)\<lparr>c_cs := 0x1B, c_rax := 7, c_fpu_buffer := (\<lambda>_. 1)\<rparr>\<rparr>) demo_creation) = Ok t u \<and>
    c_rax (th_context (theap (kst u) t)) = 7 \<and> c_fpu_buffer (th_context (theap (kst u) t)) 0 = 0"
proof -
  let ?s = "upd_th 0x3000 (\<lambda>th. th\<lparr>th_rflags_initial_iopl := 3,
      th_context := (th_context th)\<lparr>c_cs := 0x1B, c_rax := 7, c_fpu_buffer := (\<lambda>_. 1)\<rparr>\<rparr>) demo_creation"
  have e: "extends 0x3000 demo_creation ?s" by simp
  have "kinv (kst ?s)" by (simp add: kinv_demo_run kinv_upd_thread th_keeps_def)
  moreover have "placed ?s"
    using demo_placed by (auto simp: placed_def wlist_def live_def) (auto split: if_splits)
  moreover have "io_room (creation_sizes @ []) (io ?s)" using demo_creation_room by simp
  moreover have "valid_current (io ?s) = Some 0x100" using extends_valid_current [OF e] demo_creation_ok(2) by simp
  moreover have "first_free_slot (kst ?s) 100" using demo_creation_ok(3) by (simp add: first_free_slot_def)
  moreover have "thread_name (hmem (io ?s)) 0x600000 = [0x74]" using demo_creation_ok(5) by simp
  moreover have "unat (up_threads_counter (UPProcessorBlock (kst ?s))) < 1023" using demo_creation_ok(6) by simp
  moreover have "live (kst ?s) 0x3000" by (simp add: live_def demo_threads_def)
  ultimately obtain t u where "copy_thread_struct 0x600000 0x3000 ?s = Ok t u"
    "th_context (theap (kst u) t) = (th_context (theap (kst ?s) 0x3000))\<lparr>c_fpu_buffer := (\<lambda>_. 0)\<rparr>"
    using copied_thread [of ?s "[]" "0x100" 100 "0x600000" "0x3000"] by auto
  then show ?thesis by auto
qed

end
