(* ===== verification/Spec2Isabelle.thy ===== *)
theory Spec2Isabelle
  imports Kernel_Run Process Kstring_Laws Kformat_Laws Memory_Boot_Laws Fat_Roundtrip
    Terminal_Screen Open_Laws Wproxy_Laws Thread_Limits Thread_Copy
begin

text \<open>
  \<^bold>\<open>A verification library for the kernel core of the Gramado operating system.\<close>

  The program is a hybrid 64 bit kernel in C with its user-space servers. This library models the part
  that every other part runs on: threads, their scheduling, the task switch, and system messages. The
  sources are under \<open>src/coreos/kernel/halls/apphalls/exec/ke/intake/\<close> unless a path is given.

  \<^bold>\<open>The parts and how they interact.\<close>
  The timer interrupt (\<open>irq0_TIMER\<close>, hal/x86_64/pit.c) advances the clock and calls the task switch
  (\<open>tsTaskSwitch\<close>, disp/ts.c). Inside the quantum of a thread it serves the requests the thread
  left; at the end of the quantum it saves the registers (disp/x86_64/x64cont.c), looks for a thread in
  standby and starts it (disp/spawn.c), or takes the next thread of the current round, asks the
  scheduler (sched/sched.c) for a new round when the round is at its end, and dispatches the thread
  (disp/dispatch.c). Rounds are linked lists of threads through \<open>thread->next\<close>, headed by
  \<open>currentq\<close> (sched/schedq.c). The system calls and the drivers change the states of threads
  (sched/schedi.c, thread.c, tlib.c) and post messages to their queues (ipc.c), which wakes them up.
  The memory manager is separate: \<open>mmInitialize\<close> prepares the kernel heap, from which \<open>kmalloc\<close> takes
  blocks, then the pool of pages, whose structures are such blocks, and the page tables of the kernel,
  through which the pages are addressed. The FAT16 file system is also separate: it keeps the FAT and the
  root directory in two caches in memory, loads a file along the chain of its clusters, and saves one
  by taking free clusters, linking them in the cached FAT, writing the sectors and the directory.
  On top of the three are the open files: a process has a table of descriptors, whose entries are file
  structures with a buffer (or a pipe, a terminal, or a socket) behind them. \<open>sys_read\<close> and \<open>sys_write\<close> look at
  the kind of the object and at its flags; the allocator of the heap gives the structures and buffers of new
  pipes and sockets, the scheduler is told of threads that wait, and closing a regular file saves it.

  \<^bold>\<open>Theories.\<close>
  \<^item> \<open>Kernel_Prelude\<close>: machine integers, the outcomes of a call (\<open>Ok\<close>, \<open>Iretq\<close> for leaving
    the kernel, \<open>Panic\<close>, \<open>Fault\<close> for undefined behaviour), loops, linked chains.
  \<^item> \<open>Thread_Model\<close>: the enumerations and structures of thread.h, te.h, ipc.h, sched.h,
    dispatch.h and x64cont.h as datatypes and records. \<open>Thread_State\<close>: the kernel state
    \<open>kstate\<close> (the globals, and a heap per structure), the invariant \<open>kinv\<close> of the thread table
    and the message queues, and the contract \<open>thread_op\<close> of the operations on one thread.
    \<open>Demo_State\<close>: a concrete state with three threads, used by the witnesses.
  \<^item> \<open>Schedi\<close>, \<open>Schedq\<close>, \<open>Tlib\<close>, \<open>Sched\<close>: the files of the same names, without the round
    builders. \<open>Sched_Laws\<close>: priorities and \<open>nice\<close>.
  \<^item> \<open>Round_Loop\<close>: the contract of a loop that builds a round, with the proof that it links exactly
    the eligible threads. \<open>Round_RR\<close> and \<open>Round_RR_Laws\<close>: the round robin policy.
    \<open>Round_Stage\<close>: the priority interleaving policy. \<open>Scheduler\<close>: the choice of the policy and
    \<open>psScheduler\<close>.
  \<^item> \<open>Ipc\<close>: ipc.c. \<open>Ipc_Mailbox\<close>: the abstract mailbox as a locale, its client lemmas, and its
    interpretation on the posting and polling routines. \<open>Ipc_Laws\<close>: order of delivery, draining,
    coalescing, errors.
  \<^item> \<open>Thread_Context\<close>: saving and restoring registers. \<open>Dispatch\<close>: dispatch.c, spawn.c,
    callback.c. \<open>Task_Switch\<close>, \<open>Task_Switch_Laws\<close>, \<open>Tick\<close>, \<open>Tick_Laws\<close>: ts.c and the timer.
  \<^item> \<open>Thread\<close>: thread.c. \<open>Process\<close>: the process table of te.c.
  \<^item> \<open>Wproxy\<close> holds the proxies that the kernel keeps of the windows of the display server (wproxy.c under
    src/coreos/kernel/gthouse/wink/gdi) and the state \<open>cstate\<close> of the creation of threads, which joins the open
    files and the heap with the fields of threads that the scheduler does not use; \<open>Wproxy_Laws\<close> is about the hit
    test. \<open>Thread_Create\<close> is the creation and the copying of threads (thread.c, and \<open>sys_create_thread\<close> of
    src/coreos/kernel/gthouse/kwrap/sci/sys.c), \<open>Thread_Create_Laws\<close> its effect on the heap and on the thread table,
    \<open>Thread_Start\<close> the way of a new thread to its first instruction, \<open>Thread_Copy\<close> the copy, and \<open>Thread_Limits\<close>
    the number of threads for which the heap suffices. The heaps of structures are typed: a block that
    \<open>kmalloc\<close> gives is a structure of the kind that the caller makes of it. The object type and class of a structure,
    which nothing reads, are left out; a name that does not fit in its array and a cyclic list of proxies are faults.
  \<^item> \<open>Kernel_Run\<close>: the timer event of the window manager (src/coreos/kernel/gthouse/wink/evi/ibroker.c), the
    timer interrupt, the system calls on threads and messages and the thread state changes as one step relation
    \<open>kstep\<close>, and the preservation of the running invariant \<open>run_ok\<close> by every step. The calls on files, sockets
    and processes work on larger states and are not steps, nor is the registration of callbacks.
  \<^item> The C library of the kernel (src/coreos/kernel/gthouse/libk): \<open>Kernel_Memory\<close> is byte addressed
    memory with C strings and disjoint regions; \<open>Kstring\<close> is kstring.c, \<open>Kstring_Laws\<close> its laws
    (concatenation, bounded copy, comparison, tokenizer); \<open>Kconv\<close> holds the conversions of kstdlib.c
    and kstdio.c and the formatter, \<open>Kconv_Laws\<close> relates the conversions to decimal and hexadecimal
    numerals, \<open>Kformat_Laws\<close> the formatter to a rendering of the pieces of a format.
  \<^item> The memory manager (src/coreos/kernel/halls/apphalls/req/mm): \<open>Kernel_Heap\<close> is the allocator of
    mm.c and its front end \<open>kmalloc\<close>, \<open>Kernel_Heap_Laws\<close> its invariant and the contract \<open>allocator\<close> of
    its clients; \<open>Paging\<close> the page tables of paging.c and x64mm.c, \<open>Paging_Laws\<close> the translation they
    realise, with the contract \<open>area_installer\<close> of the ten routines that install an area;
    \<open>Page_Pool\<close> and \<open>Page_Pool_Laws\<close> the pages of mmpool.c and the blocks of slab.c;
    \<open>Memory_Boot\<close> and \<open>Memory_Boot_Laws\<close> the start of all of them by \<open>mmInitialize\<close>.
  \<^item> The file system (src/coreos/kernel/halls/apphalls/per): \<open>Fat_Disk\<close> holds the sectors of the drive
    (blkdev/storage.c, blkdev/ata) and the loading and storing of the tables, \<open>Fat_File\<close> names,
    directory search, loading and saving (fs/fat/fat16.c, fs/search.c, fs/fsload.c, fs/fslib.c).
    \<open>Fat_Laws\<close> is about chains of clusters and loading, \<open>Fat_Save_Laws\<close> about free clusters and the
    loop that saves, \<open>Fat_Roundtrip\<close> about the whole of saving and loading what was saved. The drive is
    a map from sectors to bytes with a flag per sector for its timeout.
  \<^item> Files, pipes, terminals and sockets (per/fs, per/net, src/coreos/kernel/halls/uhalls/chardev/tty):
    \<open>IO_Model\<close> holds the structures and the state \<open>iostate\<close>, which extends that of the kernel heap; \<open>File_Buffer\<close>
    the buffers of files, pipes and the duplication of descriptors; \<open>Tty\<close> the terminals; \<open>Read_Write\<close> the calls
    \<open>sys_read\<close>, \<open>sys_write\<close> and \<open>sys_close\<close>; \<open>Socket\<close> and \<open>Socket_Calls\<close> the sockets. \<open>Byte_Queue\<close> and
    \<open>Byte_Channel\<close> are the contracts of a bounded queue of bytes and of a channel between two parties, which
    pipes and terminals provide. \<open>Pipe_Laws\<close> and \<open>Tty_Laws\<close> show that they deliver what they accepted, in
    order; \<open>Socket_Laws\<close> that the flags of a socket agree with its buffer in every history; \<open>Connection_Laws\<close>
    the dialog of a server and a client and the fairness of accept; \<open>File_Laws\<close> reading what was written and
    the loss of data; \<open>Open_Laws\<close> what new sockets and pipes are. \<open>Demo_IO\<close> is a concrete state with two
    processes, used by the witnesses.
  \<^item> The consoles (src/coreos/kernel/halls/uhalls/chardev/console): \<open>Console\<close> is console.c, with the calls
    of the display driver as a log; \<open>Console_Laws\<close> shows that every operation keeps the invariant of the
    display, so that nothing is drawn outside of the screen; \<open>Escape_Laws\<close> what plain text and escape sequences
    do; \<open>Terminal_Screen\<close> joins the terminals and the consoles.

  \<^bold>\<open>Loops.\<close> Loops over a table are recursions over the list of its indices. The backward jump to the
  label ZeroGravity in ts.c is a \<open>partial_function\<close> with result \<open>None\<close> when it does not end;
  \<open>zero_gravity_ends\<close> shows that it ends. Loops of the C library whose end depends on the memory
  (search for a terminator) are partial functions as well; the laws show that they end on strings. So are
  the search for free page slots, which jumps back to its start, and the walk along a chain of clusters. No fuel is used, but for the
  answer of a console to a request for its identity, which writes to the console again: its depth is 2, and
  \<open>write_depth\<close> shows that more makes no difference.

  \<^bold>\<open>Not modelled.\<close> The creation and the cloning of processes (copying of pages and image loading), the drawing of windows, the opening
  of files by path, the device table, drivers (the port protocol of the disk as well), the protocol stack below the
  sockets, the boot loader and the user-space programs. The window manager's
  timer and the polled input handlers are parameters of \<open>irq0_TIMER\<close>; \<open>timer_interrupt\<close> instantiates them with the
  timer event of ibroker.c and without polling, which is the configuration of the repository. A system call that stops
  the machine (several do, on bad arguments) is no step of \<open>kstep\<close>. The first write of \<open>allocPages\<close> goes through an
  uninitialised pointer: it is a fault unless the pointer designates a page structure of the table. Debug output on the serial
  port is left out. In the memory manager the load of CR3 is left out, and the memory of the page tables
  is addressed as the kernel sees it after the start, by physical addresses. The kernel is not preempted: an interrupt arrives in ring 3 only, as the code
  assumes, so a step of the kernel is one transition.
\<close>

section \<open>Properties of the whole kernel\<close>

text \<open>C1. The next tick is safe: from a running state, in which no thread is alertable or in a callback, after any
  history of timer interrupts, of the system calls and kernel routines that \<open>kstep\<close> lists (sleep, yield, nice,
  priorities, foreground thread, message control, notification, exit, selection of threads that have not run, posting,
  broadcasting and reading of messages, changes of thread states) as far as they return, the next timer interrupt from
  ring 3 ends without a panic or a fault, either by returning or by entering a new thread, and the running invariant
  holds again, provided that the display server, when one is registered, is a valid thread at that time. The timer event
  of the window manager is part of the interrupt; the keyboard and the mouse are not polled. The registration of
  callbacks is not among the steps: a tick during a callback does stop the machine (\<open>tick_in_callback_panics\<close>).\<close>

theorem next_tick_safe:
  assumes "run_ok s" and "(kstep initialized tq)\<^sup>*\<^sup>* s t" and "ds_alive t"
  shows "\<exists>u. (timer_interrupt initialized tq (t\<lparr>frame := f, contextCPL := 3\<rparr>) = Some (Ok () u) \<or>
      timer_interrupt initialized tq (t\<lparr>frame := f, contextCPL := 3\<rparr>) = Some (Iretq u)) \<and>
    run_ok u \<and> kstep initialized tq t u"
proof -
  have "run_ok t" by (rule kernel_reachable_ok [OF assms(2,1)])
  then show ?thesis
    using ring3_timer_total [OF _ assms(3), of initialized tq f] by (blast intro: kstep.timer kstep.timer_spawn)
qed

theorem next_tick_safe_witness:
  "\<exists>u. (timer_interrupt True 1 ((sys_yield 0 (sys_sleep 1 50 (demo_run 1)))\<lparr>frame := frame demo, contextCPL := 3\<rparr>) = Some (Ok () u) \<or>
      timer_interrupt True 1 ((sys_yield 0 (sys_sleep 1 50 (demo_run 1)))\<lparr>frame := frame demo, contextCPL := 3\<rparr>) = Some (Iretq u)) \<and>
    run_ok u"
proof -
  have k: "(kstep True 1)\<^sup>*\<^sup>* (demo_run 1) (sys_yield 0 (sys_sleep 1 50 (demo_run 1)))"
    by (blast intro: kstep.sleep kstep.yield converse_rtranclp_into_rtranclp)
  have "DisplayServerInfo (sys_yield 0 (sys_sleep 1 50 (demo_run 1))) = DisplayServerInfo (demo_run 1)"
    by (simp add: sys_yield_def yield_def sys_sleep_def sleep_def Let_def)
  moreover have "DisplayServerInfo (demo_run 1) = \<lparr>ds_initialized = 0, ds_tid = 0\<rparr>" by (simp add: demo_run_def demo_def)
  ultimately have "ds_alive (sys_yield 0 (sys_sleep 1 50 (demo_run 1)))" by (simp add: ds_alive_def)
  from next_tick_safe [OF _ k this, of "frame demo"] show ?thesis by auto
qed

text \<open>C31. A message wakes its receiver: posting a message to a thread that waits or is blocked for a
  reason that a message may end puts the thread in the next round robin round, when no event, block or
  exit of it is pending.\<close>

theorem message_wakes_receiver:
  assumes "kinv s" and "si_initialized (SchedulerInfo s) = TRUE" and "si_policy (SchedulerInfo s) = SCHED_POLICY_RR"
    and "valid_tid s tid" and "tid \<noteq> INIT_TID" and "0 \<le> c_int code"
    and "th_state (theap s (threadList s tid)) \<in> {WAITING, BLOCKED}"
    and "reason_is_wakeable (th_wait_reason (theap s (threadList s tid)))"
    and "has_event_from_ds (th_msgctl (theap s (threadList s tid))) \<noteq> TRUE"
    and "block_in_progress (th_msgctl (theap s (threadList s tid))) \<noteq> TRUE"
    and "exit_in_progress (th_Deferred (theap s (threadList s tid))) \<noteq> TRUE"
  shows "\<exists>s' s''. ipc_post_message_to_tid2 src tid code l1 l2 l3 l4 s = Ok 0 s' \<and>
    scheduler_rr flags s' = Ok INIT_TID s'' \<and> in_rr_round s'' (threadList s tid)"
proof -
  let ?p = "threadList s tid"
  obtain s' where s': "ipc_post_message_to_tid2 src tid code l1 l2 l3 l4 s = Ok 0 s'"
    and d: "s' = upd_thread ?p bump_tail (upd_msg (tail_slot s ?p) (posted (src AND 0xFFFF) tid (c_int code) l1 l2 l3 l4)
        (ipc_prepare tid s))"
    using post2_valid [OF assms(1,4,6)] by blast
  have k: "kinv s'" by (rule post2_inv [OF assms(1) s'])
  have c: "calm_to s s'" by (rule calm_post2 [OF s'])
  have l: "live s' ?p" using c assms(4) by (auto simp: calm_to_def calm_unfold live_def valid_tid_def)
  have w: "ipc_wakeup_receiver ?p tid s = do_thread_ready tid s"
    using assms(7,8) by (auto simp: ipc_wakeup_receiver_def)
  have "rr_eligible s' ?p"
    using assms(9-11) assms(4) l live_not_NULL [of s ?p]
    by (simp add: rr_eligible_def) (simp add: d ipc_prepare_def w ipc_make_responder_def set_ev_responder_def
      ready.op_cases bump_tail_def valid_tid_def)
  moreover have "valid_tid s' tid" using assms(4) l c by (simp add: valid_tid_def calm_to_def)
  ultimately show ?thesis
    using rr_round_member [OF k _ _ _ assms(5), of flags] assms(2,3) s' c by (auto simp: calm_to_def)
qed

theorem message_wakes_receiver_witness:
  "\<exists>s' s''. ipc_post_message_to_tid2 0 1 32 5 6 7 8 (upd_thread 0x2000 (\<lambda>th. th\<lparr>th_state := BLOCKED,
       th_wait_reason := WAIT_REASON_LOOP\<rparr>) demo) = Ok 0 s' \<and>
    scheduler_rr 0 s' = Ok 0 s'' \<and> in_rr_round s'' 0x2000"
proof -
  let ?s = "upd_thread 0x2000 (\<lambda>th. th\<lparr>th_state := BLOCKED, th_wait_reason := WAIT_REASON_LOOP\<rparr>) demo"
  have k: "kinv ?s" by (simp add: kinv_upd_thread th_keeps_def)
  have v: "valid_tid ?s 1" by (simp add: valid_tid_def live_def demo_threadList_def demo_threads_def)
  show ?thesis
    using message_wakes_receiver [OF k _ _ v, of 32 0 5 6 7 8 0]
    by (simp add: demo_threadList_def demo_threads_def blank_msgctl_def blank_deferred_def demo_sched_def
        reason_is_wakeable_def c_int_def)
qed

end
